(* ===== verification/Prelude.thy ===== *)
theory Prelude
  imports Main "HOL-Library.Product_Lexorder"
begin

text \<open>
  What every theory of the development shares: the result monad in which the Rust code's
  \<open>?\<close> operator is written, tables as lists of rows with the three things SQL does to
  them (filter, update in place, append), the collections of simplification rules, and the
  facts on integer intervals that the gap-free sequence numbers rest on.
\<close>

named_theorems result_simps "the result monad"
named_theorems row_simps "rows of a table under UPDATE, INSERT and DELETE"
named_theorems stmt_simps "what a successful statement returned"
named_theorems lookup_simps "looking a row up after a statement"

section \<open>Results: a Rust Result with the question-mark operator\<close>

text \<open>\<open>Inl\<close> is \<open>Err\<close>, \<open>Inr\<close> is \<open>Ok\<close>; \<open>bindR m f\<close> is \<open>let x = m?; f(x)\<close>.\<close>

definition bindR :: "'e + 'a \<Rightarrow> ('a \<Rightarrow> 'e + 'b) \<Rightarrow> 'e + 'b" where
  "bindR m f = (case m of Inl e \<Rightarrow> Inl e | Inr x \<Rightarrow> f x)"

text \<open>\<open>if !b { return Err(e) }\<close>\<close>

definition guardR :: "bool \<Rightarrow> 'e \<Rightarrow> 'e + unit" where
  "guardR b e = (if b then Inr () else Inl e)"

text \<open>\<open>option.ok_or(e)?\<close>\<close>

definition ok_or :: "'a option \<Rightarrow> 'e \<Rightarrow> 'e + 'a" where
  "ok_or x e = (case x of None \<Rightarrow> Inl e | Some v \<Rightarrow> Inr v)"

text \<open>\<open>CASE WHEN given THEN value ELSE column END\<close>: an optional replacement of a column.\<close>

definition override :: "'a option \<Rightarrow> 'a \<Rightarrow> 'a" where
  "override v old = (case v of None \<Rightarrow> old | Some x \<Rightarrow> x)"

lemma override_simps [simp]: "override None x = x" "override (Some y) x = y"
  by (simp_all add: override_def)

text \<open>A loop over a list whose body may fail: the first error ends it.\<close>

fun foldR :: "('a \<Rightarrow> 's \<Rightarrow> 'e + 's) \<Rightarrow> 'a list \<Rightarrow> 's \<Rightarrow> 'e + 's" where
  "foldR f [] s = Inr s"
| "foldR f (x # xs) s = bindR (f x s) (foldR f xs)"

text \<open>\<open>iter().map(f).collect::<Result<Vec<_>, _>>()\<close>: the first error wins.\<close>

fun mapR :: "('a \<Rightarrow> 'e + 'b) \<Rightarrow> 'a list \<Rightarrow> 'e + 'b list" where
  "mapR f [] = Inr []"
| "mapR f (x # xs) = bindR (f x) (\<lambda>y. bindR (mapR f xs) (\<lambda>ys. Inr (y # ys)))"

lemma bindR_simps [simp, result_simps]:
  "bindR (Inl e) f = Inl e"
  "bindR (Inr x) f = f x"
  by (simp_all add: bindR_def)

lemma bindR_Inr [result_simps]: "bindR m f = Inr y \<longleftrightarrow> (\<exists>x. m = Inr x \<and> f x = Inr y)"
  by (cases m) simp_all

lemma bindR_Inl [result_simps]:
  "bindR m f = Inl e \<longleftrightarrow> m = Inl e \<or> (\<exists>x. m = Inr x \<and> f x = Inl e)"
  by (cases m) simp_all

lemma bindR_assoc: "bindR (bindR m f) g = bindR m (\<lambda>x. bindR (f x) g)"
  by (cases m) simp_all

lemma guardR_Inr [simp, result_simps]: "guardR b e = Inr u \<longleftrightarrow> b"
  by (simp add: guardR_def)

lemma guardR_Inl [simp, result_simps]: "guardR b e = Inl e' \<longleftrightarrow> \<not> b \<and> e' = e"
  by (auto simp: guardR_def)

lemma guardR_simps [simp]:
  "guardR True e = Inr ()"
  "guardR False e = Inl e"
  by (simp_all add: guardR_def)

lemma ok_or_Inr [simp, result_simps]: "ok_or x e = Inr v \<longleftrightarrow> x = Some v"
  by (simp add: ok_or_def split: option.splits)

lemma ok_or_Inl [simp, result_simps]: "ok_or x e = Inl e' \<longleftrightarrow> x = None \<and> e' = e"
  by (auto simp: ok_or_def split: option.splits)

lemma ok_or_simps [simp]:
  "ok_or None e = Inl e"
  "ok_or (Some v) e = Inr v"
  by (simp_all add: ok_or_def)

lemma foldR_append: "foldR f (xs @ ys) s = bindR (foldR f xs s) (foldR f ys)"
proof (induction xs arbitrary: s)
  case Nil
  then show ?case by simp
next
  case (Cons x xs)
  then show ?case by (cases "f x s") simp_all
qed

text \<open>The invariant rule of the fallible loop.\<close>

lemma foldR_invariant:
  assumes "foldR f xs s = Inr t" and "P s"
    and "\<And>x s t. x \<in> set xs \<Longrightarrow> P s \<Longrightarrow> f x s = Inr t \<Longrightarrow> P t"
  shows "P t"
  using assms
proof (induction xs arbitrary: s)
  case Nil
  then show ?case by simp
next
  case (Cons x xs)
  from Cons.prems(1) obtain u where u: "f x s = Inr u" "foldR f xs u = Inr t"
    by (auto simp: result_simps)
  then have "P u" using Cons.prems by auto
  with u show ?case using Cons.IH Cons.prems(3) by (metis list.set_intros(2))
qed

lemma mapR_Inr_length: "mapR f xs = Inr ys \<Longrightarrow> length ys = length xs"
  by (induction xs arbitrary: ys) (auto simp: result_simps)

lemma mapR_total: "(\<And>x. x \<in> set xs \<Longrightarrow> f x = Inr (g x)) \<Longrightarrow> mapR f xs = Inr (map g xs)"
  by (induction xs) auto

section \<open>Tables\<close>

text \<open>\<open>UPDATE t SET f WHERE p\<close> on a table kept as the list of its rows.\<close>

definition row_update :: "('r \<Rightarrow> bool) \<Rightarrow> ('r \<Rightarrow> 'r) \<Rightarrow> 'r list \<Rightarrow> 'r list" where
  "row_update p f rows = map (\<lambda>r. if p r then f r else r) rows"

text \<open>\<open>SELECT ... WHERE k = x\<close> on a key: the first row with it.\<close>

definition row_by :: "('r \<Rightarrow> 'k) \<Rightarrow> 'k \<Rightarrow> 'r list \<Rightarrow> 'r option" where
  "row_by k x rows = List.find (\<lambda>r. k r = x) rows"

lemma row_update_simps [simp, row_simps]:
  "row_update p f [] = []"
  "row_update p f (r # rs) = (if p r then f r else r) # row_update p f rs"
  "row_update p f (xs @ ys) = row_update p f xs @ row_update p f ys"
  by (simp_all add: row_update_def)

lemma length_row_update [simp]: "length (row_update p f rows) = length rows"
  by (simp add: row_update_def)

lemma set_row_update [row_simps]:
  "r \<in> set (row_update p f rows) \<longleftrightarrow> (\<exists>q \<in> set rows. r = (if p q then f q else q))"
  by (auto simp: row_update_def)

lemma map_row_update_same [simp, row_simps]:
  "(\<And>r. g (f r) = g r) \<Longrightarrow> map g (row_update p f rows) = map g rows"
  by (simp add: row_update_def)

lemma filter_row_update [row_simps]:
  "(\<And>r. q (f r) = q r) \<Longrightarrow> filter q (row_update p f rows) = row_update p f (filter q rows)"
  by (induction rows) simp_all

lemma row_update_idle: "(\<And>r. r \<in> set rows \<Longrightarrow> \<not> p r) \<Longrightarrow> row_update p f rows = rows"
  by (induction rows) auto

lemma row_by_Some: "row_by k x rows = Some r \<Longrightarrow> r \<in> set rows \<and> k r = x"
  by (auto simp: row_by_def find_Some_iff)

lemma row_by_None: "row_by k x rows = None \<longleftrightarrow> x \<notin> k ` set rows"
  by (auto simp: row_by_def find_None_iff)

lemma row_by_simps [simp, row_simps]:
  "row_by k x [] = None"
  "row_by k x (r # rs) = (if k r = x then Some r else row_by k x rs)"
  by (simp_all add: row_by_def)

lemma row_by_append [row_simps]:
  "row_by k x (xs @ ys) = (case row_by k x xs of None \<Rightarrow> row_by k x ys | Some r \<Rightarrow> Some r)"
  by (induction xs) simp_all

lemma row_by_distinct:
  "distinct (map k rows) \<Longrightarrow> r \<in> set rows \<Longrightarrow> row_by k (k r) rows = Some r"
  by (induction rows) (auto simp: image_iff)

lemma row_by_update:
  "(\<And>r. k (f r) = k r) \<Longrightarrow>
   row_by k x (row_update p f rows) = map_option (\<lambda>r. if p r then f r else r) (row_by k x rows)"
  by (induction rows) auto

lemma row_by_update_key:
  assumes "\<And>r. k (f r) = k r"
  shows "row_by k x (row_update (\<lambda>r. k r = y) f rows)
    = (if x = y then map_option f (row_by k x rows) else row_by k x rows)"
  using assms by (induction rows) auto

lemma row_update_fusion:
  "(\<And>r. p (g r) = p r) \<Longrightarrow> row_update p f (row_update p g rows) = row_update p (\<lambda>r. f (g r)) rows"
  by (induction rows) auto

lemma row_update_cong:
  "(\<And>r. r \<in> set rows \<Longrightarrow> p r \<Longrightarrow> f r = g r) \<Longrightarrow> row_update p f rows = row_update p g rows"
  by (induction rows) auto

lemma distinct_keyD:
  "distinct (map k rows) \<Longrightarrow> r \<in> set rows \<Longrightarrow> q \<in> set rows \<Longrightarrow> k r = k q \<Longrightarrow> r = q"
  by (simp add: distinct_map inj_on_def)

text \<open>\<open>ORDER BY key LIMIT 1\<close>.\<close>

definition first_by :: "('r \<Rightarrow> 'k::linorder) \<Rightarrow> 'r list \<Rightarrow> 'r option" where
  "first_by k rows = (case sort_key k rows of [] \<Rightarrow> None | r # _ \<Rightarrow> Some r)"

text \<open>\<open>ORDER BY key LIMIT n\<close> and its descending form.\<close>

definition top_by :: "('r \<Rightarrow> 'k::linorder) \<Rightarrow> int \<Rightarrow> 'r list \<Rightarrow> 'r list" where
  "top_by k n rows = take (nat n) (sort_key k rows)"

definition top_desc :: "('r \<Rightarrow> 'k::linorder) \<Rightarrow> int \<Rightarrow> 'r list \<Rightarrow> 'r list" where
  "top_desc k n rows = take (nat n) (rev (sort_key k rows))"

lemma first_by_Some:
  assumes "first_by k rows = Some r"
  shows "r \<in> set rows" and "\<And>q. q \<in> set rows \<Longrightarrow> k r \<le> k q"
proof -
  obtain rs where rs: "sort_key k rows = r # rs"
    using assms by (auto simp: first_by_def split: list.splits)
  then show "r \<in> set rows" by (metis list.set_intros(1) set_sort)
  fix q assume "q \<in> set rows"
  then have "q \<in> set (r # rs)" by (metis rs set_sort)
  moreover have "sorted (map k (r # rs))" by (metis rs sorted_sort_key)
  ultimately show "k r \<le> k q" by auto
qed

lemma find_filter: "List.find p xs = (case filter p xs of [] \<Rightarrow> None | r # _ \<Rightarrow> Some r)"
  by (induction xs) auto

lemma sorted_filter_key: "sorted (map k xs) \<Longrightarrow> sorted (map k (filter p xs))"
  by (induction xs) auto

lemma row_update_at:
  assumes "distinct (map k (hs @ e # ps))"
  shows "row_update (\<lambda>x. k x = k e) g (hs @ e # ps) = hs @ g e # ps"
  using assms by (auto intro!: row_update_idle simp: image_iff)

lemma first_by_None: "first_by k rows = None \<longleftrightarrow> rows = []"
proof -
  have "sort_key k rows = [] \<longleftrightarrow> rows = []" by (metis length_0_conv length_sort)
  then show ?thesis by (auto simp: first_by_def split: list.splits)
qed

lemma first_by_sorted:
  "sorted (map k rows) \<Longrightarrow> first_by k rows = (case rows of [] \<Rightarrow> None | r # _ \<Rightarrow> Some r)"
  by (simp add: first_by_def sort_key_id_if_sorted)

lemma set_top_by: "set (top_by k n rows) \<subseteq> set rows"
  by (auto simp: top_by_def dest: in_set_takeD)

lemma length_top_by: "0 \<le> n \<Longrightarrow> int (length (top_by k n rows)) \<le> n"
  by (simp add: top_by_def)

lemma set_top_desc: "set (top_desc k n rows) \<subseteq> set rows"
  by (auto simp: top_desc_def dest: in_set_takeD)

lemma length_top_desc: "0 \<le> n \<Longrightarrow> int (length (top_desc k n rows)) \<le> n"
  by (simp add: top_desc_def)

lemma top_by_sorted: "sorted (map k rows) \<Longrightarrow> top_by k n rows = take (nat n) rows"
  by (simp add: top_by_def sort_key_id_if_sorted)

text \<open>
  What may happen to a table over time: its rows stay in place, each related to what it was
  by \<open>R\<close>, and new rows are appended.
\<close>

definition evolves :: "('r \<Rightarrow> 'r \<Rightarrow> bool) \<Rightarrow> 'r list \<Rightarrow> 'r list \<Rightarrow> bool" where
  "evolves R rows rows' \<longleftrightarrow> list_all2 R rows (take (length rows) rows')"

lemma evolves_refl: "(\<And>r. R r r) \<Longrightarrow> evolves R rows rows"
  by (simp add: evolves_def list_all2_same)

lemma evolves_append: "(\<And>r. R r r) \<Longrightarrow> evolves R rows (rows @ new)"
  by (simp add: evolves_def list_all2_same)

lemma evolves_update:
  assumes "\<And>r. R r r" and "\<And>r. r \<in> set rows \<Longrightarrow> p r \<Longrightarrow> R r (f r)"
  shows "evolves R rows (row_update p f rows)"
  using assms(2) by (induction rows) (simp_all add: evolves_def assms(1))

lemma evolves_trans:
  assumes "transp R" and "evolves R xs ys" and "evolves R ys zs"
  shows "evolves R xs zs"
proof -
  have len: "length xs = length (take (length xs) ys)"
    using assms(2) unfolding evolves_def by (rule list_all2_lengthD)
  then have le: "length xs \<le> length ys" by simp
  have "list_all2 R (take (length xs) ys) (take (length xs) zs)"
    using list_all2_takeI [OF assms(3) [unfolded evolves_def], of "length xs"] le
    by (simp add: min_def)
  with assms(2) show ?thesis
    unfolding evolves_def
    by (rule list_all2_trans [rotated]) (use assms(1) in \<open>blast dest: transpD\<close>)
qed

lemma evolves_mono: "evolves R xs ys \<Longrightarrow> (\<And>r q. R r q \<Longrightarrow> S r q) \<Longrightarrow> evolves S xs ys"
  by (auto simp: evolves_def elim: list_all2_mono)

lemma evolves_mem:
  assumes "evolves R rows rows'" and "r \<in> set rows"
  shows "\<exists>r' \<in> set rows'. R r r'"
proof -
  obtain i where i: "i < length rows" "rows ! i = r" using assms(2) by (auto simp: in_set_conv_nth)
  have len: "length rows = length (take (length rows) rows')"
    using assms(1) unfolding evolves_def by (rule list_all2_lengthD)
  then have "R (rows ! i) (take (length rows) rows' ! i)"
    using assms(1) i by (auto simp: evolves_def list_all2_conv_all_nth)
  with i len show ?thesis by (auto intro!: bexI [of _ "rows' ! i"])
qed

lemma evolves_row_by:
  assumes "evolves R rows rows'" and "\<And>r q. R r q \<Longrightarrow> k q = k r" and "row_by k i rows = Some r"
  shows "\<exists>r'. row_by k i rows' = Some r' \<and> R r r'"
proof -
  obtain xs where xs: "list_all2 R rows xs" "rows' = xs @ drop (length rows) rows'"
    using assms(1) by (metis append_take_drop_id evolves_def)
  have "\<exists>r'. row_by k i xs = Some r' \<and> R r r'"
    using xs(1) assms(3)
  proof (induction rows xs rule: list_all2_induct)
    case Nil
    then show ?case by simp
  next
    case (Cons q rs q' rs')
    then show ?case using assms(2) [OF Cons(1)] by (cases "k q = i") auto
  qed
  then show ?thesis using xs(2) by (metis (no_types, lifting) option.simps(5) row_by_append)
qed

section \<open>Gap-free numbering\<close>

lemma upto_snoc: "a \<le> b + 1 \<Longrightarrow> [a..b + 1] = [a..b] @ [b + 1]" for a b :: int
  by (cases "a \<le> b + 1") (simp_all add: upto_rec2)

lemma upto_next: "a \<le> b \<Longrightarrow> [a..b] = [a..b - 1] @ [b]" for a b :: int
  by (simp add: upto_rec2)

lemma sorted_upto_int: "sorted [a..b]" for a b :: int
  by (induction a b rule: upto.induct) (subst upto.simps, auto)

lemma filter_greater_upto:
  "filter (\<lambda>i. m < i) [a..b] = [max a (m + 1)..b]" for a b m :: int
proof (induction a b rule: upto.induct)
  case (1 a b)
  show ?case
  proof (cases "a \<le> b")
    case True
    have "filter (\<lambda>i. m < i) [a..b] =
      (if m < a then [a] else []) @ filter (\<lambda>i. m < i) [a + 1..b]"
      using True by (subst upto.simps) simp
    also have "\<dots> = (if m < a then [a] else []) @ [max (a + 1) (m + 1)..b]"
      using "1.IH" True by simp
    also have "\<dots> = [max a (m + 1)..b]"
    proof (cases "m < a")
      case m: True
      then have "max (a + 1) (m + 1) = a + 1" and "max a (m + 1) = a" by simp_all
      with m True show ?thesis by (simp add: upto_rec1)
    next
      case False
      then have "max (a + 1) (m + 1) = max a (m + 1)" by simp
      with False show ?thesis by simp
    qed
    finally show ?thesis .
  next
    case False
    then show ?thesis by simp
  qed
qed

end
