(* ===== verification/Contracts.thy ===== *)
theory Contracts
  imports Prelude
begin

text \<open>
  The public contract (\<open>packages/agent-contracts\<close>): identifiers, the enumerations shared by
  the store and the harnesses, messages, operation requests, wait specifications and the
  outcome builder a harness stages its effects with.
\<close>

section \<open>Identifiers (\<open>ids.rs\<close>)\<close>

text \<open>
  A \<open>Uuid\<close> is an opaque 128-bit value; the code only compares identifiers and orders them
  in SQL, so the model keeps a number under a constructor of its own. The newtypes
  \<open>SessionId\<close>, \<open>EventId\<close>, \<open>OperationId\<close>, \<open>WaitId\<close> and \<open>HistoryEntryId\<close> all wrap one.
\<close>

datatype uuid = Uuid nat

instantiation uuid :: linorder
begin

fun less_eq_uuid :: "uuid \<Rightarrow> uuid \<Rightarrow> bool" where
  "less_eq_uuid (Uuid a) (Uuid b) \<longleftrightarrow> a \<le> b"

fun less_uuid :: "uuid \<Rightarrow> uuid \<Rightarrow> bool" where
  "less_uuid (Uuid a) (Uuid b) \<longleftrightarrow> a < b"

instance
proof
  fix x y z :: uuid
  show "(x < y) = (x \<le> y \<and> \<not> y \<le> x)" by (cases x; cases y) auto
  show "x \<le> x" by (cases x) simp
  show "x \<le> y \<Longrightarrow> y \<le> z \<Longrightarrow> x \<le> z" by (cases x; cases y; cases z) auto
  show "x \<le> y \<Longrightarrow> y \<le> x \<Longrightarrow> x = y" by (cases x; cases y) auto
  show "x \<le> y \<or> y \<le> x" by (cases x; cases y) auto
qed

end

type_synonym session_id = uuid
type_synonym event_id = uuid
type_synonym history_entry_id = uuid
type_synonym operation_id = uuid
type_synonym wait_id = uuid

text \<open>\<open>timestamptz\<close>: microseconds since the epoch. A JSON value (\<open>serde_json::Value\<close>) is the
  usual tree; numbers keep their literal text. Raw JSON (\<open>RawValue\<close>) is its text.\<close>

type_synonym time = int

datatype json =
    JNull
  | JBool bool
  | JNumber string
  | JString string
  | JArray "json list"
  | JObject "(string \<times> json) list"

type_synonym raw_json = string
type_synonym metadata = "(string \<times> json) list"

section \<open>Enumerations (\<open>event.rs\<close>, \<open>operation.rs\<close>, \<open>wait.rs\<close>)\<close>

datatype session_status =
  SessIdle | SessRunning | SessWaiting | SessCancelling | SessCancelled | SessFailed

datatype operation_kind = KindLlm | KindExecution | KindLlmCancellation | KindWithdraw

datatype operation_outcome_status =
  OutcomeSucceeded | OutcomeFailed | OutcomeCancelled | OutcomeUnknown

datatype failure_source = SourceAdmission | SourceGateway | SourceProtocol | SourcePlatform

datatype wait_mode = External | Expiration | Either

datatype wait_resume_reason = ResumeResolved | ResumeExpired | ResumeCancelled

datatype stop_reason = Stop | Length | ToolUse | Refusal | ContentFilter | PauseTurn

section \<open>Messages (\<open>message.rs\<close>)\<close>

datatype image_detail = DetailAuto | DetailLow | DetailHigh | DetailOriginal

datatype content_part =
    TextPart string "metadata option"
  | ImagePart string "image_detail option" "metadata option"

record text_content =
  tc_text :: string
  tc_metadata :: "metadata option"

record message_base =
  mb_id :: "string option"
  mb_timestamp :: "int option"
  mb_metadata :: "metadata option"

definition message_base_default :: message_base where
  "message_base_default = \<lparr>mb_id = None, mb_timestamp = None, mb_metadata = None\<rparr>"

datatype provider = Openai | Chatgpt | Fireworks

record tool_result_error =
  tre_message :: string
  tre_name :: "string option"

datatype tool_result_outcome = ToolSuccess | ToolError tool_result_error

datatype message =
    UserMsg message_base "content_part list"
  | SystemMsg message_base "text_content list"
  | AssistantMsg message_base provider "raw_json list"
  | ToolResultMsg message_base string string "content_part list" tool_result_outcome
      "raw_json option"
  | CustomMsg message_base string raw_json

definition user_text :: "string \<Rightarrow> message" where
  "user_text text = UserMsg message_base_default [TextPart text None]"

section \<open>Wait specifications (\<open>wait.rs\<close>)\<close>

record wait_spec =
  ws_mode :: wait_mode
  ws_payload :: json
  ws_response_schema :: "json option"
  ws_expires_at :: "time option"

datatype wait_spec_error = MissingExpiration | UnexpectedExpiration | UnexpectedResponseSchema

text \<open>The arms of the source's \<open>match\<close> in order: a guarded arm that does not apply falls
  through to the next.\<close>

definition validate_wait_spec :: "wait_spec \<Rightarrow> wait_spec_error + unit" where
  "validate_wait_spec spec =
     (if ws_mode spec = External \<and> ws_expires_at spec \<noteq> None
      then Inl UnexpectedExpiration
      else if (ws_mode spec = Expiration \<or> ws_mode spec = Either) \<and> ws_expires_at spec = None
      then Inl MissingExpiration
      else if ws_mode spec = Expiration \<and> ws_response_schema spec \<noteq> None
      then Inl UnexpectedResponseSchema
      else Inr ())"

section \<open>Operation requests (\<open>operation.rs\<close>)\<close>

text \<open>
  The execution payload type belongs to the \<open>process-execution-protocol\<close> package, which is
  not part of the repository. The contract looks at it only to find \<open>Operation::Shutdown\<close>; the
  Codex harness builds the requests below, which are kept with the fields it gives them. Every
  other request is kept as its wire text.
\<close>

record exec_handle =
  eh_id :: uuid
  eh_generation :: uuid

datatype shell_kind = ShellSh | ShellBash | ShellZsh | ShellPowerShell | ShellCmd

record shell_spec =
  sh_executable :: string
  sh_kind :: shell_kind

datatype io_mode = IoPty nat nat | IoPipes bool

record start_params =
  sp_start_id :: string
  sp_script :: string
  sp_shell :: "shell_spec option"
  sp_login :: bool
  sp_cwd :: string
  sp_snapshot_scope :: string
  sp_io :: io_mode
  sp_wait_ms :: nat
  sp_max_output :: nat
  sp_labels :: "(string \<times> string) list"

record observe_params =
  op_handle :: exec_handle
  op_after_cursor :: "string option"
  op_wait_ms :: nat
  op_max_output :: nat

record file_params =
  fp_cwd :: string
  fp_path :: string

datatype file_precondition = MustBeMissing | MustHaveSha256 string

datatype exec_operation =
    ExecShutdown
  | ExecStart start_params
  | ExecObserve observe_params
  | ExecInterrupt exec_handle string
  | ExecWriteInput exec_handle string string
  | ExecTerminate exec_handle "nat option"
  | ExecListActive "(string \<times> string) list" nat
  | ExecReadFile file_params nat
  | ExecWriteFile string file_params string file_precondition
  | ExecRemoveFile string file_params file_precondition
  | ExecOther raw_json

text \<open>The error codes of the protocol: the harness knows one of them and prints the others.\<close>

datatype exec_error_code = NotFound | OtherCode string

datatype batch_mode = Sequential | Parallel

record batch_operation =
  bo_request_id :: string
  bo_operation :: exec_operation

datatype exec_payload =
    Single exec_operation
  | Batch batch_mode "exec_error_code list" "batch_operation list"

datatype tool_definition =
    FunctionTool string string metadata "metadata option" "bool option"
  | CustomTool string string string

datatype llm_request =
    Fresh uuid string "string option" "message list" "tool_definition list" metadata
  | Continuation operation_id "message list"

datatype operation_request =
    LlmReq string llm_request
  | ExecutionReq string uuid "uuid option" exec_payload
  | LlmCancellationReq operation_id
  | WithdrawReq operation_id

fun request_kind :: "operation_request \<Rightarrow> operation_kind" where
  "request_kind (LlmReq _ _) = KindLlm"
| "request_kind (ExecutionReq _ _ _ _) = KindExecution"
| "request_kind (LlmCancellationReq _) = KindLlmCancellation"
| "request_kind (WithdrawReq _) = KindWithdraw"

section \<open>The outcome builder (\<open>outcome.rs\<close>)\<close>

record staged_operation =
  so_id :: operation_id
  so_request :: operation_request

record staged_wait =
  sw_id :: wait_id
  sw_spec :: wait_spec

record 's handler_outcome =
  ho_state :: 's
  ho_history :: "message list"
  ho_operations :: "staged_operation list"
  ho_waits :: "staged_wait list"
  ho_cancelled_waits :: "wait_id list"
  ho_progress :: "json list"
  ho_status :: "session_status option"

datatype outcome_error = InvalidWait wait_spec_error | UnsupportedExecutionOperation

definition builder_new :: "'s \<Rightarrow> 's handler_outcome" where
  "builder_new state = \<lparr>ho_state = state, ho_history = [], ho_operations = [], ho_waits = [],
     ho_cancelled_waits = [], ho_progress = [], ho_status = None\<rparr>"

definition append_message :: "message \<Rightarrow> 's handler_outcome \<Rightarrow> 's handler_outcome" where
  "append_message m b = b\<lparr>ho_history := ho_history b @ [m]\<rparr>"

definition set_status :: "session_status \<Rightarrow> 's handler_outcome \<Rightarrow> 's handler_outcome" where
  "set_status st b = b\<lparr>ho_status := Some st\<rparr>"

text \<open>\<open>OperationId::new()\<close> draws a random UUID: here the caller supplies it.\<close>

definition push_operation ::
    "operation_id \<Rightarrow> operation_request \<Rightarrow> 's handler_outcome \<Rightarrow> 's handler_outcome" where
  "push_operation i r b = b\<lparr>ho_operations := ho_operations b @ [\<lparr>so_id = i, so_request = r\<rparr>]\<rparr>"

fun validate_execution_payload :: "exec_payload \<Rightarrow> outcome_error + unit" where
  "validate_execution_payload (Single operation) =
     (if operation = ExecShutdown then Inl UnsupportedExecutionOperation else Inr ())"
| "validate_execution_payload (Batch mode accepted operations) =
     (if list_ex (\<lambda>item. bo_operation item = ExecShutdown) operations
      then Inl UnsupportedExecutionOperation else Inr ())"

definition request_llm where
  "request_llm i connection request b =
     (i :: operation_id, push_operation i (LlmReq connection request) b)"

definition request_execution ::
    "operation_id \<Rightarrow> string \<Rightarrow> uuid \<Rightarrow> exec_payload \<Rightarrow> 's handler_outcome
     \<Rightarrow> outcome_error + operation_id \<times> 's handler_outcome" where
  "request_execution i connection machine request b =
     bindR (validate_execution_payload request) (\<lambda>_.
     Inr (i, push_operation i (ExecutionReq connection machine None request) b))"

definition request_execution_for_generation ::
    "operation_id \<Rightarrow> string \<Rightarrow> uuid \<Rightarrow> uuid \<Rightarrow> exec_payload \<Rightarrow> 's handler_outcome
     \<Rightarrow> outcome_error + operation_id \<times> 's handler_outcome" where
  "request_execution_for_generation i connection machine generation request b =
     bindR (validate_execution_payload request) (\<lambda>_.
     Inr (i, push_operation i (ExecutionReq connection machine (Some generation) request) b))"

definition control_execution ::
    "operation_id \<Rightarrow> string \<Rightarrow> uuid \<Rightarrow> exec_operation \<Rightarrow> 's handler_outcome
     \<Rightarrow> outcome_error + operation_id \<times> 's handler_outcome" where
  "control_execution i connection machine operation b =
     request_execution i connection machine (Single operation) b"

definition request_llm_cancellation where
  "request_llm_cancellation i target b =
     (i :: operation_id, push_operation i (LlmCancellationReq target) b)"

definition withdraw_operation where
  "withdraw_operation i target b = (i :: operation_id, push_operation i (WithdrawReq target) b)"

definition create_wait ::
    "wait_id \<Rightarrow> wait_spec \<Rightarrow> 's handler_outcome \<Rightarrow> outcome_error + wait_id \<times> 's handler_outcome" where
  "create_wait i spec b =
     (case validate_wait_spec spec of
        Inl e \<Rightarrow> Inl (InvalidWait e)
      | Inr _ \<Rightarrow> Inr (i, b\<lparr>ho_waits := ho_waits b @ [\<lparr>sw_id = i, sw_spec = spec\<rparr>]\<rparr>))"

definition cancel_wait :: "wait_id \<Rightarrow> 's handler_outcome \<Rightarrow> 's handler_outcome" where
  "cancel_wait i b = b\<lparr>ho_cancelled_waits := ho_cancelled_waits b @ [i]\<rparr>"

definition emit_progress :: "json \<Rightarrow> 's handler_outcome \<Rightarrow> 's handler_outcome" where
  "emit_progress payload b = b\<lparr>ho_progress := ho_progress b @ [payload]\<rparr>"

section \<open>What validation promises\<close>

lemma validate_wait_spec_ok:
  "validate_wait_spec spec = Inr u \<longleftrightarrow>
     (ws_expires_at spec = None \<longleftrightarrow> ws_mode spec = External)
     \<and> (ws_mode spec = Expiration \<longrightarrow> ws_response_schema spec = None)"
  by (cases "ws_mode spec") (auto simp: validate_wait_spec_def)

definition has_shutdown :: "exec_payload \<Rightarrow> bool" where
  "has_shutdown p =
     (case p of Single x \<Rightarrow> x = ExecShutdown
     | Batch _ _ xs \<Rightarrow> ExecShutdown \<in> bo_operation ` set xs)"

lemma validate_execution_payload_ok:
  "validate_execution_payload p = Inr u \<longleftrightarrow> \<not> has_shutdown p"
  by (cases p) (force simp: has_shutdown_def list_ex_iff image_iff)+

end
