(* ===== verification/Schema.thy ===== *)
theory Schema
  imports Contracts
begin

text \<open>
  The PostgreSQL schema (\<open>packages/agent-store/migrations\<close>) and the rows of
  \<open>packages/agent-store/src/models.rs\<close>: one record per table, the CHECK constraints as
  predicates on rows, the database as the record of its tables, and the SQL statements the
  store issues. A statement that breaks a constraint fails with the database's error and the
  transaction rolls back: the store's operations return \<open>Inl\<close> and no database.
\<close>

section \<open>Enumerations of the store (\<open>models.rs\<close>)\<close>

datatype event_type = EvUserMessage | EvOperationCompleted | EvCancellationRequested | EvWaitResumed

datatype event_status = EvPending | EvProcessing | EvHandled | EvBlocked

datatype attempt_status = AtRunning | AtCommitted | AtErrored | AtAbandoned

datatype operation_status =
  OpPending | OpSubmitting | OpAccepted | OpSucceeded | OpFailed | OpCancelled | OpUnknown

datatype operation_phase = Submission | ResultRetrieval | Cancellation | Withdrawal

datatype op_attempt_status = OaRunning | OaSucceeded | OaFailed | OaUnknown

datatype wait_status = WtPending | WtResolved | WtExpired | WtCancelled

datatype wait_finish = FinResolved | FinExpired | FinCancelled

datatype receipt_status = RcPending | RcProcessing | RcProcessed | RcBlocked

fun op_terminal :: "operation_status \<Rightarrow> bool" where
  "op_terminal OpSucceeded = True"
| "op_terminal OpFailed = True"
| "op_terminal OpCancelled = True"
| "op_terminal OpUnknown = True"
| "op_terminal _ = False"

text \<open>
  The payloads the store writes itself are kept as the data their format strings and
  \<open>json!\<close> literals hold; payloads that come from outside stay raw text.
\<close>

datatype event_payload =
    RawPayload raw_json
  | OperationCompletedPayload operation_id operation_kind operation_status
  | WaitResumedPayload wait_id wait_finish

datatype update_payload =
    SessionRef session_id
  | HistoryRange int int event_id
  | OperationRef operation_id
  | WaitRef wait_id
  | EventRef event_id "event_status option"
  | ProcessingRef event_id "int option"
  | ProgressValue json

datatype update_kind =
    SessionChanged | HistoryAppended | OperationChanged | WaitChanged | EventChanged
  | ProcessingChanged | HarnessProgress

section \<open>Errors (\<open>error.rs\<close>)\<close>

text \<open>
  \<open>sqlx::Error\<close>: an error PostgreSQL reported, with its SQLSTATE, or a failure of the
  connection. The constraint violations the store can meet have constructors of their own.
\<close>

datatype db_error =
    UniqueViolation string
  | CheckViolation
  | ForeignKeyViolation
  | SqlState "string option"
  | RowNotFound
  | IoError
  | TlsError
  | ProtocolError
  | PoolTimedOut
  | PoolClosed
  | WorkerCrashed
  | OtherSqlxError

text \<open>\<open>sqlx::Error::Database(error)\<close> with \<open>error.code()\<close>, else \<open>None\<close>.\<close>

fun sql_code :: "db_error \<Rightarrow> string option option" where
  "sql_code (UniqueViolation _) = Some (Some ''23505'')"
| "sql_code CheckViolation = Some (Some ''23514'')"
| "sql_code ForeignKeyViolation = Some (Some ''23503'')"
| "sql_code (SqlState code) = Some code"
| "sql_code _ = None"

datatype store_error =
    InvalidInput string
  | SessionNotFound session_id
  | SessionAlreadyExists session_id
  | EventNotFound event_id
  | OperationNotFound operation_id
  | WaitNotFound wait_id
  | IdempotencyConflict
  | StaleClaim
  | WaitNotResolvable
  | StaleProcessingRetry
  | UpdateCursorExpired
  | Database db_error

section \<open>Rows\<close>

record session_row =
  s_id :: session_id
  s_project_id :: string
  s_harness_id :: string
  s_harness_version :: string
  s_configuration :: raw_json
  s_name :: "string option"
  s_metadata :: json
  s_status :: session_status
  s_state :: raw_json
  s_state_version :: int
  s_next_event_sequence :: int
  s_next_history_sequence :: int
  s_next_update_sequence :: int
  s_retained_update_sequence :: int
  s_processing_enabled :: bool
  s_processing_error :: "json option"
  s_processing_revision :: int
  s_current_event_id :: "event_id option"
  s_lease_token :: "uuid option"
  s_lease_expires_at :: "time option"
  s_created_at :: time
  s_updated_at :: time

record event_row =
  e_id :: event_id
  e_session_id :: session_id
  e_sequence :: int
  e_type :: event_type
  e_payload :: event_payload
  e_operation_id :: "operation_id option"
  e_wait_id :: "wait_id option"
  e_idempotency_key :: "string option"
  e_request_hash :: "string option"
  e_status :: event_status
  e_next_attempt_at :: time
  e_last_error :: "json option"
  e_created_at :: time
  e_handled_at :: "time option"
  e_retry_failure_baseline :: int

record attempt_row =
  a_id :: uuid
  a_event_id :: event_id
  a_number :: int
  a_lease_token :: uuid
  a_input_state_version :: int
  a_history_through :: int
  a_status :: attempt_status
  a_error :: "json option"
  a_started_at :: time
  a_finished_at :: "time option"

record history_row =
  h_id :: history_entry_id
  h_session_id :: session_id
  h_sequence :: int
  h_source_event_id :: "event_id option"
  h_role :: string
  h_message :: raw_json
  h_created_at :: time

record operation_row =
  o_id :: operation_id
  o_session_id :: session_id
  o_source_event_id :: event_id
  o_kind :: operation_kind
  o_connection :: "string option"
  o_target :: "operation_id option"
  o_previous :: "operation_id option"
  o_idempotency_key :: string
  o_request_hash :: string
  o_job_id :: "uuid option"
  o_status :: operation_status
  o_result :: "raw_json option"
  o_error :: "json option"
  o_next_attempt_at :: time
  o_lease_token :: "uuid option"
  o_lease_expires_at :: "time option"
  o_created_at :: time
  o_submitted_at :: "time option"
  o_completed_at :: "time option"
  o_request_removed_at :: "time option"

record request_row =
  r_operation_id :: operation_id
  r_request :: raw_json
  r_expires_at :: "time option"

record op_attempt_row =
  oa_id :: uuid
  oa_operation_id :: operation_id
  oa_number :: int
  oa_phase :: operation_phase
  oa_lease_token :: uuid
  oa_status :: op_attempt_status
  oa_http_status :: "int option"
  oa_error :: "json option"
  oa_started_at :: time
  oa_finished_at :: "time option"

record wait_row =
  w_id :: wait_id
  w_session_id :: session_id
  w_source_event_id :: event_id
  w_mode :: wait_mode
  w_payload :: raw_json
  w_response_schema :: "raw_json option"
  w_expires_at :: "time option"
  w_status :: wait_status
  w_resolution_payload :: "raw_json option"
  w_resolution_key :: "string option"
  w_resolution_hash :: "string option"
  w_created_at :: time
  w_finished_at :: "time option"

record receipt_row =
  g_id :: uuid
  g_connection :: string
  g_event_id :: uuid
  g_job_id :: uuid
  g_payload :: raw_json
  g_operation_id :: "operation_id option"
  g_status :: receipt_status
  g_next_attempt_at :: time
  g_lease_token :: "uuid option"
  g_lease_expires_at :: "time option"
  g_last_error :: "json option"
  g_received_at :: time
  g_processed_at :: "time option"

record retry_row =
  p_id :: uuid
  p_session_id :: session_id
  p_key :: string
  p_request_hash :: string
  p_event_id :: event_id
  p_expected_revision :: int
  p_revision :: int
  p_reason :: "string option"
  p_created_at :: time

record update_row =
  u_session_id :: session_id
  u_sequence :: int
  u_kind :: update_kind
  u_payload :: update_payload
  u_source_event_id :: "event_id option"
  u_created_at :: time

record db =
  t_sessions :: "session_row list"
  t_events :: "event_row list"
  t_attempts :: "attempt_row list"
  t_history :: "history_row list"
  t_operations :: "operation_row list"
  t_requests :: "request_row list"
  t_op_attempts :: "op_attempt_row list"
  t_waits :: "wait_row list"
  t_receipts :: "receipt_row list"
  t_retries :: "retry_row list"
  t_updates :: "update_row list"

definition empty_db :: db where
  "empty_db = \<lparr>t_sessions = [], t_events = [], t_attempts = [], t_history = [],
     t_operations = [], t_requests = [], t_op_attempts = [], t_waits = [], t_receipts = [],
     t_retries = [], t_updates = []\<rparr>"

section \<open>The environment of a transaction\<close>

text \<open>
  What the store gets from outside its sources: \<open>now()\<close> (the transaction's start),
  \<open>clock_timestamp()\<close> (\<open>env_clock k\<close> is the \<open>k\<close>-th explicit reading of the transaction,
  \<open>env_log_clock i\<close> the one that stamps the update with sequence \<open>i\<close>), the \<open>k\<close>-th UUID it
  draws, the session rows other transactions hold locked (what \<open>SKIP LOCKED\<close> passes over),
  SHA-256, the text \<open>serde_json\<close> writes for a value, the message it parses from a text, and
  the text of a UUID.
\<close>

record env =
  env_now :: time
  env_clock :: "nat \<Rightarrow> time"
  env_log_clock :: "int \<Rightarrow> time"
  env_uuid :: "nat \<Rightarrow> uuid"
  env_skip :: "uuid \<Rightarrow> bool"
  env_sha256 :: "string \<Rightarrow> string"
  env_json_text :: "json \<Rightarrow> string"
  env_message :: "raw_json \<Rightarrow> string + message"
  env_uuid_text :: "uuid \<Rightarrow> string"

text \<open>\<open>clock_timestamp() + ($n * interval '1 millisecond')\<close>\<close>

definition add_millis :: "time \<Rightarrow> int \<Rightarrow> time" where
  "add_millis t ms = t + 1000 * ms"

text \<open>\<open>duration_millis\<close>: a duration is a whole number of milliseconds here; it must fit i64.\<close>

definition duration_millis :: "nat \<Rightarrow> store_error + int" where
  "duration_millis d =
     (if int d < 2 ^ 63 then Inr (int d) else Inl (InvalidInput ''lease duration is too large''))"

definition fingerprint :: "env \<Rightarrow> raw_json \<Rightarrow> string" where
  "fingerprint env text = env_sha256 env text"
end
