(* ===== verification/Statements.thy ===== *)
theory Statements
  imports Schema
begin

text \<open>
  The SQL statements of the store over the tables of \<open>Schema\<close>, with the constraints the
  migrations declare: CHECKs on the rows written, primary keys and unique indexes, foreign
  keys. Each returns the new database or the error PostgreSQL raises.
\<close>

section \<open>CHECK constraints (\<open>migrations/*.sql\<close>)\<close>

definition session_check :: "session_row \<Rightarrow> bool" where
  "session_check r \<longleftrightarrow>
     0 \<le> s_state_version r \<and> 1 \<le> s_next_event_sequence r \<and> 1 \<le> s_next_history_sequence r
     \<and> 1 \<le> s_next_update_sequence r \<and> 1 \<le> s_retained_update_sequence r
     \<and> 0 \<le> s_processing_revision r
     \<and> (s_current_event_id r = None \<longleftrightarrow> s_lease_token r = None)
     \<and> (s_current_event_id r = None \<longleftrightarrow> s_lease_expires_at r = None)"

definition event_check :: "event_row \<Rightarrow> bool" where
  "event_check r \<longleftrightarrow>
     1 \<le> e_sequence r \<and> 0 \<le> e_retry_failure_baseline r
     \<and> (e_idempotency_key r = None \<longleftrightarrow> e_request_hash r = None)
     \<and> (e_operation_id r \<noteq> None \<longleftrightarrow> e_type r = EvOperationCompleted)
     \<and> (e_wait_id r \<noteq> None \<longleftrightarrow> e_type r = EvWaitResumed)
     \<and> (e_status r = EvHandled \<longleftrightarrow> e_handled_at r \<noteq> None)"

definition attempt_check :: "attempt_row \<Rightarrow> bool" where
  "attempt_check r \<longleftrightarrow>
     1 \<le> a_number r \<and> 0 \<le> a_input_state_version r \<and> 0 \<le> a_history_through r
     \<and> (a_status r = AtRunning \<longleftrightarrow> a_finished_at r = None)"

definition operation_check :: "operation_row \<Rightarrow> bool" where
  "operation_check r \<longleftrightarrow>
     ((o_kind r \<in> {KindLlm, KindExecution} \<and> o_connection r \<noteq> None)
      \<or> (o_kind r \<in> {KindLlmCancellation, KindWithdraw} \<and> o_target r \<noteq> None))
     \<and> (o_lease_token r = None \<longleftrightarrow> o_lease_expires_at r = None)
     \<and> o_target r \<noteq> Some (o_id r) \<and> o_previous r \<noteq> Some (o_id r)
     \<and> (op_terminal (o_status r) \<longleftrightarrow> o_completed_at r \<noteq> None)"

definition op_attempt_check :: "op_attempt_row \<Rightarrow> bool" where
  "op_attempt_check r \<longleftrightarrow>
     1 \<le> oa_number r \<and> (oa_status r = OaRunning \<longleftrightarrow> oa_finished_at r = None)"

definition wait_check :: "wait_row \<Rightarrow> bool" where
  "wait_check r \<longleftrightarrow>
     (w_mode r = External \<longleftrightarrow> w_expires_at r = None)
     \<and> (w_mode r = Expiration \<longrightarrow> w_response_schema r = None)
     \<and> (w_resolution_key r = None \<longleftrightarrow> w_resolution_hash r = None)
     \<and> (case w_status r of
          WtPending \<Rightarrow> w_finished_at r = None \<and> w_resolution_payload r = None
        | WtResolved \<Rightarrow> w_finished_at r \<noteq> None \<and> w_resolution_payload r \<noteq> None
        | _ \<Rightarrow> w_finished_at r \<noteq> None)"

definition receipt_check :: "receipt_row \<Rightarrow> bool" where
  "receipt_check r \<longleftrightarrow>
     (g_lease_token r = None \<longleftrightarrow> g_lease_expires_at r = None)
     \<and> (g_status r = RcProcessed \<longleftrightarrow> g_processed_at r \<noteq> None)"

section \<open>Lookups\<close>

definition session_of :: "db \<Rightarrow> session_id \<Rightarrow> session_row option" where
  "session_of db i = row_by s_id i (t_sessions db)"

definition event_of :: "db \<Rightarrow> event_id \<Rightarrow> event_row option" where
  "event_of db i = row_by e_id i (t_events db)"

definition operation_of :: "db \<Rightarrow> operation_id \<Rightarrow> operation_row option" where
  "operation_of db i = row_by o_id i (t_operations db)"

definition wait_of :: "db \<Rightarrow> wait_id \<Rightarrow> wait_row option" where
  "wait_of db i = row_by w_id i (t_waits db)"

definition receipt_of :: "db \<Rightarrow> uuid \<Rightarrow> receipt_row option" where
  "receipt_of db i = row_by g_id i (t_receipts db)"

definition session_events :: "db \<Rightarrow> session_id \<Rightarrow> event_row list" where
  "session_events db i = filter (\<lambda>e. e_session_id e = i) (t_events db)"

definition session_history :: "db \<Rightarrow> session_id \<Rightarrow> history_row list" where
  "session_history db i = filter (\<lambda>h. h_session_id h = i) (t_history db)"

definition session_updates :: "db \<Rightarrow> session_id \<Rightarrow> update_row list" where
  "session_updates db i = filter (\<lambda>u. u_session_id u = i) (t_updates db)"

text \<open>The composite foreign keys \<open>(session_id, x)\<close>: the row exists in the same session.\<close>

definition event_in :: "db \<Rightarrow> session_id \<Rightarrow> event_id \<Rightarrow> bool" where
  "event_in db s e \<longleftrightarrow> list_ex (\<lambda>r. e_id r = e \<and> e_session_id r = s) (t_events db)"

definition operation_in :: "db \<Rightarrow> session_id \<Rightarrow> operation_id \<Rightarrow> bool" where
  "operation_in db s i \<longleftrightarrow> list_ex (\<lambda>r. o_id r = i \<and> o_session_id r = s) (t_operations db)"

definition wait_in :: "db \<Rightarrow> session_id \<Rightarrow> wait_id \<Rightarrow> bool" where
  "wait_in db s i \<longleftrightarrow> list_ex (\<lambda>r. w_id r = i \<and> w_session_id r = s) (t_waits db)"

definition opt_ref :: "('a \<Rightarrow> bool) \<Rightarrow> 'a option \<Rightarrow> bool" where
  "opt_ref p x = (case x of None \<Rightarrow> True | Some v \<Rightarrow> p v)"

section \<open>Statements on sessions\<close>

definition insert_session :: "session_row \<Rightarrow> db \<Rightarrow> store_error + db" where
  "insert_session r db =
     (if \<not> session_check r then Inl (Database CheckViolation)
      else if s_id r \<in> s_id ` set (t_sessions db)
      then Inl (Database (UniqueViolation ''sessions_pkey''))
      else Inr (db\<lparr>t_sessions := t_sessions db @ [r]\<rparr>))"

definition update_sessions ::
    "(session_row \<Rightarrow> bool) \<Rightarrow> (session_row \<Rightarrow> session_row) \<Rightarrow> db \<Rightarrow> store_error + db" where
  "update_sessions p f db =
     (if \<not> list_all (\<lambda>r. p r \<longrightarrow> session_check (f r)) (t_sessions db)
      then Inl (Database CheckViolation)
      else if \<not> list_all (\<lambda>r. p r \<longrightarrow>
                 opt_ref (event_in db (s_id r)) (s_current_event_id (f r))) (t_sessions db)
      then Inl (Database ForeignKeyViolation)
      else Inr (db\<lparr>t_sessions := row_update p f (t_sessions db)\<rparr>))"

section \<open>Statements on the inbox\<close>

definition insert_event :: "event_row \<Rightarrow> db \<Rightarrow> store_error + db" where
  "insert_event r db =
     (if \<not> event_check r then Inl (Database CheckViolation)
      else if e_id r \<in> e_id ` set (t_events db)
      then Inl (Database (UniqueViolation ''session_events_pkey''))
      else if list_ex (\<lambda>q. e_session_id q = e_session_id r \<and> e_sequence q = e_sequence r)
                (t_events db)
      then Inl (Database (UniqueViolation ''session_events_session_id_sequence_key''))
      else if e_idempotency_key r \<noteq> None \<and>
              list_ex (\<lambda>q. e_session_id q = e_session_id r \<and> e_type q = e_type r
                \<and> e_idempotency_key q = e_idempotency_key r) (t_events db)
      then Inl (Database (UniqueViolation ''session_events_idempotency_idx''))
      else if e_type r = EvOperationCompleted \<and>
              list_ex (\<lambda>q. e_type q = EvOperationCompleted \<and> e_operation_id q = e_operation_id r)
                (t_events db)
      then Inl (Database (UniqueViolation ''session_events_operation_completion_idx''))
      else if e_type r = EvWaitResumed \<and>
              list_ex (\<lambda>q. e_type q = EvWaitResumed \<and> e_wait_id q = e_wait_id r) (t_events db)
      then Inl (Database (UniqueViolation ''session_events_wait_resumption_idx''))
      else if session_of db (e_session_id r) = None
              \<or> \<not> opt_ref (operation_in db (e_session_id r)) (e_operation_id r)
              \<or> \<not> opt_ref (wait_in db (e_session_id r)) (e_wait_id r)
      then Inl (Database ForeignKeyViolation)
      else Inr (db\<lparr>t_events := t_events db @ [r]\<rparr>))"

definition update_events ::
    "(event_row \<Rightarrow> bool) \<Rightarrow> (event_row \<Rightarrow> event_row) \<Rightarrow> db \<Rightarrow> store_error + db" where
  "update_events p f db =
     (if \<not> list_all (\<lambda>r. p r \<longrightarrow> event_check (f r)) (t_events db)
      then Inl (Database CheckViolation)
      else Inr (db\<lparr>t_events := row_update p f (t_events db)\<rparr>))"

definition insert_attempt :: "attempt_row \<Rightarrow> db \<Rightarrow> store_error + db" where
  "insert_attempt r db =
     (if \<not> attempt_check r then Inl (Database CheckViolation)
      else if a_id r \<in> a_id ` set (t_attempts db)
      then Inl (Database (UniqueViolation ''session_event_attempts_pkey''))
      else if list_ex (\<lambda>q. a_event_id q = a_event_id r \<and> a_number q = a_number r) (t_attempts db)
      then Inl (Database (UniqueViolation ''session_event_attempts_event_id_attempt_number_key''))
      else if event_of db (a_event_id r) = None then Inl (Database ForeignKeyViolation)
      else Inr (db\<lparr>t_attempts := t_attempts db @ [r]\<rparr>))"

definition update_attempts ::
    "(attempt_row \<Rightarrow> bool) \<Rightarrow> (attempt_row \<Rightarrow> attempt_row) \<Rightarrow> db \<Rightarrow> store_error + db" where
  "update_attempts p f db =
     (if \<not> list_all (\<lambda>r. p r \<longrightarrow> attempt_check (f r)) (t_attempts db)
      then Inl (Database CheckViolation)
      else Inr (db\<lparr>t_attempts := row_update p f (t_attempts db)\<rparr>))"

definition insert_history :: "history_row \<Rightarrow> db \<Rightarrow> store_error + db" where
  "insert_history r db =
     (if \<not> 1 \<le> h_sequence r then Inl (Database CheckViolation)
      else if h_id r \<in> h_id ` set (t_history db)
      then Inl (Database (UniqueViolation ''session_history_pkey''))
      else if list_ex (\<lambda>q. h_session_id q = h_session_id r \<and> h_sequence q = h_sequence r)
                (t_history db)
      then Inl (Database (UniqueViolation ''session_history_session_id_sequence_key''))
      else if session_of db (h_session_id r) = None
              \<or> \<not> opt_ref (event_in db (h_session_id r)) (h_source_event_id r)
      then Inl (Database ForeignKeyViolation)
      else Inr (db\<lparr>t_history := t_history db @ [r]\<rparr>))"

section \<open>Statements on operations\<close>

text \<open>The partial unique index on \<open>(gateway_connection_id, gateway_job_id)\<close>: SQL does not
  compare NULLs, so only rows with both columns set can collide.\<close>

definition job_keys :: "operation_row list \<Rightarrow> (string \<times> uuid) list" where
  "job_keys rows = List.map_filter
     (\<lambda>r. case (o_connection r, o_job_id r) of (Some c, Some j) \<Rightarrow> Some (c, j) | _ \<Rightarrow> None) rows"

definition insert_operation :: "operation_row \<Rightarrow> db \<Rightarrow> store_error + db" where
  "insert_operation r db =
     (if \<not> operation_check r then Inl (Database CheckViolation)
      else if o_id r \<in> o_id ` set (t_operations db)
      then Inl (Database (UniqueViolation ''session_operations_pkey''))
      else if \<not> distinct (job_keys (t_operations db @ [r]))
      then Inl (Database (UniqueViolation ''session_operations_gateway_job_idx''))
      else if session_of db (o_session_id r) = None
              \<or> \<not> event_in db (o_session_id r) (o_source_event_id r)
              \<or> \<not> opt_ref (operation_in db (o_session_id r)) (o_target r)
              \<or> \<not> opt_ref (operation_in db (o_session_id r)) (o_previous r)
      then Inl (Database ForeignKeyViolation)
      else Inr (db\<lparr>t_operations := t_operations db @ [r]\<rparr>))"

definition update_operations ::
    "(operation_row \<Rightarrow> bool) \<Rightarrow> (operation_row \<Rightarrow> operation_row) \<Rightarrow> db \<Rightarrow> store_error + db" where
  "update_operations p f db =
     (let rows = row_update p f (t_operations db) in
      if \<not> list_all (\<lambda>r. p r \<longrightarrow> operation_check (f r)) (t_operations db)
      then Inl (Database CheckViolation)
      else if \<not> distinct (job_keys rows)
      then Inl (Database (UniqueViolation ''session_operations_gateway_job_idx''))
      else Inr (db\<lparr>t_operations := rows\<rparr>))"

definition insert_request :: "request_row \<Rightarrow> db \<Rightarrow> store_error + db" where
  "insert_request r db =
     (if r_operation_id r \<in> r_operation_id ` set (t_requests db)
      then Inl (Database (UniqueViolation ''session_operation_requests_pkey''))
      else if operation_of db (r_operation_id r) = None then Inl (Database ForeignKeyViolation)
      else Inr (db\<lparr>t_requests := t_requests db @ [r]\<rparr>))"

definition update_requests ::
    "(request_row \<Rightarrow> bool) \<Rightarrow> (request_row \<Rightarrow> request_row) \<Rightarrow> db \<Rightarrow> store_error + db" where
  "update_requests p f db = Inr (db\<lparr>t_requests := row_update p f (t_requests db)\<rparr>)"

definition delete_requests :: "(request_row \<Rightarrow> bool) \<Rightarrow> db \<Rightarrow> store_error + db" where
  "delete_requests p db = Inr (db\<lparr>t_requests := filter (\<lambda>r. \<not> p r) (t_requests db)\<rparr>)"

definition insert_op_attempt :: "op_attempt_row \<Rightarrow> db \<Rightarrow> store_error + db" where
  "insert_op_attempt r db =
     (if \<not> op_attempt_check r then Inl (Database CheckViolation)
      else if oa_id r \<in> oa_id ` set (t_op_attempts db)
      then Inl (Database (UniqueViolation ''session_operation_attempts_pkey''))
      else if list_ex (\<lambda>q. oa_operation_id q = oa_operation_id r \<and> oa_number q = oa_number r)
                (t_op_attempts db)
      then Inl (Database (UniqueViolation ''session_operation_attempts_operation_id_attempt_number_key''))
      else if operation_of db (oa_operation_id r) = None then Inl (Database ForeignKeyViolation)
      else Inr (db\<lparr>t_op_attempts := t_op_attempts db @ [r]\<rparr>))"

definition update_op_attempts ::
    "(op_attempt_row \<Rightarrow> bool) \<Rightarrow> (op_attempt_row \<Rightarrow> op_attempt_row) \<Rightarrow> db \<Rightarrow> store_error + db"
  where
  "update_op_attempts p f db =
     (if \<not> list_all (\<lambda>r. p r \<longrightarrow> op_attempt_check (f r)) (t_op_attempts db)
      then Inl (Database CheckViolation)
      else Inr (db\<lparr>t_op_attempts := row_update p f (t_op_attempts db)\<rparr>))"

section \<open>Statements on waits, receipts and retries\<close>

definition insert_wait :: "wait_row \<Rightarrow> db \<Rightarrow> store_error + db" where
  "insert_wait r db =
     (if \<not> wait_check r then Inl (Database CheckViolation)
      else if w_id r \<in> w_id ` set (t_waits db)
      then Inl (Database (UniqueViolation ''session_waits_pkey''))
      else if session_of db (w_session_id r) = None
              \<or> \<not> event_in db (w_session_id r) (w_source_event_id r)
      then Inl (Database ForeignKeyViolation)
      else Inr (db\<lparr>t_waits := t_waits db @ [r]\<rparr>))"

definition update_waits ::
    "(wait_row \<Rightarrow> bool) \<Rightarrow> (wait_row \<Rightarrow> wait_row) \<Rightarrow> db \<Rightarrow> store_error + db" where
  "update_waits p f db =
     (if \<not> list_all (\<lambda>r. p r \<longrightarrow> wait_check (f r)) (t_waits db)
      then Inl (Database CheckViolation)
      else Inr (db\<lparr>t_waits := row_update p f (t_waits db)\<rparr>))"

text \<open>\<open>INSERT ... ON CONFLICT (gateway_connection_id, gateway_event_id) DO NOTHING\<close>, with
  the number of rows affected.\<close>

definition insert_receipt :: "receipt_row \<Rightarrow> db \<Rightarrow> store_error + bool \<times> db" where
  "insert_receipt r db =
     (if \<not> receipt_check r then Inl (Database CheckViolation)
      else if list_ex (\<lambda>q. g_connection q = g_connection r \<and> g_event_id q = g_event_id r)
                (t_receipts db)
      then Inr (False, db)
      else if g_id r \<in> g_id ` set (t_receipts db)
      then Inl (Database (UniqueViolation ''gateway_callback_receipts_pkey''))
      else Inr (True, db\<lparr>t_receipts := t_receipts db @ [r]\<rparr>))"

definition update_receipts ::
    "(receipt_row \<Rightarrow> bool) \<Rightarrow> (receipt_row \<Rightarrow> receipt_row) \<Rightarrow> db \<Rightarrow> store_error + db" where
  "update_receipts p f db =
     (if \<not> list_all (\<lambda>r. p r \<longrightarrow> receipt_check (f r)) (t_receipts db)
      then Inl (Database CheckViolation)
      else Inr (db\<lparr>t_receipts := row_update p f (t_receipts db)\<rparr>))"

definition insert_retry :: "retry_row \<Rightarrow> db \<Rightarrow> store_error + db" where
  "insert_retry r db =
     (if p_id r \<in> p_id ` set (t_retries db)
      then Inl (Database (UniqueViolation ''session_processing_retries_pkey''))
      else if list_ex (\<lambda>q. p_session_id q = p_session_id r \<and> p_key q = p_key r) (t_retries db)
      then Inl (Database (UniqueViolation ''session_processing_retries_session_id_idempotency_key_key''))
      else if session_of db (p_session_id r) = None \<or> \<not> event_in db (p_session_id r) (p_event_id r)
      then Inl (Database ForeignKeyViolation)
      else Inr (db\<lparr>t_retries := t_retries db @ [r]\<rparr>))"

definition insert_update :: "update_row \<Rightarrow> db \<Rightarrow> store_error + db" where
  "insert_update r db =
     (if \<not> 1 \<le> u_sequence r then Inl (Database CheckViolation)
      else if list_ex (\<lambda>q. u_session_id q = u_session_id r \<and> u_sequence q = u_sequence r)
                (t_updates db)
      then Inl (Database (UniqueViolation ''session_updates_pkey''))
      else if session_of db (u_session_id r) = None
              \<or> \<not> opt_ref (event_in db (u_session_id r)) (u_source_event_id r)
      then Inl (Database ForeignKeyViolation)
      else Inr (db\<lparr>t_updates := t_updates db @ [r]\<rparr>))"

definition delete_updates :: "(update_row \<Rightarrow> bool) \<Rightarrow> db \<Rightarrow> store_error + db" where
  "delete_updates p db = Inr (db\<lparr>t_updates := filter (\<lambda>r. \<not> p r) (t_updates db)\<rparr>)"

section \<open>The effect of a statement that succeeds\<close>

lemma insert_session_Inr [stmt_simps]:
  "insert_session r db = Inr db' \<Longrightarrow> db' = db\<lparr>t_sessions := t_sessions db @ [r]\<rparr>"
  by (simp add: insert_session_def split: if_splits)

lemma update_sessions_Inr [stmt_simps]:
  "update_sessions p f db = Inr db' \<Longrightarrow> db' = db\<lparr>t_sessions := row_update p f (t_sessions db)\<rparr>"
  by (simp add: update_sessions_def split: if_splits)

lemma insert_event_Inr [stmt_simps]:
  "insert_event r db = Inr db' \<Longrightarrow> db' = db\<lparr>t_events := t_events db @ [r]\<rparr>"
  by (simp add: insert_event_def split: if_splits)

lemma update_events_Inr [stmt_simps]:
  "update_events p f db = Inr db' \<Longrightarrow> db' = db\<lparr>t_events := row_update p f (t_events db)\<rparr>"
  by (simp add: update_events_def split: if_splits)

lemma insert_attempt_Inr [stmt_simps]:
  "insert_attempt r db = Inr db' \<Longrightarrow> db' = db\<lparr>t_attempts := t_attempts db @ [r]\<rparr>"
  by (simp add: insert_attempt_def split: if_splits)

lemma update_attempts_Inr [stmt_simps]:
  "update_attempts p f db = Inr db' \<Longrightarrow> db' = db\<lparr>t_attempts := row_update p f (t_attempts db)\<rparr>"
  by (simp add: update_attempts_def split: if_splits)

lemma insert_history_Inr [stmt_simps]:
  "insert_history r db = Inr db' \<Longrightarrow> db' = db\<lparr>t_history := t_history db @ [r]\<rparr>"
  by (simp add: insert_history_def split: if_splits)

lemma insert_operation_Inr [stmt_simps]:
  "insert_operation r db = Inr db' \<Longrightarrow> db' = db\<lparr>t_operations := t_operations db @ [r]\<rparr>"
  by (simp add: insert_operation_def split: if_splits)

lemma update_operations_Inr [stmt_simps]:
  "update_operations p f db = Inr db' \<Longrightarrow>
     db' = db\<lparr>t_operations := row_update p f (t_operations db)\<rparr>"
  by (simp add: update_operations_def Let_def split: if_splits)

lemma insert_request_Inr [stmt_simps]:
  "insert_request r db = Inr db' \<Longrightarrow> db' = db\<lparr>t_requests := t_requests db @ [r]\<rparr>"
  by (simp add: insert_request_def split: if_splits)

lemma update_requests_Inr [stmt_simps]:
  "update_requests p f db = Inr db' \<Longrightarrow> db' = db\<lparr>t_requests := row_update p f (t_requests db)\<rparr>"
  by (simp add: update_requests_def)

lemma delete_requests_Inr [stmt_simps]:
  "delete_requests p db = Inr db' \<Longrightarrow>
     db' = db\<lparr>t_requests := filter (\<lambda>r. \<not> p r) (t_requests db)\<rparr>"
  by (simp add: delete_requests_def)

lemma insert_op_attempt_Inr [stmt_simps]:
  "insert_op_attempt r db = Inr db' \<Longrightarrow> db' = db\<lparr>t_op_attempts := t_op_attempts db @ [r]\<rparr>"
  by (simp add: insert_op_attempt_def split: if_splits)

lemma update_op_attempts_Inr [stmt_simps]:
  "update_op_attempts p f db = Inr db' \<Longrightarrow>
     db' = db\<lparr>t_op_attempts := row_update p f (t_op_attempts db)\<rparr>"
  by (simp add: update_op_attempts_def split: if_splits)

lemma insert_wait_Inr [stmt_simps]:
  "insert_wait r db = Inr db' \<Longrightarrow> db' = db\<lparr>t_waits := t_waits db @ [r]\<rparr>"
  by (simp add: insert_wait_def split: if_splits)

lemma update_waits_Inr [stmt_simps]:
  "update_waits p f db = Inr db' \<Longrightarrow> db' = db\<lparr>t_waits := row_update p f (t_waits db)\<rparr>"
  by (simp add: update_waits_def split: if_splits)

lemma insert_receipt_Inr [stmt_simps]:
  "insert_receipt r db = Inr (b, db') \<Longrightarrow>
     db' = (if b then db\<lparr>t_receipts := t_receipts db @ [r]\<rparr> else db)"
  by (auto simp: insert_receipt_def split: if_splits)

lemma update_receipts_Inr [stmt_simps]:
  "update_receipts p f db = Inr db' \<Longrightarrow> db' = db\<lparr>t_receipts := row_update p f (t_receipts db)\<rparr>"
  by (simp add: update_receipts_def split: if_splits)

lemma insert_retry_Inr [stmt_simps]:
  "insert_retry r db = Inr db' \<Longrightarrow> db' = db\<lparr>t_retries := t_retries db @ [r]\<rparr>"
  by (simp add: insert_retry_def split: if_splits)

lemma insert_update_Inr [stmt_simps]:
  "insert_update r db = Inr db' \<Longrightarrow> db' = db\<lparr>t_updates := t_updates db @ [r]\<rparr>"
  by (simp add: insert_update_def split: if_splits)

lemma delete_updates_Inr [stmt_simps]:
  "delete_updates p db = Inr db' \<Longrightarrow> db' = db\<lparr>t_updates := filter (\<lambda>r. \<not> p r) (t_updates db)\<rparr>"
  by (simp add: delete_updates_def)

section \<open>Lookups after a statement\<close>

lemma session_of_simps [lookup_simps]:
  "session_of (db\<lparr>t_events := es\<rparr>) i = session_of db i"
  "session_of (db\<lparr>t_attempts := ats\<rparr>) i = session_of db i"
  "session_of (db\<lparr>t_history := hs\<rparr>) i = session_of db i"
  "session_of (db\<lparr>t_operations := os\<rparr>) i = session_of db i"
  "session_of (db\<lparr>t_requests := rs\<rparr>) i = session_of db i"
  "session_of (db\<lparr>t_op_attempts := oas\<rparr>) i = session_of db i"
  "session_of (db\<lparr>t_waits := ws\<rparr>) i = session_of db i"
  "session_of (db\<lparr>t_retries := ps\<rparr>) i = session_of db i"
  "session_of (db\<lparr>t_updates := us\<rparr>) i = session_of db i"
  by (simp_all add: session_of_def)

lemma session_of_update [lookup_simps]:
  "(\<And>s. s_id (f s) = s_id s) \<Longrightarrow>
   session_of (db\<lparr>t_sessions := row_update (\<lambda>s. s_id s = j) f (t_sessions db')\<rparr>) i
     = (if i = j then map_option f (session_of db' i) else session_of db' i)"
  by (simp add: session_of_def row_by_update_key)

lemma event_of_simps [lookup_simps]:
  "event_of (db\<lparr>t_sessions := ss\<rparr>) i = event_of db i"
  "event_of (db\<lparr>t_attempts := ats\<rparr>) i = event_of db i"
  "event_of (db\<lparr>t_history := hs\<rparr>) i = event_of db i"
  "event_of (db\<lparr>t_operations := os\<rparr>) i = event_of db i"
  "event_of (db\<lparr>t_requests := rs\<rparr>) i = event_of db i"
  "event_of (db\<lparr>t_op_attempts := oas\<rparr>) i = event_of db i"
  "event_of (db\<lparr>t_waits := ws\<rparr>) i = event_of db i"
  "event_of (db\<lparr>t_retries := ps\<rparr>) i = event_of db i"
  "event_of (db\<lparr>t_updates := us\<rparr>) i = event_of db i"
  by (simp_all add: event_of_def)

lemma event_of_update [lookup_simps]:
  "(\<And>e. e_id (f e) = e_id e) \<Longrightarrow>
   event_of (db\<lparr>t_events := row_update (\<lambda>e. e_id e = j) f (t_events db')\<rparr>) i
     = (if i = j then map_option f (event_of db' i) else event_of db' i)"
  by (simp add: event_of_def row_by_update_key)

lemma operation_of_simps [lookup_simps]:
  "operation_of (db\<lparr>t_sessions := ss\<rparr>) i = operation_of db i"
  "operation_of (db\<lparr>t_events := es\<rparr>) i = operation_of db i"
  "operation_of (db\<lparr>t_requests := rs\<rparr>) i = operation_of db i"
  "operation_of (db\<lparr>t_op_attempts := oas\<rparr>) i = operation_of db i"
  "operation_of (db\<lparr>t_updates := us\<rparr>) i = operation_of db i"
  by (simp_all add: operation_of_def)

lemma operation_of_update [lookup_simps]:
  "(\<And>r. o_id (f r) = o_id r) \<Longrightarrow>
   operation_of (db\<lparr>t_operations := row_update (\<lambda>r. o_id r = j) f (t_operations db')\<rparr>) i
     = (if i = j then map_option f (operation_of db' i) else operation_of db' i)"
  by (simp add: operation_of_def row_by_update_key)

text \<open>An UPDATE of events that succeeds wrote only rows that satisfy the CHECKs.\<close>

lemma update_events_check:
  "update_events p f db = Inr db' \<Longrightarrow> event_of db i = Some e \<Longrightarrow> p e \<Longrightarrow> event_check (f e)"
  by (auto simp: update_events_def list_all_iff event_of_def dest: row_by_Some split: if_splits)

end
