(* ===== verification/UpdateLog.thy ===== *)
theory UpdateLog
  imports Statements
begin

text \<open>
  The per-session update log (\<open>emit_update\<close> of \<open>packages/agent-store/src/inspection.rs\<close>),
  which nearly every transaction of the store appends to, and the contract of a gap-free log
  that the inbox, the conversation history and the update log share. Because emitting an
  update touches nothing but the log and its counter, the other components are described
  up to the log: \<open>strip\<close> forgets it.
\<close>

section \<open>Emitting an update\<close>

definition emit_update_with_event ::
    "env \<Rightarrow> session_id \<Rightarrow> update_kind \<Rightarrow> update_payload \<Rightarrow> event_id option \<Rightarrow> db \<Rightarrow> store_error + db"
  where
  "emit_update_with_event env sid kind payload source db =
     bindR (ok_or (session_of db sid) (Database RowNotFound)) (\<lambda>s.
     bindR (update_sessions (\<lambda>r. s_id r = sid)
              (\<lambda>r. r\<lparr>s_next_update_sequence := s_next_update_sequence r + 1\<rparr>) db) (\<lambda>db.
     insert_update \<lparr>u_session_id = sid, u_sequence = s_next_update_sequence s, u_kind = kind,
       u_payload = payload, u_source_event_id = source,
       u_created_at = env_log_clock env (s_next_update_sequence s)\<rparr> db))"

definition emit_update ::
    "env \<Rightarrow> session_id \<Rightarrow> update_kind \<Rightarrow> update_payload \<Rightarrow> db \<Rightarrow> store_error + db" where
  "emit_update env sid kind payload db = emit_update_with_event env sid kind payload None db"

section \<open>The database up to its update log\<close>

definition strip_session :: "session_row \<Rightarrow> session_row" where
  "strip_session s = s\<lparr>s_next_update_sequence := 1\<rparr>"

definition strip :: "db \<Rightarrow> db" where
  "strip db = db\<lparr>t_sessions := map strip_session (t_sessions db), t_updates := []\<rparr>"

lemma strip_session_simps [simp]:
  "s_id (strip_session s) = s_id s"
  "s_project_id (strip_session s) = s_project_id s"
  "s_harness_id (strip_session s) = s_harness_id s"
  "s_harness_version (strip_session s) = s_harness_version s"
  "s_configuration (strip_session s) = s_configuration s"
  "s_name (strip_session s) = s_name s"
  "s_metadata (strip_session s) = s_metadata s"
  "s_status (strip_session s) = s_status s"
  "s_state (strip_session s) = s_state s"
  "s_state_version (strip_session s) = s_state_version s"
  "s_next_event_sequence (strip_session s) = s_next_event_sequence s"
  "s_next_history_sequence (strip_session s) = s_next_history_sequence s"
  "s_retained_update_sequence (strip_session s) = s_retained_update_sequence s"
  "s_processing_enabled (strip_session s) = s_processing_enabled s"
  "s_processing_error (strip_session s) = s_processing_error s"
  "s_processing_revision (strip_session s) = s_processing_revision s"
  "s_current_event_id (strip_session s) = s_current_event_id s"
  "s_lease_token (strip_session s) = s_lease_token s"
  "s_lease_expires_at (strip_session s) = s_lease_expires_at s"
  "s_created_at (strip_session s) = s_created_at s"
  "s_updated_at (strip_session s) = s_updated_at s"
  "strip_session (s\<lparr>s_next_update_sequence := n\<rparr>) = strip_session s"
  by (simp_all add: strip_session_def)

lemma strip_session_idem [simp]:
  "strip_session (strip_session s) = strip_session s"
  "strip_session \<circ> strip_session = strip_session"
  by (simp_all add: strip_session_def fun_eq_iff)

text \<open>Forgetting the counter commutes with every other column.\<close>

lemma strip_session_columns [simp]:
  "strip_session (s\<lparr>s_project_id := v0\<rparr>) = strip_session s\<lparr>s_project_id := v0\<rparr>"
  "strip_session (s\<lparr>s_harness_id := v1\<rparr>) = strip_session s\<lparr>s_harness_id := v1\<rparr>"
  "strip_session (s\<lparr>s_harness_version := v2\<rparr>) = strip_session s\<lparr>s_harness_version := v2\<rparr>"
  "strip_session (s\<lparr>s_configuration := v3\<rparr>) = strip_session s\<lparr>s_configuration := v3\<rparr>"
  "strip_session (s\<lparr>s_name := v4\<rparr>) = strip_session s\<lparr>s_name := v4\<rparr>"
  "strip_session (s\<lparr>s_metadata := v5\<rparr>) = strip_session s\<lparr>s_metadata := v5\<rparr>"
  "strip_session (s\<lparr>s_status := v6\<rparr>) = strip_session s\<lparr>s_status := v6\<rparr>"
  "strip_session (s\<lparr>s_state := v7\<rparr>) = strip_session s\<lparr>s_state := v7\<rparr>"
  "strip_session (s\<lparr>s_state_version := v8\<rparr>) = strip_session s\<lparr>s_state_version := v8\<rparr>"
  "strip_session (s\<lparr>s_next_event_sequence := v9\<rparr>) = strip_session s\<lparr>s_next_event_sequence := v9\<rparr>"
  "strip_session (s\<lparr>s_next_history_sequence := v10\<rparr>) = strip_session s\<lparr>s_next_history_sequence := v10\<rparr>"
  "strip_session (s\<lparr>s_retained_update_sequence := v11\<rparr>) = strip_session s\<lparr>s_retained_update_sequence := v11\<rparr>"
  "strip_session (s\<lparr>s_processing_enabled := v12\<rparr>) = strip_session s\<lparr>s_processing_enabled := v12\<rparr>"
  "strip_session (s\<lparr>s_processing_error := v13\<rparr>) = strip_session s\<lparr>s_processing_error := v13\<rparr>"
  "strip_session (s\<lparr>s_processing_revision := v14\<rparr>) = strip_session s\<lparr>s_processing_revision := v14\<rparr>"
  "strip_session (s\<lparr>s_current_event_id := v15\<rparr>) = strip_session s\<lparr>s_current_event_id := v15\<rparr>"
  "strip_session (s\<lparr>s_lease_token := v16\<rparr>) = strip_session s\<lparr>s_lease_token := v16\<rparr>"
  "strip_session (s\<lparr>s_lease_expires_at := v17\<rparr>) = strip_session s\<lparr>s_lease_expires_at := v17\<rparr>"
  "strip_session (s\<lparr>s_created_at := v18\<rparr>) = strip_session s\<lparr>s_created_at := v18\<rparr>"
  "strip_session (s\<lparr>s_updated_at := v19\<rparr>) = strip_session s\<lparr>s_updated_at := v19\<rparr>"
  by (simp_all add: strip_session_def)

lemma strip_simps [simp]:
  "t_sessions (strip db) = map strip_session (t_sessions db)"
  "t_events (strip db) = t_events db"
  "t_attempts (strip db) = t_attempts db"
  "t_history (strip db) = t_history db"
  "t_operations (strip db) = t_operations db"
  "t_requests (strip db) = t_requests db"
  "t_op_attempts (strip db) = t_op_attempts db"
  "t_waits (strip db) = t_waits db"
  "t_receipts (strip db) = t_receipts db"
  "t_retries (strip db) = t_retries db"
  "t_updates (strip db) = []"
  "strip (db\<lparr>t_events := es\<rparr>) = strip db\<lparr>t_events := es\<rparr>"
  "strip (db\<lparr>t_attempts := ats\<rparr>) = strip db\<lparr>t_attempts := ats\<rparr>"
  "strip (db\<lparr>t_history := hs\<rparr>) = strip db\<lparr>t_history := hs\<rparr>"
  "strip (db\<lparr>t_operations := os\<rparr>) = strip db\<lparr>t_operations := os\<rparr>"
  "strip (db\<lparr>t_requests := rs\<rparr>) = strip db\<lparr>t_requests := rs\<rparr>"
  "strip (db\<lparr>t_op_attempts := oas\<rparr>) = strip db\<lparr>t_op_attempts := oas\<rparr>"
  "strip (db\<lparr>t_waits := ws\<rparr>) = strip db\<lparr>t_waits := ws\<rparr>"
  "strip (db\<lparr>t_receipts := gs\<rparr>) = strip db\<lparr>t_receipts := gs\<rparr>"
  "strip (db\<lparr>t_retries := ps\<rparr>) = strip db\<lparr>t_retries := ps\<rparr>"
  "strip (db\<lparr>t_updates := us\<rparr>) = strip db"
  "strip (db\<lparr>t_sessions := ss\<rparr>) = strip db\<lparr>t_sessions := map strip_session ss\<rparr>"
  by (simp_all add: strip_def)

lemma strip_row_update [simp]:
  assumes "\<And>s. p (strip_session s) = p s"
    and "\<And>s. strip_session (f s) = f (strip_session s)"
  shows "map strip_session (row_update p f rows) = row_update p f (map strip_session rows)"
  using assms by (simp add: row_update_def)

lemma strip_eqI:
  assumes "map strip_session (t_sessions db) = t_sessions x" and "t_events db = t_events x"
    and "t_attempts db = t_attempts x" and "t_history db = t_history x"
    and "t_operations db = t_operations x" and "t_requests db = t_requests x"
    and "t_op_attempts db = t_op_attempts x" and "t_waits db = t_waits x"
    and "t_receipts db = t_receipts x" and "t_retries db = t_retries x" and "t_updates x = []"
  shows "strip db = x"
  using assms by (intro db.equality) simp_all

lemma strip_eqD:
  assumes "strip db = x"
  shows "map strip_session (t_sessions db) = t_sessions x \<and> t_events db = t_events x
    \<and> t_attempts db = t_attempts x \<and> t_history db = t_history x
    \<and> t_operations db = t_operations x \<and> t_requests db = t_requests x
    \<and> t_op_attempts db = t_op_attempts x \<and> t_waits db = t_waits x
    \<and> t_receipts db = t_receipts x \<and> t_retries db = t_retries x"
  using assms by auto

text \<open>
  Every table but the sessions and the log is left alone by an emission, and the sessions are
  the same up to the counter.
\<close>

lemma emit_update_frame [stmt_simps]:
  assumes "emit_update_with_event env sid kind payload source db = Inr db'"
  shows "t_events db' = t_events db \<and> t_attempts db' = t_attempts db
    \<and> t_history db' = t_history db \<and> t_operations db' = t_operations db
    \<and> t_requests db' = t_requests db \<and> t_op_attempts db' = t_op_attempts db
    \<and> t_waits db' = t_waits db \<and> t_receipts db' = t_receipts db
    \<and> t_retries db' = t_retries db
    \<and> map strip_session (t_sessions db') = map strip_session (t_sessions db)"
  using assms
  by (auto simp: emit_update_with_event_def result_simps dest!: update_sessions_Inr
      insert_update_Inr)

lemma emit_update_strip:
  assumes "emit_update_with_event env sid kind payload source db = Inr db'"
  shows "strip db' = strip db"
  using emit_update_frame [OF assms] by (simp add: strip_def)

end
