(* ===== verification/Sessions.thy ===== *)
theory Sessions
  imports UpdateLog
begin

text \<open>
  Session rows and the ordered inbox of \<open>packages/agent-store/src/store.rs\<close>: creating and
  patching sessions, admitting external events idempotently, claiming the head event under a
  lease, recording failures, abandoning attempts and retrying a blocked head.
  Definitions only; the invariant and the lemmas are in \<open>Inbox\<close>.
\<close>

section \<open>Session records\<close>

text \<open>\<open>SESSION_SELECT\<close>: the row and, computed by a subquery, the first blocked event.\<close>

definition blocked_event :: "db \<Rightarrow> session_id \<Rightarrow> event_id option" where
  "blocked_event db i = map_option e_id
     (first_by e_sequence (filter (\<lambda>e. e_status e = EvBlocked) (session_events db i)))"

definition session_record :: "session_id \<Rightarrow> db \<Rightarrow> store_error + session_row \<times> event_id option" where
  "session_record i db =
     bindR (ok_or (session_of db i) (SessionNotFound i)) (\<lambda>s. Inr (s, blocked_event db i))"

record new_session =
  n_id :: session_id
  n_project_id :: string
  n_harness_id :: string
  n_harness_version :: string
  n_configuration :: raw_json
  n_state :: raw_json
  n_name :: "string option"
  n_metadata :: json

text \<open>The columns the INSERT leaves out take the defaults of the migrations.\<close>

definition session_row_of :: "env \<Rightarrow> new_session \<Rightarrow> session_row" where
  "session_row_of env n =
     \<lparr>s_id = n_id n, s_project_id = n_project_id n, s_harness_id = n_harness_id n,
      s_harness_version = n_harness_version n, s_configuration = n_configuration n,
      s_name = n_name n, s_metadata = n_metadata n, s_status = SessIdle, s_state = n_state n,
      s_state_version = 0, s_next_event_sequence = 1, s_next_history_sequence = 1,
      s_next_update_sequence = 1, s_retained_update_sequence = 1, s_processing_enabled = True,
      s_processing_error = None, s_processing_revision = 0, s_current_event_id = None,
      s_lease_token = None, s_lease_expires_at = None,
      s_created_at = env_now env, s_updated_at = env_now env\<rparr>"

definition create_session ::
    "env \<Rightarrow> new_session \<Rightarrow> db \<Rightarrow> store_error + (session_row \<times> event_id option) \<times> db" where
  "create_session env n db =
     (case insert_session (session_row_of env n) db of
        Inl e \<Rightarrow>
          Inl (if e = Database (UniqueViolation ''sessions_pkey'')
               then SessionAlreadyExists (n_id n) else e)
      | Inr db \<Rightarrow> bindR (session_record (n_id n) db) (\<lambda>r. Inr (r, db)))"

text \<open>\<open>name\<close> is \<open>Option<Option<String>>\<close>: absent, cleared, or replaced.\<close>

definition patch_session_metadata ::
    "env \<Rightarrow> session_id \<Rightarrow> string option option \<Rightarrow> json option \<Rightarrow> db
     \<Rightarrow> store_error + (session_row \<times> event_id option) \<times> db" where
  "patch_session_metadata env i name metadata db =
     bindR (update_sessions (\<lambda>s. s_id s = i)
        (\<lambda>s. s\<lparr>s_name := override name (s_name s), s_metadata := override metadata (s_metadata s),
               s_updated_at := env_now env\<rparr>) db) (\<lambda>db'.
     bindR (guardR (session_of db i \<noteq> None) (SessionNotFound i)) (\<lambda>_.
     bindR (emit_update env i SessionChanged (SessionRef i) db') (\<lambda>db.
     bindR (session_record i db) (\<lambda>r. Inr (r, db)))))"

section \<open>External inputs\<close>

record new_external_event =
  x_session_id :: session_id
  x_type :: event_type
  x_payload :: raw_json
  x_key :: "string option"

datatype enqueue_result = Inserted event_row | Existing event_row

text \<open>A new inbox row: pending, with the defaults of the migrations.\<close>

definition new_event ::
    "env \<Rightarrow> event_id \<Rightarrow> session_id \<Rightarrow> int \<Rightarrow> event_type \<Rightarrow> event_payload \<Rightarrow> operation_id option
     \<Rightarrow> wait_id option \<Rightarrow> string option \<Rightarrow> string option \<Rightarrow> event_row" where
  "new_event env i sid seq ty payload oid wid key hash =
     \<lparr>e_id = i, e_session_id = sid, e_sequence = seq, e_type = ty, e_payload = payload,
      e_operation_id = oid, e_wait_id = wid, e_idempotency_key = key, e_request_hash = hash,
      e_status = EvPending, e_next_attempt_at = env_now env, e_last_error = None,
      e_created_at = env_now env, e_handled_at = None, e_retry_failure_baseline = 0\<rparr>"

text \<open>\<open>lock_session_sequence\<close> and \<open>advance_event_sequence\<close>.\<close>

definition lock_session_sequence :: "session_id \<Rightarrow> db \<Rightarrow> store_error + int" where
  "lock_session_sequence i db =
     bindR (ok_or (session_of db i) (SessionNotFound i)) (\<lambda>s. Inr (s_next_event_sequence s))"

definition advance_event_sequence :: "env \<Rightarrow> session_id \<Rightarrow> db \<Rightarrow> store_error + db" where
  "advance_event_sequence env i db =
     update_sessions (\<lambda>s. s_id s = i)
       (\<lambda>s. s\<lparr>s_next_event_sequence := s_next_event_sequence s + 1, s_updated_at := env_now env\<rparr>) db"

definition idempotent_event :: "db \<Rightarrow> session_id \<Rightarrow> event_type \<Rightarrow> string \<Rightarrow> event_row option" where
  "idempotent_event db i ty key =
     List.find (\<lambda>e. e_session_id e = i \<and> e_type e = ty \<and> e_idempotency_key e = Some key)
       (t_events db)"

definition enqueue_external_event ::
    "env \<Rightarrow> new_external_event \<Rightarrow> db \<Rightarrow> store_error + enqueue_result \<times> db" where
  "enqueue_external_event env x db =
     bindR (guardR (x_type x = EvUserMessage \<or> x_type x = EvCancellationRequested)
       (InvalidInput ''only user messages and cancellation requests are external inputs'')) (\<lambda>_.
     let hash = map_option (\<lambda>_. fingerprint env (x_payload x)) (x_key x) in
     bindR (lock_session_sequence (x_session_id x) db) (\<lambda>seq.
     case Option.bind (x_key x) (idempotent_event db (x_session_id x) (x_type x)) of
       Some e \<Rightarrow>
         (if e_request_hash e \<noteq> hash then Inl IdempotencyConflict else Inr (Existing e, db))
     | None \<Rightarrow>
         (let e = new_event env (env_uuid env 0) (x_session_id x) seq (x_type x)
                    (RawPayload (x_payload x)) None None (x_key x) hash in
          bindR (insert_event e db) (\<lambda>db.
          bindR (advance_event_sequence env (x_session_id x) db) (\<lambda>db.
          bindR (emit_update env (x_session_id x) EventChanged
                   (EventRef (e_id e) (Some EvPending)) db) (\<lambda>db.
          Inr (Inserted e, db)))))))"

definition event :: "event_id \<Rightarrow> db \<Rightarrow> store_error + event_row" where
  "event i db = ok_or (event_of db i) (EventNotFound i)"

section \<open>Attempts and failure counts\<close>

definition handler_attempt_status :: "uuid \<Rightarrow> db \<Rightarrow> attempt_status option" where
  "handler_attempt_status i db = map_option a_status (row_by a_id i (t_attempts db))"

definition errored_attempts :: "event_id \<Rightarrow> db \<Rightarrow> int" where
  "errored_attempts i db =
     int (length (filter (\<lambda>a. a_event_id a = i \<and> a_status a = AtErrored) (t_attempts db)))"

definition handler_failure_count :: "event_id \<Rightarrow> db \<Rightarrow> store_error + int" where
  "handler_failure_count i db =
     bindR (ok_or (event_of db i) (Database RowNotFound)) (\<lambda>e.
     Inr (errored_attempts i db - e_retry_failure_baseline e))"

section \<open>Retrying a blocked head\<close>

definition unhandled :: "event_status \<Rightarrow> bool" where
  "unhandled st \<longleftrightarrow> st = EvPending \<or> st = EvProcessing \<or> st = EvBlocked"

text \<open>The head of a session's inbox: the unhandled event with the least sequence.\<close>

definition head_event :: "db \<Rightarrow> session_id \<Rightarrow> event_row option" where
  "head_event db i = first_by e_sequence (filter (\<lambda>e. unhandled (e_status e)) (session_events db i))"

record processing_retry =
  pr_session_id :: session_id
  pr_event_id :: event_id
  pr_revision :: int
  pr_retried_at :: time

definition retry_row_of :: "db \<Rightarrow> session_id \<Rightarrow> string \<Rightarrow> retry_row option" where
  "retry_row_of db i key = List.find (\<lambda>p. p_session_id p = i \<and> p_key p = key) (t_retries db)"

definition retry_blocked_event ::
    "env \<Rightarrow> session_id \<Rightarrow> event_id \<Rightarrow> int \<Rightarrow> string \<Rightarrow> raw_json \<Rightarrow> string option \<Rightarrow> db
     \<Rightarrow> store_error + processing_retry \<times> db" where
  "retry_blocked_event env sid eid expected_revision key request reason db =
     bindR (ok_or (session_of db sid) (SessionNotFound sid)) (\<lambda>s.
     let request_hash = fingerprint env request in
     case retry_row_of db sid key of
       Some p \<Rightarrow>
         (if p_request_hash p \<noteq> request_hash then Inl IdempotencyConflict
          else Inr (\<lparr>pr_session_id = sid, pr_event_id = p_event_id p,
                     pr_revision = p_revision p, pr_retried_at = p_created_at p\<rparr>, db))
     | None \<Rightarrow>
         (let matches_head = (case head_event db sid of
                None \<Rightarrow> False | Some e \<Rightarrow> e_id e = eid \<and> e_status e = EvBlocked) in
          bindR (guardR (\<not> s_processing_enabled s \<and> s_processing_revision s = expected_revision
             \<and> s_current_event_id s = None \<and> s_lease_token s = None \<and> matches_head)
             StaleProcessingRetry) (\<lambda>_.
            let failure_baseline = errored_attempts eid db;
                next_revision = s_processing_revision s + 1 in
            bindR (update_events (\<lambda>e. e_id e = eid)
              (\<lambda>e. e\<lparr>e_status := EvPending, e_next_attempt_at := env_clock env 0,
                     e_last_error := None, e_retry_failure_baseline := failure_baseline\<rparr>) db) (\<lambda>db.
            bindR (update_sessions (\<lambda>s. s_id s = sid)
              (\<lambda>s. s\<lparr>s_processing_enabled := True, s_processing_error := None,
                     s_processing_revision := next_revision, s_updated_at := env_now env\<rparr>) db) (\<lambda>db.
            bindR (insert_retry \<lparr>p_id = env_uuid env 0, p_session_id = sid, p_key = key,
              p_request_hash = request_hash, p_event_id = eid,
              p_expected_revision = expected_revision, p_revision = next_revision,
              p_reason = reason, p_created_at = env_now env\<rparr> db) (\<lambda>db.
            bindR (emit_update env sid ProcessingChanged (ProcessingRef eid (Some next_revision)) db) (\<lambda>db.
            bindR (emit_update env sid EventChanged (EventRef eid (Some EvPending)) db) (\<lambda>db.
            Inr (\<lparr>pr_session_id = sid, pr_event_id = eid, pr_revision = next_revision,
                  pr_retried_at = env_now env\<rparr>, db)))))))))"

section \<open>Claiming the head event\<close>

record handler_claim =
  c_session_id :: session_id
  c_event_id :: event_id
  c_attempt_id :: uuid
  c_lease_token :: uuid
  c_input_state_version :: int

record claimed_event =
  ce_session :: "session_row \<times> event_id option"
  ce_event :: event_row
  ce_attempt_id :: uuid
  ce_attempt_number :: int
  ce_lease_token :: uuid
  ce_history_through :: int

definition claim_of :: "claimed_event \<Rightarrow> handler_claim" where
  "claim_of ce = \<lparr>c_session_id = s_id (fst (ce_session ce)), c_event_id = e_id (ce_event ce),
     c_attempt_id = ce_attempt_id ce, c_lease_token = ce_lease_token ce,
     c_input_state_version = s_state_version (fst (ce_session ce))\<rparr>"

text \<open>\<open>lease_token IS NULL OR lease_expires_at <= clock\<close>. A comparison with NULL is not true.\<close>

definition lease_free :: "uuid option \<Rightarrow> time option \<Rightarrow> time \<Rightarrow> bool" where
  "lease_free token expires now \<longleftrightarrow>
     token = None \<or> (case expires of None \<Rightarrow> False | Some t \<Rightarrow> t \<le> now)"

text \<open>The candidate query: the session joined with its head event.\<close>

definition claimable :: "time \<Rightarrow> db \<Rightarrow> session_row \<Rightarrow> event_row option" where
  "claimable now db s =
     (case head_event db (s_id s) of
        None \<Rightarrow> None
      | Some e \<Rightarrow>
          if s_processing_enabled s
             \<and> lease_free (s_lease_token s) (s_lease_expires_at s) now
             \<and> (e_status e = EvPending \<or> e_status e = EvProcessing) \<and> e_next_attempt_at e \<le> now
          then Some e else None)"

definition claim_candidate :: "env \<Rightarrow> db \<Rightarrow> (session_id \<times> event_id) option" where
  "claim_candidate env db =
     map_option (\<lambda>(s, e). (s_id s, e_id e))
       (first_by (\<lambda>(s, e). (e_next_attempt_at e, s_updated_at s, s_id s))
         (List.map_filter
            (\<lambda>s. if env_skip env (s_id s) then None
                 else map_option (\<lambda>e. (s, e)) (claimable (env_clock env 0) db s))
            (t_sessions db)))"

definition max_number :: "int list \<Rightarrow> int" where
  "max_number ns = fold max ns 0"

text \<open>The rest of the transaction, for the session and event the candidate query returned.\<close>

definition claim_event_at ::
    "env \<Rightarrow> nat \<Rightarrow> session_id \<Rightarrow> event_id \<Rightarrow> db \<Rightarrow> store_error + claimed_event \<times> db" where
  "claim_event_at env lease_for sid eid db =
     bindR (update_attempts (\<lambda>a. a_event_id a = eid \<and> a_status a = AtRunning)
       (\<lambda>a. a\<lparr>a_status := AtAbandoned, a_finished_at := Some (env_now env)\<rparr>) db) (\<lambda>db.
     let number = max_number (map a_number (filter (\<lambda>a. a_event_id a = eid) (t_attempts db))) + 1;
         token = env_uuid env 0; attempt = env_uuid env 1 in
     bindR (duration_millis lease_for) (\<lambda>lease_ms.
     bindR (update_sessions (\<lambda>s. s_id s = sid)
       (\<lambda>s. s\<lparr>s_current_event_id := Some eid, s_lease_token := Some token,
              s_lease_expires_at := Some (add_millis (env_clock env 1) lease_ms),
              s_updated_at := env_now env\<rparr>) db) (\<lambda>db.
     bindR (ok_or (session_of db sid) (Database RowNotFound)) (\<lambda>s.
     bindR (update_events (\<lambda>e. e_id e = eid) (\<lambda>e. e\<lparr>e_status := EvProcessing\<rparr>) db) (\<lambda>db.
     let history_through = s_next_history_sequence s - 1 in
     bindR (insert_attempt \<lparr>a_id = attempt, a_event_id = eid, a_number = number,
       a_lease_token = token, a_input_state_version = s_state_version s,
       a_history_through = history_through, a_status = AtRunning, a_error = None,
       a_started_at = env_now env, a_finished_at = None\<rparr> db) (\<lambda>db.
     bindR (ok_or (event_of db eid) (Database RowNotFound)) (\<lambda>e.
     let ce = \<lparr>ce_session = (s, blocked_event db sid), ce_event = e, ce_attempt_id = attempt,
               ce_attempt_number = number, ce_lease_token = token,
               ce_history_through = history_through\<rparr> in
     bindR (emit_update env sid EventChanged (EventRef eid (Some EvProcessing)) db) (\<lambda>db.
     Inr (ce, db)))))))))"

definition claim_next_event :: "env \<Rightarrow> nat \<Rightarrow> db \<Rightarrow> store_error + claimed_event option \<times> db" where
  "claim_next_event env lease_for db =
     (case claim_candidate env db of
        None \<Rightarrow> Inr (None, db)
      | Some (sid, eid) \<Rightarrow>
          bindR (claim_event_at env lease_for sid eid db) (\<lambda>(ce, db). Inr (Some ce, db)))"

section \<open>Holding and giving up a claim\<close>

text \<open>\<open>lock_valid_session_claim\<close>: the next history sequence and the state version, if the
  claim still owns the session at \<open>now\<close>.\<close>

definition lock_valid_session_claim ::
    "time \<Rightarrow> handler_claim \<Rightarrow> db \<Rightarrow> store_error + int \<times> int" where
  "lock_valid_session_claim now claim db =
     bindR (ok_or (session_of db (c_session_id claim)) (SessionNotFound (c_session_id claim))) (\<lambda>s.
     if s_current_event_id s \<noteq> Some (c_event_id claim)
        \<or> s_lease_token s \<noteq> Some (c_lease_token claim)
        \<or> (case s_lease_expires_at s of None \<Rightarrow> True | Some t \<Rightarrow> t \<le> now)
     then Inl StaleClaim
     else Inr (s_next_history_sequence s, s_state_version s))"

definition release_session_claim :: "env \<Rightarrow> session_id \<Rightarrow> db \<Rightarrow> store_error + db" where
  "release_session_claim env sid db =
     update_sessions (\<lambda>s. s_id s = sid)
       (\<lambda>s. s\<lparr>s_current_event_id := None, s_lease_token := None, s_lease_expires_at := None,
              s_updated_at := env_now env\<rparr>) db"

definition renew_event_claim :: "env \<Rightarrow> handler_claim \<Rightarrow> nat \<Rightarrow> db \<Rightarrow> store_error + db" where
  "renew_event_claim env claim lease_for db =
     bindR (lock_valid_session_claim (env_clock env 0) claim db) (\<lambda>_.
     bindR (duration_millis lease_for) (\<lambda>lease_ms.
     update_sessions (\<lambda>s. s_id s = c_session_id claim)
       (\<lambda>s. s\<lparr>s_lease_expires_at := Some (add_millis (env_clock env 1) lease_ms)\<rparr>) db))"

definition record_handler_failure ::
    "env \<Rightarrow> handler_claim \<Rightarrow> json \<Rightarrow> time \<Rightarrow> bool \<Rightarrow> db \<Rightarrow> store_error + db" where
  "record_handler_failure env claim error retry_at blocked db =
     bindR (lock_valid_session_claim (env_clock env 0) claim db) (\<lambda>_.
     bindR (update_attempts
       (\<lambda>a. a_id a = c_attempt_id claim \<and> a_lease_token a = c_lease_token claim
            \<and> a_status a = AtRunning)
       (\<lambda>a. a\<lparr>a_status := AtErrored, a_error := Some error,
              a_finished_at := Some (env_now env)\<rparr>) db) (\<lambda>db.
     let status = (if blocked then EvBlocked else EvPending) in
     bindR (update_events (\<lambda>e. e_id e = c_event_id claim)
       (\<lambda>e. e\<lparr>e_status := status, e_next_attempt_at := retry_at, e_last_error := Some error\<rparr>) db) (\<lambda>db.
     bindR (if blocked
            then update_sessions (\<lambda>s. s_id s = c_session_id claim)
                   (\<lambda>s. s\<lparr>s_processing_enabled := False, s_processing_error := Some error,
                          s_processing_revision := s_processing_revision s + 1,
                          s_current_event_id := None, s_lease_token := None,
                          s_lease_expires_at := None, s_updated_at := env_now env\<rparr>) db
            else release_session_claim env (c_session_id claim) db) (\<lambda>db.
     bindR (emit_update env (c_session_id claim) EventChanged
              (EventRef (c_event_id claim) (Some status)) db) (\<lambda>db.
     if blocked
     then emit_update env (c_session_id claim) ProcessingChanged
            (ProcessingRef (c_event_id claim) None) db
     else Inr db)))))"

definition abandon_handler_attempt ::
    "env \<Rightarrow> handler_claim \<Rightarrow> json \<Rightarrow> time \<Rightarrow> db \<Rightarrow> store_error + db" where
  "abandon_handler_attempt env claim error retry_at db =
     bindR (lock_valid_session_claim (env_clock env 0) claim db) (\<lambda>_.
     bindR (update_attempts
       (\<lambda>a. a_id a = c_attempt_id claim \<and> a_lease_token a = c_lease_token claim
            \<and> a_status a = AtRunning)
       (\<lambda>a. a\<lparr>a_status := AtAbandoned, a_error := Some error,
              a_finished_at := Some (env_now env)\<rparr>) db) (\<lambda>db.
     bindR (update_events (\<lambda>e. e_id e = c_event_id claim)
       (\<lambda>e. e\<lparr>e_status := EvPending, e_next_attempt_at := retry_at,
              e_last_error := Some error\<rparr>) db) (\<lambda>db.
     bindR (release_session_claim env (c_session_id claim) db) (\<lambda>db.
     emit_update env (c_session_id claim) EventChanged
       (EventRef (c_event_id claim) (Some EvPending)) db))))"

end
