(* ===== verification/Inbox.thy ===== *)
theory Inbox
  imports Sessions
begin

text \<open>
  The invariant of the ordered inbox and what every operation of \<open>Sessions\<close> does to it. A
  session's events carry the numbers \<open>1, 2, ...\<close> without a gap; their statuses are a run of
  handled events, at most one event that is being worked on or blocked, and a tail of pending
  ones; and the event in processing is exactly the one the session's lease names.
\<close>

section \<open>The invariant\<close>

fun fifo :: "event_status list \<Rightarrow> bool" where
  "fifo [] = True"
| "fifo (st # sts) = (if st = EvHandled then fifo sts else list_all (\<lambda>x. x = EvPending) sts)"

definition session_inbox_ok :: "session_row \<Rightarrow> event_row list \<Rightarrow> bool" where
  "session_inbox_ok s evs \<longleftrightarrow>
     1 \<le> s_next_event_sequence s
     \<and> map e_sequence evs = [1..s_next_event_sequence s - 1]
     \<and> fifo (map e_status evs)
     \<and> list_all (\<lambda>e. e_status e = EvProcessing \<longleftrightarrow> s_current_event_id s = Some (e_id e)) evs
     \<and> opt_ref (\<lambda>i. i \<in> e_id ` set evs) (s_current_event_id s)"

definition inbox_ok :: "db \<Rightarrow> bool" where
  "inbox_ok db \<longleftrightarrow>
     distinct (map s_id (t_sessions db)) \<and> distinct (map e_id (t_events db))
     \<and> list_all (\<lambda>e. e_session_id e \<in> s_id ` set (t_sessions db)) (t_events db)
     \<and> list_all (\<lambda>s. session_inbox_ok s (session_events db (s_id s))) (t_sessions db)"

lemma session_inbox_ok_strip [simp]:
  "session_inbox_ok (strip_session s) evs = session_inbox_ok s evs"
  by (simp add: session_inbox_ok_def)

lemma session_events_strip [simp]: "session_events (strip db) i = session_events db i"
  by (simp add: session_events_def)

lemma s_id_strip_image [simp]: "s_id ` strip_session ` A = s_id ` A"
  by (simp add: image_image)

lemma comp_s_id_strip [simp]: "s_id \<circ> strip_session = s_id"
  by (rule ext) simp

lemma inbox_ok_strip [simp]: "inbox_ok (strip db) = inbox_ok db"
  by (simp add: inbox_ok_def list.pred_map comp_def)

section \<open>Shape of a session's inbox\<close>

lemma fifo_append_pending: "fifo xs \<Longrightarrow> fifo (xs @ [EvPending])"
  by (induction xs) auto

lemma fifo_all_pending: "list_all (\<lambda>x. x = EvPending) xs \<Longrightarrow> fifo xs"
  by (cases xs) auto

lemma fifo_handled_prefix:
  "list_all (\<lambda>e. e_status e = EvHandled) hs \<Longrightarrow>
     fifo (map e_status hs @ sts) = fifo sts"
  by (induction hs) auto

text \<open>An unhandled event splits the inbox: handled before the first one, pending after it.\<close>

lemma fifo_split:
  assumes "fifo (map e_status evs)" and "e \<in> set evs" and "unhandled (e_status e)"
  shows "\<exists>hs d ps. evs = hs @ d # ps \<and> unhandled (e_status d)
    \<and> list_all (\<lambda>e. e_status e = EvHandled) hs \<and> list_all (\<lambda>e. e_status e = EvPending) ps"
  using assms
proof (induction evs)
  case Nil
  then show ?case by simp
next
  case (Cons x xs)
  show ?case
  proof (cases "e_status x = EvHandled")
    case True
    with Cons.prems have "e \<in> set xs" and "fifo (map e_status xs)"
      by (auto simp: unhandled_def)
    with Cons obtain hs d ps where
      "xs = hs @ d # ps" "unhandled (e_status d)"
      "list_all (\<lambda>e. e_status e = EvHandled) hs" "list_all (\<lambda>e. e_status e = EvPending) ps"
      by blast
    with True have "x # xs = (x # hs) @ d # ps \<and> unhandled (e_status d)
      \<and> list_all (\<lambda>e. e_status e = EvHandled) (x # hs)
      \<and> list_all (\<lambda>e. e_status e = EvPending) ps" by simp
    then show ?thesis by blast
  next
    case False
    then have "unhandled (e_status x)" by (cases "e_status x") (auto simp: unhandled_def)
    moreover have "list_all (\<lambda>e. e_status e = EvPending) xs"
      using Cons.prems False by (simp add: list.pred_map comp_def)
    ultimately have "x # xs = [] @ x # xs \<and> unhandled (e_status x)
      \<and> list_all (\<lambda>e. e_status e = EvHandled) []
      \<and> list_all (\<lambda>e. e_status e = EvPending) xs" by simp
    then show ?thesis by blast
  qed
qed

text \<open>An event in processing or blocked is itself the split point.\<close>

lemma fifo_split_at:
  assumes "fifo (map e_status evs)" and "e \<in> set evs"
    and "e_status e = EvProcessing \<or> e_status e = EvBlocked"
  shows "\<exists>hs ps. evs = hs @ e # ps
    \<and> list_all (\<lambda>e. e_status e = EvHandled) hs \<and> list_all (\<lambda>e. e_status e = EvPending) ps"
proof -
  have "unhandled (e_status e)" using assms(3) by (auto simp: unhandled_def)
  then obtain hs d ps where *: "evs = hs @ d # ps"
    "list_all (\<lambda>e. e_status e = EvHandled) hs" "list_all (\<lambda>e. e_status e = EvPending) ps"
    using fifo_split [OF assms(1,2)] by blast
  then have "e = d" using assms(2,3) by (auto simp: list_all_iff)
  with * show ?thesis by blast
qed

lemma sorted_sequences:
  "session_inbox_ok s evs \<Longrightarrow> sorted (map e_sequence evs)"
  by (simp add: session_inbox_ok_def sorted_upto_int)

lemma head_event_find:
  assumes "session_inbox_ok s (session_events db i)"
  shows "head_event db i = List.find (\<lambda>e. unhandled (e_status e)) (session_events db i)"
proof -
  let ?evs = "session_events db i"
  have "sorted (map e_sequence (filter (\<lambda>e. unhandled (e_status e)) ?evs))"
    using assms by (intro sorted_filter_key sorted_sequences)
  then show ?thesis by (simp add: head_event_def first_by_sorted find_filter)
qed

lemma head_event_split:
  assumes ok: "session_inbox_ok s (session_events db i)" and head: "head_event db i = Some e"
  shows "\<exists>hs ps. session_events db i = hs @ e # ps \<and> unhandled (e_status e)
    \<and> list_all (\<lambda>e. e_status e = EvHandled) hs \<and> list_all (\<lambda>e. e_status e = EvPending) ps"
proof -
  let ?evs = "session_events db i"
  have found: "List.find (\<lambda>e. unhandled (e_status e)) ?evs = Some e"
    using head by (simp add: head_event_find [OF ok])
  then have mem: "e \<in> set ?evs" "unhandled (e_status e)"
    by (auto simp: find_Some_iff)
  have "fifo (map e_status ?evs)" using ok by (simp add: session_inbox_ok_def)
  then obtain hs d ps where *: "?evs = hs @ d # ps" "unhandled (e_status d)"
    "list_all (\<lambda>e. e_status e = EvHandled) hs" "list_all (\<lambda>e. e_status e = EvPending) ps"
    using fifo_split [OF _ mem] by blast
  have "List.find (\<lambda>e. unhandled (e_status e)) (hs @ d # ps) = Some d"
    using *(2,3) by (induction hs) (auto simp: unhandled_def)
  with found *(1) have "e = d" by simp
  with * show ?thesis by blast
qed

section \<open>Local preservation\<close>

lemma session_inbox_ok_append:
  assumes "session_inbox_ok s evs"
    and "e_sequence e = s_next_event_sequence s" and "e_status e = EvPending"
    and "e_id e \<notin> e_id ` set evs"
    and "s_next_event_sequence s' = s_next_event_sequence s + 1"
    and "s_current_event_id s' = s_current_event_id s"
  shows "session_inbox_ok s' (evs @ [e])"
proof -
  have "[1..s_next_event_sequence s] = [1..s_next_event_sequence s - 1] @ [s_next_event_sequence s]"
    using assms(1) by (simp add: session_inbox_ok_def upto_next)
  then show ?thesis
    using assms
    by (auto simp: session_inbox_ok_def opt_ref_def fifo_append_pending list_all_iff image_iff
        split: option.splits)
qed

text \<open>The head changes its status, and the session's claim with it.\<close>

lemma session_inbox_ok_head:
  assumes ok: "session_inbox_ok s (hs @ e # ps)"
    and dist: "distinct (map e_id (hs @ e # ps))"
    and hs: "list_all (\<lambda>e. e_status e = EvHandled) hs"
    and ps: "list_all (\<lambda>e. e_status e = EvPending) ps"
    and "e_id e' = e_id e" and "e_sequence e' = e_sequence e"
    and "s_next_event_sequence s' = s_next_event_sequence s"
    and cur: "s_current_event_id s'
      = (if e_status e' = EvProcessing then Some (e_id e) else None)"
  shows "session_inbox_ok s' (hs @ e' # ps)"
proof -
  have pend: "list_all (\<lambda>x. x = EvPending) (map e_status ps)"
    using ps by (simp add: list.pred_map comp_def)
  then have "fifo (map e_status (hs @ e' # ps))"
    using hs by (simp add: fifo_handled_prefix fifo_all_pending)
  moreover have "list_all (\<lambda>x. e_status x = EvProcessing
      \<longleftrightarrow> s_current_event_id s' = Some (e_id x)) (hs @ e' # ps)"
    using cur hs ps dist assms(5) by (auto simp: list_all_iff image_iff)
  ultimately show ?thesis
    using assms by (auto simp: session_inbox_ok_def opt_ref_def)
qed

section \<open>From one session to the database\<close>

lemma session_of_Some: "session_of db i = Some s \<Longrightarrow> s \<in> set (t_sessions db) \<and> s_id s = i"
  unfolding session_of_def by (rule row_by_Some)

lemma event_of_Some: "event_of db i = Some e \<Longrightarrow> e \<in> set (t_events db) \<and> e_id e = i"
  unfolding event_of_def by (rule row_by_Some)

lemma session_events_mem:
  "e \<in> set (session_events db i) \<longleftrightarrow> e \<in> set (t_events db) \<and> e_session_id e = i"
  by (auto simp: session_events_def)

lemma inbox_okD:
  assumes "inbox_ok db"
  shows "distinct (map s_id (t_sessions db))" and "distinct (map e_id (t_events db))"
    and "\<And>e. e \<in> set (t_events db) \<Longrightarrow> e_session_id e \<in> s_id ` set (t_sessions db)"
    and "\<And>s. s \<in> set (t_sessions db) \<Longrightarrow> session_inbox_ok s (session_events db (s_id s))"
    and "distinct (map e_id (session_events db i))"
  using assms by (auto simp: inbox_ok_def list_all_iff session_events_def distinct_map inj_on_def)

lemma inbox_ok_session:
  "inbox_ok db \<Longrightarrow> session_of db i = Some s \<Longrightarrow> session_inbox_ok s (session_events db i)"
  using session_of_Some inbox_okD(4) by metis

lemma session_events_update:
  "(\<And>e. e_session_id (g e) = e_session_id e) \<Longrightarrow>
     filter (\<lambda>e. e_session_id e = i) (row_update p g evs)
     = row_update p g (filter (\<lambda>e. e_session_id e = i) evs)"
  by (rule filter_row_update) simp

lemma inbox_ok_cong:
  assumes "inbox_ok db"
    and "t_events db' = t_events db"
    and "map (\<lambda>s. (s_id s, s_next_event_sequence s, s_current_event_id s)) (t_sessions db')
       = map (\<lambda>s. (s_id s, s_next_event_sequence s, s_current_event_id s)) (t_sessions db)"
  shows "inbox_ok db'"
proof -
  let ?c = "\<lambda>s. (s_id s, s_next_event_sequence s, s_current_event_id s)"
  have ids: "map s_id (t_sessions db') = map s_id (t_sessions db)"
    using arg_cong [OF assms(3), of "map fst"] by (simp add: comp_def)
  have evs: "session_events db' i = session_events db i" for i
    using assms(2) by (simp add: session_events_def)
  have "session_inbox_ok s (session_events db' (s_id s))" if "s \<in> set (t_sessions db')" for s
  proof -
    have "?c s \<in> set (map ?c (t_sessions db'))" using that by simp
    then have "?c s \<in> set (map ?c (t_sessions db))" by (simp only: assms(3))
    then obtain q where "q \<in> set (t_sessions db)" "?c s = ?c q" by auto
    with assms(1) show ?thesis
      using inbox_okD(4) [OF assms(1), of q] by (simp add: evs session_inbox_ok_def)
  qed
  moreover have "s_id ` set (t_sessions db') = s_id ` set (t_sessions db)"
    using ids by (metis set_map)
  ultimately show ?thesis
    using assms(1,2) ids by (simp add: inbox_ok_def list_all_iff)
qed

text \<open>A change of one session's row and of one of its events, checked locally.\<close>

lemma inbox_ok_change:
  assumes ok: "inbox_ok db"
    and ss: "t_sessions db' = row_update (\<lambda>s. s_id s = sid) f (t_sessions db)"
    and f: "\<And>s. s_id (f s) = s_id s"
    and es: "t_events db' = row_update (\<lambda>e. e_id e = eid) g (t_events db)"
    and g: "\<And>e. e_id (g e) = e_id e" "\<And>e. e_session_id (g e) = e_session_id e"
    and owner: "\<And>e. e \<in> set (t_events db) \<Longrightarrow> e_id e = eid \<Longrightarrow> e_session_id e = sid"
    and loc: "\<And>s. s \<in> set (t_sessions db) \<Longrightarrow> s_id s = sid \<Longrightarrow>
        session_inbox_ok (f s) (row_update (\<lambda>e. e_id e = eid) g (session_events db sid))"
  shows "inbox_ok db'"
proof -
  have ids: "map s_id (t_sessions db') = map s_id (t_sessions db)"
    and eids: "map e_id (t_events db') = map e_id (t_events db)"
    and esids: "map e_session_id (t_events db') = map e_session_id (t_events db)"
    using ss f es g by simp_all
  have evs: "session_events db' i = row_update (\<lambda>e. e_id e = eid) g (session_events db i)" for i
    using es g by (simp add: session_events_def session_events_update)
  have other: "session_events db' i = session_events db i" if "i \<noteq> sid" for i
    unfolding evs using that owner by (intro row_update_idle) (auto simp: session_events_mem)
  have "session_inbox_ok s (session_events db' (s_id s))" if "s \<in> set (t_sessions db')" for s
  proof -
    from that obtain q where q: "q \<in> set (t_sessions db)"
      and s: "s = (if s_id q = sid then f q else q)"
      unfolding ss set_row_update by blast
    show ?thesis
    proof (cases "s_id q = sid")
      case True
      then have "s = f q" "s_id s = sid" using s f by simp_all
      then show ?thesis using loc [OF q True] evs by simp
    next
      case False
      then show ?thesis using s other inbox_okD(4) [OF ok q] by simp
    qed
  qed
  moreover have "e_session_id ` set (t_events db') = e_session_id ` set (t_events db)"
    "s_id ` set (t_sessions db') = s_id ` set (t_sessions db)"
    using ids esids by (metis set_map)+
  ultimately show ?thesis
    using ok ids eids by (auto simp: inbox_ok_def list_all_iff image_subset_iff [symmetric])
qed

text \<open>New pending events, numbered from the session's counter.\<close>

lemma inbox_ok_append:
  assumes ok: "inbox_ok db"
    and ss: "t_sessions db' = row_update (\<lambda>s. s_id s = sid) f (t_sessions db)"
    and f: "\<And>s. s_id (f s) = s_id s" "\<And>s. s_current_event_id (f s) = s_current_event_id s"
    and es: "t_events db' = t_events db @ [e]"
    and e: "e_session_id e = sid" "e_status e = EvPending" "e_id e \<notin> e_id ` set (t_events db)"
    and mem: "sid \<in> s_id ` set (t_sessions db)"
    and num: "\<And>s. s \<in> set (t_sessions db) \<Longrightarrow> s_id s = sid \<Longrightarrow>
        e_sequence e = s_next_event_sequence s \<and>
        s_next_event_sequence (f s) = s_next_event_sequence s + 1"
  shows "inbox_ok db'"
proof -
  have ids: "map s_id (t_sessions db') = map s_id (t_sessions db)"
    using ss f by simp
  then have idset: "s_id ` set (t_sessions db') = s_id ` set (t_sessions db)"
    by (metis set_map)
  have evs: "session_events db' i
      = (if i = sid then session_events db i @ [e] else session_events db i)" for i
    using es e(1) by (simp add: session_events_def)
  have "session_inbox_ok s (session_events db' (s_id s))" if "s \<in> set (t_sessions db')" for s
  proof -
    from that obtain q where q: "q \<in> set (t_sessions db)"
      and s: "s = (if s_id q = sid then f q else q)"
      unfolding ss set_row_update by blast
    have qok: "session_inbox_ok q (session_events db (s_id q))" by (rule inbox_okD(4) [OF ok q])
    show ?thesis
    proof (cases "s_id q = sid")
      case True
      have "e_id e \<notin> e_id ` set (session_events db sid)"
        using e(3) by (auto simp: session_events_mem)
      with True show ?thesis
        using session_inbox_ok_append [OF qok] num [OF q True] e s f evs by simp
    next
      case False
      with qok s evs show ?thesis by simp
    qed
  qed
  then show ?thesis
    using ok ids idset es e mem by (auto simp: inbox_ok_def list_all_iff)
qed

section \<open>Claims\<close>

lemma lock_valid_session_claim_Inr:
  "lock_valid_session_claim now claim db = Inr (h, v) \<longleftrightarrow>
     (\<exists>s. session_of db (c_session_id claim) = Some s
        \<and> s_current_event_id s = Some (c_event_id claim)
        \<and> s_lease_token s = Some (c_lease_token claim)
        \<and> (\<exists>t. s_lease_expires_at s = Some t \<and> now < t)
        \<and> h = s_next_history_sequence s \<and> v = s_state_version s)"
  by (auto simp: lock_valid_session_claim_def result_simps split: if_splits option.splits)

text \<open>The event of a held claim is the head of its session's inbox.\<close>

lemma claimed_event_split:
  assumes ok: "inbox_ok db" and s: "session_of db sid = Some s"
    and cur: "s_current_event_id s = Some eid"
  shows "\<exists>hs e ps. session_events db sid = hs @ e # ps \<and> e_id e = eid
    \<and> e_status e = EvProcessing \<and> e \<in> set (t_events db)
    \<and> list_all (\<lambda>e. e_status e = EvHandled) hs \<and> list_all (\<lambda>e. e_status e = EvPending) ps"
proof -
  let ?evs = "session_events db sid"
  have sok: "session_inbox_ok s ?evs" by (rule inbox_ok_session [OF ok s])
  then obtain e where e: "e \<in> set ?evs" "e_id e = eid"
    using cur by (auto simp: session_inbox_ok_def opt_ref_def)
  then have "e_status e = EvProcessing"
    using sok cur by (auto simp: session_inbox_ok_def list_all_iff)
  with fifo_split_at [of ?evs e] e sok show ?thesis
    by (auto simp: session_inbox_ok_def session_events_mem)
qed

text \<open>Every change of the head's status, with the claim cleared or set to match.\<close>

lemma inbox_ok_head_change:
  assumes ok: "inbox_ok db" and s: "session_of db sid = Some s"
    and split: "session_events db sid = hs @ e # ps"
      "list_all (\<lambda>e. e_status e = EvHandled) hs" "list_all (\<lambda>e. e_status e = EvPending) ps"
    and eid: "e_id e = eid"
    and ss: "t_sessions db' = row_update (\<lambda>s. s_id s = sid) f (t_sessions (strip db))"
    and es: "t_events db' = row_update (\<lambda>e. e_id e = eid) g (t_events db)"
    and f: "\<And>s. s_id (f s) = s_id s" "\<And>s. s_next_event_sequence (f s) = s_next_event_sequence s"
    and g: "\<And>e. e_id (g e) = e_id e" "\<And>e. e_session_id (g e) = e_session_id e"
      "\<And>e. e_sequence (g e) = e_sequence e"
    and cur: "s_current_event_id (f (strip_session s))
      = (if e_status (g e) = EvProcessing then Some eid else None)"
  shows "inbox_ok db'"
proof (rule inbox_ok_change [of "strip db", OF _ ss f(1) _ g(1,2)])
  have sess: "s \<in> set (t_sessions db)" "s_id s = sid"
    using session_of_Some [OF s] by simp_all
  have mem: "e \<in> set (t_events db)" "e_session_id e = sid"
    using split(1) session_events_mem [of e db sid] by simp_all
  show "inbox_ok (strip db)" using ok by simp
  show "t_events db' = row_update (\<lambda>e. e_id e = eid) g (t_events (strip db))" by (simp add: es)
  show "e_session_id d = sid" if "d \<in> set (t_events (strip db))" "e_id d = eid" for d
    using distinct_keyD [OF inbox_okD(2) [OF ok] _ mem(1), of d] that eid mem(2) by simp
  show "session_inbox_ok (f q) (row_update (\<lambda>e. e_id e = eid) g (session_events (strip db) sid))"
    if "q \<in> set (t_sessions (strip db))" "s_id q = sid" for q
  proof -
    from that(1) obtain r where r: "q = strip_session r" "r \<in> set (t_sessions db)" by auto
    then have q: "q = strip_session s"
      using distinct_keyD [OF inbox_okD(1) [OF ok] _ sess(1)] that(2) sess(2) by simp
    have dist: "distinct (map e_id (hs @ e # ps))"
      using inbox_okD(5) [OF ok, of sid] split(1) by simp
    have "session_inbox_ok q (hs @ e # ps)"
      using inbox_ok_session [OF ok s] split(1) by (simp add: q)
    then have "session_inbox_ok (f q) (hs @ g e # ps)"
      by (rule session_inbox_ok_head [OF _ dist split(2,3)]) (use f g cur eid q in simp_all)
    then show ?thesis
      using row_update_at [OF dist, of g] split(1) eid by simp
  qed
qed

text \<open>Every way a claim ends: the head gets a new status and the session's claim is cleared.\<close>

lemma inbox_ok_release:
  assumes ok: "inbox_ok db" and s: "session_of db sid = Some s"
    and cur: "s_current_event_id s = Some eid"
    and ss: "t_sessions db' = row_update (\<lambda>s. s_id s = sid) f (t_sessions (strip db))"
    and es: "t_events db' = row_update (\<lambda>e. e_id e = eid) g (t_events db)"
    and f: "\<And>s. s_id (f s) = s_id s" "\<And>s. s_next_event_sequence (f s) = s_next_event_sequence s"
      "\<And>s. s_current_event_id (f s) = None"
    and g: "\<And>e. e_id (g e) = e_id e" "\<And>e. e_session_id (g e) = e_session_id e"
      "\<And>e. e_sequence (g e) = e_sequence e" "\<And>e. e_status (g e) \<noteq> EvProcessing"
  shows "inbox_ok db'"
proof -
  obtain hs e ps where split: "session_events db sid = hs @ e # ps" "e_id e = eid"
    "list_all (\<lambda>e. e_status e = EvHandled) hs" "list_all (\<lambda>e. e_status e = EvPending) ps"
    using claimed_event_split [OF ok s cur] by blast
  show ?thesis
    by (rule inbox_ok_head_change [OF ok s split(1,3,4,2) ss es f(1,2) g(1,2,3)])
      (simp add: f(3) g(4))
qed

section \<open>Several new events at once\<close>

lemma fifo_append_all_pending:
  "fifo xs \<Longrightarrow> list_all (\<lambda>x. x = EvPending) ys \<Longrightarrow> fifo (xs @ ys)"
  by (induction xs) (auto simp: fifo_all_pending)

lemma upto_concat: "a \<le> m \<Longrightarrow> m \<le> n \<Longrightarrow> [a..m - 1] @ [m..n - 1] = [a..n - 1]" for a m n :: int
  by (cases "m = n") (simp_all add: upto_split1 [of a m "n - 1"])

text \<open>The events are numbered from the session's counter on, which moves past them.\<close>

definition fresh_events :: "db \<Rightarrow> session_id \<Rightarrow> int \<Rightarrow> event_row list \<Rightarrow> bool" where
  "fresh_events db sid n es \<longleftrightarrow>
     list_all (\<lambda>e. e_session_id e = sid \<and> e_status e = EvPending
       \<and> e_id e \<notin> e_id ` set (t_events db)) es
     \<and> distinct (map e_id es) \<and> map e_sequence es = [n..n + int (length es) - 1]"

lemma fresh_events_Nil [simp]: "fresh_events db sid n []"
  by (simp add: fresh_events_def)

lemma session_inbox_ok_extend:
  assumes "session_inbox_ok s evs" and es: "fresh_events db sid (s_next_event_sequence s) es"
    and "set evs \<subseteq> set (t_events db)"
    and "s_next_event_sequence s' = s_next_event_sequence s + int (length es)"
    and "s_current_event_id s' = s_current_event_id s"
  shows "session_inbox_ok s' (evs @ es)"
proof -
  have "map e_sequence (evs @ es) = [1..s_next_event_sequence s' - 1]"
    using assms upto_concat [of 1 "s_next_event_sequence s" "s_next_event_sequence s'"]
    by (simp add: session_inbox_ok_def fresh_events_def)
  moreover have "fifo (map e_status (evs @ es))"
    using assms(1) es
    by (simp add: session_inbox_ok_def fresh_events_def fifo_append_all_pending list_all_iff)
  moreover have "s_current_event_id s \<noteq> Some (e_id e)" "e_status e \<noteq> EvProcessing"
    if "e \<in> set es" for e
  proof -
    have e: "e_status e = EvPending" "e_id e \<notin> e_id ` set (t_events db)"
      using that es by (simp_all add: fresh_events_def list_all_iff)
    then have "e_id e \<notin> e_id ` set evs" using assms(3) by blast
    with assms(1) e(1) show "s_current_event_id s \<noteq> Some (e_id e)" "e_status e \<noteq> EvProcessing"
      by (auto simp: session_inbox_ok_def opt_ref_def)
  qed
  ultimately show ?thesis
    using assms(1,4,5) by (auto simp: session_inbox_ok_def list_all_iff opt_ref_def
        split: option.splits)
qed

lemma inbox_ok_extend:
  assumes ok: "inbox_ok db" and s: "session_of db sid = Some s"
    and es: "fresh_events db sid (s_next_event_sequence s) es"
    and ss: "t_sessions db' = row_update (\<lambda>s. s_id s = sid) f (t_sessions (strip db))"
    and f: "\<And>s. s_id (f s) = s_id s" "\<And>s. s_current_event_id (f s) = s_current_event_id s"
      "s_next_event_sequence (f (strip_session s)) = s_next_event_sequence s + int (length es)"
    and evs: "t_events db' = t_events db @ es"
  shows "inbox_ok db'"
proof -
  have sess: "s \<in> set (t_sessions db)" "s_id s = sid"
    using session_of_Some [OF s] by simp_all
  have "map s_id (t_sessions db') = map s_id (t_sessions (strip db))"
    unfolding ss using f(1) by (rule map_row_update_same)
  then have ids: "map s_id (t_sessions db') = map s_id (t_sessions db)" by simp
  then have idset: "s_id ` set (t_sessions db') = s_id ` set (t_sessions db)" by (metis set_map)
  have own: "filter (\<lambda>e. e_session_id e = i) es = (if i = sid then es else [])" for i
    using es by (auto simp: fresh_events_def list_all_iff intro: filter_True filter_False)
  have sub: "set (session_events db i) \<subseteq> set (t_events db)" for i
    by (auto simp: session_events_def)
  have "session_inbox_ok q (session_events db' (s_id q))" if "q \<in> set (t_sessions db')" for q
  proof -
    from that obtain r where r: "r \<in> set (t_sessions db)"
      and q: "q = (if s_id r = sid then f (strip_session r) else strip_session r)"
      unfolding ss set_row_update by auto
    have rok: "session_inbox_ok r (session_events db (s_id r))" by (rule inbox_okD(4) [OF ok r])
    show ?thesis
    proof (cases "s_id r = sid")
      case True
      then have "r = s" using distinct_keyD [OF inbox_okD(1) [OF ok] r sess(1)] sess(2) by simp
      then have "session_inbox_ok q (session_events db sid @ es)"
        using rok True q es f sess
        by (intro session_inbox_ok_extend [where s = r, OF _ _ sub]) simp_all
      then show ?thesis using True q f evs own by (simp add: session_events_def)
    next
      case False
      with rok q evs own show ?thesis by (simp add: session_events_def)
    qed
  qed
  moreover have "distinct (map e_id (t_events db'))"
  proof -
    have "e_id e \<notin> e_id ` set (t_events db)" if "e \<in> set es" for e
      using that es by (simp add: fresh_events_def list_all_iff)
    then have "x \<notin> set (map e_id (t_events db))" if "x \<in> set (map e_id es)" for x
    proof -
      from that obtain e where "e \<in> set es" "x = e_id e" by auto
      with \<open>\<And>e. e \<in> set es \<Longrightarrow> e_id e \<notin> e_id ` set (t_events db)\<close> show ?thesis by simp
    qed
    then have "set (map e_id (t_events db)) \<inter> set (map e_id es) = {}" by blast
    with inbox_okD(2) [OF ok] es show ?thesis by (simp add: evs fresh_events_def)
  qed
  moreover have "e_session_id e \<in> s_id ` set (t_sessions db)" if "e \<in> set (t_events db')" for e
    using that inbox_okD(3) [OF ok] es sess by (auto simp: evs fresh_events_def list_all_iff)
  ultimately show ?thesis
    using inbox_okD(1) [OF ok] ids idset by (simp add: inbox_ok_def list_all_iff)
qed

section \<open>Tables the inbox does not depend on\<close>

lemma inbox_ok_frame [simp]:
  "inbox_ok (db\<lparr>t_attempts := ats\<rparr>) = inbox_ok db"
  "inbox_ok (db\<lparr>t_history := hs\<rparr>) = inbox_ok db"
  "inbox_ok (db\<lparr>t_operations := os\<rparr>) = inbox_ok db"
  "inbox_ok (db\<lparr>t_requests := rs\<rparr>) = inbox_ok db"
  "inbox_ok (db\<lparr>t_op_attempts := oas\<rparr>) = inbox_ok db"
  "inbox_ok (db\<lparr>t_waits := ws\<rparr>) = inbox_ok db"
  "inbox_ok (db\<lparr>t_receipts := gs\<rparr>) = inbox_ok db"
  "inbox_ok (db\<lparr>t_retries := ps\<rparr>) = inbox_ok db"
  "inbox_ok (db\<lparr>t_updates := us\<rparr>) = inbox_ok db"
  by (simp_all add: inbox_ok_def session_events_def)

lemma inbox_ok_stripped: "strip db' = db \<Longrightarrow> inbox_ok db \<Longrightarrow> inbox_ok db'"
  by auto

end
