(* ===== verification/InboxOps.thy ===== *)
theory InboxOps
  imports Inbox
begin

text \<open>
  What each operation of \<open>Sessions\<close> does to the database up to its update log, and that each
  keeps the inbox invariant.
\<close>

section \<open>Effects\<close>

lemma create_session_effect:
  assumes "create_session env n db = Inr (r, db')"
  shows "db' = db\<lparr>t_sessions := t_sessions db @ [session_row_of env n]\<rparr>"
    and "n_id n \<notin> s_id ` set (t_sessions db)"
  using assms
  by (auto simp: create_session_def insert_session_def result_simps session_row_of_def
      split: sum.splits if_splits)

lemma patch_session_metadata_effect:
  assumes "patch_session_metadata env i name metadata db = Inr (r, db')"
  shows "strip db' = strip db\<lparr>t_sessions := row_update (\<lambda>s. s_id s = i)
    (\<lambda>s. s\<lparr>s_name := override name (s_name s), s_metadata := override metadata (s_metadata s),
           s_updated_at := env_now env\<rparr>) (t_sessions (strip db))\<rparr>"
  using assms
  by (auto simp: patch_session_metadata_def result_simps emit_update_def
      dest!: update_sessions_Inr emit_update_strip)

lemma enqueue_effect:
  assumes "enqueue_external_event env x db = Inr (res, db')"
  shows "(\<exists>e. res = Existing e \<and> db' = db)
    \<or> (\<exists>s e. res = Inserted e \<and> session_of db (x_session_id x) = Some s
        \<and> e = new_event env (env_uuid env 0) (x_session_id x) (s_next_event_sequence s) (x_type x)
                (RawPayload (x_payload x)) None None (x_key x)
                (map_option (\<lambda>_. fingerprint env (x_payload x)) (x_key x))
        \<and> e_id e \<notin> e_id ` set (t_events db)
        \<and> strip db' = strip db\<lparr>t_events := t_events db @ [e],
            t_sessions := row_update (\<lambda>s. s_id s = x_session_id x)
              (\<lambda>s. s\<lparr>s_next_event_sequence := s_next_event_sequence s + 1,
                     s_updated_at := env_now env\<rparr>) (t_sessions (strip db))\<rparr>)"
  using assms
  by (auto simp: enqueue_external_event_def result_simps emit_update_def Let_def
      lock_session_sequence_def advance_event_sequence_def insert_event_def
      dest!: update_sessions_Inr emit_update_strip
      split: option.splits if_splits)

lemma retry_blocked_event_replay:
  assumes "retry_row_of db sid key = Some p"
  shows "retry_blocked_event env sid eid revision key request reason db = Inr (res, db')
    \<longleftrightarrow> session_of db sid \<noteq> None \<and> p_request_hash p = fingerprint env request
      \<and> res = \<lparr>pr_session_id = sid, pr_event_id = p_event_id p, pr_revision = p_revision p,
               pr_retried_at = p_created_at p\<rparr> \<and> db' = db"
  using assms by (auto simp: retry_blocked_event_def result_simps Let_def split: if_splits)

lemma retry_blocked_event_effect:
  assumes "retry_blocked_event env sid eid revision key request reason db = Inr (res, db')"
    and "retry_row_of db sid key = None"
  shows "\<exists>s e. session_of db sid = Some s
    \<and> head_event db sid = Some e \<and> e_id e = eid \<and> e_status e = EvBlocked
    \<and> \<not> s_processing_enabled s \<and> s_processing_revision s = revision
    \<and> s_current_event_id s = None \<and> s_lease_token s = None
    \<and> res = \<lparr>pr_session_id = sid, pr_event_id = eid, pr_revision = revision + 1,
             pr_retried_at = env_now env\<rparr>
    \<and> strip db' = strip db\<lparr>
        t_events := row_update (\<lambda>e. e_id e = eid)
          (\<lambda>e. e\<lparr>e_status := EvPending, e_next_attempt_at := env_clock env 0,
                 e_last_error := None,
                 e_retry_failure_baseline := errored_attempts eid db\<rparr>) (t_events db),
        t_sessions := row_update (\<lambda>s. s_id s = sid)
          (\<lambda>s. s\<lparr>s_processing_enabled := True, s_processing_error := None,
                 s_processing_revision := revision + 1, s_updated_at := env_now env\<rparr>)
          (t_sessions (strip db)),
        t_retries := t_retries db @ [\<lparr>p_id = env_uuid env 0, p_session_id = sid, p_key = key,
          p_request_hash = fingerprint env request, p_event_id = eid,
          p_expected_revision = revision, p_revision = revision + 1,
          p_reason = reason, p_created_at = env_now env\<rparr>]\<rparr>"
  using assms
  by (auto simp: retry_blocked_event_def result_simps emit_update_def Let_def
      dest!: update_sessions_Inr update_events_Inr insert_retry_Inr emit_update_strip
      split: option.splits)

lemma claim_event_at_effect:
  assumes "claim_event_at env lease_for sid eid db = Inr (ce, db')"
  shows "\<exists>s e number.
      session_of db sid = Some s \<and> event_of db eid = Some e \<and> e_handled_at e = None
    \<and> number = max_number (map a_number (filter (\<lambda>a. a_event_id a = eid) (t_attempts db))) + 1
    \<and> ce_attempt_number ce = number \<and> ce_lease_token ce = env_uuid env 0
    \<and> ce_attempt_id ce = env_uuid env 1 \<and> ce_history_through ce = s_next_history_sequence s - 1
    \<and> fst (ce_session ce) = s\<lparr>s_current_event_id := Some eid,
        s_lease_token := Some (env_uuid env 0),
        s_lease_expires_at := Some (add_millis (env_clock env 1) (int lease_for)),
        s_updated_at := env_now env\<rparr>
    \<and> ce_event ce = e\<lparr>e_status := EvProcessing\<rparr>
    \<and> strip db' = strip db\<lparr>
        t_attempts := row_update (\<lambda>a. a_event_id a = eid \<and> a_status a = AtRunning)
          (\<lambda>a. a\<lparr>a_status := AtAbandoned, a_finished_at := Some (env_now env)\<rparr>) (t_attempts db)
          @ [\<lparr>a_id = env_uuid env 1, a_event_id = eid, a_number = number,
              a_lease_token = env_uuid env 0, a_input_state_version = s_state_version s,
              a_history_through = s_next_history_sequence s - 1, a_status = AtRunning,
              a_error = None, a_started_at = env_now env, a_finished_at = None\<rparr>],
        t_sessions := row_update (\<lambda>s. s_id s = sid)
          (\<lambda>s. s\<lparr>s_current_event_id := Some eid, s_lease_token := Some (env_uuid env 0),
                 s_lease_expires_at := Some (add_millis (env_clock env 1) (int lease_for)),
                 s_updated_at := env_now env\<rparr>) (t_sessions (strip db)),
        t_events := row_update (\<lambda>e. e_id e = eid) (\<lambda>e. e\<lparr>e_status := EvProcessing\<rparr>)
          (t_events db)\<rparr>"
  using assms
proof -
  have "e_handled_at e = None" if "event_of db eid = Some e" for e
    using assms that
    by (auto simp: claim_event_at_def result_simps Let_def lookup_simps event_check_def
        dest!: update_sessions_Inr update_attempts_Inr dest: update_events_check event_of_Some)
  then show ?thesis
    using assms
    by (auto simp: claim_event_at_def result_simps emit_update_def Let_def lookup_simps row_simps
        duration_millis_def
        dest!: update_sessions_Inr update_events_Inr insert_attempt_Inr update_attempts_Inr
          emit_update_strip
        split: if_splits)
qed

lemma renew_event_claim_effect:
  assumes "renew_event_claim env claim lease_for db = Inr db'"
  shows "(\<exists>h v. lock_valid_session_claim (env_clock env 0) claim db = Inr (h, v))
    \<and> db' = db\<lparr>t_sessions := row_update (\<lambda>s. s_id s = c_session_id claim)
        (\<lambda>s. s\<lparr>s_lease_expires_at := Some (add_millis (env_clock env 1) (int lease_for))\<rparr>)
        (t_sessions db)\<rparr>"
  using assms
  by (auto simp: renew_event_claim_def result_simps duration_millis_def
      dest!: update_sessions_Inr split: if_splits)

lemma record_handler_failure_effect:
  assumes "record_handler_failure env claim error retry_at blocked db = Inr db'"
  shows "(\<exists>h v. lock_valid_session_claim (env_clock env 0) claim db = Inr (h, v))
    \<and> strip db' = strip db\<lparr>
        t_attempts := row_update
          (\<lambda>a. a_id a = c_attempt_id claim \<and> a_lease_token a = c_lease_token claim
               \<and> a_status a = AtRunning)
          (\<lambda>a. a\<lparr>a_status := AtErrored, a_error := Some error,
                 a_finished_at := Some (env_now env)\<rparr>) (t_attempts db),
        t_events := row_update (\<lambda>e. e_id e = c_event_id claim)
          (\<lambda>e. e\<lparr>e_status := (if blocked then EvBlocked else EvPending),
                 e_next_attempt_at := retry_at, e_last_error := Some error\<rparr>) (t_events db),
        t_sessions := row_update (\<lambda>s. s_id s = c_session_id claim)
          (\<lambda>s. if blocked
               then s\<lparr>s_processing_enabled := False, s_processing_error := Some error,
                      s_processing_revision := s_processing_revision s + 1,
                      s_current_event_id := None, s_lease_token := None,
                      s_lease_expires_at := None, s_updated_at := env_now env\<rparr>
               else s\<lparr>s_current_event_id := None, s_lease_token := None,
                      s_lease_expires_at := None, s_updated_at := env_now env\<rparr>)
          (t_sessions (strip db))\<rparr>"
  using assms
  by (cases blocked)
    (auto simp: record_handler_failure_def release_session_claim_def result_simps emit_update_def
      Let_def dest!: update_sessions_Inr update_events_Inr update_attempts_Inr emit_update_strip)

lemma abandon_handler_attempt_effect:
  assumes "abandon_handler_attempt env claim error retry_at db = Inr db'"
  shows "(\<exists>h v. lock_valid_session_claim (env_clock env 0) claim db = Inr (h, v))
    \<and> strip db' = strip db\<lparr>
        t_attempts := row_update
          (\<lambda>a. a_id a = c_attempt_id claim \<and> a_lease_token a = c_lease_token claim
               \<and> a_status a = AtRunning)
          (\<lambda>a. a\<lparr>a_status := AtAbandoned, a_error := Some error,
                 a_finished_at := Some (env_now env)\<rparr>) (t_attempts db),
        t_events := row_update (\<lambda>e. e_id e = c_event_id claim)
          (\<lambda>e. e\<lparr>e_status := EvPending, e_next_attempt_at := retry_at,
                 e_last_error := Some error\<rparr>) (t_events db),
        t_sessions := row_update (\<lambda>s. s_id s = c_session_id claim)
          (\<lambda>s. s\<lparr>s_current_event_id := None, s_lease_token := None,
                 s_lease_expires_at := None, s_updated_at := env_now env\<rparr>)
          (t_sessions (strip db))\<rparr>"
  using assms
  by (auto simp: abandon_handler_attempt_def release_session_claim_def result_simps
      emit_update_def dest!: update_sessions_Inr update_events_Inr update_attempts_Inr
      emit_update_strip)

section \<open>Preservation of the inbox invariant\<close>

lemma inbox_ok_stripI: "inbox_ok (strip db) \<Longrightarrow> inbox_ok db"
  by simp

lemma create_session_inbox:
  assumes "create_session env n db = Inr (r, db')" and ok: "inbox_ok db"
  shows "inbox_ok db'"
proof -
  note eff = create_session_effect [OF assms(1)]
  have "session_events db (n_id n) = []"
    using inbox_okD(3) [OF ok] eff(2) by (force simp: session_events_def filter_empty_conv)
  then have "session_inbox_ok (session_row_of env n) (session_events db' (n_id n))"
    by (simp add: eff(1) session_inbox_ok_def session_row_of_def session_events_def opt_ref_def)
  with ok eff(2) show ?thesis
    by (auto simp: eff(1) inbox_ok_def list_all_iff session_events_def session_row_of_def)
qed

lemma patch_session_metadata_inbox:
  assumes "patch_session_metadata env i name metadata db = Inr (r, db')" and "inbox_ok db"
  shows "inbox_ok db'"
proof -
  have "inbox_ok (strip db')"
    unfolding patch_session_metadata_effect [OF assms(1)]
    by (rule inbox_ok_cong [of "strip db"]) (simp_all add: assms(2))
  then show ?thesis by simp
qed

lemma enqueue_inbox:
  assumes "enqueue_external_event env x db = Inr (res, db')" and ok: "inbox_ok db"
  shows "inbox_ok db'"
  using enqueue_effect [OF assms(1)]
proof (elim disjE exE conjE)
  fix e assume "db' = db" with ok show ?thesis by simp
next
  fix s e
  assume s: "session_of db (x_session_id x) = Some s"
    and e: "e = new_event env (env_uuid env 0) (x_session_id x) (s_next_event_sequence s)
          (x_type x) (RawPayload (x_payload x)) None None (x_key x)
          (map_option (\<lambda>_. fingerprint env (x_payload x)) (x_key x))"
    and new: "e_id e \<notin> e_id ` set (t_events db)"
    and db': "strip db' = strip db\<lparr>t_events := t_events db @ [e],
        t_sessions := row_update (\<lambda>s. s_id s = x_session_id x)
          (\<lambda>s. s\<lparr>s_next_event_sequence := s_next_event_sequence s + 1,
                 s_updated_at := env_now env\<rparr>) (t_sessions (strip db))\<rparr>"
  have sess: "s \<in> set (t_sessions db)" "s_id s = x_session_id x"
    using session_of_Some [OF s] by simp_all
  have "inbox_ok (strip db')"
    unfolding db'
  proof (rule inbox_ok_append [of "strip db" _ "x_session_id x" _ e])
    show "e_sequence e = s_next_event_sequence q \<and>
        s_next_event_sequence (q\<lparr>s_next_event_sequence := s_next_event_sequence q + 1,
          s_updated_at := env_now env\<rparr>) = s_next_event_sequence q + 1"
      if "q \<in> set (t_sessions (strip db))" "s_id q = x_session_id x" for q
    proof -
      from that(1) obtain r where r: "q = strip_session r" "r \<in> set (t_sessions db)" by auto
      then have "r = s"
        using distinct_keyD [OF inbox_okD(1) [OF ok] _ sess(1)] that(2) sess(2) by simp
      with r e show ?thesis by (simp add: new_event_def)
    qed
  qed (use ok new sess e in \<open>auto simp: new_event_def image_iff intro: bexI [of _ s]\<close>)
  then show ?thesis by simp
qed

lemma retry_blocked_event_inbox:
  assumes "retry_blocked_event env sid eid revision key request reason db = Inr (res, db')"
    and ok: "inbox_ok db"
  shows "inbox_ok db'"
proof (cases "retry_row_of db sid key")
  case (Some p)
  with assms show ?thesis by (simp add: retry_blocked_event_replay)
next
  case None
  then obtain s e where s: "session_of db sid = Some s" and head: "head_event db sid = Some e"
    and e: "e_id e = eid" and cur: "s_current_event_id s = None"
    and db': "strip db' = strip db\<lparr>
        t_events := row_update (\<lambda>e. e_id e = eid)
          (\<lambda>e. e\<lparr>e_status := EvPending, e_next_attempt_at := env_clock env 0,
                 e_last_error := None,
                 e_retry_failure_baseline := errored_attempts eid db\<rparr>) (t_events db),
        t_sessions := row_update (\<lambda>s. s_id s = sid)
          (\<lambda>s. s\<lparr>s_processing_enabled := True, s_processing_error := None,
                 s_processing_revision := revision + 1, s_updated_at := env_now env\<rparr>)
          (t_sessions (strip db)),
        t_retries := t_retries db @ [\<lparr>p_id = env_uuid env 0, p_session_id = sid, p_key = key,
          p_request_hash = fingerprint env request, p_event_id = eid,
          p_expected_revision = revision, p_revision = revision + 1,
          p_reason = reason, p_created_at = env_now env\<rparr>]\<rparr>"
    using retry_blocked_event_effect [OF assms(1)] by blast
  have sess: "s \<in> set (t_sessions db)" "s_id s = sid"
    using session_of_Some [OF s] by simp_all
  obtain hs ps where split: "session_events db sid = hs @ e # ps"
    "list_all (\<lambda>e. e_status e = EvHandled) hs" "list_all (\<lambda>e. e_status e = EvPending) ps"
    using head_event_split [OF inbox_ok_session [OF ok s] head] by blast
  then have mem: "e \<in> set (t_events db)" "e_session_id e = sid"
    using session_events_mem [of e db sid] by simp_all
  have "inbox_ok (strip db')"
    unfolding db'
    by (rule inbox_ok_head_change [OF ok s split e, where
        f = "\<lambda>s. s\<lparr>s_processing_enabled := True, s_processing_error := None,
                 s_processing_revision := revision + 1, s_updated_at := env_now env\<rparr>" and
        g = "\<lambda>e. e\<lparr>e_status := EvPending, e_next_attempt_at := env_clock env 0,
                 e_last_error := None,
                 e_retry_failure_baseline := errored_attempts eid db\<rparr>"])
      (simp_all add: cur)
  then show ?thesis by simp
qed

lemma claim_candidate_Some:
  assumes "claim_candidate env db = Some (sid, eid)"
  shows "\<exists>s e. s \<in> set (t_sessions db) \<and> s_id s = sid \<and> \<not> env_skip env sid
    \<and> s_processing_enabled s
    \<and> lease_free (s_lease_token s) (s_lease_expires_at s) (env_clock env 0)
    \<and> head_event db sid = Some e \<and> e_id e = eid
    \<and> (e_status e = EvPending \<or> e_status e = EvProcessing)
    \<and> e_next_attempt_at e \<le> env_clock env 0"
  using assms
  by (fastforce simp: claim_candidate_def claimable_def List.map_filter_def
      dest: first_by_Some(1) split: if_splits option.splits)

lemma claim_next_event_inbox:
  assumes "claim_next_event env lease_for db = Inr (res, db')" and ok: "inbox_ok db"
  shows "inbox_ok db'"
proof (cases "claim_candidate env db")
  case None
  with assms show ?thesis by (simp add: claim_next_event_def)
next
  case (Some c)
  obtain sid eid where c: "c = (sid, eid)" by (cases c)
  with Some have cand: "claim_candidate env db = Some (sid, eid)" by simp
  obtain s e where s: "s \<in> set (t_sessions db)" "s_id s = sid"
    and head: "head_event db sid = Some e" "e_id e = eid"
    using claim_candidate_Some [OF cand] by blast
  have sof: "session_of db sid = Some s"
    using row_by_distinct [OF inbox_okD(1) [OF ok] s(1)] s(2) by (simp add: session_of_def)
  obtain hs ps where split: "session_events db sid = hs @ e # ps"
    "list_all (\<lambda>e. e_status e = EvHandled) hs" "list_all (\<lambda>e. e_status e = EvPending) ps"
    using head_event_split [OF inbox_ok_session [OF ok sof] head(1)] by blast
  obtain ce where claim: "claim_event_at env lease_for sid eid db = Inr (ce, db')"
    using assms(1) cand by (auto simp: claim_next_event_def result_simps)
  have "inbox_ok (strip db')"
  proof (rule inbox_ok_head_change [OF ok sof split head(2), where
        f = "\<lambda>s. s\<lparr>s_current_event_id := Some eid, s_lease_token := Some (env_uuid env 0),
                 s_lease_expires_at := Some (add_millis (env_clock env 1) (int lease_for)),
                 s_updated_at := env_now env\<rparr>" and
        g = "\<lambda>e. e\<lparr>e_status := EvProcessing\<rparr>"])
  qed (use claim_event_at_effect [OF claim] in \<open>auto dest!: strip_eqD\<close>)
  then show ?thesis by simp
qed

lemma renew_event_claim_inbox:
  assumes "renew_event_claim env claim lease_for db = Inr db'" and "inbox_ok db"
  shows "inbox_ok db'"
  using renew_event_claim_effect [OF assms(1)]
  by (intro inbox_ok_cong [OF assms(2)]) auto

lemma record_handler_failure_inbox:
  assumes "record_handler_failure env claim error retry_at blocked db = Inr db'"
    and ok: "inbox_ok db"
  shows "inbox_ok db'"
proof -
  note eff = record_handler_failure_effect [OF assms(1)]
  then obtain s where s: "session_of db (c_session_id claim) = Some s"
    "s_current_event_id s = Some (c_event_id claim)"
    by (auto simp: lock_valid_session_claim_Inr)
  have "inbox_ok (strip db')"
    by (rule inbox_ok_release [OF ok s, where
        f = "\<lambda>s. if blocked
             then s\<lparr>s_processing_enabled := False, s_processing_error := Some error,
                    s_processing_revision := s_processing_revision s + 1,
                    s_current_event_id := None, s_lease_token := None,
                    s_lease_expires_at := None, s_updated_at := env_now env\<rparr>
             else s\<lparr>s_current_event_id := None, s_lease_token := None,
                    s_lease_expires_at := None, s_updated_at := env_now env\<rparr>" and
        g = "\<lambda>e. e\<lparr>e_status := (if blocked then EvBlocked else EvPending),
                 e_next_attempt_at := retry_at, e_last_error := Some error\<rparr>"])
      (simp_all add: eff)
  then show ?thesis by simp
qed

lemma abandon_handler_attempt_inbox:
  assumes "abandon_handler_attempt env claim error retry_at db = Inr db'" and ok: "inbox_ok db"
  shows "inbox_ok db'"
proof -
  note eff = abandon_handler_attempt_effect [OF assms(1)]
  then obtain s where s: "session_of db (c_session_id claim) = Some s"
    "s_current_event_id s = Some (c_event_id claim)"
    by (auto simp: lock_valid_session_claim_Inr)
  have "inbox_ok (strip db')"
    by (rule inbox_ok_release [OF ok s, where
        f = "\<lambda>s. s\<lparr>s_current_event_id := None, s_lease_token := None,
                 s_lease_expires_at := None, s_updated_at := env_now env\<rparr>" and
        g = "\<lambda>e. e\<lparr>e_status := EvPending, e_next_attempt_at := retry_at,
                 e_last_error := Some error\<rparr>"])
      (simp_all add: eff)
  then show ?thesis by simp
qed

end
