(* ===== verification/Interfaces.thy ===== *)
theory Interfaces
  imports Prelude
begin

text \<open>
  The contracts several components of the store share, as locales: a log whose entries are
  numbered without a gap (inbox, history, update log), a resource that one worker at a time
  holds under a lease (sessions, gateway operations, callback receipts), and a thing that is
  settled once and announces it with one event (operations and waits). The components that
  provide them interpret them on the store's own definitions.
\<close>

section \<open>Numbered logs\<close>

text \<open>The entries of one owner carry the numbers from \<open>first\<close> up to just below \<open>next\<close>.\<close>

definition numbered :: "('r \<Rightarrow> 'k) \<Rightarrow> ('r \<Rightarrow> int) \<Rightarrow> 'r list \<Rightarrow> 'k \<Rightarrow> int \<Rightarrow> int \<Rightarrow> bool" where
  "numbered owner seq rows k first next \<longleftrightarrow>
     first \<le> next \<and> map seq (filter (\<lambda>r. owner r = k) rows) = [first..next - 1]"

lemma numbered_append:
  assumes "numbered owner seq rows k first next" and "owner r = k" and "seq r = next"
  shows "numbered owner seq (rows @ [r]) k first (next + 1)"
  using assms upto_next [of first "next"] by (simp add: numbered_def)

lemma numbered_other:
  "owner r \<noteq> k \<Longrightarrow> numbered owner seq (rows @ [r]) k first next
     = numbered owner seq rows k first next"
  by (simp add: numbered_def)

lemma numbered_empty: "(\<And>r. r \<in> set rows \<Longrightarrow> owner r \<noteq> k) \<Longrightarrow> numbered owner seq rows k n n"
  by (auto simp: numbered_def filter_empty_conv)

text \<open>Deleting everything up to a number keeps the numbering, from a later start.\<close>

lemma map_filter_seq: "map seq (filter (\<lambda>r. p (seq r)) rs) = filter p (map seq rs)"
  by (induction rs) auto

lemma numbered_prune:
  assumes "numbered owner seq rows k first next" and "m < next"
  shows "numbered owner seq (filter (\<lambda>r. \<not> (owner r = k \<and> seq r \<le> m)) rows) k
    (max first (m + 1)) next"
proof -
  have "filter (\<lambda>r. owner r = k) (filter (\<lambda>r. \<not> (owner r = k \<and> seq r \<le> m)) rows)
      = filter (\<lambda>r. m < seq r) (filter (\<lambda>r. owner r = k) rows)"
    by (induction rows) auto
  then have "map seq (filter (\<lambda>r. owner r = k)
        (filter (\<lambda>r. \<not> (owner r = k \<and> seq r \<le> m)) rows))
      = filter (\<lambda>i. m < i) (map seq (filter (\<lambda>r. owner r = k) rows))"
    by (simp only: map_filter_seq)
  also have "\<dots> = [max first (m + 1)..next - 1]"
    using assms(1) by (simp add: numbered_def filter_greater_upto)
  finally show ?thesis using assms by (simp add: numbered_def)
qed

lemma numbered_prune_other:
  assumes "numbered owner seq rows k first next" and "k \<noteq> j"
  shows "numbered owner seq (filter (\<lambda>r. \<not> (owner r = j \<and> seq r \<le> m)) rows) k first next"
proof -
  have "filter (\<lambda>r. owner r = k) (filter (\<lambda>r. \<not> (owner r = j \<and> seq r \<le> m)) rows)
      = filter (\<lambda>r. owner r = k) rows"
    using assms(2) by (induction rows) auto
  with assms(1) show ?thesis by (simp add: numbered_def)
qed

lemma filter_le_upto: "filter (\<lambda>i. i \<le> b) [x..y] = [x..min b y]" for b x y :: int
proof (induction x y rule: upto.induct)
  case (1 x y)
  show ?case
  proof (cases "x \<le> y")
    case True
    have "filter (\<lambda>i. i \<le> b) [x..y] = (if x \<le> b then [x] else []) @ [x + 1..min b y]"
      using 1 True by (subst upto.simps) simp
    also have "\<dots> = [x..min b y]" using True by (auto simp: upto_rec1)
    finally show ?thesis .
  next
    case False
    then show ?thesis by simp
  qed
qed

lemma filter_range_upto:
  "filter (\<lambda>i. a < i \<and> i \<le> b) [f..n - 1] = [max f (a + 1)..min b (n - 1)]" for a b f n :: int
proof -
  have "filter (\<lambda>i. a < i \<and> i \<le> b) xs = filter (\<lambda>i. i \<le> b) (filter (\<lambda>i. a < i) xs)" for xs
    by (induction xs) auto
  then show ?thesis by (simp only: filter_greater_upto filter_le_upto)
qed

lemma take_upto: "0 \<le> m \<Longrightarrow> take (nat m) [a..b] = [a..min b (a + m - 1)]" for a b m :: int
proof (induction a b arbitrary: m rule: upto.induct)
  case (1 a b)
  show ?case
  proof (cases "a \<le> b \<and> 0 < m")
    case True
    then have "nat m = Suc (nat (m - 1))" by linarith
    then have "take (nat m) [a..b] = a # take (nat (m - 1)) [a + 1..b]"
      using True by (simp add: upto_rec1)
    also have "take (nat (m - 1)) [a + 1..b] = [a + 1..min b (a + 1 + (m - 1) - 1)]"
      using True by (intro "1.IH") simp_all
    also have "a # [a + 1..min b (a + 1 + (m - 1) - 1)] = a # [a + 1..min b (a + m - 1)]"
      by simp
    also have "\<dots> = [a..min b (a + m - 1)]" using True by (simp add: upto_rec1)
    finally show ?thesis .
  next
    case False
    with 1 show ?thesis by auto
  qed
qed

text \<open>A page \<open>sequence > a AND sequence <= b ORDER BY sequence LIMIT n\<close> has no gap.\<close>

lemma numbered_page:
  assumes "numbered owner seq rows k first next" and "0 \<le> n"
  shows "map seq (top_by seq n (filter (\<lambda>r. owner r = k \<and> a < seq r \<and> seq r \<le> b) rows))
    = [max first (a + 1)..min (min b (next - 1)) (max first (a + 1) + n - 1)]"
proof -
  have "filter (\<lambda>r. owner r = k \<and> a < seq r \<and> seq r \<le> b) rows
      = filter (\<lambda>r. a < seq r \<and> seq r \<le> b) (filter (\<lambda>r. owner r = k) rows)"
    by (induction rows) auto
  then have "map seq (filter (\<lambda>r. owner r = k \<and> a < seq r \<and> seq r \<le> b) rows)
      = filter (\<lambda>i. a < i \<and> i \<le> b) (map seq (filter (\<lambda>r. owner r = k) rows))"
    by (simp only: map_filter_seq [where p = "\<lambda>i. a < i \<and> i \<le> b"])
  also have "\<dots> = [max first (a + 1)..min b (next - 1)]"
    using assms(1) by (simp add: numbered_def filter_range_upto)
  finally have page: "map seq (filter (\<lambda>r. owner r = k \<and> a < seq r \<and> seq r \<le> b) rows)
      = [max first (a + 1)..min b (next - 1)]" .
  then have "sorted (map seq (filter (\<lambda>r. owner r = k \<and> a < seq r \<and> seq r \<le> b) rows))"
    by (simp add: sorted_upto_int)
  then show ?thesis
    using page assms(2) by (simp add: top_by_sorted take_map [symmetric] take_upto)
qed

locale numbered_log =
  fixes rows :: "'db \<Rightarrow> 'r list"
    and owner :: "'r \<Rightarrow> 'k"
    and seq :: "'r \<Rightarrow> int"
    and first :: "'db \<Rightarrow> 'k \<Rightarrow> int"
    and "next" :: "'db \<Rightarrow> 'k \<Rightarrow> int option"
    and append :: "'r \<Rightarrow> 'db \<Rightarrow> 'db"
  assumes rows_append: "rows (append r db) = rows db @ [r]"
    and next_append: "next db k = Some n \<Longrightarrow>
      next (append r db) k = Some (if owner r = k then n + 1 else n)"
    and first_append: "first (append r db) k = first db k"
begin

definition gap_free :: "'db \<Rightarrow> 'k \<Rightarrow> bool" where
  "gap_free db k \<longleftrightarrow>
     (\<forall>n. next db k = Some n \<longrightarrow> numbered owner seq (rows db) k (first db k) n)"

lemma append_gap_free:
  assumes "gap_free db k" and "next db k = Some n" and "next db (owner r) = Some (seq r)"
  shows "gap_free (append r db) k"
proof (cases "owner r = k")
  case True
  with assms have "seq r = n" by simp
  with True assms show ?thesis
    by (simp add: gap_free_def rows_append first_append next_append numbered_append)
next
  case False
  with assms show ?thesis
    by (simp add: gap_free_def rows_append first_append next_append numbered_other)
qed

end

section \<open>Leases\<close>

text \<open>
  \<open>holds r t now\<close>: the token \<open>t\<close> owns the resource at time \<open>now\<close>. A resource can be granted
  when it is \<open>free\<close>; every guarded operation of the store checks \<open>holds\<close> first.
\<close>

locale lease =
  fixes holds :: "'r \<Rightarrow> 't \<Rightarrow> int \<Rightarrow> bool"
    and free :: "'r \<Rightarrow> int \<Rightarrow> bool"
    and grant :: "'t \<Rightarrow> int \<Rightarrow> 'r \<Rightarrow> 'r"
    and release :: "'r \<Rightarrow> 'r"
  assumes holds_grant: "holds (grant t e r) u now \<longleftrightarrow> u = t \<and> now < e"
    and free_grant: "free (grant t e r) now \<longleftrightarrow> e \<le> now"
    and holds_release: "\<not> holds (release r) u now"
    and free_release: "free (release r) now"
    and exclusive: "free r now \<Longrightarrow> \<not> holds r u now"
begin

text \<open>Once a resource has been granted again, an older token never owns it.\<close>

lemma fenced: "u \<noteq> t \<Longrightarrow> \<not> holds (grant t e r) u now"
  by (simp add: holds_grant)

lemma one_holder: "holds (grant t e r) u now \<Longrightarrow> holds (grant t e r) v now \<Longrightarrow> u = v"
  by (simp add: holds_grant)

text \<open>Leases expire: whoever crashed, the resource is free again from its deadline on.\<close>

lemma recoverable: "e \<le> now \<Longrightarrow> free (grant t e r) now \<and> \<not> holds (grant t e r) u now"
  by (simp add: free_grant holds_grant)

lemma granted_is_busy: "now < e \<Longrightarrow> holds (grant t e r) t now \<and> \<not> free (grant t e r) now"
  by (simp add: free_grant holds_grant)

end

section \<open>Things settled once\<close>

text \<open>
  A ledger: rows that are open until they get a final outcome (\<open>final r = Some x\<close>), and the
  list of events that announce outcomes (\<open>ref e = Some k\<close> for the row with key \<open>k\<close>). Every
  row has one announcing event if it is settled and none otherwise, and every event that
  announces an outcome names a row.
\<close>

definition settled_once ::
    "('r \<Rightarrow> 'k) \<Rightarrow> ('r \<Rightarrow> 'f option) \<Rightarrow> ('e \<Rightarrow> 'k option) \<Rightarrow> 'r list \<Rightarrow> 'e list \<Rightarrow> bool" where
  "settled_once key final ref rows evs \<longleftrightarrow>
     distinct (map key rows)
     \<and> list_all (\<lambda>r. length (filter (\<lambda>e. ref e = Some (key r)) evs)
                   = (if final r = None then 0 else 1)) rows
     \<and> list_all (\<lambda>e. case ref e of None \<Rightarrow> True | Some k \<Rightarrow> k \<in> key ` set rows) evs"

text \<open>
  What an operation may do to a ledger: settle an open row and append the event that
  announces it, open a new row, change other columns of rows, append an event about something
  else, or change other columns of events.
\<close>

inductive ledger ::
    "('r \<Rightarrow> 'k) \<Rightarrow> ('r \<Rightarrow> 'f option) \<Rightarrow> ('e \<Rightarrow> 'k option)
     \<Rightarrow> 'r list \<times> 'e list \<Rightarrow> 'r list \<times> 'e list \<Rightarrow> bool" for key final ref where
  settle: "r \<in> set rows \<Longrightarrow> final r = None \<Longrightarrow> ref e = Some (key r) \<Longrightarrow>
     (\<And>q. key (f q) = key q) \<Longrightarrow> final (f r) \<noteq> None \<Longrightarrow>
     ledger key final ref (rows, evs) (row_update (\<lambda>q. key q = key r) f rows, evs @ [e])"
| open_row: "key r \<notin> key ` set rows \<Longrightarrow> final r = None \<Longrightarrow>
     ledger key final ref (rows, evs) (rows @ [r], evs)"
| touch: "(\<And>q. key (f q) = key q) \<Longrightarrow> (\<And>q. q \<in> set rows \<Longrightarrow> p q \<Longrightarrow> final (f q) = final q) \<Longrightarrow>
     ledger key final ref (rows, evs) (row_update p f rows, evs)"
| other: "ref e = None \<Longrightarrow> ledger key final ref (rows, evs) (rows, evs @ [e])"
| mark: "map ref evs' = map ref evs \<Longrightarrow> ledger key final ref (rows, evs) (rows, evs')"

abbreviation ledger_run where
  "ledger_run key final ref \<equiv> rtranclp (ledger key final ref)"

lemma ledger_settleI:
  assumes "r \<in> set rows" and "final r = None" and "ref e = Some (key r)" and "key r = k"
    and "\<And>q. key (f q) = key q" and "final (f r) \<noteq> None"
    and "rows' = row_update (\<lambda>q. key q = k) f rows" and "evs' = evs @ [e]"
  shows "ledger_run key final ref (rows, evs) (rows', evs')"
  using assms by (auto intro!: r_into_rtranclp ledger.settle)

lemma ledger_openI:
  assumes "key r \<notin> key ` set rows" and "final r = None" and "rows' = rows @ [r]" and "evs' = evs"
  shows "ledger_run key final ref (rows, evs) (rows', evs')"
  using assms by (auto intro!: r_into_rtranclp ledger.open_row)

lemma ledger_touchI:
  assumes "\<And>q. key (f q) = key q" and "\<And>q. q \<in> set rows \<Longrightarrow> p q \<Longrightarrow> final (f q) = final q"
    and "rows' = row_update p f rows" and "evs' = evs"
  shows "ledger_run key final ref (rows, evs) (rows', evs')"
  using assms by (auto intro!: r_into_rtranclp ledger.touch)

lemma ledger_otherI:
  assumes "ref e = None" and "rows' = rows" and "evs' = evs @ [e]"
  shows "ledger_run key final ref (rows, evs) (rows', evs')"
  using assms by (auto intro!: r_into_rtranclp ledger.other)

lemma ledger_markI:
  assumes "rows' = rows" and "map ref evs' = map ref evs"
  shows "ledger_run key final ref (rows, evs) (rows', evs')"
  using assms by (auto intro!: r_into_rtranclp ledger.mark)

lemma ledger_sameI:
  assumes "rows' = rows" and "evs' = evs"
  shows "ledger_run key final ref (rows, evs) (rows', evs')"
  using assms by simp

lemma settled_once_count:
  "settled_once key final ref rows evs \<Longrightarrow> r \<in> set rows \<Longrightarrow>
     length (filter (\<lambda>e. ref e = Some (key r)) evs) = (if final r = None then 0 else 1)"
  by (simp add: settled_once_def list_all_iff)

lemma settled_once_events:
  assumes "map ref evs' = map ref evs"
  shows "settled_once key final ref rows evs' = settled_once key final ref rows evs"
proof -
  have count: "length (filter (\<lambda>e. ref e = x) es) = length (filter (\<lambda>y. y = x) (map ref es))" for x es
    by (induction es) auto
  have all: "list_all (\<lambda>e. P (ref e)) es = list_all P (map ref es)" for P es
    by (simp add: list.pred_map comp_def)
  have refs: "list_all (\<lambda>e. case ref e of None \<Rightarrow> True | Some k \<Rightarrow> k \<in> key ` set rows) es
      = list_all (\<lambda>y. case y of None \<Rightarrow> True | Some k \<Rightarrow> k \<in> key ` set rows) (map ref es)" for es
    by (rule all [of "\<lambda>y. case y of None \<Rightarrow> True | Some k \<Rightarrow> k \<in> key ` set rows"])
  show ?thesis unfolding settled_once_def count refs assms by (rule refl)
qed

text \<open>Rows changed in place: it is enough to count the events of each row again.\<close>

lemma settled_once_update:
  assumes once: "settled_once key final ref rows evs" and key: "\<And>q. key (f q) = key q"
    and count: "\<And>q. q \<in> set rows \<Longrightarrow>
      length (filter (\<lambda>e. ref e = Some (key q)) evs')
        = (if final (if p q then f q else q) = None then 0 else 1)"
    and refs: "\<And>e k. e \<in> set evs' \<Longrightarrow> ref e = Some k \<Longrightarrow> k \<in> key ` set rows"
  shows "settled_once key final ref (row_update p f rows) evs'"
proof -
  have keys: "key ` set (row_update p f rows) = key ` set rows"
    using key by (metis map_row_update_same set_map)
  have "length (filter (\<lambda>e. ref e = Some (key q)) evs') = (if final q = None then 0 else 1)"
    if "q \<in> set (row_update p f rows)" for q
  proof -
    from that obtain r where "r \<in> set rows" "q = (if p r then f r else r)"
      by (auto simp: set_row_update)
    then show ?thesis using count [of r] key by (cases "p r") simp_all
  qed
  with once key refs show ?thesis
    by (simp add: settled_once_def list_all_iff keys split: option.splits)
qed

lemma ledger_step_once:
  assumes "ledger key final ref s t"
  shows "settled_once key final ref (fst s) (snd s) \<Longrightarrow> settled_once key final ref (fst t) (snd t)"
  using assms
proof (induction rule: ledger.induct)
  case (settle r rows e f evs)
  then have once: "settled_once key final ref rows evs" by simp
  then have dist: "distinct (map key rows)"
    and refs: "\<And>e k. e \<in> set evs \<Longrightarrow> ref e = Some k \<Longrightarrow> k \<in> key ` set rows"
    by (auto simp: settled_once_def list_all_iff split: option.splits)
  have "settled_once key final ref (row_update (\<lambda>q. key q = key r) f rows) (evs @ [e])"
  proof (rule settled_once_update [OF once settle(4)])
    fix q assume q: "q \<in> set rows"
    show "length (filter (\<lambda>e. ref e = Some (key q)) (evs @ [e]))
        = (if final (if key q = key r then f q else q) = None then 0 else 1)"
    proof (cases "key q = key r")
      case True
      then have "q = r" using distinct_keyD [OF dist q settle(1)] by simp
      then show ?thesis using settle settled_once_count [OF once settle(1)] by simp
    next
      case False
      then show ?thesis using settle(3) settled_once_count [OF once q] by simp
    qed
  qed (use refs settle(1,3) in auto)
  then show ?case by simp
next
  case (open_row r rows evs)
  then have "filter (\<lambda>e. ref e = Some (key r)) evs = []"
    by (auto simp: settled_once_def list_all_iff filter_empty_conv split: option.splits)
  with open_row show ?case
    by (auto simp: settled_once_def list_all_iff split: option.splits)
next
  case (touch f rows p evs)
  then have once: "settled_once key final ref rows evs" by simp
  then have refs: "\<And>e k. e \<in> set evs \<Longrightarrow> ref e = Some k \<Longrightarrow> k \<in> key ` set rows"
    by (auto simp: settled_once_def list_all_iff split: option.splits)
  have "settled_once key final ref (row_update p f rows) evs"
    by (rule settled_once_update [OF once touch(1)])
      (use touch(2) settled_once_count [OF once] refs in auto)
  then show ?case by simp
next
  case (other e rows evs)
  then show ?case by (simp add: settled_once_def)
next
  case (mark evs' evs rows)
  then show ?case by (simp add: settled_once_events [OF mark(1)])
qed

lemma ledger_run_once:
  assumes "ledger_run key final ref s t" and "settled_once key final ref (fst s) (snd s)"
  shows "settled_once key final ref (fst t) (snd t)"
  using assms by (induction rule: rtranclp_induct) (auto dest: ledger_step_once)

text \<open>An outcome, once given, is the outcome for good.\<close>

lemma ledger_step_final:
  assumes "ledger key final ref s t"
  shows "distinct (map key (fst s)) \<Longrightarrow> row_by key k (fst s) = Some r \<Longrightarrow> final r = Some x \<Longrightarrow>
    distinct (map key (fst t)) \<and> (\<exists>r'. row_by key k (fst t) = Some r' \<and> final r' = Some x)"
  using assms
proof (induction rule: ledger.induct)
  case (settle q rows e f evs)
  have "r \<in> set rows" "key r = k" using row_by_Some [of key k rows r] settle by simp_all
  with settle have "key r \<noteq> key q" using distinct_keyD [of key rows r q] by auto
  with settle show ?case
    using \<open>key r = k\<close> by (simp add: row_by_update)
next
  case (open_row q rows evs)
  then show ?case by (auto simp: row_by_append)
next
  case (touch f rows p evs)
  have "r \<in> set rows" using row_by_Some [of key k rows r] touch by simp
  with touch show ?case by (simp add: row_by_update)
qed simp_all

lemma ledger_run_final:
  assumes "ledger_run key final ref s t" and "distinct (map key (fst s))"
    and "row_by key k (fst s) = Some r" and "final r = Some x"
  shows "\<exists>r'. row_by key k (fst t) = Some r' \<and> final r' = Some x"
proof -
  have "distinct (map key (fst t)) \<and> (\<exists>r'. row_by key k (fst t) = Some r' \<and> final r' = Some x)"
    using assms(1)
  proof (induction rule: rtranclp_induct)
    case base
    with assms show ?case by simp
  next
    case (step u t)
    then obtain q where "distinct (map key (fst u))" "row_by key k (fst u) = Some q"
      "final q = Some x" by blast
    then show ?case using ledger_step_final [OF step(2)] by blast
  qed
  then show ?thesis by blast
qed

text \<open>The interface: operations of a component that run a ledger.\<close>

locale settlement =
  fixes rows :: "'db \<Rightarrow> 'r list" and events :: "'db \<Rightarrow> 'e list"
    and key :: "'r \<Rightarrow> 'k" and final :: "'r \<Rightarrow> 'f option" and ref :: "'e \<Rightarrow> 'k option"
    and settle :: "'c \<Rightarrow> 'db \<Rightarrow> 'err + 'db"
  assumes settle_law: "distinct (map key (rows db)) \<Longrightarrow> settle c db = Inr db' \<Longrightarrow>
      ledger_run key final ref (rows db, events db) (rows db', events db')"
begin

lemma settle_once:
  assumes "settle c db = Inr db'" and "settled_once key final ref (rows db) (events db)"
  shows "settled_once key final ref (rows db') (events db')"
  using ledger_run_once [OF settle_law [OF _ assms(1)]] assms(2) by (simp add: settled_once_def)

text \<open>However many times and with whatever arguments it is called.\<close>

lemma settle_many_once:
  assumes "foldR settle cs db = Inr db'" and "settled_once key final ref (rows db) (events db)"
  shows "settled_once key final ref (rows db') (events db')"
  by (rule foldR_invariant [where P = "\<lambda>s. settled_once key final ref (rows s) (events s)",
        OF assms]) (rule settle_once)

lemma settled_stable:
  assumes "settle c db = Inr db'" and "settled_once key final ref (rows db) (events db)"
    and "row_by key k (rows db) = Some r" and "final r = Some x"
  shows "\<exists>r'. row_by key k (rows db') = Some r' \<and> final r' = Some x"
  using ledger_run_final [OF settle_law [OF _ assms(1)]] assms(2-4)
  by (simp add: settled_once_def)

end

end
