(* ===== verification/Waits.thy ===== *)
theory Waits
  imports InboxOps Interfaces
begin

text \<open>
  Waits (\<open>resolve_wait\<close>, \<open>expire_wait\<close>, \<open>due_waits_after\<close> and \<open>insert_wait_event\<close> of
  \<open>packages/agent-store/src/store.rs\<close>): a pending wait ends exactly once, by an external
  reply, by its deadline or by the harness, and ends with one \<open>wait_resumed\<close> event.
\<close>

section \<open>Operations\<close>

definition wait_event_row ::
    "env \<Rightarrow> event_id \<Rightarrow> session_id \<Rightarrow> wait_id \<Rightarrow> int \<Rightarrow> wait_finish \<Rightarrow> event_row" where
  "wait_event_row env i sid wid seq finish =
     new_event env i sid seq EvWaitResumed (WaitResumedPayload wid finish) None (Some wid) None None"

definition insert_wait_event ::
    "env \<Rightarrow> event_id \<Rightarrow> session_id \<Rightarrow> wait_id \<Rightarrow> int \<Rightarrow> wait_finish \<Rightarrow> db
     \<Rightarrow> store_error + event_row \<times> db" where
  "insert_wait_event env i sid wid seq finish db =
     bindR (insert_event (wait_event_row env i sid wid seq finish) db) (\<lambda>db.
     Inr (wait_event_row env i sid wid seq finish, db))"

definition wait_event_in_tx :: "wait_id \<Rightarrow> db \<Rightarrow> store_error + event_row" where
  "wait_event_in_tx wid db =
     ok_or (List.find (\<lambda>e. e_wait_id e = Some wid \<and> e_type e = EvWaitResumed) (t_events db))
       (Database RowNotFound)"

text \<open>\<open>expires_at.is_some_and(|deadline| deadline <= now)\<close>\<close>

definition deadline_passed :: "time option \<Rightarrow> time \<Rightarrow> bool" where
  "deadline_passed deadline now = (case deadline of None \<Rightarrow> False | Some t \<Rightarrow> t \<le> now)"

record wait_resolution =
  wr_event :: event_row
  wr_newly_resolved :: bool

definition resolve_wait ::
    "env \<Rightarrow> wait_id \<Rightarrow> string \<Rightarrow> raw_json \<Rightarrow> db \<Rightarrow> store_error + wait_resolution \<times> db" where
  "resolve_wait env wid key response db =
     (let hash = fingerprint env response in
      bindR (ok_or (wait_of db wid) (WaitNotFound wid)) (\<lambda>w.
      let sid = w_session_id w in
      bindR (lock_session_sequence sid db) (\<lambda>seq.
      if w_status w = WtResolved
      then bindR (guardR (w_resolution_key w = Some key \<and> w_resolution_hash w = Some hash)
             IdempotencyConflict) (\<lambda>_.
           bindR (wait_event_in_tx wid db) (\<lambda>e.
           Inr (\<lparr>wr_event = e, wr_newly_resolved = False\<rparr>, db)))
      else
        bindR (guardR (w_status w = WtPending \<and> (w_mode w = External \<or> w_mode w = Either)
             \<and> \<not> deadline_passed (w_expires_at w) (env_clock env 0)) WaitNotResolvable) (\<lambda>_.
        bindR (update_waits (\<lambda>r. w_id r = wid)
          (\<lambda>r. r\<lparr>w_status := WtResolved, w_resolution_payload := Some response,
                 w_resolution_key := Some key, w_resolution_hash := Some hash,
                 w_finished_at := Some (env_now env)\<rparr>) db) (\<lambda>db.
        bindR (insert_wait_event env (env_uuid env 0) sid wid seq FinResolved db) (\<lambda>(e, db).
        bindR (advance_event_sequence env sid db) (\<lambda>db.
        bindR (emit_update env sid WaitChanged (WaitRef wid) db) (\<lambda>db.
        bindR (emit_update env sid EventChanged (EventRef (e_id e) None) db) (\<lambda>db.
        Inr (\<lparr>wr_event = e, wr_newly_resolved = True\<rparr>, db))))))))))"

definition expire_wait :: "env \<Rightarrow> wait_id \<Rightarrow> db \<Rightarrow> store_error + event_row option \<times> db" where
  "expire_wait env wid db =
     bindR (ok_or (wait_of db wid) (WaitNotFound wid)) (\<lambda>w.
     let sid = w_session_id w in
     bindR (lock_session_sequence sid db) (\<lambda>seq.
     if w_status w = WtPending \<and> (w_mode w = Expiration \<or> w_mode w = Either)
        \<and> deadline_passed (w_expires_at w) (env_clock env 0)
     then
       bindR (update_waits (\<lambda>r. w_id r = wid)
         (\<lambda>r. r\<lparr>w_status := WtExpired, w_finished_at := Some (env_now env)\<rparr>) db) (\<lambda>db.
       bindR (insert_wait_event env (env_uuid env 0) sid wid seq FinExpired db) (\<lambda>(e, db).
       bindR (advance_event_sequence env sid db) (\<lambda>db.
       bindR (emit_update env sid WaitChanged (WaitRef wid) db) (\<lambda>db.
       bindR (emit_update env sid EventChanged (EventRef (e_id e) None) db) (\<lambda>db.
       Inr (Some e, db))))))
     else Inr (None, db)))"

text \<open>The scan of the expiration worker: due waits after a \<open>(deadline, id)\<close> cursor.\<close>

definition due_wait :: "time \<Rightarrow> wait_row \<Rightarrow> bool" where
  "due_wait now w \<longleftrightarrow> w_status w = WtPending \<and> (w_mode w = Expiration \<or> w_mode w = Either)
     \<and> deadline_passed (w_expires_at w) now"

definition wait_key :: "wait_row \<Rightarrow> time \<times> wait_id" where
  "wait_key w = ((case w_expires_at w of None \<Rightarrow> 0 | Some t \<Rightarrow> t), w_id w)"

definition limit_ok :: "int \<Rightarrow> bool" where
  "limit_ok limit \<longleftrightarrow> 1 \<le> limit \<and> limit \<le> 1000"

definition due_waits_after ::
    "env \<Rightarrow> (time \<times> wait_id) option \<Rightarrow> int \<Rightarrow> db \<Rightarrow> store_error + (time \<times> wait_id) list" where
  "due_waits_after env after limit db =
     bindR (guardR (limit_ok limit) (InvalidInput ''limit must be between 1 and 1000'')) (\<lambda>_.
     Inr (map wait_key (top_by wait_key limit
       (filter (\<lambda>w. due_wait (env_clock env 0) w
                 \<and> (case after of None \<Rightarrow> True | Some c \<Rightarrow> c < wait_key w)) (t_waits db)))))"

section \<open>Effects\<close>

lemma wait_of_Some: "wait_of db i = Some w \<Longrightarrow> w \<in> set (t_waits db) \<and> w_id w = i"
  unfolding wait_of_def by (rule row_by_Some)

lemma lock_session_sequence_Inr [result_simps]:
  "lock_session_sequence i db = Inr q \<longleftrightarrow>
     (\<exists>s. session_of db i = Some s \<and> q = s_next_event_sequence s)"
  by (auto simp: lock_session_sequence_def result_simps)

lemma insert_event_fresh:
  "insert_event e db = Inr db' \<Longrightarrow>
     db' = db\<lparr>t_events := t_events db @ [e]\<rparr> \<and> e_id e \<notin> e_id ` set (t_events db)"
  by (simp add: insert_event_def split: if_splits)

text \<open>One session's counter goes up by one and its inbox gets one event.\<close>

definition appended_event :: "env \<Rightarrow> session_id \<Rightarrow> event_row \<Rightarrow> db \<Rightarrow> db" where
  "appended_event env sid e db = db\<lparr>t_events := t_events db @ [e],
     t_sessions := row_update (\<lambda>s. s_id s = sid)
       (\<lambda>s. s\<lparr>s_next_event_sequence := s_next_event_sequence s + 1,
              s_updated_at := env_now env\<rparr>) (t_sessions db)\<rparr>"

lemma resolve_wait_effect:
  assumes "resolve_wait env wid key response db = Inr (res, db')"
  shows "(\<exists>w e. wait_of db wid = Some w \<and> w_status w = WtResolved
        \<and> w_resolution_key w = Some key \<and> w_resolution_hash w = Some (fingerprint env response)
        \<and> wait_event_in_tx wid db = Inr e
        \<and> res = \<lparr>wr_event = e, wr_newly_resolved = False\<rparr> \<and> db' = db)
    \<or> (\<exists>w s e. wait_of db wid = Some w \<and> w_status w = WtPending
        \<and> w_mode w \<noteq> Expiration
        \<and> \<not> deadline_passed (w_expires_at w) (env_clock env 0)
        \<and> session_of db (w_session_id w) = Some s
        \<and> e = wait_event_row env (env_uuid env 0) (w_session_id w) wid
                (s_next_event_sequence s) FinResolved
        \<and> e_id e \<notin> e_id ` set (t_events db)
        \<and> res = \<lparr>wr_event = e, wr_newly_resolved = True\<rparr>
        \<and> strip db' = appended_event env (w_session_id w) e (strip db\<lparr>
            t_waits := row_update (\<lambda>r. w_id r = wid)
              (\<lambda>r. r\<lparr>w_status := WtResolved, w_resolution_payload := Some response,
                     w_resolution_key := Some key,
                     w_resolution_hash := Some (fingerprint env response),
                     w_finished_at := Some (env_now env)\<rparr>) (t_waits db)\<rparr>))"
proof -
  obtain w where w: "wait_of db wid = Some w"
    using assms by (auto simp: resolve_wait_def Let_def result_simps)
  show ?thesis
  proof (cases "w_status w = WtResolved")
    case True
    with assms w show ?thesis by (auto simp: resolve_wait_def Let_def result_simps)
  next
    case False
    with assms w show ?thesis
      by (auto simp: resolve_wait_def Let_def result_simps insert_wait_event_def
          advance_event_sequence_def emit_update_def appended_event_def
          dest!: update_waits_Inr insert_event_fresh update_sessions_Inr emit_update_strip)
  qed
qed

lemma expire_wait_effect:
  assumes "expire_wait env wid db = Inr (res, db')"
  shows "(res = None \<and> db' = db)
    \<or> (\<exists>w s e. wait_of db wid = Some w \<and> due_wait (env_clock env 0) w
        \<and> session_of db (w_session_id w) = Some s
        \<and> e = wait_event_row env (env_uuid env 0) (w_session_id w) wid
                (s_next_event_sequence s) FinExpired
        \<and> e_id e \<notin> e_id ` set (t_events db) \<and> res = Some e
        \<and> strip db' = appended_event env (w_session_id w) e (strip db\<lparr>
            t_waits := row_update (\<lambda>r. w_id r = wid)
              (\<lambda>r. r\<lparr>w_status := WtExpired, w_finished_at := Some (env_now env)\<rparr>)
              (t_waits db)\<rparr>))"
proof -
  obtain w where w: "wait_of db wid = Some w"
    using assms by (auto simp: expire_wait_def Let_def result_simps)
  show ?thesis
  proof (cases "due_wait (env_clock env 0) w")
    case False
    with assms w show ?thesis by (auto simp: expire_wait_def due_wait_def Let_def result_simps)
  next
    case True
    with assms w show ?thesis
      by (auto simp: expire_wait_def due_wait_def Let_def result_simps insert_wait_event_def
          advance_event_sequence_def emit_update_def appended_event_def
          dest!: update_waits_Inr insert_event_fresh update_sessions_Inr emit_update_strip)
  qed
qed

section \<open>Invariants\<close>

lemma inbox_ok_appended:
  assumes ok: "inbox_ok db" and s: "session_of db sid = Some s"
    and e: "e_session_id e = sid" "e_sequence e = s_next_event_sequence s"
      "e_status e = EvPending" "e_id e \<notin> e_id ` set (t_events db)"
    and db1: "t_sessions db1 = t_sessions (strip db)" "t_events db1 = t_events db"
    and db': "strip db' = appended_event env sid e db1"
  shows "inbox_ok db'"
proof -
  have "inbox_ok (strip db')"
    by (rule inbox_ok_extend [OF ok s, where es = "[e]" and
        f = "\<lambda>s. s\<lparr>s_next_event_sequence := s_next_event_sequence s + 1,
               s_updated_at := env_now env\<rparr>"])
      (use e db1 in \<open>auto simp: db' appended_event_def fresh_events_def\<close>)
  then show ?thesis by simp
qed

lemma wait_event_row_simps [simp]:
  "e_id (wait_event_row env i sid wid n fin) = i"
  "e_session_id (wait_event_row env i sid wid n fin) = sid"
  "e_sequence (wait_event_row env i sid wid n fin) = n"
  "e_status (wait_event_row env i sid wid n fin) = EvPending"
  "e_wait_id (wait_event_row env i sid wid n fin) = Some wid"
  "e_operation_id (wait_event_row env i sid wid n fin) = None"
  by (simp_all add: wait_event_row_def new_event_def)

lemma resolve_wait_inbox:
  assumes "resolve_wait env wid key response db = Inr (res, db')" and ok: "inbox_ok db"
  shows "inbox_ok db'"
  using resolve_wait_effect [OF assms(1)]
proof (elim disjE exE conjE)
  fix w s e
  assume "session_of db (w_session_id w) = Some s" and new: "e_id e \<notin> e_id ` set (t_events db)"
    and e: "e = wait_event_row env (env_uuid env 0) (w_session_id w) wid
              (s_next_event_sequence s) FinResolved"
    and db': "strip db' = appended_event env (w_session_id w) e (strip db\<lparr>
            t_waits := row_update (\<lambda>r. w_id r = wid)
              (\<lambda>r. r\<lparr>w_status := WtResolved, w_resolution_payload := Some response,
                     w_resolution_key := Some key,
                     w_resolution_hash := Some (fingerprint env response),
                     w_finished_at := Some (env_now env)\<rparr>) (t_waits db)\<rparr>)"
  then show ?thesis
    by (intro inbox_ok_appended [OF ok _ _ _ _ new _ _ db']) simp_all
qed (simp add: ok)

lemma expire_wait_inbox:
  assumes "expire_wait env wid db = Inr (res, db')" and ok: "inbox_ok db"
  shows "inbox_ok db'"
  using expire_wait_effect [OF assms(1)]
proof (elim disjE exE conjE)
  fix w s e
  assume "session_of db (w_session_id w) = Some s" and new: "e_id e \<notin> e_id ` set (t_events db)"
    and e: "e = wait_event_row env (env_uuid env 0) (w_session_id w) wid
              (s_next_event_sequence s) FinExpired"
    and db': "strip db' = appended_event env (w_session_id w) e (strip db\<lparr>
            t_waits := row_update (\<lambda>r. w_id r = wid)
              (\<lambda>r. r\<lparr>w_status := WtExpired, w_finished_at := Some (env_now env)\<rparr>)
              (t_waits db)\<rparr>)"
  then show ?thesis
    by (intro inbox_ok_appended [OF ok _ _ _ _ new _ _ db']) simp_all
qed (simp add: ok)

text \<open>A wait is open while it is pending; its \<open>wait_resumed\<close> event announces how it ended.\<close>

definition wait_final :: "wait_row \<Rightarrow> wait_status option" where
  "wait_final w = (if w_status w = WtPending then None else Some (w_status w))"

abbreviation wait_ledger :: "db \<Rightarrow> db \<Rightarrow> bool" where
  "wait_ledger db db' \<equiv> ledger_run w_id wait_final e_wait_id
     (t_waits db, t_events db) (t_waits db', t_events db')"

lemma resolve_wait_ledger:
  assumes "resolve_wait env wid key response db = Inr (res, db')"
  shows "wait_ledger db db'"
  using resolve_wait_effect [OF assms]
proof (elim disjE exE conjE)
  fix w s e
  assume "wait_of db wid = Some w" "w_status w = WtPending"
    and e: "e = wait_event_row env (env_uuid env 0) (w_session_id w) wid
              (s_next_event_sequence s) FinResolved"
    and db': "strip db' = appended_event env (w_session_id w) e (strip db\<lparr>
            t_waits := row_update (\<lambda>r. w_id r = wid)
              (\<lambda>r. r\<lparr>w_status := WtResolved, w_resolution_payload := Some response,
                     w_resolution_key := Some key,
                     w_resolution_hash := Some (fingerprint env response),
                     w_finished_at := Some (env_now env)\<rparr>) (t_waits db)\<rparr>)"
  then show ?thesis
    by (intro ledger_settleI [where r = w and e = e and k = wid and
        f = "\<lambda>r. r\<lparr>w_status := WtResolved, w_resolution_payload := Some response,
               w_resolution_key := Some key, w_resolution_hash := Some (fingerprint env response),
               w_finished_at := Some (env_now env)\<rparr>"])
      (auto simp: wait_final_def appended_event_def dest!: strip_eqD dest: wait_of_Some)
qed simp

lemma expire_wait_ledger:
  assumes "expire_wait env wid db = Inr (res, db')"
  shows "wait_ledger db db'"
  using expire_wait_effect [OF assms]
proof (elim disjE exE conjE)
  fix w s e
  assume "wait_of db wid = Some w" "due_wait (env_clock env 0) w"
    and e: "e = wait_event_row env (env_uuid env 0) (w_session_id w) wid
              (s_next_event_sequence s) FinExpired"
    and db': "strip db' = appended_event env (w_session_id w) e (strip db\<lparr>
            t_waits := row_update (\<lambda>r. w_id r = wid)
              (\<lambda>r. r\<lparr>w_status := WtExpired, w_finished_at := Some (env_now env)\<rparr>)
              (t_waits db)\<rparr>)"
  then show ?thesis
    by (intro ledger_settleI [where r = w and e = e and k = wid and
        f = "\<lambda>r. r\<lparr>w_status := WtExpired, w_finished_at := Some (env_now env)\<rparr>"])
      (auto simp: wait_final_def due_wait_def appended_event_def
        dest!: strip_eqD dest: wait_of_Some)
qed simp

text \<open>Both together are one settling operation.\<close>

fun settle_wait ::
    "env \<times> wait_id \<times> (string \<times> raw_json) option \<Rightarrow> db \<Rightarrow> store_error + db" where
  "settle_wait (env, wid, Some (key, response)) db =
     bindR (resolve_wait env wid key response db) (\<lambda>(_, db). Inr db)"
| "settle_wait (env, wid, None) db = bindR (expire_wait env wid db) (\<lambda>(_, db). Inr db)"

interpretation wait_settlement:
  settlement t_waits t_events w_id wait_final e_wait_id settle_wait
proof
  fix c :: "env \<times> wait_id \<times> (string \<times> raw_json) option" and db db'
  assume "settle_wait c db = Inr db'"
  then show "wait_ledger db db'"
    by (cases "(c, db)" rule: settle_wait.cases)
      (auto simp: result_simps intro: resolve_wait_ledger expire_wait_ledger)
qed

end
