(* ===== verification/Operations.thy ===== *)
theory Operations
  imports Waits
begin

text \<open>
  Gateway operations (\<open>packages/agent-store/src/store.rs\<close>, "Gateway operation ownership and
  settlement"): claiming an operation for one of the four phases, deferring, accepting,
  retrying and completing it, and withdrawing an operation that was never submitted. Every
  operation ends exactly once and announces it with one \<open>operation_completed\<close> event.
\<close>

section \<open>Claims\<close>

record claimed_operation =
  k_operation :: operation_row
  k_request :: "raw_json option"
  k_phase :: operation_phase
  k_attempt_id :: uuid
  k_attempt_number :: int
  k_lease_token :: uuid
  k_recovering_uncertain :: bool

abbreviation k_id :: "claimed_operation \<Rightarrow> operation_id" where
  "k_id claim \<equiv> o_id (k_operation claim)"

abbreviation k_session :: "claimed_operation \<Rightarrow> session_id" where
  "k_session claim \<equiv> o_session_id (k_operation claim)"

text \<open>The \<open>eligibility\<close> clause of each phase.\<close>

definition eligible :: "operation_phase \<Rightarrow> operation_row \<Rightarrow> bool" where
  "eligible phase r \<longleftrightarrow>
     (case phase of
        Submission \<Rightarrow> (o_status r = OpPending \<or> o_status r = OpSubmitting)
          \<and> (o_kind r = KindLlm \<or> o_kind r = KindExecution)
      | ResultRetrieval \<Rightarrow> o_status r = OpAccepted
      | Cancellation \<Rightarrow> (o_status r = OpPending \<or> o_status r = OpSubmitting)
          \<and> o_kind r = KindLlmCancellation
      | Withdrawal \<Rightarrow> (o_status r = OpPending \<or> o_status r = OpSubmitting)
          \<and> o_kind r = KindWithdraw)"

definition operation_ready :: "operation_phase \<Rightarrow> time \<Rightarrow> operation_row \<Rightarrow> bool" where
  "operation_ready phase now r \<longleftrightarrow>
     eligible phase r \<and> o_next_attempt_at r \<le> now
     \<and> lease_free (o_lease_token r) (o_lease_expires_at r) now"

text \<open>The candidate query (\<open>FOR UPDATE OF s SKIP LOCKED\<close>: operations of a locked session are
  passed over), then the operation's own row, if no other transaction holds it.\<close>

definition operation_candidate :: "env \<Rightarrow> operation_phase \<Rightarrow> db \<Rightarrow> operation_row option" where
  "operation_candidate env phase db =
     first_by (\<lambda>r. (o_next_attempt_at r, o_created_at r, o_id r))
       (filter (\<lambda>r. operation_ready phase (env_clock env 0) r
          \<and> session_of db (o_session_id r) \<noteq> None \<and> \<not> env_skip env (o_session_id r))
         (t_operations db))"

definition claim_operation_at ::
    "env \<Rightarrow> operation_phase \<Rightarrow> nat \<Rightarrow> operation_row \<Rightarrow> db
     \<Rightarrow> store_error + claimed_operation \<times> db" where
  "claim_operation_at env phase lease_for locked db =
     (let oid = o_id locked; sid = o_session_id locked in
      bindR (update_op_attempts (\<lambda>a. oa_operation_id a = oid \<and> oa_status a = OaRunning)
        (\<lambda>a. a\<lparr>oa_status := OaUnknown, oa_finished_at := Some (env_now env)\<rparr>) db) (\<lambda>db.
      let number = max_number (map oa_number
            (filter (\<lambda>a. oa_operation_id a = oid) (t_op_attempts db))) + 1;
          token = env_uuid env 0; attempt = env_uuid env 1 in
      bindR (duration_millis lease_for) (\<lambda>lease_ms.
      bindR (update_operations (\<lambda>r. o_id r = oid)
        (\<lambda>r. r\<lparr>o_status := (if o_status r = OpPending then OpSubmitting else o_status r),
               o_lease_token := Some token,
               o_lease_expires_at := Some (add_millis (env_clock env 2) lease_ms)\<rparr>) db) (\<lambda>db.
      bindR (insert_op_attempt \<lparr>oa_id = attempt, oa_operation_id = oid, oa_number = number,
        oa_phase = phase, oa_lease_token = token, oa_status = OaRunning, oa_http_status = None,
        oa_error = None, oa_started_at = env_now env, oa_finished_at = None\<rparr> db) (\<lambda>db.
      bindR (ok_or (operation_of db oid) (Database RowNotFound)) (\<lambda>r.
      let request = (if phase = Submission \<or> phase = Cancellation
            then map_option r_request (row_by r_operation_id oid (t_requests db)) else None);
          claim = \<lparr>k_operation = r, k_request = request, k_phase = phase,
            k_attempt_id = attempt, k_attempt_number = number, k_lease_token = token,
            k_recovering_uncertain = (o_status locked = OpSubmitting)\<rparr> in
      bindR (if o_status locked = OpPending
             then emit_update env sid OperationChanged (OperationRef oid) db else Inr db) (\<lambda>db.
      Inr (claim, db))))))))"

definition claim_operation ::
    "env \<Rightarrow> operation_phase \<Rightarrow> nat \<Rightarrow> db \<Rightarrow> store_error + claimed_operation option \<times> db" where
  "claim_operation env phase lease_for db =
     (case operation_candidate env phase db of
        None \<Rightarrow> Inr (None, db)
      | Some r \<Rightarrow>
          if operation_ready phase (env_clock env 1) r \<and> \<not> env_skip env (o_id r)
          then bindR (claim_operation_at env phase lease_for r db)
                 (\<lambda>(claim, db). Inr (Some claim, db))
          else Inr (None, db))"

text \<open>\<open>lock_valid_operation_claim\<close>: the row, if the claim still owns it at \<open>now\<close>.\<close>

definition lock_valid_operation_claim ::
    "time \<Rightarrow> claimed_operation \<Rightarrow> db \<Rightarrow> store_error + operation_row" where
  "lock_valid_operation_claim now claim db =
     bindR (ok_or (operation_of db (k_id claim)) (OperationNotFound (k_id claim))) (\<lambda>r.
     bindR (guardR (o_lease_token r = Some (k_lease_token claim)
        \<and> (case o_lease_expires_at r of None \<Rightarrow> False | Some t \<Rightarrow> now < t)) StaleClaim) (\<lambda>_.
     Inr r))"

definition attempt_of_claim :: "claimed_operation \<Rightarrow> op_attempt_row \<Rightarrow> bool" where
  "attempt_of_claim claim a \<longleftrightarrow>
     oa_id a = k_attempt_id claim \<and> oa_lease_token a = k_lease_token claim
     \<and> oa_status a = OaRunning"

definition finish_operation_attempt ::
    "env \<Rightarrow> claimed_operation \<Rightarrow> op_attempt_status \<Rightarrow> int option \<Rightarrow> json option \<Rightarrow> db
     \<Rightarrow> store_error + db" where
  "finish_operation_attempt env claim status http_status error db =
     bindR (update_op_attempts (attempt_of_claim claim)
       (\<lambda>a. a\<lparr>oa_status := status, oa_http_status := http_status, oa_error := error,
              oa_finished_at := Some (env_now env)\<rparr>) db) (\<lambda>db'.
     bindR (guardR (length (filter (attempt_of_claim claim) (t_op_attempts db)) = 1) StaleClaim)
       (\<lambda>_. Inr db'))"

section \<open>Progress of a claimed operation\<close>

text \<open>What the four non-terminal operations do to the row: clear the lease, reschedule.\<close>

definition defer_operation ::
    "env \<Rightarrow> claimed_operation \<Rightarrow> time \<Rightarrow> db \<Rightarrow> store_error + db" where
  "defer_operation env claim retry_at db =
     bindR (lock_session_sequence (k_session claim) db) (\<lambda>_.
     bindR (lock_valid_operation_claim (env_clock env 0) claim db) (\<lambda>current.
     bindR (guardR ((k_phase claim = Submission \<or> k_phase claim = Cancellation)
        \<and> o_status current = OpSubmitting)
        (InvalidInput ''only a submission or cancellation claim can be deferred'')) (\<lambda>_.
     bindR (update_operations (\<lambda>r. o_id r = k_id claim)
       (\<lambda>r. r\<lparr>o_status := OpPending, o_next_attempt_at := retry_at, o_error := None,
              o_lease_token := None, o_lease_expires_at := None\<rparr>) db) (\<lambda>db.
     bindR (finish_operation_attempt env claim OaSucceeded None None db) (\<lambda>db.
     emit_update env (k_session claim) OperationChanged (OperationRef (k_id claim)) db)))))"

definition record_operation_accepted ::
    "env \<Rightarrow> claimed_operation \<Rightarrow> uuid \<Rightarrow> time \<Rightarrow> int option \<Rightarrow> db \<Rightarrow> store_error + db" where
  "record_operation_accepted env claim gateway_job_id result_check_at http_status db =
     bindR (lock_session_sequence (k_session claim) db) (\<lambda>_.
     bindR (lock_valid_operation_claim (env_clock env 0) claim db) (\<lambda>current.
     bindR (guardR (k_phase claim = Submission \<and> o_status current = OpSubmitting
        \<and> o_job_id current = None)
        (InvalidInput ''only a new submission claim can accept a gateway job'')) (\<lambda>_.
     bindR (update_operations (\<lambda>r. o_id r = k_id claim)
       (\<lambda>r. r\<lparr>o_status := OpAccepted, o_job_id := Some gateway_job_id,
              o_submitted_at := Some (env_now env), o_error := None, o_lease_token := None,
              o_lease_expires_at := None, o_next_attempt_at := result_check_at\<rparr>) db) (\<lambda>db.
     bindR (finish_operation_attempt env claim OaSucceeded http_status None db) (\<lambda>db.
     emit_update env (k_session claim) OperationChanged (OperationRef (k_id claim)) db)))))"

definition renew_operation_claim ::
    "env \<Rightarrow> claimed_operation \<Rightarrow> nat \<Rightarrow> db \<Rightarrow> store_error + db" where
  "renew_operation_claim env claim lease_for db =
     bindR (lock_valid_operation_claim (env_clock env 0) claim db) (\<lambda>_.
     bindR (duration_millis lease_for) (\<lambda>lease_ms.
     update_operations (\<lambda>r. o_id r = k_id claim)
       (\<lambda>r. r\<lparr>o_lease_expires_at := Some (add_millis (env_clock env 1) lease_ms)\<rparr>) db))"

text \<open>The status an operation goes back to when a claim's request failed.\<close>

definition retry_status ::
    "operation_phase \<Rightarrow> operation_status \<Rightarrow> bool \<Rightarrow> operation_status option" where
  "retry_status phase status uncertain =
     (if phase = Submission \<and> status = OpSubmitting
      then Some (if uncertain then OpSubmitting else OpPending)
      else if phase = ResultRetrieval \<and> status = OpAccepted then Some OpAccepted
      else if phase = Cancellation \<and> status = OpSubmitting
      then Some (if uncertain then OpSubmitting else OpPending)
      else None)"

definition record_operation_retry ::
    "env \<Rightarrow> claimed_operation \<Rightarrow> bool \<Rightarrow> time \<Rightarrow> int option \<Rightarrow> json \<Rightarrow> db \<Rightarrow> store_error + db" where
  "record_operation_retry env claim uncertain retry_at http_status error db =
     bindR (lock_session_sequence (k_session claim) db) (\<lambda>_.
     bindR (lock_valid_operation_claim (env_clock env 0) claim db) (\<lambda>current.
     bindR (ok_or (retry_status (k_phase claim) (o_status current) uncertain)
        (InvalidInput ''operation retry does not match its claim phase and status'')) (\<lambda>next_status.
     bindR (update_operations (\<lambda>r. o_id r = k_id claim)
       (\<lambda>r. r\<lparr>o_status := next_status, o_next_attempt_at := retry_at, o_error := Some error,
              o_lease_token := None, o_lease_expires_at := None\<rparr>) db) (\<lambda>db.
     bindR (finish_operation_attempt env claim (if uncertain then OaUnknown else OaFailed)
        http_status (Some error) db) (\<lambda>db.
     emit_update env (k_session claim) OperationChanged (OperationRef (k_id claim)) db)))))"

definition record_operation_pending_result ::
    "env \<Rightarrow> claimed_operation \<Rightarrow> time \<Rightarrow> int option \<Rightarrow> db \<Rightarrow> store_error + db" where
  "record_operation_pending_result env claim check_again_at http_status db =
     bindR (lock_session_sequence (k_session claim) db) (\<lambda>_.
     bindR (lock_valid_operation_claim (env_clock env 0) claim db) (\<lambda>current.
     bindR (guardR (k_phase claim = ResultRetrieval \<and> o_status current = OpAccepted)
        (InvalidInput ''a nonterminal result requires an accepted result-retrieval claim'')) (\<lambda>_.
     bindR (update_operations (\<lambda>r. o_id r = k_id claim)
       (\<lambda>r. r\<lparr>o_next_attempt_at := check_again_at, o_error := None, o_lease_token := None,
              o_lease_expires_at := None\<rparr>) db) (\<lambda>db.
     bindR (finish_operation_attempt env claim OaSucceeded http_status None db) (\<lambda>db.
     if o_error current \<noteq> None
     then emit_update env (k_session claim) OperationChanged (OperationRef (k_id claim)) db
     else Inr db)))))"

section \<open>Completion\<close>

definition operation_event_row ::
    "env \<Rightarrow> event_id \<Rightarrow> session_id \<Rightarrow> operation_id \<Rightarrow> operation_kind \<Rightarrow> operation_status \<Rightarrow> int
     \<Rightarrow> event_row" where
  "operation_event_row env i sid oid kind status seq =
     new_event env i sid seq EvOperationCompleted (OperationCompletedPayload oid kind status)
       (Some oid) None None None"

definition insert_operation_event ::
    "env \<Rightarrow> event_id \<Rightarrow> session_id \<Rightarrow> operation_id \<Rightarrow> operation_kind \<Rightarrow> operation_status \<Rightarrow> int
     \<Rightarrow> db \<Rightarrow> store_error + event_row \<times> db" where
  "insert_operation_event env i sid oid kind status seq db =
     bindR (insert_event (operation_event_row env i sid oid kind status seq) db) (\<lambda>db.
     Inr (operation_event_row env i sid oid kind status seq, db))"

text \<open>\<open>if let Some(expires_at) = request_expires_at { UPDATE ... }\<close>\<close>

definition expire_request :: "operation_id \<Rightarrow> time option \<Rightarrow> db \<Rightarrow> store_error + db" where
  "expire_request oid expires_at db =
     (case expires_at of
        None \<Rightarrow> Inr db
      | Some t \<Rightarrow> update_requests (\<lambda>q. r_operation_id q = oid) (\<lambda>q. q\<lparr>r_expires_at := Some t\<rparr>) db)"

definition completion_phase_ok ::
    "operation_phase \<Rightarrow> operation_row \<Rightarrow> operation_status \<Rightarrow> bool" where
  "completion_phase_ok phase current status \<longleftrightarrow>
     (case phase of
        Submission \<Rightarrow> o_status current = OpSubmitting \<and> status = OpFailed \<and> o_job_id current = None
      | ResultRetrieval \<Rightarrow> o_status current = OpAccepted
      | Cancellation \<Rightarrow> o_status current = OpSubmitting
      | Withdrawal \<Rightarrow> False)"

definition complete_operation_with_http_status ::
    "env \<Rightarrow> claimed_operation \<Rightarrow> operation_status \<Rightarrow> raw_json option \<Rightarrow> json option
     \<Rightarrow> time option \<Rightarrow> int option \<Rightarrow> db \<Rightarrow> store_error + event_row \<times> db" where
  "complete_operation_with_http_status env claim status result error request_expires_at
       http_status db =
     bindR (guardR (op_terminal status)
       (InvalidInput ''operation completion requires a terminal status'')) (\<lambda>_.
     bindR (lock_session_sequence (k_session claim) db) (\<lambda>seq.
     bindR (lock_valid_operation_claim (env_clock env 0) claim db) (\<lambda>current.
     bindR (guardR (completion_phase_ok (k_phase claim) current status)
       (InvalidInput ''operation completion does not match its claim phase and status'')) (\<lambda>_.
     bindR (update_operations (\<lambda>r. o_id r = k_id claim)
       (\<lambda>r. r\<lparr>o_status := status, o_result := result, o_error := error,
              o_completed_at := Some (env_now env), o_lease_token := None,
              o_lease_expires_at := None\<rparr>) db) (\<lambda>db.
     bindR (expire_request (k_id claim) request_expires_at db) (\<lambda>db.
     bindR (insert_operation_event env (env_uuid env 0) (k_session claim) (k_id claim)
       (o_kind (k_operation claim)) status seq db) (\<lambda>(e, db).
     bindR (advance_event_sequence env (k_session claim) db) (\<lambda>db.
     bindR (finish_operation_attempt env claim OaSucceeded http_status None db) (\<lambda>db.
     bindR (emit_update env (k_session claim) OperationChanged (OperationRef (k_id claim)) db) (\<lambda>db.
     bindR (emit_update env (k_session claim) EventChanged (EventRef (e_id e) None) db) (\<lambda>db.
     Inr (e, db))))))))))))"

definition complete_operation ::
    "env \<Rightarrow> claimed_operation \<Rightarrow> operation_status \<Rightarrow> raw_json option \<Rightarrow> json option
     \<Rightarrow> time option \<Rightarrow> db \<Rightarrow> store_error + event_row \<times> db" where
  "complete_operation env claim status result error request_expires_at db =
     complete_operation_with_http_status env claim status result error request_expires_at None db"

section \<open>Withdrawal\<close>

definition withdraw_result :: "bool \<Rightarrow> raw_json" where
  \<open>withdraw_result withdrawn =
     (if withdrawn then ''{"kind":"withdraw","value":{"withdrawn":true}}''
      else ''{"kind":"withdraw","value":{"withdrawn":false}}'')\<close>

text \<open>The part of the transaction that runs only if the target was never submitted.\<close>

definition withdraw_target ::
    "env \<Rightarrow> session_id \<Rightarrow> operation_row \<Rightarrow> time option \<Rightarrow> int \<Rightarrow> db
     \<Rightarrow> store_error + event_row \<times> db" where
  "withdraw_target env sid target request_expires_at seq db =
     bindR (update_operations (\<lambda>r. o_id r = o_id target)
       (\<lambda>r. r\<lparr>o_status := OpCancelled, o_completed_at := Some (env_now env),
              o_lease_token := None, o_lease_expires_at := None\<rparr>) db) (\<lambda>db.
     bindR (insert_operation_event env (env_uuid env 0) sid (o_id target) (o_kind target)
       OpCancelled seq db) (\<lambda>(e, db).
     bindR (expire_request (o_id target) request_expires_at db) (\<lambda>db. Inr (e, db))))"

definition complete_withdrawal ::
    "env \<Rightarrow> claimed_operation \<Rightarrow> time option \<Rightarrow> db \<Rightarrow> store_error + (bool \<times> event_row list) \<times> db" where
  "complete_withdrawal env claim request_expires_at db =
     bindR (guardR (k_phase claim = Withdrawal \<and> o_kind (k_operation claim) = KindWithdraw)
       (InvalidInput ''withdrawal completion requires a withdrawal claim'')) (\<lambda>_.
     bindR (ok_or (o_target (k_operation claim))
       (InvalidInput ''withdrawal operation has no target'')) (\<lambda>target_id.
     bindR (lock_session_sequence (k_session claim) db) (\<lambda>seq.
     bindR (lock_valid_operation_claim (env_clock env 0) claim db) (\<lambda>current.
     bindR (guardR (o_status current = OpSubmitting)
       (InvalidInput ''withdrawal is not in a claimable state'')) (\<lambda>_.
     bindR (ok_or (List.find (\<lambda>r. o_session_id r = k_session claim \<and> o_id r = target_id)
       (t_operations db)) (OperationNotFound target_id)) (\<lambda>target.
     let withdrawn = (o_status target = OpPending \<and> o_lease_token target = None) in
     bindR (if withdrawn
            then bindR (withdraw_target env (k_session claim) target request_expires_at seq db)
                   (\<lambda>(e, db). Inr ([e], db))
            else Inr ([], db)) (\<lambda>(events, db).
     let seq = seq + int (length events) in
     bindR (update_operations (\<lambda>r. o_id r = k_id claim)
       (\<lambda>r. r\<lparr>o_status := OpSucceeded, o_result := Some (withdraw_result withdrawn),
              o_completed_at := Some (env_now env), o_lease_token := None,
              o_lease_expires_at := None\<rparr>) db) (\<lambda>db.
     bindR (expire_request (k_id claim) request_expires_at db) (\<lambda>db.
     bindR (insert_operation_event env (env_uuid env 1) (k_session claim) (k_id claim)
       KindWithdraw OpSucceeded seq db) (\<lambda>(e, db).
     let events = events @ [e]; seq = seq + 1 in
     bindR (update_sessions (\<lambda>s. s_id s = k_session claim)
       (\<lambda>s. s\<lparr>s_next_event_sequence := seq, s_updated_at := env_now env\<rparr>) db) (\<lambda>db.
     bindR (finish_operation_attempt env claim OaSucceeded None None db) (\<lambda>db.
     bindR (if withdrawn
            then emit_update env (k_session claim) OperationChanged (OperationRef target_id) db
            else Inr db) (\<lambda>db.
     bindR (emit_update env (k_session claim) OperationChanged (OperationRef (k_id claim)) db) (\<lambda>db.
     bindR (foldR (\<lambda>e. emit_update env (k_session claim) EventChanged (EventRef (e_id e) None))
       events db) (\<lambda>db.
     Inr ((withdrawn, events), db))))))))))))))))"

end
