(* ===== verification/OperationOps.thy ===== *)
theory OperationOps
  imports Operations
begin

text \<open>
  What each operation of \<open>Operations\<close> does to the database up to its update log, that each
  keeps the inbox invariant, and that together they run the ledger of operations: an
  operation gets one final status and one \<open>operation_completed\<close> event.
\<close>

section \<open>Effects\<close>

lemma operation_of_Some: "operation_of db i = Some r \<Longrightarrow> r \<in> set (t_operations db) \<and> o_id r = i"
  unfolding operation_of_def by (rule row_by_Some)

lemma lock_valid_operation_claim_Inr [result_simps]:
  "lock_valid_operation_claim now claim db = Inr r \<longleftrightarrow>
     operation_of db (k_id claim) = Some r \<and> o_lease_token r = Some (k_lease_token claim)
     \<and> (\<exists>t. o_lease_expires_at r = Some t \<and> now < t)"
  by (auto simp: lock_valid_operation_claim_def result_simps split: option.splits)

lemma finish_operation_attempt_Inr:
  "finish_operation_attempt env claim status http_status error db = Inr db' \<Longrightarrow>
     db' = db\<lparr>t_op_attempts := row_update (attempt_of_claim claim)
       (\<lambda>a. a\<lparr>oa_status := status, oa_http_status := http_status, oa_error := error,
              oa_finished_at := Some (env_now env)\<rparr>) (t_op_attempts db)\<rparr>
     \<and> length (filter (attempt_of_claim claim) (t_op_attempts db)) = 1"
  by (auto simp: finish_operation_attempt_def result_simps dest!: update_op_attempts_Inr)

lemmas operation_stmts =
  update_operations_Inr finish_operation_attempt_Inr emit_update_strip

text \<open>The shape all steps of a claimed operation share.\<close>

definition claim_step ::
    "env \<Rightarrow> claimed_operation \<Rightarrow> (operation_row \<Rightarrow> operation_row)
     \<Rightarrow> (op_attempt_row \<Rightarrow> op_attempt_row) \<Rightarrow> operation_row \<Rightarrow> db \<Rightarrow> db \<Rightarrow> bool" where
  "claim_step env claim f g current db db' \<longleftrightarrow>
     lock_valid_operation_claim (env_clock env 0) claim db = Inr current
     \<and> length (filter (attempt_of_claim claim) (t_op_attempts db)) = 1
     \<and> strip db' = strip db\<lparr>
         t_operations := row_update (\<lambda>r. o_id r = k_id claim) f (t_operations db),
         t_op_attempts := row_update (attempt_of_claim claim) g (t_op_attempts db)\<rparr>"

lemma defer_operation_effect:
  assumes "defer_operation env claim retry_at db = Inr db'"
  shows "\<exists>current. o_status current = OpSubmitting
    \<and> (k_phase claim = Submission \<or> k_phase claim = Cancellation)
    \<and> claim_step env claim
        (\<lambda>r. r\<lparr>o_status := OpPending, o_next_attempt_at := retry_at, o_error := None,
               o_lease_token := None, o_lease_expires_at := None\<rparr>)
        (\<lambda>a. a\<lparr>oa_status := OaSucceeded, oa_http_status := None, oa_error := None,
               oa_finished_at := Some (env_now env)\<rparr>) current db db'"
  using assms
  by (auto simp: defer_operation_def result_simps emit_update_def claim_step_def
      dest!: operation_stmts)

lemma record_operation_accepted_effect:
  assumes "record_operation_accepted env claim job result_check_at http_status db = Inr db'"
  shows "\<exists>current. o_status current = OpSubmitting \<and> o_job_id current = None
    \<and> k_phase claim = Submission
    \<and> claim_step env claim
        (\<lambda>r. r\<lparr>o_status := OpAccepted, o_job_id := Some job,
               o_submitted_at := Some (env_now env), o_error := None, o_lease_token := None,
               o_lease_expires_at := None, o_next_attempt_at := result_check_at\<rparr>)
        (\<lambda>a. a\<lparr>oa_status := OaSucceeded, oa_http_status := http_status, oa_error := None,
               oa_finished_at := Some (env_now env)\<rparr>) current db db'"
  using assms
  by (auto simp: record_operation_accepted_def result_simps emit_update_def claim_step_def
      dest!: operation_stmts)

lemma record_operation_retry_effect:
  assumes "record_operation_retry env claim uncertain retry_at http_status error db = Inr db'"
  shows "\<exists>current status.
      retry_status (k_phase claim) (o_status current) uncertain = Some status
    \<and> claim_step env claim
        (\<lambda>r. r\<lparr>o_status := status, o_next_attempt_at := retry_at, o_error := Some error,
               o_lease_token := None, o_lease_expires_at := None\<rparr>)
        (\<lambda>a. a\<lparr>oa_status := (if uncertain then OaUnknown else OaFailed),
               oa_http_status := http_status, oa_error := Some error,
               oa_finished_at := Some (env_now env)\<rparr>) current db db'"
  using assms
  by (auto simp: record_operation_retry_def result_simps emit_update_def claim_step_def
      dest!: operation_stmts)

lemma record_operation_pending_result_effect:
  assumes "record_operation_pending_result env claim check_again_at http_status db = Inr db'"
  shows "\<exists>current. o_status current = OpAccepted \<and> k_phase claim = ResultRetrieval
    \<and> claim_step env claim
        (\<lambda>r. r\<lparr>o_next_attempt_at := check_again_at, o_error := None, o_lease_token := None,
               o_lease_expires_at := None\<rparr>)
        (\<lambda>a. a\<lparr>oa_status := OaSucceeded, oa_http_status := http_status, oa_error := None,
               oa_finished_at := Some (env_now env)\<rparr>) current db db'"
  using assms
  by (auto simp: record_operation_pending_result_def result_simps emit_update_def claim_step_def
      dest!: operation_stmts split: if_splits)

lemma renew_operation_claim_effect:
  assumes "renew_operation_claim env claim lease_for db = Inr db'"
  shows "\<exists>current. lock_valid_operation_claim (env_clock env 0) claim db = Inr current
    \<and> db' = db\<lparr>t_operations := row_update (\<lambda>r. o_id r = k_id claim)
        (\<lambda>r. r\<lparr>o_lease_expires_at := Some (add_millis (env_clock env 1) (int lease_for))\<rparr>)
        (t_operations db)\<rparr>"
  using assms
  by (auto simp: renew_operation_claim_def result_simps duration_millis_def
      dest!: update_operations_Inr split: if_splits)

lemma operation_candidate_Some:
  assumes "operation_candidate env phase db = Some r"
  shows "r \<in> set (t_operations db) \<and> operation_ready phase (env_clock env 0) r
    \<and> session_of db (o_session_id r) \<noteq> None \<and> \<not> env_skip env (o_session_id r)"
  using first_by_Some(1) [OF assms [unfolded operation_candidate_def]] by simp

text \<open>The number of the next attempt of an operation.\<close>

definition next_attempt_number :: "db \<Rightarrow> operation_id \<Rightarrow> int" where
  "next_attempt_number db i =
     max_number (map oa_number (filter (\<lambda>a. oa_operation_id a = i) (t_op_attempts db))) + 1"

definition claimed_db :: "env \<Rightarrow> operation_phase \<Rightarrow> nat \<Rightarrow> operation_id \<Rightarrow> db \<Rightarrow> db" where
  "claimed_db env phase lease_for i db = db\<lparr>
     t_operations := row_update (\<lambda>q. o_id q = i)
       (\<lambda>q. q\<lparr>o_status := (if o_status q = OpPending then OpSubmitting else o_status q),
              o_lease_token := Some (env_uuid env 0),
              o_lease_expires_at := Some (add_millis (env_clock env 2) (int lease_for))\<rparr>)
       (t_operations db),
     t_op_attempts := row_update (\<lambda>a. oa_operation_id a = i \<and> oa_status a = OaRunning)
       (\<lambda>a. a\<lparr>oa_status := OaUnknown, oa_finished_at := Some (env_now env)\<rparr>) (t_op_attempts db)
       @ [\<lparr>oa_id = env_uuid env 1, oa_operation_id = i, oa_number = next_attempt_number db i,
           oa_phase = phase, oa_lease_token = env_uuid env 0, oa_status = OaRunning,
           oa_http_status = None, oa_error = None, oa_started_at = env_now env,
           oa_finished_at = None\<rparr>]\<rparr>"

lemma claim_operation_at_effect:
  assumes "claim_operation_at env phase lease_for r db = Inr (claim, db')"
  shows "strip db' = claimed_db env phase lease_for (o_id r) (strip db)"
    and "k_phase claim = phase" and "k_lease_token claim = env_uuid env 0"
    and "k_attempt_id claim = env_uuid env 1"
    and "k_attempt_number claim = next_attempt_number db (o_id r)"
    and "k_recovering_uncertain claim = (o_status r = OpSubmitting)"
    and "operation_of (claimed_db env phase lease_for (o_id r) db) (o_id r)
      = Some (k_operation claim)"
proof -
  define number where "number = next_attempt_number db (o_id r)"
  have num: "max_number (map oa_number (filter (\<lambda>a. oa_operation_id a = o_id r)
      (row_update (\<lambda>a. oa_operation_id a = o_id r \<and> oa_status a = OaRunning)
       (\<lambda>a. a\<lparr>oa_status := OaUnknown, oa_finished_at := Some (env_now env)\<rparr>)
       (t_op_attempts db)))) + 1 = number"
    by (simp add: number_def next_attempt_number_def filter_row_update)
  have strip_num: "next_attempt_number (strip db) (o_id r) = number"
    by (simp add: number_def next_attempt_number_def)
  obtain db1 where
    claim: "k_phase claim = phase" "k_lease_token claim = env_uuid env 0"
      "k_attempt_id claim = env_uuid env 1" "k_attempt_number claim = number"
      "k_recovering_uncertain claim = (o_status r = OpSubmitting)"
      "operation_of db1 (o_id r) = Some (k_operation claim)"
    and db1: "db1 = claimed_db env phase lease_for (o_id r) db"
    and db': "db' = db1 \<or> strip db' = strip db1"
    using assms num
    by (auto simp: claim_operation_at_def claimed_db_def result_simps emit_update_def Let_def
        duration_millis_def number_def [symmetric]
        dest!: update_operations_Inr update_op_attempts_Inr insert_op_attempt_Inr
          emit_update_strip split: if_splits)
  have "strip db1 = claimed_db env phase lease_for (o_id r) (strip db)"
    by (simp add: db1 claimed_db_def strip_num number_def)
  with db' show "strip db' = claimed_db env phase lease_for (o_id r) (strip db)" by auto
  show "operation_of (claimed_db env phase lease_for (o_id r) db) (o_id r)
      = Some (k_operation claim)"
    using claim(6) by (simp add: db1)
  show "k_phase claim = phase" "k_lease_token claim = env_uuid env 0"
    "k_attempt_id claim = env_uuid env 1"
    "k_attempt_number claim = next_attempt_number db (o_id r)"
    "k_recovering_uncertain claim = (o_status r = OpSubmitting)"
    using claim number_def by simp_all
qed

lemma claim_operation_cases:
  assumes "claim_operation env phase lease_for db = Inr (res, db')"
  shows "(res = None \<and> db' = db)
    \<or> (\<exists>r claim. res = Some claim \<and> r \<in> set (t_operations db)
        \<and> session_of db (o_session_id r) \<noteq> None
        \<and> operation_ready phase (env_clock env 0) r \<and> operation_ready phase (env_clock env 1) r
        \<and> claim_operation_at env phase lease_for r db = Inr (claim, db'))"
proof (cases "operation_candidate env phase db")
  case None
  with assms show ?thesis by (simp add: claim_operation_def)
next
  case (Some r)
  with assms operation_candidate_Some [OF Some] show ?thesis
    by (auto simp: claim_operation_def result_simps split: if_splits)
qed

section \<open>Completion\<close>

definition expired_requests :: "operation_id \<Rightarrow> time option \<Rightarrow> request_row list \<Rightarrow> request_row list"
  where
  "expired_requests i t rows = (case t of None \<Rightarrow> rows
     | Some x \<Rightarrow> row_update (\<lambda>q. r_operation_id q = i) (\<lambda>q. q\<lparr>r_expires_at := Some x\<rparr>) rows)"

lemma expire_request_Inr:
  "expire_request i t db = Inr db' \<Longrightarrow>
     db' = db\<lparr>t_requests := expired_requests i t (t_requests db)\<rparr>"
  by (auto simp: expire_request_def expired_requests_def dest!: update_requests_Inr
      split: option.splits)

lemma insert_operation_event_Inr:
  "insert_operation_event env i sid oid kind status seq db = Inr (e, db') \<Longrightarrow>
     e = operation_event_row env i sid oid kind status seq
     \<and> db' = db\<lparr>t_events := t_events db @ [e]\<rparr> \<and> e_id e \<notin> e_id ` set (t_events db)"
  by (auto simp: insert_operation_event_def result_simps dest!: insert_event_fresh)

lemma operation_event_row_simps [simp]:
  "e_id (operation_event_row env i sid oid kind status n) = i"
  "e_session_id (operation_event_row env i sid oid kind status n) = sid"
  "e_sequence (operation_event_row env i sid oid kind status n) = n"
  "e_status (operation_event_row env i sid oid kind status n) = EvPending"
  "e_operation_id (operation_event_row env i sid oid kind status n) = Some oid"
  "e_wait_id (operation_event_row env i sid oid kind status n) = None"
  by (simp_all add: operation_event_row_def new_event_def)

definition completed_row ::
    "env \<Rightarrow> operation_status \<Rightarrow> raw_json option \<Rightarrow> json option \<Rightarrow> operation_row \<Rightarrow> operation_row"
  where
  "completed_row env status result error r = r\<lparr>o_status := status, o_result := result,
     o_error := error, o_completed_at := Some (env_now env), o_lease_token := None,
     o_lease_expires_at := None\<rparr>"

lemma completed_row_simps [simp]:
  "o_id (completed_row env status result error r) = o_id r"
  "o_status (completed_row env status result error r) = status"
  by (simp_all add: completed_row_def)

text \<open>Only the inbox, the operations and tables that no invariant mentions change.\<close>

lemma complete_operation_effect:
  assumes "complete_operation_with_http_status env claim status result error expires http db
    = Inr (e, db')"
  shows "\<exists>current s. lock_valid_operation_claim (env_clock env 0) claim db = Inr current
    \<and> session_of db (k_session claim) = Some s \<and> op_terminal status
    \<and> completion_phase_ok (k_phase claim) current status
    \<and> length (filter (attempt_of_claim claim) (t_op_attempts db)) = 1
    \<and> e = operation_event_row env (env_uuid env 0) (k_session claim) (k_id claim)
            (o_kind (k_operation claim)) status (s_next_event_sequence s)
    \<and> e_id e \<notin> e_id ` set (t_events db)
    \<and> strip db' = appended_event env (k_session claim) e (strip db\<lparr>
        t_operations := row_update (\<lambda>r. o_id r = k_id claim)
          (completed_row env status result error) (t_operations db),
        t_requests := expired_requests (k_id claim) expires (t_requests db),
        t_op_attempts := row_update (attempt_of_claim claim)
          (\<lambda>a. a\<lparr>oa_status := OaSucceeded, oa_http_status := http, oa_error := None,
                 oa_finished_at := Some (env_now env)\<rparr>) (t_op_attempts db)\<rparr>)"
  using assms
  by (auto simp: complete_operation_with_http_status_def result_simps emit_update_def
      advance_event_sequence_def appended_event_def completed_row_def [abs_def]
      dest!: operation_stmts insert_operation_event_Inr expire_request_Inr update_sessions_Inr)

section \<open>Withdrawal\<close>

lemma emit_all_strip:
  assumes "foldR (\<lambda>x. emit_update env sid kind (payload x)) xs db = Inr db'"
  shows "strip db' = strip db"
  by (rule foldR_invariant [where P = "\<lambda>d. strip d = strip db", OF assms])
    (auto simp: emit_update_def dest: emit_update_strip)

definition cancelled_row :: "env \<Rightarrow> operation_row \<Rightarrow> operation_row" where
  "cancelled_row env r = r\<lparr>o_status := OpCancelled, o_completed_at := Some (env_now env),
     o_lease_token := None, o_lease_expires_at := None\<rparr>"

definition withdrawal_row :: "env \<Rightarrow> bool \<Rightarrow> operation_row \<Rightarrow> operation_row" where
  "withdrawal_row env withdrawn r = r\<lparr>o_status := OpSucceeded,
     o_result := Some (withdraw_result withdrawn), o_completed_at := Some (env_now env),
     o_lease_token := None, o_lease_expires_at := None\<rparr>"

lemma withdrawn_row_simps [simp]:
  "o_id (cancelled_row env r) = o_id r" "o_status (cancelled_row env r) = OpCancelled"
  "o_id (withdrawal_row env b r) = o_id r" "o_status (withdrawal_row env b r) = OpSucceeded"
  by (simp_all add: cancelled_row_def withdrawal_row_def)

text \<open>The target can still be withdrawn: nobody has started to submit it.\<close>

definition withdrawable :: "operation_row \<Rightarrow> bool" where
  "withdrawable r \<longleftrightarrow> o_status r = OpPending \<and> o_lease_token r = None"

definition withdrawal_events ::
    "env \<Rightarrow> claimed_operation \<Rightarrow> operation_row \<Rightarrow> int \<Rightarrow> event_row list" where
  "withdrawal_events env claim target n =
     (if withdrawable target
      then [operation_event_row env (env_uuid env 0) (k_session claim) (o_id target)
              (o_kind target) OpCancelled n,
            operation_event_row env (env_uuid env 1) (k_session claim) (k_id claim)
              KindWithdraw OpSucceeded (n + 1)]
      else [operation_event_row env (env_uuid env 1) (k_session claim) (k_id claim)
              KindWithdraw OpSucceeded n])"

definition withdrawal_operations ::
    "env \<Rightarrow> claimed_operation \<Rightarrow> operation_row \<Rightarrow> operation_row list \<Rightarrow> operation_row list" where
  "withdrawal_operations env claim target rows =
     row_update (\<lambda>r. o_id r = k_id claim) (withdrawal_row env (withdrawable target))
       (if withdrawable target
        then row_update (\<lambda>r. o_id r = o_id target) (cancelled_row env) rows else rows)"

definition withdrawal_requests ::
    "claimed_operation \<Rightarrow> operation_row \<Rightarrow> time option \<Rightarrow> request_row list \<Rightarrow> request_row list"
  where
  "withdrawal_requests claim target expires rows =
     expired_requests (k_id claim) expires
       (if withdrawable target then expired_requests (o_id target) expires rows else rows)"

lemma withdraw_target_Inr:
  "withdraw_target env sid target expires n db = Inr (e, db') \<Longrightarrow>
     e = operation_event_row env (env_uuid env 0) sid (o_id target) (o_kind target) OpCancelled n
     \<and> env_uuid env 0 \<notin> e_id ` set (t_events db)
     \<and> db' = db\<lparr>t_operations := row_update (\<lambda>r. o_id r = o_id target) (cancelled_row env)
           (t_operations db),
         t_events := t_events db @ [e],
         t_requests := expired_requests (o_id target) expires (t_requests db)\<rparr>"
  by (auto simp: withdraw_target_def result_simps cancelled_row_def [abs_def]
      dest!: update_operations_Inr insert_operation_event_Inr expire_request_Inr)

text \<open>The whole transaction, up to the update log.\<close>

definition withdrawal_step ::
    "env \<Rightarrow> claimed_operation \<Rightarrow> time option \<Rightarrow> operation_row \<Rightarrow> operation_row \<Rightarrow> session_row
     \<Rightarrow> bool \<times> event_row list \<Rightarrow> db \<Rightarrow> db \<Rightarrow> bool" where
  "withdrawal_step env claim expires current target s res db db' \<longleftrightarrow>
     lock_valid_operation_claim (env_clock env 0) claim db = Inr current
     \<and> session_of db (k_session claim) = Some s \<and> o_status current = OpSubmitting
     \<and> k_phase claim = Withdrawal \<and> o_target (k_operation claim) = Some (o_id target)
     \<and> target \<in> set (t_operations db) \<and> o_session_id target = k_session claim
     \<and> res = (withdrawable target, withdrawal_events env claim target (s_next_event_sequence s))
     \<and> list_all (\<lambda>e. e_id e \<notin> e_id ` set (t_events db)) (snd res)
     \<and> distinct (map e_id (snd res))
     \<and> length (filter (attempt_of_claim claim) (t_op_attempts db)) = 1
     \<and> strip db' = strip db\<lparr>
         t_operations := withdrawal_operations env claim target (t_operations db),
         t_requests := withdrawal_requests claim target expires (t_requests db),
         t_events := t_events db @ snd res,
         t_sessions := row_update (\<lambda>s. s_id s = k_session claim)
           (\<lambda>q. q\<lparr>s_next_event_sequence := s_next_event_sequence s + int (length (snd res)),
                  s_updated_at := env_now env\<rparr>) (t_sessions (strip db)),
         t_op_attempts := row_update (attempt_of_claim claim)
           (\<lambda>a. a\<lparr>oa_status := OaSucceeded, oa_http_status := None, oa_error := None,
                  oa_finished_at := Some (env_now env)\<rparr>) (t_op_attempts db)\<rparr>"

lemma complete_withdrawal_effect:
  assumes "complete_withdrawal env claim expires db = Inr (res, db')"
  shows "\<exists>current target s. withdrawal_step env claim expires current target s res db db'"
proof -
  obtain current target s where
    base: "lock_valid_operation_claim (env_clock env 0) claim db = Inr current"
      "session_of db (k_session claim) = Some s" "o_status current = OpSubmitting"
      "k_phase claim = Withdrawal" "o_target (k_operation claim) = Some (o_id target)"
      "List.find (\<lambda>r. o_session_id r = k_session claim \<and> o_id r = o_id target)
        (t_operations db) = Some target"
    using assms
    by (auto simp: complete_withdrawal_def result_simps Let_def find_Some_iff)
  have target: "target \<in> set (t_operations db)" "o_session_id target = k_session claim"
    using base(6) by (auto simp: find_Some_iff)
  show ?thesis
  proof (cases "withdrawable target")
    case True
    then have "o_status target = OpPending" "o_lease_token target = None"
      by (simp_all add: withdrawable_def)
    with assms base True have "res = (True, withdrawal_events env claim target (s_next_event_sequence s))
      \<and> env_uuid env 0 \<notin> e_id ` set (t_events db) \<and> env_uuid env 1 \<notin> e_id ` set (t_events db)
      \<and> env_uuid env 0 \<noteq> env_uuid env 1
      \<and> length (filter (attempt_of_claim claim) (t_op_attempts db)) = 1
      \<and> strip db' = strip db\<lparr>
        t_operations := withdrawal_operations env claim target (t_operations db),
        t_requests := withdrawal_requests claim target expires (t_requests db),
        t_events := t_events db @ withdrawal_events env claim target (s_next_event_sequence s),
        t_sessions := row_update (\<lambda>s. s_id s = k_session claim)
          (\<lambda>q. q\<lparr>s_next_event_sequence := 2 + s_next_event_sequence s,
                 s_updated_at := env_now env\<rparr>) (t_sessions (strip db)),
        t_op_attempts := row_update (attempt_of_claim claim)
          (\<lambda>a. a\<lparr>oa_status := OaSucceeded, oa_http_status := None, oa_error := None,
                 oa_finished_at := Some (env_now env)\<rparr>) (t_op_attempts db)\<rparr>"
      by (auto simp: complete_withdrawal_def result_simps emit_update_def withdrawal_events_def
          withdrawal_operations_def withdrawal_requests_def withdrawal_row_def [abs_def] Let_def
          dest!: operation_stmts insert_operation_event_Inr expire_request_Inr update_sessions_Inr
            withdraw_target_Inr)
    with base target True show ?thesis
      by (intro exI [of _ current] exI [of _ target] exI [of _ s])
        (simp add: withdrawal_step_def withdrawal_events_def add.commute)
  next
    case False
    then have "\<not> (o_status target = OpPending \<and> o_lease_token target = None)"
      by (simp add: withdrawable_def)
    with assms base False have "res = (False, withdrawal_events env claim target (s_next_event_sequence s))
      \<and> env_uuid env 1 \<notin> e_id ` set (t_events db)
      \<and> length (filter (attempt_of_claim claim) (t_op_attempts db)) = 1
      \<and> strip db' = strip db\<lparr>
        t_operations := withdrawal_operations env claim target (t_operations db),
        t_requests := withdrawal_requests claim target expires (t_requests db),
        t_events := t_events db @ withdrawal_events env claim target (s_next_event_sequence s),
        t_sessions := row_update (\<lambda>s. s_id s = k_session claim)
          (\<lambda>q. q\<lparr>s_next_event_sequence := s_next_event_sequence s + 1,
                 s_updated_at := env_now env\<rparr>) (t_sessions (strip db)),
        t_op_attempts := row_update (attempt_of_claim claim)
          (\<lambda>a. a\<lparr>oa_status := OaSucceeded, oa_http_status := None, oa_error := None,
                 oa_finished_at := Some (env_now env)\<rparr>) (t_op_attempts db)\<rparr>"
      by (auto simp: complete_withdrawal_def result_simps emit_update_def withdrawal_events_def
          withdrawal_operations_def withdrawal_requests_def withdrawal_row_def [abs_def] Let_def
          dest!: operation_stmts insert_operation_event_Inr expire_request_Inr update_sessions_Inr)
    with base target False show ?thesis
      by (intro exI [of _ current] exI [of _ target] exI [of _ s])
        (simp add: withdrawal_step_def withdrawal_events_def)
  qed
qed

lemma withdrawal_stepD:
  assumes "withdrawal_step env claim expires current target s res db db'"
  shows "lock_valid_operation_claim (env_clock env 0) claim db = Inr current"
    and "session_of db (k_session claim) = Some s" and "o_status current = OpSubmitting"
    and "target \<in> set (t_operations db)"
    and "snd res = withdrawal_events env claim target (s_next_event_sequence s)"
    and "list_all (\<lambda>e. e_id e \<notin> e_id ` set (t_events db)) (snd res)"
    and "distinct (map e_id (snd res))"
    and "t_operations db' = withdrawal_operations env claim target (t_operations db)"
    and "t_events db' = t_events db @ snd res"
    and "t_sessions (strip db') = row_update (\<lambda>s. s_id s = k_session claim)
        (\<lambda>q. q\<lparr>s_next_event_sequence := s_next_event_sequence s + int (length (snd res)),
               s_updated_at := env_now env\<rparr>) (t_sessions (strip db))"
    and "t_waits db' = t_waits db" and "t_history db' = t_history db"
    and "t_receipts db' = t_receipts db" and "t_retries db' = t_retries db"
  using assms unfolding withdrawal_step_def by (auto dest!: strip_eqD)

section \<open>The inbox\<close>

lemma claim_step_inbox:
  assumes "claim_step env claim f g current db db'" and "inbox_ok db"
  shows "inbox_ok db'"
  using assms(1) unfolding claim_step_def
  by (elim conjE) (erule inbox_ok_stripped, simp add: assms(2))

lemma claim_operation_inbox:
  assumes "claim_operation env phase lease_for db = Inr (res, db')" and ok: "inbox_ok db"
  shows "inbox_ok db'"
  using claim_operation_cases [OF assms(1)]
proof (elim disjE exE conjE)
  fix r claim assume "claim_operation_at env phase lease_for r db = Inr (claim, db')"
  then show ?thesis
    by (rule inbox_ok_stripped [OF claim_operation_at_effect(1)])
      (simp add: claimed_db_def ok)
qed (simp add: ok)

lemma renew_operation_claim_inbox:
  assumes "renew_operation_claim env claim lease_for db = Inr db'" and "inbox_ok db"
  shows "inbox_ok db'"
  using renew_operation_claim_effect [OF assms(1)] assms(2) by auto

lemma complete_operation_inbox:
  assumes "complete_operation_with_http_status env claim status result error expires http db
    = Inr (e, db')" and ok: "inbox_ok db"
  shows "inbox_ok db'"
  using complete_operation_effect [OF assms(1)]
proof (elim exE conjE)
  fix current s
  assume s: "session_of db (k_session claim) = Some s" and new: "e_id e \<notin> e_id ` set (t_events db)"
    and e: "e = operation_event_row env (env_uuid env 0) (k_session claim) (k_id claim)
            (o_kind (k_operation claim)) status (s_next_event_sequence s)"
    and db': "strip db' = appended_event env (k_session claim) e (strip db\<lparr>
        t_operations := row_update (\<lambda>r. o_id r = k_id claim)
          (completed_row env status result error) (t_operations db),
        t_requests := expired_requests (k_id claim) expires (t_requests db),
        t_op_attempts := row_update (attempt_of_claim claim)
          (\<lambda>a. a\<lparr>oa_status := OaSucceeded, oa_http_status := http, oa_error := None,
                 oa_finished_at := Some (env_now env)\<rparr>) (t_op_attempts db)\<rparr>)"
  show ?thesis by (rule inbox_ok_appended [OF ok s _ _ _ new _ _ db']) (simp_all add: e)
qed

lemma withdrawal_events_fresh:
  assumes "list_all (\<lambda>e. e_id e \<notin> e_id ` set (t_events db)) (withdrawal_events env claim target n)"
    and "distinct (map e_id (withdrawal_events env claim target n))"
  shows "fresh_events db (k_session claim) n (withdrawal_events env claim target n)"
  using assms by (auto simp: fresh_events_def withdrawal_events_def upto_rec1 split: if_splits)

lemma complete_withdrawal_inbox:
  assumes "complete_withdrawal env claim expires db = Inr (res, db')" and ok: "inbox_ok db"
  shows "inbox_ok db'"
proof -
  obtain current target s
    where step: "withdrawal_step env claim expires current target s res db db'"
    using complete_withdrawal_effect [OF assms(1)] by blast
  note D = withdrawal_stepD [OF step]
  have "fresh_events db (k_session claim) (s_next_event_sequence s) (snd res)"
    using withdrawal_events_fresh D(6,7) unfolding D(5) by blast
  then have "inbox_ok (strip db')"
    by (rule inbox_ok_extend [OF ok D(2) _ D(10)]) (simp_all add: D(9))
  then show ?thesis by simp
qed

section \<open>The ledger of operations\<close>

definition op_final :: "operation_row \<Rightarrow> operation_status option" where
  "op_final r = (if op_terminal (o_status r) then Some (o_status r) else None)"

abbreviation op_ledger :: "db \<Rightarrow> db \<Rightarrow> bool" where
  "op_ledger db db' \<equiv> ledger_run o_id op_final e_operation_id
     (t_operations db, t_events db) (t_operations db', t_events db')"

lemma claim_row:
  assumes "distinct (map o_id (t_operations db))"
    and "lock_valid_operation_claim now claim db = Inr current"
    and "q \<in> set (t_operations db)" and "o_id q = k_id claim"
  shows "q = current"
proof -
  have "operation_of db (k_id claim) = Some current" using assms(2) by (simp add: result_simps)
  from operation_of_Some [OF this] show ?thesis
    using distinct_keyD [OF assms(1,3)] assms(4) by simp
qed

lemma claim_step_ledger:
  assumes dist: "distinct (map o_id (t_operations db))"
    and step: "claim_step env claim f g current db db'"
    and f: "\<And>q. o_id (f q) = o_id q" "op_final (f current) = op_final current"
  shows "op_ledger db db'"
proof (rule ledger_touchI [where f = f and p = "\<lambda>q. o_id q = k_id claim"])
  note lock = step [unfolded claim_step_def, THEN conjunct1]
  show "o_id (f q) = o_id q" for q by (rule f(1))
  show "op_final (f q) = op_final q" if "q \<in> set (t_operations db)" "o_id q = k_id claim" for q
    using claim_row [OF dist lock that] f(2) by simp
qed (use step in \<open>auto simp: claim_step_def dest!: strip_eqD\<close>)

lemma claim_operation_ledger:
  assumes "claim_operation env phase lease_for db = Inr (res, db')"
  shows "op_ledger db db'"
  using claim_operation_cases [OF assms]
proof (elim disjE exE conjE)
  fix r claim assume "claim_operation_at env phase lease_for r db = Inr (claim, db')"
  from claim_operation_at_effect(1) [OF this] show ?thesis
    by (intro ledger_touchI [where p = "\<lambda>q. o_id q = o_id r" and
        f = "\<lambda>q. q\<lparr>o_status := (if o_status q = OpPending then OpSubmitting else o_status q),
              o_lease_token := Some (env_uuid env 0),
              o_lease_expires_at := Some (add_millis (env_clock env 2) (int lease_for))\<rparr>"])
      (auto simp: claimed_db_def op_final_def dest!: strip_eqD)
qed simp

lemma renew_operation_claim_ledger:
  assumes "renew_operation_claim env claim lease_for db = Inr db'"
  shows "op_ledger db db'"
  using renew_operation_claim_effect [OF assms]
  by (auto intro!: ledger_touchI [where p = "\<lambda>r. o_id r = k_id claim" and
      f = "\<lambda>r. r\<lparr>o_lease_expires_at := Some (add_millis (env_clock env 1) (int lease_for))\<rparr>"]
      simp: op_final_def)

text \<open>The operations a claim may complete are open.\<close>

lemma completion_phase_open: "completion_phase_ok phase r status \<Longrightarrow> op_final r = None"
  by (cases phase) (simp_all add: completion_phase_ok_def op_final_def)

lemma complete_operation_ledger:
  assumes "complete_operation_with_http_status env claim status result error expires http db
    = Inr (e, db')"
  shows "op_ledger db db'"
proof -
  obtain current where "operation_of db (k_id claim) = Some current"
    and phase: "completion_phase_ok (k_phase claim) current status"
    and status: "op_terminal status" and e: "e_operation_id e = Some (k_id claim)"
    and ops: "t_operations (strip db') = row_update (\<lambda>r. o_id r = k_id claim)
      (completed_row env status result error) (t_operations db)"
    and evs: "t_events (strip db') = t_events db @ [e]"
  proof -
    show thesis
      using complete_operation_effect [OF assms]
      by (elim exE conjE) (rule that, auto simp: result_simps appended_event_def dest!: strip_eqD)
  qed
  then have "current \<in> set (t_operations db)" "o_id current = k_id claim"
    using operation_of_Some by blast+
  then show ?thesis
    by (intro ledger_settleI [where r = current and e = e and k = "k_id claim" and
        f = "completed_row env status result error"])
      (use e status ops evs completion_phase_open [OF phase] in \<open>simp_all add: op_final_def\<close>)
qed

lemma complete_withdrawal_ledger:
  assumes "complete_withdrawal env claim expires db = Inr (res, db')"
    and dist: "distinct (map o_id (t_operations db))"
  shows "op_ledger db db'"
proof -
  obtain current target s
    where step: "withdrawal_step env claim expires current target s res db db'"
    using complete_withdrawal_effect [OF assms(1)] by blast
  note D = withdrawal_stepD [OF step]
  note sub = D(3) and target = D(4) and res = D(5) and ops = D(8) and evs = D(9)
  have "operation_of db (k_id claim) = Some current" using D(1) by (simp add: result_simps)
  then have cur: "current \<in> set (t_operations db)" "o_id current = k_id claim"
    using operation_of_Some by blast+
  let ?f = "withdrawal_row env (withdrawable target)"
  show ?thesis
  proof (cases "withdrawable target")
    case False
    with res evs ops cur sub show ?thesis
      by (intro ledger_settleI [where r = current and k = "k_id claim" and f = ?f])
        (auto simp: withdrawal_events_def withdrawal_operations_def op_final_def)
  next
    case True
    define mid where "mid = row_update (\<lambda>r. o_id r = o_id target) (cancelled_row env) (t_operations db)"
    have pending: "o_status target = OpPending" using True by (simp add: withdrawable_def)
    then have "o_id target \<noteq> k_id claim"
      using distinct_keyD [OF dist target cur(1)] cur(2) sub by auto
    then have mem: "current \<in> set mid"
      unfolding mid_def set_row_update using cur by (intro bexI [of _ current]) simp_all
    obtain e1 e2 where es: "snd res = [e1, e2]" "e_operation_id e1 = Some (o_id target)"
      "e_operation_id e2 = Some (k_id claim)"
      using res True by (simp add: withdrawal_events_def)
    have "ledger_run o_id op_final e_operation_id (t_operations db, t_events db)
        (mid, t_events db @ [e1])"
      by (rule ledger_settleI [where r = target and f = "cancelled_row env"])
        (use target pending es in \<open>simp_all add: op_final_def mid_def\<close>)
    also have "ledger_run o_id op_final e_operation_id (mid, t_events db @ [e1])
        (t_operations db', t_events db')"
      by (rule ledger_settleI [where r = current and k = "k_id claim" and f = ?f and e = e2])
        (use mem cur sub es ops evs True in
          \<open>simp_all add: op_final_def mid_def withdrawal_operations_def\<close>)
    finally show ?thesis .
  qed
qed

end
