(* ===== verification/Commit.thy ===== *)
theory Commit
  imports OperationOps
begin

text \<open>
  Committing a handler's outcome (\<open>commit_handler_outcome_classified\<close> of
  \<open>packages/agent-store/src/store.rs\<close> and \<open>HandlerCommitError\<close> of \<open>error.rs\<close>): in one
  transaction, under the claim, the new state, history entries, operations, waits, cancelled
  waits and progress entries are stored and the event is handled. Definitions only.
\<close>

section \<open>Classifying errors (\<open>error.rs\<close>)\<close>

datatype handler_commit_error =
    CommitStaleClaim
  | Retryable store_error
  | Rejected store_error
  | Uncertain store_error

definition from_commit :: "db_error \<Rightarrow> handler_commit_error" where
  "from_commit e =
     (case sql_code e of
        Some code \<Rightarrow>
          if code = Some ''40001'' \<or> code = Some ''40P01'' then Retryable (Database e)
          else Rejected (Database e)
      | None \<Rightarrow> Uncertain (Database e))"

fun into_store_error :: "handler_commit_error \<Rightarrow> store_error" where
  "into_store_error CommitStaleClaim = StaleClaim"
| "into_store_error (Retryable e) = e"
| "into_store_error (Rejected e) = e"
| "into_store_error (Uncertain e) = e"

definition retryable_database_error :: "db_error \<Rightarrow> bool" where
  "retryable_database_error e =
     (case sql_code e of
        Some code \<Rightarrow>
          (case code of
             None \<Rightarrow> False
           | Some c \<Rightarrow> c \<in> {''40001'', ''40P01'', ''55P03'', ''57014'', ''53300'', ''57P01''}
                        \<or> take 2 c = ''08'')
      | None \<Rightarrow> e \<in> {IoError, TlsError, ProtocolError, PoolTimedOut, PoolClosed, WorkerCrashed})"

fun from_store_error :: "store_error \<Rightarrow> handler_commit_error" where
  "from_store_error StaleClaim = CommitStaleClaim"
| "from_store_error (Database e) =
     (if retryable_database_error e then Retryable (Database e) else Rejected (Database e))"
| "from_store_error e = Rejected e"

section \<open>What a handler commits (\<open>models.rs\<close>)\<close>

record new_history_entry =
  nh_id :: history_entry_id
  nh_message :: raw_json

record new_operation =
  no_id :: operation_id
  no_kind :: operation_kind
  no_connection :: "string option"
  no_target :: "operation_id option"
  no_previous :: "operation_id option"
  no_request :: raw_json

record new_wait =
  nw_id :: wait_id
  nw_mode :: wait_mode
  nw_payload :: raw_json
  nw_response_schema :: "raw_json option"
  nw_expires_at :: "time option"

record outcome_commit =
  oc_state :: raw_json
  oc_status :: "session_status option"
  oc_history :: "new_history_entry list"
  oc_operations :: "new_operation list"
  oc_waits :: "new_wait list"
  oc_cancelled_waits :: "wait_id list"
  oc_progress :: "json list"

fun message_role :: "message \<Rightarrow> string" where
  "message_role (UserMsg _ _) = ''user''"
| "message_role (AssistantMsg _ _ _) = ''assistant''"
| "message_role (ToolResultMsg _ _ _ _ _ _) = ''tool_result''"
| "message_role (SystemMsg _ _) = ''system''"
| "message_role (CustomMsg _ _ _) = ''custom''"

section \<open>The loops of the transaction\<close>

definition history_row_of ::
    "env \<Rightarrow> handler_claim \<Rightarrow> int \<Rightarrow> new_history_entry \<Rightarrow> message \<Rightarrow> history_row" where
  "history_row_of env claim seq entry m =
     \<lparr>h_id = nh_id entry, h_session_id = c_session_id claim, h_sequence = seq,
      h_source_event_id = Some (c_event_id claim), h_role = message_role m,
      h_message = nh_message entry, h_created_at = env_now env\<rparr>"

definition parse_message :: "env \<Rightarrow> raw_json \<Rightarrow> store_error + message" where
  "parse_message env text =
     (case env_message env text of Inl e \<Rightarrow> Inl (InvalidInput e) | Inr m \<Rightarrow> Inr m)"

fun commit_history ::
    "env \<Rightarrow> handler_claim \<Rightarrow> new_history_entry list \<Rightarrow> int \<Rightarrow> db \<Rightarrow> store_error + int \<times> db" where
  "commit_history env claim [] seq db = Inr (seq, db)"
| "commit_history env claim (entry # entries) seq db =
     bindR (parse_message env (nh_message entry)) (\<lambda>m.
     bindR (insert_history (history_row_of env claim seq entry m) db) (\<lambda>db.
     commit_history env claim entries (seq + 1) db))"

text \<open>The columns the INSERT leaves out take the defaults of the migrations.\<close>

definition operation_row_of ::
    "env \<Rightarrow> handler_claim \<Rightarrow> new_operation \<Rightarrow> operation_row" where
  "operation_row_of env claim n =
     \<lparr>o_id = no_id n, o_session_id = c_session_id claim, o_source_event_id = c_event_id claim,
      o_kind = no_kind n, o_connection = no_connection n, o_target = no_target n,
      o_previous = no_previous n, o_idempotency_key = env_uuid_text env (no_id n),
      o_request_hash = fingerprint env (no_request n), o_job_id = None, o_status = OpPending,
      o_result = None, o_error = None, o_next_attempt_at = env_now env, o_lease_token = None,
      o_lease_expires_at = None, o_created_at = env_now env, o_submitted_at = None,
      o_completed_at = None, o_request_removed_at = None\<rparr>"

definition commit_operation ::
    "env \<Rightarrow> handler_claim \<Rightarrow> new_operation \<Rightarrow> db \<Rightarrow> store_error + db" where
  "commit_operation env claim n db =
     bindR (insert_operation (operation_row_of env claim n) db) (\<lambda>db.
     bindR (insert_request \<lparr>r_operation_id = no_id n, r_request = no_request n,
       r_expires_at = None\<rparr> db) (\<lambda>db.
     emit_update env (c_session_id claim) OperationChanged (OperationRef (no_id n)) db))"

definition wait_row_of :: "env \<Rightarrow> handler_claim \<Rightarrow> new_wait \<Rightarrow> wait_row" where
  "wait_row_of env claim n =
     \<lparr>w_id = nw_id n, w_session_id = c_session_id claim, w_source_event_id = c_event_id claim,
      w_mode = nw_mode n, w_payload = nw_payload n, w_response_schema = nw_response_schema n,
      w_expires_at = nw_expires_at n, w_status = WtPending, w_resolution_payload = None,
      w_resolution_key = None, w_resolution_hash = None, w_created_at = env_now env,
      w_finished_at = None\<rparr>"

definition commit_wait :: "env \<Rightarrow> handler_claim \<Rightarrow> new_wait \<Rightarrow> db \<Rightarrow> store_error + db" where
  "commit_wait env claim n db =
     bindR (insert_wait (wait_row_of env claim n) db) (\<lambda>db.
     emit_update env (c_session_id claim) WaitChanged (WaitRef (nw_id n)) db)"

text \<open>
  One cancelled wait. A wait that is no longer pending is passed over; one whose deadline has
  passed is recorded as expired. \<open>n\<close> counts the waits ended so far: it picks the clock
  readings and the event's identifier.
\<close>

definition commit_cancelled_wait ::
    "env \<Rightarrow> handler_claim \<Rightarrow> wait_id \<Rightarrow> int \<times> nat \<times> db \<Rightarrow> store_error + int \<times> nat \<times> db" where
  "commit_cancelled_wait env claim wid st =
     (let (seq, n, db) = st; sid = c_session_id claim in
      bindR (ok_or (List.find (\<lambda>w. w_id w = wid \<and> w_session_id w = sid) (t_waits db))
        (WaitNotFound wid)) (\<lambda>w.
      if w_status w \<noteq> WtPending then Inr (seq, n, db)
      else
        let expired = ((w_mode w = Expiration \<or> w_mode w = Either)
              \<and> deadline_passed (w_expires_at w) (env_clock env (2 * n + 1)));
            finish = (if expired then FinExpired else FinCancelled) in
        bindR (update_waits (\<lambda>r. w_id r = wid)
          (\<lambda>r. r\<lparr>w_status := (if expired then WtExpired else WtCancelled),
                 w_finished_at := Some (env_clock env (2 * n + 2))\<rparr>) db) (\<lambda>db.
        bindR (insert_wait_event env (env_uuid env n) sid wid seq finish db) (\<lambda>(e, db).
        bindR (emit_update env sid WaitChanged (WaitRef wid) db) (\<lambda>db.
        bindR (emit_update env sid EventChanged (EventRef (e_id e) None) db) (\<lambda>db.
        Inr (seq + 1, n + 1, db)))))))"

text \<open>At most 20 progress entries of at most 2048 bytes of JSON text each.\<close>

definition progress_ok :: "env \<Rightarrow> json list \<Rightarrow> bool" where
  "progress_ok env values \<longleftrightarrow>
     \<not> (20 < length values \<or> list_ex (\<lambda>v. 2048 < length (env_json_text env v)) values)"

definition commit_progress ::
    "env \<Rightarrow> handler_claim \<Rightarrow> json \<Rightarrow> db \<Rightarrow> store_error + db" where
  "commit_progress env claim v db =
     emit_update_with_event env (c_session_id claim) HarnessProgress (ProgressValue v)
       (Some (c_event_id claim)) db"

section \<open>The transaction\<close>

text \<open>Everything up to the point where the session row is written.\<close>

definition commit_effects ::
    "env \<Rightarrow> handler_claim \<Rightarrow> outcome_commit \<Rightarrow> int \<Rightarrow> db \<Rightarrow> store_error + int \<times> int \<times> db" where
  "commit_effects env claim oc seq db =
     (let sid = c_session_id claim in
      bindR (commit_history env claim (oc_history oc) seq db) (\<lambda>(hseq, db).
      bindR (if oc_history oc \<noteq> []
             then emit_update env sid HistoryAppended
                    (HistoryRange (hseq - int (length (oc_history oc))) (hseq - 1)
                       (c_event_id claim)) db
             else Inr db) (\<lambda>db.
      bindR (foldR (commit_operation env claim) (oc_operations oc) db) (\<lambda>db.
      bindR (foldR (commit_wait env claim) (oc_waits oc) db) (\<lambda>db.
      bindR (ok_or (session_of db sid) (Database RowNotFound)) (\<lambda>s.
      bindR (foldR (commit_cancelled_wait env claim) (oc_cancelled_waits oc)
        (s_next_event_sequence s, 0, db)) (\<lambda>(eseq, n, db).
      bindR (guardR (progress_ok env (oc_progress oc))
        (InvalidInput ''progress exceeds 20 entries or 2048 bytes per entry'')) (\<lambda>_.
      bindR (foldR (commit_progress env claim) (oc_progress oc) db) (\<lambda>db.
      Inr (hseq, eseq, db))))))))))"

definition attempt_of_handler :: "handler_claim \<Rightarrow> attempt_row \<Rightarrow> bool" where
  "attempt_of_handler claim a \<longleftrightarrow> a_id a = c_attempt_id claim
     \<and> a_lease_token a = c_lease_token claim \<and> a_status a = AtRunning"

definition commit_body ::
    "env \<Rightarrow> handler_claim \<Rightarrow> outcome_commit \<Rightarrow> db \<Rightarrow> store_error + db" where
  "commit_body env claim oc db =
     (let sid = c_session_id claim; eid = c_event_id claim in
      bindR (lock_valid_session_claim (env_clock env 0) claim db) (\<lambda>(hseq, version).
      bindR (guardR (version = c_input_state_version claim) StaleClaim) (\<lambda>_.
      bindR (commit_effects env claim oc hseq db) (\<lambda>(hseq, eseq, db).
      bindR (update_sessions (\<lambda>s. s_id s = sid)
        (\<lambda>s. s\<lparr>s_state := oc_state oc, s_status := override (oc_status oc) (s_status s),
               s_state_version := s_state_version s + 1, s_next_history_sequence := hseq,
               s_current_event_id := None, s_lease_token := None, s_lease_expires_at := None,
               s_next_event_sequence := eseq, s_updated_at := env_now env\<rparr>) db) (\<lambda>db.
      bindR (update_events (\<lambda>e. e_id e = eid)
        (\<lambda>e. e\<lparr>e_status := EvHandled, e_handled_at := Some (env_now env),
               e_last_error := None\<rparr>) db) (\<lambda>db.
      bindR (update_attempts (attempt_of_handler claim)
        (\<lambda>a. a\<lparr>a_status := AtCommitted, a_finished_at := Some (env_now env)\<rparr>) db) (\<lambda>db'.
      bindR (guardR (length (filter (attempt_of_handler claim) (t_attempts db)) = 1) StaleClaim)
        (\<lambda>_.
      bindR (emit_update env sid SessionChanged (SessionRef sid) db') (\<lambda>db.
      emit_update env sid EventChanged (EventRef eid (Some EvHandled)) db)))))))))"

text \<open>
  The body's errors convert with \<open>From<StoreError>\<close>; \<open>ack\<close> is what \<open>COMMIT\<close> itself reports.
  After \<open>Uncertain\<close> the transaction may or may not have been made durable.
\<close>

definition commit_handler_outcome_classified ::
    "env \<Rightarrow> db_error option \<Rightarrow> handler_claim \<Rightarrow> outcome_commit \<Rightarrow> db \<Rightarrow> handler_commit_error + db"
  where
  "commit_handler_outcome_classified env ack claim oc db =
     (case commit_body env claim oc db of
        Inl e \<Rightarrow> Inl (from_store_error e)
      | Inr db' \<Rightarrow> (case ack of None \<Rightarrow> Inr db' | Some e \<Rightarrow> Inl (from_commit e)))"

definition commit_handler_outcome ::
    "env \<Rightarrow> db_error option \<Rightarrow> handler_claim \<Rightarrow> outcome_commit \<Rightarrow> db \<Rightarrow> store_error + db" where
  "commit_handler_outcome env ack claim oc db =
     (case commit_handler_outcome_classified env ack claim oc db of
        Inl e \<Rightarrow> Inl (into_store_error e) | Inr db' \<Rightarrow> Inr db')"

end
