(* ===== verification/CommitOps.thy ===== *)
theory CommitOps
  imports Commit
begin

text \<open>
  What committing an outcome does: the history it appends, the operations and waits it opens,
  the waits it ends, and the event it handles; that it keeps the inbox invariant and runs both
  ledgers; and that it takes effect only under the claim and for the state version read.
\<close>

section \<open>The loops\<close>

fun history_rows ::
    "env \<Rightarrow> handler_claim \<Rightarrow> new_history_entry list \<Rightarrow> int \<Rightarrow> history_row list" where
  "history_rows env claim [] seq = []"
| "history_rows env claim (entry # entries) seq =
     (case parse_message env (nh_message entry) of
        Inl e \<Rightarrow> []
      | Inr m \<Rightarrow> history_row_of env claim seq entry m # history_rows env claim entries (seq + 1))"

lemma commit_history_effect:
  "commit_history env claim entries seq db = Inr (seq', db') \<Longrightarrow>
     seq' = seq + int (length entries)
     \<and> db' = db\<lparr>t_history := t_history db @ history_rows env claim entries seq\<rparr>
     \<and> length (history_rows env claim entries seq) = length entries"
  by (induction entries arbitrary: seq db) (fastforce simp: result_simps dest!: insert_history_Inr)+

lemma history_rows_numbers:
  "length (history_rows env claim entries seq) = length entries \<Longrightarrow>
     map h_sequence (history_rows env claim entries seq) = [seq..seq + int (length entries) - 1]
     \<and> list_all (\<lambda>h. h_session_id h = c_session_id claim
         \<and> h_source_event_id h = Some (c_event_id claim)) (history_rows env claim entries seq)
     \<and> map h_message (history_rows env claim entries seq) = map nh_message entries
     \<and> map h_id (history_rows env claim entries seq) = map nh_id entries"
proof (induction entries arbitrary: seq)
  case Nil
  then show ?case by simp
next
  case (Cons entry entries)
  then obtain m where m: "parse_message env (nh_message entry) = Inr m"
    by (cases "parse_message env (nh_message entry)") auto
  then have "length (history_rows env claim entries (seq + 1)) = length entries"
    using Cons.prems by simp
  note IH = Cons.IH [OF this]
  have "[seq..seq + int (length (entry # entries)) - 1]
      = seq # [seq + 1..seq + 1 + int (length entries) - 1]"
    by (subst upto_rec1) (simp_all add: algebra_simps)
  with m IH show ?case by (simp add: history_row_of_def)
qed

definition request_row_of :: "new_operation \<Rightarrow> request_row" where
  "request_row_of n = \<lparr>r_operation_id = no_id n, r_request = no_request n, r_expires_at = None\<rparr>"

lemma commit_operation_Inr:
  "commit_operation env claim n db = Inr db' \<Longrightarrow>
     strip db' = strip db\<lparr>t_operations := t_operations db @ [operation_row_of env claim n],
       t_requests := t_requests db @ [request_row_of n]\<rparr>
     \<and> no_id n \<notin> o_id ` set (t_operations db)"
  by (auto simp: commit_operation_def result_simps emit_update_def request_row_of_def
      insert_operation_def operation_row_of_def
      dest!: insert_request_Inr emit_update_strip split: if_splits)

lemma commit_operations_effect:
  "foldR (commit_operation env claim) ns db = Inr db' \<Longrightarrow>
     strip db' = strip db\<lparr>t_operations := t_operations db @ map (operation_row_of env claim) ns,
       t_requests := t_requests db @ map request_row_of ns\<rparr>"
proof (induction ns arbitrary: db)
  case Nil
  then show ?case by simp
next
  case (Cons n ns)
  then obtain mid where mid: "commit_operation env claim n db = Inr mid"
    "foldR (commit_operation env claim) ns mid = Inr db'"
    by (auto simp: result_simps)
  note step = commit_operation_Inr [OF mid(1), THEN conjunct1]
  show ?case
    using Cons.IH [OF mid(2)] step strip_eqD [OF step] by simp
qed

lemma commit_wait_Inr:
  "commit_wait env claim n db = Inr db' \<Longrightarrow>
     strip db' = strip db\<lparr>t_waits := t_waits db @ [wait_row_of env claim n]\<rparr>
     \<and> nw_id n \<notin> w_id ` set (t_waits db)"
  by (auto simp: commit_wait_def result_simps emit_update_def insert_wait_def wait_row_of_def
      dest!: emit_update_strip split: if_splits)

lemma commit_waits_effect:
  "foldR (commit_wait env claim) ns db = Inr db' \<Longrightarrow>
     strip db' = strip db\<lparr>t_waits := t_waits db @ map (wait_row_of env claim) ns\<rparr>"
proof (induction ns arbitrary: db)
  case Nil
  then show ?case by simp
next
  case (Cons n ns)
  then obtain mid where mid: "commit_wait env claim n db = Inr mid"
    "foldR (commit_wait env claim) ns mid = Inr db'"
    by (auto simp: result_simps)
  note step = commit_wait_Inr [OF mid(1), THEN conjunct1]
  show ?case
    using Cons.IH [OF mid(2)] step strip_eqD [OF step] by simp
qed

text \<open>Opening operations and waits are steps of the ledgers.\<close>

lemma commit_operations_ledger:
  assumes "foldR (commit_operation env claim) ns db = Inr db'"
  shows "op_ledger db db'"
proof (rule foldR_invariant [where P = "op_ledger db", OF assms rtranclp.rtrancl_refl])
  fix n d d' assume "op_ledger db d" and "commit_operation env claim n d = Inr d'"
  from commit_operation_Inr [OF this(2)] have "op_ledger d d'"
    by (intro ledger_openI [where r = "operation_row_of env claim n"])
      (auto simp: operation_row_of_def op_final_def dest!: strip_eqD)
  with \<open>op_ledger db d\<close> show "op_ledger db d'" by (rule rtranclp_trans)
qed

lemma commit_waits_ledger:
  assumes "foldR (commit_wait env claim) ns db = Inr db'"
  shows "wait_ledger db db'"
proof (rule foldR_invariant [where P = "wait_ledger db", OF assms rtranclp.rtrancl_refl])
  fix n d d' assume "wait_ledger db d" and "commit_wait env claim n d = Inr d'"
  from commit_wait_Inr [OF this(2)] have "wait_ledger d d'"
    by (intro ledger_openI [where r = "wait_row_of env claim n"])
      (auto simp: wait_row_of_def wait_final_def dest!: strip_eqD)
  with \<open>wait_ledger db d\<close> show "wait_ledger db d'" by (rule rtranclp_trans)
qed

lemma commit_progress_strip:
  assumes "foldR (commit_progress env claim) vs db = Inr db'"
  shows "strip db' = strip db"
  by (rule foldR_invariant [where P = "\<lambda>d. strip d = strip db", OF assms])
    (auto simp: commit_progress_def dest: emit_update_strip)

section \<open>Ending waits\<close>

lemma fresh_events_snoc:
  assumes "fresh_events db sid n es" and "e_session_id e = sid" and "e_status e = EvPending"
    and "e_id e \<notin> e_id ` set (t_events db @ es)" and "e_sequence e = n + int (length es)"
  shows "fresh_events db sid n (es @ [e])"
proof -
  have "[n..n + int (length es)] = [n..n + int (length es) - 1] @ [n + int (length es)]"
    by (rule upto_next) simp
  with assms show ?thesis by (auto simp: fresh_events_def)
qed

text \<open>What the loop has done to the database it started from.\<close>

definition waits_ended :: "session_id \<Rightarrow> int \<Rightarrow> db \<Rightarrow> int \<times> nat \<times> db \<Rightarrow> bool" where
  "waits_ended sid n db0 st \<longleftrightarrow>
     (case st of (seq, k, db) \<Rightarrow>
       \<exists>es. t_events db = t_events db0 @ es \<and> fresh_events db0 sid n es
         \<and> seq = n + int (length es)
         \<and> list_all (\<lambda>e. e_operation_id e = None) es
         \<and> wait_ledger db0 db
         \<and> strip db = strip db0\<lparr>t_waits := t_waits db, t_events := t_events db\<rparr>)"

definition ended_row :: "env \<Rightarrow> nat \<Rightarrow> wait_row \<Rightarrow> wait_row \<Rightarrow> wait_row" where
  "ended_row env n w r = r\<lparr>
     w_status := (if (w_mode w = Expiration \<or> w_mode w = Either)
         \<and> deadline_passed (w_expires_at w) (env_clock env (2 * n + 1))
       then WtExpired else WtCancelled),
     w_finished_at := Some (env_clock env (2 * n + 2))\<rparr>"

lemma ended_row_simps [simp]:
  "w_id (ended_row env n w r) = w_id r"
  "w_status (ended_row env n w r) \<noteq> WtPending"
  by (simp_all add: ended_row_def)

lemma commit_cancelled_wait_Inr:
  assumes "commit_cancelled_wait env claim wid (seq, n, db) = Inr (seq', n', db')"
  shows "(seq' = seq \<and> n' = n \<and> db' = db)
    \<or> (\<exists>w e. w \<in> set (t_waits db) \<and> w_id w = wid \<and> w_status w = WtPending
        \<and> w_session_id w = c_session_id claim
        \<and> e_wait_id e = Some wid \<and> e_operation_id e = None \<and> e_status e = EvPending
        \<and> e_session_id e = c_session_id claim \<and> e_sequence e = seq
        \<and> e_id e \<notin> e_id ` set (t_events db) \<and> seq' = seq + 1
        \<and> strip db' = strip db\<lparr>
            t_waits := row_update (\<lambda>r. w_id r = wid) (ended_row env n w) (t_waits db),
            t_events := t_events db @ [e]\<rparr>)"
proof -
  obtain w where w: "List.find (\<lambda>w. w_id w = wid \<and> w_session_id w = c_session_id claim)
      (t_waits db) = Some w"
    using assms by (auto simp: commit_cancelled_wait_def result_simps Let_def)
  then have mem: "w \<in> set (t_waits db) \<and> w_id w = wid \<and> w_session_id w = c_session_id claim"
    by (auto simp: find_Some_iff)
  show ?thesis
  proof (cases "w_status w = WtPending")
    case False
    with assms w show ?thesis by (auto simp: commit_cancelled_wait_def result_simps Let_def)
  next
    case True
    define fin where "fin = (if (w_mode w = Expiration \<or> w_mode w = Either)
        \<and> deadline_passed (w_expires_at w) (env_clock env (2 * n + 1))
      then FinExpired else FinCancelled)"
    from assms w True obtain mid e db1 db2 where
      up: "update_waits (\<lambda>r. w_id r = wid) (ended_row env n w) db = Inr mid"
      and ins: "insert_wait_event env (env_uuid env n) (c_session_id claim) wid seq fin mid
        = Inr (e, db1)"
      and em: "emit_update env (c_session_id claim) WaitChanged (WaitRef wid) db1 = Inr db2"
        "emit_update env (c_session_id claim) EventChanged (EventRef (e_id e) None) db2 = Inr db'"
      and seq': "seq' = seq + 1"
      by (auto simp: commit_cancelled_wait_def result_simps Let_def ended_row_def [abs_def] fin_def)
    have e: "e = wait_event_row env (env_uuid env n) (c_session_id claim) wid seq fin"
      "db1 = mid\<lparr>t_events := t_events mid @ [e]\<rparr>" "e_id e \<notin> e_id ` set (t_events mid)"
      using ins by (auto simp: insert_wait_event_def result_simps dest!: insert_event_fresh)
    have "strip db' = strip db1"
      using em by (auto simp: emit_update_def dest!: emit_update_strip)
    then have "strip db' = strip db\<lparr>
        t_waits := row_update (\<lambda>r. w_id r = wid) (ended_row env n w) (t_waits db),
        t_events := t_events db @ [e]\<rparr>"
      using update_waits_Inr [OF up] e(2) by simp
    moreover have "e_id e \<notin> e_id ` set (t_events db)"
      using update_waits_Inr [OF up] e(3) by simp
    moreover have "e_wait_id e = Some wid" "e_operation_id e = None" "e_status e = EvPending"
      "e_session_id e = c_session_id claim" "e_sequence e = seq"
      by (simp_all add: e(1))
    ultimately show ?thesis using mem True seq' by blast
  qed
qed

lemma commit_cancelled_wait_step:
  assumes "commit_cancelled_wait env claim wid st = Inr st'"
    and inv: "waits_ended (c_session_id claim) n0 db0 st"
  shows "waits_ended (c_session_id claim) n0 db0 st'"
proof -
  obtain seq n db where st: "st = (seq, n, db)" by (cases st)
  obtain seq' n' db' where st': "st' = (seq', n', db')" by (cases st')
  obtain es where es: "t_events db = t_events db0 @ es" "fresh_events db0 (c_session_id claim) n0 es"
    "seq = n0 + int (length es)" "list_all (\<lambda>e. e_operation_id e = None) es"
    "wait_ledger db0 db" "strip db = strip db0\<lparr>t_waits := t_waits db, t_events := t_events db\<rparr>"
    using inv by (auto simp: st waits_ended_def)
  from commit_cancelled_wait_Inr [OF assms(1) [unfolded st st']] show ?thesis
  proof (elim disjE exE conjE)
    assume "seq' = seq" "db' = db" with inv show ?thesis by (simp add: st st' waits_ended_def)
  next
    fix w e
    assume w: "w \<in> set (t_waits db)" "w_id w = wid" "w_status w = WtPending"
      and e: "e_wait_id e = Some wid" "e_operation_id e = None" "e_status e = EvPending"
        "e_session_id e = c_session_id claim" "e_sequence e = seq"
        "e_id e \<notin> e_id ` set (t_events db)" and seq': "seq' = seq + 1"
      and db': "strip db' = strip db\<lparr>
            t_waits := row_update (\<lambda>r. w_id r = wid) (ended_row env n w) (t_waits db),
            t_events := t_events db @ [e]\<rparr>"
    have tabs: "t_waits db' = row_update (\<lambda>r. w_id r = wid) (ended_row env n w) (t_waits db)"
      "t_events db' = t_events db @ [e]"
      using strip_eqD [OF db'] by simp_all
    have "wait_ledger db db'"
      by (rule ledger_settleI [where r = w and e = e and k = wid and f = "ended_row env n w"])
        (use w e tabs in \<open>simp_all add: wait_final_def\<close>)
    with es(5) have "wait_ledger db0 db'" by (rule rtranclp_trans)
    moreover have "fresh_events db0 (c_session_id claim) n0 (es @ [e])"
      by (rule fresh_events_snoc [OF es(2)]) (use e es in simp_all)
    moreover have "strip db' = strip db0\<lparr>t_waits := t_waits db', t_events := t_events db'\<rparr>"
      unfolding db' es(6) tabs by simp
    ultimately show ?thesis
      using es e seq' tabs by (auto simp: st' waits_ended_def intro!: exI [of _ "es @ [e]"])
  qed
qed

lemma commit_cancelled_waits_effect:
  assumes "foldR (commit_cancelled_wait env claim) wids (n0, 0, db0) = Inr st"
  shows "waits_ended (c_session_id claim) n0 db0 st"
proof (rule foldR_invariant [where P = "waits_ended (c_session_id claim) n0 db0", OF assms])
  show "waits_ended (c_session_id claim) n0 db0 (n0, 0, db0)"
    by (auto simp: waits_ended_def intro!: exI [of _ "[]"] strip_eqI)
qed (rule commit_cancelled_wait_step)

section \<open>The effects of an outcome\<close>

lemma session_of_strip: "session_of (strip db) i = map_option strip_session (session_of db i)"
proof -
  have "row_by s_id i (map strip_session ss) = map_option strip_session (row_by s_id i ss)" for ss
    by (induction ss) auto
  then show ?thesis by (simp add: session_of_def)
qed

lemma session_of_stripped:
  assumes "map strip_session (t_sessions db') = map strip_session (t_sessions db)"
  shows "map_option strip_session (session_of db' i) = map_option strip_session (session_of db i)"
  using session_of_strip [of db' i] session_of_strip [of db i] assms
  by (simp add: session_of_def)

lemma ledger_others:
  "list_all (\<lambda>e. ref e = None) es \<Longrightarrow> ledger_run key final ref (rows, evs) (rows, evs @ es)"
proof (induction es arbitrary: evs)
  case Nil
  then show ?case by simp
next
  case (Cons e es)
  have "ledger_run key final ref (rows, evs) (rows, evs @ [e])"
    by (rule ledger_otherI) (use Cons.prems in simp_all)
  moreover have "ledger_run key final ref (rows, evs @ [e]) (rows, (evs @ [e]) @ es)"
    using Cons.prems by (intro Cons.IH) simp
  ultimately show ?case by simp
qed

text \<open>Everything the transaction stores before it writes the session row.\<close>

definition outcome_effects ::
    "env \<Rightarrow> handler_claim \<Rightarrow> outcome_commit \<Rightarrow> int \<Rightarrow> session_row \<Rightarrow> event_row list \<Rightarrow> db \<Rightarrow> db \<Rightarrow> bool"
  where
  "outcome_effects env claim oc seq s es db db' \<longleftrightarrow>
     fresh_events db (c_session_id claim) (s_next_event_sequence s) es
     \<and> length (history_rows env claim (oc_history oc) seq) = length (oc_history oc)
     \<and> progress_ok env (oc_progress oc)
     \<and> op_ledger db db' \<and> wait_ledger db db'
     \<and> strip db' = strip db\<lparr>
         t_history := t_history db @ history_rows env claim (oc_history oc) seq,
         t_operations := t_operations db @ map (operation_row_of env claim) (oc_operations oc),
         t_requests := t_requests db @ map request_row_of (oc_operations oc),
         t_waits := t_waits db', t_events := t_events db @ es\<rparr>"

lemma commit_effects_effect:
  assumes "commit_effects env claim oc seq db = Inr (hseq, eseq, db')"
    and s: "session_of db (c_session_id claim) = Some s"
  shows "hseq = seq + int (length (oc_history oc))
    \<and> (\<exists>es. eseq = s_next_event_sequence s + int (length es)
        \<and> outcome_effects env claim oc seq s es db db')"
proof -
  let ?sid = "c_session_id claim"
  obtain db1 db2 db3 db4 db5 s' n where
    hist: "commit_history env claim (oc_history oc) seq db = Inr (hseq, db1)"
    and em: "(if oc_history oc \<noteq> []
             then emit_update env ?sid HistoryAppended
                    (HistoryRange (hseq - int (length (oc_history oc))) (hseq - 1)
                       (c_event_id claim)) db1
             else Inr db1) = Inr db2"
    and ops: "foldR (commit_operation env claim) (oc_operations oc) db2 = Inr db3"
    and wts: "foldR (commit_wait env claim) (oc_waits oc) db3 = Inr db4"
    and s': "session_of db4 ?sid = Some s'"
    and can: "foldR (commit_cancelled_wait env claim) (oc_cancelled_waits oc)
        (s_next_event_sequence s', 0, db4) = Inr (eseq, n, db5)"
    and prog: "progress_ok env (oc_progress oc)"
      "foldR (commit_progress env claim) (oc_progress oc) db5 = Inr db'"
    using assms(1) by (auto simp: commit_effects_def Let_def result_simps)
  note H = commit_history_effect [OF hist]
  have e2: "strip db2 = strip db1"
    using em by (auto simp: emit_update_def dest: emit_update_strip split: if_splits)
  note O = commit_operations_effect [OF ops] and W = commit_waits_effect [OF wts]
  note t2 = strip_eqD [OF e2] and t3 = strip_eqD [OF O] and t4 = strip_eqD [OF W]
  have "map strip_session (t_sessions db4) = map strip_session (t_sessions db)"
    using H t2 t3 t4 by simp
  then have "strip_session s' = strip_session s"
    using session_of_stripped [of db4 db ?sid] s s' by simp
  then have next': "s_next_event_sequence s' = s_next_event_sequence s"
    by (metis strip_session_simps(11))
  obtain es where es: "t_events db5 = t_events db4 @ es" "fresh_events db4 ?sid (s_next_event_sequence s) es"
    "eseq = s_next_event_sequence s + int (length es)"
    "list_all (\<lambda>e. e_operation_id e = None) es" "wait_ledger db4 db5"
    "strip db5 = strip db4\<lparr>t_waits := t_waits db5, t_events := t_events db5\<rparr>"
    using commit_cancelled_waits_effect [OF can] by (auto simp: waits_ended_def next')
  note t5 = strip_eqD [OF es(6)] and P = commit_progress_strip [OF prog(2)]
  note t6 = strip_eqD [OF P]
  have evs: "t_events db4 = t_events db" "t_events db2 = t_events db" "t_waits db3 = t_waits db"
    "t_operations db2 = t_operations db" "t_events db3 = t_events db"
    using H t2 t3 t4 by simp_all
  have fin: "t_events db' = t_events db @ es" "t_waits db' = t_waits db5"
    "t_operations db' = t_operations db3"
    using t4 t5 t6 evs es(1) by simp_all
  have "op_ledger db db'"
  proof -
    have "ledger_run o_id op_final e_operation_id (t_operations db, t_events db)
        (t_operations db3, t_events db)"
      using commit_operations_ledger [OF ops] evs by simp
    also have "ledger_run o_id op_final e_operation_id (t_operations db3, t_events db)
        (t_operations db3, t_events db @ es)"
      by (rule ledger_others [OF es(4)])
    finally show ?thesis using fin by simp
  qed
  moreover have "wait_ledger db db'"
    using commit_waits_ledger [OF wts] es(5) evs fin t6 es(1) by (simp add: rtranclp_trans)
  moreover have "fresh_events db ?sid (s_next_event_sequence s) es"
    using es(2) evs by (simp add: fresh_events_def)
  moreover have "strip db' = strip db\<lparr>
         t_history := t_history db @ history_rows env claim (oc_history oc) seq,
         t_operations := t_operations db @ map (operation_row_of env claim) (oc_operations oc),
         t_requests := t_requests db @ map request_row_of (oc_operations oc),
         t_waits := t_waits db', t_events := t_events db @ es\<rparr>"
    by (rule strip_eqI) (use H t2 t3 t4 t5 t6 evs es(1) in simp_all)
  ultimately show ?thesis using H es(3) prog(1) by (auto simp: outcome_effects_def)
qed

section \<open>The whole transaction\<close>

definition committed_session ::
    "env \<Rightarrow> outcome_commit \<Rightarrow> int \<Rightarrow> int \<Rightarrow> session_row \<Rightarrow> session_row" where
  "committed_session env oc hseq eseq q = q\<lparr>s_state := oc_state oc,
     s_status := override (oc_status oc) (s_status q),
     s_state_version := s_state_version q + 1, s_next_history_sequence := hseq,
     s_current_event_id := None, s_lease_token := None, s_lease_expires_at := None,
     s_next_event_sequence := eseq, s_updated_at := env_now env\<rparr>"

definition handled_row :: "env \<Rightarrow> event_row \<Rightarrow> event_row" where
  "handled_row env e = e\<lparr>e_status := EvHandled, e_handled_at := Some (env_now env),
     e_last_error := None\<rparr>"

definition commit_step ::
    "env \<Rightarrow> handler_claim \<Rightarrow> outcome_commit \<Rightarrow> session_row \<Rightarrow> event_row list \<Rightarrow> db \<Rightarrow> db \<Rightarrow> bool"
  where
  "commit_step env claim oc s es db db' \<longleftrightarrow>
     lock_valid_session_claim (env_clock env 0) claim db
       = Inr (s_next_history_sequence s, c_input_state_version claim)
     \<and> session_of db (c_session_id claim) = Some s
     \<and> s_state_version s = c_input_state_version claim
     \<and> length (filter (attempt_of_handler claim) (t_attempts db)) = 1
     \<and> (\<exists>mid. outcome_effects env claim oc (s_next_history_sequence s) s es db mid
         \<and> strip db' = strip mid\<lparr>
             t_sessions := row_update (\<lambda>q. s_id q = c_session_id claim)
               (committed_session env oc
                  (s_next_history_sequence s + int (length (oc_history oc)))
                  (s_next_event_sequence s + int (length es)))
               (t_sessions (strip mid)),
             t_events := row_update (\<lambda>e. e_id e = c_event_id claim) (handled_row env)
               (t_events mid),
             t_attempts := row_update (attempt_of_handler claim)
               (\<lambda>a. a\<lparr>a_status := AtCommitted, a_finished_at := Some (env_now env)\<rparr>)
               (t_attempts mid)\<rparr>)"

lemma commit_body_effect:
  assumes "commit_body env claim oc db = Inr db'"
  shows "\<exists>s es. commit_step env claim oc s es db db'"
proof -
  let ?sid = "c_session_id claim"
  obtain hseq0 hseq eseq mid db1 db2 db3 db4 where
    lock: "lock_valid_session_claim (env_clock env 0) claim db
      = Inr (hseq0, c_input_state_version claim)"
    and eff: "commit_effects env claim oc hseq0 db = Inr (hseq, eseq, mid)"
    and us: "update_sessions (\<lambda>s. s_id s = ?sid)
        (committed_session env oc hseq eseq) mid = Inr db1"
    and ue: "update_events (\<lambda>e. e_id e = c_event_id claim) (handled_row env) db1 = Inr db2"
    and ua: "update_attempts (attempt_of_handler claim)
        (\<lambda>a. a\<lparr>a_status := AtCommitted, a_finished_at := Some (env_now env)\<rparr>) db2 = Inr db3"
    and one: "length (filter (attempt_of_handler claim) (t_attempts db2)) = 1"
    and em: "emit_update env ?sid SessionChanged (SessionRef ?sid) db3 = Inr db4"
      "emit_update env ?sid EventChanged (EventRef (c_event_id claim) (Some EvHandled)) db4
        = Inr db'"
    using assms
    by (auto simp: commit_body_def Let_def result_simps
        committed_session_def [abs_def] handled_row_def [abs_def])
  obtain s where s: "session_of db ?sid = Some s" "hseq0 = s_next_history_sequence s"
    "s_state_version s = c_input_state_version claim"
    using lock by (auto simp: lock_valid_session_claim_Inr)
  obtain es where es: "hseq = hseq0 + int (length (oc_history oc))"
    "eseq = s_next_event_sequence s + int (length es)"
    "outcome_effects env claim oc hseq0 s es db mid"
    using commit_effects_effect [OF eff s(1)] by blast
  have "strip db' = strip db3" using em by (auto simp: emit_update_def dest!: emit_update_strip)
  moreover have "t_attempts mid = t_attempts db"
    using es(3) unfolding outcome_effects_def by (auto dest: strip_eqD)
  ultimately have "commit_step env claim oc s es db db'"
    unfolding commit_step_def
    using lock s es one
      update_sessions_Inr [OF us] update_events_Inr [OF ue] update_attempts_Inr [OF ua]
    by (auto simp: committed_session_def [abs_def] intro!: exI [of _ mid])
  then show ?thesis by blast
qed

lemma commit_step_tables:
  assumes "commit_step env claim oc s es db db'"
  shows "t_events db' = row_update (\<lambda>e. e_id e = c_event_id claim) (handled_row env)
      (t_events db @ es)"
    and "t_sessions (strip db') = row_update (\<lambda>q. s_id q = c_session_id claim)
      (committed_session env oc (s_next_history_sequence s + int (length (oc_history oc)))
         (s_next_event_sequence s + int (length es))) (t_sessions (strip db))"
    and "t_history db' = t_history db
      @ history_rows env claim (oc_history oc) (s_next_history_sequence s)"
    and "t_operations db' = t_operations db @ map (operation_row_of env claim) (oc_operations oc)"
    and "t_requests db' = t_requests db @ map request_row_of (oc_operations oc)"
    and "t_attempts db' = row_update (attempt_of_handler claim)
      (\<lambda>a. a\<lparr>a_status := AtCommitted, a_finished_at := Some (env_now env)\<rparr>) (t_attempts db)"
    and "t_receipts db' = t_receipts db" and "t_retries db' = t_retries db"
    and "t_op_attempts db' = t_op_attempts db"
  using assms unfolding commit_step_def outcome_effects_def by (auto dest!: strip_eqD)

lemma commit_stepD:
  assumes "commit_step env claim oc s es db db'"
  shows "lock_valid_session_claim (env_clock env 0) claim db
      = Inr (s_next_history_sequence s, c_input_state_version claim)"
    and "session_of db (c_session_id claim) = Some s"
    and "s_state_version s = c_input_state_version claim"
    and "length (filter (attempt_of_handler claim) (t_attempts db)) = 1"
    and "fresh_events db (c_session_id claim) (s_next_event_sequence s) es"
    and "length (history_rows env claim (oc_history oc) (s_next_history_sequence s))
      = length (oc_history oc)"
    and "progress_ok env (oc_progress oc)"
  using assms unfolding commit_step_def outcome_effects_def by blast+

lemma commit_step_claim:
  assumes "commit_step env claim oc s es db db'"
  shows "s_current_event_id s = Some (c_event_id claim)
    \<and> s_lease_token s = Some (c_lease_token claim)
    \<and> (\<exists>t. s_lease_expires_at s = Some t \<and> env_clock env 0 < t)"
  using commit_stepD(1,2) [OF assms] by (auto simp: lock_valid_session_claim_Inr)

lemma commit_body_inbox:
  assumes "commit_body env claim oc db = Inr db'" and ok: "inbox_ok db"
  shows "inbox_ok db'"
proof -
  let ?sid = "c_session_id claim"
  obtain s es where step: "commit_step env claim oc s es db db'"
    using commit_body_effect [OF assms(1)] by blast
  note T = commit_step_tables [OF step]
  note s = commit_stepD(2) [OF step] and es = commit_stepD(5) [OF step]
    and cur = commit_step_claim [OF step, THEN conjunct1]
  let ?g = "\<lambda>q. q\<lparr>s_next_event_sequence := s_next_event_sequence s + int (length es)\<rparr>"
  let ?f = "\<lambda>q. q\<lparr>s_state := oc_state oc, s_status := override (oc_status oc) (s_status q),
     s_state_version := s_state_version q + 1,
     s_next_history_sequence := s_next_history_sequence s + int (length (oc_history oc)),
     s_current_event_id := None, s_lease_token := None, s_lease_expires_at := None,
     s_updated_at := env_now env\<rparr>"
  define ext where "ext = strip db\<lparr>t_events := t_events db @ es,
    t_sessions := row_update (\<lambda>q. s_id q = ?sid) ?g (t_sessions (strip db))\<rparr>"
  have okx: "inbox_ok ext"
    by (rule inbox_ok_extend [OF ok s es, where f = ?g]) (simp_all add: ext_def)
  have strip_s: "session_of (strip db) ?sid = Some (strip_session s)"
    using s by (simp add: session_of_strip)
  have sx: "session_of ext ?sid = Some (?g (strip_session s))"
    using strip_s by (simp add: ext_def session_of_def row_by_update_key)
  have "inbox_ok (strip db')"
  proof (rule inbox_ok_release [OF okx sx, where f = ?f and g = "handled_row env"
        and eid = "c_event_id claim"])
    show "t_sessions (strip db') = row_update (\<lambda>q. s_id q = ?sid) ?f (t_sessions (strip ext))"
      unfolding T(2)
      by (simp add: ext_def row_update_fusion, rule row_update_cong)
        (simp add: committed_session_def)
    show "t_events (strip db') = row_update (\<lambda>e. e_id e = c_event_id claim) (handled_row env)
        (t_events ext)"
      by (simp add: T(1) ext_def)
  qed (simp_all add: cur handled_row_def)
  then show ?thesis by simp
qed

lemma commit_body_ledgers:
  assumes "commit_body env claim oc db = Inr db'"
  shows "op_ledger db db'" and "wait_ledger db db'"
proof -
  obtain s es where step: "commit_step env claim oc s es db db'"
    using commit_body_effect [OF assms] by blast
  then obtain mid where eff: "op_ledger db mid" "wait_ledger db mid"
    and eq: "strip db' = strip mid\<lparr>
             t_sessions := row_update (\<lambda>q. s_id q = c_session_id claim)
               (committed_session env oc
                  (s_next_history_sequence s + int (length (oc_history oc)))
                  (s_next_event_sequence s + int (length es)))
               (t_sessions (strip mid)),
             t_events := row_update (\<lambda>e. e_id e = c_event_id claim) (handled_row env)
               (t_events mid),
             t_attempts := row_update (attempt_of_handler claim)
               (\<lambda>a. a\<lparr>a_status := AtCommitted, a_finished_at := Some (env_now env)\<rparr>)
               (t_attempts mid)\<rparr>"
    unfolding commit_step_def outcome_effects_def by blast
  have tabs: "t_operations db' = t_operations mid" "t_waits db' = t_waits mid"
      "t_events db' = row_update (\<lambda>e. e_id e = c_event_id claim) (handled_row env) (t_events mid)"
    using strip_eqD [OF eq] by simp_all
  have refs: "map e_operation_id (t_events db') = map e_operation_id (t_events mid)"
    "map e_wait_id (t_events db') = map e_wait_id (t_events mid)"
    by (simp_all add: tabs handled_row_def)
  have "op_ledger mid db'" and "wait_ledger mid db'"
    using tabs refs by (auto intro: ledger_markI)
  with eff show "op_ledger db db'" and "wait_ledger db db'" by (auto intro: rtranclp_trans)
qed

end
