(* ===== verification/Callbacks.thy ===== *)
theory Callbacks
  imports CommitOps
begin

text \<open>
  Gateway callbacks and retention (\<open>packages/agent-store/src/store.rs\<close>): durable receipts,
  recorded once per gateway event, claimed under a lease, matched to an operation by its job
  and completed by waking the operation up; and the deletion of expired request bodies of
  operations that have ended.
\<close>

section \<open>Receipts\<close>

text \<open>\<open>record_callback_receipt\<close>: the INSERT is idempotent, the stored receipt must agree.\<close>

definition new_receipt ::
    "env \<Rightarrow> string \<Rightarrow> uuid \<Rightarrow> uuid \<Rightarrow> raw_json \<Rightarrow> receipt_row" where
  "new_receipt env connection gateway_event job payload =
     \<lparr>g_id = env_uuid env 0, g_connection = connection, g_event_id = gateway_event, g_job_id = job,
      g_payload = payload, g_operation_id = None, g_status = RcPending,
      g_next_attempt_at = env_now env, g_lease_token = None, g_lease_expires_at = None,
      g_last_error = None, g_received_at = env_now env, g_processed_at = None\<rparr>"

definition receipt_for :: "db \<Rightarrow> string \<Rightarrow> uuid \<Rightarrow> receipt_row option" where
  "receipt_for db connection gateway_event =
     List.find (\<lambda>g. g_connection g = connection \<and> g_event_id g = gateway_event) (t_receipts db)"

definition record_callback_receipt ::
    "env \<Rightarrow> string \<Rightarrow> uuid \<Rightarrow> uuid \<Rightarrow> raw_json \<Rightarrow> db \<Rightarrow> store_error + receipt_row \<times> db" where
  "record_callback_receipt env connection gateway_event job payload db =
     bindR (insert_receipt (new_receipt env connection gateway_event job payload) db) (\<lambda>(inserted, db).
     bindR (ok_or (receipt_for db connection gateway_event) (Database RowNotFound)) (\<lambda>g.
     bindR (guardR (inserted \<or> (g_job_id g = job \<and> g_payload g = payload)) IdempotencyConflict) (\<lambda>_.
     Inr (g, db))))"

record claimed_receipt =
  kr_receipt :: receipt_row
  kr_lease_token :: uuid

abbreviation kr_id :: "claimed_receipt \<Rightarrow> uuid" where
  "kr_id claim \<equiv> g_id (kr_receipt claim)"

definition receipt_claimable :: "time \<Rightarrow> receipt_row \<Rightarrow> bool" where
  "receipt_claimable now g \<longleftrightarrow>
     (g_status g = RcPending \<or> g_status g = RcProcessing) \<and> g_next_attempt_at g \<le> now
     \<and> lease_free (g_lease_token g) (g_lease_expires_at g) now"

definition claim_callback_receipt ::
    "env \<Rightarrow> nat \<Rightarrow> db \<Rightarrow> store_error + claimed_receipt option \<times> db" where
  "claim_callback_receipt env lease_for db =
     (case first_by (\<lambda>g. (g_next_attempt_at g, g_received_at g, g_id g))
             (filter (\<lambda>g. receipt_claimable (env_clock env 0) g \<and> \<not> env_skip env (g_id g))
               (t_receipts db)) of
        None \<Rightarrow> Inr (None, db)
      | Some g \<Rightarrow>
          bindR (duration_millis lease_for) (\<lambda>lease_ms.
          bindR (update_receipts (\<lambda>r. g_id r = g_id g)
            (\<lambda>r. r\<lparr>g_status := RcProcessing, g_lease_token := Some (env_uuid env 0),
                   g_lease_expires_at := Some (add_millis (env_clock env 1) lease_ms)\<rparr>) db) (\<lambda>db.
          bindR (ok_or (receipt_of db (g_id g)) (Database RowNotFound)) (\<lambda>r.
          Inr (Some \<lparr>kr_receipt = r, kr_lease_token = env_uuid env 0\<rparr>, db)))))"

definition lock_valid_callback_claim ::
    "time \<Rightarrow> claimed_receipt \<Rightarrow> db \<Rightarrow> store_error + receipt_row" where
  "lock_valid_callback_claim now claim db =
     bindR (ok_or (receipt_of db (kr_id claim))
       (InvalidInput ''callback receipt was not found'')) (\<lambda>g.
     bindR (guardR (g_lease_token g = Some (kr_lease_token claim)
        \<and> (case g_lease_expires_at g of None \<Rightarrow> False | Some t \<Rightarrow> now < t)) StaleClaim) (\<lambda>_.
     Inr g))"

text \<open>The operation a gateway job belongs to.\<close>

definition operation_for_job :: "db \<Rightarrow> string \<Rightarrow> uuid \<Rightarrow> operation_id option" where
  "operation_for_job db connection job =
     map_option o_id (List.find (\<lambda>r. o_connection r = Some connection \<and> o_job_id r = Some job)
       (t_operations db))"

definition match_callback_receipt ::
    "env \<Rightarrow> claimed_receipt \<Rightarrow> time \<Rightarrow> db \<Rightarrow> store_error + operation_id option \<times> db" where
  "match_callback_receipt env claim retry_at db =
     bindR (lock_valid_callback_claim (env_clock env 0) claim db) (\<lambda>g.
     let found = operation_for_job db (g_connection g) (g_job_id g) in
     bindR (update_receipts (\<lambda>r. g_id r = kr_id claim)
       (\<lambda>r. r\<lparr>g_operation_id := found, g_next_attempt_at := retry_at,
              g_status := (if found = None then RcPending else g_status r),
              g_lease_token := (if found = None then None else g_lease_token r),
              g_lease_expires_at := (if found = None then None else g_lease_expires_at r)\<rparr>) db) (\<lambda>db.
     Inr (found, db)))"

definition complete_callback_receipt ::
    "env \<Rightarrow> claimed_receipt \<Rightarrow> db \<Rightarrow> store_error + db" where
  "complete_callback_receipt env claim db =
     bindR (lock_valid_callback_claim (env_clock env 0) claim db) (\<lambda>g.
     bindR (update_operations
       (\<lambda>r. g_operation_id g = Some (o_id r) \<and> o_status r = OpAccepted)
       (\<lambda>r. r\<lparr>o_next_attempt_at := min (o_next_attempt_at r) (env_clock env 1)\<rparr>) db) (\<lambda>db.
     update_receipts (\<lambda>r. g_id r = kr_id claim)
       (\<lambda>r. r\<lparr>g_status := RcProcessed, g_processed_at := Some (env_now env),
              g_lease_token := None, g_lease_expires_at := None\<rparr>) db))"

definition block_callback_receipt ::
    "env \<Rightarrow> claimed_receipt \<Rightarrow> json \<Rightarrow> db \<Rightarrow> store_error + db" where
  "block_callback_receipt env claim error db =
     bindR (lock_valid_callback_claim (env_clock env 0) claim db) (\<lambda>_.
     update_receipts (\<lambda>r. g_id r = kr_id claim)
       (\<lambda>r. r\<lparr>g_status := RcBlocked, g_last_error := Some error,
              g_lease_token := None, g_lease_expires_at := None\<rparr>) db)"

definition block_unmatched_callback_receipt ::
    "uuid \<Rightarrow> json \<Rightarrow> db \<Rightarrow> store_error + db" where
  "block_unmatched_callback_receipt receipt_id error db =
     update_receipts
       (\<lambda>r. g_id r = receipt_id \<and> g_status r = RcPending \<and> g_operation_id r = None
            \<and> operation_for_job db (g_connection r) (g_job_id r) = None)
       (\<lambda>r. r\<lparr>g_status := RcBlocked, g_last_error := Some error\<rparr>) db"

definition renew_callback_receipt_claim ::
    "env \<Rightarrow> claimed_receipt \<Rightarrow> nat \<Rightarrow> db \<Rightarrow> store_error + db" where
  "renew_callback_receipt_claim env claim lease_for db =
     bindR (lock_valid_callback_claim (env_clock env 0) claim db) (\<lambda>_.
     bindR (duration_millis lease_for) (\<lambda>lease_ms.
     update_receipts (\<lambda>r. g_id r = kr_id claim)
       (\<lambda>r. r\<lparr>g_lease_expires_at := Some (add_millis (env_clock env 1) lease_ms)\<rparr>) db))"

definition retry_callback_receipt ::
    "env \<Rightarrow> claimed_receipt \<Rightarrow> time \<Rightarrow> json \<Rightarrow> db \<Rightarrow> store_error + db" where
  "retry_callback_receipt env claim retry_at error db =
     bindR (lock_valid_callback_claim (env_clock env 0) claim db) (\<lambda>_.
     update_receipts (\<lambda>r. g_id r = kr_id claim)
       (\<lambda>r. r\<lparr>g_status := RcPending, g_next_attempt_at := retry_at,
              g_last_error := Some error, g_lease_token := None,
              g_lease_expires_at := None\<rparr>) db)"

section \<open>Expired request bodies\<close>

text \<open>The request and the session of an operation that has ended, if the request's retention
  deadline has passed: the join both deletions and both scans use.\<close>

definition expired_at :: "time \<Rightarrow> db \<Rightarrow> request_row \<Rightarrow> (time \<times> operation_row) option" where
  "expired_at now db q =
     (case (r_expires_at q, operation_of db (r_operation_id q)) of
        (Some t, Some r) \<Rightarrow> if t \<le> now \<and> op_terminal (o_status r) then Some (t, r) else None
      | _ \<Rightarrow> None)"

definition expired_requests_at :: "time \<Rightarrow> db \<Rightarrow> (time \<times> operation_row) list" where
  "expired_requests_at now db = List.map_filter (expired_at now db) (t_requests db)"

definition request_eligible :: "time \<Rightarrow> db \<Rightarrow> operation_id \<Rightarrow> bool" where
  "request_eligible now db i =
     list_ex (\<lambda>q. r_operation_id q = i \<and> expired_at now db q \<noteq> None) (t_requests db)"

text \<open>What both deletions do once the request is known to be eligible.\<close>

definition remove_request ::
    "env \<Rightarrow> time \<Rightarrow> session_id \<Rightarrow> operation_id \<Rightarrow> db \<Rightarrow> store_error + db" where
  "remove_request env now sid i db =
     bindR (delete_requests (\<lambda>q. r_operation_id q = i) db) (\<lambda>db.
     bindR (update_operations (\<lambda>r. o_id r = i) (\<lambda>r. r\<lparr>o_request_removed_at := Some now\<rparr>) db) (\<lambda>db.
     emit_update env sid OperationChanged (OperationRef i) db))"

text \<open>One candidate of the batch deletion, in a transaction of its own: \<open>env\<close> is that
  transaction's environment. The flag says whether the request was deleted.\<close>

definition delete_expired_candidate ::
    "env \<Rightarrow> operation_id \<times> session_id \<Rightarrow> db \<Rightarrow> store_error + bool \<times> db" where
  "delete_expired_candidate env c db =
     bindR (lock_session_sequence (snd c) db) (\<lambda>_.
     if \<not> request_eligible (env_clock env 0) db (fst c) \<or> env_skip env (fst c) then Inr (False, db)
     else bindR (remove_request env (env_clock env 1) (snd c) (fst c) db) (\<lambda>db. Inr (True, db)))"

text \<open>The candidates are selected first; \<open>envs k\<close> is the environment of the \<open>k\<close>-th
  transaction. An error ends the loop, and what earlier transactions deleted stays deleted.\<close>

fun delete_candidates ::
    "(nat \<Rightarrow> env) \<Rightarrow> (operation_id \<times> session_id) list \<Rightarrow> nat \<Rightarrow> nat \<Rightarrow> db
     \<Rightarrow> (store_error + nat) \<times> db" where
  "delete_candidates envs [] k removed db = (Inr removed, db)"
| "delete_candidates envs (c # cs) k removed db =
     (case delete_expired_candidate (envs k) c db of
        Inl e \<Rightarrow> (Inl e, db)
      | Inr (gone, db') \<Rightarrow>
          delete_candidates envs cs (Suc k) (if gone then removed + 1 else removed) db')"

definition delete_expired_operation_requests ::
    "env \<Rightarrow> (nat \<Rightarrow> env) \<Rightarrow> int \<Rightarrow> db \<Rightarrow> (store_error + nat) \<times> db" where
  "delete_expired_operation_requests env envs limit db =
     (if \<not> limit_ok limit then (Inl (InvalidInput ''limit must be between 1 and 1000''), db)
      else delete_candidates envs
             (map (\<lambda>(t, r). (o_id r, o_session_id r))
                (top_by fst limit (expired_requests_at (env_clock env 0) db))) 0 0 db)"

definition expired_operation_request_candidates ::
    "env \<Rightarrow> (time \<times> operation_id) option \<Rightarrow> int \<Rightarrow> db \<Rightarrow> store_error + (time \<times> operation_id) list"
  where
  "expired_operation_request_candidates env after limit db =
     bindR (guardR (limit_ok limit) (InvalidInput ''limit must be 1..1000'')) (\<lambda>_.
     Inr (top_by (\<lambda>x. x) limit
       (filter (\<lambda>x. case after of None \<Rightarrow> True | Some c \<Rightarrow> c < x)
          (map (\<lambda>(t, r). (t, o_id r)) (expired_requests_at (env_clock env 0) db)))))"

definition delete_expired_operation_request ::
    "env \<Rightarrow> operation_id \<Rightarrow> db \<Rightarrow> store_error + bool \<times> db" where
  "delete_expired_operation_request env i db =
     (case operation_of db i of
        None \<Rightarrow> Inr (False, db)
      | Some r \<Rightarrow>
          let sid = o_session_id r in
          if session_of db sid = None \<or> env_skip env sid
             \<or> \<not> request_eligible (env_clock env 0) db i \<or> env_skip env i
          then Inr (False, db)
          else bindR (remove_request env (env_clock env 1) sid i db) (\<lambda>db. Inr (True, db)))"

end
