(* ===== verification/Inspection.thy ===== *)
theory Inspection
  imports Callbacks
begin

text \<open>
  The bounded reads of \<open>packages/agent-store/src/inspection.rs\<close> and of \<open>store.rs\<close>, the
  retention of the update log (\<open>prune_updates\<close>), and the texts the enumerations are stored as
  (\<open>models.rs\<close>, \<open>store.rs\<close>). Reads return rows; they do not change the database.
\<close>

section \<open>Stored enumerations\<close>

fun event_type_str :: "event_type \<Rightarrow> string" where
  "event_type_str EvUserMessage = ''user_message''"
| "event_type_str EvOperationCompleted = ''operation_completed''"
| "event_type_str EvCancellationRequested = ''cancellation_requested''"
| "event_type_str EvWaitResumed = ''wait_resumed''"

definition parse_event_type :: "string \<Rightarrow> event_type option" where
  "parse_event_type v =
     (if v = ''user_message'' then Some EvUserMessage
      else if v = ''operation_completed'' then Some EvOperationCompleted
      else if v = ''cancellation_requested'' then Some EvCancellationRequested
      else if v = ''wait_resumed'' then Some EvWaitResumed
      else None)"

fun operation_status_str :: "operation_status \<Rightarrow> string" where
  "operation_status_str OpPending = ''pending''"
| "operation_status_str OpSubmitting = ''submitting''"
| "operation_status_str OpAccepted = ''accepted''"
| "operation_status_str OpSucceeded = ''succeeded''"
| "operation_status_str OpFailed = ''failed''"
| "operation_status_str OpCancelled = ''cancelled''"
| "operation_status_str OpUnknown = ''unknown''"

definition parse_operation_status :: "string \<Rightarrow> operation_status option" where
  "parse_operation_status v =
     (if v = ''pending'' then Some OpPending
      else if v = ''submitting'' then Some OpSubmitting
      else if v = ''accepted'' then Some OpAccepted
      else if v = ''succeeded'' then Some OpSucceeded
      else if v = ''failed'' then Some OpFailed
      else if v = ''cancelled'' then Some OpCancelled
      else if v = ''unknown'' then Some OpUnknown
      else None)"

fun operation_phase_str :: "operation_phase \<Rightarrow> string" where
  "operation_phase_str Submission = ''submission''"
| "operation_phase_str ResultRetrieval = ''result_retrieval''"
| "operation_phase_str Cancellation = ''cancellation''"
| "operation_phase_str Withdrawal = ''withdrawal''"

fun session_status_str :: "session_status \<Rightarrow> string" where
  "session_status_str SessIdle = ''idle''"
| "session_status_str SessRunning = ''running''"
| "session_status_str SessWaiting = ''waiting''"
| "session_status_str SessCancelling = ''cancelling''"
| "session_status_str SessCancelled = ''cancelled''"
| "session_status_str SessFailed = ''failed''"

definition parse_session_status :: "string \<Rightarrow> session_status option" where
  "parse_session_status v =
     (if v = ''idle'' then Some SessIdle
      else if v = ''running'' then Some SessRunning
      else if v = ''waiting'' then Some SessWaiting
      else if v = ''cancelling'' then Some SessCancelling
      else if v = ''cancelled'' then Some SessCancelled
      else if v = ''failed'' then Some SessFailed
      else None)"

fun operation_kind_str :: "operation_kind \<Rightarrow> string" where
  "operation_kind_str KindLlm = ''llm''"
| "operation_kind_str KindExecution = ''execution''"
| "operation_kind_str KindLlmCancellation = ''llm_cancellation''"
| "operation_kind_str KindWithdraw = ''withdraw''"

definition parse_operation_kind :: "string \<Rightarrow> operation_kind option" where
  "parse_operation_kind v =
     (if v = ''llm'' then Some KindLlm
      else if v = ''execution'' then Some KindExecution
      else if v = ''llm_cancellation'' then Some KindLlmCancellation
      else if v = ''withdraw'' then Some KindWithdraw
      else None)"

fun wait_mode_str :: "wait_mode \<Rightarrow> string" where
  "wait_mode_str External = ''external''"
| "wait_mode_str Expiration = ''expiration''"
| "wait_mode_str Either = ''either''"

definition parse_wait_mode :: "string \<Rightarrow> wait_mode option" where
  "parse_wait_mode v =
     (if v = ''external'' then Some External
      else if v = ''expiration'' then Some Expiration
      else if v = ''either'' then Some Either
      else None)"

fun wait_status_str :: "wait_status \<Rightarrow> string" where
  "wait_status_str WtPending = ''pending''"
| "wait_status_str WtResolved = ''resolved''"
| "wait_status_str WtExpired = ''expired''"
| "wait_status_str WtCancelled = ''cancelled''"

section \<open>Cursors and history\<close>

definition history_cursor :: "session_id \<Rightarrow> db \<Rightarrow> store_error + int" where
  "history_cursor i db =
     bindR (ok_or (session_of db i) (SessionNotFound i)) (\<lambda>s. Inr (s_next_history_sequence s - 1))"

definition session_exists :: "session_id \<Rightarrow> db \<Rightarrow> store_error + unit" where
  "session_exists i db = bindR (history_cursor i db) (\<lambda>_. Inr ())"

definition update_cursor :: "session_id \<Rightarrow> db \<Rightarrow> store_error + int \<times> int" where
  "update_cursor i db =
     bindR (ok_or (session_of db i) (SessionNotFound i)) (\<lambda>s.
     Inr (s_next_update_sequence s - 1, s_retained_update_sequence s))"

definition history ::
    "session_id \<Rightarrow> int \<Rightarrow> int \<Rightarrow> int \<Rightarrow> db \<Rightarrow> store_error + history_row list" where
  "history i after through limit db =
     bindR (guardR (limit_ok limit) (InvalidInput ''limit must be between 1 and 1000'')) (\<lambda>_.
     Inr (top_by h_sequence limit
       (filter (\<lambda>h. h_session_id h = i \<and> after < h_sequence h \<and> h_sequence h \<le> through)
         (t_history db))))"

definition history_entry ::
    "session_id \<Rightarrow> history_entry_id \<Rightarrow> int \<Rightarrow> db \<Rightarrow> history_row option" where
  "history_entry i entry through db =
     List.find (\<lambda>h. h_session_id h = i \<and> h_id h = entry \<and> h_sequence h \<le> through) (t_history db)"

definition history_for_event ::
    "session_id \<Rightarrow> event_id \<Rightarrow> int \<Rightarrow> int \<Rightarrow> int \<Rightarrow> db \<Rightarrow> store_error + history_row list" where
  "history_for_event i eid after through limit db =
     bindR (guardR (limit_ok limit) (InvalidInput ''limit must be 1..1000'')) (\<lambda>_.
     bindR (update_cursor i db) (\<lambda>_.
     Inr (top_by h_sequence limit
       (filter (\<lambda>h. h_session_id h = i \<and> h_source_event_id h = Some eid
          \<and> after < h_sequence h \<and> h_sequence h \<le> through) (t_history db)))))"

section \<open>The update log\<close>

record update_page =
  up_updates :: "update_row list"
  up_through_sequence :: int
  up_retained_sequence :: int
  up_has_more :: bool

definition updates ::
    "session_id \<Rightarrow> int \<Rightarrow> int option \<Rightarrow> int \<Rightarrow> db \<Rightarrow> store_error + update_page" where
  "updates i after_sequence through_sequence limit db =
     bindR (guardR (\<not> (after_sequence < 0 \<or> \<not> limit_ok limit))
       (InvalidInput ''invalid update sequence or limit'')) (\<lambda>_.
     bindR (update_cursor i db) (\<lambda>(current, retained).
     bindR (guardR (\<not> after_sequence < retained - 1) UpdateCursorExpired) (\<lambda>_.
     let through = (case through_sequence of None \<Rightarrow> current | Some t \<Rightarrow> t) in
     bindR (guardR (\<not> (through < after_sequence \<or> current < through))
       (InvalidInput ''invalid through_sequence'')) (\<lambda>_.
     let rows = top_by u_sequence (limit + 1)
           (filter (\<lambda>u. u_session_id u = i \<and> after_sequence < u_sequence u \<and> u_sequence u \<le> through)
             (t_updates db)) in
     Inr \<lparr>up_updates = take (nat limit) rows, up_through_sequence = through,
       up_retained_sequence = retained, up_has_more = nat limit < length rows\<rparr>))))"

text \<open>
  One session of \<open>prune_updates\<close>, in a transaction of its own: the deleted rows are counted.
  A session that another transaction has locked is passed over.
\<close>

definition prune_session :: "env \<Rightarrow> time \<Rightarrow> session_id \<Rightarrow> db \<Rightarrow> store_error + nat \<times> db" where
  "prune_session env before i db =
     (if session_of db i = None \<or> env_skip env i then Inr (0, db)
      else
        let sequences = map u_sequence (top_by u_sequence 1000
              (filter (\<lambda>u. u_session_id u = i \<and> u_created_at u < before) (t_updates db))) in
        if sequences = [] then Inr (0, db)
        else
          let maximum = last sequences;
              gone = (\<lambda>u. u_session_id u = i \<and> u_sequence u \<le> maximum) in
          bindR (delete_updates gone db) (\<lambda>db'.
          bindR (update_sessions (\<lambda>s. s_id s = i)
            (\<lambda>s. s\<lparr>s_retained_update_sequence :=
                   max (s_retained_update_sequence s) (maximum + 1)\<rparr>) db') (\<lambda>db'.
          Inr (length (filter gone (t_updates db)), db'))))"

fun prune_sessions ::
    "(nat \<Rightarrow> env) \<Rightarrow> time \<Rightarrow> session_id list \<Rightarrow> nat \<Rightarrow> nat \<Rightarrow> db \<Rightarrow> (store_error + nat) \<times> db" where
  "prune_sessions envs before [] k removed db = (Inr removed, db)"
| "prune_sessions envs before (i # is) k removed db =
     (case prune_session (envs k) before i db of
        Inl e \<Rightarrow> (Inl e, db)
      | Inr (n, db') \<Rightarrow> prune_sessions envs before is (Suc k) (removed + n) db')"

text \<open>\<open>SELECT DISTINCT ... LIMIT\<close> has no order: the model takes the sessions as they come.\<close>

definition prune_updates ::
    "(nat \<Rightarrow> env) \<Rightarrow> time \<Rightarrow> int \<Rightarrow> db \<Rightarrow> (store_error + nat) \<times> db" where
  "prune_updates envs before session_limit db =
     (if \<not> limit_ok session_limit then (Inl (InvalidInput ''session limit must be 1..1000''), db)
      else prune_sessions envs before
             (take (nat session_limit)
                (remdups (map u_session_id (filter (\<lambda>u. u_created_at u < before) (t_updates db)))))
             0 0 db)"

section \<open>Events and attempts\<close>

definition event_for_session :: "session_id \<Rightarrow> event_id \<Rightarrow> db \<Rightarrow> event_row option" where
  "event_for_session i eid db =
     List.find (\<lambda>e. e_session_id e = i \<and> e_id e = eid) (t_events db)"

text \<open>\<open>events\<close> returns summaries: the rows without their payload. The model keeps the rows.\<close>

definition events ::
    "session_id \<Rightarrow> int \<Rightarrow> int \<Rightarrow> event_status option \<Rightarrow> db \<Rightarrow> store_error + event_row list" where
  "events i after limit status db =
     bindR (guardR (\<not> (after < 0 \<or> \<not> limit_ok limit))
       (InvalidInput ''invalid event sequence or limit'')) (\<lambda>_.
     bindR (update_cursor i db) (\<lambda>_.
     Inr (top_by e_sequence limit
       (filter (\<lambda>e. e_session_id e = i \<and> after < e_sequence e
          \<and> (case status of None \<Rightarrow> True | Some st \<Rightarrow> e_status e = st)) (t_events db)))))"

definition handler_attempts ::
    "session_id \<Rightarrow> event_id \<Rightarrow> int \<Rightarrow> int \<Rightarrow> db \<Rightarrow> store_error + attempt_row list" where
  "handler_attempts i eid after limit db =
     bindR (guardR (\<not> (after < 0 \<or> \<not> limit_ok limit))
       (InvalidInput ''invalid attempt cursor or limit'')) (\<lambda>_.
     bindR (guardR (event_in db i eid) (EventNotFound eid)) (\<lambda>_.
     Inr (top_by a_number limit
       (filter (\<lambda>a. a_event_id a = eid \<and> after < a_number a) (t_attempts db)))))"

section \<open>Operations\<close>

definition operation :: "operation_id \<Rightarrow> db \<Rightarrow> store_error + operation_row" where
  "operation i db = ok_or (operation_of db i) (OperationNotFound i)"

definition operation_for_session :: "session_id \<Rightarrow> operation_id \<Rightarrow> db \<Rightarrow> operation_row option" where
  "operation_for_session sid i db =
     List.find (\<lambda>r. o_session_id r = sid \<and> o_id r = i) (t_operations db)"

definition operations ::
    "session_id \<Rightarrow> operation_kind option \<Rightarrow> int \<Rightarrow> db \<Rightarrow> store_error + operation_row list" where
  "operations sid kind limit db =
     bindR (guardR (limit_ok limit) (InvalidInput ''limit must be between 1 and 1000'')) (\<lambda>_.
     Inr (top_desc (\<lambda>r. (o_created_at r, o_id r)) limit
       (filter (\<lambda>r. o_session_id r = sid
          \<and> (case kind of None \<Rightarrow> True | Some k \<Rightarrow> o_kind r = k)) (t_operations db))))"

definition operation_request :: "operation_id \<Rightarrow> db \<Rightarrow> raw_json option" where
  "operation_request i db = map_option r_request (row_by r_operation_id i (t_requests db))"

record operation_summary =
  os_operation :: operation_row
  os_request_available :: bool
  os_request_expires_at :: "time option"

definition summary_of :: "db \<Rightarrow> operation_row \<Rightarrow> operation_summary" where
  "summary_of db r =
     (let q = row_by r_operation_id (o_id r) (t_requests db) in
      \<lparr>os_operation = r, os_request_available = (q \<noteq> None),
       os_request_expires_at = Option.bind q r_expires_at\<rparr>)"

definition operations_summary ::
    "session_id \<Rightarrow> (time \<times> uuid) option \<Rightarrow> int \<Rightarrow> operation_kind option \<Rightarrow> operation_status option
     \<Rightarrow> event_id option \<Rightarrow> db \<Rightarrow> store_error + operation_summary list" where
  "operations_summary sid cursor limit kind status source_event db =
     bindR (guardR (limit_ok limit) (InvalidInput ''limit must be 1..1000'')) (\<lambda>_.
     bindR (update_cursor sid db) (\<lambda>_.
     Inr (map (summary_of db) (top_desc (\<lambda>r. (o_created_at r, o_id r)) limit
       (filter (\<lambda>r. o_session_id r = sid
          \<and> (case kind of None \<Rightarrow> True | Some k \<Rightarrow> o_kind r = k)
          \<and> (case status of None \<Rightarrow> True | Some st \<Rightarrow> o_status r = st)
          \<and> (case source_event of None \<Rightarrow> True | Some e \<Rightarrow> o_source_event_id r = e)
          \<and> (case cursor of None \<Rightarrow> True | Some c \<Rightarrow> (o_created_at r, o_id r) < c))
         (t_operations db))))))"

definition operation_attempts ::
    "session_id \<Rightarrow> operation_id \<Rightarrow> int \<Rightarrow> int \<Rightarrow> db \<Rightarrow> store_error + op_attempt_row list" where
  "operation_attempts sid i after limit db =
     bindR (guardR (\<not> (after < 0 \<or> \<not> limit_ok limit))
       (InvalidInput ''invalid attempt cursor or limit'')) (\<lambda>_.
     bindR (guardR (operation_in db sid i) (OperationNotFound i)) (\<lambda>_.
     Inr (top_by oa_number limit
       (filter (\<lambda>a. oa_operation_id a = i \<and> after < oa_number a) (t_op_attempts db)))))"

definition operation_request_for_session ::
    "session_id \<Rightarrow> operation_id \<Rightarrow> db \<Rightarrow> store_error + raw_json option" where
  "operation_request_for_session sid i db =
     bindR (guardR (operation_in db sid i) (OperationNotFound i)) (\<lambda>_.
     Inr (operation_request i db))"

definition operation_request_status ::
    "session_id \<Rightarrow> operation_id \<Rightarrow> db \<Rightarrow> store_error + bool \<times> time option \<times> time option" where
  "operation_request_status sid i db =
     bindR (ok_or (operation_for_session sid i db) (OperationNotFound i)) (\<lambda>r.
     let q = row_by r_operation_id i (t_requests db) in
     Inr (q \<noteq> None, Option.bind q r_expires_at, o_request_removed_at r))"

section \<open>Waits and sessions\<close>

definition wait :: "wait_id \<Rightarrow> db \<Rightarrow> store_error + wait_row" where
  "wait i db = ok_or (wait_of db i) (WaitNotFound i)"

definition wait_for_session :: "session_id \<Rightarrow> wait_id \<Rightarrow> db \<Rightarrow> wait_row option" where
  "wait_for_session sid i db =
     List.find (\<lambda>w. w_session_id w = sid \<and> w_id w = i) (t_waits db)"

definition waits ::
    "session_id \<Rightarrow> wait_status option \<Rightarrow> int \<Rightarrow> db \<Rightarrow> store_error + wait_row list" where
  "waits sid status limit db =
     bindR (guardR (limit_ok limit) (InvalidInput ''limit must be between 1 and 1000'')) (\<lambda>_.
     Inr (top_desc (\<lambda>w. (w_created_at w, w_id w)) limit
       (filter (\<lambda>w. w_session_id w = sid
          \<and> (case status of None \<Rightarrow> True | Some st \<Rightarrow> w_status w = st)) (t_waits db))))"

text \<open>
  A page of at most \<open>limit\<close> rows in descending key order, read with one row to spare, and the
  cursor of its last row if there is more.
\<close>

definition page_of ::
    "('r \<Rightarrow> 'k::linorder) \<Rightarrow> 'k option \<Rightarrow> int \<Rightarrow> 'r list \<Rightarrow> 'r list \<times> 'k option" where
  "page_of key cursor limit rows =
     (let found = top_desc key (limit + 1)
            (filter (\<lambda>r. case cursor of None \<Rightarrow> True | Some c \<Rightarrow> key r < c) rows);
          page = take (nat limit) found in
      (page, if nat limit < length found then Some (key (last page)) else None))"

definition page_limit :: "int option \<Rightarrow> store_error + int" where
  "page_limit limit =
     (let n = (case limit of None \<Rightarrow> 50 | Some l \<Rightarrow> l) in
      bindR (guardR (1 \<le> n \<and> n \<le> 100) (InvalidInput ''limit must be between 1 and 100'')) (\<lambda>_.
      Inr n))"

definition list_waits ::
    "session_id \<Rightarrow> wait_status option \<Rightarrow> (time \<times> wait_id) option \<Rightarrow> int option \<Rightarrow> db
     \<Rightarrow> store_error + wait_row list \<times> (time \<times> wait_id) option" where
  "list_waits sid status cursor limit db =
     bindR (page_limit limit) (\<lambda>n.
     bindR (guardR (session_of db sid \<noteq> None) (SessionNotFound sid)) (\<lambda>_.
     Inr (page_of (\<lambda>w. (w_created_at w, w_id w)) cursor n
       (filter (\<lambda>w. w_session_id w = sid
          \<and> (case status of None \<Rightarrow> True | Some st \<Rightarrow> w_status w = st)) (t_waits db)))))"

record session_filter =
  sf_project_id :: "string option"
  sf_status :: "session_status option"
  sf_harness_id :: "string option"
  sf_cursor :: "(time \<times> session_id) option"
  sf_limit :: "int option"

definition list_sessions ::
    "session_filter \<Rightarrow> db
     \<Rightarrow> store_error + (session_row \<times> event_id option) list \<times> (time \<times> session_id) option" where
  "list_sessions f db =
     bindR (page_limit (sf_limit f)) (\<lambda>n.
     let (page, next) = page_of (\<lambda>s. (s_created_at s, s_id s)) (sf_cursor f) n
           (filter (\<lambda>s. (case sf_project_id f of None \<Rightarrow> True | Some p \<Rightarrow> s_project_id s = p)
              \<and> (case sf_status f of None \<Rightarrow> True | Some st \<Rightarrow> s_status s = st)
              \<and> (case sf_harness_id f of None \<Rightarrow> True | Some h \<Rightarrow> s_harness_id s = h))
             (t_sessions db)) in
     Inr (map (\<lambda>s. (s, blocked_event db (s_id s))) page, next))"

section \<open>Metrics\<close>

record metrics =
  om_active_handlers :: nat
  om_active_operation_claims :: nat
  om_pending_events :: nat
  om_blocked_events :: nat
  om_pending_operations :: nat
  om_submitting_operations :: nat
  om_accepted_operations :: nat
  om_overdue_waits :: nat
  om_cleanup_ready_requests :: nat
  om_removed_requests :: nat
  om_oldest_pending_event_age :: time

definition count_rows :: "('r \<Rightarrow> bool) \<Rightarrow> 'r list \<Rightarrow> nat" where
  "count_rows p rows = length (filter p rows)"

definition lease_active :: "uuid option \<Rightarrow> time option \<Rightarrow> time \<Rightarrow> bool" where
  "lease_active token expires now \<longleftrightarrow>
     token \<noteq> None \<and> (case expires of None \<Rightarrow> False | Some t \<Rightarrow> now < t)"

text \<open>All counts of one statement; the clock is read once for it. The age is in
  microseconds, where the source converts it to seconds.\<close>

definition operational_metrics :: "env \<Rightarrow> db \<Rightarrow> metrics" where
  "operational_metrics env db =
     (let now = env_clock env 0; pending = filter (\<lambda>e. e_status e = EvPending) (t_events db) in
      \<lparr>om_active_handlers =
         count_rows (\<lambda>s. lease_active (s_lease_token s) (s_lease_expires_at s) now) (t_sessions db),
       om_active_operation_claims =
         count_rows (\<lambda>r. lease_active (o_lease_token r) (o_lease_expires_at r) now) (t_operations db),
       om_pending_events = length pending,
       om_blocked_events = count_rows (\<lambda>e. e_status e = EvBlocked) (t_events db),
       om_pending_operations = count_rows (\<lambda>r. o_status r = OpPending) (t_operations db),
       om_submitting_operations = count_rows (\<lambda>r. o_status r = OpSubmitting) (t_operations db),
       om_accepted_operations = count_rows (\<lambda>r. o_status r = OpAccepted) (t_operations db),
       om_overdue_waits = count_rows (due_wait now) (t_waits db),
       om_cleanup_ready_requests = length (expired_requests_at now db),
       om_removed_requests = count_rows (\<lambda>r. o_request_removed_at r \<noteq> None) (t_operations db),
       om_oldest_pending_event_age =
         (if pending = [] then 0 else now - Min (set (map e_created_at pending)))\<rparr>)"

end
