(* ===== verification/Frames.thy ===== *)
theory Frames
  imports Inspection
begin

text \<open>
  What the operations of the store have in common: all of them but the commit of an outcome
  and the pruning of the update log leave a session's core (its identity, configuration,
  state, status and history counter) and its history alone. The locale states what an
  invariant must not depend on for this to be enough, and proves that each operation keeps it.
\<close>

definition session_core where
  "session_core s = (s_id s, s_project_id s, s_harness_id s, s_harness_version s,
     s_configuration s, s_status s, s_state s, s_state_version s, s_next_history_sequence s,
     s_retained_update_sequence s, s_created_at s)"

lemmas all_stmts =
  insert_event_Inr update_events_Inr insert_attempt_Inr update_attempts_Inr insert_history_Inr
  insert_operation_Inr update_operations_Inr insert_request_Inr update_requests_Inr
  delete_requests_Inr insert_op_attempt_Inr update_op_attempts_Inr insert_wait_Inr update_waits_Inr
  update_receipts_Inr insert_retry_Inr update_sessions_Inr

locale frame_invariant =
  fixes I :: "db \<Rightarrow> bool"
  assumes tables:
      "I (db\<lparr>t_events := es\<rparr>) = I db" "I (db\<lparr>t_attempts := ats\<rparr>) = I db"
      "I (db\<lparr>t_operations := os\<rparr>) = I db" "I (db\<lparr>t_requests := rs\<rparr>) = I db"
      "I (db\<lparr>t_op_attempts := oas\<rparr>) = I db" "I (db\<lparr>t_waits := ws\<rparr>) = I db"
      "I (db\<lparr>t_receipts := gs\<rparr>) = I db" "I (db\<lparr>t_retries := ps\<rparr>) = I db"
    and sessions: "t_sessions db = ss \<Longrightarrow> I db \<Longrightarrow> (\<And>s. session_core (f s) = session_core s) \<Longrightarrow>
      (\<And>s. s_next_update_sequence (f s) = s_next_update_sequence s) \<Longrightarrow>
      I (db\<lparr>t_sessions := row_update p f ss\<rparr>)"
    and emission: "emit_update_with_event env sid kind payload source db = Inr db' \<Longrightarrow>
      I db \<longrightarrow> I db'"
    and new_session: "I db \<Longrightarrow> n_id n \<notin> s_id ` set (t_sessions db) \<Longrightarrow>
      I (db\<lparr>t_sessions := t_sessions db @ [session_row_of env n]\<rparr>)"
begin

lemmas keep_simps = tables sessions session_core_def

lemma emission_plain: "emit_update env sid kind payload db = Inr db' \<Longrightarrow> I db \<longrightarrow> I db'"
  unfolding emit_update_def by (rule emission)

lemmas emits = emission emission_plain

lemma create_session_keeps:
  assumes "create_session env n db = Inr (r, db')" and "I db"
  shows "I db'"
  using create_session_effect [OF assms(1)] new_session [OF assms(2)] by simp

lemma patch_session_metadata_keeps:
  assumes "patch_session_metadata env i name metadata db = Inr (r, db')" and "I db"
  shows "I db'"
  using assms
  by (auto simp: patch_session_metadata_def result_simps keep_simps dest!: all_stmts emits)

lemma enqueue_keeps:
  assumes "enqueue_external_event env x db = Inr (res, db')" and "I db"
  shows "I db'"
  using assms
  by (auto simp: enqueue_external_event_def advance_event_sequence_def result_simps keep_simps Let_def
      dest!: all_stmts emits split: option.splits if_splits)

lemma retry_blocked_event_keeps:
  assumes "retry_blocked_event env sid eid revision key request reason db = Inr (res, db')"
    and "I db"
  shows "I db'"
  using assms
  by (auto simp: retry_blocked_event_def result_simps keep_simps Let_def
      dest!: all_stmts emits split: option.splits if_splits)

lemma claim_next_event_keeps:
  assumes "claim_next_event env lease_for db = Inr (res, db')" and "I db"
  shows "I db'"
  using assms
  by (auto simp: claim_next_event_def claim_event_at_def result_simps keep_simps Let_def
      dest!: all_stmts emits split: option.splits if_splits prod.splits)

lemma renew_event_claim_keeps:
  assumes "renew_event_claim env claim lease_for db = Inr db'" and "I db"
  shows "I db'"
  using assms by (auto simp: renew_event_claim_def result_simps keep_simps dest!: all_stmts)

lemma record_handler_failure_keeps:
  assumes "record_handler_failure env claim error retry_at blocked db = Inr db'"
    and "I db"
  shows "I db'"
  using assms
  by (cases blocked)
    (auto simp: record_handler_failure_def release_session_claim_def result_simps keep_simps Let_def
      dest!: all_stmts emits)

lemma abandon_handler_attempt_keeps:
  assumes "abandon_handler_attempt env claim error retry_at db = Inr db'" and "I db"
  shows "I db'"
  using assms
  by (auto simp: abandon_handler_attempt_def release_session_claim_def result_simps keep_simps
      dest!: all_stmts emits)

lemma resolve_wait_keeps:
  assumes "resolve_wait env wid key response db = Inr (res, db')" and "I db"
  shows "I db'"
  using assms
  by (auto simp: resolve_wait_def insert_wait_event_def advance_event_sequence_def result_simps
      keep_simps Let_def dest!: all_stmts emits split: if_splits)

lemma expire_wait_keeps:
  assumes "expire_wait env wid db = Inr (res, db')" and "I db"
  shows "I db'"
  using assms
  by (auto simp: expire_wait_def insert_wait_event_def advance_event_sequence_def result_simps
      keep_simps Let_def dest!: all_stmts emits split: if_splits)

text \<open>Gateway operations.\<close>

lemmas operation_log_stmts = all_stmts finish_operation_attempt_Inr emits

lemma claim_operation_keeps:
  assumes "claim_operation env phase lease_for db = Inr (res, db')" and "I db"
  shows "I db'"
  using assms
  by (auto simp: claim_operation_def claim_operation_at_def result_simps keep_simps Let_def
      dest!: operation_log_stmts split: option.splits if_splits)

lemma defer_operation_keeps:
  assumes "defer_operation env claim retry_at db = Inr db'" and "I db"
  shows "I db'"
  using assms by (auto simp: defer_operation_def result_simps keep_simps dest!: operation_log_stmts)

lemma record_operation_accepted_keeps:
  assumes "record_operation_accepted env claim job result_check_at http_status db = Inr db'"
    and "I db"
  shows "I db'"
  using assms
  by (auto simp: record_operation_accepted_def result_simps keep_simps dest!: operation_log_stmts)

lemma renew_operation_claim_keeps:
  assumes "renew_operation_claim env claim lease_for db = Inr db'" and "I db"
  shows "I db'"
  using renew_operation_claim_effect [OF assms(1)] assms(2) by (auto simp: keep_simps)

lemma record_operation_retry_keeps:
  assumes "record_operation_retry env claim uncertain retry_at http_status error db = Inr db'"
    and "I db"
  shows "I db'"
  using assms
  by (auto simp: record_operation_retry_def result_simps keep_simps dest!: operation_log_stmts)

lemma record_operation_pending_result_keeps:
  assumes "record_operation_pending_result env claim check_again_at http_status db = Inr db'"
    and "I db"
  shows "I db'"
  using assms
  by (auto simp: record_operation_pending_result_def result_simps keep_simps
      dest!: operation_log_stmts split: if_splits)

lemmas completion_log_stmts =
  operation_log_stmts insert_operation_event_Inr expire_request_Inr withdraw_target_Inr

lemma complete_operation_keeps:
  assumes "complete_operation_with_http_status env claim status result error expires http db
    = Inr (e, db')" and "I db"
  shows "I db'"
  using assms
  by (auto simp: complete_operation_with_http_status_def advance_event_sequence_def result_simps
      keep_simps dest!: completion_log_stmts)

lemma emit_all_keeps:
  assumes "foldR (\<lambda>x. emit_update env sid kind (payload x)) xs db = Inr db'"
  shows "I db \<longrightarrow> I db'"
proof
  assume "I db"
  then show "I db'"
    by (rule foldR_invariant [where P = "I", OF assms]) (blast dest: emits)
qed

lemma complete_withdrawal_keeps:
  assumes "complete_withdrawal env claim expires db = Inr (res, db')" and "I db"
  shows "I db'"
proof -
  obtain current target s where
    base: "lock_valid_operation_claim (env_clock env 0) claim db = Inr current"
      "session_of db (k_session claim) = Some s" "o_target (k_operation claim) = Some (o_id target)"
      "List.find (\<lambda>r. o_session_id r = k_session claim \<and> o_id r = o_id target)
        (t_operations db) = Some target"
    using assms by (auto simp: complete_withdrawal_def result_simps Let_def find_Some_iff)
  show ?thesis
  proof (cases "o_status target = OpPending \<and> o_lease_token target = None")
    case True
    then have t: "o_status target = OpPending" "o_lease_token target = None" by simp_all
    show ?thesis
      using assms base(2-) t
      by (auto simp: complete_withdrawal_def result_simps keep_simps Let_def
          simp del: foldR.simps dest!: completion_log_stmts emit_all_keeps)
  next
    case False
    show ?thesis
      using assms base(2-) False
      by (auto simp: complete_withdrawal_def result_simps keep_simps Let_def
          simp del: foldR.simps dest!: completion_log_stmts emit_all_keeps)
  qed
qed

text \<open>Callbacks and request retention.\<close>

lemma record_callback_receipt_keeps:
  assumes "record_callback_receipt env connection gateway_event job payload db = Inr (g, db')"
    and "I db"
  shows "I db'"
  using assms
  by (auto simp: record_callback_receipt_def result_simps keep_simps dest!: insert_receipt_Inr
      split: if_splits)

lemma claim_callback_receipt_keeps:
  assumes "claim_callback_receipt env lease_for db = Inr (res, db')" and "I db"
  shows "I db'"
  using assms
  by (auto simp: claim_callback_receipt_def result_simps keep_simps dest!: all_stmts
      split: option.splits)

lemma match_callback_receipt_keeps:
  assumes "match_callback_receipt env claim retry_at db = Inr (res, db')" and "I db"
  shows "I db'"
  using assms
  by (auto simp: match_callback_receipt_def result_simps keep_simps Let_def dest!: all_stmts)

lemma complete_callback_receipt_keeps:
  assumes "complete_callback_receipt env claim db = Inr db'" and "I db"
  shows "I db'"
  using assms
  by (auto simp: complete_callback_receipt_def result_simps keep_simps dest!: all_stmts)

lemma block_callback_receipt_keeps:
  assumes "block_callback_receipt env claim error db = Inr db'" and "I db"
  shows "I db'"
  using assms by (auto simp: block_callback_receipt_def result_simps keep_simps dest!: all_stmts)

lemma block_unmatched_callback_receipt_keeps:
  assumes "block_unmatched_callback_receipt i error db = Inr db'" and "I db"
  shows "I db'"
  using assms by (auto simp: block_unmatched_callback_receipt_def keep_simps dest!: all_stmts)

lemma renew_callback_receipt_claim_keeps:
  assumes "renew_callback_receipt_claim env claim lease_for db = Inr db'" and "I db"
  shows "I db'"
  using assms
  by (auto simp: renew_callback_receipt_claim_def result_simps keep_simps dest!: all_stmts)

lemma retry_callback_receipt_keeps:
  assumes "retry_callback_receipt env claim retry_at error db = Inr db'" and "I db"
  shows "I db'"
  using assms by (auto simp: retry_callback_receipt_def result_simps keep_simps dest!: all_stmts)

lemma remove_request_keeps:
  assumes "remove_request env now sid i db = Inr db'" and "I db"
  shows "I db'"
  using assms by (auto simp: remove_request_def result_simps keep_simps dest!: all_stmts emits)

lemma delete_expired_candidate_keeps:
  assumes "delete_expired_candidate env c db = Inr (gone, db')" and "I db"
  shows "I db'"
  using assms
  by (auto simp: delete_expired_candidate_def result_simps intro: remove_request_keeps
      split: if_splits)

lemma delete_expired_operation_request_keeps:
  assumes "delete_expired_operation_request env i db = Inr (gone, db')" and "I db"
  shows "I db'"
  using assms
  by (auto simp: delete_expired_operation_request_def result_simps Let_def
      intro: remove_request_keeps split: option.splits if_splits)

end

end
