(* ===== verification/Logs.thy ===== *)
theory Logs
  imports Frames
begin

text \<open>
  The update log and the conversation history as numbered logs: the entries of a session carry
  consecutive numbers that end just below the session's counter. Every operation of the store
  appends to them and never rewrites an entry; only \<open>prune_updates\<close> deletes, from the front of
  the update log.
\<close>

section \<open>The update log\<close>

definition log_ok :: "db \<Rightarrow> bool" where
  "log_ok db \<longleftrightarrow>
     distinct (map s_id (t_sessions db))
     \<and> list_all (\<lambda>u. u_session_id u \<in> s_id ` set (t_sessions db)) (t_updates db)
     \<and> list_all (\<lambda>s. numbered u_session_id u_sequence (t_updates db) (s_id s)
         (s_retained_update_sequence s) (s_next_update_sequence s)) (t_sessions db)"

definition next_update :: "db \<Rightarrow> session_id \<Rightarrow> int option" where
  "next_update db i = map_option s_next_update_sequence (session_of db i)"

definition retained_update :: "db \<Rightarrow> session_id \<Rightarrow> int" where
  "retained_update db i =
     (case session_of db i of None \<Rightarrow> 1 | Some s \<Rightarrow> s_retained_update_sequence s)"

definition append_update :: "update_row \<Rightarrow> db \<Rightarrow> db" where
  "append_update u db = db\<lparr>
     t_sessions := row_update (\<lambda>s. s_id s = u_session_id u)
       (\<lambda>s. s\<lparr>s_next_update_sequence := s_next_update_sequence s + 1\<rparr>) (t_sessions db),
     t_updates := t_updates db @ [u]\<rparr>"

lemma session_of_append_update:
  "session_of (append_update u db) i = (if i = u_session_id u
     then map_option (\<lambda>s. s\<lparr>s_next_update_sequence := s_next_update_sequence s + 1\<rparr>) (session_of db i)
     else session_of db i)"
  by (simp add: append_update_def session_of_def row_by_update_key)

interpretation update_log:
  numbered_log t_updates u_session_id u_sequence retained_update next_update append_update
proof
  fix u db k n
  show "t_updates (append_update u db) = t_updates db @ [u]" by (simp add: append_update_def)
  show "retained_update (append_update u db) k = retained_update db k"
    by (simp add: retained_update_def session_of_append_update split: option.splits)
  assume "next_update db k = Some n"
  then show "next_update (append_update u db) k = Some (if u_session_id u = k then n + 1 else n)"
    by (auto simp: next_update_def session_of_append_update)
qed

lemma log_ok_gap_free:
  assumes "log_ok db"
  shows "update_log.gap_free db k"
  unfolding update_log.gap_free_def next_update_def retained_update_def
  using assms session_of_Some [of db k] by (auto simp: log_ok_def list_all_iff)

lemma log_ok_session:
  "log_ok db \<Longrightarrow> session_of db i = Some s \<Longrightarrow>
     numbered u_session_id u_sequence (t_updates db) i
       (s_retained_update_sequence s) (s_next_update_sequence s)"
  using session_of_Some [of db i s] by (auto simp: log_ok_def list_all_iff)

text \<open>Emitting an update is appending one.\<close>

lemma emit_update_append:
  assumes "emit_update_with_event env sid kind payload source db = Inr db'"
  shows "\<exists>u. u_session_id u = sid \<and> u_kind u = kind \<and> u_payload u = payload
    \<and> u_source_event_id u = source
    \<and> next_update db sid = Some (u_sequence u) \<and> db' = append_update u db"
proof -
  obtain s db1 where s: "session_of db sid = Some s"
    and up: "update_sessions (\<lambda>r. s_id r = sid)
      (\<lambda>r. r\<lparr>s_next_update_sequence := s_next_update_sequence r + 1\<rparr>) db = Inr db1"
    and ins: "insert_update \<lparr>u_session_id = sid, u_sequence = s_next_update_sequence s, u_kind = kind,
       u_payload = payload, u_source_event_id = source,
       u_created_at = env_log_clock env (s_next_update_sequence s)\<rparr> db1 = Inr db'"
    using assms by (auto simp: emit_update_with_event_def result_simps)
  show ?thesis
    using update_sessions_Inr [OF up] insert_update_Inr [OF ins] s
    by (intro exI [of _ "\<lparr>u_session_id = sid, u_sequence = s_next_update_sequence s, u_kind = kind,
       u_payload = payload, u_source_event_id = source,
       u_created_at = env_log_clock env (s_next_update_sequence s)\<rparr>"])
      (simp add: append_update_def next_update_def)
qed

lemma append_update_log_ok:
  assumes ok: "log_ok db" and num: "next_update db (u_session_id u) = Some (u_sequence u)"
  shows "log_ok (append_update u db)"
proof -
  let ?db = "append_update u db"
  have ids: "map s_id (t_sessions ?db) = map s_id (t_sessions db)"
    by (simp add: append_update_def)
  then have idset: "s_id ` set (t_sessions ?db) = s_id ` set (t_sessions db)" by (metis set_map)
  obtain s where "session_of db (u_session_id u) = Some s"
    using num by (auto simp: next_update_def)
  then have owner: "u_session_id u \<in> s_id ` set (t_sessions db)"
    using session_of_Some [of db "u_session_id u" s] by (metis imageI)
  have "numbered u_session_id u_sequence (t_updates ?db) (s_id s)
      (s_retained_update_sequence s) (s_next_update_sequence s)"
    if "s \<in> set (t_sessions ?db)" for s
  proof -
    have sof: "session_of ?db (s_id s) = Some s"
      using row_by_distinct [of s_id "t_sessions ?db" s] that ids ok
      by (simp add: session_of_def log_ok_def)
    obtain n where "next_update db (s_id s) = Some n"
      using sof by (auto simp: session_of_append_update next_update_def split: if_splits)
    then have "update_log.gap_free ?db (s_id s)"
      using update_log.append_gap_free [OF log_ok_gap_free [OF ok]] num by blast
    then show ?thesis
      using sof by (simp add: update_log.gap_free_def next_update_def retained_update_def)
  qed
  then show ?thesis
    using ok ids idset owner by (simp add: log_ok_def list_all_iff append_update_def)
qed

section \<open>Operations only append to the log\<close>

text \<open>The log is sound and has grown from \<open>us\<close>.\<close>

definition log_from :: "update_row list \<Rightarrow> db \<Rightarrow> bool" where
  "log_from us db \<longleftrightarrow> log_ok db \<and> (\<exists>vs. t_updates db = us @ vs)"

named_theorems log_simps "changes the update log does not see"

lemma log_from_frame [log_simps]:
  "log_from us (db\<lparr>t_events := es\<rparr>) = log_from us db"
  "log_from us (db\<lparr>t_attempts := ats\<rparr>) = log_from us db"
  "log_from us (db\<lparr>t_history := hs\<rparr>) = log_from us db"
  "log_from us (db\<lparr>t_operations := os\<rparr>) = log_from us db"
  "log_from us (db\<lparr>t_requests := rs\<rparr>) = log_from us db"
  "log_from us (db\<lparr>t_op_attempts := oas\<rparr>) = log_from us db"
  "log_from us (db\<lparr>t_waits := ws\<rparr>) = log_from us db"
  "log_from us (db\<lparr>t_receipts := gs\<rparr>) = log_from us db"
  "log_from us (db\<lparr>t_retries := ps\<rparr>) = log_from us db"
  by (simp_all add: log_from_def log_ok_def)

lemma log_ok_sessions_cong:
  assumes "log_ok db"
    and "map (\<lambda>s. (s_id s, s_retained_update_sequence s, s_next_update_sequence s)) ss
       = map (\<lambda>s. (s_id s, s_retained_update_sequence s, s_next_update_sequence s)) (t_sessions db)"
  shows "log_ok (db\<lparr>t_sessions := ss\<rparr>)"
proof -
  let ?c = "\<lambda>s. (s_id s, s_retained_update_sequence s, s_next_update_sequence s)"
  have ids: "map s_id ss = map s_id (t_sessions db)"
    using arg_cong [OF assms(2), of "map fst"] by (simp add: comp_def)
  have "numbered u_session_id u_sequence (t_updates db) (s_id s)
      (s_retained_update_sequence s) (s_next_update_sequence s)" if "s \<in> set ss" for s
  proof -
    have "?c s \<in> set (map ?c ss)" using that by simp
    then have "?c s \<in> set (map ?c (t_sessions db))" by (simp only: assms(2))
    then obtain q where "q \<in> set (t_sessions db)" "?c s = ?c q" by auto
    then show ?thesis using assms(1) by (simp add: log_ok_def list_all_iff)
  qed
  moreover have "s_id ` set ss = s_id ` set (t_sessions db)" using ids by (metis set_map)
  ultimately show ?thesis using assms(1) ids by (simp add: log_ok_def list_all_iff)
qed

lemma log_from_sessions [log_simps]:
  assumes "t_sessions db = ss" and "log_from us db" and "\<And>s. s_id (f s) = s_id s"
    and "\<And>s. s_retained_update_sequence (f s) = s_retained_update_sequence s"
    and "\<And>s. s_next_update_sequence (f s) = s_next_update_sequence s"
  shows "log_from us (db\<lparr>t_sessions := row_update p f ss\<rparr>)"
  using assms by (auto simp: log_from_def intro!: log_ok_sessions_cong)

lemma emit_update_log:
  assumes "emit_update_with_event env sid kind payload source db = Inr db'"
  shows "\<forall>us. log_from us db \<longrightarrow> log_from us db'"
  using emit_update_append [OF assms] append_update_log_ok
  by (fastforce simp: log_from_def append_update_def)

lemmas emit_log = emit_update_log emit_update_log [where source = None, folded emit_update_def]

lemma new_session_log:
  assumes "log_from us db" and "n_id n \<notin> s_id ` set (t_sessions db)"
  shows "log_from us (db\<lparr>t_sessions := t_sessions db @ [session_row_of env n]\<rparr>)"
proof -
  have "u_session_id u \<noteq> n_id n" if "u \<in> set (t_updates db)" for u
  proof -
    have "u_session_id u \<in> s_id ` set (t_sessions db)"
      using that assms(1) by (simp add: log_from_def log_ok_def list_all_iff)
    with assms(2) show ?thesis by auto
  qed
  then have "filter (\<lambda>u. u_session_id u = n_id n) (t_updates db) = []"
    by (simp add: filter_empty_conv)
  then have "numbered u_session_id u_sequence (t_updates db) (n_id n) 1 1"
    by (simp add: numbered_def)
  with assms show ?thesis
    by (auto simp: log_from_def log_ok_def list_all_iff session_row_of_def)
qed

interpretation log_frame: frame_invariant "log_from us" for us
proof
  fix db ss p and f :: "session_row \<Rightarrow> session_row"
  assume "t_sessions db = ss" "log_from us db" "\<And>s. session_core (f s) = session_core s"
    "\<And>s. s_next_update_sequence (f s) = s_next_update_sequence s"
  then show "log_from us (db\<lparr>t_sessions := row_update p f ss\<rparr>)"
    by (intro log_from_sessions) (simp_all add: session_core_def)
qed (use emit_update_log new_session_log in \<open>auto simp: log_simps\<close>)

section \<open>Committing an outcome and the log\<close>

lemma commit_operation_log:
  assumes "commit_operation env claim n db = Inr db'" and "log_from us db"
  shows "log_from us db'"
  using assms by (auto simp: commit_operation_def result_simps log_simps dest!: all_stmts emit_log)

lemma commit_wait_log:
  assumes "commit_wait env claim n db = Inr db'" and "log_from us db"
  shows "log_from us db'"
  using assms by (auto simp: commit_wait_def result_simps log_simps dest!: all_stmts emit_log)

lemma commit_cancelled_wait_log:
  assumes "commit_cancelled_wait env claim wid st = Inr st'" and "log_from us (snd (snd st))"
  shows "log_from us (snd (snd st'))"
  using assms
  by (cases st; cases st')
    (auto simp: commit_cancelled_wait_def insert_wait_event_def result_simps log_simps Let_def
      dest!: all_stmts emit_log split: if_splits)

lemma commit_effects_log:
  assumes "commit_effects env claim oc seq db = Inr (hseq, eseq, db')" and "log_from us db"
  shows "log_from us db'"
proof -
  let ?sid = "c_session_id claim"
  obtain db1 db2 db3 db4 db5 n m where
    hist: "commit_history env claim (oc_history oc) seq db = Inr (hseq, db1)"
    and em: "(if oc_history oc \<noteq> []
             then emit_update env ?sid HistoryAppended
                    (HistoryRange (hseq - int (length (oc_history oc))) (hseq - 1)
                       (c_event_id claim)) db1
             else Inr db1) = Inr db2"
    and ops: "foldR (commit_operation env claim) (oc_operations oc) db2 = Inr db3"
    and wts: "foldR (commit_wait env claim) (oc_waits oc) db3 = Inr db4"
    and can: "foldR (commit_cancelled_wait env claim) (oc_cancelled_waits oc)
        (m, 0, db4) = Inr (eseq, n, db5)"
    and prog: "foldR (commit_progress env claim) (oc_progress oc) db5 = Inr db'"
    using assms(1) by (auto simp: commit_effects_def Let_def result_simps)
  have "log_from us db1" using commit_history_effect [OF hist] assms(2) by (simp add: log_simps)
  then have "log_from us db2" using em by (auto dest: emit_log split: if_splits)
  then have "log_from us db3"
    by (rule foldR_invariant [where P = "log_from us", OF ops]) (rule commit_operation_log)
  then have "log_from us db4"
    by (rule foldR_invariant [where P = "log_from us", OF wts]) (rule commit_wait_log)
  then have "log_from us (snd (snd (m, 0 :: nat, db4)))" by simp
  then have "log_from us (snd (snd (eseq, n, db5)))"
    by (rule foldR_invariant [where P = "\<lambda>st. log_from us (snd (snd st))", OF can])
      (rule commit_cancelled_wait_log)
  then have "log_from us db5" by simp
  then show ?thesis
    by (rule foldR_invariant [where P = "log_from us", OF prog])
      (auto simp: commit_progress_def dest: emit_log)
qed

lemma commit_body_log:
  assumes "commit_body env claim oc db = Inr db'" and "log_from us db"
  shows "log_from us db'"
proof -
  obtain hseq hseq' eseq mid where
    eff: "commit_effects env claim oc hseq db = Inr (hseq', eseq, mid)"
    and rest: "log_from us mid \<longrightarrow> log_from us db'"
    using assms(1)
    by (auto simp: commit_body_def Let_def result_simps log_simps dest!: all_stmts emit_log)
  show ?thesis using commit_effects_log [OF eff assms(2)] rest by blast
qed

section \<open>Pruning the log\<close>

lemma prune_session_log:
  assumes "prune_session env before i db = Inr (n, db')" and ok: "log_ok db"
  shows "log_ok db'"
proof (cases "db' = db")
  case True
  with ok show ?thesis by simp
next
  case False
  define old where "old = top_by u_sequence 1000
      (filter (\<lambda>u. u_session_id u = i \<and> u_created_at u < before) (t_updates db))"
  define m where "m = last (map u_sequence old)"
  have ne: "old \<noteq> []" and some: "session_of db i \<noteq> None"
    and db': "db' = db\<lparr>
      t_updates := filter (\<lambda>u. \<not> (u_session_id u = i \<and> u_sequence u \<le> m)) (t_updates db),
      t_sessions := row_update (\<lambda>s. s_id s = i) (\<lambda>s. s\<lparr>s_retained_update_sequence :=
        max (s_retained_update_sequence s) (m + 1)\<rparr>) (t_sessions db)\<rparr>"
    using assms(1) False
    by (auto simp: prune_session_def Let_def result_simps old_def m_def
        dest!: delete_updates_Inr update_sessions_Inr split: if_splits)
  obtain s where s: "session_of db i = Some s" using some by auto
  note num = log_ok_session [OF ok s]
  have "m \<in> set (map u_sequence old)" unfolding m_def by (rule last_in_set) (simp add: ne)
  then have "m \<in> set (map u_sequence (filter (\<lambda>u. u_session_id u = i) (t_updates db)))"
    using set_top_by [of u_sequence 1000
        "filter (\<lambda>u. u_session_id u = i \<and> u_created_at u < before) (t_updates db)"]
    by (auto simp: old_def)
  then have "m \<in> set [s_retained_update_sequence s..s_next_update_sequence s - 1]"
    using num unfolding numbered_def by (metis)
  then have less: "m < s_next_update_sequence s" by simp
  have ids: "map s_id (t_sessions db') = map s_id (t_sessions db)" by (simp add: db')
  then have idset: "s_id ` set (t_sessions db') = s_id ` set (t_sessions db)" by (metis set_map)
  have "numbered u_session_id u_sequence (t_updates db') (s_id q)
      (s_retained_update_sequence q) (s_next_update_sequence q)"
    if "q \<in> set (t_sessions db')" for q
  proof -
    from that obtain r where r: "r \<in> set (t_sessions db)"
      and q: "q = (if s_id r = i then r\<lparr>s_retained_update_sequence :=
        max (s_retained_update_sequence r) (m + 1)\<rparr> else r)"
      by (auto simp: db' set_row_update)
    have rn: "numbered u_session_id u_sequence (t_updates db) (s_id r)
        (s_retained_update_sequence r) (s_next_update_sequence r)"
      using ok r by (simp add: log_ok_def list_all_iff)
    show ?thesis
    proof (cases "s_id r = i")
      case True
      have "r = s"
        using distinct_keyD [of s_id "t_sessions db" r s] ok r True session_of_Some [OF s]
        by (simp add: log_ok_def)
      then show ?thesis using numbered_prune [OF num less] q True by (simp add: db')
    next
      case False
      then show ?thesis using numbered_prune_other [OF rn False] q by (simp add: db')
    qed
  qed
  then show ?thesis
    using ok ids idset by (auto simp: log_ok_def list_all_iff db')
qed

section \<open>The conversation history\<close>

definition history_ok :: "db \<Rightarrow> bool" where
  "history_ok db \<longleftrightarrow>
     distinct (map s_id (t_sessions db))
     \<and> list_all (\<lambda>h. h_session_id h \<in> s_id ` set (t_sessions db)) (t_history db)
     \<and> list_all (\<lambda>s. numbered h_session_id h_sequence (t_history db) (s_id s) 1
         (s_next_history_sequence s)) (t_sessions db)"

definition history_from :: "history_row list \<Rightarrow> db \<Rightarrow> bool" where
  "history_from hs db \<longleftrightarrow> history_ok db \<and> (\<exists>new. t_history db = hs @ new)"

lemma history_ok_cong:
  assumes "history_ok db" and "t_history db' = t_history db"
    and "map (\<lambda>s. (s_id s, s_next_history_sequence s)) (t_sessions db')
       = map (\<lambda>s. (s_id s, s_next_history_sequence s)) (t_sessions db)"
  shows "history_ok db'"
proof -
  let ?c = "\<lambda>s. (s_id s, s_next_history_sequence s)"
  have ids: "map s_id (t_sessions db') = map s_id (t_sessions db)"
    using arg_cong [OF assms(3), of "map fst"] by (simp add: comp_def)
  have "numbered h_session_id h_sequence (t_history db') (s_id s) 1 (s_next_history_sequence s)"
    if "s \<in> set (t_sessions db')" for s
  proof -
    have "?c s \<in> set (map ?c (t_sessions db'))" using that by simp
    then have "?c s \<in> set (map ?c (t_sessions db))" by (simp only: assms(3))
    then obtain q where "q \<in> set (t_sessions db)" "?c s = ?c q" by auto
    then show ?thesis using assms(1,2) by (simp add: history_ok_def list_all_iff)
  qed
  moreover have "s_id ` set (t_sessions db') = s_id ` set (t_sessions db)" using ids by (metis set_map)
  ultimately show ?thesis using assms(1,2) ids by (simp add: history_ok_def list_all_iff)
qed

lemma emit_update_history:
  assumes "emit_update_with_event env sid kind payload source db = Inr db'" and "history_from hs db"
  shows "history_from hs db'"
  using emit_update_append [OF assms(1)] assms(2)
  by (auto simp: history_from_def append_update_def intro!: history_ok_cong [of db])

lemma new_session_history:
  assumes "history_from hs db" and "n_id n \<notin> s_id ` set (t_sessions db)"
  shows "history_from hs (db\<lparr>t_sessions := t_sessions db @ [session_row_of env n]\<rparr>)"
proof -
  have "h_session_id h \<noteq> n_id n" if "h \<in> set (t_history db)" for h
  proof -
    have "h_session_id h \<in> s_id ` set (t_sessions db)"
      using that assms(1) by (simp add: history_from_def history_ok_def list_all_iff)
    with assms(2) show ?thesis by auto
  qed
  then have "filter (\<lambda>h. h_session_id h = n_id n) (t_history db) = []"
    by (simp add: filter_empty_conv)
  then have "numbered h_session_id h_sequence (t_history db) (n_id n) 1 1"
    by (simp add: numbered_def)
  with assms show ?thesis
    by (auto simp: history_from_def history_ok_def list_all_iff session_row_of_def)
qed

interpretation history_frame: frame_invariant "history_from hs" for hs
proof
  fix db ss p and f :: "session_row \<Rightarrow> session_row"
  assume "t_sessions db = ss" "history_from hs db" "\<And>s. session_core (f s) = session_core s"
    "\<And>s. s_next_update_sequence (f s) = s_next_update_sequence s"
  then show "history_from hs (db\<lparr>t_sessions := row_update p f ss\<rparr>)"
    by (auto simp: history_from_def session_core_def intro!: history_ok_cong [of db])
next
  fix env db and n :: new_session
  assume "history_from hs db" "n_id n \<notin> s_id ` set (t_sessions db)"
  then show "history_from hs (db\<lparr>t_sessions := t_sessions db @ [session_row_of env n]\<rparr>)"
    by (rule new_session_history)
qed (auto simp: history_from_def history_ok_def
    dest: emit_update_history [unfolded history_from_def history_ok_def])

lemma commit_body_history:
  assumes "commit_body env claim oc db = Inr db'" and grown: "history_from hs db"
  shows "history_from hs db'"
proof -
  let ?sid = "c_session_id claim"
  obtain s es where step: "commit_step env claim oc s es db db'"
    using commit_body_effect [OF assms(1)] by blast
  note T = commit_step_tables [OF step] and D = commit_stepD [OF step]
  let ?n = "s_next_history_sequence s + int (length (oc_history oc))"
  let ?new = "history_rows env claim (oc_history oc) (s_next_history_sequence s)"
  note rows = history_rows_numbers [OF D(6)]
  have ok: "history_ok db" using grown by (simp add: history_from_def)
  have sess: "s \<in> set (t_sessions db)" "s_id s = ?sid" using session_of_Some [OF D(2)] by simp_all
  have "map s_id (t_sessions (strip db')) = map s_id (t_sessions (strip db))"
    unfolding T(2) by (rule map_row_update_same) (simp add: committed_session_def)
  then have ids: "map s_id (t_sessions db') = map s_id (t_sessions db)" by simp
  then have idset: "s_id ` set (t_sessions db') = s_id ` set (t_sessions db)" by (metis set_map)
  have own: "filter (\<lambda>h. h_session_id h = k) ?new = (if k = ?sid then ?new else [])" for k
    using rows by (auto simp: list_all_iff intro: filter_True filter_False)
  have "numbered h_session_id h_sequence (t_history db') (s_id q) 1 (s_next_history_sequence q)"
    if "q \<in> set (t_sessions db')" for q
  proof -
    have "strip_session q \<in> set (t_sessions (strip db'))" using that by simp
    then obtain r where r: "r \<in> set (t_sessions db)"
      and q: "strip_session q = (if s_id r = ?sid
        then committed_session env oc ?n (s_next_event_sequence s + int (length es)) (strip_session r)
        else strip_session r)"
      unfolding T(2) set_row_update by auto
    have rn: "numbered h_session_id h_sequence (t_history db) (s_id r) 1 (s_next_history_sequence r)"
      using ok r by (simp add: history_ok_def list_all_iff)
    show ?thesis
    proof (cases "s_id r = ?sid")
      case True
      then have "r = s"
        using distinct_keyD [of s_id "t_sessions db" r s] ok r sess by (simp add: history_ok_def)
      have q1: "strip_session q = committed_session env oc ?n
          (s_next_event_sequence s + int (length es)) (strip_session r)"
        using q True by simp
      have "s_id (strip_session q) = ?sid \<and> s_next_history_sequence (strip_session q) = ?n"
        unfolding q1 using True by (simp add: committed_session_def)
      then have q': "s_id q = ?sid" "s_next_history_sequence q = ?n" by simp_all
      have old: "1 \<le> s_next_history_sequence s"
        "map h_sequence (filter (\<lambda>h. h_session_id h = ?sid) (t_history db))
          = [1..s_next_history_sequence s - 1]"
        using rn \<open>r = s\<close> sess by (simp_all add: numbered_def)
      have "map h_sequence (filter (\<lambda>h. h_session_id h = ?sid) (t_history db'))
          = [1..s_next_history_sequence s - 1] @ [s_next_history_sequence s..?n - 1]"
        using old(2) rows own [of ?sid] by (simp add: T(3))
      also have "\<dots> = [1..?n - 1]" by (rule upto_concat) (use old(1) in simp_all)
      finally show ?thesis using q' old(1) by (simp add: numbered_def)
    next
      case False
      then have q1: "strip_session q = strip_session r" using q by simp
      have "s_id (strip_session q) = s_id r
          \<and> s_next_history_sequence (strip_session q) = s_next_history_sequence r"
        unfolding q1 by simp
      then have "s_id q = s_id r" "s_next_history_sequence q = s_next_history_sequence r"
        by simp_all
      then show ?thesis using rn own False by (simp add: numbered_def T(3))
    qed
  qed
  moreover have "?sid \<in> s_id ` set (t_sessions db)" using sess by force
  then have "h_session_id h \<in> s_id ` set (t_sessions db')" if "h \<in> set (t_history db')" for h
    using that ok rows idset by (auto simp: T(3) history_ok_def list_all_iff)
  ultimately have "history_ok db'" using ok ids by (simp add: history_ok_def list_all_iff)
  with grown show ?thesis by (auto simp: history_from_def T(3))
qed

end
