(* ===== verification/Ledgers.thy ===== *)
theory Ledgers
  imports Logs
begin

text \<open>
  Every operation of the store runs both ledgers, the one of gateway operations and the one of
  waits, and keeps the inbox invariant: the components' lemmas, completed by the frame each
  operation has on the other component's tables. Callback and retention operations are here as
  a whole, since they touch neither the inbox nor any outcome.
\<close>

definition ledgers :: "db \<Rightarrow> db \<Rightarrow> bool" where
  "ledgers db db' \<longleftrightarrow> op_ledger db db' \<and> wait_ledger db db'"

lemma ledgers_refl [simp]: "ledgers db db"
  by (simp add: ledgers_def)

lemma ledgers_trans: "ledgers a b \<Longrightarrow> ledgers b c \<Longrightarrow> ledgers a c"
  by (auto simp: ledgers_def intro: rtranclp_trans)

lemma ledgers_mark:
  assumes "t_operations db' = t_operations db" and "t_waits db' = t_waits db"
    and "map e_operation_id (t_events db') = map e_operation_id (t_events db)"
    and "map e_wait_id (t_events db') = map e_wait_id (t_events db)"
  shows "ledgers db db'"
  using assms by (auto simp: ledgers_def intro: ledger_markI)

lemma ledgers_input:
  assumes "t_operations db' = t_operations db" and "t_waits db' = t_waits db"
    and "t_events db' = t_events db @ [e]" and "e_operation_id e = None" and "e_wait_id e = None"
  shows "ledgers db db'"
  using assms by (auto simp: ledgers_def intro: ledger_otherI)

lemma wait_ledger_idle:
  assumes "t_waits db' = t_waits db" and "t_events db' = t_events db @ es"
    and "list_all (\<lambda>e. e_wait_id e = None) es"
  shows "wait_ledger db db'"
  using assms by (simp add: ledger_others)

lemma op_ledger_idle:
  assumes "t_operations db' = t_operations db" and "t_events db' = t_events db @ es"
    and "list_all (\<lambda>e. e_operation_id e = None) es"
  shows "op_ledger db db'"
  using assms by (simp add: ledger_others)

section \<open>Sessions and the inbox\<close>

lemma create_session_ledgers:
  "create_session env n db = Inr (r, db') \<Longrightarrow> ledgers db db'"
  by (rule ledgers_mark) (auto dest: create_session_effect)

lemma patch_session_metadata_ledgers:
  "patch_session_metadata env i name metadata db = Inr (r, db') \<Longrightarrow> ledgers db db'"
  by (rule ledgers_mark) (auto dest!: patch_session_metadata_effect strip_eqD)

lemma enqueue_ledgers:
  assumes "enqueue_external_event env x db = Inr (res, db')"
  shows "ledgers db db'"
  using enqueue_effect [OF assms]
proof (elim disjE exE conjE)
  fix s e
  assume e: "e = new_event env (env_uuid env 0) (x_session_id x) (s_next_event_sequence s)
          (x_type x) (RawPayload (x_payload x)) None None (x_key x)
          (map_option (\<lambda>_. fingerprint env (x_payload x)) (x_key x))"
    and "strip db' = strip db\<lparr>t_events := t_events db @ [e],
        t_sessions := row_update (\<lambda>s. s_id s = x_session_id x)
          (\<lambda>s. s\<lparr>s_next_event_sequence := s_next_event_sequence s + 1,
                 s_updated_at := env_now env\<rparr>) (t_sessions (strip db))\<rparr>"
  from strip_eqD [OF this(2)] e show ?thesis
    by (intro ledgers_input [where e = e]) (auto simp: new_event_def)
qed simp

lemma retry_blocked_event_ledgers:
  assumes "retry_blocked_event env sid eid revision key request reason db = Inr (res, db')"
  shows "ledgers db db'"
proof (cases "retry_row_of db sid key")
  case (Some p)
  with assms show ?thesis by (simp add: retry_blocked_event_replay)
next
  case None
  show ?thesis
    using retry_blocked_event_effect [OF assms None]
    by (intro ledgers_mark) (auto dest!: strip_eqD)
qed

lemma claim_next_event_ledgers:
  assumes "claim_next_event env lease_for db = Inr (res, db')"
  shows "ledgers db db'"
proof (cases "claim_candidate env db")
  case None
  with assms show ?thesis by (simp add: claim_next_event_def)
next
  case (Some c)
  then obtain sid eid ce where "claim_event_at env lease_for sid eid db = Inr (ce, db')"
    using assms by (auto simp: claim_next_event_def result_simps split: prod.splits)
  from claim_event_at_effect [OF this] show ?thesis
    by (intro ledgers_mark) (auto dest!: strip_eqD)
qed

lemma renew_event_claim_ledgers:
  "renew_event_claim env claim lease_for db = Inr db' \<Longrightarrow> ledgers db db'"
  by (rule ledgers_mark) (auto dest!: renew_event_claim_effect)

lemma record_handler_failure_ledgers:
  "record_handler_failure env claim error retry_at blocked db = Inr db' \<Longrightarrow> ledgers db db'"
  by (rule ledgers_mark) (auto dest!: record_handler_failure_effect strip_eqD)

lemma abandon_handler_attempt_ledgers:
  "abandon_handler_attempt env claim error retry_at db = Inr db' \<Longrightarrow> ledgers db db'"
  by (rule ledgers_mark) (auto dest!: abandon_handler_attempt_effect strip_eqD)

lemma commit_body_both:
  "commit_body env claim oc db = Inr db' \<Longrightarrow> ledgers db db'"
  by (simp add: ledgers_def commit_body_ledgers)

section \<open>Waits\<close>

lemma resolve_wait_ledgers:
  assumes "resolve_wait env wid key response db = Inr (res, db')"
  shows "ledgers db db'"
proof -
  have "\<exists>es. t_operations db' = t_operations db \<and> t_events db' = t_events db @ es
      \<and> list_all (\<lambda>e. e_operation_id e = None) es"
    using resolve_wait_effect [OF assms]
    by (elim disjE exE conjE) (auto simp: appended_event_def dest!: strip_eqD)
  then show ?thesis
    using resolve_wait_ledger [OF assms] op_ledger_idle by (auto simp: ledgers_def)
qed

lemma expire_wait_ledgers:
  assumes "expire_wait env wid db = Inr (res, db')"
  shows "ledgers db db'"
proof -
  have "\<exists>es. t_operations db' = t_operations db \<and> t_events db' = t_events db @ es
      \<and> list_all (\<lambda>e. e_operation_id e = None) es"
    using expire_wait_effect [OF assms]
    by (elim disjE exE conjE) (auto simp: appended_event_def dest!: strip_eqD)
  then show ?thesis
    using expire_wait_ledger [OF assms] op_ledger_idle by (auto simp: ledgers_def)
qed

section \<open>Gateway operations\<close>

lemma claim_step_ledgers:
  assumes "distinct (map o_id (t_operations db))" and step: "claim_step env claim f g current db db'"
    and "\<And>q. o_id (f q) = o_id q" and "op_final (f current) = op_final current"
  shows "ledgers db db'"
  using claim_step_ledger [OF assms] step
  by (auto simp: ledgers_def claim_step_def dest!: strip_eqD)

lemma defer_operation_ledgers:
  assumes "defer_operation env claim retry_at db = Inr db'" and "distinct (map o_id (t_operations db))"
  shows "ledgers db db'"
  using defer_operation_effect [OF assms(1)]
  by (elim exE conjE) (erule claim_step_ledgers [OF assms(2)], simp_all add: op_final_def)

lemma record_operation_accepted_ledgers:
  assumes "record_operation_accepted env claim job result_check_at http_status db = Inr db'"
    and "distinct (map o_id (t_operations db))"
  shows "ledgers db db'"
  using record_operation_accepted_effect [OF assms(1)]
  by (elim exE conjE) (erule claim_step_ledgers [OF assms(2)], simp_all add: op_final_def)

lemma retry_status_open:
  "retry_status phase status uncertain = Some status' \<Longrightarrow>
     \<not> op_terminal status \<and> \<not> op_terminal status'"
  by (auto simp: retry_status_def split: if_splits)

lemma record_operation_retry_ledgers:
  assumes "record_operation_retry env claim uncertain retry_at http_status error db = Inr db'"
    and "distinct (map o_id (t_operations db))"
  shows "ledgers db db'"
  using record_operation_retry_effect [OF assms(1)]
  by (elim exE conjE) (erule claim_step_ledgers [OF assms(2)],
      auto simp: op_final_def dest: retry_status_open)

lemma record_operation_pending_result_ledgers:
  assumes "record_operation_pending_result env claim check_again_at http_status db = Inr db'"
    and "distinct (map o_id (t_operations db))"
  shows "ledgers db db'"
  using record_operation_pending_result_effect [OF assms(1)]
  by (elim exE conjE) (erule claim_step_ledgers [OF assms(2)], simp_all add: op_final_def)

lemma claim_operation_ledgers:
  assumes "claim_operation env phase lease_for db = Inr (res, db')"
  shows "ledgers db db'"
proof -
  have "t_waits db' = t_waits db \<and> t_events db' = t_events db"
    using claim_operation_cases [OF assms]
    by (elim disjE exE conjE)
      (auto simp: claimed_db_def dest!: claim_operation_at_effect(1) strip_eqD)
  then show ?thesis using claim_operation_ledger [OF assms] by (simp add: ledgers_def)
qed

lemma renew_operation_claim_ledgers:
  "renew_operation_claim env claim lease_for db = Inr db' \<Longrightarrow> ledgers db db'"
  using renew_operation_claim_ledger renew_operation_claim_effect
  by (fastforce simp: ledgers_def)

lemma complete_operation_ledgers:
  assumes "complete_operation_with_http_status env claim status result error expires http db
    = Inr (e, db')"
  shows "ledgers db db'"
proof -
  have "t_waits db' = t_waits db \<and> t_events db' = t_events db @ [e] \<and> e_wait_id e = None"
    using complete_operation_effect [OF assms]
    by (elim exE conjE) (auto simp: appended_event_def dest!: strip_eqD)
  then show ?thesis
    using complete_operation_ledger [OF assms] wait_ledger_idle [of db' db "[e]"]
    by (simp add: ledgers_def)
qed

lemma complete_withdrawal_ledgers:
  assumes "complete_withdrawal env claim expires db = Inr (res, db')"
    and "distinct (map o_id (t_operations db))"
  shows "ledgers db db'"
proof -
  obtain current target s
    where step: "withdrawal_step env claim expires current target s res db db'"
    using complete_withdrawal_effect [OF assms(1)] by blast
  note D = withdrawal_stepD [OF step]
  have "list_all (\<lambda>e. e_wait_id e = None) (snd res)"
    unfolding D(5) by (simp add: withdrawal_events_def)
  then show ?thesis
    using complete_withdrawal_ledger [OF assms] wait_ledger_idle [OF D(11,9)]
    by (simp add: ledgers_def)
qed

section \<open>Callbacks and retention\<close>

text \<open>They change receipts, request bodies, and the schedule and bookkeeping columns of
  operations.\<close>

definition side_step :: "db \<Rightarrow> db \<Rightarrow> bool" where
  "side_step db db' \<longleftrightarrow>
     (\<exists>p f rs gs. (\<forall>r. o_id (f r) = o_id r \<and> o_status (f r) = o_status r)
       \<and> strip db' = strip db\<lparr>t_operations := row_update p f (t_operations db),
           t_requests := rs, t_receipts := gs\<rparr>)"

lemma side_stepI:
  assumes "strip db' = strip db\<lparr>t_operations := row_update p f (t_operations db),
           t_requests := rs, t_receipts := gs\<rparr>"
    and "\<And>r. o_id (f r) = o_id r" and "\<And>r. o_status (f r) = o_status r"
  shows "side_step db db'"
  using assms unfolding side_step_def by blast

lemma row_update_never [simp]: "row_update (\<lambda>_. False) f rows = rows"
  by (rule row_update_idle) simp

lemma side_step_receipts:
  "db' = db\<lparr>t_receipts := gs\<rparr> \<Longrightarrow> side_step db db'"
  by (rule side_stepI [where p = "\<lambda>_. False" and f = "\<lambda>r. r" and rs = "t_requests db" and gs = gs])
    (auto intro: strip_eqI)

lemma side_step_ledgers:
  assumes "side_step db db'"
  shows "ledgers db db'"
proof -
  obtain p f rs gs where f: "\<And>r. o_id (f r) = o_id r" "\<And>r. o_status (f r) = o_status r"
    and eq: "strip db' = strip db\<lparr>t_operations := row_update p f (t_operations db),
           t_requests := rs, t_receipts := gs\<rparr>"
    using assms unfolding side_step_def by blast
  have "op_ledger db db'"
    by (rule ledger_touchI [where p = p and f = f])
      (use f strip_eqD [OF eq] in \<open>simp_all add: op_final_def\<close>)
  then show ?thesis using strip_eqD [OF eq] by (simp add: ledgers_def)
qed

lemma side_step_inbox:
  assumes "side_step db db'" and "inbox_ok db"
  shows "inbox_ok db'"
proof -
  obtain p f rs gs where eq: "strip db' = strip db\<lparr>t_operations := row_update p f (t_operations db),
           t_requests := rs, t_receipts := gs\<rparr>"
    using assms(1) unfolding side_step_def by blast
  show ?thesis by (rule inbox_ok_stripped [OF eq]) (simp add: assms(2))
qed

lemma lock_valid_callback_claim_Inr [result_simps]:
  "lock_valid_callback_claim now claim db = Inr g \<longleftrightarrow>
     receipt_of db (kr_id claim) = Some g \<and> g_lease_token g = Some (kr_lease_token claim)
     \<and> (\<exists>t. g_lease_expires_at g = Some t \<and> now < t)"
  by (auto simp: lock_valid_callback_claim_def result_simps split: option.splits)

lemma record_callback_receipt_side:
  "record_callback_receipt env connection gateway_event job payload db = Inr (g, db') \<Longrightarrow>
     side_step db db'"
  by (rule side_step_receipts [where gs = "t_receipts db'"])
    (auto simp: record_callback_receipt_def result_simps dest!: insert_receipt_Inr split: if_splits)

lemma claim_callback_receipt_side:
  "claim_callback_receipt env lease_for db = Inr (res, db') \<Longrightarrow> side_step db db'"
  by (rule side_step_receipts [where gs = "t_receipts db'"])
    (auto simp: claim_callback_receipt_def result_simps dest!: update_receipts_Inr
      split: option.splits)

lemma match_callback_receipt_side:
  "match_callback_receipt env claim retry_at db = Inr (res, db') \<Longrightarrow> side_step db db'"
  by (rule side_step_receipts [where gs = "t_receipts db'"])
    (auto simp: match_callback_receipt_def result_simps Let_def dest!: update_receipts_Inr)

lemma block_callback_receipt_side:
  "block_callback_receipt env claim error db = Inr db' \<Longrightarrow> side_step db db'"
  by (rule side_step_receipts [where gs = "t_receipts db'"])
    (auto simp: block_callback_receipt_def result_simps dest!: update_receipts_Inr)

lemma block_unmatched_callback_receipt_side:
  "block_unmatched_callback_receipt i error db = Inr db' \<Longrightarrow> side_step db db'"
  by (rule side_step_receipts [where gs = "t_receipts db'"])
    (auto simp: block_unmatched_callback_receipt_def dest!: update_receipts_Inr)

lemma renew_callback_receipt_claim_side:
  "renew_callback_receipt_claim env claim lease_for db = Inr db' \<Longrightarrow> side_step db db'"
  by (rule side_step_receipts [where gs = "t_receipts db'"])
    (auto simp: renew_callback_receipt_claim_def result_simps dest!: update_receipts_Inr)

lemma retry_callback_receipt_side:
  "retry_callback_receipt env claim retry_at error db = Inr db' \<Longrightarrow> side_step db db'"
  by (rule side_step_receipts [where gs = "t_receipts db'"])
    (auto simp: retry_callback_receipt_def result_simps dest!: update_receipts_Inr)

lemma complete_callback_receipt_Inr:
  "complete_callback_receipt env claim db = Inr db' \<Longrightarrow>
     \<exists>g. lock_valid_callback_claim (env_clock env 0) claim db = Inr g
     \<and> db' = db\<lparr>
         t_operations := row_update
           (\<lambda>r. g_operation_id g = Some (o_id r) \<and> o_status r = OpAccepted)
           (\<lambda>r. r\<lparr>o_next_attempt_at := min (o_next_attempt_at r) (env_clock env 1)\<rparr>)
           (t_operations db),
         t_receipts := row_update (\<lambda>r. g_id r = kr_id claim)
           (\<lambda>r. r\<lparr>g_status := RcProcessed, g_processed_at := Some (env_now env),
                  g_lease_token := None, g_lease_expires_at := None\<rparr>) (t_receipts db)\<rparr>"
  by (auto simp: complete_callback_receipt_def result_simps
      dest!: update_receipts_Inr update_operations_Inr)

lemma complete_callback_receipt_side:
  assumes "complete_callback_receipt env claim db = Inr db'"
  shows "side_step db db'"
proof -
  obtain g :: receipt_row where db': "db' = db\<lparr>
         t_operations := row_update
           (\<lambda>r. g_operation_id g = Some (o_id r) \<and> o_status r = OpAccepted)
           (\<lambda>r. r\<lparr>o_next_attempt_at := min (o_next_attempt_at r) (env_clock env 1)\<rparr>)
           (t_operations db),
         t_receipts := row_update (\<lambda>r. g_id r = kr_id claim)
           (\<lambda>r. r\<lparr>g_status := RcProcessed, g_processed_at := Some (env_now env),
                  g_lease_token := None, g_lease_expires_at := None\<rparr>) (t_receipts db)\<rparr>"
    using complete_callback_receipt_Inr [OF assms] by blast
  show ?thesis
    by (rule side_stepI [where p = "\<lambda>r. g_operation_id g = Some (o_id r) \<and> o_status r = OpAccepted"
        and f = "\<lambda>r. r\<lparr>o_next_attempt_at := min (o_next_attempt_at r) (env_clock env 1)\<rparr>"
        and rs = "t_requests db" and gs = "t_receipts db'"])
      (auto simp: db' intro!: strip_eqI)
qed

lemma remove_request_Inr:
  "remove_request env now sid i db = Inr db' \<Longrightarrow>
     strip db' = strip db\<lparr>
       t_operations := row_update (\<lambda>r. o_id r = i) (\<lambda>r. r\<lparr>o_request_removed_at := Some now\<rparr>)
         (t_operations db),
       t_requests := filter (\<lambda>q. r_operation_id q \<noteq> i) (t_requests db)\<rparr>"
  by (auto simp: remove_request_def result_simps emit_update_def
      dest!: delete_requests_Inr update_operations_Inr emit_update_strip)

lemma remove_request_side:
  assumes "remove_request env now sid i db = Inr db'"
  shows "side_step db db'"
  by (rule side_stepI [where p = "\<lambda>r. o_id r = i" and f = "\<lambda>r. r\<lparr>o_request_removed_at := Some now\<rparr>"
      and rs = "filter (\<lambda>q. r_operation_id q \<noteq> i) (t_requests db)" and gs = "t_receipts db"])
    (use strip_eqD [OF remove_request_Inr [OF assms]] in \<open>auto intro!: strip_eqI\<close>)

lemma side_step_refl: "side_step db db"
  by (rule side_step_receipts [where gs = "t_receipts db"]) simp

lemma delete_expired_candidate_side:
  "delete_expired_candidate env c db = Inr (gone, db') \<Longrightarrow> side_step db db'"
  by (auto simp: delete_expired_candidate_def result_simps intro: remove_request_side side_step_refl
      split: if_splits)

lemma delete_expired_operation_request_side:
  "delete_expired_operation_request env i db = Inr (gone, db') \<Longrightarrow> side_step db db'"
  by (auto simp: delete_expired_operation_request_def result_simps Let_def
      intro: remove_request_side side_step_refl split: option.splits if_splits)

definition pruned_through :: "time \<Rightarrow> session_id \<Rightarrow> db \<Rightarrow> int" where
  "pruned_through before i db = last (map u_sequence (top_by u_sequence 1000
     (filter (\<lambda>u. u_session_id u = i \<and> u_created_at u < before) (t_updates db))))"

lemma prune_session_Inr:
  assumes "prune_session env before i db = Inr (n, db')"
  shows "db' = db \<or> db' = db\<lparr>
    t_updates := filter (\<lambda>u. \<not> (u_session_id u = i \<and> u_sequence u \<le> pruned_through before i db))
      (t_updates db),
    t_sessions := row_update (\<lambda>s. s_id s = i) (\<lambda>s. s\<lparr>s_retained_update_sequence :=
      max (s_retained_update_sequence s) (pruned_through before i db + 1)\<rparr>) (t_sessions db)\<rparr>"
  using assms
  by (auto simp: prune_session_def pruned_through_def Let_def result_simps
      dest!: delete_updates_Inr update_sessions_Inr split: if_splits)

lemma prune_session_ledgers: "prune_session env before i db = Inr (n, db') \<Longrightarrow> ledgers db db'"
  by (drule prune_session_Inr) (auto intro: ledgers_mark)

lemma prune_session_inbox:
  assumes "prune_session env before i db = Inr (n, db')" and "inbox_ok db"
  shows "inbox_ok db'"
  using prune_session_Inr [OF assms(1)]
  by (auto simp: assms(2) intro!: inbox_ok_cong [OF assms(2)])

lemma prune_session_history:
  assumes "prune_session env before i db = Inr (n, db')" and "history_from hs db"
  shows "history_from hs db'"
  using prune_session_Inr [OF assms(1)] assms(2)
  by (auto simp: history_from_def intro!: history_ok_cong [of db])

end
