(* ===== verification/Steps.thy ===== *)
theory Steps
  imports Ledgers
begin

text \<open>
  The store as a state machine: one step per transaction of \<open>packages/agent-store/src\<close> that
  writes, for any environment and any arguments, in any order. Row locks serialise the
  transactions of a session, so an interleaving of workers is a sequence of steps. The
  invariant of the reachable databases is the conjunction of the components' invariants.
\<close>

section \<open>The step relation\<close>

inductive store_step :: "db \<Rightarrow> db \<Rightarrow> bool" where
  create: "create_session env n db = Inr (r, db') \<Longrightarrow> store_step db db'"
| patch: "patch_session_metadata env i name metadata db = Inr (r, db') \<Longrightarrow> store_step db db'"
| enqueue: "enqueue_external_event env x db = Inr (res, db') \<Longrightarrow> store_step db db'"
| retry: "retry_blocked_event env i eid revision key request reason db = Inr (pr, db') \<Longrightarrow>
    store_step db db'"
| claim: "claim_next_event env lease_for db = Inr (ce, db') \<Longrightarrow> store_step db db'"
| renew: "renew_event_claim env hc lease_for db = Inr db' \<Longrightarrow> store_step db db'"
| failure: "record_handler_failure env hc error retry_at blocked db = Inr db' \<Longrightarrow> store_step db db'"
| abandon: "abandon_handler_attempt env hc error retry_at db = Inr db' \<Longrightarrow> store_step db db'"
| commit: "commit_body env hc oc db = Inr db' \<Longrightarrow> store_step db db'"
| resolve: "resolve_wait env wid key response db = Inr (wr, db') \<Longrightarrow> store_step db db'"
| expire: "expire_wait env wid db = Inr (ev, db') \<Longrightarrow> store_step db db'"
| op_claim: "claim_operation env phase lease_for db = Inr (oc', db') \<Longrightarrow> store_step db db'"
| op_defer: "defer_operation env k retry_at db = Inr db' \<Longrightarrow> store_step db db'"
| op_accept: "record_operation_accepted env k job check_at http db = Inr db' \<Longrightarrow> store_step db db'"
| op_renew: "renew_operation_claim env k lease_for db = Inr db' \<Longrightarrow> store_step db db'"
| op_retry: "record_operation_retry env k uncertain retry_at http error db = Inr db' \<Longrightarrow>
    store_step db db'"
| op_pending: "record_operation_pending_result env k check_at http db = Inr db' \<Longrightarrow> store_step db db'"
| op_complete: "complete_operation_with_http_status env k status result error' expires http db
    = Inr (e, db') \<Longrightarrow> store_step db db'"
| op_withdraw: "complete_withdrawal env k expires db = Inr (wd, db') \<Longrightarrow> store_step db db'"
| cb_record: "record_callback_receipt env connection gateway_event job payload db = Inr (g, db') \<Longrightarrow>
    store_step db db'"
| cb_claim: "claim_callback_receipt env lease_for db = Inr (cr, db') \<Longrightarrow> store_step db db'"
| cb_match: "match_callback_receipt env kr retry_at db = Inr (m, db') \<Longrightarrow> store_step db db'"
| cb_complete: "complete_callback_receipt env kr db = Inr db' \<Longrightarrow> store_step db db'"
| cb_block: "block_callback_receipt env kr error db = Inr db' \<Longrightarrow> store_step db db'"
| cb_unmatched: "block_unmatched_callback_receipt gid error db = Inr db' \<Longrightarrow> store_step db db'"
| cb_renew: "renew_callback_receipt_claim env kr lease_for db = Inr db' \<Longrightarrow> store_step db db'"
| cb_retry: "retry_callback_receipt env kr retry_at error db = Inr db' \<Longrightarrow> store_step db db'"
| drop_one: "delete_expired_operation_request env oid db = Inr (gone, db') \<Longrightarrow> store_step db db'"
| drop_candidate: "delete_expired_candidate env c db = Inr (gone, db') \<Longrightarrow> store_step db db'"
| prune: "prune_session env before i db = Inr (count, db') \<Longrightarrow> store_step db db'"

abbreviation store_run :: "db \<Rightarrow> db \<Rightarrow> bool" where
  "store_run \<equiv> rtranclp store_step"

definition reachable :: "db \<Rightarrow> bool" where
  "reachable db \<longleftrightarrow> store_run empty_db db"

section \<open>The invariant\<close>

definition ops_settled :: "db \<Rightarrow> bool" where
  "ops_settled db \<longleftrightarrow>
     settled_once o_id op_final e_operation_id (t_operations db) (t_events db)"

definition waits_settled :: "db \<Rightarrow> bool" where
  "waits_settled db \<longleftrightarrow>
     settled_once w_id wait_final e_wait_id (t_waits db) (t_events db)"

definition store_ok :: "db \<Rightarrow> bool" where
  "store_ok db \<longleftrightarrow> inbox_ok db \<and> ops_settled db \<and> waits_settled db \<and> history_ok db \<and> log_ok db"

lemma store_okD:
  assumes "store_ok db"
  shows "inbox_ok db" and "ops_settled db" and "waits_settled db" and "history_ok db"
    and "log_ok db" and "distinct (map o_id (t_operations db))"
    and "distinct (map w_id (t_waits db))"
  using assms by (auto simp: store_ok_def ops_settled_def waits_settled_def settled_once_def)

lemma store_ok_empty: "store_ok empty_db"
  by (simp add: store_ok_def inbox_ok_def ops_settled_def waits_settled_def settled_once_def
      history_ok_def log_ok_def empty_db_def)

lemmas side_steps =
  record_callback_receipt_side claim_callback_receipt_side match_callback_receipt_side
  complete_callback_receipt_side block_callback_receipt_side block_unmatched_callback_receipt_side
  renew_callback_receipt_claim_side retry_callback_receipt_side
  delete_expired_operation_request_side delete_expired_candidate_side

lemma store_step_inbox:
  assumes "store_step db db'" and "inbox_ok db"
  shows "inbox_ok db'"
  using assms
proof (cases rule: store_step.cases)
  case (op_defer env k retry_at)
  then show ?thesis using assms(2) defer_operation_effect claim_step_inbox by blast
next
  case (op_accept env k job check_at http)
  then show ?thesis using assms(2) record_operation_accepted_effect claim_step_inbox by blast
next
  case (op_retry env k uncertain retry_at http error)
  then show ?thesis using assms(2) record_operation_retry_effect claim_step_inbox by blast
next
  case (op_pending env k check_at http)
  then show ?thesis using assms(2) record_operation_pending_result_effect claim_step_inbox by blast
qed (use assms(2) in \<open>blast intro: create_session_inbox patch_session_metadata_inbox enqueue_inbox
  retry_blocked_event_inbox claim_next_event_inbox renew_event_claim_inbox
  record_handler_failure_inbox abandon_handler_attempt_inbox commit_body_inbox
  resolve_wait_inbox expire_wait_inbox claim_operation_inbox renew_operation_claim_inbox
  complete_operation_inbox complete_withdrawal_inbox prune_session_inbox
  side_steps [THEN side_step_inbox]\<close>)+

lemma store_step_ledgers:
  assumes "store_step db db'" and d: "distinct (map o_id (t_operations db))"
  shows "ledgers db db'"
  using assms(1)
  by (cases rule: store_step.cases)
    (use d in \<open>blast intro: create_session_ledgers patch_session_metadata_ledgers enqueue_ledgers
  retry_blocked_event_ledgers claim_next_event_ledgers renew_event_claim_ledgers
  record_handler_failure_ledgers abandon_handler_attempt_ledgers commit_body_both
  resolve_wait_ledgers expire_wait_ledgers claim_operation_ledgers defer_operation_ledgers
  record_operation_accepted_ledgers renew_operation_claim_ledgers record_operation_retry_ledgers
  record_operation_pending_result_ledgers complete_operation_ledgers complete_withdrawal_ledgers
  prune_session_ledgers side_steps [THEN side_step_ledgers]\<close>)+

context frame_invariant begin

lemmas keeps =
  create_session_keeps patch_session_metadata_keeps enqueue_keeps retry_blocked_event_keeps
  claim_next_event_keeps renew_event_claim_keeps record_handler_failure_keeps
  abandon_handler_attempt_keeps resolve_wait_keeps expire_wait_keeps claim_operation_keeps
  defer_operation_keeps record_operation_accepted_keeps renew_operation_claim_keeps
  record_operation_retry_keeps record_operation_pending_result_keeps complete_operation_keeps
  complete_withdrawal_keeps record_callback_receipt_keeps claim_callback_receipt_keeps
  match_callback_receipt_keeps complete_callback_receipt_keeps block_callback_receipt_keeps
  block_unmatched_callback_receipt_keeps renew_callback_receipt_claim_keeps
  retry_callback_receipt_keeps delete_expired_operation_request_keeps delete_expired_candidate_keeps

lemma store_step_keeps:
  assumes "store_step db db'" and I: "I db"
    and commit: "\<And>env hc oc. commit_body env hc oc db = Inr db' \<Longrightarrow> I db'"
    and prune: "\<And>env before i count. prune_session env before i db = Inr (count, db') \<Longrightarrow> I db'"
  shows "I db'"
  using assms(1)
  by (cases rule: store_step.cases) (use I commit prune in \<open>blast intro: keeps\<close>)+

end

lemma store_step_log:
  assumes "store_step db db'" and "log_ok db"
  shows "log_ok db'"
proof -
  have from_here: "log_from [] db" using assms(2) by (simp add: log_from_def)
  have "log_from [] db'"
  proof (rule log_frame.store_step_keeps [OF assms(1) from_here])
    fix env before i count
    assume "prune_session env before i db = Inr (count, db')"
    then show "log_from [] db'" using prune_session_log assms(2) by (auto simp: log_from_def)
  qed (rule commit_body_log [OF _ from_here])
  then show ?thesis by (simp add: log_from_def)
qed

lemma store_step_history:
  assumes "store_step db db'" and grown: "history_from hs db"
  shows "history_from hs db'"
  by (rule history_frame.store_step_keeps [OF assms])
    (blast intro: commit_body_history prune_session_history grown)+

lemma store_step_ok:
  assumes step: "store_step db db'" and ok: "store_ok db"
  shows "store_ok db'"
proof -
  have both: "op_ledger db db'" "wait_ledger db db'"
    using store_step_ledgers [OF step store_okD(6) [OF ok]] by (simp_all add: ledgers_def)
  have "history_from [] db'"
    using store_step_history [OF step, of "[]"] store_okD(4) [OF ok]
    by (simp add: history_from_def)
  moreover have "ops_settled db'"
    using ledger_run_once [OF both(1)] store_okD(2) [OF ok] by (simp add: ops_settled_def)
  moreover have "waits_settled db'"
    using ledger_run_once [OF both(2)] store_okD(3) [OF ok] by (simp add: waits_settled_def)
  ultimately show ?thesis
    using store_step_inbox [OF step store_okD(1) [OF ok]] store_step_log [OF step store_okD(5) [OF ok]]
    by (simp add: store_ok_def history_from_def)
qed

lemma store_run_ok:
  assumes "store_run db db'" and "store_ok db"
  shows "store_ok db'"
  using assms by (induction rule: rtranclp_induct) (auto intro: store_step_ok)

lemma store_run_ledgers:
  assumes "store_run db db'" and "store_ok db"
  shows "op_ledger db db' \<and> wait_ledger db db'"
  using assms(1)
proof (induction rule: rtranclp_induct)
  case (step mid db')
  have "ledgers mid db'"
    by (rule store_step_ledgers [OF step(2) store_okD(6) [OF store_run_ok [OF step(1) assms(2)]]])
  with step(3) show ?case unfolding ledgers_def by (meson rtranclp_trans)
qed simp

lemma store_run_history:
  assumes "store_run db db'" and "history_from hs db"
  shows "history_from hs db'"
  using assms by (induction rule: rtranclp_induct) (auto intro: store_step_history)

lemma reachable_ok: "reachable db \<Longrightarrow> store_ok db"
  unfolding reachable_def by (rule store_run_ok [OF _ store_ok_empty])

lemma reachable_run: "reachable db \<Longrightarrow> store_run db db' \<Longrightarrow> reachable db'"
  by (simp add: reachable_def)

end
