(* ===== verification/Leases.thy ===== *)
theory Leases
  imports Steps
begin

text \<open>
  The three leases of the store - on a session for its handler, on an operation for its
  gateway worker, on a callback receipt for its worker - as instances of the lease contract:
  when a token owns the row, when the row is free to be claimed, what granting and releasing
  write. The checks the operations make are these predicates.
\<close>

definition lease_holds :: "uuid option \<Rightarrow> time option \<Rightarrow> uuid \<Rightarrow> time \<Rightarrow> bool" where
  "lease_holds token expires t now \<longleftrightarrow>
     token = Some t \<and> (case expires of None \<Rightarrow> False | Some e \<Rightarrow> now < e)"

lemma lease_holds_Some [simp]: "lease_holds (Some u) (Some e) t now \<longleftrightarrow> u = t \<and> now < e"
  by (auto simp: lease_holds_def)

lemma lease_holds_None [simp]: "\<not> lease_holds None e t now"
  by (simp add: lease_holds_def)

lemma lease_free_simps [simp]:
  "lease_free None expires now" "lease_free (Some u) (Some e) now \<longleftrightarrow> e \<le> now"
  by (simp_all add: lease_free_def)

lemma lease_exclusive: "lease_free token expires now \<Longrightarrow> \<not> lease_holds token expires t now"
  by (auto simp: lease_free_def lease_holds_def split: option.splits)

abbreviation session_holds :: "session_row \<Rightarrow> uuid \<Rightarrow> time \<Rightarrow> bool" where
  "session_holds s \<equiv> lease_holds (s_lease_token s) (s_lease_expires_at s)"

abbreviation session_free :: "session_row \<Rightarrow> time \<Rightarrow> bool" where
  "session_free s \<equiv> lease_free (s_lease_token s) (s_lease_expires_at s)"

abbreviation operation_holds :: "operation_row \<Rightarrow> uuid \<Rightarrow> time \<Rightarrow> bool" where
  "operation_holds r \<equiv> lease_holds (o_lease_token r) (o_lease_expires_at r)"

abbreviation operation_free :: "operation_row \<Rightarrow> time \<Rightarrow> bool" where
  "operation_free r \<equiv> lease_free (o_lease_token r) (o_lease_expires_at r)"

abbreviation receipt_holds :: "receipt_row \<Rightarrow> uuid \<Rightarrow> time \<Rightarrow> bool" where
  "receipt_holds g \<equiv> lease_holds (g_lease_token g) (g_lease_expires_at g)"

abbreviation receipt_free :: "receipt_row \<Rightarrow> time \<Rightarrow> bool" where
  "receipt_free g \<equiv> lease_free (g_lease_token g) (g_lease_expires_at g)"

interpretation session_lease: lease session_holds session_free
  "\<lambda>t e s. s\<lparr>s_lease_token := Some t, s_lease_expires_at := Some e\<rparr>"
  "\<lambda>s. s\<lparr>s_lease_token := None, s_lease_expires_at := None\<rparr>"
  by unfold_locales (auto dest: lease_exclusive)

interpretation operation_lease: lease operation_holds operation_free
  "\<lambda>t e r. r\<lparr>o_lease_token := Some t, o_lease_expires_at := Some e\<rparr>"
  "\<lambda>r. r\<lparr>o_lease_token := None, o_lease_expires_at := None\<rparr>"
  by unfold_locales (auto dest: lease_exclusive)

interpretation receipt_lease: lease receipt_holds receipt_free
  "\<lambda>t e g. g\<lparr>g_lease_token := Some t, g_lease_expires_at := Some e\<rparr>"
  "\<lambda>g. g\<lparr>g_lease_token := None, g_lease_expires_at := None\<rparr>"
  by unfold_locales (auto dest: lease_exclusive)

section \<open>The checks of the operations\<close>

lemma lock_valid_session_claim_holds:
  "lock_valid_session_claim now claim db = Inr (h, v) \<longleftrightarrow>
     (\<exists>s. session_of db (c_session_id claim) = Some s
        \<and> s_current_event_id s = Some (c_event_id claim)
        \<and> session_holds s (c_lease_token claim) now
        \<and> h = s_next_history_sequence s \<and> v = s_state_version s)"
  by (auto simp: lock_valid_session_claim_Inr lease_holds_def split: option.splits)

lemma lock_valid_session_claim_stale:
  assumes "session_of db (c_session_id claim) = Some s"
    and "\<not> (s_current_event_id s = Some (c_event_id claim)
           \<and> session_holds s (c_lease_token claim) now)"
  shows "lock_valid_session_claim now claim db = Inl StaleClaim"
  using assms
  by (auto simp: lock_valid_session_claim_def lease_holds_def split: option.splits if_splits)

lemma lock_valid_operation_claim_holds:
  "lock_valid_operation_claim now claim db = Inr r \<longleftrightarrow>
     operation_of db (k_id claim) = Some r \<and> operation_holds r (k_lease_token claim) now"
  by (auto simp: lock_valid_operation_claim_Inr lease_holds_def split: option.splits)

lemma lock_valid_callback_claim_holds:
  "lock_valid_callback_claim now claim db = Inr g \<longleftrightarrow>
     receipt_of db (kr_id claim) = Some g \<and> receipt_holds g (kr_lease_token claim) now"
  by (auto simp: lock_valid_callback_claim_Inr lease_holds_def split: option.splits)

end
