(* ===== verification/Scenario.thy ===== *)
theory Scenario
  imports Steps
begin

text \<open>
  A concrete run of the store and a few concrete databases, to which the theorems about the
  store are applied: a session is created, a user message is admitted and claimed, then handled
  with an LLM call and a wait, or blocked and retried; and a session at work, with an accepted
  LLM call whose result is being fetched, a pending execution with its withdrawal claimed, a
  pending wait and a callback being processed.
\<close>

definition demo_env :: "time \<Rightarrow> nat \<Rightarrow> env" where
  "demo_env t k = \<lparr>env_now = t, env_clock = (\<lambda>_. t), env_log_clock = (\<lambda>_. t),
     env_uuid = (\<lambda>n. Uuid (k + n)), env_skip = (\<lambda>_. False), env_sha256 = (\<lambda>s. s),
     env_json_text = (\<lambda>_. ''{}''), env_message = (\<lambda>_. Inr (user_text ''hello'')),
     env_uuid_text = case_uuid (\<lambda>n. replicate n (CHR ''u''))\<rparr>"

definition demo_session :: new_session where
  "demo_session = \<lparr>n_id = Uuid 1, n_project_id = ''p'', n_harness_id = ''h'',
     n_harness_version = ''1'', n_configuration = ''{}'', n_state = ''0'', n_name = None,
     n_metadata = JNull\<rparr>"

definition demo_input :: new_external_event where
  "demo_input = \<lparr>x_session_id = Uuid 1, x_type = EvUserMessage, x_payload = ''hi'',
     x_key = Some ''k''\<rparr>"

definition demo_claim :: handler_claim where
  "demo_claim = \<lparr>c_session_id = Uuid 1, c_event_id = Uuid 200, c_attempt_id = Uuid 301,
     c_lease_token = Uuid 300, c_input_state_version = 0\<rparr>"

definition demo_outcome :: outcome_commit where
  "demo_outcome = \<lparr>oc_state = ''1'', oc_status = Some SessWaiting,
     oc_history = [\<lparr>nh_id = Uuid 41, nh_message = ''hello''\<rparr>],
     oc_operations = [\<lparr>no_id = Uuid 5, no_kind = KindLlm, no_connection = Some ''llm'',
       no_target = None, no_previous = None, no_request = ''req''\<rparr>],
     oc_waits = [\<lparr>nw_id = Uuid 8, nw_mode = Either, nw_payload = ''ask'',
       nw_response_schema = None, nw_expires_at = Some 5000\<rparr>],
     oc_cancelled_waits = [], oc_progress = []\<rparr>"

section \<open>The databases of the run\<close>

definition demo_s :: session_row where
  "demo_s = session_row_of (demo_env 10 100) demo_session"

definition demo_e :: event_row where
  "demo_e = new_event (demo_env 20 200) (Uuid 200) (Uuid 1) 1 EvUserMessage (RawPayload ''hi'')
     None None (Some ''k'') (Some ''hi'')"

definition demo_a :: attempt_row where
  "demo_a = \<lparr>a_id = Uuid 301, a_event_id = Uuid 200, a_number = 1, a_lease_token = Uuid 300,
     a_input_state_version = 0, a_history_through = 0, a_status = AtRunning, a_error = None,
     a_started_at = 30, a_finished_at = None\<rparr>"

definition demo_u :: "int \<Rightarrow> time \<Rightarrow> update_kind \<Rightarrow> update_payload \<Rightarrow> update_row" where
  "demo_u i t kind payload = \<lparr>u_session_id = Uuid 1, u_sequence = i, u_kind = kind,
     u_payload = payload, u_source_event_id = None, u_created_at = t\<rparr>"

definition demo_created :: db where
  "demo_created = empty_db\<lparr>t_sessions := [demo_s]\<rparr>"

definition demo_admitted :: db where
  "demo_admitted = empty_db\<lparr>
     t_sessions := [demo_s\<lparr>s_next_event_sequence := 2, s_next_update_sequence := 2,
       s_updated_at := 20\<rparr>],
     t_events := [demo_e],
     t_updates := [demo_u 1 20 EventChanged (EventRef (Uuid 200) (Some EvPending))]\<rparr>"

definition demo_claimed :: db where
  "demo_claimed = empty_db\<lparr>
     t_sessions := [demo_s\<lparr>s_next_event_sequence := 2, s_next_update_sequence := 3,
       s_current_event_id := Some (Uuid 200), s_lease_token := Some (Uuid 300),
       s_lease_expires_at := Some 1000030, s_updated_at := 30\<rparr>],
     t_events := [demo_e\<lparr>e_status := EvProcessing\<rparr>],
     t_attempts := [demo_a],
     t_updates := [demo_u 1 20 EventChanged (EventRef (Uuid 200) (Some EvPending)),
       demo_u 2 30 EventChanged (EventRef (Uuid 200) (Some EvProcessing))]\<rparr>"

definition demo_claimed_event :: claimed_event where
  "demo_claimed_event = \<lparr>ce_session = (hd (t_sessions demo_claimed)
       \<lparr>s_next_update_sequence := 2\<rparr>, None),
     ce_event = demo_e\<lparr>e_status := EvProcessing\<rparr>, ce_attempt_id = Uuid 301,
     ce_attempt_number = 1, ce_lease_token = Uuid 300, ce_history_through = 0\<rparr>"

definition demo_blocked :: db where
  "demo_blocked = empty_db\<lparr>
     t_sessions := [demo_s\<lparr>s_next_event_sequence := 2, s_next_update_sequence := 5,
       s_processing_enabled := False, s_processing_error := Some JNull,
       s_processing_revision := 1, s_updated_at := 40\<rparr>],
     t_events := [demo_e\<lparr>e_status := EvBlocked, e_next_attempt_at := 40,
       e_last_error := Some JNull\<rparr>],
     t_attempts := [demo_a\<lparr>a_status := AtErrored, a_error := Some JNull,
       a_finished_at := Some 40\<rparr>],
     t_updates := [demo_u 1 20 EventChanged (EventRef (Uuid 200) (Some EvPending)),
       demo_u 2 30 EventChanged (EventRef (Uuid 200) (Some EvProcessing)),
       demo_u 3 40 EventChanged (EventRef (Uuid 200) (Some EvBlocked)),
       demo_u 4 40 ProcessingChanged (ProcessingRef (Uuid 200) None)]\<rparr>"

definition demo_handled :: db where
  "demo_handled = projr (commit_body (demo_env 40 400) demo_claim demo_outcome demo_claimed)"

lemma demo_create:
  "create_session (demo_env 10 100) demo_session empty_db = Inr ((demo_s, None), demo_created)"
  by code_simp

lemma demo_enqueue:
  "enqueue_external_event (demo_env 20 200) demo_input demo_created
     = Inr (Inserted demo_e, demo_admitted)"
  by code_simp

lemma demo_claiming:
  "claim_next_event (demo_env 30 300) 1000 demo_admitted
     = Inr (Some demo_claimed_event, demo_claimed)"
  by code_simp

lemma demo_claim_of: "claim_of demo_claimed_event = demo_claim"
  by code_simp

lemma demo_failure:
  "record_handler_failure (demo_env 40 400) demo_claim JNull 40 True demo_claimed
     = Inr demo_blocked"
  by code_simp

lemma demo_commit:
  "commit_body (demo_env 40 400) demo_claim demo_outcome demo_claimed = Inr demo_handled"
proof -
  have "\<not> isl (commit_body (demo_env 40 400) demo_claim demo_outcome demo_claimed)"
    by code_simp
  then show ?thesis by (simp add: demo_handled_def)
qed

section \<open>The run is a run\<close>

lemma demo_reachable:
  "reachable demo_created" "reachable demo_admitted" "reachable demo_claimed"
  "reachable demo_handled" "reachable demo_blocked"
proof -
  have steps: "store_step empty_db demo_created" "store_step demo_created demo_admitted"
    "store_step demo_admitted demo_claimed" "store_step demo_claimed demo_handled"
    "store_step demo_claimed demo_blocked"
    by (rule store_step.create [OF demo_create] store_step.enqueue [OF demo_enqueue]
        store_step.claim [OF demo_claiming] store_step.commit [OF demo_commit]
        store_step.failure [OF demo_failure])+
  show "reachable demo_created" unfolding reachable_def using steps(1) by simp
  then show "reachable demo_admitted"
    unfolding reachable_def using steps(2) by (rule rtranclp.rtrancl_into_rtrancl)
  then show "reachable demo_claimed"
    unfolding reachable_def using steps(3) by (rule rtranclp.rtrancl_into_rtrancl)
  then show "reachable demo_handled" and "reachable demo_blocked"
    unfolding reachable_def using steps(4,5) by (blast intro: rtranclp.rtrancl_into_rtrancl)+
qed

section \<open>A session at work\<close>

definition demo_op :: operation_row where
  "demo_op = \<lparr>o_id = Uuid 5, o_session_id = Uuid 1, o_source_event_id = Uuid 200,
     o_kind = KindLlm, o_connection = Some ''llm'', o_target = None, o_previous = None,
     o_idempotency_key = ''5'', o_request_hash = ''req'', o_job_id = Some (Uuid 71),
     o_status = OpAccepted, o_result = None, o_error = None, o_next_attempt_at = 90,
     o_lease_token = Some (Uuid 1100), o_lease_expires_at = Some 1000100, o_created_at = 40,
     o_submitted_at = Some 60, o_completed_at = None, o_request_removed_at = None\<rparr>"

definition demo_execution :: operation_row where
  "demo_execution = demo_op\<lparr>o_id := Uuid 6, o_kind := KindExecution, o_connection := Some ''exec'',
     o_idempotency_key := ''6'', o_request_hash := ''run'', o_job_id := None, o_status := OpPending,
     o_lease_token := None, o_lease_expires_at := None, o_submitted_at := None\<rparr>"

definition demo_withdraw :: operation_row where
  "demo_withdraw = demo_op\<lparr>o_id := Uuid 7, o_kind := KindWithdraw, o_connection := None,
     o_target := Some (Uuid 6), o_idempotency_key := ''7'', o_request_hash := ''stop'',
     o_job_id := None, o_status := OpSubmitting, o_lease_token := Some (Uuid 1400),
     o_submitted_at := None\<rparr>"

definition demo_op_attempt :: op_attempt_row where
  "demo_op_attempt = \<lparr>oa_id = Uuid 1101, oa_operation_id = Uuid 5, oa_number = 2,
     oa_phase = ResultRetrieval, oa_lease_token = Uuid 1100, oa_status = OaRunning,
     oa_http_status = None, oa_error = None, oa_started_at = 100, oa_finished_at = None\<rparr>"

definition demo_wait :: wait_row where
  "demo_wait = \<lparr>w_id = Uuid 8, w_session_id = Uuid 1, w_source_event_id = Uuid 200,
     w_mode = Either, w_payload = ''ask'', w_response_schema = None, w_expires_at = Some 5000,
     w_status = WtPending, w_resolution_payload = None, w_resolution_key = None,
     w_resolution_hash = None, w_created_at = 40, w_finished_at = None\<rparr>"

definition demo_receipt_row :: receipt_row where
  "demo_receipt_row = \<lparr>g_id = Uuid 700, g_connection = ''llm'', g_event_id = Uuid 72,
     g_job_id = Uuid 71, g_payload = ''done'', g_operation_id = Some (Uuid 5),
     g_status = RcProcessing, g_next_attempt_at = 500, g_lease_token = Some (Uuid 800),
     g_lease_expires_at = Some 1000080, g_last_error = None, g_received_at = 70,
     g_processed_at = None\<rparr>"

definition demo_work :: db where
  "demo_work = \<lparr>
     t_sessions = [demo_s\<lparr>s_status := SessWaiting, s_state := ''1'', s_state_version := 1,
       s_next_event_sequence := 2, s_next_history_sequence := 2, s_next_update_sequence := 11,
       s_retained_update_sequence := 11, s_updated_at := 100\<rparr>],
     t_events = [demo_e\<lparr>e_status := EvHandled, e_handled_at := Some 40\<rparr>],
     t_attempts = [demo_a\<lparr>a_status := AtCommitted, a_finished_at := Some 40\<rparr>],
     t_history = [\<lparr>h_id = Uuid 41, h_session_id = Uuid 1, h_sequence = 1,
       h_source_event_id = Some (Uuid 200), h_role = ''user'', h_message = ''hello'',
       h_created_at = 40\<rparr>],
     t_operations = [demo_op, demo_execution, demo_withdraw],
     t_requests = [\<lparr>r_operation_id = Uuid 5, r_request = ''req'', r_expires_at = None\<rparr>,
       \<lparr>r_operation_id = Uuid 6, r_request = ''run'', r_expires_at = None\<rparr>,
       \<lparr>r_operation_id = Uuid 7, r_request = ''stop'', r_expires_at = None\<rparr>],
     t_op_attempts = [demo_op_attempt,
       demo_op_attempt\<lparr>oa_id := Uuid 1401, oa_operation_id := Uuid 7, oa_number := 1,
         oa_phase := Withdrawal, oa_lease_token := Uuid 1400\<rparr>],
     t_waits = [demo_wait], t_receipts = [demo_receipt_row], t_retries = [], t_updates = []\<rparr>"

definition demo_retrieval :: claimed_operation where
  "demo_retrieval = \<lparr>k_operation = demo_op, k_request = Some ''req'', k_phase = ResultRetrieval,
     k_attempt_id = Uuid 1101, k_attempt_number = 2, k_lease_token = Uuid 1100,
     k_recovering_uncertain = False\<rparr>"

definition demo_withdrawal :: claimed_operation where
  "demo_withdrawal = \<lparr>k_operation = demo_withdraw, k_request = Some ''stop'',
     k_phase = Withdrawal, k_attempt_id = Uuid 1401, k_attempt_number = 1,
     k_lease_token = Uuid 1400, k_recovering_uncertain = False\<rparr>"

definition demo_receipt :: claimed_receipt where
  "demo_receipt = \<lparr>kr_receipt = demo_receipt_row, kr_lease_token = Uuid 800\<rparr>"

lemma demo_work_ok: "store_ok demo_work"
  by code_simp

lemma demo_work_runs:
  "\<not> isl (complete_operation (demo_env 110 1200) demo_retrieval OpSucceeded (Some ''result'')
     None (Some 200) demo_work)"
  "\<not> isl (complete_withdrawal (demo_env 110 1200) demo_withdrawal None demo_work)"
  "\<not> isl (resolve_wait (demo_env 120 1300) (Uuid 8) ''w'' ''yes'' demo_work)"
  "\<not> isl (expire_wait (demo_env 6000 1300) (Uuid 8) demo_work)"
  "\<not> isl (complete_callback_receipt (demo_env 90 900) demo_receipt demo_work)"
  by code_simp+

end
