(* ===== verification/InboxGuarantees.thy ===== *)
theory InboxGuarantees
  imports Leases Scenario
begin

text \<open>
  What the store promises about a session's inbox: order, single processing, fenced claims,
  idempotent admission, blocking and retry. Each promise is stated over the reachable
  databases or over the databases an operation relates, and applied to the concrete run.
\<close>

section \<open>Reading rows off a transaction\<close>

lemma session_after:
  assumes "t_sessions (strip db') = row_update (\<lambda>s. s_id s = i) f (t_sessions (strip db))"
    and "session_of db i = Some s" and "\<And>s. s_id (f s) = s_id s"
  shows "\<exists>s'. session_of db' i = Some s' \<and> strip_session s' = f (strip_session s)"
proof -
  have "session_of (strip db') i = Some (f (strip_session s))"
    using assms session_of_strip [of db i]
    by (simp add: session_of_def row_by_update_key)
  then show ?thesis by (auto simp: session_of_strip)
qed

lemma event_after:
  assumes "t_events db' = row_update (\<lambda>e. e_id e = i) g (t_events db)"
    and "event_of db i = Some e" and "\<And>e. e_id (g e) = e_id e"
  shows "event_of db' i = Some (g e)"
  using assms by (simp add: event_of_def row_by_update_key)

lemma strip_session_lease:
  assumes "strip_session s = q"
  shows "s_id s = s_id q" and "s_current_event_id s = s_current_event_id q"
    and "s_lease_token s = s_lease_token q" and "s_lease_expires_at s = s_lease_expires_at q"
    and "s_state s = s_state q" and "s_status s = s_status q"
    and "s_state_version s = s_state_version q"
    and "s_next_history_sequence s = s_next_history_sequence q"
    and "s_next_event_sequence s = s_next_event_sequence q"
    and "s_processing_enabled s = s_processing_enabled q"
    and "s_processing_revision s = s_processing_revision q"
  unfolding assms [symmetric] by (simp_all only: strip_session_simps)

lemma fold_max_upper: "m \<in> set ns \<or> m \<le> k \<Longrightarrow> m \<le> fold max ns (k :: int)"
proof (induction ns arbitrary: k)
  case (Cons n ns)
  have "m \<in> set ns \<or> m \<le> max n k"
    using Cons.prems max.cobounded1 [of n k] max.coboundedI2 [of m k n] by auto
  then show ?case using Cons.IH by simp
qed simp

lemma max_number_upper: "m \<in> set ns \<Longrightarrow> m \<le> max_number ns"
  unfolding max_number_def by (rule fold_max_upper) simp

lemma claim_next_event_Some:
  assumes "claim_next_event env lease_for db = Inr (Some ce, db')"
  shows "\<exists>sid eid. claim_candidate env db = Some (sid, eid)
    \<and> claim_event_at env lease_for sid eid db = Inr (ce, db')"
  using assms by (auto simp: claim_next_event_def result_simps split: option.splits)

text \<open>The session and event of a successful claim.\<close>

lemma claimed_head:
  assumes "claim_next_event env lease_for db = Inr (Some ce, db')" and ok: "inbox_ok db"
  shows "\<exists>s e hs ps. session_of db (s_id s) = Some s \<and> session_events db (s_id s) = hs @ e # ps
    \<and> list_all (\<lambda>e. e_status e = EvHandled) hs \<and> list_all (\<lambda>e. e_status e = EvPending) ps
    \<and> (e_status e = EvPending \<or> e_status e = EvProcessing)
    \<and> e_next_attempt_at e \<le> env_clock env 0
    \<and> s_processing_enabled s \<and> session_free s (env_clock env 0)
    \<and> \<not> env_skip env (s_id s) \<and> event_of db (e_id e) = Some e
    \<and> claim_event_at env lease_for (s_id s) (e_id e) db = Inr (ce, db')"
proof -
  obtain sid eid where cand: "claim_candidate env db = Some (sid, eid)"
    and claim: "claim_event_at env lease_for sid eid db = Inr (ce, db')"
    using claim_next_event_Some [OF assms(1)] by blast
  from claim_candidate_Some [OF cand] obtain s e where
    s: "s \<in> set (t_sessions db)" "s_id s = sid" and facts: "\<not> env_skip env sid"
      "s_processing_enabled s" "session_free s (env_clock env 0)" "head_event db sid = Some e"
      "e_id e = eid" "e_status e = EvPending \<or> e_status e = EvProcessing"
      "e_next_attempt_at e \<le> env_clock env 0"
    by blast
  have sof: "session_of db sid = Some s"
    using row_by_distinct [OF inbox_okD(1) [OF ok] s(1)] s(2) by (simp add: session_of_def)
  obtain hs ps where split: "session_events db sid = hs @ e # ps"
    "list_all (\<lambda>e. e_status e = EvHandled) hs" "list_all (\<lambda>e. e_status e = EvPending) ps"
    using head_event_split [OF inbox_ok_session [OF ok sof] facts(4)] by blast
  have "e \<in> set (session_events db sid)" by (simp add: split(1))
  then have "e \<in> set (t_events db)" by (simp add: session_events_mem)
  then have "event_of db (e_id e) = Some e"
    using row_by_distinct [OF inbox_okD(2) [OF ok]] by (simp add: event_of_def)
  then show ?thesis using sof split facts claim s by blast
qed

lemma claimed_session:
  assumes "claim_event_at env lease_for sid eid db = Inr (ce, db')"
  shows "\<exists>s s'. session_of db sid = Some s \<and> session_of db' sid = Some s'
    \<and> strip_session s' = strip_session s\<lparr>s_current_event_id := Some eid,
        s_lease_token := Some (env_uuid env 0),
        s_lease_expires_at := Some (add_millis (env_clock env 1) (int lease_for)),
        s_updated_at := env_now env\<rparr>"
proof -
  let ?f = "\<lambda>s. s\<lparr>s_current_event_id := Some eid, s_lease_token := Some (env_uuid env 0),
    s_lease_expires_at := Some (add_millis (env_clock env 1) (int lease_for)),
    s_updated_at := env_now env\<rparr>"
  have "\<exists>s. session_of db sid = Some s
      \<and> t_sessions (strip db') = row_update (\<lambda>s. s_id s = sid) ?f (t_sessions (strip db))"
    using claim_event_at_effect [OF assms] by (elim exE conjE) simp
  then obtain s where s: "session_of db sid = Some s"
    and eq: "t_sessions (strip db') = row_update (\<lambda>s. s_id s = sid) ?f (t_sessions (strip db))"
    by blast
  show ?thesis using session_after [OF eq s] s by auto
qed

lemma claim_of_claimed:
  assumes "claim_event_at env lease_for sid eid db = Inr (ce, db')" and "session_of db sid = Some s"
  shows "claim_of ce = \<lparr>c_session_id = sid, c_event_id = eid, c_attempt_id = env_uuid env 1,
    c_lease_token = env_uuid env 0, c_input_state_version = s_state_version s\<rparr>"
proof -
  have "\<exists>e. event_of db eid = Some e \<and> ce_event ce = e\<lparr>e_status := EvProcessing\<rparr>
      \<and> ce_lease_token ce = env_uuid env 0 \<and> ce_attempt_id ce = env_uuid env 1
      \<and> s_id (fst (ce_session ce)) = s_id s
      \<and> s_state_version (fst (ce_session ce)) = s_state_version s"
    using claim_event_at_effect [OF assms(1)] assms(2) by (elim exE conjE) simp
  then show ?thesis
    using event_of_Some session_of_Some [OF assms(2)] by (fastforce simp: claim_of_def)
qed

lemma claim_numbers:
  assumes "claim_event_at env lease_for sid eid db = Inr (ce, db')"
  shows "list_all (\<lambda>a. a_event_id a = eid \<longrightarrow> a_number a < ce_attempt_number ce) (t_attempts db)"
proof -
  have "ce_attempt_number ce
      = max_number (map a_number (filter (\<lambda>a. a_event_id a = eid) (t_attempts db))) + 1"
    using claim_event_at_effect [OF assms] by (elim exE conjE) simp
  moreover have "a_number a \<le> max_number (map a_number (filter (\<lambda>a. a_event_id a = eid)
      (t_attempts db)))" if "a \<in> set (t_attempts db)" "a_event_id a = eid" for a
    using that by (intro max_number_upper) auto
  ultimately show ?thesis by (auto simp: list_all_iff)
qed

text \<open>The handled events, the one at work, the pending ones.\<close>

lemma fifo_three:
  assumes "fifo (map e_status evs)"
  shows "\<exists>hs cs ps. evs = hs @ cs @ ps \<and> length cs \<le> 1
    \<and> list_all (\<lambda>e. e_status e = EvHandled) hs
    \<and> list_all (\<lambda>e. e_status e = EvProcessing \<or> e_status e = EvBlocked) cs
    \<and> list_all (\<lambda>e. e_status e = EvPending) ps"
  using assms
proof (induction evs)
  case Nil
  then show ?case by simp
next
  case (Cons e evs)
  show ?case
  proof (cases "e_status e = EvHandled")
    case True
    with Cons obtain hs cs ps where "evs = hs @ cs @ ps" "length cs \<le> 1"
      "list_all (\<lambda>e. e_status e = EvHandled) hs"
      "list_all (\<lambda>e. e_status e = EvProcessing \<or> e_status e = EvBlocked) cs"
      "list_all (\<lambda>e. e_status e = EvPending) ps" by auto
    with True show ?thesis
      by (intro exI [of _ "e # hs"] exI [of _ cs] exI [of _ ps]) simp
  next
    case False
    then have rest: "list_all (\<lambda>e. e_status e = EvPending) evs"
      using Cons.prems by (simp add: list.pred_map comp_def)
    show ?thesis
    proof (cases "e_status e = EvPending")
      case True
      with rest show ?thesis by (intro exI [of _ "[]"] exI [of _ "e # evs"]) simp
    next
      case other: False
      with False have "e_status e = EvProcessing \<or> e_status e = EvBlocked"
        by (cases "e_status e") auto
      with rest show ?thesis
        by (intro exI [of _ "[]"] exI [of _ "[e]"] exI [of _ evs]) simp
    qed
  qed
qed

text \<open>A claim that was given up, one way or another, does not pass the lock again.\<close>

lemma released_session:
  assumes "t_sessions (strip db') = row_update (\<lambda>s. s_id s = c_session_id claim) f
      (t_sessions (strip db))"
    and "lock_valid_session_claim now claim db = Inr q"
    and f: "\<And>s. s_id (f s) = s_id s" "\<And>s. s_lease_token (f s) = None"
  shows "lock_valid_session_claim now' claim db' = Inl StaleClaim"
proof -
  obtain h v where "q = (h, v)" by (cases q)
  with assms(2) obtain s where s: "session_of db (c_session_id claim) = Some s"
    by (auto simp: lock_valid_session_claim_Inr)
  obtain s' where s': "session_of db' (c_session_id claim) = Some s'"
    "strip_session s' = f (strip_session s)"
    using session_after [OF assms(1) s f(1)] by blast
  have "s_lease_token s' = None" using strip_session_lease(3) [OF s'(2)] f(2) by simp
  then show ?thesis using lock_valid_session_claim_stale [OF s'(1)] by simp
qed

lemma lock_stale_commit:
  "lock_valid_session_claim (env_clock env 0) claim db = Inl StaleClaim \<Longrightarrow>
     commit_handler_outcome_classified env ack claim oc db = Inl CommitStaleClaim"
  by (simp add: commit_handler_outcome_classified_def commit_body_def Let_def bindR_def)

lemma lock_stale_others:
  assumes "lock_valid_session_claim (env_clock env 0) claim db = Inl StaleClaim"
  shows "record_handler_failure env claim error retry_at blocked db = Inl StaleClaim"
    and "abandon_handler_attempt env claim error retry_at db = Inl StaleClaim"
    and "renew_event_claim env claim lease_for db = Inl StaleClaim"
  using assms
  by (simp_all add: record_handler_failure_def abandon_handler_attempt_def renew_event_claim_def
      bindR_def)



section \<open>Order\<close>

text \<open>
  C1. In every reachable database the events of a session are numbered \<open>1, 2, ...\<close> in the order
  of admission up to the session's counter; handled events come first, then at most one event
  that is in processing or blocked, then pending ones; and the event in processing is the one
  the session's claim names.
\<close>

theorem inbox_in_order:
  assumes "reachable db" and "session_of db i = Some s"
  shows "map e_sequence (session_events db i) = [1..s_next_event_sequence s - 1]
    \<and> (\<exists>hs cs ps. session_events db i = hs @ cs @ ps \<and> length cs \<le> 1
        \<and> list_all (\<lambda>e. e_status e = EvHandled) hs
        \<and> list_all (\<lambda>e. e_status e = EvProcessing \<or> e_status e = EvBlocked) cs
        \<and> list_all (\<lambda>e. e_status e = EvPending) ps)
    \<and> (\<forall>e. e \<in> set (session_events db i) \<longrightarrow>
        (e_status e = EvProcessing) = (s_current_event_id s = Some (e_id e)))"
proof -
  have ok: "session_inbox_ok s (session_events db i)"
    by (rule inbox_ok_session [OF store_okD(1) [OF reachable_ok [OF assms(1)]] assms(2)])
  then have "fifo (map e_status (session_events db i))" by (simp add: session_inbox_ok_def)
  from fifo_three [OF this] ok show ?thesis unfolding session_inbox_ok_def list_all_iff by blast
qed

theorem inbox_in_order_witness:
  "map e_sequence (session_events demo_claimed (Uuid 1))
     = [1..s_next_event_sequence (hd (t_sessions demo_claimed)) - 1]"
proof -
  have "session_of demo_claimed (Uuid 1) = Some (hd (t_sessions demo_claimed))" by code_simp
  from inbox_in_order [OF demo_reachable(3) this] show ?thesis by blast
qed

text \<open>
  C2. A successful claim in a reachable database is of the head of a session's inbox: every
  event before it is handled, every event after it is pending, it is due, processing is enabled
  and no unexpired lease covers the session. The new claim owns the session until its lease
  ends, for the state version and history the session has, as an attempt with a number above
  all earlier ones; and no claim with another token owns it any more.
\<close>

theorem claim_takes_head:
  assumes "reachable db" and "claim_next_event env lease_for db = Inr (Some ce, db')"
  shows "\<exists>s e hs ps. session_of db (s_id s) = Some s
    \<and> session_events db (s_id s) = hs @ e # ps
    \<and> list_all (\<lambda>e. e_status e = EvHandled) hs \<and> list_all (\<lambda>e. e_status e = EvPending) ps
    \<and> (e_status e = EvPending \<or> e_status e = EvProcessing) \<and> e_next_attempt_at e \<le> env_clock env 0
    \<and> s_processing_enabled s \<and> session_free s (env_clock env 0)
    \<and> claim_of ce = \<lparr>c_session_id = s_id s, c_event_id = e_id e, c_attempt_id = env_uuid env 1,
        c_lease_token = env_uuid env 0, c_input_state_version = s_state_version s\<rparr>
    \<and> list_all (\<lambda>a. a_event_id a = e_id e \<longrightarrow> a_number a < ce_attempt_number ce) (t_attempts db)
    \<and> (\<forall>now. now < env_clock env 1 + 1000 * int lease_for \<longrightarrow>
         lock_valid_session_claim now (claim_of ce) db'
           = Inr (s_next_history_sequence s, s_state_version s))
    \<and> (\<forall>now old. c_session_id old = s_id s \<and> c_lease_token old \<noteq> env_uuid env 0 \<longrightarrow>
         lock_valid_session_claim now old db' = Inl StaleClaim)"
proof -
  have ok: "inbox_ok db" by (rule store_okD(1) [OF reachable_ok [OF assms(1)]])
  obtain s e hs ps where s: "session_of db (s_id s) = Some s"
    and split: "session_events db (s_id s) = hs @ e # ps"
      "list_all (\<lambda>e. e_status e = EvHandled) hs" "list_all (\<lambda>e. e_status e = EvPending) ps"
      "e_status e = EvPending \<or> e_status e = EvProcessing" "e_next_attempt_at e \<le> env_clock env 0"
      "s_processing_enabled s" "session_free s (env_clock env 0)"
    and claim: "claim_event_at env lease_for (s_id s) (e_id e) db = Inr (ce, db')"
    using claimed_head [OF assms(2) ok] by blast
  obtain s' where s': "session_of db' (s_id s) = Some s'"
    and eq: "strip_session s' = strip_session s\<lparr>s_current_event_id := Some (e_id e),
        s_lease_token := Some (env_uuid env 0),
        s_lease_expires_at := Some (add_millis (env_clock env 1) (int lease_for)),
        s_updated_at := env_now env\<rparr>"
    using claimed_session [OF claim] s by auto
  note lease = strip_session_lease [OF eq, simplified]
  have claim_of: "claim_of ce = \<lparr>c_session_id = s_id s, c_event_id = e_id e,
      c_attempt_id = env_uuid env 1, c_lease_token = env_uuid env 0,
      c_input_state_version = s_state_version s\<rparr>"
    by (rule claim_of_claimed [OF claim s])
  have numbers: "list_all (\<lambda>a. a_event_id a = e_id e \<longrightarrow> a_number a < ce_attempt_number ce)
      (t_attempts db)"
    by (rule claim_numbers [OF claim])
  have held: "lock_valid_session_claim now (claim_of ce) db'
      = Inr (s_next_history_sequence s, s_state_version s)"
    if "now < env_clock env 1 + 1000 * int lease_for" for now
    using that s' lease by (simp add: lock_valid_session_claim_holds claim_of add_millis_def)
  have fenced: "lock_valid_session_claim now old db' = Inl StaleClaim"
    if "c_session_id old = s_id s" and "c_lease_token old \<noteq> env_uuid env 0" for now old
    by (rule lock_valid_session_claim_stale) (use that s' lease in \<open>auto\<close>)
  show ?thesis using s split claim_of numbers held fenced by blast
qed

theorem claim_takes_head_witness:
  "\<exists>s. session_of demo_admitted (s_id s) = Some s \<and> s_processing_enabled s
     \<and> c_session_id demo_claim = s_id s"
proof -
  obtain s where "session_of demo_admitted (s_id s) = Some s" "s_processing_enabled s"
    "c_session_id (claim_of demo_claimed_event) = s_id s"
    using claim_takes_head [OF demo_reachable(2) demo_claiming]
    by (elim exE conjE) (simp only: handler_claim.simps)
  then show ?thesis unfolding demo_claim_of by blast
qed

section \<open>Giving up a claim\<close>

lemma commit_body_releases:
  assumes "commit_body env claim oc db = Inr db'"
  shows "lock_valid_session_claim now claim db' = Inl StaleClaim"
proof -
  obtain s es where step: "commit_step env claim oc s es db db'"
    using commit_body_effect [OF assms] by blast
  show ?thesis
    by (rule released_session [OF commit_step_tables(2) [OF step] commit_stepD(1) [OF step]])
      (simp_all add: committed_session_def)
qed

lemma record_handler_failure_releases:
  assumes "record_handler_failure env claim error retry_at blocked db = Inr db'"
  shows "lock_valid_session_claim now claim db' = Inl StaleClaim"
proof -
  note eff = record_handler_failure_effect [OF assms]
  then obtain h v where lock: "lock_valid_session_claim (env_clock env 0) claim db = Inr (h, v)"
    by blast
  show ?thesis
    by (rule released_session [OF _ lock, where f = "\<lambda>s. if blocked
               then s\<lparr>s_processing_enabled := False, s_processing_error := Some error,
                      s_processing_revision := s_processing_revision s + 1,
                      s_current_event_id := None, s_lease_token := None,
                      s_lease_expires_at := None, s_updated_at := env_now env\<rparr>
               else s\<lparr>s_current_event_id := None, s_lease_token := None,
                      s_lease_expires_at := None, s_updated_at := env_now env\<rparr>"])
      (simp_all add: eff [THEN conjunct2])
qed

lemma abandon_handler_attempt_releases:
  assumes "abandon_handler_attempt env claim error retry_at db = Inr db'"
  shows "lock_valid_session_claim now claim db' = Inl StaleClaim"
proof -
  note eff = abandon_handler_attempt_effect [OF assms]
  then obtain h v where lock: "lock_valid_session_claim (env_clock env 0) claim db = Inr (h, v)"
    by blast
  show ?thesis
    by (rule released_session [OF _ lock, where f = "\<lambda>s. s\<lparr>s_current_event_id := None,
          s_lease_token := None, s_lease_expires_at := None, s_updated_at := env_now env\<rparr>"])
      (simp_all add: eff [THEN conjunct2])
qed

text \<open>
  C3. A claim is good for one outcome: once it has committed, recorded a failure or been
  abandoned, every further use of it - commit, failure, abandonment or renewal, at any time and
  with any arguments - is refused as stale.
\<close>

theorem claim_spent_once:
  assumes "commit_body env claim oc db = Inr db'
    \<or> record_handler_failure env claim error retry_at blocked db = Inr db'
    \<or> abandon_handler_attempt env claim error retry_at db = Inr db'"
  shows "commit_handler_outcome_classified env' ack claim oc' db' = Inl CommitStaleClaim
    \<and> record_handler_failure env' claim error' retry_at' blocked' db' = Inl StaleClaim
    \<and> abandon_handler_attempt env' claim error' retry_at' db' = Inl StaleClaim
    \<and> renew_event_claim env' claim lease_for db' = Inl StaleClaim"
proof -
  have "lock_valid_session_claim (env_clock env' 0) claim db' = Inl StaleClaim"
    using assms by (elim disjE) (erule commit_body_releases record_handler_failure_releases
      abandon_handler_attempt_releases)+
  then show ?thesis using lock_stale_commit lock_stale_others by blast
qed

theorem claim_spent_once_witness:
  "commit_handler_outcome_classified (demo_env 50 500) None demo_claim demo_outcome demo_handled
     = Inl CommitStaleClaim"
  using claim_spent_once [OF disjI1 [OF demo_commit]] by blast

section \<open>Committing\<close>



section \<open>Idempotent admission\<close>

lemma find_append:
  "List.find p (xs @ ys) = (case List.find p xs of None \<Rightarrow> List.find p ys | Some x \<Rightarrow> Some x)"
  by (induction xs) auto

lemma session_after_exists:
  assumes "t_sessions (strip db') = row_update p f (t_sessions (strip db))"
    and "session_of db i \<noteq> None" and "\<And>s. s_id (f s) = s_id s"
  shows "session_of db' i \<noteq> None"
proof -
  have "session_of (strip db') i \<noteq> None"
    using assms session_of_strip [of db i] by (simp add: session_of_def row_by_update)
  then show ?thesis by (simp add: session_of_strip)
qed

lemma enqueue_replay:
  assumes "session_of db (x_session_id x) \<noteq> None" and "x_key x = Some key"
    and "x_type x = EvUserMessage \<or> x_type x = EvCancellationRequested"
    and "idempotent_event db (x_session_id x) (x_type x) key = Some e"
  shows "enqueue_external_event env x db =
    (if e_request_hash e = Some (fingerprint env (x_payload x)) then Inr (Existing e, db)
     else Inl IdempotencyConflict)"
  using assms
  by (auto simp: enqueue_external_event_def lock_session_sequence_def Let_def)

lemma enqueue_stored:
  assumes "enqueue_external_event env x db = Inr (res, db')" and key: "x_key x = Some key"
  shows "\<exists>e. idempotent_event db' (x_session_id x) (x_type x) key = Some e
    \<and> e_request_hash e = Some (fingerprint env (x_payload x))
    \<and> (res = Inserted e \<or> res = Existing e)"
    and "session_of db' (x_session_id x) \<noteq> None"
    and "x_type x = EvUserMessage \<or> x_type x = EvCancellationRequested"
proof -
  have old: "\<exists>s. session_of db (x_session_id x) = Some s"
    and ty: "x_type x = EvUserMessage \<or> x_type x = EvCancellationRequested"
    using assms
    by (auto simp: enqueue_external_event_def lock_session_sequence_def Let_def result_simps)
  show "x_type x = EvUserMessage \<or> x_type x = EvCancellationRequested" by (rule ty)
  have "(\<exists>e. idempotent_event db' (x_session_id x) (x_type x) key = Some e
      \<and> e_request_hash e = Some (fingerprint env (x_payload x))
      \<and> (res = Inserted e \<or> res = Existing e)) \<and> session_of db' (x_session_id x) \<noteq> None"
  proof (cases "idempotent_event db (x_session_id x) (x_type x) key")
    case (Some e)
    with enqueue_replay [OF _ key ty Some, of env] old assms(1) show ?thesis
      by (auto split: if_splits)
  next
    case None
    from enqueue_effect [OF assms(1)] show ?thesis
    proof (elim disjE exE conjE)
      fix e assume "res = Existing e"
      with assms(1) None key show ?thesis
        by (auto simp: enqueue_external_event_def Let_def result_simps)
    next
      fix s e
      assume e: "e = new_event env (env_uuid env 0) (x_session_id x) (s_next_event_sequence s)
          (x_type x) (RawPayload (x_payload x)) None None (x_key x)
          (map_option (\<lambda>_. fingerprint env (x_payload x)) (x_key x))"
        and res: "res = Inserted e"
        and eq: "strip db' = strip db\<lparr>t_events := t_events db @ [e],
            t_sessions := row_update (\<lambda>s. s_id s = x_session_id x)
              (\<lambda>s. s\<lparr>s_next_event_sequence := s_next_event_sequence s + 1,
                     s_updated_at := env_now env\<rparr>) (t_sessions (strip db))\<rparr>"
      have "t_events db' = t_events db @ [e]" using strip_eqD [OF eq] by simp
      then have "idempotent_event db' (x_session_id x) (x_type x) key = Some e"
        using None key e by (simp add: idempotent_event_def find_append new_event_def)
      moreover have "session_of db' (x_session_id x) \<noteq> None"
        by (rule session_after_exists [where p = "\<lambda>s. s_id s = x_session_id x" and
            f = "\<lambda>s. s\<lparr>s_next_event_sequence := s_next_event_sequence s + 1,
              s_updated_at := env_now env\<rparr>"]) (use old in \<open>simp_all add: eq\<close>)
      ultimately show ?thesis using res e key by (simp add: new_event_def)
    qed
  qed
  then show "\<exists>e. idempotent_event db' (x_session_id x) (x_type x) key = Some e
      \<and> e_request_hash e = Some (fingerprint env (x_payload x))
      \<and> (res = Inserted e \<or> res = Existing e)" and "session_of db' (x_session_id x) \<noteq> None"
    by blast+
qed

text \<open>
  C14. Admitting an external event with an idempotency key once is admitting it any number of
  times: repeating the request - whatever the clock and the identifiers drawn - returns the
  event already stored and changes nothing, and a request that reuses the key for a payload
  with another fingerprint is refused, and changes nothing either.
\<close>

theorem admission_idempotent:
  assumes "enqueue_external_event env x db = Inr (res, db')" and "x_key x = Some key"
    and "env_sha256 env' = env_sha256 env"
  shows "\<exists>e. (res = Inserted e \<or> res = Existing e)
    \<and> enqueue_external_event env' x db' = Inr (Existing e, db')
    \<and> (\<forall>payload. env_sha256 env payload \<noteq> env_sha256 env (x_payload x) \<longrightarrow>
        enqueue_external_event env' (x\<lparr>x_payload := payload\<rparr>) db' = Inl IdempotencyConflict)"
proof -
  note stored = enqueue_stored [OF assms(1,2)]
  obtain e where e: "idempotent_event db' (x_session_id x) (x_type x) key = Some e"
    "e_request_hash e = Some (fingerprint env (x_payload x))" "res = Inserted e \<or> res = Existing e"
    using stored(1) by blast
  have "fingerprint env' = fingerprint env" using assms(3) by (simp add: fingerprint_def fun_eq_iff)
  then have "enqueue_external_event env' x db' = Inr (Existing e, db')"
    using enqueue_replay [OF stored(2) assms(2) stored(3) e(1)] e(2) by simp
  moreover have "enqueue_external_event env' (x\<lparr>x_payload := payload\<rparr>) db' = Inl IdempotencyConflict"
    if "env_sha256 env payload \<noteq> env_sha256 env (x_payload x)" for payload
    using enqueue_replay [of db' "x\<lparr>x_payload := payload\<rparr>" key e env'] stored(2,3) assms(2,3) e that
    by (simp add: fingerprint_def)
  ultimately show ?thesis using e(3) by blast
qed

theorem admission_idempotent_witness:
  "enqueue_external_event (demo_env 90 900) demo_input demo_admitted
     = Inr (Existing demo_e, demo_admitted)"
  using admission_idempotent [OF demo_enqueue, of "''k''" "demo_env 90 900"]
  by (auto simp: demo_input_def demo_env_def)

section \<open>Blocking and retry\<close>

lemma errored_attempts_table:
  "t_attempts db' = t_attempts db \<Longrightarrow> errored_attempts i db' = errored_attempts i db"
  by (simp add: errored_attempts_def)

lemma retry_stored:
  assumes "retry_blocked_event env sid eid revision key request reason db = Inr (res, db')"
  shows "(\<exists>p. retry_row_of db' sid key = Some p \<and> p_request_hash p = fingerprint env request
      \<and> res = \<lparr>pr_session_id = sid, pr_event_id = p_event_id p, pr_revision = p_revision p,
               pr_retried_at = p_created_at p\<rparr>) \<and> session_of db' sid \<noteq> None"
proof (cases "retry_row_of db sid key")
  case (Some p)
  with assms show ?thesis by (simp add: retry_blocked_event_replay)
next
  case None
  let ?p = "\<lparr>p_id = env_uuid env 0, p_session_id = sid, p_key = key,
          p_request_hash = fingerprint env request, p_event_id = eid,
          p_expected_revision = revision, p_revision = revision + 1,
          p_reason = reason, p_created_at = env_now env\<rparr>"
  let ?f = "\<lambda>s. s\<lparr>s_processing_enabled := True, s_processing_error := None,
                 s_processing_revision := revision + 1, s_updated_at := env_now env\<rparr>"
  have eff: "(\<exists>s. session_of db sid = Some s) \<and> t_retries db' = t_retries db @ [?p]
      \<and> t_sessions (strip db') = row_update (\<lambda>s. s_id s = sid) ?f (t_sessions (strip db))
      \<and> res = \<lparr>pr_session_id = sid, pr_event_id = eid, pr_revision = revision + 1,
             pr_retried_at = env_now env\<rparr>"
    using retry_blocked_event_effect [OF assms None]
    by (elim exE conjE) (drule strip_eqD, simp)
  have "session_of db' sid \<noteq> None"
    by (rule session_after_exists [where f = ?f]) (use eff in auto)
  moreover have "retry_row_of db' sid key = Some ?p"
    using eff None by (simp add: retry_row_of_def find_append)
  ultimately show ?thesis using eff by simp
qed

lemma retry_fresh:
  assumes "retry_blocked_event env sid eid revision key request reason db = Inr (res, db')"
    and None: "retry_row_of db sid key = None" and ok: "inbox_ok db"
  shows "\<exists>s s' e e'. session_of db sid = Some s \<and> s_processing_revision s = revision
    \<and> \<not> s_processing_enabled s
    \<and> head_event db sid = Some e \<and> e_id e = eid \<and> e_status e = EvBlocked
    \<and> session_of db' sid = Some s' \<and> s_processing_enabled s'
    \<and> s_processing_revision s' = revision + 1 \<and> pr_revision res = revision + 1
    \<and> event_of db' eid = Some e' \<and> e_status e' = EvPending
    \<and> handler_failure_count eid db' = Inr 0"
proof -
  let ?f = "\<lambda>s. s\<lparr>s_processing_enabled := True, s_processing_error := None,
                 s_processing_revision := revision + 1, s_updated_at := env_now env\<rparr>"
  let ?g = "\<lambda>e. e\<lparr>e_status := EvPending, e_next_attempt_at := env_clock env 0,
                 e_last_error := None, e_retry_failure_baseline := errored_attempts eid db\<rparr>"
  from retry_blocked_event_effect [OF assms(1) None] obtain s e where
    s: "session_of db sid = Some s" and head: "head_event db sid = Some e" "e_id e = eid"
      "e_status e = EvBlocked"
    and pre: "\<not> s_processing_enabled s" "s_processing_revision s = revision"
      "pr_revision res = revision + 1"
    and tabs: "t_sessions (strip db') = row_update (\<lambda>s. s_id s = sid) ?f (t_sessions (strip db))"
      "t_events db' = row_update (\<lambda>e. e_id e = eid) ?g (t_events db)"
      "t_attempts db' = t_attempts db"
    by (elim exE conjE) (drule strip_eqD, simp)
  have "e \<in> set (session_events db sid)"
    using head_event_split [OF inbox_ok_session [OF ok s] head(1)] by auto
  then have "e \<in> set (t_events db)" by (simp add: session_events_mem)
  then have e: "event_of db eid = Some e"
    using row_by_distinct [OF inbox_okD(2) [OF ok]] head(2) by (auto simp: event_of_def)
  have e': "event_of db' eid = Some (?g e)" by (rule event_after [OF tabs(2) e]) simp
  obtain s' where s': "session_of db' sid = Some s'" "strip_session s' = ?f (strip_session s)"
    using session_after [OF tabs(1) s] by auto
  note row = strip_session_lease [OF s'(2), simplified]
  show ?thesis
    using s head pre s'(1) row e' errored_attempts_table [OF tabs(3)]
    by (intro exI [of _ s] exI [of _ s'] exI [of _ e] exI [of _ "?g e"])
      (simp add: handler_failure_count_def)
qed

text \<open>
  Retrying a blocked event once is retrying it any number of times: the same request returns
  the same revision and changes nothing; the same key with another request is refused. The
  first retry needs the blocked head of a disabled session at the expected revision, and leaves
  the session enabled at the next revision with a pending event whose failure budget is whole:
  no failure counts against it.
\<close>

theorem retry_idempotent:
  assumes "reachable db"
    and "retry_blocked_event env sid eid revision key request reason db = Inr (res, db')"
    and "env_sha256 env' = env_sha256 env"
  shows "retry_blocked_event env' sid eid' revision' key request reason' db' = Inr (res, db')
    \<and> (\<forall>other. env_sha256 env other \<noteq> env_sha256 env request \<longrightarrow>
        retry_blocked_event env' sid eid' revision' key other reason' db' = Inl IdempotencyConflict)
    \<and> (retry_row_of db sid key = None \<longrightarrow>
        (\<exists>s s' e e'. session_of db sid = Some s \<and> s_processing_revision s = revision
          \<and> \<not> s_processing_enabled s
          \<and> head_event db sid = Some e \<and> e_id e = eid \<and> e_status e = EvBlocked
          \<and> session_of db' sid = Some s' \<and> s_processing_enabled s'
          \<and> s_processing_revision s' = revision + 1 \<and> pr_revision res = revision + 1
          \<and> event_of db' eid = Some e' \<and> e_status e' = EvPending
          \<and> handler_failure_count eid db' = Inr 0))"
proof -
  have fp: "fingerprint env' = fingerprint env"
    using assms(3) by (simp add: fingerprint_def fun_eq_iff)
  have ok: "inbox_ok db" by (rule store_okD(1) [OF reachable_ok [OF assms(1)]])
  have stored: "(\<exists>p. retry_row_of db' sid key = Some p \<and> p_request_hash p = fingerprint env request
      \<and> res = \<lparr>pr_session_id = sid, pr_event_id = p_event_id p, pr_revision = p_revision p,
               pr_retried_at = p_created_at p\<rparr>) \<and> session_of db' sid \<noteq> None"
    by (rule retry_stored [OF assms(2)])
  have again: "retry_blocked_event env' sid eid' revision' key request reason' db' = Inr (res, db')"
    using stored fp by (auto simp: retry_blocked_event_replay)
  have conflict: "retry_blocked_event env' sid eid' revision' key other reason' db'
      = Inl IdempotencyConflict"
    if "env_sha256 env other \<noteq> env_sha256 env request" for other
    using stored that fp by (auto simp: retry_blocked_event_def fingerprint_def)
  show ?thesis using again conflict retry_fresh [OF assms(2) _ ok] by blast
qed

theorem retry_idempotent_witness:
  "\<exists>res db'. retry_blocked_event (demo_env 50 450) (Uuid 1) (Uuid 200) 1 ''r'' ''again'' None
       demo_blocked = Inr (res, db') \<and> handler_failure_count (Uuid 200) db' = Inr 0"
proof -
  let ?r = "retry_blocked_event (demo_env 50 450) (Uuid 1) (Uuid 200) 1 ''r'' ''again'' None demo_blocked"
  have "\<not> isl ?r" by code_simp
  then obtain res db' where run: "?r = Inr (res, db')" by (cases ?r) auto
  have "retry_row_of demo_blocked (Uuid 1) ''r'' = None" by code_simp
  with run show ?thesis using retry_idempotent [OF demo_reachable(5) run refl] by blast
qed




end
