(* ===== verification/StoreGuarantees.thy ===== *)
theory StoreGuarantees
  imports InboxGuarantees
begin

text \<open>
  What the store promises about operations, waits, history, the update log, callbacks and
  retention, over runs of any transactions.
\<close>

section \<open>Outcomes\<close>

text \<open>
  C6. In every reachable database an operation that has ended has exactly one completion event in
  the inbox and one that has not has none; a wait that has ended has exactly one resumption
  event and a pending one none; and no event refers to an operation or wait that does not exist.
\<close>

theorem outcomes_announced_once:
  assumes "reachable db"
  shows "list_all (\<lambda>r. length (filter (\<lambda>e. e_operation_id e = Some (o_id r)) (t_events db))
      = (if op_terminal (o_status r) then 1 else 0)) (t_operations db)
    \<and> list_all (\<lambda>w. length (filter (\<lambda>e. e_wait_id e = Some (w_id w)) (t_events db))
      = (if w_status w = WtPending then 0 else 1)) (t_waits db)
    \<and> list_all (\<lambda>e. opt_ref (\<lambda>i. operation_of db i \<noteq> None) (e_operation_id e)
        \<and> opt_ref (\<lambda>i. wait_of db i \<noteq> None) (e_wait_id e)) (t_events db)"
proof -
  note ok = store_okD(2,3) [OF reachable_ok [OF assms],
      unfolded ops_settled_def waits_settled_def settled_once_def]
  have "operation_of db i \<noteq> None" if "i \<in> o_id ` set (t_operations db)" for i
    using that by (simp add: operation_of_def row_by_None)
  moreover have "wait_of db i \<noteq> None" if "i \<in> w_id ` set (t_waits db)" for i
    using that by (simp add: wait_of_def row_by_None)
  ultimately show ?thesis
    using ok
    by (simp add: list_all_iff op_final_def wait_final_def opt_ref_def split: option.splits)
qed

theorem outcomes_announced_once_witness:
  "list_all (\<lambda>e. opt_ref (\<lambda>i. operation_of demo_handled i \<noteq> None) (e_operation_id e))
     (t_events demo_handled)"
  using outcomes_announced_once [OF demo_reachable(4)] by (simp add: list_all_iff)

text \<open>
  C7. Outcomes are final: however the store goes on from a reachable database, an operation that
  has ended keeps its status and a wait that has ended keeps its status.
\<close>

theorem outcomes_final:
  assumes "reachable db" and "store_run db db'"
  shows "(\<forall>i r. operation_of db i = Some r \<and> op_terminal (o_status r) \<longrightarrow>
        map_option o_status (operation_of db' i) = Some (o_status r))
    \<and> (\<forall>i w. wait_of db i = Some w \<and> w_status w \<noteq> WtPending \<longrightarrow>
        map_option w_status (wait_of db' i) = Some (w_status w))"
proof -
  have ok: "store_ok db" by (rule reachable_ok [OF assms(1)])
  note runs = store_run_ledgers [OF assms(2) ok]
  have "map_option o_status (operation_of db' i) = Some (o_status r)"
    if "operation_of db i = Some r" and "op_terminal (o_status r)" for i r
    using ledger_run_final [OF runs [THEN conjunct1], of i r "o_status r"] store_okD(6) [OF ok] that
    by (auto simp: operation_of_def op_final_def split: if_splits)
  moreover have "map_option w_status (wait_of db' i) = Some (w_status w)"
    if "wait_of db i = Some w" and "w_status w \<noteq> WtPending" for i w
    using ledger_run_final [OF runs [THEN conjunct2], of i w "w_status w"] store_okD(7) [OF ok] that
    by (auto simp: wait_of_def wait_final_def split: if_splits)
  ultimately show ?thesis by blast
qed

theorem outcomes_final_witness:
  "\<exists>db. store_run demo_handled db \<and> map_option w_status (wait_of db (Uuid 8)) = Some WtExpired"
proof -
  let ?r = "expire_wait (demo_env 6000 1300) (Uuid 8) demo_handled"
  have "\<not> isl ?r" and ended: "map_option w_status (wait_of (snd (projr ?r)) (Uuid 8)) = Some WtExpired"
    by code_simp+
  then obtain ev db where run: "?r = Inr (ev, db)" by (cases ?r) auto
  then have step: "store_step demo_handled db" by (rule store_step.expire)
  then have there: "reachable db" by (rule reachable_run [OF demo_reachable(4) r_into_rtranclp])
  obtain w where w: "wait_of db (Uuid 8) = Some w" "w_status w = WtExpired"
    using ended run by auto
  with outcomes_final [OF there rtranclp.rtrancl_refl]
  have "map_option w_status (wait_of db (Uuid 8)) = Some (w_status w)" by blast
  with step w(2) show ?thesis by (metis r_into_rtranclp)
qed

text \<open>
  C12. A completion is accepted only from the holder of an unexpired lease, with a terminal
  status that fits the claim's phase; it records that status and result, releases the lease, and
  appends the one completion event at the tail of the session's inbox.
\<close>

theorem completion_exact:
  assumes "complete_operation_with_http_status env claim status result error expires http db
    = Inr (e, db')"
  shows "\<exists>r s. operation_of db (k_id claim) = Some r
    \<and> operation_holds r (k_lease_token claim) (env_clock env 0) \<and> \<not> op_terminal (o_status r)
    \<and> op_terminal status \<and> completion_phase_ok (k_phase claim) r status
    \<and> operation_of db' (k_id claim) = Some (completed_row env status result error r)
    \<and> session_of db (k_session claim) = Some s
    \<and> t_events db' = t_events db @ [e] \<and> e_sequence e = s_next_event_sequence s
    \<and> e_operation_id e = Some (k_id claim) \<and> e_status e = EvPending
    \<and> e_payload e = OperationCompletedPayload (k_id claim) (o_kind (k_operation claim)) status
    \<and> (\<forall>i. i \<noteq> k_id claim \<longrightarrow> operation_of db' i = operation_of db i)"
proof -
  from complete_operation_effect [OF assms] obtain current s where
    lock: "lock_valid_operation_claim (env_clock env 0) claim db = Inr current"
    and s: "session_of db (k_session claim) = Some s" and ok: "op_terminal status"
      "completion_phase_ok (k_phase claim) current status"
    and e: "e = operation_event_row env (env_uuid env 0) (k_session claim) (k_id claim)
            (o_kind (k_operation claim)) status (s_next_event_sequence s)"
    and tabs: "t_operations db' = row_update (\<lambda>r. o_id r = k_id claim)
        (completed_row env status result error) (t_operations db)" "t_events db' = t_events db @ [e]"
    by (elim exE conjE) (drule strip_eqD, simp add: appended_event_def)
  have r: "operation_of db (k_id claim) = Some current"
    "operation_holds current (k_lease_token claim) (env_clock env 0)"
    using lock by (simp_all add: lock_valid_operation_claim_holds)
  have "\<not> op_terminal (o_status current)"
    using ok(2) by (auto simp: completion_phase_ok_def split: operation_phase.splits)
  moreover have "operation_of db' (k_id claim) = Some (completed_row env status result error current)"
    and "\<forall>i. i \<noteq> k_id claim \<longrightarrow> operation_of db' i = operation_of db i"
    using r(1) by (simp_all add: operation_of_def tabs row_by_update_key)
  moreover have "e_payload e
      = OperationCompletedPayload (k_id claim) (o_kind (k_operation claim)) status"
    by (simp add: e operation_event_row_def new_event_def)
  ultimately show ?thesis using r s ok tabs(2) e by simp
qed

theorem completion_exact_witness:
  "\<exists>e db'. complete_operation_with_http_status (demo_env 110 1200) demo_retrieval OpSucceeded
       (Some ''result'') None (Some 200) None demo_work = Inr (e, db')
     \<and> e_operation_id e = Some (Uuid 5) \<and> t_events db' = t_events demo_work @ [e]"
proof -
  let ?r = "complete_operation_with_http_status (demo_env 110 1200) demo_retrieval OpSucceeded
    (Some ''result'') None (Some 200) None demo_work"
  obtain e db' where run: "?r = Inr (e, db')"
    using demo_work_runs(1) unfolding complete_operation_def by (cases ?r) auto
  have "k_id demo_retrieval = Uuid 5" by (simp add: demo_retrieval_def demo_op_def)
  then show ?thesis using completion_exact [OF run] run by auto
qed

text \<open>
  C13. A withdrawal cancels its target exactly when nobody has started to submit it - it is
  pending and unclaimed - and then announces the cancellation before the withdrawal's own
  completion; otherwise it leaves the target alone and reports that it did nothing.
\<close>

theorem withdrawal_exact:
  assumes "complete_withdrawal env claim expires db = Inr ((withdrawn, evs), db')"
  shows "\<exists>target. target \<in> set (t_operations db) \<and> o_target (k_operation claim) = Some (o_id target)
    \<and> o_session_id target = k_session claim \<and> withdrawn = withdrawable target
    \<and> t_events db' = t_events db @ evs
    \<and> map e_operation_id evs
        = (if withdrawn then [Some (o_id target), Some (k_id claim)] else [Some (k_id claim)])
    \<and> t_operations db' = row_update (\<lambda>r. o_id r = k_id claim) (withdrawal_row env withdrawn)
        (if withdrawn then row_update (\<lambda>r. o_id r = o_id target) (cancelled_row env)
           (t_operations db) else t_operations db)"
proof -
  obtain current target s where step: "withdrawal_step env claim expires current target s
      (withdrawn, evs) db db'"
    using complete_withdrawal_effect [OF assms] by blast
  note D = withdrawal_stepD [OF step]
  have "o_target (k_operation claim) = Some (o_id target)" "o_session_id target = k_session claim"
    "withdrawn = withdrawable target"
    using step unfolding withdrawal_step_def by blast+
  then show ?thesis
    using D(4,5,8,9)
    by (intro exI [of _ target]) (simp add: withdrawal_operations_def withdrawal_events_def)
qed

theorem withdrawal_exact_witness:
  "\<exists>evs db'. complete_withdrawal (demo_env 110 1200) demo_withdrawal None demo_work
       = Inr ((True, evs), db')
     \<and> map e_operation_id evs = [Some (Uuid 6), Some (Uuid 7)]"
proof -
  let ?r = "complete_withdrawal (demo_env 110 1200) demo_withdrawal None demo_work"
  obtain w evs db' where run: "?r = Inr ((w, evs), db')"
    using demo_work_runs(2) by (cases ?r) auto
  have "fst (fst (projr ?r)) = True" by code_simp
  then have w: "w = True" by (simp add: run)
  from withdrawal_exact [OF run] obtain target :: operation_row where
    "o_target (k_operation demo_withdrawal) = Some (o_id target)"
    "map e_operation_id evs = (if w then [Some (o_id target), Some (k_id demo_withdrawal)]
       else [Some (k_id demo_withdrawal)])"
    by blast
  then have "map e_operation_id evs = [Some (Uuid 6), Some (Uuid 7)]"
    by (simp add: w demo_withdrawal_def demo_withdraw_def demo_op_def)
  with run show ?thesis by (intro exI [of _ evs] exI [of _ db'] conjI) (simp_all add: w)
qed

section \<open>History\<close>

text \<open>
  C16. History is append-only and gap-free: from a reachable database every run of transactions
  only appends entries, and the entries of a session carry the numbers \<open>1, 2, ...\<close> in order up to
  the session's counter.
\<close>

theorem history_append_only:
  assumes "reachable db" and "store_run db db'"
  shows "(\<exists>new. t_history db' = t_history db @ new)
    \<and> (\<forall>i s. session_of db' i = Some s \<longrightarrow>
        map h_sequence (session_history db' i) = [1..s_next_history_sequence s - 1])"
proof -
  have "history_from (t_history db) db"
    using store_okD(4) [OF reachable_ok [OF assms(1)]] by (simp add: history_from_def)
  from store_run_history [OF assms(2) this] have grown: "history_from (t_history db) db'" .
  have "map h_sequence (session_history db' i) = [1..s_next_history_sequence s - 1]"
    if "session_of db' i = Some s" for i s
    using grown session_of_Some [OF that]
    by (auto simp: history_from_def history_ok_def list_all_iff numbered_def session_history_def)
  with grown show ?thesis by (auto simp: history_from_def)
qed

theorem history_append_only_witness:
  "\<exists>new. t_history demo_handled = t_history demo_claimed @ new"
  using history_append_only [OF demo_reachable(3), of demo_handled] store_step.commit [OF demo_commit]
  by blast

section \<open>The update log\<close>

lemma updates_page:
  assumes "reachable db" and "session_of db i = Some s"
    and read: "updates i after_sequence through limit db = Inr page"
  shows "map u_sequence (up_updates page)
      = [after_sequence + 1..min (after_sequence + limit) (up_through_sequence page)]"
    and "up_has_more page = (after_sequence + limit < up_through_sequence page)"
    and "up_through_sequence page
      = (case through of None \<Rightarrow> s_next_update_sequence s - 1 | Some t \<Rightarrow> t)"
    and "after_sequence \<le> up_through_sequence page"
proof -
  have num: "numbered u_session_id u_sequence (t_updates db) i
      (s_retained_update_sequence s) (s_next_update_sequence s)"
    by (rule log_ok_session [OF store_okD(5) [OF reachable_ok [OF assms(1)]] assms(2)])
  let ?t = "case through of None \<Rightarrow> s_next_update_sequence s - 1 | Some t \<Rightarrow> t"
  let ?rows = "top_by u_sequence (limit + 1) (filter (\<lambda>u. u_session_id u = i
      \<and> after_sequence < u_sequence u \<and> u_sequence u \<le> ?t) (t_updates db))"
  have lim: "1 \<le> limit" and kept: "s_retained_update_sequence s - 1 \<le> after_sequence"
    and thr: "after_sequence \<le> ?t" "?t \<le> s_next_update_sequence s - 1"
    and parts: "up_updates page = take (nat limit) ?rows" "up_through_sequence page = ?t"
      "up_has_more page = (nat limit < length ?rows)"
    using read assms(2) by (auto simp: updates_def update_cursor_def result_simps Let_def limit_ok_def)
  let ?all = "[after_sequence + 1..min ?t (after_sequence + 1 + limit)]"
  have "max (s_retained_update_sequence s) (after_sequence + 1) = after_sequence + 1"
    "min ?t (s_next_update_sequence s - 1) = ?t"
    using kept thr by simp_all
  then have rows: "map u_sequence ?rows = ?all"
    using numbered_page [OF num, of "limit + 1" after_sequence ?t] lim by (simp add: algebra_simps)
  have "length ?rows = length ?all" unfolding rows [symmetric] by simp
  then show "up_has_more page = (after_sequence + limit < up_through_sequence page)"
    using lim thr(1) parts(2,3) by (simp only: length_upto) linarith
  have "map u_sequence (take (nat limit) ?rows) = take (nat limit) ?all"
    unfolding take_map [symmetric] rows ..
  also have "\<dots> = [after_sequence + 1..min (min ?t (after_sequence + 1 + limit))
      (after_sequence + 1 + limit - 1)]"
    using lim by (intro take_upto) simp
  also have "min (min ?t (after_sequence + 1 + limit)) (after_sequence + 1 + limit - 1)
      = min (after_sequence + limit) ?t"
    by linarith
  finally show "map u_sequence (up_updates page)
      = [after_sequence + 1..min (after_sequence + limit) (up_through_sequence page)]"
    using parts by simp
  show "up_through_sequence page = ?t" and "after_sequence \<le> up_through_sequence page"
    using parts(2) thr(1) by simp_all
qed

text \<open>
  C21. Reading the update log never skips an update silently: in a reachable database a page read
  after a cursor holds exactly the updates with the next numbers, in order and without a gap, up
  to the page limit or the requested end, and says whether more follow; and a cursor behind what
  retention has deleted is refused with an error of its own.
\<close>

theorem update_pages_contiguous:
  assumes "reachable db" and "session_of db i = Some s" and "0 \<le> after_sequence" and "limit_ok limit"
  shows "(after_sequence < s_retained_update_sequence s - 1 \<longrightarrow>
      updates i after_sequence through limit db = Inl UpdateCursorExpired)
    \<and> (\<forall>page. updates i after_sequence through limit db = Inr page \<longrightarrow>
        map u_sequence (up_updates page)
          = [after_sequence + 1..min (after_sequence + limit) (up_through_sequence page)]
        \<and> up_has_more page = (after_sequence + limit < up_through_sequence page)
        \<and> up_through_sequence page
            = (case through of None \<Rightarrow> s_next_update_sequence s - 1 | Some t \<Rightarrow> t))"
proof -
  have "updates i after_sequence through limit db = Inl UpdateCursorExpired"
    if "after_sequence < s_retained_update_sequence s - 1"
    using that assms(2-4) by (simp add: updates_def update_cursor_def guardR_def bindR_def)
  moreover note updates_page [OF assms(1,2)]
  ultimately show ?thesis by blast
qed

theorem update_pages_contiguous_witness:
  "map u_sequence (up_updates (projr (updates (Uuid 1) 0 None 1 demo_claimed))) = [0 + 1..min (0 + 1) 2]"
proof -
  have s: "session_of demo_claimed (Uuid 1) = Some (hd (t_sessions demo_claimed))" by code_simp
  have "\<not> isl (updates (Uuid 1) 0 None 1 demo_claimed)" by code_simp
  then obtain page where page: "updates (Uuid 1) 0 None 1 demo_claimed = Inr page"
    by (cases "updates (Uuid 1) 0 None 1 demo_claimed") auto
  have "s_next_update_sequence (hd (t_sessions demo_claimed)) = 3" by code_simp
  then show ?thesis
    using update_pages_contiguous [OF demo_reachable(3) s, of 0 1 None] page
    by (simp add: limit_ok_def)
qed

end
