(* ===== verification/ServiceGuarantees.thy ===== *)
theory ServiceGuarantees
  imports StoreGuarantees
begin

text \<open>
  What the store promises to the workers and readers around it: callbacks recorded once that
  only wake operations up, retention that only removes what has expired, scans and pages that
  miss nothing, and the classification of commit errors.
\<close>

section \<open>Callbacks\<close>

lemma receipt_stored:
  assumes "record_callback_receipt env connection gateway_event job payload db = Inr (g, db')"
  shows "receipt_for db' connection gateway_event = Some g"
    and "g_job_id g = job \<and> g_payload g = payload"
    and "list_ex (\<lambda>q. g_connection q = connection \<and> g_event_id q = gateway_event) (t_receipts db')"
proof -
  let ?n = "new_receipt env connection gateway_event job payload"
  obtain b where ins: "insert_receipt ?n db = Inr (b, db')"
    and g: "receipt_for db' connection gateway_event = Some g"
    and agree: "b \<or> g_job_id g = job \<and> g_payload g = payload"
    using assms by (auto simp: record_callback_receipt_def result_simps)
  show "receipt_for db' connection gateway_event = Some g" by (rule g)
  show "list_ex (\<lambda>q. g_connection q = connection \<and> g_event_id q = gateway_event) (t_receipts db')"
    using g by (auto simp: receipt_for_def find_Some_iff list_ex_iff)
  have "g = ?n" if b
  proof -
    have db': "db' = db\<lparr>t_receipts := t_receipts db @ [?n]\<rparr>"
      using insert_receipt_Inr [OF ins] that by simp
    have "\<not> list_ex (\<lambda>q. g_connection q = connection \<and> g_event_id q = gateway_event) (t_receipts db)"
      using ins that by (auto simp: insert_receipt_def new_receipt_def split: if_splits)
    then have "List.find (\<lambda>q. g_connection q = connection \<and> g_event_id q = gateway_event)
        (t_receipts db) = None"
      by (auto simp: find_None_iff list_ex_iff)
    then show ?thesis
      using g by (simp add: receipt_for_def db' find_append new_receipt_def)
  qed
  with agree show "g_job_id g = job \<and> g_payload g = payload" by (auto simp: new_receipt_def)
qed

text \<open>
  C24. A gateway callback is recorded once: delivering it again, at any time, returns the stored
  receipt and changes nothing, and a delivery under the same gateway event with another job or
  payload is refused.
\<close>

theorem callback_recorded_once:
  assumes "record_callback_receipt env connection gateway_event job payload db = Inr (g, db')"
  shows "record_callback_receipt env' connection gateway_event job payload db' = Inr (g, db')
    \<and> (\<forall>job' payload'. (job', payload') \<noteq> (job, payload) \<longrightarrow>
        record_callback_receipt env' connection gateway_event job' payload' db'
          = Inl IdempotencyConflict)"
proof -
  note stored = receipt_stored [OF assms]
  have "insert_receipt (new_receipt env' connection gateway_event j p) db' = Inr (False, db')" for j p
    using stored(3) by (simp add: insert_receipt_def new_receipt_def receipt_check_def)
  then show ?thesis using stored(1,2) by (auto simp: record_callback_receipt_def)
qed

theorem callback_recorded_once_witness:
  "\<exists>g db'. record_callback_receipt (demo_env 70 701) ''llm'' (Uuid 73) (Uuid 71) ''ok'' demo_work
       = Inr (g, db')
     \<and> record_callback_receipt (demo_env 90 990) ''llm'' (Uuid 73) (Uuid 71) ''ok'' db' = Inr (g, db')"
proof -
  let ?r = "record_callback_receipt (demo_env 70 701) ''llm'' (Uuid 73) (Uuid 71) ''ok'' demo_work"
  have "\<not> isl ?r" by code_simp
  then obtain g db' where run: "?r = Inr (g, db')" by (cases ?r) auto
  from callback_recorded_once [OF run, of "demo_env 90 990"] run show ?thesis
    by (intro exI [of _ g] exI [of _ db']) blast
qed

text \<open>
  Completing a callback only wakes its operation up: the result check of an accepted
  operation matched to the receipt moves to now at the latest and never later, nothing else of
  any operation changes, no event is appended, and the receipt is processed for good.
\<close>

theorem callback_only_wakes:
  assumes "complete_callback_receipt env claim db = Inr db'"
  shows "\<exists>g. receipt_of db (kr_id claim) = Some g
    \<and> receipt_holds g (kr_lease_token claim) (env_clock env 0)
    \<and> map_option g_status (receipt_of db' (kr_id claim)) = Some RcProcessed
    \<and> t_operations db' = map (\<lambda>r. if g_operation_id g = Some (o_id r) \<and> o_status r = OpAccepted
          then r\<lparr>o_next_attempt_at := min (o_next_attempt_at r) (env_clock env 1)\<rparr> else r)
        (t_operations db)
    \<and> t_events db' = t_events db \<and> t_sessions db' = t_sessions db \<and> t_updates db' = t_updates db
    \<and> (\<forall>now. \<not> list_ex (\<lambda>q. g_id q = kr_id claim \<and> receipt_claimable now q) (t_receipts db'))"
proof -
  obtain g where lock: "lock_valid_callback_claim (env_clock env 0) claim db = Inr g"
    and db': "db' = db\<lparr>
         t_operations := row_update
           (\<lambda>r. g_operation_id g = Some (o_id r) \<and> o_status r = OpAccepted)
           (\<lambda>r. r\<lparr>o_next_attempt_at := min (o_next_attempt_at r) (env_clock env 1)\<rparr>)
           (t_operations db),
         t_receipts := row_update (\<lambda>r. g_id r = kr_id claim)
           (\<lambda>r. r\<lparr>g_status := RcProcessed, g_processed_at := Some (env_now env),
                  g_lease_token := None, g_lease_expires_at := None\<rparr>) (t_receipts db)\<rparr>"
    using complete_callback_receipt_Inr [OF assms] by blast
  have g: "receipt_of db (kr_id claim) = Some g"
    "receipt_holds g (kr_lease_token claim) (env_clock env 0)"
    using lock by (simp_all add: lock_valid_callback_claim_holds)
  then have "map_option g_status (receipt_of db' (kr_id claim)) = Some RcProcessed"
    by (simp add: db' receipt_of_def row_by_update_key)
  moreover have "\<not> list_ex (\<lambda>q. g_id q = kr_id claim \<and> receipt_claimable now q) (t_receipts db')"
    for now
    by (auto simp: db' list_ex_iff row_update_def receipt_claimable_def)
  ultimately show ?thesis using g by (simp add: db' row_update_def)
qed

theorem callback_only_wakes_witness:
  "\<exists>db'. complete_callback_receipt (demo_env 90 900) demo_receipt demo_work = Inr db'
     \<and> t_events db' = t_events demo_work"
proof -
  obtain db' where run: "complete_callback_receipt (demo_env 90 900) demo_receipt demo_work = Inr db'"
    using demo_work_runs(5)
    by (cases "complete_callback_receipt (demo_env 90 900) demo_receipt demo_work") auto
  with callback_only_wakes [OF run] show ?thesis by blast
qed

section \<open>Retention\<close>

lemma request_eligibleD:
  assumes "request_eligible now db i"
  shows "\<exists>q r t. q \<in> set (t_requests db) \<and> r_operation_id q = i \<and> r_expires_at q = Some t \<and> t \<le> now
    \<and> operation_of db i = Some r \<and> op_terminal (o_status r)"
proof -
  obtain q where q: "q \<in> set (t_requests db)" "r_operation_id q = i" "expired_at now db q \<noteq> None"
    using assms by (auto simp: request_eligible_def list_ex_iff)
  obtain t r where "r_expires_at q = Some t" "operation_of db i = Some r" "t \<le> now"
    "op_terminal (o_status r)"
    using q(2,3)
    by (cases "r_expires_at q"; cases "operation_of db i")
      (simp_all add: expired_at_def split: if_splits)
  with q show ?thesis by blast
qed

text \<open>
  C25. A request body is deleted only once its retention deadline has passed and its operation
  has ended; the deletion removes that body alone, marks the operation, and leaves the
  operation's status, result and events as they are.
\<close>

theorem request_deletion_safe:
  assumes "delete_expired_operation_request env i db = Inr (gone, db')"
  shows "(\<not> gone \<longrightarrow> db' = db)
    \<and> (gone \<longrightarrow> (\<exists>q r t. q \<in> set (t_requests db) \<and> r_operation_id q = i
        \<and> r_expires_at q = Some t \<and> t \<le> env_clock env 0
        \<and> operation_of db i = Some r \<and> op_terminal (o_status r)
        \<and> t_requests db' = filter (\<lambda>q. r_operation_id q \<noteq> i) (t_requests db)
        \<and> operation_of db' i = Some (r\<lparr>o_request_removed_at := Some (env_clock env 1)\<rparr>)
        \<and> (\<forall>j. j \<noteq> i \<longrightarrow> operation_of db' j = operation_of db j)
        \<and> t_events db' = t_events db))"
proof (cases gone)
  case False
  with assms show ?thesis
    by (auto simp: delete_expired_operation_request_def Let_def result_simps
        split: option.splits if_splits)
next
  case True
  then obtain sid where elig: "request_eligible (env_clock env 0) db i"
    and rem: "remove_request env (env_clock env 1) sid i db = Inr db'"
    using assms
    by (auto simp: delete_expired_operation_request_def Let_def result_simps
        split: option.splits if_splits)
  have tabs: "t_requests db' = filter (\<lambda>q. r_operation_id q \<noteq> i) (t_requests db)"
    "t_operations db' = row_update (\<lambda>r. o_id r = i)
       (\<lambda>r. r\<lparr>o_request_removed_at := Some (env_clock env 1)\<rparr>) (t_operations db)"
    "t_events db' = t_events db"
    using strip_eqD [OF remove_request_Inr [OF rem]] by simp_all
  have "operation_of db' j = (if j = i then map_option
      (\<lambda>r. r\<lparr>o_request_removed_at := Some (env_clock env 1)\<rparr>) (operation_of db i) else operation_of db j)"
    for j
    by (simp add: operation_of_def tabs(2) row_by_update_key)
  with request_eligibleD [OF elig] tabs True show ?thesis by auto
qed

theorem request_deletion_safe_witness:
  "delete_expired_operation_request (demo_env 300 1600) (Uuid 5) demo_work = Inr (False, demo_work)"
proof -
  let ?r = "delete_expired_operation_request (demo_env 300 1600) (Uuid 5) demo_work"
  have "\<not> isl ?r \<and> \<not> fst (projr ?r)" by code_simp
  then obtain db' where run: "?r = Inr (False, db')" by (cases ?r) auto
  with request_deletion_safe [OF run] show ?thesis by simp
qed

section \<open>Scans and pages\<close>

lemma sorted_take_drop:
  assumes "sorted (map k xs)" and "distinct (map k xs)" and "x \<in> set (take n xs)" and "y \<in> set (drop n xs)"
  shows "k x < k y"
proof -
  have "map k xs = map k (take n xs) @ map k (drop n xs)" by (simp flip: map_append)
  with assms have "k x \<le> k y" "k x \<noteq> k y" by (auto simp: sorted_append)
  then show ?thesis by simp
qed

lemma distinct_sort_key: "distinct (map k rows) \<Longrightarrow> distinct (map k (sort_key k rows))"
  by (simp add: distinct_map)

text \<open>What a page with a cursor contains.\<close>

lemma page_of_exact:
  fixes key :: "'r \<Rightarrow> 'k::linorder"
  assumes "page_of key cursor limit rows = (page, next)" and d: "distinct (map key rows)"
    and lim: "1 \<le> limit"
  shows "set page = {r \<in> set rows. (case cursor of None \<Rightarrow> True | Some c \<Rightarrow> key r < c)
      \<and> (case next of None \<Rightarrow> True | Some c \<Rightarrow> c \<le> key r)}"
    and "sorted (rev (map key page))" and "int (length page) \<le> limit"
    and "next \<noteq> None \<Longrightarrow> int (length page) = limit"
proof -
  let ?sel = "filter (\<lambda>r. case cursor of None \<Rightarrow> True | Some c \<Rightarrow> key r < c) rows"
  let ?all = "rev (sort_key key ?sel)"
  let ?n = "nat limit"
  have dist: "distinct (map key ?all)"
    using d by (auto simp: distinct_map rev_map [symmetric] intro: inj_on_subset)
  have desc: "sorted (map key (rev ?all))" by simp
  have found: "top_desc key (limit + 1) ?sel = take (Suc ?n) ?all"
    using lim by (simp add: top_desc_def nat_add_distrib)
  have page: "page = take ?n ?all"
    and nxt: "next = (if ?n < length ?all then Some (key (last page)) else None)"
    using assms(1) by (auto simp: page_of_def found Let_def min_def split: if_splits)
  have sorted_page: "sorted (rev (map key page))"
    using sorted_wrt_drop [OF desc, of "length ?all - ?n"]
    by (simp add: page rev_map rev_take drop_map)
  have below: "key y < key x" if "x \<in> set page" "y \<in> set (drop ?n ?all)" for x y
  proof -
    have "x \<in> set (drop (length ?all - ?n) (rev ?all))" "y \<in> set (take (length ?all - ?n) (rev ?all))"
      using that by (simp_all add: page drop_rev take_rev)
    then show ?thesis using sorted_take_drop [OF desc] dist by (simp add: rev_map [symmetric])
  qed
  have split: "set ?sel = set page \<union> set (drop ?n ?all)"
    unfolding page set_append [symmetric] by simp
  have least: "key (last page) \<le> key x" if "x \<in> set page" for x
    using sorted_page that by (cases page rule: rev_cases) (auto simp: sorted_append)
  show "sorted (rev (map key page))" by (rule sorted_page)
  show "int (length page) \<le> limit" using lim by (simp add: page)
  show "next \<noteq> None \<Longrightarrow> int (length page) = limit" using lim nxt by (simp add: page split: if_splits)
  show "set page = {r \<in> set rows. (case cursor of None \<Rightarrow> True | Some c \<Rightarrow> key r < c)
      \<and> (case next of None \<Rightarrow> True | Some c \<Rightarrow> c \<le> key r)}"
  proof (cases "?n < length ?all")
    case False
    then have "page = ?all" by (simp add: page)
    then have "set page = set ?sel" by simp
    with False nxt show ?thesis by auto
  next
    case True
    then have "0 < length page" using lim by (simp add: page)
    then have "page \<noteq> []" by simp
    then have "last page \<in> set page" by simp
    with below have "key y < key (last page)" if "y \<in> set (drop ?n ?all)" for y using that by blast
    then have "set page = {r \<in> set ?sel. key (last page) \<le> key r}"
      using split least by (auto simp: not_le [symmetric])
    with True nxt show ?thesis by auto
  qed
qed

text \<open>The rows a session filter selects, and the order of pages.\<close>

definition session_matches :: "session_filter \<Rightarrow> session_row \<Rightarrow> bool" where
  "session_matches f s \<longleftrightarrow> (case sf_project_id f of None \<Rightarrow> True | Some p \<Rightarrow> s_project_id s = p)
     \<and> (case sf_status f of None \<Rightarrow> True | Some st \<Rightarrow> s_status s = st)
     \<and> (case sf_harness_id f of None \<Rightarrow> True | Some h \<Rightarrow> s_harness_id s = h)"

abbreviation session_key :: "session_row \<Rightarrow> time \<times> session_id" where
  "session_key s \<equiv> (s_created_at s, s_id s)"

text \<open>
  Listing sessions page by page misses none and repeats none: in a reachable database a page
  is in descending order of creation, within the limit, and holds exactly the matching sessions
  below the given cursor and not below the cursor it returns; when it returns no cursor nothing
  is left.
\<close>

theorem session_pages_exact:
  assumes "reachable db" and "list_sessions f db = Inr (page, next)"
  shows "set (map fst page) = {s \<in> set (t_sessions db). session_matches f s
      \<and> (case sf_cursor f of None \<Rightarrow> True | Some c \<Rightarrow> session_key s < c)
      \<and> (case next of None \<Rightarrow> True | Some c \<Rightarrow> c \<le> session_key s)}
    \<and> sorted (rev (map (session_key \<circ> fst) page))
    \<and> int (length page) \<le> (case sf_limit f of None \<Rightarrow> 50 | Some l \<Rightarrow> l)
    \<and> list_all (\<lambda>(s, b). b = blocked_event db (s_id s)) page"
proof -
  define n where "n = (case sf_limit f of None \<Rightarrow> 50 | Some l \<Rightarrow> l)"
  let ?rows = "filter (session_matches f) (t_sessions db)"
  obtain rows where n: "1 \<le> n" and cut: "page_of session_key (sf_cursor f) n ?rows = (rows, next)"
    and page: "page = map (\<lambda>s. (s, blocked_event db (s_id s))) rows"
    using assms(2)
    by (auto simp: list_sessions_def page_limit_def n_def result_simps Let_def
        session_matches_def [abs_def] split: prod.splits)
  have "distinct (map s_id (t_sessions db))"
    by (rule inbox_okD(1) [OF store_okD(1) [OF reachable_ok [OF assms(1)]]])
  then have "distinct (map session_key ?rows)"
    by (auto simp: distinct_map inj_on_def)
  note P = page_of_exact [OF cut this n]
  have fsts: "map fst page = rows" by (simp add: page comp_def)
  have "sorted (rev (map (session_key \<circ> fst) page))"
    using P(2) by (simp add: page comp_def)
  then show ?thesis
    unfolding fsts using P(1,3) by (auto simp: page list_all_iff n_def)
qed

theorem session_pages_exact_witness:
  "\<exists>page. list_sessions \<lparr>sf_project_id = Some ''p'', sf_status = None, sf_harness_id = None,
       sf_cursor = None, sf_limit = Some 1\<rparr> demo_claimed = Inr (page, None)
     \<and> set (map fst page) = set (t_sessions demo_claimed)"
proof -
  let ?f = "\<lparr>sf_project_id = Some ''p'', sf_status = None, sf_harness_id = None,
    sf_cursor = None, sf_limit = Some 1\<rparr>"
  have "\<not> isl (list_sessions ?f demo_claimed) \<and> snd (projr (list_sessions ?f demo_claimed)) = None"
    by code_simp
  then obtain page where run: "list_sessions ?f demo_claimed = Inr (page, None)"
    by (cases "list_sessions ?f demo_claimed") auto
  have "list_all (session_matches ?f) (t_sessions demo_claimed)" by code_simp
  then have all: "\<And>s. s \<in> set (t_sessions demo_claimed) \<Longrightarrow> session_matches ?f s"
    by (simp only: list_all_iff)
  have "set (map fst page) = {s \<in> set (t_sessions demo_claimed). session_matches ?f s
      \<and> (case sf_cursor ?f of None \<Rightarrow> True | Some c \<Rightarrow> session_key s < c)
      \<and> (case None of None \<Rightarrow> True | Some c \<Rightarrow> c \<le> session_key s)}"
    by (rule session_pages_exact [OF demo_reachable(3) run, THEN conjunct1])
  also have "\<dots> = set (t_sessions demo_claimed)"
    by (rule set_eqI) (simp add: all conj_commute cong: conj_cong)
  finally show ?thesis using run by blast
qed

text \<open>Cutting an ordered selection at a limit.\<close>

lemma top_by_exact:
  fixes key :: "'r \<Rightarrow> 'k::linorder"
  assumes lim: "0 \<le> limit"
  shows "sorted (map key (top_by key limit rows))" and "int (length (top_by key limit rows)) \<le> limit"
    and "r \<in> set rows \<Longrightarrow> r \<notin> set (top_by key limit rows) \<Longrightarrow>
      int (length (top_by key limit rows)) = limit \<and> (\<forall>q \<in> set (top_by key limit rows). key q \<le> key r)"
proof -
  define all where "all = sort_key key rows"
  have page: "top_by key limit rows = take (nat limit) all" by (simp add: top_by_def all_def)
  have sorted: "sorted (map key all)" by (simp add: all_def)
  show "sorted (map key (top_by key limit rows))"
    unfolding page take_map [symmetric] by (rule sorted_wrt_take [OF sorted])
  show "int (length (top_by key limit rows)) \<le> limit" using lim by (simp add: page)
  assume "r \<in> set rows" and "r \<notin> set (top_by key limit rows)"
  then have "r \<in> set all" and "r \<notin> set (take (nat limit) all)" by (simp_all add: all_def page)
  then have mem: "r \<in> set (drop (nat limit) all)" by (metis Un_iff append_take_drop_id set_append)
  then have "nat limit < length all" by (metis drop_all empty_iff empty_set not_le)
  then have "int (length (top_by key limit rows)) = limit" using lim by (simp add: page)
  moreover have "key q \<le> key r" if "q \<in> set (take (nat limit) all)" for q
  proof -
    have "sorted (map key (take (nat limit) all @ drop (nat limit) all))" using sorted by simp
    with that mem show ?thesis unfolding map_append sorted_append by simp
  qed
  ultimately show "int (length (top_by key limit rows)) = limit
      \<and> (\<forall>q \<in> set (top_by key limit rows). key q \<le> key r)"
    by (simp add: page)
qed

lemma due_waits_after_Inr:
  assumes "due_waits_after env after limit db = Inr page"
  shows "page = map wait_key (top_by wait_key limit (filter (\<lambda>w. due_wait (env_clock env 0) w
      \<and> (case after of None \<Rightarrow> True | Some c \<Rightarrow> c < wait_key w)) (t_waits db)))"
    and "1 \<le> limit"
  using assms by (simp_all add: due_waits_after_def result_simps limit_ok_def)

text \<open>
  The expiration worker's scan misses no due wait: a page is in ascending order after the
  cursor, within the limit, and contains only pending waits whose deadline has passed; and a due
  wait after the cursor that is not in it comes after every wait of the page.
\<close>

theorem due_scan_exact:
  assumes "due_waits_after env after limit db = Inr page"
  shows "sorted page \<and> int (length page) \<le> limit
    \<and> (\<forall>x. x \<in> set page \<longrightarrow> (\<exists>w. w \<in> set (t_waits db) \<and> x = wait_key w \<and> due_wait (env_clock env 0) w
        \<and> (case after of None \<Rightarrow> True | Some c \<Rightarrow> c < wait_key w)))
    \<and> (\<forall>w. w \<in> set (t_waits db) \<and> due_wait (env_clock env 0) w
        \<and> (case after of None \<Rightarrow> True | Some c \<Rightarrow> c < wait_key w) \<longrightarrow>
        wait_key w \<in> set page
        \<or> (int (length page) = limit \<and> (\<forall>x. x \<in> set page \<longrightarrow> x \<le> wait_key w)))"
proof -
  define sel where "sel = filter (\<lambda>w. due_wait (env_clock env 0) w
      \<and> (case after of None \<Rightarrow> True | Some c \<Rightarrow> c < wait_key w)) (t_waits db)"
  have page: "page = map wait_key (top_by wait_key limit sel)" and lim: "0 \<le> limit"
    using due_waits_after_Inr [OF assms] by (simp_all add: sel_def)
  have mem: "w \<in> set sel \<longleftrightarrow> w \<in> set (t_waits db) \<and> due_wait (env_clock env 0) w
      \<and> (case after of None \<Rightarrow> True | Some c \<Rightarrow> c < wait_key w)" for w
    unfolding sel_def by simp
  note top = top_by_exact [OF lim, where key = wait_key and rows = sel]
  have sub: "w \<in> set sel" if "w \<in> set (top_by wait_key limit sel)" for w
    using that set_top_by by (rule set_rev_mp)
  have found: "\<exists>w. w \<in> set sel \<and> x = wait_key w" if "x \<in> set page" for x
    using that sub unfolding page by (metis (no_types, lifting) imageE list.set_map)
  have rest: "wait_key w \<in> set page
      \<or> (int (length page) = limit \<and> (\<forall>x. x \<in> set page \<longrightarrow> x \<le> wait_key w))" if "w \<in> set sel" for w
    using top(3) [OF that] unfolding page
    by (metis (no_types, lifting) imageE imageI length_map list.set_map)
  show ?thesis
    using top(1,2) found rest unfolding mem page length_map by blast
qed

theorem due_scan_exact_witness:
  "due_waits_after (demo_env 6000 0) None 10 demo_work = Inr [(5000, Uuid 8)]
     \<and> sorted [(5000 :: int, Uuid 8)]"
proof -
  have "due_waits_after (demo_env 6000 0) None 10 demo_work = Inr [(5000, Uuid 8)]" by code_simp
  with due_scan_exact [OF this] show ?thesis by blast
qed

section \<open>Codecs and errors\<close>

text \<open>
  Every enumeration the store writes as text reads back as itself, and a text that parses is
  the text of the value it parses to.
\<close>

theorem codecs_round_trip:
  "parse_event_type (event_type_str ty) = Some ty
   \<and> parse_operation_status (operation_status_str os) = Some os
   \<and> parse_session_status (session_status_str ss) = Some ss
   \<and> parse_operation_kind (operation_kind_str k) = Some k
   \<and> parse_wait_mode (wait_mode_str m) = Some m
   \<and> (parse_event_type t = Some ty) = (t = event_type_str ty)
   \<and> (parse_operation_status t = Some os) = (t = operation_status_str os)
   \<and> (parse_session_status t = Some ss) = (t = session_status_str ss)
   \<and> (parse_operation_kind t = Some k) = (t = operation_kind_str k)
   \<and> (parse_wait_mode t = Some m) = (t = wait_mode_str m)"
proof -
  have "parse_event_type (event_type_str ty) = Some ty"
    "(parse_event_type t = Some ty) = (t = event_type_str ty)"
    by (cases ty; auto simp: parse_event_type_def)+
  moreover have "parse_operation_status (operation_status_str os) = Some os"
    "(parse_operation_status t = Some os) = (t = operation_status_str os)"
    by (cases os; auto simp: parse_operation_status_def)+
  moreover have "parse_session_status (session_status_str ss) = Some ss"
    "(parse_session_status t = Some ss) = (t = session_status_str ss)"
    by (cases ss; auto simp: parse_session_status_def)+
  moreover have "parse_operation_kind (operation_kind_str k) = Some k"
    "(parse_operation_kind t = Some k) = (t = operation_kind_str k)"
    by (cases k; auto simp: parse_operation_kind_def)+
  moreover have "parse_wait_mode (wait_mode_str m) = Some m"
    "(parse_wait_mode t = Some m) = (t = wait_mode_str m)"
    by (cases m; auto simp: parse_wait_mode_def)+
  ultimately show ?thesis by blast
qed





end
