(* ===== verification/Evolution.thy ===== *)
theory Evolution
  imports StoreGuarantees
begin

text \<open>
  How the rows of the store may change over a run. An event keeps its identity, its place and
  its payload, and once handled it never changes; a session's state, status and version change
  only by commits, one version each.
\<close>

section \<open>Events\<close>

definition event_kept :: "event_row \<Rightarrow> event_row \<Rightarrow> bool" where
  "event_kept e e' \<longleftrightarrow> e_id e' = e_id e \<and> e_session_id e' = e_session_id e
     \<and> e_sequence e' = e_sequence e \<and> e_type e' = e_type e \<and> e_payload e' = e_payload e
     \<and> e_operation_id e' = e_operation_id e \<and> e_wait_id e' = e_wait_id e
     \<and> (e_status e = EvHandled \<longrightarrow> e' = e)"

lemma event_kept_refl: "event_kept e e"
  by (simp add: event_kept_def)

lemma event_kept_trans: "transp event_kept"
  by (auto simp: event_kept_def transp_def)

abbreviation events_kept :: "db \<Rightarrow> db \<Rightarrow> bool" where
  "events_kept db db' \<equiv> evolves event_kept (t_events db) (t_events db')"

lemma events_kept_same: "t_events db' = t_events db \<Longrightarrow> events_kept db db'"
  by (simp add: evolves_refl event_kept_refl)

lemma events_kept_append: "t_events db' = t_events db @ es \<Longrightarrow> events_kept db db'"
  by (simp add: evolves_append event_kept_refl)

text \<open>One unhandled event is touched, and others may be appended.\<close>

lemma events_kept_touch:
  assumes ok: "inbox_ok db" and e: "e \<in> set (t_events db)" "e_status e \<noteq> EvHandled"
    and db': "t_events db' = row_update (\<lambda>r. e_id r = e_id e) g (t_events db @ es)"
    and g: "\<And>r. e_status r \<noteq> EvHandled \<Longrightarrow> event_kept r (g r)"
  shows "events_kept db db'"
proof -
  have "e_status r \<noteq> EvHandled" if "r \<in> set (t_events db)" "e_id r = e_id e" for r
    using distinct_keyD [OF inbox_okD(2) [OF ok] that(1) e(1) that(2)] e(2) by simp
  then have "evolves event_kept (t_events db) (row_update (\<lambda>r. e_id r = e_id e) g (t_events db))"
    by (intro evolves_update) (auto intro: g event_kept_refl)
  then show ?thesis
    by (simp add: db' evolves_def)
qed

lemmas events_kept_update = events_kept_touch [where es = "[]", simplified]

text \<open>The event of a claim that passes the lock is in processing.\<close>

lemma claimed_event_open:
  assumes "inbox_ok db" and "lock_valid_session_claim now claim db = Inr q"
  shows "\<exists>e. e \<in> set (t_events db) \<and> e_id e = c_event_id claim \<and> e_status e \<noteq> EvHandled"
proof -
  obtain h v where "q = (h, v)" by (cases q)
  with assms(2) obtain s where "session_of db (c_session_id claim) = Some s"
    "s_current_event_id s = Some (c_event_id claim)"
    by (auto simp: lock_valid_session_claim_Inr)
  from claimed_event_split [OF assms(1) this] show ?thesis by auto
qed

lemma enqueue_events:
  assumes "enqueue_external_event env x db = Inr (res, db')"
  shows "\<exists>es. t_events db' = t_events db @ es"
  using enqueue_effect [OF assms] by (elim disjE exE conjE) (simp, drule strip_eqD, simp)

lemma retry_blocked_event_kept:
  assumes "retry_blocked_event env sid eid revision key request reason db = Inr (res, db')"
    and ok: "inbox_ok db"
  shows "events_kept db db'"
proof (cases "retry_row_of db sid key")
  case (Some p)
  with assms(1) show ?thesis by (simp add: retry_blocked_event_replay events_kept_same)
next
  case None
  let ?g = "\<lambda>e. e\<lparr>e_status := EvPending, e_next_attempt_at := env_clock env 0,
    e_last_error := None, e_retry_failure_baseline := errored_attempts eid db\<rparr>"
  from retry_blocked_event_effect [OF assms(1) None] obtain s :: session_row and e where
    s: "session_of db sid = Some s" and head: "head_event db sid = Some e" "e_id e = eid"
      "e_status e = EvBlocked"
    and es: "t_events db' = row_update (\<lambda>e. e_id e = eid) ?g (t_events db)"
    by (elim exE conjE) (drule strip_eqD, simp)
  have "e \<in> set (session_events db sid)"
    using head_event_split [OF inbox_ok_session [OF ok s] head(1)] by auto
  then have "e \<in> set (t_events db)" by (simp add: session_events_mem)
  then show ?thesis
    by (rule events_kept_update [OF ok, where g = ?g])
      (use head es in \<open>simp_all add: event_kept_def\<close>)
qed

lemma claim_next_event_kept:
  assumes "claim_next_event env lease_for db = Inr (res, db')" and ok: "inbox_ok db"
  shows "events_kept db db'"
proof (cases res)
  case None
  with assms(1) show ?thesis
    by (intro events_kept_same)
      (auto simp: claim_next_event_def result_simps split: option.splits prod.splits)
next
  case (Some ce)
  with assms(1) have "claim_next_event env lease_for db = Inr (Some ce, db')" by simp
  from claimed_head [OF this ok] obtain s :: session_row and e where
    e: "event_of db (e_id e) = Some e" "e_status e = EvPending \<or> e_status e = EvProcessing"
    and claim: "claim_event_at env lease_for (s_id s) (e_id e) db = Inr (ce, db')"
    by blast
  have "t_events db' = row_update (\<lambda>r. e_id r = e_id e) (\<lambda>r. r\<lparr>e_status := EvProcessing\<rparr>)
      (t_events db)"
    using claim_event_at_effect [OF claim] by (elim exE conjE) (drule strip_eqD, simp)
  from events_kept_update [OF ok _ _ this] show ?thesis
    using event_of_Some [OF e(1)] e(2) by (auto simp: event_kept_def)
qed

lemma record_handler_failure_kept:
  assumes "record_handler_failure env claim error retry_at blocked db = Inr db'" and ok: "inbox_ok db"
  shows "events_kept db db'"
proof -
  note eff = record_handler_failure_effect [OF assms(1)]
  then obtain e where e: "e \<in> set (t_events db)" "e_id e = c_event_id claim" "e_status e \<noteq> EvHandled"
    using claimed_event_open [OF ok] by blast
  show ?thesis
    by (rule events_kept_update [OF ok e(1,3), unfolded e(2)])
      (use strip_eqD [OF eff [THEN conjunct2]] in \<open>simp, simp add: event_kept_def\<close>)
qed

lemma abandon_handler_attempt_kept:
  assumes "abandon_handler_attempt env claim error retry_at db = Inr db'" and ok: "inbox_ok db"
  shows "events_kept db db'"
proof -
  note eff = abandon_handler_attempt_effect [OF assms(1)]
  then obtain e where e: "e \<in> set (t_events db)" "e_id e = c_event_id claim" "e_status e \<noteq> EvHandled"
    using claimed_event_open [OF ok] by blast
  show ?thesis
    by (rule events_kept_update [OF ok e(1,3), unfolded e(2)])
      (use strip_eqD [OF eff [THEN conjunct2]] in \<open>simp, simp add: event_kept_def\<close>)
qed

lemma commit_body_kept:
  assumes "commit_body env claim oc db = Inr db'" and ok: "inbox_ok db"
  shows "events_kept db db'"
proof -
  obtain s es where step: "commit_step env claim oc s es db db'"
    using commit_body_effect [OF assms(1)] by blast
  obtain e where e: "e \<in> set (t_events db)" "e_id e = c_event_id claim" "e_status e \<noteq> EvHandled"
    using claimed_event_open [OF ok commit_stepD(1) [OF step]] by blast
  show ?thesis
    by (rule events_kept_touch [OF ok e(1,3), unfolded e(2), OF commit_step_tables(1) [OF step]])
      (simp add: event_kept_def handled_row_def)
qed

lemma wait_events:
  "resolve_wait env wid key response db = Inr (wr, db') \<Longrightarrow> \<exists>es. t_events db' = t_events db @ es"
  "expire_wait env wid db = Inr (ev, db') \<Longrightarrow> \<exists>es. t_events db' = t_events db @ es"
  by (drule resolve_wait_effect, elim disjE exE conjE, simp, drule strip_eqD,
        simp add: appended_event_def)
    (drule expire_wait_effect, elim disjE exE conjE, simp, drule strip_eqD,
        simp add: appended_event_def)

lemma claim_step_events: "claim_step env claim f g current db db' \<Longrightarrow> t_events db' = t_events db"
  unfolding claim_step_def by (elim conjE) (drule strip_eqD, simp)

lemma operation_step_events:
  "defer_operation env k retry_at db = Inr db' \<Longrightarrow> t_events db' = t_events db"
  "record_operation_accepted env k job check_at http db = Inr db' \<Longrightarrow> t_events db' = t_events db"
  "record_operation_retry env k uncertain retry_at http error db = Inr db' \<Longrightarrow>
     t_events db' = t_events db"
  "record_operation_pending_result env k check_at http db = Inr db' \<Longrightarrow> t_events db' = t_events db"
  "renew_operation_claim env k lease_for db = Inr db' \<Longrightarrow> t_events db' = t_events db"
  by (drule defer_operation_effect record_operation_accepted_effect record_operation_retry_effect
      record_operation_pending_result_effect, elim exE conjE, erule claim_step_events)+
    (drule renew_operation_claim_effect, elim exE conjE, simp)

lemma claim_operation_events:
  assumes "claim_operation env phase lease_for db = Inr (res, db')"
  shows "t_events db' = t_events db"
  using claim_operation_cases [OF assms]
  by (auto simp: claimed_db_def dest!: claim_operation_at_effect(1) strip_eqD)

lemma completion_events:
  assumes "complete_operation_with_http_status env k status result error expires http db = Inr (e, db')"
  shows "\<exists>es. t_events db' = t_events db @ es"
  using complete_operation_effect [OF assms]
  by (elim exE conjE) (drule strip_eqD, simp add: appended_event_def)

lemma withdrawal_events_kept:
  assumes "complete_withdrawal env k expires db = Inr (res, db')"
  shows "\<exists>es. t_events db' = t_events db @ es"
  using complete_withdrawal_effect [OF assms] withdrawal_stepD(9) by blast

lemma side_step_events: "side_step db db' \<Longrightarrow> t_events db' = t_events db"
  unfolding side_step_def by (elim exE conjE) (drule strip_eqD, simp)

lemma prune_session_events: "prune_session env before i db = Inr (n, db') \<Longrightarrow> t_events db' = t_events db"
  by (drule prune_session_Inr) auto

lemma session_step_events:
  "create_session env n db = Inr (r, db') \<Longrightarrow> t_events db' = t_events db"
  "patch_session_metadata env i name metadata db = Inr (r, db') \<Longrightarrow> t_events db' = t_events db"
  "renew_event_claim env hc lease_for db = Inr db' \<Longrightarrow> t_events db' = t_events db"
  by (drule create_session_effect, simp)
    (drule patch_session_metadata_effect, drule strip_eqD, simp,
      drule renew_event_claim_effect, simp)

lemma store_step_events:
  assumes "store_step db db'" and ok: "inbox_ok db"
  shows "events_kept db db'"
  using assms(1)
proof (cases rule: store_step.cases)
  case (enqueue env x res)
  then show ?thesis using enqueue_events events_kept_append by blast
next
  case (resolve env wid key response wr)
  then show ?thesis using wait_events(1) events_kept_append by blast
next
  case (expire env wid ev)
  then show ?thesis using wait_events(2) events_kept_append by blast
next
  case (op_complete env k status result error' expires http e)
  then show ?thesis using completion_events events_kept_append by blast
next
  case (op_withdraw env k expires wd)
  then show ?thesis using withdrawal_events_kept events_kept_append by blast
qed (use ok in \<open>blast intro: retry_blocked_event_kept claim_next_event_kept
    record_handler_failure_kept abandon_handler_attempt_kept commit_body_kept
    session_step_events [THEN events_kept_same] operation_step_events [THEN events_kept_same]
    claim_operation_events [THEN events_kept_same] prune_session_events [THEN events_kept_same]
    side_steps [THEN side_step_events, THEN events_kept_same]\<close>)+

lemma store_run_events:
  assumes "store_run db db'" and "store_ok db"
  shows "events_kept db db'"
  using assms(1)
proof (induction rule: rtranclp_induct)
  case (step mid db')
  have "events_kept mid db'"
    by (rule store_step_events [OF step(2) store_okD(1) [OF store_run_ok [OF step(1) assms(2)]]])
  with step(3) show ?case by (rule evolves_trans [OF event_kept_trans])
qed (simp add: events_kept_same)

section \<open>Sessions\<close>

definition state_of :: "session_row \<Rightarrow> session_id \<times> string \<times> string \<times> string \<times> raw_json
     \<times> session_status \<times> raw_json \<times> int \<times> int \<times> time" where
  "state_of s = (s_id s, s_project_id s, s_harness_id s, s_harness_version s, s_configuration s,
     s_status s, s_state s, s_state_version s, s_next_history_sequence s, s_created_at s)"

definition states_from where
  "states_from base db \<longleftrightarrow> (\<exists>new. map state_of (t_sessions db) = base @ new)"

lemma map_row_update_id: "(\<And>r. h (f r) = h r) \<Longrightarrow> map h (row_update p f rows) = map h rows"
  by (simp add: row_update_def)

lemma state_of_core: "session_core s = session_core q \<Longrightarrow> state_of s = state_of q"
  by (simp add: session_core_def state_of_def)

lemma state_of_strip: "map state_of (map strip_session ss) = map state_of ss"
  by (simp add: state_of_def)

interpretation state_frame: frame_invariant "states_from base" for base
proof
  fix db ss p and f :: "session_row \<Rightarrow> session_row"
  assume "t_sessions db = ss" "states_from base db" and core: "\<And>s. session_core (f s) = session_core s"
    "\<And>s. s_next_update_sequence (f s) = s_next_update_sequence s"
  moreover have "state_of (f s) = state_of s" for s by (rule state_of_core) (rule core)
  ultimately show "states_from base (db\<lparr>t_sessions := row_update p f ss\<rparr>)"
    by (simp add: states_from_def map_row_update_id)
next
  fix env sid kind payload source db db'
  assume "emit_update_with_event env sid kind payload source db = Inr db'"
  then have "map strip_session (t_sessions db') = map strip_session (t_sessions db)"
    using strip_eqD [OF emit_update_strip] by fastforce
  then have "map state_of (t_sessions db') = map state_of (t_sessions db)"
    by (metis state_of_strip)
  then show "states_from base db \<longrightarrow> states_from base db'" by (simp add: states_from_def)
next
  fix db and n :: new_session and env
  assume "states_from base db"
  then show "states_from base (db\<lparr>t_sessions := t_sessions db @ [session_row_of env n]\<rparr>)"
    by (auto simp: states_from_def)
qed (simp_all add: states_from_def)

lemma states_fromD:
  assumes "states_from (map state_of (t_sessions db)) db'" and "session_of db i = Some s"
  shows "\<exists>s'. session_of db' i = Some s' \<and> state_of s' = state_of s"
proof -
  obtain new where "map state_of (t_sessions db') = map state_of (t_sessions db) @ new"
    using assms(1) by (auto simp: states_from_def)
  then have "map state_of (t_sessions db)
      = map state_of (take (length (t_sessions db)) (t_sessions db'))"
    by (simp flip: take_map)
  then have "evolves (\<lambda>s s'. state_of s' = state_of s) (t_sessions db) (t_sessions db')"
    by (auto simp: evolves_def list_all2_conv_all_nth list_eq_iff_nth_eq)
  from evolves_row_by [OF this, of s_id i s] assms(2) show ?thesis
    by (auto simp: session_of_def state_of_def)
qed

lemma prune_session_states:
  assumes "prune_session env before i db = Inr (n, db')"
  shows "states_from (map state_of (t_sessions db)) db'"
  using prune_session_Inr [OF assms]
  by (auto simp: states_from_def map_row_update_id state_of_def)

lemma commit_body_states:
  assumes "commit_body env claim oc db = Inr db'" and "session_of db i = Some s"
  shows "\<exists>s'. session_of db' i = Some s' \<and> (if i = c_session_id claim
    then s_state_version s' = s_state_version s + 1 \<and> s_state s' = oc_state oc
      \<and> s_status s' = override (oc_status oc) (s_status s)
    else state_of s' = state_of s)"
proof -
  obtain q es where step: "commit_step env claim oc q es db db'"
    using commit_body_effect [OF assms(1)] by blast
  let ?f = "committed_session env oc (s_next_history_sequence q + int (length (oc_history oc)))
    (s_next_event_sequence q + int (length es))"
  have "session_of (strip db') i
      = map_option (\<lambda>s. if i = c_session_id claim then ?f s else s) (session_of (strip db) i)"
    unfolding session_of_def commit_step_tables(2) [OF step]
    by (subst row_by_update_key) (simp_all add: committed_session_def [abs_def] option.map_ident)
  then obtain s' where s': "session_of db' i = Some s'"
    "strip_session s' = (if i = c_session_id claim then ?f (strip_session s) else strip_session s)"
    using assms(2) by (auto simp: session_of_strip)
  show ?thesis
  proof (cases "i = c_session_id claim")
    case True
    with s'(2) have "strip_session s' = ?f (strip_session s)" by simp
    note strip_session_lease [OF this, unfolded committed_session_def, simplified]
    with True s'(1) show ?thesis by simp
  next
    case False
    with s'(2) have "map state_of (map strip_session [s']) = map state_of (map strip_session [s])"
      by simp
    then have "state_of s' = state_of s" by (simp only: state_of_strip) simp
    with False s'(1) show ?thesis by simp
  qed
qed

section \<open>The promises\<close>

text \<open>
  C5. Events are handled exactly once and never rewritten: along every run from a reachable
  database an event keeps its identifier, session, number, type and payload, and an event that
  has been handled stays exactly as it is - no claim, failure, retry or commit touches it again.
\<close>

theorem handled_for_good:
  assumes "reachable db" and "store_run db db'" and "event_of db i = Some e"
  shows "\<exists>e'. event_of db' i = Some e' \<and> e_session_id e' = e_session_id e
    \<and> e_sequence e' = e_sequence e \<and> e_type e' = e_type e \<and> e_payload e' = e_payload e
    \<and> (e_status e = EvHandled \<longrightarrow> e' = e)"
proof -
  have "events_kept db db'" by (rule store_run_events [OF assms(2) reachable_ok [OF assms(1)]])
  from evolves_row_by [OF this, of e_id i e] assms(3) show ?thesis
    by (auto simp: event_of_def event_kept_def)
qed

theorem handled_for_good_witness:
  "\<exists>e'. event_of demo_handled (Uuid 200) = Some e' \<and> e_sequence e' = 1"
proof -
  have "event_of demo_claimed (Uuid 200) = Some (demo_e\<lparr>e_status := EvProcessing\<rparr>)" by code_simp
  from handled_for_good [OF demo_reachable(3) _ this, of demo_handled] store_step.commit [OF demo_commit]
  show ?thesis by (auto simp: demo_e_def new_event_def)
qed

text \<open>
  C8. A session's state belongs to its handlers: a transaction of the store leaves the harness,
  configuration, state, status, state version and history counter of every session as they are,
  unless it is the commit of an outcome of that session, which advances the version by exactly one.
\<close>

theorem only_commits_change_state:
  assumes "store_step db db'" and "session_of db i = Some s"
  shows "\<exists>s'. session_of db' i = Some s' \<and> (state_of s' = state_of s
    \<or> (\<exists>env claim oc. commit_body env claim oc db = Inr db' \<and> c_session_id claim = i
        \<and> s_state_version s' = s_state_version s + 1 \<and> s_state s' = oc_state oc
        \<and> s_status s' = override (oc_status oc) (s_status s)))"
proof (cases "\<exists>env claim oc. commit_body env claim oc db = Inr db'")
  case True
  then obtain env claim oc where commit: "commit_body env claim oc db = Inr db'" by blast
  with commit_body_states [OF commit assms(2)] show ?thesis by (auto split: if_splits)
next
  case False
  have "states_from (map state_of (t_sessions db)) db'"
    by (rule state_frame.store_step_keeps [OF assms(1)])
      (use False prune_session_states in \<open>auto simp: states_from_def\<close>)
  from states_fromD [OF this assms(2)] show ?thesis by blast
qed

theorem only_commits_change_state_witness:
  "\<exists>s'. session_of demo_blocked (Uuid 1) = Some s' \<and> s_id s' = Uuid 1"
proof -
  have "session_of demo_claimed (Uuid 1) = Some (hd (t_sessions demo_claimed))" by code_simp
  from only_commits_change_state [OF store_step.failure [OF demo_failure] this]
  show ?thesis using session_of_Some by blast
qed

end
