(* ===== verification/Workers.thy ===== *)
theory Workers
  imports Steps Inspection "HOL-Library.State_Monad" "HOL-Library.Word"
begin

text \<open>
  What the runtime's background workers (\<open>packages/agent-runtime/src\<close>) share: a worker is a
  sequence of store transactions, with the transactions of everyone else in between. The state
  of a worker is the database and the number of calls it has made; the world answers each call
  with its environment, with what others did before it, and with the outage that may hit it.
\<close>

section \<open>Calling the store from a worker\<close>

text \<open>
  An outage before \<open>COMMIT\<close> rolls the transaction back. An error of \<open>COMMIT\<close> itself that did
  not come from the server leaves open whether the transaction became durable: the second
  argument says which.
\<close>

datatype outage = BeforeCommit db_error | AtCommit db_error bool

record world =
  rt_env :: "nat \<Rightarrow> env"
  rt_others :: "nat \<Rightarrow> db \<Rightarrow> db"
  rt_outage :: "nat \<Rightarrow> outage option"
  rt_now :: "nat \<Rightarrow> time"
  rt_lost :: "nat \<Rightarrow> bool"
  rt_ran :: "nat \<Rightarrow> bool"

text \<open>The requests a worker sends to a gateway are kept in order.\<close>

datatype gateway_call = CallFind string | CallSubmit raw_json | CallCancel uuid | CallGet uuid

record job =
  j_db :: db
  j_calls :: nat
  j_sent :: "gateway_call list"

definition kept :: "db_error \<Rightarrow> bool \<Rightarrow> bool" where
  "kept e durable \<longleftrightarrow> durable \<and> sql_code e = None"

definition after_call :: "db \<Rightarrow> job \<Rightarrow> job" where
  "after_call db s = s\<lparr>j_db := db, j_calls := Suc (j_calls s)\<rparr>"

definition call ::
    "world \<Rightarrow> (env \<Rightarrow> db \<Rightarrow> store_error + 'a \<times> db) \<Rightarrow> (job, store_error + 'a) state" where
  "call w f = State (\<lambda>s.
     let k = j_calls s; db = rt_others w k (j_db s); r = f (rt_env w k) db in
     case rt_outage w k of
       None \<Rightarrow> (case r of Inl e \<Rightarrow> (Inl e, after_call db s) | Inr (x, db') \<Rightarrow> (Inr x, after_call db' s))
     | Some (BeforeCommit e) \<Rightarrow> (Inl (Database e), after_call db s)
     | Some (AtCommit e durable) \<Rightarrow>
         (case r of Inl e' \<Rightarrow> (Inl e', after_call db s)
          | Inr (x, db') \<Rightarrow> (Inl (Database e), after_call (if kept e durable then db' else db) s)))"

text \<open>A transaction without a result, and a read.\<close>

definition effect :: "(env \<Rightarrow> db \<Rightarrow> store_error + db) \<Rightarrow> env \<Rightarrow> db \<Rightarrow> store_error + unit \<times> db" where
  "effect f env db = bindR (f env db) (\<lambda>db'. Inr ((), db'))"

definition query :: "(db \<Rightarrow> store_error + 'a) \<Rightarrow> env \<Rightarrow> db \<Rightarrow> store_error + 'a \<times> db" where
  "query f env db = bindR (f db) (\<lambda>x. Inr (x, db))"

text \<open>\<open>let x = m.await?\<close> in a worker that returns a \<open>Result\<close>.\<close>

definition bindS ::
    "(job, 'e + 'a) state \<Rightarrow> ('a \<Rightarrow> (job, 'e + 'b) state) \<Rightarrow> (job, 'e + 'b) state" where
  "bindS m f = State_Monad.bind m
     (\<lambda>r. case r of Inl e \<Rightarrow> State_Monad.return (Inl e) | Inr x \<Rightarrow> f x)"

text \<open>\<open>commit_handler_outcome_classified\<close> as a call: its errors are classified.\<close>

definition commit_call ::
    "world \<Rightarrow> handler_claim \<Rightarrow> outcome_commit \<Rightarrow> (job, handler_commit_error + unit) state" where
  "commit_call w claim oc = State (\<lambda>s.
     let k = j_calls s; db = rt_others w k (j_db s); env = rt_env w k;
         kept_db = (\<lambda>e durable. case commit_body env claim oc db of
           Inl _ \<Rightarrow> db | Inr db' \<Rightarrow> if kept e durable then db' else db) in
     case rt_outage w k of
       None \<Rightarrow>
         (case commit_handler_outcome_classified env None claim oc db of
            Inl e \<Rightarrow> (Inl e, after_call db s) | Inr db' \<Rightarrow> (Inr (), after_call db' s))
     | Some (BeforeCommit e) \<Rightarrow> (Inl (from_store_error (Database e)), after_call db s)
     | Some (AtCommit e durable) \<Rightarrow>
         (case commit_handler_outcome_classified env (Some e) claim oc db of
            Inl e' \<Rightarrow> (Inl e', after_call (kept_db e durable) s)
          | Inr db' \<Rightarrow> (Inr (), after_call db' s)))"

text \<open>
  \<open>tokio::select!\<close> of a call against the lease keeper's loss signal: when the claim is lost
  the call's future is dropped, whether or not its transaction had already ended.
\<close>

definition unless_lost :: "world \<Rightarrow> (job, 'a) state \<Rightarrow> (job, 'a option) state" where
  "unless_lost w m = State (\<lambda>s.
     if rt_lost w (j_calls s)
     then (None, if rt_ran w (j_calls s) then snd (run_state m s) else s)
     else case run_state m s of (x, s') \<Rightarrow> (Some x, s'))"

text \<open>\<open>m.await\<close> in work that is dropped as a whole when the claim is lost: \<open>None\<close> is the end.\<close>

definition bindO ::
    "(job, 'a option) state \<Rightarrow> ('a \<Rightarrow> (job, 'b option) state) \<Rightarrow> (job, 'b option) state" where
  "bindO m f = State_Monad.bind m
     (\<lambda>r. case r of None \<Rightarrow> State_Monad.return None | Some x \<Rightarrow> f x)"

definition done_with :: "(job, 'a option) state \<Rightarrow> (job, unit option) state" where
  "done_with m = bindO m (\<lambda>_. State_Monad.return (Some ()))"

text \<open>A worker that was given a shutdown token waits against it in the same way.\<close>

definition watched :: "bool \<Rightarrow> world \<Rightarrow> (job, 'a) state \<Rightarrow> (job, 'a option) state" where
  "watched token w m =
     (if token then unless_lost w m
      else State_Monad.bind m (\<lambda>x. State_Monad.return (Some x)))"

definition calls_made :: "(job, nat) state" where
  "calls_made = State (\<lambda>s. (j_calls s, s))"

text \<open>A request to a gateway and its answer, which depends on when it is made.\<close>

definition ask :: "gateway_call \<Rightarrow> (nat \<Rightarrow> 'a) \<Rightarrow> (job, 'a) state" where
  "ask g answer = State (\<lambda>s.
     (answer (j_calls s), s\<lparr>j_sent := j_sent s @ [g], j_calls := Suc (j_calls s)\<rparr>))"

text \<open>\<open>Utc::now() + delay\<close>, the delay in milliseconds.\<close>

definition after_delay :: "world \<Rightarrow> nat \<Rightarrow> (job, time) state" where
  "after_delay w delay = State (\<lambda>s. (add_millis (rt_now w (j_calls s)) (int delay), s))"

section \<open>What a worker does\<close>

text \<open>
  \<open>runs R m\<close>: the program \<open>m\<close>, with everything that happens while it runs, relates the state
  before to the state after. Any reflexive and transitive relation that the program's calls
  satisfy composes along the program; a relation between databases is one of them.
\<close>

definition runs :: "(job \<Rightarrow> job \<Rightarrow> bool) \<Rightarrow> (job, 'a) state \<Rightarrow> bool" where
  "runs R = state_io_rel R"

abbreviation on_db :: "(db \<Rightarrow> db \<Rightarrow> bool) \<Rightarrow> job \<Rightarrow> job \<Rightarrow> bool" where
  "on_db D s s' \<equiv> D (j_db s) (j_db s')"

definition others_in :: "(db \<Rightarrow> db \<Rightarrow> bool) \<Rightarrow> world \<Rightarrow> bool" where
  "others_in D w \<longleftrightarrow> (\<forall>k db. D db (rt_others w k db))"

named_theorems run_intros "how programs compose"

lemma runsI: "(\<And>x s s'. run_state m s = (x, s') \<Longrightarrow> R s s') \<Longrightarrow> runs R m"
  unfolding runs_def by (rule state_io_relI)

lemma runsD: "runs R m \<Longrightarrow> run_state m s = (x, s') \<Longrightarrow> R s s'"
  unfolding runs_def by (rule state_io_relD)

lemma after_call_simps [simp]:
  "j_db (after_call db s) = db" "j_calls (after_call db s) = Suc (j_calls s)"
  "j_sent (after_call db s) = j_sent s"
  by (simp_all add: after_call_def)

locale job_relation =
  fixes R :: "job \<Rightarrow> job \<Rightarrow> bool"
  assumes same: "R s s"
    and chain: "R a b \<Longrightarrow> R b c \<Longrightarrow> R a c"
begin

lemma runs_return [run_intros]: "runs R (State_Monad.return x)"
  by (rule runsI) (auto simp: same)

lemma runs_bind [run_intros]:
  assumes "runs R m" and "\<And>x. runs R (f x)"
  shows "runs R (State_Monad.bind m f)"
proof (rule runsI)
  fix y s s'
  assume "run_state (State_Monad.bind m f) s = (y, s')"
  then obtain x t where m: "run_state m s = (x, t)" and f: "run_state (f x) t = (y, s')"
    by (auto split: prod.splits)
  show "R s s'"
    by (rule chain [OF runsD [OF assms(1) m] runsD [OF assms(2) f]])
qed

lemma runs_bindS [run_intros]:
  assumes "runs R m" and "\<And>x. runs R (f x)"
  shows "runs R (bindS m f)"
  unfolding bindS_def using assms by (auto intro!: runs_bind runs_return split: sum.split)

lemma runs_bindO [run_intros]:
  assumes "runs R m" and "\<And>x. runs R (f x)"
  shows "runs R (bindO m f)"
  unfolding bindO_def using assms by (auto intro!: runs_bind runs_return split: option.split)

lemma runs_done_with [run_intros]: "runs R m \<Longrightarrow> runs R (done_with m)"
  unfolding done_with_def by (auto intro!: runs_bindO runs_return)

lemma runs_unless_lost [run_intros]:
  assumes "runs R m"
  shows "runs R (unless_lost w m)"
proof (rule runsI)
  fix x s s'
  assume run: "run_state (unless_lost w m) s = (x, s')"
  obtain y t where m: "run_state m s = (y, t)" by fastforce
  with assms have "R s t" by (rule runsD)
  then show "R s s'"
    using run m by (auto simp: unless_lost_def same split: if_splits)
qed

lemma runs_watched [run_intros]: "runs R m \<Longrightarrow> runs R (watched token w m)"
  unfolding watched_def by (auto intro!: runs_unless_lost runs_bind runs_return)

end

locale db_relation =
  fixes D :: "db \<Rightarrow> db \<Rightarrow> bool"
  assumes db_same: "D db db"
    and db_chain: "D a b \<Longrightarrow> D b c \<Longrightarrow> D a c"

sublocale db_relation \<subseteq> job_relation "\<lambda>s s'. D (j_db s) (j_db s')"
  by unfold_locales (fact db_same, fact db_chain)

context db_relation
begin

lemma runs_pure [run_intros]:
  "runs (on_db D) calls_made" "runs (on_db D) (ask g answer)" "runs (on_db D) (after_delay w delay)"
  by (auto intro!: runsI simp: calls_made_def ask_def after_delay_def db_same)

lemma runs_call:
  assumes others: "others_in D w"
    and step: "\<And>env db x db'. f env db = Inr (x, db') \<Longrightarrow> D db db'"
  shows "runs (on_db D) (call w f)"
proof (rule runsI)
  fix x s s'
  assume run: "run_state (call w f) s = (x, s')"
  let ?db = "rt_others w (j_calls s) (j_db s)"
  have "D (j_db s) ?db" using others by (simp add: others_in_def)
  moreover have "D ?db (j_db s')"
    using run step [of "rt_env w (j_calls s)" ?db]
    by (auto simp: call_def Let_def db_same split: option.splits outage.splits sum.splits
        prod.splits if_splits)
  ultimately show "D (j_db s) (j_db s')" by (rule db_chain)
qed

lemma runs_query [run_intros]: "others_in D w \<Longrightarrow> runs (on_db D) (call w (query f))"
  by (rule runs_call) (auto simp: query_def result_simps db_same)

lemma runs_effect:
  assumes "others_in D w" and "\<And>env db db'. f env db = Inr db' \<Longrightarrow> D db db'"
  shows "runs (on_db D) (call w (effect f))"
  using assms by (intro runs_call) (auto simp: effect_def result_simps)

lemma runs_commit_call:
  assumes others: "others_in D w"
    and body: "\<And>env db db'. commit_body env claim oc db = Inr db' \<Longrightarrow> D db db'"
  shows "runs (on_db D) (commit_call w claim oc)"
proof (rule runsI)
  fix x s s'
  assume run: "run_state (commit_call w claim oc) s = (x, s')"
  let ?db = "rt_others w (j_calls s) (j_db s)"
  have "D (j_db s) ?db" using others by (simp add: others_in_def)
  moreover have "D ?db (j_db s')"
    using run body [of "rt_env w (j_calls s)" ?db]
    by (auto simp: commit_call_def commit_handler_outcome_classified_def Let_def db_same
        split: option.splits outage.splits sum.splits prod.splits if_splits)
  ultimately show "D (j_db s) (j_db s')" by (rule db_chain)
qed

end

section \<open>A worker only makes store steps\<close>

text \<open>The others' transactions are steps of the store too.\<close>

abbreviation others_step :: "world \<Rightarrow> bool" where
  "others_step \<equiv> others_in store_run"

abbreviation stays_in_run :: "(job, 'a) state \<Rightarrow> bool" where
  "stays_in_run \<equiv> runs (\<lambda>s s'. store_run (j_db s) (j_db s'))"

interpretation run: db_relation store_run
  by unfold_locales auto

lemmas stays_call = run.runs_call

lemma stays_effect:
  assumes "others_step w" and "\<And>env db db'. f env db = Inr db' \<Longrightarrow> store_step db db'"
  shows "stays_in_run (call w (effect f))"
  using assms by (intro run.runs_effect) auto

lemma stays_commit_call [run_intros]: "others_step w \<Longrightarrow> stays_in_run (commit_call w claim oc)"
  by (rule run.runs_commit_call) (auto intro: store_step.commit)

section \<open>Wakeup hints (\<open>work_signal.rs\<close>)\<close>

text \<open>A generation counter, \<open>u64\<close>, that wraps. A worker takes a snapshot, scans the store, and
  waits only if nobody has notified since.\<close>

type_synonym generation = "64 word"

definition signal_new :: generation where
  "signal_new = 0"

definition snapshot :: "generation \<Rightarrow> generation" where
  "snapshot g = g"

definition notify :: "generation \<Rightarrow> generation" where
  "notify g = g + 1"

definition wait_returns_at_once :: "generation \<Rightarrow> generation \<Rightarrow> bool" where
  "wait_returns_at_once observed g \<longleftrightarrow> g \<noteq> observed"

end
