(* ===== verification/Maintenance.thy ===== *)
theory Maintenance
  imports Workers
begin

text \<open>
  The two maintenance workers of \<open>packages/agent-runtime/src\<close>: \<open>wait_expiration.rs\<close> ends
  the waits whose deadline has passed, \<open>request_cleanup.rs\<close> deletes the requests whose
  retention has ended. Both scan a page after a cursor, try every entry of it, remember the
  first error and advance the cursor to the page's last entry. Durations are milliseconds.
\<close>

section \<open>Settings\<close>

record maintenance_settings =
  ms_enabled :: bool
  ms_poll_interval :: nat
  ms_batch_size :: int

definition wait_expiration_default :: maintenance_settings where
  "wait_expiration_default =
     \<lparr>ms_enabled = True, ms_poll_interval = 100, ms_batch_size = 100\<rparr>"

definition request_cleanup_default :: maintenance_settings where
  "request_cleanup_default =
     \<lparr>ms_enabled = True, ms_poll_interval = 60000, ms_batch_size = 100\<rparr>"

datatype maintenance_error = InvalidMaintenance | MaintenanceStore store_error

definition validate_maintenance :: "maintenance_settings \<Rightarrow> maintenance_error + unit" where
  "validate_maintenance st =
     (if ms_poll_interval st = 0 \<or> \<not> (1 \<le> ms_batch_size st \<and> ms_batch_size st \<le> 1000)
      then Inl InvalidMaintenance else Inr ())"

section \<open>One batch (\<open>process_batch_inner\<close>)\<close>

text \<open>
  \<open>None\<close> is the early return after shutdown; otherwise the first error, if there was one.
\<close>

fun expire_each ::
    "world \<Rightarrow> bool \<Rightarrow> (time \<times> wait_id) list \<Rightarrow> store_error option
     \<Rightarrow> (job, store_error option option) state" where
  "expire_each w token [] first = State_Monad.return (Some first)"
| "expire_each w token (d # ds) first = do {
     r \<leftarrow> watched token w (call w (\<lambda>env. expire_wait env (snd d)));
     case r of
       None \<Rightarrow> State_Monad.return None
     | Some (Inr _) \<Rightarrow> expire_each w token ds first
     | Some (Inl e) \<Rightarrow> expire_each w token ds (case first of None \<Rightarrow> Some e | Some _ \<Rightarrow> first)
   }"

definition expire_batch ::
    "world \<Rightarrow> maintenance_settings \<Rightarrow> bool \<Rightarrow> (time \<times> wait_id) option
     \<Rightarrow> (job, (time \<times> wait_id) option \<times> (maintenance_error + nat option)) state" where
  "expire_batch w st token cursor = do {
     scan \<leftarrow> watched token w
       (call w (\<lambda>env db. query (due_waits_after env cursor (ms_batch_size st)) env db));
     case scan of
       None \<Rightarrow> State_Monad.return (cursor, Inr None)
     | Some (Inl e) \<Rightarrow> State_Monad.return (cursor, Inl (MaintenanceStore e))
     | Some (Inr ws) \<Rightarrow> do {
         let cursor' = (if ws = [] then None else Some (last ws));
         r \<leftarrow> expire_each w token ws None;
         State_Monad.return (cursor',
           case r of
             None \<Rightarrow> Inr None
           | Some (Some e) \<Rightarrow> Inl (MaintenanceStore e)
           | Some None \<Rightarrow> Inr (Some (length ws)))
       }
   }"

fun remove_each ::
    "world \<Rightarrow> bool \<Rightarrow> (time \<times> operation_id) list \<Rightarrow> store_error option \<Rightarrow> nat
     \<Rightarrow> (job, (store_error option \<times> nat) option) state" where
  "remove_each w token [] first removed = State_Monad.return (Some (first, removed))"
| "remove_each w token (c # cs) first removed = do {
     r \<leftarrow> watched token w (call w (\<lambda>env. delete_expired_operation_request env (snd c)));
     case r of
       None \<Rightarrow> State_Monad.return None
     | Some (Inr True) \<Rightarrow> remove_each w token cs first (removed + 1)
     | Some (Inr False) \<Rightarrow> remove_each w token cs first removed
     | Some (Inl e) \<Rightarrow>
         remove_each w token cs (case first of None \<Rightarrow> Some e | Some _ \<Rightarrow> first) removed
   }"

definition cleanup_batch ::
    "world \<Rightarrow> maintenance_settings \<Rightarrow> bool \<Rightarrow> (time \<times> operation_id) option
     \<Rightarrow> (job, (time \<times> operation_id) option \<times> (maintenance_error + nat option)) state" where
  "cleanup_batch w st token cursor = do {
     scan \<leftarrow> watched token w
       (call w (\<lambda>env db.
          query (expired_operation_request_candidates env cursor (ms_batch_size st)) env db));
     case scan of
       None \<Rightarrow> State_Monad.return (cursor, Inr None)
     | Some (Inl e) \<Rightarrow> State_Monad.return (cursor, Inl (MaintenanceStore e))
     | Some (Inr cs) \<Rightarrow> do {
         let cursor' = (if cs = [] then None else Some (last cs));
         r \<leftarrow> remove_each w token cs None 0;
         State_Monad.return (cursor',
           case r of
             None \<Rightarrow> Inr None
           | Some (Some e, _) \<Rightarrow> Inl (MaintenanceStore e)
           | Some (None, _) \<Rightarrow> Inr (Some (length cs)))
       }
   }"

text \<open>The delay before the next batch: \<open>None\<close> ends the loop of \<open>run\<close>. A full page is
  followed at once by the next one; \<open>batch_size as usize\<close> is exact for validated settings.\<close>

definition next_delay ::
    "maintenance_settings \<Rightarrow> maintenance_error + nat option \<Rightarrow> nat option" where
  "next_delay st result =
     (case result of
        Inr None \<Rightarrow> None
      | Inr (Some count) \<Rightarrow>
          Some (if int count = ms_batch_size st then 0 else ms_poll_interval st)
      | Inl _ \<Rightarrow> Some (ms_poll_interval st))"

section \<open>The batches only make store steps\<close>

lemma stays_expire_wait [run_intros]:
  "others_step w \<Longrightarrow> stays_in_run (call w (\<lambda>env. expire_wait env i))"
  by (rule stays_call) (auto intro: store_step.expire)

lemma stays_delete_expired [run_intros]:
  "others_step w \<Longrightarrow> stays_in_run (call w (\<lambda>env. delete_expired_operation_request env i))"
  by (rule stays_call) (auto intro: store_step.drop_one)

lemma stays_expire_each [run_intros]: "others_step w \<Longrightarrow> stays_in_run (expire_each w token ds first)"
  by (induction ds arbitrary: first)
    (auto intro!: run_intros split: option.split sum.split)

lemma stays_remove_each [run_intros]:
  "others_step w \<Longrightarrow> stays_in_run (remove_each w token cs first removed)"
  by (induction cs arbitrary: first removed)
    (auto intro!: run_intros split: option.split sum.split bool.split)

lemma stays_scan [run_intros]:
  "others_step w \<Longrightarrow> stays_in_run (call w (\<lambda>env db. query (f env) env db))"
  by (rule stays_call) (auto simp: query_def result_simps)

lemma stays_expire_batch: "others_step w \<Longrightarrow> stays_in_run (expire_batch w st token cursor)"
  unfolding expire_batch_def Let_def by (auto intro!: run_intros split: option.split sum.split)

lemma stays_cleanup_batch: "others_step w \<Longrightarrow> stays_in_run (cleanup_batch w st token cursor)"
  unfolding cleanup_batch_def Let_def by (auto intro!: run_intros split: option.split sum.split)

end
