(* ===== verification/Preparation.thy ===== *)
theory Preparation
  imports Workers
begin

text \<open>
  From what a handler returns to what the store commits
  (\<open>packages/agent-runtime/src/outcome.rs\<close>): \<open>prepare_outcome\<close> refuses duplicate identifiers,
  identifiers that exist, references outside the session, unsupported execution requests and
  malformed waits, and turns the rest into the rows of an \<open>OutcomeCommit\<close>. A
  \<open>SerializedOutcome\<close> (\<open>lib.rs\<close>) is a handler outcome whose state is JSON text.
\<close>

type_synonym serialized_outcome = "raw_json handler_outcome"

datatype preparation_error = InvalidOutcome string | OutcomeStore store_error

text \<open>
  What the step gets from outside the repository: the texts \<open>serde_json\<close> writes (it may
  refuse), whether the JSON Schema library accepts a schema, the text of an identifier and the
  identifiers drawn for the history entries.
\<close>

record codec =
  cd_message :: "message \<Rightarrow> string + raw_json"
  cd_request :: "operation_request \<Rightarrow> string + raw_json"
  cd_value :: "json \<Rightarrow> string + raw_json"
  cd_schema :: "json \<Rightarrow> string + unit"
  cd_uuid_text :: "uuid \<Rightarrow> string"
  cd_entry_id :: "nat \<Rightarrow> history_entry_id"

fun wait_spec_error_text :: "wait_spec_error \<Rightarrow> string" where
  "wait_spec_error_text MissingExpiration = ''wait mode requires expires_at''"
| "wait_spec_error_text UnexpectedExpiration = ''external-only wait cannot expire''"
| "wait_spec_error_text UnexpectedResponseSchema =
     ''expiration-only wait cannot have a response schema''"

text \<open>\<open>map_err(|error| error.to_string())?\<close>\<close>

definition refuse :: "string + 'a \<Rightarrow> preparation_error + 'a" where
  "refuse r = (case r of Inl m \<Rightarrow> Inl (InvalidOutcome m) | Inr x \<Rightarrow> Inr x)"

section \<open>Operations\<close>

definition validate_execution_request :: "staged_operation \<Rightarrow> string + unit" where
  "validate_execution_request staged =
     (case so_request staged of
        ExecutionReq _ _ _ request \<Rightarrow>
          let has_shutdown = (case request of
                Single op \<Rightarrow> op = ExecShutdown
              | Batch _ _ items \<Rightarrow>
                  list_ex (\<lambda>item. bo_operation item = ExecShutdown) items) in
          if has_shutdown
          then Inl ''runtime.shutdown is not supported by the execution gateway''
          else Inr ()
      | _ \<Rightarrow> Inr ())"

definition new_operation :: "codec \<Rightarrow> staged_operation \<Rightarrow> string + new_operation" where
  "new_operation cd staged =
     (let (connection, target, previous) =
        (case so_request staged of
           LlmReq c request \<Rightarrow>
             (Some c, None, case request of Fresh _ _ _ _ _ _ \<Rightarrow> None | Continuation p _ \<Rightarrow> Some p)
         | ExecutionReq c _ _ _ \<Rightarrow> (Some c, None, None)
         | LlmCancellationReq t \<Rightarrow> (None, Some t, None)
         | WithdrawReq t \<Rightarrow> (None, Some t, None)) in
      bindR (cd_request cd (so_request staged)) (\<lambda>text.
      Inr \<lparr>no_id = so_id staged, no_kind = request_kind (so_request staged),
           no_connection = connection, no_target = target, no_previous = previous,
           no_request = text\<rparr>))"

text \<open>The operation a request refers to, and the kind it must have.\<close>

definition reference_of ::
    "operation_request \<Rightarrow> (operation_id \<times> operation_kind option) option" where
  "reference_of request =
     (case request of
        LlmReq _ (Continuation previous _) \<Rightarrow> Some (previous, Some KindLlm)
      | LlmCancellationReq target \<Rightarrow> Some (target, Some KindLlm)
      | WithdrawReq target \<Rightarrow> Some (target, None)
      | _ \<Rightarrow> None)"

definition check_kind ::
    "codec \<Rightarrow> operation_id \<Rightarrow> operation_kind option \<Rightarrow> operation_kind \<Rightarrow> preparation_error + unit" where
  "check_kind cd reference required kind =
     (if case required of None \<Rightarrow> False | Some k \<Rightarrow> k \<noteq> kind
      then Inl (InvalidOutcome (''referenced operation '' @ cd_uuid_text cd reference
                  @ '' is not an LLM operation''))
      else Inr ())"

definition validate_references ::
    "world \<Rightarrow> codec \<Rightarrow> session_id \<Rightarrow> staged_operation \<Rightarrow> (operation_id \<rightharpoonup> operation_kind)
     \<Rightarrow> (job, preparation_error + unit) state" where
  "validate_references w cd sid staged staged_kinds =
     (case reference_of (so_request staged) of
        None \<Rightarrow> State_Monad.return (Inr ())
      | Some (reference, required) \<Rightarrow>
          if reference = so_id staged
          then State_Monad.return (Inl (InvalidOutcome
                 (''operation '' @ cd_uuid_text cd (so_id staged) @ '' cannot reference itself'')))
          else (case staged_kinds reference of
            Some kind \<Rightarrow> State_Monad.return (check_kind cd reference required kind)
          | None \<Rightarrow> do {
              found \<leftarrow> call w (query (\<lambda>db. Inr (operation_for_session sid reference db)));
              State_Monad.return (case found of
                Inl e \<Rightarrow> Inl (OutcomeStore e)
              | Inr None \<Rightarrow> Inl (InvalidOutcome (''referenced operation ''
                  @ cd_uuid_text cd reference @ '' does not exist in the session''))
              | Inr (Some r) \<Rightarrow> check_kind cd reference required (o_kind r))
            }))"

text \<open>\<open>Ok(_) => Err(exists)\<close>, the not-found error is what the caller wants.\<close>

definition must_be_new :: "string \<Rightarrow> (store_error \<Rightarrow> bool) \<Rightarrow> store_error + 'a \<Rightarrow> preparation_error + unit"
  where
  "must_be_new message missing found =
     (case found of
        Inr _ \<Rightarrow> Inl (InvalidOutcome message)
      | Inl e \<Rightarrow> if missing e then Inr () else Inl (OutcomeStore e))"

fun operation_missing :: "store_error \<Rightarrow> bool" where
  "operation_missing (OperationNotFound _) = True"
| "operation_missing _ = False"

fun wait_missing :: "store_error \<Rightarrow> bool" where
  "wait_missing (WaitNotFound _) = True"
| "wait_missing _ = False"

fun prepare_operations ::
    "world \<Rightarrow> codec \<Rightarrow> session_id \<Rightarrow> staged_operation list \<Rightarrow> operation_id set
     \<Rightarrow> (operation_id \<rightharpoonup> operation_kind) \<Rightarrow> (job, preparation_error + new_operation list) state" where
  "prepare_operations w cd sid [] seen kinds = State_Monad.return (Inr [])"
| "prepare_operations w cd sid (staged # rest) seen kinds =
     (let i = so_id staged in
      if i \<in> seen
      then State_Monad.return (Inl (InvalidOutcome
             (''duplicate operation ID '' @ cd_uuid_text cd i)))
      else do {
        found \<leftarrow> call w (query (operation i));
        bindS (State_Monad.return (must_be_new
            (''operation ID '' @ cd_uuid_text cd i @ '' already exists'') operation_missing found))
          (\<lambda>_. bindS (State_Monad.return (refuse (validate_execution_request staged)))
          (\<lambda>_. bindS (validate_references w cd sid staged kinds)
          (\<lambda>_. bindS (State_Monad.return (refuse (new_operation cd staged)))
          (\<lambda>n. bindS (prepare_operations w cd sid rest (insert i seen)
                  (kinds(no_id n \<mapsto> no_kind n)))
          (\<lambda>ns. State_Monad.return (Inr (n # ns)))))))
      })"

section \<open>Waits\<close>

definition new_wait :: "codec \<Rightarrow> staged_wait \<Rightarrow> string + new_wait" where
  "new_wait cd staged =
     (let spec = sw_spec staged in
      bindR (cd_value cd (ws_payload spec)) (\<lambda>payload.
      bindR (case ws_response_schema spec of
               None \<Rightarrow> Inr None
             | Some schema \<Rightarrow> bindR (cd_value cd schema) (\<lambda>text. Inr (Some text))) (\<lambda>schema.
      Inr \<lparr>nw_id = sw_id staged, nw_mode = ws_mode spec, nw_payload = payload,
           nw_response_schema = schema, nw_expires_at = ws_expires_at spec\<rparr>)))"

definition validate_staged_wait :: "codec \<Rightarrow> staged_wait \<Rightarrow> string + unit" where
  "validate_staged_wait cd staged =
     (case validate_wait_spec (sw_spec staged) of
        Inl e \<Rightarrow> Inl (wait_spec_error_text e)
      | Inr _ \<Rightarrow>
          (case ws_response_schema (sw_spec staged) of
             None \<Rightarrow> Inr ()
           | Some schema \<Rightarrow>
               (case cd_schema cd schema of
                  Inl e \<Rightarrow> Inl (''invalid wait response schema: '' @ e)
                | Inr _ \<Rightarrow> Inr ())))"

fun prepare_waits ::
    "world \<Rightarrow> codec \<Rightarrow> staged_wait list \<Rightarrow> wait_id set
     \<Rightarrow> (job, preparation_error + new_wait list) state" where
  "prepare_waits w cd [] seen = State_Monad.return (Inr [])"
| "prepare_waits w cd (staged # rest) seen =
     (let i = sw_id staged in
      if i \<in> seen
      then State_Monad.return (Inl (InvalidOutcome (''duplicate wait ID '' @ cd_uuid_text cd i)))
      else do {
        found \<leftarrow> call w (query (wait i));
        bindS (State_Monad.return (must_be_new
            (''wait ID '' @ cd_uuid_text cd i @ '' already exists'') wait_missing found))
          (\<lambda>_. bindS (State_Monad.return (refuse (validate_staged_wait cd staged)))
          (\<lambda>_. bindS (State_Monad.return (refuse (new_wait cd staged)))
          (\<lambda>n. bindS (prepare_waits w cd rest (insert i seen))
          (\<lambda>ns. State_Monad.return (Inr (n # ns))))))
      })"

section \<open>History and cancelled waits\<close>

fun prepare_history ::
    "codec \<Rightarrow> nat \<Rightarrow> message list \<Rightarrow> string + new_history_entry list" where
  "prepare_history cd k [] = Inr []"
| "prepare_history cd k (m # ms) =
     bindR (cd_message cd m) (\<lambda>text.
     bindR (prepare_history cd (Suc k) ms) (\<lambda>rest.
     Inr (\<lparr>nh_id = cd_entry_id cd k, nh_message = text\<rparr> # rest)))"

fun check_cancelled :: "codec \<Rightarrow> wait_id set \<Rightarrow> wait_id list \<Rightarrow> string + unit" where
  "check_cancelled cd seen [] = Inr ()"
| "check_cancelled cd seen (i # is) =
     (if i \<in> seen then Inl (''duplicate cancelled wait ID '' @ cd_uuid_text cd i)
      else check_cancelled cd (insert i seen) is)"

section \<open>The outcome\<close>

definition prepare_outcome ::
    "world \<Rightarrow> codec \<Rightarrow> session_id \<Rightarrow> serialized_outcome
     \<Rightarrow> (job, preparation_error + outcome_commit) state" where
  "prepare_outcome w cd sid out =
     bindS (prepare_operations w cd sid (ho_operations out) {} (\<lambda>_. None)) (\<lambda>ops.
     bindS (prepare_waits w cd (ho_waits out) {}) (\<lambda>ws.
     bindS (State_Monad.return (refuse (prepare_history cd 0 (ho_history out)))) (\<lambda>entries.
     bindS (State_Monad.return (refuse (check_cancelled cd {} (ho_cancelled_waits out)))) (\<lambda>_.
     State_Monad.return (Inr \<lparr>oc_state = ho_state out, oc_status = ho_status out,
       oc_history = entries, oc_operations = ops, oc_waits = ws,
       oc_cancelled_waits = ho_cancelled_waits out, oc_progress = ho_progress out\<rparr>)))))"

section \<open>Preparation reads only\<close>

lemma stays_validate_references [run_intros]:
  "others_step w \<Longrightarrow> stays_in_run (validate_references w cd sid staged kinds)"
  unfolding validate_references_def by (auto intro!: run_intros split: option.split)

lemma stays_prepare_operations [run_intros]:
  "others_step w \<Longrightarrow> stays_in_run (prepare_operations w cd sid staged seen kinds)"
  by (induction staged arbitrary: seen kinds) (auto simp: Let_def intro!: run_intros)

lemma stays_prepare_waits [run_intros]:
  "others_step w \<Longrightarrow> stays_in_run (prepare_waits w cd staged seen)"
  by (induction staged arbitrary: seen) (auto simp: Let_def intro!: run_intros)

lemma stays_prepare_outcome [run_intros]:
  "others_step w \<Longrightarrow> stays_in_run (prepare_outcome w cd sid out)"
  unfolding prepare_outcome_def by (auto intro!: run_intros)

end
