(* ===== verification/Integrity.thy ===== *)
theory Integrity
  imports Evolution
begin

text \<open>
  The schema of \<open>packages/agent-store/migrations\<close> as an invariant: every row passes its CHECK
  constraints, keys and unique indexes hold, and every foreign key has its target. A statement
  keeps what it does not touch and PostgreSQL checks what it writes, so whatever a transaction
  is composed of keeps the schema; the rules that compose the statements are the locale's.
\<close>

section \<open>Partial unique indexes\<close>

definition unique_by :: "('r \<Rightarrow> 'k option) \<Rightarrow> 'r list \<Rightarrow> bool" where
  "unique_by k rows \<longleftrightarrow> distinct (List.map_filter k rows)"

lemma map_filter_append: "List.map_filter k (xs @ ys) = List.map_filter k xs @ List.map_filter k ys"
  by (simp add: map_filter_def)

lemma set_map_filter: "x \<in> set (List.map_filter k rows) \<longleftrightarrow> (\<exists>r \<in> set rows. k r = Some x)"
  by (force simp: map_filter_def image_iff)

lemma unique_by_simps [simp]:
  "unique_by k []"
  "unique_by k (rows @ [r]) \<longleftrightarrow>
     unique_by k rows \<and> (\<forall>q \<in> set rows. k r \<noteq> None \<longrightarrow> k q \<noteq> k r)"
  by (auto simp: unique_by_def map_filter_append set_map_filter map_filter_simps split: option.splits)

lemma map_filter_row_update:
  assumes "\<And>r. k (f r) = k r"
  shows "List.map_filter k (row_update p f rows) = List.map_filter k rows"
  using assms by (induction rows) (simp_all add: map_filter_simps split: option.splits)

lemma unique_by_row_update [simp]:
  "(\<And>r. k (f r) = k r) \<Longrightarrow> unique_by k (row_update p f rows) = unique_by k rows"
  by (simp add: unique_by_def map_filter_row_update)

section \<open>The constraints of each table\<close>

type_synonym refs = "(uuid \<times> uuid) set"

definition event_refs :: "event_row list \<Rightarrow> refs" where
  "event_refs rows = (\<lambda>e. (e_session_id e, e_id e)) ` set rows"

definition operation_refs :: "operation_row list \<Rightarrow> refs" where
  "operation_refs rows = (\<lambda>r. (o_session_id r, o_id r)) ` set rows"

definition wait_refs :: "wait_row list \<Rightarrow> refs" where
  "wait_refs rows = (\<lambda>r. (w_session_id r, w_id r)) ` set rows"

definition ref_ok :: "refs \<Rightarrow> uuid \<Rightarrow> uuid option \<Rightarrow> bool" where
  "ref_ok refs s x \<longleftrightarrow> (case x of None \<Rightarrow> True | Some i \<Rightarrow> (s, i) \<in> refs)"

definition sessions_ok :: "refs \<Rightarrow> session_row list \<Rightarrow> bool" where
  "sessions_ok E rows \<longleftrightarrow> distinct (map s_id rows) \<and> list_all session_check rows
     \<and> list_all (\<lambda>s. ref_ok E (s_id s) (s_current_event_id s)) rows"

definition idempotency_index :: "event_row \<Rightarrow> (session_id \<times> event_type \<times> string) option" where
  "idempotency_index e =
     map_option (\<lambda>k. (e_session_id e, e_type e, k)) (e_idempotency_key e)"

definition completion_index :: "event_row \<Rightarrow> operation_id option option" where
  "completion_index e = (if e_type e = EvOperationCompleted then Some (e_operation_id e) else None)"

definition resumption_index :: "event_row \<Rightarrow> wait_id option option" where
  "resumption_index e = (if e_type e = EvWaitResumed then Some (e_wait_id e) else None)"

definition events_ok :: "uuid set \<Rightarrow> refs \<Rightarrow> refs \<Rightarrow> event_row list \<Rightarrow> bool" where
  "events_ok S O' W rows \<longleftrightarrow> distinct (map e_id rows)
     \<and> distinct (map (\<lambda>e. (e_session_id e, e_sequence e)) rows)
     \<and> unique_by idempotency_index rows \<and> unique_by completion_index rows
     \<and> unique_by resumption_index rows \<and> list_all event_check rows
     \<and> list_all (\<lambda>e. e_session_id e \<in> S \<and> ref_ok O' (e_session_id e) (e_operation_id e)
          \<and> ref_ok W (e_session_id e) (e_wait_id e)) rows"

definition attempts_ok :: "uuid set \<Rightarrow> attempt_row list \<Rightarrow> bool" where
  "attempts_ok E rows \<longleftrightarrow> distinct (map a_id rows)
     \<and> distinct (map (\<lambda>a. (a_event_id a, a_number a)) rows) \<and> list_all attempt_check rows
     \<and> list_all (\<lambda>a. a_event_id a \<in> E) rows"

definition history_rows_ok :: "uuid set \<Rightarrow> refs \<Rightarrow> history_row list \<Rightarrow> bool" where
  "history_rows_ok S E rows \<longleftrightarrow> distinct (map h_id rows)
     \<and> distinct (map (\<lambda>h. (h_session_id h, h_sequence h)) rows)
     \<and> list_all (\<lambda>h. 1 \<le> h_sequence h) rows
     \<and> list_all (\<lambda>h. h_session_id h \<in> S \<and> ref_ok E (h_session_id h) (h_source_event_id h)) rows"

definition operations_ok :: "uuid set \<Rightarrow> refs \<Rightarrow> operation_row list \<Rightarrow> bool" where
  "operations_ok S E rows \<longleftrightarrow> distinct (map o_id rows) \<and> distinct (job_keys rows)
     \<and> list_all operation_check rows
     \<and> list_all (\<lambda>r. o_session_id r \<in> S \<and> (o_session_id r, o_source_event_id r) \<in> E
          \<and> ref_ok (operation_refs rows) (o_session_id r) (o_target r)
          \<and> ref_ok (operation_refs rows) (o_session_id r) (o_previous r)) rows"

definition requests_ok :: "uuid set \<Rightarrow> request_row list \<Rightarrow> bool" where
  "requests_ok O' rows \<longleftrightarrow> distinct (map r_operation_id rows)
     \<and> list_all (\<lambda>q. r_operation_id q \<in> O') rows"

definition op_attempts_ok :: "uuid set \<Rightarrow> op_attempt_row list \<Rightarrow> bool" where
  "op_attempts_ok O' rows \<longleftrightarrow> distinct (map oa_id rows)
     \<and> distinct (map (\<lambda>a. (oa_operation_id a, oa_number a)) rows)
     \<and> list_all op_attempt_check rows \<and> list_all (\<lambda>a. oa_operation_id a \<in> O') rows"

definition waits_ok :: "uuid set \<Rightarrow> refs \<Rightarrow> wait_row list \<Rightarrow> bool" where
  "waits_ok S E rows \<longleftrightarrow> distinct (map w_id rows) \<and> list_all wait_check rows
     \<and> list_all (\<lambda>w. w_session_id w \<in> S \<and> (w_session_id w, w_source_event_id w) \<in> E) rows"

definition receipts_ok :: "receipt_row list \<Rightarrow> bool" where
  "receipts_ok rows \<longleftrightarrow> distinct (map g_id rows)
     \<and> distinct (map (\<lambda>g. (g_connection g, g_event_id g)) rows) \<and> list_all receipt_check rows"

definition retries_ok :: "uuid set \<Rightarrow> refs \<Rightarrow> retry_row list \<Rightarrow> bool" where
  "retries_ok S E rows \<longleftrightarrow> distinct (map p_id rows)
     \<and> distinct (map (\<lambda>p. (p_session_id p, p_key p)) rows)
     \<and> list_all (\<lambda>p. p_session_id p \<in> S \<and> (p_session_id p, p_event_id p) \<in> E) rows"

definition updates_ok :: "uuid set \<Rightarrow> refs \<Rightarrow> update_row list \<Rightarrow> bool" where
  "updates_ok S E rows \<longleftrightarrow> distinct (map (\<lambda>u. (u_session_id u, u_sequence u)) rows)
     \<and> list_all (\<lambda>u. 1 \<le> u_sequence u) rows
     \<and> list_all (\<lambda>u. u_session_id u \<in> S \<and> ref_ok E (u_session_id u) (u_source_event_id u)) rows"

definition schema_ok :: "db \<Rightarrow> bool" where
  "schema_ok db \<longleftrightarrow>
     (let S = s_id ` set (t_sessions db); E = event_refs (t_events db);
          P = operation_refs (t_operations db); W = wait_refs (t_waits db);
          O' = o_id ` set (t_operations db) in
      sessions_ok E (t_sessions db) \<and> events_ok S P W (t_events db)
      \<and> attempts_ok (e_id ` set (t_events db)) (t_attempts db)
      \<and> history_rows_ok S E (t_history db) \<and> operations_ok S E (t_operations db)
      \<and> requests_ok O' (t_requests db) \<and> op_attempts_ok O' (t_op_attempts db)
      \<and> waits_ok S E (t_waits db) \<and> receipts_ok (t_receipts db)
      \<and> retries_ok S E (t_retries db) \<and> updates_ok S E (t_updates db))"

lemmas table_defs =
  sessions_ok_def events_ok_def attempts_ok_def history_rows_ok_def operations_ok_def
  requests_ok_def op_attempts_ok_def waits_ok_def receipts_ok_def retries_ok_def updates_ok_def

section \<open>Adding and updating rows\<close>

lemma refs_append:
  "event_refs (es @ [e]) = insert (e_session_id e, e_id e) (event_refs es)"
  "operation_refs (os @ [r]) = insert (o_session_id r, o_id r) (operation_refs os)"
  "wait_refs (ws @ [w]) = insert (w_session_id w, w_id w) (wait_refs ws)"
  by (auto simp: event_refs_def operation_refs_def wait_refs_def)

lemma ref_ok_insert: "ref_ok R s x \<Longrightarrow> ref_ok (insert y R) s x"
  by (auto simp: ref_ok_def split: option.splits)

lemma image_row_update: "(\<And>r. k (f r) = k r) \<Longrightarrow> k ` set (row_update p f rows) = k ` set rows"
  by (induction rows) simp_all

lemma list_all_row_update:
  "list_all Q rows \<Longrightarrow> list_all (\<lambda>r. p r \<longrightarrow> Q (f r)) rows \<Longrightarrow> list_all Q (row_update p f rows)"
  by (induction rows) auto

lemma list_all_row_update_same:
  "(\<And>r. Q (f r) = Q r) \<Longrightarrow> list_all Q (row_update p f rows) = list_all Q rows"
  by (induction rows) auto

lemma ref_in:
  "event_in db s i \<longleftrightarrow> (s, i) \<in> event_refs (t_events db)"
  "operation_in db s i \<longleftrightarrow> (s, i) \<in> operation_refs (t_operations db)"
  "wait_in db s i \<longleftrightarrow> (s, i) \<in> wait_refs (t_waits db)"
  by (auto simp: event_in_def operation_in_def wait_in_def list_ex_iff event_refs_def
      operation_refs_def wait_refs_def)

lemma opt_ref_in:
  "opt_ref (event_in db s) x = ref_ok (event_refs (t_events db)) s x"
  "opt_ref (operation_in db s) x = ref_ok (operation_refs (t_operations db)) s x"
  "opt_ref (wait_in db s) x = ref_ok (wait_refs (t_waits db)) s x"
  by (auto simp: opt_ref_def ref_ok_def ref_in split: option.splits)

lemma found_rows:
  "session_of db i = None \<longleftrightarrow> i \<notin> s_id ` set (t_sessions db)"
  "event_of db i = None \<longleftrightarrow> i \<notin> e_id ` set (t_events db)"
  "operation_of db i = None \<longleftrightarrow> i \<notin> o_id ` set (t_operations db)"
  by (simp_all add: session_of_def event_of_def operation_of_def row_by_None)

section \<open>A target more never hurts\<close>

lemma targets_insert:
  "sessions_ok E ss \<Longrightarrow> sessions_ok (insert y E) ss"
  "events_ok S P W es \<Longrightarrow> events_ok (insert x S) P W es"
  "events_ok S P W es \<Longrightarrow> events_ok S (insert y P) W es"
  "events_ok S P W es \<Longrightarrow> events_ok S P (insert y W) es"
  "attempts_ok U ats \<Longrightarrow> attempts_ok (insert x U) ats"
  "history_rows_ok S E hs \<Longrightarrow> history_rows_ok (insert x S) E hs"
  "history_rows_ok S E hs \<Longrightarrow> history_rows_ok S (insert y E) hs"
  "operations_ok S E os \<Longrightarrow> operations_ok (insert x S) E os"
  "operations_ok S E os \<Longrightarrow> operations_ok S (insert y E) os"
  "requests_ok U qs \<Longrightarrow> requests_ok (insert x U) qs"
  "op_attempts_ok U oas \<Longrightarrow> op_attempts_ok (insert x U) oas"
  "waits_ok S E ws \<Longrightarrow> waits_ok (insert x S) E ws"
  "waits_ok S E ws \<Longrightarrow> waits_ok S (insert y E) ws"
  "retries_ok S E ps \<Longrightarrow> retries_ok (insert x S) E ps"
  "retries_ok S E ps \<Longrightarrow> retries_ok S (insert y E) ps"
  "updates_ok S E us \<Longrightarrow> updates_ok (insert x S) E us"
  "updates_ok S E us \<Longrightarrow> updates_ok S (insert y E) us"
  by (auto simp: table_defs list_all_iff intro: ref_ok_insert)

lemma schema_okD:
  assumes "schema_ok db"
  shows "sessions_ok (event_refs (t_events db)) (t_sessions db)"
    and "events_ok (s_id ` set (t_sessions db)) (operation_refs (t_operations db))
      (wait_refs (t_waits db)) (t_events db)"
    and "attempts_ok (e_id ` set (t_events db)) (t_attempts db)"
    and "history_rows_ok (s_id ` set (t_sessions db)) (event_refs (t_events db)) (t_history db)"
    and "operations_ok (s_id ` set (t_sessions db)) (event_refs (t_events db)) (t_operations db)"
    and "requests_ok (o_id ` set (t_operations db)) (t_requests db)"
    and "op_attempts_ok (o_id ` set (t_operations db)) (t_op_attempts db)"
    and "waits_ok (s_id ` set (t_sessions db)) (event_refs (t_events db)) (t_waits db)"
    and "receipts_ok (t_receipts db)"
    and "retries_ok (s_id ` set (t_sessions db)) (event_refs (t_events db)) (t_retries db)"
    and "updates_ok (s_id ` set (t_sessions db)) (event_refs (t_events db)) (t_updates db)"
  using assms by (simp_all add: schema_ok_def Let_def)

lemmas schema_simps = schema_ok_def Let_def refs_append targets_insert image_row_update

section \<open>Statements keep the schema\<close>

named_theorems keeps_schema "statements that keep the schema"

definition event_key where
  "event_key e = (e_id e, e_session_id e, e_sequence e, e_type e, e_idempotency_key e,
     e_operation_id e, e_wait_id e)"

definition operation_key where
  "operation_key r = (o_id r, o_session_id r, o_source_event_id r, o_target r, o_previous r)"

lemma insert_session_schema [keeps_schema]:
  assumes ins: "insert_session r db = Inr db'" and ok: "schema_ok db"
    and idle: "s_current_event_id r = None"
  shows "schema_ok db'"
proof -
  have "sessions_ok (event_refs (t_events db)) (t_sessions db @ [r])"
    using ins schema_okD(1) [OF ok] idle
    by (auto simp: insert_session_def sessions_ok_def ref_ok_def split: if_splits)
  then show ?thesis using schema_okD [OF ok] insert_session_Inr [OF ins] by (simp add: schema_simps)
qed

lemma update_sessions_schema [keeps_schema]:
  assumes up: "update_sessions p f db = Inr db'" and ok: "schema_ok db"
    and key: "\<And>s. s_id (f s) = s_id s"
  shows "schema_ok db'"
proof -
  have new: "list_all (\<lambda>s. p s \<longrightarrow> session_check (f s)) (t_sessions db)"
    "list_all (\<lambda>s. p s \<longrightarrow> ref_ok (event_refs (t_events db)) (s_id (f s)) (s_current_event_id (f s)))
       (t_sessions db)"
    using up by (auto simp: update_sessions_def opt_ref_in key split: if_splits)
  have "sessions_ok (event_refs (t_events db)) (t_sessions db)"
    using ok by (simp add: schema_ok_def Let_def)
  then have "sessions_ok (event_refs (t_events db)) (row_update p f (t_sessions db))"
    using new by (auto simp: sessions_ok_def key intro!: list_all_row_update)
  then show ?thesis
    using ok update_sessions_Inr [OF up] by (simp add: schema_ok_def Let_def image_row_update key)
qed

lemma insert_event_schema [keeps_schema]:
  assumes ins: "insert_event r db = Inr db'" and ok: "schema_ok db"
  shows "schema_ok db'"
proof -
  let ?S = "s_id ` set (t_sessions db)"
  let ?E = "event_refs (t_events db)"
  have new: "event_check r" "e_id r \<notin> e_id ` set (t_events db)"
      "\<forall>q \<in> set (t_events db). (e_session_id q, e_sequence q) \<noteq> (e_session_id r, e_sequence r)"
      "\<forall>q \<in> set (t_events db). idempotency_index r \<noteq> None \<longrightarrow>
         idempotency_index q \<noteq> idempotency_index r"
      "\<forall>q \<in> set (t_events db). completion_index r \<noteq> None \<longrightarrow> completion_index q \<noteq> completion_index r"
      "\<forall>q \<in> set (t_events db). resumption_index r \<noteq> None \<longrightarrow> resumption_index q \<noteq> resumption_index r"
      "e_session_id r \<in> ?S" "ref_ok (operation_refs (t_operations db)) (e_session_id r) (e_operation_id r)"
      "ref_ok (wait_refs (t_waits db)) (e_session_id r) (e_wait_id r)"
    using ins
    by (auto simp: insert_event_def list_ex_iff found_rows opt_ref_in idempotency_index_def
        completion_index_def resumption_index_def split: if_splits)
  have "events_ok ?S (operation_refs (t_operations db)) (wait_refs (t_waits db)) (t_events db @ [r])"
    using schema_okD(2) [OF ok] new by (auto simp: events_ok_def list_all_iff)
  then show ?thesis using schema_okD [OF ok] insert_event_Inr [OF ins] by (simp add: schema_simps)
qed

lemma update_events_schema [keeps_schema]:
  assumes up: "update_events p f db = Inr db'" and ok: "schema_ok db"
    and key: "\<And>e. event_key (f e) = event_key e"
  shows "schema_ok db'"
proof -
  have same: "e_id (f e) = e_id e" "e_session_id (f e) = e_session_id e"
      "e_sequence (f e) = e_sequence e" "e_type (f e) = e_type e" "e_operation_id (f e) = e_operation_id e"
      "e_idempotency_key (f e) = e_idempotency_key e" "e_wait_id (f e) = e_wait_id e" for e
    using key [of e] by (simp_all add: event_key_def)
  have "list_all (\<lambda>e. p e \<longrightarrow> event_check (f e)) (t_events db)"
    using up by (simp add: update_events_def split: if_splits)
  then have "events_ok (s_id ` set (t_sessions db)) (operation_refs (t_operations db))
      (wait_refs (t_waits db)) (row_update p f (t_events db))"
    using schema_okD(2) [OF ok]
    by (simp add: events_ok_def same list_all_row_update list_all_row_update_same
        idempotency_index_def completion_index_def resumption_index_def)
  moreover have "event_refs (row_update p f (t_events db)) = event_refs (t_events db)"
    by (simp add: event_refs_def image_row_update same)
  ultimately show ?thesis
    using schema_okD [OF ok] update_events_Inr [OF up] by (simp add: schema_simps same)
qed

lemma insert_attempt_schema [keeps_schema]:
  assumes ins: "insert_attempt r db = Inr db'" and ok: "schema_ok db"
  shows "schema_ok db'"
proof -
  have "attempts_ok (e_id ` set (t_events db)) (t_attempts db @ [r])"
    using ins schema_okD(3) [OF ok]
    by (auto simp: insert_attempt_def attempts_ok_def found_rows list_ex_iff list_all_iff
        split: if_splits)
  then show ?thesis using schema_okD [OF ok] insert_attempt_Inr [OF ins] by (simp add: schema_simps)
qed

lemma update_attempts_schema [keeps_schema]:
  assumes up: "update_attempts p f db = Inr db'" and ok: "schema_ok db"
    and key: "\<And>a. (a_id (f a), a_event_id (f a), a_number (f a)) = (a_id a, a_event_id a, a_number a)"
  shows "schema_ok db'"
proof -
  have same: "a_id (f a) = a_id a" "a_event_id (f a) = a_event_id a" "a_number (f a) = a_number a"
    for a using key [of a] by simp_all
  have "list_all (\<lambda>a. p a \<longrightarrow> attempt_check (f a)) (t_attempts db)"
    using up by (simp add: update_attempts_def split: if_splits)
  then have "attempts_ok (e_id ` set (t_events db)) (row_update p f (t_attempts db))"
    using schema_okD(3) [OF ok]
    by (simp add: attempts_ok_def same list_all_row_update list_all_row_update_same)
  then show ?thesis using schema_okD [OF ok] update_attempts_Inr [OF up] by (simp add: schema_simps)
qed

lemma insert_history_schema [keeps_schema]:
  assumes ins: "insert_history r db = Inr db'" and ok: "schema_ok db"
  shows "schema_ok db'"
proof -
  have "history_rows_ok (s_id ` set (t_sessions db)) (event_refs (t_events db)) (t_history db @ [r])"
    using ins schema_okD(4) [OF ok]
    by (auto simp: insert_history_def history_rows_ok_def found_rows opt_ref_in list_ex_iff
        list_all_iff split: if_splits)
  then show ?thesis using schema_okD [OF ok] insert_history_Inr [OF ins] by (simp add: schema_simps)
qed

lemma insert_operation_schema [keeps_schema]:
  assumes ins: "insert_operation r db = Inr db'" and ok: "schema_ok db"
  shows "schema_ok db'"
proof -
  have "operations_ok (s_id ` set (t_sessions db)) (event_refs (t_events db)) (t_operations db @ [r])"
    using ins schema_okD(5) [OF ok]
    by (auto simp: insert_operation_def operations_ok_def found_rows opt_ref_in ref_in list_all_iff
        refs_append intro: ref_ok_insert split: if_splits)
  then show ?thesis using schema_okD [OF ok] insert_operation_Inr [OF ins] by (simp add: schema_simps)
qed

lemma update_operations_schema [keeps_schema]:
  assumes up: "update_operations p f db = Inr db'" and ok: "schema_ok db"
    and key: "\<And>r. operation_key (f r) = operation_key r"
  shows "schema_ok db'"
proof -
  have same: "o_id (f r) = o_id r" "o_session_id (f r) = o_session_id r" "o_target (f r) = o_target r"
      "o_source_event_id (f r) = o_source_event_id r" "o_previous (f r) = o_previous r" for r
    using key [of r] by (simp_all add: operation_key_def)
  have refs: "operation_refs (row_update p f (t_operations db)) = operation_refs (t_operations db)"
    by (simp add: operation_refs_def image_row_update same)
  have "list_all (\<lambda>r. p r \<longrightarrow> operation_check (f r)) (t_operations db)"
      "distinct (job_keys (row_update p f (t_operations db)))"
    using up by (simp_all add: update_operations_def Let_def split: if_splits)
  then have "operations_ok (s_id ` set (t_sessions db)) (event_refs (t_events db))
      (row_update p f (t_operations db))"
    using schema_okD(5) [OF ok]
    by (simp add: operations_ok_def same refs list_all_row_update list_all_row_update_same)
  then show ?thesis
    using schema_okD [OF ok] update_operations_Inr [OF up] refs by (simp add: schema_simps same)
qed

lemma insert_request_schema [keeps_schema]:
  assumes ins: "insert_request r db = Inr db'" and ok: "schema_ok db"
  shows "schema_ok db'"
proof -
  have "requests_ok (o_id ` set (t_operations db)) (t_requests db @ [r])"
    using ins schema_okD(6) [OF ok]
    by (auto simp: insert_request_def requests_ok_def found_rows list_all_iff split: if_splits)
  then show ?thesis using schema_okD [OF ok] insert_request_Inr [OF ins] by (simp add: schema_simps)
qed

lemma update_requests_schema [keeps_schema]:
  assumes up: "update_requests p f db = Inr db'" and ok: "schema_ok db"
    and key: "\<And>q. r_operation_id (f q) = r_operation_id q"
  shows "schema_ok db'"
proof -
  have "requests_ok (o_id ` set (t_operations db)) (row_update p f (t_requests db))"
    using schema_okD(6) [OF ok] by (simp add: requests_ok_def key list_all_row_update_same)
  then show ?thesis using schema_okD [OF ok] update_requests_Inr [OF up] by (simp add: schema_simps)
qed

lemma delete_requests_schema [keeps_schema]:
  assumes del: "delete_requests p db = Inr db'" and ok: "schema_ok db"
  shows "schema_ok db'"
proof -
  have "requests_ok (o_id ` set (t_operations db)) (filter (\<lambda>r. \<not> p r) (t_requests db))"
    using schema_okD(6) [OF ok] by (simp add: requests_ok_def distinct_map_filter list_all_iff)
  then show ?thesis using schema_okD [OF ok] delete_requests_Inr [OF del] by (simp add: schema_simps)
qed

lemma insert_op_attempt_schema [keeps_schema]:
  assumes ins: "insert_op_attempt r db = Inr db'" and ok: "schema_ok db"
  shows "schema_ok db'"
proof -
  have "op_attempts_ok (o_id ` set (t_operations db)) (t_op_attempts db @ [r])"
    using ins schema_okD(7) [OF ok]
    by (auto simp: insert_op_attempt_def op_attempts_ok_def found_rows list_ex_iff list_all_iff
        split: if_splits)
  then show ?thesis
    using schema_okD [OF ok] insert_op_attempt_Inr [OF ins] by (simp add: schema_simps)
qed

lemma update_op_attempts_schema [keeps_schema]:
  assumes up: "update_op_attempts p f db = Inr db'" and ok: "schema_ok db"
    and key: "\<And>a. (oa_id (f a), oa_operation_id (f a), oa_number (f a))
      = (oa_id a, oa_operation_id a, oa_number a)"
  shows "schema_ok db'"
proof -
  have same: "oa_id (f a) = oa_id a" "oa_operation_id (f a) = oa_operation_id a"
      "oa_number (f a) = oa_number a" for a using key [of a] by simp_all
  have "list_all (\<lambda>a. p a \<longrightarrow> op_attempt_check (f a)) (t_op_attempts db)"
    using up by (simp add: update_op_attempts_def split: if_splits)
  then have "op_attempts_ok (o_id ` set (t_operations db)) (row_update p f (t_op_attempts db))"
    using schema_okD(7) [OF ok]
    by (simp add: op_attempts_ok_def same list_all_row_update list_all_row_update_same)
  then show ?thesis
    using schema_okD [OF ok] update_op_attempts_Inr [OF up] by (simp add: schema_simps)
qed

lemma insert_wait_schema [keeps_schema]:
  assumes ins: "insert_wait r db = Inr db'" and ok: "schema_ok db"
  shows "schema_ok db'"
proof -
  have "waits_ok (s_id ` set (t_sessions db)) (event_refs (t_events db)) (t_waits db @ [r])"
    using ins schema_okD(8) [OF ok]
    by (auto simp: insert_wait_def waits_ok_def found_rows ref_in list_all_iff split: if_splits)
  then show ?thesis using schema_okD [OF ok] insert_wait_Inr [OF ins] by (simp add: schema_simps)
qed

lemma update_waits_schema [keeps_schema]:
  assumes up: "update_waits p f db = Inr db'" and ok: "schema_ok db"
    and key: "\<And>r. (w_id (f r), w_session_id (f r), w_source_event_id (f r))
      = (w_id r, w_session_id r, w_source_event_id r)"
  shows "schema_ok db'"
proof -
  have same: "w_id (f r) = w_id r" "w_session_id (f r) = w_session_id r"
      "w_source_event_id (f r) = w_source_event_id r" for r using key [of r] by simp_all
  have "list_all (\<lambda>r. p r \<longrightarrow> wait_check (f r)) (t_waits db)"
    using up by (simp add: update_waits_def split: if_splits)
  then have "waits_ok (s_id ` set (t_sessions db)) (event_refs (t_events db))
      (row_update p f (t_waits db))"
    using schema_okD(8) [OF ok]
    by (simp add: waits_ok_def same list_all_row_update list_all_row_update_same)
  moreover have "wait_refs (row_update p f (t_waits db)) = wait_refs (t_waits db)"
    by (simp add: wait_refs_def image_row_update same)
  ultimately show ?thesis
    using schema_okD [OF ok] update_waits_Inr [OF up] by (simp add: schema_simps)
qed

lemma insert_receipt_schema [keeps_schema]:
  assumes ins: "insert_receipt r db = Inr (b, db')" and ok: "schema_ok db"
  shows "schema_ok db'"
proof -
  have "receipts_ok (t_receipts db @ [r])" if b
    using ins schema_okD(9) [OF ok] that
    by (auto simp: insert_receipt_def receipts_ok_def list_ex_iff split: if_splits)
  then show ?thesis
    using schema_okD [OF ok] insert_receipt_Inr [OF ins] by (simp add: schema_simps split: if_splits)
qed

lemma update_receipts_schema [keeps_schema]:
  assumes up: "update_receipts p f db = Inr db'" and ok: "schema_ok db"
    and key: "\<And>g. (g_id (f g), g_connection (f g), g_event_id (f g))
      = (g_id g, g_connection g, g_event_id g)"
  shows "schema_ok db'"
proof -
  have same: "g_id (f g) = g_id g" "g_connection (f g) = g_connection g"
      "g_event_id (f g) = g_event_id g" for g using key [of g] by simp_all
  have "list_all (\<lambda>g. p g \<longrightarrow> receipt_check (f g)) (t_receipts db)"
    using up by (simp add: update_receipts_def split: if_splits)
  then have "receipts_ok (row_update p f (t_receipts db))"
    using schema_okD(9) [OF ok] by (simp add: receipts_ok_def same list_all_row_update)
  then show ?thesis using schema_okD [OF ok] update_receipts_Inr [OF up] by (simp add: schema_simps)
qed

lemma insert_retry_schema [keeps_schema]:
  assumes ins: "insert_retry r db = Inr db'" and ok: "schema_ok db"
  shows "schema_ok db'"
proof -
  have "retries_ok (s_id ` set (t_sessions db)) (event_refs (t_events db)) (t_retries db @ [r])"
    using ins schema_okD(10) [OF ok]
    by (auto simp: insert_retry_def retries_ok_def found_rows ref_in list_ex_iff list_all_iff
        split: if_splits)
  then show ?thesis using schema_okD [OF ok] insert_retry_Inr [OF ins] by (simp add: schema_simps)
qed

lemma insert_update_schema [keeps_schema]:
  assumes ins: "insert_update r db = Inr db'" and ok: "schema_ok db"
  shows "schema_ok db'"
proof -
  have "updates_ok (s_id ` set (t_sessions db)) (event_refs (t_events db)) (t_updates db @ [r])"
    using ins schema_okD(11) [OF ok]
    by (auto simp: insert_update_def updates_ok_def found_rows opt_ref_in list_ex_iff list_all_iff
        split: if_splits)
  then show ?thesis using schema_okD [OF ok] insert_update_Inr [OF ins] by (simp add: schema_simps)
qed

lemma delete_updates_schema [keeps_schema]:
  assumes del: "delete_updates p db = Inr db'" and ok: "schema_ok db"
  shows "schema_ok db'"
proof -
  have "updates_ok (s_id ` set (t_sessions db)) (event_refs (t_events db))
      (filter (\<lambda>r. \<not> p r) (t_updates db))"
    using schema_okD(11) [OF ok] by (simp add: updates_ok_def distinct_map_filter list_all_iff)
  then show ?thesis using schema_okD [OF ok] delete_updates_Inr [OF del] by (simp add: schema_simps)
qed

end
