(* ===== verification/IntegritySteps.thy ===== *)
theory IntegritySteps
  imports Integrity
begin

text \<open>
  Every transaction of the store keeps the schema. \<open>okR P m\<close> says that \<open>P\<close> holds of what
  \<open>m\<close> returns, if it returns: one rule per construct of the result monad and one per
  statement, so that a transaction's proof follows its text.
\<close>

section \<open>Rules that follow the text of a transaction\<close>

definition okR :: "('a \<Rightarrow> bool) \<Rightarrow> 'e + 'a \<Rightarrow> bool" where
  "okR P m = (case m of Inl _ \<Rightarrow> True | Inr x \<Rightarrow> P x)"

named_theorems ok_rules "rules that follow the text of a transaction"

lemma okRD: "okR P m \<Longrightarrow> m = Inr x \<Longrightarrow> P x"
  by (simp add: okR_def)

lemma okRI: "(\<And>x. m = Inr x \<Longrightarrow> P x) \<Longrightarrow> okR P m"
  by (simp add: okR_def split: sum.splits)

lemma okR_monad [ok_rules]:
  "okR (\<lambda>x. okR P (f x)) m \<Longrightarrow> okR P (bindR m f)"
  "P y \<Longrightarrow> okR P (Inr y)"
  "okR P (Inl e)"
  "(b \<Longrightarrow> Q ()) \<Longrightarrow> okR Q (guardR b e')"
  by (auto simp: okR_def bindR_def guardR_def split: sum.splits)

lemma okR_ok_or [ok_rules]: "(\<And>v. x = Some v \<Longrightarrow> P v) \<Longrightarrow> okR P (ok_or x e)"
  by (auto simp: okR_def ok_or_def split: option.splits)

lemma okR_if [ok_rules]: "(b \<Longrightarrow> okR P m) \<Longrightarrow> (\<not> b \<Longrightarrow> okR P m') \<Longrightarrow> okR P (if b then m else m')"
  by simp

lemma okR_Let [ok_rules]: "okR P (f x) \<Longrightarrow> okR P (Let x f)"
  by (simp add: Let_def)

lemma okR_option [ok_rules]:
  "(x = None \<Longrightarrow> okR P m) \<Longrightarrow> (\<And>v. x = Some v \<Longrightarrow> okR P (f v)) \<Longrightarrow>
     okR P (case x of None \<Rightarrow> m | Some v \<Rightarrow> f v)"
  by (simp split: option.split)

lemma okR_prod [ok_rules]:
  "(\<And>a b. x = (a, b) \<Longrightarrow> okR P (f a b)) \<Longrightarrow> okR P (case x of (a, b) \<Rightarrow> f a b)"
  by (simp split: prod.split)

lemma okR_foldR:
  assumes "\<And>x s. x \<in> set xs \<Longrightarrow> Q s \<Longrightarrow> okR Q (f x s)" and "Q s" and "\<And>t. Q t \<Longrightarrow> P t"
  shows "okR P (foldR f xs s)"
proof (rule okRI)
  fix t assume "foldR f xs s = Inr t"
  then have "Q t" using assms(2)
    by (rule foldR_invariant) (metis assms(1) okRD)
  then show "P t" by (rule assms(3))
qed

text \<open>Reads and checks that return no database.\<close>

lemma okR_reads [ok_rules]:
  "(\<And>n. P n) \<Longrightarrow> okR P (duration_millis d)"
  "(\<And>n. Q n) \<Longrightarrow> okR Q (lock_session_sequence i db)"
  "(\<And>x. R x) \<Longrightarrow> okR R (lock_valid_session_claim now hc db)"
  "(\<And>r. S r) \<Longrightarrow> okR S (lock_valid_operation_claim now k db)"
  "(\<And>g. T g) \<Longrightarrow> okR T (lock_valid_callback_claim now kr db)"
  "(\<And>m. U m) \<Longrightarrow> okR U (parse_message env text)"
  "(\<And>e. V e) \<Longrightarrow> okR V (wait_event_in_tx wid db)"
  "(\<And>s. W s) \<Longrightarrow> okR W (session_record i db)"
  by (simp_all add: okR_def split: sum.splits)

lemma okR_statements [ok_rules]:
  assumes ok: "schema_ok db" and P: "\<And>db'. schema_ok db' \<Longrightarrow> P db'"
  shows "(\<And>s. s_id (f s) = s_id s) \<Longrightarrow> okR P (update_sessions p f db)"
    and "okR P (insert_event e db)"
    and "(\<And>e. event_key (g e) = event_key e) \<Longrightarrow> okR P (update_events p1 g db)"
    and "okR P (insert_attempt a db)"
    and "(\<And>a. (a_id (h a), a_event_id (h a), a_number (h a)) = (a_id a, a_event_id a, a_number a)) \<Longrightarrow>
      okR P (update_attempts p2 h db)"
    and "okR P (insert_history hr db)"
    and "okR P (insert_operation r db)"
    and "(\<And>r. operation_key (k r) = operation_key r) \<Longrightarrow> okR P (update_operations p3 k db)"
    and "okR P (insert_request q db)"
    and "(\<And>q. r_operation_id (l q) = r_operation_id q) \<Longrightarrow> okR P (update_requests p4 l db)"
    and "okR P (delete_requests p5 db)"
    and "okR P (insert_op_attempt oa db)"
    and "(\<And>a. (oa_id (m a), oa_operation_id (m a), oa_number (m a))
        = (oa_id a, oa_operation_id a, oa_number a)) \<Longrightarrow> okR P (update_op_attempts p6 m db)"
    and "okR P (insert_wait w db)"
    and "(\<And>r. (w_id (n r), w_session_id (n r), w_source_event_id (n r))
        = (w_id r, w_session_id r, w_source_event_id r)) \<Longrightarrow> okR P (update_waits p7 n db)"
    and "(\<And>g. (g_id (u g), g_connection (u g), g_event_id (u g)) = (g_id g, g_connection g, g_event_id g)) \<Longrightarrow>
      okR P (update_receipts p8 u db)"
    and "okR P (insert_retry pr db)"
    and "okR P (insert_update up db)"
    and "okR P (delete_updates p9 db)"
  by (rule okRI, rule P, rule keeps_schema; (rule ok | assumption | simp))+

lemma okR_insert_receipt [ok_rules]:
  "schema_ok db \<Longrightarrow> (\<And>b db'. schema_ok db' \<Longrightarrow> P (b, db')) \<Longrightarrow> okR P (insert_receipt r db)"
  by (rule okRI) (metis insert_receipt_schema prod.exhaust)

lemma okR_emit_event [ok_rules]:
  "schema_ok db \<Longrightarrow> (\<And>db'. schema_ok db' \<Longrightarrow> P db') \<Longrightarrow>
     okR P (emit_update_with_event env sid kind payload source db)"
  unfolding emit_update_with_event_def by (auto intro!: ok_rules)

lemma okR_emit [ok_rules]:
  "schema_ok db \<Longrightarrow> (\<And>db'. schema_ok db' \<Longrightarrow> P db') \<Longrightarrow> okR P (emit_update env sid kind payload db)"
  unfolding emit_update_def by (auto intro!: ok_rules)

lemmas key_simps = event_key_def operation_key_def

section \<open>Sessions and the inbox\<close>





lemma advance_event_sequence_schema [ok_rules]:
  "schema_ok db \<Longrightarrow> (\<And>db'. schema_ok db' \<Longrightarrow> P db') \<Longrightarrow> okR P (advance_event_sequence env i db)"
  unfolding advance_event_sequence_def by (auto intro!: ok_rules)







section \<open>Waits and operations\<close>

lemma insert_wait_event_schema [ok_rules]:
  "schema_ok db \<Longrightarrow> (\<And>e db'. schema_ok db' \<Longrightarrow> P (e, db')) \<Longrightarrow>
     okR P (insert_wait_event env i sid wid seq finish db)"
  unfolding insert_wait_event_def by (auto intro!: ok_rules)



lemma finish_operation_attempt_schema [ok_rules]:
  "schema_ok db \<Longrightarrow> (\<And>db'. schema_ok db' \<Longrightarrow> P db') \<Longrightarrow>
     okR P (finish_operation_attempt env k status http error db)"
  unfolding finish_operation_attempt_def by (auto intro!: ok_rules)

lemma expire_request_schema [ok_rules]:
  "schema_ok db \<Longrightarrow> (\<And>db'. schema_ok db' \<Longrightarrow> P db') \<Longrightarrow> okR P (expire_request i expires db)"
  unfolding expire_request_def by (auto intro!: ok_rules)

lemma insert_operation_event_schema [ok_rules]:
  "schema_ok db \<Longrightarrow> (\<And>e db'. schema_ok db' \<Longrightarrow> P (e, db')) \<Longrightarrow>
     okR P (insert_operation_event env i sid oid kind status seq db)"
  unfolding insert_operation_event_def by (auto intro!: ok_rules)

lemma withdraw_target_schema [ok_rules]:
  "schema_ok db \<Longrightarrow> (\<And>e db'. schema_ok db' \<Longrightarrow> P (e, db')) \<Longrightarrow>
     okR P (withdraw_target env sid target expires seq db)"
  unfolding withdraw_target_def by (auto intro!: ok_rules simp: key_simps)




lemma emit_each_schema [ok_rules]:
  assumes "schema_ok db" and "\<And>db'. schema_ok db' \<Longrightarrow> P db'"
  shows "okR P (foldR (\<lambda>x. emit_update env sid kind (payload x)) xs db)"
  by (rule okR_foldR [where Q = schema_ok]) (auto intro!: ok_rules assms)


section \<open>Commits\<close>

lemma commit_history_schema [ok_rules]:
  "schema_ok db \<Longrightarrow> (\<And>n db'. schema_ok db' \<Longrightarrow> P (n, db')) \<Longrightarrow>
     okR P (commit_history env hc entries seq db)"
  by (induction env hc entries seq db rule: commit_history.induct) (auto intro!: ok_rules)

lemma commit_operation_schema [ok_rules]:
  "schema_ok db \<Longrightarrow> (\<And>db'. schema_ok db' \<Longrightarrow> P db') \<Longrightarrow> okR P (commit_operation env hc n db)"
  unfolding commit_operation_def by (auto intro!: ok_rules)

lemma commit_wait_schema [ok_rules]:
  "schema_ok db \<Longrightarrow> (\<And>db'. schema_ok db' \<Longrightarrow> P db') \<Longrightarrow> okR P (commit_wait env hc n db)"
  unfolding commit_wait_def by (auto intro!: ok_rules)

lemma commit_progress_schema [ok_rules]:
  "schema_ok db \<Longrightarrow> (\<And>db'. schema_ok db' \<Longrightarrow> P db') \<Longrightarrow> okR P (commit_progress env hc v db)"
  unfolding commit_progress_def by (auto intro!: ok_rules)

lemma commit_cancelled_wait_schema:
  "schema_ok (snd (snd st)) \<Longrightarrow> okR (\<lambda>st. schema_ok (snd (snd st))) (commit_cancelled_wait env hc wid st)"
  unfolding commit_cancelled_wait_def by (cases st) (auto intro!: ok_rules)

lemma commit_loops_schema [ok_rules]:
  assumes ok: "schema_ok db" and P: "\<And>db'. schema_ok db' \<Longrightarrow> P db'"
  shows "okR P (foldR (commit_operation env hc) ops db)"
    and "okR P (foldR (commit_wait env hc) ws db)"
    and "okR P (foldR (commit_progress env hc) vs db)"
  by (rule okR_foldR [where Q = schema_ok]; auto intro!: ok_rules ok P)+

lemma commit_cancelled_waits_schema [ok_rules]:
  assumes "schema_ok db" and "\<And>q n db'. schema_ok db' \<Longrightarrow> Q (q, n, db')"
  shows "okR Q (foldR (commit_cancelled_wait env hc) wids (seq, m, db))"
  by (rule okR_foldR [where Q = "\<lambda>st. schema_ok (snd (snd st))"])
    (use assms commit_cancelled_wait_schema in auto)

lemma commit_effects_schema [ok_rules]:
  "schema_ok db \<Longrightarrow> (\<And>h e db'. schema_ok db' \<Longrightarrow> P (h, e, db')) \<Longrightarrow>
     okR P (commit_effects env hc oc seq db)"
  unfolding commit_effects_def by (auto intro!: ok_rules)


section \<open>Callbacks, requests and the update log\<close>





lemma remove_request_schema [ok_rules]:
  "schema_ok db \<Longrightarrow> (\<And>db'. schema_ok db' \<Longrightarrow> P db') \<Longrightarrow> okR P (remove_request env now sid i db)"
  unfolding remove_request_def by (auto intro!: ok_rules simp: key_simps)



section \<open>Every step\<close>








section \<open>The schema is never broken\<close>



end
