(* ===== verification/CommitProgress.thy ===== *)
theory CommitProgress
  imports Preparation IntegritySteps
begin

text \<open>
  What \<open>prepare_outcome\<close> checks is enough: the transaction that commits a prepared outcome
  cannot meet a constraint. First what preparation has checked, as a predicate on the rows
  it produced; then, statement by statement, that the commit goes through.
\<close>

section \<open>What preparation has checked\<close>

text \<open>Nothing else runs and the connection holds.\<close>

definition quiet :: "world \<Rightarrow> bool" where
  "quiet w \<longleftrightarrow> (\<forall>k. rt_outage w k = None \<and> rt_others w k = (\<lambda>db. db))"

lemma quiet_query:
  assumes "quiet w"
  shows "run_state (call w (query f)) s = (f (j_db s), after_call (j_db s) s)"
  using assms by (auto simp: quiet_def call_def query_def bindR_def Let_def split: sum.splits)

lemma run_bindS:
  "run_state (bindS m f) s = (case run_state m s of
     (Inl e, s') \<Rightarrow> (Inl e, s') | (Inr x, s') \<Rightarrow> run_state (f x) s')"
  by (auto simp: bindS_def split: prod.splits sum.splits)

lemma bindS_InrD:
  assumes "run_state (bindS m f) s = (Inr y, s')"
  obtains x t where "run_state m s = (Inr x, t)" "run_state (f x) t = (Inr y, s')"
  using assms by (auto simp: run_bindS split: prod.splits sum.splits)

fun operations_fit ::
    "db \<Rightarrow> session_id \<Rightarrow> operation_id set \<Rightarrow> new_operation list \<Rightarrow> bool" where
  "operations_fit db sid staged [] = True"
| "operations_fit db sid staged (n # ns) \<longleftrightarrow>
     no_id n \<notin> staged \<and> operation_of db (no_id n) = None
     \<and> (if no_kind n \<in> {KindLlm, KindExecution} then no_connection n \<noteq> None else no_target n \<noteq> None)
     \<and> (\<forall>i. no_target n = Some i \<or> no_previous n = Some i \<longrightarrow>
          i \<noteq> no_id n \<and> (i \<in> staged \<or> operation_in db sid i))
     \<and> operations_fit db sid (insert (no_id n) staged) ns"

lemma operation_for_session_Some:
  "operation_for_session sid i db = Some r \<Longrightarrow> operation_in db sid i"
  by (auto simp: operation_for_session_def operation_in_def list_ex_iff find_Some_iff)

lemma validate_references_ok:
  assumes "quiet w" and run: "run_state (validate_references w cd sid staged kinds) s = (Inr u, s')"
    and kinds: "dom kinds = known"
  shows "j_db s' = j_db s \<and> (\<forall>i required. reference_of (so_request staged) = Some (i, required) \<longrightarrow>
    i \<noteq> so_id staged \<and> (i \<in> known \<or> operation_in (j_db s) sid i))"
proof (cases "reference_of (so_request staged)")
  case None
  with run show ?thesis by (simp add: validate_references_def)
next
  case (Some p)
  obtain i required where p: "p = (i, required)" by (cases p)
  with Some run have ne: "i \<noteq> so_id staged"
    by (auto simp: validate_references_def split: if_splits)
  show ?thesis
  proof (cases "kinds i")
    case None
    then show ?thesis
      using run Some p ne assms(1) operation_for_session_Some
      by (auto simp: validate_references_def quiet_query split: option.splits)
  next
    case (Some k)
    then have "i \<in> known" using kinds by auto
    then show ?thesis
      using run \<open>reference_of (so_request staged) = Some p\<close> p ne Some
      by (auto simp: validate_references_def)
  qed
qed

lemma new_operation_ok:
  assumes "new_operation cd staged = Inr n"
  shows "no_id n = so_id staged
    \<and> (if no_kind n \<in> {KindLlm, KindExecution} then no_connection n \<noteq> None else no_target n \<noteq> None)
    \<and> (\<forall>i. no_target n = Some i \<or> no_previous n = Some i \<longrightarrow>
         (\<exists>required. reference_of (so_request staged) = Some (i, required)))"
  using assms
  by (cases "so_request staged")
    (auto simp: new_operation_def reference_of_def result_simps split: llm_request.splits)

lemma prepare_operations_fit:
  assumes "quiet w"
  shows "run_state (prepare_operations w cd sid staged seen kinds) s = (Inr ns, s') \<Longrightarrow>
    dom kinds = seen \<Longrightarrow> j_db s' = j_db s \<and> operations_fit (j_db s) sid seen ns"
proof (induction staged arbitrary: seen kinds s ns)
  case Nil
  then show ?case by simp
next
  case (Cons op rest)
  let ?i = "so_id op"
  have new: "?i \<notin> seen" using Cons.prems(1) by (auto simp: Let_def split: if_splits)
  obtain u t n ns' where
    found: "operation_of (j_db s) ?i = None"
    and refs: "run_state (validate_references w cd sid op kinds) (after_call (j_db s) s) = (Inr u, t)"
    and n: "new_operation cd op = Inr n"
    and rest: "run_state (prepare_operations w cd sid rest (insert ?i seen)
        (kinds(no_id n \<mapsto> no_kind n))) t = (Inr ns', s')"
    and ns: "ns = n # ns'"
    using Cons.prems(1) new
    by (auto simp: Let_def quiet_query [OF assms] must_be_new_def operation_def refuse_def
        elim!: bindS_InrD split: sum.splits if_splits)
  note ref = validate_references_ok [OF assms refs Cons.prems(2)]
  note built = new_operation_ok [OF n]
  have "j_db s' = j_db t \<and> operations_fit (j_db t) sid (insert ?i seen) ns'"
    by (rule Cons.IH [OF rest]) (use built Cons.prems(2) in auto)
  with ref built new found show ?case by (auto simp: ns)
qed

fun waits_fit :: "db \<Rightarrow> wait_id set \<Rightarrow> new_wait list \<Rightarrow> bool" where
  "waits_fit db staged [] = True"
| "waits_fit db staged (n # ns) \<longleftrightarrow>
     nw_id n \<notin> staged \<and> wait_of db (nw_id n) = None
     \<and> (nw_mode n = External \<longleftrightarrow> nw_expires_at n = None)
     \<and> (nw_mode n = Expiration \<longrightarrow> nw_response_schema n = None)
     \<and> waits_fit db (insert (nw_id n) staged) ns"

lemma prepare_waits_fit:
  assumes "quiet w"
  shows "run_state (prepare_waits w cd staged seen) s = (Inr ns, s') \<Longrightarrow>
    j_db s' = j_db s \<and> waits_fit (j_db s) seen ns"
proof (induction staged arbitrary: seen s ns)
  case Nil
  then show ?case by simp
next
  case (Cons st rest)
  let ?i = "sw_id st"
  have new: "?i \<notin> seen" using Cons.prems(1) by (auto simp: Let_def split: if_splits)
  obtain n ns' where
    found: "wait_of (j_db s) ?i = None"
    and valid: "validate_staged_wait cd st = Inr ()"
    and n: "new_wait cd st = Inr n"
    and rest: "run_state (prepare_waits w cd rest (insert ?i seen)) (after_call (j_db s) s) = (Inr ns', s')"
    and ns: "ns = n # ns'"
    using Cons.prems(1) new
    by (auto simp: Let_def quiet_query [OF assms] must_be_new_def wait_def refuse_def
        elim!: bindS_InrD split: sum.splits if_splits)
  have spec: "validate_wait_spec (sw_spec st) = Inr ()"
    using valid by (auto simp: validate_staged_wait_def split: sum.splits)
  have "nw_id n = ?i" "nw_mode n = ws_mode (sw_spec st)"
      "nw_expires_at n = ws_expires_at (sw_spec st)"
      "nw_response_schema n = None \<longleftrightarrow> ws_response_schema (sw_spec st) = None"
    using n by (auto simp: new_wait_def result_simps Let_def split: option.splits)
  moreover have "j_db s' = j_db s \<and> waits_fit (j_db s) (insert ?i seen) ns'"
    using Cons.IH [OF rest] by simp
  ultimately show ?case using new found spec [unfolded validate_wait_spec_ok] by (auto simp: ns)
qed

lemma prepare_history_ids:
  "prepare_history cd k ms = Inr es \<Longrightarrow>
     map nh_id es = map (cd_entry_id cd) [k..<k + length ms]
     \<and> (\<forall>e \<in> set es. \<exists>m. cd_message cd m = Inr (nh_message e))"
proof (induction ms arbitrary: k es)
  case Nil
  then show ?case by simp
next
  case (Cons m ms)
  then obtain raw rest where "cd_message cd m = Inr raw" "prepare_history cd (Suc k) ms = Inr rest"
    "es = \<lparr>nh_id = cd_entry_id cd k, nh_message = raw\<rparr> # rest"
    by (auto simp: result_simps)
  with Cons.IH [of "Suc k" rest] show ?case
    by (auto simp del: upt_Suc simp: upt_conv_Cons)
qed

text \<open>What a prepared outcome is.\<close>

lemma prepare_outcome_fit:
  assumes w: "quiet w" and run: "run_state (prepare_outcome w cd sid out) s = (Inr oc, s')"
  shows "j_db s' = j_db s \<and> operations_fit (j_db s) sid {} (oc_operations oc)
    \<and> waits_fit (j_db s) {} (oc_waits oc)
    \<and> map nh_id (oc_history oc) = map (cd_entry_id cd) [0..<length (ho_history out)]
    \<and> (\<forall>e \<in> set (oc_history oc). \<exists>m. cd_message cd m = Inr (nh_message e))
    \<and> oc_state oc = ho_state out \<and> oc_status oc = ho_status out
    \<and> oc_cancelled_waits oc = ho_cancelled_waits out \<and> oc_progress oc = ho_progress out"
proof -
  obtain ops t ws t' es where
    ops: "run_state (prepare_operations w cd sid (ho_operations out) {} (\<lambda>_. None)) s = (Inr ops, t)"
    and ws: "run_state (prepare_waits w cd (ho_waits out) {}) t = (Inr ws, s')"
    and es: "prepare_history cd 0 (ho_history out) = Inr es"
    and oc: "oc = \<lparr>oc_state = ho_state out, oc_status = ho_status out, oc_history = es,
       oc_operations = ops, oc_waits = ws, oc_cancelled_waits = ho_cancelled_waits out,
       oc_progress = ho_progress out\<rparr>"
    using run unfolding prepare_outcome_def
    by (auto simp: refuse_def elim!: bindS_InrD split: sum.splits)
  have "j_db t = j_db s \<and> operations_fit (j_db s) sid {} ops"
    by (rule prepare_operations_fit [OF w ops]) simp
  moreover have "j_db s' = j_db t \<and> waits_fit (j_db t) {} ws"
    by (rule prepare_waits_fit [OF w ws])
  ultimately show ?thesis using prepare_history_ids [OF es] by (simp add: oc)
qed

end
