(* ===== verification/CommitTotal.thy ===== *)
theory CommitTotal
  imports CommitProgress
begin

text \<open>
  The commit of a prepared outcome goes through: for each statement of \<open>commit_body\<close> the
  constraint it could break is ruled out by the invariants of the store or by what
  preparation checked.
\<close>

section \<open>Emitting an update\<close>

definition sound :: "db \<Rightarrow> bool" where
  "sound db \<longleftrightarrow> schema_ok db \<and> log_ok db"

lemma soundD: "sound db \<Longrightarrow> schema_ok db" "sound db \<Longrightarrow> log_ok db"
  by (simp_all add: sound_def)

lemma session_row_checked:
  assumes "schema_ok db" and "session_of db i = Some s"
  shows "session_check s \<and> opt_ref (event_in db i) (s_current_event_id s)"
  using schema_okD(1) [OF assms(1)] session_of_Some [OF assms(2)]
  by (auto simp: sessions_ok_def list_all_iff opt_ref_in)

text \<open>An update of one session row whose new columns pass the checks.\<close>

lemma update_session_total:
  assumes ok: "schema_ok db" and s: "session_of db i = Some s"
    and new: "session_check (f s)" "s_current_event_id (f s) = s_current_event_id s
      \<or> s_current_event_id (f s) = None"
  shows "update_sessions (\<lambda>r. s_id r = i) f db
    = Inr (db\<lparr>t_sessions := row_update (\<lambda>r. s_id r = i) f (t_sessions db)\<rparr>)"
proof -
  have "r = s" if "r \<in> set (t_sessions db)" "s_id r = i" for r
    using that schema_okD(1) [OF ok] session_of_Some [OF s]
    by (auto simp: sessions_ok_def dest: distinct_keyD)
  then show ?thesis
    using new session_row_checked [OF ok s]
    by (auto simp: update_sessions_def list_all_iff opt_ref_def)
qed

lemma emit_total:
  assumes ok: "sound db" and s: "session_of db sid = Some s"
    and source: "opt_ref (event_in db sid) source"
  shows "\<exists>db'. emit_update_with_event env sid kind payload source db = Inr db'"
proof -
  let ?f = "\<lambda>r. r\<lparr>s_next_update_sequence := s_next_update_sequence r + 1\<rparr>"
  have checked: "session_check s" using session_row_checked [OF soundD(1) [OF ok] s] by simp
  then have one: "1 \<le> s_next_update_sequence s" by (simp add: session_check_def)
  have up: "update_sessions (\<lambda>r. s_id r = sid) ?f db
      = Inr (db\<lparr>t_sessions := row_update (\<lambda>r. s_id r = sid) ?f (t_sessions db)\<rparr>)"
    by (rule update_session_total [OF soundD(1) [OF ok] s])
      (use checked in \<open>auto simp: session_check_def\<close>)
  have nums: "map u_sequence (filter (\<lambda>u. u_session_id u = sid) (t_updates db))
      = [s_retained_update_sequence s..s_next_update_sequence s - 1]"
    using log_ok_session [OF soundD(2) [OF ok] s] by (simp add: numbered_def)
  have "u_sequence u < s_next_update_sequence s"
    if "u \<in> set (t_updates db)" "u_session_id u = sid" for u
  proof -
    have "u_sequence u \<in> set (map u_sequence (filter (\<lambda>u. u_session_id u = sid) (t_updates db)))"
      using that by simp
    then show ?thesis by (simp only: nums) simp
  qed
  then have fresh: "\<not> list_ex (\<lambda>q. u_session_id q = sid \<and> u_sequence q = s_next_update_sequence s)
      (t_updates db)"
    unfolding list_ex_iff by (metis order_less_irrefl)
  have "session_of (db\<lparr>t_sessions := row_update (\<lambda>r. s_id r = sid) ?f (t_sessions db)\<rparr>) sid \<noteq> None"
    using s by (simp add: session_of_def row_by_update_key)
  then show ?thesis
    using s up one fresh source
    by (auto simp: emit_update_with_event_def insert_update_def opt_ref_in)
qed

lemma emit_sound:
  assumes "emit_update_with_event env sid kind payload source db = Inr db'" and "sound db"
  shows "sound db'"
  using assms okR_emit_event [of db schema_ok env sid kind payload source] emit_update_log [OF assms(1)]
    okRD [of schema_ok _ db'] by (fastforce simp: sound_def log_from_def)

lemma emit_step:
  assumes "sound db" and "session_of db sid = Some s" and "opt_ref (event_in db sid) source"
  obtains db' where "emit_update_with_event env sid kind payload source db = Inr db'" "sound db'"
    "strip db' = strip db"
  using emit_total [OF assms] emit_sound emit_update_strip assms(1) by blast

section \<open>History entries\<close>

lemma event_in_cong: "t_events db' = t_events db \<Longrightarrow> event_in db' s i = event_in db s i"
  by (simp add: event_in_def)

lemma commit_history_total:
  assumes "session_of db (c_session_id claim) \<noteq> None"
    and "event_in db (c_session_id claim) (c_event_id claim)" and "1 \<le> seq"
    and "\<forall>e \<in> set entries. \<exists>m. env_message env (nh_message e) = Inr m"
    and "distinct (map nh_id entries)" and "nh_id ` set entries \<inter> h_id ` set (t_history db) = {}"
    and "\<forall>h \<in> set (t_history db). h_session_id h = c_session_id claim \<longrightarrow> h_sequence h < seq"
  shows "\<exists>r. commit_history env claim entries seq db = Inr r"
  using assms
proof (induction entries arbitrary: seq db)
  case Nil
  then show ?case by simp
next
  case (Cons e es)
  obtain m where m: "parse_message env (nh_message e) = Inr m"
    using Cons.prems(4) by (auto simp: parse_message_def)
  let ?row = "history_row_of env claim seq e m"
  let ?db = "db\<lparr>t_history := t_history db @ [?row]\<rparr>"
  have ins: "insert_history ?row db = Inr ?db"
    using Cons.prems
    by (auto simp: insert_history_def history_row_of_def list_ex_iff opt_ref_def)
  have "\<exists>r. commit_history env claim es (seq + 1) ?db = Inr r"
    using Cons.prems
    by (intro Cons.IH) (force simp: session_of_simps event_in_def history_row_of_def)+
  with m ins show ?case by simp
qed

section \<open>Operations and waits\<close>

text \<open>The commit's session and event, as the loops need them.\<close>

definition stage :: "handler_claim \<Rightarrow> db \<Rightarrow> bool" where
  "stage claim db \<longleftrightarrow> sound db \<and> (\<exists>s. session_of db (c_session_id claim) = Some s)
     \<and> event_in db (c_session_id claim) (c_event_id claim)"

lemma stage_strip:
  assumes "stage claim db" and "sound db'" and "map strip_session (t_sessions db') = map strip_session (t_sessions db)"
    and "\<exists>es. t_events db' = t_events db @ es"
  shows "stage claim db'"
proof -
  obtain s where s: "session_of db (c_session_id claim) = Some s"
    using assms(1) by (auto simp: stage_def)
  have "map_option strip_session (session_of db' (c_session_id claim)) = Some (strip_session s)"
    using session_of_stripped [OF assms(3)] s by simp
  then have "\<exists>s. session_of db' (c_session_id claim) = Some s" by auto
  then show ?thesis using assms by (auto simp: stage_def event_in_def)
qed

lemma stage_emit:
  assumes st: "stage claim db" and source: "source = None \<or> source = Some (c_event_id claim)"
  obtains db' where
    "emit_update_with_event env (c_session_id claim) kind payload source db = Inr db'"
    "stage claim db'" "strip db' = strip db"
proof -
  from st obtain s where s: "sound db" "session_of db (c_session_id claim) = Some s"
    by (auto simp: stage_def)
  have "opt_ref (event_in db (c_session_id claim)) source"
    using source st by (auto simp: opt_ref_def stage_def)
  from emit_step [OF s this] obtain db' where
    run: "emit_update_with_event env (c_session_id claim) kind payload source db = Inr db'"
    and db': "sound db'" "strip db' = strip db" .
  have "stage claim db'"
    using stage_strip [OF st db'(1)] emit_update_frame [OF run] by auto
  from that [OF run this db'(2)] show thesis .
qed

lemma stage_emit_plain:
  assumes "stage claim db"
  obtains db' where "emit_update env (c_session_id claim) kind payload db = Inr db'"
    "stage claim db'" "strip db' = strip db"
  unfolding emit_update_def by (rule stage_emit [OF assms disjI1 [OF refl]]) blast

lemma stage_emit_if:
  assumes st: "stage claim db"
  obtains db' where "(if b then emit_update env (c_session_id claim) kind payload db else Inr db)
      = Inr db'" "stage claim db'" "strip db' = strip db"
proof (cases b)
  case True
  then show thesis using that by (auto intro: stage_emit_plain [OF st, of env kind payload])
next
  case False
  then show thesis using that st by simp
qed

lemma job_keys_append_None:
  "o_job_id r = None \<Longrightarrow> job_keys (rows @ [r]) = job_keys rows"
  by (simp add: job_keys_def map_filter_append map_filter_simps split: option.splits)

lemma commit_operation_total:
  assumes st: "stage claim db" and fresh: "operation_of db (no_id n) = None"
    and kind: "if no_kind n \<in> {KindLlm, KindExecution} then no_connection n \<noteq> None else no_target n \<noteq> None"
    and refs: "\<forall>i. no_target n = Some i \<or> no_previous n = Some i \<longrightarrow>
      i \<noteq> no_id n \<and> operation_in db (c_session_id claim) i"
  obtains db' where "commit_operation env claim n db = Inr db'" "stage claim db'"
    "strip db' = strip db\<lparr>t_operations := t_operations db @ [operation_row_of env claim n],
       t_requests := t_requests db @ [request_row_of n]\<rparr>"
proof -
  let ?r = "operation_row_of env claim n"
  let ?db1 = "db\<lparr>t_operations := t_operations db @ [?r]\<rparr>"
  let ?db2 = "?db1\<lparr>t_requests := t_requests db @ [request_row_of n]\<rparr>"
  have ok: "schema_ok db" using st by (simp add: stage_def sound_def)
  have check: "operation_check ?r"
    using kind refs
    by (cases "no_kind n") (auto simp: operation_check_def operation_row_of_def)
  have ins: "insert_operation ?r db = Inr ?db1"
    using st check fresh refs schema_okD(5) [OF ok]
    by (auto simp: insert_operation_def stage_def operations_ok_def found_rows(3) opt_ref_def
        job_keys_append_None operation_row_of_def split: option.splits)
  have req: "insert_request \<lparr>r_operation_id = no_id n, r_request = no_request n, r_expires_at = None\<rparr>
      ?db1 = Inr ?db2"
    using fresh schema_okD(6) [OF ok]
    by (auto simp: insert_request_def requests_ok_def found_rows list_all_iff request_row_of_def
        operation_row_of_def)
  have "schema_ok ?db2"
    using insert_request_schema [OF req insert_operation_schema [OF ins ok]] .
  then have "stage claim ?db2"
    using st by (auto simp: stage_def sound_def log_ok_def session_of_def event_in_def)
  then obtain db' where "emit_update env (c_session_id claim) OperationChanged
      (OperationRef (no_id n)) ?db2 = Inr db'" "stage claim db'" "strip db' = strip ?db2"
    by (rule stage_emit_plain)
  then show thesis using that ins req by (simp add: commit_operation_def)
qed

lemma operation_of_strip: "strip db' = strip d \<Longrightarrow> operation_of db' i = operation_of d i"
  by (drule arg_cong [where f = t_operations]) (simp add: operation_of_def)

lemma commit_operations_total:
  assumes "stage claim db" and "operations_fit base (c_session_id claim) staged ns"
    and "\<And>i. operation_of base i = None \<Longrightarrow> i \<notin> staged \<Longrightarrow> operation_of db i = None"
    and "\<And>i. i \<in> staged \<or> operation_in base (c_session_id claim) i \<Longrightarrow>
      operation_in db (c_session_id claim) i"
  shows "\<exists>db'. foldR (commit_operation env claim) ns db = Inr db' \<and> stage claim db'"
  using assms
proof (induction ns arbitrary: db staged)
  case Nil
  then show ?case by simp
next
  case (Cons n ns)
  have n: "operation_of base (no_id n) = None" "no_id n \<notin> staged"
    "if no_kind n \<in> {KindLlm, KindExecution} then no_connection n \<noteq> None else no_target n \<noteq> None"
    "operations_fit base (c_session_id claim) (insert (no_id n) staged) ns"
    and refs: "\<forall>i. no_target n = Some i \<or> no_previous n = Some i \<longrightarrow>
      i \<noteq> no_id n \<and> (i \<in> staged \<or> operation_in base (c_session_id claim) i)"
    using Cons.prems(2) by simp_all
  have refs': "\<forall>i. no_target n = Some i \<or> no_previous n = Some i \<longrightarrow>
      i \<noteq> no_id n \<and> operation_in db (c_session_id claim) i"
    using refs Cons.prems(4) by blast
  obtain mid where mid: "commit_operation env claim n db = Inr mid" "stage claim mid"
    "strip mid = strip db\<lparr>t_operations := t_operations db @ [operation_row_of env claim n],
       t_requests := t_requests db @ [request_row_of n]\<rparr>"
    by (rule commit_operation_total [OF Cons.prems(1) Cons.prems(3) [OF n(1,2)] n(3) refs'])
  have ops: "t_operations mid = t_operations db @ [operation_row_of env claim n]"
    using arg_cong [OF mid(3), of t_operations] by simp
  have "\<exists>db'. foldR (commit_operation env claim) ns mid = Inr db' \<and> stage claim db'"
  proof (rule Cons.IH [OF mid(2) n(4)])
    fix i assume "operation_of base i = None" "i \<notin> insert (no_id n) staged"
    then show "operation_of mid i = None"
      using Cons.prems(3) by (auto simp: operation_of_def ops row_by_append operation_row_of_def)
  next
    fix i assume "i \<in> insert (no_id n) staged \<or> operation_in base (c_session_id claim) i"
    then show "operation_in mid (c_session_id claim) i"
      using Cons.prems(4) by (auto simp: operation_in_def ops operation_row_of_def)
  qed
  with mid(1) show ?case by simp
qed

lemma commit_wait_total:
  assumes st: "stage claim db" and fresh: "wait_of db (nw_id n) = None"
    and mode: "nw_mode n = External \<longleftrightarrow> nw_expires_at n = None"
      "nw_mode n = Expiration \<longrightarrow> nw_response_schema n = None"
  obtains db' where "commit_wait env claim n db = Inr db'" "stage claim db'"
    "strip db' = strip db\<lparr>t_waits := t_waits db @ [wait_row_of env claim n]\<rparr>"
proof -
  let ?db1 = "db\<lparr>t_waits := t_waits db @ [wait_row_of env claim n]\<rparr>"
  have ok: "schema_ok db" using st by (simp add: stage_def sound_def)
  have ins: "insert_wait (wait_row_of env claim n) db = Inr ?db1"
    using st fresh mode
    by (auto simp: insert_wait_def stage_def wait_of_def row_by_None wait_check_def wait_row_of_def)
  then have "stage claim ?db1"
    using st insert_wait_schema [OF ins ok]
    by (auto simp: stage_def sound_def log_ok_def session_of_def event_in_def)
  then obtain db' where "emit_update env (c_session_id claim) WaitChanged (WaitRef (nw_id n)) ?db1
      = Inr db'" "stage claim db'" "strip db' = strip ?db1"
    by (rule stage_emit_plain)
  then show thesis using that ins by (simp add: commit_wait_def)
qed

lemma commit_waits_total:
  assumes "stage claim db" and "waits_fit base staged ns"
    and "\<And>i. wait_of base i = None \<Longrightarrow> i \<notin> staged \<Longrightarrow> wait_of db i = None"
  shows "\<exists>db'. foldR (commit_wait env claim) ns db = Inr db' \<and> stage claim db'"
  using assms
proof (induction ns arbitrary: db staged)
  case Nil
  then show ?case by simp
next
  case (Cons n ns)
  have n: "wait_of base (nw_id n) = None" "nw_id n \<notin> staged"
      "nw_mode n = External \<longleftrightarrow> nw_expires_at n = None"
      "nw_mode n = Expiration \<longrightarrow> nw_response_schema n = None"
      "waits_fit base (insert (nw_id n) staged) ns"
    using Cons.prems(2) by simp_all
  obtain mid where mid: "commit_wait env claim n db = Inr mid" "stage claim mid"
    "strip mid = strip db\<lparr>t_waits := t_waits db @ [wait_row_of env claim n]\<rparr>"
    by (rule commit_wait_total [OF Cons.prems(1) Cons.prems(3) [OF n(1,2)] n(3,4)])
  have ws: "t_waits mid = t_waits db @ [wait_row_of env claim n]"
    using arg_cong [OF mid(3), of t_waits] by simp
  have "\<exists>db'. foldR (commit_wait env claim) ns mid = Inr db' \<and> stage claim db'"
    by (rule Cons.IH [OF mid(2) n(5)])
      (use Cons.prems(3) in \<open>auto simp: wait_of_def ws row_by_append wait_row_of_def\<close>)
  with mid(1) show ?case by simp
qed

section \<open>Cancelled waits\<close>

definition ending :: "env \<Rightarrow> handler_claim \<Rightarrow> int \<times> nat \<times> db \<Rightarrow> bool" where
  "ending env claim st = (case st of (seq, n, db) \<Rightarrow>
     stage claim db \<and> waits_settled db \<and> 1 \<le> seq
     \<and> (\<forall>e \<in> set (t_events db). e_session_id e = c_session_id claim \<longrightarrow> e_sequence e < seq)
     \<and> (\<forall>m. n \<le> m \<longrightarrow> env_uuid env m \<notin> e_id ` set (t_events db)))"

lemma no_resumption:
  assumes "waits_settled db" and "w \<in> set (t_waits db)" and "w_status w = WtPending"
  shows "\<forall>e \<in> set (t_events db). e_wait_id e \<noteq> Some (w_id w)"
  using settled_once_count [OF assms(1) [unfolded waits_settled_def] assms(2)] assms(3)
  by (auto simp: wait_final_def filter_empty_conv)

lemma insert_wait_event_total:
  assumes st: "stage claim db" and wid: "wait_in db (c_session_id claim) wid"
    and none: "\<forall>e \<in> set (t_events db). e_wait_id e \<noteq> Some wid"
    and seq: "1 \<le> seq"
      "\<forall>e \<in> set (t_events db). e_session_id e = c_session_id claim \<longrightarrow> e_sequence e < seq"
    and fresh: "i \<notin> e_id ` set (t_events db)"
  shows "insert_wait_event env i (c_session_id claim) wid seq fin db
    = Inr (wait_event_row env i (c_session_id claim) wid seq fin,
        db\<lparr>t_events := t_events db @ [wait_event_row env i (c_session_id claim) wid seq fin]\<rparr>)"
proof -
  let ?e = "wait_event_row env i (c_session_id claim) wid seq fin"
  have "event_check ?e" using seq(1) by (simp add: event_check_def wait_event_row_def new_event_def)
  moreover have "\<not> list_ex (\<lambda>q. e_session_id q = c_session_id claim \<and> e_sequence q = seq) (t_events db)"
    unfolding list_ex_iff using seq(2) by (metis order_less_irrefl)
  moreover have "\<not> list_ex (\<lambda>q. e_type q = EvWaitResumed \<and> e_wait_id q = Some wid) (t_events db)"
    using none by (auto simp: list_ex_iff)
  ultimately have "insert_event ?e db = Inr (db\<lparr>t_events := t_events db @ [?e]\<rparr>)"
    using st wid fresh
    by (auto simp: insert_event_def wait_event_row_def new_event_def opt_ref_def stage_def)
  then show ?thesis by (simp add: insert_wait_event_def)
qed

lemma waits_ended_start: "waits_ended sid seq db (seq, n, db)"
  by (auto simp: waits_ended_def intro!: exI [of _ "[]"] strip_eqI)

lemma commit_cancelled_wait_total:
  assumes inv: "ending env claim (seq, n, db)" and inj: "inj (env_uuid env)"
    and wid: "wait_in db (c_session_id claim) wid"
  shows "\<exists>seq' n' db'. commit_cancelled_wait env claim wid (seq, n, db) = Inr (seq', n', db')
    \<and> ending env claim (seq', n', db') \<and> wait_refs (t_waits db') = wait_refs (t_waits db)"
proof -
  let ?sid = "c_session_id claim"
  have st: "stage claim db" and settled: "waits_settled db" and seq: "1 \<le> seq"
      "\<forall>e \<in> set (t_events db). e_session_id e = ?sid \<longrightarrow> e_sequence e < seq"
    and fresh: "\<And>m. n \<le> m \<Longrightarrow> env_uuid env m \<notin> e_id ` set (t_events db)"
    using inv by (auto simp: ending_def)
  have ok: "schema_ok db" using st by (simp add: stage_def sound_def)
  obtain w where w: "List.find (\<lambda>w. w_id w = wid \<and> w_session_id w = ?sid) (t_waits db) = Some w"
    using wid by (cases "List.find (\<lambda>w. w_id w = wid \<and> w_session_id w = ?sid) (t_waits db)")
      (auto simp: wait_in_def find_None_iff list_ex_iff)
  then have mem: "w \<in> set (t_waits db)" "w_id w = wid" "w_session_id w = ?sid"
    by (auto simp: find_Some_iff)
  show ?thesis
  proof (cases "w_status w = WtPending")
    case False
    with w inv show ?thesis by (simp add: commit_cancelled_wait_def Let_def)
  next
    case True
    define fin where "fin = (if (w_mode w = Expiration \<or> w_mode w = Either)
        \<and> deadline_passed (w_expires_at w) (env_clock env (2 * n + 1))
      then FinExpired else FinCancelled)"
    let ?db1 = "db\<lparr>t_waits := row_update (\<lambda>r. w_id r = wid) (ended_row env n w) (t_waits db)\<rparr>"
    let ?e = "wait_event_row env (env_uuid env n) ?sid wid seq fin"
    let ?db2 = "?db1\<lparr>t_events := t_events db @ [?e]\<rparr>"
    have "r = w" if "r \<in> set (t_waits db)" "w_id r = wid" for r
      using that mem schema_okD(8) [OF ok] by (auto simp: waits_ok_def dest: distinct_keyD)
    then have check: "list_all (\<lambda>r. w_id r = wid \<longrightarrow> wait_check (ended_row env n w r)) (t_waits db)"
      using schema_okD(8) [OF ok] True
      by (auto simp: waits_ok_def list_all_iff wait_check_def ended_row_def)
    then have up: "update_waits (\<lambda>r. w_id r = wid) (ended_row env n w) db = Inr ?db1"
      by (simp add: update_waits_def)
    have "schema_ok ?db1"
      by (rule update_waits_schema [OF up ok]) (simp add: ended_row_def)
    then have st1: "stage claim ?db1"
      using st by (auto simp: stage_def sound_def log_ok_def session_of_def event_in_def)
    have refs: "wait_refs (t_waits ?db1) = wait_refs (t_waits db)"
      by (simp add: wait_refs_def image_row_update ended_row_def)
    have ins: "insert_wait_event env (env_uuid env n) ?sid wid seq fin ?db1 = Inr (?e, ?db2)"
      using insert_wait_event_total [OF st1, of wid seq "env_uuid env n" env fin] wid refs seq
        no_resumption [OF settled mem(1) True] mem(2) fresh [of n]
      by (simp add: ref_in)
    have "schema_ok ?db2"
      using ins st1 insert_event_schema
      by (auto simp: insert_wait_event_def result_simps stage_def sound_def)
    then have st2: "stage claim ?db2"
      using st1 by (auto simp: stage_def sound_def log_ok_def session_of_def event_in_def)
    obtain db3 where db3: "emit_update env ?sid WaitChanged (WaitRef wid) ?db2 = Inr db3"
      "stage claim db3" "strip db3 = strip ?db2" by (rule stage_emit_plain [OF st2])
    obtain db4 where db4: "emit_update env ?sid EventChanged (EventRef (e_id ?e) None) db3 = Inr db4"
      "stage claim db4" "strip db4 = strip db3" by (rule stage_emit_plain [OF db3(2)])
    have run: "commit_cancelled_wait env claim wid (seq, n, db) = Inr (seq + 1, n + 1, db4)"
      using w True up ins db3(1) db4(1)
      by (simp add: commit_cancelled_wait_def Let_def fin_def ended_row_def [abs_def])
    have tables: "t_events db4 = t_events db @ [?e]" "t_waits db4 = t_waits ?db1"
      using arg_cong [OF db3(3), of t_events] arg_cong [OF db4(3), of t_events]
        arg_cong [OF db3(3), of t_waits] arg_cong [OF db4(3), of t_waits] by simp_all
    have "wait_ledger db db4"
      using commit_cancelled_wait_step [OF run waits_ended_start] by (auto simp: waits_ended_def)
    then have "waits_settled db4"
      using ledger_run_once settled by (fastforce simp: waits_settled_def)
    moreover have "env_uuid env m \<noteq> env_uuid env n" if "n + 1 \<le> m" for m
      using that inj by (auto dest: injD)
    ultimately have "ending env claim (seq + 1, n + 1, db4)"
      using db4(2) seq fresh
      by (auto simp: ending_def tables wait_event_row_def new_event_def)
    with run show ?thesis using tables(2) refs by auto
  qed
qed

lemma commit_cancelled_waits_total:
  assumes "ending env claim (seq, n, db)" and inj: "inj (env_uuid env)"
    and "\<forall>i \<in> set wids. wait_in db (c_session_id claim) i"
  shows "\<exists>seq' n' db'. foldR (commit_cancelled_wait env claim) wids (seq, n, db) = Inr (seq', n', db')
    \<and> ending env claim (seq', n', db')"
  using assms(1,3)
proof (induction wids arbitrary: seq n db)
  case Nil
  then show ?case by simp
next
  case (Cons i rest)
  obtain seq1 n1 db1 where one: "commit_cancelled_wait env claim i (seq, n, db) = Inr (seq1, n1, db1)"
    "ending env claim (seq1, n1, db1)" "wait_refs (t_waits db1) = wait_refs (t_waits db)"
    using commit_cancelled_wait_total [OF Cons.prems(1) inj] Cons.prems(2) by fastforce
  have "\<forall>j \<in> set rest. wait_in db1 (c_session_id claim) j"
    using Cons.prems(2) one(3) by (simp add: ref_in)
  from Cons.IH [OF one(2) this] one(1) show ?case by simp
qed

lemma commit_progresses_total:
  assumes "stage claim db"
  shows "\<exists>db'. foldR (commit_progress env claim) vs db = Inr db' \<and> stage claim db'"
  using assms
proof (induction vs arbitrary: db)
  case Nil
  then show ?case by simp
next
  case (Cons v vs)
  obtain mid where "commit_progress env claim v db = Inr mid" "stage claim mid"
    unfolding commit_progress_def by (rule stage_emit [OF Cons.prems disjI2 [OF refl]]) blast
  with Cons.IH show ?case by simp
qed

section \<open>The transaction\<close>

text \<open>What the identifiers and the codec provide: fresh random identifiers, and a JSON codec
  that reads back the messages it wrote.\<close>

definition fresh_identifiers :: "env \<Rightarrow> codec \<Rightarrow> db \<Rightarrow> bool" where
  "fresh_identifiers env cd db \<longleftrightarrow>
     inj (env_uuid env) \<and> range (env_uuid env) \<inter> e_id ` set (t_events db) = {}
     \<and> inj (cd_entry_id cd) \<and> range (cd_entry_id cd) \<inter> h_id ` set (t_history db) = {}"

definition reads_back :: "env \<Rightarrow> codec \<Rightarrow> bool" where
  "reads_back env cd \<longleftrightarrow> (\<forall>m t. cd_message cd m = Inr t \<longrightarrow> env_message env t = Inr m)"

text \<open>Every cancelled wait belongs to the session, or is staged by the same outcome.\<close>

definition cancels_known :: "db \<Rightarrow> session_id \<Rightarrow> outcome_commit \<Rightarrow> bool" where
  "cancels_known db sid oc \<longleftrightarrow>
     list_all (\<lambda>i. wait_in db sid i \<or> i \<in> nw_id ` set (oc_waits oc)) (oc_cancelled_waits oc)"

lemma history_part_total:
  assumes st: "stage claim db" and s: "session_of db (c_session_id claim) = Some s"
    and hist: "history_ok db" and fresh: "fresh_identifiers env cd db" and codec: "reads_back env cd"
    and ids: "map nh_id es = map (cd_entry_id cd) [0..<k]"
    and raw: "\<forall>e \<in> set es. \<exists>m. cd_message cd m = Inr (nh_message e)"
  obtains h db' where "commit_history env claim es (s_next_history_sequence s) db = Inr (h, db')"
    "1 \<le> h" "stage claim db'" "db' = db\<lparr>t_history := t_history db'\<rparr>"
proof -
  have ok: "schema_ok db" using st by (simp add: stage_def sound_def)
  have check: "session_check s" using session_row_checked [OF ok s] by simp
  have nums: "map h_sequence (filter (\<lambda>h. h_session_id h = c_session_id claim) (t_history db))
      = [1..s_next_history_sequence s - 1]"
    using hist session_of_Some [OF s] by (auto simp: history_ok_def list_all_iff numbered_def)
  have below: "h_sequence h < s_next_history_sequence s"
    if "h \<in> set (t_history db)" "h_session_id h = c_session_id claim" for h
  proof -
    have "h_sequence h \<in> set (map h_sequence
        (filter (\<lambda>h. h_session_id h = c_session_id claim) (t_history db)))"
      using that by simp
    then show ?thesis by (simp only: nums) simp
  qed
  have set: "nh_id ` set es \<subseteq> range (cd_entry_id cd)"
    using arg_cong [OF ids, of set] by auto
  have "\<exists>r. commit_history env claim es (s_next_history_sequence s) db = Inr r"
  proof (rule commit_history_total)
    show "session_of db (c_session_id claim) \<noteq> None" using s by simp
    show "event_in db (c_session_id claim) (c_event_id claim)" using st by (simp add: stage_def)
    show "1 \<le> s_next_history_sequence s" using check by (simp add: session_check_def)
    show "\<forall>e \<in> set es. \<exists>m. env_message env (nh_message e) = Inr m"
      using raw codec by (auto simp: reads_back_def)
    show "distinct (map nh_id es)"
      using fresh by (auto simp: ids distinct_map fresh_identifiers_def inj_on_def dest: injD)
    show "nh_id ` set es \<inter> h_id ` set (t_history db) = {}"
      using set fresh unfolding fresh_identifiers_def by blast
    show "\<forall>h \<in> set (t_history db). h_session_id h = c_session_id claim \<longrightarrow>
        h_sequence h < s_next_history_sequence s" using below by simp
  qed
  then obtain h db' where run: "commit_history env claim es (s_next_history_sequence s) db = Inr (h, db')"
    by auto
  note eff = commit_history_effect [OF run]
  have "schema_ok db'"
    using okRD [OF commit_history_schema [OF ok, of "\<lambda>r. schema_ok (snd r)"] run] by simp
  then have "stage claim db'"
    using st eff by (auto simp: stage_def sound_def log_ok_def session_of_def event_in_def)
  moreover have "1 \<le> h" using eff check by (simp add: session_check_def)
  ultimately show thesis using that [OF run] eff by auto
qed

text \<open>The operations, the waits, the cancelled waits and the progress entries.\<close>

lemma commit_rest_total:
  assumes st: "stage claim db" and s: "session_of db (c_session_id claim) = Some s"
    and inbox: "inbox_ok db" and settled: "waits_settled db"
    and fit: "operations_fit db (c_session_id claim) {} (oc_operations oc)" "waits_fit db {} (oc_waits oc)"
    and ids: "inj (env_uuid env)" "range (env_uuid env) \<inter> e_id ` set (t_events db) = {}"
    and known: "cancels_known db (c_session_id claim) oc"
  obtains db1 db2 s' seq n db3 db4 where
    "foldR (commit_operation env claim) (oc_operations oc) db = Inr db1"
    "foldR (commit_wait env claim) (oc_waits oc) db1 = Inr db2"
    "session_of db2 (c_session_id claim) = Some s'"
    "foldR (commit_cancelled_wait env claim) (oc_cancelled_waits oc) (s_next_event_sequence s', 0, db2)
       = Inr (seq, n, db3)"
    "foldR (commit_progress env claim) (oc_progress oc) db3 = Inr db4" "1 \<le> seq" "stage claim db4"
proof -
  let ?sid = "c_session_id claim"
  obtain db1 where db1: "foldR (commit_operation env claim) (oc_operations oc) db = Inr db1" "stage claim db1"
    using commit_operations_total [OF st fit(1)] by auto
  note eff1 = commit_operations_effect [OF db1(1)]
  have w1: "t_waits db1 = t_waits db" "t_events db1 = t_events db"
      "map strip_session (t_sessions db1) = map strip_session (t_sessions db)"
    using arg_cong [OF eff1, of t_waits] arg_cong [OF eff1, of t_events]
      arg_cong [OF eff1, of t_sessions] by simp_all
  obtain db2 where db2: "foldR (commit_wait env claim) (oc_waits oc) db1 = Inr db2" "stage claim db2"
    using commit_waits_total [OF db1(2) fit(2), of env] w1(1) by (auto simp: wait_of_def)
  note eff2 = commit_waits_effect [OF db2(1)]
  have w2: "t_waits db2 = t_waits db @ map (wait_row_of env claim) (oc_waits oc)"
      "t_events db2 = t_events db"
      "map strip_session (t_sessions db2) = map strip_session (t_sessions db)"
    using arg_cong [OF eff2, of t_waits] arg_cong [OF eff2, of t_events]
      arg_cong [OF eff2, of t_sessions] w1 by simp_all
  have "map_option strip_session (session_of db2 ?sid) = Some (strip_session s)"
    using session_of_stripped [OF w2(3)] s by simp
  then obtain s' where s': "session_of db2 ?sid = Some s'" "strip_session s' = strip_session s" by auto
  have next_seq: "s_next_event_sequence s' = s_next_event_sequence s"
    using arg_cong [OF s'(2), of s_next_event_sequence] by simp
  have nums: "map e_sequence (session_events db ?sid) = [1..s_next_event_sequence s - 1]"
    and pos: "1 \<le> s_next_event_sequence s"
    using inbox_ok_session [OF inbox s] by (simp_all add: session_inbox_ok_def)
  have below: "e_sequence e < s_next_event_sequence s"
    if "e \<in> set (t_events db)" "e_session_id e = ?sid" for e
  proof -
    have "e_sequence e \<in> set (map e_sequence (session_events db ?sid))"
      using that by (simp add: session_events_def)
    then show ?thesis by (simp only: nums) simp
  qed
  have "waits_settled db1" using settled by (simp add: waits_settled_def w1)
  then have "waits_settled db2"
    using ledger_run_once [OF commit_waits_ledger [OF db2(1)]] by (simp add: waits_settled_def)
  then have start: "ending env claim (s_next_event_sequence s', 0, db2)"
    using db2(2) pos below ids(2) by (auto simp: ending_def next_seq w2)
  have "\<forall>i \<in> set (oc_cancelled_waits oc). wait_in db2 ?sid i"
    using known
    by (auto simp: cancels_known_def list_all_iff wait_in_def list_ex_iff w2 bex_Un image_iff
        wait_row_of_def)
  then obtain seq n db3 where db3: "foldR (commit_cancelled_wait env claim) (oc_cancelled_waits oc)
      (s_next_event_sequence s', 0, db2) = Inr (seq, n, db3)" "ending env claim (seq, n, db3)"
    using commit_cancelled_waits_total [OF start ids(1)] by blast
  then have "stage claim db3" by (simp add: ending_def)
  then obtain db4 where "foldR (commit_progress env claim) (oc_progress oc) db3 = Inr db4" "stage claim db4"
    using commit_progresses_total [of claim db3 env] by blast
  with db1(1) db2(1) s'(1) db3 show thesis using that by (auto simp: ending_def)
qed

text \<open>The claim as its holder sees it: the lease is valid, the version has not moved, and the
  attempt is running.\<close>

definition claim_live :: "env \<Rightarrow> handler_claim \<Rightarrow> db \<Rightarrow> bool" where
  "claim_live env claim db \<longleftrightarrow>
     (case lock_valid_session_claim (env_clock env 0) claim db of
        Inl _ \<Rightarrow> False | Inr (_, version) \<Rightarrow> version = c_input_state_version claim)
     \<and> list_ex (attempt_of_handler claim) (t_attempts db)"

lemma claim_liveD:
  assumes "claim_live env claim db" and "schema_ok db"
  obtains s where "session_of db (c_session_id claim) = Some s"
    "lock_valid_session_claim (env_clock env 0) claim db
       = Inr (s_next_history_sequence s, c_input_state_version claim)"
    "event_in db (c_session_id claim) (c_event_id claim)"
    "length (filter (attempt_of_handler claim) (t_attempts db)) = 1"
proof -
  obtain s where s: "session_of db (c_session_id claim) = Some s"
    "s_current_event_id s = Some (c_event_id claim)"
    "lock_valid_session_claim (env_clock env 0) claim db
       = Inr (s_next_history_sequence s, c_input_state_version claim)"
    using assms(1)
    by (auto simp: claim_live_def lock_valid_session_claim_def result_simps
        split: sum.splits if_splits)
  have "event_in db (c_session_id claim) (c_event_id claim)"
    using session_row_checked [OF assms(2) s(1)] s(2) by (simp add: opt_ref_def)
  moreover have "length (filter (attempt_of_handler claim) (t_attempts db)) = 1"
  proof -
    obtain a where a: "a \<in> set (t_attempts db)" "attempt_of_handler claim a"
      using assms(1) by (auto simp: claim_live_def list_ex_iff)
    have d: "distinct (map a_id (t_attempts db))"
      using schema_okD(3) [OF assms(2)] by (simp add: attempts_ok_def)
    have one: "set (filter (attempt_of_handler claim) (t_attempts db)) = {a}"
    proof (intro equalityI subsetI)
      fix x assume "x \<in> set (filter (attempt_of_handler claim) (t_attempts db))"
      then have x: "x \<in> set (t_attempts db)" "attempt_of_handler claim x" by simp_all
      have "a_id x = a_id a" using x(2) a(2) by (simp add: attempt_of_handler_def)
      then show "x \<in> {a}" using distinct_keyD [OF d x(1) a(1)] by simp
    qed (use a in simp)
    have dist: "distinct (filter (attempt_of_handler claim) (t_attempts db))"
      using d by (simp add: distinct_map)
    show ?thesis unfolding distinct_card [OF dist, symmetric] one by simp
  qed
  ultimately show thesis using that s by blast
qed

lemma operations_fit_cong:
  "t_operations db' = t_operations db \<Longrightarrow> operations_fit db' sid staged ns = operations_fit db sid staged ns"
  by (induction ns arbitrary: staged) (simp_all add: operation_of_def operation_in_def)

lemma waits_fit_cong:
  "t_waits db' = t_waits db \<Longrightarrow> waits_fit db' staged ns = waits_fit db staged ns"
  by (induction ns arbitrary: staged) (simp_all add: wait_of_def)

text \<open>What a prepared outcome and its surroundings satisfy.\<close>

definition outcome_fits :: "env \<Rightarrow> codec \<Rightarrow> session_id \<Rightarrow> outcome_commit \<Rightarrow> db \<Rightarrow> bool" where
  "outcome_fits env cd sid oc db \<longleftrightarrow>
     operations_fit db sid {} (oc_operations oc) \<and> waits_fit db {} (oc_waits oc)
     \<and> fresh_identifiers env cd db \<and> reads_back env cd \<and> cancels_known db sid oc
     \<and> (\<exists>k. map nh_id (oc_history oc) = map (cd_entry_id cd) [0..<k])
     \<and> (\<forall>e \<in> set (oc_history oc). \<exists>m. cd_message cd m = Inr (nh_message e))
     \<and> progress_ok env (oc_progress oc)"

lemma commit_effects_total:
  assumes ok: "store_ok db" and st: "stage claim db" and s: "session_of db (c_session_id claim) = Some s"
    and fits: "outcome_fits env cd (c_session_id claim) oc db"
  obtains h e db' where
    "commit_effects env claim oc (s_next_history_sequence s) db = Inr (h, e, db')" "1 \<le> h" "1 \<le> e"
    "stage claim db'" "t_attempts db' = t_attempts db"
proof -
  let ?sid = "c_session_id claim"
  have fit: "operations_fit db ?sid {} (oc_operations oc)" "waits_fit db {} (oc_waits oc)"
    and ids: "fresh_identifiers env cd db" and codec: "reads_back env cd"
    and known: "cancels_known db ?sid oc" and progress: "progress_ok env (oc_progress oc)"
    and raw: "\<forall>e \<in> set (oc_history oc). \<exists>m. cd_message cd m = Inr (nh_message e)"
    using fits by (simp_all add: outcome_fits_def)
  obtain k where "map nh_id (oc_history oc) = map (cd_entry_id cd) [0..<k]"
    using fits by (auto simp: outcome_fits_def)
  from history_part_total [OF st s store_okD(4) [OF ok] ids codec this raw]
  obtain h dbh where hist: "commit_history env claim (oc_history oc) (s_next_history_sequence s) db
      = Inr (h, dbh)" "1 \<le> h" "stage claim dbh" and dbh: "dbh = db\<lparr>t_history := t_history dbh\<rparr>" .
  obtain dbe where em: "(if oc_history oc \<noteq> []
      then emit_update env ?sid HistoryAppended (HistoryRange (h - int (length (oc_history oc)))
             (h - 1) (c_event_id claim)) dbh
      else Inr dbh) = Inr dbe" and dbe: "stage claim dbe" "strip dbe = strip dbh"
    by (rule stage_emit_if [OF hist(3)])
  have same: "t_events dbe = t_events db" "t_waits dbe = t_waits db" "t_operations dbe = t_operations db"
    using arg_cong [OF dbe(2), of t_events] arg_cong [OF dbe(2), of t_waits]
      arg_cong [OF dbe(2), of t_operations]
    by (simp_all add: arg_cong [OF dbh, of t_events] arg_cong [OF dbh, of t_waits]
        arg_cong [OF dbh, of t_operations])
  have inbox: "inbox_ok dbe"
  proof -
    have "inbox_ok dbh" using store_okD(1) [OF ok] by (subst dbh) simp
    then show ?thesis using dbe(2) by (metis inbox_ok_strip)
  qed
  obtain se where se: "session_of dbe ?sid = Some se" using dbe(1) by (auto simp: stage_def)
  have "waits_settled dbe" using store_okD(3) [OF ok] by (simp add: waits_settled_def same)
  moreover have "operations_fit dbe ?sid {} (oc_operations oc)" "waits_fit dbe {} (oc_waits oc)"
    using fit by (simp_all add: same operations_fit_cong [of dbe db] waits_fit_cong [of dbe db])
  moreover have "inj (env_uuid env)" "range (env_uuid env) \<inter> e_id ` set (t_events dbe) = {}"
    using ids by (simp_all add: fresh_identifiers_def same)
  moreover have "cancels_known dbe ?sid oc" using known by (simp add: cancels_known_def wait_in_def same)
  ultimately obtain db1 db2 s' e n db3 db4 where rest:
    "foldR (commit_operation env claim) (oc_operations oc) dbe = Inr db1"
    "foldR (commit_wait env claim) (oc_waits oc) db1 = Inr db2" "session_of db2 ?sid = Some s'"
    "foldR (commit_cancelled_wait env claim) (oc_cancelled_waits oc) (s_next_event_sequence s', 0, db2)
       = Inr (e, n, db3)"
    "foldR (commit_progress env claim) (oc_progress oc) db3 = Inr db4" "1 \<le> e" "stage claim db4"
    using commit_rest_total [OF dbe(1) se inbox] by blast
  have run: "commit_effects env claim oc (s_next_history_sequence s) db = Inr (h, e, db4)"
    using hist(1) em rest(1-5) progress by (simp add: commit_effects_def Let_def)
  moreover have "t_attempts db4 = t_attempts db"
    using commit_effects_effect [OF run s] by (auto simp: outcome_effects_def dest!: strip_eqD)
  ultimately show thesis using that hist(2) rest(6,7) by blast
qed

text \<open>A statement that changes no session counter and no event keeps the stage.\<close>

lemma stage_keep:
  assumes st: "stage claim db" and schema: "schema_ok db'" and log: "t_updates db' = t_updates db"
    and sessions: "t_sessions db' = row_update p f (t_sessions db)"
    and cols: "\<And>s. s_id (f s) = s_id s"
      "\<And>s. s_retained_update_sequence (f s) = s_retained_update_sequence s"
      "\<And>s. s_next_update_sequence (f s) = s_next_update_sequence s"
    and events: "event_refs (t_events db') = event_refs (t_events db)"
  shows "stage claim db'"
proof -
  have "log_from [] (db\<lparr>t_sessions := row_update p f (t_sessions db)\<rparr>)"
    using log_from_sessions [of db "t_sessions db" "[]" f p] st cols
    by (simp add: stage_def sound_def log_from_def)
  then have "log_ok db'" by (simp add: log_from_def log_ok_def log sessions)
  moreover have "\<exists>s. session_of db' (c_session_id claim) = Some s"
    using st cols(1) by (auto simp: stage_def session_of_def sessions row_by_update)
  ultimately show ?thesis
    using st schema events by (auto simp: stage_def sound_def ref_in)
qed

lemma commit_body_total:
  assumes ok: "store_ok db" "schema_ok db" and live: "claim_live env claim db"
    and fits: "outcome_fits env cd (c_session_id claim) oc db"
  shows "\<exists>db'. commit_body env claim oc db = Inr db'"
proof -
  let ?sid = "c_session_id claim" and ?eid = "c_event_id claim"
  obtain s where s: "session_of db ?sid = Some s"
    and lock: "lock_valid_session_claim (env_clock env 0) claim db
       = Inr (s_next_history_sequence s, c_input_state_version claim)"
    and event_here: "event_in db ?sid ?eid"
    and running: "length (filter (attempt_of_handler claim) (t_attempts db)) = 1"
    by (rule claim_liveD [OF live ok(2)])
  have st: "stage claim db"
    using s event_here ok store_okD(5) [OF ok(1)] by (simp add: stage_def sound_def)
  obtain h e db1 where eff: "commit_effects env claim oc (s_next_history_sequence s) db = Inr (h, e, db1)"
    "1 \<le> h" "1 \<le> e" "stage claim db1" "t_attempts db1 = t_attempts db"
    by (rule commit_effects_total [OF ok(1) st s fits])
  let ?f = "\<lambda>s. s\<lparr>s_state := oc_state oc, s_status := override (oc_status oc) (s_status s),
               s_state_version := s_state_version s + 1, s_next_history_sequence := h,
               s_current_event_id := None, s_lease_token := None, s_lease_expires_at := None,
               s_next_event_sequence := e, s_updated_at := env_now env\<rparr>"
  let ?g = "\<lambda>x. x\<lparr>e_status := EvHandled, e_handled_at := Some (env_now env), e_last_error := None\<rparr>"
  let ?k = "\<lambda>a. a\<lparr>a_status := AtCommitted, a_finished_at := Some (env_now env)\<rparr>"
  have ok1: "schema_ok db1" using eff(4) by (simp add: stage_def sound_def)
  obtain s1 where s1: "session_of db1 ?sid = Some s1" using eff(4) by (auto simp: stage_def)
  define db2 where "db2 = db1\<lparr>t_sessions := row_update (\<lambda>r. s_id r = ?sid) ?f (t_sessions db1)\<rparr>"
  have up2: "update_sessions (\<lambda>s. s_id s = ?sid) ?f db1 = Inr db2"
    unfolding db2_def
    by (rule update_session_total [OF ok1 s1])
      (use session_row_checked [OF ok1 s1] eff(2,3) in \<open>auto simp: session_check_def\<close>)
  have ok2: "schema_ok db2" by (rule update_sessions_schema [OF up2 ok1]) simp
  define db3 where "db3 = db2\<lparr>t_events := row_update (\<lambda>x. e_id x = ?eid) ?g (t_events db2)\<rparr>"
  have up3: "update_events (\<lambda>x. e_id x = ?eid) ?g db2 = Inr db3"
    using schema_okD(2) [OF ok2]
    by (auto simp: update_events_def db3_def events_ok_def list_all_iff event_check_def)
  have ok3: "schema_ok db3" by (rule update_events_schema [OF up3 ok2]) (simp add: event_key_def)
  define db4 where "db4 = db3\<lparr>t_attempts := row_update (attempt_of_handler claim) ?k (t_attempts db3)\<rparr>"
  have up4: "update_attempts (attempt_of_handler claim) ?k db3 = Inr db4"
    using schema_okD(3) [OF ok3]
    by (auto simp: update_attempts_def db4_def attempts_ok_def list_all_iff attempt_check_def)
  have ok4: "schema_ok db4" by (rule update_attempts_schema [OF up4 ok3]) simp
  have "event_refs (t_events db4) = event_refs (t_events db1)"
    by (simp add: event_refs_def db4_def db3_def db2_def image_row_update)
  then have "stage claim db4"
    using stage_keep [OF eff(4) ok4, of "\<lambda>r. s_id r = ?sid" ?f]
    by (simp add: db4_def db3_def db2_def)
  then obtain db5 where db5: "emit_update env ?sid SessionChanged (SessionRef ?sid) db4 = Inr db5"
    "stage claim db5" by (rule stage_emit_plain)
  obtain db6 where db6: "emit_update env ?sid EventChanged (EventRef ?eid (Some EvHandled)) db5 = Inr db6"
    by (rule stage_emit_plain [OF db5(2)])
  have "length (filter (attempt_of_handler claim) (t_attempts db3)) = 1"
    using running eff(5) by (simp add: db3_def db2_def)
  then show ?thesis
    using lock eff(1) up2 up3 up4 db5(1) db6 by (simp add: commit_body_def Let_def)
qed

end
