(* ===== verification/Events.thy ===== *)
theory Events
  imports Contracts
begin

text \<open>
  The events a handler is given (\<open>packages/agent-contracts/src/event.rs\<close>).
\<close>

datatype event_kind =
    UserMessageEvent message
  | OperationCompletedEvent operation_id operation_kind operation_outcome_status
  | CancellationRequestedEvent "string option"
  | WaitResumedEvent wait_id wait_resume_reason

record session_event =
  sv_id :: event_id
  sv_session_id :: session_id
  sv_sequence :: int
  sv_created_at :: time
  sv_kind :: event_kind

end
