(* ===== verification/Harnesses.thy ===== *)
theory Harnesses
  imports Preparation Events "HOL-Library.List_Lexorder"
begin

text \<open>
  Harnesses as the runtime sees them (\<open>packages/agent-runtime/src/lib.rs\<close>, \<open>decode_event\<close> and
  \<open>session_view\<close> of \<open>scheduler.rs\<close>, \<open>event.rs\<close> and \<open>harness.rs\<close> of the contract): the event a
  handler is given, the adapter that puts a typed harness behind JSON, and the registry.
\<close>

section \<open>Session events (\<open>event.rs\<close>)\<close>

record session_view =
  vw_id :: session_id
  vw_project_id :: string
  vw_harness_id :: string
  vw_harness_version :: string
  vw_status :: session_status
  vw_state_version :: int
  vw_metadata :: json

definition view_of :: "claimed_event \<Rightarrow> session_view" where
  "view_of ce = (let s = fst (ce_session ce) in
     \<lparr>vw_id = s_id s, vw_project_id = s_project_id s, vw_harness_id = s_harness_id s,
      vw_harness_version = s_harness_version s, vw_status = s_status s,
      vw_state_version = s_state_version s, vw_metadata = s_metadata s\<rparr>)"

text \<open>
  The wire form of an outcome status has no text for an operation that has not ended, so a
  payload with one does not parse. A payload that came from outside is parsed by \<open>serde_json\<close>:
  \<open>parse\<close> is its result, \<open>bad\<close> the message for a payload that does not fit its type.
\<close>

fun outcome_status_of :: "operation_status \<Rightarrow> operation_outcome_status option" where
  "outcome_status_of OpSucceeded = Some OutcomeSucceeded"
| "outcome_status_of OpFailed = Some OutcomeFailed"
| "outcome_status_of OpCancelled = Some OutcomeCancelled"
| "outcome_status_of OpUnknown = Some OutcomeUnknown"
| "outcome_status_of _ = None"

fun resume_reason_of :: "wait_finish \<Rightarrow> wait_resume_reason" where
  "resume_reason_of FinResolved = ResumeResolved"
| "resume_reason_of FinExpired = ResumeExpired"
| "resume_reason_of FinCancelled = ResumeCancelled"

definition decode_kind ::
    "(event_type \<Rightarrow> raw_json \<Rightarrow> string + event_kind) \<Rightarrow> string \<Rightarrow> event_type \<Rightarrow> event_payload
     \<Rightarrow> string + event_kind" where
  "decode_kind parse bad ty payload =
     (case payload of
        RawPayload raw \<Rightarrow> parse ty raw
      | OperationCompletedPayload oid kind status \<Rightarrow>
          if ty = EvOperationCompleted
          then (case outcome_status_of status of
                  None \<Rightarrow> Inl bad
                | Some st \<Rightarrow> Inr (OperationCompletedEvent oid kind st))
          else Inl bad
      | WaitResumedPayload wid finish \<Rightarrow>
          if ty = EvWaitResumed then Inr (WaitResumedEvent wid (resume_reason_of finish))
          else Inl bad)"

definition decode_event ::
    "(event_type \<Rightarrow> raw_json \<Rightarrow> string + event_kind) \<Rightarrow> string \<Rightarrow> claimed_event
     \<Rightarrow> string + session_event" where
  "decode_event parse bad ce = (let e = ce_event ce in
     bindR (decode_kind parse bad (e_type e) (e_payload e)) (\<lambda>kind.
     Inr \<lparr>sv_id = e_id e, sv_session_id = e_session_id e, sv_sequence = e_sequence e,
          sv_created_at = e_created_at e, sv_kind = kind\<rparr>))"

section \<open>Errors\<close>

datatype runtime_error =
    DuplicateHarness string string
  | InvalidConfiguration string
  | InvalidState string
  | Initialization string
  | HandlerError string
  | Serialization string

fun runtime_error_text :: "runtime_error \<Rightarrow> string" where
  "runtime_error_text (DuplicateHarness i v) = ''duplicate harness '' @ i @ '' version '' @ v"
| "runtime_error_text (InvalidConfiguration e) = ''invalid configuration: '' @ e"
| "runtime_error_text (InvalidState e) = ''invalid saved state: '' @ e"
| "runtime_error_text (Initialization e) = ''initialization failed: '' @ e"
| "runtime_error_text (HandlerError e) = ''handler failed: '' @ e"
| "runtime_error_text (Serialization e) = ''outcome serialization failed: '' @ e"

section \<open>Typed harnesses behind JSON (\<open>Adapter\<close>)\<close>

text \<open>A call that \<open>catch_unwind\<close> watches.\<close>

datatype 'a guarded = Returned 'a | Panicked

record harness_description =
  hd_id :: string
  hd_version :: string
  hd_name :: string
  hd_description :: string

text \<open>
  A harness with its configuration and state types and the codecs \<open>serde\<close> derives for them.
  What its handler reads through the context is part of its answer; the second component is
  the infrastructure failure the context recorded, if any.
\<close>

record ('c, 's) typed_harness =
  th_describe :: harness_description
  th_config :: "raw_json \<Rightarrow> string + 'c"
  th_validate :: "'c \<Rightarrow> string + unit"
  th_initialize :: "'c \<Rightarrow> string + 's"
  th_state :: "raw_json \<Rightarrow> string + 's"
  th_state_text :: "'s \<Rightarrow> string + raw_json"
  th_handle :: "'c \<Rightarrow> 's \<Rightarrow> session_event \<Rightarrow> session_view
    \<Rightarrow> (string + 's handler_outcome) guarded \<times> string option"

definition map_err :: "('e \<Rightarrow> 'f) \<Rightarrow> 'e + 'a \<Rightarrow> 'f + 'a" where
  "map_err f r = (case r of Inl e \<Rightarrow> Inl (f e) | Inr x \<Rightarrow> Inr x)"

definition from_typed ::
    "('s \<Rightarrow> string + raw_json) \<Rightarrow> 's handler_outcome \<Rightarrow> runtime_error + serialized_outcome" where
  "from_typed write out =
     bindR (map_err Serialization (write (ho_state out))) (\<lambda>state.
     Inr \<lparr>ho_state = state, ho_history = ho_history out, ho_operations = ho_operations out,
          ho_waits = ho_waits out, ho_cancelled_waits = ho_cancelled_waits out,
          ho_progress = ho_progress out, ho_status = ho_status out\<rparr>)"

definition adapter_validate :: "('c, 's) typed_harness \<Rightarrow> raw_json \<Rightarrow> runtime_error + unit" where
  "adapter_validate h configuration =
     bindR (map_err InvalidConfiguration (th_config h configuration)) (\<lambda>c.
     map_err InvalidConfiguration (th_validate h c))"

definition adapter_initialize :: "('c, 's) typed_harness \<Rightarrow> raw_json \<Rightarrow> runtime_error + raw_json" where
  "adapter_initialize h configuration =
     bindR (map_err InvalidConfiguration (th_config h configuration)) (\<lambda>c.
     bindR (map_err InvalidConfiguration (th_validate h c)) (\<lambda>_.
     bindR (map_err Initialization (th_initialize h c)) (\<lambda>s.
     map_err Serialization (th_state_text h s))))"

definition adapter_handle ::
    "('c, 's) typed_harness \<Rightarrow> raw_json \<Rightarrow> raw_json \<Rightarrow> session_event \<Rightarrow> session_view
     \<Rightarrow> (runtime_error + serialized_outcome) guarded \<times> string option" where
  "adapter_handle h configuration state ev view =
     (case map_err InvalidConfiguration (th_config h configuration) of
        Inl e \<Rightarrow> (Returned (Inl e), None)
      | Inr c \<Rightarrow>
          (case map_err InvalidState (th_state h state) of
             Inl e \<Rightarrow> (Returned (Inl e), None)
           | Inr s \<Rightarrow>
               (case th_handle h c s ev view of
                  (Panicked, lost) \<Rightarrow> (Panicked, lost)
                | (Returned r, lost) \<Rightarrow>
                    (Returned (bindR (map_err HandlerError r) (from_typed (th_state_text h))), lost))))"

section \<open>The registry\<close>

record registered_harness =
  rh_description :: harness_description
  rh_validate :: "raw_json \<Rightarrow> (runtime_error + unit) guarded"
  rh_initialize :: "raw_json \<Rightarrow> runtime_error + raw_json"
  rh_handle :: "raw_json \<Rightarrow> raw_json \<Rightarrow> session_event \<Rightarrow> session_view
    \<Rightarrow> (runtime_error + serialized_outcome) guarded \<times> string option"

definition adapter :: "('c, 's) typed_harness \<Rightarrow> registered_harness" where
  "adapter h = \<lparr>rh_description = th_describe h,
     rh_validate = (\<lambda>c. Returned (adapter_validate h c)),
     rh_initialize = adapter_initialize h, rh_handle = adapter_handle h\<rparr>"

type_synonym registry = "((string \<times> string) \<times> registered_harness) list"

definition registry_get :: "registry \<Rightarrow> string \<Rightarrow> string \<Rightarrow> registered_harness option" where
  "registry_get reg i v = map_of reg (i, v)"

text \<open>The configuration's JSON Schema can always be serialized, or not at all: \<open>schema\<close>.\<close>

definition register ::
    "string + unit \<Rightarrow> registered_harness \<Rightarrow> registry \<Rightarrow> runtime_error + registry" where
  "register schema h reg =
     (let d = rh_description h; key = (hd_id d, hd_version d) in
      if map_of reg key \<noteq> None then Inl (DuplicateHarness (hd_id d) (hd_version d))
      else bindR (map_err Serialization schema) (\<lambda>_. Inr (reg @ [(key, h)])))"

text \<open>Sorted by identifier and version, as strings compare: by their characters.\<close>

definition name_key :: "harness_description \<Rightarrow> nat list \<times> nat list" where
  "name_key d = (map of_char (hd_id d), map of_char (hd_version d))"

definition descriptions :: "registry \<Rightarrow> harness_description list" where
  "descriptions reg = sort_key name_key (map (\<lambda>(_, h). rh_description h) reg)"

end
