(* ===== verification/Scheduler.thy ===== *)
theory Scheduler
  imports Harnesses
begin

text \<open>
  The session scheduler (\<open>packages/agent-runtime/src/scheduler.rs\<close>): it claims the head event
  of a session, runs the session's harness on it, and ends the attempt in one of three ways:
  the outcome is committed, the failure is recorded (to be retried, or blocking the session),
  or the attempt is abandoned because the platform, not the handler, failed. The lease keeper
  renews the claim in the background; its renewals are transactions of others here, and
  \<open>rt_lost\<close> is its signal that the claim is lost.
\<close>

section \<open>Settings\<close>

record scheduler_settings =
  ss_enabled :: bool
  ss_max_concurrent_handlers :: nat
  ss_poll_interval :: nat
  ss_lease_duration :: nat
  ss_lease_renewal_interval :: nat
  ss_retry_delays :: "nat list"
  ss_commit_retry_delays :: "nat list"
  ss_infrastructure_retry_delay :: nat
  ss_ownership_loss_grace :: nat
  ss_shutdown_grace :: nat

definition scheduler_default :: scheduler_settings where
  "scheduler_default = \<lparr>ss_enabled = True, ss_max_concurrent_handlers = 32,
     ss_poll_interval = 100, ss_lease_duration = 30000, ss_lease_renewal_interval = 10000,
     ss_retry_delays = [1000, 5000], ss_commit_retry_delays = [10, 50],
     ss_infrastructure_retry_delay = 1000, ss_ownership_loss_grace = 100,
     ss_shutdown_grace = 30000\<rparr>"

datatype scheduler_error = InvalidSchedulerSettings string | SchedulerStore store_error

definition validate_scheduler :: "scheduler_settings \<Rightarrow> scheduler_error + unit" where
  "validate_scheduler st =
     bindR (guardR (1 \<le> ss_max_concurrent_handlers st \<and> ss_max_concurrent_handlers st \<le> 1024)
       (InvalidSchedulerSettings ''maximum concurrent handlers must be 1..1024'')) (\<lambda>_.
     bindR (guardR (ss_poll_interval st \<noteq> 0)
       (InvalidSchedulerSettings ''scheduler poll interval must be greater than zero'')) (\<lambda>_.
     bindR (guardR (\<not> (ss_lease_duration st = 0 \<or> ss_lease_renewal_interval st = 0
         \<or> ss_lease_duration st \<le> ss_lease_renewal_interval st))
       (InvalidSchedulerSettings
          ''lease renewal interval must be greater than zero and shorter than the lease'')) (\<lambda>_.
     bindR (guardR (ss_shutdown_grace st \<noteq> 0)
       (InvalidSchedulerSettings ''handler shutdown grace must be greater than zero'')) (\<lambda>_.
     bindR (guardR (\<not> list_ex (\<lambda>d. d = 0) (ss_retry_delays st))
       (InvalidSchedulerSettings ''handler retry delays must be greater than zero'')) (\<lambda>_.
     bindR (guardR (\<not> list_ex (\<lambda>d. d = 0) (ss_commit_retry_delays st))
       (InvalidSchedulerSettings
          ''handler outcome commit retry delays must be greater than zero'')) (\<lambda>_.
     bindR (guardR (ss_infrastructure_retry_delay st \<noteq> 0)
       (InvalidSchedulerSettings ''infrastructure retry delay must be greater than zero'')) (\<lambda>_.
     guardR (ss_ownership_loss_grace st \<noteq> 0)
       (InvalidSchedulerSettings ''ownership-loss grace must be greater than zero''))))))))"

section \<open>Ending an attempt\<close>

text \<open>The scheduler with what it gets from outside: the parser of event payloads and the texts
  of store errors.\<close>

record scheduler =
  sc_settings :: scheduler_settings
  sc_codec :: codec
  sc_registry :: registry
  sc_parse :: "event_type \<Rightarrow> raw_json \<Rightarrow> string + event_kind"
  sc_bad_payload :: string
  sc_store_text :: "store_error \<Rightarrow> string"

definition error_json :: "string \<Rightarrow> string \<Rightarrow> json" where
  "error_json code message = JObject [(''code'', JString code), (''message'', JString message)]"

text \<open>\<open>slice.get(i)\<close>\<close>

definition get_at :: "'a list \<Rightarrow> nat \<Rightarrow> 'a option" where
  "get_at xs i = (if i < length xs then Some (xs ! i) else None)"

definition record_failure ::
    "world \<Rightarrow> handler_claim \<Rightarrow> string \<Rightarrow> string \<Rightarrow> nat \<Rightarrow> bool \<Rightarrow> (job, unit) state" where
  "record_failure w claim code message delay blocked = do {
     retry_at \<leftarrow> after_delay w delay;
     _ \<leftarrow> call w (effect (\<lambda>env.
       record_handler_failure env claim (error_json code message) retry_at blocked));
     State_Monad.return ()
   }"

definition block :: "world \<Rightarrow> handler_claim \<Rightarrow> string \<Rightarrow> string \<Rightarrow> (job, unit) state" where
  "block w claim code message = record_failure w claim code message 0 True"

text \<open>\<open>count as usize\<close>: the count is an \<open>i64\<close>, a negative one wraps.\<close>

definition as_usize :: "int \<Rightarrow> nat" where
  "as_usize n = nat (n mod 2 ^ 64)"

definition retry_handler ::
    "world \<Rightarrow> scheduler \<Rightarrow> handler_claim \<Rightarrow> string \<Rightarrow> string \<Rightarrow> (job, unit) state" where
  "retry_handler w sc claim code message = do {
     r \<leftarrow> call w (query (handler_failure_count (c_event_id claim)));
     case r of
       Inl _ \<Rightarrow> State_Monad.return ()
     | Inr count \<Rightarrow>
         let delays = ss_retry_delays (sc_settings sc);
             prior_failures = as_usize count;
             blocked = (length delays \<le> prior_failures);
             delay = (case get_at delays prior_failures of None \<Rightarrow> 0 | Some d \<Rightarrow> d) in
         record_failure w claim code message delay blocked
   }"

definition abandon_infrastructure ::
    "world \<Rightarrow> scheduler \<Rightarrow> handler_claim \<Rightarrow> string \<Rightarrow> string \<Rightarrow> (job, unit) state" where
  "abandon_infrastructure w sc claim code message = do {
     retry_at \<leftarrow> after_delay w (ss_infrastructure_retry_delay (sc_settings sc));
     _ \<leftarrow> call w (effect (\<lambda>env.
       abandon_handler_attempt env claim (error_json code message) retry_at));
     State_Monad.return ()
   }"

definition renew_authority :: "world \<Rightarrow> scheduler \<Rightarrow> handler_claim \<Rightarrow> (job, bool) state" where
  "renew_authority w sc claim = do {
     r \<leftarrow> call w (effect (\<lambda>env.
       renew_event_claim env claim (ss_lease_duration (sc_settings sc))));
     State_Monad.return (\<not> isl r)
   }"

text \<open>\<open>if self.renew_authority(..).await { m }\<close>\<close>

definition with_authority ::
    "world \<Rightarrow> scheduler \<Rightarrow> handler_claim \<Rightarrow> (job, unit) state \<Rightarrow> (job, unit) state" where
  "with_authority w sc claim m = do {
     held \<leftarrow> renew_authority w sc claim;
     if held then m else State_Monad.return ()
   }"

section \<open>Committing\<close>

definition lease_lost :: "world \<Rightarrow> (job, bool) state" where
  "lease_lost w = State (\<lambda>s. (rt_lost w (j_calls s), s))"

text \<open>
  The commit is tried again after each of the configured delays if the transaction was rolled
  back for a reason that may pass. The loop ends because \<open>retry\<close> runs off the list of delays.
\<close>

function commit_prepared ::
    "world \<Rightarrow> scheduler \<Rightarrow> handler_claim \<Rightarrow> outcome_commit \<Rightarrow> nat \<Rightarrow> (job, unit) state" where
  "commit_prepared w sc claim oc retry = do {
     result \<leftarrow> unless_lost w (commit_call w claim oc);
     case result of
       None \<Rightarrow> State_Monad.return ()
     | Some (Inr _) \<Rightarrow> State_Monad.return ()
     | Some (Inl CommitStaleClaim) \<Rightarrow> State_Monad.return ()
     | Some (Inl (Retryable error)) \<Rightarrow>
         (case get_at (ss_commit_retry_delays (sc_settings sc)) retry of
            None \<Rightarrow> with_authority w sc claim
              (abandon_infrastructure w sc claim ''outcome_commit_unavailable''
                 (sc_store_text sc error))
          | Some delay \<Rightarrow> do {
              lost \<leftarrow> lease_lost w;
              if lost then State_Monad.return ()
              else commit_prepared w sc claim oc (Suc retry)
            })
     | Some (Inl (Rejected error)) \<Rightarrow> with_authority w sc claim
         (block w claim ''invalid_handler_outcome'' (sc_store_text sc error))
     | Some (Inl (Uncertain error)) \<Rightarrow> do {
         _ \<leftarrow> call w (query (\<lambda>db. Inr (handler_attempt_status (c_attempt_id claim) db)));
         State_Monad.return ()
       }
   }"
  by pat_completeness auto
termination
  by (relation "measure (\<lambda>(w, sc, claim, oc, retry).
        Suc (length (ss_commit_retry_delays (sc_settings sc))) - retry)")
    (auto simp: get_at_def split: if_splits)

declare commit_prepared.simps [simp del]

section \<open>Running the handler\<close>

text \<open>What is done with the handler's answer: \<open>lost\<close> is the infrastructure failure its
  context recorded.\<close>

definition settle ::
    "world \<Rightarrow> scheduler \<Rightarrow> handler_claim \<Rightarrow> (runtime_error + serialized_outcome) guarded
     \<Rightarrow> string option \<Rightarrow> (job, unit) state" where
  "settle w sc claim handled lost =
     (case (handled, lost) of
        (Returned (Inl (HandlerError _)), Some error) \<Rightarrow>
          with_authority w sc claim (abandon_infrastructure w sc claim ''context_unavailable'' error)
      | (Returned (Inl (HandlerError message)), None) \<Rightarrow>
          with_authority w sc claim (retry_handler w sc claim ''handler_failed'' message)
      | (Returned (Inl error), _) \<Rightarrow>
          with_authority w sc claim
            (block w claim ''invalid_handler_data'' (runtime_error_text error))
      | (Panicked, _) \<Rightarrow>
          with_authority w sc claim
            (retry_handler w sc claim ''handler_panicked'' ''handler panicked'')
      | (Returned (Inr out), _) \<Rightarrow> do {
          prepared \<leftarrow> unless_lost w (prepare_outcome w (sc_codec sc) (c_session_id claim) out);
          case prepared of
            None \<Rightarrow> State_Monad.return ()
          | Some r \<Rightarrow> do {
              gone \<leftarrow> lease_lost w;
              if gone then State_Monad.return ()
              else case r of
                Inl (InvalidOutcome error) \<Rightarrow>
                  with_authority w sc claim (block w claim ''invalid_handler_outcome'' error)
              | Inl (OutcomeStore error) \<Rightarrow>
                  with_authority w sc claim (abandon_infrastructure w sc claim
                    ''outcome_preparation_unavailable'' (sc_store_text sc error))
              | Inr oc \<Rightarrow> commit_prepared w sc claim oc 0
            }
        })"

definition process_claim :: "world \<Rightarrow> scheduler \<Rightarrow> claimed_event \<Rightarrow> (job, unit) state" where
  "process_claim w sc ce =
     (let claim = claim_of ce; s = fst (ce_session ce) in
      case registry_get (sc_registry sc) (s_harness_id s) (s_harness_version s) of
        None \<Rightarrow> block w claim ''harness_not_registered''
          (''harness '' @ s_harness_id s @ '' version '' @ s_harness_version s
             @ '' is not registered'')
      | Some h \<Rightarrow>
          (case rh_validate h (s_configuration s) of
             Panicked \<Rightarrow> block w claim ''harness_validation_panicked''
               ''harness configuration validation panicked''
           | Returned (Inl error) \<Rightarrow> block w claim ''invalid_configuration'' (runtime_error_text error)
           | Returned (Inr _) \<Rightarrow>
               (case decode_event (sc_parse sc) (sc_bad_payload sc) ce of
                  Inl error \<Rightarrow> block w claim ''invalid_event'' error
                | Inr ev \<Rightarrow> do {
                    lost \<leftarrow> lease_lost w;
                    if lost then State_Monad.return ()
                    else (case rh_handle h (s_configuration s) (s_state s) ev (view_of ce) of
                      (handled, failure) \<Rightarrow> settle w sc claim handled failure)
                  })))"

definition process_one :: "world \<Rightarrow> scheduler \<Rightarrow> bool \<Rightarrow> (job, scheduler_error + bool) state" where
  "process_one w sc shutdown =
     (if \<not> ss_enabled (sc_settings sc) \<or> shutdown then State_Monad.return (Inr False)
      else do {
        r \<leftarrow> call w (\<lambda>env. claim_next_event env (ss_lease_duration (sc_settings sc)));
        case r of
          Inl e \<Rightarrow> State_Monad.return (Inl (SchedulerStore e))
        | Inr None \<Rightarrow> State_Monad.return (Inr False)
        | Inr (Some ce) \<Rightarrow> do {
            _ \<leftarrow> process_claim w sc ce;
            State_Monad.return (Inr True)
          }
      })"

section \<open>The scheduler only makes store steps\<close>

lemma stays_handler_calls [run_intros]:
  assumes "others_step w"
  shows "stays_in_run (call w (effect (\<lambda>env. record_handler_failure env claim error retry_at blocked)))"
    and "stays_in_run (call w (effect (\<lambda>env. abandon_handler_attempt env claim error retry_at)))"
    and "stays_in_run (call w (effect (\<lambda>env. renew_event_claim env claim lease_for)))"
  by (rule stays_effect [OF assms]; erule store_step.failure store_step.abandon store_step.renew)+

lemma stays_claim_next [run_intros]:
  "others_step w \<Longrightarrow> stays_in_run (call w (\<lambda>env. claim_next_event env lease_for))"
  by (rule stays_call) (auto intro: store_step.claim)

lemma stays_lease_lost [run_intros]: "stays_in_run (lease_lost w)"
  by (rule runsI) (auto simp: lease_lost_def)

lemma stays_failures [run_intros]:
  assumes "others_step w"
  shows "stays_in_run (record_failure w claim code message delay blocked)"
    and "stays_in_run (abandon_infrastructure w sc claim code message)"
    and "stays_in_run (renew_authority w sc claim)"
  using assms unfolding record_failure_def abandon_infrastructure_def renew_authority_def
  by (auto intro!: run_intros)

lemma stays_endings [run_intros]:
  assumes "others_step w"
  shows "stays_in_run (block w claim code message)"
    and "stays_in_run (retry_handler w sc claim code message)"
    and "stays_in_run m \<Longrightarrow> stays_in_run (with_authority w sc claim m)"
  using assms unfolding block_def retry_handler_def with_authority_def Let_def
  by (auto intro!: run_intros split: sum.split)

lemma stays_commit_prepared [run_intros]:
  "others_step w \<Longrightarrow> stays_in_run (commit_prepared w sc claim oc retry)"
proof (induction w sc claim oc retry rule: commit_prepared.induct)
  case (1 w sc claim oc retry)
  then show ?case
    by (subst commit_prepared.simps)
      (auto intro!: run_intros split: option.split sum.split handler_commit_error.split)
qed

lemma stays_settle [run_intros]:
  "others_step w \<Longrightarrow> stays_in_run (settle w sc claim handled lost)"
  unfolding settle_def
  by (auto intro!: run_intros split: option.split sum.split guarded.split runtime_error.split
      preparation_error.split)

lemma stays_process_claim [run_intros]:
  "others_step w \<Longrightarrow> stays_in_run (process_claim w sc ce)"
  unfolding process_claim_def Let_def
  by (auto intro!: run_intros split: option.split sum.split guarded.split prod.split)

lemma stays_process_one: "others_step w \<Longrightarrow> stays_in_run (process_one w sc shutdown)"
  unfolding process_one_def by (auto intro!: run_intros split: option.split sum.split)

end
