(* ===== verification/Gateways.thy ===== *)
theory Gateways
  imports Contracts
begin

text \<open>
  The clients of the LLM and execution gateways (\<open>packages/agent-gateways/src/lib.rs\<close>): what a
  configuration must satisfy, how an HTTP exchange becomes a job, an acknowledgement or an
  error class, and how a callback is verified. The HTTP client, the URL and JSON parsers, hex
  and HMAC are libraries and are parameters. Strings are ASCII here: \<open>len()\<close> counts bytes.
\<close>

section \<open>JSON values\<close>

text \<open>\<open>Value::get\<close> on a key, \<open>as_str\<close>, and \<open>pointer("/a/b")\<close>.\<close>

fun json_get :: "string \<Rightarrow> json \<Rightarrow> json option" where
  "json_get k (JObject members) = map_of members k"
| "json_get k _ = None"

fun as_str :: "json \<Rightarrow> string option" where
  "as_str (JString s) = Some s"
| "as_str _ = None"

fun as_array :: "json \<Rightarrow> json list option" where
  "as_array (JArray xs) = Some xs"
| "as_array _ = None"

definition get_str :: "string \<Rightarrow> json \<Rightarrow> string option" where
  "get_str k v = Option.bind (json_get k v) as_str"

definition pointer_str :: "string \<Rightarrow> string \<Rightarrow> json \<Rightarrow> string option" where
  "pointer_str a b v = Option.bind (json_get a v) (get_str b)"

definition unwrap_or :: "'a \<Rightarrow> 'a option \<Rightarrow> 'a" where
  "unwrap_or d x = (case x of None \<Rightarrow> d | Some v \<Rightarrow> v)"

section \<open>Configuration\<close>

datatype gateway_kind = GatewayLlm | GatewayExecution

record url =
  url_scheme :: string
  url_cannot_be_a_base :: bool
  url_username :: string
  url_password :: "string option"
  url_path :: string
  url_query :: "string option"
  url_fragment :: "string option"

record gateway_connection_config =
  gcc_id :: string
  gcc_kind :: gateway_kind
  gcc_base_url :: url
  gcc_bearer_token :: string
  gcc_timeout_ms :: nat

definition default_timeout_ms :: nat where
  "default_timeout_ms = 30000"

datatype gateway_config_error = DuplicateGateway string | InvalidGateway string string | GatewayClientFailed string

text \<open>\<open>char::is_whitespace\<close> on ASCII.\<close>

definition is_whitespace :: "char \<Rightarrow> bool" where
  "is_whitespace c \<longleftrightarrow> (let n = (of_char c :: nat) in 9 \<le> n \<and> n \<le> 13 \<or> n = 32)"

definition ends_with :: "string \<Rightarrow> string \<Rightarrow> bool" where
  "ends_with suffix s \<longleftrightarrow> take (length suffix) (rev s) = rev suffix"

text \<open>\<open>header_ok\<close>: \<open>HeaderValue::try_from\<close> accepts the text.\<close>

definition validate_connection ::
    "(string \<Rightarrow> bool) \<Rightarrow> gateway_connection_config \<Rightarrow> gateway_config_error + unit" where
  "validate_connection header_ok c =
     (let u = gcc_base_url c in
      bindR (guardR (\<not> (gcc_id c = [] \<or> 200 < length (gcc_id c) \<or> list_ex is_whitespace (gcc_id c)))
        (InvalidGateway (gcc_id c) ''connection ID must contain 1 to 200 non-whitespace characters''))
      (\<lambda>_. bindR (guardR (\<not> (gcc_bearer_token c = [] \<or> 512 < length (gcc_bearer_token c)
            \<or> list_ex is_whitespace (gcc_bearer_token c)
            \<or> \<not> header_ok (''Bearer '' @ gcc_bearer_token c)))
        (InvalidGateway (gcc_id c) ''bearer token must contain 1 to 512 non-whitespace characters''))
      (\<lambda>_. bindR (guardR (gcc_timeout_ms c \<noteq> 0)
        (InvalidGateway (gcc_id c) ''timeout must be greater than zero''))
      (\<lambda>_. guardR (\<not> (\<not> (url_scheme u = ''http'' \<or> url_scheme u = ''https'')
            \<or> url_cannot_be_a_base u \<or> url_username u \<noteq> [] \<or> url_password u \<noteq> None
            \<or> \<not> ends_with ''/'' (url_path u) \<or> url_query u \<noteq> None \<or> url_fragment u \<noteq> None))
        (InvalidGateway (gcc_id c)
           ''base URL must be an HTTP or HTTPS directory URL without credentials, query, or fragment'')))))"

section \<open>Job statuses\<close>

datatype llm_job_status = LjQueued | LjRunning | LjRetryWait | LjSucceeded | LjFailed | LjCancelled

definition parse_llm_status :: "string \<Rightarrow> llm_job_status option" where
  "parse_llm_status v =
     (if v = ''queued'' then Some LjQueued
      else if v = ''running'' then Some LjRunning
      else if v = ''retry_wait'' then Some LjRetryWait
      else if v = ''succeeded'' then Some LjSucceeded
      else if v = ''failed'' then Some LjFailed
      else if v = ''cancelled'' then Some LjCancelled
      else None)"

fun llm_status_str :: "llm_job_status \<Rightarrow> string" where
  "llm_status_str LjQueued = ''queued''"
| "llm_status_str LjRunning = ''running''"
| "llm_status_str LjRetryWait = ''retry_wait''"
| "llm_status_str LjSucceeded = ''succeeded''"
| "llm_status_str LjFailed = ''failed''"
| "llm_status_str LjCancelled = ''cancelled''"

definition llm_terminal :: "llm_job_status \<Rightarrow> bool" where
  "llm_terminal st \<longleftrightarrow> st = LjSucceeded \<or> st = LjFailed \<or> st = LjCancelled"

datatype execution_job_status =
  EjQueued | EjDispatching | EjWaitingResponse | EjSucceeded | EjFailed | EjUnknown

definition parse_execution_status :: "string \<Rightarrow> execution_job_status option" where
  "parse_execution_status v =
     (if v = ''queued'' then Some EjQueued
      else if v = ''dispatching'' then Some EjDispatching
      else if v = ''waiting_response'' then Some EjWaitingResponse
      else if v = ''succeeded'' then Some EjSucceeded
      else if v = ''failed'' then Some EjFailed
      else if v = ''unknown'' then Some EjUnknown
      else None)"

fun execution_status_str :: "execution_job_status \<Rightarrow> string" where
  "execution_status_str EjQueued = ''queued''"
| "execution_status_str EjDispatching = ''dispatching''"
| "execution_status_str EjWaitingResponse = ''waiting_response''"
| "execution_status_str EjSucceeded = ''succeeded''"
| "execution_status_str EjFailed = ''failed''"
| "execution_status_str EjUnknown = ''unknown''"

datatype gateway_job_status = JobLlm llm_job_status | JobExecution execution_job_status

fun job_status_str :: "gateway_job_status \<Rightarrow> string" where
  "job_status_str (JobLlm st) = llm_status_str st"
| "job_status_str (JobExecution st) = execution_status_str st"

definition parse_job_status :: "gateway_kind \<Rightarrow> string \<Rightarrow> gateway_job_status option" where
  "parse_job_status kind v =
     (case kind of
        GatewayLlm \<Rightarrow> map_option JobLlm (parse_llm_status v)
      | GatewayExecution \<Rightarrow> map_option JobExecution (parse_execution_status v))"

section \<open>Errors\<close>

record gateway_failure =
  gf_status :: "nat option"
  gf_code :: string
  gf_message :: string

datatype gateway_error =
    GwRejected nat string string
  | GwRetryable gateway_failure
  | GwUncertain gateway_failure
  | GwInvalidRequest string string

definition retryable :: "nat option \<Rightarrow> string \<Rightarrow> string \<Rightarrow> gateway_error" where
  "retryable status code message =
     GwRetryable \<lparr>gf_status = status, gf_code = code, gf_message = message\<rparr>"

definition uncertain :: "nat option \<Rightarrow> string \<Rightarrow> string \<Rightarrow> gateway_error" where
  "uncertain status code message =
     GwUncertain \<lparr>gf_status = status, gf_code = code, gf_message = message\<rparr>"

text \<open>What the HTTP client reports: \<open>is_connect\<close>, \<open>is_builder\<close>, or anything else.\<close>

datatype transport_error = ConnectFailed | BuilderFailed | TransportFailed

fun classify_transport :: "transport_error \<Rightarrow> gateway_error" where
  "classify_transport ConnectFailed =
     retryable None ''gateway_connect_failed'' ''could not connect to gateway''"
| "classify_transport BuilderFailed =
     GwInvalidRequest ''gateway_request_invalid'' ''gateway request could not be constructed''"
| "classify_transport TransportFailed =
     uncertain None ''gateway_transport_failed'' ''gateway request outcome is unknown''"

definition is_success :: "nat \<Rightarrow> bool" where
  "is_success status \<longleftrightarrow> 200 \<le> status \<and> status < 300"

definition is_server_error :: "nat \<Rightarrow> bool" where
  "is_server_error status \<longleftrightarrow> 500 \<le> status \<and> status < 600"

definition classify_status :: "nat \<Rightarrow> string \<Rightarrow> string \<Rightarrow> gateway_error" where
  "classify_status status code message =
     (if status = 429 then retryable (Some status) code message
      else if is_server_error status \<or> status = 408 then uncertain (Some status) code message
      else GwRejected status code message)"

section \<open>Jobs\<close>

record job_acknowledgement =
  ja_id :: uuid
  ja_status :: gateway_job_status

record execution_job_metadata =
  em_machine_id :: uuid
  em_generation_id :: "uuid option"

datatype gateway_job_outcome =
    JobPending
  | JobSucceeded raw_json
  | JobFailed "raw_json option" "json option"
  | JobCancelled
  | JobUnknown json

record gateway_job =
  gj_id :: uuid
  gj_status :: gateway_job_status
  gj_outcome :: gateway_job_outcome
  gj_execution :: "execution_job_metadata option"

datatype gateway_job_identity_error =
  MissingExecutionMetadata | MachineMismatch | GenerationMismatch

definition validate_execution_identity ::
    "gateway_job \<Rightarrow> uuid \<Rightarrow> uuid option \<Rightarrow> gateway_job_identity_error + unit" where
  "validate_execution_identity job machine expected_generation =
     (case gj_execution job of
        None \<Rightarrow> Inl MissingExecutionMetadata
      | Some metadata \<Rightarrow>
          if em_machine_id metadata \<noteq> machine then Inl MachineMismatch
          else (case (expected_generation, em_generation_id metadata) of
              (Some expected, Some actual) \<Rightarrow>
                if expected \<noteq> actual then Inl GenerationMismatch else Inr ()
            | _ \<Rightarrow> Inr ()))"

text \<open>The wire form of a job (\<open>#[derive(Deserialize)]\<close>) and the fields of a protocol response
  that the client looks at.\<close>

record job_wire =
  jw_id :: uuid
  jw_status :: string
  jw_response :: "raw_json option"
  jw_error :: "json option"
  jw_machine_id :: "uuid option"
  jw_generation_id :: "uuid option"

record protocol_response =
  pr_version :: nat
  pr_request_id :: "string option"
  pr_generation_id :: uuid
  pr_succeeded :: bool

text \<open>An HTTP answer: a body that could not be read is \<open>None\<close>.\<close>

record http_response =
  hr_status :: nat
  hr_body :: "string option"

datatype http_request =
    PostJob raw_json
  | FindJob string
  | PostCancel uuid
  | GetJob uuid

text \<open>The libraries: the URL joiner, the HTTP client (its \<open>n\<close>-th exchange), the parsers.\<close>

record net =
  nt_endpoint :: "http_request \<Rightarrow> bool"
  nt_send :: "nat \<Rightarrow> http_request \<Rightarrow> transport_error + http_response"
  nt_json :: "string \<Rightarrow> json option"
  nt_uuid :: "string \<Rightarrow> uuid option"
  nt_uuid_text :: "uuid \<Rightarrow> string"
  nt_rfc3339 :: "string \<Rightarrow> bool"
  nt_job :: "string \<Rightarrow> job_wire option"
  nt_assistant :: "raw_json \<Rightarrow> bool"
  nt_protocol :: "raw_json \<Rightarrow> protocol_response option"
  nt_protocol_version :: nat

section \<open>The HTTP client\<close>

definition send_request :: "net \<Rightarrow> nat \<Rightarrow> http_request \<Rightarrow> gateway_error + http_response" where
  "send_request nt n q =
     (if nt_endpoint nt q
      then (case nt_send nt n q of Inl e \<Rightarrow> Inl (classify_transport e) | Inr r \<Rightarrow> Inr r)
      else Inl (GwInvalidRequest ''invalid_gateway_endpoint''
             ''gateway endpoint could not be constructed''))"

definition read_failed :: gateway_error where
  "read_failed = uncertain None ''response_read_failed'' ''gateway response could not be read''"

definition error_response :: "nat \<Rightarrow> json \<Rightarrow> gateway_error" where
  "error_response status v =
     classify_status status
       (unwrap_or ''gateway_error'' (pointer_str ''error'' ''code'' v))
       (unwrap_or ''gateway rejected the request'' (pointer_str ''error'' ''message'' v))"

definition response_value :: "net \<Rightarrow> http_response \<Rightarrow> gateway_error + nat \<times> json" where
  "response_value nt r =
     (let status = hr_status r in
      bindR (ok_or (hr_body r) read_failed) (\<lambda>bytes.
      bindR (ok_or (nt_json nt bytes)
        (if is_success status
         then uncertain (Some status) ''invalid_success_response''
           ''gateway returned an invalid success response''
         else classify_status status ''invalid_error_response''
           ''gateway returned an invalid error response'')) (\<lambda>v.
      if is_success status then Inr (status, v) else Inl (error_response status v))))"

definition acknowledgement ::
    "net \<Rightarrow> gateway_kind \<Rightarrow> nat \<Rightarrow> json \<Rightarrow> gateway_error + job_acknowledgement" where
  "acknowledgement nt kind status v =
     bindR (ok_or (Option.bind (get_str ''id'' v) (nt_uuid nt))
       (uncertain (Some status) ''invalid_job_acknowledgement''
          ''gateway response has no valid job ID'')) (\<lambda>i.
     bindR (ok_or (Option.bind (get_str ''status'' v) (parse_job_status kind))
       (uncertain (Some status) ''invalid_job_acknowledgement''
          ''gateway response has no recognized job status'')) (\<lambda>st.
     Inr \<lparr>ja_id = i, ja_status = st\<rparr>))"

definition http_submit ::
    "net \<Rightarrow> gateway_kind \<Rightarrow> nat \<Rightarrow> raw_json \<Rightarrow> gateway_error + job_acknowledgement" where
  "http_submit nt kind n request =
     bindR (send_request nt n (PostJob request)) (\<lambda>r.
     bindR (response_value nt r) (\<lambda>(status, v).
     acknowledgement nt kind status v))"

definition find_by_idempotency_key ::
    "net \<Rightarrow> gateway_kind \<Rightarrow> nat \<Rightarrow> string \<Rightarrow> gateway_error + job_acknowledgement option" where
  "find_by_idempotency_key nt kind n key =
     bindR (send_request nt n (FindJob key)) (\<lambda>r.
     bindR (response_value nt r) (\<lambda>(status, v).
     bindR (ok_or (Option.bind (json_get ''data'' v) as_array)
       (uncertain (Some status) ''invalid_lookup_response''
          ''gateway lookup response has no job array'')) (\<lambda>jobs.
     case jobs of
       [] \<Rightarrow> Inr None
     | [found] \<Rightarrow>
         if get_str ''idempotencyKey'' found \<noteq> Some key
         then Inl (uncertain (Some status) ''lookup_identity_mismatch''
                ''gateway lookup returned a job for a different idempotency key'')
         else bindR (acknowledgement nt kind status found) (\<lambda>ack. Inr (Some ack))
     | _ \<Rightarrow> Inl (uncertain (Some status) ''ambiguous_lookup_response''
              ''gateway lookup returned more than one job''))))"

definition cancellation_accepted ::
    "net \<Rightarrow> nat \<Rightarrow> llm_job_status \<Rightarrow> json \<Rightarrow> gateway_error + bool" where
  "cancellation_accepted nt status st at =
     (case at of
        JNull \<Rightarrow> if llm_terminal st then Inr False
          else Inl (uncertain (Some status) ''invalid_cancellation_response''
                 ''gateway cancellation response has an invalid cancellation timestamp'')
      | JString s \<Rightarrow> if nt_rfc3339 nt s then Inr True
          else Inl (uncertain (Some status) ''invalid_cancellation_response''
                 ''gateway cancellation response has an invalid cancellation timestamp'')
      | _ \<Rightarrow> Inl (uncertain (Some status) ''invalid_cancellation_response''
               ''gateway cancellation response has an invalid cancellation timestamp''))"

definition unsupported_cancellation :: gateway_error where
  "unsupported_cancellation = GwRejected 400 ''unsupported_operation''
     ''this gateway does not support job cancellation''"

definition http_cancel ::
    "net \<Rightarrow> gateway_kind \<Rightarrow> nat \<Rightarrow> uuid \<Rightarrow> gateway_error + bool" where
  "http_cancel nt kind n job =
     bindR (guardR (kind = GatewayLlm) unsupported_cancellation) (\<lambda>_.
     bindR (send_request nt n (PostCancel job)) (\<lambda>r.
     bindR (response_value nt r) (\<lambda>(status, v).
     bindR (ok_or (Option.bind (get_str ''id'' v) (nt_uuid nt))
       (uncertain (Some status) ''invalid_cancellation_response''
          ''gateway cancellation response has no valid job ID'')) (\<lambda>i.
     bindR (guardR (i = job) (uncertain (Some status) ''cancellation_identity_mismatch''
          ''gateway cancellation response identifies a different job'')) (\<lambda>_.
     bindR (ok_or (Option.bind (get_str ''status'' v) parse_llm_status)
       (uncertain (Some status) ''invalid_cancellation_response''
          ''gateway cancellation response has no recognized job status'')) (\<lambda>st.
     bindR (ok_or (json_get ''cancelRequestedAt'' v)
       (uncertain (Some status) ''invalid_cancellation_response''
          ''gateway cancellation response has no cancellation timestamp'')) (\<lambda>at.
     cancellation_accepted nt status st at)))))))"

section \<open>Job retrieval\<close>

fun identity_error_text :: "gateway_job_identity_error \<Rightarrow> string" where
  "identity_error_text MissingExecutionMetadata = ''execution job metadata is missing''"
| "identity_error_text MachineMismatch = ''execution job identifies a different machine''"
| "identity_error_text GenerationMismatch =
     ''execution job identifies a different runtime generation''"

text \<open>The closure \<open>invalid\<close> of \<open>get_job\<close> and of \<open>validate_execution_response\<close>.\<close>

definition invalid_job :: "nat \<Rightarrow> string \<Rightarrow> gateway_error" where
  "invalid_job status message = uncertain (Some status) ''invalid_job_response'' message"

definition nonempty_str :: "string \<Rightarrow> json \<Rightarrow> bool" where
  "nonempty_str k v = (case get_str k v of None \<Rightarrow> False | Some s \<Rightarrow> s \<noteq> [])"

definition valid_terminal_error :: "json option \<Rightarrow> bool" where
  "valid_terminal_error error =
     (case error of None \<Rightarrow> False
      | Some v \<Rightarrow> nonempty_str ''code'' v \<and> nonempty_str ''message'' v)"

definition validate_execution_response ::
    "net \<Rightarrow> nat \<Rightarrow> raw_json \<Rightarrow> uuid \<Rightarrow> uuid option \<Rightarrow> uuid option \<Rightarrow> bool
     \<Rightarrow> gateway_error + raw_json" where
  "validate_execution_response nt status response job machine generation succeeded =
     bindR (guardR (machine \<noteq> None)
       (invalid_job status ''execution job has no machine identity'')) (\<lambda>_.
     bindR (ok_or generation
       (invalid_job status ''execution job has no runtime generation identity'')) (\<lambda>gen.
     bindR (ok_or (nt_protocol nt response)
       (invalid_job status ''execution job has an invalid protocol response'')) (\<lambda>typed.
     bindR (guardR (pr_version typed = nt_protocol_version nt)
       (invalid_job status ''execution response uses an unsupported protocol version'')) (\<lambda>_.
     bindR (guardR (pr_request_id typed = Some (nt_uuid_text nt job))
       (invalid_job status ''execution response identifies a different request'')) (\<lambda>_.
     bindR (guardR (pr_generation_id typed = gen)
       (invalid_job status ''execution response identifies a different runtime generation'')) (\<lambda>_.
     bindR (guardR (pr_succeeded typed = succeeded)
       (invalid_job status ''execution job status disagrees with its protocol response'')) (\<lambda>_.
     Inr response)))))))"

text \<open>The arms of \<open>match status\<close>: the failed arms, then the whole match.\<close>

definition failed_execution_outcome ::
    "net \<Rightarrow> nat \<Rightarrow> uuid \<Rightarrow> job_wire \<Rightarrow> gateway_error + gateway_job_outcome" where
  "failed_execution_outcome nt status job wire =
     bindR (guardR ((jw_response wire = None) \<noteq> (jw_error wire = None))
       (invalid_job status ''failed execution job must have exactly one response or error'')) (\<lambda>_.
     case jw_response wire of
       Some response \<Rightarrow>
         bindR (validate_execution_response nt status response job (jw_machine_id wire)
             (jw_generation_id wire) False)
           (\<lambda>response. Inr (JobFailed (Some response) None))
     | None \<Rightarrow>
         bindR (guardR (valid_terminal_error (jw_error wire))
           (invalid_job status ''failed execution job has an invalid error''))
           (\<lambda>_. Inr (JobFailed None (jw_error wire))))"

definition unknown_outcome :: "nat \<Rightarrow> job_wire \<Rightarrow> gateway_error + gateway_job_outcome" where
  "unknown_outcome status wire =
     bindR (guardR (\<not> (jw_response wire \<noteq> None \<or> \<not> valid_terminal_error (jw_error wire)))
       (invalid_job status ''unknown execution job has an invalid outcome'')) (\<lambda>_.
     bindR (guardR (jw_generation_id wire \<noteq> None)
       (invalid_job status ''unknown execution job has no runtime generation identity'')) (\<lambda>_.
     bindR (ok_or (jw_error wire)
       (invalid_job status ''unknown execution job has an invalid outcome'')) (\<lambda>error.
     Inr (JobUnknown error))))"

definition job_outcome ::
    "net \<Rightarrow> nat \<Rightarrow> uuid \<Rightarrow> gateway_job_status \<Rightarrow> job_wire \<Rightarrow> gateway_error + gateway_job_outcome" where
  "job_outcome nt status job st wire =
     (let response = jw_response wire; error = jw_error wire in
      case st of
        JobLlm LjSucceeded \<Rightarrow>
          bindR (guardR (error = None) (invalid_job status ''succeeded LLM job has an error'')) (\<lambda>_.
          bindR (ok_or response (invalid_job status ''succeeded LLM job has no response'')) (\<lambda>text.
          bindR (guardR (nt_assistant nt text)
            (invalid_job status ''succeeded LLM job has an invalid response'')) (\<lambda>_.
          Inr (JobSucceeded text))))
      | JobExecution EjSucceeded \<Rightarrow>
          bindR (guardR (error = None)
            (invalid_job status ''succeeded execution job has an error'')) (\<lambda>_.
          bindR (ok_or response
            (invalid_job status ''succeeded execution job has no response'')) (\<lambda>text.
          bindR (validate_execution_response nt status text job (jw_machine_id wire)
            (jw_generation_id wire) True) (\<lambda>text.
          Inr (JobSucceeded text))))
      | JobLlm LjFailed \<Rightarrow>
          bindR (guardR (\<not> (response \<noteq> None \<or> \<not> valid_terminal_error error))
            (invalid_job status ''failed LLM job has an invalid outcome'')) (\<lambda>_.
          Inr (JobFailed None error))
      | JobExecution EjFailed \<Rightarrow> failed_execution_outcome nt status job wire
      | JobLlm LjCancelled \<Rightarrow>
          bindR (guardR (\<not> (response \<noteq> None \<or> error \<noteq> None))
            (invalid_job status ''cancelled LLM job has a result or error'')) (\<lambda>_.
          Inr JobCancelled)
      | JobExecution EjUnknown \<Rightarrow> unknown_outcome status wire
      | _ \<Rightarrow>
          bindR (guardR (\<not> (response \<noteq> None \<or> error \<noteq> None))
            (invalid_job status ''pending job has a terminal outcome'')) (\<lambda>_.
          Inr JobPending))"

definition execution_metadata ::
    "gateway_kind \<Rightarrow> nat \<Rightarrow> job_wire \<Rightarrow> gateway_error + execution_job_metadata option" where
  "execution_metadata kind status wire =
     (case kind of
        GatewayLlm \<Rightarrow> Inr None
      | GatewayExecution \<Rightarrow>
          bindR (ok_or (jw_machine_id wire)
            (invalid_job status ''execution job has no machine identity'')) (\<lambda>machine.
          Inr (Some \<lparr>em_machine_id = machine, em_generation_id = jw_generation_id wire\<rparr>)))"

definition http_get_job ::
    "net \<Rightarrow> gateway_kind \<Rightarrow> nat \<Rightarrow> uuid \<Rightarrow> gateway_error + gateway_job" where
  "http_get_job nt kind n job =
     bindR (send_request nt n (GetJob job)) (\<lambda>r.
     let status = hr_status r in
     bindR (ok_or (hr_body r) read_failed) (\<lambda>bytes.
     if \<not> is_success status then Inl (error_response status (unwrap_or JNull (nt_json nt bytes)))
     else
       bindR (ok_or (nt_job nt bytes)
         (invalid_job status ''gateway returned an invalid job response'')) (\<lambda>wire.
       bindR (guardR (jw_id wire = job)
         (uncertain (Some status) ''job_identity_mismatch''
            ''gateway returned a different job'')) (\<lambda>_.
       bindR (ok_or (parse_job_status kind (jw_status wire))
         (invalid_job status ''gateway returned an unknown job status'')) (\<lambda>st.
       bindR (execution_metadata kind status wire) (\<lambda>execution.
       bindR (job_outcome nt status job st wire) (\<lambda>outcome.
       Inr \<lparr>gj_id = jw_id wire, gj_status = st, gj_outcome = outcome,
            gj_execution = execution\<rparr>)))))))"

section \<open>Clients\<close>

text \<open>
  A \<open>GatewayClient\<close> as the workers see it. The answer of a remote service is not a function of
  the request alone: the first argument is the number of the call.
\<close>

record gateway_client =
  gw_kind :: gateway_kind
  gw_submit :: "nat \<Rightarrow> raw_json \<Rightarrow> gateway_error + job_acknowledgement"
  gw_find :: "nat \<Rightarrow> string \<Rightarrow> gateway_error + job_acknowledgement option"
  gw_cancel :: "nat \<Rightarrow> uuid \<Rightarrow> gateway_error + bool"
  gw_get :: "nat \<Rightarrow> uuid \<Rightarrow> gateway_error + gateway_job"

text \<open>The default methods of the trait.\<close>

definition default_client ::
    "gateway_kind \<Rightarrow> (nat \<Rightarrow> raw_json \<Rightarrow> gateway_error + job_acknowledgement) \<Rightarrow> gateway_client" where
  "default_client kind submit = \<lparr>gw_kind = kind, gw_submit = submit, gw_find = (\<lambda>_ _. Inr None),
     gw_cancel = (\<lambda>_ _. Inl unsupported_cancellation),
     gw_get = (\<lambda>_ _. Inl (GwInvalidRequest ''job_retrieval_unsupported''
       ''this gateway client does not support job retrieval''))\<rparr>"

definition http_client :: "net \<Rightarrow> gateway_kind \<Rightarrow> gateway_client" where
  "http_client nt kind = \<lparr>gw_kind = kind, gw_submit = http_submit nt kind,
     gw_find = find_by_idempotency_key nt kind, gw_cancel = http_cancel nt kind,
     gw_get = http_get_job nt kind\<rparr>"

text \<open>\<open>HttpGatewayClient::new\<close>: \<open>net_of\<close> builds the HTTP client, or fails.\<close>

definition http_gateway_client ::
    "(string \<Rightarrow> bool) \<Rightarrow> (gateway_connection_config \<Rightarrow> net option) \<Rightarrow> gateway_connection_config
     \<Rightarrow> gateway_config_error + gateway_client" where
  "http_gateway_client header_ok net_of c =
     bindR (validate_connection header_ok c) (\<lambda>_.
     bindR (ok_or (net_of c) (GatewayClientFailed (gcc_id c))) (\<lambda>nt.
     Inr (http_client nt (gcc_kind c))))"

type_synonym gateway_registry = "string \<rightharpoonup> gateway_client"

definition register_gateway ::
    "string \<Rightarrow> gateway_client \<Rightarrow> gateway_registry \<Rightarrow> gateway_config_error + gateway_registry" where
  "register_gateway i client registry =
     bindR (guardR (registry i = None) (DuplicateGateway i)) (\<lambda>_. Inr (registry(i \<mapsto> client)))"

definition gateways_from_configs ::
    "(string \<Rightarrow> bool) \<Rightarrow> (gateway_connection_config \<Rightarrow> net option) \<Rightarrow> gateway_connection_config list
     \<Rightarrow> gateway_config_error + gateway_registry" where
  "gateways_from_configs header_ok net_of configs =
     foldR (\<lambda>c registry.
       bindR (http_gateway_client header_ok net_of c) (\<lambda>client.
       register_gateway (gcc_id c) client registry)) configs Map.empty"

section \<open>Callbacks\<close>

record gateway_callback_config =
  gbc_id :: string
  gbc_kind :: gateway_kind
  gbc_secrets :: "string list"

definition validate_callback_config :: "gateway_callback_config \<Rightarrow> gateway_config_error + unit" where
  "validate_callback_config c =
     guardR (\<not> (gbc_id c = [] \<or> gbc_secrets c = [] \<or> list_ex (\<lambda>secret. secret = []) (gbc_secrets c)))
       (InvalidGateway (gbc_id c)
          ''callback verification requires a connection ID and at least one non-empty secret'')"

type_synonym callback_registry = "string \<rightharpoonup> gateway_callback_config"

definition callbacks_from_configs ::
    "gateway_callback_config list \<Rightarrow> gateway_config_error + callback_registry" where
  "callbacks_from_configs configs =
     foldR (\<lambda>c entries.
       bindR (validate_callback_config c) (\<lambda>_.
       bindR (guardR (entries (gbc_id c) = None) (DuplicateGateway (gbc_id c))) (\<lambda>_.
       Inr (entries(gbc_id c \<mapsto> c))))) configs Map.empty"

record callback_notification =
  cn_event_id :: uuid
  cn_job_id :: uuid
  cn_event_type :: string

record callback_headers =
  ch_event_id :: string
  ch_timestamp :: string
  ch_signature :: string

datatype callback_verification_error =
  CbNotConfigured | CbInvalidHeaders | CbStale | CbInvalidSignature | CbInvalidPayload

record llm_wire =
  lw_event_id :: uuid
  lw_event_type :: string
  lw_job_id :: uuid

record execution_wire =
  ew_schema_version :: nat
  ew_event_id :: uuid
  ew_event_type :: string
  ew_job_id :: uuid

text \<open>The libraries: UUID and hex parsers, HMAC-SHA-256, the JSON parsers of the two bodies.\<close>

record callback_libs =
  cl_uuid :: "string \<Rightarrow> uuid option"
  cl_hex :: "string \<Rightarrow> string option"
  cl_hmac :: "string \<Rightarrow> string \<Rightarrow> string"
  cl_llm :: "string \<Rightarrow> llm_wire option"
  cl_execution :: "string \<Rightarrow> execution_wire option"

text \<open>\<open>i64::from_str\<close>: an optional sign, at least one digit, nothing else, in range.\<close>

definition is_digit :: "char \<Rightarrow> bool" where
  "is_digit c \<longleftrightarrow> (let n = (of_char c :: nat) in 48 \<le> n \<and> n \<le> 57)"

definition digits_value :: "string \<Rightarrow> int" where
  "digits_value ds = foldl (\<lambda>v c. 10 * v + (of_char c - 48)) 0 ds"

definition parse_digits :: "string \<Rightarrow> int option" where
  "parse_digits ds = (if ds \<noteq> [] \<and> list_all is_digit ds then Some (digits_value ds) else None)"

definition parse_i64 :: "string \<Rightarrow> int option" where
  "parse_i64 s =
     Option.bind
       (case s of
          c # ds \<Rightarrow>
            if c = CHR ''-'' then map_option uminus (parse_digits ds)
            else if c = CHR ''+'' then parse_digits ds
            else parse_digits s
        | [] \<Rightarrow> None)
       (\<lambda>n. if - (2 ^ 63) \<le> n \<and> n < 2 ^ 63 then Some n else None)"

definition strip_prefix :: "string \<Rightarrow> string \<Rightarrow> string option" where
  "strip_prefix p s = (if take (length p) s = p then Some (drop (length p) s) else None)"

definition presented_signature :: "callback_libs \<Rightarrow> callback_headers \<Rightarrow> string option" where
  "presented_signature cl h =
     Option.bind (Option.bind (strip_prefix ''v1='' (ch_signature h)) (cl_hex cl))
       (\<lambda>v. if length v = 32 then Some v else None)"

definition signed_text :: "callback_headers \<Rightarrow> string \<Rightarrow> string" where
  "signed_text h body = ch_timestamp h @ ''.'' @ ch_event_id h @ ''.'' @ body"

text \<open>The event, the job and the type of the body.\<close>

definition callback_body ::
    "callback_libs \<Rightarrow> gateway_kind \<Rightarrow> string \<Rightarrow> callback_verification_error + uuid \<times> uuid \<times> string"
  where
  "callback_body cl kind body =
     (case kind of
        GatewayLlm \<Rightarrow>
          bindR (ok_or (cl_llm cl body) CbInvalidPayload) (\<lambda>wire.
          bindR (guardR (lw_event_type wire
              \<in> set [''job.succeeded'', ''job.failed'', ''job.cancelled'']) CbInvalidPayload) (\<lambda>_.
          Inr (lw_event_id wire, lw_job_id wire, lw_event_type wire)))
      | GatewayExecution \<Rightarrow>
          bindR (ok_or (cl_execution cl body) CbInvalidPayload) (\<lambda>wire.
          bindR (guardR (\<not> (ew_schema_version wire \<noteq> 2
              \<or> ew_event_type wire \<notin> set [''job.succeeded'', ''job.failed'', ''job.unknown'']))
            CbInvalidPayload) (\<lambda>_.
          Inr (ew_event_id wire, ew_job_id wire, ew_event_type wire))))"

text \<open>The tolerance is in milliseconds; every configured secret is tried.\<close>

definition verify ::
    "callback_libs \<Rightarrow> callback_registry \<Rightarrow> string \<Rightarrow> gateway_kind \<Rightarrow> callback_headers \<Rightarrow> string \<Rightarrow> int \<Rightarrow> nat
     \<Rightarrow> callback_verification_error + callback_notification" where
  "verify cl entries connection kind h body now_unix tolerance =
     bindR (ok_or (entries connection) CbNotConfigured) (\<lambda>config.
     bindR (guardR (gbc_kind config = kind) CbNotConfigured) (\<lambda>_.
     bindR (ok_or (cl_uuid cl (ch_event_id h)) CbInvalidHeaders) (\<lambda>event_id.
     bindR (ok_or (parse_i64 (ch_timestamp h)) CbInvalidHeaders) (\<lambda>timestamp.
     bindR (guardR (\<not> nat \<bar>now_unix - timestamp\<bar> > tolerance div 1000) CbStale) (\<lambda>_.
     bindR (ok_or (presented_signature cl h) CbInvalidHeaders) (\<lambda>presented.
     bindR (guardR (foldl (\<lambda>matched secret. matched \<or> cl_hmac cl secret (signed_text h body) = presented)
         False (gbc_secrets config)) CbInvalidSignature) (\<lambda>_.
     bindR (callback_body cl kind body) (\<lambda>(payload_event_id, job_id, event_type).
     bindR (guardR (payload_event_id = event_id) CbInvalidPayload) (\<lambda>_.
     Inr \<lparr>cn_event_id = event_id, cn_job_id = job_id, cn_event_type = event_type\<rparr>)))))))))"

end
