(* ===== verification/Dispatch.thy ===== *)
theory Dispatch
  imports Scheduler Gateways
begin

text \<open>
  The operation dispatcher (\<open>packages/agent-runtime/src/dispatch.rs\<close>): it claims an operation
  for one of three phases and submits it to its gateway, cancels an accepted job, or withdraws
  an operation nobody submitted. Work is dropped as a whole, at any of its awaits, when the
  claim's lease is lost: a step that is not reached is \<open>None\<close>.
\<close>

section \<open>Settings\<close>

record dispatcher_settings =
  ds_enabled :: bool
  ds_max_concurrent_dispatches :: nat
  ds_poll_interval :: nat
  ds_lease_duration :: nat
  ds_lease_renewal_interval :: nat
  ds_retry_delays :: "nat list"
  ds_dependency_delay :: nat
  ds_request_retention :: nat
  ds_result_check_delay :: nat
  ds_shutdown_grace :: nat

definition dispatcher_default :: dispatcher_settings where
  "dispatcher_default = \<lparr>ds_enabled = True, ds_max_concurrent_dispatches = 32,
     ds_poll_interval = 100, ds_lease_duration = 30000, ds_lease_renewal_interval = 10000,
     ds_retry_delays = [1000, 5000, 30000], ds_dependency_delay = 250,
     ds_request_retention = 7 * 24 * 60 * 60 * 1000, ds_result_check_delay = 1000,
     ds_shutdown_grace = 30000\<rparr>"

datatype dispatcher_error = InvalidDispatcherSettings string | DispatcherStore store_error

definition validate_dispatcher :: "dispatcher_settings \<Rightarrow> dispatcher_error + unit" where
  "validate_dispatcher st =
     bindR (guardR (1 \<le> ds_max_concurrent_dispatches st \<and> ds_max_concurrent_dispatches st \<le> 1024)
       (InvalidDispatcherSettings ''maximum concurrent dispatches must be 1..1024'')) (\<lambda>_.
     bindR (guardR (\<not> list_ex (\<lambda>d. d = 0) [ds_poll_interval st, ds_lease_duration st,
         ds_lease_renewal_interval st, ds_dependency_delay st, ds_request_retention st,
         ds_result_check_delay st, ds_shutdown_grace st])
       (InvalidDispatcherSettings ''dispatcher durations must be greater than zero'')) (\<lambda>_.
     bindR (guardR (\<not> (ds_retry_delays st = [] \<or> list_ex (\<lambda>d. d = 0) (ds_retry_delays st)))
       (InvalidDispatcherSettings
          ''operation retry delays must be non-empty and greater than zero'')) (\<lambda>_.
     guardR (\<not> ds_lease_duration st \<le> ds_lease_renewal_interval st)
       (InvalidDispatcherSettings ''operation lease renewal must be shorter than the lease''))))"

section \<open>Failures and results\<close>

record operation_failure =
  of_source :: failure_source
  of_code :: string
  of_message :: string

fun failure_source_str :: "failure_source \<Rightarrow> string" where
  "failure_source_str SourceAdmission = ''admission''"
| "failure_source_str SourceGateway = ''gateway''"
| "failure_source_str SourceProtocol = ''protocol''"
| "failure_source_str SourcePlatform = ''platform''"

text \<open>\<open>serde_json::to_value(&failure)\<close>: without a protocol response, its field is skipped.\<close>

definition failure_json :: "operation_failure \<Rightarrow> json" where
  "failure_json f = JObject [(''source'', JString (failure_source_str (of_source f))),
     (''code'', JString (of_code f)), (''message'', JString (of_message f))]"

definition platform_failure :: "string \<Rightarrow> string \<Rightarrow> operation_failure" where
  "platform_failure code message =
     \<lparr>of_source = SourcePlatform, of_code = code, of_message = message\<rparr>"

datatype operation_result =
    LlmResult json
  | ExecutionResult json
  | LlmCancellationResult bool
  | WithdrawResult bool

text \<open>The typed responses are kept as the JSON they serialize to.\<close>

fun result_json :: "operation_result \<Rightarrow> json" where
  "result_json (LlmResult v) = JObject [(''kind'', JString ''llm''), (''value'', v)]"
| "result_json (ExecutionResult v) = JObject [(''kind'', JString ''execution''), (''value'', v)]"
| "result_json (LlmCancellationResult b) =
     JObject [(''kind'', JString ''llm_cancellation''), (''value'', JObject [(''accepted'', JBool b)])]"
| "result_json (WithdrawResult b) =
     JObject [(''kind'', JString ''withdraw''), (''value'', JObject [(''withdrawn'', JBool b)])]"

section \<open>The dispatcher\<close>

text \<open>
  What the dispatcher gets from outside: the parser of stored requests, the JSON of messages,
  tools and execution payloads (a list of members), and the JSON printer, which may refuse.
\<close>

record dispatcher =
  dp_settings :: dispatcher_settings
  dp_gateways :: gateway_registry
  dp_parse_request :: "raw_json \<Rightarrow> operation_request option"
  dp_message :: "message \<Rightarrow> json"
  dp_tool :: "tool_definition \<Rightarrow> json"
  dp_payload :: "exec_payload \<Rightarrow> (string \<times> json) list"
  dp_uuid_text :: "uuid \<Rightarrow> string"
  dp_print :: "json \<Rightarrow> raw_json option"
  dp_print_result :: "json \<Rightarrow> raw_json"

definition retry_delay :: "dispatcher_settings \<Rightarrow> int \<Rightarrow> nat" where
  "retry_delay st attempt_number =
     (let index = nat (max (attempt_number - 1) (- (2 ^ 31))) in
      ds_retry_delays st ! min index (length (ds_retry_delays st) - 1))"

definition retry ::
    "world \<Rightarrow> dispatcher \<Rightarrow> claimed_operation \<Rightarrow> bool \<Rightarrow> int option \<Rightarrow> string \<Rightarrow> string
     \<Rightarrow> (job, unit option) state" where
  "retry w dp claim unsure http_status code message = do {
     retry_at \<leftarrow> after_delay w (retry_delay (dp_settings dp) (k_attempt_number claim));
     done_with (unless_lost w (call w (effect (\<lambda>env.
       record_operation_retry env claim unsure retry_at http_status (error_json code message)))))
   }"

definition defer_claim :: "world \<Rightarrow> dispatcher \<Rightarrow> claimed_operation \<Rightarrow> (job, unit option) state" where
  "defer_claim w dp claim = do {
     retry_at \<leftarrow> after_delay w (ds_dependency_delay (dp_settings dp));
     done_with (unless_lost w (call w (effect (\<lambda>env. defer_operation env claim retry_at))))
   }"

definition fail_value ::
    "world \<Rightarrow> dispatcher \<Rightarrow> claimed_operation \<Rightarrow> operation_failure \<Rightarrow> int option
     \<Rightarrow> (job, unit option) state" where
  "fail_value w dp claim failure http_status =
     (if k_recovering_uncertain claim
      then retry w dp claim True http_status (of_code failure) (of_message failure)
      else do {
        expires \<leftarrow> after_delay w (ds_request_retention (dp_settings dp));
        done_with (unless_lost w (call w (\<lambda>env.
          complete_operation_with_http_status env claim OpFailed None (Some (failure_json failure))
            (Some expires) http_status)))
      })"

definition fail_with ::
    "world \<Rightarrow> dispatcher \<Rightarrow> claimed_operation \<Rightarrow> failure_source \<Rightarrow> string \<Rightarrow> string \<Rightarrow> int option
     \<Rightarrow> (job, unit option) state" where
  "fail_with w dp claim source code message http_status =
     fail_value w dp claim \<lparr>of_source = source, of_code = code, of_message = message\<rparr> http_status"

definition complete_result ::
    "world \<Rightarrow> dispatcher \<Rightarrow> claimed_operation \<Rightarrow> operation_result \<Rightarrow> int option
     \<Rightarrow> (job, unit option) state" where
  "complete_result w dp claim result http_status = do {
     expires \<leftarrow> after_delay w (ds_request_retention (dp_settings dp));
     done_with (unless_lost w (call w (\<lambda>env.
       complete_operation_with_http_status env claim OpSucceeded
         (Some (dp_print_result dp (result_json result))) None (Some expires) http_status)))
   }"

definition accept ::
    "world \<Rightarrow> dispatcher \<Rightarrow> claimed_operation \<Rightarrow> job_acknowledgement \<Rightarrow> int
     \<Rightarrow> (job, unit option) state" where
  "accept w dp claim ack http_status = do {
     check_at \<leftarrow> after_delay w (ds_result_check_delay (dp_settings dp));
     done_with (unless_lost w (call w (effect (\<lambda>env.
       record_operation_accepted env claim (ja_id ack) check_at (Some http_status)))))
   }"

definition withdraw :: "world \<Rightarrow> dispatcher \<Rightarrow> claimed_operation \<Rightarrow> (job, unit option) state" where
  "withdraw w dp claim = do {
     expires \<leftarrow> after_delay w (ds_request_retention (dp_settings dp));
     done_with (unless_lost w (call w (\<lambda>env. complete_withdrawal env claim (Some expires))))
   }"

fun gateway_failure_step ::
    "world \<Rightarrow> dispatcher \<Rightarrow> claimed_operation \<Rightarrow> gateway_error \<Rightarrow> (job, unit option) state" where
  "gateway_failure_step w dp claim (GwRejected status code message) =
     (if \<not> k_recovering_uncertain claim
      then fail_with w dp claim SourceAdmission code message (Some (int status))
      else retry w dp claim True (Some (int status)) code message)"
| "gateway_failure_step w dp claim (GwRetryable f) =
     retry w dp claim (k_recovering_uncertain claim) (map_option int (gf_status f))
       (gf_code f) (gf_message f)"
| "gateway_failure_step w dp claim (GwUncertain f) =
     retry w dp claim True (map_option int (gf_status f)) (gf_code f) (gf_message f)"
| "gateway_failure_step w dp claim (GwInvalidRequest code message) =
     fail_with w dp claim SourcePlatform code message None"

section \<open>Submission\<close>

definition fresh_body ::
    "dispatcher \<Rightarrow> string \<Rightarrow> uuid \<Rightarrow> string \<Rightarrow> string option \<Rightarrow> message list
     \<Rightarrow> tool_definition list \<Rightarrow> metadata \<Rightarrow> json" where
  "fresh_body dp key account model instructions messages tools options =
     JObject ([(''idempotencyKey'', JString key),
        (''accountId'', JString (dp_uuid_text dp account)), (''modelId'', JString model)]
      @ (case instructions of None \<Rightarrow> [] | Some text \<Rightarrow> [(''instructions'', JString text)])
      @ [(''messages'', JArray (map (dp_message dp) messages)),
         (''tools'', JArray (map (dp_tool dp) tools)), (''providerOptions'', JObject options)])"

definition continuation_body :: "dispatcher \<Rightarrow> string \<Rightarrow> uuid \<Rightarrow> message list \<Rightarrow> json" where
  "continuation_body dp key previous_job messages =
     JObject [(''idempotencyKey'', JString key),
       (''previousJobId'', JString (dp_uuid_text dp previous_job)),
       (''messages'', JArray (map (dp_message dp) messages))]"

definition execution_body ::
    "dispatcher \<Rightarrow> string \<Rightarrow> uuid \<Rightarrow> uuid option \<Rightarrow> exec_payload \<Rightarrow> json" where
  "execution_body dp key machine generation payload =
     JObject [(''machineId'', JString (dp_uuid_text dp machine)), (''idempotencyKey'', JString key),
       (''request'', JObject ((case generation of None \<Rightarrow> []
          | Some g \<Rightarrow> [(''expected_generation_id'', JString (dp_uuid_text dp g))])
          @ dp_payload dp payload))]"

type_synonym submission = "string \<times> gateway_kind \<times> raw_json"

text \<open>\<open>k_key\<close>: the key a gateway identifies the operation's job by, on every attempt.\<close>

abbreviation k_key :: "claimed_operation \<Rightarrow> string" where
  "k_key claim \<equiv> o_idempotency_key (k_operation claim)"

definition printed ::
    "dispatcher \<Rightarrow> string \<Rightarrow> gateway_kind \<Rightarrow> string \<Rightarrow> json
     \<Rightarrow> operation_failure + submission option" where
  "printed dp connection kind message v =
     bindR (ok_or (dp_print dp v) (platform_failure ''request_serialization_failed'' message))
       (\<lambda>body. Inr (Some (connection, kind, body)))"

text \<open>The parent of a continuation decides: fail, wait for it, or name its job.\<close>

definition continuation_parent ::
    "string \<Rightarrow> operation_row option \<Rightarrow> operation_failure + uuid option" where
  "continuation_parent connection found =
     bindR (ok_or found (platform_failure ''continuation_not_found''
       ''continuation parent does not exist in the session'')) (\<lambda>parent.
     bindR (guardR (\<not> (o_kind parent \<noteq> KindLlm \<or> o_connection parent \<noteq> Some connection))
       (platform_failure ''invalid_continuation''
          ''continuation parent must be an LLM operation on the same connection'')) (\<lambda>_.
     case o_status parent of
       OpSucceeded \<Rightarrow>
         bindR (ok_or (o_job_id parent) (platform_failure ''continuation_parent_unmapped''
           ''continuation parent has no gateway job'')) (\<lambda>job. Inr (Some job))
     | OpFailed \<Rightarrow> Inl (platform_failure ''continuation_parent_failed''
         ''continuation parent did not succeed'')
     | OpCancelled \<Rightarrow> Inl (platform_failure ''continuation_parent_failed''
         ''continuation parent did not succeed'')
     | OpUnknown \<Rightarrow> Inl (platform_failure ''continuation_parent_failed''
         ''continuation parent did not succeed'')
     | _ \<Rightarrow> Inr None))"

definition continuation_submission ::
    "world \<Rightarrow> dispatcher \<Rightarrow> claimed_operation \<Rightarrow> string \<Rightarrow> operation_id \<Rightarrow> message list
     \<Rightarrow> (job, (operation_failure + submission option) option) state" where
  "continuation_submission w dp claim connection previous messages =
     bindO (unless_lost w (call w (query (\<lambda>db.
       Inr (operation_for_session (k_session claim) previous db))))) (\<lambda>r.
     case r of
       Inl _ \<Rightarrow>
         bindO (retry w dp claim (k_recovering_uncertain claim) None ''dependency_read_failed''
           ''could not read continuation dependency'') (\<lambda>_. State_Monad.return (Some (Inr None)))
     | Inr found \<Rightarrow>
         (case continuation_parent connection found of
            Inl failure \<Rightarrow> State_Monad.return (Some (Inl failure))
          | Inr None \<Rightarrow> bindO (defer_claim w dp claim) (\<lambda>_. State_Monad.return (Some (Inr None)))
          | Inr (Some job) \<Rightarrow> State_Monad.return (Some
              (printed dp connection GatewayLlm ''could not serialize LLM request''
                 (continuation_body dp (k_key claim) job messages)))))"

definition submission_body ::
    "world \<Rightarrow> dispatcher \<Rightarrow> claimed_operation \<Rightarrow> operation_request
     \<Rightarrow> (job, (operation_failure + submission option) option) state" where
  "submission_body w dp claim request =
     (case request of
        LlmReq connection (Fresh account model instructions messages tools options) \<Rightarrow>
          State_Monad.return (Some
            (printed dp connection GatewayLlm ''could not serialize LLM request''
               (fresh_body dp (k_key claim) account model instructions messages tools options)))
      | LlmReq connection (Continuation previous messages) \<Rightarrow>
          continuation_submission w dp claim connection previous messages
      | ExecutionReq connection machine generation payload \<Rightarrow>
          State_Monad.return (Some
            (printed dp connection GatewayExecution ''could not serialize execution request''
               (execution_body dp (k_key claim) machine generation payload)))
      | _ \<Rightarrow> State_Monad.return (Some (Inl (platform_failure ''operation_kind_mismatch''
               ''operation request does not match submission phase''))))"

text \<open>An attempt whose predecessor may have reached the gateway looks the job up first.\<close>

definition submit_new ::
    "world \<Rightarrow> dispatcher \<Rightarrow> claimed_operation \<Rightarrow> gateway_client \<Rightarrow> raw_json
     \<Rightarrow> (job, unit option) state" where
  "submit_new w dp claim client body =
     bindO (unless_lost w (ask (CallSubmit body) (\<lambda>n. gw_submit client n body))) (\<lambda>r.
     case r of
       Inr ack \<Rightarrow> accept w dp claim ack 202
     | Inl error \<Rightarrow> gateway_failure_step w dp claim error)"

definition finish_submission ::
    "world \<Rightarrow> dispatcher \<Rightarrow> claimed_operation \<Rightarrow> gateway_client \<Rightarrow> raw_json
     \<Rightarrow> (job, unit option) state" where
  "finish_submission w dp claim client body =
     (if k_recovering_uncertain claim
      then bindO (unless_lost w (ask (CallFind (k_key claim)) (\<lambda>n. gw_find client n (k_key claim)))) (\<lambda>r.
        case r of
          Inr (Some ack) \<Rightarrow> accept w dp claim ack 200
        | Inr None \<Rightarrow> submit_new w dp claim client body
        | Inl error \<Rightarrow> gateway_failure_step w dp claim error)
      else submit_new w dp claim client body)"

definition stored_request :: "dispatcher \<Rightarrow> claimed_operation \<Rightarrow> string + operation_request" where
  "stored_request dp claim =
     bindR (ok_or (k_request claim) ''stored operation request is missing'') (\<lambda>raw.
     ok_or (dp_parse_request dp raw) ''stored operation request is invalid'')"

definition submit :: "world \<Rightarrow> dispatcher \<Rightarrow> claimed_operation \<Rightarrow> (job, unit option) state" where
  "submit w dp claim =
     (case stored_request dp claim of
        Inl message \<Rightarrow>
          fail_with w dp claim SourcePlatform ''invalid_operation_request'' message None
      | Inr request \<Rightarrow>
          bindO (submission_body w dp claim request) (\<lambda>r.
          case r of
            Inl failure \<Rightarrow> fail_value w dp claim failure None
          | Inr None \<Rightarrow> State_Monad.return (Some ())
          | Inr (Some (connection, kind, body)) \<Rightarrow>
              (case dp_gateways dp connection of
                 None \<Rightarrow> fail_with w dp claim SourcePlatform ''gateway_connection_not_configured''
                   ''gateway connection is not configured'' None
               | Some client \<Rightarrow>
                   if gw_kind client \<noteq> kind
                   then fail_with w dp claim SourcePlatform ''gateway_connection_kind_mismatch''
                     ''gateway connection has the wrong kind'' None
                   else finish_submission w dp claim client body)))"

section \<open>Cancellation\<close>

definition cancel_job ::
    "world \<Rightarrow> dispatcher \<Rightarrow> claimed_operation \<Rightarrow> operation_row \<Rightarrow> (job, unit option) state" where
  "cancel_job w dp claim target =
     (case o_job_id target of
        None \<Rightarrow> defer_claim w dp claim
      | Some job \<Rightarrow>
          (case o_connection target of
             None \<Rightarrow> fail_with w dp claim SourcePlatform ''cancellation_target_unmapped''
               ''cancellation target has no gateway connection'' None
           | Some connection \<Rightarrow>
               (case dp_gateways dp connection of
                  None \<Rightarrow> fail_with w dp claim SourcePlatform ''gateway_connection_not_configured''
                    ''gateway connection is not configured'' None
                | Some client \<Rightarrow>
                    if gw_kind client \<noteq> GatewayLlm
                    then fail_with w dp claim SourcePlatform ''gateway_connection_kind_mismatch''
                      ''cancellation target connection is not an LLM gateway'' None
                    else bindO (unless_lost w (ask (CallCancel job) (\<lambda>n. gw_cancel client n job))) (\<lambda>r.
                      case r of
                        Inr accepted \<Rightarrow>
                          complete_result w dp claim (LlmCancellationResult accepted) (Some 200)
                      | Inl error \<Rightarrow> gateway_failure_step w dp claim error))))"

definition cancel_target ::
    "world \<Rightarrow> dispatcher \<Rightarrow> claimed_operation \<Rightarrow> operation_row \<Rightarrow> (job, unit option) state" where
  "cancel_target w dp claim target =
     (if o_kind target \<noteq> KindLlm
      then fail_with w dp claim SourcePlatform ''invalid_cancellation_target''
        ''only an LLM operation can be cancelled'' None
      else if o_status target = OpPending \<or> o_status target = OpSubmitting
      then defer_claim w dp claim
      else if op_terminal (o_status target) \<and> \<not> k_recovering_uncertain claim
      then complete_result w dp claim (LlmCancellationResult False) None
      else cancel_job w dp claim target)"

definition cancel :: "world \<Rightarrow> dispatcher \<Rightarrow> claimed_operation \<Rightarrow> (job, unit option) state" where
  "cancel w dp claim =
     (case o_target (k_operation claim) of
        None \<Rightarrow> fail_with w dp claim SourcePlatform ''cancellation_target_not_found''
          ''cancellation target does not exist'' None
      | Some target_id \<Rightarrow>
          bindO (unless_lost w (call w (query (\<lambda>db.
            Inr (operation_for_session (k_session claim) target_id db))))) (\<lambda>r.
          case r of
            Inr (Some target) \<Rightarrow> cancel_target w dp claim target
          | Inr None \<Rightarrow> fail_with w dp claim SourcePlatform ''cancellation_target_not_found''
              ''cancellation target does not exist'' None
          | Inl _ \<Rightarrow> retry w dp claim (k_recovering_uncertain claim) None ''dependency_read_failed''
              ''could not read cancellation target''))"

section \<open>One operation\<close>

text \<open>A claim of the fourth phase does not reach this code: the source marks it unreachable.\<close>

definition dispatch_claim :: "world \<Rightarrow> dispatcher \<Rightarrow> claimed_operation \<Rightarrow> (job, unit option) state" where
  "dispatch_claim w dp claim =
     (case k_phase claim of
        Submission \<Rightarrow> submit w dp claim
      | Cancellation \<Rightarrow> cancel w dp claim
      | Withdrawal \<Rightarrow> withdraw w dp claim
      | ResultRetrieval \<Rightarrow> State_Monad.return None)"

definition dispatch_phases :: "operation_phase list" where
  "dispatch_phases = [Withdrawal, Cancellation, Submission]"

text \<open>The rotation: the cursor is a \<open>usize\<close> that wraps; it is returned moved on by one.\<close>

definition phase_order :: "64 word \<Rightarrow> operation_phase list" where
  "phase_order cursor =
     map (\<lambda>offset. dispatch_phases ! ((unat cursor mod length dispatch_phases + offset)
                                   mod length dispatch_phases)) [0..<length dispatch_phases]"

fun claim_phases ::
    "world \<Rightarrow> nat \<Rightarrow> operation_phase list \<Rightarrow> (job, store_error + claimed_operation option) state" where
  "claim_phases w lease_for [] = State_Monad.return (Inr None)"
| "claim_phases w lease_for (phase # rest) =
     bindS (call w (\<lambda>env. claim_operation env phase lease_for)) (\<lambda>r.
     case r of
       Some claim \<Rightarrow> State_Monad.return (Inr (Some claim))
     | None \<Rightarrow> claim_phases w lease_for rest)"

definition claim_next ::
    "world \<Rightarrow> dispatcher \<Rightarrow> 64 word
     \<Rightarrow> (job, (store_error + claimed_operation option) \<times> 64 word) state" where
  "claim_next w dp cursor = do {
     r \<leftarrow> claim_phases w (ds_lease_duration (dp_settings dp)) (phase_order cursor);
     State_Monad.return (r, cursor + 1)
   }"

definition dispatch_one ::
    "world \<Rightarrow> dispatcher \<Rightarrow> 64 word \<Rightarrow> (job, (dispatcher_error + bool) \<times> 64 word) state" where
  "dispatch_one w dp cursor =
     (if \<not> ds_enabled (dp_settings dp) then State_Monad.return (Inr False, cursor)
      else do {
        (r, cursor) \<leftarrow> claim_next w dp cursor;
        case r of
          Inl e \<Rightarrow> State_Monad.return (Inl (DispatcherStore e), cursor)
        | Inr None \<Rightarrow> State_Monad.return (Inr False, cursor)
        | Inr (Some claim) \<Rightarrow> do {
            _ \<leftarrow> dispatch_claim w dp claim;
            State_Monad.return (Inr True, cursor)
          }
      })"

section \<open>The dispatcher only makes store steps\<close>

lemma stays_operation_calls [run_intros]:
  assumes "others_step w"
  shows "stays_in_run (call w (effect (\<lambda>env. record_operation_retry env k unsure retry_at http error)))"
    and "stays_in_run (call w (effect (\<lambda>env. defer_operation env k retry_at)))"
    and "stays_in_run (call w (effect (\<lambda>env. record_operation_accepted env k job check_at http)))"
    and "stays_in_run (call w (effect (\<lambda>env. record_operation_pending_result env k check_at http)))"
  by (rule stays_effect [OF assms];
      erule store_step.op_retry store_step.op_defer store_step.op_accept store_step.op_pending)+

lemma stays_operation_results [run_intros]:
  assumes "others_step w"
  shows "stays_in_run (call w (\<lambda>env.
      complete_operation_with_http_status env k status result error expires http))"
    and "stays_in_run (call w (\<lambda>env. complete_withdrawal env k expires))"
    and "stays_in_run (call w (\<lambda>env. claim_operation env phase lease_for))"
  by (rule stays_call [OF assms];
      blast intro: store_step.op_complete store_step.op_withdraw store_step.op_claim)+

lemma stays_ends [run_intros]:
  assumes "others_step w"
  shows "stays_in_run (retry w dp claim unsure http_status code message)"
    and "stays_in_run (defer_claim w dp claim)"
    and "stays_in_run (complete_result w dp claim result http_status)"
    and "stays_in_run (accept w dp claim ack status)"
    and "stays_in_run (withdraw w dp claim)"
  using assms
  unfolding retry_def defer_claim_def complete_result_def accept_def withdraw_def
  by (auto intro!: run_intros)

lemma stays_fail [run_intros]:
  assumes "others_step w"
  shows "stays_in_run (fail_value w dp claim failure http_status)"
    and "stays_in_run (fail_with w dp claim source code message http_status)"
  using assms unfolding fail_with_def fail_value_def by (auto intro!: run_intros)

lemma stays_gateway_failure [run_intros]:
  "others_step w \<Longrightarrow> stays_in_run (gateway_failure_step w dp claim error)"
  by (cases error) (auto intro!: run_intros)

lemma stays_submission_body [run_intros]:
  "others_step w \<Longrightarrow> stays_in_run (submission_body w dp claim request)"
  unfolding submission_body_def continuation_submission_def
  by (auto intro!: run_intros split: operation_request.split llm_request.split sum.split option.split)

lemma stays_finish_submission [run_intros]:
  "others_step w \<Longrightarrow> stays_in_run (finish_submission w dp claim client body)"
  unfolding finish_submission_def submit_new_def
  by (auto intro!: run_intros split: sum.split option.split)

lemma stays_submit [run_intros]: "others_step w \<Longrightarrow> stays_in_run (submit w dp claim)"
  unfolding submit_def by (auto intro!: run_intros split: sum.split option.split prod.split)

lemma stays_cancel [run_intros]: "others_step w \<Longrightarrow> stays_in_run (cancel w dp claim)"
  unfolding cancel_def cancel_target_def cancel_job_def
  by (auto intro!: run_intros split: sum.split option.split)

lemma stays_dispatch_claim [run_intros]:
  "others_step w \<Longrightarrow> stays_in_run (dispatch_claim w dp claim)"
  unfolding dispatch_claim_def by (auto intro!: run_intros split: operation_phase.split)

lemma stays_claim_phases [run_intros]:
  "others_step w \<Longrightarrow> stays_in_run (claim_phases w lease_for phases)"
  by (induction phases) (auto intro!: run_intros split: option.split)

lemma stays_dispatch_one: "others_step w \<Longrightarrow> stays_in_run (dispatch_one w dp cursor)"
  unfolding dispatch_one_def claim_next_def
  by (auto intro!: run_intros split: sum.split option.split prod.split)

end
