(* ===== verification/Completion.thy ===== *)
theory Completion
  imports Dispatch
begin

text \<open>
  The completion runtime (\<open>packages/agent-runtime/src/completion.rs\<close>): it claims callback
  receipts and accepted operations, asks the gateway for the job's authoritative state and
  records the terminal outcome, or schedules the next look. A callback only wakes the
  operation up: the outcome always comes from the gateway.
\<close>

section \<open>Settings\<close>

record completion_settings =
  cs_enabled :: bool
  cs_max_concurrent_results :: nat
  cs_poll_interval :: nat
  cs_lease_duration :: nat
  cs_lease_renewal_interval :: nat
  cs_retry_delay :: nat
  cs_fallback_interval :: nat
  cs_unmatched_retry_delay :: nat
  cs_unmatched_retention :: nat
  cs_request_retention :: nat
  cs_infrastructure_retry_delay :: nat
  cs_shutdown_grace :: nat

definition completion_default :: completion_settings where
  "completion_default = \<lparr>cs_enabled = True, cs_max_concurrent_results = 32,
     cs_poll_interval = 100, cs_lease_duration = 30000, cs_lease_renewal_interval = 10000,
     cs_retry_delay = 5000, cs_fallback_interval = 30000, cs_unmatched_retry_delay = 1000,
     cs_unmatched_retention = 24 * 60 * 60 * 1000, cs_request_retention = 7 * 24 * 60 * 60 * 1000,
     cs_infrastructure_retry_delay = 1000, cs_shutdown_grace = 30000\<rparr>"

datatype completion_error = InvalidCompletionSettings | CompletionStore store_error

definition validate_completion :: "completion_settings \<Rightarrow> completion_error + unit" where
  "validate_completion st =
     guardR (\<not> (\<not> (1 \<le> cs_max_concurrent_results st \<and> cs_max_concurrent_results st \<le> 1024)
        \<or> list_ex (\<lambda>d. d = 0) [cs_poll_interval st, cs_lease_duration st,
            cs_lease_renewal_interval st, cs_retry_delay st, cs_fallback_interval st,
            cs_unmatched_retry_delay st, cs_unmatched_retention st, cs_request_retention st,
            cs_infrastructure_retry_delay st, cs_shutdown_grace st]
        \<or> cs_lease_duration st \<le> cs_lease_renewal_interval st))
       InvalidCompletionSettings"

text \<open>What the runtime gets from outside: the parsers of stored requests and of the two typed
  responses (as the JSON they serialize to again), and the printer.\<close>

record completion =
  cm_settings :: completion_settings
  cm_gateways :: gateway_registry
  cm_parse_request :: "raw_json \<Rightarrow> operation_request option"
  cm_assistant :: "raw_json \<Rightarrow> json option"
  cm_execution :: "raw_json \<Rightarrow> json option"
  cm_print :: "json \<Rightarrow> raw_json"

section \<open>Ending a retrieval\<close>

definition complete ::
    "world \<Rightarrow> completion \<Rightarrow> claimed_operation \<Rightarrow> operation_status \<Rightarrow> raw_json option \<Rightarrow> json option
     \<Rightarrow> (job, unit option) state" where
  "complete w cm claim status result error = do {
     expires \<leftarrow> after_delay w (cs_request_retention (cm_settings cm));
     done_with (unless_lost w (call w (\<lambda>env.
       complete_operation_with_http_status env claim status result error (Some expires) (Some 200))))
   }"

definition retry_result ::
    "world \<Rightarrow> completion \<Rightarrow> claimed_operation \<Rightarrow> int option \<Rightarrow> string \<Rightarrow> string
     \<Rightarrow> (job, unit option) state" where
  "retry_result w cm claim http_status code message = do {
     retry_at \<leftarrow> after_delay w (cs_retry_delay (cm_settings cm));
     done_with (unless_lost w (call w (effect (\<lambda>env.
       record_operation_retry env claim False retry_at http_status (error_json code message)))))
   }"

definition failure_of :: "failure_source \<Rightarrow> json \<Rightarrow> string \<Rightarrow> string \<Rightarrow> json" where
  "failure_of source v default_code default_message =
     failure_json \<lparr>of_source = source, of_code = unwrap_or default_code (get_str ''code'' v),
       of_message = unwrap_or default_message (get_str ''message'' v)\<rparr>"

fun gateway_error_parts :: "gateway_error \<Rightarrow> int option \<times> string \<times> string" where
  "gateway_error_parts (GwRejected status code message) = (Some (int status), code, message)"
| "gateway_error_parts (GwRetryable f) = (map_option int (gf_status f), gf_code f, gf_message f)"
| "gateway_error_parts (GwUncertain f) = (map_option int (gf_status f), gf_code f, gf_message f)"
| "gateway_error_parts (GwInvalidRequest code message) = (None, code, message)"

definition complete_success ::
    "world \<Rightarrow> completion \<Rightarrow> claimed_operation \<Rightarrow> raw_json \<Rightarrow> (job, unit option) state" where
  "complete_success w cm claim response =
     (let finish = (\<lambda>result.
            case result of
              Some r \<Rightarrow> complete w cm claim OpSucceeded (Some (cm_print cm (result_json r))) None
            | None \<Rightarrow> retry_result w cm claim (Some 200) ''invalid_gateway_result''
                ''gateway returned an invalid typed result'') in
      case o_kind (k_operation claim) of
        KindLlm \<Rightarrow> finish (map_option LlmResult (cm_assistant cm response))
      | KindExecution \<Rightarrow> finish (map_option ExecutionResult (cm_execution cm response))
      | _ \<Rightarrow> State_Monad.return (Some ()))"

definition complete_failure ::
    "world \<Rightarrow> completion \<Rightarrow> claimed_operation \<Rightarrow> raw_json option \<Rightarrow> json option
     \<Rightarrow> (job, unit option) state" where
  "complete_failure w cm claim response error =
     (let typed = (o_kind (k_operation claim) = KindExecution \<and> response \<noteq> None);
          source = (if typed then SourceProtocol else SourceGateway);
          value = unwrap_or (error_json ''operation_failed'' ''gateway operation failed'') error;
          failure = failure_of source value ''operation_failed'' ''gateway operation failed'' in
      if typed
      then (case Option.bind response (cm_execution cm) of
              None \<Rightarrow> retry_result w cm claim (Some 200) ''invalid_gateway_result''
                ''gateway returned an invalid execution response''
            | Some r \<Rightarrow> complete w cm claim OpFailed
                (Some (cm_print cm (result_json (ExecutionResult r)))) (Some failure))
      else complete w cm claim OpFailed None (Some failure))"

section \<open>Retrieving a result\<close>

definition execution_request_identity ::
    "world \<Rightarrow> completion \<Rightarrow> claimed_operation \<Rightarrow> (job, (uuid \<times> uuid option) option) state" where
  "execution_request_identity w cm claim =
     (let give_up = (\<lambda>code message.
            bindO (retry_result w cm claim None code message) (\<lambda>_. State_Monad.return None)) in
      bindO (unless_lost w (call w (query (\<lambda>db. Inr (operation_request (k_id claim) db))))) (\<lambda>r.
      case r of
        Inl _ \<Rightarrow> give_up ''operation_request_read_failed'' ''could not read stored execution request''
      | Inr None \<Rightarrow> give_up ''operation_request_missing'' ''stored execution request is missing''
      | Inr (Some raw) \<Rightarrow>
          (case cm_parse_request cm raw of
             Some (ExecutionReq connection machine generation _) \<Rightarrow>
               if Some connection = o_connection (k_operation claim)
               then State_Monad.return (Some (machine, generation))
               else give_up ''invalid_operation_request''
                      ''stored execution request is invalid or inconsistent''
           | _ \<Rightarrow> give_up ''invalid_operation_request''
                     ''stored execution request is invalid or inconsistent'')))"

text \<open>\<open>identity\<close> is what an execution job must agree with; an LLM job has none.\<close>

definition settle_job ::
    "world \<Rightarrow> completion \<Rightarrow> claimed_operation \<Rightarrow> (uuid \<times> uuid option) option
     \<Rightarrow> gateway_error + gateway_job \<Rightarrow> (job, unit option) state" where
  "settle_job w cm claim identity answer =
     (case answer of
        Inl error \<Rightarrow>
          (case gateway_error_parts error of (status, code, message) \<Rightarrow>
             retry_result w cm claim status code message)
      | Inr gj \<Rightarrow>
          (case (case identity of None \<Rightarrow> Inr ()
                 | Some (machine, generation) \<Rightarrow> validate_execution_identity gj machine generation) of
             Inl e \<Rightarrow> retry_result w cm claim (Some 200) ''gateway_job_identity_mismatch''
               (identity_error_text e)
           | Inr _ \<Rightarrow>
               (case gj_outcome gj of
                  JobPending \<Rightarrow> do {
                    check_at \<leftarrow> after_delay w (cs_fallback_interval (cm_settings cm));
                    done_with (unless_lost w (call w (effect (\<lambda>env.
                      record_operation_pending_result env claim check_at (Some 200)))))
                  }
                | JobSucceeded response \<Rightarrow> complete_success w cm claim response
                | JobFailed response error \<Rightarrow> complete_failure w cm claim response error
                | JobCancelled \<Rightarrow> complete w cm claim OpCancelled None None
                | JobUnknown error \<Rightarrow> complete w cm claim OpUnknown None
                    (Some (failure_of SourceGateway error ''unknown''
                       ''gateway could not recover the operation result'')))))"

definition retrieve_job ::
    "world \<Rightarrow> completion \<Rightarrow> claimed_operation \<Rightarrow> gateway_client \<Rightarrow> uuid
     \<Rightarrow> (uuid \<times> uuid option) option \<Rightarrow> (job, unit option) state" where
  "retrieve_job w cm claim client job identity =
     bindO (unless_lost w (ask (CallGet job) (\<lambda>n. gw_get client n job))) (settle_job w cm claim identity)"

definition process_result_claim ::
    "world \<Rightarrow> completion \<Rightarrow> claimed_operation \<Rightarrow> (job, unit option) state" where
  "process_result_claim w cm claim =
     (case o_connection (k_operation claim) of
        None \<Rightarrow> retry_result w cm claim None ''gateway_connection_missing''
          ''accepted operation has no gateway connection''
      | Some connection \<Rightarrow>
          (case o_job_id (k_operation claim) of
             None \<Rightarrow> retry_result w cm claim None ''gateway_job_missing''
               ''accepted operation has no gateway job''
           | Some job \<Rightarrow>
               (case cm_gateways cm connection of
                  None \<Rightarrow> retry_result w cm claim None ''gateway_connection_not_configured''
                    ''gateway connection is not configured''
                | Some client \<Rightarrow>
                    if gw_kind client \<noteq>
                       (if o_kind (k_operation claim) = KindLlm then GatewayLlm else GatewayExecution)
                    then retry_result w cm claim None ''gateway_connection_kind_mismatch''
                      ''gateway connection has the wrong kind''
                    else if o_kind (k_operation claim) = KindExecution
                    then bindO (execution_request_identity w cm claim) (\<lambda>identity.
                           retrieve_job w cm claim client job (Some identity))
                    else retrieve_job w cm claim client job None)))"

section \<open>Receipts\<close>

definition clock_now :: "world \<Rightarrow> (job, time) state" where
  "clock_now w = State (\<lambda>s. (rt_now w (j_calls s), s))"

definition unmatched_error :: json where
  "unmatched_error = error_json ''operation_mapping_not_found''
     ''callback remained unmatched beyond its retention window''"

definition process_receipt :: "world \<Rightarrow> completion \<Rightarrow> claimed_receipt \<Rightarrow> (job, unit) state" where
  "process_receipt w cm claim = do {
     retry_at \<leftarrow> after_delay w (cs_unmatched_retry_delay (cm_settings cm));
     r \<leftarrow> call w (\<lambda>env. match_callback_receipt env claim retry_at);
     case r of
       Inr (Some _) \<Rightarrow> do {
         _ \<leftarrow> call w (effect (\<lambda>env. complete_callback_receipt env claim));
         State_Monad.return ()
       }
     | Inr None \<Rightarrow> do {
         now \<leftarrow> clock_now w;
         if add_millis (g_received_at (kr_receipt claim))
              (int (cs_unmatched_retention (cm_settings cm))) < now
         then do {
           _ \<leftarrow> call w (effect (\<lambda>env.
             block_unmatched_callback_receipt (kr_id claim) unmatched_error));
           State_Monad.return ()
         }
         else State_Monad.return ()
       }
     | Inl _ \<Rightarrow> State_Monad.return ()
   }"

section \<open>Claiming\<close>

datatype completion_claim = ReceiptClaim claimed_receipt | ResultClaim claimed_operation

definition claim_receipt ::
    "world \<Rightarrow> completion \<Rightarrow> (job, store_error + completion_claim option) state" where
  "claim_receipt w cm =
     bindS (call w (\<lambda>env. claim_callback_receipt env (cs_lease_duration (cm_settings cm))))
       (\<lambda>r. State_Monad.return (Inr (map_option ReceiptClaim r)))"

definition claim_result ::
    "world \<Rightarrow> completion \<Rightarrow> (job, store_error + completion_claim option) state" where
  "claim_result w cm =
     bindS (call w (\<lambda>env. claim_operation env ResultRetrieval (cs_lease_duration (cm_settings cm))))
       (\<lambda>r. State_Monad.return (Inr (map_option ResultClaim r)))"

text \<open>The cursor alternates between receipts first and results first.\<close>

definition next_completion ::
    "world \<Rightarrow> completion \<Rightarrow> 64 word
     \<Rightarrow> (job, (store_error + completion_claim option) \<times> 64 word) state" where
  "next_completion w cm cursor = do {
     let receipt_first = (unat cursor mod 2 = 0);
     let (first, second) =
       (if receipt_first then (claim_receipt w cm, claim_result w cm)
        else (claim_result w cm, claim_receipt w cm));
     r \<leftarrow> bindS first (\<lambda>r.
       case r of Some c \<Rightarrow> State_Monad.return (Inr (Some c)) | None \<Rightarrow> second);
     State_Monad.return (r, cursor + 1)
   }"

definition process_one_receipt :: "world \<Rightarrow> completion \<Rightarrow> (job, completion_error + bool) state" where
  "process_one_receipt w cm = do {
     r \<leftarrow> call w (\<lambda>env. claim_callback_receipt env (cs_lease_duration (cm_settings cm)));
     case r of
       Inl e \<Rightarrow> State_Monad.return (Inl (CompletionStore e))
     | Inr None \<Rightarrow> State_Monad.return (Inr False)
     | Inr (Some claim) \<Rightarrow> do {
         _ \<leftarrow> process_receipt w cm claim;
         State_Monad.return (Inr True)
       }
   }"

definition process_one_result :: "world \<Rightarrow> completion \<Rightarrow> (job, completion_error + bool) state" where
  "process_one_result w cm = do {
     r \<leftarrow> call w (\<lambda>env. claim_operation env ResultRetrieval (cs_lease_duration (cm_settings cm)));
     case r of
       Inl e \<Rightarrow> State_Monad.return (Inl (CompletionStore e))
     | Inr None \<Rightarrow> State_Monad.return (Inr False)
     | Inr (Some claim) \<Rightarrow> do {
         _ \<leftarrow> process_result_claim w cm claim;
         State_Monad.return (Inr True)
       }
   }"

section \<open>The completion runtime only makes store steps\<close>

lemma stays_receipt_calls [run_intros]:
  assumes "others_step w"
  shows "stays_in_run (call w (\<lambda>env. claim_callback_receipt env lease_for))"
    and "stays_in_run (call w (\<lambda>env. match_callback_receipt env claim retry_at))"
    and "stays_in_run (call w (effect (\<lambda>env. complete_callback_receipt env claim)))"
    and "stays_in_run (call w (effect (\<lambda>env. block_unmatched_callback_receipt i error)))"
proof -
  show "stays_in_run (call w (\<lambda>env. claim_callback_receipt env lease_for))"
    and "stays_in_run (call w (\<lambda>env. match_callback_receipt env claim retry_at))"
    by (rule stays_call [OF assms]; blast intro: store_step.cb_claim store_step.cb_match)+
  show "stays_in_run (call w (effect (\<lambda>env. complete_callback_receipt env claim)))"
    and "stays_in_run (call w (effect (\<lambda>env. block_unmatched_callback_receipt i error)))"
    by (rule stays_effect [OF assms]; erule store_step.cb_complete store_step.cb_unmatched)+
qed

lemma stays_endings' [run_intros]:
  assumes "others_step w"
  shows "stays_in_run (complete w cm k status result error)"
    and "stays_in_run (retry_result w cm k http_status code message)"
  using assms unfolding complete_def retry_result_def by (auto intro!: run_intros)

lemma stays_settled [run_intros]:
  assumes "others_step w"
  shows "stays_in_run (complete_success w cm k response)"
    and "stays_in_run (complete_failure w cm k response' error)"
    and "stays_in_run (execution_request_identity w cm k)"
  using assms
  unfolding complete_success_def complete_failure_def execution_request_identity_def Let_def
  by (auto intro!: run_intros split: option.split operation_kind.split sum.split
      operation_request.split)

lemma stays_retrieve [run_intros]:
  "others_step w \<Longrightarrow> stays_in_run (retrieve_job w cm k client job identity)"
  unfolding retrieve_job_def settle_job_def
  by (auto intro!: run_intros split: sum.split prod.split option.split gateway_job_outcome.split)

lemma stays_process_result_claim [run_intros]:
  "others_step w \<Longrightarrow> stays_in_run (process_result_claim w cm k)"
  unfolding process_result_claim_def by (auto intro!: run_intros split: option.split)

lemma stays_clock_now [run_intros]: "stays_in_run (clock_now w)"
  by (rule runsI) (auto simp: clock_now_def)

lemma stays_process_receipt [run_intros]:
  "others_step w \<Longrightarrow> stays_in_run (process_receipt w cm claim)"
  unfolding process_receipt_def by (auto intro!: run_intros split: sum.split option.split)

lemma stays_completion:
  assumes "others_step w"
  shows "stays_in_run (process_one_receipt w cm)" and "stays_in_run (process_one_result w cm)"
  using assms unfolding process_one_receipt_def process_one_result_def
  by (auto intro!: run_intros split: sum.split option.split)

end
