(* ===== verification/OperationProgress.thy ===== *)
theory OperationProgress
  imports Completion "HOL-Library.Multiset"
begin

text \<open>
  What the calls of the dispatcher and of the completion runtime do to the status of the
  operation they are about, and which parts of the workers talk to a gateway at all.
\<close>

section \<open>Running programs\<close>

lemma run_bindO:
  "run_state (bindO m f) s = (case run_state m s of
     (None, t) \<Rightarrow> (None, t) | (Some x, t) \<Rightarrow> run_state (f x) t)"
  by (auto simp: bindO_def split: prod.splits option.splits)

lemma run_held:
  assumes "\<not> rt_lost w (j_calls s)"
  shows "run_state (unless_lost w m) s = (case run_state m s of (x, t) \<Rightarrow> (Some x, t))"
  using assms by (simp add: unless_lost_def)

lemma run_ask:
  "run_state (ask g f) s
     = (f (j_calls s), s\<lparr>j_sent := j_sent s @ [g], j_calls := Suc (j_calls s)\<rparr>)"
  by (simp add: ask_def)

lemma run_after_delay:
  "run_state (after_delay w d) s = (add_millis (rt_now w (j_calls s)) (int d), s)"
  by (simp add: after_delay_def)

lemma run_quiet_call:
  assumes "rt_others w (j_calls s) = (\<lambda>db. db)" and "rt_outage w (j_calls s) = None"
  shows "run_state (call w f) s = (case f (rt_env w (j_calls s)) (j_db s) of
      Inl e \<Rightarrow> (Inl e, after_call (j_db s) s) | Inr (x, db') \<Rightarrow> (Inr x, after_call db' s))"
  using assms by (auto simp: call_def Let_def split: sum.split)

lemma run_done_with:
  "run_state (done_with m) s = (case run_state m s of (x, t) \<Rightarrow> (map_option (\<lambda>_. ()) x, t))"
  by (auto simp: done_with_def run_bindO split: prod.splits option.splits)

lemmas run_simps = run_bindO run_held run_ask run_after_delay run_quiet_call run_done_with

section \<open>The status of an operation\<close>

definition status_of :: "db \<Rightarrow> operation_id \<Rightarrow> operation_status option" where
  "status_of db i = map_option o_status (operation_of db i)"

definition ended :: "operation_id \<Rightarrow> db \<Rightarrow> bool" where
  "ended i db \<longleftrightarrow> (case status_of db i of None \<Rightarrow> False | Some st \<Rightarrow> op_terminal st)"

text \<open>Whether the operation has ended stays as it is.\<close>

definition same_end :: "operation_id \<Rightarrow> db \<Rightarrow> db \<Rightarrow> bool" where
  "same_end i db db' \<longleftrightarrow> ended i db' = ended i db"

interpretation ending: db_relation "same_end i" for i
  by unfold_locales (auto simp: same_end_def)

lemma status_of_update:
  assumes "t_operations db' = row_update (\<lambda>r. o_id r = i) f (t_operations db)"
    and "\<And>r. o_id (f r) = o_id r"
  shows "status_of db' x
    = (if x = i then map_option (\<lambda>r. o_status (f r)) (operation_of db i) else status_of db x)"
  using assms
  by (simp add: status_of_def operation_of_def row_by_update_key option.map_comp comp_def)

lemma claim_step_status:
  assumes step: "claim_step env claim f g current db db'" and key: "\<And>r. o_id (f r) = o_id r"
  shows "status_of db x = (if x = k_id claim then Some (o_status current) else status_of db x)"
    and "status_of db' x = (if x = k_id claim then Some (o_status (f current)) else status_of db x)"
proof -
  have r: "operation_of db (k_id claim) = Some current"
    using step by (simp add: claim_step_def lock_valid_operation_claim_Inr split: option.splits)
  then show "status_of db x
      = (if x = k_id claim then Some (o_status current) else status_of db x)"
    by (simp add: status_of_def)
  have "t_operations db' = row_update (\<lambda>r. o_id r = k_id claim) f (t_operations db)"
    using step by (auto simp: claim_step_def dest!: strip_eqD)
  from status_of_update [OF this key] show "status_of db' x
      = (if x = k_id claim then Some (o_status (f current)) else status_of db x)"
    using r by simp
qed

lemma claim_step_same_end:
  assumes "claim_step env claim f g current db db'" and "\<And>r. o_id (f r) = o_id r"
    and "\<not> op_terminal (o_status current)" and "\<not> op_terminal (o_status (f current))"
  shows "same_end i db db'"
  using claim_step_status [OF assms(1,2), of i] assms(3,4)
  by (cases "i = k_id claim") (auto simp: same_end_def ended_def)

lemma retry_statuses_not_terminal:
  "retry_status phase st unsure = Some st' \<Longrightarrow> \<not> op_terminal st \<and> \<not> op_terminal st'"
  by (auto simp: retry_status_def split: if_splits)

lemma record_operation_retry_same_end:
  assumes "record_operation_retry env claim unsure retry_at http error db = Inr db'"
  shows "same_end i db db'"
proof -
  from record_operation_retry_effect [OF assms] obtain current status f g where
    "retry_status (k_phase claim) (o_status current) unsure = Some status"
    and "claim_step env claim f g current db db'" "\<And>r. o_id (f r) = o_id r"
      "o_status (f current) = status"
    by auto
  with claim_step_same_end [OF this(2,3)] retry_statuses_not_terminal show ?thesis by metis
qed

lemma defer_operation_same_end:
  assumes "defer_operation env claim retry_at db = Inr db'"
  shows "same_end i db db'"
proof -
  from defer_operation_effect [OF assms] obtain current f g where
    "o_status current = OpSubmitting" "claim_step env claim f g current db db'"
    "\<And>r. o_id (f r) = o_id r" "o_status (f current) = OpPending"
    by auto
  with claim_step_same_end [OF this(2,3)] show ?thesis by simp
qed

lemma record_operation_accepted_same_end:
  assumes "record_operation_accepted env claim job check_at http db = Inr db'"
  shows "same_end i db db'"
proof -
  from record_operation_accepted_effect [OF assms] obtain current f g where
    "o_status current = OpSubmitting" "claim_step env claim f g current db db'"
    "\<And>r. o_id (f r) = o_id r" "o_status (f current) = OpAccepted"
    by auto
  with claim_step_same_end [OF this(2,3)] show ?thesis by simp
qed

lemma record_operation_pending_result_same_end:
  assumes "record_operation_pending_result env claim check_at http db = Inr db'"
  shows "same_end i db db'"
proof -
  from record_operation_pending_result_effect [OF assms] obtain current f g where
    "o_status current = OpAccepted" "claim_step env claim f g current db db'"
    "\<And>r. o_id (f r) = o_id r" "o_status (f current) = o_status current"
    by auto
  with claim_step_same_end [OF this(2,3)] show ?thesis by simp
qed

lemma complete_operation_status:
  assumes "complete_operation_with_http_status env claim status result error expires http db
    = Inr (e, db')"
  shows "status_of db' x = (if x = k_id claim then Some status else status_of db x)"
    and "op_terminal status"
proof -
  from complete_operation_effect [OF assms] obtain current s where
    lock: "lock_valid_operation_claim (env_clock env 0) claim db = Inr current"
    and tabs: "t_operations db' = row_update (\<lambda>r. o_id r = k_id claim)
        (completed_row env status result error) (t_operations db)"
    and st: "op_terminal status"
    by (elim exE conjE) (drule strip_eqD, simp add: appended_event_def)
  have "operation_of db (k_id claim) = Some current"
    using lock by (simp add: lock_valid_operation_claim_Inr split: option.splits)
  with status_of_update [OF tabs] show "status_of db' x
      = (if x = k_id claim then Some status else status_of db x)"
    by simp
  show "op_terminal status" by (rule st)
qed

text \<open>The calls that never end an operation.\<close>

lemma open_calls [run_intros]:
  assumes "others_in (same_end i) w"
  shows "runs (\<lambda>s s'. same_end i (j_db s) (j_db s'))
      (call w (effect (\<lambda>env. record_operation_retry env k unsure retry_at http error)))"
    and "runs (\<lambda>s s'. same_end i (j_db s) (j_db s'))
      (call w (effect (\<lambda>env. defer_operation env k retry_at)))"
    and "runs (\<lambda>s s'. same_end i (j_db s) (j_db s'))
      (call w (effect (\<lambda>env. record_operation_accepted env k job check_at http)))"
    and "runs (\<lambda>s s'. same_end i (j_db s) (j_db s'))
      (call w (effect (\<lambda>env. record_operation_pending_result env k check_at http)))"
  by (rule ending.runs_effect [OF assms];
      erule record_operation_retry_same_end defer_operation_same_end
        record_operation_accepted_same_end record_operation_pending_result_same_end)+

text \<open>A submission attempt that recovers an uncertain one only ever reschedules it.\<close>

lemma fail_recovering_open [run_intros]:
  assumes "k_recovering_uncertain claim" and "others_in (same_end i) w"
  shows "runs (\<lambda>s s'. same_end i (j_db s) (j_db s')) (fail_value w dp claim failure http)"
    and "runs (\<lambda>s s'. same_end i (j_db s) (j_db s')) (fail_with w dp claim source code message http)"
  using assms unfolding fail_with_def fail_value_def retry_def by (auto intro!: run_intros)

lemma open_steps [run_intros]:
  assumes "others_in (same_end i) w"
  shows "runs (\<lambda>s s'. same_end i (j_db s) (j_db s')) (retry w dp claim unsure http code message)"
    and "runs (\<lambda>s s'. same_end i (j_db s) (j_db s')) (defer_claim w dp claim)"
    and "runs (\<lambda>s s'. same_end i (j_db s) (j_db s')) (accept w dp claim ack status)"
  using assms unfolding retry_def defer_claim_def accept_def by (auto intro!: run_intros)

lemma gateway_failure_recovering_open [run_intros]:
  assumes "k_recovering_uncertain claim" and "others_in (same_end i) w"
  shows "runs (\<lambda>s s'. same_end i (j_db s) (j_db s')) (gateway_failure_step w dp claim error)"
  using assms by (cases error) (auto intro!: run_intros)

lemma submission_body_open [run_intros]:
  assumes "others_in (same_end i) w"
  shows "runs (\<lambda>s s'. same_end i (j_db s) (j_db s')) (submission_body w dp claim request)"
  using assms unfolding submission_body_def continuation_submission_def
  by (auto intro!: run_intros split: operation_request.split llm_request.split sum.split option.split)

lemma submit_recovering_open:
  assumes "k_recovering_uncertain claim" and "others_in (same_end i) w"
  shows "runs (\<lambda>s s'. same_end i (j_db s) (j_db s')) (submit w dp claim)"
  using assms unfolding submit_def finish_submission_def submit_new_def
  by (auto intro!: run_intros split: sum.split option.split prod.split)

section \<open>The parts that send nothing\<close>

abbreviation sends_nothing :: "(job, 'a) state \<Rightarrow> bool" where
  "sends_nothing \<equiv> runs (\<lambda>s s'. j_sent s' = j_sent s)"

interpretation silent: job_relation "\<lambda>s s'. j_sent s' = j_sent s"
  by unfold_locales auto

lemma silent_calls [run_intros]:
  "sends_nothing (call w f)" "sends_nothing (after_delay w delay)" "sends_nothing calls_made"
  by (auto intro!: runsI simp: call_def after_delay_def calls_made_def Let_def
      split: option.splits outage.splits sum.splits prod.splits)

lemma silent_ends [run_intros]:
  "sends_nothing (retry w dp claim unsure http_status code message)"
  "sends_nothing (defer_claim w dp claim)"
  "sends_nothing (complete_result w dp claim result http_status)"
  "sends_nothing (accept w dp claim ack status)"
  "sends_nothing (withdraw w dp claim)"
  unfolding retry_def defer_claim_def complete_result_def accept_def withdraw_def
  by (auto intro!: run_intros)

lemma silent_fail [run_intros]:
  "sends_nothing (fail_value w dp claim failure http_status)"
  "sends_nothing (fail_with w dp claim source code message http_status)"
  unfolding fail_with_def fail_value_def by (auto intro!: run_intros)

lemma silent_gateway_failure [run_intros]:
  "sends_nothing (gateway_failure_step w dp claim error)"
  by (cases error) (auto intro!: run_intros)

lemma silent_submission_body [run_intros]:
  "sends_nothing (submission_body w dp claim request)"
  unfolding submission_body_def continuation_submission_def
  by (auto intro!: run_intros split: operation_request.split llm_request.split sum.split option.split)

section \<open>What a submission sends\<close>

lemma printed_Inr:
  "printed dp connection kind message v = Inr (Some (c, k, body)) \<Longrightarrow> dp_print dp v = Some body"
  by (auto simp: printed_def result_simps)

text \<open>Every body carries the operation's key.\<close>

lemma body_keys [simp]:
  "get_str ''idempotencyKey'' (fresh_body dp key account model instructions messages tools options)
     = Some key"
  "get_str ''idempotencyKey'' (continuation_body dp key job messages) = Some key"
  "get_str ''idempotencyKey'' (execution_body dp key machine generation payload) = Some key"
  by (simp_all add: get_str_def fresh_body_def continuation_body_def execution_body_def)

lemma continuation_submission_key:
  assumes "run_state (continuation_submission w dp claim connection previous messages) s
    = (Some (Inr (Some (c, kind, body))), t)"
  shows "\<exists>v. dp_print dp v = Some body \<and> get_str ''idempotencyKey'' v = Some (k_key claim)"
  using assms body_keys(2)
  by (fastforce simp: continuation_submission_def bindO_def dest!: printed_Inr
      split: prod.splits option.splits sum.splits)

lemma submission_body_key:
  assumes "run_state (submission_body w dp claim request) s
    = (Some (Inr (Some (c, kind, body))), t)"
  shows "\<exists>v. dp_print dp v = Some body \<and> get_str ''idempotencyKey'' v = Some (k_key claim)"
proof (cases request)
  case (LlmReq connection llm)
  then show ?thesis
    using assms continuation_submission_key
    by (cases llm) (auto simp: submission_body_def dest!: printed_Inr intro: body_keys)
next
  case (ExecutionReq connection machine generation payload)
  then show ?thesis
    using assms by (auto simp: submission_body_def dest!: printed_Inr intro: body_keys)
qed (use assms in \<open>simp_all add: submission_body_def\<close>)

lemma unless_lost_ask:
  assumes "run_state (unless_lost w (ask g f)) s = (x, t)"
  shows "x = None \<and> (j_sent t = j_sent s \<or> j_sent t = j_sent s @ [g])
    \<or> x = Some (f (j_calls s)) \<and> j_sent t = j_sent s @ [g]"
  using assms by (auto simp: unless_lost_def ask_def split: if_splits)

lemmas silent_dests = silent_ends [THEN runsD] silent_fail [THEN runsD]
  silent_gateway_failure [THEN runsD] silent_submission_body [THEN runsD]

lemma submit_new_sends:
  assumes "run_state (submit_new w dp claim client body) s = (r, s')"
  shows "j_sent s' = j_sent s \<or> j_sent s' = j_sent s @ [CallSubmit body]"
proof -
  obtain x t where ask: "run_state (unless_lost w (ask (CallSubmit body) (\<lambda>n. gw_submit client n body))) s
      = (x, t)" by fastforce
  have rest: "j_sent s' = j_sent t"
    using assms ask
    by (auto simp: submit_new_def run_bindO dest: silent_dests split: option.splits sum.splits)
  with unless_lost_ask [OF ask] show ?thesis by auto
qed

lemma finish_submission_sends:
  assumes run: "run_state (finish_submission w dp claim client body) s = (r, s')"
  shows "\<exists>new. j_sent s' = j_sent s @ new
    \<and> (new = [] \<or> k_recovering_uncertain claim \<and> new = [CallFind (k_key claim)]
       \<or> new = (if k_recovering_uncertain claim then [CallFind (k_key claim)] else [])
              @ [CallSubmit body]
         \<and> (k_recovering_uncertain claim \<longrightarrow> (\<exists>n. gw_find client n (k_key claim) = Inr None)))"
proof (cases "k_recovering_uncertain claim")
  case False
  with run have "run_state (submit_new w dp claim client body) s = (r, s')"
    by (simp add: finish_submission_def)
  from submit_new_sends [OF this] show ?thesis using False by auto
next
  case True
  let ?find = "ask (CallFind (k_key claim)) (\<lambda>n. gw_find client n (k_key claim))"
  obtain x t where ask: "run_state (unless_lost w ?find) s = (x, t)" by fastforce
  show ?thesis
  proof (cases "x = Some (Inr None)")
    case none: True
    then have find: "gw_find client (j_calls s) (k_key claim) = Inr None"
      and sent: "j_sent t = j_sent s @ [CallFind (k_key claim)]"
      using unless_lost_ask [OF ask] by auto
    have "run_state (submit_new w dp claim client body) t = (r, s')"
      using run True ask none by (simp add: finish_submission_def run_bindO)
    from submit_new_sends [OF this] show ?thesis using True sent find by auto
  next
    case False
    then have "j_sent s' = j_sent t"
      using run True ask
      by (auto simp: finish_submission_def run_bindO dest: silent_dests
          split: option.splits sum.splits)
    with unless_lost_ask [OF ask] True show ?thesis by auto
  qed
qed

lemma submit_sends:
  assumes run: "run_state (submit w dp claim) s = (r, s')"
  shows "j_sent s' = j_sent s
    \<or> (\<exists>request client body t c kind.
         run_state (submission_body w dp claim request) s = (Some (Inr (Some (c, kind, body))), t)
         \<and> j_sent t = j_sent s \<and> dp_gateways dp c = Some client \<and> gw_kind client = kind
         \<and> run_state (finish_submission w dp claim client body) t = (r, s'))"
proof (cases "stored_request dp claim")
  case (Inl m)
  then show ?thesis
    using run by (auto simp: submit_def dest: silent_dests)
next
  case (Inr request)
  obtain x t where body: "run_state (submission_body w dp claim request) s = (x, t)" by fastforce
  have sent: "j_sent t = j_sent s" by (rule runsD [OF silent_submission_body body])
  consider "x = None" | failure where "x = Some (Inl failure)" | "x = Some (Inr None)"
    | c kind b where "x = Some (Inr (Some (c, kind, b)))"
    by (metis not_None_eq prod.exhaust sumE)
  then show ?thesis
  proof cases
    case (4 c kind b)
    show ?thesis
    proof (cases "\<exists>client. dp_gateways dp c = Some client \<and> gw_kind client = kind")
      case True
      then obtain client where client: "dp_gateways dp c = Some client" "gw_kind client = kind"
        by blast
      then have "run_state (finish_submission w dp claim client b) t = (r, s')"
        using run Inr body 4 by (simp add: submit_def run_bindO)
      with body 4 sent client show ?thesis by blast
    next
      case False
      then have "j_sent s' = j_sent t"
        using run Inr body 4
        by (auto simp: submit_def run_bindO dest: silent_dests split: option.splits if_splits)
      with sent show ?thesis by simp
    qed
  qed (use run Inr body sent in \<open>auto simp: submit_def run_bindO dest: silent_dests\<close>)
qed

section \<open>The rotation of the phases\<close>

lemma phase_order_cases:
  "phase_order c = (if unat c mod 3 = 0 then [Withdrawal, Cancellation, Submission]
     else if unat c mod 3 = 1 then [Cancellation, Submission, Withdrawal]
     else [Submission, Withdrawal, Cancellation])"
proof -
  have "unat c mod 3 = 0 \<or> unat c mod 3 = 1 \<or> unat c mod 3 = 2" by linarith
  moreover have "[0..<3] = [0, 1, 2 :: nat]" by code_simp
  moreover have "length dispatch_phases = 3" by (simp add: dispatch_phases_def)
  ultimately show ?thesis
    by (elim disjE) (simp_all add: phase_order_def, simp_all add: dispatch_phases_def)
qed

lemma next_cursor: "unat c + k < 2 ^ 64 \<Longrightarrow> unat (c + of_nat k :: 64 word) = unat c + k"
  by (simp add: unat_word_ariths unat_of_nat)

end
