(* ===== verification/JobSources.thy ===== *)
theory JobSources
  imports OperationProgress
begin

text \<open>
  What the completion runtime relies on when it asks a gateway for a job: the answer is about
  that job, and its outcome is the one its status announces. The HTTP client keeps the two
  promises (\<open>packages/agent-gateways/src/lib.rs\<close>), whatever the network answers.
\<close>

section \<open>Statuses and outcomes\<close>

text \<open>The status an operation ends with, by the status of its job and by the job's outcome.\<close>

fun ended_status :: "gateway_job_status \<Rightarrow> operation_status option" where
  "ended_status (JobLlm LjSucceeded) = Some OpSucceeded"
| "ended_status (JobLlm LjFailed) = Some OpFailed"
| "ended_status (JobLlm LjCancelled) = Some OpCancelled"
| "ended_status (JobExecution EjSucceeded) = Some OpSucceeded"
| "ended_status (JobExecution EjFailed) = Some OpFailed"
| "ended_status (JobExecution EjUnknown) = Some OpUnknown"
| "ended_status _ = None"

fun recorded_status :: "gateway_job_outcome \<Rightarrow> operation_status option" where
  "recorded_status JobPending = None"
| "recorded_status (JobSucceeded _) = Some OpSucceeded"
| "recorded_status (JobFailed _ _) = Some OpFailed"
| "recorded_status JobCancelled = Some OpCancelled"
| "recorded_status (JobUnknown _) = Some OpUnknown"

section \<open>The interface\<close>

locale job_source =
  fixes get :: "nat \<Rightarrow> uuid \<Rightarrow> gateway_error + gateway_job"
  assumes same_job: "get n i = Inr gj \<Longrightarrow> gj_id gj = i"
    and agrees: "get n i = Inr gj \<Longrightarrow> recorded_status (gj_outcome gj) = ended_status (gj_status gj)"
begin

text \<open>A job whose outcome is still open has not ended, and the other way round.\<close>

lemma pending_iff: "get n i = Inr gj \<Longrightarrow> gj_outcome gj = JobPending \<longleftrightarrow> ended_status (gj_status gj) = None"
  using agrees [of n i gj] by (cases "gj_outcome gj") (auto dest: sym)

end

section \<open>The HTTP client\<close>

lemma http_get_job_Inr:
  assumes "http_get_job nt kind n job = Inr gj"
  obtains status wire where "jw_id wire = job"
    and "parse_job_status kind (jw_status wire) = Some (gj_status gj)"
    and "execution_metadata kind status wire = Inr (gj_execution gj)"
    and "job_outcome nt status job (gj_status gj) wire = Inr (gj_outcome gj)"
    and "gj_id gj = job"
  using assms that by (auto simp: http_get_job_def Let_def result_simps split: if_splits)

lemma failed_execution_recorded:
  "failed_execution_outcome nt status job wire = Inr oc \<Longrightarrow> recorded_status oc = Some OpFailed"
  by (auto simp: failed_execution_outcome_def result_simps split: option.splits)

lemma job_outcome_agrees:
  assumes "job_outcome nt status job st wire = Inr oc"
  shows "recorded_status oc = ended_status st"
proof (cases st)
  case (JobLlm l)
  with assms show ?thesis
    by (cases l) (auto simp: job_outcome_def Let_def result_simps)
next
  case (JobExecution x)
  with assms show ?thesis
    by (cases x) (auto simp: job_outcome_def Let_def result_simps unknown_outcome_def
        dest: failed_execution_recorded)
qed

interpretation http: job_source "http_get_job nt kind" for nt kind
proof unfold_locales
  fix n i gj
  assume get: "http_get_job nt kind n i = Inr gj"
  from get show "gj_id gj = i" by (rule http_get_job_Inr)
  from get show "recorded_status (gj_outcome gj) = ended_status (gj_status gj)"
    by (rule http_get_job_Inr) (rule job_outcome_agrees)
qed

text \<open>A result of an execution job is a protocol response to this job, on this generation.\<close>

lemma validate_execution_response_Inr:
  "validate_execution_response nt status response job machine generation succeeded = Inr text \<longleftrightarrow>
     text = response \<and> machine \<noteq> None
     \<and> (\<exists>typed gen. generation = Some gen \<and> nt_protocol nt response = Some typed
          \<and> pr_version typed = nt_protocol_version nt
          \<and> pr_request_id typed = Some (nt_uuid_text nt job)
          \<and> pr_generation_id typed = gen \<and> pr_succeeded typed = succeeded)"
  by (auto simp: validate_execution_response_def result_simps)

lemma job_outcome_response:
  assumes "job_outcome nt status job (JobExecution x) wire = Inr oc"
    and "oc = JobSucceeded text \<or> oc = JobFailed (Some text) None"
  shows "\<exists>typed generation. jw_machine_id wire \<noteq> None \<and> jw_generation_id wire = Some generation
    \<and> nt_protocol nt text = Some typed \<and> pr_version typed = nt_protocol_version nt
    \<and> pr_request_id typed = Some (nt_uuid_text nt job) \<and> pr_generation_id typed = generation
    \<and> pr_succeeded typed = (oc = JobSucceeded text)"
proof (cases x)
  case EjSucceeded
  then show ?thesis
    using assms
    by (simp add: job_outcome_def Let_def result_simps validate_execution_response_Inr) blast
next
  case EjFailed
  then have "failed_execution_outcome nt status job wire = Inr oc"
    using assms(1) by (simp add: job_outcome_def Let_def)
  then show ?thesis
    using assms(2) failed_execution_recorded [of nt status job wire oc]
    by (auto simp: failed_execution_outcome_def result_simps validate_execution_response_Inr
        split: option.splits)
next
  case EjUnknown
  then have "unknown_outcome status wire = Inr oc"
    using assms(1) by (simp add: job_outcome_def Let_def)
  then show ?thesis using assms(2) by (auto simp: unknown_outcome_def result_simps)
qed (use assms in \<open>auto simp: job_outcome_def Let_def result_simps\<close>)

section \<open>What the completion runtime records\<close>

lemma open_endings [run_intros]:
  assumes "others_in (same_end i) w"
  shows "runs (\<lambda>s s'. same_end i (j_db s) (j_db s'))
      (retry_result w cm claim http_status code message)"
    and "runs (\<lambda>s s'. same_end i (j_db s) (j_db s')) (execution_request_identity w cm claim)"
  using assms unfolding retry_result_def execution_request_identity_def Let_def
  by (auto intro!: run_intros split: sum.split option.split operation_request.split)

text \<open>A program that leaves the operation open, or ends it with the given status.\<close>

definition ends_as :: "operation_id \<Rightarrow> operation_status \<Rightarrow> (job, 'a) state \<Rightarrow> bool" where
  "ends_as i st m \<longleftrightarrow> (\<forall>s x s'. run_state m s = (x, s') \<and> \<not> ended i (j_db s) \<and> ended i (j_db s')
     \<longrightarrow> status_of (j_db s') i = Some st)"

lemma ends_as_open:
  "runs (\<lambda>s s'. same_end i (j_db s) (j_db s')) m \<Longrightarrow> ends_as i st m"
  unfolding ends_as_def by (auto simp: same_end_def dest: runsD)

lemma call_complete_ends:
  assumes others: "others_in (same_end i) w" and i: "k_id claim = i"
  shows "ends_as i status (call w (\<lambda>env.
      complete_operation_with_http_status env claim status result error expires http))"
  unfolding ends_as_def
proof (intro allI impI, elim conjE)
  fix s :: job and x s'
  let ?db = "rt_others w (j_calls s) (j_db s)"
  assume run: "run_state (call w (\<lambda>env. complete_operation_with_http_status env claim status
      result error expires http)) s = (x, s')"
    and open_before: "\<not> ended i (j_db s)" and after: "ended i (j_db s')"
  have "\<not> ended i ?db"
    using others open_before by (simp add: others_in_def same_end_def)
  moreover have "status_of (j_db s') i = Some status \<or> j_db s' = ?db"
    using run i
    by (auto simp: call_def Let_def dest!: complete_operation_status(1) [where x = i]
        split: option.splits outage.splits sum.splits prod.splits if_splits)
  ultimately show "status_of (j_db s') i = Some status" using after by auto
qed

lemma unless_lost_ends: "ends_as i st m \<Longrightarrow> ends_as i st (unless_lost w m)"
  by (auto simp: ends_as_def unless_lost_def split: if_splits prod.splits)

lemma done_with_ends: "ends_as i st m \<Longrightarrow> ends_as i st (done_with m)"
  by (auto simp: ends_as_def done_with_def bindO_def split: prod.splits option.splits)

lemma after_delay_ends:
  "(\<And>t. ends_as i st (f t)) \<Longrightarrow> ends_as i st (State_Monad.bind (after_delay w d) f)"
  by (auto simp: ends_as_def after_delay_def)

lemma complete_ends:
  "others_in (same_end (k_id claim)) w \<Longrightarrow>
     ends_as (k_id claim) status (complete w cm claim status result error)"
  unfolding complete_def by (intro after_delay_ends done_with_ends unless_lost_ends call_complete_ends) auto

lemma complete_success_ends:
  assumes "others_in (same_end (k_id claim)) w"
  shows "ends_as (k_id claim) OpSucceeded (complete_success w cm claim response)"
  using complete_ends [OF assms] open_endings(1) [OF assms, THEN ends_as_open]
    ending.runs_return [THEN ends_as_open]
  by (auto simp: complete_success_def Let_def split: operation_kind.split option.split)

lemma complete_failure_ends:
  assumes "others_in (same_end (k_id claim)) w"
  shows "ends_as (k_id claim) OpFailed (complete_failure w cm claim response error)"
  using complete_ends [OF assms] open_endings(1) [OF assms, THEN ends_as_open]
  by (auto simp: complete_failure_def Let_def split: option.split)

text \<open>An operation that has ended was ended as its job's outcome says.\<close>

lemma settle_job_ends:
  assumes others: "others_in (same_end (k_id claim)) w"
    and run: "run_state (settle_job w cm claim identity answer) s = (x, s')"
    and open_before: "\<not> ended (k_id claim) (j_db s)" and after: "ended (k_id claim) (j_db s')"
  shows "\<exists>gj. answer = Inr gj \<and> status_of (j_db s') (k_id claim) = recorded_status (gj_outcome gj)
    \<and> (case identity of None \<Rightarrow> True
       | Some (machine, generation) \<Rightarrow> validate_execution_identity gj machine generation = Inr ())"
proof -
  have stuck: False
    if "runs (\<lambda>s s'. same_end (k_id claim) (j_db s) (j_db s')) (settle_job w cm claim identity answer)"
    using runsD [OF that run] open_before after by (simp add: same_end_def)
  have as: "status_of (j_db s') (k_id claim) = Some st"
    if "ends_as (k_id claim) st (settle_job w cm claim identity answer)" for st
    using that run open_before after unfolding ends_as_def by blast
  show ?thesis
  proof (cases answer)
    case (Inl e)
    moreover obtain status code message where "gateway_error_parts e = (status, code, message)"
      by (cases "gateway_error_parts e") auto
    ultimately show ?thesis
      using stuck open_endings(1) [OF others] by (simp add: settle_job_def)
  next
    case (Inr gj)
    let ?ok = "case identity of None \<Rightarrow> Inr ()
      | Some (machine, generation) \<Rightarrow> validate_execution_identity gj machine generation"
    show ?thesis
    proof (cases ?ok)
      case (Inl e)
      then show ?thesis
        using stuck open_endings(1) [OF others] Inr by (auto simp: settle_job_def)
    next
      case ok: (Inr u)
      then have settle: "settle_job w cm claim identity answer = (case gj_outcome gj of
            JobPending \<Rightarrow> State_Monad.bind (after_delay w (cs_fallback_interval (cm_settings cm)))
              (\<lambda>t. done_with (unless_lost w (call w (effect (\<lambda>env.
                record_operation_pending_result env claim t (Some 200))))))
          | JobSucceeded response \<Rightarrow> complete_success w cm claim response
          | JobFailed response error \<Rightarrow> complete_failure w cm claim response error
          | JobCancelled \<Rightarrow> complete w cm claim OpCancelled None None
          | JobUnknown error \<Rightarrow> complete w cm claim OpUnknown None
              (Some (failure_of SourceGateway error ''unknown''
                 ''gateway could not recover the operation result'')))"
        by (simp add: settle_job_def Inr)
      have "status_of (j_db s') (k_id claim) = recorded_status (gj_outcome gj)"
      proof (cases "gj_outcome gj")
        case JobPending
        then show ?thesis using stuck others by (auto simp: settle intro!: run_intros)
      qed (use as settle complete_ends [OF others] complete_success_ends [OF others]
            complete_failure_ends [OF others] in auto)
      then show ?thesis using Inr ok by (auto split: option.splits)
    qed
  qed
qed

text \<open>Others leave the operation and its stored request alone while the claim is held.\<close>

definition untouched :: "operation_id \<Rightarrow> db \<Rightarrow> db \<Rightarrow> bool" where
  "untouched i db db' \<longleftrightarrow> operation_of db' i = operation_of db i
     \<and> operation_request i db' = operation_request i db"

lemma untouched_same_end: "others_in (untouched i) w \<Longrightarrow> others_in (same_end i) w"
  by (auto simp: others_in_def untouched_def same_end_def ended_def status_of_def)

lemma execution_request_identity_Some:
  assumes others: "others_in (untouched (k_id claim)) w"
    and run: "run_state (execution_request_identity w cm claim) s = (Some identity, t)"
  shows "\<exists>raw connection payload. operation_request (k_id claim) (j_db s) = Some raw
    \<and> cm_parse_request cm raw
        = Some (ExecutionReq connection (fst identity) (snd identity) payload)
    \<and> o_connection (k_operation claim) = Some connection"
proof -
  have req: "operation_request (k_id claim) (rt_others w k (j_db s))
      = operation_request (k_id claim) (j_db s)" for k
    using others by (simp add: others_in_def untouched_def)
  from run show ?thesis
    by (auto simp: execution_request_identity_def Let_def bindO_def unless_lost_def call_def
        query_def bindR_def req split: prod.splits option.splits sum.splits outage.splits if_splits
        operation_request.splits)
qed

lemma retrieve_job_ends:
  assumes others: "others_in (same_end (k_id claim)) w"
    and run: "run_state (retrieve_job w cm claim client job identity) s = (x, s')"
    and open_before: "\<not> ended (k_id claim) (j_db s)" and after: "ended (k_id claim) (j_db s')"
  shows "\<exists>n gj. gw_get client n job = Inr gj
    \<and> status_of (j_db s') (k_id claim) = recorded_status (gj_outcome gj)
    \<and> (case identity of None \<Rightarrow> True
       | Some (machine, generation) \<Rightarrow> validate_execution_identity gj machine generation = Inr ())"
proof -
  let ?get = "unless_lost w (ask (CallGet job) (\<lambda>n. gw_get client n job))"
  obtain y t where ask: "run_state ?get s = (y, t)" by fastforce
  have t: "j_db t = j_db s" and y: "y = None \<or> y = Some (gw_get client (j_calls s) job)"
    using ask by (auto simp: unless_lost_def ask_def split: if_splits)
  show ?thesis
  proof (cases y)
    case None
    then show ?thesis
      using run ask t open_before after by (simp add: retrieve_job_def run_bindO)
  next
    case (Some answer)
    then have "run_state (settle_job w cm claim identity answer) t = (x, s')"
      using run ask by (simp add: retrieve_job_def run_bindO)
    from settle_job_ends [OF others this] show ?thesis
      using Some y t open_before after by auto
  qed
qed

text \<open>Where a claimed result ends, its job was retrieved.\<close>

lemma process_result_claim_retrieves:
  assumes others: "others_in (untouched (k_id claim)) w"
    and run: "run_state (process_result_claim w cm claim) s = (x, s')"
    and open_before: "\<not> ended (k_id claim) (j_db s)" and after: "ended (k_id claim) (j_db s')"
  shows "\<exists>connection job client identity t. o_connection (k_operation claim) = Some connection
    \<and> o_job_id (k_operation claim) = Some job \<and> cm_gateways cm connection = Some client
    \<and> gw_kind client = (if o_kind (k_operation claim) = KindLlm then GatewayLlm else GatewayExecution)
    \<and> run_state (retrieve_job w cm claim client job identity) t = (x, s')
    \<and> \<not> ended (k_id claim) (j_db t)
    \<and> (o_kind (k_operation claim) = KindExecution \<longrightarrow> (\<exists>raw machine generation payload.
         operation_request (k_id claim) (j_db s) = Some raw
         \<and> cm_parse_request cm raw = Some (ExecutionReq connection machine generation payload)
         \<and> identity = Some (machine, generation)))"
proof -
  have same: "others_in (same_end (k_id claim)) w" by (rule untouched_same_end [OF others])
  have kept: "\<not> ended (k_id claim) (j_db t)"
    if "run_state m s = (y, t)" "runs (\<lambda>s s'. same_end (k_id claim) (j_db s) (j_db s')) m"
    for m :: "(job, 'b) state" and y t
    using runsD [OF that(2,1)] open_before by (simp add: same_end_def)
  note stuck = kept [OF _ open_endings(1) [OF same]]
  show ?thesis
  proof (cases "o_connection (k_operation claim)")
    case None
    then show ?thesis using run stuck after by (auto simp: process_result_claim_def)
  next
    case con: (Some connection)
    show ?thesis
    proof (cases "o_job_id (k_operation claim)")
      case None
      then show ?thesis using run stuck after con by (auto simp: process_result_claim_def)
    next
      case job: (Some job)
      show ?thesis
      proof (cases "cm_gateways cm connection")
        case None
        then show ?thesis using run stuck after con job by (auto simp: process_result_claim_def)
      next
        case client: (Some client)
        show ?thesis
        proof (cases "o_kind (k_operation claim) = KindExecution \<and> gw_kind client = GatewayExecution")
          case True
          obtain y t where ident: "run_state (execution_request_identity w cm claim) s = (y, t)"
            by fastforce
          have open_t: "\<not> ended (k_id claim) (j_db t)"
            by (rule kept [OF ident open_endings(2) [OF same]])
          have rest: "(case y of None \<Rightarrow> (None, t)
              | Some i \<Rightarrow> run_state (retrieve_job w cm claim client job (Some i)) t) = (x, s')"
            using run con job client True ident
            by (simp add: process_result_claim_def run_bindO split: option.splits)
          with open_t after obtain i where i: "y = Some i" by (cases y) auto
          with ident have found: "run_state (execution_request_identity w cm claim) s = (Some i, t)"
            by simp
          from execution_request_identity_Some [OF others this] con open_t rest i job client True
          show ?thesis by (cases i) auto
        next
          case False
          then show ?thesis
            using run stuck open_before after con job client
            by (auto simp: process_result_claim_def split: if_splits)
        qed
      qed
    qed
  qed
qed

section \<open>Errors of an exchange\<close>

lemma send_request_Inl:
  assumes "send_request nt n q = Inl e"
  shows "\<not> nt_endpoint nt q \<and> (\<exists>code message. e = GwInvalidRequest code message)
    \<or> nt_send nt n q = Inl ConnectFailed \<and> (\<exists>code message. e = retryable None code message)
    \<or> nt_send nt n q = Inl BuilderFailed \<and> (\<exists>code message. e = GwInvalidRequest code message)
    \<or> nt_send nt n q = Inl TransportFailed \<and> (\<exists>code message. e = uncertain None code message)"
proof (cases "nt_send nt n q")
  case (Inl t)
  then show ?thesis using assms by (cases t) (auto simp: send_request_def split: if_splits)
next
  case (Inr r)
  then show ?thesis using assms by (auto simp: send_request_def split: if_splits)
qed

lemma response_value_Inl:
  assumes "response_value nt r = Inl e"
  shows "(\<exists>code message. e = uncertain None code message)
    \<or> (\<exists>code message. e = uncertain (Some (hr_status r)) code message)
    \<or> \<not> is_success (hr_status r) \<and> (\<exists>code message. e = classify_status (hr_status r) code message)"
  using assms
  by (auto simp: response_value_def Let_def result_simps read_failed_def error_response_def
      split: if_splits)

lemma bindR_InrE:
  assumes "bindR m f = Inr y"
  obtains x where "m = Inr x" and "f x = Inr y"
  using assms by (auto simp: bindR_Inr)

lemma foldl_or: "foldl (\<lambda>b x. b \<or> P x) b xs \<longleftrightarrow> b \<or> (\<exists>x \<in> set xs. P x)"
  by (induction xs arbitrary: b) auto

text \<open>The position of a retry delay in the list of delays.\<close>

lemma retry_index:
  fixes l :: nat
  assumes "0 < l"
  defines "k \<equiv> \<lambda>n :: int. min (nat (max (n - 1) (- (2 ^ 31)))) (l - 1)"
  shows "k n < l" and "n \<le> m \<Longrightarrow> k n \<le> k m" and "n \<le> 1 \<Longrightarrow> k n = 0" and "int l \<le> n \<Longrightarrow> k n = l - 1"
proof -
  show "k n < l" using assms(1) by (auto simp: k_def min_less_iff_disj)
  show "n \<le> m \<Longrightarrow> k n \<le> k m" unfolding k_def by (intro min.mono nat_mono max.mono) auto
  show "n \<le> 1 \<Longrightarrow> k n = 0" by (simp add: k_def)
  assume "int l \<le> n"
  then have "int (l - 1) \<le> n - 1" using assms(1) by linarith
  also have "n - 1 \<le> max (n - 1) (- (2 ^ 31))" by simp
  finally have "l - 1 \<le> nat (max (n - 1) (- (2 ^ 31)))" by (simp only: le_nat_iff)
  then show "k n = l - 1" unfolding k_def by (rule min_absorb2)
qed

end
