(* ===== verification/GatewayGuarantees.thy ===== *)
theory GatewayGuarantees
  imports JobSources Scenario
begin

text \<open>
  The guarantees of the gateway side: what the dispatcher sends and never does, where results
  come from, how an HTTP exchange is classified, and what a verified callback proves.
\<close>

section \<open>A concrete world\<close>

text \<open>Nobody else works, nothing fails, and the clock stands still.\<close>

definition demo_world :: "time \<Rightarrow> nat \<Rightarrow> world" where
  "demo_world t k = \<lparr>rt_env = (\<lambda>n. demo_env t (k + 100 * n)), rt_others = (\<lambda>_ db. db),
     rt_outage = (\<lambda>_. None), rt_now = (\<lambda>_. t), rt_lost = (\<lambda>_. False), rt_ran = (\<lambda>_. False)\<rparr>"

definition demo_job :: "db \<Rightarrow> job" where
  "demo_job db = \<lparr>j_db = db, j_calls = 0, j_sent = []\<rparr>"

definition demo_wire :: job_wire where
  "demo_wire = \<lparr>jw_id = Uuid 71, jw_status = ''succeeded'', jw_response = Some ''answer'',
     jw_error = None, jw_machine_id = None, jw_generation_id = None\<rparr>"

definition demo_ack :: json where
  "demo_ack = JObject [(''id'', JString ''71''), (''status'', JString ''queued''),
     (''idempotencyKey'', JString ''5'')]"

text \<open>A gateway that knows one job, and answers every submission with it.\<close>

definition demo_net :: "nat \<Rightarrow> net" where
  "demo_net status = \<lparr>nt_endpoint = (\<lambda>_. True),
     nt_send = (\<lambda>_ q. Inr \<lparr>hr_status = status,
       hr_body = Some (case q of FindJob _ \<Rightarrow> ''none'' | _ \<Rightarrow> ''one'')\<rparr>),
     nt_json = (\<lambda>s. Some (if s = ''none'' then JObject [(''data'', JArray [])] else demo_ack)),
     nt_uuid = (\<lambda>_. Some (Uuid 71)), nt_uuid_text = (\<lambda>_. ''71''), nt_rfc3339 = (\<lambda>_. True),
     nt_job = (\<lambda>_. Some demo_wire), nt_assistant = (\<lambda>_. True),
     nt_protocol = (\<lambda>_. Some \<lparr>pr_version = 2, pr_request_id = Some ''71'',
       pr_generation_id = Uuid 9, pr_succeeded = True\<rparr>), nt_protocol_version = 2\<rparr>"

definition demo_gateways :: gateway_registry where
  "demo_gateways = [''llm'' \<mapsto> http_client (demo_net 200) GatewayLlm]"

definition demo_dispatcher :: dispatcher where
  "demo_dispatcher = \<lparr>dp_settings = dispatcher_default, dp_gateways = demo_gateways,
     dp_parse_request = (\<lambda>_. Some (LlmReq ''llm'' (Fresh (Uuid 2) ''m'' None [] [] []))),
     dp_message = (\<lambda>_. JNull), dp_tool = (\<lambda>_. JNull), dp_payload = (\<lambda>_. []),
     dp_uuid_text = (\<lambda>_. ''u''), dp_print = (\<lambda>_. Some ''body''), dp_print_result = (\<lambda>_. ''r'')\<rparr>"

definition demo_completion :: completion where
  "demo_completion = \<lparr>cm_settings = completion_default, cm_gateways = demo_gateways,
     cm_parse_request = (\<lambda>_. None), cm_assistant = (\<lambda>_. Some JNull),
     cm_execution = (\<lambda>_. None), cm_print = (\<lambda>_. ''r'')\<rparr>"

text \<open>The operation of \<^term>\<open>demo_retrieval\<close>, before it was submitted: the lease of an earlier
  attempt has run out.\<close>

definition demo_submitting :: operation_row where
  "demo_submitting = demo_op\<lparr>o_status := OpSubmitting, o_job_id := None, o_submitted_at := None\<rparr>"

definition demo_resubmission :: claimed_operation where
  "demo_resubmission = demo_retrieval\<lparr>k_operation := demo_submitting, k_phase := Submission,
     k_recovering_uncertain := True\<rparr>"

definition demo_unsubmitted :: db where
  "demo_unsubmitted = demo_work\<lparr>t_operations := [demo_submitting],
     t_op_attempts := [demo_op_attempt\<lparr>oa_phase := Submission\<rparr>]\<rparr>"

lemma demo_world_simps [simp]:
  "rt_env (demo_world t k) n = demo_env t (k + 100 * n)" "rt_others (demo_world t k) n = (\<lambda>db. db)"
  "rt_outage (demo_world t k) n = None" "rt_now (demo_world t k) n = t"
  "rt_lost (demo_world t k) n = False"
  by (simp_all add: demo_world_def)

lemma demo_job_simps [simp]:
  "j_db (demo_job db) = db" "j_calls (demo_job db) = 0" "j_sent (demo_job db) = []"
  by (simp_all add: demo_job_def)

lemma demo_dispatcher_simps [simp]:
  "dp_settings demo_dispatcher = dispatcher_default"
  "dp_gateways demo_dispatcher ''llm'' = Some (http_client (demo_net 200) GatewayLlm)"
  "dp_parse_request demo_dispatcher raw = Some (LlmReq ''llm'' (Fresh (Uuid 2) ''m'' None [] [] []))"
  "dp_print demo_dispatcher v = Some ''body''"
  by (simp_all add: demo_dispatcher_def demo_gateways_def)

lemma demo_completion_simps [simp]:
  "cm_settings demo_completion = completion_default"
  "cm_gateways demo_completion ''llm'' = Some (http_client (demo_net 200) GatewayLlm)"
  "cm_assistant demo_completion raw = Some JNull" "cm_print demo_completion v = ''r''"
  by (simp_all add: demo_completion_def demo_gateways_def)

lemma http_client_get [simp]: "gw_get (http_client nt kind) = http_get_job nt kind"
  by (simp add: http_client_def)

lemma silent_snd: "sends_nothing m \<Longrightarrow> j_sent (snd (run_state m s)) = j_sent s"
  by (cases "run_state m s") (auto dest: runsD)

text \<open>Sent and answered: the look-up finds nothing, the submission is acknowledged.\<close>

lemma http_client_kind [simp]: "gw_kind (http_client nt kind) = kind"
  by (simp add: http_client_def)

lemma demo_exchanges:
  "gw_find (http_client (demo_net 200) GatewayLlm) n ''5'' = Inr None"
  "gw_submit (http_client (demo_net 200) GatewayLlm) n body
     = Inr \<lparr>ja_id = Uuid 71, ja_status = JobLlm LjQueued\<rparr>"
  "http_get_job (demo_net 200) GatewayLlm n (Uuid 71)
     = Inr \<lparr>gj_id = Uuid 71, gj_status = JobLlm LjSucceeded, gj_outcome = JobSucceeded ''answer'',
            gj_execution = None\<rparr>"
  by code_simp+

definition demo_execution_net :: "bool \<Rightarrow> net" where
  "demo_execution_net ok = (demo_net 200)\<lparr>nt_job := (\<lambda>_. Some (demo_wire\<lparr>
     jw_machine_id := Some (Uuid 8), jw_generation_id := Some (Uuid 9)\<rparr>)),
     nt_protocol := (\<lambda>_. Some \<lparr>pr_version = 2, pr_request_id = Some ''71'',
       pr_generation_id = Uuid 9, pr_succeeded = ok\<rparr>)\<rparr>"

definition demo_callback_config :: gateway_callback_config where
  "demo_callback_config = \<lparr>gbc_id = ''llm'', gbc_kind = GatewayLlm, gbc_secrets = [''old'', ''new'']\<rparr>"

definition demo_headers :: callback_headers where
  "demo_headers = \<lparr>ch_event_id = ''e'', ch_timestamp = ''1100'', ch_signature = ''v1=new''\<rparr>"

definition demo_callback_libs :: callback_libs where
  "demo_callback_libs = \<lparr>cl_uuid = (\<lambda>_. Some (Uuid 72)), cl_hex = (\<lambda>s. Some (replicate 32 (hd s))),
     cl_hmac = (\<lambda>secret _. replicate 32 (hd secret)),
     cl_llm = (\<lambda>_. Some \<lparr>lw_event_id = Uuid 72, lw_event_type = ''job.succeeded'',
       lw_job_id = Uuid 71\<rparr>), cl_execution = (\<lambda>_. None)\<rparr>"

section \<open>Submission\<close>

text \<open>
  C28. What the dispatcher sends for one submission claim is, at most, one look-up by the
  operation's idempotency key and one submission whose body carries that key; and if an
  earlier attempt may have reached the gateway, it submits only after the look-up answered
  that there is no such job.
\<close>

theorem submission_idempotent:
  assumes "run_state (submit w dp claim) s = (r, s')"
  shows "\<exists>new. j_sent s' = j_sent s @ new
    \<and> (new = [] \<or> k_recovering_uncertain claim \<and> new = [CallFind (k_key claim)]
       \<or> (\<exists>body v. new = (if k_recovering_uncertain claim then [CallFind (k_key claim)] else [])
              @ [CallSubmit body]
            \<and> dp_print dp v = Some body \<and> get_str ''idempotencyKey'' v = Some (k_key claim)
            \<and> (k_recovering_uncertain claim \<longrightarrow> (\<exists>c client n. dp_gateways dp c = Some client
                 \<and> gw_find client n (k_key claim) = Inr None))))"
  using submit_sends [OF assms]
proof (elim disjE exE conjE)
  fix request client body t c kind
  assume body: "run_state (submission_body w dp claim request) s = (Some (Inr (Some (c, kind, body))), t)"
    and t: "j_sent t = j_sent s" and client: "dp_gateways dp c = Some client"
    and finish: "run_state (finish_submission w dp claim client body) t = (r, s')"
  obtain v where v: "dp_print dp v = Some body"
      "get_str ''idempotencyKey'' v = Some (k_key claim)"
    using submission_body_key [OF body] by blast
  obtain new where sent: "j_sent s' = j_sent t @ new"
    and new: "new = [] \<or> k_recovering_uncertain claim \<and> new = [CallFind (k_key claim)]
       \<or> new = (if k_recovering_uncertain claim then [CallFind (k_key claim)] else [])
              @ [CallSubmit body]
         \<and> (k_recovering_uncertain claim \<longrightarrow> (\<exists>n. gw_find client n (k_key claim) = Inr None))"
    using finish_submission_sends [OF finish] by blast
  show ?thesis
  proof (rule exI [where x = new], rule conjI)
    show "j_sent s' = j_sent s @ new" using sent t by simp
    show "new = [] \<or> k_recovering_uncertain claim \<and> new = [CallFind (k_key claim)]
       \<or> (\<exists>body v. new = (if k_recovering_uncertain claim then [CallFind (k_key claim)] else [])
              @ [CallSubmit body]
            \<and> dp_print dp v = Some body \<and> get_str ''idempotencyKey'' v = Some (k_key claim)
            \<and> (k_recovering_uncertain claim \<longrightarrow> (\<exists>c client n. dp_gateways dp c = Some client
                 \<and> gw_find client n (k_key claim) = Inr None)))"
      using new v client by metis
  qed
next
  assume "j_sent s' = j_sent s"
  then show ?thesis by simp
qed

theorem submission_idempotent_witness:
  "\<exists>r s' new. run_state (submit (demo_world 110 1200) demo_dispatcher demo_resubmission)
       (demo_job demo_unsubmitted) = (r, s')
     \<and> j_sent s' = [] @ new \<and> new = [CallFind ''5'', CallSubmit ''body'']"
proof -
  let ?m = "run_state (submit (demo_world 110 1200) demo_dispatcher demo_resubmission)
       (demo_job demo_unsubmitted)"
  obtain r s' where run: "?m = (r, s')" by fastforce
  have claim: "k_recovering_uncertain demo_resubmission" "k_key demo_resubmission = ''5''"
    "k_request demo_resubmission = Some ''req''"
    by code_simp+
  have "j_sent (snd ?m) = [CallFind ''5'', CallSubmit ''body'']"
    using claim
    by (simp add: submit_def stored_request_def submission_body_def printed_def bindR_def
        finish_submission_def submit_new_def run_simps demo_exchanges
        silent_snd [OF silent_ends(4)])
  moreover note claim
  ultimately show ?thesis using submission_idempotent [OF run] run by auto
qed

text \<open>
  C29. An operation whose submission may have reached the gateway is never ended by a failure of
  a later submission attempt: whatever the gateway and the store answer, the operation is open
  after the attempt if it was open before and nobody else ends it.
\<close>

theorem uncertain_never_failed:
  assumes "k_recovering_uncertain claim"
    and others: "others_in (same_end i) w"
    and run: "run_state (submit w dp claim) s = (r, s')"
  shows "ended i (j_db s') = ended i (j_db s)"
  using runsD [OF submit_recovering_open [OF assms(1) others] run] by (simp add: same_end_def)

theorem uncertain_never_failed_witness:
  "\<exists>r s'. run_state (submit (demo_world 110 1200) (demo_dispatcher\<lparr>dp_gateways := Map.empty\<rparr>)
       demo_resubmission) (demo_job demo_unsubmitted) = (r, s') \<and> \<not> ended (Uuid 5) (j_db s')"
proof -
  obtain r s' where run: "run_state (submit (demo_world 110 1200)
      (demo_dispatcher\<lparr>dp_gateways := Map.empty\<rparr>) demo_resubmission) (demo_job demo_unsubmitted)
      = (r, s')" by fastforce
  have "\<not> ended (Uuid 5) demo_unsubmitted" "k_recovering_uncertain demo_resubmission"
    by code_simp+
  moreover have "others_in (same_end (Uuid 5)) (demo_world 110 1200)"
    by (simp add: others_in_def same_end_def)
  ultimately show ?thesis using uncertain_never_failed [OF _ _ run] run by auto
qed

text \<open>
  The order in which the dispatcher tries the phases is the rotation of withdrawal,
  cancellation, submission that the cursor selects, so each phase is tried exactly once, and
  until the 64-bit cursor wraps each phase comes first once in any three calls in a row.
\<close>

theorem phases_take_turns:
  assumes "unat c + 2 < 2 ^ 64"
  shows "mset (phase_order c) = {#Withdrawal, Cancellation, Submission#}
    \<and> {hd (phase_order c), hd (phase_order (c + 1)), hd (phase_order (c + 2))}
      = {Withdrawal, Cancellation, Submission}"
proof -
  have n: "unat (c + 1) = unat c + 1" "unat (c + 2) = unat c + 2"
    using next_cursor [of c 1] next_cursor [of c 2] assms by simp_all
  have "unat c mod 3 = 0 \<or> unat c mod 3 = 1 \<or> unat c mod 3 = 2" by linarith
  moreover have "(unat c + 1) mod 3 = (unat c mod 3 + 1) mod 3" "(unat c + 2) mod 3 = (unat c mod 3 + 2) mod 3"
    by presburger+
  ultimately show ?thesis by (auto simp: phase_order_cases n)
qed

theorem phases_take_turns_witness:
  "{hd (phase_order 7), hd (phase_order (7 + 1)), hd (phase_order (7 + 2))}
     = {Withdrawal, Cancellation, Submission}"
  using phases_take_turns [of 7] by simp

section \<open>Results\<close>



section \<open>HTTP exchanges\<close>

text \<open>
  C31. How a failed submission is classified is what makes retrying it safe. It is reported as
  rejected only if the gateway answered with a status that is neither a success nor one of
  the statuses that may hide an acceptance (5xx, 408) or ask for patience (429); as retryable
  only if no connection was made or the gateway answered 429; as an invalid request only if
  nothing was sent. Everything else, an unreadable or unintelligible answer included, is
  uncertain.
\<close>

theorem submission_errors_classified:
  assumes "http_submit nt kind n request = Inl e"
  shows "case e of
      GwRejected status _ _ \<Rightarrow> \<exists>r. nt_send nt n (PostJob request) = Inr r \<and> hr_status r = status
        \<and> \<not> is_success status \<and> \<not> is_server_error status \<and> status \<noteq> 408 \<and> status \<noteq> 429
    | GwRetryable f \<Rightarrow> nt_send nt n (PostJob request) = Inl ConnectFailed \<and> gf_status f = None
        \<or> (\<exists>r. nt_send nt n (PostJob request) = Inr r \<and> hr_status r = 429 \<and> gf_status f = Some 429)
    | GwInvalidRequest _ _ \<Rightarrow> \<not> nt_endpoint nt (PostJob request)
        \<or> nt_send nt n (PostJob request) = Inl BuilderFailed
    | GwUncertain _ \<Rightarrow> True"
proof (cases "send_request nt n (PostJob request)")
  case (Inl e')
  then have "e = e'" using assms by (simp add: http_submit_def)
  with send_request_Inl [OF Inl] show ?thesis
    by (auto simp: retryable_def uncertain_def)
next
  case (Inr r)
  then have send: "nt_send nt n (PostJob request) = Inr r"
    by (auto simp: send_request_def split: if_splits sum.splits)
  show ?thesis
  proof (cases "response_value nt r")
    case (Inl e')
    then have "e = e'" using assms Inr by (simp add: http_submit_def)
    with response_value_Inl [OF Inl] send show ?thesis
      by (cases e) (auto simp: classify_status_def retryable_def uncertain_def is_server_error_def
          is_success_def split: if_splits)
  next
    case (Inr v)
    then have "acknowledgement nt kind (fst v) (snd v) = Inl e"
      using assms \<open>send_request nt n (PostJob request) = Inr r\<close>
      by (cases v) (simp add: http_submit_def)
    then show ?thesis by (auto simp: acknowledgement_def result_simps uncertain_def)
  qed
qed

theorem submission_errors_classified_witness:
  "\<exists>e. http_submit (demo_net 429) GatewayLlm 0 ''body'' = Inl e
     \<and> (case e of GwRetryable f \<Rightarrow> gf_status f = Some 429 | _ \<Rightarrow> False)"
proof -
  let ?r = "http_submit (demo_net 429) GatewayLlm 0 ''body''"
  have "isl ?r" and kind: "case projl ?r of GwRetryable _ \<Rightarrow> True | _ \<Rightarrow> False" by code_simp+
  then obtain e where e: "?r = Inl e" by (cases ?r) auto
  have "nt_send (demo_net 429) 0 (PostJob ''body'') \<noteq> Inl ConnectFailed" by code_simp
  with submission_errors_classified [OF e] kind e show ?thesis
    by (auto split: gateway_error.splits)
qed

text \<open>
  C32. A successful execution job is accepted only with a protocol response that belongs to it:
  of the supported version, to the request that is this job, from the runtime generation the
  job names, and itself successful. A failed job with a response is held to the same, except
  that the response reports a failure.
\<close>

theorem execution_responses_correlate:
  assumes "http_get_job nt GatewayExecution n job = Inr gj"
    and "gj_outcome gj = JobSucceeded text \<or> gj_outcome gj = JobFailed (Some text) None"
  shows "\<exists>typed machine generation.
    gj_execution gj = Some \<lparr>em_machine_id = machine, em_generation_id = Some generation\<rparr>
    \<and> nt_protocol nt text = Some typed \<and> pr_version typed = nt_protocol_version nt
    \<and> pr_request_id typed = Some (nt_uuid_text nt job) \<and> pr_generation_id typed = generation
    \<and> pr_succeeded typed = (gj_outcome gj = JobSucceeded text)"
proof -
  from assms(1) obtain status wire where
    st: "parse_job_status GatewayExecution (jw_status wire) = Some (gj_status gj)"
    and ex: "execution_metadata GatewayExecution status wire = Inr (gj_execution gj)"
    and oc: "job_outcome nt status job (gj_status gj) wire = Inr (gj_outcome gj)"
    by (rule http_get_job_Inr)
  obtain x where x: "gj_status gj = JobExecution x"
    using st by (cases "gj_status gj") (auto simp: parse_job_status_def)
  from job_outcome_response [OF oc [unfolded x] assms(2)] ex show ?thesis
    by (auto simp: execution_metadata_def result_simps dest: sym)
qed

theorem execution_responses_correlate_witness:
  "\<exists>typed. nt_protocol (demo_execution_net True) ''answer'' = Some typed
     \<and> pr_request_id typed = Some ''71'' \<and> pr_succeeded typed"
proof -
  let ?r = "http_get_job (demo_execution_net True) GatewayExecution 0 (Uuid 71)"
  have "\<not> isl ?r" and "gj_outcome (projr ?r) = JobSucceeded ''answer''" by code_simp+
  then obtain gj where gj: "?r = Inr gj" "gj_outcome gj = JobSucceeded ''answer''" by (cases ?r) auto
  have "nt_uuid_text (demo_execution_net True) (Uuid 71) = ''71''" by code_simp
  with execution_responses_correlate [OF gj(1)] gj(2) show ?thesis by fastforce
qed

section \<open>Callbacks\<close>

text \<open>
  C33. A callback is accepted only if it is authentic, fresh and about the right gateway: the
  connection is configured for that kind of gateway, the signature is the HMAC of exactly the
  received timestamp, event header and body under one of the connection's secrets, the
  timestamp is within the tolerance, and the body is a terminal notification for the event of
  the header. The job and event reported are the body's.
\<close>

theorem verified_callbacks_authentic:
  assumes "verify cl entries connection kind h body now tolerance = Inr notice"
  shows "\<exists>config timestamp secret signature event. entries connection = Some config
    \<and> gbc_kind config = kind \<and> secret \<in> set (gbc_secrets config)
    \<and> presented_signature cl h = Some signature \<and> length signature = 32
    \<and> cl_hmac cl secret (ch_timestamp h @ ''.'' @ ch_event_id h @ ''.'' @ body) = signature
    \<and> parse_i64 (ch_timestamp h) = Some timestamp \<and> \<bar>now - timestamp\<bar> \<le> int (tolerance div 1000)
    \<and> cl_uuid cl (ch_event_id h) = Some event
    \<and> callback_body cl kind body = Inr (event, cn_job_id notice, cn_event_type notice)
    \<and> cn_event_id notice = event"
proof -
  from assms obtain config event timestamp signature parts where
    config: "entries connection = Some config" "gbc_kind config = kind"
    and ids: "cl_uuid cl (ch_event_id h) = Some event" "parse_i64 (ch_timestamp h) = Some timestamp"
    and fresh: "nat \<bar>now - timestamp\<bar> \<le> tolerance div 1000"
    and sig: "presented_signature cl h = Some signature"
    and secret: "foldl (\<lambda>matched secret. matched \<or> cl_hmac cl secret (signed_text h body) = signature)
        False (gbc_secrets config)"
    and body: "callback_body cl kind body = Inr parts"
      "(case parts of (payload_event_id, job_id, event_type) \<Rightarrow>
        bindR (guardR (payload_event_id = event) CbInvalidPayload) (\<lambda>_.
        Inr \<lparr>cn_event_id = event, cn_job_id = job_id, cn_event_type = event_type\<rparr>)) = Inr notice"
    unfolding verify_def
    by (elim bindR_InrE) (simp add: not_less)
  obtain key where "key \<in> set (gbc_secrets config)"
      "cl_hmac cl key (ch_timestamp h @ ''.'' @ ch_event_id h @ ''.'' @ body) = signature"
    using secret by (auto simp: foldl_or signed_text_def)
  moreover have "length signature = 32"
    using sig by (auto simp: presented_signature_def Option.bind_eq_Some_conv split: if_splits)
  moreover have "callback_body cl kind body = Inr (event, cn_job_id notice, cn_event_type notice)
      \<and> cn_event_id notice = event"
    using body by (cases parts) (auto simp: result_simps)
  moreover have "\<bar>now - timestamp\<bar> \<le> int (tolerance div 1000)" using fresh by linarith
  ultimately show ?thesis using config ids sig by blast
qed

theorem verified_callbacks_authentic_witness:
  "\<exists>notice timestamp. verify demo_callback_libs [''llm'' \<mapsto> demo_callback_config] ''llm'' GatewayLlm
       demo_headers ''{}'' 1000 300000 = Inr notice
     \<and> parse_i64 (ch_timestamp demo_headers) = Some timestamp \<and> \<bar>1000 - timestamp\<bar> \<le> 300"
proof -
  let ?r = "verify demo_callback_libs [''llm'' \<mapsto> demo_callback_config] ''llm'' GatewayLlm
       demo_headers ''{}'' 1000 300000"
  have "parse_i64 (ch_timestamp demo_headers) = Some 1100"
    and "presented_signature demo_callback_libs demo_headers = Some (replicate 32 (CHR ''n''))"
    and "callback_body demo_callback_libs GatewayLlm ''{}''
      = Inr (Uuid 72, Uuid 71, ''job.succeeded'')"
    by code_simp+
  then have "\<not> isl ?r"
    by (simp add: verify_def demo_callback_config_def demo_callback_libs_def bindR_def)
  then obtain notice where "?r = Inr notice" by (cases ?r) auto
  from verified_callbacks_authentic [OF this] this show ?thesis by auto
qed

section \<open>Retry delays\<close>

text \<open>
  The delay before the next attempt is always one of the configured delays: the first for
  the first attempt, the last from the attempt on that has as many predecessors as there are
  delays, and, if the delays are configured in increasing order, later attempts never wait
  less.
\<close>

theorem retry_delays_bounded:
  assumes "validate_dispatcher st = Inr ()" and "n \<le> m"
  shows "retry_delay st n \<in> set (ds_retry_delays st) \<and> 0 < retry_delay st n
    \<and> (n \<le> 1 \<longrightarrow> retry_delay st n = hd (ds_retry_delays st))
    \<and> (int (length (ds_retry_delays st)) \<le> n \<longrightarrow> retry_delay st n = last (ds_retry_delays st))
    \<and> (sorted (ds_retry_delays st) \<longrightarrow> retry_delay st n \<le> retry_delay st m)"
proof -
  let ?ds = "ds_retry_delays st"
  have ne: "?ds \<noteq> []" and pos: "\<forall>d \<in> set ?ds. 0 < d"
    using assms(1) by (auto simp: validate_dispatcher_def result_simps list_ex_iff intro!: gr0I)
  define k where "k = (\<lambda>n :: int. min (nat (max (n - 1) (- (2 ^ 31)))) (length ?ds - 1))"
  have delay: "retry_delay st x = ?ds ! k x" for x by (simp only: retry_delay_def k_def Let_def)
  have len: "0 < length ?ds" using ne by simp
  have k: "k x < length ?ds" "x \<le> 1 \<Longrightarrow> k x = 0" "int (length ?ds) \<le> x \<Longrightarrow> k x = length ?ds - 1" for x
    unfolding k_def by (fact retry_index [OF len])+
  have "k n \<le> k m" unfolding k_def by (rule retry_index(2) [OF len assms(2)])
  note mono = this
  have "?ds ! k n \<in> set ?ds" by (rule nth_mem [OF k(1)])
  moreover have "n \<le> 1 \<longrightarrow> ?ds ! k n = hd ?ds" using k(2) [of n] ne by (metis hd_conv_nth)
  moreover have "int (length ?ds) \<le> n \<longrightarrow> ?ds ! k n = last ?ds"
    using k(3) [of n] ne by (metis last_conv_nth)
  moreover have "sorted ?ds \<longrightarrow> ?ds ! k n \<le> ?ds ! k m"
    using sorted_nth_mono [OF _ mono k(1)] by blast
  ultimately show ?thesis using pos unfolding delay by blast
qed

theorem retry_delays_bounded_witness:
  "retry_delay dispatcher_default 2 = 5000 \<and> 0 < retry_delay dispatcher_default 2
   \<and> retry_delay dispatcher_default 2 \<le> retry_delay dispatcher_default 9"
proof -
  have "validate_dispatcher dispatcher_default = Inr ()" "retry_delay dispatcher_default 2 = 5000"
    "sorted (ds_retry_delays dispatcher_default)"
    by (simp_all add: validate_dispatcher_def dispatcher_default_def retry_delay_def bindR_def)
  with retry_delays_bounded [of dispatcher_default 2 9] show ?thesis by auto
qed

end
