(* ===== verification/Text.thy ===== *)
theory Text
  imports Prelude
begin

text \<open>
  Rust strings as the harness handles them: a string is the list of its UTF-8 bytes, so
  \<open>len()\<close> is the length of the list and \<open>is_char_boundary\<close> looks at one byte. Trimming,
  splitting into lines, prefixes, joining and decimal numbers follow the standard library.
\<close>

section \<open>Bytes and character boundaries\<close>

definition byte :: "char \<Rightarrow> nat" where
  "byte c = of_char c"

text \<open>A continuation byte of UTF-8 is \<open>10xxxxxx\<close>.\<close>

definition continuation :: "char \<Rightarrow> bool" where
  "continuation c \<longleftrightarrow> 128 \<le> byte c \<and> byte c < 192"

definition is_char_boundary :: "string \<Rightarrow> nat \<Rightarrow> bool" where
  "is_char_boundary s i \<longleftrightarrow>
     i = 0 \<or> (if i < length s then \<not> continuation (s ! i) else i = length s)"

text \<open>\<open>floor_char_boundary\<close> and \<open>ceil_char_boundary\<close> of \<open>shell_tools.rs\<close>; the second is also
  \<open>next_char_boundary\<close> of \<open>compaction.rs\<close>, which is only called below the length.\<close>

fun floor_from :: "string \<Rightarrow> nat \<Rightarrow> nat" where
  "floor_from s 0 = 0"
| "floor_from s (Suc i) = (if is_char_boundary s (Suc i) then Suc i else floor_from s i)"

definition floor_char_boundary :: "string \<Rightarrow> nat \<Rightarrow> nat" where
  "floor_char_boundary s i = floor_from s (min i (length s))"

function ceil_from :: "string \<Rightarrow> nat \<Rightarrow> nat" where
  "ceil_from s i = (if i < length s \<and> \<not> is_char_boundary s i then ceil_from s (Suc i) else i)"
  by pat_completeness auto
termination by (relation "measure (\<lambda>(s, i). length s - i)") auto

declare ceil_from.simps [simp del]

definition ceil_char_boundary :: "string \<Rightarrow> nat \<Rightarrow> nat" where
  "ceil_char_boundary s i = ceil_from s (min i (length s))"

lemma floor_from_le: "floor_from s i \<le> i"
  by (induction s i rule: floor_from.induct) auto

lemma floor_char_boundary_le: "floor_char_boundary s i \<le> i" "floor_char_boundary s i \<le> length s"
  using floor_from_le [of s "min i (length s)"] by (simp_all add: floor_char_boundary_def)

lemma floor_from_boundary: "is_char_boundary s (floor_from s i)"
  by (induction s i rule: floor_from.induct) (auto simp: is_char_boundary_def)

lemma floor_from_same: "is_char_boundary s i \<Longrightarrow> floor_from s i = i"
  by (cases i) auto

lemma ceil_from_ge: "i \<le> ceil_from s i"
proof (induction s i rule: ceil_from.induct)
  case (1 s i)
  then show ?case by (subst ceil_from.simps) auto
qed

lemma ceil_from_le: "i \<le> length s \<Longrightarrow> ceil_from s i \<le> length s"
proof (induction s i rule: ceil_from.induct)
  case (1 s i)
  then show ?case by (subst ceil_from.simps) auto
qed

lemma ceil_from_same: "is_char_boundary s i \<Longrightarrow> ceil_from s i = i"
  by (subst ceil_from.simps) simp

lemma ceil_char_boundary_bounds:
  "i \<le> length s \<Longrightarrow> i \<le> ceil_char_boundary s i"
  "ceil_char_boundary s i \<le> length s"
  using ceil_from_ge [of "min i (length s)" s] ceil_from_le [of "min i (length s)" s]
  by (simp_all add: ceil_char_boundary_def)

lemma is_char_boundary_ends [simp]: "is_char_boundary s 0" "is_char_boundary s (length s)"
  by (simp_all add: is_char_boundary_def)

text \<open>In a text without continuation bytes every position is a boundary.\<close>

definition ascii :: "string \<Rightarrow> bool" where
  "ascii s \<longleftrightarrow> list_all (\<lambda>c. byte c < 128) s"

lemma ascii_boundary: "ascii s \<Longrightarrow> i \<le> length s \<Longrightarrow> is_char_boundary s i"
  by (auto simp: ascii_def is_char_boundary_def continuation_def list_all_length)

lemma ascii_floor: "ascii s \<Longrightarrow> floor_char_boundary s i = min i (length s)"
  by (simp add: floor_char_boundary_def floor_from_same ascii_boundary)

lemma ascii_ceil: "ascii s \<Longrightarrow> ceil_char_boundary s i = min i (length s)"
  by (simp add: ceil_char_boundary_def ceil_from_same ascii_boundary)

lemma ascii_append [simp]: "ascii (s @ t) \<longleftrightarrow> ascii s \<and> ascii t"
  by (simp add: ascii_def)

lemma ascii_Nil [simp]: "ascii []"
  by (simp add: ascii_def)

lemma ascii_take: "ascii s \<Longrightarrow> ascii (take n s)"
  by (auto simp: ascii_def list_all_iff dest: in_set_takeD)

lemma ascii_drop: "ascii s \<Longrightarrow> ascii (drop n s)"
  by (auto simp: ascii_def list_all_iff dest: in_set_dropD)

section \<open>Trimming\<close>

text \<open>The encodings of the characters with the Unicode property White_Space, by length.\<close>

definition white1 :: "nat list" where
  "white1 = [9, 10, 11, 12, 13, 32]"

definition white2 :: "(nat \<times> nat) list" where
  "white2 = [(194, 133), (194, 160)]"

definition white3 :: "nat \<Rightarrow> nat \<Rightarrow> nat \<Rightarrow> bool" where
  "white3 a b c \<longleftrightarrow>
     a = 225 \<and> b = 154 \<and> c = 128
     \<or> a = 226 \<and> b = 128 \<and> (128 \<le> c \<and> c \<le> 138 \<or> c = 168 \<or> c = 169 \<or> c = 175)
     \<or> a = 226 \<and> b = 129 \<and> c = 159
     \<or> a = 227 \<and> b = 128 \<and> c = 128"

fun trim_start :: "string \<Rightarrow> string" where
  "trim_start (a # b # c # s) =
     (if byte a \<in> set white1 then trim_start (b # c # s)
      else if (byte a, byte b) \<in> set white2 then trim_start (c # s)
      else if white3 (byte a) (byte b) (byte c) then trim_start s
      else a # b # c # s)"
| "trim_start [a, b] =
     (if byte a \<in> set white1 then trim_start [b]
      else if (byte a, byte b) \<in> set white2 then [] else [a, b])"
| "trim_start [a] = (if byte a \<in> set white1 then [] else [a])"
| "trim_start [] = []"

text \<open>The same from the end: \<open>trim_last\<close> reads the reversed bytes.\<close>

fun trim_last :: "string \<Rightarrow> string" where
  "trim_last (c # b # a # s) =
     (if byte c \<in> set white1 then trim_last (b # a # s)
      else if (byte b, byte c) \<in> set white2 then trim_last (a # s)
      else if white3 (byte a) (byte b) (byte c) then trim_last s
      else c # b # a # s)"
| "trim_last [c, b] =
     (if byte c \<in> set white1 then trim_last [b]
      else if (byte b, byte c) \<in> set white2 then [] else [c, b])"
| "trim_last [c] = (if byte c \<in> set white1 then [] else [c])"
| "trim_last [] = []"

definition trim_end :: "string \<Rightarrow> string" where
  "trim_end s = rev (trim_last (rev s))"

definition trim :: "string \<Rightarrow> string" where
  "trim s = trim_end (trim_start s)"

section \<open>Prefixes, lines and joining\<close>

fun strip_prefix :: "string \<Rightarrow> string \<Rightarrow> string option" where
  "strip_prefix [] s = Some s"
| "strip_prefix (p # ps) [] = None"
| "strip_prefix (p # ps) (c # s) = (if p = c then strip_prefix ps s else None)"

definition starts_with :: "string \<Rightarrow> string \<Rightarrow> bool" where
  "starts_with p s \<longleftrightarrow> strip_prefix p s \<noteq> None"

lemma strip_prefix_append [simp]: "strip_prefix p (p @ s) = Some s"
  by (induction p) auto

lemma strip_prefix_Some: "strip_prefix p s = Some r \<longleftrightarrow> s = p @ r"
  by (induction p s rule: strip_prefix.induct) auto

text \<open>\<open>split('\n')\<close>: one piece more than there are separators.\<close>

fun split_on :: "char \<Rightarrow> string \<Rightarrow> string list" where
  "split_on c [] = [] # []"
| "split_on c (x # s) =
     (if x = c then [] # split_on c s
      else case split_on c s of [] \<Rightarrow> [x] # [] | p # ps \<Rightarrow> (x # p) # ps)"

text \<open>\<open>join(sep)\<close>\<close>

fun join :: "string \<Rightarrow> string list \<Rightarrow> string" where
  "join sep [] = []"
| "join sep [x] = x"
| "join sep (x # y # ys) = x @ sep @ join sep (y # ys)"

definition newline :: char where
  "newline = CHR 0x0A"

definition carriage_return :: char where
  "carriage_return = CHR 0x0D"

definition nul :: char where
  "nul = CHR 0x00"

text \<open>\<open>strip_suffix('\r')\<close> with \<open>unwrap_or(line)\<close>\<close>

definition strip_cr :: "string \<Rightarrow> string" where
  "strip_cr s = (if s \<noteq> [] \<and> last s = carriage_return then butlast s else s)"

text \<open>\<open>str::lines\<close>: pieces that \<open>'\n'\<close> ends, the last one only when it is not empty, each
  without the \<open>'\r'\<close> before its \<open>'\n'\<close>.\<close>

definition lines :: "string \<Rightarrow> string list" where
  "lines s =
     (let ps = split_on newline s in
      map strip_cr (butlast ps) @ (if last ps = [] then [] else [last ps]))"

lemma split_on_nonempty [simp]: "split_on c s \<noteq> []"
  by (induction s) (auto split: list.splits)

lemma split_on_none: "c \<notin> set s \<Longrightarrow> split_on c s = [s]"
  by (induction s) auto

lemma split_on_piece: "c \<notin> set x \<Longrightarrow> split_on c (x @ c # s) = x # split_on c s"
  by (induction x) auto

lemma split_on_join:
  assumes "ps \<noteq> []" and "\<And>p. p \<in> set ps \<Longrightarrow> c \<notin> set p"
  shows "split_on c (join [c] ps) = ps"
  using assms
proof (induction "[c]" ps rule: join.induct)
  case 1
  then show ?case by simp
next
  case (2 x)
  then show ?case by (simp add: split_on_none)
next
  case (3 x y ys)
  then show ?case by (simp add: split_on_piece)
qed

lemma join_split_on: "join [c] (split_on c s) = s"
proof (induction s)
  case Nil
  then show ?case by simp
next
  case (Cons x s)
  obtain p ps where "split_on c s = p # ps" by (meson list.exhaust split_on_nonempty)
  with Cons show ?case by (cases ps) auto
qed

section \<open>Numbers\<close>

text \<open>The decimal text of a number (\<open>Display\<close>).\<close>

definition digit :: "nat \<Rightarrow> char" where
  "digit d = char_of (48 + d)"

fun decimal :: "nat \<Rightarrow> string" where
  "decimal n = (if n < 10 then [digit n] else decimal (n div 10) @ [digit (n mod 10)])"

declare decimal.simps [simp del]

definition decimal_int :: "int \<Rightarrow> string" where
  "decimal_int i = (if i < 0 then CHR ''-'' # decimal (nat (- i)) else decimal (nat i))"

text \<open>\<open>saturating_add\<close> on \<open>u64\<close>\<close>

definition u64_max :: nat where
  "u64_max = 18446744073709551615"

definition sat_add :: "nat \<Rightarrow> nat \<Rightarrow> nat" where
  "sat_add a b = min (a + b) u64_max"

text \<open>\<open>to_ascii_lowercase\<close>\<close>

definition lower :: "string \<Rightarrow> string" where
  "lower s = map (\<lambda>c. if 65 \<le> byte c \<and> byte c \<le> 90 then char_of (byte c + 32) else c) s"

definition is_ascii_alphabetic :: "char \<Rightarrow> bool" where
  "is_ascii_alphabetic c \<longleftrightarrow> 65 \<le> byte c \<and> byte c \<le> 90 \<or> 97 \<le> byte c \<and> byte c \<le> 122"

text \<open>\<open>value.replace(from, to)\<close> for a one-byte pattern\<close>

definition replace_char :: "char \<Rightarrow> string \<Rightarrow> string \<Rightarrow> string" where
  "replace_char x y s = concat (map (\<lambda>c. if c = x then y else [c]) s)"

end
