(* ===== verification/Codex.thy ===== *)
theory Codex
  imports Gateways Text "HOL-Library.Word"
begin

text \<open>
  The data of the Codex harness (\<open>packages/basic-codex-harness/src\<close>): its configuration and
  models (\<open>config.rs\<close>, \<open>model.rs\<close>, \<open>error.rs\<close>), its durable state (\<open>state/\<close>), the answers it
  reads from the contract (\<open>operation.rs\<close>), and its construction (\<open>harness.rs\<close>).
\<close>

section \<open>Models and providers (\<open>model.rs\<close>)\<close>

datatype codex_provider = CodexOpenai | CodexChatgpt

fun codex_provider_str :: "codex_provider \<Rightarrow> string" where
  "codex_provider_str CodexOpenai = ''openai''"
| "codex_provider_str CodexChatgpt = ''chatgpt''"

fun contract_provider :: "codex_provider \<Rightarrow> provider" where
  "contract_provider CodexOpenai = Openai"
| "contract_provider CodexChatgpt = Chatgpt"

datatype codex_model = Sol | Terra | Luna

fun codex_model_str :: "codex_model \<Rightarrow> string" where
  "codex_model_str Sol = ''gpt-5.6-sol''"
| "codex_model_str Terra = ''gpt-5.6-terra''"
| "codex_model_str Luna = ''gpt-5.6-luna''"

datatype reasoning_effort = EffortLow | EffortMedium | EffortHigh | EffortXhigh | EffortMax

fun reasoning_effort_str :: "reasoning_effort \<Rightarrow> string" where
  "reasoning_effort_str EffortLow = ''low''"
| "reasoning_effort_str EffortMedium = ''medium''"
| "reasoning_effort_str EffortHigh = ''high''"
| "reasoning_effort_str EffortXhigh = ''xhigh''"
| "reasoning_effort_str EffortMax = ''max''"

definition active_context_window :: nat where
  "active_context_window = 272000"

definition auto_compact_limit :: nat where
  "auto_compact_limit = 244800"

definition supported_reasoning_efforts :: "reasoning_effort list" where
  "supported_reasoning_efforts = [EffortLow, EffortMedium, EffortHigh, EffortXhigh, EffortMax]"

record model_profile =
  mp_model_id :: string
  mp_default_effort :: reasoning_effort
  mp_allowed_efforts :: "reasoning_effort list"
  mp_context_window :: nat
  mp_auto_compact_limit :: nat
  mp_supports_images :: bool
  mp_supports_parallel_tools :: bool

definition profile :: "codex_model \<Rightarrow> model_profile" where
  "profile m =
     \<lparr>mp_model_id = codex_model_str m,
      mp_default_effort = (case m of Sol \<Rightarrow> EffortLow | _ \<Rightarrow> EffortMedium),
      mp_allowed_efforts = supported_reasoning_efforts,
      mp_context_window = active_context_window,
      mp_auto_compact_limit = auto_compact_limit,
      mp_supports_images = True, mp_supports_parallel_tools = True\<rparr>"

definition supports :: "codex_model \<Rightarrow> reasoning_effort \<Rightarrow> bool" where
  "supports m effort \<longleftrightarrow> effort \<in> set (mp_allowed_efforts (profile m))"

section \<open>Configuration (\<open>config.rs\<close>, \<open>error.rs\<close>)\<close>

record codex_config =
  cx_account_id :: uuid
  cx_provider :: codex_provider
  cx_model :: codex_model
  cx_effort :: reasoning_effort
  cx_machine_id :: uuid
  cx_cwd :: string
  cx_shell :: "string option"
  cx_platform :: "string option"
  cx_instructions :: "string option"

datatype config_error =
    NilAccountId
  | NilMachineId
  | EmptyWorkingDirectory
  | WorkingDirectoryTooLong
  | WorkingDirectoryContainsNul
  | WorkingDirectoryNotAbsolute
  | EmptyEnvironmentLabel string
  | EnvironmentLabelTooLarge string
  | EnvironmentLabelContainsNul string
  | EmptyAdditionalInstructions
  | AdditionalInstructionsTooLarge
  | UnsupportedReasoningEffort

fun config_error_str :: "config_error \<Rightarrow> string" where
  "config_error_str NilAccountId = ''account_id must not be the nil UUID''"
| "config_error_str NilMachineId = ''machine_id must not be the nil UUID''"
| "config_error_str EmptyWorkingDirectory = ''cwd must not be empty''"
| "config_error_str WorkingDirectoryTooLong = ''cwd must not exceed 4096 bytes''"
| "config_error_str WorkingDirectoryContainsNul = ''cwd must not contain a NUL character''"
| "config_error_str WorkingDirectoryNotAbsolute =
     ''cwd must be an absolute POSIX, Windows drive, or UNC path''"
| "config_error_str (EmptyEnvironmentLabel field) =
     field @ '' must not be empty or only whitespace''"
| "config_error_str (EnvironmentLabelTooLarge field) = field @ '' must not exceed 256 bytes''"
| "config_error_str (EnvironmentLabelContainsNul field) =
     field @ '' must not contain a NUL character''"
| "config_error_str EmptyAdditionalInstructions =
     ''additional_instructions must not be empty or only whitespace''"
| "config_error_str AdditionalInstructionsTooLarge =
     ''additional_instructions must not exceed 65536 bytes''"
| "config_error_str UnsupportedReasoningEffort =
     ''reasoning_effort is not supported by the selected model''"

text \<open>\<open>path.starts_with(r"\\")\<close> is two backslashes; the drive test reads three bytes. The same
  text is \<open>is_absolute\<close> of \<open>shell_tools.rs\<close>.\<close>

definition is_platform_absolute :: "string \<Rightarrow> bool" where
  "is_platform_absolute path \<longleftrightarrow>
     starts_with ''/'' path \<or> starts_with (replicate 2 (CHR 0x5C)) path
     \<or> 3 \<le> length path \<and> is_ascii_alphabetic (path ! 0) \<and> path ! 1 = CHR '':''
       \<and> (path ! 2 = CHR ''/'' \<or> path ! 2 = CHR 0x5C)"

definition validate_working_directory :: "string \<Rightarrow> config_error + unit" where
  "validate_working_directory d =
     (if trim d = [] then Inl EmptyWorkingDirectory
      else if 4 * 1024 < length d then Inl WorkingDirectoryTooLong
      else if nul \<in> set d then Inl WorkingDirectoryContainsNul
      else if \<not> is_platform_absolute d then Inl WorkingDirectoryNotAbsolute
      else Inr ())"

definition validate_environment_label :: "string option \<Rightarrow> string \<Rightarrow> config_error + unit" where
  "validate_environment_label value field =
     (case value of
        None \<Rightarrow> Inr ()
      | Some v \<Rightarrow>
          if trim v = [] then Inl (EmptyEnvironmentLabel field)
          else if 256 < length v then Inl (EnvironmentLabelTooLarge field)
          else if nul \<in> set v then Inl (EnvironmentLabelContainsNul field)
          else Inr ())"

definition validate_config :: "codex_config \<Rightarrow> config_error + unit" where
  "validate_config c =
     (if cx_account_id c = Uuid 0 then Inl NilAccountId
      else if cx_machine_id c = Uuid 0 then Inl NilMachineId
      else bindR (validate_working_directory (cx_cwd c)) (\<lambda>_.
        bindR (validate_environment_label (cx_shell c) ''shell'') (\<lambda>_.
        bindR (validate_environment_label (cx_platform c) ''platform'') (\<lambda>_.
        if \<not> supports (cx_model c) (cx_effort c) then Inl UnsupportedReasoningEffort
        else case cx_instructions c of
            None \<Rightarrow> Inr ()
          | Some instructions \<Rightarrow>
              if trim instructions = [] then Inl EmptyAdditionalInstructions
              else if 64 * 1024 < length instructions then Inl AdditionalInstructionsTooLarge
              else Inr ()))))"

section \<open>What the harness reads (\<open>operation.rs\<close>)\<close>

text \<open>The fields of a response the harness does not look at are left out.\<close>

record usage =
  us_input :: "nat option"
  us_output :: "nat option"
  us_cache_read :: "nat option"
  us_cache_write :: "nat option"

record assistant_response =
  ar_id :: string
  ar_model_id :: string
  ar_message :: message
  ar_stop_reason :: stop_reason
  ar_usage :: "usage option"

text \<open>A protocol error has a code, with the text \<open>Debug\<close> prints for it, and a message.\<close>

fun error_code_debug :: "exec_error_code \<Rightarrow> string" where
  "error_code_debug NotFound = ''NotFound''"
| "error_code_debug (OtherCode name) = name"

record exec_error =
  ee_code :: exec_error_code
  ee_message :: string

datatype exec_outcome = ExecOk json | ExecFailed exec_error

record exec_response =
  er_generation :: uuid
  er_outcome :: exec_outcome

record read_failure =
  rf_source :: failure_source
  rf_code :: string
  rf_message :: string
  rf_response :: "exec_response option"

datatype read_result =
    ReadLlm assistant_response
  | ReadExecution exec_response
  | ReadLlmCancellation bool
  | ReadWithdraw bool

datatype read_outcome =
    ReadSucceeded read_result
  | ReadFailed read_failure
  | ReadCancelled
  | ReadUnknown read_failure

fun read_status :: "read_outcome \<Rightarrow> operation_outcome_status" where
  "read_status (ReadSucceeded _) = OutcomeSucceeded"
| "read_status (ReadFailed _) = OutcomeFailed"
| "read_status ReadCancelled = OutcomeCancelled"
| "read_status (ReadUnknown _) = OutcomeUnknown"

record read_record =
  rr_id :: operation_id
  rr_kind :: operation_kind
  rr_outcome :: "read_outcome option"

section \<open>Tool calls (\<open>state/tool.rs\<close>)\<close>

datatype tool_call_kind = CallFunction | CallCustom

datatype tool_input = InputJson json | InputText string

datatype tool_scheduling = ParallelSafe | Exclusive

record tool_result_snapshot =
  ts_content :: "content_part list"
  ts_outcome :: tool_result_outcome
  ts_details :: "json option"

record output_accumulator =
  oa_head :: string
  oa_tail :: string
  oa_total_bytes :: nat
  oa_omitted_bytes :: nat

definition empty_accumulator :: output_accumulator where
  "empty_accumulator =
     \<lparr>oa_head = [], oa_tail = [], oa_total_bytes = 0, oa_omitted_bytes = 0\<rparr>"

datatype shell_phase = ShellStart | ShellInteract | ShellDrain

text \<open>
  An \<open>Execution\<close> of the protocol: the handle, whether it has finished, and how; the result
  variants are those the harness matches on. \<open>ex_json\<close> is the JSON it serializes to.
\<close>

datatype execution_result =
    StartFailed string
  | Lost string
  | Exited "int option" "string option"
  | Terminated "int option" "string option"

record execution =
  ex_handle :: exec_handle
  ex_finished :: bool
  ex_result :: "execution_result option"
  ex_output_incomplete :: bool
  ex_json :: json

record shell_call_state =
  sc_phase :: shell_phase
  sc_started_at_ms :: int
  sc_chunk_id :: string
  sc_output :: output_accumulator
  sc_handle :: "exec_handle option"
  sc_cursor :: "string option"
  sc_session_id :: "int option"
  sc_tty :: bool
  sc_max_output_tokens :: nat
  sc_last_execution :: "execution option"
  sc_output_gap :: bool
  sc_pages_read :: nat
  sc_more_output :: bool

datatype detail_choice = ChooseHigh | ChooseOriginal

record view_image_state =
  vi_path :: string
  vi_detail :: detail_choice

datatype patch_phase = Reading | Mutating | Reconciling

record patch_chunk =
  pc_context :: "string option"
  pc_old_lines :: "string list"
  pc_new_lines :: "string list"
  pc_end_of_file :: bool

datatype patch_hunk =
    HunkAdd string string
  | HunkDelete string
  | HunkUpdate string "string option" "patch_chunk list"

datatype patch_mutation =
    MutWrite string string string string "string option"
  | MutRemove string string string

record patch_summary =
  ps_action :: string
  ps_path :: string

record apply_patch_state =
  ap_phase :: patch_phase
  ap_patch :: "patch_hunk list"
  ap_generation_id :: "uuid option"
  ap_mutations :: "patch_mutation list"
  ap_summary :: "patch_summary list"

datatype file_tool_state = ViewImage view_image_state | ApplyPatch apply_patch_state

datatype tool_call_progress = ShellCall shell_call_state | FileCall file_tool_state

datatype tool_call_status =
    CallPending
  | CallReady tool_call_progress
  | CallSubmitted operation_id tool_call_progress
  | CallCompleted tool_result_snapshot

record tool_call =
  tl_call_id :: string
  tl_name :: string
  tl_ordinal :: nat
  tl_kind :: tool_call_kind
  tl_input :: tool_input
  tl_scheduling :: tool_scheduling
  tl_status :: tool_call_status

record tool_segment =
  sg_scheduling :: tool_scheduling
  sg_ordinals :: "nat list"

record tool_plan =
  pl_operation_id :: operation_id
  pl_calls :: "tool_call list"
  pl_segments :: "tool_segment list"
  pl_active_segment :: nat

record tracked_execution =
  te_session_id :: int
  te_handle :: exec_handle
  te_cursor :: string
  te_owner_turn_id :: uuid
  te_tty :: bool

section \<open>Turns and cancellation (\<open>state/turn.rs\<close>)\<close>

record steering_message =
  st_event_id :: event_id
  st_event_sequence :: int
  st_message :: message

datatype compaction_trigger = PreTurn | MidTurn

record compaction_state =
  cs_operation_id :: operation_id
  cs_source_through :: int
  cs_source_sha256 :: string
  cs_attempt :: nat
  cs_trigger :: compaction_trigger
  cs_initial_input :: "message option"

text \<open>\<open>LlmPurpose\<close> has one value, so \<open>AwaitingLlmState\<close> is its operation.\<close>

datatype turn_phase =
    AwaitingLlm operation_id
  | ExecutingTools tool_plan
  | Compacting compaction_state
  | Cancelling

record active_turn =
  at_id :: uuid
  at_started_at_sequence :: int
  at_current_date :: string
  at_phase :: turn_phase
  at_pending_steering :: "steering_message list"
  at_llm_attempts :: nat

datatype target_kind = TargetLlm | TargetExecution

datatype cancellation_control =
    WithdrawalRequested operation_id
  | LlmCancellationRequested operation_id nat
  | AwaitingCompletion
  | AwaitingDiscovery
  | Settled

record cancellation_target =
  ct_operation_id :: operation_id
  ct_kind :: target_kind
  ct_original_completed :: bool
  ct_control :: cancellation_control

datatype process_control =
    InterruptRequested operation_id
  | TerminateRequested operation_id nat
  | ProcessSettled

record process_cleanup =
  pc_session_id :: "int option"
  pc_handle :: exec_handle
  pc_control :: process_control

record process_discovery =
  pd_operation_id :: operation_id
  pd_attempt :: nat

record cleanup_failure =
  cf_operation_id :: operation_id
  cf_code :: string
  cf_message :: string

record cancellation_state =
  cn_reason :: "string option"
  cn_requested_at :: int
  cn_turn_id :: "uuid option"
  cn_targets :: "cancellation_target list"
  cn_processes :: "process_cleanup list"
  cn_discovery :: "process_discovery option"
  cn_failures :: "cleanup_failure list"

datatype failure_phase = FailLlm | FailCompaction | FailToolPlanning | FailStopReason

record failure_state =
  fs_phase :: failure_phase
  fs_operation_id :: "operation_id option"
  fs_source :: "failure_source option"
  fs_code :: string
  fs_message :: string
  fs_attempts :: nat
  fs_occurred_at :: int

section \<open>The durable state (\<open>state/mod.rs\<close>, \<open>state/context_window.rs\<close>)\<close>

record compaction_checkpoint =
  ck_provider :: provider
  ck_response_id :: string
  ck_native_item :: raw_json
  ck_source_through :: int
  ck_source_sha256 :: string
  ck_retained :: "message list"
  ck_generation :: nat
  ck_usage :: "usage option"

record context_window =
  cw_generation :: nat
  cw_estimated_tokens :: "nat option"
  cw_model_history :: "message list"
  cw_checkpoint :: "compaction_checkpoint option"

definition initial_context_window :: context_window where
  "initial_context_window =
     \<lparr>cw_generation = 1, cw_estimated_tokens = None, cw_model_history = [], cw_checkpoint = None\<rparr>"

record codex_state =
  cd_schema_version :: nat
  cd_active_turn :: "active_turn option"
  cd_context_window :: context_window
  cd_executions :: "tracked_execution list"
  cd_next_session_id :: int
  cd_cancellation :: "cancellation_state option"
  cd_terminal_failure :: "failure_state option"

definition state_schema_version :: nat where
  "state_schema_version = 1"

definition initial_execution_session_id :: int where
  "initial_execution_session_id = 1000"

definition initial_state :: codex_state where
  "initial_state =
     \<lparr>cd_schema_version = state_schema_version, cd_active_turn = None,
      cd_context_window = initial_context_window, cd_executions = [],
      cd_next_session_id = initial_execution_session_id, cd_cancellation = None,
      cd_terminal_failure = None\<rparr>"

text \<open>
  \<open>StateWire\<close>: the stored members that may be missing take their defaults; a state of another
  schema version is refused. \<open>derive(Deserialize)\<close> supplies the wire record.
\<close>

record state_wire =
  wi_schema_version :: nat
  wi_active_turn :: "active_turn option option"
  wi_context_window :: context_window
  wi_executions :: "tracked_execution list option"
  wi_next_session_id :: "int option"
  wi_cancellation :: "cancellation_state option option"
  wi_terminal_failure :: "failure_state option option"

definition state_of_wire :: "state_wire \<Rightarrow> string + codex_state" where
  "state_of_wire w =
     (if wi_schema_version w \<noteq> state_schema_version
      then Inl (''unsupported basic Codex state schema version '' @ decimal (wi_schema_version w)
        @ ''; expected '' @ decimal state_schema_version)
      else Inr \<lparr>cd_schema_version = wi_schema_version w,
        cd_active_turn = unwrap_or None (wi_active_turn w),
        cd_context_window = wi_context_window w,
        cd_executions = unwrap_or [] (wi_executions w),
        cd_next_session_id = unwrap_or initial_execution_session_id (wi_next_session_id w),
        cd_cancellation = unwrap_or None (wi_cancellation w),
        cd_terminal_failure = unwrap_or None (wi_terminal_failure w)\<rparr>)"

definition wire_of_state :: "codex_state \<Rightarrow> state_wire" where
  "wire_of_state s =
     \<lparr>wi_schema_version = cd_schema_version s, wi_active_turn = Some (cd_active_turn s),
      wi_context_window = cd_context_window s, wi_executions = Some (cd_executions s),
      wi_next_session_id = Some (cd_next_session_id s),
      wi_cancellation = Some (cd_cancellation s),
      wi_terminal_failure = Some (cd_terminal_failure s)\<rparr>"

lemma state_of_wire_of_state:
  "cd_schema_version s = state_schema_version \<Longrightarrow> state_of_wire (wire_of_state s) = Inr s"
  by (simp add: state_of_wire_def wire_of_state_def unwrap_or_def)

section \<open>The harness (\<open>harness.rs\<close>)\<close>

record codex_harness =
  hn_llm_connection :: string
  hn_execution_connection :: string

datatype construction_error = EmptyLlmConnectionId | EmptyExecutionConnectionId

definition new_harness :: "string \<Rightarrow> string \<Rightarrow> construction_error + codex_harness" where
  "new_harness llm exec =
     (if trim llm = [] then Inl EmptyLlmConnectionId
      else if trim exec = [] then Inl EmptyExecutionConnectionId
      else Inr \<lparr>hn_llm_connection = llm, hn_execution_connection = exec\<rparr>)"

definition initialize_codex :: "codex_config \<Rightarrow> string + codex_state" where
  "initialize_codex c =
     (case validate_config c of
        Inl e \<Rightarrow> Inl (''invalid configuration: '' @ config_error_str e)
      | Inr _ \<Rightarrow> Inr initial_state)"

section \<open>What a handler gets from outside\<close>

text \<open>
  A handler returns an error or panics; both leave nothing behind. \<open>codex_env\<close> holds the libraries
  the harness calls (UUID texts, \<open>serde_json\<close> with the derived (de)serializers, \<open>sha2\<close>,
  \<open>base64\<close>, \<open>jsonschema\<close>, \<open>image\<close>), the assets it includes, and the random values it draws:
  the \<open>k\<close>-th operation staged in an outcome gets the identifier \<open>xv_operation_id env k\<close>.
\<close>

datatype handler_failure = HandlerError string | HandlerPanic

record exec_command_args =
  xa_cmd :: string
  xa_workdir :: "string option"
  xa_tty :: bool
  xa_yield_time_ms :: nat
  xa_max_output_tokens :: "nat option"
  xa_shell :: "string option"
  xa_login :: bool

record write_stdin_args =
  wa_session_id :: int
  wa_chars :: string
  wa_yield_time_ms :: nat
  wa_max_output_tokens :: "nat option"

record observation =
  ob_execution :: execution
  ob_output :: "string list"
  ob_next_cursor :: string
  ob_has_more :: bool
  ob_output_gap :: bool
  ob_return_reason :: json

datatype item_outcome = ItemOk json | ItemFailed exec_error | ItemSkipped string

record batch_item =
  bi_request_id :: string
  bi_outcome :: item_outcome

record read_file =
  fr_path :: string
  fr_is_file :: bool
  fr_data_base64 :: string
  fr_sha256 :: string

text \<open>\<open>prepare_image\<close> of \<open>filesystem_tools.rs\<close> decodes, scales and encodes with the \<open>image\<close>
  crate; here it is a function of the bytes and the detail, which \<open>CodexImages\<close> gives. \<open>publish_asset\<close> is the server's.\<close>

record prepared_image =
  im_bytes :: string
  im_mime :: string
  im_source_width :: nat
  im_source_height :: nat
  im_width :: nat
  im_height :: nat

record published_asset =
  pa_url :: string
  pa_sha256 :: string
  pa_size_bytes :: nat

record codex_env =
  xv_operation_id :: "nat \<Rightarrow> uuid"
  xv_turn_id :: uuid
  xv_chunk_id :: string
  xv_uuid_text :: "uuid \<Rightarrow> string"
  xv_handle_json :: "exec_handle \<Rightarrow> json"
  xv_base_instructions :: string
  xv_patch_grammar :: string
  xv_parse :: "string \<Rightarrow> string + json"
  xv_print :: "json \<Rightarrow> string"
  xv_message_json :: "message \<Rightarrow> string"
  xv_tools_json :: "tool_definition list \<Rightarrow> string"
  xv_sha256_hex :: "string \<Rightarrow> string"
  xv_schema_failure :: "metadata \<Rightarrow> json \<Rightarrow> string option"
  xv_session_number :: "json \<Rightarrow> int option"
  xv_execution :: "json \<Rightarrow> execution option"
  xv_executions :: "json \<Rightarrow> execution list option"
  xv_exec_args :: "json \<Rightarrow> string + exec_command_args"
  xv_write_args :: "json \<Rightarrow> string + write_stdin_args"
  xv_observation :: "json \<Rightarrow> string + observation"
  xv_batch :: "json \<Rightarrow> string + batch_item list"
  xv_failure_json :: "read_failure \<Rightarrow> json"
  xv_view_args :: "json \<Rightarrow> string + string \<times> string option"
  xv_read_file :: "json \<Rightarrow> string + read_file"
  xv_base64_encode :: "string \<Rightarrow> string"
  xv_base64_decode :: "string \<Rightarrow> string + string"
  xv_utf8_lossy :: "string \<Rightarrow> string"
  xv_utf8 :: "string \<Rightarrow> bool"
  xv_prepare_image :: "string \<Rightarrow> detail_choice \<Rightarrow> string + prepared_image"
  xv_publish :: "string \<Rightarrow> string \<Rightarrow> string + published_asset"

type_synonym codex_outcome = "codex_state handler_outcome"

definition handler_error :: "string \<Rightarrow> handler_failure + 'a" where
  "handler_error message = Inl (HandlerError message)"

text \<open>\<open>Display\<close> of the builder's errors (\<open>outcome.rs\<close>, \<open>wait.rs\<close>).\<close>

fun outcome_error_str :: "outcome_error \<Rightarrow> string" where
  "outcome_error_str (InvalidWait MissingExpiration) = ''wait mode requires expires_at''"
| "outcome_error_str (InvalidWait UnexpectedExpiration) = ''external-only wait cannot expire''"
| "outcome_error_str (InvalidWait UnexpectedResponseSchema) =
     ''expiration-only wait cannot have a response schema''"
| "outcome_error_str UnsupportedExecutionOperation =
     ''runtime.shutdown is not supported by the execution gateway''"

text \<open>\<open>ok_or_else(|| error(message))?\<close>, and \<open>expect\<close> or an index that panics.\<close>

definition or_error :: "'a option \<Rightarrow> string \<Rightarrow> handler_failure + 'a" where
  "or_error x message = ok_or x (HandlerError message)"

definition or_panic :: "'a option \<Rightarrow> handler_failure + 'a" where
  "or_panic x = ok_or x HandlerPanic"

definition nth_opt :: "'a list \<Rightarrow> nat \<Rightarrow> 'a option" where
  "nth_opt xs i = (if i < length xs then Some (xs ! i) else None)"

text \<open>\<open>outcome.state_mut()\<close> in an assignment.\<close>

definition on_state :: "(codex_state \<Rightarrow> codex_state) \<Rightarrow> codex_outcome \<Rightarrow> codex_outcome" where
  "on_state f b = b\<lparr>ho_state := f (ho_state b)\<rparr>"

definition next_operation :: "codex_env \<Rightarrow> codex_outcome \<Rightarrow> operation_id" where
  "next_operation env b = xv_operation_id env (length (ho_operations b))"

lemma or_error_simps [simp]:
  "or_error (Some x) m = Inr x" "or_error None m = Inl (HandlerError m)"
  "or_panic (Some x) = Inr x" "or_panic None = Inl HandlerPanic"
  by (simp_all add: or_error_def or_panic_def)

lemma or_error_Inr [simp, result_simps]:
  "or_error x m = Inr y \<longleftrightarrow> x = Some y" "or_panic x = Inr y \<longleftrightarrow> x = Some y"
  by (simp_all add: or_error_def or_panic_def)

lemma handler_error_not [simp]: "handler_error m \<noteq> Inr y" "Inr y \<noteq> handler_error m"
  by (simp_all add: handler_error_def)

lemma on_state_simps [simp]:
  "ho_state (on_state f b) = f (ho_state b)"
  "ho_operations (on_state f b) = ho_operations b"
  "ho_history (on_state f b) = ho_history b"
  "ho_status (on_state f b) = ho_status b"
  "ho_waits (on_state f b) = ho_waits b"
  "ho_progress (on_state f b) = ho_progress b"
  by (simp_all add: on_state_def)

lemma builder_simps [simp]:
  "ho_state (emit_progress p b) = ho_state b"
  "ho_operations (emit_progress p b) = ho_operations b"
  "ho_history (emit_progress p b) = ho_history b"
  "ho_status (emit_progress p b) = ho_status b"
  "ho_state (set_status st b) = ho_state b"
  "ho_operations (set_status st b) = ho_operations b"
  "ho_history (set_status st b) = ho_history b"
  "ho_status (set_status st b) = Some st"
  "ho_state (append_message m b) = ho_state b"
  "ho_operations (append_message m b) = ho_operations b"
  "ho_history (append_message m b) = ho_history b @ [m]"
  "ho_state (push_operation i r b) = ho_state b"
  "ho_operations (push_operation i r b) = ho_operations b @ [\<lparr>so_id = i, so_request = r\<rparr>]"
  "ho_history (push_operation i r b) = ho_history b"
  "ho_state (builder_new s) = s"
  "ho_operations (builder_new s) = []"
  "ho_history (builder_new s) = []"
  "ho_status (builder_new s) = None"
  by (simp_all add: emit_progress_def set_status_def append_message_def push_operation_def
      builder_new_def)

end
