(* ===== verification/CodexCancel.thy ===== *)
theory CodexCancel
  imports Codex
begin

text \<open>
  Cancelling a Codex session (\<open>packages/basic-codex-harness/src/cancellation.rs\<close>): a request
  withdraws every outstanding operation and interrupts every tracked process; the completions
  that follow are handled one by one until everything is settled.
\<close>

definition termination_grace_ms :: nat where
  "termination_grace_ms = 2000"

definition max_cleanup_attempts :: nat where
  "max_cleanup_attempts = 2"

section \<open>The state of a cancellation\<close>

text \<open>\<open>cancellation_mut\<close> panics without a cancellation.\<close>

definition cancellation_of :: "codex_outcome \<Rightarrow> handler_failure + cancellation_state" where
  "cancellation_of b = or_panic (cd_cancellation (ho_state b))"

definition map_cancellation ::
    "(cancellation_state \<Rightarrow> cancellation_state) \<Rightarrow> codex_state \<Rightarrow> codex_state" where
  "map_cancellation f s = s\<lparr>cd_cancellation := map_option f (cd_cancellation s)\<rparr>"

definition on_cancellation ::
    "(cancellation_state \<Rightarrow> cancellation_state) \<Rightarrow> codex_outcome \<Rightarrow> codex_outcome" where
  "on_cancellation f b = on_state (map_cancellation f) b"

definition set_target ::
    "nat \<Rightarrow> (cancellation_target \<Rightarrow> cancellation_target) \<Rightarrow> cancellation_state
     \<Rightarrow> cancellation_state" where
  "set_target i f c = c\<lparr>cn_targets := (cn_targets c)[i := f (cn_targets c ! i)]\<rparr>"

definition set_process_control ::
    "nat \<Rightarrow> process_control \<Rightarrow> cancellation_state \<Rightarrow> cancellation_state" where
  "set_process_control i control c =
     c\<lparr>cn_processes := (cn_processes c)[i := (cn_processes c ! i)\<lparr>pc_control := control\<rparr>]\<rparr>"

definition set_control :: "nat \<Rightarrow> cancellation_control \<Rightarrow> cancellation_state \<Rightarrow> cancellation_state" where
  "set_control i control = set_target i (\<lambda>t. t\<lparr>ct_control := control\<rparr>)"

text \<open>\<open>iter().position(p)\<close>\<close>

fun position :: "('a \<Rightarrow> bool) \<Rightarrow> 'a list \<Rightarrow> nat option" where
  "position p [] = None"
| "position p (x # xs) = (if p x then Some 0 else map_option Suc (position p xs))"

definition awaits_control :: "operation_id \<Rightarrow> cancellation_control \<Rightarrow> bool" where
  "awaits_control i control =
     (case control of
        WithdrawalRequested c \<Rightarrow> c = i
      | LlmCancellationRequested c _ \<Rightarrow> c = i
      | _ \<Rightarrow> False)"

definition awaits_process :: "operation_id \<Rightarrow> process_control \<Rightarrow> bool" where
  "awaits_process i control =
     (case control of
        InterruptRequested c \<Rightarrow> c = i
      | TerminateRequested c _ \<Rightarrow> c = i
      | ProcessSettled \<Rightarrow> False)"

definition target_for_control :: "codex_outcome \<Rightarrow> operation_id \<Rightarrow> handler_failure + nat" where
  "target_for_control b i =
     bindR (cancellation_of b) (\<lambda>c.
     or_error (position (\<lambda>t. awaits_control i (ct_control t)) (cn_targets c))
       ''completion does not match a cancellation control operation'')"

definition process_for_control :: "codex_outcome \<Rightarrow> operation_id \<Rightarrow> handler_failure + nat" where
  "process_for_control b i =
     bindR (cancellation_of b) (\<lambda>c.
     or_error (position (\<lambda>p. awaits_process i (pc_control p)) (cn_processes c))
       ''completion does not match a process cleanup operation'')"

definition is_process_control :: "codex_outcome \<Rightarrow> operation_id \<Rightarrow> bool" where
  "is_process_control b i =
     (case cd_cancellation (ho_state b) of
        None \<Rightarrow> False
      | Some c \<Rightarrow> list_ex (\<lambda>p. awaits_process i (pc_control p)) (cn_processes c))"

definition is_discovery :: "codex_outcome \<Rightarrow> operation_id \<Rightarrow> bool" where
  "is_discovery b i =
     (case cd_cancellation (ho_state b) of
        None \<Rightarrow> False
      | Some c \<Rightarrow> (case cn_discovery c of None \<Rightarrow> False | Some d \<Rightarrow> pd_operation_id d = i))"

definition record_cleanup_failure :: "operation_id \<Rightarrow> read_failure \<Rightarrow> codex_outcome \<Rightarrow> codex_outcome" where
  "record_cleanup_failure i f = on_cancellation (\<lambda>c. c\<lparr>cn_failures := cn_failures c
     @ [\<lparr>cf_operation_id = i, cf_code = rf_code f, cf_message = rf_message f\<rparr>]\<rparr>)"

text \<open>The second half works on the state: the tracked execution goes with its process.\<close>

definition settle_process :: "nat \<Rightarrow> int option \<Rightarrow> codex_outcome \<Rightarrow> codex_outcome" where
  "settle_process i session b =
     (let b1 = on_cancellation (\<lambda>c. if i < length (cn_processes c)
                then set_process_control i ProcessSettled c else c) b in
      case session of
        None \<Rightarrow> b1
      | Some sid \<Rightarrow>
          on_state (\<lambda>s. s\<lparr>cd_executions :=
            filter (\<lambda>e. te_session_id e \<noteq> sid) (cd_executions s)\<rparr>) b1)"

definition target_settled :: "cancellation_target \<Rightarrow> bool" where
  "target_settled t \<longleftrightarrow>
     ct_control t = Settled \<or> ct_original_completed t \<and> ct_control t = AwaitingCompletion"

definition cancellation_settled :: "cancellation_state \<Rightarrow> bool" where
  "cancellation_settled c \<longleftrightarrow>
     cn_discovery c = None \<and> list_all target_settled (cn_targets c)
     \<and> list_all (\<lambda>p. pc_control p = ProcessSettled) (cn_processes c)"

definition cancellation_complete :: "codex_state \<Rightarrow> bool" where
  "cancellation_complete s =
     (case cd_cancellation s of None \<Rightarrow> False | Some c \<Rightarrow> cancellation_settled c)"

definition set_lifecycle_status :: "bool \<Rightarrow> codex_outcome \<Rightarrow> codex_outcome" where
  "set_lifecycle_status emit_completion b =
     (if cancellation_complete (ho_state b)
      then let was_active = (cd_active_turn (ho_state b) \<noteq> None);
               b1 = on_state (\<lambda>s. s\<lparr>cd_active_turn := None, cd_executions := []\<rparr>) b;
               b2 = (if emit_completion \<and> was_active
                     then emit_progress (JObject [(''type'', JString ''cancellation_completed'')]) b1
                     else b1)
           in set_status SessCancelled b2
      else set_status SessCancelling b)"

section \<open>Staging the cleanup\<close>

text \<open>\<open>request_execution\<close> and its variant for a generation, with the identifier drawn for it.\<close>

definition stage_execution ::
    "codex_env \<Rightarrow> codex_harness \<Rightarrow> codex_config \<Rightarrow> uuid option \<Rightarrow> exec_payload \<Rightarrow> string
     \<Rightarrow> codex_outcome \<Rightarrow> handler_failure + operation_id \<times> codex_outcome" where
  "stage_execution env hn cx generation payload message b =
     (case (case generation of
              None \<Rightarrow> request_execution (next_operation env b) (hn_execution_connection hn)
                (cx_machine_id cx) payload b
            | Some g \<Rightarrow> request_execution_for_generation (next_operation env b)
                (hn_execution_connection hn) (cx_machine_id cx) g payload b) of
        Inl e \<Rightarrow> handler_error (message @ '': '' @ outcome_error_str e)
      | Inr staged \<Rightarrow> Inr staged)"

definition stage_interrupt ::
    "codex_env \<Rightarrow> codex_harness \<Rightarrow> codex_config \<Rightarrow> int \<Rightarrow> int option \<times> exec_handle
     \<Rightarrow> codex_outcome \<Rightarrow> handler_failure + codex_outcome" where
  "stage_interrupt env hn cx sequence process b =
     (case process of (session, handle) \<Rightarrow>
      bindR (cancellation_of b) (\<lambda>c.
      if list_ex (\<lambda>p. pc_handle p = handle) (cn_processes c) then Inr b
      else bindR (stage_execution env hn cx (Some (eh_generation handle))
             (Single (ExecInterrupt handle
               (''cancel-'' @ decimal_int sequence @ ''-'' @ xv_uuid_text env (eh_id handle))))
             ''could not stage process interrupt'' b)
           (\<lambda>(i, b1). Inr (on_cancellation (\<lambda>c. c\<lparr>cn_processes := cn_processes c
              @ [\<lparr>pc_session_id = session, pc_handle = handle,
                  pc_control = InterruptRequested i\<rparr>]\<rparr>) b1))))"

text \<open>The index comes from \<open>process_for_control\<close>; out of range it would panic.\<close>

definition stage_terminate ::
    "codex_env \<Rightarrow> codex_harness \<Rightarrow> codex_config \<Rightarrow> nat \<Rightarrow> exec_handle \<Rightarrow> nat
     \<Rightarrow> codex_outcome \<Rightarrow> handler_failure + codex_outcome" where
  "stage_terminate env hn cx index handle attempt b =
     bindR (stage_execution env hn cx (Some (eh_generation handle))
       (Single (ExecTerminate handle (Some termination_grace_ms)))
       ''could not stage process termination'' b) (\<lambda>(i, b1).
     bindR (cancellation_of b1) (\<lambda>c.
     bindR (or_panic (nth_opt (cn_processes c) index)) (\<lambda>_.
     Inr (on_cancellation (set_process_control index (TerminateRequested i attempt)) b1))))"

definition stage_discovery ::
    "codex_env \<Rightarrow> codex_harness \<Rightarrow> codex_config \<Rightarrow> session_id \<Rightarrow> nat
     \<Rightarrow> codex_outcome \<Rightarrow> handler_failure + codex_outcome" where
  "stage_discovery env hn cx session attempt b =
     bindR (cancellation_of b) (\<lambda>c.
     let labels = (''agent_session_id'', xv_uuid_text env session)
           # (case cn_turn_id c of None \<Rightarrow> []
              | Some t \<Rightarrow> [(''agent_turn_id'', xv_uuid_text env t)]) in
     bindR (stage_execution env hn cx None (Single (ExecListActive labels 50))
       ''could not stage process discovery'' b) (\<lambda>(i, b1).
     Inr (on_cancellation (\<lambda>c. c\<lparr>cn_discovery :=
       Some \<lparr>pd_operation_id = i, pd_attempt = attempt\<rparr>\<rparr>) b1)))"

section \<open>The request\<close>

definition cancellation_targets ::
    "active_turn option \<Rightarrow> handler_failure + (operation_id \<times> target_kind) list" where
  "cancellation_targets turn =
     (case turn of
        None \<Rightarrow> Inr []
      | Some active \<Rightarrow>
         (case at_phase active of
            AwaitingLlm i \<Rightarrow> Inr [(i, TargetLlm)]
          | Compacting cs \<Rightarrow> Inr [(cs_operation_id cs, TargetLlm)]
          | ExecutingTools plan \<Rightarrow> Inr (List.map_filter (\<lambda>call. case tl_status call of
                CallSubmitted i _ \<Rightarrow> Some (i, TargetExecution) | _ \<Rightarrow> None) (pl_calls plan))
          | Cancelling \<Rightarrow>
              handler_error ''active turn is cancelling without durable cancellation state''))"

definition new_target :: "operation_id \<times> target_kind \<Rightarrow> cancellation_target" where
  "new_target t = \<lparr>ct_operation_id = fst t, ct_kind = snd t, ct_original_completed = False,
     ct_control = AwaitingCompletion\<rparr>"

definition stage_withdrawal ::
    "codex_env \<Rightarrow> nat \<Rightarrow> codex_outcome \<Rightarrow> handler_failure + codex_outcome" where
  "stage_withdrawal env index b =
     bindR (or_error (Option.bind (cd_cancellation (ho_state b))
         (\<lambda>c. nth_opt (cn_targets c) index))
       ''cancellation target disappeared while staging withdrawal'') (\<lambda>t.
     let (i, b1) = withdraw_operation (next_operation env b) (ct_operation_id t) b in
     Inr (on_cancellation (set_control index (WithdrawalRequested i)) b1))"

definition begin_cancellation ::
    "codex_env \<Rightarrow> codex_harness \<Rightarrow> codex_config \<Rightarrow> codex_state \<Rightarrow> string option \<Rightarrow> int
     \<Rightarrow> handler_failure + codex_outcome" where
  "begin_cancellation env hn cx state reason sequence =
     (if cd_cancellation state \<noteq> None
      then Inr (set_lifecycle_status False (builder_new state))
      else bindR (cancellation_targets (cd_active_turn state)) (\<lambda>targets.
        let state1 = state\<lparr>
              cd_active_turn := map_option (\<lambda>turn.
                turn\<lparr>at_pending_steering := [], at_phase := Cancelling\<rparr>) (cd_active_turn state),
              cd_cancellation := Some \<lparr>cn_reason = reason, cn_requested_at = sequence,
                cn_turn_id = map_option at_id (cd_active_turn state),
                cn_targets = map new_target targets, cn_processes = [], cn_discovery = None,
                cn_failures = []\<rparr>\<rparr>;
            tracked = map (\<lambda>e. (Some (te_session_id e), te_handle e)) (cd_executions state1) in
        bindR (foldR (stage_withdrawal env) [0..<length targets] (builder_new state1)) (\<lambda>b1.
        bindR (foldR (stage_interrupt env hn cx sequence) tracked b1) (\<lambda>b2.
        bindR (cancellation_of b2) (\<lambda>c.
        Inr (set_lifecycle_status True (emit_progress (JObject
          [(''type'', JString ''cancellation_started''),
           (''targets'', JNumber (decimal (length targets))),
           (''processes'', JNumber (decimal (length (cn_processes c))))]) b2)))))))"

section \<open>Completions\<close>

definition executions_from_outcome :: "codex_env \<Rightarrow> read_outcome \<Rightarrow> execution list" where
  "executions_from_outcome env outcome =
     (let response = (case outcome of
            ReadSucceeded (ReadExecution r) \<Rightarrow> Some r
          | ReadFailed f \<Rightarrow> rf_response f
          | ReadUnknown f \<Rightarrow> rf_response f
          | _ \<Rightarrow> None) in
      case response of
        None \<Rightarrow> []
      | Some r \<Rightarrow>
         (case er_outcome r of
            ExecFailed _ \<Rightarrow> []
          | ExecOk result \<Rightarrow>
             (case Option.bind (json_get ''execution'' result) (xv_execution env) of
                Some e \<Rightarrow> [e]
              | None \<Rightarrow>
                 (case Option.bind (json_get ''executions'' result) (xv_executions env) of
                    Some es \<Rightarrow> es
                  | None \<Rightarrow>
                     (case xv_execution env result of Some e \<Rightarrow> [e] | None \<Rightarrow> [])))))"

text \<open>The processes among them that still run, to be interrupted without a session of ours.\<close>

definition running_processes :: "execution list \<Rightarrow> (int option \<times> exec_handle) list" where
  "running_processes es = map (\<lambda>e. (None, ex_handle e)) (filter (\<lambda>e. \<not> ex_finished e) es)"

fun is_execution_result :: "read_outcome \<Rightarrow> bool" where
  "is_execution_result (ReadSucceeded r) = (case r of ReadExecution _ \<Rightarrow> True | _ \<Rightarrow> False)"
| "is_execution_result _ = True"

definition handle_withdrawal ::
    "codex_env \<Rightarrow> operation_id \<Rightarrow> read_outcome \<Rightarrow> codex_outcome
     \<Rightarrow> handler_failure + codex_outcome" where
  "handle_withdrawal env i outcome b =
     bindR (target_for_control b i) (\<lambda>index.
     bindR (guardR (case outcome of
         ReadSucceeded r \<Rightarrow> (case r of ReadWithdraw _ \<Rightarrow> True | _ \<Rightarrow> False) | _ \<Rightarrow> True)
       (HandlerError ''successful withdrawal contains the wrong result kind'')) (\<lambda>_.
     bindR (cancellation_of b) (\<lambda>c.
     bindR (or_error (nth_opt (cn_targets c) index) ''withdrawal target disappeared'') (\<lambda>t.
     if outcome = ReadSucceeded (ReadWithdraw True)
     then Inr (on_cancellation (set_target index
       (\<lambda>t. t\<lparr>ct_original_completed := True, ct_control := Settled\<rparr>)) b)
     else case ct_kind t of
         TargetLlm \<Rightarrow>
           let (j, b1) = request_llm_cancellation (next_operation env b) (ct_operation_id t) b in
           Inr (on_cancellation (set_control index (LlmCancellationRequested j 1)) b1)
       | TargetExecution \<Rightarrow>
           Inr (on_cancellation (set_control index
             (if ct_original_completed t then Settled else AwaitingCompletion)) b)))))"

definition handle_llm_cancellation ::
    "codex_env \<Rightarrow> operation_id \<Rightarrow> read_outcome \<Rightarrow> codex_outcome
     \<Rightarrow> handler_failure + codex_outcome" where
  "handle_llm_cancellation env i outcome b =
     bindR (target_for_control b i) (\<lambda>index.
     bindR (cancellation_of b) (\<lambda>c.
     bindR (or_panic (nth_opt (cn_targets c) index)) (\<lambda>t.
     case ct_control t of
       LlmCancellationRequested _ attempt \<Rightarrow>
         let settle = on_cancellation (set_control index Settled);
             unsettled = (\<lambda>failure.
               if attempt < max_cleanup_attempts
               then let (j, b1) = request_llm_cancellation (next_operation env b)
                          (ct_operation_id t) b in
                    record_cleanup_failure i failure (on_cancellation
                      (set_control index (LlmCancellationRequested j (attempt + 1))) b1)
               else settle (record_cleanup_failure i failure b)) in
         (case outcome of
            ReadSucceeded (ReadLlmCancellation _) \<Rightarrow> Inr (settle b)
          | ReadCancelled \<Rightarrow> Inr (settle b)
          | ReadFailed failure \<Rightarrow> Inr (unsettled failure)
          | ReadUnknown failure \<Rightarrow> Inr (unsettled failure)
          | ReadSucceeded _ \<Rightarrow>
              handler_error ''successful LLM cancellation contains the wrong result kind'')
     | _ \<Rightarrow> handler_error ''LLM cancellation target has an invalid control state'')))"

definition late_result_ok :: "target_kind \<Rightarrow> read_outcome \<Rightarrow> bool" where
  "late_result_ok expected outcome =
     (case outcome of
        ReadSucceeded r \<Rightarrow>
         (case (expected, r) of
            (TargetLlm, ReadLlm _) \<Rightarrow> True
          | (TargetExecution, ReadExecution _) \<Rightarrow> True
          | _ \<Rightarrow> False)
      | _ \<Rightarrow> True)"

definition handle_original_completion ::
    "codex_env \<Rightarrow> codex_harness \<Rightarrow> codex_config \<Rightarrow> session_id \<Rightarrow> int \<Rightarrow> operation_id
     \<Rightarrow> target_kind \<Rightarrow> read_outcome \<Rightarrow> codex_outcome \<Rightarrow> handler_failure + codex_outcome" where
  "handle_original_completion env hn cx session sequence i expected outcome b =
     bindR (guardR (late_result_ok expected outcome)
       (HandlerError ''successful late operation contains the wrong result kind'')) (\<lambda>_.
     bindR (cancellation_of b) (\<lambda>c.
     bindR (or_error (position (\<lambda>t. ct_operation_id t = i) (cn_targets c))
       ''late operation completion is not a cancellation target'') (\<lambda>index.
     bindR (guardR (ct_kind (cn_targets c ! index) = expected)
       (HandlerError ''late operation completion has the wrong target kind'')) (\<lambda>_.
     let processes = executions_from_outcome env outcome;
         uncertain = (expected = TargetExecution
           \<and> (case outcome of ReadUnknown _ \<Rightarrow> True | _ \<Rightarrow> False) \<and> processes = []) in
     bindR (foldR (stage_interrupt env hn cx sequence) (running_processes processes) b) (\<lambda>b1.
     let b2 = on_cancellation (set_target index (\<lambda>t. t\<lparr>ct_original_completed := True\<rparr>)) b1 in
     if uncertain
     then let b3 = on_cancellation (set_control index AwaitingDiscovery) b2 in
          if cn_discovery c = None then stage_discovery env hn cx session 1 b3 else Inr b3
     else Inr (on_cancellation (\<lambda>c. if ct_control (cn_targets c ! index) = AwaitingCompletion
            then set_control index Settled c else c) b2))))))"

definition handle_process_control ::
    "codex_env \<Rightarrow> codex_harness \<Rightarrow> codex_config \<Rightarrow> int \<Rightarrow> operation_id \<Rightarrow> read_outcome
     \<Rightarrow> codex_outcome \<Rightarrow> handler_failure + codex_outcome" where
  "handle_process_control env hn cx sequence i outcome b =
     bindR (guardR (is_execution_result outcome)
       (HandlerError ''successful process cleanup contains the wrong result kind'')) (\<lambda>_.
     bindR (process_for_control b i) (\<lambda>index.
     bindR (cancellation_of b) (\<lambda>c.
     bindR (or_panic (nth_opt (cn_processes c) index)) (\<lambda>p.
     let session = pc_session_id p; handle = pc_handle p in
     case pc_control p of
       ProcessSettled \<Rightarrow> Inr b
     | InterruptRequested _ \<Rightarrow>
         if list_ex ex_finished (executions_from_outcome env outcome)
         then Inr (settle_process index session b)
         else stage_terminate env hn cx index handle 1 b
     | TerminateRequested _ attempt \<Rightarrow>
         let unsettled = (\<lambda>failure.
               let b1 = record_cleanup_failure i failure b in
               if attempt < max_cleanup_attempts
               then stage_terminate env hn cx index handle (attempt + 1) b1
               else Inr (emit_progress (JObject
                 [(''type'', JString ''cancellation_cleanup_failed''),
                  (''handle'', xv_handle_json env handle),
                  (''attempts'', JNumber (decimal attempt)),
                  (''requested_at_sequence'', JNumber (decimal_int sequence))])
                 (settle_process index session b1))) in
         (case outcome of
            ReadSucceeded _ \<Rightarrow> Inr (settle_process index session b)
          | ReadCancelled \<Rightarrow> Inr (settle_process index session b)
          | ReadFailed failure \<Rightarrow> unsettled failure
          | ReadUnknown failure \<Rightarrow> unsettled failure)))))"

definition settle_discovered :: "cancellation_state \<Rightarrow> cancellation_state" where
  "settle_discovered c = c\<lparr>cn_discovery := None,
     cn_targets := map (\<lambda>t. if ct_control t = AwaitingDiscovery then t\<lparr>ct_control := Settled\<rparr> else t)
       (cn_targets c)\<rparr>"

definition handle_discovery ::
    "codex_env \<Rightarrow> codex_harness \<Rightarrow> codex_config \<Rightarrow> session_id \<Rightarrow> int \<Rightarrow> operation_id
     \<Rightarrow> read_outcome \<Rightarrow> codex_outcome \<Rightarrow> handler_failure + codex_outcome" where
  "handle_discovery env hn cx session sequence i outcome b =
     bindR (guardR (is_execution_result outcome)
       (HandlerError ''successful process discovery contains the wrong result kind'')) (\<lambda>_.
     bindR (cancellation_of b) (\<lambda>c.
     bindR (or_error (cn_discovery c) ''process discovery state disappeared'') (\<lambda>d.
     let succeeded = (case outcome of ReadSucceeded _ \<Rightarrow> True | _ \<Rightarrow> False) in
     if \<not> succeeded \<and> pd_attempt d < max_cleanup_attempts
     then stage_discovery env hn cx session (pd_attempt d + 1)
       (case outcome of
          ReadFailed failure \<Rightarrow> record_cleanup_failure i failure b
        | ReadUnknown failure \<Rightarrow> record_cleanup_failure i failure b
        | _ \<Rightarrow> b)
     else foldR (stage_interrupt env hn cx sequence)
            (running_processes (executions_from_outcome env outcome))
            (on_cancellation settle_discovered b))))"

definition completion_step ::
    "codex_env \<Rightarrow> codex_harness \<Rightarrow> codex_config \<Rightarrow> session_id \<Rightarrow> int \<Rightarrow> operation_id
     \<Rightarrow> operation_kind \<Rightarrow> read_outcome \<Rightarrow> codex_outcome \<Rightarrow> handler_failure + codex_outcome" where
  "completion_step env hn cx session sequence i kind outcome b =
     (case kind of
        KindWithdraw \<Rightarrow> handle_withdrawal env i outcome b
      | KindLlmCancellation \<Rightarrow> handle_llm_cancellation env i outcome b
      | KindLlm \<Rightarrow> handle_original_completion env hn cx session sequence i TargetLlm outcome b
      | KindExecution \<Rightarrow>
          if is_process_control b i then handle_process_control env hn cx sequence i outcome b
          else if is_discovery b i then handle_discovery env hn cx session sequence i outcome b
          else handle_original_completion env hn cx session sequence i TargetExecution outcome b)"

text \<open>\<open>read\<close> is what \<open>context.operation(operation_id)\<close> answers.\<close>

definition handle_cancellation_completion ::
    "codex_env \<Rightarrow> codex_harness \<Rightarrow> codex_config \<Rightarrow> session_id \<Rightarrow> int \<Rightarrow> codex_state
     \<Rightarrow> operation_id \<Rightarrow> operation_kind \<Rightarrow> operation_outcome_status
     \<Rightarrow> string + read_record option \<Rightarrow> handler_failure + codex_outcome" where
  "handle_cancellation_completion env hn cx session sequence state i kind status read =
     (case read of
        Inl failure \<Rightarrow> handler_error (''could not read cancellation operation: '' @ failure)
      | Inr answer \<Rightarrow>
          bindR (or_error answer ''completed cancellation operation was not found'') (\<lambda>r.
          bindR (guardR (rr_kind r = kind) (HandlerError
            ''cancellation completion kind does not match its operation record'')) (\<lambda>_.
          bindR (or_error (rr_outcome r)
            ''completed cancellation operation has no terminal outcome'') (\<lambda>outcome.
          bindR (guardR (read_status outcome = status) (HandlerError
            ''cancellation completion status does not match its operation record'')) (\<lambda>_.
          bindR (completion_step env hn cx session sequence i kind outcome (builder_new state))
            (\<lambda>b. Inr (set_lifecycle_status True b)))))))"

end
