(* ===== verification/CodexCleanup.thy ===== *)
theory CodexCleanup
  imports CodexCancel
begin

text \<open>
  That a cancellation ends: every completion its handler accepts brings it closer to being
  settled, and while it is not settled it waits for an operation.
\<close>

named_theorems cancel_simps "the cancellation after a change of the outcome"

abbreviation cancels :: "codex_outcome \<Rightarrow> cancellation_state \<Rightarrow> bool" where
  "cancels b c \<equiv> cd_cancellation (ho_state b) = Some c"

lemma cancellation_of_Inr [simp]: "cancellation_of b = Inr c \<longleftrightarrow> cancels b c"
  by (simp add: cancellation_of_def)

lemma cancellation_of_cancels: "cancels b c \<Longrightarrow> cancellation_of b = Inr c"
  by simp

lemma cancels_on [cancel_simps]:
  "cd_cancellation (ho_state (on_cancellation f b)) = map_option f (cd_cancellation (ho_state b))"
  by (simp add: on_cancellation_def map_cancellation_def)

lemma cancels_lifecycle [cancel_simps]:
  "cd_cancellation (ho_state (set_lifecycle_status e b)) = cd_cancellation (ho_state b)"
  by (simp add: set_lifecycle_status_def Let_def)

lemma cancels_record [cancel_simps]:
  "cd_cancellation (ho_state (record_cleanup_failure i f b)) =
     map_option (\<lambda>c. c\<lparr>cn_failures := cn_failures c
       @ [\<lparr>cf_operation_id = i, cf_code = rf_code f, cf_message = rf_message f\<rparr>]\<rparr>)
       (cd_cancellation (ho_state b))"
  by (simp add: record_cleanup_failure_def cancels_on)

lemma cancels_settle_process [cancel_simps]:
  "cd_cancellation (ho_state (settle_process i session b)) =
     map_option (\<lambda>c. if i < length (cn_processes c) then set_process_control i ProcessSettled c
       else c) (cd_cancellation (ho_state b))"
  by (simp add: settle_process_def cancels_on Let_def split: option.splits)

lemma nth_opt_Some [simp]: "nth_opt xs i = Some x \<longleftrightarrow> i < length xs \<and> xs ! i = x"
  by (auto simp: nth_opt_def)

lemma position_Some:
  "position p xs = Some i \<Longrightarrow> i < length xs \<and> p (xs ! i)"
  by (induction xs arbitrary: i) (auto split: if_splits)

lemma position_None: "position p xs = None \<longleftrightarrow> (\<forall>x\<in>set xs. \<not> p x)"
  by (induction xs) auto

lemma position_unique:
  assumes "k < length xs" and "p (xs ! k)"
    and "\<And>n. n < length xs \<Longrightarrow> n \<noteq> k \<Longrightarrow> \<not> p (xs ! n)"
  shows "position p xs = Some k"
proof (cases "position p xs")
  case None
  with assms(1,2) show ?thesis by (auto simp: position_None)
next
  case (Some n)
  with position_Some [OF Some] assms(3) show ?thesis by auto
qed

section \<open>Staging\<close>

lemma stage_execution_Inr:
  assumes "stage_execution env hn cx g payload m b = Inr (i, b')"
  shows "i = next_operation env b \<and> ho_state b' = ho_state b
    \<and> ho_operations b' = ho_operations b @ [\<lparr>so_id = i,
       so_request = ExecutionReq (hn_execution_connection hn) (cx_machine_id cx) g payload\<rparr>]"
  using assms
  by (auto simp: stage_execution_def request_execution_def request_execution_for_generation_def
      result_simps split: option.splits sum.splits)

lemma stage_interrupt_Inr:
  assumes "stage_interrupt env hn cx sequence p b = Inr b'"
  obtains c where "cancels b c" "list_ex (\<lambda>q. pc_handle q = snd p) (cn_processes c)" "b' = b"
  | c where "cancels b c" "\<not> list_ex (\<lambda>q. pc_handle q = snd p) (cn_processes c)"
      "cancels b' (c\<lparr>cn_processes := cn_processes c @ [\<lparr>pc_session_id = fst p, pc_handle = snd p,
         pc_control = InterruptRequested (next_operation env b)\<rparr>]\<rparr>)"
proof -
  obtain c where c: "cancels b c"
    using assms by (cases p) (auto simp: stage_interrupt_def cancellation_of_def or_panic_def
        ok_or_def split: option.splits)
  then have unfolded: "(if list_ex (\<lambda>q. pc_handle q = snd p) (cn_processes c) then Inr b
      else bindR (stage_execution env hn cx (Some (eh_generation (snd p)))
             (Single (ExecInterrupt (snd p) (''cancel-'' @ decimal_int sequence @ ''-''
               @ xv_uuid_text env (eh_id (snd p)))))
             ''could not stage process interrupt'' b)
           (\<lambda>(i, b1). Inr (on_cancellation (\<lambda>c. c\<lparr>cn_processes := cn_processes c
              @ [\<lparr>pc_session_id = fst p, pc_handle = snd p,
                  pc_control = InterruptRequested i\<rparr>]\<rparr>) b1))) = Inr b'"
    using assms by (cases p) (simp only: stage_interrupt_def cancellation_of_cancels prod.case
        bindR_simps fst_conv snd_conv)
  show ?thesis
  proof (cases "list_ex (\<lambda>q. pc_handle q = snd p) (cn_processes c)")
    case True
    then have "b' = b" using unfolded by simp
    with c True show ?thesis using that(1) by blast
  next
    case False
    with unfolded obtain i b1 where
      staged: "stage_execution env hn cx (Some (eh_generation (snd p)))
             (Single (ExecInterrupt (snd p) (''cancel-'' @ decimal_int sequence @ ''-''
               @ xv_uuid_text env (eh_id (snd p)))))
             ''could not stage process interrupt'' b = Inr (i, b1)"
      and b': "b' = on_cancellation (\<lambda>c. c\<lparr>cn_processes := cn_processes c
              @ [\<lparr>pc_session_id = fst p, pc_handle = snd p,
                  pc_control = InterruptRequested i\<rparr>]\<rparr>) b1"
      by (auto simp: result_simps)
    with stage_execution_Inr [OF staged] c False show ?thesis
      using that(2) by (simp add: cancels_on)
  qed
qed

text \<open>What interrupting processes leaves alone.\<close>

definition only_processes :: "codex_outcome \<Rightarrow> codex_outcome \<Rightarrow> bool" where
  "only_processes b b' \<longleftrightarrow> (\<forall>c. cancels b c \<longrightarrow> (\<exists>ps. cancels b' (c\<lparr>cn_processes := cn_processes c @ ps\<rparr>)))"

lemma stage_interrupt_only:
  assumes "stage_interrupt env hn cx sequence p b = Inr b'"
  shows "only_processes b b'"
  by (rule stage_interrupt_Inr [OF assms])
    (auto simp: only_processes_def intro: exI [where x = "[]"])

lemma stage_interrupts_only:
  assumes "foldR (stage_interrupt env hn cx sequence) ps b = Inr b'"
  shows "only_processes b b'"
proof (rule foldR_invariant [OF assms, where P = "only_processes b"])
  show "only_processes b b" by (auto simp: only_processes_def intro: exI [where x = "[]"])
next
  fix p d d' assume "only_processes b d" "stage_interrupt env hn cx sequence p d = Inr d'"
  with stage_interrupt_only [OF this(2)] show "only_processes b d'"
    by (fastforce simp: only_processes_def)
qed

lemma only_processesD:
  assumes "only_processes b b'" and "cancels b c"
  obtains ps where "cancels b' (c\<lparr>cn_processes := cn_processes c @ ps\<rparr>)"
  using assms by (auto simp: only_processes_def)

lemma stage_terminate_Inr:
  assumes "stage_terminate env hn cx index handle attempt b = Inr b'" and "cancels b c"
  shows "index < length (cn_processes c)"
    "cancels b' (set_process_control index (TerminateRequested (next_operation env b) attempt) c)"
  using assms
  by (auto simp: stage_terminate_def result_simps cancels_on dest!: stage_execution_Inr)

lemma stage_discovery_Inr:
  assumes "stage_discovery env hn cx session attempt b = Inr b'" and "cancels b c"
  shows "cancels b' (c\<lparr>cn_discovery := Some \<lparr>pd_operation_id = next_operation env b,
     pd_attempt = attempt\<rparr>\<rparr>)"
  using assms
  by (auto simp: stage_discovery_def result_simps Let_def cancels_on dest!: stage_execution_Inr)

section \<open>How much is left\<close>

text \<open>
  The handler counts two things down. Originals and discoveries may report processes to
  interrupt, so they weigh more than any number of control operations.
\<close>

definition control_weight :: "cancellation_control \<Rightarrow> nat" where
  "control_weight control =
     (case control of
        WithdrawalRequested _ \<Rightarrow> 3
      | LlmCancellationRequested _ attempt \<Rightarrow> 1 + (max_cleanup_attempts - attempt)
      | _ \<Rightarrow> 0)"

definition process_weight :: "process_control \<Rightarrow> nat" where
  "process_weight control =
     (case control of
        InterruptRequested _ \<Rightarrow> 3
      | TerminateRequested _ attempt \<Rightarrow> 1 + (max_cleanup_attempts - attempt)
      | ProcessSettled \<Rightarrow> 0)"

definition discovery_weight :: "process_discovery option \<Rightarrow> nat" where
  "discovery_weight d =
     (case d of None \<Rightarrow> 0 | Some d \<Rightarrow> 1 + (max_cleanup_attempts - pd_attempt d))"

definition sources_left :: "operation_id set \<Rightarrow> cancellation_state \<Rightarrow> nat" where
  "sources_left done c =
     3 * length (filter (\<lambda>t. ct_operation_id t \<notin> done) (cn_targets c))
     + discovery_weight (cn_discovery c)"

definition controls_left :: "cancellation_state \<Rightarrow> nat" where
  "controls_left c =
     sum_list (map (\<lambda>t. control_weight (ct_control t)) (cn_targets c))
     + sum_list (map (\<lambda>p. process_weight (pc_control p)) (cn_processes c))"

text \<open>\<open>(sources, controls)\<close> of the later outcome is lexicographically smaller.\<close>

definition closer :: "operation_id set \<Rightarrow> cancellation_state \<Rightarrow> operation_id set \<Rightarrow> cancellation_state \<Rightarrow> bool" where
  "closer done' c' done c \<longleftrightarrow>
     sources_left done' c' < sources_left done c
     \<or> sources_left done' c' = sources_left done c \<and> controls_left c' < controls_left c"

lemma sum_list_update_less:
  fixes f :: "'a \<Rightarrow> nat"
  assumes "i < length xs" and "f y < f (xs ! i)"
  shows "sum_list (map f (xs[i := y])) < sum_list (map f xs)"
  using assms
proof (induction xs arbitrary: i)
  case Nil
  then show ?case by simp
next
  case (Cons x xs)
  then show ?case by (cases i) auto
qed

lemma filter_ids_update:
  assumes "i < length ts" and "ct_operation_id t' = ct_operation_id (ts ! i)"
  shows "length (filter (\<lambda>t. ct_operation_id t \<notin> done) (ts[i := t']))
    = length (filter (\<lambda>t. ct_operation_id t \<notin> done) ts)"
  using assms
proof (induction ts arbitrary: i)
  case Nil
  then show ?case by simp
next
  case (Cons x xs)
  then show ?case by (cases i) auto
qed

lemma set_target_closer:
  assumes "i < length (cn_targets c)"
    and "ct_operation_id (f (cn_targets c ! i)) = ct_operation_id (cn_targets c ! i)"
    and "control_weight (ct_control (f (cn_targets c ! i)))
      < control_weight (ct_control (cn_targets c ! i))"
  shows "closer done (set_target i f c) done c"
  using assms by (auto simp: closer_def sources_left_def controls_left_def set_target_def
      filter_ids_update intro!: sum_list_update_less)

lemma set_process_closer:
  assumes "i < length (cn_processes c)"
    and "process_weight control < process_weight (pc_control (cn_processes c ! i))"
  shows "closer done (set_process_control i control c) done c"
  using assms by (auto simp: closer_def sources_left_def controls_left_def
      set_process_control_def intro!: sum_list_update_less)

text \<open>Failures are only recorded.\<close>

definition work :: "cancellation_state \<Rightarrow> cancellation_target list \<times> process_discovery option
    \<times> process_cleanup list" where
  "work c = (cn_targets c, cn_discovery c, cn_processes c)"

lemma work_failures [cancel_simps]:
  "work (c\<lparr>cn_failures := fs\<rparr>) = work c"
  "work (set_control k x (c\<lparr>cn_failures := fs\<rparr>)) = work (set_control k x c)"
  "work (set_process_control k y (c\<lparr>cn_failures := fs\<rparr>)) = work (set_process_control k y c)"
  by (simp_all add: work_def set_control_def set_target_def set_process_control_def)

lemma closer_work: "work c' = work x \<Longrightarrow> closer done' c' done c = closer done' x done c"
  by (simp add: work_def closer_def sources_left_def controls_left_def)

text \<open>Only the targets and the discovery count for the sources.\<close>

lemma sources_only_processes [cancel_simps]:
  "sources_left done (c\<lparr>cn_processes := ps\<rparr>) = sources_left done c"
  "sources_left done (c\<lparr>cn_failures := fs\<rparr>) = sources_left done c"
  by (simp_all add: sources_left_def)

lemma filter_not_done_less:
  assumes "i \<notin> done" and "ct_operation_id (ts ! k) = i" and "k < length ts"
  shows "length (filter (\<lambda>t. ct_operation_id t \<notin> insert i done) ts)
    < length (filter (\<lambda>t. ct_operation_id t \<notin> done) ts)"
  using assms
proof (induction ts arbitrary: k)
  case Nil
  then show ?case by simp
next
  case (Cons t ts)
  have le: "length (filter (\<lambda>t. ct_operation_id t \<notin> insert i done) ts)
    \<le> length (filter (\<lambda>t. ct_operation_id t \<notin> done) ts)"
    by (induction ts) auto
  from Cons show ?case
  proof (cases k)
    case 0
    with Cons.prems le show ?thesis by (auto simp: less_Suc_eq_le)
  next
    case (Suc j)
    with Cons.IH [of j] Cons.prems le show ?thesis by (auto simp: less_Suc_eq_le)
  qed
qed

section \<open>Each accepted completion comes closer\<close>

text \<open>The platform reports an operation under the kind of its request.\<close>

definition kind_agrees :: "cancellation_state \<Rightarrow> operation_id \<Rightarrow> operation_kind \<Rightarrow> bool" where
  "kind_agrees c i kind \<longleftrightarrow>
     list_all (\<lambda>t. case ct_control t of
         WithdrawalRequested j \<Rightarrow> j = i \<longrightarrow> kind = KindWithdraw
       | LlmCancellationRequested j _ \<Rightarrow> j = i \<longrightarrow> kind = KindLlmCancellation
       | _ \<Rightarrow> True) (cn_targets c)"

lemma kind_agrees_nth:
  assumes "kind_agrees c i kind" and "k < length (cn_targets c)"
    and "awaits_control i (ct_control (cn_targets c ! k))"
  shows "ct_control (cn_targets c ! k) = WithdrawalRequested i \<and> kind = KindWithdraw
    \<or> (\<exists>a. ct_control (cn_targets c ! k) = LlmCancellationRequested i a
        \<and> kind = KindLlmCancellation)"
  using assms
  by (auto simp: kind_agrees_def list_all_length awaits_control_def
      split: cancellation_control.splits)

lemma handle_withdrawal_closer:
  assumes "handle_withdrawal env i outcome b = Inr b'" and "cancels b c"
    and "kind_agrees c i KindWithdraw"
  shows "\<exists>c'. cancels b' c' \<and> closer done c' done c"
proof -
  obtain k where k: "target_for_control b i = Inr k"
    using assms(1) by (auto simp: handle_withdrawal_def result_simps)
  then have pos: "k < length (cn_targets c)" "awaits_control i (ct_control (cn_targets c ! k))"
    using assms(2) by (auto simp: target_for_control_def result_simps dest: position_Some)
  then have weight: "control_weight (ct_control (cn_targets c ! k)) = 3"
    using kind_agrees_nth [OF assms(3) pos] by (simp add: control_weight_def)
  have "\<exists>f. cancels b' (set_target k f c)
      \<and> ct_operation_id (f (cn_targets c ! k)) = ct_operation_id (cn_targets c ! k)
      \<and> control_weight (ct_control (f (cn_targets c ! k))) < 3"
    using assms(1,2) k pos
    by (auto simp: handle_withdrawal_def cancellation_of_cancels result_simps nth_opt_def
        cancels_on Let_def set_control_def control_weight_def max_cleanup_attempts_def
        request_llm_cancellation_def split: if_splits target_kind.splits)
  then show ?thesis using set_target_closer pos weight by metis
qed

lemma llm_cancellation_work:
  assumes "handle_llm_cancellation env i outcome b = Inr b'" and "cancels b c"
   "target_for_control b i = Inr k" "k < length (cn_targets c)"
   and control: "ct_control (cn_targets c ! k) = LlmCancellationRequested j a"
  shows "\<exists>c'. cancels b' c'
    \<and> (work c' = work (set_control k Settled c)
      \<or> a < max_cleanup_attempts \<and> work c' = work (set_control k
          (LlmCancellationRequested (next_operation env b) (a + 1)) c))"
proof -
  note run = assms(1) [unfolded handle_llm_cancellation_def assms(3) cancellation_of_cancels [OF assms(2)]
      bindR_simps]
  show ?thesis
  proof (cases outcome)
    case (ReadSucceeded r)
    then show ?thesis using run assms(2,4) control
      by (cases r) (auto simp add: nth_opt_def Let_def cancels_on)
  next
    case (ReadFailed f)
    then show ?thesis using run assms(2,4) control
      by (auto simp: nth_opt_def Let_def request_llm_cancellation_def cancels_on cancels_record
          work_failures split: if_splits)
  next
    case ReadCancelled
    then show ?thesis using run assms(2,4) control
      by (auto simp add: nth_opt_def Let_def cancels_on)
  next
    case (ReadUnknown f)
    then show ?thesis using run assms(2,4) control
      by (auto simp: nth_opt_def Let_def request_llm_cancellation_def cancels_on cancels_record
          work_failures split: if_splits)
  qed
qed
lemma handle_llm_cancellation_closer:
  assumes "handle_llm_cancellation env i outcome b = Inr b'" and "cancels b c"
  shows "\<exists>c'. cancels b' c' \<and> closer done c' done c"
proof -
  obtain k where k: "target_for_control b i = Inr k"
    using assms(1) by (auto simp: handle_llm_cancellation_def result_simps)
  then have pos: "k < length (cn_targets c)" "awaits_control i (ct_control (cn_targets c ! k))"
    using assms(2) by (auto simp: target_for_control_def result_simps dest: position_Some)
  obtain j a where control: "ct_control (cn_targets c ! k) = LlmCancellationRequested j a"
    using assms k pos
    by (auto simp: handle_llm_cancellation_def cancellation_of_cancels nth_opt_def
        split: cancellation_control.splits)
  have settled: "closer done (set_control k Settled c) done c"
    and again: "a < max_cleanup_attempts
      \<Longrightarrow> closer done (set_control k (LlmCancellationRequested x (a + 1)) c) done c" for x
    using pos control
    by (auto simp: set_control_def control_weight_def max_cleanup_attempts_def
        intro!: set_target_closer)
  from llm_cancellation_work [OF assms k pos(1) control] obtain c' where "cancels b' c'"
    and "work c' = work (set_control k Settled c)
      \<or> a < max_cleanup_attempts \<and> work c' = work (set_control k
          (LlmCancellationRequested (next_operation env b) (a + 1)) c)" by blast
  then show ?thesis using settled again by (metis closer_work)
qed

lemma handle_process_closer:
  assumes "handle_process_control env hn cx sequence i outcome b = Inr b'" and "cancels b c"
  shows "\<exists>c'. cancels b' c' \<and> closer done c' done c"
proof -
  obtain k where k: "process_for_control b i = Inr k"
    using assms(1) by (auto simp: handle_process_control_def result_simps)
  then have pos: "k < length (cn_processes c)" "awaits_process i (pc_control (cn_processes c ! k))"
    using assms(2) by (auto simp: process_for_control_def result_simps dest: position_Some)
  let ?p = "cn_processes c ! k"
  have smaller: "closer done (set_process_control k control c) done c"
    if "process_weight control < process_weight (pc_control ?p)" for control
    by (rule set_process_closer [OF pos(1) that])
  note run = assms(1) [unfolded handle_process_control_def k cancellation_of_cancels [OF assms(2)]
      bindR_simps]
  have "\<exists>c' x. cancels b' c' \<and> process_weight x < process_weight (pc_control ?p)
    \<and> work c' = work (set_process_control k x c)"
  proof (cases "pc_control ?p")
    case (InterruptRequested j)
    show ?thesis
    proof (cases "list_ex ex_finished (executions_from_outcome env outcome)")
      case True
      then show ?thesis
        using run InterruptRequested pos assms(2)
        by (intro exI [of _ "set_process_control k ProcessSettled c"] exI [of _ ProcessSettled])
          (auto simp: result_simps Let_def cancels_settle_process process_weight_def nth_opt_def)
    next
      case False
      then have "stage_terminate env hn cx k (pc_handle ?p) 1 b = Inr b'"
        using run InterruptRequested pos by (auto simp: result_simps Let_def nth_opt_def)
      from stage_terminate_Inr [OF this assms(2)] show ?thesis
        using InterruptRequested
        by (intro exI [of _ "set_process_control k (TerminateRequested (next_operation env b) 1) c"]
            exI [of _ "TerminateRequested (next_operation env b) 1"])
          (auto simp: process_weight_def max_cleanup_attempts_def)
    qed
  next
    case (TerminateRequested j a)
    have "cancels b' (set_process_control k ProcessSettled c)
      \<or> (\<exists>f. cancels b' (set_process_control k ProcessSettled (c\<lparr>cn_failures := f\<rparr>)))
      \<or> a < max_cleanup_attempts \<and> (\<exists>failure. stage_terminate env hn cx k (pc_handle ?p) (a + 1)
            (record_cleanup_failure i failure b) = Inr b')"
      using run TerminateRequested pos assms(2)
      by (auto simp: result_simps Let_def nth_opt_def cancels_settle_process cancels_record
          split: read_outcome.splits if_splits)
    then show ?thesis
    proof (elim disjE exE conjE)
      fix failure assume "a < max_cleanup_attempts"
        and "stage_terminate env hn cx k (pc_handle ?p) (a + 1) (record_cleanup_failure i failure b)
          = Inr b'"
      note again = this
      let ?x = "TerminateRequested (next_operation env (record_cleanup_failure i failure b)) (a + 1)"
      have "cancels (record_cleanup_failure i failure b) (c\<lparr>cn_failures := cn_failures c
          @ [\<lparr>cf_operation_id = i, cf_code = rf_code failure, cf_message = rf_message failure\<rparr>]\<rparr>)"
        using assms(2) by (simp add: cancels_record)
      from stage_terminate_Inr(2) [OF again(2) this] again(1) TerminateRequested show ?thesis
        by (intro exI [of _ ?x] exI)
          (auto simp: process_weight_def max_cleanup_attempts_def work_failures)
    qed (use TerminateRequested in \<open>auto simp: process_weight_def work_failures intro: exI [of _ ProcessSettled]\<close>)
  next
    case ProcessSettled
    with pos show ?thesis by (simp add: awaits_process_def)
  qed
  then show ?thesis using smaller by (metis closer_work)
qed

lemma handle_original_closer:
  assumes run: "handle_original_completion env hn cx session sequence i kind outcome b = Inr b'"
    and c: "cancels b c" and new: "i \<notin> done"
  shows "\<exists>c'. cancels b' c' \<and> closer (insert i done) c' done c"
proof -
  obtain k where k: "position (\<lambda>t. ct_operation_id t = i) (cn_targets c) = Some k"
    using run c by (auto simp: handle_original_completion_def result_simps)
  then have pos: "k < length (cn_targets c)" "ct_operation_id (cn_targets c ! k) = i"
    by (auto dest: position_Some)
  let ?ps = "running_processes (executions_from_outcome env outcome)"
  let ?mark = "set_target k (\<lambda>t. t\<lparr>ct_original_completed := True\<rparr>)"
  obtain b1 where interrupts: "foldR (stage_interrupt env hn cx sequence) ?ps b = Inr b1"
    using run c k by (auto simp: handle_original_completion_def result_simps Let_def)
  from only_processesD [OF stage_interrupts_only [OF this] c]
  obtain ps where b1: "cancels b1 (c\<lparr>cn_processes := cn_processes c @ ps\<rparr>)" .
  let ?c1 = "c\<lparr>cn_processes := cn_processes c @ ps\<rparr>"
  have sources: "sources_left (insert i done) c' < sources_left done c"
    if "map ct_operation_id (cn_targets c') = map ct_operation_id (cn_targets c)"
      and "discovery_weight (cn_discovery c') \<le> discovery_weight (cn_discovery c)
        \<or> cn_discovery c = None \<and> discovery_weight (cn_discovery c') \<le> 2" for c'
  proof -
    have same: "length (filter (\<lambda>t. ct_operation_id t \<notin> D) (cn_targets c')) =
      length (filter (\<lambda>t. ct_operation_id t \<notin> D) (cn_targets c))" for D
      using arg_cong [OF that(1), of "\<lambda>is. length (filter (\<lambda>i. i \<notin> D) is)"]
      by (simp add: filter_map comp_def)
    have "discovery_weight (cn_discovery c') \<le> discovery_weight (cn_discovery c) + 2"
      using that(2) by auto
    with filter_not_done_less [OF new pos(2,1)] show ?thesis
      unfolding sources_left_def same by linarith
  qed
  have ids: "map ct_operation_id (cn_targets (set_target k f c')) = map ct_operation_id (cn_targets c')"
    if "\<And>t. ct_operation_id (f t) = ct_operation_id t" for f c'
    using that by (cases "k < length (cn_targets c')")
      (auto simp: set_target_def map_update list_update_same_conv not_less list_update_beyond)
  have "\<exists>c'. cancels b' c'
    \<and> map ct_operation_id (cn_targets c') = map ct_operation_id (cn_targets c)
    \<and> (discovery_weight (cn_discovery c') \<le> discovery_weight (cn_discovery c)
        \<or> cn_discovery c = None \<and> discovery_weight (cn_discovery c') \<le> 2)"
  proof -
    let ?b2 = "on_cancellation ?mark b1"
    let ?b3 = "on_cancellation (set_control k AwaitingDiscovery) ?b2"
    have b2: "cancels ?b2 (?mark ?c1)" by (simp only: cancels_on b1 option.map)
    have b3: "cancels ?b3 (set_control k AwaitingDiscovery (?mark ?c1))"
      by (simp only: cancels_on b1 option.map)
    have same: "map ct_operation_id (cn_targets (?mark ?c1)) = map ct_operation_id (cn_targets c)"
      "map ct_operation_id (cn_targets (set_control k x (?mark ?c1)))
        = map ct_operation_id (cn_targets c)" for x
      using ids by (simp_all add: set_control_def)
    have kept: "cn_discovery (?mark ?c1) = cn_discovery c"
      "cn_discovery (set_control k x (?mark ?c1)) = cn_discovery c" for x
      by (simp_all add: set_control_def set_target_def)
    from run c k interrupts have "(\<exists>x. cancels b' (set_control k x (?mark ?c1)))
      \<or> cancels b' (?mark ?c1)
      \<or> cn_discovery c = None \<and> stage_discovery env hn cx session 1 ?b3 = Inr b'"
      using b2 b3
      by (auto simp: handle_original_completion_def cancellation_of_cancels result_simps Let_def
          cancels_on split: if_splits)
    then show ?thesis
    proof (elim disjE exE conjE)
      assume "cn_discovery c = None" and "stage_discovery env hn cx session 1 ?b3 = Inr b'"
      from this(1) stage_discovery_Inr [OF this(2) b3] show ?thesis
        using same(2) by (auto simp: discovery_weight_def max_cleanup_attempts_def)
    qed (use same kept in auto)
  qed
  then show ?thesis using sources by (auto simp: closer_def)
qed

lemma handle_discovery_closer:
  assumes run: "handle_discovery env hn cx session sequence i outcome b = Inr b'"
    and c: "cancels b c"
  shows "\<exists>c'. cancels b' c' \<and> closer done c' done c"
proof -
  obtain d where d: "cn_discovery c = Some d"
    using run c by (auto simp: handle_discovery_def result_simps)
  have closer: "closer done c' done c"
    if "map ct_operation_id (cn_targets c') = map ct_operation_id (cn_targets c)"
      and "discovery_weight (cn_discovery c') < discovery_weight (cn_discovery c)" for c'
  proof -
    have "length (filter (\<lambda>t. ct_operation_id t \<notin> done) (cn_targets c')) =
      length (filter (\<lambda>t. ct_operation_id t \<notin> done) (cn_targets c))"
      using arg_cong [OF that(1), of "\<lambda>is. length (filter (\<lambda>i. i \<notin> done) is)"]
      by (simp add: filter_map comp_def)
    with that(2) show ?thesis by (simp add: closer_def sources_left_def)
  qed
  let ?ps = "running_processes (executions_from_outcome env outcome)"
  let ?b0 = "case outcome of
      ReadFailed failure \<Rightarrow> record_cleanup_failure i failure b
    | ReadUnknown failure \<Rightarrow> record_cleanup_failure i failure b
    | _ \<Rightarrow> b"
  have "\<exists>fs. cancels ?b0 (c\<lparr>cn_failures := fs\<rparr>)"
    using c by (cases outcome)
      (auto simp: cancels_record intro: exI [where x = "cn_failures c"])
  then obtain fs where b0: "cancels ?b0 (c\<lparr>cn_failures := fs\<rparr>)" ..
  have "pd_attempt d < max_cleanup_attempts
      \<and> stage_discovery env hn cx session (pd_attempt d + 1) ?b0 = Inr b'
    \<or> foldR (stage_interrupt env hn cx sequence) ?ps (on_cancellation settle_discovered b) = Inr b'"
    using run unfolding handle_discovery_def cancellation_of_cancels [OF c]
    by (auto simp: result_simps d Let_def split: if_splits)
  then consider "pd_attempt d < max_cleanup_attempts"
      "stage_discovery env hn cx session (pd_attempt d + 1) ?b0 = Inr b'"
    | "foldR (stage_interrupt env hn cx sequence) ?ps (on_cancellation settle_discovered b) = Inr b'"
    by blast
  then show ?thesis
  proof cases
    case 1
    from stage_discovery_Inr [OF 1(2) b0] show ?thesis
      using 1(1) d by (auto intro!: closer simp: discovery_weight_def)
  next
    case 2
    have "cancels (on_cancellation settle_discovered b) (settle_discovered c)"
      using c by (simp add: cancels_on)
    from only_processesD [OF stage_interrupts_only [OF 2] this] obtain ps
      where "cancels b' ((settle_discovered c)\<lparr>cn_processes := cn_processes (settle_discovered c) @ ps\<rparr>)" .
    moreover have "map ct_operation_id (cn_targets (settle_discovered c))
      = map ct_operation_id (cn_targets c)"
      by (simp add: settle_discovered_def)
    ultimately show ?thesis using d
      by (auto intro!: closer simp: discovery_weight_def settle_discovered_def)
  qed
qed

section \<open>The completions of a cancellation\<close>

text \<open>
  The completion of an operation the cancellation found at work; such an operation completes
  once, \<open>done\<close> are those that have. Other operations are the cancellation's own.
\<close>

definition completes_original :: "codex_outcome \<Rightarrow> operation_id \<Rightarrow> operation_kind \<Rightarrow> bool" where
  "completes_original b i kind \<longleftrightarrow>
     kind = KindLlm \<or> kind = KindExecution \<and> \<not> is_process_control b i \<and> \<not> is_discovery b i"

definition accepts_completion ::
    "codex_env \<Rightarrow> codex_harness \<Rightarrow> codex_config \<Rightarrow> codex_state \<times> operation_id set
     \<Rightarrow> codex_state \<times> operation_id set \<Rightarrow> bool" where
  "accepts_completion env hn cx before after \<longleftrightarrow>
     (case (before, after) of ((s, done), (s', done')) \<Rightarrow>
      \<exists>session sequence i kind status read b c.
        cd_cancellation s = Some c \<and> kind_agrees c i kind
        \<and> handle_cancellation_completion env hn cx session sequence s i kind status read = Inr b
        \<and> s' = ho_state b
        \<and> (if completes_original (builder_new s) i kind
            then i \<notin> done \<and> done' = insert i done else done' = done))"

lemma completion_step_closer:
  assumes "completion_step env hn cx session sequence i kind outcome b = Inr b'"
    and "cancels b c" and "kind_agrees c i kind"
    and "if completes_original b i kind then i \<notin> done \<and> done' = insert i done else done' = done"
  shows "\<exists>c'. cancels b' c' \<and> closer done' c' done c"
  using assms
  by (cases kind)
    (auto simp: completion_step_def completes_original_def split: if_splits
      dest: handle_withdrawal_closer handle_llm_cancellation_closer handle_process_closer
        handle_discovery_closer handle_original_closer)

lemma accepts_completion_closer:
  assumes "accepts_completion env hn cx (s, done) (s', done')"
  shows "\<exists>c c'. cd_cancellation s = Some c \<and> cd_cancellation s' = Some c'
    \<and> closer done' c' done c"
proof -
  obtain session sequence i kind status read b c where c: "cd_cancellation s = Some c"
    and agrees: "kind_agrees c i kind"
    and run: "handle_cancellation_completion env hn cx session sequence s i kind status read = Inr b"
    and s': "s' = ho_state b"
    and once: "if completes_original (builder_new s) i kind then i \<notin> done \<and> done' = insert i done
      else done' = done"
    using assms unfolding accepts_completion_def prod.case by blast
  obtain outcome b1 where step: "completion_step env hn cx session sequence i kind outcome
      (builder_new s) = Inr b1" and b: "b = set_lifecycle_status True b1"
    using run by (auto simp: handle_cancellation_completion_def result_simps split: sum.splits)
  have "cancels (builder_new s) c" using c by simp
  from completion_step_closer [OF step this agrees once] show ?thesis
    using c s' b by (auto simp: cancels_lifecycle)
qed

definition cleanup_measure :: "codex_state \<times> operation_id set \<Rightarrow> nat \<times> nat" where
  "cleanup_measure x =
     (case x of (s, done) \<Rightarrow> (case cd_cancellation s of
        None \<Rightarrow> (0, 0) | Some c \<Rightarrow> (sources_left done c, controls_left c)))"

lemma accepts_completion_measure:
  assumes "accepts_completion env hn cx x y"
  shows "(cleanup_measure y, cleanup_measure x) \<in> less_than <*lex*> less_than"
  using accepts_completion_closer [of env hn cx "fst x" "snd x" "fst y" "snd y"] assms
  by (cases x; cases y) (auto simp: cleanup_measure_def closer_def)

end
