(* ===== verification/CodexProgress.thy ===== *)
theory CodexProgress
  imports CodexCleanup
begin

text \<open>
  What a cancellation waits for: an invariant of its states, and that the completion of an
  awaited operation is accepted.
\<close>

section \<open>The invariant\<close>

text \<open>A turn waits for one LLM operation or for the operations of tool calls.\<close>

definition targets_ok :: "cancellation_target list \<Rightarrow> bool" where
  "targets_ok ts \<longleftrightarrow>
     list_all (\<lambda>t. ct_kind t = TargetExecution
       \<and> (case ct_control t of LlmCancellationRequested _ _ \<Rightarrow> False | _ \<Rightarrow> True)) ts
     \<or> length ts = 1 \<and> list_all (\<lambda>t. ct_kind t = TargetLlm
       \<and> ct_control t \<noteq> AwaitingDiscovery) ts"

definition cancel_ok :: "cancellation_state \<Rightarrow> bool" where
  "cancel_ok c \<longleftrightarrow>
     targets_ok (cn_targets c)
     \<and> (list_ex (\<lambda>t. ct_control t = AwaitingDiscovery) (cn_targets c) \<longrightarrow> cn_discovery c \<noteq> None)"

lemma cancel_ok_parts [cancel_simps]:
  "cancel_ok (c\<lparr>cn_processes := ps\<rparr>) = cancel_ok c"
  "cancel_ok (c\<lparr>cn_failures := fs\<rparr>) = cancel_ok c"
  "cancel_ok (set_process_control k x c) = cancel_ok c"
  by (simp_all add: cancel_ok_def set_process_control_def)

lemma cancel_ok_discovery: "cancel_ok c \<Longrightarrow> cancel_ok (c\<lparr>cn_discovery := Some d\<rparr>)"
  by (simp add: cancel_ok_def)

text \<open>One target changes and keeps its kind.\<close>

lemma cancel_ok_set_target:
  assumes ok: "cancel_ok c" and k: "k < length (cn_targets c)"
    and kind: "ct_kind (f (cn_targets c ! k)) = ct_kind (cn_targets c ! k)"
    and llm: "ct_kind (cn_targets c ! k) = TargetExecution
      \<Longrightarrow> (case ct_control (f (cn_targets c ! k)) of LlmCancellationRequested _ _ \<Rightarrow> False | _ \<Rightarrow> True)"
    and discovery: "ct_control (f (cn_targets c ! k)) = AwaitingDiscovery
      \<Longrightarrow> cn_discovery c \<noteq> None \<and> ct_kind (cn_targets c ! k) = TargetExecution"
  shows "cancel_ok (set_target k f c)"
proof -
  let ?t = "f (cn_targets c ! k)"
  have member: "cn_targets c ! k \<in> set (cn_targets c)" using k by simp
  have "targets_ok ((cn_targets c)[k := ?t])"
    using ok k kind llm discovery member
    by (fastforce simp: cancel_ok_def targets_ok_def list_all_iff
        dest!: set_update_subset_insert [THEN subsetD])
  moreover have "list_ex (\<lambda>t. ct_control t = AwaitingDiscovery) ((cn_targets c)[k := ?t])
    \<longrightarrow> cn_discovery c \<noteq> None"
    using ok k discovery
    by (auto simp: cancel_ok_def list_ex_iff dest!: set_update_subset_insert [THEN subsetD])
  ultimately show ?thesis by (simp add: cancel_ok_def set_target_def)
qed

lemma cancel_ok_settle_discovered: "cancel_ok c \<Longrightarrow> cancel_ok (settle_discovered c)"
  by (auto simp: cancel_ok_def targets_ok_def settle_discovered_def list_all_iff list_ex_iff
      split: cancellation_control.splits)

text \<open>What a step keeps.\<close>

definition keeps_ok :: "codex_outcome \<Rightarrow> codex_outcome \<Rightarrow> bool" where
  "keeps_ok b b' \<longleftrightarrow> (\<forall>c. cancels b c \<and> cancel_ok c \<longrightarrow> (\<exists>c'. cancels b' c' \<and> cancel_ok c'))"

lemma keeps_okI: "(\<And>c. cancels b c \<Longrightarrow> cancel_ok c \<Longrightarrow> \<exists>c'. cancels b' c' \<and> cancel_ok c') \<Longrightarrow> keeps_ok b b'"
  by (simp add: keeps_ok_def)

lemma only_processes_keeps: "only_processes b b' \<Longrightarrow> keeps_ok b b'"
  by (rule keeps_okI, erule only_processesD, assumption) (simp add: cancel_ok_parts)

section \<open>Staging succeeds\<close>

lemma stage_single:
  "operation \<noteq> ExecShutdown \<Longrightarrow> stage_execution env hn cx g (Single operation) m b =
     Inr (next_operation env b, push_operation (next_operation env b)
       (ExecutionReq (hn_execution_connection hn) (cx_machine_id cx) g (Single operation)) b)"
  by (simp add: stage_execution_def request_execution_def request_execution_for_generation_def
      split: option.splits)

lemma stage_interrupt_total:
  assumes "cancels b c"
  shows "\<exists>b'. stage_interrupt env hn cx sequence p b = Inr b'"
  by (cases p) (simp add: stage_interrupt_def cancellation_of_cancels [OF assms] stage_single)

lemma stage_interrupts_total:
  assumes "cancels b c"
  shows "\<exists>b'. foldR (stage_interrupt env hn cx sequence) ps b = Inr b'"
  using assms
proof (induction ps arbitrary: b c)
  case Nil
  then show ?case by simp
next
  case (Cons p ps)
  obtain b1 where b1: "stage_interrupt env hn cx sequence p b = Inr b1"
    using stage_interrupt_total [OF Cons.prems] by blast
  from only_processesD [OF stage_interrupt_only [OF b1] Cons.prems] obtain ps
    where "cancels b1 (c\<lparr>cn_processes := cn_processes c @ ps\<rparr>)" .
  from Cons.IH [OF this] b1 show ?case by simp
qed

lemma stage_terminate_total:
  assumes "cancels b c" and "k < length (cn_processes c)"
  shows "\<exists>b'. stage_terminate env hn cx k handle attempt b = Inr b'"
  using assms by (simp add: stage_terminate_def stage_single cancellation_of_def nth_opt_def)

lemma stage_discovery_total:
  assumes "cancels b c"
  shows "\<exists>b'. stage_discovery env hn cx session attempt b = Inr b'"
  by (simp add: stage_discovery_def cancellation_of_cancels [OF assms] Let_def stage_single)

section \<open>Each step keeps the invariant\<close>

lemma target_for_control_Inr:
  assumes "target_for_control b i = Inr k" and "cancels b c"
  shows "k < length (cn_targets c)" "awaits_control i (ct_control (cn_targets c ! k))"
  using assms by (auto simp: target_for_control_def result_simps dest: position_Some)

lemma handle_withdrawal_ok:
  assumes "handle_withdrawal env i outcome b = Inr b'"
  shows "keeps_ok b b'"
proof (rule keeps_okI)
  fix c assume c: "cancels b c" and ok: "cancel_ok c"
  obtain k where k: "target_for_control b i = Inr k"
    using assms by (auto simp: handle_withdrawal_def result_simps)
  note pos = target_for_control_Inr [OF k c]
  have "(cancels b' (set_target k (\<lambda>t. t\<lparr>ct_original_completed := True, ct_control := Settled\<rparr>) c))
    \<or> ct_kind (cn_targets c ! k) = TargetLlm
      \<and> cancels b' (set_control k (LlmCancellationRequested (next_operation env b) 1) c)
    \<or> cancels b' (set_control k Settled c) \<or> cancels b' (set_control k AwaitingCompletion c)"
    using assms k pos c
    by (auto simp: handle_withdrawal_def cancellation_of_cancels result_simps nth_opt_def
        cancels_on Let_def request_llm_cancellation_def split: if_splits target_kind.splits)
  then show "\<exists>c'. cancels b' c' \<and> cancel_ok c'"
    using ok pos(1) by (auto simp: set_control_def intro!: cancel_ok_set_target)
qed

lemma handle_llm_cancellation_ok:
  assumes "handle_llm_cancellation env i outcome b = Inr b'"
  shows "keeps_ok b b'"
proof (rule keeps_okI)
  fix c assume c: "cancels b c" and ok: "cancel_ok c"
  obtain k where k: "target_for_control b i = Inr k"
    using assms by (auto simp: handle_llm_cancellation_def result_simps)
  note pos = target_for_control_Inr [OF k c]
  obtain j a where control: "ct_control (cn_targets c ! k) = LlmCancellationRequested j a"
    using assms k pos c
    by (auto simp: handle_llm_cancellation_def cancellation_of_cancels nth_opt_def
        split: cancellation_control.splits)
  have member: "cn_targets c ! k \<in> set (cn_targets c)" using pos by simp
  have llm: "ct_kind (cn_targets c ! k) = TargetLlm"
    using ok control member by (auto simp: cancel_ok_def targets_ok_def list_all_iff)
  from llm_cancellation_work [OF assms c k pos(1) control] obtain c' where c': "cancels b' c'"
    and "work c' = work (set_control k Settled c)
      \<or> a < max_cleanup_attempts \<and> work c' = work (set_control k
          (LlmCancellationRequested (next_operation env b) (a + 1)) c)" by blast
  moreover have "cancel_ok (set_control k Settled c)"
    "cancel_ok (set_control k (LlmCancellationRequested x n) c)" for x n
    using ok pos(1) llm by (auto simp: set_control_def intro!: cancel_ok_set_target)
  ultimately have "cancel_ok c'" by (auto simp: cancel_ok_def work_def)
  with c' show "\<exists>c'. cancels b' c' \<and> cancel_ok c'" by blast
qed

lemma keeps_ok_trans: "keeps_ok b b' \<Longrightarrow> keeps_ok b' b'' \<Longrightarrow> keeps_ok b b''"
  by (meson keeps_ok_def)

lemma keeps_ok_settle: "keeps_ok b (settle_process k session b)"
  by (rule keeps_okI) (auto simp: cancels_settle_process cancel_ok_parts)

lemma keeps_ok_record: "keeps_ok b (record_cleanup_failure i failure b)"
  by (rule keeps_okI) (simp add: cancels_record cancel_ok_parts)

lemma stage_terminate_ok: "stage_terminate env hn cx k handle attempt b = Inr b' \<Longrightarrow> keeps_ok b b'"
  by (rule keeps_okI, drule stage_terminate_Inr(2), assumption) (auto simp: cancel_ok_parts)

lemma stage_discovery_ok: "stage_discovery env hn cx session attempt b = Inr b' \<Longrightarrow> keeps_ok b b'"
  by (rule keeps_okI, drule stage_discovery_Inr, assumption) (auto intro: cancel_ok_discovery)

lemma keeps_ok_refl: "keeps_ok b b"
  by (simp add: keeps_ok_def)

lemma keeps_ok_progress: "keeps_ok b (emit_progress p b') = keeps_ok b b'"
  by (simp add: keeps_ok_def)

lemma handle_process_ok:
  assumes run: "handle_process_control env hn cx sequence i outcome b = Inr b'"
  shows "keeps_ok b b'"
proof -
  obtain c k where c: "cancels b c" and k: "process_for_control b i = Inr k"
    and pos: "k < length (cn_processes c)"
    using run by (auto simp: handle_process_control_def result_simps)
  note step = run [unfolded handle_process_control_def k cancellation_of_cancels [OF c]
      bindR_simps]
  show ?thesis
  proof (cases "pc_control (cn_processes c ! k)")
    case ProcessSettled
    then show ?thesis using step pos by (simp add: result_simps nth_opt_def keeps_ok_refl)
  next
    case InterruptRequested
    then show ?thesis using step pos
      by (auto simp: result_simps nth_opt_def Let_def split: if_splits
          intro: keeps_ok_settle stage_terminate_ok)
  next
    case (TerminateRequested j a)
    show ?thesis
      using step pos TerminateRequested
      by (cases outcome; cases "a < max_cleanup_attempts")
        (auto simp: result_simps nth_opt_def Let_def keeps_ok_progress
          intro: keeps_ok_settle keeps_ok_trans [OF keeps_ok_record]
            keeps_ok_trans [OF keeps_ok_record keeps_ok_settle] stage_terminate_ok)
  qed
qed

lemma handle_original_ok:
  assumes run: "handle_original_completion env hn cx session sequence i kind outcome b = Inr b'"
  shows "keeps_ok b b'"
proof (rule keeps_okI)
  fix c assume c: "cancels b c" and ok: "cancel_ok c"
  obtain k where k: "position (\<lambda>t. ct_operation_id t = i) (cn_targets c) = Some k"
    and kind: "ct_kind (cn_targets c ! k) = kind"
    using run c by (auto simp: handle_original_completion_def result_simps)
  then have pos: "k < length (cn_targets c)"
    by (auto dest: position_Some)
  let ?ps = "running_processes (executions_from_outcome env outcome)"
  let ?mark = "set_target k (\<lambda>t. t\<lparr>ct_original_completed := True\<rparr>)"
  obtain b1 where interrupts: "foldR (stage_interrupt env hn cx sequence) ?ps b = Inr b1"
    using run c k by (auto simp: handle_original_completion_def result_simps Let_def)
  from only_processesD [OF stage_interrupts_only [OF this] c]
  obtain ps where b1: "cancels b1 (c\<lparr>cn_processes := cn_processes c @ ps\<rparr>)" .
  let ?c1 = "c\<lparr>cn_processes := cn_processes c @ ps\<rparr>"
  have ok1: "cancel_ok ?c1" using ok by (simp add: cancel_ok_parts)
  have step: "cancel_ok (set_target k f c')"
    if "cancel_ok c'" "cn_targets c' = cn_targets c" "\<And>t. ct_kind (f t) = ct_kind t"
      "\<And>t. ct_control (f t) = ct_control t \<or> ct_control (f t) = Settled" for f c'
  proof (rule cancel_ok_set_target [OF that(1)])
    show "k < length (cn_targets c')" using pos that(2) by simp
    let ?t = "cn_targets c ! k"
    have member: "?t \<in> set (cn_targets c)" using pos by simp
    show "ct_kind (f (cn_targets c' ! k)) = ct_kind (cn_targets c' ! k)" by (rule that(3))
    have old: "cancel_ok c'" "targets_ok (cn_targets c)"
      using that(1,2) by (simp_all add: cancel_ok_def)
    show "case ct_control (f (cn_targets c' ! k)) of LlmCancellationRequested _ _ \<Rightarrow> False | _ \<Rightarrow> True"
      if "ct_kind (cn_targets c' ! k) = TargetExecution"
      using that \<open>cn_targets c' = cn_targets c\<close> member old(2)
        \<open>\<And>t. ct_control (f t) = ct_control t \<or> ct_control (f t) = Settled\<close> [of ?t]
      by (auto simp: targets_ok_def list_all_iff)
    show "cn_discovery c' \<noteq> None \<and> ct_kind (cn_targets c' ! k) = TargetExecution"
      if "ct_control (f (cn_targets c' ! k)) = AwaitingDiscovery"
    proof -
      have "ct_control ?t = AwaitingDiscovery"
        using that \<open>cn_targets c' = cn_targets c\<close>
          \<open>\<And>t. ct_control (f t) = ct_control t \<or> ct_control (f t) = Settled\<close> [of ?t]
        by simp
      with member old \<open>cn_targets c' = cn_targets c\<close> show ?thesis
        by (auto simp: targets_ok_def cancel_ok_def list_all_iff list_ex_iff)
    qed
  qed
  have marked: "cancel_ok (?mark ?c1)" using ok1 by (intro step) auto
  have control: "ct_kind (cn_targets (?mark ?c1) ! k) = kind"
    "k < length (cn_targets (?mark ?c1))" "cn_discovery (?mark ?c1) = cn_discovery c"
    using pos kind by (simp_all add: set_target_def)
  let ?b2 = "on_cancellation ?mark b1"
  let ?b3 = "on_cancellation (set_control k AwaitingDiscovery) ?b2"
  have b2: "cancels ?b2 (?mark ?c1)" by (simp only: cancels_on b1 option.map)
  have b3: "cancels ?b3 (set_control k AwaitingDiscovery (?mark ?c1))"
    by (simp only: cancels_on b1 option.map)
  from run c k interrupts have "cancels b' (set_control k Settled (?mark ?c1))
    \<or> cancels b' (?mark ?c1)
    \<or> kind = TargetExecution \<and> (cn_discovery c = None
        \<and> stage_discovery env hn cx session 1 ?b3 = Inr b' \<or> cn_discovery c \<noteq> None \<and> b' = ?b3)"
    using b2
    by (auto simp: handle_original_completion_def cancellation_of_cancels result_simps Let_def
        cancels_on split: if_splits)
  then show "\<exists>c'. cancels b' c' \<and> cancel_ok c'"
  proof (elim disjE conjE)
    assume "cancels b' (set_control k Settled (?mark ?c1))"
    moreover have "cancel_ok (set_control k Settled (?mark ?c1))"
      unfolding set_control_def by (rule cancel_ok_set_target [OF marked control(2)]) auto
    ultimately show ?thesis by blast
  next
    assume "kind = TargetExecution" and stage: "stage_discovery env hn cx session 1 ?b3 = Inr b'"
    then have "cancel_ok (set_control k AwaitingDiscovery ((?mark ?c1)\<lparr>cn_discovery := Some d\<rparr>))" for d
      unfolding set_control_def using control pos
      by (intro cancel_ok_set_target cancel_ok_discovery [OF marked]) (auto simp: set_target_def)
    moreover have "set_control k AwaitingDiscovery ((?mark ?c1)\<lparr>cn_discovery := Some d\<rparr>)
      = (set_control k AwaitingDiscovery (?mark ?c1))\<lparr>cn_discovery := Some d\<rparr>" for d
      by (simp add: set_control_def set_target_def)
    ultimately show ?thesis using stage_discovery_Inr [OF stage b3] by metis
  next
    assume "kind = TargetExecution" "cn_discovery c \<noteq> None" "b' = ?b3"
    moreover have "cancel_ok (set_control k AwaitingDiscovery (?mark ?c1))"
      unfolding set_control_def using control calculation
      by (intro cancel_ok_set_target [OF marked control(2)]) auto
    ultimately show ?thesis using b3 by blast
  qed (use marked in blast)
qed

lemma handle_discovery_ok:
  assumes run: "handle_discovery env hn cx session sequence i outcome b = Inr b'"
  shows "keeps_ok b b'"
proof -
  let ?b0 = "case outcome of
      ReadFailed failure \<Rightarrow> record_cleanup_failure i failure b
    | ReadUnknown failure \<Rightarrow> record_cleanup_failure i failure b
    | _ \<Rightarrow> b"
  have b0: "keeps_ok b ?b0"
    by (cases outcome) (simp_all add: keeps_ok_refl keeps_ok_record)
  have settled: "keeps_ok b (on_cancellation settle_discovered b)"
    by (rule keeps_okI) (simp add: cancels_on cancel_ok_settle_discovered)
  obtain c where c: "cancels b c"
    using run by (auto simp: handle_discovery_def result_simps)
  have "(\<exists>n. stage_discovery env hn cx session n ?b0 = Inr b')
    \<or> (\<exists>ps. foldR (stage_interrupt env hn cx sequence) ps (on_cancellation settle_discovered b)
      = Inr b')"
    using run unfolding handle_discovery_def cancellation_of_cancels [OF c]
    by (auto simp: result_simps Let_def split: if_splits)
  then show ?thesis
    using keeps_ok_trans [OF b0 stage_discovery_ok]
      keeps_ok_trans [OF settled only_processes_keeps [OF stage_interrupts_only]] by blast
qed

lemma completion_step_ok:
  "completion_step env hn cx session sequence i kind outcome b = Inr b' \<Longrightarrow> keeps_ok b b'"
  by (cases kind)
    (auto simp: completion_step_def split: if_splits
      dest: handle_withdrawal_ok handle_llm_cancellation_ok handle_process_ok
        handle_discovery_ok handle_original_ok)

lemma stage_withdrawal_ok:
  assumes "stage_withdrawal env k b = Inr b'"
  shows "keeps_ok b b'"
proof (rule keeps_okI)
  fix c assume "cancels b c" and ok: "cancel_ok c"
  then have "k < length (cn_targets c)"
    and "cancels b' (set_control k (WithdrawalRequested (next_operation env b)) c)"
    using assms by (auto simp: stage_withdrawal_def result_simps withdraw_operation_def cancels_on)
  moreover from this(1) have "cancel_ok (set_control k (WithdrawalRequested (next_operation env b)) c)"
    unfolding set_control_def by (intro cancel_ok_set_target [OF ok]) auto
  ultimately show "\<exists>c'. cancels b' c' \<and> cancel_ok c'" by blast
qed

lemma foldR_keeps:
  assumes "foldR f xs b = Inr b'" and "\<And>x b b'. f x b = Inr b' \<Longrightarrow> keeps_ok b b'"
  shows "keeps_ok b b'"
  by (rule foldR_invariant [OF assms(1), where P = "keeps_ok b"])
    (auto intro: keeps_ok_refl keeps_ok_trans assms(2))

lemma cancellation_targets_ok:
  "cancellation_targets turn = Inr ts \<Longrightarrow> targets_ok (map new_target ts)"
  by (auto simp: cancellation_targets_def targets_ok_def new_target_def list_all_iff
      List.map_filter_def split: option.splits turn_phase.splits tool_call_status.splits)

lemma begin_cancellation_ok:
  assumes run: "begin_cancellation env hn cx s reason sequence = Inr b"
    and new: "cd_cancellation s = None"
  shows "\<exists>c. cancels b c \<and> cancel_ok c"
proof -
  obtain ts where ts: "cancellation_targets (cd_active_turn s) = Inr ts"
    using run new by (auto simp: begin_cancellation_def result_simps)
  define c0 where "c0 = \<lparr>cn_reason = reason, cn_requested_at = sequence,
    cn_turn_id = map_option at_id (cd_active_turn s), cn_targets = map new_target ts,
    cn_processes = [], cn_discovery = None, cn_failures = []\<rparr>"
  define b0 where "b0 = builder_new (s\<lparr>cd_active_turn := map_option (\<lambda>turn.
    turn\<lparr>at_pending_steering := [], at_phase := Cancelling\<rparr>) (cd_active_turn s),
    cd_cancellation := Some c0\<rparr>)"
  have c0: "cancels b0 c0" and ok: "cancel_ok c0"
    using cancellation_targets_ok [OF ts]
    by (auto simp: b0_def c0_def cancel_ok_def new_target_def list_ex_iff)
  obtain b1 b2 c p where w: "foldR (stage_withdrawal env) [0..<length ts] b0 = Inr b1"
    and i: "foldR (stage_interrupt env hn cx sequence)
      (map (\<lambda>e. (Some (te_session_id e), te_handle e)) (cd_executions s)) b1 = Inr b2"
    and b: "b = set_lifecycle_status True (emit_progress p b2)"
    using run new ts by (auto simp: begin_cancellation_def result_simps Let_def b0_def c0_def)
  have "keeps_ok b0 b1" by (rule foldR_keeps [OF w]) (rule stage_withdrawal_ok)
  moreover have "keeps_ok b1 b2" by (rule only_processes_keeps [OF stage_interrupts_only [OF i]])
  ultimately show ?thesis
    using c0 ok b by (auto simp: keeps_ok_def cancels_lifecycle dest: keeps_ok_trans)
qed

section \<open>Awaited operations\<close>

text \<open>The operations an unsettled cancellation waits for, with their kinds.\<close>

fun target_op_kind :: "target_kind \<Rightarrow> operation_kind" where
  "target_op_kind TargetLlm = KindLlm"
| "target_op_kind TargetExecution = KindExecution"

definition awaited_by_target :: "cancellation_target \<Rightarrow> (operation_id \<times> operation_kind) list" where
  "awaited_by_target t =
     (case ct_control t of
        WithdrawalRequested i \<Rightarrow> [(i, KindWithdraw)]
      | LlmCancellationRequested i _ \<Rightarrow> [(i, KindLlmCancellation)]
      | AwaitingCompletion \<Rightarrow>
          if ct_original_completed t then [] else [(ct_operation_id t, target_op_kind (ct_kind t))]
      | _ \<Rightarrow> [])"

definition awaited_by_process :: "process_cleanup \<Rightarrow> (operation_id \<times> operation_kind) list" where
  "awaited_by_process p =
     (case pc_control p of
        InterruptRequested i \<Rightarrow> [(i, KindExecution)]
      | TerminateRequested i _ \<Rightarrow> [(i, KindExecution)]
      | ProcessSettled \<Rightarrow> [])"

definition awaited :: "cancellation_state \<Rightarrow> (operation_id \<times> operation_kind) list" where
  "awaited c = concat (map awaited_by_target (cn_targets c))
     @ concat (map awaited_by_process (cn_processes c))
     @ (case cn_discovery c of None \<Rightarrow> [] | Some d \<Rightarrow> [(pd_operation_id d, KindExecution)])"

lemma awaited_empty:
  assumes ok: "cancel_ok c" and none: "awaited c = []"
  shows "cancellation_settled c"
proof -
  have "cn_discovery c = None" using none by (auto simp: awaited_def split: option.splits)
  moreover have "pc_control p = ProcessSettled" if "p \<in> set (cn_processes c)" for p
    using none that
    by (cases "pc_control p") (auto simp: awaited_def awaited_by_process_def)
  moreover have "target_settled t" if t: "t \<in> set (cn_targets c)" for t
  proof -
    have "ct_control t \<noteq> AwaitingDiscovery"
      using ok t \<open>cn_discovery c = None\<close> by (auto simp: cancel_ok_def list_ex_iff)
    moreover have "awaited_by_target t = []" using none t by (auto simp: awaited_def)
    ultimately show ?thesis
      by (auto simp: awaited_by_target_def target_settled_def
          split: cancellation_control.splits if_splits)
  qed
  ultimately show ?thesis by (simp add: cancellation_settled_def list_all_iff)
qed

text \<open>A result of the operation's kind.\<close>

definition fits :: "operation_kind \<Rightarrow> read_outcome \<Rightarrow> bool" where
  "fits kind outcome =
     (case outcome of
        ReadSucceeded r \<Rightarrow>
         (case (kind, r) of
            (KindLlm, ReadLlm _) \<Rightarrow> True
          | (KindExecution, ReadExecution _) \<Rightarrow> True
          | (KindLlmCancellation, ReadLlmCancellation _) \<Rightarrow> True
          | (KindWithdraw, ReadWithdraw _) \<Rightarrow> True
          | _ \<Rightarrow> False)
      | _ \<Rightarrow> True)"

lemma position_exists: "x \<in> set xs \<Longrightarrow> p x \<Longrightarrow> \<exists>k. position p xs = Some k"
  by (cases "position p xs") (auto simp: position_None)

lemma withdrawal_accepted:
  assumes c: "cancels b c" and t: "t \<in> set (cn_targets c)" "awaits_control i (ct_control t)"
    and fits: "fits KindWithdraw outcome"
  shows "\<exists>b'. handle_withdrawal env i outcome b = Inr b'"
proof -
  obtain k where "position (\<lambda>t. awaits_control i (ct_control t)) (cn_targets c) = Some k"
    using position_exists [OF t(1), of "\<lambda>t. awaits_control i (ct_control t)"] t(2) by blast
  moreover from this have "k < length (cn_targets c)" by (auto dest: position_Some)
  moreover have "case outcome of
      ReadSucceeded r \<Rightarrow> (case r of ReadWithdraw _ \<Rightarrow> True | _ \<Rightarrow> False) | _ \<Rightarrow> True"
    using fits by (auto simp: fits_def split: read_outcome.splits read_result.splits)
  ultimately show ?thesis
    by (auto simp: handle_withdrawal_def target_for_control_def cancellation_of_cancels [OF c]
        nth_opt_def Let_def request_llm_cancellation_def split: target_kind.split)
qed

lemma llm_cancellation_accepted:
  assumes ok: "cancel_ok c" and c: "cancels b c" and t: "t \<in> set (cn_targets c)"
    "ct_control t = LlmCancellationRequested i a" and fits: "fits KindLlmCancellation outcome"
  shows "\<exists>b'. handle_llm_cancellation env i outcome b = Inr b'"
proof -
  have "cn_targets c = [t]"
    using ok t by (cases "cn_targets c") (auto simp: cancel_ok_def targets_ok_def list_all_iff)
  then have "target_for_control b i = Inr 0"
    using t by (simp add: target_for_control_def cancellation_of_cancels [OF c] awaits_control_def)
  then show ?thesis
    using fits \<open>cn_targets c = [t]\<close> t
    by (cases outcome) (auto simp: handle_llm_cancellation_def cancellation_of_cancels [OF c]
        nth_opt_def Let_def request_llm_cancellation_def fits_def split: read_result.splits)
qed

lemma original_accepted:
  assumes ok: "cancel_ok c" and c: "cancels b c" and t: "t \<in> set (cn_targets c)"
    "ct_operation_id t = i" "ct_kind t = kind" and fits: "late_result_ok kind outcome"
  shows "\<exists>b'. handle_original_completion env hn cx session sequence i kind outcome b = Inr b'"
proof -
  obtain k where k: "position (\<lambda>t. ct_operation_id t = i) (cn_targets c) = Some k"
    using position_exists [OF t(1), of "\<lambda>t. ct_operation_id t = i"] t(2) by blast
  then have "cn_targets c ! k \<in> set (cn_targets c)" by (auto dest: position_Some)
  then have kind: "ct_kind (cn_targets c ! k) = kind"
    using ok t by (cases "cn_targets c") (auto simp: cancel_ok_def targets_ok_def list_all_iff)
  obtain b1 where b1: "foldR (stage_interrupt env hn cx sequence)
      (running_processes (executions_from_outcome env outcome)) b = Inr b1"
    using stage_interrupts_total [OF c] by blast
  from only_processesD [OF stage_interrupts_only [OF this] c] obtain ps
    where c1: "cancels b1 (c\<lparr>cn_processes := cn_processes c @ ps\<rparr>)" .
  have "cancels (on_cancellation (set_control k AwaitingDiscovery)
      (on_cancellation (set_target k (\<lambda>t. t\<lparr>ct_original_completed := True\<rparr>)) b1))
    (set_control k AwaitingDiscovery (set_target k (\<lambda>t. t\<lparr>ct_original_completed := True\<rparr>)
      (c\<lparr>cn_processes := cn_processes c @ ps\<rparr>)))"
    by (simp only: cancels_on c1 option.map)
  from stage_discovery_total [OF this] obtain b4 where "stage_discovery env hn cx session 1
      (on_cancellation (set_control k AwaitingDiscovery)
      (on_cancellation (set_target k (\<lambda>t. t\<lparr>ct_original_completed := True\<rparr>)) b1)) = Inr b4" by blast
  then show ?thesis
    using fits b1 kind
    by (simp add: handle_original_completion_def cancellation_of_cancels [OF c] k Let_def)
qed

lemma process_accepted:
  assumes c: "cancels b c" and i: "is_process_control b i" and fits: "is_execution_result outcome"
  shows "\<exists>b'. handle_process_control env hn cx sequence i outcome b = Inr b'"
proof -
  obtain k where pos: "position (\<lambda>p. awaits_process i (pc_control p)) (cn_processes c) = Some k"
    using i c position_exists [where p = "\<lambda>p. awaits_process i (pc_control p)"]
    by (auto simp: is_process_control_def list_ex_iff)
  then have k: "k < length (cn_processes c)" by (auto dest: position_Some)
  have again: "\<exists>b'. stage_terminate env hn cx k h n (record_cleanup_failure i failure b) = Inr b'"
    for h n failure
    by (rule stage_terminate_total [of _ "c\<lparr>cn_failures := cn_failures c
        @ [\<lparr>cf_operation_id = i, cf_code = rf_code failure, cf_message = rf_message failure\<rparr>]\<rparr>"])
      (use c k in \<open>simp_all add: cancels_record\<close>)
  have first: "\<exists>b'. stage_terminate env hn cx k h n b = Inr b'" for h n
    by (rule stage_terminate_total [OF c k])
  show ?thesis
    using fits again first k
    by (cases "pc_control (cn_processes c ! k)"; cases outcome)
      (auto simp: handle_process_control_def process_for_control_def pos nth_opt_def Let_def
        cancellation_of_cancels [OF c])
qed

lemma discovery_accepted:
  assumes c: "cancels b c" and d: "cn_discovery c = Some d" and fits: "is_execution_result outcome"
  shows "\<exists>b'. handle_discovery env hn cx session sequence i outcome b = Inr b'"
proof -
  have recorded: "cancels (record_cleanup_failure i failure b) (c\<lparr>cn_failures := cn_failures c
        @ [\<lparr>cf_operation_id = i, cf_code = rf_code failure, cf_message = rf_message failure\<rparr>]\<rparr>)"
    for failure using c by (simp add: cancels_record)
  have settled: "cancels (on_cancellation settle_discovered b) (settle_discovered c)"
    using c by (simp add: cancels_on)
  show ?thesis
    using fits d stage_discovery_total [OF recorded] stage_discovery_total [OF c]
      stage_interrupts_total [OF settled]
    by (cases outcome) (simp_all add: handle_discovery_def cancellation_of_cancels [OF c] Let_def)
qed

lemma awaited_accepted:
  assumes ok: "cancel_ok c" and c: "cancels b c" and i: "(i, kind) \<in> set (awaited c)"
    and fits: "fits kind outcome"
  shows "\<exists>b'. completion_step env hn cx session sequence i kind outcome b = Inr b'"
proof -
  from i consider t where "t \<in> set (cn_targets c)" "(i, kind) \<in> set (awaited_by_target t)"
    | p where "p \<in> set (cn_processes c)" "(i, kind) \<in> set (awaited_by_process p)"
    | d where "cn_discovery c = Some d" "i = pd_operation_id d" "kind = KindExecution"
    by (cases "cn_discovery c") (auto simp: awaited_def)
  then show ?thesis
  proof cases
    case (1 t)
    from 1(2) consider
        "ct_control t = WithdrawalRequested i" "kind = KindWithdraw"
      | a where "ct_control t = LlmCancellationRequested i a" "kind = KindLlmCancellation"
      | "ct_operation_id t = i" "kind = target_op_kind (ct_kind t)"
      by (auto simp: awaited_by_target_def split: cancellation_control.splits if_splits)
    then show ?thesis
    proof cases
      case 1
      with withdrawal_accepted [OF c \<open>t \<in> set (cn_targets c)\<close>] fits show ?thesis
        by (simp add: completion_step_def awaits_control_def)
    next
      case 2
      with llm_cancellation_accepted [OF ok c \<open>t \<in> set (cn_targets c)\<close>] fits show ?thesis
        by (simp add: completion_step_def)
    next
      case 3
      have late: "late_result_ok (ct_kind t) outcome"
        using fits 3(2) by (cases "ct_kind t")
          (auto simp: fits_def late_result_ok_def split: read_outcome.splits read_result.splits)
      have original: "\<exists>b'. handle_original_completion env hn cx session sequence i (ct_kind t) outcome b
          = Inr b'"
        by (rule original_accepted [OF ok c \<open>t \<in> set (cn_targets c)\<close> 3(1) refl late])
      show ?thesis
      proof (cases "ct_kind t")
        case TargetLlm
        with original 3(2) show ?thesis by (simp add: completion_step_def)
      next
        case TargetExecution
        then have "is_execution_result outcome" and kind: "kind = KindExecution"
          using late 3(2) by (auto simp: late_result_ok_def
              split: read_outcome.splits read_result.splits)
        with original TargetExecution show ?thesis
          using process_accepted [OF c] discovery_accepted [OF c] c
          by (auto simp: completion_step_def is_discovery_def split: option.splits)
      qed
    qed
  next
    case (2 p)
    then have "awaits_process i (pc_control p)" "kind = KindExecution"
      by (cases "pc_control p"; simp add: awaited_by_process_def awaits_process_def)+
    then have "is_process_control b i" "kind = KindExecution"
      using c 2(1) by (auto simp: is_process_control_def list_ex_iff)
    moreover have "is_execution_result outcome"
      using fits calculation by (auto simp: fits_def split: read_outcome.splits read_result.splits)
    ultimately show ?thesis
      using process_accepted [OF c] by (simp add: completion_step_def)
  next
    case (3 d)
    then have "is_discovery b i" using c by (simp add: is_discovery_def)
    moreover have "is_execution_result outcome"
      using fits 3 by (auto simp: fits_def split: read_outcome.splits read_result.splits)
    ultimately show ?thesis
      using process_accepted [OF c] discovery_accepted [OF c 3(1)] 3(3)
      by (simp add: completion_step_def)
  qed
qed

section \<open>Cancelling sessions\<close>

text \<open>The states a cancellation goes through, whatever completions its handler accepts.\<close>

inductive cancelling :: "codex_env \<Rightarrow> codex_harness \<Rightarrow> codex_config \<Rightarrow> codex_state \<Rightarrow> bool"
  for env hn cx where
  begun: "cd_cancellation s = None \<Longrightarrow> begin_cancellation env hn cx s reason sequence = Inr b
    \<Longrightarrow> cancelling env hn cx (ho_state b)"
| completed: "cancelling env hn cx s
    \<Longrightarrow> handle_cancellation_completion env hn cx session sequence s i kind status read = Inr b
    \<Longrightarrow> cancelling env hn cx (ho_state b)"

lemma handle_cancellation_completion_Inr:
  assumes "handle_cancellation_completion env hn cx session sequence s i kind status read = Inr b"
  obtains outcome b1 where "completion_step env hn cx session sequence i kind outcome
      (builder_new s) = Inr b1" "b = set_lifecycle_status True b1"
  using assms by (auto simp: handle_cancellation_completion_def result_simps split: sum.splits)

lemma cancelling_ok: "cancelling env hn cx s \<Longrightarrow> \<exists>c. cd_cancellation s = Some c \<and> cancel_ok c"
proof (induction rule: cancelling.induct)
  case (begun s reason sequence b)
  then show ?case by (blast dest: begin_cancellation_ok)
next
  case (completed s session sequence i kind status read b)
  obtain outcome b1 where step: "completion_step env hn cx session sequence i kind outcome
      (builder_new s) = Inr b1" and b: "b = set_lifecycle_status True b1"
    by (rule handle_cancellation_completion_Inr [OF completed.hyps(2)])
  with completion_step_ok [OF step] completed.IH show ?case
    by (auto simp: keeps_ok_def cancels_lifecycle)
qed

text \<open>The record the platform reports for an operation with this outcome.\<close>

definition completed_record :: "operation_id \<Rightarrow> operation_kind \<Rightarrow> read_outcome \<Rightarrow> read_record" where
  "completed_record i kind outcome = \<lparr>rr_id = i, rr_kind = kind, rr_outcome = Some outcome\<rparr>"

lemma completed_record_step:
  "handle_cancellation_completion env hn cx session sequence s i kind (read_status outcome)
     (Inr (Some (completed_record i kind outcome))) =
   bindR (completion_step env hn cx session sequence i kind outcome (builder_new s))
     (\<lambda>b. Inr (set_lifecycle_status True b))"
  by (simp add: handle_cancellation_completion_def completed_record_def)

lemma awaited_completion_accepted:
  assumes "cancelling env hn cx s" and "cd_cancellation s = Some c"
    and "(i, kind) \<in> set (awaited c)" and "fits kind outcome"
  shows "\<exists>b. handle_cancellation_completion env hn cx session sequence s i kind (read_status outcome)
     (Inr (Some (completed_record i kind outcome))) = Inr b"
proof -
  have "cancel_ok c" using cancelling_ok [OF assms(1)] assms(2) by simp
  moreover have "cancels (builder_new s) c" using assms(2) by simp
  ultimately obtain b where "completion_step env hn cx session sequence i kind outcome
      (builder_new s) = Inr b"
    using awaited_accepted assms(3,4) by blast
  then show ?thesis by (simp add: completed_record_step)
qed

end
