(* ===== verification/CodexPlan.thy ===== *)
theory CodexPlan
  imports Codex
begin

text \<open>
  Tool calls: the catalogue of tools (\<open>tool_catalog.rs\<close>), and how the calls in an assistant
  message become a plan of segments (\<open>tool_plan.rs\<close>), both of
  \<open>packages/basic-codex-harness/src\<close>.
\<close>

section \<open>The catalogue (\<open>tool_catalog.rs\<close>)\<close>

record tool_descriptor =
  td_definition :: tool_definition
  td_kind :: tool_call_kind
  td_scheduling :: tool_scheduling

definition described :: "string \<Rightarrow> string \<Rightarrow> string \<Rightarrow> string \<times> json" where
  "described name type description =
     (name, JObject [(''type'', JString type), (''description'', JString description)])"

definition described_choice ::
    "string \<Rightarrow> string list \<Rightarrow> string \<Rightarrow> string \<times> json" where
  "described_choice name choices description =
     (name, JObject [(''type'', JString ''string''), (''enum'', JArray (map JString choices)),
        (''description'', JString description)])"

text \<open>An object schema that requires one property and allows no others.\<close>

definition object_schema :: "string \<Rightarrow> (string \<times> json) list \<Rightarrow> metadata" where
  "object_schema required properties =
     [(''type'', JString ''object''), (''properties'', JObject properties),
      (''required'', JArray [JString required]), (''additionalProperties'', JBool False)]"

definition exec_command_parameters :: metadata where
  "exec_command_parameters = object_schema ''cmd''
     [described ''cmd'' ''string'' ''Shell command to execute.'',
      described ''workdir'' ''string''
        ''Working directory for the command. Defaults to the turn cwd.'',
      described ''tty'' ''boolean''
        ''True allocates a PTY for the command; false or omitted uses plain pipes.'',
      described ''yield_time_ms'' ''number''
        ''Wait before yielding output. Defaults to 10000 ms; effective range is 250-30000 ms.'',
      described ''max_output_tokens'' ''number''
        ''Output token budget. Defaults to 10000 tokens; larger requests may be capped by policy.'',
      described ''shell'' ''string''
        ''Shell binary to launch. Defaults to the user's default shell.'',
      described ''login'' ''boolean''
        ''True runs the shell with -l/-i semantics; false disables them. Defaults to true.'',
      described_choice ''sandbox_permissions'' [''use_default'', ''require_escalated'']
        ''Per-command sandbox override. Defaults to `use_default`; use `require_escalated` for unsandboxed execution.'',
      described ''justification'' ''string''
        ''User-facing approval question for `require_escalated`; omit otherwise.'',
      (''prefix_rule'', JObject
        [(''type'', JString ''array''),
         (''items'', JObject [(''type'', JString ''string'')]),
         (''description'', JString ''Reusable approval prefix for `cmd`, only with `sandbox_permissions: \"require_escalated\"`; for example [\"git\", \"pull\"].'')])]"

definition write_stdin_parameters :: metadata where
  "write_stdin_parameters = object_schema ''session_id''
     [described ''session_id'' ''number'' ''Identifier of the running unified exec session.'',
      described ''chars'' ''string''
        ''Bytes to write to stdin. Defaults to empty, which polls without writing.'',
      described ''yield_time_ms'' ''number''
        ''Wait before yielding output. Non-empty writes default to 250 ms and cap at 30000 ms; empty polls wait 5000-300000 ms by default.'',
      described ''max_output_tokens'' ''number''
        ''Output token budget. Defaults to 10000 tokens; larger requests may be capped by policy.'']"

definition view_image_parameters :: metadata where
  "view_image_parameters = object_schema ''path''
     [described ''path'' ''string'' ''Local filesystem path to an image file.'',
      described_choice ''detail'' [''high'', ''original'']
        ''Image detail level. Defaults to `high`; use `original` to preserve exact resolution.'']"

definition function_descriptor ::
    "string \<Rightarrow> string \<Rightarrow> metadata \<Rightarrow> tool_scheduling \<Rightarrow> tool_descriptor" where
  "function_descriptor name description parameters scheduling =
     \<lparr>td_definition = FunctionTool name description parameters None (Some False),
      td_kind = CallFunction, td_scheduling = scheduling\<rparr>"

definition descriptors :: "codex_env \<Rightarrow> tool_descriptor list" where
  "descriptors env =
     [function_descriptor ''exec_command''
        ''Runs a command in a PTY, returning output or a session ID for ongoing interaction.''
        exec_command_parameters ParallelSafe,
      function_descriptor ''write_stdin''
        ''Writes characters to an existing unified exec session and returns recent output.''
        write_stdin_parameters ParallelSafe,
      \<lparr>td_definition = CustomTool ''apply_patch''
         ''The `apply_patch` tool can be used to edit files. This is a FREEFORM tool, so do not wrap the patch in JSON.''
         (xv_patch_grammar env),
       td_kind = CallCustom, td_scheduling = Exclusive\<rparr>,
      function_descriptor ''view_image''
        ''View a local image file from the filesystem when visual inspection is needed. Use this for images already available on disk.''
        view_image_parameters ParallelSafe]"

fun tool_name :: "tool_definition \<Rightarrow> string" where
  "tool_name (FunctionTool name _ _ _ _) = name"
| "tool_name (CustomTool name _ _) = name"

fun parameters_of :: "tool_definition \<Rightarrow> metadata option" where
  "parameters_of (FunctionTool _ _ parameters _ _) = Some parameters"
| "parameters_of (CustomTool _ _ _) = None"

definition tool_definitions :: "codex_env \<Rightarrow> tool_definition list" where
  "tool_definitions env = map td_definition (descriptors env)"

definition descriptor :: "codex_env \<Rightarrow> string \<Rightarrow> tool_descriptor option" where
  "descriptor env name = List.find (\<lambda>d. tool_name (td_definition d) = name) (descriptors env)"

text \<open>The parameters a function call is checked against are there: the \<open>expect\<close> cannot fail.\<close>

lemma descriptor_parameters:
  "descriptor env name = Some d \<Longrightarrow> td_kind d = CallFunction
    \<Longrightarrow> parameters_of (td_definition d) \<noteq> None"
proof -
  assume "descriptor env name = Some d" and kind: "td_kind d = CallFunction"
  then have "d \<in> set (descriptors env)"
    by (auto simp: descriptor_def find_Some_iff)
  moreover have "\<forall>d \<in> set (descriptors env). td_kind d = CallFunction
      \<longrightarrow> parameters_of (td_definition d) \<noteq> None"
    by (simp add: descriptors_def function_descriptor_def)
  ultimately show ?thesis using kind by blast
qed

section \<open>Parsing the calls (\<open>tool_plan.rs\<close>)\<close>

text \<open>\<open>Debug\<close> texts.\<close>

fun call_kind_debug :: "tool_call_kind \<Rightarrow> string" where
  "call_kind_debug CallFunction = ''Function''"
| "call_kind_debug CallCustom = ''Custom''"

fun stop_reason_debug :: "stop_reason \<Rightarrow> string" where
  "stop_reason_debug Stop = ''Stop''"
| "stop_reason_debug Length = ''Length''"
| "stop_reason_debug ToolUse = ''ToolUse''"
| "stop_reason_debug Refusal = ''Refusal''"
| "stop_reason_debug ContentFilter = ''ContentFilter''"
| "stop_reason_debug PauseTurn = ''PauseTurn''"

definition text_snapshot :: "string \<Rightarrow> tool_result_outcome \<Rightarrow> json option \<Rightarrow> tool_result_snapshot" where
  "text_snapshot text outcome details =
     \<lparr>ts_content = [TextPart text None], ts_outcome = outcome, ts_details = details\<rparr>"

text \<open>\<open>tool_error\<close> of \<open>shell_tools.rs\<close> has the same text for another name.\<close>

definition tool_error :: "string \<Rightarrow> string \<Rightarrow> tool_result_snapshot" where
  "tool_error name message =
     text_snapshot message (ToolError \<lparr>tre_message = message, tre_name = Some name\<rparr>) None"

definition error_snapshot :: "string \<Rightarrow> tool_result_snapshot" where
  "error_snapshot message = tool_error ''invalid_tool_arguments'' message"

definition required_nonempty_string :: "json \<Rightarrow> string \<Rightarrow> string + string" where
  "required_nonempty_string value field =
     ok_or (case get_str field value of
              Some s \<Rightarrow> (if trim s = [] then None else Some s) | None \<Rightarrow> None)
       (''tool call requires a nonempty '' @ field)"

definition invalid_function_input :: "json \<Rightarrow> string \<Rightarrow> tool_input \<times> tool_call_status" where
  "invalid_function_input input message = (InputJson input, CallCompleted (error_snapshot message))"

definition parse_function_input ::
    "codex_env \<Rightarrow> json \<Rightarrow> tool_descriptor \<Rightarrow> tool_input \<times> tool_call_status" where
  "parse_function_input env value d =
     (case get_str ''arguments'' value of
        None \<Rightarrow> invalid_function_input JNull ''function arguments must be a JSON string''
      | Some arguments \<Rightarrow>
         (case xv_parse env arguments of
            Inl failure \<Rightarrow> invalid_function_input (JString arguments)
              (''function arguments are invalid JSON: '' @ failure)
          | Inr parsed \<Rightarrow>
             (case xv_schema_failure env (unwrap_or [] (parameters_of (td_definition d))) parsed of
                Some failure \<Rightarrow> invalid_function_input parsed
                  (''function arguments do not match the tool schema: '' @ failure)
              | None \<Rightarrow> (InputJson parsed, CallPending))))"

definition parse_custom_input :: "json \<Rightarrow> tool_input \<times> tool_call_status" where
  "parse_custom_input value =
     (case get_str ''input'' value of
        Some input \<Rightarrow>
          if input \<noteq> [] then (InputText input, CallPending)
          else (InputText [], CallCompleted (error_snapshot ''custom tool input must not be empty''))
      | None \<Rightarrow>
          (InputText [], CallCompleted (error_snapshot ''custom tool input must be a string'')))"

text \<open>One assistant item; \<open>call_ids\<close> are the identifiers seen.\<close>

definition parse_item ::
    "codex_env \<Rightarrow> raw_json \<Rightarrow> tool_call list \<times> string list
     \<Rightarrow> string + tool_call list \<times> string list" where
  "parse_item env item acc =
     (case acc of (calls, call_ids) \<Rightarrow>
      bindR (case xv_parse env item of
          Inl failure \<Rightarrow> Inl (''assistant item is invalid JSON: '' @ failure)
        | Inr value \<Rightarrow> Inr value) (\<lambda>value.
      case (case get_str ''type'' value of
              None \<Rightarrow> None
            | Some kind \<Rightarrow>
                if kind = ''function_call'' then Some CallFunction
                else if kind = ''custom_tool_call'' then Some CallCustom else None) of
        None \<Rightarrow> Inr (calls, call_ids)
      | Some call_kind \<Rightarrow>
          bindR (required_nonempty_string value ''call_id'') (\<lambda>call_id.
          bindR (guardR (call_id \<notin> set call_ids) (''duplicate tool call ID '' @ call_id)) (\<lambda>_.
          bindR (required_nonempty_string value ''name'') (\<lambda>name.
          bindR (ok_or (descriptor env name) (''model requested unknown tool '' @ name)) (\<lambda>d.
          bindR (guardR (td_kind d = call_kind)
            (''tool '' @ name @ '' was called as '' @ call_kind_debug call_kind
              @ '', but its definition is '' @ call_kind_debug (td_kind d))) (\<lambda>_.
          let (input, status) = (case call_kind of
                CallFunction \<Rightarrow> parse_function_input env value d
              | CallCustom \<Rightarrow> parse_custom_input value) in
          bindR (guardR (length calls < 4294967296) ''assistant returned too many tool calls'') (\<lambda>_.
          Inr (calls @ [\<lparr>tl_call_id = call_id, tl_name = name, tl_ordinal = length calls,
                 tl_kind = call_kind, tl_input = input, tl_scheduling = td_scheduling d,
                 tl_status = status\<rparr>], call_id # call_ids)))))))))"

definition is_pending :: "tool_call \<Rightarrow> bool" where
  "is_pending call \<longleftrightarrow> (case tl_status call of CallPending \<Rightarrow> True | _ \<Rightarrow> False)"

definition is_completed :: "tool_call \<Rightarrow> bool" where
  "is_completed call \<longleftrightarrow> (case tl_status call of CallCompleted _ \<Rightarrow> True | _ \<Rightarrow> False)"

definition push_segment :: "tool_segment list \<Rightarrow> tool_call \<Rightarrow> tool_segment list" where
  "push_segment segments call =
     (let new = segments @ [\<lparr>sg_scheduling = tl_scheduling call, sg_ordinals = [tl_ordinal call]\<rparr>] in
      case tl_scheduling call of
        ParallelSafe \<Rightarrow>
          if segments \<noteq> [] \<and> sg_scheduling (last segments) = ParallelSafe
          then butlast segments @ [(last segments)\<lparr>sg_ordinals :=
            sg_ordinals (last segments) @ [tl_ordinal call]\<rparr>]
          else new
      | Exclusive \<Rightarrow> new)"

definition build_segments :: "tool_call list \<Rightarrow> tool_segment list" where
  "build_segments calls = foldl push_segment [] (filter is_pending calls)"

definition parse_plan ::
    "codex_env \<Rightarrow> operation_id \<Rightarrow> message \<Rightarrow> stop_reason \<Rightarrow> string + tool_plan option" where
  "parse_plan env operation msg stop =
     (case msg of
        AssistantMsg _ _ content \<Rightarrow>
          bindR (foldR (parse_item env) content ([], [])) (\<lambda>(calls, _).
          if calls = []
          then (if stop = ToolUse then Inl ''tool_use response contains no callable items''
                else Inr None)
          else bindR (guardR (stop = ToolUse)
              (''assistant response contains tool calls with stop reason '' @ stop_reason_debug stop))
            (\<lambda>_. Inr (Some \<lparr>pl_operation_id = operation, pl_calls = calls,
               pl_segments = build_segments calls, pl_active_segment = 0\<rparr>)))
      | _ \<Rightarrow> Inl ''tool-call parsing requires an assistant message'')"

section \<open>The plan at work\<close>

definition current_segment :: "tool_plan \<Rightarrow> tool_segment option" where
  "current_segment plan = nth_opt (pl_segments plan) (pl_active_segment plan)"

definition segment_complete :: "tool_call list \<Rightarrow> tool_segment \<Rightarrow> bool" where
  "segment_complete calls segment \<longleftrightarrow>
     list_all (\<lambda>n. case nth_opt calls n of None \<Rightarrow> False | Some call \<Rightarrow> is_completed call)
       (sg_ordinals segment)"

function advance_from :: "tool_segment list \<Rightarrow> tool_call list \<Rightarrow> nat \<Rightarrow> nat" where
  "advance_from segments calls active =
     (case nth_opt segments active of
        None \<Rightarrow> active
      | Some segment \<Rightarrow>
          if segment_complete calls segment then advance_from segments calls (active + 1)
          else active)"
  by pat_completeness auto
termination
  by (relation "measure (\<lambda>(segments, calls, active). length segments - active)")
    (auto simp: nth_opt_def split: if_splits)

declare advance_from.simps [simp del]

definition advance_completed_segments :: "tool_plan \<Rightarrow> tool_plan" where
  "advance_completed_segments plan = plan\<lparr>pl_active_segment :=
     advance_from (pl_segments plan) (pl_calls plan) (pl_active_segment plan)\<rparr>"

definition plan_complete :: "tool_plan \<Rightarrow> bool" where
  "plan_complete plan \<longleftrightarrow> list_all is_completed (pl_calls plan)"

text \<open>After the check every status is a result: the arm \<open>unreachable!\<close> is \<open>[]\<close> here.\<close>

definition result_message :: "codex_env \<Rightarrow> tool_call \<Rightarrow> message list" where
  "result_message env call =
     (case tl_status call of
        CallCompleted snapshot \<Rightarrow>
          [ToolResultMsg message_base_default (tl_name call) (tl_call_id call)
            (ts_content snapshot) (ts_outcome snapshot)
            (map_option (xv_print env) (ts_details snapshot))]
      | _ \<Rightarrow> [])"

definition ordered_result_messages :: "codex_env \<Rightarrow> tool_plan \<Rightarrow> string + message list" where
  "ordered_result_messages env plan =
     (if \<not> plan_complete plan then Inl ''tool results requested before the plan completed''
      else Inr (concat (map (result_message env) (pl_calls plan))))"

section \<open>What parsing promises\<close>

text \<open>Groups the pending calls in order, exclusive ones alone.\<close>

definition segments_for :: "tool_call list \<Rightarrow> tool_segment list \<Rightarrow> bool" where
  "segments_for calls segments \<longleftrightarrow>
     concat (map sg_ordinals segments) = map tl_ordinal calls
     \<and> list_all (\<lambda>s. sg_ordinals s \<noteq> []
         \<and> (sg_scheduling s = Exclusive \<longrightarrow> length (sg_ordinals s) = 1)
         \<and> list_all (\<lambda>n. \<exists>call \<in> set calls. tl_ordinal call = n
             \<and> tl_scheduling call = sg_scheduling s) (sg_ordinals s)) segments
     \<and> successively (\<lambda>s t. sg_scheduling s = Exclusive \<or> sg_scheduling t = Exclusive) segments"

definition calls_ok :: "tool_call list \<Rightarrow> bool" where
  "calls_ok calls \<longleftrightarrow>
     map tl_ordinal calls = [0..<length calls] \<and> distinct (map tl_call_id calls)
     \<and> list_all (\<lambda>call. is_pending call \<or> is_completed call) calls"

end
