(* ===== verification/CodexPatch.thy ===== *)
theory CodexPatch
  imports CodexPlan
begin

text \<open>
  Patches (\<open>parse_patch\<close>, \<open>apply_chunks\<close> and \<open>seek\<close> of
  \<open>packages/basic-codex-harness/src/filesystem_tools.rs\<close>): the text of \<open>apply_patch\<close> is parsed
  into hunks, and the chunks of an update are found in a file and replaced.
\<close>

text \<open>A tool refuses with a result the model sees, or the code panics.\<close>

datatype tool_failure = Refused tool_result_snapshot | ToolPanic

definition refused :: "string \<Rightarrow> string \<Rightarrow> tool_failure" where
  "refused name message = Refused (tool_error name message)"

section \<open>Parsing\<close>

definition begin_patch :: string where "begin_patch = ''*** Begin Patch''"
definition end_patch :: string where "end_patch = ''*** End Patch''"
definition end_of_file_line :: string where "end_of_file_line = ''*** End of File''"
definition add_prefix :: string where "add_prefix = ''*** Add File: ''"
definition delete_prefix :: string where "delete_prefix = ''*** Delete File: ''"
definition update_prefix :: string where "update_prefix = ''*** Update File: ''"
definition move_prefix :: string where "move_prefix = ''*** Move to: ''"
definition marker_prefix :: string where "marker_prefix = ''*** ''"

definition validate_patch_path :: "string \<Rightarrow> string + unit" where
  "validate_patch_path path =
     (if path = [] \<or> nul \<in> set path
      then Inl ''patch paths must be nonempty and contain no NUL bytes'' else Inr ())"

text \<open>The lines an added file takes, and the lines after them. The loops run on the lines
  between the first and the last one, which the code compares \<open>index + 1\<close> with.\<close>

fun take_added :: "string list \<Rightarrow> string + string list \<times> string list" where
  "take_added [] = Inr ([], [])"
| "take_added (l # ls) =
     (if starts_with marker_prefix l then Inr ([], l # ls)
      else case strip_prefix ''+'' l of
          None \<Rightarrow> Inl (''add-file line must begin with `+`: '' @ l)
        | Some content \<Rightarrow>
            bindR (take_added ls) (\<lambda>(added, rest). Inr (content # added, rest)))"

definition empty_chunk :: "string option \<Rightarrow> patch_chunk" where
  "empty_chunk context = \<lparr>pc_context = context, pc_old_lines = [], pc_new_lines = [],
     pc_end_of_file = False\<rparr>"

definition flush_chunk :: "patch_chunk list \<Rightarrow> patch_chunk \<Rightarrow> patch_chunk list" where
  "flush_chunk chunks current =
     (if pc_old_lines current \<noteq> [] \<or> pc_new_lines current \<noteq> [] then chunks @ [current]
      else chunks)"

text \<open>One line of an update.\<close>

definition update_line ::
    "string \<Rightarrow> patch_chunk list \<times> patch_chunk \<Rightarrow> string + patch_chunk list \<times> patch_chunk" where
  "update_line change acc =
     (case acc of (chunks, current) \<Rightarrow>
      if change = ''@@'' \<or> starts_with ''@@ '' change
      then Inr (flush_chunk chunks current, empty_chunk (strip_prefix ''@@ '' change))
      else if change = end_of_file_line then Inr (chunks, current\<lparr>pc_end_of_file := True\<rparr>)
      else case strip_prefix ''+'' change of
          Some v \<Rightarrow> Inr (chunks, current\<lparr>pc_new_lines := pc_new_lines current @ [v]\<rparr>)
        | None \<Rightarrow>
           (case strip_prefix ''-'' change of
              Some v \<Rightarrow> Inr (chunks, current\<lparr>pc_old_lines := pc_old_lines current @ [v]\<rparr>)
            | None \<Rightarrow>
               (case strip_prefix '' '' change of
                  Some v \<Rightarrow> Inr (chunks, current\<lparr>pc_old_lines := pc_old_lines current @ [v],
                    pc_new_lines := pc_new_lines current @ [v]\<rparr>)
                | None \<Rightarrow> Inl (''invalid update line `'' @ change @ ''`''))))"

definition ends_update :: "string \<Rightarrow> bool" where
  "ends_update l \<longleftrightarrow> starts_with marker_prefix l \<and> l \<noteq> end_of_file_line"

fun take_chunks ::
    "string list \<Rightarrow> patch_chunk list \<times> patch_chunk \<Rightarrow> string + patch_chunk list \<times> string list" where
  "take_chunks [] (chunks, current) = Inr (flush_chunk chunks current, [])"
| "take_chunks (l # ls) (chunks, current) =
     (if ends_update l then Inr (flush_chunk chunks current, l # ls)
      else bindR (update_line l (chunks, current)) (take_chunks ls))"

text \<open>\<open>lines[index].strip_prefix("*** Move to: ")\<close> while there is a line.\<close>

definition take_move :: "string list \<Rightarrow> string + string option \<times> string list" where
  "take_move ls =
     (case (case ls of [] \<Rightarrow> None | l # _ \<Rightarrow> strip_prefix move_prefix l) of
        None \<Rightarrow> Inr (None, ls)
      | Some destination \<Rightarrow>
          bindR (validate_patch_path destination) (\<lambda>_. Inr (Some destination, tl ls)))"

definition parse_hunk :: "string \<Rightarrow> string list \<Rightarrow> string + patch_hunk \<times> string list" where
  "parse_hunk line ls =
     (case strip_prefix add_prefix line of
        Some path \<Rightarrow>
          bindR (validate_patch_path path) (\<lambda>_.
          bindR (take_added ls) (\<lambda>(added, rest).
          bindR (guardR (added \<noteq> []) (''add-file hunk for '' @ path @ '' has no content'')) (\<lambda>_.
          Inr (HunkAdd path (join [newline] added @ [newline]), rest))))
      | None \<Rightarrow>
     (case strip_prefix delete_prefix line of
        Some path \<Rightarrow> bindR (validate_patch_path path) (\<lambda>_. Inr (HunkDelete path, ls))
      | None \<Rightarrow>
     (case strip_prefix update_prefix line of
        Some path \<Rightarrow>
          bindR (validate_patch_path path) (\<lambda>_.
          bindR (take_move ls) (\<lambda>(move, ls1).
          bindR (take_chunks ls1 ([], empty_chunk None)) (\<lambda>(chunks, rest).
          bindR (guardR (chunks \<noteq> [] \<or> move \<noteq> None)
            (''update hunk for '' @ path @ '' has no changes'')) (\<lambda>_.
          Inr (HunkUpdate path move chunks, rest)))))
      | None \<Rightarrow> Inl (''unexpected patch line `'' @ line @ ''`''))))"

lemma take_added_length: "take_added ls = Inr (a, rest) \<Longrightarrow> length rest \<le> length ls"
  by (induction ls arbitrary: a rest) (auto simp: result_simps split: if_splits option.splits
      dest: le_SucI)

lemma take_chunks_length:
  "take_chunks ls acc = Inr (chunks, rest) \<Longrightarrow> length rest \<le> length ls"
proof (induction ls acc arbitrary: chunks rest rule: take_chunks.induct)
  case (1 chunks current)
  then show ?case by simp
next
  case (2 l ls cs current)
  show ?case
  proof (cases "ends_update l")
    case True
    with 2(2) show ?thesis by simp
  next
    case False
    with 2 show ?thesis by (auto simp: result_simps intro: le_SucI)
  qed
qed

lemma take_move_length: "take_move ls = Inr (move, rest) \<Longrightarrow> length rest \<le> length ls"
  by (auto simp: take_move_def result_simps split: option.splits)

lemma parse_hunk_length:
  assumes "parse_hunk line ls = Inr (h, rest)"
  shows "length rest \<le> length ls"
proof -
  have update: "length rest \<le> length ls"
    if "take_move ls = Inr (move, ls1)" "take_chunks ls1 acc = Inr (chunks, rest)"
    for move ls1 acc chunks
    using take_move_length [OF that(1)] take_chunks_length [OF that(2)] by simp
  from assms show ?thesis
    by (auto simp: parse_hunk_def result_simps split: option.splits prod.splits if_splits
        dest: take_added_length intro: update)
qed

function parse_hunks :: "string list \<Rightarrow> string + patch_hunk list" where
  "parse_hunks [] = Inr []"
| "parse_hunks (l # ls) =
     (case parse_hunk l ls of
        Inl e \<Rightarrow> Inl e
      | Inr (h, rest) \<Rightarrow> bindR (parse_hunks rest) (\<lambda>hs. Inr (h # hs)))"
  by pat_completeness auto
termination
  by (relation "measure length") (auto dest: parse_hunk_length simp: less_Suc_eq_le)

definition parse_patch :: "string \<Rightarrow> string + patch_hunk list" where
  "parse_patch input =
     (let ls = map strip_cr (lines input) in
      if ls = [] \<or> hd ls \<noteq> begin_patch then Inl ''patch must begin with `*** Begin Patch`''
      else if last ls \<noteq> end_patch then Inl ''patch must end with `*** End Patch`''
      else bindR (parse_hunks (butlast (tl ls))) (\<lambda>hunks.
        if hunks = [] then Inl ''patch contains no file hunks'' else Inr hunks))"

section \<open>Applying chunks\<close>

definition line_matches :: "(string \<Rightarrow> string) \<Rightarrow> string list \<Rightarrow> string list \<Rightarrow> nat \<Rightarrow> bool" where
  "line_matches norm ls pattern index \<longleftrightarrow>
     map norm (take (length pattern) (drop index ls)) = map norm pattern"

text \<open>Exactly, then up to white space at the end, then up to white space on both sides.\<close>

definition seek :: "string list \<Rightarrow> string list \<Rightarrow> nat \<Rightarrow> bool \<Rightarrow> nat option" where
  "seek ls pattern start eof =
     (if pattern = [] then Some (min start (length ls))
      else if length ls < length pattern then None
      else let final_start = length ls - length pattern;
               search_start = (if eof then final_start else min start final_start);
               find_with = (\<lambda>norm. List.find (line_matches norm ls pattern)
                 [search_start..<final_start + 1]) in
           case find_with (\<lambda>l. l) of
             Some i \<Rightarrow> Some i
           | None \<Rightarrow>
              (case find_with trim_end of Some i \<Rightarrow> Some i | None \<Rightarrow> find_with trim))"

type_synonym replacement = "nat \<times> nat \<times> string list"

definition drop_empty_last :: "string list \<Rightarrow> string list" where
  "drop_empty_last ls = (if ls \<noteq> [] \<and> last ls = [] then butlast ls else ls)"

definition quote :: string where "quote = [CHR 0x27]"

text \<open>One chunk: the cursor and the replacements so far.\<close>

definition locate_chunk ::
    "string \<Rightarrow> string list \<Rightarrow> patch_chunk \<Rightarrow> nat \<times> replacement list
     \<Rightarrow> tool_failure + nat \<times> replacement list" where
  "locate_chunk path ls chunk acc =
     (case acc of (cursor, replacements) \<Rightarrow>
      bindR (case pc_context chunk of
          None \<Rightarrow> Inr cursor
        | Some context \<Rightarrow>
            ok_or (map_option Suc (seek ls [context] cursor False))
              (refused ''patch_context_not_found''
                (''Failed to find context '' @ quote @ context @ quote @ '' in '' @ path))) (\<lambda>cursor1.
      if pc_old_lines chunk = []
      then Inr (cursor1, replacements @ [(length ls, 0, pc_new_lines chunk)])
      else
        let old = pc_old_lines chunk;
            start = seek ls old cursor1 (pc_end_of_file chunk);
            retry = (start = None \<and> last old = []);
            old1 = (if retry then butlast old else old);
            new1 = (if retry then drop_empty_last (pc_new_lines chunk) else pc_new_lines chunk);
            start1 = (if retry then seek ls old1 cursor1 (pc_end_of_file chunk) else start) in
        bindR (ok_or start1 (refused ''patch_context_not_found''
          (''Failed to find expected lines in '' @ path @ '':'' @ [newline]
            @ join [newline] old))) (\<lambda>s.
        Inr (s + length old1, replacements @ [(s, length old1, new1)]))))"

text \<open>\<open>lines.splice(start..start + len, new)\<close> panics when the range leaves the list.\<close>

definition splice :: "replacement \<Rightarrow> string list \<Rightarrow> tool_failure + string list" where
  "splice r ls =
     (case r of (start, n, new) \<Rightarrow>
      if start + n \<le> length ls then Inr (take start ls @ new @ drop (start + n) ls)
      else Inl ToolPanic)"

definition file_lines :: "string \<Rightarrow> string list" where
  "file_lines source = drop_empty_last (split_on newline source)"

definition apply_chunks :: "string \<Rightarrow> string \<Rightarrow> patch_chunk list \<Rightarrow> tool_failure + string" where
  "apply_chunks path source chunks =
     (let ls = file_lines source in
      bindR (foldR (locate_chunk path ls) chunks (0, [])) (\<lambda>(_, replacements).
      bindR (foldR splice (rev (sort_key fst replacements)) ls) (\<lambda>ls1.
      Inr (join [newline] (ls1 @ [''''])))))"

end
