(* ===== verification/CodexShell.thy ===== *)
theory CodexShell
  imports CodexPlan
begin

text \<open>
  The shell tools (\<open>packages/basic-codex-harness/src/shell_tools.rs\<close>): \<open>exec_command\<close> and
  \<open>write_stdin\<close> become execution requests, their responses are accumulated page by page, and
  the processes that keep running are tracked under session numbers.
\<close>

section \<open>Limits\<close>

definition default_exec_yield_ms :: nat where "default_exec_yield_ms = 10000"
definition default_write_yield_ms :: nat where "default_write_yield_ms = 250"
definition min_yield_ms :: nat where "min_yield_ms = 250"
definition max_foreground_yield_ms :: nat where "max_foreground_yield_ms = 30000"
definition min_empty_poll_ms :: nat where "min_empty_poll_ms = 5000"
definition max_empty_poll_ms :: nat where "max_empty_poll_ms = 300000"
definition default_max_output_tokens :: nat where "default_max_output_tokens = 10000"
definition max_model_output_tokens :: nat where "max_model_output_tokens = 10000"
definition output_page_bytes :: nat where "output_page_bytes = 64 * 1024"
definition max_output_pages_per_call :: nat where "max_output_pages_per_call = 16"
definition accumulator_half_bytes :: nat where "accumulator_half_bytes = 24 * 1024"
definition ctrl_c :: string where "ctrl_c = [CHR 0x03]"

definition clamp :: "nat \<Rightarrow> nat \<Rightarrow> nat \<Rightarrow> nat" where
  "clamp lo hi x = (if x < lo then lo else if hi < x then hi else x)"

definition output_token_budget :: "nat option \<Rightarrow> nat" where
  "output_token_budget requested =
     min (unwrap_or default_max_output_tokens requested) max_model_output_tokens"

section \<open>The output accumulator\<close>

text \<open>It keeps the first and the last 24 KiB. First the head is filled, then the rest is put
  behind the tail, which loses what is too much at its front.\<close>

definition fill_head :: "string \<Rightarrow> output_accumulator \<Rightarrow> output_accumulator \<times> string" where
  "fill_head text a =
     (if length (oa_head a) < accumulator_half_bytes
      then let available = accumulator_half_bytes - length (oa_head a);
               split = floor_char_boundary text (min available (length text))
           in (a\<lparr>oa_head := oa_head a @ take split text\<rparr>, drop split text)
      else (a, text))"

definition push_tail :: "string \<Rightarrow> output_accumulator \<Rightarrow> output_accumulator" where
  "push_tail remainder a =
     (if remainder = [] then a
      else let tail = oa_tail a @ remainder in
           if accumulator_half_bytes < length tail
           then let boundary = ceil_char_boundary tail (length tail - accumulator_half_bytes)
                in a\<lparr>oa_omitted_bytes := sat_add (oa_omitted_bytes a) boundary,
                     oa_tail := drop boundary tail\<rparr>
           else a\<lparr>oa_tail := tail\<rparr>)"

text \<open>\<open>env\<close> supplies \<open>from_utf8_lossy\<close>.\<close>

definition append_output :: "codex_env \<Rightarrow> string \<Rightarrow> output_accumulator \<Rightarrow> output_accumulator" where
  "append_output env bytes a =
     (let a1 = a\<lparr>oa_total_bytes := sat_add (oa_total_bytes a) (length bytes)\<rparr>;
          (a2, remainder) = fill_head (xv_utf8_lossy env bytes) a1
      in push_tail remainder a2)"

definition div_ceil :: "nat \<Rightarrow> nat \<Rightarrow> nat" where
  "div_ceil a b = (a + b - 1) div b"

definition model_text :: "nat \<Rightarrow> output_accumulator \<Rightarrow> string" where
  "model_text max_tokens a =
     (let text = (if oa_omitted_bytes a = 0 then oa_head a @ oa_tail a
            else oa_head a @ [newline] @ ''... '' @ decimal (oa_omitted_bytes a)
              @ '' bytes omitted ...'' @ [newline] @ oa_tail a);
          budget = min (max_tokens * 4) u64_max in
      if length text \<le> budget then text
      else if budget = 0 then []
      else let marker = [newline] @ ''... model output truncated (original token count: ''
                 @ decimal (div_ceil (oa_total_bytes a) 4) @ '') ...'' @ [newline] in
           if budget \<le> length marker then take (floor_char_boundary text budget) text
           else let remaining = budget - length marker;
                    head_end = floor_char_boundary text (remaining div 2);
                    tail_start = ceil_char_boundary text (length text - (remaining - head_end))
                in take head_end text @ marker @ drop tail_start text)"

section \<open>Arguments\<close>

definition json_input :: "tool_call \<Rightarrow> string + json" where
  "json_input call =
     (case tl_input call of
        InputJson value \<Rightarrow> Inr value
      | InputText _ \<Rightarrow> Inl ''shell tool requires JSON arguments'')"

definition backslash :: char where
  "backslash = CHR 0x5C"

definition is_separator :: "char \<Rightarrow> bool" where
  "is_separator c \<longleftrightarrow> c = CHR ''/'' \<or> c = backslash"

definition resolve_workdir :: "string \<Rightarrow> string option \<Rightarrow> string + string" where
  "resolve_workdir base requested =
     (case requested of
        None \<Rightarrow> Inr base
      | Some r \<Rightarrow>
          if r = [] then Inr base
          else if nul \<in> set r then Inl ''workdir contains a NUL byte''
          else if is_platform_absolute r then Inr r
          else let separator = (if backslash \<in> set base \<and> CHR ''/'' \<notin> set base
                 then backslash else CHR ''/'')
               in Inr (rev (dropWhile is_separator (rev base)) @ [separator] @ r))"

text \<open>\<open>rsplit(['/', '\'])\<close>: the text after the last separator.\<close>

definition shell_filename :: "string \<Rightarrow> string" where
  "shell_filename value = lower (rev (takeWhile (\<lambda>c. \<not> is_separator c) (rev value)))"

definition parse_shell :: "string \<Rightarrow> string + shell_spec" where
  "parse_shell value =
     (let filename = shell_filename value;
          kind = (if filename = ''sh'' then Some ShellSh
            else if filename = ''bash'' then Some ShellBash
            else if filename = ''zsh'' then Some ShellZsh
            else if filename = ''pwsh'' \<or> filename = ''pwsh.exe'' \<or> filename = ''powershell''
              \<or> filename = ''powershell.exe'' then Some ShellPowerShell
            else if filename = ''cmd'' \<or> filename = ''cmd.exe'' then Some ShellCmd
            else None) in
      case kind of
        None \<Rightarrow> Inl (''unsupported shell '' @ value)
      | Some k \<Rightarrow> Inr \<lparr>sh_executable = value, sh_kind = k\<rparr>)"

definition stable_action_id :: "codex_env \<Rightarrow> uuid \<Rightarrow> string \<Rightarrow> string \<Rightarrow> string" where
  "stable_action_id env turn call_id action =
     ''basic-codex:'' @ xv_uuid_text env turn @ '':'' @ xv_sha256_hex env call_id @ '':'' @ action"

section \<open>Requests\<close>

record 'p prepared =
  po_request :: exec_payload
  po_generation :: "uuid option"
  po_progress :: 'p

definition new_progress ::
    "codex_env \<Rightarrow> shell_phase \<Rightarrow> int \<Rightarrow> bool \<Rightarrow> nat option \<Rightarrow> shell_call_state" where
  "new_progress env phase started_at tty tokens =
     \<lparr>sc_phase = phase, sc_started_at_ms = started_at, sc_chunk_id = xv_chunk_id env,
      sc_output = empty_accumulator, sc_handle = None, sc_cursor = None, sc_session_id = None,
      sc_tty = tty, sc_max_output_tokens = output_token_budget tokens,
      sc_last_execution = None, sc_output_gap = False, sc_pages_read = 0, sc_more_output = False\<rparr>"

definition prepare_exec ::
    "codex_env \<Rightarrow> tool_call \<Rightarrow> codex_config \<Rightarrow> session_id \<Rightarrow> uuid \<Rightarrow> int
     \<Rightarrow> string + shell_call_state prepared" where
  "prepare_exec env call cx session turn started_at =
     bindR (json_input call) (\<lambda>value.
     bindR (case xv_exec_args env value of
         Inl e \<Rightarrow> Inl (''invalid exec_command arguments: '' @ e) | Inr args \<Rightarrow> Inr args) (\<lambda>args.
     bindR (guardR (xa_cmd args \<noteq> []) ''cmd must not be empty'') (\<lambda>_.
     bindR (resolve_workdir (cx_cwd cx) (xa_workdir args)) (\<lambda>cwd.
     bindR (case xa_shell args of
         None \<Rightarrow> Inr None | Some s \<Rightarrow> map_sum id Some (parse_shell s)) (\<lambda>shell.
     Inr \<lparr>po_request = Single (ExecStart
            \<lparr>sp_start_id = stable_action_id env turn (tl_call_id call) ''start'',
             sp_script = xa_cmd args, sp_shell = shell, sp_login = xa_login args, sp_cwd = cwd,
             sp_snapshot_scope = xv_uuid_text env session,
             sp_io = (if xa_tty args then IoPty 24 80 else IoPipes False),
             sp_wait_ms = clamp min_yield_ms max_foreground_yield_ms (xa_yield_time_ms args),
             sp_max_output = output_page_bytes,
             sp_labels = [(''agent_session_id'', xv_uuid_text env session),
               (''agent_turn_id'', xv_uuid_text env turn)]\<rparr>),
          po_generation = None,
          po_progress = new_progress env ShellStart started_at (xa_tty args)
            (xa_max_output_tokens args)\<rparr>)))))"

definition find_execution :: "int \<Rightarrow> codex_state \<Rightarrow> tracked_execution option" where
  "find_execution session s = List.find (\<lambda>e. te_session_id e = session) (cd_executions s)"

definition prepare_write ::
    "codex_env \<Rightarrow> tool_call \<Rightarrow> codex_state \<Rightarrow> uuid \<Rightarrow> int
     \<Rightarrow> string + shell_call_state prepared" where
  "prepare_write env call s turn started_at =
     bindR (json_input call) (\<lambda>value.
     bindR (case xv_write_args env value of
         Inl e \<Rightarrow> Inl (''invalid write_stdin arguments: '' @ e) | Inr args \<Rightarrow> Inr args) (\<lambda>args.
     bindR (ok_or (find_execution (wa_session_id args) s)
       (''unknown session ID '' @ decimal_int (wa_session_id args))) (\<lambda>tracked.
     let observe = ExecObserve \<lparr>op_handle = te_handle tracked,
           op_after_cursor = Some (te_cursor tracked),
           op_wait_ms = (if wa_chars args = []
             then clamp min_empty_poll_ms max_empty_poll_ms (wa_yield_time_ms args)
             else clamp min_yield_ms max_foreground_yield_ms (wa_yield_time_ms args)),
           op_max_output = output_page_bytes\<rparr>;
         interaction = (if wa_chars args = ctrl_c \<and> \<not> te_tty tracked
           then ExecInterrupt (te_handle tracked)
             (stable_action_id env turn (tl_call_id call) ''interrupt'')
           else ExecWriteInput (te_handle tracked)
             (stable_action_id env turn (tl_call_id call) ''input'')
             (xv_base64_encode env (wa_chars args)));
         request = (if wa_chars args = [] then Single observe
           else Batch Sequential []
             [\<lparr>bo_request_id = ''interaction'', bo_operation = interaction\<rparr>,
              \<lparr>bo_request_id = ''observe'', bo_operation = observe\<rparr>]) in
     Inr \<lparr>po_request = request, po_generation = Some (eh_generation (te_handle tracked)),
          po_progress = (new_progress env ShellInteract started_at (te_tty tracked)
             (wa_max_output_tokens args))
           \<lparr>sc_handle := Some (te_handle tracked), sc_cursor := Some (te_cursor tracked),
            sc_session_id := Some (te_session_id tracked)\<rparr>\<rparr>)))"

definition invalid_arguments :: "string + 'a \<Rightarrow> tool_result_snapshot + 'a" where
  "invalid_arguments r = (case r of
     Inl e \<Rightarrow> Inl (tool_error ''invalid_tool_arguments'' e) | Inr x \<Rightarrow> Inr x)"

definition prepare_new_shell ::
    "codex_env \<Rightarrow> tool_call \<Rightarrow> codex_config \<Rightarrow> codex_state \<Rightarrow> session_id \<Rightarrow> uuid \<Rightarrow> int
     \<Rightarrow> tool_result_snapshot + shell_call_state prepared option" where
  "prepare_new_shell env call cx s session turn started_at =
     (if tl_name call = ''exec_command''
      then map_sum id Some (invalid_arguments (prepare_exec env call cx session turn started_at))
      else if tl_name call = ''write_stdin''
      then map_sum id Some (invalid_arguments (prepare_write env call s turn started_at))
      else Inr None)"

definition prepare_ready_shell ::
    "shell_call_state \<Rightarrow> tool_result_snapshot + shell_call_state prepared" where
  "prepare_ready_shell progress =
     (case sc_handle progress of
        None \<Rightarrow> Inl (tool_error ''invalid_execution_state''
          ''shell output draining has no execution handle'')
      | Some handle \<Rightarrow>
          Inr \<lparr>po_request = Single (ExecObserve \<lparr>op_handle = handle,
                 op_after_cursor = sc_cursor progress, op_wait_ms = 0,
                 op_max_output = output_page_bytes\<rparr>),
               po_generation = Some (eh_generation handle), po_progress = progress\<rparr>)"

section \<open>Responses\<close>

datatype shell_applied = ShellReady shell_call_state | ShellDone tool_result_snapshot

text \<open>\<open>format!("{prefix}_{:?}", code).to_lowercase()\<close>\<close>

definition code_name :: "string \<Rightarrow> exec_error_code \<Rightarrow> string" where
  "code_name prefix code = lower (prefix @ ''_'' @ error_code_debug code)"

definition invalid_response :: "string \<Rightarrow> string + 'a \<Rightarrow> tool_result_snapshot + 'a" where
  "invalid_response message r = (case r of
     Inl e \<Rightarrow> Inl (tool_error ''invalid_execution_response'' (message @ e)) | Inr x \<Rightarrow> Inr x)"

text \<open>\<open>find_map\<close> of the first interaction that failed.\<close>

definition interaction_error :: "batch_item list \<Rightarrow> string option" where
  "interaction_error items =
     map_option (\<lambda>item. case bi_outcome item of
         ItemFailed e \<Rightarrow> ee_message e | ItemSkipped reason \<Rightarrow> reason | ItemOk _ \<Rightarrow> [])
       (List.find (\<lambda>item. case bi_outcome item of
           ItemFailed _ \<Rightarrow> True
         | ItemSkipped _ \<Rightarrow> bi_request_id item \<noteq> ''observe''
         | ItemOk _ \<Rightarrow> False) items)"

definition decode_observation ::
    "codex_env \<Rightarrow> exec_response \<Rightarrow> shell_phase \<Rightarrow> tool_result_snapshot + observation" where
  "decode_observation env response phase =
     (case er_outcome response of
        ExecFailed e \<Rightarrow> Inl (tool_error (code_name ''execution'' (ee_code e)) (ee_message e))
      | ExecOk result \<Rightarrow>
          bindR (if phase = ShellInteract \<and> json_get ''results'' result \<noteq> None
            then bindR (invalid_response ''invalid execution batch response: '' (xv_batch env result))
              (\<lambda>items.
              bindR (ok_or (List.find (\<lambda>item. bi_request_id item = ''observe'') items)
                (tool_error ''invalid_execution_response''
                  ''execution batch has no observe result'')) (\<lambda>observe.
              case bi_outcome observe of
                ItemOk r \<Rightarrow> Inr r
              | ItemFailed e \<Rightarrow> Inl (tool_error (code_name ''execution'' (ee_code e)) (ee_message e))
              | ItemSkipped reason \<Rightarrow> Inl (tool_error ''execution_interaction_failed''
                  (unwrap_or reason (interaction_error items)))))
            else Inr result) (\<lambda>value.
          invalid_response ''invalid execution observation: '' (xv_observation env value)))"

definition append_chunk ::
    "codex_env \<Rightarrow> string \<Rightarrow> output_accumulator \<Rightarrow> tool_result_snapshot + output_accumulator" where
  "append_chunk env data a =
     bindR (invalid_response ''execution output is not valid base64: '' (xv_base64_decode env data))
       (\<lambda>bytes. Inr (append_output env bytes a))"

text \<open>\<open>checked_add\<close> on \<open>i32\<close>: the last number is never given out.\<close>

definition allocate_session_id :: "codex_state \<Rightarrow> string + int \<times> codex_state" where
  "allocate_session_id s =
     (let i = cd_next_session_id s in
      if i = 2147483647 then Inl ''execution session ID space exhausted''
      else Inr (i, s\<lparr>cd_next_session_id := i + 1\<rparr>))"

text \<open>\<open>iter_mut().find(p)\<close> and an assignment through it.\<close>

fun update_first :: "('a \<Rightarrow> bool) \<Rightarrow> ('a \<Rightarrow> 'a) \<Rightarrow> 'a list \<Rightarrow> 'a list" where
  "update_first p f [] = []"
| "update_first p f (x # xs) = (if p x then f x # xs else x # update_first p f xs)"

definition upsert_execution :: "tracked_execution \<Rightarrow> codex_state \<Rightarrow> codex_state" where
  "upsert_execution tracked s =
     s\<lparr>cd_executions :=
       (if find_execution (te_session_id tracked) s \<noteq> None
        then update_first (\<lambda>e. te_session_id e = te_session_id tracked) (\<lambda>_. tracked)
          (cd_executions s)
        else cd_executions s @ [tracked])\<rparr>"

text \<open>\<open>{:.4}\<close> of milliseconds over 1000: exact below \<open>2 ^ 43\<close> milliseconds.\<close>

definition seconds_text :: "nat \<Rightarrow> string" where
  "seconds_text ms = decimal (ms div 1000) @ ''.'' @ [digit (ms div 100 mod 10),
     digit (ms div 10 mod 10), digit (ms mod 10)] @ ''0''"

definition exit_line :: "int option \<Rightarrow> string option \<Rightarrow> string" where
  "exit_line exit_code signal =
     (case exit_code of
        Some code \<Rightarrow> ''Process exited with code '' @ decimal_int code
      | None \<Rightarrow>
         (case signal of
            Some sig \<Rightarrow> ''Process exited from signal '' @ sig
          | None \<Rightarrow> ''Process exited without an exit code''))"

definition result_header :: "shell_call_state \<Rightarrow> execution \<Rightarrow> int \<Rightarrow> string list" where
  "result_header progress e completed_at =
     [''Chunk ID: '' @ sc_chunk_id progress,
      ''Wall time: '' @ seconds_text (nat (completed_at - sc_started_at_ms progress)) @ '' seconds'']
     @ (if ex_finished e
        then (case ex_result e of
               Some (Exited code signal) \<Rightarrow> [exit_line code signal]
             | Some (Terminated code signal) \<Rightarrow> [exit_line code signal]
             | _ \<Rightarrow> [])
        else (case sc_session_id progress of
               Some sid \<Rightarrow> [''Process running with session ID '' @ decimal_int sid]
             | None \<Rightarrow> []))
     @ [''Original token count: '' @ decimal (div_ceil (oa_total_bytes (sc_output progress)) 4),
        ''Output:'']"

definition result_body :: "shell_call_state \<Rightarrow> execution \<Rightarrow> string" where
  "result_body progress e =
     (let body = model_text (sc_max_output_tokens progress) (sc_output progress);
          body1 = (if sc_output_gap progress
            then ''Warning: earlier command output was no longer retained by the execution runtime.''
              @ [newline] @ body else body);
          body2 = (if ex_output_incomplete e
            then ''Warning: the execution runtime could not capture all command output.''
              @ [newline] @ body1 else body1) in
      if sc_more_output progress
      then ''Warning: more command output remains; call write_stdin again to continue reading.''
        @ [newline] @ body2 else body2)"

definition format_result ::
    "shell_call_state \<Rightarrow> observation \<Rightarrow> int \<Rightarrow> tool_result_snapshot" where
  "format_result progress ob completed_at =
     (let e = ob_execution ob in
      case ex_result e of
        Some (StartFailed message) \<Rightarrow> tool_error ''execution_start_failed'' message
      | Some (Lost message) \<Rightarrow> tool_error ''execution_lost'' message
      | _ \<Rightarrow> text_snapshot
          (join [newline] (result_header progress e completed_at) @ [newline] @ result_body progress e)
          ToolSuccess
          (Some (JObject
            [(''execution'', ex_json e),
             (''next_cursor'', JString (ob_next_cursor ob)),
             (''return_reason'', ob_return_reason ob),
             (''output_gap'', JBool (sc_output_gap progress)),
             (''has_more'', JBool (ob_has_more ob)),
             (''pages_read'', JNumber (decimal (sc_pages_read progress)))])))"

text \<open>\<open>saturating_add(1)\<close> on \<open>u16\<close>.\<close>

definition observed :: "observation \<Rightarrow> output_accumulator \<Rightarrow> shell_call_state \<Rightarrow> shell_call_state" where
  "observed ob out progress = progress\<lparr>
     sc_output := out,
     sc_output_gap := sc_output_gap progress \<or> ob_output_gap ob,
     sc_handle := Some (ex_handle (ob_execution ob)),
     sc_cursor := Some (ob_next_cursor ob),
     sc_last_execution := Some (ob_execution ob),
     sc_pages_read := min (sc_pages_read progress + 1) 65535,
     sc_more_output := ob_has_more ob\<rparr>"

text \<open>The tracked processes after an observation; an error leaves the state as it was.\<close>

definition track_execution ::
    "observation \<Rightarrow> uuid \<Rightarrow> shell_call_state \<Rightarrow> codex_state
     \<Rightarrow> tool_result_snapshot + shell_call_state \<times> codex_state" where
  "track_execution ob turn progress s =
     (if \<not> ex_finished (ob_execution ob)
      then bindR (case sc_session_id progress of
               Some sid \<Rightarrow> Inr (sid, s)
             | None \<Rightarrow> (case allocate_session_id s of
                 Inl e \<Rightarrow> Inl (tool_error ''execution_session_limit'' e) | Inr r \<Rightarrow> Inr r))
             (\<lambda>(sid, s1). Inr (progress\<lparr>sc_session_id := Some sid\<rparr>,
               upsert_execution \<lparr>te_session_id = sid, te_handle = ex_handle (ob_execution ob),
                 te_cursor = ob_next_cursor ob, te_owner_turn_id = turn,
                 te_tty = sc_tty progress\<rparr> s1))
      else Inr (progress,
        case sc_session_id progress of
          None \<Rightarrow> s
        | Some sid \<Rightarrow>
            if ob_has_more ob
            then s\<lparr>cd_executions := update_first (\<lambda>e. te_session_id e = sid)
              (\<lambda>e. e\<lparr>te_cursor := ob_next_cursor ob\<rparr>) (cd_executions s)\<rparr>
            else s\<lparr>cd_executions := filter (\<lambda>e. te_session_id e \<noteq> sid) (cd_executions s)\<rparr>))"

definition apply_shell_response ::
    "codex_env \<Rightarrow> shell_call_state \<Rightarrow> exec_response \<Rightarrow> uuid \<Rightarrow> int \<Rightarrow> codex_state
     \<Rightarrow> tool_result_snapshot + shell_applied \<times> codex_state" where
  "apply_shell_response env progress response turn completed_at s =
     bindR (decode_observation env response (sc_phase progress)) (\<lambda>ob.
     bindR (foldR (append_chunk env) (ob_output ob) (sc_output progress)) (\<lambda>out.
     let progress1 = observed ob out progress in
     bindR (guardR (eh_generation (ex_handle (ob_execution ob)) = er_generation response)
       (tool_error ''invalid_execution_response''
         ''execution handle contains an inconsistent runtime generation'')) (\<lambda>_.
     bindR (track_execution ob turn progress1 s) (\<lambda>(progress2, s1).
     Inr (if ob_has_more ob \<and> sc_pages_read progress2 < max_output_pages_per_call
          then ShellReady (progress2\<lparr>sc_phase := ShellDrain\<rparr>)
          else ShellDone (format_result progress2 ob completed_at), s1)))))"

section \<open>The accumulator's bounds\<close>

definition accumulator_ok :: "output_accumulator \<Rightarrow> bool" where
  "accumulator_ok a \<longleftrightarrow> length (oa_head a) \<le> accumulator_half_bytes
     \<and> length (oa_tail a) \<le> accumulator_half_bytes"

lemma empty_accumulator_ok: "accumulator_ok empty_accumulator"
  by (simp add: accumulator_ok_def empty_accumulator_def)

lemma fill_head_ok:
  assumes "accumulator_ok a"
  shows "accumulator_ok (fst (fill_head text a))"
proof (cases "length (oa_head a) < accumulator_half_bytes")
  case True
  let ?n = "min (accumulator_half_bytes - length (oa_head a)) (length text)"
  have "length (take (floor_char_boundary text ?n) text) \<le> accumulator_half_bytes - length (oa_head a)"
    using floor_char_boundary_le(1) [of "text" ?n] by simp
  with True assms show ?thesis
    by (simp add: fill_head_def accumulator_ok_def Let_def)
next
  case False
  with assms show ?thesis by (simp add: fill_head_def)
qed

lemma push_tail_ok:
  assumes "accumulator_ok a"
  shows "accumulator_ok (push_tail text a)"
proof -
  let ?t = "oa_tail a @ text"
  have "length ?t - ceil_char_boundary ?t (length ?t - accumulator_half_bytes)
      \<le> accumulator_half_bytes"
    using ceil_char_boundary_bounds(1) [of "length ?t - accumulator_half_bytes" ?t] by simp
  with assms show ?thesis
    by (simp add: push_tail_def accumulator_ok_def Let_def del: length_append drop_append)
qed

lemma append_output_ok:
  assumes "accumulator_ok a"
  shows "accumulator_ok (append_output env bytes a)"
proof -
  have "accumulator_ok (a\<lparr>oa_total_bytes := sat_add (oa_total_bytes a) (length bytes)\<rparr>)"
    using assms by (simp add: accumulator_ok_def)
  from push_tail_ok [OF fill_head_ok [OF this]] show ?thesis
    by (simp add: append_output_def Let_def case_prod_beta)
qed

section \<open>What an ASCII stream leaves\<close>

text \<open>For ASCII output the accumulator is a function of the bytes it was given.\<close>

definition kept :: "string \<Rightarrow> output_accumulator \<Rightarrow> bool" where
  "kept stream a \<longleftrightarrow>
     (let rest = drop accumulator_half_bytes stream in
      oa_head a = take accumulator_half_bytes stream
      \<and> oa_tail a = drop (length rest - accumulator_half_bytes) rest
      \<and> oa_omitted_bytes a = length rest - accumulator_half_bytes)"

lemma kept_empty: "kept [] empty_accumulator"
  by (simp add: kept_def empty_accumulator_def)

lemma kept_append:
  assumes "kept stream a" and ascii: "ascii stream" "ascii text" "xv_utf8_lossy env text = text"
    and small: "length stream + length text \<le> u64_max"
  shows "kept (stream @ text) (append_output env text a)"
proof -
  let ?h = accumulator_half_bytes
  let ?a1 = "a\<lparr>oa_total_bytes := sat_add (oa_total_bytes a) (length text)\<rparr>"
  let ?room = "?h - length stream"
  have head: "oa_head a = take ?h stream"
    and tail: "oa_tail a = drop (length (drop ?h stream) - ?h) (drop ?h stream)"
    and omitted: "oa_omitted_bytes a = length (drop ?h stream) - ?h"
    using assms(1) by (simp_all add: kept_def Let_def)
  have filled: "fill_head text ?a1 = (?a1\<lparr>oa_head := take ?h (stream @ text)\<rparr>, drop ?room text)"
    using ascii(2) head by (auto simp: fill_head_def Let_def ascii_floor min_def)
  let ?R = "drop ?h stream" and ?r = "drop ?room text"
  let ?t = "oa_tail a @ ?r"
  have rest: "drop ?h (stream @ text) = ?R @ ?r" by simp
  have ascii_t: "ascii ?t" using ascii tail by (simp add: ascii_drop)
  have len: "length (oa_tail a) = min (length ?R) ?h" unfolding tail by simp
  have pushed: "push_tail ?r b = b\<lparr>oa_tail := drop (length ?t - ?h) ?t,
      oa_omitted_bytes := oa_omitted_bytes b + (length ?t - ?h)\<rparr>"
    if "oa_tail b = oa_tail a" "oa_omitted_bytes b = oa_omitted_bytes a" for b
  proof -
    have "oa_omitted_bytes a + (length ?t - ?h) \<le> u64_max"
      using small len omitted by simp
    moreover have "?r = [] \<Longrightarrow> length ?t \<le> ?h" using len by simp
    ultimately show ?thesis
      using that ascii_ceil [OF ascii_t]
      by (cases b) (auto simp: push_tail_def Let_def sat_add_def simp del: drop_append)
  qed
  have "drop (length ?t - ?h) ?t = drop (length (?R @ ?r) - ?h) (?R @ ?r)"
    using len unfolding tail by (auto simp: min_def add.commute)
  moreover have "oa_omitted_bytes a + (length ?t - ?h) = length (?R @ ?r) - ?h"
    using len omitted by (cases "length ?R \<le> ?h") auto
  ultimately show ?thesis
    unfolding kept_def Let_def rest append_output_def
    using filled pushed [of "?a1\<lparr>oa_head := take ?h (stream @ text)\<rparr>"] ascii(3)
    by (simp del: drop_append length_append)
qed

end
