(* ===== verification/CodexFiles.thy ===== *)
theory CodexFiles
  imports CodexPatch CodexShell
begin

text \<open>
  The file tools (\<open>packages/basic-codex-harness/src/filesystem_tools.rs\<close>): \<open>view_image\<close> reads and
  publishes an image, \<open>apply_patch\<close> reads the files a patch touches, plans mutations guarded by
  the hashes it read, and reconciles when their outcome is unknown.
\<close>

definition max_file_bytes :: nat where "max_file_bytes = 5 * 1024 * 1024"
definition max_patch_bytes :: nat where "max_patch_bytes = 1024 * 1024"
definition max_patch_paths :: nat where "max_patch_paths = 32"

record file_version =
  fv_data :: string
  fv_sha256 :: string

datatype file_applied = FileReady file_tool_state | FileDone tool_result_snapshot

definition tool_error_with_details :: "string \<Rightarrow> string \<Rightarrow> json \<Rightarrow> tool_result_snapshot" where
  "tool_error_with_details name message details =
     (tool_error name message)\<lparr>ts_details := Some details\<rparr>"

definition validate_path :: "string \<Rightarrow> tool_failure + unit" where
  "validate_path path =
     (case validate_patch_path path of
        Inl message \<Rightarrow> Inl (refused ''invalid_path'' message) | Inr u \<Rightarrow> Inr u)"

section \<open>Paths\<close>

definition hunk_paths :: "patch_hunk \<Rightarrow> string list" where
  "hunk_paths hunk =
     (case hunk of
        HunkAdd path _ \<Rightarrow> [path]
      | HunkDelete path \<Rightarrow> [path]
      | HunkUpdate path move _ \<Rightarrow> path # (case move of None \<Rightarrow> [] | Some d \<Rightarrow> [d]))"

text \<open>\<open>touch\<close>, and the same in \<open>patch_paths\<close>: a path is listed once.\<close>

definition touch :: "string \<Rightarrow> string list \<Rightarrow> string list" where
  "touch path paths = (if path \<in> set paths then paths else paths @ [path])"

definition patch_paths :: "patch_hunk list \<Rightarrow> tool_failure + string list" where
  "patch_paths hunks =
     bindR (foldR (\<lambda>path paths. bindR (validate_path path) (\<lambda>_. Inr (touch path paths)))
       (concat (map hunk_paths hunks)) []) (\<lambda>paths.
     bindR (guardR (length paths \<le> max_patch_paths) (refused ''patch_too_large''
       (''apply_patch affects more than '' @ decimal max_patch_paths @ '' paths''))) (\<lambda>_.
     Inr paths))"

definition mutation_path :: "patch_mutation \<Rightarrow> string" where
  "mutation_path m = (case m of MutWrite _ path _ _ _ \<Rightarrow> path | MutRemove _ path _ \<Rightarrow> path)"

section \<open>Requests\<close>

definition read_operation :: "codex_config \<Rightarrow> nat \<Rightarrow> string \<Rightarrow> batch_operation" where
  "read_operation cx index path =
     \<lparr>bo_request_id = ''read-'' @ decimal index,
      bo_operation = ExecReadFile \<lparr>fp_cwd = cx_cwd cx, fp_path = path\<rparr> max_file_bytes\<rparr>"

definition enumerate_map :: "(nat \<Rightarrow> 'a \<Rightarrow> 'b) \<Rightarrow> 'a list \<Rightarrow> 'b list" where
  "enumerate_map f xs = map (\<lambda>(i, x). f i x) (List.enumerate 0 xs)"

definition prepare_view_image ::
    "codex_env \<Rightarrow> tool_call \<Rightarrow> codex_config \<Rightarrow> tool_failure + file_tool_state prepared" where
  "prepare_view_image env call cx =
     (case tl_input call of
        InputText _ \<Rightarrow>
          Inl (refused ''invalid_tool_arguments'' ''view_image requires JSON arguments'')
      | InputJson value \<Rightarrow>
          bindR (case xv_view_args env value of
              Inl e \<Rightarrow> Inl (refused ''invalid_tool_arguments''
                (''invalid view_image arguments: '' @ e))
            | Inr args \<Rightarrow> Inr args) (\<lambda>(path, detail).
          bindR (validate_path path) (\<lambda>_.
          bindR (case detail of
              None \<Rightarrow> Inr ChooseHigh
            | Some d \<Rightarrow>
                if d = ''high'' then Inr ChooseHigh
                else if d = ''original'' then Inr ChooseOriginal
                else Inl (refused ''invalid_tool_arguments''
                  (''view_image detail must be `high` or `original`, got `'' @ d @ ''`'')))
            (\<lambda>choice.
          Inr \<lparr>po_request = Single (ExecReadFile \<lparr>fp_cwd = cx_cwd cx, fp_path = path\<rparr>
                 max_file_bytes),
               po_generation = None,
               po_progress = ViewImage \<lparr>vi_path = path, vi_detail = choice\<rparr>\<rparr>))))"

definition prepare_apply_patch ::
    "tool_call \<Rightarrow> codex_config \<Rightarrow> tool_failure + file_tool_state prepared" where
  "prepare_apply_patch call cx =
     (case tl_input call of
        InputJson _ \<Rightarrow>
          Inl (refused ''invalid_tool_arguments'' ''apply_patch requires freeform patch text'')
      | InputText input \<Rightarrow>
          bindR (guardR (length input \<le> max_patch_bytes)
            (refused ''patch_too_large'' ''apply_patch input exceeds the 1 MiB limit'')) (\<lambda>_.
          bindR (case parse_patch input of
              Inl message \<Rightarrow> Inl (refused ''invalid_patch'' (''Invalid patch: '' @ message))
            | Inr hunks \<Rightarrow> Inr hunks) (\<lambda>patch.
          bindR (patch_paths patch) (\<lambda>paths.
          Inr \<lparr>po_request = Batch Parallel [NotFound] (enumerate_map (read_operation cx) paths),
               po_generation = None,
               po_progress = ApplyPatch \<lparr>ap_phase = Reading, ap_patch = patch,
                 ap_generation_id = None, ap_mutations = [], ap_summary = []\<rparr>\<rparr>))))"

definition prepare_new_file ::
    "codex_env \<Rightarrow> tool_call \<Rightarrow> codex_config \<Rightarrow> tool_failure + file_tool_state prepared option" where
  "prepare_new_file env call cx =
     (if tl_name call = ''view_image'' then map_sum id Some (prepare_view_image env call cx)
      else if tl_name call = ''apply_patch'' then map_sum id Some (prepare_apply_patch call cx)
      else Inr None)"

definition mutation_operation :: "codex_config \<Rightarrow> nat \<Rightarrow> patch_mutation \<Rightarrow> batch_operation" where
  "mutation_operation cx index m =
     \<lparr>bo_request_id = ''mutation-'' @ decimal index,
      bo_operation =
       (case m of
          MutWrite mutation_id path data _ expected \<Rightarrow>
            ExecWriteFile mutation_id \<lparr>fp_cwd = cx_cwd cx, fp_path = path\<rparr> data
              (case expected of None \<Rightarrow> MustBeMissing | Some sha \<Rightarrow> MustHaveSha256 sha)
        | MutRemove mutation_id path expected \<Rightarrow>
            ExecRemoveFile mutation_id \<lparr>fp_cwd = cx_cwd cx, fp_path = path\<rparr>
              (MustHaveSha256 expected))\<rparr>"

definition prepare_ready_file ::
    "file_tool_state \<Rightarrow> codex_config \<Rightarrow> tool_failure + file_tool_state prepared" where
  "prepare_ready_file progress cx =
     (case progress of
        ViewImage _ \<Rightarrow> Inl (refused ''invalid_filesystem_state''
          ''view_image cannot require another filesystem operation'')
      | ApplyPatch st \<Rightarrow>
         (case ap_phase st of
            Reading \<Rightarrow> Inl (refused ''invalid_filesystem_state''
              ''initial patch reads were already submitted'')
          | Mutating \<Rightarrow>
              Inr \<lparr>po_request = Batch Sequential []
                     (enumerate_map (mutation_operation cx) (ap_mutations st)),
                   po_generation = ap_generation_id st, po_progress = progress\<rparr>
          | Reconciling \<Rightarrow>
              Inr \<lparr>po_request = Batch Parallel [NotFound] (enumerate_map
                     (\<lambda>i m. read_operation cx i (mutation_path m)) (ap_mutations st)),
                   po_generation = None, po_progress = progress\<rparr>))"

section \<open>Planning mutations\<close>

definition version :: "codex_env \<Rightarrow> string \<Rightarrow> file_version" where
  "version env data = \<lparr>fv_data = data, fv_sha256 = xv_sha256_hex env data\<rparr>"

text \<open>A file the batch read, or that the patch has made or removed: \<open>None\<close> is no file.\<close>

type_synonym files = "string \<Rightarrow> file_version option option"

definition require_file :: "files \<Rightarrow> string \<Rightarrow> tool_failure + file_version" where
  "require_file fs path =
     ok_or (Option.bind (fs path) id) (refused ''patch_target_not_found''
       (''Failed to read file to update '' @ path @ '': file does not exist''))"

definition summary :: "string \<Rightarrow> string \<Rightarrow> patch_summary" where
  "summary action path = \<lparr>ps_action = action, ps_path = path\<rparr>"

text \<open>The virtual files, the touched paths in order and the summary after a hunk.\<close>

definition apply_hunk ::
    "codex_env \<Rightarrow> patch_hunk \<Rightarrow> files \<times> string list \<times> patch_summary list
     \<Rightarrow> tool_failure + files \<times> string list \<times> patch_summary list" where
  "apply_hunk env hunk acc =
     (case acc of (fs, touched, summaries) \<Rightarrow>
      case hunk of
        HunkAdd path content \<Rightarrow>
          Inr (fs(path \<mapsto> Some (version env content)), touch path touched,
               summaries @ [summary ''A'' path])
      | HunkDelete path \<Rightarrow>
          bindR (require_file fs path) (\<lambda>_.
          Inr (fs(path \<mapsto> None), touch path touched, summaries @ [summary ''D'' path]))
      | HunkUpdate path move chunks \<Rightarrow>
          bindR (require_file fs path) (\<lambda>source.
          bindR (guardR (xv_utf8 env (fv_data source)) (refused ''invalid_patch_target''
            (''Failed to read file to update '' @ path @ '': file is not valid UTF-8''))) (\<lambda>_.
          bindR (apply_chunks path (fv_data source) chunks) (\<lambda>updated.
          case move of
            Some destination \<Rightarrow>
              Inr (fs(path \<mapsto> None, destination \<mapsto> Some (version env updated)),
                   touch path (touch destination touched),
                   summaries @ [summary ''M'' (path @ '' -> '' @ destination)])
          | None \<Rightarrow>
              Inr (fs(path \<mapsto> Some (version env updated)), touch path touched,
                   summaries @ [summary ''M'' path])))))"

definition mutation_id :: "codex_env \<Rightarrow> uuid \<Rightarrow> string \<Rightarrow> nat \<Rightarrow> string" where
  "mutation_id env turn call_id n =
     ''basic-codex:'' @ xv_uuid_text env turn @ '':'' @ xv_sha256_hex env call_id
       @ '':file:'' @ decimal n"

text \<open>\<open>get(&path).cloned().flatten()\<close>\<close>

definition file_at :: "files \<Rightarrow> string \<Rightarrow> file_version option" where
  "file_at fs path = Option.bind (fs path) id"

definition plan_mutation ::
    "codex_env \<Rightarrow> uuid \<Rightarrow> string \<Rightarrow> files \<Rightarrow> files \<Rightarrow> patch_mutation list \<Rightarrow> string
     \<Rightarrow> patch_mutation list" where
  "plan_mutation env turn call_id initial final mutations path =
     (let before = file_at initial path; after = file_at final path;
          m = mutation_id env turn call_id (length mutations) in
      if map_option fv_sha256 before = map_option fv_sha256 after then mutations
      else mutations @ (case after of
          Some new \<Rightarrow> [MutWrite m path (xv_base64_encode env (fv_data new)) (fv_sha256 new)
            (map_option fv_sha256 before)]
        | None \<Rightarrow> (case before of
            Some old \<Rightarrow> [MutRemove m path (fv_sha256 old)] | None \<Rightarrow> [])))"

definition plan_mutations ::
    "codex_env \<Rightarrow> patch_hunk list \<Rightarrow> file_version option list \<Rightarrow> uuid \<Rightarrow> string
     \<Rightarrow> tool_failure + patch_mutation list \<times> patch_summary list" where
  "plan_mutations env patch reads turn call_id =
     bindR (patch_paths patch) (\<lambda>paths.
     let initial = map_of (zip paths reads) in
     bindR (foldR (apply_hunk env) patch (initial, [], [])) (\<lambda>(final, touched, summaries).
     Inr (foldl (plan_mutation env turn call_id initial final) [] touched, summaries)))"

section \<open>Responses\<close>

definition single_result :: "exec_response \<Rightarrow> tool_failure + json" where
  "single_result response =
     (case er_outcome response of
        ExecOk result \<Rightarrow> Inr result
      | ExecFailed e \<Rightarrow> Inl (refused (code_name ''filesystem'' (ee_code e)) (ee_message e)))"

definition batch_results :: "codex_env \<Rightarrow> exec_response \<Rightarrow> tool_failure + batch_item list" where
  "batch_results env response =
     bindR (single_result response) (\<lambda>value.
     case xv_batch env value of
       Inl e \<Rightarrow> Inl (refused ''invalid_execution_response''
         (''invalid filesystem batch response: '' @ e))
     | Inr items \<Rightarrow> Inr items)"

definition read_file_of :: "codex_env \<Rightarrow> json \<Rightarrow> tool_failure + read_file" where
  "read_file_of env value =
     (case xv_read_file env value of
        Inl e \<Rightarrow> Inl (refused ''invalid_execution_response''
          (''invalid filesystem read response: '' @ e))
      | Inr f \<Rightarrow> Inr f)"

definition decode_bytes :: "codex_env \<Rightarrow> string \<Rightarrow> string \<Rightarrow> tool_failure + string" where
  "decode_bytes env message data =
     (case xv_base64_decode env data of
        Inl e \<Rightarrow> Inl (refused ''invalid_execution_response'' (message @ e)) | Inr bytes \<Rightarrow> Inr bytes)"

definition decode_read :: "codex_env \<Rightarrow> batch_item \<Rightarrow> tool_failure + file_version option" where
  "decode_read env item =
     (case bi_outcome item of
        ItemOk result \<Rightarrow>
          bindR (read_file_of env result) (\<lambda>f.
          bindR (decode_bytes env ''filesystem file bytes are invalid base64: '' (fr_data_base64 f))
            (\<lambda>data. Inr (Some \<lparr>fv_data = data, fv_sha256 = fr_sha256 f\<rparr>)))
      | ItemFailed e \<Rightarrow>
          (if ee_code e = NotFound then Inr None
           else Inl (refused (code_name ''filesystem'' (ee_code e)) (ee_message e)))
      | ItemSkipped reason \<Rightarrow> Inl (refused ''filesystem_read_skipped'' reason))"

definition decode_read_batch ::
    "codex_env \<Rightarrow> exec_response \<Rightarrow> string list \<Rightarrow> tool_failure + file_version option list" where
  "decode_read_batch env response paths =
     bindR (batch_results env response) (\<lambda>items.
     bindR (guardR (length items = length paths) (refused ''invalid_execution_response''
       ''filesystem read batch returned an unexpected number of results'')) (\<lambda>_.
     mapR (decode_read env) items))"

definition summary_json :: "patch_summary list \<Rightarrow> json" where
  "summary_json items = JArray (map (\<lambda>item. JObject
     [(''action'', JString (ps_action item)), (''path'', JString (ps_path item))]) items)"

definition patch_success :: "apply_patch_state \<Rightarrow> bool \<Rightarrow> tool_result_snapshot" where
  "patch_success st reconciled =
     text_snapshot (''Success. Updated the following files:''
         @ concat (map (\<lambda>item. [newline] @ ps_action item @ '' '' @ ps_path item) (ap_summary st)))
       ToolSuccess
       (Some (JObject [(''changes'', summary_json (ap_summary st)),
         (''reconciled_after_unknown'', JBool reconciled)]))"

text \<open>The results of the mutations in order: the first one that is not done ends the tool.\<close>

fun check_applied ::
    "apply_patch_state \<Rightarrow> json list \<Rightarrow> batch_item list \<Rightarrow> tool_failure + unit" where
  "check_applied st applied [] = Inr ()"
| "check_applied st applied (item # items) =
     (case bi_outcome item of
        ItemOk result \<Rightarrow> check_applied st (applied @ [result]) items
      | ItemFailed e \<Rightarrow>
          Inl (Refused (tool_error_with_details (code_name ''filesystem'' (ee_code e))
            (''apply_patch failed: '' @ ee_message e)
            (JObject [(''applied'', JArray applied),
              (''failed_index'', JNumber (decimal (length applied))),
              (''summary'', summary_json (ap_summary st))])))
      | ItemSkipped reason \<Rightarrow>
          Inl (Refused (tool_error_with_details ''patch_partially_applied''
            (''apply_patch stopped after an earlier mutation failed: '' @ reason)
            (JObject [(''applied'', JArray applied),
              (''skipped_index'', JNumber (decimal (length applied))),
              (''summary'', summary_json (ap_summary st))]))))"

text \<open>The file is as the mutation wanted it.\<close>

definition reconciled :: "patch_mutation \<times> file_version option \<Rightarrow> bool" where
  "reconciled p =
     (case p of (m, current) \<Rightarrow>
      case m of
        MutWrite _ _ _ desired _ \<Rightarrow> map_option fv_sha256 current = Some desired
      | MutRemove _ _ _ \<Rightarrow> current = None)"

definition apply_patch_response ::
    "codex_env \<Rightarrow> apply_patch_state \<Rightarrow> exec_response \<Rightarrow> uuid \<Rightarrow> string
     \<Rightarrow> tool_failure + file_applied" where
  "apply_patch_response env st response turn call_id =
     (case ap_phase st of
        Reading \<Rightarrow>
          bindR (patch_paths (ap_patch st)) (\<lambda>paths.
          bindR (decode_read_batch env response paths) (\<lambda>reads.
          bindR (plan_mutations env (ap_patch st) reads turn call_id) (\<lambda>(mutations, summaries).
          bindR (guardR (mutations \<noteq> []) (refused ''empty_patch'' ''No files were modified.'')) (\<lambda>_.
          Inr (FileReady (ApplyPatch (st\<lparr>ap_generation_id := Some (er_generation response),
            ap_phase := Mutating, ap_mutations := mutations, ap_summary := summaries\<rparr>)))))))
      | Mutating \<Rightarrow>
          bindR (batch_results env response) (\<lambda>items.
          bindR (check_applied st [] items) (\<lambda>_.
          Inr (FileDone (patch_success st False))))
      | Reconciling \<Rightarrow>
          bindR (decode_read_batch env response (map mutation_path (ap_mutations st))) (\<lambda>reads.
          bindR (guardR (list_all reconciled (zip (ap_mutations st) reads))
            (Refused (tool_error_with_details ''filesystem_unknown''
              ''apply_patch outcome is unknown and the intended final state could not be confirmed''
              (JObject [(''summary'', summary_json (ap_summary st))])))) (\<lambda>_.
          Inr (FileDone (patch_success st True)))))"

definition apply_view_image ::
    "codex_env \<Rightarrow> view_image_state \<Rightarrow> exec_response \<Rightarrow> tool_failure + file_applied" where
  "apply_view_image env st response =
     bindR (single_result response) (\<lambda>value.
     bindR (read_file_of env value) (\<lambda>f.
     bindR (guardR (fr_is_file f) (refused ''invalid_image'' ''image path is not a file'')) (\<lambda>_.
     bindR (decode_bytes env ''image bytes are not valid base64: '' (fr_data_base64 f)) (\<lambda>bytes.
     bindR (case xv_prepare_image env bytes (vi_detail st) of
         Inl message \<Rightarrow> Inl (refused ''invalid_image'' (''unable to process image: '' @ message))
       | Inr prepared \<Rightarrow> Inr prepared) (\<lambda>img.
     bindR (case xv_publish env (im_mime img) (im_bytes img) of
         Inl message \<Rightarrow> Inl (refused ''image_upload_failed''
           (''unable to publish image for model input: '' @ message))
       | Inr published \<Rightarrow> Inr published) (\<lambda>published.
     bindR (guardR (starts_with ''http://'' (pa_url published)
         \<or> starts_with ''https://'' (pa_url published))
       (refused ''image_upload_failed'' ''image bucket returned a non-HTTP URL'')) (\<lambda>_.
     Inr (FileDone
       \<lparr>ts_content = [ImagePart (pa_url published)
          (Some (case vi_detail st of ChooseHigh \<Rightarrow> DetailHigh | ChooseOriginal \<Rightarrow> DetailOriginal))
          None],
        ts_outcome = ToolSuccess,
        ts_details = Some (JObject
          [(''path'', JString (vi_path st)), (''resolved_path'', JString (fr_path f)),
           (''sha256'', JString (fr_sha256 f)),
           (''published_sha256'', JString (pa_sha256 published)),
           (''published_size_bytes'', JNumber (decimal (pa_size_bytes published))),
           (''source_width'', JNumber (decimal (im_source_width img))),
           (''source_height'', JNumber (decimal (im_source_height img))),
           (''width'', JNumber (decimal (im_width img))),
           (''height'', JNumber (decimal (im_height img))),
           (''detail'', JString (case vi_detail st of
              ChooseHigh \<Rightarrow> ''high'' | ChooseOriginal \<Rightarrow> ''original''))])\<rparr>))))))))"

definition apply_file_response ::
    "codex_env \<Rightarrow> file_tool_state \<Rightarrow> exec_response \<Rightarrow> uuid \<Rightarrow> string
     \<Rightarrow> tool_failure + file_applied" where
  "apply_file_response env progress response turn call_id =
     (case progress of
        ViewImage st \<Rightarrow> apply_view_image env st response
      | ApplyPatch st \<Rightarrow> apply_patch_response env st response turn call_id)"

definition apply_unknown :: "file_tool_state \<Rightarrow> string \<Rightarrow> tool_failure + file_applied" where
  "apply_unknown progress message =
     (let lost = Inl (Refused (tool_error_with_details ''filesystem_unknown''
            (''filesystem operation outcome is unknown: '' @ message)
            (JObject [(''operation_outcome'', JString ''unknown'')]))) in
      case progress of
        ApplyPatch st \<Rightarrow>
          if ap_phase st = Mutating
          then Inr (FileReady (ApplyPatch (st\<lparr>ap_phase := Reconciling\<rparr>))) else lost
      | ViewImage _ \<Rightarrow> lost)"

end
