(* ===== verification/CodexPlanOps.thy ===== *)
theory CodexPlanOps
  imports CodexPlan
begin

text \<open>
  What a parsed plan promises, and what advancing it and collecting its results do.
\<close>

section \<open>Segments\<close>

lemma successively_snoc:
  "successively P (xs @ [y]) \<longleftrightarrow> successively P xs \<and> (xs = [] \<or> P (last xs) y)"
  by (induction xs rule: induct_list012) (auto simp: successively_append_iff)

lemma segments_for_Nil: "segments_for [] []"
  by (simp add: segments_for_def)

lemma segment_member_mono:
  "(\<exists>call \<in> set calls. Q call) \<Longrightarrow> (\<exists>call \<in> set (calls @ cs). Q call)"
  by auto

lemma push_segment_segments_for:
  assumes "segments_for calls segments"
  shows "segments_for (calls @ [call]) (push_segment segments call)"
proof (cases "tl_scheduling call = ParallelSafe \<and> segments \<noteq> []
    \<and> sg_scheduling (last segments) = ParallelSafe")
  case False
  then have push: "push_segment segments call = segments @
      [\<lparr>sg_scheduling = tl_scheduling call, sg_ordinals = [tl_ordinal call]\<rparr>]"
    by (auto simp: push_segment_def Let_def split: tool_scheduling.splits)
  have "segments = [] \<or> sg_scheduling (last segments) = Exclusive \<or> tl_scheduling call = Exclusive"
    using False by (metis tool_scheduling.exhaust)
  with assms show ?thesis
    unfolding push by (auto simp: segments_for_def successively_snoc list_all_iff)
next
  case True
  then obtain init s where segments: "segments = init @ [s]" and par: "sg_scheduling s = ParallelSafe"
    by (metis append_butlast_last_id)
  have push: "push_segment (init @ [s]) call =
      init @ [s\<lparr>sg_ordinals := sg_ordinals s @ [tl_ordinal call]\<rparr>]"
    using True par by (simp add: push_segment_def)
  from assms True par show ?thesis
    unfolding segments push by (auto simp: segments_for_def successively_snoc list_all_iff)
qed

lemma foldl_push_segments_for:
  "segments_for seen segments \<Longrightarrow> segments_for (seen @ calls) (foldl push_segment segments calls)"
proof (induction calls arbitrary: seen segments)
  case Nil
  then show ?case by simp
next
  case (Cons call calls)
  from Cons.IH [OF push_segment_segments_for [OF Cons.prems]] show ?case by simp
qed

lemma build_segments_for: "segments_for (filter is_pending calls) (build_segments calls)"
  unfolding build_segments_def
  using foldl_push_segments_for [OF segments_for_Nil] by simp

section \<open>Parsing\<close>

lemma parse_item_ok:
  assumes run: "parse_item env item (calls, ids) = Inr (calls', ids')"
    and ok: "calls_ok calls" "set ids = set (map tl_call_id calls)"
  shows "calls_ok calls' \<and> set ids' = set (map tl_call_id calls')"
proof -
  have status: "parse_function_input env v d = (i, st) \<Longrightarrow> st = CallPending \<or> (\<exists>r. st = CallCompleted r)"
    "parse_custom_input v = (i, st) \<Longrightarrow> st = CallPending \<or> (\<exists>r. st = CallCompleted r)"
    for v d i st
    by (auto simp: parse_function_input_def parse_custom_input_def invalid_function_input_def
        split: option.splits sum.splits if_splits)
  have "calls' = calls \<and> ids' = ids \<or> (\<exists>call. calls' = calls @ [call]
      \<and> ids' = tl_call_id call # ids \<and> tl_call_id call \<notin> set ids
      \<and> tl_ordinal call = length calls \<and> (is_pending call \<or> is_completed call))"
  proof -
    obtain v where v: "xv_parse env item = Inr v"
      using run by (cases "xv_parse env item") (simp_all add: parse_item_def)
    show ?thesis
    proof (cases "calls' = calls \<and> ids' = ids")
      case False
      then obtain kind call_id name d where "call_id \<notin> set ids"
        and tail: "(let (input, status) = (case kind of
                CallFunction \<Rightarrow> parse_function_input env v d
              | CallCustom \<Rightarrow> parse_custom_input v) in
          bindR (guardR (length calls < 4294967296) ''assistant returned too many tool calls'') (\<lambda>_.
          Inr (calls @ [\<lparr>tl_call_id = call_id, tl_name = name, tl_ordinal = length calls,
                 tl_kind = kind, tl_input = input, tl_scheduling = td_scheduling d,
                 tl_status = status\<rparr>], call_id # ids))) = Inr (calls', ids')"
        using run v by (auto simp: parse_item_def result_simps split: option.splits if_splits)
      then show ?thesis
        by (cases kind) (auto simp: result_simps Let_def is_pending_def is_completed_def
            split: prod.splits dest: status)
    qed simp
  qed
  with ok show ?thesis
    by (auto simp: calls_ok_def)
qed

section \<open>Advancing\<close>

lemma advance_from_takeWhile:
  "advance_from segments calls i
     = i + length (takeWhile (segment_complete calls) (drop i segments))"
proof (induction segments calls i rule: advance_from.induct)
  case (1 segments calls i)
  show ?case
  proof (cases "i < length segments")
    case True
    then have drop: "drop i segments = segments ! i # drop (Suc i) segments"
      by (simp add: Cons_nth_drop_Suc)
    with 1 True show ?thesis
      by (subst advance_from.simps) (simp add: nth_opt_def)
  next
    case False
    then show ?thesis by (subst advance_from.simps) (simp add: nth_opt_def)
  qed
qed

section \<open>Results\<close>

fun result_call_id :: "message \<Rightarrow> string option" where
  "result_call_id (ToolResultMsg _ _ call_id _ _ _) = Some call_id"
| "result_call_id _ = None"

lemma result_messages_ids:
  "list_all is_completed calls
    \<Longrightarrow> map result_call_id (concat (map (result_message env) calls)) = map (Some \<circ> tl_call_id) calls"
  by (induction calls) (auto simp: is_completed_def result_message_def split: tool_call_status.splits)

end
