(* ===== verification/CodexTools.thy ===== *)
theory CodexTools
  imports CodexFiles CodexCleanup CodexPlanOps
begin

text \<open>
  Running the tool calls of a plan (\<open>packages/basic-codex-harness/src/tool_execution.rs\<close>):
  \<open>schedule_ready\<close> submits what the active segment is ready for, \<open>apply_completion\<close> gives a
  completed operation to the call that awaits it.
\<close>

section \<open>The current plan\<close>

definition turn_plan :: "active_turn \<Rightarrow> tool_plan option" where
  "turn_plan turn = (case at_phase turn of ExecutingTools plan \<Rightarrow> Some plan | _ \<Rightarrow> None)"

definition current_plan :: "codex_state \<Rightarrow> handler_failure + tool_plan" where
  "current_plan s =
     bindR (or_error (cd_active_turn s) ''tool plan has no active turn'') (\<lambda>turn.
     or_error (turn_plan turn) ''active turn does not contain a tool plan'')"

text \<open>Writing through \<open>current_plan_mut\<close>.\<close>

definition put_plan :: "tool_plan \<Rightarrow> codex_state \<Rightarrow> codex_state" where
  "put_plan plan s = s\<lparr>cd_active_turn :=
     map_option (\<lambda>turn. turn\<lparr>at_phase := ExecutingTools plan\<rparr>) (cd_active_turn s)\<rparr>"

definition set_status_of :: "nat \<Rightarrow> tool_call_status \<Rightarrow> tool_plan \<Rightarrow> tool_plan" where
  "set_status_of n status plan = plan\<lparr>pl_calls := (pl_calls plan)
     [n := (pl_calls plan ! n)\<lparr>tl_status := status\<rparr>]\<rparr>"

definition update_call ::
    "string \<Rightarrow> nat \<Rightarrow> tool_call_status \<Rightarrow> codex_state \<Rightarrow> handler_failure + codex_state" where
  "update_call message n status s =
     bindR (current_plan s) (\<lambda>plan.
     bindR (or_error (nth_opt (pl_calls plan) n) message) (\<lambda>_.
     Inr (put_plan (set_status_of n status plan) s)))"

definition complete_call :: "nat \<Rightarrow> tool_result_snapshot \<Rightarrow> codex_state \<Rightarrow> handler_failure + codex_state" where
  "complete_call n snapshot =
     update_call ''tool call ordinal does not exist'' n (CallCompleted snapshot)"

section \<open>Sessions in use\<close>

definition submitted_session :: "tool_call \<Rightarrow> int option" where
  "submitted_session call =
     (case tl_status call of CallSubmitted _ (ShellCall p) \<Rightarrow> sc_session_id p | _ \<Rightarrow> None)"

definition submitted_resources :: "tool_plan \<Rightarrow> int list" where
  "submitted_resources plan = List.map_filter submitted_session (pl_calls plan)"

definition resource_session_id :: "codex_env \<Rightarrow> tool_call \<Rightarrow> int option" where
  "resource_session_id env call =
     (case tl_status call of
        CallReady (ShellCall p) \<Rightarrow> sc_session_id p
      | CallSubmitted _ (ShellCall p) \<Rightarrow> sc_session_id p
      | CallPending \<Rightarrow>
          (if tl_name call = ''write_stdin''
           then case tl_input call of
               InputJson value \<Rightarrow> Option.bind (json_get ''session_id'' value) (xv_session_number env)
             | InputText _ \<Rightarrow> None
           else None)
      | _ \<Rightarrow> None)"

section \<open>Scheduling\<close>

record prepared_call =
  pq_ordinal :: nat
  pq_request :: exec_payload
  pq_generation :: "uuid option"
  pq_progress :: tool_call_progress

definition from_shell :: "nat \<Rightarrow> shell_call_state prepared \<Rightarrow> prepared_call" where
  "from_shell n p = \<lparr>pq_ordinal = n, pq_request = po_request p, pq_generation = po_generation p,
     pq_progress = ShellCall (po_progress p)\<rparr>"

definition from_file :: "nat \<Rightarrow> file_tool_state prepared \<Rightarrow> prepared_call" where
  "from_file n p = \<lparr>pq_ordinal = n, pq_request = po_request p, pq_generation = po_generation p,
     pq_progress = FileCall (po_progress p)\<rparr>"

definition prepare_pending ::
    "codex_env \<Rightarrow> codex_config \<Rightarrow> session_id \<Rightarrow> uuid \<Rightarrow> int \<Rightarrow> codex_state \<Rightarrow> nat \<Rightarrow> tool_call
     \<Rightarrow> tool_failure + prepared_call" where
  "prepare_pending env cx session turn started_at s n call =
     (case prepare_new_shell env call cx s session turn started_at of
        Inl snapshot \<Rightarrow> Inl (Refused snapshot)
      | Inr (Some p) \<Rightarrow> Inr (from_shell n p)
      | Inr None \<Rightarrow>
          bindR (prepare_new_file env call cx) (\<lambda>p.
          ok_or (map_option (from_file n) p) (refused ''tool_not_implemented''
            (tl_name call @ '' is not implemented yet''))))"

text \<open>What one call of the segment asks for; \<open>None\<close> where the loop continues.\<close>

definition prepare_call ::
    "codex_env \<Rightarrow> codex_config \<Rightarrow> session_id \<Rightarrow> uuid \<Rightarrow> int \<Rightarrow> codex_state \<Rightarrow> nat \<Rightarrow> tool_call
     \<Rightarrow> (tool_failure + prepared_call) option" where
  "prepare_call env cx session turn started_at s n call =
     (case tl_status call of
        CallPending \<Rightarrow> Some (prepare_pending env cx session turn started_at s n call)
      | CallReady (ShellCall p) \<Rightarrow>
          Some (case prepare_ready_shell p of
            Inl snapshot \<Rightarrow> Inl (Refused snapshot) | Inr q \<Rightarrow> Inr (from_shell n q))
      | CallReady (FileCall p) \<Rightarrow> Some (map_sum id (from_file n) (prepare_ready_file p cx))
      | CallSubmitted _ _ \<Rightarrow> None
      | CallCompleted _ \<Rightarrow> None)"

definition progress_session :: "tool_call_progress \<Rightarrow> int option" where
  "progress_session p = (case p of ShellCall q \<Rightarrow> sc_session_id q | FileCall _ \<Rightarrow> None)"

text \<open>The state, the busy sessions, the prepared calls and whether a call was refused.\<close>

type_synonym scheduling = "codex_state \<times> int list \<times> prepared_call list \<times> bool"

definition schedule_call ::
    "codex_env \<Rightarrow> codex_config \<Rightarrow> session_id \<Rightarrow> uuid \<Rightarrow> int \<Rightarrow> nat \<Rightarrow> scheduling
     \<Rightarrow> handler_failure + scheduling" where
  "schedule_call env cx session turn started_at n acc =
     (case acc of (s, busy, prepared, refusal) \<Rightarrow>
      bindR (current_plan s) (\<lambda>plan.
      bindR (or_error (nth_opt (pl_calls plan) n) ''tool plan contains an invalid call ordinal'')
        (\<lambda>call.
      let resource = resource_session_id env call in
      if (case resource of None \<Rightarrow> False | Some r \<Rightarrow> r \<in> set busy) then Inr acc
      else case prepare_call env cx session turn started_at s n call of
          None \<Rightarrow> Inr acc
        | Some (Inl ToolPanic) \<Rightarrow> Inl HandlerPanic
        | Some (Inl (Refused snapshot)) \<Rightarrow>
            bindR (complete_call n snapshot s) (\<lambda>s1. Inr (s1, busy, prepared, True))
        | Some (Inr p) \<Rightarrow>
            Inr (s,
              (case (case resource of None \<Rightarrow> progress_session (pq_progress p) | r \<Rightarrow> r) of
                 None \<Rightarrow> busy | Some r \<Rightarrow> r # busy),
              prepared @ [p], refusal))))"

definition submit_call ::
    "codex_env \<Rightarrow> codex_harness \<Rightarrow> codex_config \<Rightarrow> prepared_call \<Rightarrow> codex_outcome
     \<Rightarrow> handler_failure + codex_outcome" where
  "submit_call env hn cx p b =
     bindR (stage_execution env hn cx (pq_generation p) (pq_request p)
       ''could not stage shell operation'' b) (\<lambda>(i, b1).
     bindR (update_call ''tool call disappeared while staging execution'' (pq_ordinal p)
       (CallSubmitted i (pq_progress p)) (ho_state b1)) (\<lambda>s.
     Inr (b1\<lparr>ho_state := s\<rparr>)))"

definition advance_plan :: "codex_state \<Rightarrow> handler_failure + codex_state" where
  "advance_plan s =
     bindR (current_plan s) (\<lambda>plan. Inr (put_plan (advance_completed_segments plan) s))"

text \<open>The turn and the calls of its active segment; \<open>None\<close> past the last segment.\<close>

definition active_ordinals :: "codex_state \<Rightarrow> handler_failure + (uuid \<times> nat list) option" where
  "active_ordinals s =
     bindR (or_error (cd_active_turn s) ''tool scheduling requires an active turn'') (\<lambda>turn.
     bindR (or_error (turn_plan turn) ''tool scheduling requires an executing-tools phase'')
       (\<lambda>plan.
     Inr (map_option (\<lambda>segment. (at_id turn, sg_ordinals segment)) (current_segment plan))))"

text \<open>One pass over the active segment.\<close>

definition schedule_pass ::
    "codex_env \<Rightarrow> codex_config \<Rightarrow> session_id \<Rightarrow> int \<Rightarrow> codex_state
     \<Rightarrow> handler_failure + scheduling option" where
  "schedule_pass env cx session started_at s =
     bindR (active_ordinals s) (\<lambda>scope.
     case scope of
       None \<Rightarrow> Inr None
     | Some (turn, ordinals) \<Rightarrow>
         bindR (current_plan s) (\<lambda>plan.
         bindR (foldR (schedule_call env cx session turn started_at) ordinals
           (s, submitted_resources plan, [], False)) (\<lambda>r. Inr (Some r))))"

text \<open>The calls that are not completed: every repetition of the loop completes one.\<close>

definition open_calls :: "codex_state \<Rightarrow> nat" where
  "open_calls s = (case current_plan s of
     Inl _ \<Rightarrow> 0 | Inr plan \<Rightarrow> length (filter (\<lambda>call. \<not> is_completed call) (pl_calls plan)))"

lemma turn_plan_Some: "turn_plan turn = Some plan \<longleftrightarrow> at_phase turn = ExecutingTools plan"
  by (cases "at_phase turn") (auto simp: turn_plan_def)

lemma current_plan_Inr:
  "current_plan s = Inr plan \<longleftrightarrow> (\<exists>turn. cd_active_turn s = Some turn \<and> at_phase turn = ExecutingTools plan)"
  by (auto simp: current_plan_def turn_plan_Some result_simps)

lemma current_plan_put:
  "current_plan s = Inr plan0 \<Longrightarrow> current_plan (put_plan plan s) = Inr plan"
  by (auto simp: current_plan_Inr put_plan_def)

lemma filter_update_less:
  "i < length xs \<Longrightarrow> P (xs ! i) \<Longrightarrow> \<not> P x
    \<Longrightarrow> length (filter P (xs[i := x])) < length (filter P xs)"
proof (induction xs arbitrary: i)
  case Nil
  then show ?case by simp
next
  case (Cons y ys)
  then show ?case by (cases i) auto
qed

lemma complete_call_open:
  assumes "complete_call n snapshot s = Inr s'" and "current_plan s = Inr plan"
    and "\<not> is_completed (pl_calls plan ! n)"
  shows "open_calls s' < open_calls s"
proof -
  from assms(1,2) have n: "n < length (pl_calls plan)"
    and s': "s' = put_plan (set_status_of n (CallCompleted snapshot) plan) s"
    by (auto simp: complete_call_def update_call_def result_simps nth_opt_def split: if_splits)
  show ?thesis
    using filter_update_less [OF n, of "\<lambda>call. \<not> is_completed call"
        "(pl_calls plan ! n)\<lparr>tl_status := CallCompleted snapshot\<rparr>"] assms(3)
    by (simp add: s' open_calls_def current_plan_put [OF assms(2)] assms(2) set_status_of_def
        is_completed_def)
qed

lemma prepare_call_open: "prepare_call env cx session turn at s n call \<noteq> None \<Longrightarrow> \<not> is_completed call"
  by (auto simp: prepare_call_def is_completed_def split: tool_call_status.splits)

lemma schedule_call_open:
  assumes "schedule_call env cx session turn at n (s, busy, prepared, r) = Inr (s', busy', prepared', r')"
  shows "open_calls s' < open_calls s \<or> open_calls s' = open_calls s \<and> r' = r"
proof -
  from assms obtain plan where plan: "current_plan s = Inr plan"
    by (auto simp: schedule_call_def result_simps)
  show ?thesis
  proof (cases "s' = s \<and> r' = r")
    case False
    with assms plan obtain snapshot where "complete_call n snapshot s = Inr s'"
      and "prepare_call env cx session turn at s n (pl_calls plan ! n) \<noteq> None"
      by (auto simp: schedule_call_def result_simps Let_def nth_opt_def
          split: if_splits option.splits sum.splits tool_failure.splits)
    then show ?thesis
      using complete_call_open [OF _ plan] prepare_call_open by metis
  qed simp
qed

lemma schedule_calls_open:
  "foldR (schedule_call env cx session turn at) ns (s, busy, prepared, r) = Inr (s', busy', prepared', r')
    \<Longrightarrow> open_calls s' < open_calls s \<or> open_calls s' = open_calls s \<and> r' = r"
proof (induction ns arbitrary: s busy prepared r)
  case Nil
  then show ?case by simp
next
  case (Cons n ns)
  from Cons.prems obtain s1 busy1 prepared1 r1
    where first: "schedule_call env cx session turn at n (s, busy, prepared, r)
        = Inr (s1, busy1, prepared1, r1)"
      and rest: "foldR (schedule_call env cx session turn at) ns (s1, busy1, prepared1, r1)
        = Inr (s', busy', prepared', r')"
    by (auto simp: result_simps)
  from schedule_call_open [OF first] Cons.IH [OF rest] show ?case by auto
qed

lemma schedule_pass_open:
  assumes "schedule_pass env cx session at s = Inr (Some (s', busy, prepared, True))"
  shows "open_calls s' < open_calls s"
proof -
  from assms obtain turn ns plan
    where "foldR (schedule_call env cx session turn at) ns (s, submitted_resources plan, [], False)
      = Inr (s', busy, prepared, True)"
    by (auto simp: schedule_pass_def result_simps split: option.splits)
  from schedule_calls_open [OF this] show ?thesis by simp
qed

lemma advance_plan_open: "advance_plan s = Inr s' \<Longrightarrow> open_calls s' = open_calls s"
  by (auto simp: advance_plan_def result_simps open_calls_def current_plan_put
      advance_completed_segments_def)

lemma schedule_again_open:
  "schedule_pass env cx session at s = Inr (Some (s1, busy, prepared, True))
    \<Longrightarrow> advance_plan s1 = Inr s2 \<Longrightarrow> open_calls s2 < open_calls s"
  by (metis schedule_pass_open advance_plan_open)

function schedule_ready ::
    "codex_env \<Rightarrow> codex_harness \<Rightarrow> codex_config \<Rightarrow> session_id \<Rightarrow> int \<Rightarrow> codex_outcome
     \<Rightarrow> handler_failure + codex_outcome" where
  "schedule_ready env hn cx session started_at b =
     (case schedule_pass env cx session started_at (ho_state b) of
        Inl e \<Rightarrow> Inl e
      | Inr None \<Rightarrow> Inr b
      | Inr (Some (s, busy, prepared, refusal)) \<Rightarrow>
          if prepared = []
          then if refusal
               then (case advance_plan s of
                   Inl e \<Rightarrow> Inl e
                 | Inr s1 \<Rightarrow> schedule_ready env hn cx session started_at (b\<lparr>ho_state := s1\<rparr>))
               else Inr (b\<lparr>ho_state := s\<rparr>)
          else foldR (submit_call env hn cx) prepared (b\<lparr>ho_state := s\<rparr>))"
  by pat_completeness auto
termination
  by (relation "measure (\<lambda>(env, hn, cx, session, started_at, b). open_calls (ho_state b))")
    (auto intro: schedule_again_open)

declare schedule_ready.simps [simp del]

section \<open>Completions\<close>

datatype tool_applied = ToolReady tool_call_progress | ToolDone tool_result_snapshot

definition shell_result :: "shell_applied \<Rightarrow> tool_applied" where
  "shell_result r = (case r of ShellReady p \<Rightarrow> ToolReady (ShellCall p) | ShellDone t \<Rightarrow> ToolDone t)"

definition file_result :: "file_applied \<Rightarrow> tool_applied" where
  "file_result r = (case r of FileReady p \<Rightarrow> ToolReady (FileCall p) | FileDone t \<Rightarrow> ToolDone t)"

text \<open>
  The state after a response: only a shell tool writes it, and only when it does not refuse
  (\<open>allocate_session_id\<close> fails before it stores anything).
\<close>

definition apply_tool_response ::
    "codex_env \<Rightarrow> tool_call_progress \<Rightarrow> exec_response \<Rightarrow> uuid \<Rightarrow> string \<Rightarrow> int \<Rightarrow> codex_state
     \<Rightarrow> (tool_failure + tool_applied) \<times> codex_state" where
  "apply_tool_response env progress response turn call_id completed_at s =
     (case progress of
        ShellCall p \<Rightarrow>
          (case apply_shell_response env p response turn completed_at s of
             Inl snapshot \<Rightarrow> (Inl (Refused snapshot), s)
           | Inr (r, s1) \<Rightarrow> (Inr (shell_result r), s1))
      | FileCall p \<Rightarrow>
          (map_sum id file_result (apply_file_response env p response turn call_id), s))"

text \<open>The call that awaits the operation.\<close>

definition awaits_operation :: "operation_id \<Rightarrow> tool_call \<Rightarrow> tool_call_progress option" where
  "awaits_operation i call =
     (case tl_status call of
        CallSubmitted j progress \<Rightarrow> if j = i then Some progress else None | _ \<Rightarrow> None)"

definition submitted_call :: "operation_id \<Rightarrow> tool_plan \<Rightarrow> (tool_call \<times> tool_call_progress) option" where
  "submitted_call i plan =
     (case List.find (\<lambda>call. awaits_operation i call \<noteq> None) (pl_calls plan) of
        None \<Rightarrow> None
      | Some call \<Rightarrow> map_option (Pair call) (awaits_operation i call))"

definition tool_outcome ::
    "codex_env \<Rightarrow> tool_call_progress \<Rightarrow> read_outcome \<Rightarrow> uuid \<Rightarrow> string \<Rightarrow> int \<Rightarrow> codex_state
     \<Rightarrow> handler_failure + (tool_failure + tool_applied) \<times> codex_state" where
  "tool_outcome env progress outcome turn call_id completed_at s =
     (case outcome of
        ReadSucceeded (ReadExecution response) \<Rightarrow>
          Inr (apply_tool_response env progress response turn call_id completed_at s)
      | ReadSucceeded _ \<Rightarrow>
          handler_error ''successful execution operation contains a non-execution result''
      | ReadFailed failure \<Rightarrow>
          Inr (case rf_response failure of
             Some response \<Rightarrow>
               apply_tool_response env progress response turn call_id completed_at s
           | None \<Rightarrow> (Inl (Refused (tool_error_with_details (rf_code failure)
               (''execution gateway rejected the operation: '' @ rf_message failure)
               (JObject [(''operation_outcome'', JString ''failed''),
                 (''failure'', xv_failure_json env failure)]))), s))
      | ReadUnknown failure \<Rightarrow>
          Inr (case progress of
             FileCall p \<Rightarrow> (map_sum id file_result (apply_unknown p (rf_message failure)), s)
           | ShellCall _ \<Rightarrow> (Inl (Refused (tool_error_with_details ''execution_unknown''
               (''execution outcome is unknown; do not automatically repeat the command or input: ''
                 @ rf_message failure)
               (JObject [(''operation_outcome'', JString ''unknown''),
                 (''failure'', xv_failure_json env failure)]))), s))
      | ReadCancelled \<Rightarrow>
          Inr (Inl (refused ''execution_cancelled'' ''execution operation was cancelled''), s))"

definition status_after :: "tool_failure + tool_applied \<Rightarrow> handler_failure + tool_call_status" where
  "status_after r =
     (case r of
        Inr (ToolReady progress) \<Rightarrow> Inr (CallReady progress)
      | Inr (ToolDone snapshot) \<Rightarrow> Inr (CallCompleted snapshot)
      | Inl (Refused snapshot) \<Rightarrow> Inr (CallCompleted snapshot)
      | Inl ToolPanic \<Rightarrow> Inl HandlerPanic)"

definition apply_completion ::
    "codex_env \<Rightarrow> codex_state \<Rightarrow> operation_id \<Rightarrow> read_outcome \<Rightarrow> int
     \<Rightarrow> handler_failure + codex_state" where
  "apply_completion env s i outcome completed_at =
     bindR (or_error (cd_active_turn s) ''execution completion has no active turn'') (\<lambda>turn.
     bindR (or_error (turn_plan turn)
       ''execution completion arrived outside the executing-tools phase'') (\<lambda>plan.
     bindR (or_error (submitted_call i plan)
       ''execution completion does not match a submitted tool call'') (\<lambda>(call, progress).
     bindR (tool_outcome env progress outcome (at_id turn) (tl_call_id call) completed_at s)
       (\<lambda>(applied, s1).
     bindR (status_after applied) (\<lambda>status.
     bindR (update_call ''tool call disappeared while applying its result'' (tl_ordinal call)
       status s1) advance_plan)))))"

end
