(* ===== verification/CodexContext.thy ===== *)
theory CodexContext
  imports CodexPlan
begin

text \<open>
  What the harness sends to the model and keeps of it: the prompt (\<open>prompt.rs\<close>), requests and the
  checks of a response (\<open>llm.rs\<close>), the compaction of the context (\<open>compaction.rs\<close>) and the
  terminal failure of a session (\<open>failure.rs\<close>), all of \<open>packages/basic-codex-harness/src\<close>.
\<close>

section \<open>The prompt (\<open>prompt.rs\<close>)\<close>

definition instructions :: "codex_env \<Rightarrow> codex_config \<Rightarrow> string" where
  "instructions env cx =
     (let base = trim_end (xv_base_instructions env) in
      case cx_instructions cx of
        Some additional \<Rightarrow>
          base @ [newline, newline] @ ''# Session instructions'' @ [newline, newline] @ additional
      | None \<Rightarrow> base)"

definition escape_xml :: "string \<Rightarrow> string" where
  "escape_xml value =
     replace_char (CHR 0x27) ''&apos;'' (replace_char (CHR 0x22) ''&quot;''
     (replace_char (CHR ''>'') ''&gt;'' (replace_char (CHR ''<'') ''&lt;''
     (replace_char (CHR ''&'') ''&amp;'' value))))"

definition xml_line :: "string \<Rightarrow> string \<Rightarrow> string" where
  "xml_line tag value = ''  <'' @ tag @ ''>'' @ escape_xml value @ ''</'' @ tag @ ''>''"

definition optional_line :: "string \<Rightarrow> string option \<Rightarrow> string list" where
  "optional_line tag value = (case value of None \<Rightarrow> [] | Some v \<Rightarrow> [xml_line tag v])"

definition environment_message :: "codex_config \<Rightarrow> string \<Rightarrow> message" where
  "environment_message cx current_date =
     UserMsg message_base_default [TextPart
       (join [newline]
         ([''<environment_context>'', xml_line ''cwd'' (cx_cwd cx),
           xml_line ''current_date'' current_date]
          @ optional_line ''shell'' (cx_shell cx) @ optional_line ''platform'' (cx_platform cx)
          @ [''</environment_context>'']))
       None]"

definition project_messages :: "codex_config \<Rightarrow> string \<Rightarrow> message list \<Rightarrow> message list" where
  "project_messages cx current_date messages = environment_message cx current_date # messages"

definition prompt_cache_key :: "codex_env \<Rightarrow> session_id \<Rightarrow> string" where
  "prompt_cache_key env session = xv_uuid_text env session"

section \<open>Requests and responses (\<open>llm.rs\<close>)\<close>

definition provider_options :: "codex_env \<Rightarrow> codex_config \<Rightarrow> session_id \<Rightarrow> metadata" where
  "provider_options env cx session =
     [(''reasoning'', JObject [(''effort'', JString (reasoning_effort_str (cx_effort cx)))]),
      (''parallel_tool_calls'', JBool True),
      (''store'', JBool False),
      (''include'', JArray [JString ''reasoning.encrypted_content'']),
      (''codex_remote_compaction_v2'', JBool True),
      (''prompt_cache_key'', JString (prompt_cache_key env session))]"

definition fresh_request ::
    "codex_env \<Rightarrow> codex_config \<Rightarrow> session_id \<Rightarrow> string \<Rightarrow> message list \<Rightarrow> llm_request" where
  "fresh_request env cx session current_date messages =
     Fresh (cx_account_id cx) (codex_model_str (cx_model cx)) (Some (instructions env cx))
       (project_messages cx current_date messages) (tool_definitions env)
       (provider_options env cx session)"

fun custom_item_tag :: "codex_provider \<Rightarrow> string" where
  "custom_item_tag CodexOpenai = ''openai_custom_item''"
| "custom_item_tag CodexChatgpt = ''chatgpt_custom_item''"

definition compaction_request ::
    "codex_env \<Rightarrow> codex_config \<Rightarrow> session_id \<Rightarrow> string \<Rightarrow> message list \<Rightarrow> llm_request" where
  "compaction_request env cx session current_date messages =
     fresh_request env cx session current_date
       (messages @ [CustomMsg message_base_default (custom_item_tag (cx_provider cx))
         (xv_print env (JObject [(''content'',
           JArray [JObject [(''type'', JString ''compaction_trigger'')]])]))])"

fun provider_debug :: "provider \<Rightarrow> string" where
  "provider_debug Openai = ''Openai''"
| "provider_debug Chatgpt = ''Chatgpt''"
| "provider_debug Fireworks = ''Fireworks''"

fun provider_json :: "provider \<Rightarrow> json" where
  "provider_json Openai = JString ''openai''"
| "provider_json Chatgpt = JString ''chatgpt''"
| "provider_json Fireworks = JString ''fireworks''"

definition check_item :: "codex_env \<Rightarrow> nat \<times> raw_json \<Rightarrow> unit \<Rightarrow> string + unit" where
  "check_item env p u =
     (case p of (index, item) \<Rightarrow>
      case xv_parse env item of
        Inl failure \<Rightarrow> Inl (''assistant item '' @ decimal index @ '' is invalid JSON: '' @ failure)
      | Inr value \<Rightarrow>
          bindR (guardR (case value of JObject _ \<Rightarrow> True | _ \<Rightarrow> False)
            (''assistant item '' @ decimal index @ '' must be an object'')) (\<lambda>_.
          guardR (case get_str ''type'' value of None \<Rightarrow> False | Some kind \<Rightarrow> trim kind \<noteq> [])
            (''assistant item '' @ decimal index @ '' requires a nonempty type'')))"

definition response_provider :: "codex_env \<Rightarrow> codex_config \<Rightarrow> assistant_response \<Rightarrow> string + provider" where
  "response_provider env cx response =
     (if trim (ar_id response) = [] then Inl ''LLM response ID must not be empty''
      else if ar_model_id response \<noteq> codex_model_str (cx_model cx)
      then Inl (''LLM response model '' @ ar_model_id response
        @ '' does not match configured model '' @ codex_model_str (cx_model cx))
      else case ar_message response of
        AssistantMsg _ provider content \<Rightarrow>
          bindR (foldR (check_item env) (List.enumerate 0 content) ()) (\<lambda>_.
          bindR (guardR (provider = contract_provider (cx_provider cx))
            (''LLM response provider '' @ provider_debug provider
              @ '' does not match configured provider '' @ codex_provider_str (cx_provider cx)))
            (\<lambda>_. Inr provider))
      | _ \<Rightarrow> Inl ''LLM response does not contain an assistant message'')"

definition estimated_context_tokens :: "usage option \<Rightarrow> nat option" where
  "estimated_context_tokens u =
     Option.bind u (\<lambda>us. Option.bind (us_input us) (\<lambda>input. map_option (\<lambda>output.
       sat_add (sat_add (sat_add input (unwrap_or 0 (us_cache_read us)))
         (unwrap_or 0 (us_cache_write us))) output) (us_output us)))"

section \<open>Estimates (\<open>compaction.rs\<close>)\<close>

text \<open>
  A length is far below the largest \<open>u64\<close>, and so is a sum of estimates of messages that fit in
  memory (\<open>sum\<close> does not saturate); the additions that do are written \<open>sat_add\<close>.
\<close>

definition retained_user_token_budget :: nat where
  "retained_user_token_budget = 64000"

definition checkpoint_tag :: string where
  "checkpoint_tag = ''basic_codex_compaction_checkpoint''"

definition estimate_bytes :: "nat \<Rightarrow> nat" where
  "estimate_bytes n = sat_add n 3 div 4"

definition estimate_content_tokens :: "content_part \<Rightarrow> nat" where
  "estimate_content_tokens part =
     (case part of
        TextPart text _ \<Rightarrow> estimate_bytes (length text)
      | ImagePart _ detail _ \<Rightarrow>
         (case unwrap_or DetailAuto detail of
            DetailLow \<Rightarrow> 85 | DetailAuto \<Rightarrow> 1844 | DetailHigh \<Rightarrow> 1844 | DetailOriginal \<Rightarrow> 10000))"

fun find_map :: "('a \<Rightarrow> 'b option) \<Rightarrow> 'a list \<Rightarrow> 'b option" where
  "find_map f [] = None"
| "find_map f (x # xs) = (case f x of None \<Rightarrow> find_map f xs | y \<Rightarrow> y)"

definition estimate_native_compaction_tokens :: "codex_env \<Rightarrow> raw_json \<Rightarrow> nat option" where
  "estimate_native_compaction_tokens env data =
     (case xv_parse env data of
        Inl _ \<Rightarrow> None
      | Inr value \<Rightarrow>
          Option.bind (Option.bind (json_get ''content'' value) as_array) (\<lambda>items.
          map_option (\<lambda>encrypted.
              estimate_bytes (min (length encrypted * 3) u64_max div 4 - 650))
            (find_map (get_str ''encrypted_content'') items)))"

definition estimate_message_tokens :: "codex_env \<Rightarrow> message \<Rightarrow> nat" where
  "estimate_message_tokens env m =
     (let serialized = estimate_bytes (length (xv_message_json env m)) in
      case m of
        UserMsg _ content \<Rightarrow> sat_add 4 (sum_list (map estimate_content_tokens content))
      | CustomMsg _ tag data \<Rightarrow>
          if tag = ''openai_custom_item'' \<or> tag = ''chatgpt_custom_item''
          then unwrap_or (estimate_bytes (length data)) (estimate_native_compaction_tokens env data)
          else serialized
      | _ \<Rightarrow> serialized)"

definition estimate_request_tokens :: "codex_env \<Rightarrow> codex_config \<Rightarrow> message list \<Rightarrow> nat" where
  "estimate_request_tokens env cx messages =
     sat_add (sat_add (sat_add (estimate_bytes (length (instructions env cx)))
       (estimate_bytes (length (xv_tools_json env (tool_definitions env)))))
       (estimate_message_tokens env (environment_message cx ''0000-00-00'')))
       (sum_list (map (estimate_message_tokens env) messages))"

section \<open>What a compaction keeps\<close>

definition next_char_boundary :: "string \<Rightarrow> nat \<Rightarrow> nat" where
  "next_char_boundary text index = ceil_from text index"

text \<open>The parts of a message from the last to the first.\<close>

fun select_parts :: "content_part list \<Rightarrow> nat \<Rightarrow> content_part list" where
  "select_parts [] remaining = []"
| "select_parts (part # parts) remaining =
     (let tokens = estimate_content_tokens part in
      if tokens \<le> remaining then part # select_parts parts (remaining - tokens)
      else case part of
          TextPart text meta \<Rightarrow>
            (if 0 < remaining
             then let start = next_char_boundary text
                        (length text - min (remaining * 4) u64_max) in
                  if start < length text then [TextPart (drop start text) meta] else []
             else [])
        | ImagePart _ _ _ \<Rightarrow> [])"

definition truncate_user_message :: "message \<Rightarrow> nat \<Rightarrow> message option" where
  "truncate_user_message m budget =
     (case m of
        UserMsg base content \<Rightarrow>
          (let selected = rev (select_parts (rev content) (budget - 4)) in
           if selected = [] then None else Some (UserMsg base selected))
      | _ \<Rightarrow> None)"

text \<open>The messages from the last to the first.\<close>

fun retain_from :: "codex_env \<Rightarrow> message list \<Rightarrow> nat \<Rightarrow> message list" where
  "retain_from env [] remaining = []"
| "retain_from env (m # ms) remaining =
     (case m of
        UserMsg _ _ \<Rightarrow>
          (let tokens = estimate_message_tokens env m in
           if tokens \<le> remaining then m # retain_from env ms (remaining - tokens)
           else if 0 < remaining
           then (case truncate_user_message m remaining of None \<Rightarrow> [] | Some t \<Rightarrow> [t])
           else [])
      | _ \<Rightarrow> retain_from env ms remaining)"

definition retained_user_messages :: "codex_env \<Rightarrow> message list \<Rightarrow> message list" where
  "retained_user_messages env messages =
     rev (retain_from env (rev messages) retained_user_token_budget)"

definition projection_sha256 :: "codex_env \<Rightarrow> message list \<Rightarrow> string" where
  "projection_sha256 env messages =
     xv_sha256_hex env (''['' @ join '','' (map (xv_message_json env) messages) @ '']'')"

section \<open>A compaction response\<close>

record validated_compaction =
  vc_provider :: provider
  vc_response_id :: string
  vc_native_item :: raw_json
  vc_usage :: "usage option"

definition compaction_item ::
    "codex_env \<Rightarrow> raw_json \<Rightarrow> raw_json option \<Rightarrow> string + raw_json option" where
  "compaction_item env item found =
     (case xv_parse env item of
        Inl failure \<Rightarrow> Inl (''compaction output contains invalid JSON: '' @ failure)
      | Inr value \<Rightarrow>
         (case get_str ''type'' value of
            None \<Rightarrow> Inr found
          | Some kind \<Rightarrow>
              if kind \<noteq> ''compaction'' \<and> kind \<noteq> ''compaction_summary'' then Inr found
              else bindR (guardR (found = None)
                ''compaction response contains more than one compaction item'') (\<lambda>_.
              bindR (ok_or (get_str ''encrypted_content'' value)
                ''compaction item requires encrypted_content'') (\<lambda>encrypted.
              bindR (guardR (trim encrypted \<noteq> [])
                ''compaction item encrypted_content must not be empty'') (\<lambda>_.
              Inr (Some item))))))"

definition validate_response ::
    "codex_env \<Rightarrow> codex_config \<Rightarrow> assistant_response \<Rightarrow> string + validated_compaction" where
  "validate_response env cx response =
     bindR (response_provider env cx response) (\<lambda>provider.
     bindR (guardR (ar_stop_reason response = Stop)
       (''compaction response must stop normally, received ''
         @ stop_reason_debug (ar_stop_reason response))) (\<lambda>_.
     case ar_message response of
       AssistantMsg _ _ content \<Rightarrow>
         bindR (foldR (compaction_item env) content None) (\<lambda>found.
         bindR (ok_or found ''compaction response does not contain a compaction item'') (\<lambda>item.
         Inr \<lparr>vc_provider = provider, vc_response_id = ar_id response, vc_native_item = item,
              vc_usage = ar_usage response\<rparr>))
     | _ \<Rightarrow> Inl ''compaction response does not contain an assistant message''))"

definition native_value :: "codex_env \<Rightarrow> raw_json \<Rightarrow> string + json" where
  "native_value env item =
     (case xv_parse env item of
        Inl failure \<Rightarrow> Inl (''saved compaction item is invalid JSON: '' @ failure)
      | Inr value \<Rightarrow> Inr value)"

definition provider_message :: "codex_env \<Rightarrow> codex_provider \<Rightarrow> raw_json \<Rightarrow> string + message" where
  "provider_message env provider item =
     bindR (native_value env item) (\<lambda>value.
     Inr (CustomMsg message_base_default (custom_item_tag provider)
       (xv_print env (JObject [(''content'', JArray [value])]))))"

fun trigger_str :: "compaction_trigger \<Rightarrow> string" where
  "trigger_str PreTurn = ''pre_turn''"
| "trigger_str MidTurn = ''mid_turn''"

definition checkpoint_message ::
    "codex_env \<Rightarrow> provider \<Rightarrow> string \<Rightarrow> raw_json \<Rightarrow> int \<Rightarrow> string \<Rightarrow> nat \<Rightarrow> nat \<Rightarrow> compaction_trigger
     \<Rightarrow> string + message" where
  "checkpoint_message env provider response_id item source_through sha256 retained generation trigger =
     bindR (native_value env item) (\<lambda>value.
     Inr (CustomMsg message_base_default checkpoint_tag
       (xv_print env (JObject
         [(''version'', JNumber ''1''),
          (''provider'', provider_json provider),
          (''response_id'', JString response_id),
          (''native_item'', value),
          (''source_through_sequence'', JNumber (decimal_int source_through)),
          (''source_projection_sha256'', JString sha256),
          (''retained_user_messages'', JNumber (decimal retained)),
          (''generation'', JNumber (decimal generation)),
          (''trigger'', JString (trigger_str trigger))]))))"

section \<open>Terminal failures (\<open>failure.rs\<close>)\<close>

record failure_details =
  fd_phase :: failure_phase
  fd_operation_id :: "operation_id option"
  fd_source :: "failure_source option"
  fd_code :: string
  fd_message :: string
  fd_attempts :: nat
  fd_sequence :: int

definition operation_failure_details ::
    "failure_phase \<Rightarrow> operation_id \<Rightarrow> read_failure \<Rightarrow> nat \<Rightarrow> int \<Rightarrow> failure_details" where
  "operation_failure_details phase i failure attempts sequence =
     \<lparr>fd_phase = phase, fd_operation_id = Some i, fd_source = Some (rf_source failure),
      fd_code = rf_code failure, fd_message = rf_message failure, fd_attempts = attempts,
      fd_sequence = sequence\<rparr>"

definition malformed_details ::
    "failure_phase \<Rightarrow> operation_id \<Rightarrow> string \<Rightarrow> nat \<Rightarrow> int \<Rightarrow> failure_details" where
  "malformed_details phase i message attempts sequence =
     \<lparr>fd_phase = phase, fd_operation_id = Some i, fd_source = Some SourceProtocol,
      fd_code = ''malformed_provider_response'', fd_message = message, fd_attempts = attempts,
      fd_sequence = sequence\<rparr>"

definition local_details ::
    "failure_phase \<Rightarrow> operation_id option \<Rightarrow> string \<Rightarrow> string \<Rightarrow> nat \<Rightarrow> int \<Rightarrow> failure_details" where
  "local_details phase i code message attempts sequence =
     \<lparr>fd_phase = phase, fd_operation_id = i, fd_source = None, fd_code = code,
      fd_message = message, fd_attempts = attempts, fd_sequence = sequence\<rparr>"

fun failure_phase_str :: "failure_phase \<Rightarrow> string" where
  "failure_phase_str FailLlm = ''llm''"
| "failure_phase_str FailCompaction = ''compaction''"
| "failure_phase_str FailToolPlanning = ''tool_planning''"
| "failure_phase_str FailStopReason = ''stop_reason''"

definition apply_terminal :: "codex_env \<Rightarrow> failure_details \<Rightarrow> codex_outcome \<Rightarrow> codex_outcome" where
  "apply_terminal env d b =
     set_status SessFailed
      (emit_progress (JObject
        [(''type'', JString ''harness_failed''),
         (''phase'', JString (failure_phase_str (fd_phase d))),
         (''operation_id'', (case fd_operation_id d of
            None \<Rightarrow> JNull | Some i \<Rightarrow> JString (xv_uuid_text env i))),
         (''code'', JString (fd_code d)),
         (''message'', JString (fd_message d)),
         (''attempts'', JNumber (decimal (fd_attempts d)))])
      (on_state (\<lambda>s. s\<lparr>cd_active_turn := None,
         cd_terminal_failure := Some \<lparr>fs_phase = fd_phase d, fs_operation_id = fd_operation_id d,
           fs_source = fd_source d, fs_code = fd_code d, fs_message = fd_message d,
           fs_attempts = fd_attempts d, fs_occurred_at = fd_sequence d\<rparr>\<rparr>) b))"

definition terminal_outcome :: "codex_env \<Rightarrow> codex_state \<Rightarrow> failure_details \<Rightarrow> codex_outcome" where
  "terminal_outcome env s d = apply_terminal env d (builder_new s)"

section \<open>The budget of a compaction\<close>

lemma estimate_bytes_le: "n \<le> 4 * k \<Longrightarrow> estimate_bytes n \<le> k"
proof -
  assume "n \<le> 4 * k"
  then have "min (n + 3) u64_max \<le> 4 * k + 3" by simp
  then have "min (n + 3) u64_max div 4 \<le> (4 * k + 3) div 4" by (rule div_le_mono)
  then show ?thesis by (simp add: estimate_bytes_def sat_add_def)
qed

lemma truncated_part:
  "estimate_content_tokens (TextPart (drop (next_char_boundary text (length text - min (k * 4) u64_max)) text) meta) \<le> k"
proof -
  have "length text - min (k * 4) u64_max
      \<le> next_char_boundary text (length text - min (k * 4) u64_max)"
    by (simp add: next_char_boundary_def ceil_from_ge)
  then have "length (drop (next_char_boundary text (length text - min (k * 4) u64_max)) text) \<le> 4 * k"
    by simp
  then show ?thesis by (simp add: estimate_content_tokens_def estimate_bytes_le)
qed

lemma select_parts_budget:
  "sum_list (map estimate_content_tokens (select_parts parts k)) \<le> k"
proof (induction parts k rule: select_parts.induct)
  case (1 k)
  then show ?case by simp
next
  case (2 part parts k)
  show ?case
  proof (cases "estimate_content_tokens part \<le> k")
    case True
    with 2 show ?thesis by (simp add: le_diff_conv2)
  next
    case False
    then show ?thesis
      by (cases part) (simp_all add: Let_def truncated_part)
  qed
qed

text \<open>A truncated message may cost four tokens where fewer are left.\<close>

lemma truncated_budget:
  assumes "truncate_user_message m k = Some t"
  shows "estimate_message_tokens env t \<le> max 4 k"
proof -
  from assms obtain base content where m: "m = UserMsg base content"
    and t: "t = UserMsg base (rev (select_parts (rev content) (k - 4)))"
    by (auto simp: truncate_user_message_def Let_def split: message.splits if_splits)
  have "sum_list (map estimate_content_tokens (rev (select_parts (rev content) (k - 4)))) \<le> k - 4"
    using select_parts_budget [of "rev content" "k - 4"] by (simp add: rev_map [symmetric])
  then show ?thesis by (simp add: t estimate_message_tokens_def sat_add_def)
qed

lemma retain_from_user:
  "retain_from env (UserMsg base content # ms) k =
     (if estimate_message_tokens env (UserMsg base content) \<le> k
      then UserMsg base content
        # retain_from env ms (k - estimate_message_tokens env (UserMsg base content))
      else if 0 < k
      then (case truncate_user_message (UserMsg base content) k of None \<Rightarrow> [] | Some t \<Rightarrow> [t])
      else [])"
  by (simp add: Let_def)

lemma retain_from_other:
  "\<nexists>base content. m = UserMsg base content \<Longrightarrow> retain_from env (m # ms) k = retain_from env ms k"
  by (cases m) simp_all

declare retain_from.simps(2) [simp del]

lemma retain_from_budget:
  "sum_list (map (estimate_message_tokens env) (retain_from env ms k)) \<le> k + 3"
proof (induction ms arbitrary: k)
  case Nil
  then show ?case by simp
next
  case (Cons m ms)
  show ?case
  proof (cases "\<exists>base content. m = UserMsg base content")
    case False
    then have "retain_from env (m # ms) k = retain_from env ms k" by (rule retain_from_other)
    with Cons.IH [of k] show ?thesis by simp
  next
    case True
    then obtain base content where m: "m = UserMsg base content" by blast
    define cost where "cost = estimate_message_tokens env (UserMsg base content)"
    consider (fits) "cost \<le> k" | (none) "\<not> cost \<le> k" "k = 0"
      | (cut) "\<not> cost \<le> k" "0 < k" by linarith
    then show ?thesis
    proof cases
      case fits
      with Cons.IH [of "k - cost"] show ?thesis
        by (simp add: m retain_from_user cost_def [symmetric])
    next
      case none
      then show ?thesis by (simp add: m retain_from_user cost_def [symmetric])
    next
      case cut
      show ?thesis
      proof (cases "truncate_user_message (UserMsg base content) k")
        case None
        with cut show ?thesis by (simp add: m retain_from_user cost_def [symmetric])
      next
        case (Some t)
        have "max 4 k \<le> k + 3" using cut(2) by simp
        with truncated_budget [OF Some, of env]
        have "estimate_message_tokens env t \<le> k + 3" by (rule le_trans)
        with cut Some show ?thesis by (simp add: m retain_from_user cost_def [symmetric])
      qed
    qed
  qed
qed

end
