(* ===== verification/CodexHandler.thy ===== *)
theory CodexHandler
  imports CodexProgress CodexTools CodexContext Events
begin

text \<open>
  The handler of the Codex harness (\<open>packages/basic-codex-harness/src/handler.rs\<close>): a user message
  starts a turn or steers it, the completion of its operation takes the turn to the next one, and
  a session that has failed or is cancelled only records what arrives.
\<close>

section \<open>The handler's surroundings\<close>

text \<open>
  \<open>hc_operation\<close> is what \<open>context.operation\<close> answers and \<open>hc_date\<close> the date \<open>chrono\<close> prints for
  the time of the event.
\<close>

record codex_context =
  hc_history_through :: int
  hc_operation :: "operation_id \<Rightarrow> string + read_record option"
  hc_date :: "time \<Rightarrow> string"

definition u32_max :: nat where "u32_max = 4294967295"
definition i64_max :: int where "i64_max = 9223372036854775807"

text \<open>An error that is already a text.\<close>

definition errors :: "string + 'a \<Rightarrow> handler_failure + 'a" where
  "errors r = (case r of Inl message \<Rightarrow> Inl (HandlerError message) | Inr x \<Rightarrow> Inr x)"

definition is_user_message :: "message \<Rightarrow> bool" where
  "is_user_message m = (case m of UserMsg _ _ \<Rightarrow> True | _ \<Rightarrow> False)"

definition require_user_message :: "message \<Rightarrow> handler_failure + unit" where
  "require_user_message m =
     guardR (is_user_message m) (HandlerError ''user_message event did not contain a user message'')"

definition history_of :: "codex_state \<Rightarrow> message list" where
  "history_of s = cw_model_history (cd_context_window s)"

definition on_window :: "(context_window \<Rightarrow> context_window) \<Rightarrow> codex_state \<Rightarrow> codex_state" where
  "on_window f s = s\<lparr>cd_context_window := f (cd_context_window s)\<rparr>"

definition on_turn :: "(active_turn \<Rightarrow> active_turn) \<Rightarrow> codex_state \<Rightarrow> codex_state" where
  "on_turn f s = s\<lparr>cd_active_turn := map_option f (cd_active_turn s)\<rparr>"

section \<open>The projection\<close>

definition needs_compaction :: "codex_env \<Rightarrow> codex_config \<Rightarrow> codex_state \<Rightarrow> bool" where
  "needs_compaction env cx s \<longleftrightarrow>
     mp_auto_compact_limit (profile (cx_model cx))
     \<le> (case cw_estimated_tokens (cd_context_window s) of
          Some estimate \<Rightarrow> estimate
        | None \<Rightarrow> estimate_request_tokens env cx (history_of s))"

definition active_current_date :: "codex_state \<Rightarrow> handler_failure + string" where
  "active_current_date s =
     or_error (map_option at_current_date (cd_active_turn s))
       ''cannot build an LLM request without an active turn''"

definition extend_projection :: "codex_env \<Rightarrow> message list \<Rightarrow> codex_state \<Rightarrow> codex_state" where
  "extend_projection env messages = on_window (\<lambda>w. w\<lparr>
     cw_estimated_tokens := map_option (\<lambda>estimate.
       sat_add estimate (sum_list (map (estimate_message_tokens env) messages)))
       (cw_estimated_tokens w),
     cw_model_history := cw_model_history w @ messages\<rparr>)"

definition add_latest_projection_estimate ::
    "codex_env \<Rightarrow> codex_config \<Rightarrow> codex_state \<Rightarrow> codex_state" where
  "add_latest_projection_estimate env cx = on_window (\<lambda>w. w\<lparr>cw_estimated_tokens :=
     (case cw_estimated_tokens w of
        None \<Rightarrow> Some (estimate_request_tokens env cx (cw_model_history w))
      | Some estimate \<Rightarrow>
          if cw_model_history w = [] then Some estimate
          else Some (sat_add estimate (estimate_message_tokens env (last (cw_model_history w)))))\<rparr>)"

definition advance_history_sequence :: "int \<Rightarrow> nat \<Rightarrow> handler_failure + int" where
  "advance_history_sequence sequence added =
     (if i64_max < int added
      then handler_error ''too many history entries to advance the compaction boundary''
      else if i64_max < sequence + int added
      then handler_error ''compaction history boundary overflowed''
      else Inr (sequence + int added))"

section \<open>Requests to the model\<close>

definition set_phase :: "turn_phase \<Rightarrow> codex_outcome \<Rightarrow> codex_outcome" where
  "set_phase phase = on_state (on_turn (\<lambda>turn. turn\<lparr>at_phase := phase\<rparr>))"

text \<open>The request is staged and the turn waits for it.\<close>

definition request_turn ::
    "codex_env \<Rightarrow> codex_harness \<Rightarrow> codex_config \<Rightarrow> session_id \<Rightarrow> codex_outcome
     \<Rightarrow> handler_failure + codex_outcome" where
  "request_turn env hn cx session b =
     bindR (active_current_date (ho_state b)) (\<lambda>date.
     let (i, b1) = request_llm (next_operation env b) (hn_llm_connection hn)
           (fresh_request env cx session date (history_of (ho_state b))) b in
     Inr (set_phase (AwaitingLlm i) b1))"

definition compaction_started :: "string \<Rightarrow> codex_outcome \<Rightarrow> codex_outcome" where
  "compaction_started trigger = emit_progress (JObject
     [(''type'', JString ''context_compaction_started''), (''trigger'', JString trigger)])"

definition stage_compaction ::
    "codex_env \<Rightarrow> codex_harness \<Rightarrow> codex_config \<Rightarrow> codex_outcome \<Rightarrow> int \<Rightarrow> compaction_trigger
     \<Rightarrow> session_id \<Rightarrow> handler_failure + codex_outcome" where
  "stage_compaction env hn cx b through trigger session =
     (let sha256 = projection_sha256 env (history_of (ho_state b)) in
      bindR (active_current_date (ho_state b)) (\<lambda>date.
      let (i, b1) = request_llm (next_operation env b) (hn_llm_connection hn)
            (compaction_request env cx session date (history_of (ho_state b))) b in
      Inr (set_status SessRunning (compaction_started (trigger_str trigger)
        (set_phase (Compacting \<lparr>cs_operation_id = i, cs_source_through = through,
           cs_source_sha256 = sha256, cs_attempt = 1, cs_trigger = trigger,
           cs_initial_input = None\<rparr>) b1)))))"

definition stage_after_boundary ::
    "codex_env \<Rightarrow> codex_harness \<Rightarrow> codex_config \<Rightarrow> codex_outcome \<Rightarrow> int \<Rightarrow> session_id
     \<Rightarrow> handler_failure + codex_outcome" where
  "stage_after_boundary env hn cx b through session =
     (if needs_compaction env cx (ho_state b)
      then stage_compaction env hn cx b through MidTurn session
      else bindR (or_error (cd_active_turn (ho_state b))
             ''active turn disappeared at an LLM boundary'') (\<lambda>turn.
        bindR (request_turn env hn cx session
            (on_state (\<lambda>s. extend_projection env (map st_message (at_pending_steering turn))
              (on_turn (\<lambda>t. t\<lparr>at_pending_steering := []\<rparr>) s)) b)) (\<lambda>b1.
        Inr (set_status SessRunning b1))))"

section \<open>User messages\<close>

text \<open>\<open>UserMessageContext\<close>\<close>

record user_message_context =
  um_event_id :: event_id
  um_sequence :: int
  um_history_through :: int
  um_session :: session_id
  um_date :: string

definition new_turn :: "codex_env \<Rightarrow> user_message_context \<Rightarrow> turn_phase \<Rightarrow> active_turn" where
  "new_turn env um phase =
     \<lparr>at_id = xv_turn_id env, at_started_at_sequence = um_sequence um,
      at_current_date = um_date um, at_phase = phase, at_pending_steering = [],
      at_llm_attempts = 0\<rparr>"

definition start_turn :: "active_turn \<Rightarrow> codex_outcome \<Rightarrow> codex_outcome" where
  "start_turn turn = on_state (\<lambda>s. s\<lparr>cd_active_turn := Some turn\<rparr>)"

definition handle_user_message ::
    "codex_env \<Rightarrow> codex_harness \<Rightarrow> codex_config \<Rightarrow> codex_state \<Rightarrow> message \<Rightarrow> user_message_context
     \<Rightarrow> handler_failure + codex_outcome" where
  "handle_user_message env hn cx state m um =
     bindR (require_user_message m) (\<lambda>_.
     if cd_active_turn state \<noteq> None
     then Inr (append_message m (builder_new (on_turn (\<lambda>turn. turn\<lparr>at_pending_steering :=
            at_pending_steering turn @ [\<lparr>st_event_id = um_event_id um,
              st_event_sequence = um_sequence um, st_message = m\<rparr>]\<rparr>) state)))
     else let b = append_message m (builder_new state) in
       if needs_compaction env cx state
       then let (i, b1) = request_llm (next_operation env b) (hn_llm_connection hn)
                  (compaction_request env cx (um_session um) (um_date um) (history_of state)) b in
         Inr (set_status SessRunning (compaction_started ''pre_turn''
           (start_turn (new_turn env um (Compacting
             \<lparr>cs_operation_id = i, cs_source_through = um_history_through um,
              cs_source_sha256 = projection_sha256 env (history_of state), cs_attempt = 1,
              cs_trigger = PreTurn, cs_initial_input = Some m\<rparr>)) b1)))
       else let b1 = on_state (\<lambda>s. add_latest_projection_estimate env cx
                  (on_window (\<lambda>w. w\<lparr>cw_model_history := cw_model_history w @ [m]\<rparr>) s)) b;
                (i, b2) = request_llm (next_operation env b1) (hn_llm_connection hn)
                  (fresh_request env cx (um_session um) (um_date um)
                    (history_of (ho_state b1))) b1 in
         Inr (set_status SessRunning (start_turn (new_turn env um (AwaitingLlm i)) b2)))"

section \<open>Tool plans\<close>

definition append_messages :: "message list \<Rightarrow> codex_outcome \<Rightarrow> codex_outcome" where
  "append_messages ms b = foldl (\<lambda>b m. append_message m b) b ms"

text \<open>The results of a complete plan go to the history, and the turn goes on.\<close>

definition finish_completed_tool_plan ::
    "codex_env \<Rightarrow> codex_harness \<Rightarrow> codex_config \<Rightarrow> codex_outcome \<Rightarrow> int \<Rightarrow> session_id
     \<Rightarrow> handler_failure + bool \<times> codex_outcome" where
  "finish_completed_tool_plan env hn cx b through session =
     bindR (or_error (cd_active_turn (ho_state b)) ''tool completion has no active turn'') (\<lambda>turn.
     bindR (or_error (turn_plan turn) ''tool completion has no active tool plan'') (\<lambda>plan.
     if \<not> plan_complete plan then Inr (False, b)
     else bindR (errors (ordered_result_messages env plan)) (\<lambda>messages.
       bindR (advance_history_sequence through (length messages)) (\<lambda>source.
       bindR (stage_after_boundary env hn cx
         (append_messages messages (on_state (extend_projection env messages) b)) source session)
         (\<lambda>b1. Inr (True, b1))))))"

section \<open>Completions of the model\<close>

definition llm_attempts_of :: "codex_state \<Rightarrow> nat" where
  "llm_attempts_of s =
     (case cd_active_turn s of
        None \<Rightarrow> 1 | Some turn \<Rightarrow> min (at_llm_attempts turn + 1) u32_max)"

text \<open>What a response without calls does with the turn.\<close>

definition handle_stop ::
    "codex_env \<Rightarrow> codex_harness \<Rightarrow> codex_config \<Rightarrow> operation_id \<Rightarrow> stop_reason \<Rightarrow> codex_outcome
     \<Rightarrow> session_id \<Rightarrow> int \<Rightarrow> int \<Rightarrow> handler_failure + codex_outcome" where
  "handle_stop env hn cx i stop b session through sequence =
     (let proceed = bindR (advance_history_sequence through 1) (\<lambda>source.
            stage_after_boundary env hn cx b source session);
          ended = (if (case cd_active_turn (ho_state b) of
                         None \<Rightarrow> False | Some turn \<Rightarrow> at_pending_steering turn \<noteq> [])
            then proceed
            else Inr (set_status SessIdle (on_state (\<lambda>s. s\<lparr>cd_active_turn := None\<rparr>) b)));
          failed = (\<lambda>code. Inr (apply_terminal env (local_details FailStopReason (Some i) code
            (''LLM turn ended with terminal stop reason '' @ stop_reason_debug stop) 1 sequence) b)) in
      case stop of
        Stop \<Rightarrow> ended
      | Refusal \<Rightarrow> ended
      | PauseTurn \<Rightarrow> proceed
      | Length \<Rightarrow> failed ''output_length''
      | ContentFilter \<Rightarrow> failed ''content_filter''
      | ToolUse \<Rightarrow> Inl HandlerPanic)"

text \<open>What a plan does with the turn: results at hand, or calls to run.\<close>

definition handle_plan ::
    "codex_env \<Rightarrow> codex_harness \<Rightarrow> codex_config \<Rightarrow> tool_plan \<Rightarrow> codex_outcome \<Rightarrow> session_id
     \<Rightarrow> int \<Rightarrow> int \<Rightarrow> handler_failure + codex_outcome" where
  "handle_plan env hn cx plan b session started_at through =
     (if plan_complete plan
      then bindR (errors (ordered_result_messages env plan)) (\<lambda>messages.
        bindR (advance_history_sequence through (1 + length messages)) (\<lambda>source.
        stage_after_boundary env hn cx
          (append_messages messages (on_state (extend_projection env messages) b)) source session))
      else bindR (or_error (cd_active_turn (ho_state b))
          ''active turn disappeared while saving a tool plan'') (\<lambda>_.
        bindR (schedule_ready env hn cx session started_at (set_phase (ExecutingTools plan) b)) (\<lambda>b1.
        bindR (finish_completed_tool_plan env hn cx b1 through session) (\<lambda>(finished, b2).
        Inr (if finished then b2 else set_status SessRunning b2)))))"

definition handle_llm_response ::
    "codex_env \<Rightarrow> codex_harness \<Rightarrow> codex_config \<Rightarrow> codex_state \<Rightarrow> operation_id \<Rightarrow> assistant_response
     \<Rightarrow> session_id \<Rightarrow> int \<Rightarrow> int \<Rightarrow> int \<Rightarrow> handler_failure + codex_outcome" where
  "handle_llm_response env hn cx state i response session event_ms through sequence =
     (case response_provider env cx response of
        Inl message \<Rightarrow>
          Inr (terminal_outcome env state
            (malformed_details FailLlm i message (llm_attempts_of state) sequence))
      | Inr _ \<Rightarrow>
          let state1 = on_window (\<lambda>w. w\<lparr>
                cw_estimated_tokens := (case estimated_context_tokens (ar_usage response) of
                  None \<Rightarrow> cw_estimated_tokens w | tokens \<Rightarrow> tokens),
                cw_model_history := cw_model_history w @ [ar_message response]\<rparr>) state;
              b = append_message (ar_message response) (builder_new state1) in
          case parse_plan env i (ar_message response) (ar_stop_reason response) of
            Inl message \<Rightarrow>
              Inr (apply_terminal env (local_details FailToolPlanning (Some i)
                ''tool_plan_rejected'' message 1 sequence) b)
          | Inr (Some plan) \<Rightarrow> handle_plan env hn cx plan b session event_ms through
          | Inr None \<Rightarrow>
              handle_stop env hn cx i (ar_stop_reason response) b session through sequence)"

text \<open>An outcome that is not known is tried once more.\<close>

definition retry_llm ::
    "codex_env \<Rightarrow> codex_harness \<Rightarrow> codex_config \<Rightarrow> codex_state \<Rightarrow> operation_id \<Rightarrow> session_id
     \<Rightarrow> handler_failure + codex_outcome" where
  "retry_llm env hn cx state i session =
     bindR (request_turn env hn cx session (builder_new state)) (\<lambda>b.
     let b1 = on_state (on_turn (\<lambda>turn. turn\<lparr>at_llm_attempts := at_llm_attempts turn + 1\<rparr>)) b in
     Inr (set_status SessRunning (emit_progress (JObject
       [(''type'', JString ''llm_retried''),
        (''attempt'', JNumber (decimal (case cd_active_turn (ho_state b1) of
           None \<Rightarrow> 1 | Some turn \<Rightarrow> at_llm_attempts turn + 1))),
        (''previous_operation_id'', JString (xv_uuid_text env i))]) b1)))"

definition handle_llm_outcome ::
    "codex_env \<Rightarrow> codex_harness \<Rightarrow> codex_config \<Rightarrow> codex_state \<Rightarrow> operation_id \<Rightarrow> read_outcome
     \<Rightarrow> session_id \<Rightarrow> int \<Rightarrow> int \<Rightarrow> int \<Rightarrow> handler_failure + codex_outcome" where
  "handle_llm_outcome env hn cx state i outcome session event_ms through sequence =
     (case outcome of
        ReadSucceeded (ReadLlm response) \<Rightarrow>
          handle_llm_response env hn cx state i response session event_ms through sequence
      | ReadSucceeded _ \<Rightarrow> handler_error ''successful LLM operation contains a non-LLM result''
      | ReadUnknown failure \<Rightarrow>
          bindR (or_error (cd_active_turn state) ''unknown LLM outcome has no active turn'')
            (\<lambda>turn.
          if at_llm_attempts turn < 1 then retry_llm env hn cx state i session
          else Inr (terminal_outcome env state (operation_failure_details FailLlm i failure
            (min (at_llm_attempts turn + 1) u32_max) sequence)))
      | ReadFailed failure \<Rightarrow>
          Inr (terminal_outcome env state
            (operation_failure_details FailLlm i failure (llm_attempts_of state) sequence))
      | ReadCancelled \<Rightarrow>
          Inr (terminal_outcome env state (local_details FailLlm (Some i)
            ''unexpected_llm_cancellation''
            ''LLM operation was cancelled without a session cancellation request'' 1 sequence)))"

section \<open>Completions of a compaction\<close>

definition compacted_state ::
    "codex_env \<Rightarrow> codex_config \<Rightarrow> compaction_state \<Rightarrow> validated_compaction \<Rightarrow> message list \<Rightarrow> message
     \<Rightarrow> nat \<Rightarrow> codex_state \<Rightarrow> codex_state" where
  "compacted_state env cx compacting validated retained item generation =
     on_window (\<lambda>w. w\<lparr>cw_generation := generation, cw_model_history := retained @ [item],
       cw_estimated_tokens := Some (estimate_request_tokens env cx (retained @ [item])),
       cw_checkpoint := Some \<lparr>ck_provider = vc_provider validated,
         ck_response_id = vc_response_id validated, ck_native_item = vc_native_item validated,
         ck_source_through = cs_source_through compacting,
         ck_source_sha256 = cs_source_sha256 compacting, ck_retained = retained,
         ck_generation = generation, ck_usage = vc_usage validated\<rparr>\<rparr>)"

text \<open>\<open>initial_input.take()\<close> and \<open>take(&mut pending_steering)\<close>: the phase they are taken from is
  replaced when the turn resumes.\<close>

definition resume_input :: "compaction_state \<Rightarrow> active_turn \<Rightarrow> message list" where
  "resume_input compacting turn =
     (case cs_initial_input compacting of None \<Rightarrow> [] | Some m \<Rightarrow> [m])
     @ map st_message (at_pending_steering turn)"

definition finish_compaction ::
    "codex_env \<Rightarrow> codex_harness \<Rightarrow> codex_config \<Rightarrow> codex_state \<Rightarrow> operation_id \<Rightarrow> active_turn
     \<Rightarrow> compaction_state \<Rightarrow> assistant_response \<Rightarrow> session_id \<Rightarrow> int
     \<Rightarrow> handler_failure + codex_outcome" where
  "finish_compaction env hn cx state i turn compacting response session sequence =
     bindR (guardR (projection_sha256 env (history_of state) = cs_source_sha256 compacting)
       (HandlerError ''model projection changed while provider compaction was in flight'')) (\<lambda>_.
     case validate_response env cx response of
       Inl message \<Rightarrow>
         Inr (terminal_outcome env state
           (malformed_details FailCompaction i message (cs_attempt compacting) sequence))
     | Inr validated \<Rightarrow>
         let retained = retained_user_messages env (history_of state);
             generation = cw_generation (cd_context_window state) + 1 in
         bindR (errors (provider_message env (cx_provider cx) (vc_native_item validated)))
           (\<lambda>item.
         bindR (guardR (generation \<le> u32_max) (HandlerError ''context generation overflowed''))
           (\<lambda>_.
         bindR (errors (checkpoint_message env (vc_provider validated) (vc_response_id validated)
           (vc_native_item validated) (cs_source_through compacting) (cs_source_sha256 compacting)
           (length retained) generation (cs_trigger compacting))) (\<lambda>checkpoint.
         let state1 = extend_projection env (resume_input compacting turn)
               (on_turn (\<lambda>t. t\<lparr>at_pending_steering := []\<rparr>)
                 (compacted_state env cx compacting validated retained item generation state)) in
         bindR (request_turn env hn cx session (append_message checkpoint (builder_new state1)))
           (\<lambda>b.
         Inr (set_status SessRunning (emit_progress (JObject
           [(''type'', JString ''context_compaction_completed''),
            (''generation'', JNumber (decimal generation)),
            (''trigger'', JString (trigger_str (cs_trigger compacting)))]) b)))))))"

definition retry_compaction ::
    "codex_env \<Rightarrow> codex_harness \<Rightarrow> codex_config \<Rightarrow> codex_state \<Rightarrow> compaction_state \<Rightarrow> session_id
     \<Rightarrow> handler_failure + codex_outcome" where
  "retry_compaction env hn cx state compacting session =
     bindR (active_current_date state) (\<lambda>date.
     let b = builder_new state;
         (i, b1) = request_llm (next_operation env b) (hn_llm_connection hn)
           (compaction_request env cx session date (history_of state)) b;
         attempt = cs_attempt compacting + 1 in
     Inr (set_status SessRunning (emit_progress (JObject
       [(''type'', JString ''context_compaction_retried''),
        (''attempt'', JNumber (decimal attempt))])
       (set_phase (Compacting (compacting\<lparr>cs_operation_id := i, cs_attempt := attempt\<rparr>)) b1))))"

definition handle_compaction_outcome ::
    "codex_env \<Rightarrow> codex_harness \<Rightarrow> codex_config \<Rightarrow> codex_state \<Rightarrow> operation_id \<Rightarrow> read_outcome
     \<Rightarrow> session_id \<Rightarrow> int \<Rightarrow> handler_failure + codex_outcome" where
  "handle_compaction_outcome env hn cx state i outcome session sequence =
     bindR (or_error (cd_active_turn state) ''compaction completion has no active turn'') (\<lambda>turn.
     bindR (case at_phase turn of
         Compacting c \<Rightarrow> Inr c
       | _ \<Rightarrow> handler_error ''compaction completion has no compaction state'') (\<lambda>compacting.
     let failed = (\<lambda>failure. Inr (terminal_outcome env state
           (operation_failure_details FailCompaction i failure (cs_attempt compacting) sequence))) in
     case outcome of
       ReadSucceeded (ReadLlm response) \<Rightarrow>
         finish_compaction env hn cx state i turn compacting response session sequence
     | ReadSucceeded _ \<Rightarrow>
         handler_error ''successful compaction operation contains a non-LLM result''
     | ReadUnknown failure \<Rightarrow>
         if cs_attempt compacting < 2 then retry_compaction env hn cx state compacting session
         else failed failure
     | ReadFailed failure \<Rightarrow> failed failure
     | ReadCancelled \<Rightarrow>
         Inr (terminal_outcome env state (local_details FailCompaction (Some i)
           ''unexpected_compaction_cancellation''
           ''compaction was cancelled without a session cancellation request''
           (cs_attempt compacting) sequence))))"

section \<open>Completions\<close>

text \<open>The record of a completed operation, checked against the event.\<close>

definition completed_outcome ::
    "codex_context \<Rightarrow> string \<Rightarrow> string \<Rightarrow> string \<Rightarrow> string \<Rightarrow> string \<Rightarrow> operation_kind
     \<Rightarrow> operation_id \<Rightarrow> operation_outcome_status \<Rightarrow> handler_failure + read_outcome" where
  "completed_outcome ctx unread missing wrong_kind no_outcome mismatch kind i status =
     (case hc_operation ctx i of
        Inl failure \<Rightarrow> handler_error (unread @ '': '' @ failure)
      | Inr answer \<Rightarrow>
          bindR (or_error answer missing) (\<lambda>r.
          bindR (guardR (rr_kind r = kind) (HandlerError wrong_kind)) (\<lambda>_.
          bindR (or_error (rr_outcome r) no_outcome) (\<lambda>outcome.
          bindR (guardR (read_status outcome = status) (HandlerError mismatch)) (\<lambda>_.
          Inr outcome)))))"

definition handle_execution_completion ::
    "codex_env \<Rightarrow> codex_harness \<Rightarrow> codex_config \<Rightarrow> codex_state \<Rightarrow> operation_id
     \<Rightarrow> operation_outcome_status \<Rightarrow> codex_context \<Rightarrow> session_id \<Rightarrow> int
     \<Rightarrow> handler_failure + codex_outcome" where
  "handle_execution_completion env hn cx state i status ctx session event_ms =
     bindR (completed_outcome ctx ''could not read completed execution operation''
       ''completed execution operation was not found''
       ''completed execution operation record has the wrong kind''
       ''completed execution operation has no terminal outcome''
       ''completion event status does not match the stored execution outcome''
       KindExecution i status) (\<lambda>outcome.
     bindR (apply_completion env state i outcome event_ms) (\<lambda>state1.
     bindR (schedule_ready env hn cx session event_ms (builder_new state1)) (\<lambda>b.
     bindR (finish_completed_tool_plan env hn cx b (hc_history_through ctx) session)
       (\<lambda>(finished, b1).
     Inr (if finished then b1 else set_status SessRunning b1)))))"

definition awaited_llm :: "codex_state \<Rightarrow> handler_failure + bool \<times> operation_id" where
  "awaited_llm state =
     bindR (or_error (cd_active_turn state) ''received an LLM completion without an active turn'')
       (\<lambda>turn.
     case at_phase turn of
       AwaitingLlm i \<Rightarrow> Inr (False, i)
     | Compacting c \<Rightarrow> Inr (True, cs_operation_id c)
     | _ \<Rightarrow> handler_error ''received an LLM completion while the turn was not awaiting LLM work'')"

definition handle_llm_completion ::
    "codex_env \<Rightarrow> codex_harness \<Rightarrow> codex_config \<Rightarrow> codex_state \<Rightarrow> operation_id
     \<Rightarrow> operation_outcome_status \<Rightarrow> codex_context \<Rightarrow> session_id \<Rightarrow> int \<Rightarrow> int
     \<Rightarrow> handler_failure + codex_outcome" where
  "handle_llm_completion env hn cx state i status ctx session event_ms sequence =
     bindR (awaited_llm state) (\<lambda>(is_compaction, expected).
     bindR (guardR (expected = i) (HandlerError
       ''LLM completion does not match the operation awaited by the active turn'')) (\<lambda>_.
     bindR (completed_outcome ctx ''could not read completed LLM operation''
       ''completed LLM operation was not found''
       ''completed operation record is not an LLM operation''
       ''completed LLM operation has no terminal outcome''
       ''completion event status does not match the stored operation outcome''
       KindLlm i status) (\<lambda>outcome.
     if is_compaction
     then handle_compaction_outcome env hn cx state i outcome session sequence
     else handle_llm_outcome env hn cx state i outcome session event_ms
       (hc_history_through ctx) sequence)))"

section \<open>Events\<close>

text \<open>A turn stored without a date takes the date of the event.\<close>

definition date_turn :: "string \<Rightarrow> codex_state \<Rightarrow> codex_state" where
  "date_turn date = on_turn (\<lambda>turn.
     if at_current_date turn = [] then turn\<lparr>at_current_date := date\<rparr> else turn)"

definition handle_failed ::
    "codex_state \<Rightarrow> event_kind \<Rightarrow> handler_failure + codex_outcome" where
  "handle_failed state kind =
     bindR (case kind of
         UserMessageEvent m \<Rightarrow>
           bindR (require_user_message m) (\<lambda>_. Inr (append_message m (builder_new state)))
       | _ \<Rightarrow> Inr (builder_new state)) (\<lambda>b.
     Inr (set_status SessFailed b))"

definition cancellation_status :: "codex_state \<Rightarrow> session_status" where
  "cancellation_status state =
     (if cd_active_turn state \<noteq> None then SessCancelling else SessCancelled)"

definition handle_while_cancelled ::
    "codex_env \<Rightarrow> codex_harness \<Rightarrow> codex_config \<Rightarrow> codex_state \<Rightarrow> session_event \<Rightarrow> codex_context
     \<Rightarrow> handler_failure + codex_outcome" where
  "handle_while_cancelled env hn cx state ev ctx =
     (case sv_kind ev of
        OperationCompletedEvent i kind status \<Rightarrow>
          handle_cancellation_completion env hn cx (sv_session_id ev) (sv_sequence ev) state
            i kind status (hc_operation ctx i)
      | UserMessageEvent m \<Rightarrow>
          bindR (require_user_message m) (\<lambda>_.
          Inr (set_status (cancellation_status state) (append_message m (builder_new state))))
      | _ \<Rightarrow> Inr (set_status (cancellation_status state) (builder_new state)))"

definition handle_active ::
    "codex_env \<Rightarrow> codex_harness \<Rightarrow> codex_config \<Rightarrow> codex_state \<Rightarrow> session_event \<Rightarrow> codex_context
     \<Rightarrow> handler_failure + codex_outcome" where
  "handle_active env hn cx state ev ctx =
     (let event_ms = sv_created_at ev div 1000 in
      case sv_kind ev of
        UserMessageEvent m \<Rightarrow>
          handle_user_message env hn cx state m
            \<lparr>um_event_id = sv_id ev, um_sequence = sv_sequence ev,
             um_history_through = hc_history_through ctx, um_session = sv_session_id ev,
             um_date = hc_date ctx (sv_created_at ev)\<rparr>
      | OperationCompletedEvent i kind status \<Rightarrow>
          if kind = KindExecution
          then handle_execution_completion env hn cx state i status ctx (sv_session_id ev) event_ms
          else if kind \<noteq> KindLlm
          then handler_error ''received an unsupported operation completion''
          else handle_llm_completion env hn cx state i status ctx (sv_session_id ev) event_ms
            (sv_sequence ev)
      | CancellationRequestedEvent reason \<Rightarrow>
          begin_cancellation env hn cx state reason (sv_sequence ev)
      | WaitResumedEvent _ _ \<Rightarrow>
          handler_error ''basic Codex does not create waits in the current implementation'')"

definition handle_codex ::
    "codex_env \<Rightarrow> codex_harness \<Rightarrow> codex_config \<Rightarrow> codex_state \<Rightarrow> session_event \<Rightarrow> codex_context
     \<Rightarrow> handler_failure + codex_outcome" where
  "handle_codex env hn cx state0 ev ctx =
     (let state = date_turn (hc_date ctx (sv_created_at ev)) state0 in
      if cd_terminal_failure state \<noteq> None then handle_failed state (sv_kind ev)
      else if cd_cancellation state \<noteq> None then handle_while_cancelled env hn cx state ev ctx
      else handle_active env hn cx state ev ctx)"

end
