(* ===== verification/CodexTurns.thy ===== *)
theory CodexTurns
  imports CodexHandler
begin

text \<open>
  What keeps a turn going: the calls of a plan run segment by segment, \<open>schedule_ready\<close> leaves a
  call submitted or the plan complete, and the turn of a session waits for operations that are
  outstanding.
\<close>

section \<open>Plans\<close>

definition in_flight :: "tool_call \<Rightarrow> bool" where
  "in_flight call \<longleftrightarrow> \<not> is_pending call \<and> \<not> is_completed call"

definition submitted_id :: "tool_call \<Rightarrow> operation_id option" where
  "submitted_id call = (case tl_status call of CallSubmitted i _ \<Rightarrow> Some i | _ \<Rightarrow> None)"

definition submitted_ids :: "tool_plan \<Rightarrow> operation_id list" where
  "submitted_ids plan = List.map_filter submitted_id (pl_calls plan)"

definition segments_ok :: "tool_call list \<Rightarrow> tool_segment list \<Rightarrow> bool" where
  "segments_ok calls segments \<longleftrightarrow>
     (\<forall>sg \<in> set segments. (sg_scheduling sg = Exclusive \<longrightarrow> length (sg_ordinals sg) = 1)
       \<and> (\<forall>n \<in> set (sg_ordinals sg). n < length calls
           \<and> tl_scheduling (calls ! n) = sg_scheduling sg))"

definition active_or_later :: "tool_segment list \<Rightarrow> nat \<Rightarrow> nat \<Rightarrow> bool \<Rightarrow> bool" where
  "active_or_later segments active n now \<longleftrightarrow>
     (\<exists>j. active \<le> j \<and> j < length segments \<and> n \<in> set (sg_ordinals (segments ! j))
       \<and> (now \<longrightarrow> j = active))"

text \<open>Every open call has its segment ahead, and what is in flight belongs to the active one.\<close>

definition plan_ok :: "tool_plan \<Rightarrow> bool" where
  "plan_ok plan \<longleftrightarrow>
     map tl_ordinal (pl_calls plan) = [0..<length (pl_calls plan)]
     \<and> segments_ok (pl_calls plan) (pl_segments plan)
     \<and> (\<forall>n < length (pl_calls plan). \<not> is_completed (pl_calls plan ! n) \<longrightarrow>
         active_or_later (pl_segments plan) (pl_active_segment plan) n
           (in_flight (pl_calls plan ! n)))
     \<and> distinct (submitted_ids plan)"

definition at_segment :: "tool_plan \<Rightarrow> nat \<Rightarrow> bool" where
  "at_segment plan n \<longleftrightarrow>
     (\<exists>segment. current_segment plan = Some segment \<and> n \<in> set (sg_ordinals segment))"

text \<open>The active segment has something left to do.\<close>

definition advanced :: "tool_plan \<Rightarrow> bool" where
  "advanced plan \<longleftrightarrow>
     (case current_segment plan of None \<Rightarrow> True
      | Some segment \<Rightarrow> \<not> segment_complete (pl_calls plan) segment)"

subsection \<open>One call changes\<close>

lemma map_filter_update:
  "n < length xs \<Longrightarrow> List.map_filter f (xs[n := y]) =
     List.map_filter f (take n xs) @ (case f y of None \<Rightarrow> [] | Some i \<Rightarrow> [i])
       @ List.map_filter f (drop (Suc n) xs)"
  by (simp add: upd_conv_take_nth_drop List.map_filter_def split: option.splits)

lemma map_filter_split:
  "n < length xs \<Longrightarrow> List.map_filter f xs =
     List.map_filter f (take n xs) @ (case f (xs ! n) of None \<Rightarrow> [] | Some i \<Rightarrow> [i])
       @ List.map_filter f (drop (Suc n) xs)"
  using map_filter_update [of n xs f "xs ! n"] by simp

lemma set_status_of_simps [simp]:
  "pl_segments (set_status_of n st plan) = pl_segments plan"
  "pl_active_segment (set_status_of n st plan) = pl_active_segment plan"
  "length (pl_calls (set_status_of n st plan)) = length (pl_calls plan)"
  "current_segment (set_status_of n st plan) = current_segment plan"
  by (simp_all add: set_status_of_def current_segment_def)

lemma at_segment_status [simp]: "at_segment (set_status_of n st plan) m = at_segment plan m"
  by (simp add: at_segment_def)

lemma set_status_of_call:
  "m < length (pl_calls plan) \<Longrightarrow> pl_calls (set_status_of n st plan) ! m =
     (if m = n then (pl_calls plan ! m)\<lparr>tl_status := st\<rparr> else pl_calls plan ! m)"
  by (simp add: set_status_of_def nth_list_update)

lemma at_segment_length: "plan_ok plan \<Longrightarrow> at_segment plan n \<Longrightarrow> n < length (pl_calls plan)"
  by (auto simp: plan_ok_def segments_ok_def at_segment_def current_segment_def nth_opt_def
      split: if_splits)

lemma at_segment_active:
  "at_segment plan n \<Longrightarrow> active_or_later (pl_segments plan) (pl_active_segment plan) n b"
  by (auto simp: at_segment_def active_or_later_def current_segment_def nth_opt_def split: if_splits)

lemma in_flight_at_segment:
  assumes "plan_ok plan" "n < length (pl_calls plan)" "in_flight (pl_calls plan ! n)"
  shows "at_segment plan n"
  using assms
  by (auto simp: plan_ok_def active_or_later_def at_segment_def current_segment_def nth_opt_def
      in_flight_def)

lemma plan_ok_status:
  assumes ok: "plan_ok plan" and n: "at_segment plan n"
    and ids: "distinct (submitted_ids (set_status_of n st plan))"
  shows "plan_ok (set_status_of n st plan)"
proof -
  have len: "n < length (pl_calls plan)" using at_segment_length [OF ok n] .
  have "map tl_ordinal (pl_calls (set_status_of n st plan)) = map tl_ordinal (pl_calls plan)"
    using len by (simp add: set_status_of_def map_update list_update_same_conv)
  moreover have "segments_ok (pl_calls (set_status_of n st plan)) (pl_segments plan)"
    using ok by (auto simp: plan_ok_def segments_ok_def set_status_of_call)
  moreover have "active_or_later (pl_segments plan) (pl_active_segment plan) m
      (in_flight (pl_calls (set_status_of n st plan) ! m))"
    if "m < length (pl_calls plan)" "\<not> is_completed (pl_calls (set_status_of n st plan) ! m)" for m
    using ok that at_segment_active [OF n]
    by (cases "m = n") (simp_all add: set_status_of_call plan_ok_def)
  ultimately show ?thesis
    using ok ids by (simp add: plan_ok_def)
qed

subsection \<open>Operations of the plan\<close>

text \<open>A call that was not submitted is submitted, or one that was is not any more.\<close>

lemma submitted_ids_keep:
  assumes "n < length (pl_calls plan)" and "submitted_id (pl_calls plan ! n) = None"
    and "\<And>i p. st \<noteq> CallSubmitted i p"
  shows "submitted_ids (set_status_of n st plan) = submitted_ids plan"
proof -
  have "submitted_id ((pl_calls plan ! n)\<lparr>tl_status := st\<rparr>) = None"
    using assms(3) by (simp add: submitted_id_def split: tool_call_status.splits)
  with assms(1,2) show ?thesis
    by (simp add: submitted_ids_def set_status_of_def map_filter_update map_filter_split [of n "pl_calls plan"])
qed

lemma submitted_ids_submit:
  assumes n: "n < length (pl_calls plan)" and fresh: "i \<notin> set (submitted_ids plan)"
    and dist: "distinct (submitted_ids plan)"
  shows "distinct (submitted_ids (set_status_of n (CallSubmitted i p) plan))"
    "set (submitted_ids (set_status_of n (CallSubmitted i p) plan)) \<subseteq> insert i (set (submitted_ids plan))"
    "i \<in> set (submitted_ids (set_status_of n (CallSubmitted i p) plan))"
proof -
  define f where "f = List.map_filter submitted_id (take n (pl_calls plan))"
  define g where "g = List.map_filter submitted_id (drop (Suc n) (pl_calls plan))"
  define old where "old = (case submitted_id (pl_calls plan ! n) of None \<Rightarrow> [] | Some j \<Rightarrow> [j])"
  have before: "submitted_ids plan = f @ old @ g"
    using map_filter_split [OF n, of submitted_id] by (simp add: submitted_ids_def f_def g_def old_def)
  have new: "submitted_ids (set_status_of n (CallSubmitted i p) plan) = f @ [i] @ g"
    using n by (simp add: submitted_ids_def set_status_of_def map_filter_update submitted_id_def
        f_def g_def)
  show "distinct (submitted_ids (set_status_of n (CallSubmitted i p) plan))"
    "set (submitted_ids (set_status_of n (CallSubmitted i p) plan)) \<subseteq> insert i (set (submitted_ids plan))"
    "i \<in> set (submitted_ids (set_status_of n (CallSubmitted i p) plan))"
    using fresh dist by (auto simp: before new)
qed

lemma submitted_ids_settle:
  assumes n: "n < length (pl_calls plan)" and i: "submitted_id (pl_calls plan ! n) = Some i"
    and dist: "distinct (submitted_ids plan)" and st: "\<And>j p. st \<noteq> CallSubmitted j p"
  shows "distinct (submitted_ids (set_status_of n st plan))"
    "set (submitted_ids (set_status_of n st plan)) = set (submitted_ids plan) - {i}"
proof -
  have none: "submitted_id ((pl_calls plan ! n)\<lparr>tl_status := st\<rparr>) = None"
    using st by (simp add: submitted_id_def split: tool_call_status.splits)
  define f where "f = List.map_filter submitted_id (take n (pl_calls plan))"
  define g where "g = List.map_filter submitted_id (drop (Suc n) (pl_calls plan))"
  have before: "submitted_ids plan = f @ [i] @ g"
    using map_filter_split [OF n, of submitted_id] i by (simp add: submitted_ids_def f_def g_def)
  have new: "submitted_ids (set_status_of n st plan) = f @ g"
    using n none by (simp add: submitted_ids_def set_status_of_def map_filter_update f_def g_def)
  show "distinct (submitted_ids (set_status_of n st plan))"
    "set (submitted_ids (set_status_of n st plan)) = set (submitted_ids plan) - {i}"
    using dist by (auto simp: before new)
qed

subsection \<open>Advancing\<close>

lemma advance_from_bounds:
  "active \<le> advance_from segments calls active
    \<and> (\<forall>j. active \<le> j \<and> j < advance_from segments calls active \<and> j < length segments
        \<longrightarrow> segment_complete calls (segments ! j))
    \<and> (advance_from segments calls active < length segments
        \<longrightarrow> \<not> segment_complete calls (segments ! advance_from segments calls active))"
proof (induction segments calls active rule: advance_from.induct)
  case (1 segments calls active)
  show ?case
  proof (cases "active < length segments \<and> segment_complete calls (segments ! active)")
    case False
    then have "advance_from segments calls active = active"
      by (subst advance_from.simps) (auto simp: nth_opt_def)
    with False show ?thesis by auto
  next
    case True
    then have step: "advance_from segments calls active = advance_from segments calls (active + 1)"
      by (subst advance_from.simps) (auto simp: nth_opt_def)
    have "nth_opt segments active = Some (segments ! active)" using True by (simp add: nth_opt_def)
    from 1 [OF this] True have IH: "active + 1 \<le> advance_from segments calls (active + 1)"
      "\<And>j. active + 1 \<le> j \<Longrightarrow> j < advance_from segments calls (active + 1) \<Longrightarrow> j < length segments
        \<Longrightarrow> segment_complete calls (segments ! j)"
      "advance_from segments calls (active + 1) < length segments
        \<Longrightarrow> \<not> segment_complete calls (segments ! advance_from segments calls (active + 1))"
      by auto
    show ?thesis
      unfolding step using IH True
      by (metis Suc_eq_plus1 Suc_leI le_eq_less_or_eq less_eq_Suc_le)
  qed
qed

lemma advance_advanced: "advanced (advance_completed_segments plan)"
  using advance_from_bounds [of "pl_active_segment plan" "pl_segments plan" "pl_calls plan"]
  by (simp add: advanced_def advance_completed_segments_def current_segment_def nth_opt_def)

lemma segment_complete_call:
  "segment_complete calls segment \<Longrightarrow> n \<in> set (sg_ordinals segment) \<Longrightarrow> n < length calls
    \<Longrightarrow> is_completed (calls ! n)"
  by (auto simp: segment_complete_def list_all_iff nth_opt_def dest!: bspec)

lemma advance_ok:
  assumes ok: "plan_ok plan"
  shows "plan_ok (advance_completed_segments plan)"
proof -
  define active' where "active' = advance_from (pl_segments plan) (pl_calls plan) (pl_active_segment plan)"
  have "active_or_later (pl_segments plan) active' n (in_flight (pl_calls plan ! n))"
    if n: "n < length (pl_calls plan)" and opened: "\<not> is_completed (pl_calls plan ! n)" for n
  proof -
    from ok n opened obtain j where j: "pl_active_segment plan \<le> j" "j < length (pl_segments plan)"
      "n \<in> set (sg_ordinals (pl_segments plan ! j))"
      and now: "in_flight (pl_calls plan ! n) \<Longrightarrow> j = pl_active_segment plan"
      by (auto simp: plan_ok_def active_or_later_def)
    have not_complete: "\<not> segment_complete (pl_calls plan) (pl_segments plan ! j)"
      using segment_complete_call [OF _ j(3) n] opened by blast
    then have later: "active' \<le> j"
      using advance_from_bounds [of "pl_active_segment plan" "pl_segments plan" "pl_calls plan"] j
      unfolding active'_def by (meson leI)
    moreover have "pl_active_segment plan \<le> active'"
      using advance_from_bounds unfolding active'_def by blast
    ultimately show ?thesis
      using j now by (auto simp: active_or_later_def)
  qed
  then show ?thesis
    using ok by (simp add: plan_ok_def advance_completed_segments_def active'_def submitted_ids_def)
qed

lemma advance_ids [simp]: "submitted_ids (advance_completed_segments plan) = submitted_ids plan"
  by (simp add: advance_completed_segments_def submitted_ids_def)

text \<open>An advanced plan past its last segment is complete.\<close>

lemma past_last_complete:
  assumes "plan_ok plan" and "current_segment plan = None"
  shows "plan_complete plan"
  using assms
  by (auto simp: plan_ok_def plan_complete_def list_all_length current_segment_def nth_opt_def
      active_or_later_def split: if_splits)

text \<open>A parsed plan.\<close>

lemma parsed_plan_ok:
  assumes calls: "calls_ok (pl_calls plan)"
    and segments: "segments_for (filter is_pending (pl_calls plan)) (pl_segments plan)"
    and active: "pl_active_segment plan = 0"
  shows "plan_ok plan" "submitted_ids plan = []" "plan_complete plan \<or> advanced plan"
proof -
  let ?calls = "pl_calls plan" and ?segments = "pl_segments plan"
  have ords: "map tl_ordinal ?calls = [0..<length ?calls]"
    using calls by (simp only: calls_ok_def)
  have ord: "tl_ordinal (?calls ! n) = n" if "n < length ?calls" for n
    using arg_cong [OF ords, of "\<lambda>ns. ns ! n"] that by simp
  have status: "is_pending call \<or> is_completed call" if "call \<in> set ?calls" for call
    using calls that by (auto simp: calls_ok_def list_all_iff)
  have member: "\<exists>call \<in> set ?calls. is_pending call \<and> tl_ordinal call = n
      \<and> tl_scheduling call = sg_scheduling sg"
    if "sg \<in> set ?segments" "n \<in> set (sg_ordinals sg)" for sg n
    using segments that by (auto simp: segments_for_def list_all_iff)
  have at: "n < length ?calls \<and> is_pending (?calls ! n) \<and> tl_scheduling (?calls ! n) = sg_scheduling sg"
    if sg: "sg \<in> set ?segments" "n \<in> set (sg_ordinals sg)" for sg n
    using member [OF that] ord by (metis in_set_conv_nth)
  have "segments_ok ?calls ?segments"
    using at segments by (auto simp: segments_ok_def segments_for_def list_all_iff)
  moreover have "active_or_later ?segments 0 n (in_flight (?calls ! n))"
    if n: "n < length ?calls" "\<not> is_completed (?calls ! n)" for n
  proof -
    have mem: "?calls ! n \<in> set ?calls" using n(1) by simp
    have pending: "is_pending (?calls ! n)" using status [OF mem] n(2) by blast
    have "?calls ! n \<in> set (filter is_pending ?calls)" using mem pending by simp
    then have "tl_ordinal (?calls ! n) \<in> set (map tl_ordinal (filter is_pending ?calls))"
      by (simp only: list.set_map imageI)
    then have "n \<in> set (map tl_ordinal (filter is_pending ?calls))" by (simp only: ord [OF n(1)])
    then have "n \<in> set (concat (map sg_ordinals ?segments))"
      using segments by (simp add: segments_for_def)
    then obtain sg where "sg \<in> set ?segments" "n \<in> set (sg_ordinals sg)" by auto
    with pending show ?thesis
      by (auto simp: active_or_later_def in_flight_def in_set_conv_nth)
  qed
  moreover show ids: "submitted_ids plan = []"
    using status by (fastforce simp: submitted_ids_def List.map_filter_def filter_empty_conv
        submitted_id_def is_pending_def is_completed_def split: tool_call_status.splits)
  ultimately show "plan_ok plan"
    using calls active by (simp add: plan_ok_def calls_ok_def)
  show "plan_complete plan \<or> advanced plan"
  proof (cases ?segments)
    case Nil
    then have "filter is_pending ?calls = []" using segments by (simp add: segments_for_def)
    then have "plan_complete plan"
      using status by (auto simp: plan_complete_def list_all_iff filter_empty_conv)
    then show ?thesis ..
  next
    case (Cons sg rest)
    then have "sg_ordinals sg \<noteq> []" using segments by (simp add: segments_for_def)
    then have n: "hd (sg_ordinals sg) \<in> set (sg_ordinals sg)" by simp
    have sg: "sg \<in> set ?segments" using Cons by simp
    have "\<not> is_completed (?calls ! hd (sg_ordinals sg))"
      using at [OF sg n] by (auto simp: is_pending_def is_completed_def split: tool_call_status.splits)
    then have "\<not> segment_complete ?calls sg"
      using at [OF sg n] segment_complete_call [OF _ n] by blast
    then have "advanced plan"
      using Cons active by (simp add: advanced_def current_segment_def nth_opt_def)
    then show ?thesis ..
  qed
qed

end
