(* ===== verification/CodexTurnRuns.thy ===== *)
theory CodexTurnRuns
  imports CodexTurns
begin

text \<open>
  Every event a session is given leaves its turn with operations to wait for: the steps of
  scheduling, of completions and of the handler, and the invariant of a run of events.
\<close>

section \<open>The plan of a state\<close>

lemma put_plan_put [simp]: "put_plan plan (put_plan plan0 s) = put_plan plan s"
  by (simp add: put_plan_def option.map_comp comp_def)

lemma put_plan_same: "current_plan s = Inr plan \<Longrightarrow> put_plan plan s = s"
  by (auto simp: current_plan_Inr put_plan_def)

lemma put_plan_rest [simp]:
  "cd_cancellation (put_plan plan s) = cd_cancellation s"
  "cd_terminal_failure (put_plan plan s) = cd_terminal_failure s"
  by (simp_all add: put_plan_def)

lemma update_call_Inr:
  "update_call msg n st s = Inr s' \<longleftrightarrow>
     (\<exists>plan. current_plan s = Inr plan \<and> n < length (pl_calls plan)
       \<and> s' = put_plan (set_status_of n st plan) s)"
  by (auto simp: update_call_def result_simps nth_opt_def split: if_splits)

section \<open>Scheduling\<close>

lemma prepare_call_ordinal:
  "prepare_call env cx session turn started n0 n call = Some (Inr p) \<Longrightarrow> pq_ordinal p = n"
  by (auto simp: prepare_call_def prepare_pending_def from_shell_def from_file_def result_simps
      map_sum_def
      split: tool_call_status.splits tool_call_progress.splits sum.splits option.splits)

lemma prepare_call_None:
  "prepare_call env cx session turn started s n call = None
    \<Longrightarrow> is_completed call \<or> submitted_id call \<noteq> None"
  by (auto simp: prepare_call_def is_completed_def submitted_id_def
      split: tool_call_status.splits tool_call_progress.splits)

lemma prepare_call_Some:
  "prepare_call env cx session turn started s n call = Some r
    \<Longrightarrow> \<not> is_completed call \<and> submitted_id call = None"
  by (auto simp: prepare_call_def is_completed_def submitted_id_def
      split: tool_call_status.splits tool_call_progress.splits)

definition busy_call :: "codex_env \<Rightarrow> int list \<Rightarrow> tool_call \<Rightarrow> bool" where
  "busy_call env busy call \<longleftrightarrow>
     (case resource_session_id env call of None \<Rightarrow> False | Some r \<Rightarrow> r \<in> set busy)"

lemma schedule_call_Inr:
  assumes run: "schedule_call env cx session turn started n (s, busy, prepared, r) = Inr acc"
    and plan: "current_plan s = Inr plan"
  shows "n < length (pl_calls plan)
    \<and> (acc = (s, busy, prepared, r)
          \<and> (is_completed (pl_calls plan ! n) \<or> submitted_id (pl_calls plan ! n) \<noteq> None
             \<or> busy_call env busy (pl_calls plan ! n))
       \<or> (\<exists>snapshot. acc = (put_plan (set_status_of n (CallCompleted snapshot) plan) s, busy, prepared, True)
          \<and> submitted_id (pl_calls plan ! n) = None)
       \<or> (\<exists>busy' p. acc = (s, busy', prepared @ [p], r) \<and> pq_ordinal p = n))"
proof -
  have n: "n < length (pl_calls plan)"
    using run plan by (auto simp: schedule_call_def result_simps nth_opt_def split: if_splits)
  let ?call = "pl_calls plan ! n"
  let ?prepare = "prepare_call env cx session turn started s n ?call"
  show ?thesis
  proof (cases "busy_call env busy ?call")
    case True
    with run plan n show ?thesis
      by (simp add: schedule_call_def nth_opt_def busy_call_def Let_def)
  next
    case idle: False
    show ?thesis
    proof (cases ?prepare)
      case None
      with run plan n idle prepare_call_None [OF None] show ?thesis
        by (simp add: schedule_call_def nth_opt_def busy_call_def Let_def)
    next
      case (Some answer)
      note open_call = prepare_call_Some [OF Some]
      show ?thesis
      proof (cases answer)
        case (Inr p)
        with Some have "pq_ordinal p = n" using prepare_call_ordinal by blast
        with run plan n idle Some Inr show ?thesis
          by (auto simp: schedule_call_def nth_opt_def busy_call_def Let_def)
      next
        case (Inl failure)
        with run plan n idle Some obtain snapshot where "failure = Refused snapshot"
          by (cases failure) (auto simp: schedule_call_def nth_opt_def busy_call_def Let_def)
        with run plan n idle Some Inl open_call show ?thesis
          by (auto simp: schedule_call_def nth_opt_def busy_call_def Let_def complete_call_def
              result_simps update_call_Inr)
      qed
    qed
  qed
qed

text \<open>The calls of the active segment keep the plan in order.\<close>

lemma complete_open_call:
  assumes "plan_ok plan" "at_segment plan n" "submitted_id (pl_calls plan ! n) = None"
  shows "plan_ok (set_status_of n (CallCompleted snapshot) plan)
    \<and> submitted_ids (set_status_of n (CallCompleted snapshot) plan) = submitted_ids plan"
proof -
  have keep: "submitted_ids (set_status_of n (CallCompleted snapshot) plan) = submitted_ids plan"
    using submitted_ids_keep [OF at_segment_length [OF assms(1,2)] assms(3)] by simp
  with plan_ok_status [OF assms(1,2)] assms(1) show ?thesis by (simp add: plan_ok_def)
qed

lemma schedule_calls_ok:
  assumes "foldR (schedule_call env cx session turn started) ns (s, busy, prepared, r)
      = Inr (s', busy', prepared', r')"
    and "current_plan s = Inr plan" "plan_ok plan" "\<forall>n \<in> set ns. at_segment plan n"
    and "\<forall>p \<in> set prepared. at_segment plan (pq_ordinal p)"
  shows "\<exists>plan'. s' = put_plan plan' s \<and> plan_ok plan' \<and> submitted_ids plan' = submitted_ids plan
    \<and> (\<forall>p \<in> set prepared'. at_segment plan' (pq_ordinal p))"
  using assms
proof (induction ns arbitrary: s busy prepared r plan)
  case Nil
  then show ?case using put_plan_same [OF Nil.prems(2)] by force
next
  case (Cons n ns)
  note plan = Cons.prems(2) and ok = Cons.prems(3)
  have n: "at_segment plan n" and ns: "\<forall>m \<in> set ns. at_segment plan m" using Cons.prems(4) by auto
  from Cons.prems(1) obtain acc
    where first: "schedule_call env cx session turn started n (s, busy, prepared, r) = Inr acc"
      and rest: "foldR (schedule_call env cx session turn started) ns acc = Inr (s', busy', prepared', r')"
    by (auto simp: result_simps)
  consider "acc = (s, busy, prepared, r)"
    | snapshot where "acc = (put_plan (set_status_of n (CallCompleted snapshot) plan) s, busy, prepared, True)"
        "submitted_id (pl_calls plan ! n) = None"
    | busy1 p where "acc = (s, busy1, prepared @ [p], r)" "pq_ordinal p = n"
    using schedule_call_Inr [OF first plan] by blast
  then show ?case
  proof cases
    case 1
    from Cons.IH [OF rest [unfolded 1] plan ok ns Cons.prems(5)] show ?thesis .
  next
    case 2
    let ?plan = "set_status_of n (CallCompleted snapshot) plan"
    have kept: "plan_ok ?plan \<and> submitted_ids ?plan = submitted_ids plan"
      using complete_open_call [OF ok n 2(2)] .
    from Cons.IH [OF rest [unfolded 2(1)] current_plan_put [OF plan] conjunct1 [OF kept]]
    show ?thesis using ns Cons.prems(5) kept by simp
  next
    case 3
    from Cons.IH [OF rest [unfolded 3(1)] plan ok ns] show ?thesis
      using Cons.prems(5) n 3(2) by simp
  qed
qed

text \<open>A pass that prepares and refuses nothing finds every call done, submitted or busy.\<close>

lemma schedule_calls_grow:
  "foldR (schedule_call env cx session turn started) ns (s, busy, prepared, r)
      = Inr (s', busy', prepared', r') \<Longrightarrow> current_plan s = Inr plan
    \<Longrightarrow> length prepared \<le> length prepared' \<and> (r \<longrightarrow> r')"
proof (induction ns arbitrary: s busy prepared r plan)
  case Nil
  then show ?case by simp
next
  case (Cons n ns)
  from Cons.prems(1) obtain s1 busy1 prepared1 r1
    where first: "schedule_call env cx session turn started n (s, busy, prepared, r)
        = Inr (s1, busy1, prepared1, r1)"
      and rest: "foldR (schedule_call env cx session turn started) ns (s1, busy1, prepared1, r1)
        = Inr (s', busy', prepared', r')"
    by (auto simp: result_simps)
  have "\<exists>plan1. current_plan s1 = Inr plan1 \<and> length prepared \<le> length prepared1 \<and> (r \<longrightarrow> r1)"
    using schedule_call_Inr [OF first Cons.prems(2)] Cons.prems(2) current_plan_put
    by (elim conjE disjE exE) auto
  with Cons.IH [OF rest] show ?case by auto
qed

lemma schedule_calls_idle:
  "foldR (schedule_call env cx session turn started) ns (s, busy, [], False)
      = Inr (s', busy', [], False) \<Longrightarrow> current_plan s = Inr plan
    \<Longrightarrow> s' = s \<and> (\<forall>n \<in> set ns. n < length (pl_calls plan)
        \<and> (is_completed (pl_calls plan ! n) \<or> submitted_id (pl_calls plan ! n) \<noteq> None
           \<or> busy_call env busy (pl_calls plan ! n)))"
proof (induction ns)
  case Nil
  then show ?case by simp
next
  case (Cons n ns)
  from Cons.prems(1) obtain acc
    where first: "schedule_call env cx session turn started n (s, busy, [], False) = Inr acc"
      and rest: "foldR (schedule_call env cx session turn started) ns acc = Inr (s', busy', [], False)"
    by (auto simp: result_simps)
  note step = schedule_call_Inr [OF first Cons.prems(2)]
  have "acc = (s, busy, [], False)"
  proof -
    have "\<not> (\<exists>snapshot. acc = (put_plan (set_status_of n (CallCompleted snapshot) plan) s, busy, [], True))"
      using schedule_calls_grow [of env cx session turn started ns] rest
        current_plan_put [OF Cons.prems(2)] by metis
    moreover have "\<not> (\<exists>busy1 p. acc = (s, busy1, [] @ [p], False))"
      using schedule_calls_grow [of env cx session turn started ns] rest Cons.prems(2) by force
    ultimately show ?thesis using step by blast
  qed
  with step Cons.IH rest Cons.prems(2) show ?case by auto
qed

section \<open>Submitting\<close>

definition staged_ids :: "codex_outcome \<Rightarrow> operation_id set" where
  "staged_ids b = set (map so_id (ho_operations b))"

text \<open>The identifiers of an outcome are those drawn for it.\<close>

definition numbered_ids :: "codex_env \<Rightarrow> codex_outcome \<Rightarrow> bool" where
  "numbered_ids env b \<longleftrightarrow>
     map so_id (ho_operations b) = map (xv_operation_id env) [0..<length (ho_operations b)]"

lemma ids_state [simp]:
  "numbered_ids env (b\<lparr>ho_state := s\<rparr>) = numbered_ids env b"
  "staged_ids (b\<lparr>ho_state := s\<rparr>) = staged_ids b"
  by (simp_all add: numbered_ids_def staged_ids_def)

text \<open>\<open>OperationId::new()\<close>: fresh identifiers differ from each other and from those in use.\<close>

definition fresh_ids :: "codex_env \<Rightarrow> operation_id set \<Rightarrow> bool" where
  "fresh_ids env out \<longleftrightarrow> inj (xv_operation_id env) \<and> range (xv_operation_id env) \<inter> out = {}"

lemma next_operation_new:
  assumes "fresh_ids env out" and "numbered_ids env b"
  shows "next_operation env b \<notin> out \<union> staged_ids b"
proof -
  have "next_operation env b \<notin> out"
    using assms(1) by (auto simp: fresh_ids_def next_operation_def)
  moreover have "next_operation env b \<notin> xv_operation_id env ` {0..<length (ho_operations b)}"
    using assms(1) by (auto simp: fresh_ids_def next_operation_def dest: injD)
  ultimately show ?thesis
    using assms(2) by (auto simp: staged_ids_def numbered_ids_def)
qed

lemma numbered_push:
  "numbered_ids env b \<Longrightarrow> ho_operations b' = ho_operations b @ [\<lparr>so_id = next_operation env b, so_request = r\<rparr>]
    \<Longrightarrow> numbered_ids env b' \<and> staged_ids b' = insert (next_operation env b) (staged_ids b)"
  by (auto simp: numbered_ids_def staged_ids_def next_operation_def)

text \<open>A plan at work: its submitted calls wait for operations of \<open>out\<close> or of this outcome.\<close>

definition working :: "codex_env \<Rightarrow> operation_id set \<Rightarrow> codex_outcome \<Rightarrow> tool_plan \<Rightarrow> bool" where
  "working env out b plan \<longleftrightarrow>
     current_plan (ho_state b) = Inr plan \<and> plan_ok plan \<and> numbered_ids env b
     \<and> set (submitted_ids plan) \<subseteq> out \<union> staged_ids b"

lemma submit_call_ok:
  assumes run: "submit_call env hn cx p b = Inr b'" and work: "working env out b plan"
    and fresh: "fresh_ids env out" and at: "at_segment plan (pq_ordinal p)"
  shows "\<exists>i. ho_state b' = put_plan (set_status_of (pq_ordinal p) (CallSubmitted i (pq_progress p)) plan)
      (ho_state b)
    \<and> working env out b' (set_status_of (pq_ordinal p) (CallSubmitted i (pq_progress p)) plan)
    \<and> i \<in> set (submitted_ids (set_status_of (pq_ordinal p) (CallSubmitted i (pq_progress p)) plan))"
proof -
  from work have plan: "current_plan (ho_state b) = Inr plan" and ok: "plan_ok plan"
    and numbered: "numbered_ids env b" and ids: "set (submitted_ids plan) \<subseteq> out \<union> staged_ids b"
    by (auto simp: working_def)
  from run obtain i b1
    where stage: "stage_execution env hn cx (pq_generation p) (pq_request p)
          ''could not stage shell operation'' b = Inr (i, b1)"
      and b': "\<exists>plan1. current_plan (ho_state b1) = Inr plan1
        \<and> b' = b1\<lparr>ho_state := put_plan (set_status_of (pq_ordinal p) (CallSubmitted i (pq_progress p)) plan1)
            (ho_state b1)\<rparr>"
    by (auto simp: submit_call_def result_simps update_call_Inr)
  have i: "i = next_operation env b" and st: "ho_state b1 = ho_state b"
    and ops: "ho_operations b1 = ho_operations b @ [\<lparr>so_id = next_operation env b,
       so_request = ExecutionReq (hn_execution_connection hn) (cx_machine_id cx)
         (pq_generation p) (pq_request p)\<rparr>]"
    using stage_execution_Inr [OF stage] by auto
  let ?plan = "set_status_of (pq_ordinal p) (CallSubmitted i (pq_progress p)) plan"
  have b'_eq: "b' = b1\<lparr>ho_state := put_plan ?plan (ho_state b)\<rparr>" using b' st plan by auto
  have new: "i \<notin> out \<union> staged_ids b" using next_operation_new [OF fresh numbered] i by simp
  then have notin: "i \<notin> set (submitted_ids plan)" using ids by blast
  have len: "pq_ordinal p < length (pl_calls plan)" using at_segment_length [OF ok at] .
  have dist: "distinct (submitted_ids plan)" using ok by (simp add: plan_ok_def)
  note submit = submitted_ids_submit [OF len notin dist, of "pq_progress p"]
  have num: "numbered_ids env b'" and stag: "staged_ids b' = insert i (staged_ids b)"
    using numbered_push [OF numbered, of b'] ops b'_eq i by auto
  have "working env out b' ?plan"
    using plan_ok_status [OF ok at submit(1)] current_plan_put [OF plan] num stag submit(2) ids
    by (auto simp: working_def b'_eq)
  with submit(3) show ?thesis by (auto simp: b'_eq)
qed

lemma submit_calls_ok:
  assumes "foldR (submit_call env hn cx) ps b = Inr b'" "working env out b plan"
    and "fresh_ids env out" "\<forall>p \<in> set ps. at_segment plan (pq_ordinal p)"
  shows "\<exists>plan'. ho_state b' = put_plan plan' (ho_state b) \<and> working env out b' plan'
    \<and> (ps \<noteq> [] \<longrightarrow> submitted_ids plan' \<noteq> [])"
  using assms
proof (induction ps arbitrary: b plan)
  case Nil
  then have "current_plan (ho_state b) = Inr plan" by (simp add: working_def)
  with Nil show ?case using put_plan_same by force
next
  case (Cons p ps)
  from Cons.prems(1) obtain b1 where first: "submit_call env hn cx p b = Inr b1"
    and rest: "foldR (submit_call env hn cx) ps b1 = Inr b'"
    by (auto simp: result_simps)
  obtain i where state: "ho_state b1
        = put_plan (set_status_of (pq_ordinal p) (CallSubmitted i (pq_progress p)) plan) (ho_state b)"
      and work: "working env out b1 (set_status_of (pq_ordinal p) (CallSubmitted i (pq_progress p)) plan)"
      and i: "i \<in> set (submitted_ids (set_status_of (pq_ordinal p) (CallSubmitted i (pq_progress p)) plan))"
    using submit_call_ok [OF first Cons.prems(2,3)] Cons.prems(4) by auto
  from Cons.IH [OF rest work Cons.prems(3)] Cons.prems(4)
  obtain plan' where plan': "ho_state b' = put_plan plan' (ho_state b1)" "working env out b' plan'"
    "ps \<noteq> [] \<longrightarrow> submitted_ids plan' \<noteq> []"
    by auto
  show ?case
  proof (cases "ps = []")
    case True
    then have "b' = b1" using rest by simp
    with state work i show ?thesis by force
  next
    case False
    with plan' state show ?thesis by auto
  qed
qed

section \<open>\<open>schedule_ready\<close>\<close>

lemma active_ordinals_at:
  assumes "active_ordinals s = Inr (Some (turn, ns))" and "current_plan s = Inr plan"
  shows "\<forall>n \<in> set ns. at_segment plan n" "\<exists>segment. current_segment plan = Some segment \<and> sg_ordinals segment = ns"
  using assms by (auto simp: active_ordinals_def result_simps current_plan_Inr turn_plan_Some
      at_segment_def)

lemma schedule_pass_Inr:
  assumes "schedule_pass env cx session started s = Inr (Some (s', busy, prepared, r))"
    and "current_plan s = Inr plan"
  obtains turn ns where "active_ordinals s = Inr (Some (turn, ns))"
    "foldR (schedule_call env cx session turn started) ns (s, submitted_resources plan, [], False)
      = Inr (s', busy, prepared, r)"
  using assms by (auto simp: schedule_pass_def result_simps split: option.splits)

lemma schedule_pass_None:
  assumes "schedule_pass env cx session started s = Inr None" and "current_plan s = Inr plan"
  shows "current_segment plan = None"
  using assms by (cases "current_segment plan")
    (auto simp: schedule_pass_def result_simps active_ordinals_def current_plan_Inr
      turn_plan_Some split: option.splits)

text \<open>A busy session belongs to a submitted call.\<close>

lemma busy_submitted:
  "busy_call env (submitted_resources plan) call \<Longrightarrow> submitted_ids plan \<noteq> []"
  by (force simp: busy_call_def submitted_resources_def submitted_session_def submitted_ids_def
      submitted_id_def List.map_filter_def filter_empty_conv
      split: option.splits tool_call_status.splits)

lemma submitted_member:
  "n < length (pl_calls plan) \<Longrightarrow> submitted_id (pl_calls plan ! n) \<noteq> None \<Longrightarrow> submitted_ids plan \<noteq> []"
  by (auto simp: submitted_ids_def List.map_filter_def filter_empty_conv)

lemma schedule_ready_ok:
  "schedule_ready env hn cx session started b = Inr b' \<Longrightarrow> working env out b plan
    \<Longrightarrow> fresh_ids env out \<Longrightarrow> advanced plan
    \<Longrightarrow> \<exists>plan'. ho_state b' = put_plan plan' (ho_state b) \<and> working env out b' plan'
        \<and> (plan_complete plan' \<or> submitted_ids plan' \<noteq> [])"
proof (induction env hn cx session started b arbitrary: plan rule: schedule_ready.induct)
  case (1 env hn cx session started b)
  note work = 1(3) and fresh = 1(4) and adv = 1(5)
  from work have plan: "current_plan (ho_state b) = Inr plan" and ok: "plan_ok plan"
    by (auto simp: working_def)
  obtain pass where pass: "schedule_pass env cx session started (ho_state b) = Inr pass"
    using 1(2) by (subst (asm) schedule_ready.simps) (auto split: sum.splits)
  show ?case
  proof (cases pass)
    case None
    then have "b' = b" using 1(2) pass by (subst (asm) schedule_ready.simps) simp
    moreover have "plan_complete plan"
      using schedule_pass_None [OF pass [unfolded None] plan] past_last_complete [OF ok] by blast
    ultimately show ?thesis using work put_plan_same [OF plan] by force
  next
    case (Some result)
    then obtain s busy prepared r where result: "pass = Some (s, busy, prepared, r)"
      by (cases result) auto
    obtain turn ns where ns: "active_ordinals (ho_state b) = Inr (Some (turn, ns))"
      and calls: "foldR (schedule_call env cx session turn started) ns
        (ho_state b, submitted_resources plan, [], False) = Inr (s, busy, prepared, r)"
      using schedule_pass_Inr [OF pass [unfolded result] plan] by blast
    obtain plan1 where s: "s = put_plan plan1 (ho_state b)" and ok1: "plan_ok plan1"
      and ids1: "submitted_ids plan1 = submitted_ids plan"
      and at1: "\<forall>p \<in> set prepared. at_segment plan1 (pq_ordinal p)"
      using schedule_calls_ok [OF calls plan ok active_ordinals_at(1) [OF ns plan]] by auto
    have work1: "working env out (b\<lparr>ho_state := s\<rparr>) plan1"
      using work ok1 ids1 current_plan_put [OF plan]
      by (simp add: working_def s)
    consider (again) "prepared = []" r | (idle) "prepared = []" "\<not> r" | (submit) "prepared \<noteq> []"
      by blast
    then show ?thesis
    proof cases
      case again
      let ?plan = "advance_completed_segments plan1"
      have s1: "advance_plan s = Inr (put_plan ?plan (ho_state b))"
        using current_plan_put [OF plan] by (simp add: advance_plan_def s)
      have run: "schedule_ready env hn cx session started (b\<lparr>ho_state := put_plan ?plan (ho_state b)\<rparr>)
          = Inr b'"
        using 1(2) pass result again s1 by (subst (asm) schedule_ready.simps) simp
      have work2: "working env out (b\<lparr>ho_state := put_plan ?plan (ho_state b)\<rparr>) ?plan"
        using work1 advance_ok [OF ok1] current_plan_put [OF plan]
        by (simp add: working_def)
      from 1(1) [OF pass result _ _ _ again(1) again(2) s1 run work2 fresh advance_advanced]
      show ?thesis by auto
    next
      case idle
      have idle_calls: "s = ho_state b \<and> (\<forall>n \<in> set ns. n < length (pl_calls plan)
          \<and> (is_completed (pl_calls plan ! n) \<or> submitted_id (pl_calls plan ! n) \<noteq> None
             \<or> busy_call env (submitted_resources plan) (pl_calls plan ! n)))"
        using schedule_calls_idle [OF _ plan] calls idle by simp
      have b': "b' = b"
        using 1(2) pass result idle idle_calls by (subst (asm) schedule_ready.simps) simp
      obtain segment where segment: "current_segment plan = Some segment" "sg_ordinals segment = ns"
        using active_ordinals_at(2) [OF ns plan] by blast
      then have "\<not> segment_complete (pl_calls plan) segment" using adv by (simp add: advanced_def)
      then obtain n where n: "n \<in> set ns" "\<not> (n < length (pl_calls plan) \<and> is_completed (pl_calls plan ! n))"
        using segment(2) by (auto simp: segment_complete_def list_all_iff nth_opt_def split: if_splits)
      then have "submitted_ids plan \<noteq> []"
        using idle_calls busy_submitted submitted_member by blast
      with work b' show ?thesis using put_plan_same [OF plan] by force
    next
      case submit
      have run: "foldR (submit_call env hn cx) prepared (b\<lparr>ho_state := s\<rparr>) = Inr b'"
        using 1(2) pass result submit by (subst (asm) schedule_ready.simps) simp
      from submit_calls_ok [OF run work1 fresh at1] submit s show ?thesis by auto
    qed
  qed
qed

end
