(* ===== verification/CodexSessions.thy ===== *)
theory CodexSessions
  imports CodexTurnRuns
begin

text \<open>
  The handler keeps a session going: whatever the event, the turn it leaves waits for operations
  that are outstanding, and runs of events keep that.
\<close>

section \<open>Completions of tools\<close>

definition same_turn :: "codex_state \<Rightarrow> codex_state \<Rightarrow> bool" where
  "same_turn s s' \<longleftrightarrow> cd_active_turn s' = cd_active_turn s
     \<and> cd_cancellation s' = cd_cancellation s \<and> cd_terminal_failure s' = cd_terminal_failure s"

lemma same_turn_refl [simp]: "same_turn s s"
  by (simp add: same_turn_def)

lemma allocate_same: "allocate_session_id s = Inr (sid, s') \<Longrightarrow> same_turn s s'"
  by (auto simp: allocate_session_id_def result_simps Let_def same_turn_def split: if_splits)

lemma upsert_same: "same_turn s s1 \<Longrightarrow> same_turn s (upsert_execution e s1)"
  by (simp add: upsert_execution_def same_turn_def)

lemma track_same: "track_execution ob turn p s = Inr (p', s') \<Longrightarrow> same_turn s s'"
  by (auto simp: track_execution_def result_simps same_turn_def [of s "s\<lparr>cd_executions := _\<rparr>"]
      split: if_splits option.splits sum.splits intro!: upsert_same dest: allocate_same)

lemma shell_response_same: "apply_shell_response env p response turn at s = Inr (r, s') \<Longrightarrow> same_turn s s'"
  by (auto simp: apply_shell_response_def result_simps Let_def dest: track_same)

lemma tool_response_same: "apply_tool_response env p response turn call_id at s = (r, s') \<Longrightarrow> same_turn s s'"
  by (auto simp: apply_tool_response_def split: tool_call_progress.splits sum.splits
      dest: shell_response_same)

lemma tool_outcome_same:
  "tool_outcome env p outcome turn call_id at s = Inr (r, s') \<Longrightarrow> same_turn s s'"
  by (auto simp: tool_outcome_def split: read_outcome.splits read_result.splits option.splits
      tool_call_progress.splits dest: tool_response_same)

lemma same_turn_plan: "same_turn s s' \<Longrightarrow> current_plan s' = current_plan s"
  by (simp add: same_turn_def current_plan_def)

lemma submitted_call_Some:
  assumes "submitted_call i plan = Some (call, p)"
  shows "call \<in> set (pl_calls plan) \<and> submitted_id call = Some i"
proof -
  from assms have find: "List.find (\<lambda>call. awaits_operation i call \<noteq> None) (pl_calls plan) = Some call"
    and await: "awaits_operation i call = Some p"
    by (auto simp: submitted_call_def split: option.splits)
  from find have "call \<in> set (pl_calls plan)" unfolding find_Some_iff by (metis nth_mem)
  with await show ?thesis
    by (auto simp: awaits_operation_def submitted_id_def split: tool_call_status.splits if_splits)
qed

lemma status_after_settled: "status_after r = Inr st \<Longrightarrow> st \<noteq> CallSubmitted j p"
  by (auto simp: status_after_def split: sum.splits tool_failure.splits tool_applied.splits)

lemma apply_completion_ok:
  assumes run: "apply_completion env s i outcome at = Inr s'" and plan: "current_plan s = Inr plan"
    and ok: "plan_ok plan"
  shows "\<exists>s1 plan'. s' = put_plan plan' s1 \<and> same_turn s s1 \<and> plan_ok plan' \<and> advanced plan'
    \<and> set (submitted_ids plan') \<subseteq> set (submitted_ids plan) - {i}"
proof -
  obtain turn where turn: "cd_active_turn s = Some turn" "turn_plan turn = Some plan"
    using plan by (auto simp: current_plan_Inr turn_plan_Some)
  from run turn obtain call p r s1 st s2
    where call: "submitted_call i plan = Some (call, p)"
      and outcome: "tool_outcome env p outcome (at_id turn) (tl_call_id call) at s = Inr (r, s1)"
      and st: "status_after r = Inr st"
      and update: "update_call ''tool call disappeared while applying its result'' (tl_ordinal call) st s1
        = Inr s2"
      and adv: "advance_plan s2 = Inr s'"
    by (auto simp: apply_completion_def result_simps)
  have same: "same_turn s s1" using tool_outcome_same [OF outcome] .
  have plan1: "current_plan s1 = Inr plan" using same_turn_plan [OF same] plan by simp
  let ?n = "tl_ordinal call" and ?plan = "set_status_of (tl_ordinal call) st plan"
  have s2: "s2 = put_plan ?plan s1" and n: "?n < length (pl_calls plan)"
    using update plan1 by (auto simp: update_call_Inr)
  have ords: "map tl_ordinal (pl_calls plan) = [0..<length (pl_calls plan)]"
    using ok by (simp only: plan_ok_def)
  obtain k where k: "k < length (pl_calls plan)" "pl_calls plan ! k = call"
    using submitted_call_Some [OF call] by (auto simp: in_set_conv_nth)
  have "?n = k" using arg_cong [OF ords, of "\<lambda>ns. ns ! k"] k by simp
  then have id: "submitted_id (pl_calls plan ! ?n) = Some i"
    using submitted_call_Some [OF call] k by simp
  have dist: "distinct (submitted_ids plan)" using ok by (simp only: plan_ok_def)
  note settle = submitted_ids_settle [OF n id dist status_after_settled [OF st]]
  have "in_flight (pl_calls plan ! ?n)"
    using id by (auto simp: in_flight_def submitted_id_def is_pending_def is_completed_def
        split: tool_call_status.splits)
  then have at: "at_segment plan ?n" using in_flight_at_segment [OF ok n] by blast
  have "plan_ok ?plan" using plan_ok_status [OF ok at settle(1)] .
  moreover have "s' = put_plan (advance_completed_segments ?plan) s1"
    using adv current_plan_put [OF plan1] by (auto simp: advance_plan_def s2 result_simps)
  ultimately show ?thesis
    using same settle(2) advance_ok advance_advanced advance_ids by (metis order_refl)
qed

section \<open>The state of a session\<close>

definition phase_ok :: "operation_id set \<Rightarrow> turn_phase \<Rightarrow> bool" where
  "phase_ok out phase \<longleftrightarrow>
     (case phase of
        AwaitingLlm i \<Rightarrow> i \<in> out
      | Compacting c \<Rightarrow> cs_operation_id c \<in> out
      | ExecutingTools plan \<Rightarrow>
          plan_ok plan \<and> submitted_ids plan \<noteq> [] \<and> set (submitted_ids plan) \<subseteq> out
      | Cancelling \<Rightarrow> False)"

definition session_ok :: "operation_id set \<Rightarrow> codex_state \<Rightarrow> bool" where
  "session_ok out s \<longleftrightarrow>
     (case cd_cancellation s of
        Some c \<Rightarrow> cancel_ok c
      | None \<Rightarrow>
         (case cd_active_turn s of
            None \<Rightarrow> True
          | Some turn \<Rightarrow> cd_terminal_failure s = None \<and> phase_ok out (at_phase turn)))"

lemma phase_ok_mono: "phase_ok out phase \<Longrightarrow> out \<subseteq> out' \<Longrightarrow> phase_ok out' phase"
  by (auto simp: phase_ok_def split: turn_phase.splits)

text \<open>The turn goes on: it waits for an operation staged in this outcome.\<close>

fun awaits_one :: "operation_id set \<Rightarrow> turn_phase \<Rightarrow> bool" where
  "awaits_one ids (AwaitingLlm i) = (i \<in> ids)"
| "awaits_one ids (Compacting c) = (cs_operation_id c \<in> ids)"
| "awaits_one ids phase = False"

lemma awaits_one_ok: "awaits_one ids phase \<Longrightarrow> phase_ok (out \<union> ids) phase"
  by (cases phase) (simp_all add: phase_ok_def)

definition resumed :: "codex_outcome \<Rightarrow> bool" where
  "resumed b \<longleftrightarrow>
     cd_cancellation (ho_state b) = None \<and> cd_terminal_failure (ho_state b) = None
     \<and> (\<exists>turn. cd_active_turn (ho_state b) = Some turn \<and> awaits_one (staged_ids b) (at_phase turn))"

definition ended :: "codex_outcome \<Rightarrow> bool" where
  "ended b \<longleftrightarrow> cd_cancellation (ho_state b) = None \<and> cd_active_turn (ho_state b) = None"

definition plain :: "codex_state \<Rightarrow> bool" where
  "plain s \<longleftrightarrow> cd_cancellation s = None \<and> cd_terminal_failure s = None"

lemma resumed_ok: "resumed b \<Longrightarrow> session_ok (out \<union> staged_ids b) (ho_state b)"
  by (auto simp: resumed_def session_ok_def awaits_one_ok)

lemma ended_ok: "ended b \<Longrightarrow> session_ok out (ho_state b)"
  by (simp add: ended_def session_ok_def)

lemma staged_simps [simp]:
  "staged_ids (set_status st b) = staged_ids b"
  "staged_ids (emit_progress j b) = staged_ids b"
  "staged_ids (append_message m b) = staged_ids b"
  "staged_ids (on_state f b) = staged_ids b"
  "staged_ids (compaction_started t b) = staged_ids b"
  "staged_ids (set_phase ph b) = staged_ids b"
  "staged_ids (start_turn turn b) = staged_ids b"
  "staged_ids (builder_new s) = {}"
  "staged_ids (push_operation i r b) = insert i (staged_ids b)"
  by (simp_all add: staged_ids_def compaction_started_def set_phase_def start_turn_def)

lemma state_simps [simp]:
  "ho_state (compaction_started t b) = ho_state b"
  "ho_state (set_phase ph b) = on_turn (\<lambda>turn. turn\<lparr>at_phase := ph\<rparr>) (ho_state b)"
  "ho_state (start_turn turn b) = (ho_state b)\<lparr>cd_active_turn := Some turn\<rparr>"
  by (simp_all add: compaction_started_def set_phase_def start_turn_def)

lemma turn_simps [simp]:
  "cd_active_turn (on_turn f s) = map_option f (cd_active_turn s)"
  "cd_cancellation (on_turn f s) = cd_cancellation s"
  "cd_terminal_failure (on_turn f s) = cd_terminal_failure s"
  "cd_active_turn (on_window g s) = cd_active_turn s"
  "cd_cancellation (on_window g s) = cd_cancellation s"
  "cd_terminal_failure (on_window g s) = cd_terminal_failure s"
  "cd_active_turn (extend_projection env ms s) = cd_active_turn s"
  "cd_cancellation (extend_projection env ms s) = cd_cancellation s"
  "cd_terminal_failure (extend_projection env ms s) = cd_terminal_failure s"
  by (simp_all add: on_turn_def on_window_def extend_projection_def)

lemma resumed_simps [simp]:
  "resumed (set_status st b) = resumed b" "resumed (emit_progress j b) = resumed b"
  "ended (set_status st b) = ended b" "ended (emit_progress j b) = ended b"
  by (simp_all add: resumed_def ended_def)

lemma append_messages_simps [simp]:
  "ho_state (append_messages ms b) = ho_state b"
  "ho_operations (append_messages ms b) = ho_operations b"
  by (induction ms arbitrary: b) (simp_all add: append_messages_def append_message_def)

subsection \<open>Requests\<close>

lemma request_turn_resumes:
  "request_turn env hn cx session b = Inr b' \<Longrightarrow> plain (ho_state b) \<Longrightarrow> resumed b'"
  by (auto simp: request_turn_def result_simps active_current_date_def request_llm_def resumed_def
      plain_def)

lemma stage_compaction_resumes:
  "stage_compaction env hn cx b through trigger session = Inr b' \<Longrightarrow> plain (ho_state b) \<Longrightarrow> resumed b'"
  by (auto simp: stage_compaction_def result_simps active_current_date_def request_llm_def Let_def
      resumed_def plain_def)

lemma stage_after_boundary_resumes:
  assumes run: "stage_after_boundary env hn cx b through session = Inr b'" and "plain (ho_state b)"
  shows "resumed b'"
proof (cases "needs_compaction env cx (ho_state b)")
  case True
  with assms show ?thesis by (auto simp: stage_after_boundary_def intro: stage_compaction_resumes)
next
  case False
  then obtain turn where turn: "cd_active_turn (ho_state b) = Some turn"
    using run by (cases "cd_active_turn (ho_state b)") (simp_all add: stage_after_boundary_def)
  define b0 where "b0 = on_state (\<lambda>s. extend_projection env (map st_message (at_pending_steering turn))
        (on_turn (\<lambda>t. t\<lparr>at_pending_steering := []\<rparr>) s)) b"
  have "bindR (request_turn env hn cx session b0) (\<lambda>b1. Inr (set_status SessRunning b1)) = Inr b'"
    using run False turn by (simp add: stage_after_boundary_def b0_def)
  then obtain b1 where b1: "request_turn env hn cx session b0 = Inr b1"
    and b': "b' = set_status SessRunning b1"
    by (auto simp: result_simps)
  have "plain (ho_state b0)" using assms(2) by (simp add: plain_def b0_def)
  with request_turn_resumes [OF b1] b' show ?thesis by simp
qed

lemma plain_append [simp]: "plain (extend_projection env ms s) = plain s"
  by (simp add: plain_def)

lemma finish_plan_resumes:
  assumes run: "finish_completed_tool_plan env hn cx b through session = Inr (finished, b')"
    and plain: "plain (ho_state b)" and plan: "current_plan (ho_state b) = Inr plan"
  shows "if finished then resumed b' else b' = b \<and> \<not> plan_complete plan"
proof -
  obtain turn where turn: "cd_active_turn (ho_state b) = Some turn" "turn_plan turn = Some plan"
    using plan by (auto simp: current_plan_Inr turn_plan_Some)
  show ?thesis
  proof (cases "plan_complete plan")
    case False
    with run turn show ?thesis by (simp add: finish_completed_tool_plan_def)
  next
    case True
    with run turn obtain messages source where "finished"
      "stage_after_boundary env hn cx
         (append_messages messages (on_state (extend_projection env messages) b)) source session = Inr b'"
      by (auto simp: finish_completed_tool_plan_def result_simps)
    with plain show ?thesis by (auto intro!: stage_after_boundary_resumes)
  qed
qed

subsection \<open>Tools\<close>

text \<open>Scheduling and finishing a plan leave a turn that goes on or calls that are submitted.\<close>

lemma run_tools_ok:
  assumes schedule: "schedule_ready env hn cx session started b = Inr b1"
    and finish: "finish_completed_tool_plan env hn cx b1 through session = Inr (finished, b2)"
    and work: "working env out b plan" and fresh: "fresh_ids env out" and adv: "advanced plan"
    and plain: "plain (ho_state b)"
  shows "session_ok (out \<union> staged_ids b2) (ho_state (if finished then b2 else set_status SessRunning b2))"
proof -
  obtain plan' where state: "ho_state b1 = put_plan plan' (ho_state b)"
    and work1: "working env out b1 plan'" and going: "plan_complete plan' \<or> submitted_ids plan' \<noteq> []"
    using schedule_ready_ok [OF schedule work fresh adv] by blast
  have plan1: "current_plan (ho_state b1) = Inr plan'" using work1 by (simp add: working_def)
  have plain1: "plain (ho_state b1)" using plain state by (simp add: plain_def)
  note fin = finish_plan_resumes [OF finish plain1 plan1]
  show ?thesis
  proof (cases finished)
    case True
    with fin show ?thesis by (simp add: resumed_ok)
  next
    case False
    with fin have b2: "b2 = b1" and "submitted_ids plan' \<noteq> []" using going by auto
    with work1 plan1 plain1 False show ?thesis
      by (auto simp: session_ok_def plain_def current_plan_Inr phase_ok_def working_def)
  qed
qed

section \<open>The handler\<close>

lemma numbered_simps [simp]:
  "numbered_ids env (builder_new s)"
  "numbered_ids env (append_message m b) = numbered_ids env b"
  "numbered_ids env (on_state f b) = numbered_ids env b"
  "numbered_ids env (set_phase ph b) = numbered_ids env b"
  by (simp_all add: numbered_ids_def set_phase_def)

lemma fresh_less: "fresh_ids env out \<Longrightarrow> fresh_ids env (out - x)"
  by (auto simp: fresh_ids_def)

lemma terminal_state [simp]:
  "cd_cancellation (ho_state (apply_terminal env d b)) = cd_cancellation (ho_state b)"
  "cd_active_turn (ho_state (apply_terminal env d b)) = None"
  by (simp_all add: apply_terminal_def)

lemma terminal_ended: "cd_cancellation (ho_state b) = None \<Longrightarrow> ended (apply_terminal env d b)"
  by (simp add: ended_def)

lemma terminal_outcome_ok:
  "cd_cancellation s = None \<Longrightarrow> session_ok out (ho_state (terminal_outcome env s d))"
  by (simp add: terminal_outcome_def ended_ok terminal_ended)

lemma parse_plan_ok:
  assumes "parse_plan env i m stop = Inr (Some plan)"
  shows "plan_ok plan" "submitted_ids plan = []" "plan_complete plan \<or> advanced plan"
proof -
  from assms obtain base provider content where m: "m = AssistantMsg base provider content"
    by (auto simp: parse_plan_def split: message.splits)
  from assms m obtain calls ids where items: "foldR (parse_item env) content ([], []) = Inr (calls, ids)"
    and plan: "plan = \<lparr>pl_operation_id = i, pl_calls = calls, pl_segments = build_segments calls,
      pl_active_segment = 0\<rparr>"
    by (auto simp: parse_plan_def result_simps split: if_splits)
  have "case (calls, ids) of (calls, ids) \<Rightarrow> calls_ok calls \<and> set ids = set (map tl_call_id calls)"
  proof (rule foldR_invariant [OF items])
    show "case ([], []) of (calls, ids) \<Rightarrow> calls_ok calls \<and> set ids = set (map tl_call_id calls)"
      by (simp add: calls_ok_def)
  next
    fix item acc acc'
    assume "case acc of (calls, ids) \<Rightarrow> calls_ok calls \<and> set ids = set (map tl_call_id calls)"
      and "parse_item env item acc = Inr acc'"
    then show "case acc' of (calls, ids) \<Rightarrow> calls_ok calls \<and> set ids = set (map tl_call_id calls)"
      using parse_item_ok by (cases acc; cases acc') blast
  qed
  then have "calls_ok (pl_calls plan)" by (simp add: plan)
  moreover have "segments_for (filter is_pending (pl_calls plan)) (pl_segments plan)"
    using build_segments_for by (simp add: plan)
  moreover have "pl_active_segment plan = 0" by (simp add: plan)
  ultimately show "plan_ok plan" "submitted_ids plan = []" "plan_complete plan \<or> advanced plan"
    using parsed_plan_ok [of plan] by simp_all
qed

lemma handle_plan_ok:
  assumes run: "handle_plan env hn cx plan b session started through = Inr b'"
    and parsed: "parse_plan env i m stop = Inr (Some plan)"
    and plain: "plain (ho_state b)" and numbered: "numbered_ids env b" and fresh: "fresh_ids env out"
  shows "session_ok (out \<union> staged_ids b') (ho_state b')"
proof (cases "plan_complete plan")
  case True
  with run obtain messages source where "stage_after_boundary env hn cx
      (append_messages messages (on_state (extend_projection env messages) b)) source session = Inr b'"
    by (auto simp: handle_plan_def result_simps)
  with plain show ?thesis by (intro resumed_ok) (auto intro: stage_after_boundary_resumes)
next
  case False
  with run obtain turn b1 finished b2 where turn: "cd_active_turn (ho_state b) = Some turn"
    and schedule: "schedule_ready env hn cx session started (set_phase (ExecutingTools plan) b) = Inr b1"
    and finish: "finish_completed_tool_plan env hn cx b1 through session = Inr (finished, b2)"
    and b': "b' = (if finished then b2 else set_status SessRunning b2)"
    by (auto simp: handle_plan_def result_simps)
  have "working env out (set_phase (ExecutingTools plan) b) plan"
    using parse_plan_ok [OF parsed] turn numbered by (simp add: working_def current_plan_Inr)
  moreover have "advanced plan" using parse_plan_ok(3) [OF parsed] False by blast
  moreover have "plain (ho_state (set_phase (ExecutingTools plan) b))" using plain by (simp add: plain_def)
  ultimately have "session_ok (out \<union> staged_ids b2) (ho_state b')"
    using run_tools_ok [OF schedule finish _ fresh] unfolding b' by blast
  moreover have "staged_ids b' = staged_ids b2" using b' by simp
  ultimately show ?thesis by simp
qed

lemma handle_stop_ok:
  assumes "handle_stop env hn cx i stop b session through sequence = Inr b'" and "plain (ho_state b)"
  shows "session_ok (out \<union> staged_ids b') (ho_state b')"
proof -
  have none: "cd_cancellation (ho_state b) = None" using assms(2) by (simp add: plain_def)
  have "resumed b' \<or> ended b'"
    using assms(1) none
    by (cases stop)
      (auto simp: handle_stop_def result_simps Let_def ended_def
        split: if_splits option.splits intro: stage_after_boundary_resumes [OF _ assms(2)])
  then show ?thesis using resumed_ok ended_ok by blast
qed

lemma handle_llm_response_ok:
  assumes run: "handle_llm_response env hn cx s i response session ms through sequence = Inr b"
    and plain: "plain s" and fresh: "fresh_ids env out"
  shows "session_ok (out \<union> staged_ids b) (ho_state b)"
proof (cases "response_provider env cx response")
  case (Inl message)
  with run plain show ?thesis
    by (auto simp: handle_llm_response_def plain_def intro: terminal_outcome_ok)
next
  case (Inr provider)
  define b0 where "b0 = append_message (ar_message response) (builder_new (on_window (\<lambda>w. w\<lparr>
      cw_estimated_tokens := (case estimated_context_tokens (ar_usage response) of
        None \<Rightarrow> cw_estimated_tokens w | tokens \<Rightarrow> tokens),
      cw_model_history := cw_model_history w @ [ar_message response]\<rparr>) s))"
  have b0: "plain (ho_state b0)" "numbered_ids env b0" using plain by (simp_all add: b0_def plain_def)
  show ?thesis
  proof (cases "parse_plan env i (ar_message response) (ar_stop_reason response)")
    case (Inl message)
    with run Inr have "b = apply_terminal env (local_details FailToolPlanning (Some i)
        ''tool_plan_rejected'' message 1 sequence) b0"
      by (simp add: handle_llm_response_def b0_def Let_def)
    with b0(1) show ?thesis by (simp add: plain_def ended_ok terminal_ended)
  next
    case parsed: (Inr p)
    show ?thesis
    proof (cases p)
      case None
      with run Inr parsed have "handle_stop env hn cx i (ar_stop_reason response) b0 session through
          sequence = Inr b"
        by (simp add: handle_llm_response_def b0_def Let_def)
      then show ?thesis using handle_stop_ok b0(1) by blast
    next
      case (Some plan)
      with run Inr parsed have "handle_plan env hn cx plan b0 session ms through = Inr b"
        by (simp add: handle_llm_response_def b0_def Let_def)
      from handle_plan_ok [OF this parsed [unfolded Some] b0 fresh] show ?thesis .
    qed
  qed
qed

lemma retry_llm_ok:
  assumes "retry_llm env hn cx s i session = Inr b" and "plain s"
  shows "resumed b"
proof -
  from assms(1) obtain b1 where b1: "request_turn env hn cx session (builder_new s) = Inr b1"
    and b: "ho_state b = on_turn (\<lambda>turn. turn\<lparr>at_llm_attempts := at_llm_attempts turn + 1\<rparr>) (ho_state b1)"
      "staged_ids b = staged_ids b1"
    by (auto simp: retry_llm_def result_simps Let_def)
  have "resumed b1" using request_turn_resumes [OF b1] assms(2) by simp
  with b show ?thesis by (auto simp: resumed_def)
qed

lemma handle_llm_outcome_ok:
  assumes run: "handle_llm_outcome env hn cx s i outcome session ms through sequence = Inr b"
    and plain: "plain s" and fresh: "fresh_ids env out"
  shows "session_ok (out \<union> staged_ids b) (ho_state b)"
proof -
  have none: "cd_cancellation s = None" using plain by (simp add: plain_def)
  consider (response) response where "outcome = ReadSucceeded (ReadLlm response)"
      "handle_llm_response env hn cx s i response session ms through sequence = Inr b"
    | (retry) "retry_llm env hn cx s i session = Inr b"
    | (failed) d where "b = terminal_outcome env s d"
    using run by (auto simp: handle_llm_outcome_def result_simps
        split: read_outcome.splits read_result.splits if_splits)
  then show ?thesis
  proof cases
    case response
    then show ?thesis using handle_llm_response_ok plain fresh by blast
  next
    case retry
    then show ?thesis using retry_llm_ok plain resumed_ok by blast
  next
    case failed
    then show ?thesis using terminal_outcome_ok none by simp
  qed
qed

lemma finish_compaction_ok:
  assumes run: "finish_compaction env hn cx s i turn c response session sequence = Inr b"
    and plain: "plain s"
  shows "session_ok (out \<union> staged_ids b) (ho_state b)"
proof (cases "validate_response env cx response")
  case (Inl message)
  with run plain have "b = terminal_outcome env s
      (malformed_details FailCompaction i message (cs_attempt c) sequence)"
    by (auto simp: finish_compaction_def result_simps)
  with plain show ?thesis by (auto simp: plain_def intro: terminal_outcome_ok)
next
  case (Inr v)
  with run obtain item checkpoint b1 where b1: "request_turn env hn cx session
      (append_message checkpoint (builder_new (extend_projection env (resume_input c turn)
        (on_turn (\<lambda>t. t\<lparr>at_pending_steering := []\<rparr>)
          (compacted_state env cx c v (retained_user_messages env (history_of s)) item
            (cw_generation (cd_context_window s) + 1) s))))) = Inr b1"
    and b: "resumed b = resumed b1"
    by (auto simp: finish_compaction_def result_simps Let_def)
  have "resumed b1"
    by (rule request_turn_resumes [OF b1]) (use plain in \<open>simp add: plain_def compacted_state_def\<close>)
  with b show ?thesis by (simp add: resumed_ok)
qed

lemma retry_compaction_ok:
  "retry_compaction env hn cx s c session = Inr b \<Longrightarrow> plain s \<Longrightarrow> resumed b"
  by (auto simp: retry_compaction_def result_simps active_current_date_def request_llm_def Let_def
      resumed_def plain_def)

lemma handle_compaction_outcome_ok:
  assumes run: "handle_compaction_outcome env hn cx s i outcome session sequence = Inr b"
    and plain: "plain s"
  shows "session_ok (out \<union> staged_ids b) (ho_state b)"
proof -
  have none: "cd_cancellation s = None" using plain by (simp add: plain_def)
  obtain turn where turn: "cd_active_turn s = Some turn"
    using run by (cases "cd_active_turn s") (simp_all add: handle_compaction_outcome_def)
  obtain c where c: "at_phase turn = Compacting c"
    using run turn
    by (cases "at_phase turn") (simp_all add: handle_compaction_outcome_def handler_error_def)
  note unfolded = run [unfolded handle_compaction_outcome_def turn or_error_simps bindR_simps c
      turn_phase.case Let_def]
  show ?thesis
  proof (cases outcome)
    case (ReadSucceeded r)
    then show ?thesis using unfolded finish_compaction_ok [OF _ plain] by (cases r) auto
  next
    case (ReadFailed failure)
    then show ?thesis using unfolded terminal_outcome_ok [OF none] by auto
  next
    case ReadCancelled
    then show ?thesis using unfolded terminal_outcome_ok [OF none] by auto
  next
    case (ReadUnknown failure)
    show ?thesis
    proof (cases "cs_attempt c < 2")
      case True
      then have "retry_compaction env hn cx s c session = Inr b" using unfolded ReadUnknown by simp
      then show ?thesis using retry_compaction_ok [OF _ plain] resumed_ok by blast
    next
      case False
      then show ?thesis using unfolded ReadUnknown terminal_outcome_ok [OF none] by auto
    qed
  qed
qed

end
