(* ===== verification/CodexRuns.thy ===== *)
theory CodexRuns
  imports CodexSessions
begin

text \<open>
  Runs of a Codex session: one event after the other, with the operations that are outstanding,
  and the invariant every event keeps.
\<close>

section \<open>One event\<close>

lemma session_ok_plain:
  "session_ok out s \<Longrightarrow> cd_cancellation s = None \<Longrightarrow> cd_active_turn s = Some turn
    \<Longrightarrow> plain s \<and> phase_ok out (at_phase turn)"
  by (simp add: session_ok_def plain_def)

lemma apply_completion_plan:
  "apply_completion env s i outcome at = Inr s' \<Longrightarrow> \<exists>plan. current_plan s = Inr plan"
  by (auto simp: apply_completion_def result_simps current_plan_def)

lemma handle_execution_completion_ok:
  assumes run: "handle_execution_completion env hn cx s i status ctx session ms = Inr b"
    and ok: "session_ok out s" and none: "cd_cancellation s = None" and fresh: "fresh_ids env out"
  shows "session_ok (out - {i} \<union> staged_ids b) (ho_state b)"
proof -
  from run obtain outcome s1 b1 finished b2
    where applied: "apply_completion env s i outcome ms = Inr s1"
      and schedule: "schedule_ready env hn cx session ms (builder_new s1) = Inr b1"
      and finish: "finish_completed_tool_plan env hn cx b1 (hc_history_through ctx) session
        = Inr (finished, b2)"
      and b: "b = (if finished then b2 else set_status SessRunning b2)"
    by (auto simp: handle_execution_completion_def result_simps)
  obtain plan where plan: "current_plan s = Inr plan" using apply_completion_plan [OF applied] by blast
  then obtain turn where turn: "cd_active_turn s = Some turn" "at_phase turn = ExecutingTools plan"
    by (auto simp: current_plan_Inr)
  have plain: "plain s" and phase: "phase_ok out (at_phase turn)"
    using session_ok_plain [OF ok none turn(1)] by auto
  then have plan_ok: "plan_ok plan" and ids: "set (submitted_ids plan) \<subseteq> out"
    using turn by (auto simp: phase_ok_def)
  obtain s0 plan' where s1: "s1 = put_plan plan' s0" and same: "same_turn s s0"
    and ok': "plan_ok plan'" "advanced plan'"
    and ids': "set (submitted_ids plan') \<subseteq> set (submitted_ids plan) - {i}"
    using apply_completion_ok [OF applied plan plan_ok] by blast
  have plan1: "current_plan s1 = Inr plan'"
    using s1 same_turn_plan [OF same] plan current_plan_put by metis
  have "working env (out - {i}) (builder_new s1) plan'"
    using plan1 ok'(1) ids' ids by (auto simp: working_def)
  moreover have "plain (ho_state (builder_new s1))"
    using plain same by (simp add: s1 plain_def same_turn_def)
  ultimately have "session_ok (out - {i} \<union> staged_ids b2) (ho_state b)"
    using run_tools_ok [OF schedule finish _ fresh_less [OF fresh] ok'(2)] unfolding b by blast
  moreover have "staged_ids b = staged_ids b2" using b by simp
  ultimately show ?thesis by simp
qed

lemma awaited_llm_plain:
  assumes "awaited_llm s = Inr r" and "session_ok out s" and "cd_cancellation s = None"
  shows "plain s"
  using assms session_ok_plain by (auto simp: awaited_llm_def result_simps)

lemma handle_llm_completion_ok:
  assumes run: "handle_llm_completion env hn cx s i status ctx session ms sequence = Inr b"
    and ok: "session_ok out s" and none: "cd_cancellation s = None" and fresh: "fresh_ids env out"
  shows "session_ok (out - {i} \<union> staged_ids b) (ho_state b)"
proof -
  from run obtain is_compaction expected where await: "awaited_llm s = Inr (is_compaction, expected)"
    by (auto simp: handle_llm_completion_def result_simps)
  have plain: "plain s" using awaited_llm_plain [OF await ok none] .
  from run await obtain outcome where
    "if is_compaction then handle_compaction_outcome env hn cx s i outcome session sequence = Inr b
     else handle_llm_outcome env hn cx s i outcome session ms (hc_history_through ctx) sequence = Inr b"
    by (cases is_compaction) (auto simp: handle_llm_completion_def result_simps)
  then show ?thesis
    using handle_compaction_outcome_ok [OF _ plain] handle_llm_outcome_ok [OF _ plain fresh_less [OF fresh]]
    by (cases is_compaction) simp_all
qed

lemma session_ok_phase:
  assumes "session_ok out s" and "cd_cancellation s' = cd_cancellation s"
    and "cd_terminal_failure s' = cd_terminal_failure s"
    and "map_option at_phase (cd_active_turn s') = map_option at_phase (cd_active_turn s)"
  shows "session_ok out s'"
  using assms by (cases "cd_active_turn s'"; cases "cd_active_turn s")
    (auto simp: session_ok_def split: option.splits)

lemma session_ok_more: "session_ok out s \<Longrightarrow> out \<subseteq> out' \<Longrightarrow> session_ok out' s"
  by (auto simp: session_ok_def phase_ok_mono split: option.splits)

lemma date_turn_phase: "map_option at_phase (cd_active_turn (date_turn d s)) = map_option at_phase (cd_active_turn s)"
  by (cases "cd_active_turn s") (simp_all add: date_turn_def)

lemma date_turn_ok: "session_ok out s \<Longrightarrow> session_ok out (date_turn d s)"
  by (rule session_ok_phase) (simp_all add: date_turn_phase, simp_all add: date_turn_def)

lemma handle_user_message_ok:
  assumes run: "handle_user_message env hn cx s m um = Inr b" and ok: "session_ok out s"
    and plain: "plain s"
  shows "session_ok (out \<union> staged_ids b) (ho_state b)"
proof (cases "cd_active_turn s")
  case (Some turn)
  have "session_ok out (ho_state b)"
    by (rule session_ok_phase [OF ok]) (use run Some in \<open>auto simp: handle_user_message_def result_simps\<close>)
  then show ?thesis by (rule session_ok_more) simp
next
  case None
  have "resumed b"
    using run None plain
    by (auto simp: handle_user_message_def result_simps request_llm_def Let_def resumed_def plain_def
        new_turn_def add_latest_projection_estimate_def split: if_splits)
  then show ?thesis by (rule resumed_ok)
qed

definition completed_ids :: "session_event \<Rightarrow> operation_id set" where
  "completed_ids ev = (case sv_kind ev of OperationCompletedEvent i _ _ \<Rightarrow> {i} | _ \<Rightarrow> {})"

lemma handle_active_ok:
  assumes run: "handle_active env hn cx s ev ctx = Inr b" and ok: "session_ok out s"
    and plain: "plain s" and fresh: "fresh_ids env out"
  shows "session_ok (out - completed_ids ev \<union> staged_ids b) (ho_state b)"
proof -
  have none: "cd_cancellation s = None" using plain by (simp add: plain_def)
  show ?thesis
  proof (cases "sv_kind ev")
    case (UserMessageEvent m)
    then show ?thesis
      using run handle_user_message_ok [OF _ ok plain] by (simp add: handle_active_def completed_ids_def)
  next
    case (OperationCompletedEvent i kind status)
    then show ?thesis
      using run handle_execution_completion_ok [OF _ ok none fresh]
        handle_llm_completion_ok [OF _ ok none fresh]
      by (cases kind) (simp_all add: handle_active_def completed_ids_def handler_error_def)
  next
    case (CancellationRequestedEvent reason)
    then have "begin_cancellation env hn cx s reason (sv_sequence ev) = Inr b"
      using run by (simp add: handle_active_def)
    from begin_cancellation_ok [OF this none] show ?thesis by (auto simp: session_ok_def)
  next
    case (WaitResumedEvent w r)
    with run show ?thesis by (simp add: handle_active_def handler_error_def)
  qed
qed

lemma handle_while_cancelled_ok:
  assumes run: "handle_while_cancelled env hn cx s ev ctx = Inr b" and c: "cd_cancellation s = Some c"
    and ok: "cancel_ok c"
  shows "\<exists>c'. cd_cancellation (ho_state b) = Some c' \<and> cancel_ok c'"
proof (cases "sv_kind ev")
  case (OperationCompletedEvent i kind status)
  with run have "handle_cancellation_completion env hn cx (sv_session_id ev) (sv_sequence ev) s
      i kind status (hc_operation ctx i) = Inr b"
    by (simp add: handle_while_cancelled_def)
  then obtain outcome b1 where step: "completion_step env hn cx (sv_session_id ev) (sv_sequence ev) i kind
      outcome (builder_new s) = Inr b1" and b: "b = set_lifecycle_status True b1"
    by (rule handle_cancellation_completion_Inr)
  have "keeps_ok (builder_new s) b1" using completion_step_ok [OF step] .
  then show ?thesis using c ok by (auto simp: keeps_ok_def b cancels_lifecycle)
next
  case (UserMessageEvent m)
  with run c ok show ?thesis by (auto simp: handle_while_cancelled_def result_simps)
next
  case (CancellationRequestedEvent reason)
  with run c ok show ?thesis by (auto simp: handle_while_cancelled_def)
next
  case (WaitResumedEvent w r)
  with run c ok show ?thesis by (auto simp: handle_while_cancelled_def)
qed

lemma handle_failed_state: "handle_failed s kind = Inr b \<Longrightarrow> ho_state b = s"
  by (cases kind) (auto simp: handle_failed_def result_simps)

lemma handle_codex_ok:
  assumes run: "handle_codex env hn cx s0 ev ctx = Inr b" and ok0: "session_ok out s0"
    and fresh: "fresh_ids env out"
  shows "session_ok (out - completed_ids ev \<union> staged_ids b) (ho_state b)"
proof -
  define s where "s = date_turn (hc_date ctx (sv_created_at ev)) s0"
  have ok: "session_ok out s" using date_turn_ok [OF ok0] by (simp add: s_def)
  consider (failed) "cd_terminal_failure s \<noteq> None" "handle_failed s (sv_kind ev) = Inr b"
    | (cancelled) c where "cd_cancellation s = Some c" "handle_while_cancelled env hn cx s ev ctx = Inr b"
    | (active) "plain s" "handle_active env hn cx s ev ctx = Inr b"
    using run by (auto simp: handle_codex_def s_def [symmetric] Let_def plain_def split: if_splits)
  then show ?thesis
  proof cases
    case failed
    then show ?thesis
      using ok handle_failed_state [OF failed(2)] by (auto simp: session_ok_def split: option.splits)
  next
    case cancelled
    then have "cancel_ok c" using ok by (simp add: session_ok_def)
    from handle_while_cancelled_ok [OF cancelled(2,1) this] show ?thesis by (auto simp: session_ok_def)
  next
    case active
    from handle_active_ok [OF active(2) ok active(1) fresh] show ?thesis .
  qed
qed

section \<open>Runs\<close>

text \<open>
  The states a session goes through and the operations outstanding in them: those its events have
  staged and not completed. Every event is handled with identifiers that are not in use.
\<close>

inductive codex_run :: "codex_harness \<Rightarrow> codex_config \<Rightarrow> codex_state \<Rightarrow> operation_id set \<Rightarrow> bool"
  for hn cx where
  started: "initialize_codex cx = Inr s \<Longrightarrow> codex_run hn cx s {}"
| handled: "codex_run hn cx s out \<Longrightarrow> fresh_ids env out
    \<Longrightarrow> handle_codex env hn cx s ev ctx = Inr b
    \<Longrightarrow> codex_run hn cx (ho_state b) (out - completed_ids ev \<union> staged_ids b)"

lemma codex_run_ok: "codex_run hn cx s out \<Longrightarrow> session_ok out s"
proof (induction rule: codex_run.induct)
  case (started s)
  then have "s = initial_state" by (auto simp: initialize_codex_def split: sum.splits)
  then show ?case by (simp add: session_ok_def initial_state_def)
next
  case (handled s out env ev ctx b)
  from handle_codex_ok [OF handled(3,4,2)] show ?case .
qed

text \<open>What a turn waits for.\<close>

definition turn_awaits :: "turn_phase \<Rightarrow> operation_id set" where
  "turn_awaits phase =
     (case phase of
        AwaitingLlm i \<Rightarrow> {i}
      | Compacting c \<Rightarrow> {cs_operation_id c}
      | ExecutingTools plan \<Rightarrow> set (submitted_ids plan)
      | Cancelling \<Rightarrow> {})"

lemma phase_ok_awaits: "phase_ok out phase \<Longrightarrow> turn_awaits phase \<noteq> {} \<and> turn_awaits phase \<subseteq> out"
  by (auto simp: phase_ok_def turn_awaits_def split: turn_phase.splits)

text \<open>A call that has to run alone does.\<close>

lemma exclusive_alone:
  assumes ok: "plan_ok plan" and n: "n < length (pl_calls plan)" "m < length (pl_calls plan)"
    and flight: "in_flight (pl_calls plan ! n)" "in_flight (pl_calls plan ! m)"
    and exclusive: "tl_scheduling (pl_calls plan ! n) = Exclusive"
  shows "m = n"
proof -
  obtain segment where segment: "current_segment plan = Some segment" "n \<in> set (sg_ordinals segment)"
    using in_flight_at_segment [OF ok n(1) flight(1)] by (auto simp: at_segment_def)
  have m: "m \<in> set (sg_ordinals segment)"
    using in_flight_at_segment [OF ok n(2) flight(2)] segment(1) by (auto simp: at_segment_def)
  have "segment \<in> set (pl_segments plan)"
    using segment(1) by (auto simp: current_segment_def nth_opt_def split: if_splits)
  then have "sg_scheduling segment = Exclusive \<longrightarrow> length (sg_ordinals segment) = 1"
    and "tl_scheduling (pl_calls plan ! n) = sg_scheduling segment"
    using ok segment(2) by (auto simp: plan_ok_def segments_ok_def)
  then have "length (sg_ordinals segment) = 1" using exclusive by simp
  then obtain x where "sg_ordinals segment = [x]" by (auto simp: length_Suc_conv)
  with segment(2) m show ?thesis by simp
qed

end
