(* ===== verification/CodexGuarantees.thy ===== *)
theory CodexGuarantees
  imports CodexRuns
begin

text \<open>
  The guarantees of the Codex harness, applied to a small session.
\<close>

section \<open>A concrete harness\<close>

definition demo_codex_env :: codex_env where
  "demo_codex_env =
     \<lparr>xv_operation_id = (\<lambda>k. Uuid (100 + k)), xv_turn_id = Uuid 50, xv_chunk_id = ''c0ffee'',
      xv_uuid_text = (\<lambda>_. ''uuid''), xv_handle_json = (\<lambda>_. JNull), xv_base_instructions = ''base'',
      xv_patch_grammar = ''grammar'', xv_parse = (\<lambda>_. Inr JNull), xv_print = (\<lambda>_. ''null''),
      xv_message_json = (\<lambda>_. ''message''), xv_tools_json = (\<lambda>_. ''tools''),
      xv_sha256_hex = (\<lambda>s. s), xv_schema_failure = (\<lambda>_ _. None),
      xv_session_number = (\<lambda>_. None), xv_execution = (\<lambda>_. None), xv_executions = (\<lambda>_. None),
      xv_exec_args = (\<lambda>_. Inl ''no arguments''), xv_write_args = (\<lambda>_. Inl ''no arguments''),
      xv_observation = (\<lambda>_. Inl ''no observation''), xv_batch = (\<lambda>_. Inl ''no batch''),
      xv_failure_json = (\<lambda>_. JNull), xv_view_args = (\<lambda>_. Inl ''no arguments''),
      xv_read_file = (\<lambda>_. Inl ''no file''), xv_base64_encode = (\<lambda>s. s),
      xv_base64_decode = (\<lambda>s. Inr s), xv_utf8_lossy = (\<lambda>s. s), xv_utf8 = (\<lambda>_. True),
      xv_prepare_image = (\<lambda>_ _. Inl ''no image''), xv_publish = (\<lambda>_ _. Inl ''no bucket'')\<rparr>"

definition demo_harness :: codex_harness where
  "demo_harness = \<lparr>hn_llm_connection = ''llm'', hn_execution_connection = ''execution''\<rparr>"

definition demo_config :: codex_config where
  "demo_config =
     \<lparr>cx_account_id = Uuid 1, cx_provider = CodexOpenai, cx_model = Terra,
      cx_effort = EffortMedium, cx_machine_id = Uuid 2, cx_cwd = ''/workspace'',
      cx_shell = None, cx_platform = None, cx_instructions = None\<rparr>"

definition demo_turn :: "turn_phase \<Rightarrow> active_turn" where
  "demo_turn phase =
     \<lparr>at_id = Uuid 50, at_started_at_sequence = 1, at_current_date = ''2026-09-15'',
      at_phase = phase, at_pending_steering = [], at_llm_attempts = 0\<rparr>"





section \<open>Cancellation\<close>




text \<open>
  C36. When an execution the cancellation tried to withdraw ends with an unknown outcome, the
  target moves on to process discovery and forgets its withdrawal: the completion of that
  withdrawal, still outstanding, is then refused with an error.
\<close>

theorem unknown_execution_orphans_withdrawal:
  assumes c: "cd_cancellation s = Some c" and k: "k < length (cn_targets c)"
    and t: "ct_operation_id (cn_targets c ! k) = i" "ct_kind (cn_targets c ! k) = TargetExecution"
      "ct_control (cn_targets c ! k) = WithdrawalRequested j"
    and others: "\<And>n. n < length (cn_targets c) \<Longrightarrow> n \<noteq> k
      \<Longrightarrow> ct_operation_id (cn_targets c ! n) \<noteq> i
        \<and> \<not> awaits_control j (ct_control (cn_targets c ! n))"
    and original: "completes_original (builder_new s) i KindExecution"
    and silent: "rf_response failure = None"
  shows "\<exists>b. handle_cancellation_completion env hn cx session sequence s i KindExecution
        OutcomeUnknown (Inr (Some (completed_record i KindExecution (ReadUnknown failure)))) = Inr b
    \<and> (\<forall>outcome. handle_cancellation_completion env hn cx session later (ho_state b) j KindWithdraw
        (read_status outcome) (Inr (Some (completed_record j KindWithdraw outcome)))
        = Inl (HandlerError ''completion does not match a cancellation control operation''))"
proof -
  let ?b = "builder_new s"
  have cb: "cancels ?b c" using c by simp
  let ?marked = "set_control k AwaitingDiscovery (set_target k (\<lambda>t. t\<lparr>ct_original_completed := True\<rparr>) c)"
  let ?b3 = "on_cancellation (set_control k AwaitingDiscovery)
    (on_cancellation (set_target k (\<lambda>t. t\<lparr>ct_original_completed := True\<rparr>)) ?b)"
  have b3: "cancels ?b3 ?marked" by (simp only: cancels_on cb option.map)
  have position: "position (\<lambda>t. ct_operation_id t = i) (cn_targets c) = Some k"
    by (rule position_unique [OF k]) (use t others in auto)
  have no_processes: "executions_from_outcome env (ReadUnknown failure) = []"
    using silent by (simp add: executions_from_outcome_def)
  obtain b4 where b4: "stage_discovery env hn cx session 1 ?b3 = Inr b4"
    using stage_discovery_total [OF b3] by blast
  have step: "completion_step env hn cx session sequence i KindExecution (ReadUnknown failure) ?b
    = (if cn_discovery c = None then Inr b4 else Inr ?b3)"
    using original t k b4
    by (simp add: completion_step_def completes_original_def handle_original_completion_def
        cancellation_of_cancels [OF cb] position no_processes late_result_ok_def running_processes_def
        Let_def)
  define b where "b = set_lifecycle_status True (if cn_discovery c = None then b4 else ?b3)"
  have "\<exists>c'. cancels b c' \<and> cn_targets c' = cn_targets ?marked"
    using stage_discovery_Inr [OF b4 b3] b3 by (auto simp: b_def cancels_lifecycle)
  then obtain c' where c': "cancels b c'" "cn_targets c' = cn_targets ?marked" by blast
  have "\<not> awaits_control j (ct_control t')" if "t' \<in> set (cn_targets c')" for t'
  proof -
    from that obtain n where "n < length (cn_targets c')" "t' = cn_targets c' ! n"
      by (auto simp: in_set_conv_nth)
    then have n: "n < length (cn_targets c)" "t' = cn_targets ?marked ! n"
      unfolding c'(2) by (simp_all add: set_control_def set_target_def)
    show ?thesis
      using n others [OF n(1)] k
      by (cases "n = k") (simp_all add: set_control_def set_target_def awaits_control_def)
  qed
  then have "position (\<lambda>t. awaits_control j (ct_control t)) (cn_targets c') = None"
    by (simp add: position_None)
  then have "completion_step env hn cx session later j KindWithdraw outcome (builder_new (ho_state b))
    = Inl (HandlerError ''completion does not match a cancellation control operation'')" for outcome
    using c'(1) by (simp add: completion_step_def handle_withdrawal_def target_for_control_def
        cancellation_of_def)
  moreover have "handle_cancellation_completion env hn cx session sequence s i KindExecution
      OutcomeUnknown (Inr (Some (completed_record i KindExecution (ReadUnknown failure)))) = Inr b"
    using completed_record_step [where outcome = "ReadUnknown failure"] step by (simp add: b_def)
  ultimately show ?thesis by (auto simp: completed_record_step)
qed

text \<open>A turn with one command submitted as operation 7, withdrawn as operation 100.\<close>

definition demo_shell :: shell_call_state where
  "demo_shell =
     \<lparr>sc_phase = ShellStart, sc_started_at_ms = 0, sc_chunk_id = ''c0ffee'',
      sc_output = empty_accumulator, sc_handle = None, sc_cursor = None, sc_session_id = None,
      sc_tty = False, sc_max_output_tokens = 10, sc_last_execution = None, sc_output_gap = False,
      sc_pages_read = 0, sc_more_output = False\<rparr>"

definition demo_call :: "string \<Rightarrow> nat \<Rightarrow> tool_call_status \<Rightarrow> tool_call" where
  "demo_call call_id n status =
     \<lparr>tl_call_id = call_id, tl_name = ''exec_command'', tl_ordinal = n, tl_kind = CallFunction,
      tl_input = InputJson (JObject [(''cmd'', JString ''pwd'')]), tl_scheduling = ParallelSafe,
      tl_status = status\<rparr>"

definition demo_executing :: codex_state where
  "demo_executing = initial_state\<lparr>cd_active_turn := Some (demo_turn (ExecutingTools
     \<lparr>pl_operation_id = Uuid 6, pl_calls = [demo_call ''c1'' 0 (CallSubmitted (Uuid 7)
        (ShellCall demo_shell))],
      pl_segments = [\<lparr>sg_scheduling = ParallelSafe, sg_ordinals = [0]\<rparr>],
      pl_active_segment = 0\<rparr>))\<rparr>"

definition demo_withdrawing :: codex_state where
  "demo_withdrawing = ho_state (projr
     (begin_cancellation demo_codex_env demo_harness demo_config demo_executing None 2))"

definition demo_unknown :: read_failure where
  "demo_unknown = \<lparr>rf_source = SourcePlatform, rf_code = ''lost'', rf_message = ''lost'',
     rf_response = None\<rparr>"

theorem unknown_execution_orphans_withdrawal_witness:
  "\<exists>b. handle_cancellation_completion demo_codex_env demo_harness demo_config (Uuid 9) 3
        demo_withdrawing (Uuid 7) KindExecution OutcomeUnknown
        (Inr (Some (completed_record (Uuid 7) KindExecution (ReadUnknown demo_unknown)))) = Inr b
    \<and> handle_cancellation_completion demo_codex_env demo_harness demo_config (Uuid 9) 4 (ho_state b)
        (Uuid 100) KindWithdraw OutcomeSucceeded
        (Inr (Some (completed_record (Uuid 100) KindWithdraw (ReadSucceeded (ReadWithdraw False)))))
        = Inl (HandlerError ''completion does not match a cancellation control operation'')"
proof -
  obtain c where c: "cd_cancellation demo_withdrawing = Some c"
    and targets: "cn_targets c = [\<lparr>ct_operation_id = Uuid 7, ct_kind = TargetExecution,
      ct_original_completed = False, ct_control = WithdrawalRequested (Uuid 100)\<rparr>]"
    and rest: "cn_processes c = []" "cn_discovery c = None"
  proof -
    have "map_option (\<lambda>c. (cn_targets c, cn_processes c, cn_discovery c))
      (cd_cancellation demo_withdrawing) = Some ([\<lparr>ct_operation_id = Uuid 7,
        ct_kind = TargetExecution, ct_original_completed = False,
        ct_control = WithdrawalRequested (Uuid 100)\<rparr>], [], None)"
      by code_simp
    with that show ?thesis by auto
  qed
  have "completes_original (builder_new demo_withdrawing) (Uuid 7) KindExecution"
    using c rest by (simp add: completes_original_def is_process_control_def is_discovery_def)
  from unknown_execution_orphans_withdrawal [OF c, of 0 "Uuid 7" "Uuid 100" demo_unknown
      demo_codex_env demo_harness demo_config "Uuid 9" 3 4] this targets
  obtain b where "handle_cancellation_completion demo_codex_env demo_harness demo_config (Uuid 9) 3
        demo_withdrawing (Uuid 7) KindExecution OutcomeUnknown
        (Inr (Some (completed_record (Uuid 7) KindExecution (ReadUnknown demo_unknown)))) = Inr b"
    and "\<And>outcome. handle_cancellation_completion demo_codex_env demo_harness demo_config (Uuid 9) 4
        (ho_state b) (Uuid 100) KindWithdraw (read_status outcome)
        (Inr (Some (completed_record (Uuid 100) KindWithdraw outcome)))
        = Inl (HandlerError ''completion does not match a cancellation control operation'')"
    by (auto simp: demo_unknown_def)
  from this(1) this(2) [of "ReadSucceeded (ReadWithdraw False)"] show ?thesis by auto
qed

end
