(* ===== verification/CodexTurnGuarantees.thy ===== *)
theory CodexTurnGuarantees
  imports CodexGuarantees CodexRuns
begin

text \<open>
  The guarantees of turns and tools, applied to a session that is given a message and answers it
  with two patches.
\<close>

section \<open>A session at work\<close>

definition demo_event :: "event_kind \<Rightarrow> session_event" where
  "demo_event kind = \<lparr>sv_id = Uuid 20, sv_session_id = Uuid 9, sv_sequence = 1, sv_created_at = 0,
     sv_kind = kind\<rparr>"

definition demo_context :: "read_record option \<Rightarrow> codex_context" where
  "demo_context answer = \<lparr>hc_history_through = 0, hc_operation = (\<lambda>_. Inr answer),
     hc_date = (\<lambda>_. ''2026-09-15'')\<rparr>"

definition demo_started :: codex_outcome where
  "demo_started = projr (handle_codex demo_codex_env demo_harness demo_config initial_state
     (demo_event (UserMessageEvent (user_text ''hi''))) (demo_context None))"

lemma demo_directory: "validate_working_directory ''/workspace'' = Inr ()"
proof -
  have "trim ''/workspace'' = ''/workspace''" by code_simp
  then show ?thesis
    by (simp add: validate_working_directory_def nul_def is_platform_absolute_def starts_with_def)
qed

lemma demo_initialized: "initialize_codex demo_config = Inr initial_state"
  by (simp add: initialize_codex_def validate_config_def demo_config_def demo_directory
      validate_environment_label_def supports_def profile_def supported_reasoning_efforts_def)

lemma demo_no_compaction: "\<not> needs_compaction demo_codex_env demo_config initial_state"
proof -
  have "trim_end ''base'' = ''base''" by code_simp
  then have "estimate_request_tokens demo_codex_env demo_config [] \<le> 1000"
    by (simp add: estimate_request_tokens_def instructions_def demo_codex_env_def demo_config_def
        estimate_bytes_def sat_add_def u64_max_def estimate_message_tokens_def
        environment_message_def xml_line_def optional_line_def escape_xml_def replace_char_def
        estimate_content_tokens_def)
  then show ?thesis
    by (simp add: needs_compaction_def initial_state_def initial_context_window_def history_of_def
        profile_def auto_compact_limit_def)
qed

lemma demo_started_fields:
  "handle_codex demo_codex_env demo_harness demo_config initial_state
     (demo_event (UserMessageEvent (user_text ''hi''))) (demo_context None) = Inr demo_started
   \<and> cd_active_turn (ho_state demo_started) = Some (demo_turn (AwaitingLlm (Uuid 100)))
   \<and> cd_cancellation (ho_state demo_started) = None
   \<and> cd_terminal_failure (ho_state demo_started) = None \<and> staged_ids demo_started = {Uuid 100}"
proof -
  have "date_turn ''2026-09-15'' initial_state = initial_state"
    by (simp add: date_turn_def on_turn_def initial_state_def)
  then show ?thesis
    using demo_no_compaction
    by (simp add: demo_started_def handle_codex_def demo_event_def demo_context_def initial_state_def
        handle_active_def handle_user_message_def require_user_message_def is_user_message_def
        user_text_def request_llm_def Let_def new_turn_def demo_turn_def next_operation_def
        demo_codex_env_def add_latest_projection_estimate_def)
qed

lemma demo_fresh: "fresh_ids demo_codex_env {}"
  by (simp add: fresh_ids_def demo_codex_env_def inj_def)

lemma demo_started_run: "codex_run demo_harness demo_config (ho_state demo_started) {Uuid 100}"
proof -
  have "codex_run demo_harness demo_config (ho_state demo_started)
      ({} - completed_ids (demo_event (UserMessageEvent (user_text ''hi''))) \<union> staged_ids demo_started)"
    using demo_started_fields by (blast intro: codex_run.intros demo_initialized demo_fresh)
  then show ?thesis using demo_started_fields by simp
qed

section \<open>Turns\<close>

lemma filter_single:
  assumes n: "n < length xs" and only: "\<And>m. m < length xs \<Longrightarrow> P (xs ! m) \<longleftrightarrow> m = n"
  shows "filter P xs = [xs ! n]"
proof -
  have "filter P (take n xs) = []" "filter P (drop (Suc n) xs) = []"
    using only by (auto simp: filter_empty_conv in_set_conv_nth)
  moreover have "filter P xs = filter P (take n xs) @ filter P (xs ! n # drop (Suc n) xs)"
    using id_take_nth_drop [OF n] by (metis filter_append)
  ultimately show ?thesis using only [OF n] by simp
qed

text \<open>
  C37. A turn never stalls: through any run of events, whatever the model, the tools and the
  gateways answer, a turn that is not being cancelled waits for at least one operation, and every
  operation it waits for was staged by the session and has not completed yet.
\<close>

theorem turns_never_stall:
  assumes "codex_run hn cx s out" and "cd_active_turn s = Some turn" and "cd_cancellation s = None"
  shows "turn_awaits (at_phase turn) \<noteq> {} \<and> turn_awaits (at_phase turn) \<subseteq> out"
  using session_ok_plain [OF codex_run_ok [OF assms(1)] assms(3,2)] phase_ok_awaits by blast

theorem turns_never_stall_witness:
  "\<exists>turn. cd_active_turn (ho_state demo_started) = Some turn
    \<and> turn_awaits (at_phase turn) \<noteq> {} \<and> turn_awaits (at_phase turn) \<subseteq> {Uuid 100}"
  using turns_never_stall [OF demo_started_run] demo_started_fields by blast

text \<open>
  C38. A tool that must run alone does: through any run of events, while a call of an exclusive
  tool (\<open>apply_patch\<close>) is in flight - submitted, or between two of its operations - no other call
  of the plan is.
\<close>

theorem exclusive_tools_run_alone:
  assumes "codex_run hn cx s out" and "cd_active_turn s = Some turn" and "cd_cancellation s = None"
    and "at_phase turn = ExecutingTools plan"
    and "call \<in> set (pl_calls plan)" "in_flight call" "tl_scheduling call = Exclusive"
  shows "filter in_flight (pl_calls plan) = [call]"
proof -
  have ok: "plan_ok plan"
    using session_ok_plain [OF codex_run_ok [OF assms(1)] assms(3,2)] assms(4)
    by (simp add: phase_ok_def)
  obtain n where n: "n < length (pl_calls plan)" "pl_calls plan ! n = call"
    using assms(5) by (auto simp: in_set_conv_nth)
  have "in_flight (pl_calls plan ! m) \<longleftrightarrow> m = n" if "m < length (pl_calls plan)" for m
    using exclusive_alone [OF ok n(1) that] n(2) assms(6,7) by auto
  with filter_single [OF n(1)] n(2) show ?thesis by metis
qed

text \<open>The model answers with two patches.\<close>

definition demo_patch_json :: "string \<Rightarrow> json" where
  "demo_patch_json call_id = JObject
     [(''type'', JString ''custom_tool_call''), (''call_id'', JString call_id),
      (''name'', JString ''apply_patch''),
      (''input'', JString (join [newline]
        [''*** Begin Patch'', ''*** Delete File: a'', ''*** End Patch'']))]"

definition demo_patch_env :: codex_env where
  "demo_patch_env = demo_codex_env\<lparr>xv_operation_id := (\<lambda>k. Uuid (200 + k)),
     xv_parse := (\<lambda>item. Inr (demo_patch_json item))\<rparr>"

definition demo_patches :: assistant_response where
  "demo_patches = \<lparr>ar_id = ''r1'', ar_model_id = ''gpt-5.6-terra'',
     ar_message = AssistantMsg message_base_default Openai [''c1'', ''c2''],
     ar_stop_reason = ToolUse, ar_usage = None\<rparr>"

lemma demo_response: "response_provider demo_patch_env demo_config demo_patches = Inr Openai"
  by code_simp

definition demo_patch_call :: "string \<Rightarrow> nat \<Rightarrow> tool_call_status \<Rightarrow> tool_call" where
  "demo_patch_call call_id n status =
     \<lparr>tl_call_id = call_id, tl_name = ''apply_patch'', tl_ordinal = n, tl_kind = CallCustom,
      tl_input = InputText (join [newline]
        [''*** Begin Patch'', ''*** Delete File: a'', ''*** End Patch'']),
      tl_scheduling = Exclusive, tl_status = status\<rparr>"

definition demo_plan :: "tool_call_status \<Rightarrow> tool_plan" where
  "demo_plan status = \<lparr>pl_operation_id = Uuid 100,
     pl_calls = [demo_patch_call ''c1'' 0 status, demo_patch_call ''c2'' 1 CallPending],
     pl_segments = [\<lparr>sg_scheduling = Exclusive, sg_ordinals = [0]\<rparr>,
       \<lparr>sg_scheduling = Exclusive, sg_ordinals = [1]\<rparr>],
     pl_active_segment = 0\<rparr>"

lemma demo_descriptor:
  "\<exists>d. descriptor demo_patch_env ''apply_patch'' = Some d \<and> td_kind d = CallCustom
    \<and> td_scheduling d = Exclusive"
  by (simp add: descriptor_def descriptors_def function_descriptor_def)

lemma demo_members:
  "get_str ''type'' (demo_patch_json i) = Some ''custom_tool_call''"
  "get_str ''call_id'' (demo_patch_json i) = Some i"
  "get_str ''name'' (demo_patch_json i) = Some ''apply_patch''"
  "get_str ''input'' (demo_patch_json i) = Some (join [newline]
     [''*** Begin Patch'', ''*** Delete File: a'', ''*** End Patch''])"
  by (simp_all add: demo_patch_json_def get_str_def)

lemma demo_item:
  assumes "length calls < 10" and "trim i \<noteq> []" and "i \<notin> set ids"
  shows "parse_item demo_patch_env i (calls, ids) =
      Inr (calls @ [demo_patch_call i (length calls) CallPending], i # ids)"
proof -
  have name: "trim ''apply_patch'' \<noteq> []" by code_simp
  have parse: "xv_parse demo_patch_env i = Inr (demo_patch_json i)" by (simp add: demo_patch_env_def)
  obtain d where "descriptor demo_patch_env ''apply_patch'' = Some d" "td_kind d = CallCustom"
    "td_scheduling d = Exclusive"
    using demo_descriptor by blast
  with name assms show ?thesis
    by (simp add: parse_item_def parse demo_members required_nonempty_string_def parse_custom_input_def
        demo_patch_call_def)
qed

lemma demo_parsed:
  "parse_plan demo_patch_env (Uuid 100) (ar_message demo_patches) (ar_stop_reason demo_patches)
     = Inr (Some (demo_plan CallPending))"
proof -
  have trims: "trim ''c1'' \<noteq> []" "trim ''c2'' \<noteq> []" by code_simp+
  have "build_segments [demo_patch_call ''c1'' 0 CallPending, demo_patch_call ''c2'' 1 CallPending]
      = pl_segments (demo_plan CallPending)"
    by (simp add: build_segments_def push_segment_def is_pending_def demo_patch_call_def demo_plan_def)
  with trims show ?thesis
    by (simp add: parse_plan_def demo_patches_def demo_item demo_plan_def)
qed

lemma demo_prepared:
  "\<exists>p. prepare_call demo_patch_env cx session turn t s 0 (demo_patch_call ''c1'' 0 CallPending)
      = Some (Inr p) \<and> pq_generation p = None
      \<and> validate_execution_payload (pq_request p) = Inr () \<and> pq_ordinal p = 0"
proof -
  have "parse_patch (join [newline] [''*** Begin Patch'', ''*** Delete File: a'', ''*** End Patch''])
      = Inr [HunkDelete ''a'']"
    by code_simp
  moreover have "patch_paths [HunkDelete ''a''] = Inr [''a'']" by code_simp
  ultimately show ?thesis
    by (simp add: prepare_call_def prepare_pending_def demo_patch_call_def prepare_new_shell_def
        prepare_new_file_def prepare_apply_patch_def max_patch_bytes_def from_file_def
        read_operation_def enumerate_map_def)
qed

lemma demo_schedule:
  assumes turn: "cd_active_turn (ho_state b) = Some (demo_turn (ExecutingTools (demo_plan CallPending)))"
    and ops: "ho_operations b = []"
  shows "\<exists>p b'. schedule_ready demo_patch_env hn cx session t b = Inr b'
    \<and> cd_active_turn (ho_state b') = Some (demo_turn (ExecutingTools (demo_plan (CallSubmitted (Uuid 200) p))))
    \<and> cd_cancellation (ho_state b') = cd_cancellation (ho_state b)"
proof -
  let ?plan = "demo_plan CallPending" and ?s = "ho_state b"
  obtain p where p: "prepare_call demo_patch_env cx session (Uuid 50) t ?s 0
      (demo_patch_call ''c1'' 0 CallPending) = Some (Inr p)"
    and payload: "pq_generation p = None" "validate_execution_payload (pq_request p) = Inr ()"
    "pq_ordinal p = 0"
    using demo_prepared by blast
  have plan: "current_plan ?s = Inr ?plan" using turn by (simp add: current_plan_Inr demo_turn_def)
  have segment: "current_segment ?plan = Some \<lparr>sg_scheduling = Exclusive, sg_ordinals = [0]\<rparr>"
    by (simp add: current_segment_def nth_opt_def demo_plan_def)
  have active: "active_ordinals ?s = Inr (Some (Uuid 50, [0]))"
    using turn segment by (simp add: active_ordinals_def turn_plan_def demo_turn_def)
  have call: "nth_opt (pl_calls ?plan) 0 = Some (demo_patch_call ''c1'' 0 CallPending)"
    by (simp add: nth_opt_def demo_plan_def)
  have resource: "resource_session_id demo_patch_env (demo_patch_call ''c1'' 0 CallPending) = None"
    by (simp add: resource_session_id_def demo_patch_call_def)
  obtain busy where pass: "schedule_pass demo_patch_env cx session t ?s = Inr (Some (?s, busy, [p], False))"
    using p by (simp add: schedule_pass_def active plan schedule_call_def call resource)
  have id: "next_operation demo_patch_env b = Uuid 200"
    using ops by (simp add: next_operation_def demo_patch_env_def)
  let ?plan' = "set_status_of 0 (CallSubmitted (Uuid 200) (pq_progress p)) ?plan"
  have "submit_call demo_patch_env hn cx p b = Inr ((push_operation (Uuid 200) (ExecutionReq
      (hn_execution_connection hn) (cx_machine_id cx) None (pq_request p)) b)\<lparr>ho_state := put_plan ?plan' ?s\<rparr>)"
    using payload plan id
    by (simp add: submit_call_def stage_execution_def request_execution_def update_call_def call
        del: nth_opt_Some)
  then have run: "schedule_ready demo_patch_env hn cx session t b = Inr ((push_operation (Uuid 200) (ExecutionReq
      (hn_execution_connection hn) (cx_machine_id cx) None (pq_request p)) b)\<lparr>ho_state := put_plan ?plan' ?s\<rparr>)"
    by (subst schedule_ready.simps) (simp add: pass)
  have "?plan' = demo_plan (CallSubmitted (Uuid 200) (pq_progress p))"
    by (simp add: set_status_of_def demo_plan_def demo_patch_call_def)
  then show ?thesis using run turn
    by (intro exI [of _ "pq_progress p"]) (simp add: put_plan_def demo_turn_def)
qed

definition demo_answered :: codex_outcome where
  "demo_answered = projr (handle_codex demo_patch_env demo_harness demo_config (ho_state demo_started)
     (demo_event (OperationCompletedEvent (Uuid 100) KindLlm OutcomeSucceeded))
     (demo_context (Some \<lparr>rr_id = Uuid 100, rr_kind = KindLlm,
        rr_outcome = Some (ReadSucceeded (ReadLlm demo_patches))\<rparr>)))"

lemma demo_answered_fields:
  "\<exists>p. handle_codex demo_patch_env demo_harness demo_config (ho_state demo_started)
     (demo_event (OperationCompletedEvent (Uuid 100) KindLlm OutcomeSucceeded))
     (demo_context (Some \<lparr>rr_id = Uuid 100, rr_kind = KindLlm,
        rr_outcome = Some (ReadSucceeded (ReadLlm demo_patches))\<rparr>)) = Inr demo_answered
   \<and> cd_active_turn (ho_state demo_answered)
       = Some (demo_turn (ExecutingTools (demo_plan (CallSubmitted (Uuid 200) p))))
   \<and> cd_cancellation (ho_state demo_answered) = None"
proof -
  let ?s = "ho_state demo_started"
  have dated: "date_turn ''2026-09-15'' ?s = ?s"
    using demo_started_fields by (simp add: date_turn_def on_turn_def demo_turn_def)
  define b where "b = append_message (ar_message demo_patches) (builder_new (on_window (\<lambda>w. w\<lparr>
      cw_estimated_tokens := (case estimated_context_tokens (ar_usage demo_patches) of
        None \<Rightarrow> cw_estimated_tokens w | tokens \<Rightarrow> tokens),
      cw_model_history := cw_model_history w @ [ar_message demo_patches]\<rparr>) ?s))"
  have turn: "cd_active_turn (ho_state b) = Some (demo_turn (AwaitingLlm (Uuid 100)))"
    and none: "cd_cancellation (ho_state b) = None"
    using demo_started_fields by (simp_all add: b_def)
  let ?b = "set_phase (ExecutingTools (demo_plan CallPending)) b"
  obtain p b1 where schedule: "schedule_ready demo_patch_env demo_harness demo_config (Uuid 9) 0 ?b = Inr b1"
    and b1: "cd_active_turn (ho_state b1) = Some (demo_turn (ExecutingTools (demo_plan (CallSubmitted (Uuid 200) p))))"
      "cd_cancellation (ho_state b1) = cd_cancellation (ho_state ?b)"
    using demo_schedule [of ?b demo_harness demo_config "Uuid 9" 0] turn
    by (auto simp: demo_turn_def b_def set_phase_def)
  have incomplete: "\<not> plan_complete (demo_plan st)" for st
    by (simp add: plan_complete_def demo_plan_def is_completed_def demo_patch_call_def)
  have "finish_completed_tool_plan demo_patch_env demo_harness demo_config b1 0 (Uuid 9) = Inr (False, b1)"
    using b1 incomplete by (simp add: finish_completed_tool_plan_def turn_plan_def demo_turn_def)
  then have plan: "handle_plan demo_patch_env demo_harness demo_config (demo_plan CallPending) b (Uuid 9) 0 0
      = Inr (set_status SessRunning b1)"
    using incomplete turn schedule by (simp add: handle_plan_def)
  have "handle_llm_response demo_patch_env demo_harness demo_config ?s (Uuid 100) demo_patches (Uuid 9) 0 0 1
      = Inr (set_status SessRunning b1)"
    using plan by (simp add: handle_llm_response_def demo_response demo_parsed b_def Let_def)
  then have "handle_codex demo_patch_env demo_harness demo_config ?s
     (demo_event (OperationCompletedEvent (Uuid 100) KindLlm OutcomeSucceeded))
     (demo_context (Some \<lparr>rr_id = Uuid 100, rr_kind = KindLlm,
        rr_outcome = Some (ReadSucceeded (ReadLlm demo_patches))\<rparr>)) = Inr (set_status SessRunning b1)"
    using demo_started_fields dated
    by (simp add: handle_codex_def demo_event_def demo_context_def handle_active_def
        handle_llm_completion_def awaited_llm_def completed_outcome_def handle_llm_outcome_def
        demo_turn_def)
  with b1 none show ?thesis by (intro exI [of _ p]) (simp add: demo_answered_def)
qed

lemma demo_answered_run: "\<exists>out. codex_run demo_harness demo_config (ho_state demo_answered) out"
proof -
  have "fresh_ids demo_patch_env {Uuid 100}"
    by (auto simp: fresh_ids_def demo_patch_env_def inj_def)
  then show ?thesis
    using demo_answered_fields by (blast intro: codex_run.handled demo_started_run)
qed

theorem exclusive_tools_run_alone_witness:
  "\<exists>turn plan. cd_active_turn (ho_state demo_answered) = Some turn
    \<and> at_phase turn = ExecutingTools plan \<and> length (pl_calls plan) = 2
    \<and> filter in_flight (pl_calls plan) = [pl_calls plan ! 0]"
proof -
  obtain out where run: "codex_run demo_harness demo_config (ho_state demo_answered) out"
    using demo_answered_run by blast
  obtain p where turn: "cd_active_turn (ho_state demo_answered)
      = Some (demo_turn (ExecutingTools (demo_plan (CallSubmitted (Uuid 200) p))))"
    and none: "cd_cancellation (ho_state demo_answered) = None"
    using demo_answered_fields by blast
  let ?plan = "demo_plan (CallSubmitted (Uuid 200) p)"
  have "at_phase (demo_turn (ExecutingTools ?plan)) = ExecutingTools ?plan" by (simp add: demo_turn_def)
  moreover have "pl_calls ?plan ! 0 \<in> set (pl_calls ?plan)" "in_flight (pl_calls ?plan ! 0)"
    "tl_scheduling (pl_calls ?plan ! 0) = Exclusive"
    by (simp_all add: demo_plan_def demo_patch_call_def in_flight_def is_pending_def is_completed_def)
  ultimately have "filter in_flight (pl_calls ?plan) = [pl_calls ?plan ! 0]"
    using exclusive_tools_run_alone [OF run turn none] by blast
  moreover have "length (pl_calls ?plan) = 2" by (simp add: demo_plan_def)
  ultimately show ?thesis using turn by (auto simp: demo_turn_def)
qed

end
