(* ===== verification/CodexToolGuarantees.thy ===== *)
theory CodexToolGuarantees
  imports CodexGuarantees CodexHandler "HOL-Library.Sublist"
begin

text \<open>
  The guarantees of the tools and of compaction: what is kept of the output of a command and of the
  messages of a user, and where a patch makes the code panic.
\<close>

section \<open>Output of commands\<close>

text \<open>The reference: the first and the last 24 KiB of a stream, and how much is left out.\<close>

definition keep_ends :: "string \<Rightarrow> output_accumulator" where
  "keep_ends stream =
     (let rest = drop accumulator_half_bytes stream;
          omitted = length rest - accumulator_half_bytes in
      \<lparr>oa_head = take accumulator_half_bytes stream, oa_tail = drop omitted rest,
       oa_total_bytes = length stream, oa_omitted_bytes = omitted\<rparr>)"

lemma keep_ends_kept: "kept stream a \<Longrightarrow> oa_total_bytes a = length stream \<Longrightarrow> a = keep_ends stream"
  by (simp add: kept_def keep_ends_def Let_def)

lemma append_output_total: "oa_total_bytes (append_output env text a) = sat_add (oa_total_bytes a) (length text)"
  by (simp add: append_output_def fill_head_def push_tail_def Let_def)

lemma appended_kept:
  "ascii (concat chunks) \<Longrightarrow> length (concat chunks) \<le> u64_max
    \<Longrightarrow> \<forall>chunk \<in> set chunks. xv_utf8_lossy env chunk = chunk
    \<Longrightarrow> kept (concat chunks) (foldl (\<lambda>a chunk. append_output env chunk a) empty_accumulator chunks)
      \<and> oa_total_bytes (foldl (\<lambda>a chunk. append_output env chunk a) empty_accumulator chunks)
        = length (concat chunks)"
proof (induction chunks rule: rev_induct)
  case Nil
  then show ?case by (simp add: kept_empty) (simp add: empty_accumulator_def)
next
  case (snoc chunk chunks)
  let ?a = "foldl (\<lambda>a chunk. append_output env chunk a) empty_accumulator chunks"
  from snoc have IH: "kept (concat chunks) ?a" "oa_total_bytes ?a = length (concat chunks)"
    and ascii: "ascii (concat chunks)" "ascii chunk" and lossy: "xv_utf8_lossy env chunk = chunk"
    and small: "length (concat chunks) + length chunk \<le> u64_max"
    by auto
  from kept_append [OF IH(1) ascii lossy small] IH(2) small show ?case
    by (simp add: append_output_total sat_add_def)
qed

text \<open>
  C39. What the model is shown of a command's output does not depend on how the output arrived: for
  ASCII output the accumulator, fed chunk by chunk, holds exactly the first and the last 24 KiB of
  the whole stream and counts the bytes between them.
\<close>

theorem output_kept_by_ends:
  assumes "ascii (concat chunks)" and "length (concat chunks) \<le> u64_max"
    and "\<forall>chunk \<in> set chunks. xv_utf8_lossy env chunk = chunk"
  shows "foldl (\<lambda>a chunk. append_output env chunk a) empty_accumulator chunks = keep_ends (concat chunks)"
  using appended_kept [OF assms] by (blast intro: keep_ends_kept)

theorem output_kept_by_ends_witness:
  "foldl (\<lambda>a chunk. append_output demo_codex_env chunk a) empty_accumulator [''ab'', ''c'']
    = keep_ends ''abc''"
proof -
  have "ascii (concat [''ab'', ''c''])" by code_simp
  moreover have "length (concat [''ab'', ''c'']) \<le> u64_max" by (simp add: u64_max_def)
  moreover have "\<forall>chunk \<in> set [''ab'', ''c'']. xv_utf8_lossy demo_codex_env chunk = chunk"
    by (simp add: demo_codex_env_def)
  ultimately show ?thesis using output_kept_by_ends [of "[''ab'', ''c'']" demo_codex_env] by simp
qed

text \<open>
  A character of two bytes that meets a head with one byte left goes to the tail; the byte that
  comes next still fits the head, and so the text shows it before the character.
\<close>

lemma late_bytes_overtake:
  assumes head: "Suc (length (oa_head a)) = accumulator_half_bytes" and tail: "oa_tail a = []"
    and wide: "continuation d" and small: "oa_omitted_bytes a = 0"
    and lossy: "xv_utf8_lossy env [c, d] = [c, d]" "xv_utf8_lossy env [x] = [x]"
  shows "oa_head (append_output env [x] (append_output env [c, d] a)) = oa_head a @ [x]
    \<and> oa_tail (append_output env [x] (append_output env [c, d] a)) = [c, d]"
proof -
  have half: "2 \<le> accumulator_half_bytes" by (simp add: accumulator_half_bytes_def)
  have wide_floor: "floor_char_boundary [c, d] (Suc 0) = 0"
    using wide by (simp add: floor_char_boundary_def is_char_boundary_def)
  have floor: "floor_char_boundary [x] (Suc 0) = Suc 0"
    by (simp add: floor_char_boundary_def is_char_boundary_def)
  have room: "accumulator_half_bytes - length (oa_head a) = Suc 0" using head by simp
  let ?a = "append_output env [c, d] a"
  have "length (oa_head a) < accumulator_half_bytes" using head by simp
  then have first: "oa_head ?a = oa_head a \<and> oa_tail ?a = [c, d] \<and> oa_omitted_bytes ?a = 0"
    using tail half small wide_floor
    by (simp add: append_output_def lossy fill_head_def push_tail_def Let_def room min_def)
  show ?thesis
    using first head half floor
    by (simp add: append_output_def [of env "[x]"] lossy fill_head_def push_tail_def Let_def room min_def)
qed

section \<open>Messages kept by a compaction\<close>



text \<open>With fewer than four tokens left, a message that ends in an empty part costs more.\<close>

lemma truncation_exceeds_budget:
  assumes "0 < k" "k < 4"
  shows "retain_from env [UserMsg base [TextPart [] None]] k = [UserMsg base [TextPart [] None]]
    \<and> k < estimate_message_tokens env (UserMsg base [TextPart [] None])"
  using assms
  by (simp add: retain_from_user estimate_message_tokens_def estimate_content_tokens_def
      estimate_bytes_def sat_add_def u64_max_def truncate_user_message_def)

section \<open>Patches\<close>

text \<open>
  The search for a chunk starts at the last place where it fits, also when that lies before the
  cursor: a patch that deletes the same last line twice replaces it twice, and the second splice
  is out of range.
\<close>

definition deletion :: "string \<Rightarrow> patch_chunk" where
  "deletion line = \<lparr>pc_context = None, pc_old_lines = [line], pc_new_lines = [],
     pc_end_of_file = False\<rparr>"

lemma repeated_deletion_panics:
  assumes "newline \<notin> set line" and "line \<noteq> []"
  shows "apply_chunks path (line @ [newline]) [deletion line, deletion line] = Inl ToolPanic"
proof -
  have "file_lines (line @ [newline]) = [line]"
    using assms by (simp add: file_lines_def drop_empty_last_def split_on_piece)
  then show ?thesis
    by (simp add: apply_chunks_def locate_chunk_def deletion_def seek_def line_matches_def splice_def)
qed

lemma repeated_deletion_parses:
  "parse_patch (join [newline] [''*** Begin Patch'', ''*** Update File: f'', ''@@'', ''-b'', ''@@'',
      ''-b'', ''*** End Patch'']) = Inr [HunkUpdate ''f'' None [deletion ''b'', deletion ''b'']]"
  by code_simp

end
