(* ===== verification/HandlerContext.thy ===== *)
theory HandlerContext
  imports Codex Scheduler Inspection Scenario
begin

text \<open>
  What a handler can see and do while it runs (\<open>packages/agent-runtime/src/context.rs\<close>, the
  contract's \<open>context.rs\<close> and \<open>wait.rs\<close>): reads of its own session, bounded by the history
  that existed when its event was claimed, and the publication of assets. A read that fails
  because the database is away is remembered, so that the attempt is given back instead of
  counted against the handler.
\<close>

section \<open>The contract (\<open>context.rs\<close>, \<open>wait.rs\<close>)\<close>

datatype context_error = ContextUnavailable string | ContextRead string | ContextPublish string

fun context_error_text :: "context_error \<Rightarrow> string" where
  "context_error_text (ContextUnavailable message) = message"
| "context_error_text (ContextRead message) = message"
| "context_error_text (ContextPublish message) = message"

record context_history_query =
  chq_after_sequence :: int
  chq_limit :: nat

record context_operation_query =
  coq_kind :: "operation_kind option"
  coq_limit :: nat

datatype contract_wait_status = WaitIsPending | WaitIsResolved | WaitIsExpired | WaitIsCancelled

record context_wait_query =
  cwq_status :: "contract_wait_status option"
  cwq_limit :: nat

record contract_history_entry =
  he_id :: history_entry_id
  he_sequence :: int
  he_source_event_id :: "event_id option"
  he_created_at :: time
  he_message :: message

text \<open>An operation as handlers read it has the gateway's job besides what the Codex harness uses.\<close>

record contract_operation = read_record +
  rr_gateway_job_id :: "uuid option"

record contract_wait =
  wc_id :: wait_id
  wc_spec :: wait_spec
  wc_status :: contract_wait_status
  wc_resolution :: "json option"
  wc_finished_at :: "time option"

text \<open>
  An asset publisher is what the server plugs in: a function of the upload. The contract's own
  refuses everything, and so does a context without one.
\<close>

definition no_publisher_text :: string where
  "no_publisher_text = ''no asset publisher is configured for this platform''"

definition unavailable_publish :: "'asset \<Rightarrow> string + 'published" where
  "unavailable_publish asset = Inl no_publisher_text"

definition default_publish_asset :: "'asset \<Rightarrow> context_error + 'published" where
  "default_publish_asset asset = Inl (ContextUnavailable no_publisher_text)"

section \<open>The store's context\<close>

text \<open>
  The parsers of stored texts are \<open>serde_json\<close>'s for the contract's types; \<open>sx_store_text\<close> prints
  a store error. The mutable part of the context, the remembered infrastructure failure, is
  threaded through the reads beside the worker's state.
\<close>

record store_context =
  sx_session :: session_view
  sx_history_through :: int
  sx_store_text :: "store_error \<Rightarrow> string"
  sx_message :: "raw_json \<Rightarrow> string + message"
  sx_result :: "raw_json \<Rightarrow> string + read_result"
  sx_failure :: "json \<Rightarrow> string + read_failure"
  sx_value :: "raw_json \<Rightarrow> string + json"

type_synonym 'a reading = "(job \<times> string option, context_error + 'a) state"

definition take_infrastructure_failure :: "string option \<Rightarrow> string option \<times> string option" where
  "take_infrastructure_failure remembered = (remembered, None)"

definition context_store_error ::
    "store_context \<Rightarrow> store_error \<Rightarrow> string option \<Rightarrow> context_error \<times> string option" where
  "context_store_error sx e remembered =
     (case e of
        Database _ \<Rightarrow> (ContextUnavailable (sx_store_text sx e), Some (sx_store_text sx e))
      | _ \<Rightarrow> (ContextRead (sx_store_text sx e), remembered))"

definition stop_requested :: "bool \<Rightarrow> bool \<Rightarrow> bool" where
  "stop_requested shutdown ownership_lost \<longleftrightarrow> shutdown \<or> ownership_lost"

definition publish_asset ::
    "bool \<Rightarrow> bool \<Rightarrow> ('asset \<Rightarrow> string + 'published) \<Rightarrow> 'asset \<Rightarrow> context_error + 'published" where
  "publish_asset shutdown ownership_lost publisher asset =
     (if stop_requested shutdown ownership_lost
      then Inl (ContextUnavailable
        ''asset publication stopped because the invocation is stopping'')
      else map_err ContextPublish (publisher asset))"

text \<open>\<open>self.store.f(..).await.map_err(|error| self.store_error(error))?\<close>, then the conversion.\<close>

definition store_read ::
    "world \<Rightarrow> store_context \<Rightarrow> (db \<Rightarrow> store_error + 'r) \<Rightarrow> ('r \<Rightarrow> context_error + 'a) \<Rightarrow> 'a reading" where
  "store_read w sx f g = State (\<lambda>(s, remembered).
     case run_state (call w (query f)) s of
       (Inl e, s') \<Rightarrow>
         (case context_store_error sx e remembered of (failure, lost) \<Rightarrow> (Inl failure, (s', lost)))
     | (Inr rows, s') \<Rightarrow> (g rows, (s', remembered)))"

lemma call_query:
  assumes run: "run_state (call w (query f)) s = (r, s')"
  shows "j_db s' = rt_others w (j_calls s) (j_db s)"
    and "r = Inr p \<Longrightarrow> f (j_db s') = Inr p"
    and "r = Inl e \<Longrightarrow> f (j_db s') = Inl e \<or> (\<exists>d. e = Database d)"
proof -
  define db where "db = rt_others w (j_calls s) (j_db s)"
  note eq = run [unfolded call_def query_def Let_def state.sel, folded db_def]
  have "j_db s' = db \<and> (r = f db \<or> (\<exists>d. r = Inl (Database d)))"
  proof (cases "rt_outage w (j_calls s)")
    case None
    then show ?thesis using eq by (cases "f db") auto
  next
    case (Some b)
    then show ?thesis using eq by (cases b; cases "f db") auto
  qed
  then show "j_db s' = rt_others w (j_calls s) (j_db s)" and "r = Inr p \<Longrightarrow> f (j_db s') = Inr p"
    and "r = Inl e \<Longrightarrow> f (j_db s') = Inl e \<or> (\<exists>d. e = Database d)"
    by (auto simp: db_def)
qed

lemma store_read_cases:
  assumes "run_state (store_read w sx f g) (s, remembered) = (r, (s', lost))"
  shows "j_db s' = rt_others w (j_calls s) (j_db s)
    \<and> ((\<exists>rows. f (j_db s') = Inr rows \<and> r = g rows \<and> lost = remembered)
      \<or> (\<exists>e. r = Inl (fst (context_store_error sx e remembered))
          \<and> lost = snd (context_store_error sx e remembered)
          \<and> (f (j_db s') = Inl e \<or> (\<exists>d. e = Database d))))"
proof (cases "run_state (call w (query f)) s")
  case (Pair q s2)
  note eq = assms [unfolded store_read_def]
  show ?thesis
  proof (cases q)
    case (Inl e)
    with eq Pair have "s' = s2" and "r = Inl (fst (context_store_error sx e remembered))"
      and "lost = snd (context_store_error sx e remembered)"
      by (auto split: prod.splits)
    then show ?thesis using call_query(1) [OF Pair] call_query(3) [OF Pair Inl] by blast
  next
    case (Inr rows)
    with eq Pair have "s' = s2" and "r = g rows" and "lost = remembered" by auto
    then show ?thesis using call_query(1) [OF Pair] call_query(2) [OF Pair Inr] by blast
  qed
qed

section \<open>Conversions\<close>

definition query_limit :: "nat \<Rightarrow> context_error + int" where
  "query_limit n = bindR (guardR (1 \<le> n \<and> n \<le> 1000)
     (ContextRead ''query limit must be between 1 and 1000'')) (\<lambda>_. Inr (int n))"

text \<open>\<open>value.map(f).transpose()\<close>\<close>

definition transposeR :: "('r \<Rightarrow> 'e + 'a) \<Rightarrow> 'r option \<Rightarrow> 'e + 'a option" where
  "transposeR f x = (case x of None \<Rightarrow> Inr None | Some r \<Rightarrow> bindR (f r) (\<lambda>y. Inr (Some y)))"

definition contract_entry_of ::
    "store_context \<Rightarrow> history_row \<Rightarrow> context_error + contract_history_entry" where
  "contract_entry_of sx h =
     bindR (map_err ContextRead (sx_message sx (h_message h))) (\<lambda>m.
     Inr \<lparr>he_id = h_id h, he_sequence = h_sequence h, he_source_event_id = h_source_event_id h,
          he_created_at = h_created_at h, he_message = m\<rparr>)"

definition parse_stored_result :: "store_context \<Rightarrow> operation_row \<Rightarrow> context_error + read_result" where
  "parse_stored_result sx r =
     bindR (ok_or (o_result r) (ContextRead ''succeeded operation has no result'')) (\<lambda>raw.
     map_err ContextRead (sx_result sx raw))"

text \<open>
  The response of a process is kept in the result column even when the operation has failed:
  it is put back into the failure.
\<close>

definition parse_stored_failure :: "store_context \<Rightarrow> operation_row \<Rightarrow> context_error + read_failure" where
  "parse_stored_failure sx r =
     bindR (ok_or (o_error r) (ContextRead ''failed operation has no error'')) (\<lambda>error.
     bindR (map_err ContextRead (sx_failure sx error)) (\<lambda>failure.
     case o_result r of
       Some raw \<Rightarrow>
         if o_kind r = KindExecution
         then bindR (map_err ContextRead (sx_result sx raw)) (\<lambda>result.
           case result of
             ReadExecution response \<Rightarrow> Inr (failure\<lparr>rf_response := Some response\<rparr>)
           | _ \<Rightarrow> Inl (ContextRead ''failed execution has a non-execution result''))
         else Inr failure
     | None \<Rightarrow> Inr failure))"

definition stored_outcome :: "store_context \<Rightarrow> operation_row \<Rightarrow> context_error + read_outcome option" where
  "stored_outcome sx r =
     (case o_status r of
        OpPending \<Rightarrow> Inr None
      | OpSubmitting \<Rightarrow> Inr None
      | OpAccepted \<Rightarrow> Inr None
      | OpSucceeded \<Rightarrow> bindR (parse_stored_result sx r) (\<lambda>x. Inr (Some (ReadSucceeded x)))
      | OpFailed \<Rightarrow> bindR (parse_stored_failure sx r) (\<lambda>x. Inr (Some (ReadFailed x)))
      | OpCancelled \<Rightarrow> Inr (Some ReadCancelled)
      | OpUnknown \<Rightarrow> bindR (parse_stored_failure sx r) (\<lambda>x. Inr (Some (ReadUnknown x))))"

definition contract_operation_of ::
    "store_context \<Rightarrow> operation_row \<Rightarrow> context_error + contract_operation" where
  "contract_operation_of sx r =
     bindR (stored_outcome sx r) (\<lambda>out.
     Inr \<lparr>rr_id = o_id r, rr_kind = o_kind r, rr_outcome = out, rr_gateway_job_id = o_job_id r\<rparr>)"

fun store_wait_status :: "contract_wait_status \<Rightarrow> wait_status" where
  "store_wait_status WaitIsPending = WtPending"
| "store_wait_status WaitIsResolved = WtResolved"
| "store_wait_status WaitIsExpired = WtExpired"
| "store_wait_status WaitIsCancelled = WtCancelled"

fun contract_wait_status_of :: "wait_status \<Rightarrow> contract_wait_status" where
  "contract_wait_status_of WtPending = WaitIsPending"
| "contract_wait_status_of WtResolved = WaitIsResolved"
| "contract_wait_status_of WtExpired = WaitIsExpired"
| "contract_wait_status_of WtCancelled = WaitIsCancelled"

definition contract_wait_of :: "store_context \<Rightarrow> wait_row \<Rightarrow> context_error + contract_wait" where
  "contract_wait_of sx r =
     (let value = (\<lambda>raw. map_err ContextRead (sx_value sx raw)) in
      bindR (value (w_payload r)) (\<lambda>payload.
      bindR (transposeR value (w_response_schema r)) (\<lambda>schema.
      bindR (transposeR value (w_resolution_payload r)) (\<lambda>resolution.
      Inr \<lparr>wc_id = w_id r,
           wc_spec = \<lparr>ws_mode = w_mode r, ws_payload = payload, ws_response_schema = schema,
             ws_expires_at = w_expires_at r\<rparr>,
           wc_status = contract_wait_status_of (w_status r), wc_resolution = resolution,
           wc_finished_at = w_finished_at r\<rparr>))))"

section \<open>The reads\<close>

text \<open>\<open>let limit = limit(query.limit)?;\<close>: a query that asks for too much never reaches the store.\<close>

definition with_limit :: "nat \<Rightarrow> (int \<Rightarrow> 'a reading) \<Rightarrow> 'a reading" where
  "with_limit n f = (case query_limit n of Inl e \<Rightarrow> State_Monad.return (Inl e) | Inr l \<Rightarrow> f l)"

definition context_history ::
    "world \<Rightarrow> store_context \<Rightarrow> context_history_query \<Rightarrow> contract_history_entry list reading" where
  "context_history w sx q = with_limit (chq_limit q) (\<lambda>l.
     store_read w sx
       (history (vw_id (sx_session sx)) (chq_after_sequence q) (sx_history_through sx) l)
       (mapR (contract_entry_of sx)))"

definition context_history_entry ::
    "world \<Rightarrow> store_context \<Rightarrow> history_entry_id \<Rightarrow> contract_history_entry option reading" where
  "context_history_entry w sx i =
     store_read w sx (\<lambda>db. Inr (history_entry (vw_id (sx_session sx)) i (sx_history_through sx) db))
       (transposeR (contract_entry_of sx))"

definition context_operation ::
    "world \<Rightarrow> store_context \<Rightarrow> operation_id \<Rightarrow> contract_operation option reading" where
  "context_operation w sx i =
     store_read w sx (\<lambda>db. Inr (operation_for_session (vw_id (sx_session sx)) i db))
       (transposeR (contract_operation_of sx))"

definition context_operations ::
    "world \<Rightarrow> store_context \<Rightarrow> context_operation_query \<Rightarrow> contract_operation list reading" where
  "context_operations w sx q = with_limit (coq_limit q) (\<lambda>l.
     store_read w sx (operations (vw_id (sx_session sx)) (coq_kind q) l)
       (mapR (contract_operation_of sx)))"

definition context_wait :: "world \<Rightarrow> store_context \<Rightarrow> wait_id \<Rightarrow> contract_wait option reading" where
  "context_wait w sx i =
     store_read w sx (\<lambda>db. Inr (wait_for_session (vw_id (sx_session sx)) i db))
       (transposeR (contract_wait_of sx))"

definition context_waits :: "world \<Rightarrow> store_context \<Rightarrow> context_wait_query \<Rightarrow> contract_wait list reading" where
  "context_waits w sx q = with_limit (cwq_limit q) (\<lambda>l.
     store_read w sx
       (waits (vw_id (sx_session sx)) (map_option store_wait_status (cwq_status q)) l)
       (mapR (contract_wait_of sx)))"

section \<open>What the reads promise\<close>

text \<open>
  A reading is well behaved if it changes nothing: the database moves only as others move it,
  and a failure is remembered exactly when the reading answers that the database is away.
\<close>

definition reads_only :: "world \<Rightarrow> 'a reading \<Rightarrow> bool" where
  "reads_only w m \<longleftrightarrow> (\<forall>s remembered r s' lost.
     run_state m (s, remembered) = (r, (s', lost)) \<longrightarrow>
       (j_db s' = j_db s \<or> j_db s' = rt_others w (j_calls s) (j_db s))
       \<and> (case r of Inl (ContextUnavailable message) \<Rightarrow> lost = Some message | _ \<Rightarrow> lost = remembered))"

lemma map_err_ContextRead [simp]: "map_err ContextRead r \<noteq> Inl (ContextUnavailable m)"
  by (cases r) (simp_all add: map_err_def)

lemma bindR_Unavailable [simp]:
  "bindR m f = Inl (ContextUnavailable e) \<longleftrightarrow>
     m = Inl (ContextUnavailable e) \<or> (\<exists>x. m = Inr x \<and> f x = Inl (ContextUnavailable e))"
  by (cases m) simp_all

lemma ok_or_Unavailable [simp]: "ok_or x (ContextRead e) \<noteq> Inl (ContextUnavailable m)"
  by (cases x) (simp_all add: ok_or_def)

lemma mapR_available: "(\<And>x. f x \<noteq> Inl (ContextUnavailable m)) \<Longrightarrow> mapR f xs \<noteq> Inl (ContextUnavailable m)"
  by (induction xs) simp_all

lemma transposeR_available:
  "(\<And>x. f x \<noteq> Inl (ContextUnavailable m)) \<Longrightarrow> transposeR f x \<noteq> Inl (ContextUnavailable m)"
  by (cases x) (simp_all add: transposeR_def)

lemma conversions_available:
  "contract_entry_of sx h \<noteq> Inl (ContextUnavailable m)"
  "contract_operation_of sx r \<noteq> Inl (ContextUnavailable m)"
  "contract_wait_of sx v \<noteq> Inl (ContextUnavailable m)"
  by (simp_all add: contract_entry_of_def contract_operation_of_def stored_outcome_def
      parse_stored_result_def parse_stored_failure_def contract_wait_of_def transposeR_def
      split: operation_status.split option.split read_result.split)

lemma reads_only_store_read:
  assumes "\<And>rows m. g rows \<noteq> Inl (ContextUnavailable m)"
  shows "reads_only w (store_read w sx f g)"
  unfolding reads_only_def
proof (intro allI impI)
  fix s remembered r s' lost
  assume run: "run_state (store_read w sx f g) (s, remembered) = (r, (s', lost))"
  from store_read_cases [OF run] show "(j_db s' = j_db s \<or> j_db s' = rt_others w (j_calls s) (j_db s))
       \<and> (case r of Inl (ContextUnavailable message) \<Rightarrow> lost = Some message | _ \<Rightarrow> lost = remembered)"
    using assms by (auto simp: context_store_error_def split: sum.split context_error.split store_error.split)
qed

lemma reads_only_with_limit:
  "(\<And>l. reads_only w (f l)) \<Longrightarrow> reads_only w (with_limit n f)"
  by (auto simp: with_limit_def query_limit_def guardR_def reads_only_def State_Monad.return_def)

lemma context_reads_only:
  "reads_only w (context_history w sx hq)" "reads_only w (context_history_entry w sx hid)"
  "reads_only w (context_operation w sx oid)" "reads_only w (context_operations w sx oq)"
  "reads_only w (context_wait w sx wid)" "reads_only w (context_waits w sx wq)"
  unfolding context_history_def context_history_entry_def context_operation_def
    context_operations_def context_wait_def context_waits_def
  by (intro reads_only_with_limit reads_only_store_read mapR_available transposeR_available
      conversions_available)+

section \<open>A fixed view of the conversation\<close>

text \<open>
  What has been appended to the history of a session since the event was claimed has numbers
  above the bound of its context.
\<close>

lemma history_above:
  assumes "reachable db" and "store_run db db'" and s: "session_of db i = Some s"
  shows "\<exists>new. t_history db' = t_history db @ new
    \<and> (\<forall>h \<in> set new. h_session_id h = i \<longrightarrow> s_next_history_sequence s \<le> h_sequence h)"
proof -
  have ok: "history_ok db" by (rule store_okD(4) [OF reachable_ok [OF assms(1)]])
  have grown: "history_from (t_history db) db'"
    by (rule store_run_history [OF assms(2)]) (simp add: history_from_def ok)
  then obtain new where new: "t_history db' = t_history db @ new" by (auto simp: history_from_def)
  have ok': "history_ok db'" using grown by (simp add: history_from_def)
  have sess: "s \<in> set (t_sessions db)" "s_id s = i" using session_of_Some [OF s] by simp_all
  have old: "map h_sequence (filter (\<lambda>h. h_session_id h = i) (t_history db))
      = [1..s_next_history_sequence s - 1]" and one: "1 \<le> s_next_history_sequence s"
    using ok sess by (auto simp: history_ok_def list_all_iff numbered_def)
  have "s_next_history_sequence s \<le> h_sequence h" if h: "h \<in> set new" "h_session_id h = i" for h
  proof -
    have "h_session_id h \<in> s_id ` set (t_sessions db')"
      using ok' h(1) new by (simp add: history_ok_def list_all_iff)
    then obtain q where q: "q \<in> set (t_sessions db')" "s_id q = i" using h(2) by auto
    let ?own = "\<lambda>hs. map h_sequence (filter (\<lambda>h. h_session_id h = i) hs)"
    have all: "?own (t_history db) @ ?own new = [1..s_next_history_sequence q - 1]"
      using ok' q new by (auto simp: history_ok_def list_all_iff numbered_def)
    have "distinct (?own (t_history db) @ ?own new)" unfolding all by simp
    moreover have mem: "h_sequence h \<in> set (?own new)" using h by simp
    ultimately have "h_sequence h \<notin> set [1..s_next_history_sequence s - 1]" using old by auto
    moreover have "1 \<le> h_sequence h"
    proof -
      have "h_sequence h \<in> set (?own (t_history db) @ ?own new)" using mem by simp
      then show ?thesis unfolding all by simp
    qed
    ultimately show ?thesis by simp
  qed
  with new show ?thesis by blast
qed

lemma history_stable:
  assumes "reachable db" and "store_run db db'" and "session_of db i = Some s"
    and bound: "through < s_next_history_sequence s"
  shows "history i after through limit db' = history i after through limit db"
    and "history_entry i hid through db' = history_entry i hid through db"
proof -
  obtain new where new: "t_history db' = t_history db @ new"
    and above: "\<forall>h \<in> set new. h_session_id h = i \<longrightarrow> s_next_history_sequence s \<le> h_sequence h"
    using history_above [OF assms(1-3)] by blast
  have none: "filter (\<lambda>h. h_session_id h = i \<and> P h \<and> h_sequence h \<le> through) new = []" for P
    using above bound by (auto simp: filter_empty_conv)
  show "history i after through limit db' = history i after through limit db"
    using none [of "\<lambda>h. after < h_sequence h"] by (simp add: history_def new)
  show "history_entry i hid through db' = history_entry i hid through db"
    using none [of "\<lambda>h. h_id h = hid"] by (simp add: history_entry_def new find_filter)
qed

lemma history_page:
  assumes "reachable db" and s: "session_of db i = Some s" and "through < s_next_history_sequence s"
    and "0 \<le> after" and read: "history i after through limit db = Inr rows"
  shows "map h_sequence rows = [after + 1..min through (after + limit)]"
proof -
  have sess: "s \<in> set (t_sessions db)" "s_id s = i" using session_of_Some [OF s] by simp_all
  have num: "numbered h_session_id h_sequence (t_history db) i 1 (s_next_history_sequence s)"
    using store_okD(4) [OF reachable_ok [OF assms(1)]] sess by (auto simp: history_ok_def list_all_iff)
  have "rows = top_by h_sequence limit
      (filter (\<lambda>h. h_session_id h = i \<and> after < h_sequence h \<and> h_sequence h \<le> through) (t_history db))"
    and "1 \<le> limit"
    using read by (auto simp: history_def result_simps limit_ok_def)
  with numbered_page [OF num, of limit after through] assms(3,4) show ?thesis
    by (simp add: algebra_simps)
qed

lemma mapR_image:
  assumes "mapR f xs = Inr ys" and "\<And>x y. f x = Inr y \<Longrightarrow> p y = q x"
  shows "map p ys = map q xs"
  using assms(1) by (induction xs arbitrary: ys) (auto simp: result_simps dest: assms(2))

lemma with_limit_Inr:
  assumes "run_state (with_limit n f) s = (Inr x, s')"
  shows "1 \<le> n \<and> n \<le> 1000 \<and> run_state (f (int n)) s = (Inr x, s')"
  using assms
  by (cases "1 \<le> n \<and> n \<le> 1000")
    (auto simp: with_limit_def query_limit_def guardR_def State_Monad.return_def)

lemma context_history_Inr:
  assumes "run_state (context_history w sx q) (s, remembered) = (Inr es, (s', lost))"
  shows "\<exists>rows. history (vw_id (sx_session sx)) (chq_after_sequence q) (sx_history_through sx)
      (int (chq_limit q)) (j_db s') = Inr rows \<and> mapR (contract_entry_of sx) rows = Inr es"
    and "j_db s' = rt_others w (j_calls s) (j_db s)" and "1 \<le> chq_limit q"
  using with_limit_Inr [OF assms [unfolded context_history_def]]
  by (auto dest!: store_read_cases split: prod.splits)

section \<open>Outcomes as handlers read them\<close>

lemma operation_for_session_of:
  assumes "distinct (map o_id (t_operations db))" and "operation_for_session sid i db = Some r"
  shows "operation_of db i = Some r" and "o_session_id r = sid"
proof -
  have r: "r \<in> set (t_operations db)" "o_session_id r = sid" "o_id r = i"
    using assms(2) by (auto simp: operation_for_session_def find_Some_iff)
  then show "operation_of db i = Some r" and "o_session_id r = sid"
    using row_by_distinct [OF assms(1) r(1)] by (simp_all add: operation_of_def)
qed

lemma stored_outcome_status:
  assumes "stored_outcome sx r = Inr out"
  shows "case out of None \<Rightarrow> \<not> op_terminal (o_status r)
    | Some x \<Rightarrow> op_terminal (o_status r) \<and> outcome_status_of (o_status r) = Some (read_status x)"
  using assms by (auto simp: stored_outcome_def result_simps split: operation_status.splits)

lemma context_operation_Inr:
  assumes "run_state (context_operation w sx i) (s, remembered) = (Inr (Some v), (s', lost))"
    and "reachable (j_db s')"
  shows "\<exists>r. operation_of (j_db s') i = Some r \<and> o_session_id r = vw_id (sx_session sx)
      \<and> contract_operation_of sx r = Inr v"
    and "j_db s' = rt_others w (j_calls s) (j_db s)"
proof -
  have distinct: "distinct (map o_id (t_operations (j_db s')))"
    by (rule store_okD(6) [OF reachable_ok [OF assms(2)]])
  from store_read_cases [OF assms(1) [unfolded context_operation_def]]
  obtain x where x: "operation_for_session (vw_id (sx_session sx)) i (j_db s') = x"
      "transposeR (contract_operation_of sx) x = Inr (Some v)"
    and db: "j_db s' = rt_others w (j_calls s) (j_db s)" by auto
  then obtain r where "x = Some r" and "contract_operation_of sx r = Inr v"
    by (cases x) (auto simp: transposeR_def result_simps)
  with x operation_for_session_of [OF distinct] show "\<exists>r. operation_of (j_db s') i = Some r
      \<and> o_session_id r = vw_id (sx_session sx) \<and> contract_operation_of sx r = Inr v" by blast
  show "j_db s' = rt_others w (j_calls s) (j_db s)" by (rule db)
qed

section \<open>A reader of the example\<close>

definition calm_world :: world where
  "calm_world = \<lparr>rt_env = (\<lambda>n. demo_env 20 (200 + 100 * n)), rt_others = (\<lambda>_ db. db),
     rt_outage = (\<lambda>_. None), rt_now = (\<lambda>_. 20), rt_lost = (\<lambda>_. False), rt_ran = (\<lambda>_. False)\<rparr>"

definition demo_start :: "db \<Rightarrow> job" where
  "demo_start db = \<lparr>j_db = db, j_calls = 0, j_sent = []\<rparr>"

definition demo_reader :: store_context where
  "demo_reader = \<lparr>sx_session = view_of demo_claimed_event, sx_history_through = 1,
     sx_store_text = (\<lambda>_. ''store''), sx_message = (\<lambda>raw. Inr (user_text raw)),
     sx_result = (\<lambda>_. Inr (ReadWithdraw True)),
     sx_failure = (\<lambda>_. Inr \<lparr>rf_source = SourcePlatform, rf_code = ''c'', rf_message = ''m'',
       rf_response = None\<rparr>),
     sx_value = (\<lambda>_. Inr JNull)\<rparr>"

definition demo_submission :: "claimed_operation \<times> db" where
  "demo_submission = (case projr (claim_operation (demo_env 50 500) Submission 1000 demo_handled) of
     (k, db) \<Rightarrow> (the k, db))"

definition demo_failed :: db where
  "demo_failed = snd (projr (complete_operation_with_http_status (demo_env 60 600)
     (fst demo_submission) OpFailed None (Some JNull) None None (snd demo_submission)))"

lemma demo_failed_reachable: "reachable demo_failed"
proof -
  let ?claim = "claim_operation (demo_env 50 500) Submission 1000 demo_handled"
  let ?fin = "complete_operation_with_http_status (demo_env 60 600)
     (fst demo_submission) OpFailed None (Some JNull) None None (snd demo_submission)"
  have "\<not> isl ?claim \<and> fst (projr ?claim) \<noteq> None" by code_simp
  then have "?claim = Inr (Some (fst demo_submission), snd demo_submission)"
    by (cases ?claim) (auto simp: demo_submission_def)
  from store_step.op_claim [OF this] have one: "reachable (snd demo_submission)"
    by (rule reachable_run [OF demo_reachable(4) r_into_rtranclp])
  have "\<not> isl ?fin" by code_simp
  then have "?fin = Inr (fst (projr ?fin), demo_failed)"
    by (cases ?fin) (auto simp: demo_failed_def)
  from store_step.op_complete [OF this] show ?thesis
    by (rule reachable_run [OF one r_into_rtranclp])
qed

section \<open>The promises\<close>

text \<open>
  C19. A handler sees one conversation: whatever others commit while it runs, two readings of the
  same page of its history give the same entries, and the page holds every entry after the
  query's cursor up to the bound of its context (or the query's limit) and no other.
\<close>

theorem handler_history_fixed:
  assumes start: "reachable db" "session_of db (vw_id (sx_session sx)) = Some r"
      "sx_history_through sx < s_next_history_sequence r"
    and world: "others_step w" "others_step w'"
    and runs: "store_run db (j_db s)" "store_run db (j_db t)"
    and one: "run_state (context_history w sx q) (s, l) = (Inr es, s')"
    and two: "run_state (context_history w' sx q) (t, m) = (Inr es', t')"
  shows "es' = es \<and> (0 \<le> chq_after_sequence q \<longrightarrow> map he_sequence es
      = [chq_after_sequence q + 1..min (sx_history_through sx) (chq_after_sequence q + int (chq_limit q))])"
proof -
  obtain s2 l2 t2 m2 where ends: "s' = (s2, l2)" "t' = (t2, m2)" by (metis surj_pair)
  note A = context_history_Inr [OF one [unfolded ends]] and B = context_history_Inr [OF two [unfolded ends]]
  have there: "store_run db (j_db s2)" "store_run db (j_db t2)"
    using A(2) B(2) world runs by (auto simp: others_in_def intro: rtranclp_trans)
  obtain rows where rows: "history (vw_id (sx_session sx)) (chq_after_sequence q)
      (sx_history_through sx) (int (chq_limit q)) db = Inr rows" "mapR (contract_entry_of sx) rows = Inr es"
    using A(1) history_stable(1) [OF start(1) there(1) start(2,3)] by auto
  have "es' = es" using B(1) rows history_stable(1) [OF start(1) there(2) start(2,3)] by auto
  moreover have "map he_sequence es = map h_sequence rows"
    by (rule mapR_image [OF rows(2)]) (auto simp: contract_entry_of_def result_simps)
  moreover have "map h_sequence rows = [chq_after_sequence q + 1..
      min (sx_history_through sx) (chq_after_sequence q + int (chq_limit q))]"
    if "0 \<le> chq_after_sequence q"
    by (rule history_page [OF start that rows(1)])
  ultimately show ?thesis by simp
qed

theorem handler_history_fixed_witness:
  "\<exists>es. fst (run_state (context_history calm_world demo_reader
      \<lparr>chq_after_sequence = 0, chq_limit = 10\<rparr>) (demo_start demo_failed, None)) = Inr es
    \<and> map he_sequence es = [1]"
proof -
  let ?q = "\<lparr>chq_after_sequence = 0, chq_limit = 10\<rparr>"
  let ?run = "run_state (context_history calm_world demo_reader ?q) (demo_start demo_failed, None)"
  have "\<not> isl (fst ?run)" by code_simp
  then obtain es s' where run: "?run = (Inr es, s')" by (cases ?run; cases "fst ?run") auto
  have "session_of demo_failed (Uuid 1) \<noteq> None \<and>
      2 = s_next_history_sequence (the (session_of demo_failed (Uuid 1)))" by code_simp
  then obtain r where r: "session_of demo_failed (Uuid 1) = Some r" "s_next_history_sequence r = 2"
    by auto
  have "vw_id (sx_session demo_reader) = Uuid 1" "sx_history_through demo_reader = 1" by code_simp+
  with handler_history_fixed [OF demo_failed_reachable, of demo_reader r calm_world calm_world
      "demo_start demo_failed" "demo_start demo_failed" ?q None es s' None es s'] r run
  have "map he_sequence es = [0 + 1..min 1 (0 + int 10)]"
    by (simp add: calm_world_def others_in_def demo_start_def)
  with run show ?thesis by (simp add: upto_rec1)
qed

text \<open>
  C20. An outcome a handler has read is final: a reading of an operation of its session tells its
  identifier, its kind and whether it has ended, and once a reading has shown an outcome every
  later reading shows one with the same status.
\<close>

theorem outcomes_read_are_final:
  assumes "reachable (j_db s)" and "others_step w" and "others_step w'"
    and one: "run_state (context_operation w sx i) (s, l) = (Inr (Some v), (s', l'))"
    and later: "store_run (j_db s') (j_db t)"
    and two: "run_state (context_operation w' sx i) (t, m) = (Inr (Some v'), (t', m'))"
  shows "rr_id v = i \<and> (\<exists>r. operation_of (j_db s') i = Some r
      \<and> o_session_id r = vw_id (sx_session sx) \<and> rr_kind v = o_kind r
      \<and> (rr_outcome v = None \<longleftrightarrow> \<not> op_terminal (o_status r)))
    \<and> (\<forall>x. rr_outcome v = Some x \<longrightarrow> map_option read_status (rr_outcome v') = Some (read_status x))"
proof -
  have end1: "reachable (j_db s')" if "j_db s' = rt_others w (j_calls s) (j_db s)"
    using that assms(1,2) by (metis others_in_def reachable_run)
  have "j_db s' = rt_others w (j_calls s) (j_db s)" and "j_db t' = rt_others w' (j_calls t) (j_db t)"
    using store_read_cases [OF one [unfolded context_operation_def]]
      store_read_cases [OF two [unfolded context_operation_def]] by simp_all
  then have there: "reachable (j_db s')" and onward: "store_run (j_db s') (j_db t')"
    using end1 later assms(3) by (auto simp: others_in_def intro: rtranclp_trans)
  obtain r r' where r: "operation_of (j_db s') i = Some r" "o_session_id r = vw_id (sx_session sx)"
      "contract_operation_of sx r = Inr v"
    and r': "operation_of (j_db t') i = Some r'" "contract_operation_of sx r' = Inr v'"
    using context_operation_Inr(1) [OF one there]
      context_operation_Inr(1) [OF two reachable_run [OF there onward]] by blast
  have v: "rr_id v = o_id r" "rr_kind v = o_kind r" "stored_outcome sx r = Inr (rr_outcome v)"
    and v': "stored_outcome sx r' = Inr (rr_outcome v')"
    using r(3) r'(2) by (auto simp: contract_operation_of_def result_simps)
  note ok = reachable_ok [OF there]
  have "o_status r' = o_status r" if "op_terminal (o_status r)"
    using ledger_run_final [OF store_run_ledgers [OF onward ok, THEN conjunct1], of i r "o_status r"]
      store_okD(6) [OF ok] that r(1) r'(1)
    by (auto simp: operation_of_def op_final_def split: if_splits)
  moreover have "rr_id v = i" using v(1) r(1) by (auto simp: operation_of_def dest: row_by_Some)
  ultimately show ?thesis
    using r(1,2) v(2) stored_outcome_status [OF v(3)] stored_outcome_status [OF v']
    by (auto split: option.splits)
qed

theorem outcomes_read_are_final_witness:
  "\<exists>v. fst (run_state (context_operation calm_world demo_reader (Uuid 5))
      (demo_start demo_failed, None)) = Inr (Some v)
    \<and> rr_id v = Uuid 5 \<and> map_option read_status (rr_outcome v) = Some OutcomeFailed"
proof -
  let ?run = "run_state (context_operation calm_world demo_reader (Uuid 5)) (demo_start demo_failed, None)"
  have "\<not> isl (fst ?run) \<and> projr (fst ?run) \<noteq> None
    \<and> map_option read_status (rr_outcome (the (projr (fst ?run)))) = Some OutcomeFailed
    \<and> j_db (fst (snd ?run)) = demo_failed" by code_simp
  then obtain v s' l where run: "?run = (Inr (Some v), (s', l))" and "j_db s' = demo_failed"
    and failed: "map_option read_status (rr_outcome v) = Some OutcomeFailed"
    by (cases ?run; cases "fst ?run") auto
  with outcomes_read_are_final [of "demo_start demo_failed" calm_world calm_world demo_reader "Uuid 5"
      None v s' l "demo_start demo_failed" None v s' l] demo_failed_reachable
  have "rr_id v = Uuid 5" by (simp add: calm_world_def others_in_def demo_start_def)
  with run failed show ?thesis by simp
qed

end
