(* ===== verification/Server.thy ===== *)
theory Server
  imports Completion Dispatch Scheduler Maintenance Text
begin

text \<open>
  The HTTP application around the store and the workers (\<open>apps/agent-server/src\<close>): the errors of
  its interface (\<open>error.rs\<close>), its settings and start (\<open>lib.rs\<close>, \<open>config.rs\<close>), authentication and
  admission of requests (\<open>routes/auth.rs\<close>, \<open>routes/request.rs\<close>), its metrics
  (\<open>routes/metrics.rs\<close>) and the image bucket (\<open>image_bucket.rs\<close>). The routes are in \<open>Routes\<close>.
\<close>

section \<open>Errors (\<open>error.rs\<close>)\<close>

record api_error =
  ae_status :: nat
  ae_code :: string
  ae_message :: string

definition api_error_new :: "nat \<Rightarrow> string \<Rightarrow> string \<Rightarrow> api_error" where
  "api_error_new status code message =
     \<lparr>ae_status = status, ae_code = code, ae_message = message\<rparr>"

definition bad_request :: "string \<Rightarrow> api_error" where
  "bad_request message = api_error_new 400 ''invalid_request'' message"

definition not_found :: "string \<Rightarrow> string \<Rightarrow> api_error" where
  "not_found code message = api_error_new 404 code message"

definition internal_error :: api_error where
  "internal_error = api_error_new 500 ''internal_error'' ''an internal error occurred''"

text \<open>\<open>into_response\<close>: the body carries the request's identifier, 401 the challenge.\<close>

record error_reply =
  er_status :: nat
  er_www_authenticate :: "string option"
  er_code :: string
  er_message :: string
  er_request_id :: uuid

definition error_into_response :: "uuid \<Rightarrow> api_error \<Rightarrow> error_reply" where
  "error_into_response request_id e =
     \<lparr>er_status = ae_status e,
      er_www_authenticate = (if ae_status e = 401 then Some ''Bearer'' else None),
      er_code = ae_code e, er_message = ae_message e, er_request_id = request_id\<rparr>"

definition transient_database_code :: "string option \<Rightarrow> bool" where
  "transient_database_code code =
     (case code of
        None \<Rightarrow> False
      | Some c \<Rightarrow> starts_with ''08'' c \<or> starts_with ''53'' c
          \<or> c = ''57P01'' \<or> c = ''57P02'' \<or> c = ''57P03'')"

definition database_is_unavailable :: "db_error \<Rightarrow> bool" where
  "database_is_unavailable e =
     (if e = PoolTimedOut \<or> e = PoolClosed \<or> e = IoError \<or> e = TlsError then True
      else case sql_code e of Some code \<Rightarrow> transient_database_code code | None \<Rightarrow> False)"

text \<open>\<open>From<StoreError>\<close>; the first argument is the text of a UUID.\<close>

fun api_of_store :: "(uuid \<Rightarrow> string) \<Rightarrow> store_error \<Rightarrow> api_error" where
  "api_of_store uuid_text (SessionNotFound i) =
     not_found ''session_not_found'' (''session '' @ uuid_text i @ '' was not found'')"
| "api_of_store uuid_text (SessionAlreadyExists _) =
     api_error_new 409 ''session_already_exists'' ''a session with this ID already exists''"
| "api_of_store uuid_text (WaitNotFound i) =
     not_found ''wait_not_found'' (''wait '' @ uuid_text i @ '' was not found in this session'')"
| "api_of_store uuid_text (OperationNotFound i) =
     not_found ''operation_not_found''
       (''operation '' @ uuid_text i @ '' was not found in this session'')"
| "api_of_store uuid_text (EventNotFound i) =
     not_found ''event_not_found'' (''event '' @ uuid_text i @ '' was not found in this session'')"
| "api_of_store uuid_text IdempotencyConflict =
     api_error_new 409 ''idempotency_conflict''
       ''the idempotency key was already used with a different request''"
| "api_of_store uuid_text WaitNotResolvable =
     api_error_new 409 ''wait_not_resolvable'' ''the wait cannot accept an external response''"
| "api_of_store uuid_text StaleProcessingRetry =
     api_error_new 409 ''stale_processing_retry''
       ''the session is not blocked on the expected event and processing revision''"
| "api_of_store uuid_text UpdateCursorExpired =
     api_error_new 410 ''resnapshot_required''
       ''the update cursor expired; load a fresh session snapshot''"
| "api_of_store uuid_text (InvalidInput message) = bad_request message"
| "api_of_store uuid_text (Database e) =
     (if database_is_unavailable e
      then api_error_new 503 ''database_unavailable'' ''the database is unavailable''
      else internal_error)"
| "api_of_store uuid_text StaleClaim = internal_error"

fun runtime_initialization :: "runtime_error \<Rightarrow> api_error" where
  "runtime_initialization (InvalidConfiguration _) =
     api_error_new 422 ''invalid_configuration''
       ''configuration is invalid for the selected harness version''"
| "runtime_initialization (Initialization _) =
     api_error_new 500 ''initialization_failed'' ''the harness could not initialize the session''"
| "runtime_initialization _ = internal_error"

section \<open>Requests that are let in (\<open>routes/auth.rs\<close>, \<open>routes/request.rs\<close>)\<close>

text \<open>A header is absent, present without being readable text (\<open>to_str\<close> fails), or a text.\<close>

type_synonym headers = "string \<rightharpoonup> string option"

definition header_text :: "headers \<Rightarrow> string \<Rightarrow> string option" where
  "header_text headers name = Option.bind (headers name) (\<lambda>v. v)"

text \<open>\<open>split_once\<close> and \<open>rsplit_once\<close> at a character.\<close>

fun split_once :: "char \<Rightarrow> string \<Rightarrow> (string \<times> string) option" where
  "split_once c [] = None"
| "split_once c (x # xs) =
     (if x = c then Some ([], xs)
      else map_option (\<lambda>(a, b). (x # a, b)) (split_once c xs))"

definition rsplit_once :: "char \<Rightarrow> string \<Rightarrow> (string \<times> string) option" where
  "rsplit_once c s = map_option (\<lambda>(a, b). (rev b, rev a)) (split_once c (rev s))"

text \<open>Every configured token is compared; the comparison of two tokens takes constant time.\<close>

definition presented_token :: "headers \<Rightarrow> string option" where
  "presented_token headers =
     Option.bind (Option.bind (header_text headers ''authorization'') (split_once CHR '' ''))
       (\<lambda>(scheme, token). if lower scheme = ''bearer'' then Some token else None)"

definition authenticate :: "string list \<Rightarrow> headers \<Rightarrow> api_error + unit" where
  "authenticate tokens headers =
     (let authenticated = (case presented_token headers of
            None \<Rightarrow> False
          | Some presented \<Rightarrow>
              foldl (\<lambda>matched configured. matched
                \<or> length configured = length presented \<and> configured = presented) False tokens) in
      guardR authenticated
        (api_error_new 401 ''unauthorized'' ''a valid bearer token is required''))"

definition admit :: "bool \<Rightarrow> api_error + unit" where
  "admit accepting = guardR accepting
     (api_error_new 503 ''shutting_down'' ''the service is shutting down'')"

text \<open>\<open>Readiness\<close>: accepting, and the token its streams watch.\<close>

record readiness =
  rd_accepting :: bool
  rd_draining :: bool

definition readiness_accepting :: readiness where
  "readiness_accepting = \<lparr>rd_accepting = True, rd_draining = False\<rparr>"

definition begin_draining :: "readiness \<Rightarrow> readiness" where
  "begin_draining r = r\<lparr>rd_accepting := False, rd_draining := True\<rparr>"

section \<open>Request metrics (\<open>routes/metrics.rs\<close>)\<close>

text \<open>Atomic counters of 64 bits: five classes of status, six buckets of latency.\<close>

record http_metrics =
  hm_requests :: "64 word list"
  hm_latency_buckets :: "64 word list"
  hm_latency_sum_micros :: "64 word"
  hm_sse_capacity :: nat
  hm_sse_taken :: nat

definition latency_buckets_ms :: "nat list" where
  "latency_buckets_ms = [5, 25, 100, 500, 2000]"

definition metrics_new :: "nat \<Rightarrow> http_metrics" where
  "metrics_new max_sse =
     \<lparr>hm_requests = replicate 5 0, hm_latency_buckets = replicate 6 0,
      hm_latency_sum_micros = 0, hm_sse_capacity = max_sse, hm_sse_taken = 0\<rparr>"

fun position :: "('a \<Rightarrow> bool) \<Rightarrow> 'a list \<Rightarrow> nat option" where
  "position p [] = None"
| "position p (x # xs) = (if p x then Some 0 else map_option Suc (position p xs))"

text \<open>The elapsed time is capped at \<open>u64::MAX\<close> microseconds.\<close>

definition record_request :: "nat \<Rightarrow> nat \<Rightarrow> http_metrics \<Rightarrow> http_metrics" where
  "record_request status elapsed m =
     (let c = min (status div 100 - 1) 4;
          micros = min elapsed u64_max;
          millis = micros div 1000;
          bucket = (case position (\<lambda>bound. millis \<le> bound) latency_buckets_ms of
                      Some k \<Rightarrow> k | None \<Rightarrow> 5) in
      m\<lparr>hm_requests := (hm_requests m)[c := hm_requests m ! c + 1],
        hm_latency_sum_micros := hm_latency_sum_micros m + of_nat micros,
        hm_latency_buckets := (hm_latency_buckets m)[bucket := hm_latency_buckets m ! bucket + 1]\<rparr>)"

text \<open>\<open>try_acquire_owned\<close> on the slots of update streams, and the drop of a permit.\<close>

definition acquire_stream :: "http_metrics \<Rightarrow> http_metrics option" where
  "acquire_stream m =
     (if hm_sse_taken m < hm_sse_capacity m then Some (m\<lparr>hm_sse_taken := hm_sse_taken m + 1\<rparr>)
      else None)"

definition release_stream :: "http_metrics \<Rightarrow> http_metrics" where
  "release_stream m = m\<lparr>hm_sse_taken := hm_sse_taken m - 1\<rparr>"

definition cumulative :: "http_metrics \<Rightarrow> nat \<Rightarrow> 64 word" where
  "cumulative m k = sum_list (take (Suc k) (hm_latency_buckets m))"

text \<open>
  The text of \<open>/metrics\<close>. A counter is printed in decimal; the printers of the two values the
  source converts to floating point are arguments.
\<close>

definition metric_line :: "string \<Rightarrow> string \<Rightarrow> string" where
  "metric_line name text = name @ '' '' @ text @ [newline]"

definition word_text :: "64 word \<Rightarrow> string" where
  "word_text n = decimal (unat n)"

definition quoted_label :: "string \<Rightarrow> string \<Rightarrow> string \<Rightarrow> string" where
  "quoted_label name label v = name @ ''{'' @ label @ [CHR ''='', CHR 0x22] @ v @ [CHR 0x22] @ ''}''"

definition request_lines :: "http_metrics \<Rightarrow> string list" where
  "request_lines m =
     map (\<lambda>(index, status_class).
         metric_line (quoted_label ''agent_http_requests_total'' ''status_class'' status_class)
           (word_text (hm_requests m ! index)))
       (enumerate 0 [''1xx'', ''2xx'', ''3xx'', ''4xx'', ''5xx''])"

definition latency_lines :: "http_metrics \<Rightarrow> string list" where
  "latency_lines m =
     map (\<lambda>(index, bound).
         metric_line (quoted_label ''agent_http_duration_ms_bucket'' ''le'' bound)
           (word_text (cumulative m index)))
       (enumerate 0 [''5'', ''25'', ''100'', ''500'', ''2000'', ''+Inf''])"

definition metrics_text ::
    "(64 word \<Rightarrow> string) \<Rightarrow> (time \<Rightarrow> string) \<Rightarrow> http_metrics \<Rightarrow> metrics \<Rightarrow> string" where
  "metrics_text millis_text age_text m counts =
     concat (request_lines m @ latency_lines m
       @ [metric_line ''agent_http_duration_ms_count'' (word_text (sum_list (hm_requests m))),
          metric_line ''agent_http_duration_ms_sum'' (millis_text (hm_latency_sum_micros m)),
          metric_line ''agent_sse_subscriptions'' (decimal (hm_sse_taken m)),
          metric_line ''agent_handlers_active'' (decimal (om_active_handlers counts)),
          metric_line ''agent_operation_claims_active''
            (decimal (om_active_operation_claims counts)),
          metric_line ''agent_session_events_pending'' (decimal (om_pending_events counts)),
          metric_line ''agent_session_events_blocked'' (decimal (om_blocked_events counts)),
          metric_line ''agent_oldest_pending_event_age_seconds''
            (age_text (max (om_oldest_pending_event_age counts) 0)),
          metric_line ''agent_operations_pending'' (decimal (om_pending_operations counts)),
          metric_line ''agent_operations_submitting'' (decimal (om_submitting_operations counts)),
          metric_line ''agent_operations_accepted'' (decimal (om_accepted_operations counts)),
          metric_line ''agent_waits_overdue'' (decimal (om_overdue_waits counts)),
          metric_line ''agent_operation_requests_cleanup_ready''
            (decimal (om_cleanup_ready_requests counts)),
          metric_line ''agent_operation_requests_removed_total''
            (decimal (om_removed_requests counts))])"

section \<open>Images (\<open>image_bucket.rs\<close>)\<close>

record asset_upload =
  au_content_type :: string
  au_bytes :: string

record published_image =
  pa_url :: string
  pa_sha256 :: string
  pa_size :: nat

record stored_image =
  si_content_type :: string
  si_bytes :: string

record image_bucket =
  ib_public_base_url :: string
  ib_images :: "string \<rightharpoonup> stored_image"

definition max_image_bytes :: nat where
  "max_image_bytes = 5 * 1024 * 1024"

text \<open>\<open>Url::parse\<close> answers with the parsed URL and its host.\<close>

definition normalize_public_base_url ::
    "(string \<Rightarrow> string + url \<times> string option) \<Rightarrow> string \<Rightarrow> string + string" where
  "normalize_public_base_url parse_url v =
     bindR (map_err (\<lambda>e. ''invalid image public base URL: '' @ e) (parse_url v)) (\<lambda>(u, host).
     bindR (guardR (url_scheme u = ''http'' \<or> url_scheme u = ''https'')
       ''image public base URL must use http or https'') (\<lambda>_.
     bindR (guardR (\<not> (host = None \<or> url_query u \<noteq> None \<or> url_fragment u \<noteq> None))
       ''image public base URL must have a host and no query or fragment'') (\<lambda>_.
     Inr (rev (dropWhile (\<lambda>c. c = CHR ''/'') (rev v))))))"

definition bucket_new ::
    "(string \<Rightarrow> string + url \<times> string option) \<Rightarrow> string \<Rightarrow> string + image_bucket" where
  "bucket_new parse_url base =
     bindR (normalize_public_base_url parse_url base) (\<lambda>u.
     Inr \<lparr>ib_public_base_url = u, ib_images = Map.empty\<rparr>)"

definition image_url :: "image_bucket \<Rightarrow> string \<Rightarrow> string" where
  "image_url b key = ib_public_base_url b @ ''/media/images/'' @ key"

definition image_extension :: "string \<Rightarrow> string option" where
  "image_extension content_type =
     (if content_type = ''image/png'' then Some ''png''
      else if content_type = ''image/jpeg'' then Some ''jpg''
      else if content_type = ''image/gif'' then Some ''gif''
      else if content_type = ''image/webp'' then Some ''webp''
      else None)"

text \<open>\<open>sha256_hex\<close> is the digest in hexadecimal. The result is the key and the digest.\<close>

definition prepare_upload ::
    "(string \<Rightarrow> string) \<Rightarrow> asset_upload \<Rightarrow> string + string \<times> string" where
  "prepare_upload sha256_hex img =
     bindR (guardR (\<not> (au_bytes img = [] \<or> max_image_bytes < length (au_bytes img)))
       ''image must contain 1 byte through 5 MiB'') (\<lambda>_.
     bindR (ok_or (image_extension (au_content_type img))
       (''unsupported image content type `'' @ au_content_type img @ ''`'')) (\<lambda>extension.
     let sha256 = sha256_hex (au_bytes img) in
     Inr (sha256 @ ''.'' @ extension, sha256)))"

text \<open>\<open>publish\<close> of the local bucket; a content type the match accepts is a header value.\<close>

definition publish_local ::
    "(string \<Rightarrow> string) \<Rightarrow> asset_upload \<Rightarrow> image_bucket \<Rightarrow> string + published_image \<times> image_bucket" where
  "publish_local sha256_hex img b =
     bindR (prepare_upload sha256_hex img) (\<lambda>(key, sha256).
     let stored = \<lparr>si_content_type = au_content_type img, si_bytes = au_bytes img\<rparr>;
         published = \<lparr>pa_url = image_url b key, pa_sha256 = sha256,
                      pa_size = length (au_bytes img)\<rparr> in
     case ib_images b key of
       Some existing \<Rightarrow>
         bindR (guardR (\<not> (si_bytes existing \<noteq> si_bytes stored
             \<or> si_content_type existing \<noteq> si_content_type stored))
           ''content-addressed image key already contains different data'') (\<lambda>_.
         Inr (published, b))
     | None \<Rightarrow> Inr (published, b\<lparr>ib_images := (ib_images b)(key \<mapsto> stored)\<rparr>))"

definition is_hexdigit :: "char \<Rightarrow> bool" where
  "is_hexdigit c \<longleftrightarrow> (let n = byte c in
     48 \<le> n \<and> n \<le> 57 \<or> 65 \<le> n \<and> n \<le> 70 \<or> 97 \<le> n \<and> n \<le> 102)"

definition validate_key :: "string \<Rightarrow> string + unit" where
  "validate_key key =
     bindR (ok_or (rsplit_once CHR ''.'' key) ''image key must include an extension'')
       (\<lambda>(digest, extension).
     guardR (\<not> (length digest \<noteq> 64 \<or> \<not> list_all is_hexdigit digest
         \<or> extension \<notin> set [''png'', ''jpg'', ''gif'', ''webp'']))
       ''invalid content-addressed image key'')"

text \<open>\<open>get_image\<close>: the image, or 404 without a body.\<close>

definition get_image :: "image_bucket \<Rightarrow> string \<Rightarrow> stored_image option" where
  "get_image b key =
     (case validate_key key of Inl _ \<Rightarrow> None | Inr _ \<Rightarrow> ib_images b key)"

text \<open>
  \<open>publish\<close> of the Google Cloud Storage bucket: what the service answers is an argument -
  whether the public URL exists, before the upload and after a failed one, and the upload.
\<close>

definition publicly_exists :: "(nat \<Rightarrow> string) \<Rightarrow> string + nat \<Rightarrow> string + bool" where
  "publicly_exists status_text answer =
     bindR (map_err (\<lambda>e. ''could not check published image: '' @ e) answer) (\<lambda>status.
     if status = 200 then Inr True
     else if status = 404 then Inr False
     else Inl (''public image lookup returned unexpected HTTP status '' @ status_text status))"

definition publish_gcs ::
    "(string \<Rightarrow> string) \<Rightarrow> (nat \<Rightarrow> string) \<Rightarrow> string \<Rightarrow> (nat \<Rightarrow> string \<Rightarrow> string + nat)
     \<Rightarrow> (string \<Rightarrow> string + unit) \<Rightarrow> asset_upload \<Rightarrow> string + published_image" where
  "publish_gcs sha256_hex status_text bucket head_request upload img =
     bindR (prepare_upload sha256_hex img) (\<lambda>(key, sha256).
     let url = ''https://storage.googleapis.com/'' @ bucket @ ''/'' @ key;
         published = \<lparr>pa_url = url, pa_sha256 = sha256, pa_size = length (au_bytes img)\<rparr> in
     bindR (publicly_exists status_text (head_request 0 url)) (\<lambda>exists.
     if exists then Inr published
     else case upload key of
       Inr _ \<Rightarrow> Inr published
     | Inl e \<Rightarrow>
         bindR (publicly_exists status_text (head_request 1 url)) (\<lambda>exists.
         if exists then Inr published
         else Inl (''could not upload img to Google Cloud Storage bucket `'' @ bucket @ ''`: '' @ e))))"

definition is_lower_or_digit :: "char \<Rightarrow> bool" where
  "is_lower_or_digit c \<longleftrightarrow> (let n = byte c in 97 \<le> n \<and> n \<le> 122 \<or> 48 \<le> n \<and> n \<le> 57)"

definition validate_bucket_name :: "string \<Rightarrow> string + unit" where
  "validate_bucket_name v =
     guardR (\<not> (\<not> (3 \<le> length v \<and> length v \<le> 63)
        \<or> \<not> (v \<noteq> [] \<and> is_lower_or_digit (hd v))
        \<or> \<not> (v \<noteq> [] \<and> is_lower_or_digit (last v))
        \<or> \<not> list_all (\<lambda>c. is_lower_or_digit c \<or> c \<in> set ''-_.'') v))
       ''invalid Google Cloud Storage bucket name''"

section \<open>Settings (\<open>lib.rs\<close>)\<close>

datatype image_backend = LocalBackend | GcsBackend

record server_settings =
  vs_max_body_bytes :: nat
  vs_max_concurrent_sse :: nat
  vs_shutdown_grace :: nat
  vs_scheduler :: scheduler_settings
  vs_dispatcher :: dispatcher_settings
  vs_completion :: completion_settings
  vs_wait_expiration :: maintenance_settings
  vs_request_cleanup :: maintenance_settings
  vs_update_retention :: nat
  vs_update_cleanup_poll :: nat
  vs_gateway_connections :: "gateway_connection_config list"
  vs_callback_connections :: "gateway_callback_config list"
  vs_callback_tolerance :: nat
  vs_image_backend :: image_backend
  vs_image_bucket :: "string option"
  vs_image_public_base_url :: string

definition server_settings_default :: server_settings where
  "server_settings_default =
     \<lparr>vs_max_body_bytes = 2 * 1024 * 1024, vs_max_concurrent_sse = 200, vs_shutdown_grace = 30000,
      vs_scheduler = scheduler_default, vs_dispatcher = dispatcher_default,
      vs_completion = completion_default, vs_wait_expiration = wait_expiration_default,
      vs_request_cleanup = request_cleanup_default,
      vs_update_retention = 7 * 24 * 60 * 60 * 1000, vs_update_cleanup_poll = 60000,
      vs_gateway_connections = [], vs_callback_connections = [], vs_callback_tolerance = 300000,
      vs_image_backend = LocalBackend, vs_image_bucket = None,
      vs_image_public_base_url = ''http://127.0.0.1:8080''\<rparr>"

datatype server_error =
    InvalidServiceToken
  | ServerConfiguration string
  | SchemaNotReady
  | ShutdownTimedOut
  | RuntimeStopped
  | ServerScheduler scheduler_error
  | ServerDispatcher dispatcher_error
  | ServerCompletion completion_error
  | ServerWaitExpiration maintenance_error
  | ServerRequestCleanup maintenance_error
  | ServerGateway gateway_config_error
  | ServerStore store_error
  | ServerIo string

text \<open>The libraries the start of the server needs: URLs, header values, the HTTP client.\<close>

record server_libs =
  sl_parse_url :: "string \<Rightarrow> string + url \<times> string option"
  sl_header_ok :: "string \<Rightarrow> bool"
  sl_net :: "gateway_connection_config \<Rightarrow> net option"

text \<open>Each callback connection must be that of a gateway of the same kind.\<close>

definition check_callback ::
    "gateway_connection_config list \<Rightarrow> gateway_callback_config \<Rightarrow> unit \<Rightarrow> server_error + unit" where
  "check_callback connections callback u =
     (case List.find (\<lambda>c. gcc_id c = gbc_id callback) connections of
        None \<Rightarrow>
          Inl (ServerConfiguration ''each callback connection must have a matching gateway connection'')
      | Some c \<Rightarrow>
          guardR (gcc_kind c = gbc_kind callback)
            (ServerConfiguration ''callback and gateway connection kinds must match''))"

text \<open>\<open>chrono\<close> holds a duration of at most \<open>i64::MAX\<close> milliseconds.\<close>

definition validate_settings :: "server_libs \<Rightarrow> server_settings \<Rightarrow> server_error + server_settings" where
  "validate_settings lb st =
     bindR (guardR (vs_max_body_bytes st \<noteq> 0)
       (ServerConfiguration ''maximum request body size must be greater than zero'')) (\<lambda>_.
     bindR (guardR (\<not> (vs_max_concurrent_sse st = 0 \<or> 10000 < vs_max_concurrent_sse st))
       (ServerConfiguration ''maximum concurrent SSE subscriptions must be 1..10000'')) (\<lambda>_.
     bindR (guardR (vs_shutdown_grace st \<noteq> 0)
       (ServerConfiguration ''shutdown grace period must be greater than zero'')) (\<lambda>_.
     bindR (map_err ServerScheduler (validate_scheduler (vs_scheduler st))) (\<lambda>_.
     bindR (map_err ServerDispatcher (validate_dispatcher (vs_dispatcher st))) (\<lambda>_.
     bindR (map_err ServerCompletion (validate_completion (vs_completion st))) (\<lambda>_.
     bindR (map_err ServerWaitExpiration (validate_maintenance (vs_wait_expiration st))) (\<lambda>_.
     bindR (map_err ServerRequestCleanup (validate_maintenance (vs_request_cleanup st))) (\<lambda>_.
     bindR (guardR (\<not> (vs_update_retention st = 0 \<or> vs_update_cleanup_poll st = 0
         \<or> 2 ^ 63 \<le> vs_update_retention st))
       (ServerConfiguration
          ''update retention and cleanup interval must be valid positive durations'')) (\<lambda>_.
     bindR (guardR (vs_callback_tolerance st \<noteq> 0)
       (ServerConfiguration ''callback tolerance must be greater than zero'')) (\<lambda>_.
     bindR (case vs_image_backend st of
         LocalBackend \<Rightarrow>
           map_err (\<lambda>_. ServerConfiguration ''invalid image public base URL'')
             (normalize_public_base_url (sl_parse_url lb) (vs_image_public_base_url st))
       | GcsBackend \<Rightarrow>
           bindR (ok_or (vs_image_bucket st) (ServerConfiguration
             ''Google Cloud Storage image backend requires an image bucket'')) (\<lambda>bucket.
           bindR (map_err (\<lambda>_. ServerConfiguration ''invalid Google Cloud Storage image bucket'')
             (validate_bucket_name bucket)) (\<lambda>_.
           Inr []))) (\<lambda>_.
     bindR (map_err ServerGateway
       (gateways_from_configs (sl_header_ok lb) (sl_net lb) (vs_gateway_connections st))) (\<lambda>_.
     bindR (map_err ServerGateway (callbacks_from_configs (vs_callback_connections st))) (\<lambda>_.
     bindR (foldR (check_callback (vs_gateway_connections st)) (vs_callback_connections st) ()) (\<lambda>_.
     Inr st))))))))))))))"

text \<open>\<open>char::is_whitespace\<close> on ASCII.\<close>

definition validate_service_tokens :: "string list \<Rightarrow> server_error + unit" where
  "validate_service_tokens tokens =
     guardR (\<not> (tokens = [] \<or> list_ex (\<lambda>token. token = [] \<or> list_ex is_whitespace token) tokens))
       InvalidServiceToken"

section \<open>Command line (\<open>config.rs\<close>)\<close>

record serve_args =
  sa_tokens :: "string list"
  sa_max_body_bytes :: nat
  sa_max_concurrent_sse :: nat
  sa_image_backend :: image_backend
  sa_image_bucket :: "string option"
  sa_image_public_base_url :: string
  sa_shutdown_grace_ms :: nat
  sa_scheduler_enabled :: bool
  sa_wait_expiration_enabled :: bool
  sa_wait_expiration_poll_ms :: nat
  sa_wait_expiration_batch_size :: int
  sa_request_cleanup_enabled :: bool
  sa_request_cleanup_poll_ms :: nat
  sa_request_cleanup_batch_size :: int
  sa_update_retention_ms :: nat
  sa_update_cleanup_poll_ms :: nat
  sa_max_concurrent_handlers :: nat
  sa_scheduler_poll_ms :: nat
  sa_handler_lease_ms :: nat
  sa_handler_lease_renewal_ms :: nat
  sa_handler_retry_delays_ms :: "nat list"
  sa_handler_commit_retry_delays_ms :: "nat list"
  sa_infrastructure_retry_delay_ms :: nat
  sa_ownership_loss_grace_ms :: nat
  sa_gateway_connections :: string
  sa_gateway_callbacks :: string
  sa_callback_tolerance_ms :: nat
  sa_max_concurrent_results :: nat
  sa_result_fallback_ms :: nat
  sa_result_retry_ms :: nat
  sa_unmatched_callback_retention_ms :: nat
  sa_dispatcher_enabled :: bool
  sa_max_concurrent_dispatches :: nat
  sa_dispatch_poll_ms :: nat
  sa_operation_lease_ms :: nat
  sa_operation_lease_renewal_ms :: nat
  sa_operation_retry_delays_ms :: "nat list"
  sa_operation_dependency_delay_ms :: nat
  sa_operation_request_retention_ms :: nat
  sa_operation_result_check_delay_ms :: nat

datatype command = Migrate | Serve serve_args

record config =
  cf_database_url :: string
  cf_database_max_connections :: nat
  cf_database_acquire_timeout_ms :: nat
  cf_command :: command

text \<open>The JSON readers of the two lists of connections.\<close>

record config_libs = server_libs +
  kl_connections :: "string \<Rightarrow> gateway_connection_config list option"
  kl_callbacks :: "string \<Rightarrow> gateway_callback_config list option"

definition config_gateway_connections ::
    "config_libs \<Rightarrow> config \<Rightarrow> server_error + gateway_connection_config list" where
  "config_gateway_connections lb c =
     (case cf_command c of
        Migrate \<Rightarrow> Inr []
      | Serve a \<Rightarrow> ok_or (kl_connections lb (sa_gateway_connections a))
          (ServerConfiguration ''gateway connections must be a valid JSON array''))"

definition config_gateway_callbacks ::
    "config_libs \<Rightarrow> config \<Rightarrow> server_error + gateway_callback_config list" where
  "config_gateway_callbacks lb c =
     (case cf_command c of
        Migrate \<Rightarrow> Inr []
      | Serve a \<Rightarrow> ok_or (kl_callbacks lb (sa_gateway_callbacks a))
          (ServerConfiguration ''gateway callbacks must be a valid JSON array''))"

text \<open>
  \<open>server_settings\<close>: \<open>None\<close> outside the serve command; the inner \<open>None\<close> is the panic of the two
  \<open>expect\<close>s on connection lists that are not valid.
\<close>

definition server_settings :: "config_libs \<Rightarrow> config \<Rightarrow> server_settings option option" where
  "server_settings lb c =
     (case cf_command c of
        Migrate \<Rightarrow> None
      | Serve a \<Rightarrow> Some
          (Option.bind (kl_connections lb (sa_gateway_connections a)) (\<lambda>connections.
           Option.bind (kl_callbacks lb (sa_gateway_callbacks a)) (\<lambda>callbacks.
           Some \<lparr>vs_max_body_bytes = sa_max_body_bytes a,
             vs_max_concurrent_sse = sa_max_concurrent_sse a,
             vs_shutdown_grace = sa_shutdown_grace_ms a,
             vs_scheduler =
               \<lparr>ss_enabled = sa_scheduler_enabled a,
                ss_max_concurrent_handlers = sa_max_concurrent_handlers a,
                ss_poll_interval = sa_scheduler_poll_ms a,
                ss_lease_duration = sa_handler_lease_ms a,
                ss_lease_renewal_interval = sa_handler_lease_renewal_ms a,
                ss_retry_delays = sa_handler_retry_delays_ms a,
                ss_commit_retry_delays = sa_handler_commit_retry_delays_ms a,
                ss_infrastructure_retry_delay = sa_infrastructure_retry_delay_ms a,
                ss_ownership_loss_grace = sa_ownership_loss_grace_ms a,
                ss_shutdown_grace = sa_shutdown_grace_ms a\<rparr>,
             vs_dispatcher =
               \<lparr>ds_enabled = sa_dispatcher_enabled a,
                ds_max_concurrent_dispatches = sa_max_concurrent_dispatches a,
                ds_poll_interval = sa_dispatch_poll_ms a,
                ds_lease_duration = sa_operation_lease_ms a,
                ds_lease_renewal_interval = sa_operation_lease_renewal_ms a,
                ds_retry_delays = sa_operation_retry_delays_ms a,
                ds_dependency_delay = sa_operation_dependency_delay_ms a,
                ds_request_retention = sa_operation_request_retention_ms a,
                ds_result_check_delay = sa_operation_result_check_delay_ms a,
                ds_shutdown_grace = sa_shutdown_grace_ms a\<rparr>,
             vs_completion = completion_default
               \<lparr>cs_max_concurrent_results := sa_max_concurrent_results a,
                cs_poll_interval := sa_dispatch_poll_ms a,
                cs_lease_duration := sa_operation_lease_ms a,
                cs_lease_renewal_interval := sa_operation_lease_renewal_ms a,
                cs_fallback_interval := sa_result_fallback_ms a,
                cs_retry_delay := sa_result_retry_ms a,
                cs_unmatched_retention := sa_unmatched_callback_retention_ms a,
                cs_request_retention := sa_operation_request_retention_ms a,
                cs_infrastructure_retry_delay := sa_infrastructure_retry_delay_ms a,
                cs_shutdown_grace := sa_shutdown_grace_ms a\<rparr>,
             vs_wait_expiration =
               \<lparr>ms_enabled = sa_wait_expiration_enabled a,
                ms_poll_interval = sa_wait_expiration_poll_ms a,
                ms_batch_size = sa_wait_expiration_batch_size a\<rparr>,
             vs_request_cleanup =
               \<lparr>ms_enabled = sa_request_cleanup_enabled a,
                ms_poll_interval = sa_request_cleanup_poll_ms a,
                ms_batch_size = sa_request_cleanup_batch_size a\<rparr>,
             vs_update_retention = sa_update_retention_ms a,
             vs_update_cleanup_poll = sa_update_cleanup_poll_ms a,
             vs_gateway_connections = connections, vs_callback_connections = callbacks,
             vs_callback_tolerance = sa_callback_tolerance_ms a,
             vs_image_backend = sa_image_backend a, vs_image_bucket = sa_image_bucket a,
             vs_image_public_base_url = sa_image_public_base_url a\<rparr>))))"

text \<open>\<open>Config::validate\<close>: a panic would be \<open>Inl None\<close>.\<close>

definition validate_command :: "config_libs \<Rightarrow> config \<Rightarrow> server_error option + unit" where
  "validate_command lb c =
     bindR (guardR (cf_database_url c \<noteq> [])
       (Some (ServerConfiguration ''database URL must not be empty''))) (\<lambda>_.
     bindR (guardR (cf_database_max_connections c \<noteq> 0)
       (Some (ServerConfiguration ''database maximum connections must be greater than zero''))) (\<lambda>_.
     bindR (guardR (cf_database_acquire_timeout_ms c \<noteq> 0)
       (Some (ServerConfiguration ''database acquire timeout must be greater than zero''))) (\<lambda>_.
     case cf_command c of
       Migrate \<Rightarrow> Inr ()
     | Serve a \<Rightarrow>
         bindR (map_err Some (validate_service_tokens (sa_tokens a))) (\<lambda>_.
         bindR (map_err Some (config_gateway_connections lb c)) (\<lambda>_.
         bindR (map_err Some (config_gateway_callbacks lb c)) (\<lambda>_.
         bindR (ok_or (Option.bind (server_settings lb c) (\<lambda>st. st)) None) (\<lambda>st.
         bindR (map_err Some (validate_settings (server_libs.truncate lb) st)) (\<lambda>_. Inr ()))))))))"

section \<open>Start and stop (\<open>lib.rs\<close>)\<close>

text \<open>
  \<open>serve_with_shutdown_and_asset_publisher\<close> up to the listener: \<open>schema_ready\<close> and \<open>bind\<close> are
  what the store and the operating system answer.
\<close>

definition start_server ::
    "server_libs \<Rightarrow> store_error + bool \<Rightarrow> string + unit \<Rightarrow> string list \<Rightarrow> server_settings
     \<Rightarrow> server_error + server_settings" where
  "start_server lb schema_ready bind_listener tokens st =
     bindR (validate_service_tokens tokens) (\<lambda>_.
     bindR (validate_settings lb st) (\<lambda>st.
     bindR (map_err ServerStore schema_ready) (\<lambda>ready.
     bindR (guardR ready SchemaNotReady) (\<lambda>_.
     bindR (map_err ServerIo bind_listener) (\<lambda>_. Inr st)))))"

text \<open>
  The end of \<open>run_listener\<close>: what finished first, and what the others did within the grace
  period (\<open>None\<close> if they did not finish).
\<close>

datatype first_end =
    ShutdownRequested "((string + unit) \<times> (server_error + unit)) option"
  | RuntimeEnded "server_error + unit" "(string + unit) option"
  | HttpEnded "string + unit" "(server_error + unit) option"

fun server_result :: "first_end \<Rightarrow> server_error + unit" where
  "server_result (ShutdownRequested ended) =
     (case ended of
        None \<Rightarrow> Inl ShutdownTimedOut
      | Some (server, runtime) \<Rightarrow> bindR (map_err ServerIo server) (\<lambda>_. runtime))"
| "server_result (RuntimeEnded result ended) =
     bindR (ok_or ended ShutdownTimedOut) (\<lambda>server.
     case result of
       Inl e \<Rightarrow> Inl e
     | Inr _ \<Rightarrow> bindR (map_err ServerIo server) (\<lambda>_. Inl RuntimeStopped))"
| "server_result (HttpEnded result ended) =
     bindR (ok_or ended ShutdownTimedOut) (\<lambda>runtime.
     bindR runtime (\<lambda>_. map_err ServerIo result))"

text \<open>One turn of \<open>run_update_cleanup\<close>: the error is only logged.\<close>

definition update_cleanup_turn ::
    "(nat \<Rightarrow> env) \<Rightarrow> time \<Rightarrow> nat \<Rightarrow> db \<Rightarrow> db" where
  "update_cleanup_turn envs now retention db =
     snd (prune_updates envs (add_millis now (- int retention)) 100 db)"

end
