(* ===== verification/Host.thy ===== *)
theory Host
  imports Codex Server
begin

text \<open>
  The process around the server: the entry point (\<open>main.rs\<close>), the ways to start
  (\<open>apps/agent-server/src/lib.rs\<close>), the check of the schema (\<open>schema_ready\<close> of \<open>store.rs\<close>), the
  assembly of the runtime, the task that turns PostgreSQL notifications into wakeups, and the
  middleware that gives every request its identifier (\<open>routes/request.rs\<close>).
\<close>

lemma map_err_Inr: "map_err f r = Inr x \<longleftrightarrow> r = Inr x"
  by (cases r) (simp_all add: map_err_def)

section \<open>The schema (\<open>schema_ready\<close>)\<close>

record migration =
  mg_version :: int
  mg_checksum :: string

text \<open>A row of \<open>_sqlx_migrations\<close>.\<close>

record applied_migration =
  am_version :: int
  am_checksum :: string
  am_success :: bool

definition schema_tables :: "string list" where
  "schema_tables = [''sessions'', ''session_events'', ''session_event_attempts'', ''session_history'',
     ''session_operations'', ''session_operation_requests'', ''session_operation_attempts'',
     ''session_waits'', ''gateway_callback_receipts'', ''session_processing_retries'',
     ''session_updates'', ''_sqlx_migrations'']"

fun migrations_match :: "applied_migration list \<Rightarrow> migration list \<Rightarrow> bool" where
  "migrations_match (row # rows) (m # ms) =
     (if am_version row \<noteq> mg_version m \<or> am_checksum row \<noteq> mg_checksum m \<or> \<not> am_success row
      then False else migrations_match rows ms)"
| "migrations_match _ _ = True"

definition schema_ready ::
    "migration list \<Rightarrow> (string \<Rightarrow> bool) \<Rightarrow> applied_migration list \<Rightarrow> bool" where
  "schema_ready migrator table_exists applied =
     (if \<not> list_all table_exists schema_tables then False
      else if length applied \<noteq> length migrator then False
      else migrations_match applied migrator)"

text \<open>Ready means exactly the migrations of this binary, in order, all of them successful.\<close>

lemma migrations_match_exact:
  "length applied = length ms \<Longrightarrow> migrations_match applied ms \<longleftrightarrow>
     applied = map (\<lambda>m. \<lparr>am_version = mg_version m, am_checksum = mg_checksum m, am_success = True\<rparr>) ms"
  by (induction applied ms rule: migrations_match.induct) auto

lemma schema_ready_exact:
  "schema_ready ms table_exists applied \<longleftrightarrow> list_all table_exists schema_tables
     \<and> applied = map (\<lambda>m. \<lparr>am_version = mg_version m, am_checksum = mg_checksum m, am_success = True\<rparr>) ms"
  using migrations_match_exact [of applied ms] by (auto simp: schema_ready_def)

section \<open>Ways to start\<close>

text \<open>
  \<open>AssetPublishing\<close> has the publisher handlers use and the bucket the public route serves from. The
  publisher is named by its backend here: what the buckets do is in \<open>Server\<close>.
\<close>

record asset_publishing =
  ap_publisher :: image_backend
  ap_local_bucket :: "image_bucket option"

definition local_bucket :: "server_libs \<Rightarrow> server_settings \<Rightarrow> server_error + image_bucket" where
  "local_bucket lb st =
     map_err (\<lambda>_. ServerConfiguration ''invalid image public base URL'')
       (bucket_new (sl_parse_url lb) (vs_image_public_base_url st))"

definition local_publishing :: "image_bucket \<Rightarrow> asset_publishing" where
  "local_publishing b = \<lparr>ap_publisher = LocalBackend, ap_local_bucket = Some b\<rparr>"

text \<open>
  What the world answers at the start: whether the schema is ready, and whether the address can be
  bound. A start that succeeds hands its settings and publishing to \<open>run_listener\<close>.
\<close>

definition serve_publishing ::
    "server_libs \<Rightarrow> store_error + bool \<Rightarrow> string + unit \<Rightarrow> string list \<Rightarrow> server_settings
     \<Rightarrow> asset_publishing \<Rightarrow> server_error + server_settings \<times> asset_publishing" where
  "serve_publishing lb ready bind_listener tokens st publishing =
     bindR (start_server lb ready bind_listener tokens st) (\<lambda>st. Inr (st, publishing))"

definition serve ::
    "server_libs \<Rightarrow> store_error + bool \<Rightarrow> string + unit \<Rightarrow> string list \<Rightarrow> server_settings
     \<Rightarrow> server_error + server_settings \<times> asset_publishing" where
  "serve lb ready bind_listener tokens st =
     bindR (local_bucket lb st) (\<lambda>b.
     serve_publishing lb ready bind_listener tokens st (local_publishing b))"

definition serve_with_image_bucket ::
    "server_libs \<Rightarrow> store_error + bool \<Rightarrow> string + unit \<Rightarrow> string list \<Rightarrow> server_settings
     \<Rightarrow> image_bucket \<Rightarrow> server_error + server_settings \<times> asset_publishing" where
  "serve_with_image_bucket lb ready bind_listener tokens st b =
     serve_publishing lb ready bind_listener tokens st (local_publishing b)"

definition serve_with_asset_publisher ::
    "server_libs \<Rightarrow> store_error + bool \<Rightarrow> string + unit \<Rightarrow> string list \<Rightarrow> server_settings
     \<Rightarrow> image_backend \<Rightarrow> image_bucket option \<Rightarrow> server_error + server_settings \<times> asset_publishing" where
  "serve_with_asset_publisher lb ready bind_listener tokens st publisher bucket =
     serve_publishing lb ready bind_listener tokens st
       \<lparr>ap_publisher = publisher, ap_local_bucket = bucket\<rparr>"

definition serve_with_shutdown ::
    "server_libs \<Rightarrow> store_error + bool \<Rightarrow> string + unit \<Rightarrow> string list \<Rightarrow> server_settings
     \<Rightarrow> server_error + server_settings \<times> asset_publishing" where
  "serve_with_shutdown lb ready bind_listener tokens st =
     bindR (local_bucket lb st) (\<lambda>b.
     serve_publishing lb ready bind_listener tokens st (local_publishing b))"

text \<open>On a listener that exists already nothing is bound.\<close>

definition serve_on_listener ::
    "server_libs \<Rightarrow> store_error + bool \<Rightarrow> string list \<Rightarrow> server_settings
     \<Rightarrow> server_error + server_settings \<times> asset_publishing" where
  "serve_on_listener lb ready tokens st =
     bindR (local_bucket lb st) (\<lambda>b.
     bindR (validate_service_tokens tokens) (\<lambda>_.
     bindR (validate_settings lb st) (\<lambda>st.
     bindR (map_err ServerStore ready) (\<lambda>ready.
     bindR (guardR ready SchemaNotReady) (\<lambda>_.
     Inr (st, local_publishing b))))))"

section \<open>Assembling the runtime (\<open>run_listener\<close>)\<close>

text \<open>The constructors check their settings again, in this order.\<close>

definition assemble :: "server_libs \<Rightarrow> server_settings \<Rightarrow> server_error + gateway_registry" where
  "assemble lb st =
     bindR (map_err ServerScheduler (validate_scheduler (vs_scheduler st))) (\<lambda>_.
     bindR (map_err ServerGateway
       (gateways_from_configs (sl_header_ok lb) (sl_net lb) (vs_gateway_connections st))) (\<lambda>gateways.
     bindR (map_err ServerDispatcher (validate_dispatcher (vs_dispatcher st))) (\<lambda>_.
     bindR (map_err ServerCompletion (validate_completion (vs_completion st))) (\<lambda>_.
     bindR (map_err ServerWaitExpiration (validate_maintenance (vs_wait_expiration st))) (\<lambda>_.
     bindR (map_err ServerRequestCleanup (validate_maintenance (vs_request_cleanup st))) (\<lambda>_.
     Inr gateways))))))"

text \<open>\<open>try_join!\<close>: the first task that ends with an error ends them all.\<close>

definition try_join :: "('e + unit) list \<Rightarrow> 'e + unit" where
  "try_join ended = foldR (\<lambda>r _. r) ended ()"

lemma validate_settings_Inr:
  assumes "validate_settings lb st = Inr st'"
  shows "st' = st" and "\<exists>gateways. assemble lb st = Inr gateways"
  using assms by (auto simp: validate_settings_def assemble_def result_simps)

text \<open>A server that has started can be assembled: no check of the runtime fails after the start.\<close>

theorem started_servers_assemble:
  assumes "serve_publishing lb ready bind_listener tokens st publishing = Inr (st', publishing')"
  shows "st' = st \<and> publishing' = publishing \<and> ready = Inr True \<and> bind_listener = Inr ()
    \<and> (\<exists>gateways. assemble lb st = Inr gateways)"
proof -
  have start: "start_server lb ready bind_listener tokens st = Inr st'" and "publishing' = publishing"
    using assms by (auto simp: serve_publishing_def result_simps)
  moreover obtain st1 where valid: "validate_settings lb st = Inr st1" and "st' = st1"
    and "map_err ServerStore ready = Inr True" and "map_err ServerIo bind_listener = Inr ()"
    using start by (auto simp: start_server_def result_simps)
  moreover have "ready = Inr True" "bind_listener = Inr ()"
    using calculation by (simp_all add: map_err_Inr)
  ultimately show ?thesis using validate_settings_Inr [OF valid] by simp
qed

lemma try_join_error: "try_join rs = Inl e \<Longrightarrow> Inl e \<in> set rs"
  by (induction rs) (auto simp: try_join_def bindR_def split: sum.splits)

section \<open>Notifications become wakeups (\<open>run_work_notifications\<close>)\<close>

definition operation_ready_channel :: string where
  "operation_ready_channel = ''agent_platform_operation_ready''"

definition callback_ready_channel :: string where
  "callback_ready_channel = ''agent_platform_callback_ready''"

datatype listener_point =
    Connecting | ListeningOperations | ListeningCallbacks | Receiving | Pausing | ListenerDone

text \<open>The stop token is seen; the database call under way succeeds or fails; a notification
  arrives on a channel; the pause of a second is over.\<close>

datatype listener_event = ListenerStopped | CallSucceeded | CallFailed | Received string | PauseOver

record listener =
  ln_at :: listener_point
  ln_operation_work :: generation
  ln_callback_work :: generation

definition received :: "string \<Rightarrow> listener \<Rightarrow> listener" where
  "received channel ln =
     (if channel = operation_ready_channel
      then ln\<lparr>ln_operation_work := notify (ln_operation_work ln)\<rparr>
      else if channel = callback_ready_channel
      then ln\<lparr>ln_callback_work := notify (ln_callback_work ln)\<rparr>
      else ln)"

text \<open>The calls before the inner loop are not interrupted by the stop token; the pauses are.\<close>

definition listener_step :: "listener_event \<Rightarrow> listener \<Rightarrow> listener option" where
  "listener_step ev ln =
     (case (ln_at ln, ev) of
        (Connecting, CallSucceeded) \<Rightarrow> Some (ln\<lparr>ln_at := ListeningOperations\<rparr>)
      | (Connecting, CallFailed) \<Rightarrow> Some (ln\<lparr>ln_at := Pausing\<rparr>)
      | (ListeningOperations, CallSucceeded) \<Rightarrow> Some (ln\<lparr>ln_at := ListeningCallbacks\<rparr>)
      | (ListeningOperations, CallFailed) \<Rightarrow> Some (ln\<lparr>ln_at := Pausing\<rparr>)
      | (ListeningCallbacks, CallSucceeded) \<Rightarrow> Some (ln\<lparr>ln_at := Receiving\<rparr>)
      | (ListeningCallbacks, CallFailed) \<Rightarrow> Some (ln\<lparr>ln_at := Pausing\<rparr>)
      | (Pausing, PauseOver) \<Rightarrow> Some (ln\<lparr>ln_at := Connecting\<rparr>)
      | (Pausing, ListenerStopped) \<Rightarrow> Some (ln\<lparr>ln_at := ListenerDone\<rparr>)
      | (Receiving, Received channel) \<Rightarrow> Some (received channel ln)
      | (Receiving, CallFailed) \<Rightarrow> Some (ln\<lparr>ln_at := Connecting\<rparr>)
      | (Receiving, ListenerStopped) \<Rightarrow> Some (ln\<lparr>ln_at := ListenerDone\<rparr>)
      | _ \<Rightarrow> None)"

fun listener_run :: "listener_event list \<Rightarrow> listener \<Rightarrow> listener option" where
  "listener_run [] ln = Some ln"
| "listener_run (ev # evs) ln = Option.bind (listener_step ev ln) (listener_run evs)"

text \<open>
  Each signal counts the notifications of its own channel, and a listener that has not been stopped
  gets back to receiving whatever has failed.
\<close>

lemma listener_step_counts:
  assumes "listener_step ev ln = Some ln'"
  shows "ln_operation_work ln' = ln_operation_work ln
       + (if ev = Received operation_ready_channel then 1 else 0)"
    and "ln_callback_work ln' = ln_callback_work ln
       + (if ev = Received callback_ready_channel then 1 else 0)"
  using assms
  by (auto simp: listener_step_def received_def notify_def operation_ready_channel_def
      callback_ready_channel_def split: listener_point.splits listener_event.splits if_splits)

theorem listener_counts:
  "listener_run evs ln = Some ln' \<Longrightarrow>
     ln_operation_work ln' = ln_operation_work ln
       + of_nat (length (filter (\<lambda>ev. ev = Received operation_ready_channel) evs))
     \<and> ln_callback_work ln' = ln_callback_work ln
       + of_nat (length (filter (\<lambda>ev. ev = Received callback_ready_channel) evs))"
proof (induction evs arbitrary: ln)
  case (Cons ev evs)
  then obtain m where m: "listener_step ev ln = Some m" "listener_run evs m = Some ln'"
    by (auto simp: bind_eq_Some_conv)
  from Cons.IH [OF m(2)] listener_step_counts [OF m(1)] show ?case by (auto simp: algebra_simps)
qed simp

lemma listener_recovers:
  assumes "ln_at ln \<noteq> ListenerDone"
  shows "\<exists>evs ln'. ListenerStopped \<notin> set evs \<and> listener_run evs ln = Some ln' \<and> ln_at ln' = Receiving"
proof (cases "ln_at ln")
  case Connecting
  then show ?thesis
    by (intro exI [of _ "[CallSucceeded, CallSucceeded, CallSucceeded]"]) (simp add: listener_step_def)
next
  case ListeningOperations
  then show ?thesis
    by (intro exI [of _ "[CallSucceeded, CallSucceeded]"]) (simp add: listener_step_def)
next
  case ListeningCallbacks
  then show ?thesis by (intro exI [of _ "[CallSucceeded]"]) (simp add: listener_step_def)
next
  case Receiving
  then show ?thesis by (intro exI [of _ "[]"]) simp
next
  case Pausing
  then show ?thesis
    by (intro exI [of _ "[PauseOver, CallSucceeded, CallSucceeded, CallSucceeded]"])
      (simp add: listener_step_def)
qed (use assms in simp)

section \<open>The request's identifier (\<open>request.rs\<close>)\<close>

text \<open>
  The middleware draws an identifier, runs the handler with it (\<open>request_id\<close> reads it from the task),
  and puts it into a response header.
\<close>

definition request_context :: "(uuid \<Rightarrow> string) \<Rightarrow> uuid \<Rightarrow> (uuid \<Rightarrow> 'r) \<Rightarrow> 'r \<times> (string \<times> string)" where
  "request_context uuid_text drawn handler = (handler drawn, (''x-request-id'', uuid_text drawn))"

text \<open>An error's body and the header of its response carry the same identifier.\<close>

lemma error_names_its_request:
  "request_context uuid_text drawn (\<lambda>i. error_into_response i e) = (reply, header) \<Longrightarrow>
     header = (''x-request-id'', uuid_text (er_request_id reply))"
  by (auto simp: request_context_def error_into_response_def)

section \<open>The entry point (\<open>main.rs\<close>)\<close>

text \<open>
  \<open>build_registry\<close>: the connections' names come from the environment, with defaults. The TLS
  provider and the subscriber of the trace, which \<open>main\<close> installs first, are left out.
\<close>

definition build_registry ::
    "string option \<Rightarrow> string option \<Rightarrow> (codex_harness \<Rightarrow> ('c, 's) typed_harness)
     \<Rightarrow> (construction_error \<Rightarrow> string) \<Rightarrow> string + unit \<Rightarrow> runtime_error + registry" where
  "build_registry llm exec typed error_text schema =
     bindR (map_err (\<lambda>e. InvalidConfiguration (error_text e))
       (new_harness (unwrap_or ''llm-primary'' llm) (unwrap_or ''execution-primary'' exec))) (\<lambda>h.
     register schema (adapter (typed h)) [])"

datatype main_error =
    MainConfig server_error
  | MainConnect store_error
  | MainMigration string
  | MainRegistry runtime_error
  | MainBucket string
  | MainServer server_error
  | MainPanic

datatype main_end = Migrated | Served server_settings asset_publishing

record main_world =
  mn_connect :: "store_error + unit"
  mn_migrate :: "string + unit"
  mn_registry :: "runtime_error + registry"
  mn_gcs_bucket :: "string \<Rightarrow> string + unit"
  mn_schema_ready :: "store_error + bool"
  mn_bind :: "string + unit"

definition main :: "config_libs \<Rightarrow> main_world \<Rightarrow> config \<Rightarrow> main_error + main_end" where
  "main lb mn c =
     bindR (map_err (\<lambda>e. case e of None \<Rightarrow> MainPanic | Some e \<Rightarrow> MainConfig e) (validate_command lb c)) (\<lambda>_.
     bindR (map_err MainConnect (mn_connect mn)) (\<lambda>_.
     case cf_command c of
       Migrate \<Rightarrow> bindR (map_err MainMigration (mn_migrate mn)) (\<lambda>_. Inr Migrated)
     | Serve a \<Rightarrow>
         bindR (ok_or (Option.bind (server_settings lb c) (\<lambda>st. st)) MainPanic) (\<lambda>st.
         bindR (map_err MainRegistry (mn_registry mn)) (\<lambda>_.
         let start = (\<lambda>publisher bucket.
           bindR (map_err MainServer (serve_with_asset_publisher (server_libs.truncate lb)
             (mn_schema_ready mn) (mn_bind mn) (sa_tokens a) st publisher bucket))
             (\<lambda>(st, publishing). Inr (Served st publishing))) in
         case vs_image_backend st of
           LocalBackend \<Rightarrow>
             bindR (map_err MainBucket (bucket_new (sl_parse_url lb) (vs_image_public_base_url st)))
               (\<lambda>b. start LocalBackend (Some b))
         | GcsBackend \<Rightarrow>
             bindR (ok_or (vs_image_bucket st) MainPanic) (\<lambda>bucket.
             bindR (map_err MainBucket (mn_gcs_bucket mn bucket)) (\<lambda>_.
             start GcsBackend None))))))"

text \<open>The two \<open>expect\<close>s of \<open>main\<close> never fire: a configuration that validates has its settings, and its
  bucket when it asks for Google Cloud Storage.\<close>

lemma main_never_panics:
  assumes "validate_command lb c \<noteq> Inl None"
  shows "main lb mn c \<noteq> Inl MainPanic"
proof (cases "validate_command lb c")
  case (Inl e)
  with assms show ?thesis by (cases e) (auto simp: main_def map_err_def)
next
  case (Inr u)
  note valid = Inr
  show ?thesis
  proof (cases "cf_command c")
    case Migrate
    with valid show ?thesis
      by (auto simp: main_def map_err_def bindR_def split: sum.splits)
  next
    case (Serve a)
    from valid Serve obtain st st' where st: "Option.bind (server_settings lb c) (\<lambda>st. st) = Some st"
      and ok: "validate_settings (server_libs.truncate lb) st = Inr st'"
      by (auto simp: validate_command_def result_simps map_err_Inr)
    have bucket: "vs_image_backend st = GcsBackend \<Longrightarrow> vs_image_bucket st \<noteq> None"
      using ok by (auto simp: validate_settings_def result_simps)
    show ?thesis
      using valid st Serve bucket
      by (auto simp: main_def map_err_def bindR_def ok_or_def Let_def
          split: sum.splits image_backend.splits option.splits)
  qed
qed

end
