(* ===== verification/Routes.thy ===== *)
theory Routes
  imports Server
begin

text \<open>
  The routes of the HTTP application (\<open>apps/agent-server/src/routes\<close>): what each of them reads
  from a request, the store calls it makes and what it answers. A handler is a program of
  \<open>Workers\<close>: between two of its store calls other transactions may run. What \<open>axum\<close> and \<open>serde\<close>
  extract - path segments, the typed query, the typed body - is an argument, as is a rejection.
\<close>

section \<open>Extraction\<close>

record json_rejection =
  jr_status :: nat
  jr_body_text :: string

record create_session_body =
  cb_id :: uuid
  cb_project_id :: string
  cb_harness_id :: string
  cb_harness_version :: string
  cb_configuration :: raw_json
  cb_name :: "string option"
  cb_metadata :: json

record list_sessions_query =
  lq_project_id :: "string option"
  lq_status :: "session_status option"
  lq_harness_id :: "string option"
  lq_cursor :: "string option"
  lq_limit :: "int option"

datatype 'a patch_field = Missing | Null | Given 'a

record patch_session_body =
  pb_name :: "string patch_field"
  pb_metadata :: "json patch_field"

record retry_body =
  rb_expected_event_id :: uuid
  rb_expected_processing_revision :: int
  rb_reason :: "string option"

record list_waits_query =
  wq_status :: "wait_status option"
  wq_cursor :: "string option"
  wq_limit :: "int option"

record history_query =
  hq_after_sequence :: "int option"
  hq_through_sequence :: "int option"
  hq_limit :: "int option"
  hq_source_event_id :: "uuid option"

record update_query =
  uq_after_sequence :: "int option"
  uq_through_sequence :: "int option"
  uq_limit :: "int option"

record list_operations_query =
  oq_cursor :: "string option"
  oq_limit :: "int option"
  oq_kind :: "operation_kind option"
  oq_status :: "string option"
  oq_source_event_id :: "uuid option"

record list_events_query =
  eq_after_sequence :: "int option"
  eq_limit :: "int option"
  eq_status :: "string option"

record list_attempts_query =
  aq_after_attempt :: "int option"
  aq_limit :: "int option"

text \<open>
  The libraries: UUIDs, URL-safe base64, the JSON of a cursor, of raw bodies and of messages, URLs
  (scheme, and whether there is a host), JSON Schema validators, UTF-8, and printers.
\<close>

record api_libs = callback_libs +
  lb_uuid_text :: "uuid \<Rightarrow> string"
  lb_base64_decode :: "string \<Rightarrow> string option"
  lb_base64_encode :: "string \<Rightarrow> string"
  lb_cursor :: "string \<Rightarrow> (time \<times> uuid) option"
  lb_cursor_json :: "time \<times> uuid \<Rightarrow> string option"
  lb_value :: "raw_json \<Rightarrow> json option"
  lb_raw :: "string \<Rightarrow> raw_json option"
  lb_utf8 :: "string \<Rightarrow> bool"
  lb_message_input :: "raw_json \<Rightarrow> string + raw_json"
  lb_message :: "raw_json \<Rightarrow> message option"
  lb_cancellation_input :: "raw_json \<Rightarrow> string + unit"
  lb_resolve_input :: "raw_json \<Rightarrow> string + raw_json"
  lb_retry_input :: "raw_json \<Rightarrow> string + retry_body"
  lb_url :: "string \<Rightarrow> (string \<times> bool) option"
  lb_schema :: "json \<Rightarrow> (json \<Rightarrow> bool) option"
  lb_update_json :: "update_row \<Rightarrow> string option"
  lb_millis_text :: "64 word \<Rightarrow> string"
  lb_age_text :: "time \<Rightarrow> string"

definition json_rejection :: "json_rejection \<Rightarrow> api_error" where
  "json_rejection e =
     (let (status, code) =
        (if jr_status e = 415 then (415, ''unsupported_media_type'')
         else if jr_status e = 413 then (413, ''payload_too_large'')
         else (400, ''invalid_json'')) in
      api_error_new status code (jr_body_text e))"

definition parse_session_id :: "api_libs \<Rightarrow> string \<Rightarrow> api_error + session_id" where
  "parse_session_id lb v = ok_or (cl_uuid lb v) (bad_request ''session_id must be a UUID'')"

definition parse_wait_id :: "api_libs \<Rightarrow> string \<Rightarrow> api_error + wait_id" where
  "parse_wait_id lb v = ok_or (cl_uuid lb v) (bad_request ''wait_id must be a UUID'')"

definition parse_labelled :: "api_libs \<Rightarrow> string \<Rightarrow> string \<Rightarrow> api_error + uuid" where
  "parse_labelled lb raw label =
     ok_or (cl_uuid lb raw) (bad_request (''invalid '' @ label @ '' ID''))"

text \<open>The path of a session, and that of something in a session.\<close>

definition session_path :: "api_libs \<Rightarrow> string + string \<Rightarrow> api_error + session_id" where
  "session_path lb path = bindR (map_err bad_request path) (parse_session_id lb)"

definition item_path ::
    "api_libs \<Rightarrow> (string \<Rightarrow> api_error + uuid) \<Rightarrow> string + string \<times> string
     \<Rightarrow> api_error + session_id \<times> uuid" where
  "item_path lb parse path =
     bindR (map_err bad_request path) (\<lambda>(raw, item).
     bindR (parse_session_id lb raw) (\<lambda>sid.
     bindR (parse item) (\<lambda>i. Inr (sid, i))))"

definition validate_text :: "string \<Rightarrow> string \<Rightarrow> nat \<Rightarrow> api_error + unit" where
  "validate_text field v maximum =
     guardR (\<not> (v = [] \<or> maximum < length v))
       (bad_request (field @ '' must contain between 1 and '' @ decimal maximum @ '' bytes''))"

definition validate_optional_text :: "string \<Rightarrow> string \<Rightarrow> nat \<Rightarrow> api_error + unit" where
  "validate_optional_text field v maximum =
     guardR (length v \<le> maximum)
       (bad_request (field @ '' must contain at most '' @ decimal maximum @ '' bytes''))"

fun is_object :: "json \<Rightarrow> bool" where
  "is_object (JObject _) = True"
| "is_object _ = False"

definition validate_metadata :: "json \<Rightarrow> api_error + unit" where
  "validate_metadata v = guardR (is_object v) (bad_request ''metadata must be an object'')"

text \<open>The cursors of pages: base64 of a JSON object.\<close>

definition decode_cursor :: "api_libs \<Rightarrow> string \<Rightarrow> string \<Rightarrow> api_error + time \<times> uuid" where
  "decode_cursor lb message v =
     bindR (ok_or (lb_base64_decode lb v) (bad_request message)) (\<lambda>bytes.
     ok_or (lb_cursor lb bytes) (bad_request message))"

definition encode_cursor :: "api_libs \<Rightarrow> api_error \<Rightarrow> time \<times> uuid \<Rightarrow> api_error + string" where
  "encode_cursor lb e c =
     bindR (ok_or (lb_cursor_json lb c) e) (\<lambda>bytes. Inr (lb_base64_encode lb bytes))"

text \<open>\<open>option.map(f).transpose()?\<close>\<close>

definition transpose :: "('a \<Rightarrow> 'e + 'b) \<Rightarrow> 'a option \<Rightarrow> 'e + 'b option" where
  "transpose f x = (case x of None \<Rightarrow> Inr None | Some v \<Rightarrow> bindR (f v) (\<lambda>y. Inr (Some y)))"

definition max_idempotency_key_bytes :: nat where
  "max_idempotency_key_bytes = 200"

definition idempotency_key :: "headers \<Rightarrow> api_error + string" where
  "idempotency_key headers =
     bindR (ok_or (headers ''idempotency-key'')
       (bad_request ''Idempotency-Key header is required'')) (\<lambda>v.
     bindR (ok_or v (bad_request ''Idempotency-Key header is invalid'')) (\<lambda>key.
     bindR (guardR (\<not> (key = [] \<or> max_idempotency_key_bytes < length key
         \<or> list_ex is_whitespace key))
       (bad_request (''Idempotency-Key must contain 1 to '' @ decimal max_idempotency_key_bytes
          @ '' bytes without whitespace''))) (\<lambda>_.
     Inr key)))"

section \<open>Calls\<close>

text \<open>\<open>?\<close> on a result that needs no call, and on a store call.\<close>

definition pureS :: "'e + 'a \<Rightarrow> (job, 'e + 'a) state" where
  "pureS r = State_Monad.return r"

definition store_call ::
    "world \<Rightarrow> api_libs \<Rightarrow> (env \<Rightarrow> db \<Rightarrow> store_error + 'a \<times> db) \<Rightarrow> (job, api_error + 'a) state" where
  "store_call w lb f = State_Monad.bind (call w f)
     (\<lambda>r. State_Monad.return (map_err (api_of_store (lb_uuid_text lb)) r))"

definition store_query ::
    "world \<Rightarrow> api_libs \<Rightarrow> (db \<Rightarrow> store_error + 'a) \<Rightarrow> (job, api_error + 'a) state" where
  "store_query w lb f = store_call w lb (query f)"

section \<open>Sessions (\<open>routes/sessions.rs\<close>)\<close>

record processing_health =
  ph_enabled :: bool
  ph_error :: "json option"
  ph_revision :: int
  ph_blocked_event_id :: "uuid option"

record session_item =
  si_id :: uuid
  si_project_id :: string
  si_harness_id :: string
  si_harness_version :: string
  si_name :: "string option"
  si_metadata :: json
  si_status :: session_status
  si_state_version :: int
  si_processing_health :: processing_health
  si_created_at :: time
  si_updated_at :: time

record session_detail =
  sd_summary :: session_item
  sd_configuration :: raw_json
  sd_history_through_sequence :: int
  sd_update_through_sequence :: int

text \<open>A record of the store is the row with its blocked event; a summary has the same fields.\<close>

definition session_item_of :: "session_row \<times> event_id option \<Rightarrow> session_item" where
  "session_item_of r = (let (s, blocked) = r in
     \<lparr>si_id = s_id s, si_project_id = s_project_id s, si_harness_id = s_harness_id s,
      si_harness_version = s_harness_version s, si_name = s_name s, si_metadata = s_metadata s,
      si_status = s_status s, si_state_version = s_state_version s,
      si_processing_health =
        \<lparr>ph_enabled = s_processing_enabled s, ph_error = s_processing_error s,
         ph_revision = s_processing_revision s, ph_blocked_event_id = blocked\<rparr>,
      si_created_at = s_created_at s, si_updated_at = s_updated_at s\<rparr>)"

definition session_detail_of :: "session_row \<times> event_id option \<Rightarrow> session_detail" where
  "session_detail_of r =
     \<lparr>sd_summary = session_item_of r, sd_configuration = s_configuration (fst r),
      sd_history_through_sequence = s_next_history_sequence (fst r) - 1,
      sd_update_through_sequence = 0\<rparr>"

text \<open>\<open>create\<close> answers with the location of the session.\<close>

definition create_request ::
    "registry \<Rightarrow> json_rejection + create_session_body \<Rightarrow> api_error + new_session" where
  "create_request registry request =
     bindR (map_err json_rejection request) (\<lambda>b.
     bindR (validate_text ''project_id'' (cb_project_id b) 300) (\<lambda>_.
     bindR (validate_text ''harness_id'' (cb_harness_id b) 100) (\<lambda>_.
     bindR (validate_text ''harness_version'' (cb_harness_version b) 100) (\<lambda>_.
     bindR (case cb_name b of None \<Rightarrow> Inr ()
            | Some name \<Rightarrow> validate_optional_text ''name'' name 500) (\<lambda>_.
     bindR (validate_metadata (cb_metadata b)) (\<lambda>_.
     bindR (ok_or (registry_get registry (cb_harness_id b) (cb_harness_version b))
       (not_found ''harness_version_not_found''
          (''harness '' @ cb_harness_id b @ '' version '' @ cb_harness_version b
             @ '' was not found''))) (\<lambda>harness.
     bindR (map_err runtime_initialization (rh_initialize harness (cb_configuration b))) (\<lambda>state.
     Inr \<lparr>n_id = cb_id b, n_project_id = cb_project_id b, n_harness_id = cb_harness_id b,
          n_harness_version = cb_harness_version b, n_configuration = cb_configuration b,
          n_state = state, n_name = cb_name b, n_metadata = cb_metadata b\<rparr>))))))))"

definition create ::
    "world \<Rightarrow> api_libs \<Rightarrow> registry \<Rightarrow> json_rejection + create_session_body
     \<Rightarrow> (job, api_error + string \<times> session_detail) state" where
  "create w lb registry request =
     bindS (pureS (create_request registry request)) (\<lambda>n.
     bindS (store_call w lb (\<lambda>env. create_session env n)) (\<lambda>r.
     pureS (Inr (''/v1/sessions/'' @ lb_uuid_text lb (s_id (fst r)), session_detail_of r))))"

definition list_filter ::
    "api_libs \<Rightarrow> string + list_sessions_query \<Rightarrow> api_error + session_filter" where
  "list_filter lb params =
     bindR (map_err bad_request params) (\<lambda>q.
     bindR (case lq_project_id q of None \<Rightarrow> Inr ()
            | Some p \<Rightarrow> validate_text ''project_id'' p 300) (\<lambda>_.
     bindR (case lq_harness_id q of None \<Rightarrow> Inr ()
            | Some h \<Rightarrow> validate_text ''harness_id'' h 100) (\<lambda>_.
     bindR (transpose (decode_cursor lb ''cursor is invalid'') (lq_cursor q)) (\<lambda>cursor.
     Inr \<lparr>sf_project_id = lq_project_id q, sf_status = lq_status q,
          sf_harness_id = lq_harness_id q, sf_cursor = cursor, sf_limit = lq_limit q\<rparr>))))"

definition list_sessions_route ::
    "world \<Rightarrow> api_libs \<Rightarrow> string + list_sessions_query
     \<Rightarrow> (job, api_error + session_item list \<times> string option) state" where
  "list_sessions_route w lb params =
     bindS (pureS (list_filter lb params)) (\<lambda>f.
     bindS (store_query w lb (list_sessions f)) (\<lambda>(sessions, next_cursor).
     pureS (bindR (transpose (encode_cursor lb internal_error) next_cursor) (\<lambda>next.
       Inr (map session_item_of sessions, next)))))"

text \<open>The update cursor is read first, so what the detail shows includes every update up to it.\<close>

definition session_detail_route ::
    "world \<Rightarrow> api_libs \<Rightarrow> string + string \<Rightarrow> (job, api_error + session_detail) state" where
  "session_detail_route w lb path =
     bindS (pureS (session_path lb path)) (\<lambda>i.
     bindS (store_query w lb (update_cursor i)) (\<lambda>(through, _).
     bindS (store_query w lb (session_record i)) (\<lambda>r.
     pureS (Inr ((session_detail_of r)\<lparr>sd_update_through_sequence := through\<rparr>)))))"

definition patch_request ::
    "json_rejection + patch_session_body \<Rightarrow> api_error + string option option \<times> json option" where
  "patch_request request =
     bindR (map_err json_rejection request) (\<lambda>b.
     bindR (case pb_name b of
         Missing \<Rightarrow> Inr None
       | Null \<Rightarrow> Inr (Some None)
       | Given v \<Rightarrow> bindR (validate_optional_text ''name'' v 500) (\<lambda>_. Inr (Some (Some v)))) (\<lambda>name.
     bindR (case pb_metadata b of
         Missing \<Rightarrow> Inr None
       | Null \<Rightarrow> Inl (bad_request ''metadata must be an object'')
       | Given v \<Rightarrow> bindR (validate_metadata v) (\<lambda>_. Inr (Some v))) (\<lambda>metadata.
     bindR (guardR (\<not> (name = None \<and> metadata = None))
       (bad_request ''at least one of name or metadata must be supplied'')) (\<lambda>_.
     Inr (name, metadata)))))"

definition update_session_route ::
    "world \<Rightarrow> api_libs \<Rightarrow> string + string \<Rightarrow> json_rejection + patch_session_body
     \<Rightarrow> (job, api_error + session_detail) state" where
  "update_session_route w lb path request =
     bindS (pureS (session_path lb path)) (\<lambda>i.
     bindS (pureS (patch_request request)) (\<lambda>(name, metadata).
     bindS (store_query w lb (update_cursor i)) (\<lambda>(through, _).
     bindS (store_call w lb (\<lambda>env. patch_session_metadata env i name metadata)) (\<lambda>r.
     pureS (Inr ((session_detail_of r)\<lparr>sd_update_through_sequence := through\<rparr>))))))"

section \<open>Inputs (\<open>routes/inputs.rs\<close>)\<close>

record event_acknowledgement =
  ack_session_id :: uuid
  ack_event_id :: uuid
  ack_event_sequence :: int
  ack_accepted_at :: time

definition acknowledge_event :: "event_row \<Rightarrow> event_acknowledgement" where
  "acknowledge_event e =
     \<lparr>ack_session_id = e_session_id e, ack_event_id = e_id e, ack_event_sequence = e_sequence e,
      ack_accepted_at = e_created_at e\<rparr>"

fun enqueued_event :: "enqueue_result \<Rightarrow> event_row" where
  "enqueued_event (Inserted e) = e"
| "enqueued_event (Existing e) = e"

definition invalid_message :: api_error where
  "invalid_message =
     api_error_new 422 ''invalid_message'' ''message does not match the user-message contract''"

definition as_object :: "json \<Rightarrow> (string \<times> json) list option" where
  "as_object v = (case v of JObject members \<Rightarrow> Some members | _ \<Rightarrow> None)"

definition ensure_known_fields :: "string list \<Rightarrow> string list \<Rightarrow> api_error + unit" where
  "ensure_known_fields members allowed =
     guardR (\<not> list_ex (\<lambda>field. field \<notin> set allowed) members) invalid_message"

definition check_part :: "api_libs \<Rightarrow> content_part \<times> json \<Rightarrow> unit \<Rightarrow> api_error + unit" where
  "check_part lb part u = (case part of (part, raw_part) \<Rightarrow>
     bindR (ok_or (as_object raw_part) invalid_message) (\<lambda>object.
     case part of
       TextPart _ _ \<Rightarrow> ensure_known_fields (map fst object) [''type'', ''text'', ''metadata'']
     | ImagePart url _ _ \<Rightarrow>
         bindR (ensure_known_fields (map fst object)
           [''type'', ''url'', ''detail'', ''metadata'']) (\<lambda>_.
         bindR (ok_or (lb_url lb url) invalid_message) (\<lambda>(scheme, has_host).
         guardR (\<not> (\<not> (scheme = ''http'' \<or> scheme = ''https'') \<or> \<not> has_host))
           invalid_message))))"

definition validate_user_message :: "api_libs \<Rightarrow> message \<Rightarrow> raw_json \<Rightarrow> api_error + unit" where
  "validate_user_message lb msg raw =
     (case msg of
        UserMsg _ content \<Rightarrow>
          bindR (ok_or (lb_value lb raw) invalid_message) (\<lambda>v.
          bindR (ok_or (as_object v) invalid_message) (\<lambda>object.
          bindR (ensure_known_fields (map fst object)
            [''role'', ''id'', ''timestamp'', ''metadata'', ''content'']) (\<lambda>_.
          bindR (ok_or (Option.bind (map_of object ''content'') as_array) invalid_message)
            (\<lambda>raw_content.
          foldR (check_part lb) (zip content raw_content) ()))))
      | _ \<Rightarrow> Inl (api_error_new 422 ''invalid_message''
               ''only user messages can be submitted to this endpoint''))"

definition message_request ::
    "api_libs \<Rightarrow> string + string \<Rightarrow> headers \<Rightarrow> json_rejection + raw_json
     \<Rightarrow> api_error + new_external_event" where
  "message_request lb path headers request =
     bindR (session_path lb path) (\<lambda>sid.
     bindR (idempotency_key headers) (\<lambda>key.
     bindR (map_err json_rejection request) (\<lambda>payload.
     bindR (map_err bad_request (lb_message_input lb payload)) (\<lambda>envelope.
     bindR (ok_or (lb_message lb envelope) invalid_message) (\<lambda>msg.
     bindR (validate_user_message lb msg envelope) (\<lambda>_.
     Inr \<lparr>x_session_id = sid, x_type = EvUserMessage, x_payload = payload, x_key = Some key\<rparr>))))))"

definition cancellation_request ::
    "api_libs \<Rightarrow> string + string \<Rightarrow> headers \<Rightarrow> json_rejection + raw_json
     \<Rightarrow> api_error + new_external_event" where
  "cancellation_request lb path headers request =
     bindR (session_path lb path) (\<lambda>sid.
     bindR (idempotency_key headers) (\<lambda>key.
     bindR (map_err json_rejection request) (\<lambda>payload.
     bindR (map_err bad_request (lb_cancellation_input lb payload)) (\<lambda>_.
     Inr \<lparr>x_session_id = sid, x_type = EvCancellationRequested, x_payload = payload,
          x_key = Some key\<rparr>))))"

definition admit_event ::
    "world \<Rightarrow> api_libs \<Rightarrow> api_error + new_external_event
     \<Rightarrow> (job, api_error + event_acknowledgement) state" where
  "admit_event w lb request =
     bindS (pureS request) (\<lambda>x.
     bindS (store_call w lb (\<lambda>env. enqueue_external_event env x)) (\<lambda>r.
     pureS (Inr (acknowledge_event (enqueued_event r)))))"

definition message_route ::
    "world \<Rightarrow> api_libs \<Rightarrow> string + string \<Rightarrow> headers \<Rightarrow> json_rejection + raw_json
     \<Rightarrow> (job, api_error + event_acknowledgement) state" where
  "message_route w lb path headers request =
     admit_event w lb (message_request lb path headers request)"

definition cancel_route ::
    "world \<Rightarrow> api_libs \<Rightarrow> string + string \<Rightarrow> headers \<Rightarrow> json_rejection + raw_json
     \<Rightarrow> (job, api_error + event_acknowledgement) state" where
  "cancel_route w lb path headers request =
     admit_event w lb (cancellation_request lb path headers request)"

section \<open>Waits (\<open>routes/waits.rs\<close>)\<close>

record wait_detail =
  wd_id :: uuid
  wd_session_id :: uuid
  wd_source_event_id :: uuid
  wd_resolution_mode :: string
  wd_payload :: raw_json
  wd_response_schema :: "raw_json option"
  wd_expires_at :: "time option"
  wd_status :: wait_status
  wd_resolution :: "raw_json option"
  wd_created_at :: time
  wd_finished_at :: "time option"

definition wait_detail_of :: "wait_row \<Rightarrow> wait_detail" where
  "wait_detail_of r =
     \<lparr>wd_id = w_id r, wd_session_id = w_session_id r, wd_source_event_id = w_source_event_id r,
      wd_resolution_mode =
        (case w_mode r of External \<Rightarrow> ''external'' | Expiration \<Rightarrow> ''expiration''
         | Either \<Rightarrow> ''either''),
      wd_payload = w_payload r, wd_response_schema = w_response_schema r,
      wd_expires_at = w_expires_at r, wd_status = w_status r,
      wd_resolution = w_resolution_payload r, wd_created_at = w_created_at r,
      wd_finished_at = w_finished_at r\<rparr>"

definition list_waits_route ::
    "world \<Rightarrow> api_libs \<Rightarrow> string + string \<Rightarrow> string + list_waits_query
     \<Rightarrow> (job, api_error + wait_detail list \<times> string option) state" where
  "list_waits_route w lb path params =
     bindS (pureS (
       bindR (session_path lb path) (\<lambda>sid.
       bindR (map_err bad_request params) (\<lambda>q.
       bindR (transpose (decode_cursor lb ''cursor is invalid'') (wq_cursor q)) (\<lambda>cursor.
       Inr (sid, q, cursor)))))) (\<lambda>(sid, q, cursor).
     bindS (store_query w lb (list_waits sid (wq_status q) cursor (wq_limit q)))
       (\<lambda>(waits, next_cursor).
     pureS (bindR (transpose (encode_cursor lb internal_error) next_cursor) (\<lambda>next.
       Inr (map wait_detail_of waits, next)))))"

definition wait_or_missing :: "session_id \<Rightarrow> wait_id \<Rightarrow> db \<Rightarrow> store_error + wait_row" where
  "wait_or_missing sid i db = ok_or (wait_for_session sid i db) (WaitNotFound i)"

definition wait_detail_route ::
    "world \<Rightarrow> api_libs \<Rightarrow> string + string \<times> string \<Rightarrow> (job, api_error + wait_detail) state" where
  "wait_detail_route w lb path =
     bindS (pureS (item_path lb (parse_wait_id lb) path)) (\<lambda>(sid, i).
     bindS (store_query w lb (wait_or_missing sid i)) (\<lambda>r.
     pureS (Inr (wait_detail_of r))))"

definition internal_schema_error :: api_error where
  "internal_schema_error =
     api_error_new 500 ''invalid_wait_schema'' ''the wait response schema is invalid''"

definition validate_response_schema ::
    "api_libs \<Rightarrow> wait_row \<Rightarrow> raw_json \<Rightarrow> api_error + unit" where
  "validate_response_schema lb r response =
     (case w_response_schema r of
        None \<Rightarrow> Inr ()
      | Some schema \<Rightarrow>
          bindR (ok_or (lb_value lb schema) internal_schema_error) (\<lambda>schema.
          bindR (ok_or (lb_schema lb schema) internal_schema_error) (\<lambda>is_valid.
          bindR (ok_or (lb_value lb response) (api_error_new 422 ''invalid_wait_response''
            ''response cannot be validated against the wait schema'')) (\<lambda>v.
          guardR (is_valid v) (api_error_new 422 ''invalid_wait_response''
            ''response does not match the wait response schema'')))))"

definition resolve_route ::
    "world \<Rightarrow> api_libs \<Rightarrow> string + string \<times> string \<Rightarrow> headers \<Rightarrow> json_rejection + raw_json
     \<Rightarrow> (job, api_error + event_acknowledgement \<times> uuid) state" where
  "resolve_route w lb path headers request =
     bindS (pureS (
       bindR (item_path lb (parse_wait_id lb) path) (\<lambda>(sid, i).
       bindR (idempotency_key headers) (\<lambda>key.
       bindR (map_err json_rejection request) (\<lambda>body.
       bindR (map_err bad_request (lb_resolve_input lb body)) (\<lambda>response.
       Inr (sid, i, key, response))))))) (\<lambda>(sid, i, key, response).
     bindS (store_query w lb (wait_or_missing sid i)) (\<lambda>r.
     bindS (pureS (validate_response_schema lb r response)) (\<lambda>_.
     bindS (store_call w lb (\<lambda>env. resolve_wait env i key response)) (\<lambda>resolution.
     pureS (Inr (acknowledge_event (wr_event resolution), i))))))"

section \<open>History (\<open>routes/history.rs\<close>)\<close>

record history_page =
  hp_data :: "history_row list"
  hp_through_sequence :: int
  hp_next_after_sequence :: "int option"
  hp_has_more :: bool

text \<open>\<open>rows.last().map(key)\<close>, and a page cut at the limit after reading one row more.\<close>

definition last_key :: "('a \<Rightarrow> 'k) \<Rightarrow> 'a list \<Rightarrow> 'k option" where
  "last_key key rows = (if rows = [] then None else Some (key (last rows)))"

definition history_route ::
    "world \<Rightarrow> api_libs \<Rightarrow> string + string \<Rightarrow> string + history_query
     \<Rightarrow> (job, api_error + history_page) state" where
  "history_route w lb path params =
     bindS (pureS (
       bindR (session_path lb path) (\<lambda>i.
       bindR (map_err bad_request params) (\<lambda>q. Inr (i, q))))) (\<lambda>(i, q).
     let after = unwrap_or 0 (hq_after_sequence q); limit = unwrap_or 100 (hq_limit q) in
     bindS (store_query w lb (history_cursor i)) (\<lambda>current.
     let through = unwrap_or current (hq_through_sequence q) in
     bindS (pureS (guardR (\<not> (after < 0 \<or> \<not> (1 \<le> limit \<and> limit \<le> 999)
         \<or> through < after \<or> current < through))
       (bad_request ''invalid history sequence or limit''))) (\<lambda>_.
     bindS (store_query w lb (case hq_source_event_id q of
         Some eid \<Rightarrow> history_for_event i eid after through (limit + 1)
       | None \<Rightarrow> history i after through (limit + 1))) (\<lambda>records.
     let page = take (nat limit) records in
     pureS (Inr \<lparr>hp_data = page, hp_through_sequence = through,
       hp_next_after_sequence = last_key h_sequence page,
       hp_has_more = nat limit < length records\<rparr>)))))"

definition history_entry_route ::
    "world \<Rightarrow> api_libs \<Rightarrow> string + string \<times> string \<Rightarrow> (job, api_error + history_row) state" where
  "history_entry_route w lb path =
     bindS (pureS (item_path lb
       (\<lambda>raw. ok_or (cl_uuid lb raw) (bad_request ''invalid history entry ID'')) path))
       (\<lambda>(i, entry).
     bindS (store_query w lb (session_exists i)) (\<lambda>_.
     bindS (store_query w lb (\<lambda>db. Inr (history_entry i entry (2 ^ 63 - 1) db))) (\<lambda>found.
     pureS (ok_or found (not_found ''history_entry_not_found''
       ''history entry was not found in this session'')))))"

section \<open>Retry (\<open>routes/processing.rs\<close>)\<close>

definition retry_request ::
    "api_libs \<Rightarrow> string + string \<Rightarrow> headers \<Rightarrow> json_rejection + raw_json
     \<Rightarrow> api_error + session_id \<times> string \<times> raw_json \<times> retry_body" where
  "retry_request lb path headers request =
     bindR (session_path lb path) (\<lambda>sid.
     bindR (idempotency_key headers) (\<lambda>key.
     bindR (map_err json_rejection request) (\<lambda>payload.
     bindR (map_err bad_request (lb_retry_input lb payload)) (\<lambda>b.
     bindR (guardR (\<not> rb_expected_processing_revision b < 0)
       (bad_request ''expected_processing_revision must be non-negative'')) (\<lambda>_.
     bindR (guardR (case rb_reason b of None \<Rightarrow> True | Some reason \<Rightarrow> length reason \<le> 1000)
       (bad_request ''reason must be at most 1000 bytes'')) (\<lambda>_.
     Inr (sid, key, payload, b)))))))"

definition retry_route ::
    "world \<Rightarrow> api_libs \<Rightarrow> string + string \<Rightarrow> headers \<Rightarrow> json_rejection + raw_json
     \<Rightarrow> (job, api_error + processing_retry) state" where
  "retry_route w lb path headers request =
     bindS (pureS (retry_request lb path headers request)) (\<lambda>(sid, key, payload, b).
     store_call w lb (\<lambda>env. retry_blocked_event env sid (rb_expected_event_id b)
       (rb_expected_processing_revision b) key payload (rb_reason b)))"

section \<open>Inspection (\<open>routes/inspection.rs\<close>)\<close>

record 'a page =
  pg_data :: "'a list"
  pg_next_cursor :: "string option"
  pg_has_more :: bool

record request_retention =
  rr_available :: bool
  rr_eligible_for_cleanup_at :: "time option"
  rr_removed_at :: "time option"

record operation_item =
  oi_id :: uuid
  oi_session_id :: uuid
  oi_source_event_id :: uuid
  oi_kind :: operation_kind
  oi_status :: string
  oi_gateway_connection_id :: "string option"
  oi_gateway_job_id :: "uuid option"
  oi_target_operation_id :: "uuid option"
  oi_previous_operation_id :: "uuid option"
  oi_request_retention :: request_retention
  oi_created_at :: time
  oi_completed_at :: "time option"

record operation_detail =
  od_summary :: operation_item
  od_result :: "raw_json option"
  od_error :: "json option"
  od_request_hash :: string

record event_item =
  ei_id :: uuid
  ei_session_id :: uuid
  ei_sequence :: int
  ei_event_type :: string
  ei_status :: string
  ei_operation_id :: "uuid option"
  ei_wait_id :: "uuid option"
  ei_created_at :: time
  ei_handled_at :: "time option"

record event_detail =
  ed_summary :: event_item
  ed_payload :: event_payload
  ed_current_failure_count :: int

definition limit :: "int option \<Rightarrow> api_error + int" where
  "limit raw =
     (let x = unwrap_or 50 raw in
      bindR (guardR (1 \<le> x \<and> x \<le> 100) (bad_request ''limit must be 1..100'')) (\<lambda>_. Inr x))"

definition status :: "string option \<Rightarrow> api_error + operation_status option" where
  "status raw = transpose
     (\<lambda>x. ok_or (parse_operation_status x) (bad_request ''invalid operation status'')) raw"

fun event_status_text :: "event_status \<Rightarrow> string" where
  "event_status_text EvPending = ''pending''"
| "event_status_text EvProcessing = ''processing''"
| "event_status_text EvHandled = ''handled''"
| "event_status_text EvBlocked = ''blocked''"

definition parse_event_status :: "string option \<Rightarrow> api_error + event_status option" where
  "parse_event_status raw = transpose
     (\<lambda>x. ok_or (List.find (\<lambda>st. event_status_text st = x) [EvPending, EvProcessing, EvHandled, EvBlocked])
        (bad_request ''invalid event status'')) raw"

definition operation_item_of :: "operation_row \<Rightarrow> request_retention \<Rightarrow> operation_item" where
  "operation_item_of r retention =
     \<lparr>oi_id = o_id r, oi_session_id = o_session_id r, oi_source_event_id = o_source_event_id r,
      oi_kind = o_kind r, oi_status = operation_status_str (o_status r),
      oi_gateway_connection_id = o_connection r, oi_gateway_job_id = o_job_id r,
      oi_target_operation_id = o_target r, oi_previous_operation_id = o_previous r,
      oi_request_retention = retention, oi_created_at = o_created_at r,
      oi_completed_at = o_completed_at r\<rparr>"

definition operation_item_of_summary :: "operation_summary \<Rightarrow> operation_item" where
  "operation_item_of_summary x =
     operation_item_of (os_operation x)
       \<lparr>rr_available = os_request_available x,
        rr_eligible_for_cleanup_at = os_request_expires_at x,
        rr_removed_at = o_request_removed_at (os_operation x)\<rparr>"

definition event_item_of :: "event_row \<Rightarrow> event_item" where
  "event_item_of e =
     \<lparr>ei_id = e_id e, ei_session_id = e_session_id e, ei_sequence = e_sequence e,
      ei_event_type = event_type_str (e_type e), ei_status = event_status_text (e_status e),
      ei_operation_id = e_operation_id e, ei_wait_id = e_wait_id e,
      ei_created_at = e_created_at e, ei_handled_at = e_handled_at e\<rparr>"

text \<open>A page cut at the limit; the cursor is that of its last row, if one more was read.\<close>

definition cut_page ::
    "('a \<Rightarrow> api_error + string) \<Rightarrow> ('a \<Rightarrow> 'b) \<Rightarrow> int \<Rightarrow> 'a list \<Rightarrow> api_error + 'b page" where
  "cut_page cursor item n rows =
     (let has_more = nat n < length rows; page = take (nat n) rows in
      bindR (if has_more then transpose cursor (last_key (\<lambda>r. r) page) else Inr None) (\<lambda>next.
      Inr \<lparr>pg_data = map item page, pg_next_cursor = next, pg_has_more = has_more\<rparr>))"

definition operation_cursor :: "api_libs \<Rightarrow> operation_summary \<Rightarrow> api_error + string" where
  "operation_cursor lb x =
     encode_cursor lb (bad_request ''invalid operation cursor'')
       (o_created_at (os_operation x), o_id (os_operation x))"

definition operations_route ::
    "world \<Rightarrow> api_libs \<Rightarrow> string + string \<Rightarrow> string + list_operations_query
     \<Rightarrow> (job, api_error + operation_item page) state" where
  "operations_route w lb path params =
     bindS (pureS (
       bindR (session_path lb path) (\<lambda>i.
       bindR (map_err bad_request params) (\<lambda>q.
       bindR (limit (oq_limit q)) (\<lambda>n.
       bindR (transpose (decode_cursor lb ''invalid operation cursor'') (oq_cursor q)) (\<lambda>cursor.
       bindR (status (oq_status q)) (\<lambda>st.
       Inr (i, q, n, cursor, st)))))))) (\<lambda>(i, q, n, cursor, st).
     bindS (store_query w lb
       (operations_summary i cursor (n + 1) (oq_kind q) st (oq_source_event_id q))) (\<lambda>rows.
     pureS (cut_page (operation_cursor lb) operation_item_of_summary n rows)))"

definition operation_or_missing :: "session_id \<Rightarrow> operation_id \<Rightarrow> db \<Rightarrow> store_error + operation_row" where
  "operation_or_missing sid i db = ok_or (operation_for_session sid i db) (OperationNotFound i)"

definition operation_detail_route ::
    "world \<Rightarrow> api_libs \<Rightarrow> string + string \<times> string \<Rightarrow> (job, api_error + operation_detail) state" where
  "operation_detail_route w lb path =
     bindS (pureS (item_path lb (\<lambda>raw. parse_labelled lb raw ''operation'') path)) (\<lambda>(sid, i).
     bindS (store_query w lb (operation_or_missing sid i)) (\<lambda>r.
     bindS (store_query w lb (operation_request_status sid i)) (\<lambda>(available, expires_at, removed_at).
     pureS (Inr
       \<lparr>od_summary = operation_item_of r
          \<lparr>rr_available = available, rr_eligible_for_cleanup_at = expires_at,
           rr_removed_at = removed_at\<rparr>,
        od_result = o_result r, od_error = o_error r, od_request_hash = o_request_hash r\<rparr>))))"

definition operation_request_route ::
    "world \<Rightarrow> api_libs \<Rightarrow> string + string \<times> string \<Rightarrow> (job, api_error + raw_json) state" where
  "operation_request_route w lb path =
     bindS (pureS (item_path lb (\<lambda>raw. parse_labelled lb raw ''operation'') path)) (\<lambda>(sid, i).
     bindS (store_query w lb (operation_request_for_session sid i)) (\<lambda>request.
     pureS (ok_or request (api_error_new 410 ''request_payload_expired''
       ''operation request payload was removed''))))"

definition events_route ::
    "world \<Rightarrow> api_libs \<Rightarrow> string + string \<Rightarrow> string + list_events_query
     \<Rightarrow> (job, api_error + event_item page) state" where
  "events_route w lb path params =
     bindS (pureS (
       bindR (session_path lb path) (\<lambda>i.
       bindR (map_err bad_request params) (\<lambda>q.
       bindR (limit (eq_limit q)) (\<lambda>n.
       bindR (parse_event_status (eq_status q)) (\<lambda>st.
       Inr (i, q, n, st))))))) (\<lambda>(i, q, n, st).
     bindS (store_query w lb (events i (unwrap_or 0 (eq_after_sequence q)) (n + 1) st)) (\<lambda>rows.
     pureS (cut_page (\<lambda>e. Inr (decimal_int (e_sequence e))) event_item_of n rows)))"

definition event_or_missing :: "session_id \<Rightarrow> event_id \<Rightarrow> db \<Rightarrow> store_error + event_row" where
  "event_or_missing sid i db = ok_or (event_for_session sid i db) (EventNotFound i)"

definition event_detail_route ::
    "world \<Rightarrow> api_libs \<Rightarrow> string + string \<times> string \<Rightarrow> (job, api_error + event_detail) state" where
  "event_detail_route w lb path =
     bindS (pureS (item_path lb (\<lambda>raw. parse_labelled lb raw ''event'') path)) (\<lambda>(sid, i).
     bindS (store_query w lb (session_exists sid)) (\<lambda>_.
     bindS (store_query w lb (event_or_missing sid i)) (\<lambda>e.
     bindS (store_query w lb (handler_failure_count i)) (\<lambda>count.
     pureS (Inr \<lparr>ed_summary = event_item_of e, ed_payload = e_payload e,
                 ed_current_failure_count = count\<rparr>)))))"

definition attempts_query ::
    "api_libs \<Rightarrow> string \<Rightarrow> string + string \<times> string \<Rightarrow> string + list_attempts_query
     \<Rightarrow> api_error + session_id \<times> uuid \<times> list_attempts_query \<times> int" where
  "attempts_query lb label path params =
     bindR (item_path lb (\<lambda>raw. parse_labelled lb raw label) path) (\<lambda>(sid, i).
     bindR (map_err bad_request params) (\<lambda>q.
     bindR (limit (aq_limit q)) (\<lambda>n. Inr (sid, i, q, n))))"

definition handler_attempts_route ::
    "world \<Rightarrow> api_libs \<Rightarrow> string + string \<times> string \<Rightarrow> string + list_attempts_query
     \<Rightarrow> (job, api_error + attempt_row page) state" where
  "handler_attempts_route w lb path params =
     bindS (pureS (attempts_query lb ''event'' path params)) (\<lambda>(sid, i, q, n).
     bindS (store_query w lb (handler_attempts sid i (unwrap_or 0 (aq_after_attempt q)) (n + 1)))
       (\<lambda>rows.
     pureS (cut_page (\<lambda>a. Inr (decimal_int (a_number a))) (\<lambda>a. a) n rows)))"

definition operation_attempts_route ::
    "world \<Rightarrow> api_libs \<Rightarrow> string + string \<times> string \<Rightarrow> string + list_attempts_query
     \<Rightarrow> (job, api_error + op_attempt_row page) state" where
  "operation_attempts_route w lb path params =
     bindS (pureS (attempts_query lb ''operation'' path params)) (\<lambda>(sid, i, q, n).
     bindS (store_query w lb (operation_attempts sid i (unwrap_or 0 (aq_after_attempt q)) (n + 1)))
       (\<lambda>rows.
     pureS (cut_page (\<lambda>a. Inr (decimal_int (oa_number a))) (\<lambda>a. a) n rows)))"

section \<open>Updates (\<open>routes/updates.rs\<close>)\<close>

record updates_page =
  ug_data :: "update_row list"
  ug_through_sequence :: int
  ug_retained_sequence :: int
  ug_next_after_sequence :: "int option"
  ug_has_more :: bool

definition updates_route ::
    "world \<Rightarrow> api_libs \<Rightarrow> string + string \<Rightarrow> string + update_query
     \<Rightarrow> (job, api_error + updates_page) state" where
  "updates_route w lb path params =
     bindS (pureS (
       bindR (session_path lb path) (\<lambda>i.
       bindR (map_err bad_request params) (\<lambda>q.
       let n = unwrap_or 100 (uq_limit q) in
       bindR (guardR (1 \<le> n \<and> n \<le> 999) (bad_request ''limit must be 1..999'')) (\<lambda>_.
       Inr (i, q, n)))))) (\<lambda>(i, q, n).
     bindS (store_query w lb
       (updates i (unwrap_or 0 (uq_after_sequence q)) (uq_through_sequence q) n)) (\<lambda>p.
     pureS (Inr \<lparr>ug_data = up_updates p, ug_through_sequence = up_through_sequence p,
       ug_retained_sequence = up_retained_sequence p,
       ug_next_after_sequence = last_key u_sequence (up_updates p),
       ug_has_more = up_has_more p\<rparr>)))"

text \<open>
  \<open>stream\<close>: where the stream begins, checked by a first read, if a slot is free (the metrics
  hold the slot for as long as the stream lives).
\<close>

definition stream_start ::
    "api_libs \<Rightarrow> string + string \<Rightarrow> string + update_query \<Rightarrow> headers \<Rightarrow> api_error + session_id \<times> int" where
  "stream_start lb path params headers =
     bindR (session_path lb path) (\<lambda>i.
     bindR (map_err bad_request params) (\<lambda>q.
     bindR (guardR (\<not> (uq_through_sequence q \<noteq> None \<or> uq_limit q \<noteq> None))
       (bad_request ''SSE accepts only after_sequence'')) (\<lambda>_.
     let last_id = headers ''last-event-id'' in
     bindR (guardR (\<not> (last_id \<noteq> None \<and> uq_after_sequence q \<noteq> None))
       (bad_request ''use Last-Event-ID or after_sequence, not both'')) (\<lambda>_.
     bindR (case last_id of
         Some v \<Rightarrow>
           bindR (ok_or v (bad_request ''invalid Last-Event-ID'')) (\<lambda>text.
           ok_or (parse_i64 text) (bad_request ''invalid Last-Event-ID''))
       | None \<Rightarrow> Inr (unwrap_or 0 (uq_after_sequence q))) (\<lambda>after.
     Inr (i, after))))))"

definition stream_route ::
    "world \<Rightarrow> api_libs \<Rightarrow> http_metrics \<Rightarrow> string + string \<Rightarrow> string + update_query \<Rightarrow> headers
     \<Rightarrow> (job, api_error + http_metrics \<times> session_id \<times> int) state" where
  "stream_route w lb m path params headers =
     bindS (pureS (stream_start lb path params headers)) (\<lambda>(i, after).
     bindS (pureS (ok_or (acquire_stream m)
       (api_error_new 429 ''too_many_streams'' ''SSE subscription limit reached''))) (\<lambda>m.
     bindS (store_query w lb (updates i after None 1)) (\<lambda>_.
     pureS (Inr (m, i, after)))))"

text \<open>
  One turn of \<open>update_stream\<close>'s loop. \<open>draining k\<close> is what the \<open>k\<close>-th check of the turn sees. The
  cursor moves before an update is serialized; when that fails the rest of the page is left to the
  next turn.
\<close>

datatype stream_item = Update update_row string | Resnapshot

datatype stream_next = ReadOn int | SleepThenRead int | Closed

fun send_updates ::
    "(update_row \<Rightarrow> string option) \<Rightarrow> (nat \<Rightarrow> bool) \<Rightarrow> nat \<Rightarrow> int \<Rightarrow> update_row list
     \<Rightarrow> stream_item list \<times> int option" where
  "send_updates text draining k cursor [] = ([], Some cursor)"
| "send_updates text draining k cursor (u # us) =
     (if draining k then ([], None)
      else case text u of
        None \<Rightarrow> ([], Some (u_sequence u))
      | Some data \<Rightarrow>
          (let (items, next) = send_updates text draining (Suc k) (u_sequence u) us in
           (Update u data # items, next)))"

definition stream_turn ::
    "world \<Rightarrow> api_libs \<Rightarrow> (nat \<Rightarrow> bool) \<Rightarrow> session_id \<Rightarrow> int
     \<Rightarrow> (job, stream_item list \<times> stream_next) state" where
  "stream_turn w lb draining i cursor =
     (if draining 0 then State_Monad.return ([], Closed)
      else State_Monad.bind (call w (query (updates i cursor None 100))) (\<lambda>r.
        State_Monad.return (case r of
          Inr p \<Rightarrow>
            (case send_updates (lb_update_json lb) draining 1 cursor (up_updates p) of
               (items, None) \<Rightarrow> (items, Closed)
             | (items, Some next) \<Rightarrow>
                 (items, if up_has_more p then ReadOn next else SleepThenRead next))
        | Inl UpdateCursorExpired \<Rightarrow> ([Resnapshot], Closed)
        | Inl _ \<Rightarrow> ([], Closed))))"

section \<open>Harnesses (\<open>routes/harnesses.rs\<close>)\<close>

record harness_summary =
  hy_id :: string
  hy_name :: string
  hy_description :: string

record version_summary =
  vy_version :: string
  vy_name :: string
  vy_description :: string

text \<open>The descriptions are sorted by identifier: the first of each identifier is listed.\<close>

fun distinct_harnesses ::
    "harness_summary list \<Rightarrow> harness_description list \<Rightarrow> harness_summary list" where
  "distinct_harnesses data [] = data"
| "distinct_harnesses data (d # ds) =
     distinct_harnesses
       (if data \<noteq> [] \<and> hy_id (last data) = hd_id d then data
        else data @ [\<lparr>hy_id = hd_id d, hy_name = hd_name d, hy_description = hd_description d\<rparr>]) ds"

definition harness_list :: "registry \<Rightarrow> harness_summary list" where
  "harness_list registry = distinct_harnesses [] (descriptions registry)"

definition harness_versions ::
    "registry \<Rightarrow> string + string \<Rightarrow> api_error + version_summary list" where
  "harness_versions registry path =
     bindR (map_err bad_request path) (\<lambda>i.
     let data = map (\<lambda>d. \<lparr>vy_version = hd_version d, vy_name = hd_name d,
                          vy_description = hd_description d\<rparr>)
           (filter (\<lambda>d. hd_id d = i) (descriptions registry)) in
     bindR (guardR (data \<noteq> [])
       (not_found ''harness_not_found'' (''harness '' @ i @ '' was not found''))) (\<lambda>_.
     Inr (sort_key (\<lambda>v. map byte (vy_version v)) data)))"

definition harness_version ::
    "registry \<Rightarrow> string + string \<times> string \<Rightarrow> api_error + harness_description" where
  "harness_version registry path =
     bindR (map_err bad_request path) (\<lambda>(i, v).
     bindR (ok_or (registry_get registry i v)
       (not_found ''harness_version_not_found''
          (''harness '' @ i @ '' version '' @ v @ '' was not found''))) (\<lambda>harness.
     Inr (rh_description harness)))"

section \<open>Callbacks (\<open>routes/callbacks.rs\<close>)\<close>

definition invalid_signature :: api_error where
  "invalid_signature =
     api_error_new 401 ''invalid_callback_signature'' ''callback authentication failed''"

fun verification_error :: "callback_verification_error \<Rightarrow> api_error" where
  "verification_error CbInvalidPayload = bad_request ''callback payload is invalid''"
| "verification_error CbNotConfigured =
     not_found ''callback_connection_not_found'' ''callback connection is not configured''"
| "verification_error CbInvalidHeaders = invalid_signature"
| "verification_error CbStale = invalid_signature"
| "verification_error CbInvalidSignature = invalid_signature"

definition callback_header :: "gateway_kind \<Rightarrow> headers \<Rightarrow> string \<Rightarrow> api_error + string" where
  "callback_header kind headers suffix =
     (let prefix = (case kind of GatewayLlm \<Rightarrow> ''x-llm-gateway''
                    | GatewayExecution \<Rightarrow> ''x-execution-gateway'') in
      ok_or (header_text headers (prefix @ ''-'' @ suffix)) invalid_signature)"

definition callback_request ::
    "api_libs \<Rightarrow> callback_registry \<Rightarrow> nat \<Rightarrow> int \<Rightarrow> gateway_kind \<Rightarrow> string \<Rightarrow> headers \<Rightarrow> string
     \<Rightarrow> api_error + callback_notification \<times> raw_json" where
  "callback_request lb verifiers tolerance now_unix kind connection headers body =
     bindR (callback_header kind headers ''event-id'') (\<lambda>event_id.
     bindR (callback_header kind headers ''timestamp'') (\<lambda>timestamp.
     bindR (callback_header kind headers ''signature'') (\<lambda>signature.
     bindR (map_err verification_error
       (verify (callback_libs.truncate lb) verifiers connection kind
          \<lparr>ch_event_id = event_id, ch_timestamp = timestamp, ch_signature = signature\<rparr>
          body now_unix tolerance)) (\<lambda>notification.
     bindR (guardR (lb_utf8 lb body) (bad_request ''callback body must be UTF-8 JSON'')) (\<lambda>_.
     bindR (ok_or (lb_raw lb body) (bad_request ''callback body must be valid JSON'')) (\<lambda>raw.
     Inr (notification, raw)))))))"

definition receive_callback ::
    "world \<Rightarrow> api_libs \<Rightarrow> callback_registry \<Rightarrow> nat \<Rightarrow> int \<Rightarrow> gateway_kind \<Rightarrow> string \<Rightarrow> headers \<Rightarrow> string
     \<Rightarrow> (job, api_error + unit) state" where
  "receive_callback w lb verifiers tolerance now_unix kind connection headers body =
     bindS (pureS (callback_request lb verifiers tolerance now_unix kind connection headers body))
       (\<lambda>(notification, raw).
     bindS (store_call w lb (\<lambda>env. record_callback_receipt env connection
       (cn_event_id notification) (cn_job_id notification) raw)) (\<lambda>_.
     pureS (Inr ())))"

section \<open>The application (\<open>app_with_shared_registry\<close>)\<close>

text \<open>
  The routes of \<open>/v1\<close> that need a token, with what they extract. Any other path or method under
  \<open>/v1\<close> goes through the same layers to a fallback.
\<close>

datatype api_route =
    GetMetrics
  | ListHarnesses
  | ListVersions "string + string"
  | GetVersion "string + string \<times> string"
  | CreateSession "json_rejection + create_session_body"
  | ListSessions "string + list_sessions_query"
  | GetSession "string + string"
  | PatchSession "string + string" "json_rejection + patch_session_body"
  | PostMessage "string + string" "json_rejection + raw_json"
  | PostCancel "string + string" "json_rejection + raw_json"
  | ListWaits "string + string" "string + list_waits_query"
  | GetWait "string + string \<times> string"
  | ResolveWait "string + string \<times> string" "json_rejection + raw_json"
  | ListHistory "string + string" "string + history_query"
  | GetHistoryEntry "string + string \<times> string"
  | ListOperations "string + string" "string + list_operations_query"
  | GetOperation "string + string \<times> string"
  | GetOperationRequest "string + string \<times> string"
  | ListOperationAttempts "string + string \<times> string" "string + list_attempts_query"
  | ListEvents "string + string" "string + list_events_query"
  | GetEvent "string + string \<times> string"
  | ListHandlerAttempts "string + string \<times> string" "string + list_attempts_query"
  | ListUpdates "string + string" "string + update_query"
  | StreamUpdates "string + string" "string + update_query"
  | PostRetry "string + string" "json_rejection + raw_json"
  | UnknownApiRoute
  | ApiMethodNotAllowed

datatype route =
    Health
  | Ready
  | Image string
  | Callback gateway_kind string string
  | Api api_route
  | UnknownRoute
  | MethodNotAllowed

datatype reply =
    HealthReply string
  | ImageReply stored_image
  | ImageNotFound
  | Accepted
  | MetricsReply string
  | HarnessesReply "harness_summary list"
  | VersionsReply "version_summary list"
  | VersionReply harness_description
  | CreatedReply "string \<times> session_detail"
  | SessionsReply "session_item list \<times> string option"
  | SessionReply session_detail
  | AcknowledgedReply event_acknowledgement
  | WaitsReply "wait_detail list \<times> string option"
  | WaitReply wait_detail
  | ResolvedReply "event_acknowledgement \<times> uuid"
  | HistoryReply history_page
  | HistoryEntryReply history_row
  | OperationsReply "operation_item page"
  | OperationReply operation_detail
  | OperationRequestReply raw_json
  | OperationAttemptsReply "op_attempt_row page"
  | EventsReply "event_item page"
  | EventReply event_detail
  | HandlerAttemptsReply "attempt_row page"
  | UpdatesReply updates_page
  | StreamReply "http_metrics \<times> session_id \<times> int"
  | RetriedReply processing_retry

record server =
  srv_libs :: api_libs
  srv_registry :: registry
  srv_tokens :: "string list"
  srv_verifiers :: callback_registry
  srv_tolerance :: nat
  srv_bucket :: "image_bucket option"

text \<open>What a request meets besides the store: the server's state when it is looked at.\<close>

record http_request =
  rq_headers :: headers
  rq_route :: route
  rq_readiness :: readiness
  rq_schema_ready :: "store_error + bool"
  rq_metrics :: http_metrics
  rq_now_unix :: int

definition route_not_found :: api_error where
  "route_not_found = not_found ''route_not_found'' ''the requested route was not found''"

definition method_not_allowed :: api_error where
  "method_not_allowed =
     api_error_new 405 ''method_not_allowed'' ''the requested method is not allowed for this route''"

text \<open>\<open>routes/health.rs\<close>\<close>

definition not_ready :: api_error where
  "not_ready = api_error_new 503 ''not_ready'' ''the service is not ready''"

definition ready_route :: "readiness \<Rightarrow> store_error + bool \<Rightarrow> api_error + reply" where
  "ready_route readiness schema_ready =
     bindR (guardR (rd_accepting readiness) not_ready) (\<lambda>_.
     bindR (map_err (\<lambda>_. not_ready) schema_ready) (\<lambda>ready.
     bindR (guardR ready not_ready) (\<lambda>_.
     Inr (HealthReply ''ready''))))"

definition metrics_route ::
    "world \<Rightarrow> api_libs \<Rightarrow> http_metrics \<Rightarrow> (job, api_error + string) state" where
  "metrics_route w lb m =
     bindS (store_call w lb (\<lambda>env db. Inr (operational_metrics env db, db))) (\<lambda>counts.
     pureS (Inr (metrics_text (lb_millis_text lb) (lb_age_text lb) m counts)))"

text \<open>The reply of a handler.\<close>

definition replyS :: "('a \<Rightarrow> reply) \<Rightarrow> (job, api_error + 'a) state \<Rightarrow> (job, api_error + reply) state"
  where
  "replyS f m = bindS m (\<lambda>x. pureS (Inr (f x)))"

fun api_handler ::
    "world \<Rightarrow> server \<Rightarrow> http_request \<Rightarrow> api_route \<Rightarrow> (job, api_error + reply) state" where
  "api_handler w srv rq GetMetrics =
     replyS MetricsReply (metrics_route w (srv_libs srv) (rq_metrics rq))"
| "api_handler w srv rq ListHarnesses =
     pureS (Inr (HarnessesReply (harness_list (srv_registry srv))))"
| "api_handler w srv rq (ListVersions path) =
     replyS VersionsReply (pureS (harness_versions (srv_registry srv) path))"
| "api_handler w srv rq (GetVersion path) =
     replyS VersionReply (pureS (harness_version (srv_registry srv) path))"
| "api_handler w srv rq (CreateSession body) =
     replyS CreatedReply (create w (srv_libs srv) (srv_registry srv) body)"
| "api_handler w srv rq (ListSessions q) =
     replyS SessionsReply (list_sessions_route w (srv_libs srv) q)"
| "api_handler w srv rq (GetSession path) =
     replyS SessionReply (session_detail_route w (srv_libs srv) path)"
| "api_handler w srv rq (PatchSession path body) =
     replyS SessionReply (update_session_route w (srv_libs srv) path body)"
| "api_handler w srv rq (PostMessage path body) =
     replyS AcknowledgedReply (message_route w (srv_libs srv) path (rq_headers rq) body)"
| "api_handler w srv rq (PostCancel path body) =
     replyS AcknowledgedReply (cancel_route w (srv_libs srv) path (rq_headers rq) body)"
| "api_handler w srv rq (ListWaits path q) =
     replyS WaitsReply (list_waits_route w (srv_libs srv) path q)"
| "api_handler w srv rq (GetWait path) = replyS WaitReply (wait_detail_route w (srv_libs srv) path)"
| "api_handler w srv rq (ResolveWait path body) =
     replyS ResolvedReply (resolve_route w (srv_libs srv) path (rq_headers rq) body)"
| "api_handler w srv rq (ListHistory path q) =
     replyS HistoryReply (history_route w (srv_libs srv) path q)"
| "api_handler w srv rq (GetHistoryEntry path) =
     replyS HistoryEntryReply (history_entry_route w (srv_libs srv) path)"
| "api_handler w srv rq (ListOperations path q) =
     replyS OperationsReply (operations_route w (srv_libs srv) path q)"
| "api_handler w srv rq (GetOperation path) =
     replyS OperationReply (operation_detail_route w (srv_libs srv) path)"
| "api_handler w srv rq (GetOperationRequest path) =
     replyS OperationRequestReply (operation_request_route w (srv_libs srv) path)"
| "api_handler w srv rq (ListOperationAttempts path q) =
     replyS OperationAttemptsReply (operation_attempts_route w (srv_libs srv) path q)"
| "api_handler w srv rq (ListEvents path q) =
     replyS EventsReply (events_route w (srv_libs srv) path q)"
| "api_handler w srv rq (GetEvent path) =
     replyS EventReply (event_detail_route w (srv_libs srv) path)"
| "api_handler w srv rq (ListHandlerAttempts path q) =
     replyS HandlerAttemptsReply (handler_attempts_route w (srv_libs srv) path q)"
| "api_handler w srv rq (ListUpdates path q) =
     replyS UpdatesReply (updates_route w (srv_libs srv) path q)"
| "api_handler w srv rq (StreamUpdates path q) =
     replyS StreamReply (stream_route w (srv_libs srv) (rq_metrics rq) path q (rq_headers rq))"
| "api_handler w srv rq (PostRetry path body) =
     replyS RetriedReply (retry_route w (srv_libs srv) path (rq_headers rq) body)"
| "api_handler w srv rq UnknownApiRoute = pureS (Inl route_not_found)"
| "api_handler w srv rq ApiMethodNotAllowed = pureS (Inl method_not_allowed)"

text \<open>
  Callbacks are admitted and verify themselves; the rest of \<open>/v1\<close> is authenticated first and then
  admitted. The layers that name a request and count it are in \<open>answer\<close>.
\<close>

fun handle_request :: "world \<Rightarrow> server \<Rightarrow> http_request \<Rightarrow> route \<Rightarrow> (job, api_error + reply) state" where
  "handle_request w srv rq Health = pureS (Inr (HealthReply ''ok''))"
| "handle_request w srv rq Ready = pureS (ready_route (rq_readiness rq) (rq_schema_ready rq))"
| "handle_request w srv rq (Image key) =
     pureS (case srv_bucket srv of
       None \<Rightarrow> Inl route_not_found
     | Some b \<Rightarrow>
         (case get_image b key of None \<Rightarrow> Inr ImageNotFound | Some img \<Rightarrow> Inr (ImageReply img)))"
| "handle_request w srv rq (Callback kind connection body) =
     bindS (pureS (admit (rd_accepting (rq_readiness rq)))) (\<lambda>_.
     replyS (\<lambda>_. Accepted)
       (receive_callback w (srv_libs srv) (srv_verifiers srv) (srv_tolerance srv) (rq_now_unix rq)
          kind connection (rq_headers rq) body))"
| "handle_request w srv rq (Api r) =
     bindS (pureS (authenticate (srv_tokens srv) (rq_headers rq))) (\<lambda>_.
     bindS (pureS (admit (rd_accepting (rq_readiness rq)))) (\<lambda>_.
     api_handler w srv rq r))"
| "handle_request w srv rq UnknownRoute = pureS (Inl route_not_found)"
| "handle_request w srv rq MethodNotAllowed = pureS (Inl method_not_allowed)"

fun reply_status :: "reply \<Rightarrow> nat" where
  "reply_status ImageNotFound = 404"
| "reply_status Accepted = 202"
| "reply_status (CreatedReply _) = 201"
| "reply_status (AcknowledgedReply _) = 202"
| "reply_status (ResolvedReply _) = 202"
| "reply_status (RetriedReply _) = 202"
| "reply_status _ = 200"

text \<open>
  A request as a whole: it gets an identifier, which an error repeats, and its status and duration
  are counted.
\<close>

definition answer ::
    "world \<Rightarrow> server \<Rightarrow> http_request \<Rightarrow> uuid \<Rightarrow> nat
     \<Rightarrow> (job, (error_reply + reply) \<times> http_metrics) state" where
  "answer w srv rq request_id elapsed =
     State_Monad.bind (handle_request w srv rq (rq_route rq)) (\<lambda>r.
     State_Monad.return
       (map_err (error_into_response request_id) r,
        record_request (case r of Inl e \<Rightarrow> ae_status e | Inr reply \<Rightarrow> reply_status reply) elapsed
          (case r of Inr (StreamReply (m, _)) \<Rightarrow> m | _ \<Rightarrow> rq_metrics rq)))"

end
