(* ===== verification/Service.thy ===== *)
theory Service
  imports Routes
begin

text \<open>
  The service as a whole (\<open>run_listener\<close> in \<open>apps/agent-server/src/lib.rs\<close>): the HTTP interface and
  the workers beside it. Whatever they do to the database is a sequence of the store's transactions,
  so the guarantees of the store hold for the service.
\<close>

section \<open>The routes only make store steps\<close>

lemma stays_pureS [run_intros]: "stays_in_run (pureS r)"
  unfolding pureS_def by (rule run.runs_return)

lemma stays_store_call:
  assumes "others_step w" and "\<And>env db x db'. f env db = Inr (x, db') \<Longrightarrow> store_step db db'"
  shows "stays_in_run (store_call w lb f)"
  unfolding store_call_def using assms by (intro run_intros stays_call) auto

lemma stays_store_query [run_intros]: "others_step w \<Longrightarrow> stays_in_run (store_query w lb f)"
  unfolding store_query_def store_call_def by (intro run_intros)

lemma stays_replyS [run_intros]: "stays_in_run m \<Longrightarrow> stays_in_run (replyS f m)"
  unfolding replyS_def by (intro run_intros)

lemma stays_writes [run_intros]:
  assumes "others_step w"
  shows "stays_in_run (store_call w lb (\<lambda>env. create_session env n))"
    and "stays_in_run (store_call w lb (\<lambda>env. patch_session_metadata env i name metadata))"
    and "stays_in_run (store_call w lb (\<lambda>env. enqueue_external_event env x))"
    and "stays_in_run (store_call w lb (\<lambda>env. resolve_wait env wid key response))"
    and "stays_in_run (store_call w lb (\<lambda>env. retry_blocked_event env i eid revision key request reason))"
    and "stays_in_run (store_call w lb (\<lambda>env. record_callback_receipt env connection gev job payload))"
  using assms by (auto intro!: stays_store_call intro: store_step.intros)

lemma stays_snapshot [run_intros]:
  "others_step w \<Longrightarrow> stays_in_run (store_call w lb (\<lambda>env db. Inr (operational_metrics env db, db)))"
  unfolding store_call_def by (intro run_intros stays_call) auto

lemma stays_session_routes [run_intros]:
  assumes "others_step w"
  shows "stays_in_run (create w lb registry body)"
    and "stays_in_run (list_sessions_route w lb q)"
    and "stays_in_run (session_detail_route w lb path)"
    and "stays_in_run (update_session_route w lb path patch)"
    and "stays_in_run (message_route w lb path headers request)"
    and "stays_in_run (cancel_route w lb path headers request)"
    and "stays_in_run (retry_route w lb path headers request)"
  using assms
  unfolding create_def list_sessions_route_def session_detail_route_def update_session_route_def
    message_route_def cancel_route_def admit_event_def retry_route_def
  by (auto intro!: run_intros split: prod.split)

lemma stays_read_routes [run_intros]:
  assumes "others_step w"
  shows "stays_in_run (list_waits_route w lb path wq)"
    and "stays_in_run (wait_detail_route w lb ipath)"
    and "stays_in_run (resolve_route w lb ipath headers request)"
    and "stays_in_run (history_route w lb path hq)"
    and "stays_in_run (history_entry_route w lb ipath)"
    and "stays_in_run (updates_route w lb path uq)"
    and "stays_in_run (stream_route w lb m path uq headers)"
    and "stays_in_run (metrics_route w lb m)"
  using assms
  unfolding list_waits_route_def wait_detail_route_def resolve_route_def history_route_def
    history_entry_route_def updates_route_def stream_route_def metrics_route_def Let_def
  by (auto intro!: run_intros split: prod.split)

lemma stays_inspection_routes [run_intros]:
  assumes "others_step w"
  shows "stays_in_run (operations_route w lb path oq)"
    and "stays_in_run (operation_detail_route w lb ipath)"
    and "stays_in_run (operation_request_route w lb ipath)"
    and "stays_in_run (events_route w lb path eq)"
    and "stays_in_run (event_detail_route w lb ipath)"
    and "stays_in_run (handler_attempts_route w lb ipath aq)"
    and "stays_in_run (operation_attempts_route w lb ipath aq)"
  using assms
  unfolding operations_route_def operation_detail_route_def operation_request_route_def
    events_route_def event_detail_route_def handler_attempts_route_def operation_attempts_route_def
  by (auto intro!: run_intros split: prod.split)

lemma stays_receive_callback [run_intros]:
  "others_step w \<Longrightarrow>
     stays_in_run (receive_callback w lb verifiers tolerance now kind connection headers body)"
  unfolding receive_callback_def by (auto intro!: run_intros split: prod.split)

lemma stays_api_handler [run_intros]: "others_step w \<Longrightarrow> stays_in_run (api_handler w srv rq r)"
  by (cases r) (auto intro!: run_intros)

lemma stays_handle_request [run_intros]:
  "others_step w \<Longrightarrow> stays_in_run (handle_request w srv rq r)"
  by (cases r) (auto intro!: run_intros)

lemma stays_answer [run_intros]: "others_step w \<Longrightarrow> stays_in_run (answer w srv rq i elapsed)"
  unfolding answer_def by (intro run_intros)

lemma stays_stream_turn [run_intros]:
  "others_step w \<Longrightarrow> stays_in_run (stream_turn w lb draining i cursor)"
  unfolding stream_turn_def by (auto intro!: run_intros)

section \<open>The service\<close>

text \<open>
  The tasks \<open>run_listener\<close> joins, each by one turn of its loop: the scheduler, the dispatcher, the
  two sides of the completion runtime, the two maintenance workers and the cleanup of the update
  log, beside the requests and the update streams of the HTTP server.
\<close>

datatype task =
    Request server http_request uuid nat
  | StreamTurn api_libs "nat \<Rightarrow> bool" session_id int
  | SchedulerTurn scheduler bool
  | DispatcherTurn dispatcher "64 word"
  | ReceiptTurn completion
  | ResultTurn completion
  | ExpirationTurn maintenance_settings bool "(time \<times> wait_id) option"
  | CleanupTurn maintenance_settings bool "(time \<times> operation_id) option"
  | UpdateCleanupTurn "nat \<Rightarrow> env" nat

definition ignore :: "(job, 'a) state \<Rightarrow> (job, unit) state" where
  "ignore m = State_Monad.bind m (\<lambda>_. State_Monad.return ())"

definition on_database :: "world \<Rightarrow> (time \<Rightarrow> db \<Rightarrow> db) \<Rightarrow> (job, unit) state" where
  "on_database w f = State (\<lambda>s.
     let k = j_calls s in ((), after_call (f (rt_now w k) (rt_others w k (j_db s))) s))"

fun task_turn :: "world \<Rightarrow> task \<Rightarrow> (job, unit) state" where
  "task_turn w (Request srv rq request_id elapsed) = ignore (answer w srv rq request_id elapsed)"
| "task_turn w (StreamTurn lb draining i cursor) = ignore (stream_turn w lb draining i cursor)"
| "task_turn w (SchedulerTurn sc shutdown) = ignore (process_one w sc shutdown)"
| "task_turn w (DispatcherTurn dp cursor) = ignore (dispatch_one w dp cursor)"
| "task_turn w (ReceiptTurn cm) = ignore (process_one_receipt w cm)"
| "task_turn w (ResultTurn cm) = ignore (process_one_result w cm)"
| "task_turn w (ExpirationTurn st token cursor) = ignore (expire_batch w st token cursor)"
| "task_turn w (CleanupTurn st token cursor) = ignore (cleanup_batch w st token cursor)"
| "task_turn w (UpdateCleanupTurn envs retention) =
     on_database w (\<lambda>now. update_cleanup_turn envs now retention)"

lemma stays_ignore [run_intros]: "stays_in_run m \<Longrightarrow> stays_in_run (ignore m)"
  unfolding ignore_def by (intro run_intros)

lemma prune_sessions_run: "store_run db (snd (prune_sessions envs before is k removed db))"
proof (induction envs before "is" k removed db rule: prune_sessions.induct)
  case (2 envs before i "is" k removed db)
  show ?case
  proof (cases "prune_session (envs k) before i db")
    case (Inl e)
    then show ?thesis by simp
  next
    case (Inr r)
    obtain n db' where r: "r = (n, db')" by (cases r)
    have "store_step db db'" using Inr r by (auto intro: store_step.prune)
    moreover have "store_run db' (snd (prune_sessions envs before is (Suc k) (removed + n) db'))"
      using 2 Inr r by blast
    ultimately show ?thesis using Inr r by (simp add: converse_rtranclp_into_rtranclp)
  qed
qed simp

lemma stays_update_cleanup [run_intros]:
  assumes "others_step w"
  shows "stays_in_run (on_database w (\<lambda>now. update_cleanup_turn envs now retention))"
proof (rule runsI)
  fix x s s'
  assume run: "run_state (on_database w (\<lambda>now. update_cleanup_turn envs now retention)) s = (x, s')"
  let ?db = "rt_others w (j_calls s) (j_db s)"
  have "store_run ?db (update_cleanup_turn envs now retention ?db)" for now
    unfolding update_cleanup_turn_def prune_updates_def by (simp add: prune_sessions_run)
  moreover have "store_run (j_db s) ?db" using assms by (simp add: others_in_def)
  ultimately show "store_run (j_db s) (j_db s')"
    using run by (auto simp: on_database_def Let_def intro: rtranclp_trans)
qed

lemma stays_task_turn: "others_step w \<Longrightarrow> stays_in_run (task_turn w t)"
  by (cases t)
    (auto intro!: run_intros stays_process_one stays_dispatch_one stays_completion stays_expire_batch
      stays_cleanup_batch)

end
