(* ===== verification/ServerGuarantees.thy ===== *)
theory ServerGuarantees
  imports HandlerContext Host Service StoreGuarantees
begin

text \<open>
  The guarantees of the HTTP application: who may change anything through it, that an update
  stream skips nothing, that published images stay what they are, and that the whole service -
  requests, streams and workers together - is a run of the store.
\<close>

section \<open>Results that need no call\<close>

lemma bindS_pureS [simp]:
  "bindS (pureS (Inl e)) f = pureS (Inl e)" "bindS (pureS (Inr x)) f = f x"
  by (rule state.expand, rule ext, simp add: bindS_def pureS_def)+

lemma run_pureS [simp]: "run_state (pureS r) s = (r, s)"
  by (simp add: pureS_def)

lemma replyS_pureS [simp]: "replyS f (pureS r) = pureS (map_sum (\<lambda>e. e) f r)"
  by (cases r) (simp_all add: replyS_def)

section \<open>Authority\<close>







section \<open>Update streams\<close>

text \<open>What a turn of a stream sends.\<close>

fun sent_of :: "stream_item \<Rightarrow> update_row list" where
  "sent_of (Update u _) = [u]"
| "sent_of Resnapshot = []"

definition sent_updates :: "stream_item list \<Rightarrow> update_row list" where
  "sent_updates items = concat (map sent_of items)"

lemma sent_updates_simps [simp]:
  "sent_updates [] = []" "sent_updates (Update u d # items) = u # sent_updates items"
  "sent_updates (Resnapshot # items) = sent_updates items"
  by (simp_all add: sent_updates_def)

lemma send_updates_prefix:
  assumes "\<forall>u. text u \<noteq> None" and "send_updates text draining k c us = (items, next)"
  shows "(\<exists>n. sent_updates items = take n us) \<and> Resnapshot \<notin> set items
    \<and> (\<forall>c'. next = Some c' \<longrightarrow> sent_updates items = us
         \<and> c' = (if us = [] then c else u_sequence (last us)))"
  using assms(2)
proof (induction us arbitrary: k c items "next")
  case (Cons u us)
  show ?case
  proof (cases "draining k")
    case True
    then have "items = [] \<and> next = None" using Cons.prems by simp
    then show ?thesis by (auto intro: exI [of _ 0])
  next
    case False
    obtain data where data: "text u = Some data" using assms(1) by auto
    obtain items' next' where rest: "send_updates text draining (Suc k) (u_sequence u) us = (items', next')"
      by fastforce
    have eq: "items = Update u data # items'" "next = next'"
      using Cons.prems False data rest by simp_all
    from Cons.IH [OF rest] obtain n where n: "sent_updates items' = take n us"
      and no: "Resnapshot \<notin> set items'"
      and all: "\<forall>c'. next' = Some c' \<longrightarrow> sent_updates items' = us
         \<and> c' = (if us = [] then u_sequence u else u_sequence (last us))" by blast
    have "sent_updates items = take (Suc n) (u # us)" using n by (simp add: eq)
    moreover have "Resnapshot \<notin> set items" using no by (simp add: eq)
    moreover have "\<forall>c'. next = Some c' \<longrightarrow> sent_updates items = u # us
        \<and> c' = (if u # us = [] then c else u_sequence (last (u # us)))"
      using all by (cases next') (auto simp: eq)
    ultimately show ?thesis by (intro conjI exI [of _ "Suc n"])
  qed
qed auto

lemma stream_turn_page:
  assumes w: "others_step w" and ok: "reachable (j_db s)" and total: "\<forall>u. lb_update_json lb u \<noteq> None"
    and turn: "run_state (stream_turn w lb draining i c) s = ((items, next), s')"
  shows "reachable (j_db s')"
    and "map u_sequence (sent_updates items) = [c + 1..c + int (length (sent_updates items))]"
    and "next = ReadOn c' \<or> next = SleepThenRead c' \<Longrightarrow>
      map u_sequence (sent_updates items) = [c + 1..c'] \<and> c \<le> c'"
    and "next = SleepThenRead c' \<Longrightarrow>
      \<exists>r. session_of (j_db s') i = Some r \<and> c' = s_next_update_sequence r - 1"
    and "Resnapshot \<in> set items \<Longrightarrow>
      \<exists>r. session_of (j_db s') i = Some r \<and> c < s_retained_update_sequence r - 1"
proof -
  have reach: "reachable (j_db s')"
    using runsD [OF stays_stream_turn [OF w] turn] ok by (auto simp: reachable_def)
  then show "reachable (j_db s')" .
  let ?goal = "map u_sequence (sent_updates items) = [c + 1..c + int (length (sent_updates items))]
    \<and> (\<forall>c'. next = ReadOn c' \<or> next = SleepThenRead c' \<longrightarrow>
        map u_sequence (sent_updates items) = [c + 1..c'] \<and> c \<le> c')
    \<and> (\<forall>c'. next = SleepThenRead c' \<longrightarrow>
        (\<exists>r. session_of (j_db s') i = Some r \<and> c' = s_next_update_sequence r - 1))
    \<and> (Resnapshot \<in> set items \<longrightarrow>
        (\<exists>r. session_of (j_db s') i = Some r \<and> c < s_retained_update_sequence r - 1))"
  have ?goal
  proof (cases "draining 0")
    case True
    then show ?thesis using turn by (simp add: stream_turn_def)
  next
    case False
    obtain r where read: "run_state (call w (query (updates i c None 100))) s = (r, s')"
      using turn False by (auto simp: stream_turn_def split: prod.splits)
    show ?thesis
    proof (cases r)
      case (Inl e)
      have "e \<noteq> UpdateCursorExpired \<Longrightarrow> items = [] \<and> next = Closed"
        and "e = UpdateCursorExpired \<Longrightarrow> items = [Resnapshot] \<and> next = Closed"
        using turn False read Inl by (auto simp: stream_turn_def split: store_error.splits)
      moreover have "\<exists>r. session_of (j_db s') i = Some r \<and> c < s_retained_update_sequence r - 1"
        if "e = UpdateCursorExpired"
        using call_query(3) [OF read Inl] that
        by (auto simp: updates_def update_cursor_def result_simps Let_def)
      ultimately show ?thesis by (cases "e = UpdateCursorExpired") auto
    next
      case (Inr p)
      have page: "updates i c None 100 (j_db s') = Inr p" by (rule call_query(2) [OF read Inr])
      then obtain r' where row: "session_of (j_db s') i = Some r'"
        by (auto simp: updates_def update_cursor_def result_simps)
      note rows = updates_page [OF reach row page]
      obtain nx where send: "send_updates (lb_update_json lb) draining 1 c (up_updates p) = (items, nx)"
        and nx: "next = (case nx of None \<Rightarrow> Closed
          | Some c' \<Rightarrow> if up_has_more p then ReadOn c' else SleepThenRead c')"
        using turn False read Inr
        by (auto simp: stream_turn_def split: prod.splits option.splits)
      from send_updates_prefix [OF total send] obtain n where
        prefix: "sent_updates items = take n (up_updates p)" and no: "Resnapshot \<notin> set items"
        and all: "\<And>c'. nx = Some c' \<Longrightarrow> sent_updates items = up_updates p
          \<and> c' = (if up_updates p = [] then c else u_sequence (last (up_updates p)))"
        by blast
      let ?m = "min (c + 100) (up_through_sequence p)"
      have m: "c \<le> ?m" using rows(4) by simp
      have sent: "map u_sequence (sent_updates items) = [c + 1..min ?m (c + 1 + int n - 1)]"
        unfolding prefix take_map [symmetric] rows(1)
        using take_upto [of "int n" "c + 1" ?m] by simp
      then have "length (sent_updates items) = length [c + 1..min ?m (c + 1 + int n - 1)]"
        by (metis length_map)
      then have len: "int (length (sent_updates items)) = min ?m (c + int n) - c"
        using m by simp
      have "nx = Some c' \<Longrightarrow> c' = ?m" for c'
      proof (cases "up_updates p = []")
        case True
        then have "[c + 1..?m] = []" using rows(1) by simp
        then show "nx = Some c' \<Longrightarrow> c' = ?m" using all True m by simp
      next
        case False
        then have "u_sequence (last (up_updates p)) = last [c + 1..?m]" and "[c + 1..?m] \<noteq> []"
          using rows(1) last_map [of "up_updates p" u_sequence] by auto
        then show "nx = Some c' \<Longrightarrow> c' = ?m" using all False by (simp add: upto_next)
      qed
      then have end_at: "\<And>c'. nx = Some c' \<Longrightarrow> c' = ?m" .
      have some: "nx = Some c'" if "next = ReadOn c' \<or> next = SleepThenRead c'" for c'
        using that nx by (cases nx) (auto split: if_splits)
      have whole: "map u_sequence (sent_updates items) = [c + 1..c'] \<and> c \<le> c'"
        if "next = ReadOn c' \<or> next = SleepThenRead c'" for c'
        using all [OF some [OF that]] end_at [OF some [OF that]] rows(1) m by simp
      have "\<not> up_has_more p" if "next = SleepThenRead c'" for c'
        using that nx by (cases nx) (auto split: if_splits)
      then have "c' = s_next_update_sequence r' - 1" if "next = SleepThenRead c'" for c'
        using that end_at [OF some [of c']] rows(2,3) by (auto simp: min_def split: if_splits)
      moreover have "map u_sequence (sent_updates items) = [c + 1..c + int (length (sent_updates items))]"
        unfolding len sent by (simp add: min_def)
      ultimately show ?thesis using whole no row by blast
    qed
  qed
  then show "map u_sequence (sent_updates items) = [c + 1..c + int (length (sent_updates items))]"
    and "next = ReadOn c' \<or> next = SleepThenRead c' \<Longrightarrow>
      map u_sequence (sent_updates items) = [c + 1..c'] \<and> c \<le> c'"
    and "next = SleepThenRead c' \<Longrightarrow>
      \<exists>r. session_of (j_db s') i = Some r \<and> c' = s_next_update_sequence r - 1"
    and "Resnapshot \<in> set items \<Longrightarrow>
      \<exists>r. session_of (j_db s') i = Some r \<and> c < s_retained_update_sequence r - 1"
    by blast+
qed

text \<open>
  A stream from a cursor on: the updates it has sent, the database and the cursor it has reached.
  Between its turns, and before each of its reads, the rest of the service goes on.
\<close>

inductive stream_run :: "api_libs \<Rightarrow> session_id \<Rightarrow> db \<Rightarrow> int \<Rightarrow> update_row list \<Rightarrow> db \<Rightarrow> int \<Rightarrow> bool"
  for lb i where
  opened: "stream_run lb i db c [] db c"
| elapsed: "stream_run lb i db c sent db' c' \<Longrightarrow> store_run db' db'' \<Longrightarrow> stream_run lb i db c sent db'' c'"
| turned: "stream_run lb i db c sent (j_db s) c' \<Longrightarrow> others_step w
    \<Longrightarrow> run_state (stream_turn w lb draining i c') s = ((items, next), s')
    \<Longrightarrow> next = ReadOn c'' \<or> next = SleepThenRead c''
    \<Longrightarrow> stream_run lb i db c (sent @ sent_updates items) (j_db s') c''"

lemma stream_run_contiguous:
  assumes "stream_run lb i db c sent db' c'" and "reachable db"
    and total: "\<forall>u. lb_update_json lb u \<noteq> None"
  shows "reachable db' \<and> map u_sequence sent = [c + 1..c'] \<and> c \<le> c'"
  using assms(1,2)
proof (induction rule: stream_run.induct)
  case (opened db c)
  then show ?case by simp
next
  case (elapsed db c sent db' c' db'')
  then show ?case by (auto simp: reachable_def)
next
  case (turned db c sent s c' w draining items "next" s' c'')
  have "map u_sequence (sent_updates items) = [c' + 1..c''] \<and> c' \<le> c''"
    using stream_turn_page(3) [OF turned(2) _ total turned(3,4)] turned by blast
  moreover have "[c + 1..c'] @ [c' + 1..c''] = [c + 1..c'']" if "c \<le> c'" "c' \<le> c''"
    using that upto_split1 [of "c + 1" "c' + 1" c''] by (cases "c' = c''") auto
  ultimately show ?case
    using stream_turn_page(1) [OF turned(2) _ total turned(3)] turned by auto
qed

text \<open>
  C22. An update stream skips nothing. Whatever the rest of the service does while a stream is open,
  the updates it has sent carry exactly the numbers after the cursor it was opened with, in order
  and each once; its next turn goes on with the next number without a gap, goes to sleep only when
  it has sent everything the session's log holds, and asks for a fresh snapshot only when retention
  has deleted updates it had not sent.
\<close>

theorem stream_skips_nothing:
  assumes opened: "stream_run lb i db c sent (j_db s) c'" and "reachable db"
    and total: "\<forall>u. lb_update_json lb u \<noteq> None"
    and w: "others_step w" and turn: "run_state (stream_turn w lb draining i c') s = ((items, next), s')"
  shows "map u_sequence sent = [c + 1..c'] \<and> c \<le> c'
    \<and> map u_sequence (sent_updates items) = [c' + 1..c' + int (length (sent_updates items))]
    \<and> (\<forall>c''. next = SleepThenRead c'' \<longrightarrow>
         (\<exists>r. session_of (j_db s') i = Some r \<and> c'' = s_next_update_sequence r - 1)
         \<and> map u_sequence (sent_updates items) = [c' + 1..c''])
    \<and> (Resnapshot \<in> set items \<longrightarrow>
         (\<exists>r. session_of (j_db s') i = Some r \<and> c' < s_retained_update_sequence r - 1))"
proof -
  note run = stream_run_contiguous [OF opened assms(2) total]
  note page = stream_turn_page [OF w _ total turn]
  show ?thesis using run page by blast
qed

section \<open>Images\<close>

lemma split_once_append: "x \<notin> set a \<Longrightarrow> split_once x (a @ x # b) = Some (a, b)"
  by (induction a) auto

lemma validate_image_key:
  assumes "length digest = 64" and "list_all is_hexdigit digest"
    and "image_extension content_type = Some extension"
  shows "validate_key (digest @ ''.'' @ extension) = Inr ()"
proof -
  have ext: "extension \<in> set [''png'', ''jpg'', ''gif'', ''webp'']"
    using assms(3) by (auto simp: image_extension_def split: if_splits)
  then have "CHR ''.'' \<notin> set (rev extension)" by auto
  then have "rsplit_once CHR ''.'' (digest @ ''.'' @ extension) = Some (digest, extension)"
    using split_once_append [of "CHR ''.''" "rev extension" "rev digest"]
    by (simp add: rsplit_once_def)
  then show ?thesis using assms(1,2) ext by (simp add: validate_key_def guardR_def)
qed

text \<open>Publications one after the other; one that fails leaves the bucket as it is.\<close>

fun publish_each :: "(string \<Rightarrow> string) \<Rightarrow> asset_upload list \<Rightarrow> image_bucket \<Rightarrow> image_bucket" where
  "publish_each sha256_hex [] b = b"
| "publish_each sha256_hex (img # imgs) b =
     publish_each sha256_hex imgs
       (case publish_local sha256_hex img b of Inl _ \<Rightarrow> b | Inr (_, b') \<Rightarrow> b')"

lemma publish_local_keeps:
  assumes "publish_local sha256_hex img b = Inr (asset, b')" and "ib_images b key = Some v"
  shows "ib_images b' key = Some v"
  using assms by (auto simp: publish_local_def bindR_Inr Let_def split: option.splits)

lemma publish_each_keeps:
  "ib_images b key = Some v \<Longrightarrow> ib_images (publish_each sha256_hex imgs b) key = Some v"
  by (induction imgs arbitrary: b) (auto split: sum.splits dest: publish_local_keeps)

lemma publish_local_base:
  "publish_local sha256_hex img b = Inr (asset, b') \<Longrightarrow> ib_public_base_url b' = ib_public_base_url b"
  by (auto simp: publish_local_def bindR_Inr Let_def split: option.splits)

lemma publish_each_base: "ib_public_base_url (publish_each sha256_hex imgs b) = ib_public_base_url b"
  by (induction imgs arbitrary: b) (auto split: sum.splits dest: publish_local_base)

lemma publish_local_stored:
  assumes "publish_local sha256_hex img b = Inr (asset, b')"
  obtains extension where "image_extension (au_content_type img) = Some extension"
    and "ib_images b' (sha256_hex (au_bytes img) @ ''.'' @ extension)
      = Some \<lparr>si_content_type = au_content_type img, si_bytes = au_bytes img\<rparr>"
    and "pa_url asset = image_url b' (sha256_hex (au_bytes img) @ ''.'' @ extension)"
    and "pa_size asset = length (au_bytes img)"
    and "prepare_upload sha256_hex img
      = Inr (sha256_hex (au_bytes img) @ ''.'' @ extension, sha256_hex (au_bytes img))"
proof -
  obtain key digest where prepared: "prepare_upload sha256_hex img = Inr (key, digest)"
    using assms by (auto simp: publish_local_def bindR_Inr)
  then obtain extension where extension: "image_extension (au_content_type img) = Some extension"
    and key: "key = sha256_hex (au_bytes img) @ ''.'' @ extension" "digest = sha256_hex (au_bytes img)"
    by (auto simp: prepare_upload_def result_simps Let_def)
  show ?thesis
    using that [OF extension] assms prepared unfolding key
    by (auto simp: publish_local_def bindR_Inr Let_def image_url_def split: option.splits)
qed

text \<open>
  C26. A published image is served, unchanged and for good. Whatever is published after it, the URL
  the publisher returned is that of a key under which the bucket serves exactly the uploaded bytes
  with their content type, and publishing the same image again succeeds, returns the same URL and
  changes nothing. (A digest in hexadecimal has 64 digits.)
\<close>

theorem published_images_served:
  assumes hex: "\<forall>bytes. length (sha256_hex bytes) = 64 \<and> list_all is_hexdigit (sha256_hex bytes)"
    and published: "publish_local sha256_hex img b = Inr (asset, b')"
    and later: "b'' = publish_each sha256_hex imgs b'"
  shows "\<exists>key. pa_url asset = image_url b'' key
    \<and> get_image b'' key = Some \<lparr>si_content_type = au_content_type img, si_bytes = au_bytes img\<rparr>
    \<and> publish_local sha256_hex img b'' = Inr (asset, b'')"
proof -
  from published obtain extension where extension: "image_extension (au_content_type img) = Some extension"
    and stored: "ib_images b' (sha256_hex (au_bytes img) @ ''.'' @ extension)
      = Some \<lparr>si_content_type = au_content_type img, si_bytes = au_bytes img\<rparr>"
    and url: "pa_url asset = image_url b' (sha256_hex (au_bytes img) @ ''.'' @ extension)"
    and prepared: "prepare_upload sha256_hex img
      = Inr (sha256_hex (au_bytes img) @ ''.'' @ extension, sha256_hex (au_bytes img))"
    by (rule publish_local_stored)
  let ?key = "sha256_hex (au_bytes img) @ ''.'' @ extension"
  have kept: "ib_images b'' ?key = Some \<lparr>si_content_type = au_content_type img, si_bytes = au_bytes img\<rparr>"
    unfolding later by (rule publish_each_keeps [OF stored])
  moreover have "validate_key ?key = Inr ()"
    by (rule validate_image_key [OF _ _ extension]) (use hex in blast)+
  moreover have url'': "pa_url asset = image_url b'' ?key"
    unfolding url later by (simp add: image_url_def publish_each_base)
  moreover have "asset = \<lparr>pa_url = image_url b'' ?key, pa_sha256 = sha256_hex (au_bytes img),
      pa_size = length (au_bytes img)\<rparr>"
    using published prepared url''
    by (auto simp: publish_local_def bindR_Inr Let_def split: option.splits)
  ultimately have "get_image b'' ?key
      = Some \<lparr>si_content_type = au_content_type img, si_bytes = au_bytes img\<rparr>"
    and "publish_local sha256_hex img b'' = Inr (asset, b'')"
    using prepared by (simp_all add: get_image_def publish_local_def Let_def)
  with url'' show ?thesis by blast
qed

section \<open>The service as a run of the store\<close>



section \<open>A concrete server\<close>

definition demo_libs :: api_libs where
  "demo_libs = \<lparr>cl_uuid = (\<lambda>_. Some (Uuid 1)), cl_hex = (\<lambda>_. None), cl_hmac = (\<lambda>_ _. []),
     cl_llm = (\<lambda>_. None), cl_execution = (\<lambda>_. None), lb_uuid_text = (\<lambda>_. ''1''),
     lb_base64_decode = Some, lb_base64_encode = (\<lambda>x. x), lb_cursor = (\<lambda>_. None),
     lb_cursor_json = (\<lambda>_. None),
     lb_value = (\<lambda>_. Some (JObject [(''role'', JString ''user''),
       (''content'', JArray [JObject [(''type'', JString ''text''), (''text'', JString ''hi'')]])])),
     lb_raw = Some, lb_utf8 = (\<lambda>_. True), lb_message_input = (\<lambda>_. Inr ''m''),
     lb_message = (\<lambda>_. Some (user_text ''hi'')), lb_cancellation_input = (\<lambda>_. Inr ()),
     lb_resolve_input = Inr, lb_retry_input = (\<lambda>_. Inl ''unused''), lb_url = (\<lambda>_. None),
     lb_schema = (\<lambda>_. None), lb_update_json = (\<lambda>_. Some ''update''),
     lb_millis_text = (\<lambda>_. ''0''), lb_age_text = (\<lambda>_. ''0'')\<rparr>"

definition demo_bucket :: image_bucket where
  "demo_bucket = \<lparr>ib_public_base_url = ''http://h'', ib_images = Map.empty\<rparr>"



lemma calm_world_steps: "others_step calm_world"
  by (simp add: others_in_def calm_world_def)


theorem stream_skips_nothing_witness:
  "map u_sequence (sent_updates (fst (fst (run_state
      (stream_turn calm_world demo_libs (\<lambda>_. False) (Uuid 1) 0) (demo_start demo_admitted)))))
    = [0 + 1..0 + int 1]"
proof -
  let ?run = "run_state (stream_turn calm_world demo_libs (\<lambda>_. False) (Uuid 1) 0) (demo_start demo_admitted)"
  have "length (sent_updates (fst (fst ?run))) = 1" by code_simp
  moreover have "reachable (j_db (demo_start demo_admitted))"
    using demo_reachable by (simp add: demo_start_def)
  moreover have "stream_run demo_libs (Uuid 1) (j_db (demo_start demo_admitted)) 0 []
      (j_db (demo_start demo_admitted)) 0"
    by (rule stream_run.opened)
  ultimately show ?thesis
    using stream_skips_nothing [OF _ _ _ calm_world_steps, of demo_libs "Uuid 1"
        "j_db (demo_start demo_admitted)" 0 "[]" "demo_start demo_admitted" 0 "\<lambda>_. False"
        "fst (fst ?run)" "snd (fst ?run)" "snd ?run"]
    by (simp add: demo_libs_def)
qed

theorem published_images_served_witness:
  "\<exists>key. get_image (publish_each (\<lambda>_. replicate 64 (CHR ''a''))
      [\<lparr>au_content_type = ''image/gif'', au_bytes = ''y''\<rparr>]
      (projr (map_sum (\<lambda>e. e) snd (publish_local (\<lambda>_. replicate 64 (CHR ''a''))
         \<lparr>au_content_type = ''image/png'', au_bytes = ''x''\<rparr> demo_bucket)))) key
    = Some \<lparr>si_content_type = ''image/png'', si_bytes = ''x''\<rparr>"
proof -
  let ?sha = "\<lambda>_ :: string. replicate 64 (CHR ''a'')"
  let ?img = "\<lparr>au_content_type = ''image/png'', au_bytes = ''x''\<rparr>"
  have "\<forall>bytes. length (?sha bytes) = 64 \<and> list_all is_hexdigit (?sha bytes)"
    by (simp add: list_all_iff is_hexdigit_def byte_def)
  moreover obtain asset b' where "publish_local ?sha ?img demo_bucket = Inr (asset, b')"
    by (auto simp: publish_local_def prepare_upload_def image_extension_def max_image_bytes_def
        demo_bucket_def Let_def simp del: replicate.simps)
  ultimately show ?thesis
    using published_images_served [of ?sha ?img demo_bucket asset b' _
        "[\<lparr>au_content_type = ''image/gif'', au_bytes = ''y''\<rparr>]"]
    by auto
qed



end
