(* ===== verification/RunLoops.thy ===== *)
theory RunLoops
  imports Scheduler Dispatch Completion "HOL-Library.Multiset"
begin

text \<open>
  The tasks of the runtime: the \<open>run\<close> loops of \<open>scheduler.rs\<close>, \<open>dispatch.rs\<close> and
  \<open>completion.rs\<close> in \<open>packages/agent-runtime/src\<close>, which claim work as long as fewer than the
  configured number of workers are running, and the lease keepers that renew the claim of a worker
  beside it. What a worker does with its claim is the \<open>process_claim\<close> of its theory; here it is
  only known to have ended, or to have panicked.
\<close>

section \<open>Worker pools\<close>

text \<open>
  Where a loop is: at the claim transaction (\<open>Filling\<close>), in the pause after a scan that failed
  (\<open>BackingOff\<close>, only the completion runtime has one), at the \<open>select!\<close> between a shutdown, a worker
  that ends and the timer (\<open>Idle\<close>), in the grace period, or returned.
\<close>

datatype loop_point = Disabled | Filling | BackingOff | Idle | Draining | Done "string + unit"

text \<open>
  The \<open>JoinSet\<close> of a loop holds the claims its workers were given (\<open>wp_running\<close>). The model keeps
  what becomes of the others: joined, aborted and waited for, or aborted while the loop returns at
  once. \<open>wp_observed\<close> is the snapshot of the work signal, \<open>wp_generation\<close> its counter.
\<close>

record 'c pool =
  wp_at :: loop_point
  wp_stopping :: bool
  wp_running :: "'c list"
  wp_joined :: "'c list"
  wp_aborted :: "'c list"
  wp_abandoned :: "'c list"
  wp_observed :: generation
  wp_generation :: generation

text \<open>
  What happens to a loop: the shutdown token is cancelled, at any time; a \<open>select!\<close> takes its
  shutdown branch; the claim transaction returns; \<open>join_next\<close> returns the \<open>i\<close>-th worker, with the
  text of its panic if it had one; the timer of the current wait fires; the work signal is notified,
  or wakes the wait; the grace period is over.
\<close>

datatype 'c happening =
    ShutdownRequested
  | ShutdownSeen
  | Scanned "store_error + 'c option"
  | Joined nat "string option"
  | TimerFired
  | Notified
  | Woken
  | GraceOver

definition remove_nth :: "nat \<Rightarrow> 'a list \<Rightarrow> 'a list" where
  "remove_nth i xs = take i xs @ drop (Suc i) xs"

definition spawn :: "'c \<Rightarrow> 'c pool \<Rightarrow> 'c pool" where
  "spawn c p = p\<lparr>wp_running := wp_running p @ [c]\<rparr>"

definition join_worker :: "nat \<Rightarrow> 'c pool \<Rightarrow> 'c pool" where
  "join_worker i p = p\<lparr>wp_running := remove_nth i (wp_running p),
     wp_joined := wp_joined p @ [wp_running p ! i]\<rparr>"

text \<open>\<open>workers.abort_all(); while workers.join_next().await.is_some() {}\<close>\<close>

definition abort_and_join :: "'c pool \<Rightarrow> 'c pool" where
  "abort_and_join p = p\<lparr>wp_running := [], wp_aborted := wp_aborted p @ wp_running p\<rparr>"

text \<open>Returning drops the \<open>JoinSet\<close>, which aborts what is left in it without waiting.\<close>

definition finish :: "string + unit \<Rightarrow> 'c pool \<Rightarrow> 'c pool" where
  "finish r p = p\<lparr>wp_at := Done r, wp_running := [], wp_abandoned := wp_abandoned p @ wp_running p\<rparr>"

definition pool_start :: "('c pool \<Rightarrow> 'c pool) \<Rightarrow> bool \<Rightarrow> generation \<Rightarrow> 'c pool" where
  "pool_start enter enabled g =
     (let p = \<lparr>wp_at = Disabled, wp_stopping = False, wp_running = [], wp_joined = [],
        wp_aborted = [], wp_abandoned = [], wp_observed = g, wp_generation = g\<rparr> in
      if enabled then enter p else p)"

text \<open>What no loop decides itself.\<close>

definition outside :: "'c happening \<Rightarrow> 'c pool \<Rightarrow> 'c pool option" where
  "outside h p =
     (case h of
        ShutdownRequested \<Rightarrow> Some (p\<lparr>wp_stopping := True\<rparr>)
      | Notified \<Rightarrow> Some (p\<lparr>wp_generation := notify (wp_generation p)\<rparr>)
      | _ \<Rightarrow> None)"

section \<open>The scheduler's loop\<close>

text \<open>After \<open>break\<close> out of the loop: return if no worker runs, else start the grace period.\<close>

definition drain :: "'c pool \<Rightarrow> 'c pool" where
  "drain p = (if wp_running p = [] then finish (Inr ()) p else p\<lparr>wp_at := Draining\<rparr>)"

text \<open>\<open>while workers.len() < max { if shutdown.is_cancelled() { break 'scheduling } ...\<close>\<close>

definition fill :: "nat \<Rightarrow> 'c pool \<Rightarrow> 'c pool" where
  "fill limit p =
     (if length (wp_running p) < limit
      then if wp_stopping p then drain p else p\<lparr>wp_at := Filling\<rparr>
      else p\<lparr>wp_at := Idle\<rparr>)"

text \<open>A worker that has ended is joined; a panic ends the loop with \<open>Worker(message)\<close>.\<close>

definition join_idle :: "('c pool \<Rightarrow> 'c pool) \<Rightarrow> nat \<Rightarrow> string option \<Rightarrow> 'c pool \<Rightarrow> 'c pool" where
  "join_idle enter i panicked p =
     (case panicked of
        None \<Rightarrow> enter (join_worker i p)
      | Some message \<Rightarrow> finish (Inl message) (join_worker i p))"

text \<open>
  The claim's \<open>select!\<close> is biased: while the token is cancelled the transaction's answer is not
  taken, its future is dropped.
\<close>

definition scheduler_loop ::
    "scheduler_settings \<Rightarrow> 'c happening \<Rightarrow> 'c pool \<Rightarrow> 'c pool option" where
  "scheduler_loop st h p =
     (let enter = fill (ss_max_concurrent_handlers st) in
      case wp_at p of
        Done _ \<Rightarrow> None
      | Disabled \<Rightarrow>
          (case h of ShutdownSeen \<Rightarrow> if wp_stopping p then Some (finish (Inr ()) p) else None
           | _ \<Rightarrow> outside h p)
      | Filling \<Rightarrow>
          (case h of
             ShutdownSeen \<Rightarrow> if wp_stopping p then Some (drain p) else None
           | Scanned r \<Rightarrow>
               if wp_stopping p then None
               else Some (case r of
                   Inr (Some c) \<Rightarrow> enter (spawn c p)
                 | Inr None \<Rightarrow> p\<lparr>wp_at := Idle\<rparr>
                 | Inl _ \<Rightarrow> p\<lparr>wp_at := Idle\<rparr>)
           | _ \<Rightarrow> outside h p)
      | Idle \<Rightarrow>
          (case h of
             ShutdownSeen \<Rightarrow> if wp_stopping p then Some (drain p) else None
           | Joined i panicked \<Rightarrow>
               if i < length (wp_running p) then Some (join_idle enter i panicked p) else None
           | TimerFired \<Rightarrow> Some (enter p)
           | _ \<Rightarrow> outside h p)
      | Draining \<Rightarrow>
          (case h of
             GraceOver \<Rightarrow> Some (finish (Inr ()) (abort_and_join p))
           | Joined i panicked \<Rightarrow>
               if i < length (wp_running p) then Some (join_idle drain i panicked p) else None
           | _ \<Rightarrow> outside h p)
      | BackingOff \<Rightarrow> None)"

section \<open>The dispatcher's loop\<close>

text \<open>
  The dispatcher takes its snapshot of the work signal before it scans, and the wait that follows
  returns at once if somebody has notified since. Without a signal (\<open>signalled\<close> is false) it only
  has the timer.
\<close>

definition observe :: "'c pool \<Rightarrow> 'c pool" where
  "observe p = p\<lparr>wp_observed := snapshot (wp_generation p)\<rparr>"

definition woken :: "bool \<Rightarrow> 'c pool \<Rightarrow> bool" where
  "woken signalled p \<longleftrightarrow> signalled \<and> wait_returns_at_once (wp_observed p) (wp_generation p)"

definition dispatcher_loop ::
    "dispatcher_settings \<Rightarrow> bool \<Rightarrow> 'c happening \<Rightarrow> 'c pool \<Rightarrow> 'c pool option" where
  "dispatcher_loop st signalled h p =
     (let refill = fill (ds_max_concurrent_dispatches st); enter = refill \<circ> observe in
      case wp_at p of
        Done _ \<Rightarrow> None
      | Disabled \<Rightarrow>
          (case h of ShutdownSeen \<Rightarrow> if wp_stopping p then Some (finish (Inr ()) p) else None
           | _ \<Rightarrow> outside h p)
      | Filling \<Rightarrow>
          (case h of
             ShutdownSeen \<Rightarrow> if wp_stopping p then Some (drain p) else None
           | Scanned r \<Rightarrow>
               if wp_stopping p then None
               else Some (case r of
                   Inr (Some c) \<Rightarrow> refill (spawn c p)
                 | Inr None \<Rightarrow> p\<lparr>wp_at := Idle\<rparr>
                 | Inl _ \<Rightarrow> p\<lparr>wp_at := Idle\<rparr>)
           | _ \<Rightarrow> outside h p)
      | Idle \<Rightarrow>
          (case h of
             ShutdownSeen \<Rightarrow> if wp_stopping p then Some (drain p) else None
           | Joined i panicked \<Rightarrow>
               if i < length (wp_running p) then Some (join_idle enter i panicked p) else None
           | TimerFired \<Rightarrow> Some (enter p)
           | Woken \<Rightarrow> if woken signalled p then Some (enter p) else None
           | _ \<Rightarrow> outside h p)
      | Draining \<Rightarrow>
          (case h of
             GraceOver \<Rightarrow> Some (finish (Inr ()) (abort_and_join p))
           | Joined i panicked \<Rightarrow>
               if i < length (wp_running p) then Some (join_idle drain i panicked p) else None
           | _ \<Rightarrow> outside h p)
      | BackingOff \<Rightarrow> None)"

section \<open>The completion runtime's loop\<close>

text \<open>
  Here the claim's \<open>select!\<close> is not biased and the token is not asked before it, so a claim whose
  transaction returns at the moment of the shutdown is still given to a worker; a failed scan is
  followed by a pause; and after the grace period the workers are told to stop, not waited for.
  Panics during the grace period are not reported.
\<close>

definition fill_eagerly :: "nat \<Rightarrow> 'c pool \<Rightarrow> 'c pool" where
  "fill_eagerly limit p =
     (if length (wp_running p) < limit then p\<lparr>wp_at := Filling\<rparr> else p\<lparr>wp_at := Idle\<rparr>)"

definition completion_loop ::
    "completion_settings \<Rightarrow> bool \<Rightarrow> 'c happening \<Rightarrow> 'c pool \<Rightarrow> 'c pool option" where
  "completion_loop st signalled h p =
     (let refill = fill_eagerly (cs_max_concurrent_results st); enter = refill \<circ> observe in
      case wp_at p of
        Done _ \<Rightarrow> None
      | Disabled \<Rightarrow>
          (case h of ShutdownSeen \<Rightarrow> if wp_stopping p then Some (finish (Inr ()) p) else None
           | _ \<Rightarrow> outside h p)
      | Filling \<Rightarrow>
          (case h of
             ShutdownSeen \<Rightarrow> if wp_stopping p then Some (drain p) else None
           | Scanned r \<Rightarrow>
               Some (case r of
                   Inr (Some c) \<Rightarrow> refill (spawn c p)
                 | Inr None \<Rightarrow> p\<lparr>wp_at := Idle\<rparr>
                 | Inl _ \<Rightarrow> p\<lparr>wp_at := BackingOff\<rparr>)
           | _ \<Rightarrow> outside h p)
      | BackingOff \<Rightarrow>
          (case h of
             ShutdownSeen \<Rightarrow> if wp_stopping p then Some (drain p) else None
           | TimerFired \<Rightarrow> Some (p\<lparr>wp_at := Idle\<rparr>)
           | _ \<Rightarrow> outside h p)
      | Idle \<Rightarrow>
          (case h of
             ShutdownSeen \<Rightarrow> if wp_stopping p then Some (drain p) else None
           | Joined i panicked \<Rightarrow>
               if i < length (wp_running p) then Some (join_idle enter i panicked p) else None
           | TimerFired \<Rightarrow> Some (enter p)
           | Woken \<Rightarrow> if woken signalled p then Some (enter p) else None
           | _ \<Rightarrow> outside h p)
      | Draining \<Rightarrow>
          (case h of
             GraceOver \<Rightarrow> Some (finish (Inr ()) p)
           | Joined i panicked \<Rightarrow>
               if i < length (wp_running p) then Some (drain (join_worker i p)) else None
           | _ \<Rightarrow> outside h p))"

section \<open>What every pool promises\<close>

named_theorems pool_simps "what the parts of a loop do to a pool"

definition pool_claims :: "'c pool \<Rightarrow> 'c multiset" where
  "pool_claims p = mset (wp_running p) + mset (wp_joined p) + mset (wp_aborted p) + mset (wp_abandoned p)"

fun taken :: "'c happening \<Rightarrow> 'c multiset" where
  "taken (Scanned (Inr (Some c))) = {#c#}"
| "taken _ = {#}"

fun pool_run :: "('h \<Rightarrow> 'p \<Rightarrow> 'p option) \<Rightarrow> 'h list \<Rightarrow> 'p \<Rightarrow> 'p option" where
  "pool_run step [] p = Some p"
| "pool_run step (h # hs) p = Option.bind (step h p) (pool_run step hs)"

lemma pool_run_append:
  "pool_run step (hs @ hs') p = Option.bind (pool_run step hs p) (pool_run step hs')"
  by (induction hs arbitrary: p) (simp_all split: Option.bind_split)

lemma pool_run_invariant:
  assumes "pool_run step hs p = Some q" and "I p" and "\<And>h p q. step h p = Some q \<Longrightarrow> I p \<Longrightarrow> I q"
  shows "I q"
  using assms(1,2) by (induction hs arbitrary: p) (auto simp: bind_eq_Some_conv intro: assms(3))

lemma mset_remove_nth: "i < length xs \<Longrightarrow> add_mset (xs ! i) (mset (remove_nth i xs)) = mset xs"
proof -
  assume "i < length xs"
  then have "mset xs = mset (take i xs @ xs ! i # drop (Suc i) xs)" by (simp add: id_take_nth_drop [symmetric])
  then show ?thesis by (simp add: remove_nth_def)
qed

text \<open>What the parts of a loop do to the claims, to the number of workers, and at the end.\<close>

lemma claims_parts [pool_simps]:
  "pool_claims (spawn c p) = add_mset c (pool_claims p)"
  "i < length (wp_running p) \<Longrightarrow> pool_claims (join_worker i p) = pool_claims p"
  "pool_claims (abort_and_join p) = pool_claims p" "pool_claims (finish r p) = pool_claims p"
  "pool_claims (drain p) = pool_claims p" "pool_claims (fill limit p) = pool_claims p"
  "pool_claims (fill_eagerly limit p) = pool_claims p" "pool_claims (observe p) = pool_claims p"
  "pool_claims (p\<lparr>wp_at := at\<rparr>) = pool_claims p" "pool_claims (p\<lparr>wp_stopping := b\<rparr>) = pool_claims p"
  "pool_claims (p\<lparr>wp_generation := g\<rparr>) = pool_claims p"
  using mset_remove_nth [of i "wp_running p"]
  by (auto simp: pool_claims_def spawn_def join_worker_def abort_and_join_def finish_def drain_def
      fill_def fill_eagerly_def observe_def)

lemma running_parts [pool_simps]:
  "wp_running (spawn c p) = wp_running p @ [c]"
  "i < length (wp_running p) \<Longrightarrow> length (wp_running (join_worker i p)) = length (wp_running p) - 1"
  "wp_running (abort_and_join p) = []" "wp_running (finish r p) = []"
  "wp_running (drain p) = wp_running p" "wp_running (fill limit p) = wp_running p"
  "wp_running (fill_eagerly limit p) = wp_running p" "wp_running (observe p) = wp_running p"
  by (simp_all add: spawn_def join_worker_def remove_nth_def abort_and_join_def finish_def drain_def
      fill_def fill_eagerly_def observe_def)

lemma filling_parts [pool_simps]:
  "wp_at (finish r p) = Done r" "wp_at (drain p) \<noteq> Filling"
  "wp_at (fill limit p) = Filling \<Longrightarrow> length (wp_running p) < limit"
  "wp_at (fill_eagerly limit p) = Filling \<Longrightarrow> length (wp_running p) < limit"
  by (auto simp: finish_def drain_def fill_def fill_eagerly_def split: if_splits)

lemma stopping_parts [pool_simps]:
  "wp_stopping (spawn c p) = wp_stopping p" "wp_stopping (join_worker i p) = wp_stopping p"
  "wp_stopping (abort_and_join p) = wp_stopping p" "wp_stopping (finish r p) = wp_stopping p"
  "wp_stopping (drain p) = wp_stopping p" "wp_stopping (fill limit p) = wp_stopping p"
  "wp_stopping (fill_eagerly limit p) = wp_stopping p" "wp_stopping (observe p) = wp_stopping p"
  by (simp_all add: spawn_def join_worker_def abort_and_join_def finish_def drain_def
      fill_def fill_eagerly_def observe_def)

lemmas pool_parts = drain_def fill_def fill_eagerly_def finish_def spawn_def join_worker_def
  abort_and_join_def observe_def

lemmas loop_splits = loop_point.splits happening.splits if_splits sum.splits option.splits

text \<open>
  A pool keeps within its limit, accounts for every claim it was given, and once it has returned
  has no worker that it still counts as running.
\<close>

locale worker_pool =
  fixes step :: "'c happening \<Rightarrow> 'c pool \<Rightarrow> 'c pool option"
    and limit :: nat
  assumes keeps_limit: "step h p = Some q \<Longrightarrow> length (wp_running p) \<le> limit \<Longrightarrow>
      (wp_at p = Filling \<Longrightarrow> length (wp_running p) < limit) \<Longrightarrow>
      length (wp_running q) \<le> limit \<and> (wp_at q = Filling \<longrightarrow> length (wp_running q) < limit)"
    and accounts: "step h p = Some q \<Longrightarrow> pool_claims q = pool_claims p + taken h"
begin

lemma run_limit:
  assumes "pool_run step hs p = Some q" and "length (wp_running p) \<le> limit"
    and "wp_at p = Filling \<Longrightarrow> length (wp_running p) < limit"
  shows "length (wp_running q) \<le> limit"
  using pool_run_invariant [OF assms(1), of "\<lambda>p. length (wp_running p) \<le> limit
      \<and> (wp_at p = Filling \<longrightarrow> length (wp_running p) < limit)"] assms(2,3) keeps_limit by blast

lemma run_accounts:
  "pool_run step hs p = Some q \<Longrightarrow> pool_claims q = pool_claims p + sum_list (map taken hs)"
  by (induction hs arbitrary: p) (auto simp: bind_eq_Some_conv accounts)

end

text \<open>
  A pool that is orderly takes no claim once it is told to stop, and leaves no worker behind when
  it returns without an error.
\<close>

definition left_nobody :: "'c pool \<Rightarrow> bool" where
  "left_nobody p \<longleftrightarrow> (case wp_at p of
     Done (Inr _) \<Rightarrow> wp_running p = [] \<and> wp_abandoned p = []
   | Done (Inl _) \<Rightarrow> wp_running p = []
   | Disabled \<Rightarrow> wp_running p = [] \<and> wp_abandoned p = []
   | BackingOff \<Rightarrow> False
   | _ \<Rightarrow> wp_abandoned p = [])"

text \<open>
  \<open>orderly_stop\<close> is what a pool that was told to stop at \<open>p\<close> has to show at a later \<open>q\<close>.
\<close>

definition returns_soon :: "('c happening \<Rightarrow> 'c pool \<Rightarrow> 'c pool option) \<Rightarrow> 'c pool \<Rightarrow> bool" where
  "returns_soon step p \<longleftrightarrow> (\<exists>hs q. set hs \<subseteq> {ShutdownSeen, GraceOver} \<and> length hs \<le> 2
     \<and> pool_run step hs p = Some q \<and> wp_at q = Done (Inr ()))"

definition orderly_stop ::
    "('c happening \<Rightarrow> 'c pool \<Rightarrow> 'c pool option) \<Rightarrow> 'c pool \<Rightarrow> 'c pool \<Rightarrow> bool" where
  "orderly_stop step p q \<longleftrightarrow> pool_claims q = pool_claims p
     \<and> (wp_at q = Done (Inr ()) \<longrightarrow> wp_running q = [] \<and> wp_abandoned q = [])
     \<and> (returns_soon step q \<or> (\<exists>r. wp_at q = Done r))"

lemma returns_soonI:
  assumes "\<And>q. wp_at q = Draining \<Longrightarrow> step GraceOver q = Some (finish (Inr ()) (abort_and_join q))"
    and "wp_at p = Draining \<or> step ShutdownSeen p = Some (drain p)
      \<or> step ShutdownSeen p = Some (finish (Inr ()) p)"
  shows "returns_soon step p"
proof -
  have drained: "pool_run step [GraceOver] q = Some (finish (Inr ()) (abort_and_join q))"
    if "wp_at q = Draining" for q
    using assms(1) [OF that] by simp
  consider "wp_at p = Draining" | "step ShutdownSeen p = Some (finish (Inr ()) p)"
    | "step ShutdownSeen p = Some (drain p)" "wp_running p = []"
    | "step ShutdownSeen p = Some (drain p)" "wp_running p \<noteq> []"
    using assms(2) by blast
  then show ?thesis
  proof cases
    case 1
    from drained [OF this] show ?thesis unfolding returns_soon_def
      by (intro exI [of _ "[GraceOver]"]) (simp add: pool_simps)
  next
    case 2
    then show ?thesis unfolding returns_soon_def
      by (intro exI [of _ "[ShutdownSeen]"]) (simp add: pool_simps)
  next
    case 3
    then show ?thesis unfolding returns_soon_def
      by (intro exI [of _ "[ShutdownSeen]"]) (simp add: pool_simps drain_def)
  next
    case 4
    then have "wp_at (drain p) = Draining" by (simp add: drain_def)
    from drained [OF this] 4(1) show ?thesis unfolding returns_soon_def
      by (intro exI [of _ "[ShutdownSeen, GraceOver]"]) (simp add: pool_simps)
  qed
qed

locale orderly_pool = worker_pool +
  assumes closed: "step h p = Some q \<Longrightarrow> wp_stopping p \<Longrightarrow> taken h = {#} \<and> wp_stopping q"
    and leaves: "step h p = Some q \<Longrightarrow> left_nobody p \<Longrightarrow> left_nobody q"
    and stoppable: "wp_stopping p \<Longrightarrow> left_nobody p \<Longrightarrow> returns_soon step p \<or> (\<exists>r. wp_at p = Done r)"
begin

lemma run_closed:
  "pool_run step hs p = Some q \<Longrightarrow> wp_stopping p \<Longrightarrow> sum_list (map taken hs) = {#} \<and> wp_stopping q"
  by (induction hs arbitrary: p) (auto simp: bind_eq_Some_conv dest: closed)

lemma stopped_claims:
  "pool_run step hs p = Some q \<Longrightarrow> wp_stopping p \<Longrightarrow> pool_claims q = pool_claims p"
  using run_closed run_accounts by fastforce

lemma run_leaves: "pool_run step hs p = Some q \<Longrightarrow> left_nobody p \<Longrightarrow> left_nobody q"
  by (rule pool_run_invariant [where I = left_nobody]) (auto intro: leaves)

lemma stops_orderly:
  assumes "pool_run step hs p0 = Some p" and "left_nobody p0" and "wp_stopping p"
    and "pool_run step hs' p = Some q"
  shows "orderly_stop step p q"
proof -
  have "left_nobody q" by (rule run_leaves [OF assms(4) run_leaves [OF assms(1,2)]])
  moreover have "pool_claims q = pool_claims p" by (rule stopped_claims [OF assms(4,3)])
  moreover have "wp_stopping q" using run_closed [OF assms(4,3)] by blast
  ultimately show ?thesis
    using stoppable [of q] unfolding orderly_stop_def by (auto simp: left_nobody_def)
qed

end

interpretation sched: orderly_pool "scheduler_loop st" "ss_max_concurrent_handlers st" for st
proof
  fix h p q
  assume step: "scheduler_loop st h p = Some q"
  note cases = step [unfolded scheduler_loop_def Let_def join_idle_def outside_def comp_def]
  show "pool_claims q = pool_claims p + taken h"
    using cases by (auto simp: pool_simps split: loop_splits)
  show "length (wp_running q) \<le> ss_max_concurrent_handlers st
      \<and> (wp_at q = Filling \<longrightarrow> length (wp_running q) < ss_max_concurrent_handlers st)"
    if "length (wp_running p) \<le> ss_max_concurrent_handlers st"
      and "wp_at p = Filling \<Longrightarrow> length (wp_running p) < ss_max_concurrent_handlers st"
    using cases that by (auto simp: pool_simps split: loop_splits dest: filling_parts(3,4))
  show "taken h = {#} \<and> wp_stopping q" if "wp_stopping p"
    using cases that by (auto simp: pool_simps split: loop_splits)
  show "left_nobody q" if "left_nobody p"
    using cases that by (auto simp: left_nobody_def pool_parts split: loop_splits)
next
  fix p :: "'a pool"
  assume "wp_stopping p" and "left_nobody p"
  then show "returns_soon (scheduler_loop st) p \<or> (\<exists>r. wp_at p = Done r)"
    by (cases "wp_at p") (auto intro!: returns_soonI simp: scheduler_loop_def Let_def left_nobody_def)
qed

interpretation disp: orderly_pool "dispatcher_loop st signalled" "ds_max_concurrent_dispatches st" for st signalled
proof
  fix h p q
  assume step: "dispatcher_loop st signalled h p = Some q"
  note cases = step [unfolded dispatcher_loop_def Let_def join_idle_def outside_def comp_def]
  show "pool_claims q = pool_claims p + taken h"
    using cases by (auto simp: pool_simps split: loop_splits)
  show "length (wp_running q) \<le> ds_max_concurrent_dispatches st
      \<and> (wp_at q = Filling \<longrightarrow> length (wp_running q) < ds_max_concurrent_dispatches st)"
    if "length (wp_running p) \<le> ds_max_concurrent_dispatches st"
      and "wp_at p = Filling \<Longrightarrow> length (wp_running p) < ds_max_concurrent_dispatches st"
    using cases that by (auto simp: pool_simps split: loop_splits dest: filling_parts(3,4))
  show "taken h = {#} \<and> wp_stopping q" if "wp_stopping p"
    using cases that by (auto simp: pool_simps split: loop_splits)
  show "left_nobody q" if "left_nobody p"
    using cases that by (auto simp: left_nobody_def pool_parts split: loop_splits)
next
  fix p :: "'a pool"
  assume "wp_stopping p" and "left_nobody p"
  then show "returns_soon (dispatcher_loop st signalled) p \<or> (\<exists>r. wp_at p = Done r)"
    by (cases "wp_at p") (auto intro!: returns_soonI simp: dispatcher_loop_def Let_def left_nobody_def)
qed

interpretation compl: worker_pool "completion_loop st signalled" "cs_max_concurrent_results st" for st signalled
proof
  fix h p q
  assume step: "completion_loop st signalled h p = Some q"
  note cases = step [unfolded completion_loop_def Let_def join_idle_def outside_def comp_def]
  show "pool_claims q = pool_claims p + taken h"
    using cases by (auto simp: pool_simps split: loop_splits)
  show "length (wp_running q) \<le> cs_max_concurrent_results st
      \<and> (wp_at q = Filling \<longrightarrow> length (wp_running q) < cs_max_concurrent_results st)"
    if "length (wp_running p) \<le> cs_max_concurrent_results st"
      and "wp_at p = Filling \<Longrightarrow> length (wp_running p) < cs_max_concurrent_results st"
    using cases that by (auto simp: pool_simps split: loop_splits dest: filling_parts(3,4))
qed

section \<open>Loops from their start\<close>

definition scheduler_start :: "scheduler_settings \<Rightarrow> generation \<Rightarrow> 'c pool" where
  "scheduler_start st g = pool_start (fill (ss_max_concurrent_handlers st)) (ss_enabled st) g"

definition dispatcher_start :: "dispatcher_settings \<Rightarrow> generation \<Rightarrow> 'c pool" where
  "dispatcher_start st g =
     pool_start (fill (ds_max_concurrent_dispatches st) \<circ> observe) (ds_enabled st) g"

definition completion_start :: "completion_settings \<Rightarrow> generation \<Rightarrow> 'c pool" where
  "completion_start st g =
     pool_start (fill_eagerly (cs_max_concurrent_results st) \<circ> observe) (cs_enabled st) g"

lemmas start_defs = scheduler_start_def dispatcher_start_def completion_start_def pool_start_def

lemma starts_empty:
  "pool_claims (scheduler_start st g) = {#}" "pool_claims (dispatcher_start dt g) = {#}"
  "pool_claims (completion_start ct g) = {#}"
  "wp_running (scheduler_start st g) = []" "wp_running (dispatcher_start dt g) = []"
  "wp_running (completion_start ct g) = []"
  by (simp_all add: start_defs Let_def pool_simps) (simp_all add: pool_claims_def)

lemma starts_filling:
  "wp_at (scheduler_start st g) = Filling \<Longrightarrow> 0 < ss_max_concurrent_handlers st"
  "wp_at (dispatcher_start dt g) = Filling \<Longrightarrow> 0 < ds_max_concurrent_dispatches dt"
  "wp_at (completion_start ct g) = Filling \<Longrightarrow> 0 < cs_max_concurrent_results ct"
  by (auto simp: start_defs Let_def fill_def fill_eagerly_def observe_def split: if_splits)

lemma starts_leave_nobody:
  "left_nobody (scheduler_start st g)" "left_nobody (dispatcher_start dt g)"
  by (simp_all add: start_defs Let_def left_nobody_def fill_def observe_def)

text \<open>
  C17. However a runtime loop is driven, it never runs more workers than its settings allow, and it
  accounts for every claim it took: each is with a running worker, or with one that has been joined,
  or was aborted.
\<close>

theorem workers_bounded:
  "(pool_run (scheduler_loop st) hs (scheduler_start st g) = Some p \<longrightarrow>
      length (wp_running p) \<le> ss_max_concurrent_handlers st \<and> pool_claims p = sum_list (map taken hs))
   \<and> (pool_run (dispatcher_loop dt signalled) ks (dispatcher_start dt g) = Some q \<longrightarrow>
      length (wp_running q) \<le> ds_max_concurrent_dispatches dt \<and> pool_claims q = sum_list (map taken ks))
   \<and> (pool_run (completion_loop ct signalled) ls (completion_start ct g) = Some r \<longrightarrow>
      length (wp_running r) \<le> cs_max_concurrent_results ct \<and> pool_claims r = sum_list (map taken ls))"
  using sched.run_limit [of st hs "scheduler_start st g" p]
    disp.run_limit [of dt signalled ks "dispatcher_start dt g" q]
    compl.run_limit [of ct signalled ls "completion_start ct g" r]
    sched.run_accounts [of st hs "scheduler_start st g" p]
    disp.run_accounts [of dt signalled ks "dispatcher_start dt g" q]
    compl.run_accounts [of ct signalled ls "completion_start ct g" r]
  by (simp add: starts_empty starts_filling)

definition demo_loop :: scheduler_settings where
  "demo_loop = \<lparr>ss_enabled = True, ss_max_concurrent_handlers = 2, ss_poll_interval = 1,
     ss_lease_duration = 2, ss_lease_renewal_interval = 1, ss_retry_delays = [],
     ss_commit_retry_delays = [], ss_infrastructure_retry_delay = 1, ss_ownership_loss_grace = 1,
     ss_shutdown_grace = 1\<rparr>"

definition demo_filled :: "nat pool" where
  "demo_filled = \<lparr>wp_at = Idle, wp_stopping = False, wp_running = [7, 8], wp_joined = [],
     wp_aborted = [], wp_abandoned = [], wp_observed = 0, wp_generation = 0\<rparr>"

definition demo_happenings :: "nat happening list" where
  "demo_happenings = [Scanned (Inr (Some 7)), Scanned (Inr (Some 8))]"

lemma demo_filled_run:
  "pool_run (scheduler_loop demo_loop) demo_happenings (scheduler_start demo_loop 0) = Some demo_filled"
  by code_simp

theorem workers_bounded_witness:
  "length (wp_running demo_filled) \<le> 2 \<and> pool_claims demo_filled = {#7, 8#}"
proof -
  have "length (wp_running demo_filled) \<le> ss_max_concurrent_handlers demo_loop
      \<and> pool_claims demo_filled = sum_list (map taken demo_happenings)"
    using workers_bounded [of demo_loop demo_happenings 0 demo_filled] demo_filled_run by blast
  then show ?thesis by (simp add: demo_loop_def demo_happenings_def add_mset_commute)
qed

text \<open>
  C18. Stopping the scheduler or the dispatcher is orderly: once its token is cancelled a loop takes
  no further claim, if it returns without an error no worker of its is left, and it can always return:
  it sees the shutdown and, after the grace period, aborts and joins what is still running.
\<close>

theorem shutdown_orderly:
  assumes "wp_stopping p" and "wp_stopping p'"
  shows "(pool_run (scheduler_loop st) hs (scheduler_start st g) = Some p
      \<and> pool_run (scheduler_loop st) hs' p = Some q \<longrightarrow> orderly_stop (scheduler_loop st) p q)
    \<and> (pool_run (dispatcher_loop dt signalled) ks (dispatcher_start dt g) = Some p'
      \<and> pool_run (dispatcher_loop dt signalled) ks' p' = Some q'
      \<longrightarrow> orderly_stop (dispatcher_loop dt signalled) p' q')"
  using sched.stops_orderly [of st hs "scheduler_start st g" p hs' q]
    disp.stops_orderly [of dt signalled ks "dispatcher_start dt g" p' ks' q'] assms
  by (simp add: starts_leave_nobody)

definition demo_drained :: "nat pool" where
  "demo_drained = demo_filled\<lparr>wp_at := Done (Inr ()), wp_stopping := True, wp_running := [],
     wp_joined := [7], wp_aborted := [8]\<rparr>"

theorem shutdown_orderly_witness:
  "pool_run (scheduler_loop demo_loop) [Joined 0 None, GraceOver]
      (demo_filled\<lparr>wp_stopping := True\<rparr>) = Some demo_drained
    \<and> pool_claims demo_drained = pool_claims demo_filled \<and> wp_running demo_drained = []"
proof -
  let ?p = "demo_filled\<lparr>wp_stopping := True\<rparr>"
  have "pool_run (scheduler_loop demo_loop) [ShutdownRequested] demo_filled = Some ?p" by code_simp
  then have start: "pool_run (scheduler_loop demo_loop) (demo_happenings @ [ShutdownRequested])
      (scheduler_start demo_loop 0) = Some ?p"
    unfolding pool_run_append demo_filled_run by simp
  have run: "pool_run (scheduler_loop demo_loop) [Joined 0 None, GraceOver] ?p
      = Some demo_drained" by code_simp
  have "orderly_stop (scheduler_loop demo_loop) ?p demo_drained"
    using shutdown_orderly [of ?p ?p demo_loop "demo_happenings @ [ShutdownRequested]" 0
        "[Joined 0 None, GraceOver]" demo_drained] start run by simp
  with run show ?thesis by (auto simp: orderly_stop_def demo_drained_def pool_simps)
qed

section \<open>No wakeup is lost\<close>

text \<open>
  A notification that arrives after the snapshot, while the loop is still scanning, makes the wait
  after the scan return at once.
\<close>

lemma scanning_counts:
  assumes "pool_run (dispatcher_loop st signalled) hs p = Some q"
    and "set hs \<subseteq> insert Notified (range Scanned)"
  shows "wp_observed q = wp_observed p
    \<and> wp_generation q = wp_generation p + of_nat (length (filter (\<lambda>h. h = Notified) hs))"
  using assms
proof (induction hs arbitrary: p)
  case (Cons h hs)
  then obtain m where m: "dispatcher_loop st signalled h p = Some m"
      "pool_run (dispatcher_loop st signalled) hs m = Some q"
    by (auto simp: bind_eq_Some_conv)
  have "h = Notified \<or> (\<exists>r. h = Scanned r)" using Cons.prems(2) by auto
  then have "wp_observed m = wp_observed p
      \<and> wp_generation m = wp_generation p + (if h = Notified then 1 else 0)"
    using m(1) by (auto simp: dispatcher_loop_def Let_def outside_def pool_parts notify_def
        split: loop_point.splits if_splits sum.splits option.splits)
  with Cons.IH [OF m(2)] Cons.prems(2) show ?case by (auto simp: algebra_simps)
qed simp

lemma of_nat_generation: "0 < n \<Longrightarrow> n < 2 ^ 64 \<Longrightarrow> (of_nat n :: generation) \<noteq> 0"
proof
  assume "0 < n" and "n < 2 ^ 64" and "(of_nat n :: generation) = 0"
  moreover have "unat (of_nat n :: generation) = n"
    using \<open>n < 2 ^ 64\<close> by (simp add: unat_of_nat take_bit_nat_eq_self)
  ultimately show False by simp
qed

theorem wakeups_not_lost:
  assumes "pool_run (dispatcher_loop st True) hs p = Some q"
    and "set hs \<subseteq> insert Notified (range Scanned)" and "Notified \<in> set hs"
    and "wp_observed p = wp_generation p" and "length hs < 2 ^ 64" and "wp_at q = Idle"
  shows "dispatcher_loop st True Woken q \<noteq> None"
proof -
  let ?n = "length (filter (\<lambda>h. h = Notified) hs)"
  have "0 < ?n" using assms(3) by (auto simp: filter_empty_conv)
  moreover have "?n < 2 ^ 64" using length_filter_le [of "\<lambda>h. h = Notified" hs] assms(5) by linarith
  ultimately have "(of_nat ?n :: generation) \<noteq> 0" by (rule of_nat_generation)
  then have "wp_generation q \<noteq> wp_observed q"
    using scanning_counts [OF assms(1,2)] assms(4) by simp
  then show ?thesis
    using assms(6) by (simp add: dispatcher_loop_def Let_def woken_def wait_returns_at_once_def)
qed

section \<open>Lease keepers\<close>

text \<open>
  A lease keeper is a task beside a worker: at each tick it renews the claim, and the first renewal
  that fails ends it and tells the worker that the claim is lost. The scheduler's also sets the flag
  its context reads, and drops a renewal that is under way when it is stopped. What reaches it:
  the stop token is cancelled; a \<open>select!\<close> takes the stop branch; a renewal returns.
\<close>

record keeper =
  kp_stop :: bool
  kp_lost :: bool
  kp_flag :: bool
  kp_ended :: bool

datatype keeper_event = StopRequested | StopSeen | Renewed "store_error + unit"

definition keeper_started :: keeper where
  "keeper_started = \<lparr>kp_stop = False, kp_lost = False, kp_flag = False, kp_ended = False\<rparr>"

definition handler_keeper :: "keeper_event \<Rightarrow> keeper \<Rightarrow> keeper option" where
  "handler_keeper ev kp =
     (case ev of
        StopRequested \<Rightarrow> Some (kp\<lparr>kp_stop := True\<rparr>)
      | StopSeen \<Rightarrow> if kp_stop kp \<and> \<not> kp_ended kp then Some (kp\<lparr>kp_ended := True\<rparr>) else None
      | Renewed r \<Rightarrow>
          if kp_ended kp then None
          else Some (case r of
              Inr _ \<Rightarrow> kp
            | Inl _ \<Rightarrow> kp\<lparr>kp_flag := True, kp_lost := True, kp_ended := True\<rparr>))"

definition operation_keeper :: "keeper_event \<Rightarrow> keeper \<Rightarrow> keeper option" where
  "operation_keeper ev kp =
     (case ev of
        StopRequested \<Rightarrow> Some (kp\<lparr>kp_stop := True\<rparr>)
      | StopSeen \<Rightarrow> if kp_stop kp \<and> \<not> kp_ended kp then Some (kp\<lparr>kp_ended := True\<rparr>) else None
      | Renewed r \<Rightarrow>
          if kp_ended kp then None
          else Some (case r of
              Inr _ \<Rightarrow> kp
            | Inl _ \<Rightarrow> kp\<lparr>kp_lost := True, kp_ended := True\<rparr>))"

text \<open>A failure that comes after the result runtime asked it to stop is not a loss.\<close>

definition result_keeper :: "keeper_event \<Rightarrow> keeper \<Rightarrow> keeper option" where
  "result_keeper ev kp =
     (case ev of
        StopRequested \<Rightarrow> Some (kp\<lparr>kp_stop := True\<rparr>)
      | StopSeen \<Rightarrow> if kp_stop kp \<and> \<not> kp_ended kp then Some (kp\<lparr>kp_ended := True\<rparr>) else None
      | Renewed r \<Rightarrow>
          if kp_ended kp then None
          else Some (case r of
              Inr _ \<Rightarrow> kp
            | Inl _ \<Rightarrow> if kp_stop kp then kp\<lparr>kp_ended := True\<rparr>
                else kp\<lparr>kp_lost := True, kp_ended := True\<rparr>))"

lemmas keeper_defs = handler_keeper_def operation_keeper_def result_keeper_def

definition renewals_failed :: "keeper_event list \<Rightarrow> nat" where
  "renewals_failed evs = length (filter (\<lambda>ev. case ev of Renewed (Inl _) \<Rightarrow> True | _ \<Rightarrow> False) evs)"

text \<open>
  A keeper of the scheduler or the dispatcher reports a loss exactly when a renewal has failed, and
  renews no more after that; the result keeper never reports one without a failure.
\<close>

lemma renewals_failed_snoc [simp]:
  "renewals_failed [] = 0"
  "renewals_failed (evs @ [ev])
     = renewals_failed evs + (case ev of Renewed (Inl _) \<Rightarrow> 1 | _ \<Rightarrow> 0)"
  by (auto simp: renewals_failed_def split: keeper_event.split sum.split)

lemma pool_run_trace:
  assumes "pool_run step hs p = Some q" and "I [] p"
    and "\<And>h hs p q. step h p = Some q \<Longrightarrow> I hs p \<Longrightarrow> I (hs @ [h]) q"
  shows "I hs q"
  using assms(1)
proof (induction hs arbitrary: q rule: rev_induct)
  case Nil
  with assms(2) show ?case by simp
next
  case (snoc h hs)
  then obtain m where "pool_run step hs p = Some m" and "step h m = Some q"
    by (auto simp: pool_run_append bind_eq_Some_conv)
  with snoc.IH assms(3) show ?case by blast
qed

lemma handler_keeper_reports:
  assumes "pool_run handler_keeper evs keeper_started = Some kp"
  shows "renewals_failed evs = (if kp_lost kp then 1 else 0) \<and> kp_flag kp = kp_lost kp
     \<and> (kp_lost kp \<longrightarrow> kp_ended kp)"
  using assms
  by (rule pool_run_trace [where I = "\<lambda>evs kp. renewals_failed evs = (if kp_lost kp then 1 else 0)
      \<and> kp_flag kp = kp_lost kp \<and> (kp_lost kp \<longrightarrow> kp_ended kp)"])
    (simp add: keeper_started_def,
      auto simp: handler_keeper_def split: keeper_event.splits if_splits sum.splits)

lemma operation_keeper_reports:
  assumes "pool_run operation_keeper evs keeper_started = Some kp"
  shows "renewals_failed evs = (if kp_lost kp then 1 else 0) \<and> \<not> kp_flag kp \<and> (kp_lost kp \<longrightarrow> kp_ended kp)"
  using assms
  by (rule pool_run_trace [where I = "\<lambda>evs kp. renewals_failed evs = (if kp_lost kp then 1 else 0)
      \<and> \<not> kp_flag kp \<and> (kp_lost kp \<longrightarrow> kp_ended kp)"])
    (simp add: keeper_started_def,
      auto simp: operation_keeper_def split: keeper_event.splits if_splits sum.splits)

lemma result_keeper_reports:
  assumes "pool_run result_keeper evs keeper_started = Some kp"
  shows "renewals_failed evs \<le> (if kp_ended kp then 1 else 0) \<and> (kp_lost kp \<longrightarrow> renewals_failed evs = 1)
    \<and> (kp_lost kp \<longrightarrow> kp_ended kp)"
  using assms
  by (rule pool_run_trace [where I = "\<lambda>evs kp. renewals_failed evs \<le> (if kp_ended kp then 1 else 0)
      \<and> (kp_lost kp \<longrightarrow> renewals_failed evs = 1) \<and> (kp_lost kp \<longrightarrow> kp_ended kp)"])
    (simp add: keeper_started_def,
      auto simp: result_keeper_def split: keeper_event.splits if_splits sum.splits)

end
