(* ===== verification/Wire.thy ===== *)
theory Wire
  imports Codex Events Harnesses
begin

text \<open>
  The JSON forms of the contract (\<open>message.rs\<close>, \<open>operation.rs\<close>, \<open>event.rs\<close> of
  \<open>packages/agent-contracts/src\<close>). The contract reads its tagged enumerations by hand: a flat wire
  struct with optional fields, then a match on the tag that demands the fields of the variant. The
  wire structs and the readers are modelled as written; the writers are the ones \<open>serde\<close> derives
  from the attributes. What is nested in a \<open>RawValue\<close> is text, printed and parsed by \<open>serde_json\<close>.
\<close>

section \<open>Texts of nested values\<close>

text \<open>Printing and parsing a value; a codec is faithful if what it prints it parses back.\<close>

record 'a text_codec =
  jc_print :: "'a \<Rightarrow> raw_json"
  jc_parse :: "raw_json \<Rightarrow> string + 'a"

definition faithful :: "'a text_codec \<Rightarrow> bool" where
  "faithful c \<longleftrightarrow> (\<forall>x. jc_parse c (jc_print c x) = Inr x)"

definition missing_field :: "string \<Rightarrow> string" where
  "missing_field field = ''missing field '' @ [CHR 0x60] @ field @ [CHR 0x60]"

definition required :: "string \<Rightarrow> 'a option \<Rightarrow> string + 'a" where
  "required field x = ok_or x (missing_field field)"

text \<open>A type with a wire struct is read and written through it.\<close>

definition via_wire ::
    "'w text_codec \<Rightarrow> ('a \<Rightarrow> 'w) \<Rightarrow> ('w \<Rightarrow> string + 'a) \<Rightarrow> 'a text_codec" where
  "via_wire c to_wire from_wire =
     \<lparr>jc_print = (\<lambda>x. jc_print c (to_wire x)),
      jc_parse = (\<lambda>raw. bindR (jc_parse c raw) from_wire)\<rparr>"

lemma faithfulD: "faithful c \<Longrightarrow> jc_parse c (jc_print c x) = Inr x"
  by (simp add: faithful_def)

lemma faithful_via_wire:
  assumes "faithful c" and "\<And>x. from_wire (to_wire x) = Inr x"
  shows "faithful (via_wire c to_wire from_wire)"
  using assms by (simp add: faithful_def via_wire_def)

lemma required_Some [simp]: "required f (Some x) = Inr x"
  by (simp add: required_def)

section \<open>Messages (\<open>message.rs\<close>)\<close>

datatype wire_role = RoleUser | RoleSystem | RoleAssistant | RoleToolResult | RoleCustom

record message_wire =
  mw_role :: wire_role
  mw_id :: "string option"
  mw_timestamp :: "int option"
  mw_metadata :: "metadata option"
  mw_content :: "raw_json option"
  mw_provider :: "provider option"
  mw_tool_name :: "string option"
  mw_tool_call_id :: "string option"
  mw_outcome :: "tool_result_outcome option"
  mw_details :: "raw_json option"
  mw_tag :: "string option"
  mw_data :: "raw_json option"

record content_codecs =
  cn_parts :: "content_part list text_codec"
  cn_texts :: "text_content list text_codec"
  cn_items :: "raw_json list text_codec"

definition parse_wire_content :: "'a text_codec \<Rightarrow> message_wire \<Rightarrow> string + 'a" where
  "parse_wire_content c wire = bindR (required ''content'' (mw_content wire)) (jc_parse c)"

definition message_from_wire :: "content_codecs \<Rightarrow> message_wire \<Rightarrow> string + message" where
  "message_from_wire cn wire =
     (let base = \<lparr>mb_id = mw_id wire, mb_timestamp = mw_timestamp wire, mb_metadata = mw_metadata wire\<rparr> in
      case mw_role wire of
        RoleUser \<Rightarrow> bindR (parse_wire_content (cn_parts cn) wire) (\<lambda>content. Inr (UserMsg base content))
      | RoleSystem \<Rightarrow> bindR (parse_wire_content (cn_texts cn) wire) (\<lambda>content. Inr (SystemMsg base content))
      | RoleAssistant \<Rightarrow>
          bindR (required ''provider'' (mw_provider wire)) (\<lambda>provider.
          bindR (parse_wire_content (cn_items cn) wire) (\<lambda>content.
          Inr (AssistantMsg base provider content)))
      | RoleToolResult \<Rightarrow>
          bindR (required ''toolName'' (mw_tool_name wire)) (\<lambda>name.
          bindR (required ''toolCallId'' (mw_tool_call_id wire)) (\<lambda>call_id.
          bindR (parse_wire_content (cn_parts cn) wire) (\<lambda>content.
          bindR (required ''outcome'' (mw_outcome wire)) (\<lambda>outcome.
          Inr (ToolResultMsg base name call_id content outcome (mw_details wire))))))
      | RoleCustom \<Rightarrow>
          bindR (required ''tag'' (mw_tag wire)) (\<lambda>tag.
          bindR (required ''data'' (mw_data wire)) (\<lambda>data.
          Inr (CustomMsg base tag data))))"

definition wire_base :: "wire_role \<Rightarrow> message_base \<Rightarrow> message_wire" where
  "wire_base role base = \<lparr>mw_role = role, mw_id = mb_id base, mw_timestamp = mb_timestamp base,
     mw_metadata = mb_metadata base, mw_content = None, mw_provider = None, mw_tool_name = None,
     mw_tool_call_id = None, mw_outcome = None, mw_details = None, mw_tag = None, mw_data = None\<rparr>"

fun message_to_wire :: "content_codecs \<Rightarrow> message \<Rightarrow> message_wire" where
  "message_to_wire cn (UserMsg base content) =
     (wire_base RoleUser base)\<lparr>mw_content := Some (jc_print (cn_parts cn) content)\<rparr>"
| "message_to_wire cn (SystemMsg base content) =
     (wire_base RoleSystem base)\<lparr>mw_content := Some (jc_print (cn_texts cn) content)\<rparr>"
| "message_to_wire cn (AssistantMsg base provider content) =
     (wire_base RoleAssistant base)\<lparr>mw_provider := Some provider,
       mw_content := Some (jc_print (cn_items cn) content)\<rparr>"
| "message_to_wire cn (ToolResultMsg base name call_id content outcome details) =
     (wire_base RoleToolResult base)\<lparr>mw_tool_name := Some name, mw_tool_call_id := Some call_id,
       mw_content := Some (jc_print (cn_parts cn) content), mw_outcome := Some outcome,
       mw_details := details\<rparr>"
| "message_to_wire cn (CustomMsg base tag data) =
     (wire_base RoleCustom base)\<lparr>mw_tag := Some tag, mw_data := Some data\<rparr>"

definition faithful_content :: "content_codecs \<Rightarrow> bool" where
  "faithful_content cn \<longleftrightarrow> faithful (cn_parts cn) \<and> faithful (cn_texts cn) \<and> faithful (cn_items cn)"

lemma message_wire_round_trip:
  "faithful_content cn \<Longrightarrow> message_from_wire cn (message_to_wire cn m) = Inr m"
  by (cases m) (simp_all add: message_from_wire_def parse_wire_content_def wire_base_def
      faithful_content_def faithfulD Let_def)

section \<open>Operation requests (\<open>operation.rs\<close>)\<close>

record request_wire =
  qw_kind :: operation_kind
  qw_connection :: "string option"
  qw_machine_id :: "uuid option"
  qw_expected_generation_id :: "uuid option"
  qw_request :: "raw_json option"
  qw_target :: "operation_id option"

definition request_from_wire ::
    "llm_request text_codec \<Rightarrow> exec_payload text_codec \<Rightarrow> request_wire \<Rightarrow> string + operation_request" where
  "request_from_wire llm exec wire =
     (case qw_kind wire of
        KindLlm \<Rightarrow>
          bindR (required ''connection'' (qw_connection wire)) (\<lambda>connection.
          bindR (bindR (required ''request'' (qw_request wire)) (jc_parse llm)) (\<lambda>request.
          Inr (LlmReq connection request)))
      | KindExecution \<Rightarrow>
          bindR (required ''connection'' (qw_connection wire)) (\<lambda>connection.
          bindR (required ''machine_id'' (qw_machine_id wire)) (\<lambda>machine.
          bindR (bindR (required ''request'' (qw_request wire)) (jc_parse exec)) (\<lambda>request.
          Inr (ExecutionReq connection machine (qw_expected_generation_id wire) request))))
      | KindLlmCancellation \<Rightarrow>
          bindR (required ''target'' (qw_target wire)) (\<lambda>target. Inr (LlmCancellationReq target))
      | KindWithdraw \<Rightarrow>
          bindR (required ''target'' (qw_target wire)) (\<lambda>target. Inr (WithdrawReq target)))"

fun request_to_wire ::
    "llm_request text_codec \<Rightarrow> exec_payload text_codec \<Rightarrow> operation_request \<Rightarrow> request_wire" where
  "request_to_wire llm exec (LlmReq connection request) =
     \<lparr>qw_kind = KindLlm, qw_connection = Some connection, qw_machine_id = None,
      qw_expected_generation_id = None, qw_request = Some (jc_print llm request), qw_target = None\<rparr>"
| "request_to_wire llm exec (ExecutionReq connection machine generation request) =
     \<lparr>qw_kind = KindExecution, qw_connection = Some connection, qw_machine_id = Some machine,
      qw_expected_generation_id = generation, qw_request = Some (jc_print exec request),
      qw_target = None\<rparr>"
| "request_to_wire llm exec (LlmCancellationReq target) =
     \<lparr>qw_kind = KindLlmCancellation, qw_connection = None, qw_machine_id = None,
      qw_expected_generation_id = None, qw_request = None, qw_target = Some target\<rparr>"
| "request_to_wire llm exec (WithdrawReq target) =
     \<lparr>qw_kind = KindWithdraw, qw_connection = None, qw_machine_id = None,
      qw_expected_generation_id = None, qw_request = None, qw_target = Some target\<rparr>"

datatype llm_request_mode = ModeFresh | ModeContinuation

record llm_request_wire =
  lw_mode :: llm_request_mode
  lw_account_id :: "uuid option"
  lw_model_id :: "string option"
  lw_instructions :: "string option"
  lw_messages :: raw_json
  lw_tools :: "tool_definition list option"
  lw_provider_options :: "metadata option"
  lw_previous_operation_id :: "operation_id option"

text \<open>The messages are parsed before anything else is demanded.\<close>

definition llm_from_wire :: "message list text_codec \<Rightarrow> llm_request_wire \<Rightarrow> string + llm_request" where
  "llm_from_wire ms wire =
     bindR (jc_parse ms (lw_messages wire)) (\<lambda>messages.
     case lw_mode wire of
       ModeFresh \<Rightarrow>
         bindR (required ''account_id'' (lw_account_id wire)) (\<lambda>account.
         bindR (required ''model_id'' (lw_model_id wire)) (\<lambda>model.
         bindR (required ''tools'' (lw_tools wire)) (\<lambda>tools.
         bindR (required ''provider_options'' (lw_provider_options wire)) (\<lambda>options.
         Inr (Fresh account model (lw_instructions wire) messages tools options)))))
     | ModeContinuation \<Rightarrow>
         bindR (required ''previous_operation_id'' (lw_previous_operation_id wire)) (\<lambda>previous.
         Inr (Continuation previous messages)))"

fun llm_to_wire :: "message list text_codec \<Rightarrow> llm_request \<Rightarrow> llm_request_wire" where
  "llm_to_wire ms (Fresh account model instructions messages tools options) =
     \<lparr>lw_mode = ModeFresh, lw_account_id = Some account, lw_model_id = Some model,
      lw_instructions = instructions, lw_messages = jc_print ms messages, lw_tools = Some tools,
      lw_provider_options = Some options, lw_previous_operation_id = None\<rparr>"
| "llm_to_wire ms (Continuation previous messages) =
     \<lparr>lw_mode = ModeContinuation, lw_account_id = None, lw_model_id = None, lw_instructions = None,
      lw_messages = jc_print ms messages, lw_tools = None, lw_provider_options = None,
      lw_previous_operation_id = Some previous\<rparr>"

lemma llm_wire_round_trip: "faithful ms \<Longrightarrow> llm_from_wire ms (llm_to_wire ms r) = Inr r"
  by (cases r) (simp_all add: llm_from_wire_def faithfulD)

lemma request_wire_round_trip:
  "faithful llm \<Longrightarrow> faithful exec \<Longrightarrow> request_from_wire llm exec (request_to_wire llm exec r) = Inr r"
  by (cases r) (simp_all add: request_from_wire_def faithfulD)

section \<open>Results and outcomes\<close>

text \<open>The fields of a response the harness does not look at; the price of a call is left out.\<close>

record full_response = assistant_response +
  ar_resolved_model_id :: "string option"
  ar_duration_ms :: nat
  ar_timestamp :: int

definition is_assistant_message :: "message \<Rightarrow> bool" where
  "is_assistant_message m = (case m of AssistantMsg _ _ _ \<Rightarrow> True | _ \<Rightarrow> False)"

text \<open>The wire struct has the fields of the response; only the role of the message is checked.\<close>

definition response_from_wire :: "full_response \<Rightarrow> string + full_response" where
  "response_from_wire wire =
     (if is_assistant_message (ar_message wire) then Inr wire
      else Inl ''assistant response message must have the assistant role'')"

record result_wire =
  uw_kind :: operation_kind
  uw_value :: raw_json

record result_codecs =
  rc_response :: "assistant_response text_codec"
  rc_execution :: "exec_response text_codec"
  rc_accepted :: "bool text_codec"
  rc_withdrawn :: "bool text_codec"

definition faithful_results :: "result_codecs \<Rightarrow> bool" where
  "faithful_results rc \<longleftrightarrow> faithful (rc_response rc) \<and> faithful (rc_execution rc)
     \<and> faithful (rc_accepted rc) \<and> faithful (rc_withdrawn rc)"

definition result_from_wire :: "result_codecs \<Rightarrow> result_wire \<Rightarrow> string + read_result" where
  "result_from_wire rc wire =
     (case uw_kind wire of
        KindLlm \<Rightarrow> bindR (jc_parse (rc_response rc) (uw_value wire)) (\<lambda>r. Inr (ReadLlm r))
      | KindExecution \<Rightarrow>
          bindR (jc_parse (rc_execution rc) (uw_value wire)) (\<lambda>r. Inr (ReadExecution r))
      | KindLlmCancellation \<Rightarrow>
          bindR (jc_parse (rc_accepted rc) (uw_value wire)) (\<lambda>b. Inr (ReadLlmCancellation b))
      | KindWithdraw \<Rightarrow>
          bindR (jc_parse (rc_withdrawn rc) (uw_value wire)) (\<lambda>b. Inr (ReadWithdraw b)))"

fun result_to_wire :: "result_codecs \<Rightarrow> read_result \<Rightarrow> result_wire" where
  "result_to_wire rc (ReadLlm r) = \<lparr>uw_kind = KindLlm, uw_value = jc_print (rc_response rc) r\<rparr>"
| "result_to_wire rc (ReadExecution r) =
     \<lparr>uw_kind = KindExecution, uw_value = jc_print (rc_execution rc) r\<rparr>"
| "result_to_wire rc (ReadLlmCancellation b) =
     \<lparr>uw_kind = KindLlmCancellation, uw_value = jc_print (rc_accepted rc) b\<rparr>"
| "result_to_wire rc (ReadWithdraw b) =
     \<lparr>uw_kind = KindWithdraw, uw_value = jc_print (rc_withdrawn rc) b\<rparr>"

record outcome_wire =
  tw_status :: operation_outcome_status
  tw_value :: "raw_json option"

definition outcome_from_wire ::
    "read_result text_codec \<Rightarrow> read_failure text_codec \<Rightarrow> outcome_wire \<Rightarrow> string + read_outcome" where
  "outcome_from_wire results failures wire =
     (let value = required ''value'' (tw_value wire) in
      case tw_status wire of
        OutcomeSucceeded \<Rightarrow> bindR (bindR value (jc_parse results)) (\<lambda>r. Inr (ReadSucceeded r))
      | OutcomeFailed \<Rightarrow> bindR (bindR value (jc_parse failures)) (\<lambda>f. Inr (ReadFailed f))
      | OutcomeCancelled \<Rightarrow> Inr ReadCancelled
      | OutcomeUnknown \<Rightarrow> bindR (bindR value (jc_parse failures)) (\<lambda>f. Inr (ReadUnknown f)))"

fun outcome_to_wire ::
    "read_result text_codec \<Rightarrow> read_failure text_codec \<Rightarrow> read_outcome \<Rightarrow> outcome_wire" where
  "outcome_to_wire results failures (ReadSucceeded r) =
     \<lparr>tw_status = OutcomeSucceeded, tw_value = Some (jc_print results r)\<rparr>"
| "outcome_to_wire results failures (ReadFailed f) =
     \<lparr>tw_status = OutcomeFailed, tw_value = Some (jc_print failures f)\<rparr>"
| "outcome_to_wire results failures ReadCancelled = \<lparr>tw_status = OutcomeCancelled, tw_value = None\<rparr>"
| "outcome_to_wire results failures (ReadUnknown f) =
     \<lparr>tw_status = OutcomeUnknown, tw_value = Some (jc_print failures f)\<rparr>"

lemma response_wire_round_trip:
  "response_from_wire r = Inr r' \<longleftrightarrow> r' = r \<and> is_assistant_message (ar_message r)"
  by (auto simp: response_from_wire_def)

lemma result_wire_round_trip:
  "faithful_results rc \<Longrightarrow> result_from_wire rc (result_to_wire rc r) = Inr r"
  by (cases r) (simp_all add: result_from_wire_def faithful_results_def faithfulD)

lemma outcome_wire_round_trip:
  "faithful results \<Longrightarrow> faithful failures \<Longrightarrow>
     outcome_from_wire results failures (outcome_to_wire results failures x) = Inr x"
  by (cases x) (simp_all add: outcome_from_wire_def faithfulD Let_def)

text \<open>The tag of an outcome that was written is the status it reports.\<close>

lemma outcome_wire_status: "tw_status (outcome_to_wire results failures x) = read_status x"
  by (cases x) simp_all

section \<open>Events (\<open>event.rs\<close>)\<close>

record event_wire =
  ew_id :: "event_id option"
  ew_session_id :: "session_id option"
  ew_sequence :: "int option"
  ew_created_at :: "time option"
  ew_type :: event_type
  ew_payload :: raw_json

text \<open>The payload structs declared inside \<open>from_wire\<close>, by their fields.\<close>

record payload_codecs =
  pc_message :: "message text_codec"
  pc_completed :: "(operation_id \<times> operation_kind \<times> operation_outcome_status) text_codec"
  pc_cancellation :: "string option text_codec"
  pc_resumed :: "(wait_id \<times> wait_resume_reason) text_codec"

definition faithful_payloads :: "payload_codecs \<Rightarrow> bool" where
  "faithful_payloads pc \<longleftrightarrow> faithful (pc_message pc) \<and> faithful (pc_completed pc)
     \<and> faithful (pc_cancellation pc) \<and> faithful (pc_resumed pc)"

definition kind_from_wire :: "payload_codecs \<Rightarrow> event_wire \<Rightarrow> string + event_kind" where
  "kind_from_wire pc wire =
     (case ew_type wire of
        EvUserMessage \<Rightarrow>
          bindR (jc_parse (pc_message pc) (ew_payload wire)) (\<lambda>m. Inr (UserMessageEvent m))
      | EvOperationCompleted \<Rightarrow>
          bindR (jc_parse (pc_completed pc) (ew_payload wire)) (\<lambda>(oid, kind, status).
          Inr (OperationCompletedEvent oid kind status))
      | EvCancellationRequested \<Rightarrow>
          bindR (jc_parse (pc_cancellation pc) (ew_payload wire)) (\<lambda>reason.
          Inr (CancellationRequestedEvent reason))
      | EvWaitResumed \<Rightarrow>
          bindR (jc_parse (pc_resumed pc) (ew_payload wire)) (\<lambda>(wid, reason).
          Inr (WaitResumedEvent wid reason)))"

fun kind_type :: "event_kind \<Rightarrow> event_type" where
  "kind_type (UserMessageEvent _) = EvUserMessage"
| "kind_type (OperationCompletedEvent _ _ _) = EvOperationCompleted"
| "kind_type (CancellationRequestedEvent _) = EvCancellationRequested"
| "kind_type (WaitResumedEvent _ _) = EvWaitResumed"

fun kind_payload :: "payload_codecs \<Rightarrow> event_kind \<Rightarrow> raw_json" where
  "kind_payload pc (UserMessageEvent m) = jc_print (pc_message pc) m"
| "kind_payload pc (OperationCompletedEvent oid kind status) =
     jc_print (pc_completed pc) (oid, kind, status)"
| "kind_payload pc (CancellationRequestedEvent reason) = jc_print (pc_cancellation pc) reason"
| "kind_payload pc (WaitResumedEvent wid reason) = jc_print (pc_resumed pc) (wid, reason)"

definition kind_to_wire :: "payload_codecs \<Rightarrow> event_kind \<Rightarrow> event_wire" where
  "kind_to_wire pc kind = \<lparr>ew_id = None, ew_session_id = None, ew_sequence = None,
     ew_created_at = None, ew_type = kind_type kind, ew_payload = kind_payload pc kind\<rparr>"

text \<open>The kind is read first, so a bad payload is reported before a missing field.\<close>

definition event_from_wire :: "payload_codecs \<Rightarrow> event_wire \<Rightarrow> string + session_event" where
  "event_from_wire pc wire =
     bindR (kind_from_wire pc wire) (\<lambda>kind.
     bindR (required ''id'' (ew_id wire)) (\<lambda>i.
     bindR (required ''session_id'' (ew_session_id wire)) (\<lambda>sid.
     bindR (required ''sequence'' (ew_sequence wire)) (\<lambda>n.
     bindR (required ''created_at'' (ew_created_at wire)) (\<lambda>t.
     Inr \<lparr>sv_id = i, sv_session_id = sid, sv_sequence = n, sv_created_at = t, sv_kind = kind\<rparr>)))))"

definition event_to_wire :: "payload_codecs \<Rightarrow> session_event \<Rightarrow> event_wire" where
  "event_to_wire pc ev = (kind_to_wire pc (sv_kind ev))\<lparr>ew_id := Some (sv_id ev),
     ew_session_id := Some (sv_session_id ev), ew_sequence := Some (sv_sequence ev),
     ew_created_at := Some (sv_created_at ev)\<rparr>"

lemma kind_wire_round_trip:
  "faithful_payloads pc \<Longrightarrow> ew_type wire = kind_type kind \<Longrightarrow> ew_payload wire = kind_payload pc kind
     \<Longrightarrow> kind_from_wire pc wire = Inr kind"
  by (cases kind) (simp_all add: kind_from_wire_def faithful_payloads_def faithfulD)

lemma event_wire_round_trip:
  "faithful_payloads pc \<Longrightarrow> event_from_wire pc (event_to_wire pc ev) = Inr ev"
  by (simp add: event_from_wire_def event_to_wire_def kind_to_wire_def
      kind_wire_round_trip [of pc _ "sv_kind ev"])

section \<open>Everything the contract writes it reads back\<close>

text \<open>
  The readers compose: with faithful texts for the leaves the codecs of messages, model requests,
  operation requests, results, outcomes and events built from the wire structs are faithful too.
\<close>

theorem wire_round_trips:
  assumes "faithful mw" and "faithful lw" and "faithful qw" and "faithful uw" and "faithful tw"
    and "faithful ew" and "faithful_content cn" and "faithful exec" and "faithful_results rc"
    and "faithful failures" and "faithful_payloads pc" and "faithful ms"
  defines "llm \<equiv> via_wire lw (llm_to_wire ms) (llm_from_wire ms)"
    and "results \<equiv> via_wire uw (result_to_wire rc) (result_from_wire rc)"
  shows "faithful (via_wire mw (message_to_wire cn) (message_from_wire cn))"
    and "faithful (via_wire qw (request_to_wire llm exec) (request_from_wire llm exec))"
    and "faithful (via_wire tw (outcome_to_wire results failures) (outcome_from_wire results failures))"
    and "faithful (via_wire ew (event_to_wire pc) (event_from_wire pc))"
proof -
  have llm: "faithful llm"
    unfolding llm_def using assms(2,12) by (intro faithful_via_wire llm_wire_round_trip)
  have results: "faithful results"
    unfolding results_def using assms(4,9) by (intro faithful_via_wire result_wire_round_trip)
  show "faithful (via_wire mw (message_to_wire cn) (message_from_wire cn))"
    using assms(1,7) by (intro faithful_via_wire message_wire_round_trip)
  show "faithful (via_wire qw (request_to_wire llm exec) (request_from_wire llm exec))"
    using assms(3,8) llm by (intro faithful_via_wire request_wire_round_trip)
  show "faithful (via_wire tw (outcome_to_wire results failures) (outcome_from_wire results failures))"
    using assms(5,10) results by (intro faithful_via_wire outcome_wire_round_trip)
  show "faithful (via_wire ew (event_to_wire pc) (event_from_wire pc))"
    using assms(6,11) by (intro faithful_via_wire event_wire_round_trip)
qed

end
