(* ===== verification/Rows.thy ===== *)
theory Rows
  imports Inspection
begin

text \<open>
  Rows as they come from PostgreSQL and the records the store makes of them (\<open>session_from_row\<close> to
  \<open>callback_from_row\<close> of \<open>packages/agent-store/src/store.rs\<close>, the records of \<open>models.rs\<close>). The other
  theories keep tables as lists of typed rows; here is why they may: the columns a \<open>SELECT\<close> lists
  decode to the values the row was stored with.
\<close>

section \<open>Cells and columns\<close>

text \<open>
  A result row by column name. \<open>row.try_get(column)?\<close> fails if there is no such column or its value
  does not have the type that is asked for; \<open>Option\<close> admits NULL.
\<close>

datatype cell =
    Null
  | CellText string
  | CellInt int
  | CellUuid uuid
  | CellBool bool
  | CellTime time
  | CellJson json

type_synonym pg_row = "(string \<times> cell) list"

datatype row_error = ColumnNotFound string | ColumnDecode string | InvalidStored string string

fun as_text :: "cell \<Rightarrow> string option" where
  "as_text (CellText t) = Some t" | "as_text _ = None"

fun as_int :: "cell \<Rightarrow> int option" where
  "as_int (CellInt n) = Some n" | "as_int _ = None"

fun as_uuid :: "cell \<Rightarrow> uuid option" where
  "as_uuid (CellUuid u) = Some u" | "as_uuid _ = None"

fun as_bool :: "cell \<Rightarrow> bool option" where
  "as_bool (CellBool b) = Some b" | "as_bool _ = None"

fun as_time :: "cell \<Rightarrow> time option" where
  "as_time (CellTime t) = Some t" | "as_time _ = None"

fun as_json :: "cell \<Rightarrow> json option" where
  "as_json (CellJson j) = Some j" | "as_json _ = None"

fun nullable :: "(cell \<Rightarrow> 'a option) \<Rightarrow> cell \<Rightarrow> 'a option option" where
  "nullable f Null = Some None" | "nullable f c = map_option Some (f c)"

definition nullable_cell :: "('a \<Rightarrow> cell) \<Rightarrow> 'a option \<Rightarrow> cell" where
  "nullable_cell f x = (case x of None \<Rightarrow> Null | Some v \<Rightarrow> f v)"

definition try_get :: "(cell \<Rightarrow> 'a option) \<Rightarrow> string \<Rightarrow> pg_row \<Rightarrow> row_error + 'a" where
  "try_get f column row =
     bindR (ok_or (map_of row column) (ColumnNotFound column)) (\<lambda>c. ok_or (f c) (ColumnDecode column))"

text \<open>
  Text columns that hold JSON or the name of an enumerator are checked: \<open>bad\<close> is what
  \<open>RawValue::from_string\<close> finds wrong with a text.
\<close>

definition stored_raw :: "(raw_json \<Rightarrow> string option) \<Rightarrow> string \<Rightarrow> string \<Rightarrow> row_error + raw_json" where
  "stored_raw bad kind t = (case bad t of None \<Rightarrow> Inr t | Some message \<Rightarrow> Inl (InvalidStored kind message))"

definition optional_raw ::
    "(raw_json \<Rightarrow> string option) \<Rightarrow> string \<Rightarrow> string option \<Rightarrow> row_error + raw_json option" where
  "optional_raw bad kind t =
     (case t of None \<Rightarrow> Inr None | Some x \<Rightarrow> bindR (stored_raw bad kind x) (\<lambda>y. Inr (Some y)))"

definition stored_enum :: "(string \<Rightarrow> 'a option) \<Rightarrow> string \<Rightarrow> string \<Rightarrow> row_error + 'a" where
  "stored_enum parse kind t = ok_or (parse t) (InvalidStored kind t)"

fun event_status_str :: "event_status \<Rightarrow> string" where
  "event_status_str EvPending = ''pending''"
| "event_status_str EvProcessing = ''processing''"
| "event_status_str EvHandled = ''handled''"
| "event_status_str EvBlocked = ''blocked''"

definition parse_stored_event_status :: "string \<Rightarrow> event_status option" where
  "parse_stored_event_status v =
     (if v = ''pending'' then Some EvPending
      else if v = ''processing'' then Some EvProcessing
      else if v = ''handled'' then Some EvHandled
      else if v = ''blocked'' then Some EvBlocked
      else None)"

definition parse_stored_wait_status :: "string \<Rightarrow> wait_status option" where
  "parse_stored_wait_status v =
     (if v = ''pending'' then Some WtPending
      else if v = ''resolved'' then Some WtResolved
      else if v = ''expired'' then Some WtExpired
      else if v = ''cancelled'' then Some WtCancelled
      else None)"

fun receipt_status_str :: "receipt_status \<Rightarrow> string" where
  "receipt_status_str RcPending = ''pending''"
| "receipt_status_str RcProcessing = ''processing''"
| "receipt_status_str RcProcessed = ''processed''"
| "receipt_status_str RcBlocked = ''blocked''"

definition parse_receipt_status :: "string \<Rightarrow> receipt_status option" where
  "parse_receipt_status v =
     (if v = ''pending'' then Some RcPending
      else if v = ''processing'' then Some RcProcessing
      else if v = ''processed'' then Some RcProcessed
      else if v = ''blocked'' then Some RcBlocked
      else None)"

section \<open>Sessions\<close>

record session_data =
  sd_id :: session_id
  sd_project_id :: string
  sd_harness_id :: string
  sd_harness_version :: string
  sd_configuration :: raw_json
  sd_state :: raw_json
  sd_name :: "string option"
  sd_metadata :: json
  sd_status :: session_status
  sd_state_version :: int
  sd_next_event_sequence :: int
  sd_next_history_sequence :: int
  sd_processing_enabled :: bool
  sd_processing_error :: "json option"
  sd_processing_revision :: int
  sd_blocked_event_id :: "event_id option"
  sd_current_event_id :: "event_id option"
  sd_lease_token :: "uuid option"
  sd_lease_expires_at :: "time option"
  sd_created_at :: time
  sd_updated_at :: time

definition session_data_of :: "session_row \<Rightarrow> event_id option \<Rightarrow> session_data" where
  "session_data_of s blocked = \<lparr>sd_id = s_id s, sd_project_id = s_project_id s, sd_harness_id = s_harness_id s,
       sd_harness_version = s_harness_version s, sd_configuration = s_configuration s,
       sd_state = s_state s, sd_name = s_name s, sd_metadata = s_metadata s,
       sd_status = s_status s, sd_state_version = s_state_version s,
       sd_next_event_sequence = s_next_event_sequence s,
       sd_next_history_sequence = s_next_history_sequence s,
       sd_processing_enabled = s_processing_enabled s,
       sd_processing_error = s_processing_error s,
       sd_processing_revision = s_processing_revision s, sd_blocked_event_id = blocked,
       sd_current_event_id = s_current_event_id s, sd_lease_token = s_lease_token s,
       sd_lease_expires_at = s_lease_expires_at s, sd_created_at = s_created_at s,
       sd_updated_at = s_updated_at s\<rparr>"

definition session_columns :: "session_row \<Rightarrow> event_id option \<Rightarrow> pg_row" where
  "session_columns s blocked = [(''id'', CellUuid (s_id s)), (''project_id'', CellText (s_project_id s)),
     (''harness_id'', CellText (s_harness_id s)), (''harness_version'', CellText
     (s_harness_version s)), (''configuration'', CellText (s_configuration s)), (''state'',
     CellText (s_state s)), (''name'', nullable_cell CellText (s_name s)), (''metadata'',
     CellJson (s_metadata s)), (''status'', CellText (session_status_str (s_status s))),
     (''state_version'', CellInt (s_state_version s)), (''next_event_sequence'', CellInt
     (s_next_event_sequence s)), (''next_history_sequence'', CellInt (s_next_history_sequence
     s)), (''processing_enabled'', CellBool (s_processing_enabled s)), (''processing_error'',
     nullable_cell CellJson (s_processing_error s)), (''processing_revision'', CellInt
     (s_processing_revision s)), (''blocked_event_id'', nullable_cell CellUuid blocked),
     (''current_event_id'', nullable_cell CellUuid (s_current_event_id s)), (''lease_token'',
     nullable_cell CellUuid (s_lease_token s)), (''lease_expires_at'', nullable_cell CellTime
     (s_lease_expires_at s)), (''created_at'', CellTime (s_created_at s)), (''updated_at'',
     CellTime (s_updated_at s))]"

definition session_from_row :: "(raw_json \<Rightarrow> string option) \<Rightarrow> pg_row \<Rightarrow> row_error + session_data" where
  "session_from_row bad row =
     bindR (try_get as_uuid ''id'' row) (\<lambda>v_id.
     bindR (try_get as_text ''project_id'' row) (\<lambda>v_project_id.
     bindR (try_get as_text ''harness_id'' row) (\<lambda>v_harness_id.
     bindR (try_get as_text ''harness_version'' row) (\<lambda>v_harness_version.
     bindR (try_get as_text ''configuration'' row) (\<lambda>x.
     bindR (stored_raw bad ''session configuration'' x) (\<lambda>v_configuration.
     bindR (try_get as_text ''state'' row) (\<lambda>x.
     bindR (stored_raw bad ''session state'' x) (\<lambda>v_state.
     bindR (try_get (nullable as_text) ''name'' row) (\<lambda>v_name.
     bindR (try_get as_json ''metadata'' row) (\<lambda>v_metadata.
     bindR (try_get as_text ''status'' row) (\<lambda>x.
     bindR (stored_enum parse_session_status ''session status'' x) (\<lambda>v_status.
     bindR (try_get as_int ''state_version'' row) (\<lambda>v_state_version.
     bindR (try_get as_int ''next_event_sequence'' row) (\<lambda>v_next_event_sequence.
     bindR (try_get as_int ''next_history_sequence'' row) (\<lambda>v_next_history_sequence.
     bindR (try_get as_bool ''processing_enabled'' row) (\<lambda>v_processing_enabled.
     bindR (try_get (nullable as_json) ''processing_error'' row) (\<lambda>v_processing_error.
     bindR (try_get as_int ''processing_revision'' row) (\<lambda>v_processing_revision.
     bindR (try_get (nullable as_uuid) ''blocked_event_id'' row) (\<lambda>v_blocked_event_id.
     bindR (try_get (nullable as_uuid) ''current_event_id'' row) (\<lambda>v_current_event_id.
     bindR (try_get (nullable as_uuid) ''lease_token'' row) (\<lambda>v_lease_token.
     bindR (try_get (nullable as_time) ''lease_expires_at'' row) (\<lambda>v_lease_expires_at.
     bindR (try_get as_time ''created_at'' row) (\<lambda>v_created_at.
     bindR (try_get as_time ''updated_at'' row) (\<lambda>v_updated_at.
     Inr \<lparr>sd_id = v_id, sd_project_id = v_project_id, sd_harness_id = v_harness_id,
       sd_harness_version = v_harness_version, sd_configuration = v_configuration,
       sd_state = v_state, sd_name = v_name, sd_metadata = v_metadata, sd_status = v_status,
       sd_state_version = v_state_version, sd_next_event_sequence = v_next_event_sequence,
       sd_next_history_sequence = v_next_history_sequence,
       sd_processing_enabled = v_processing_enabled,
       sd_processing_error = v_processing_error,
       sd_processing_revision = v_processing_revision,
       sd_blocked_event_id = v_blocked_event_id, sd_current_event_id = v_current_event_id,
       sd_lease_token = v_lease_token, sd_lease_expires_at = v_lease_expires_at,
       sd_created_at = v_created_at, sd_updated_at = v_updated_at\<rparr>))))))))))))))))))))))))"

record session_summary_data =
  su_id :: session_id
  su_project_id :: string
  su_harness_id :: string
  su_harness_version :: string
  su_name :: "string option"
  su_metadata :: json
  su_status :: session_status
  su_state_version :: int
  su_processing_enabled :: bool
  su_processing_error :: "json option"
  su_processing_revision :: int
  su_blocked_event_id :: "event_id option"
  su_created_at :: time
  su_updated_at :: time

definition session_summary_data_of :: "session_data \<Rightarrow> session_summary_data" where
  "session_summary_data_of d = \<lparr>su_id = sd_id d, su_project_id = sd_project_id d, su_harness_id = sd_harness_id d,
       su_harness_version = sd_harness_version d, su_name = sd_name d,
       su_metadata = sd_metadata d, su_status = sd_status d,
       su_state_version = sd_state_version d,
       su_processing_enabled = sd_processing_enabled d,
       su_processing_error = sd_processing_error d,
       su_processing_revision = sd_processing_revision d,
       su_blocked_event_id = sd_blocked_event_id d, su_created_at = sd_created_at d,
       su_updated_at = sd_updated_at d\<rparr>"

definition session_summary_from_row :: "pg_row \<Rightarrow> row_error + session_summary_data" where
  "session_summary_from_row row =
     bindR (try_get as_uuid ''id'' row) (\<lambda>v_id.
     bindR (try_get as_text ''project_id'' row) (\<lambda>v_project_id.
     bindR (try_get as_text ''harness_id'' row) (\<lambda>v_harness_id.
     bindR (try_get as_text ''harness_version'' row) (\<lambda>v_harness_version.
     bindR (try_get (nullable as_text) ''name'' row) (\<lambda>v_name.
     bindR (try_get as_json ''metadata'' row) (\<lambda>v_metadata.
     bindR (try_get as_text ''status'' row) (\<lambda>x.
     bindR (stored_enum parse_session_status ''session status'' x) (\<lambda>v_status.
     bindR (try_get as_int ''state_version'' row) (\<lambda>v_state_version.
     bindR (try_get as_bool ''processing_enabled'' row) (\<lambda>v_processing_enabled.
     bindR (try_get (nullable as_json) ''processing_error'' row) (\<lambda>v_processing_error.
     bindR (try_get as_int ''processing_revision'' row) (\<lambda>v_processing_revision.
     bindR (try_get (nullable as_uuid) ''blocked_event_id'' row) (\<lambda>v_blocked_event_id.
     bindR (try_get as_time ''created_at'' row) (\<lambda>v_created_at.
     bindR (try_get as_time ''updated_at'' row) (\<lambda>v_updated_at.
     Inr \<lparr>su_id = v_id, su_project_id = v_project_id, su_harness_id = v_harness_id,
       su_harness_version = v_harness_version, su_name = v_name, su_metadata = v_metadata,
       su_status = v_status, su_state_version = v_state_version,
       su_processing_enabled = v_processing_enabled,
       su_processing_error = v_processing_error,
       su_processing_revision = v_processing_revision,
       su_blocked_event_id = v_blocked_event_id, su_created_at = v_created_at,
       su_updated_at = v_updated_at\<rparr>)))))))))))))))"

section \<open>Events\<close>

record event_data =
  ed_id :: event_id
  ed_session_id :: session_id
  ed_sequence :: int
  ed_event_type :: event_type
  ed_payload :: raw_json
  ed_operation_id :: "operation_id option"
  ed_wait_id :: "wait_id option"
  ed_status :: event_status
  ed_created_at :: time
  ed_handled_at :: "time option"

definition event_data_of :: "(event_payload \<Rightarrow> raw_json) \<Rightarrow> event_row \<Rightarrow> event_data" where
  "event_data_of text e = \<lparr>ed_id = e_id e, ed_session_id = e_session_id e, ed_sequence = e_sequence e,
       ed_event_type = e_type e, ed_payload = text (e_payload e),
       ed_operation_id = e_operation_id e, ed_wait_id = e_wait_id e, ed_status = e_status e,
       ed_created_at = e_created_at e, ed_handled_at = e_handled_at e\<rparr>"

definition event_columns :: "(event_payload \<Rightarrow> raw_json) \<Rightarrow> event_row \<Rightarrow> pg_row" where
  "event_columns text e = [(''id'', CellUuid (e_id e)), (''session_id'', CellUuid (e_session_id e)), (''sequence'',
     CellInt (e_sequence e)), (''type'', CellText (event_type_str (e_type e))), (''payload'',
     CellText (text (e_payload e))), (''operation_id'', nullable_cell CellUuid (e_operation_id
     e)), (''wait_id'', nullable_cell CellUuid (e_wait_id e)), (''status'', CellText
     (event_status_str (e_status e))), (''created_at'', CellTime (e_created_at e)),
     (''handled_at'', nullable_cell CellTime (e_handled_at e))]"

definition event_from_row :: "(raw_json \<Rightarrow> string option) \<Rightarrow> pg_row \<Rightarrow> row_error + event_data" where
  "event_from_row bad row =
     bindR (try_get as_text ''type'' row) (\<lambda>type_text.
     bindR (try_get as_text ''status'' row) (\<lambda>status_text.
     bindR (try_get as_uuid ''id'' row) (\<lambda>v_id.
     bindR (try_get as_uuid ''session_id'' row) (\<lambda>v_session_id.
     bindR (try_get as_int ''sequence'' row) (\<lambda>v_sequence.
     bindR (stored_enum parse_event_type ''event type'' type_text) (\<lambda>v_event_type.
     bindR (try_get as_text ''payload'' row) (\<lambda>x.
     bindR (stored_raw bad ''event payload'' x) (\<lambda>v_payload.
     bindR (try_get (nullable as_uuid) ''operation_id'' row) (\<lambda>v_operation_id.
     bindR (try_get (nullable as_uuid) ''wait_id'' row) (\<lambda>v_wait_id.
     bindR (stored_enum parse_stored_event_status ''event status'' status_text) (\<lambda>v_status.
     bindR (try_get as_time ''created_at'' row) (\<lambda>v_created_at.
     bindR (try_get (nullable as_time) ''handled_at'' row) (\<lambda>v_handled_at.
     Inr \<lparr>ed_id = v_id, ed_session_id = v_session_id, ed_sequence = v_sequence,
       ed_event_type = v_event_type, ed_payload = v_payload,
       ed_operation_id = v_operation_id, ed_wait_id = v_wait_id, ed_status = v_status,
       ed_created_at = v_created_at, ed_handled_at = v_handled_at\<rparr>)))))))))))))"

section \<open>History\<close>

definition history_columns :: "history_row \<Rightarrow> pg_row" where
  "history_columns h = [(''id'', CellUuid (h_id h)), (''session_id'', CellUuid (h_session_id h)), (''sequence'',
     CellInt (h_sequence h)), (''source_event_id'', nullable_cell CellUuid (h_source_event_id
     h)), (''role'', CellText (h_role h)), (''message'', CellText (h_message h)),
     (''created_at'', CellTime (h_created_at h))]"

definition history_from_row :: "(raw_json \<Rightarrow> string option) \<Rightarrow> pg_row \<Rightarrow> row_error + history_row" where
  "history_from_row bad row =
     bindR (try_get as_uuid ''id'' row) (\<lambda>v_id.
     bindR (try_get as_uuid ''session_id'' row) (\<lambda>v_session_id.
     bindR (try_get as_int ''sequence'' row) (\<lambda>v_sequence.
     bindR (try_get (nullable as_uuid) ''source_event_id'' row) (\<lambda>v_source_event_id.
     bindR (try_get as_text ''role'' row) (\<lambda>v_role.
     bindR (try_get as_text ''message'' row) (\<lambda>x.
     bindR (stored_raw bad ''history message'' x) (\<lambda>v_message.
     bindR (try_get as_time ''created_at'' row) (\<lambda>v_created_at.
     Inr \<lparr>h_id = v_id, h_session_id = v_session_id, h_sequence = v_sequence,
       h_source_event_id = v_source_event_id, h_role = v_role, h_message = v_message,
       h_created_at = v_created_at\<rparr>))))))))"

section \<open>Operations\<close>

record operation_data =
  pd_id :: operation_id
  pd_session_id :: session_id
  pd_source_event_id :: event_id
  pd_kind :: operation_kind
  pd_gateway_connection_id :: "string option"
  pd_target_operation_id :: "operation_id option"
  pd_previous_operation_id :: "operation_id option"
  pd_gateway_idempotency_key :: string
  pd_request_hash :: string
  pd_gateway_job_id :: "uuid option"
  pd_status :: operation_status
  pd_result :: "raw_json option"
  pd_error :: "json option"
  pd_created_at :: time
  pd_completed_at :: "time option"

definition operation_data_of :: "operation_row \<Rightarrow> operation_data" where
  "operation_data_of r = \<lparr>pd_id = o_id r, pd_session_id = o_session_id r,
       pd_source_event_id = o_source_event_id r, pd_kind = o_kind r,
       pd_gateway_connection_id = o_connection r, pd_target_operation_id = o_target r,
       pd_previous_operation_id = o_previous r,
       pd_gateway_idempotency_key = o_idempotency_key r, pd_request_hash = o_request_hash r,
       pd_gateway_job_id = o_job_id r, pd_status = o_status r, pd_result = o_result r,
       pd_error = o_error r, pd_created_at = o_created_at r,
       pd_completed_at = o_completed_at r\<rparr>"

definition operation_columns :: "operation_row \<Rightarrow> pg_row" where
  "operation_columns r = [(''id'', CellUuid (o_id r)), (''session_id'', CellUuid (o_session_id r)),
     (''source_event_id'', CellUuid (o_source_event_id r)), (''kind'', CellText
     (operation_kind_str (o_kind r))), (''gateway_connection_id'', nullable_cell CellText
     (o_connection r)), (''target_operation_id'', nullable_cell CellUuid (o_target r)),
     (''previous_operation_id'', nullable_cell CellUuid (o_previous r)),
     (''gateway_idempotency_key'', CellText (o_idempotency_key r)), (''request_hash'',
     CellText (o_request_hash r)), (''gateway_job_id'', nullable_cell CellUuid (o_job_id r)),
     (''status'', CellText (operation_status_str (o_status r))), (''result'', nullable_cell
     CellText (o_result r)), (''error'', nullable_cell CellJson (o_error r)), (''created_at'',
     CellTime (o_created_at r)), (''completed_at'', nullable_cell CellTime (o_completed_at r))]"

definition operation_from_row :: "(raw_json \<Rightarrow> string option) \<Rightarrow> pg_row \<Rightarrow> row_error + operation_data" where
  "operation_from_row bad row =
     bindR (try_get as_text ''status'' row) (\<lambda>status_text.
     bindR (try_get as_uuid ''id'' row) (\<lambda>v_id.
     bindR (try_get as_uuid ''session_id'' row) (\<lambda>v_session_id.
     bindR (try_get as_uuid ''source_event_id'' row) (\<lambda>v_source_event_id.
     bindR (try_get as_text ''kind'' row) (\<lambda>x.
     bindR (stored_enum parse_operation_kind ''operation kind'' x) (\<lambda>v_kind.
     bindR (try_get (nullable as_text) ''gateway_connection_id'' row) (\<lambda>v_gateway_connection_id.
     bindR (try_get (nullable as_uuid) ''target_operation_id'' row) (\<lambda>v_target_operation_id.
     bindR (try_get (nullable as_uuid) ''previous_operation_id'' row) (\<lambda>v_previous_operation_id.
     bindR (try_get as_text ''gateway_idempotency_key'' row) (\<lambda>v_gateway_idempotency_key.
     bindR (try_get as_text ''request_hash'' row) (\<lambda>v_request_hash.
     bindR (try_get (nullable as_uuid) ''gateway_job_id'' row) (\<lambda>v_gateway_job_id.
     bindR (stored_enum parse_operation_status ''operation status'' status_text) (\<lambda>v_status.
     bindR (try_get (nullable as_text) ''result'' row) (\<lambda>x.
     bindR (optional_raw bad ''operation result'' x) (\<lambda>v_result.
     bindR (try_get (nullable as_json) ''error'' row) (\<lambda>v_error.
     bindR (try_get as_time ''created_at'' row) (\<lambda>v_created_at.
     bindR (try_get (nullable as_time) ''completed_at'' row) (\<lambda>v_completed_at.
     Inr \<lparr>pd_id = v_id, pd_session_id = v_session_id, pd_source_event_id = v_source_event_id,
       pd_kind = v_kind, pd_gateway_connection_id = v_gateway_connection_id,
       pd_target_operation_id = v_target_operation_id,
       pd_previous_operation_id = v_previous_operation_id,
       pd_gateway_idempotency_key = v_gateway_idempotency_key,
       pd_request_hash = v_request_hash, pd_gateway_job_id = v_gateway_job_id,
       pd_status = v_status, pd_result = v_result, pd_error = v_error,
       pd_created_at = v_created_at, pd_completed_at = v_completed_at\<rparr>))))))))))))))))))"

section \<open>Waits\<close>

record wait_data =
  wd_id :: wait_id
  wd_session_id :: session_id
  wd_source_event_id :: event_id
  wd_mode :: wait_mode
  wd_payload :: raw_json
  wd_response_schema :: "raw_json option"
  wd_expires_at :: "time option"
  wd_status :: wait_status
  wd_resolution_payload :: "raw_json option"
  wd_created_at :: time
  wd_finished_at :: "time option"

definition wait_data_of :: "wait_row \<Rightarrow> wait_data" where
  "wait_data_of w = \<lparr>wd_id = w_id w, wd_session_id = w_session_id w,
       wd_source_event_id = w_source_event_id w, wd_mode = w_mode w,
       wd_payload = w_payload w, wd_response_schema = w_response_schema w,
       wd_expires_at = w_expires_at w, wd_status = w_status w,
       wd_resolution_payload = w_resolution_payload w, wd_created_at = w_created_at w,
       wd_finished_at = w_finished_at w\<rparr>"

definition wait_columns :: "wait_row \<Rightarrow> pg_row" where
  "wait_columns w = [(''id'', CellUuid (w_id w)), (''session_id'', CellUuid (w_session_id w)),
     (''source_event_id'', CellUuid (w_source_event_id w)), (''resolution_mode'', CellText
     (wait_mode_str (w_mode w))), (''payload'', CellText (w_payload w)), (''response_schema'',
     nullable_cell CellText (w_response_schema w)), (''expires_at'', nullable_cell CellTime
     (w_expires_at w)), (''status'', CellText (wait_status_str (w_status w))),
     (''resolution_payload'', nullable_cell CellText (w_resolution_payload w)),
     (''created_at'', CellTime (w_created_at w)), (''finished_at'', nullable_cell CellTime
     (w_finished_at w))]"

definition wait_from_row :: "(raw_json \<Rightarrow> string option) \<Rightarrow> pg_row \<Rightarrow> row_error + wait_data" where
  "wait_from_row bad row =
     bindR (try_get as_text ''status'' row) (\<lambda>status_text.
     bindR (try_get as_uuid ''id'' row) (\<lambda>v_id.
     bindR (try_get as_uuid ''session_id'' row) (\<lambda>v_session_id.
     bindR (try_get as_uuid ''source_event_id'' row) (\<lambda>v_source_event_id.
     bindR (try_get as_text ''resolution_mode'' row) (\<lambda>x.
     bindR (stored_enum parse_wait_mode ''wait mode'' x) (\<lambda>v_mode.
     bindR (try_get as_text ''payload'' row) (\<lambda>x.
     bindR (stored_raw bad ''wait payload'' x) (\<lambda>v_payload.
     bindR (try_get (nullable as_text) ''response_schema'' row) (\<lambda>x.
     bindR (optional_raw bad ''wait response schema'' x) (\<lambda>v_response_schema.
     bindR (try_get (nullable as_time) ''expires_at'' row) (\<lambda>v_expires_at.
     bindR (stored_enum parse_stored_wait_status ''wait status'' status_text) (\<lambda>v_status.
     bindR (try_get (nullable as_text) ''resolution_payload'' row) (\<lambda>x.
     bindR (optional_raw bad ''wait resolution payload'' x) (\<lambda>v_resolution_payload.
     bindR (try_get as_time ''created_at'' row) (\<lambda>v_created_at.
     bindR (try_get (nullable as_time) ''finished_at'' row) (\<lambda>v_finished_at.
     Inr \<lparr>wd_id = v_id, wd_session_id = v_session_id, wd_source_event_id = v_source_event_id,
       wd_mode = v_mode, wd_payload = v_payload, wd_response_schema = v_response_schema,
       wd_expires_at = v_expires_at, wd_status = v_status,
       wd_resolution_payload = v_resolution_payload, wd_created_at = v_created_at,
       wd_finished_at = v_finished_at\<rparr>))))))))))))))))"

section \<open>Callback receipts\<close>

record callback_data =
  bd_id :: uuid
  bd_gateway_connection_id :: string
  bd_gateway_event_id :: uuid
  bd_gateway_job_id :: uuid
  bd_payload :: raw_json
  bd_operation_id :: "operation_id option"
  bd_status :: receipt_status
  bd_received_at :: time

definition callback_data_of :: "receipt_row \<Rightarrow> callback_data" where
  "callback_data_of g = \<lparr>bd_id = g_id g, bd_gateway_connection_id = g_connection g,
       bd_gateway_event_id = g_event_id g, bd_gateway_job_id = g_job_id g,
       bd_payload = g_payload g, bd_operation_id = g_operation_id g, bd_status = g_status g,
       bd_received_at = g_received_at g\<rparr>"

definition callback_columns :: "receipt_row \<Rightarrow> pg_row" where
  "callback_columns g = [(''id'', CellUuid (g_id g)), (''gateway_connection_id'', CellText (g_connection g)),
     (''gateway_event_id'', CellUuid (g_event_id g)), (''gateway_job_id'', CellUuid (g_job_id
     g)), (''payload'', CellText (g_payload g)), (''operation_id'', nullable_cell CellUuid
     (g_operation_id g)), (''status'', CellText (receipt_status_str (g_status g))),
     (''received_at'', CellTime (g_received_at g))]"

definition callback_from_row :: "(raw_json \<Rightarrow> string option) \<Rightarrow> pg_row \<Rightarrow> row_error + callback_data" where
  "callback_from_row bad row =
     bindR (try_get as_text ''status'' row) (\<lambda>status_text.
     bindR (try_get as_uuid ''id'' row) (\<lambda>v_id.
     bindR (try_get as_text ''gateway_connection_id'' row) (\<lambda>v_gateway_connection_id.
     bindR (try_get as_uuid ''gateway_event_id'' row) (\<lambda>v_gateway_event_id.
     bindR (try_get as_uuid ''gateway_job_id'' row) (\<lambda>v_gateway_job_id.
     bindR (try_get as_text ''payload'' row) (\<lambda>x.
     bindR (stored_raw bad ''callback payload'' x) (\<lambda>v_payload.
     bindR (try_get (nullable as_uuid) ''operation_id'' row) (\<lambda>v_operation_id.
     bindR (stored_enum parse_receipt_status ''callback status'' status_text) (\<lambda>v_status.
     bindR (try_get as_time ''received_at'' row) (\<lambda>v_received_at.
     Inr \<lparr>bd_id = v_id, bd_gateway_connection_id = v_gateway_connection_id,
       bd_gateway_event_id = v_gateway_event_id, bd_gateway_job_id = v_gateway_job_id,
       bd_payload = v_payload, bd_operation_id = v_operation_id, bd_status = v_status,
       bd_received_at = v_received_at\<rparr>))))))))))"

section \<open>Rows decode to what was stored\<close>

lemma nullable_cells [simp]:
  "nullable as_text (nullable_cell CellText x) = Some x" "nullable as_int (nullable_cell CellInt n) = Some n"
  "nullable as_uuid (nullable_cell CellUuid u) = Some u" "nullable as_time (nullable_cell CellTime t) = Some t"
  "nullable as_json (nullable_cell CellJson j) = Some j"
  by (simp_all add: nullable_cell_def split: option.split)

lemma try_get_Cons [simp]:
  "try_get f c ((c', v) # row) = (if c = c' then ok_or (f v) (ColumnDecode c) else try_get f c row)"
  by (simp add: try_get_def)

lemma stored_session_status [simp]: "stored_enum parse_session_status k (session_status_str x) = Inr x"
  by (cases x) (simp_all add: stored_enum_def parse_session_status_def)

lemma stored_event_type [simp]: "stored_enum parse_event_type k (event_type_str x) = Inr x"
  by (cases x) (simp_all add: stored_enum_def parse_event_type_def)

lemma stored_event_status [simp]: "stored_enum parse_stored_event_status k (event_status_str x) = Inr x"
  by (cases x) (simp_all add: stored_enum_def parse_stored_event_status_def)

lemma stored_operation_kind [simp]: "stored_enum parse_operation_kind k (operation_kind_str x) = Inr x"
  by (cases x) (simp_all add: stored_enum_def parse_operation_kind_def)

lemma stored_operation_status [simp]:
  "stored_enum parse_operation_status k (operation_status_str x) = Inr x"
  by (cases x) (simp_all add: stored_enum_def parse_operation_status_def)

lemma stored_wait_mode [simp]: "stored_enum parse_wait_mode k (wait_mode_str x) = Inr x"
  by (cases x) (simp_all add: stored_enum_def parse_wait_mode_def)

lemma stored_wait_status [simp]: "stored_enum parse_stored_wait_status k (wait_status_str x) = Inr x"
  by (cases x) (simp_all add: stored_enum_def parse_stored_wait_status_def)

lemma stored_receipt_status [simp]: "stored_enum parse_receipt_status k (receipt_status_str x) = Inr x"
  by (cases x) (simp_all add: stored_enum_def parse_receipt_status_def)

lemma stored_raws [simp]:
  "bad t = None \<Longrightarrow> stored_raw bad k t = Inr t"
  "pred_option (\<lambda>x. bad x = None) t' \<Longrightarrow> optional_raw bad k t' = Inr t'"
  by (simp add: stored_raw_def) (cases t', simp_all add: stored_raw_def optional_raw_def)

text \<open>The texts of a row that PostgreSQL keeps in \<open>jsonb\<close> columns are JSON.\<close>

definition session_texts :: "(raw_json \<Rightarrow> string option) \<Rightarrow> session_row \<Rightarrow> bool" where
  "session_texts bad s \<longleftrightarrow> bad (s_configuration s) = None \<and> bad (s_state s) = None"

definition wait_texts :: "(raw_json \<Rightarrow> string option) \<Rightarrow> wait_row \<Rightarrow> bool" where
  "wait_texts bad w \<longleftrightarrow> bad (w_payload w) = None \<and> pred_option (\<lambda>x. bad x = None) (w_response_schema w)
     \<and> pred_option (\<lambda>x. bad x = None) (w_resolution_payload w)"

lemma session_decodes:
  "session_texts bad s \<Longrightarrow> session_from_row bad (session_columns s blocked) = Inr (session_data_of s blocked)"
  by (simp add: session_from_row_def session_columns_def session_data_of_def session_texts_def)

lemma session_summary_decodes:
  "session_summary_from_row (session_columns s blocked)
     = Inr (session_summary_data_of (session_data_of s blocked))"
  by (simp add: session_summary_from_row_def session_columns_def session_data_of_def
      session_summary_data_of_def)

lemma event_decodes:
  "bad (text (e_payload e)) = None \<Longrightarrow> event_from_row bad (event_columns text e) = Inr (event_data_of text e)"
  by (simp add: event_from_row_def event_columns_def event_data_of_def)

lemma history_decodes:
  "bad (h_message h) = None \<Longrightarrow> history_from_row bad (history_columns h) = Inr h"
  by (simp add: history_from_row_def history_columns_def)

lemma operation_decodes:
  "pred_option (\<lambda>x. bad x = None) (o_result r) \<Longrightarrow>
     operation_from_row bad (operation_columns r) = Inr (operation_data_of r)"
  by (simp add: operation_from_row_def operation_columns_def operation_data_of_def)

lemma wait_decodes:
  "wait_texts bad w \<Longrightarrow> wait_from_row bad (wait_columns w) = Inr (wait_data_of w)"
  by (simp add: wait_from_row_def wait_columns_def wait_data_of_def wait_texts_def)

lemma callback_decodes:
  "bad (g_payload g) = None \<Longrightarrow> callback_from_row bad (callback_columns g) = Inr (callback_data_of g)"
  by (simp add: callback_from_row_def callback_columns_def callback_data_of_def)

end
