(* ===== verification/TestContext.thy ===== *)
theory TestContext
  imports HandlerContext "HOL-Library.AList" "HOL-Library.Multiset"
begin

text \<open>
  The in-memory context that tests give to a harness (\<open>packages/agent-test-support/src/lib.rs\<close>):
  the same interface as \<open>HandlerContext\<close>, over records kept as JSON texts. Both contexts are
  sources of history in the sense of one locale, so they give the same answers when they hold the
  same entries; recorded operations and waits are read as they were last recorded.
\<close>

section \<open>The context\<close>

text \<open>The printers may fail, as \<open>serde_json::to_string\<close> may; so may the parsers.\<close>

record 'a text_format =
  tf_print :: "'a \<Rightarrow> string + raw_json"
  tf_parse :: "raw_json \<Rightarrow> string + 'a"

record memory_formats =
  mf_entry :: "contract_history_entry text_format"
  mf_operation :: "contract_operation text_format"
  mf_wait :: "contract_wait text_format"

record ('asset, 'published) memory_context =
  mm_session :: session_view
  mm_history_through :: int
  mm_history :: "raw_json list"
  mm_operations :: "(operation_id \<times> raw_json) list"
  mm_waits :: "(wait_id \<times> raw_json) list"
  mm_stop_requested :: bool
  mm_asset_publisher :: "'asset \<Rightarrow> string + 'published"

definition memory_new :: "session_view \<Rightarrow> int \<Rightarrow> ('a, 'p) memory_context" where
  "memory_new v through =
     \<lparr>mm_session = v, mm_history_through = through, mm_history = [], mm_operations = [],
      mm_waits = [], mm_stop_requested = False, mm_asset_publisher = unavailable_publish\<rparr>"

definition with_asset_publisher ::
    "('a \<Rightarrow> string + 'p) \<Rightarrow> ('a, 'p) memory_context \<Rightarrow> ('a, 'p) memory_context" where
  "with_asset_publisher publisher mc = mc\<lparr>mm_asset_publisher := publisher\<rparr>"

definition add_history ::
    "memory_formats \<Rightarrow> contract_history_entry \<Rightarrow> ('a, 'p) memory_context
      \<Rightarrow> string + ('a, 'p) memory_context" where
  "add_history mf e mc = bindR (tf_print (mf_entry mf) e) (\<lambda>text.
     Inr (mc\<lparr>mm_history := mm_history mc @ [text]\<rparr>))"

text \<open>A record that is there already is replaced where it stands, a new one goes to the end.\<close>

definition add_operation ::
    "memory_formats \<Rightarrow> contract_operation \<Rightarrow> ('a, 'p) memory_context
      \<Rightarrow> string + ('a, 'p) memory_context" where
  "add_operation mf r mc = bindR (tf_print (mf_operation mf) r) (\<lambda>text.
     Inr (mc\<lparr>mm_operations := AList.update (rr_id r) text (mm_operations mc)\<rparr>))"

definition add_wait ::
    "memory_formats \<Rightarrow> contract_wait \<Rightarrow> ('a, 'p) memory_context
      \<Rightarrow> string + ('a, 'p) memory_context" where
  "add_wait mf r mc = bindR (tf_print (mf_wait mf) r) (\<lambda>text.
     Inr (mc\<lparr>mm_waits := AList.update (wc_id r) text (mm_waits mc)\<rparr>))"

definition memory_request_stop :: "('a, 'p) memory_context \<Rightarrow> ('a, 'p) memory_context" where
  "memory_request_stop mc = mc\<lparr>mm_stop_requested := True\<rparr>"

section \<open>Its reads\<close>

definition memory_decode :: "'r text_format \<Rightarrow> raw_json \<Rightarrow> context_error + 'r" where
  "memory_decode tf raw = map_err ContextRead (tf_parse tf raw)"

definition memory_publish_asset :: "'a \<Rightarrow> ('a, 'p) memory_context \<Rightarrow> context_error + 'p" where
  "memory_publish_asset asset mc =
     (if mm_stop_requested mc
      then Inl (ContextUnavailable
        ''asset publication stopped because the invocation is stopping'')
      else map_err ContextPublish (mm_asset_publisher mc asset))"

definition memory_history ::
    "memory_formats \<Rightarrow> ('a, 'p) memory_context \<Rightarrow> context_history_query
      \<Rightarrow> context_error + contract_history_entry list" where
  "memory_history mf mc q =
     bindR (mapR (memory_decode (mf_entry mf)) (mm_history mc)) (\<lambda>entries.
     Inr (take (chq_limit q) (sort_key he_sequence
       (filter (\<lambda>e. chq_after_sequence q < he_sequence e \<and> he_sequence e \<le> mm_history_through mc)
         entries))))"

text \<open>The loops that decode record after record and return the first that fits.\<close>

fun decode_find ::
    "'r text_format \<Rightarrow> ('r \<Rightarrow> bool) \<Rightarrow> raw_json list \<Rightarrow> context_error + 'r option" where
  "decode_find tf p [] = Inr None"
| "decode_find tf p (raw # rest) = bindR (memory_decode tf raw) (\<lambda>r.
     if p r then Inr (Some r) else decode_find tf p rest)"

definition memory_history_entry ::
    "memory_formats \<Rightarrow> ('a, 'p) memory_context \<Rightarrow> history_entry_id
      \<Rightarrow> context_error + contract_history_entry option" where
  "memory_history_entry mf mc i = decode_find (mf_entry mf)
     (\<lambda>e. he_id e = i \<and> he_sequence e \<le> mm_history_through mc) (mm_history mc)"

definition memory_operation ::
    "memory_formats \<Rightarrow> ('a, 'p) memory_context \<Rightarrow> operation_id
      \<Rightarrow> context_error + contract_operation option" where
  "memory_operation mf mc i =
     decode_find (mf_operation mf) (\<lambda>r. rr_id r = i) (map snd (mm_operations mc))"

definition memory_operations ::
    "memory_formats \<Rightarrow> ('a, 'p) memory_context \<Rightarrow> context_operation_query
      \<Rightarrow> context_error + contract_operation list" where
  "memory_operations mf mc q =
     bindR (mapR (memory_decode (mf_operation mf)) (map snd (mm_operations mc))) (\<lambda>records.
     Inr (take (coq_limit q)
       (filter (\<lambda>r. case coq_kind q of None \<Rightarrow> True | Some kind \<Rightarrow> kind = rr_kind r) records)))"

definition memory_wait ::
    "memory_formats \<Rightarrow> ('a, 'p) memory_context \<Rightarrow> wait_id \<Rightarrow> context_error + contract_wait option"
  where
  "memory_wait mf mc i = decode_find (mf_wait mf) (\<lambda>r. wc_id r = i) (map snd (mm_waits mc))"

definition memory_waits ::
    "memory_formats \<Rightarrow> ('a, 'p) memory_context \<Rightarrow> context_wait_query
      \<Rightarrow> context_error + contract_wait list" where
  "memory_waits mf mc q =
     bindR (mapR (memory_decode (mf_wait mf)) (map snd (mm_waits mc))) (\<lambda>records.
     Inr (take (cwq_limit q)
       (filter (\<lambda>r. case cwq_status q of None \<Rightarrow> True | Some st \<Rightarrow> st = wc_status r) records)))"

section \<open>Sources of history\<close>

text \<open>What both contexts answer: a page of the entries in sequence order, up to the bound.\<close>

definition page_of ::
    "int \<Rightarrow> int \<Rightarrow> nat \<Rightarrow> contract_history_entry list \<Rightarrow> contract_history_entry list" where
  "page_of through after n es =
     take n (sort_key he_sequence (filter (\<lambda>e. after < he_sequence e \<and> he_sequence e \<le> through) es))"

lemma page_of_mset:
  assumes "mset es = mset es'" and "distinct (map he_sequence es)"
  shows "page_of through after n es = page_of through after n es'"
proof -
  let ?P = "\<lambda>e. after < he_sequence e \<and> he_sequence e \<le> through"
  have "sort_key he_sequence (filter ?P es) = sort_key he_sequence (filter ?P es')"
  proof (rule sort_key_inj_key_eq)
    show "mset (filter ?P es) = mset (sort_key he_sequence (filter ?P es'))"
      using assms(1) by simp
    show "inj_on he_sequence (set (filter ?P es))"
      using assms(2) by (auto simp: distinct_map intro: inj_on_subset)
  qed simp
  then show ?thesis by (simp add: page_of_def)
qed

lemma set_page_of:
  "e \<in> set (page_of through after n es) \<Longrightarrow>
     e \<in> set es \<and> after < he_sequence e \<and> he_sequence e \<le> through"
  by (auto simp: page_of_def dest: in_set_takeD)

lemma sorted_page_of: "sorted (map he_sequence (page_of through after n es))"
  by (simp add: page_of_def take_map [symmetric] sorted_wrt_take)

lemma page_of_complete:
  assumes "length (page_of through after n es) < n" and "e \<in> set es"
    and "after < he_sequence e" and "he_sequence e \<le> through"
  shows "e \<in> set (page_of through after n es)"
  using assms by (auto simp: page_of_def)

text \<open>Two pages in a row are the page of both lengths: the second goes on after the last entry.\<close>

lemma filter_after_last:
  assumes "sorted (map k (us @ z # vs))" and "distinct (map k (us @ z # vs))"
  shows "filter (\<lambda>x. k z < k x) (us @ z # vs) = vs"
proof -
  have "\<not> k z < k x" if "x \<in> set us" for x
    using assms(1) that by (auto simp: sorted_append not_less)
  moreover have "k z < k x" if "x \<in> set vs" for x
  proof -
    have "k z \<le> k x" using assms(1) that by (simp add: sorted_append)
    moreover have "k z \<noteq> k x" using assms(2) that by auto
    ultimately show ?thesis by simp
  qed
  ultimately show ?thesis by (simp add: filter_empty_conv filter_id_conv)
qed

lemma filter_sorted_drop:
  assumes "sorted (map k xs)" and "distinct (map k xs)" and "0 < m" and "m \<le> length xs"
  shows "filter (\<lambda>x. k (last (take m xs)) < k x) xs = drop m xs"
proof -
  define us z where "us = butlast (take m xs)" and "z = last (take m xs)"
  have "take m xs \<noteq> []" using assms(3,4) by auto
  then have "take m xs = us @ [z]" by (simp add: us_def z_def)
  then have xs: "xs = us @ z # drop m xs" by (metis append.assoc append_Cons append_Nil append_take_drop_id)
  have "filter (\<lambda>x. k z < k x) (us @ z # drop m xs) = drop m xs"
    by (rule filter_after_last) (use assms(1,2) xs in simp_all)
  then show ?thesis by (simp only: xs [symmetric]) (simp only: z_def)
qed

lemma page_of_continue:
  assumes "distinct (map he_sequence es)" and "length (page_of through after m es) = m" and "0 < m"
    and z: "z = last (page_of through after m es)"
  shows "page_of through after m es @ page_of through (he_sequence z) n es
    = page_of through after (m + n) es"
proof -
  let ?s = "sort_key he_sequence (filter (\<lambda>e. after < he_sequence e \<and> he_sequence e \<le> through) es)"
  have s: "distinct (map he_sequence ?s)"
    using assms(1) by (simp add: distinct_map) (auto intro: inj_on_subset)
  have m: "m \<le> length ?s" using assms(2) by (simp add: page_of_def)
  have z': "z = last (take m ?s)" using z by (simp add: page_of_def)
  have "z \<in> set (page_of through after m es)"
    unfolding z using assms(2,3) by (intro last_in_set) auto
  then have after: "after < he_sequence z" by (simp add: set_page_of)
  have "filter (\<lambda>e. he_sequence z < he_sequence e) ?s = drop m ?s"
    unfolding z' by (rule filter_sorted_drop) (use s m assms(3) in auto)
  moreover have "filter (\<lambda>e. (after < he_sequence e \<and> he_sequence e \<le> through) \<and> he_sequence z < he_sequence e) es
      = filter (\<lambda>e. he_sequence z < he_sequence e \<and> he_sequence e \<le> through) es"
    by (rule filter_cong) (use after in auto)
  then have "filter (\<lambda>e. he_sequence z < he_sequence e) ?s
      = sort_key he_sequence (filter (\<lambda>e. he_sequence z < he_sequence e \<and> he_sequence e \<le> through) es)"
    by (simp only: filter_sort filter_filter)
  ultimately have "page_of through (he_sequence z) n es = take n (drop m ?s)"
    by (simp add: page_of_def)
  then show ?thesis by (simp add: page_of_def take_add)
qed

locale history_source =
  fixes read_history :: "'c \<Rightarrow> context_history_query \<Rightarrow> context_error + contract_history_entry list"
    and holds :: "'c \<Rightarrow> int \<Rightarrow> contract_history_entry list \<Rightarrow> bool"
  assumes holds_distinct: "holds c through es \<Longrightarrow> distinct (map he_sequence es)"
    and reads_page: "\<lbrakk>holds c through es; 1 \<le> chq_limit q; chq_limit q \<le> 1000\<rbrakk> \<Longrightarrow>
      read_history c q = Inr (page_of through (chq_after_sequence q) (chq_limit q) es)"
begin

lemma read_bounded:
  assumes "holds c through es" and "1 \<le> chq_limit q" and "chq_limit q \<le> 1000"
    and "read_history c q = Inr page"
  shows "sorted (map he_sequence page)
    \<and> (\<forall>e \<in> set page. e \<in> set es \<and> chq_after_sequence q < he_sequence e \<and> he_sequence e \<le> through)
    \<and> length page \<le> chq_limit q"
  using assms reads_page [OF assms(1-3)] sorted_page_of
  by (auto dest: set_page_of) (simp add: page_of_def)

lemma read_on:
  assumes h: "holds c through es" and m: "1 \<le> m" "m \<le> 1000" and n: "1 \<le> n" "n \<le> 1000"
    and first: "read_history c \<lparr>chq_after_sequence = a, chq_limit = m\<rparr> = Inr page"
    and full: "length page = m"
    and rest: "read_history c \<lparr>chq_after_sequence = he_sequence (last page), chq_limit = n\<rparr> = Inr page'"
  shows "page @ page' = page_of through a (m + n) es"
proof -
  have "page = page_of through a m es"
    using first reads_page [OF h, of "\<lparr>chq_after_sequence = a, chq_limit = m\<rparr>"] m by simp
  moreover have "page' = page_of through (he_sequence (last page)) n es"
    using rest reads_page [OF h, of "\<lparr>chq_after_sequence = he_sequence (last page), chq_limit = n\<rparr>"] n
    by simp
  ultimately show ?thesis
    using page_of_continue [OF holds_distinct [OF h], of through a m "last page" n] full m by simp
qed

end

text \<open>The in-memory context.\<close>

definition memory_read ::
    "memory_formats \<times> ('a, 'p) memory_context \<Rightarrow> context_history_query
      \<Rightarrow> context_error + contract_history_entry list" where
  "memory_read c q = memory_history (fst c) (snd c) q"

definition memory_holds ::
    "memory_formats \<times> ('a, 'p) memory_context \<Rightarrow> int \<Rightarrow> contract_history_entry list \<Rightarrow> bool" where
  "memory_holds c through es \<longleftrightarrow> mm_history_through (snd c) = through
     \<and> mapR (memory_decode (mf_entry (fst c))) (mm_history (snd c)) = Inr es
     \<and> distinct (map he_sequence es)"

interpretation mem_history: history_source memory_read memory_holds
  by unfold_locales (auto simp: memory_read_def memory_holds_def memory_history_def page_of_def)

text \<open>
  The store's context, while the database answers. It holds the entries that the rows of its
  session convert to.
\<close>

record store_reader =
  sr_world :: world
  sr_context :: store_context
  sr_job :: job

definition reader_db :: "store_reader \<Rightarrow> db" where
  "reader_db c = rt_others (sr_world c) (j_calls (sr_job c)) (j_db (sr_job c))"

definition store_history_read ::
    "store_reader \<Rightarrow> context_history_query \<Rightarrow> context_error + contract_history_entry list" where
  "store_history_read c q =
     fst (run_state (context_history (sr_world c) (sr_context c) q) (sr_job c, None))"

definition session_history :: "store_context \<Rightarrow> db \<Rightarrow> history_row list" where
  "session_history sx db = filter (\<lambda>h. h_session_id h = vw_id (sx_session sx)) (t_history db)"

definition store_holds :: "store_reader \<Rightarrow> int \<Rightarrow> contract_history_entry list \<Rightarrow> bool" where
  "store_holds c through es \<longleftrightarrow> sx_history_through (sr_context c) = through
     \<and> rt_outage (sr_world c) (j_calls (sr_job c)) = None
     \<and> mapR (contract_entry_of (sr_context c)) (session_history (sr_context c) (reader_db c)) = Inr es
     \<and> distinct (map he_sequence es)"

lemma contract_entry_sequence: "contract_entry_of sx h = Inr e \<Longrightarrow> he_sequence e = h_sequence h"
  by (auto simp: contract_entry_of_def result_simps)

text \<open>Conversions that keep the key commute with selecting, sorting and cutting.\<close>

lemma mapR_list_all2: "mapR f xs = Inr ys \<longleftrightarrow> list_all2 (\<lambda>x y. f x = Inr y) xs ys"
  by (induction xs arbitrary: ys) (auto simp: result_simps list_all2_Cons1)

lemma list_all2_insort:
  assumes "list_all2 R xs ys" and "R x y" and "\<And>a b. R a b \<Longrightarrow> k' b = k a"
  shows "list_all2 R (insort_key k x xs) (insort_key k' y ys)"
  using assms(1,2) by (induction rule: list_all2_induct) (auto dest!: assms(3))

lemma list_all2_sort:
  assumes "list_all2 R xs ys" and "\<And>a b. R a b \<Longrightarrow> k' b = k a"
  shows "list_all2 R (sort_key k xs) (sort_key k' ys)"
  using assms(1)
  by (induction rule: list_all2_induct) (simp_all add: list_all2_insort [where R = R] assms(2))

lemma list_all2_filter:
  assumes "list_all2 R xs ys" and "\<And>a b. R a b \<Longrightarrow> Q b = P a"
  shows "list_all2 R (filter P xs) (filter Q ys)"
  using assms(1) by (induction rule: list_all2_induct) (auto dest: assms(2))

lemma mapR_page:
  assumes "mapR f xs = Inr es" and key: "\<And>x e. f x = Inr e \<Longrightarrow> he_sequence e = k x"
  shows "mapR f (top_by k (int n) (filter (\<lambda>x. after < k x \<and> k x \<le> through) xs))
    = Inr (page_of through after n es)"
  unfolding mapR_list_all2 top_by_def page_of_def nat_int
  by (rule list_all2_takeI, rule list_all2_sort, rule list_all2_filter)
    (use assms(1) key in \<open>auto simp: mapR_list_all2\<close>)

interpretation store_history: history_source store_history_read store_holds
proof
  fix c through es
  show "store_holds c through es \<Longrightarrow> distinct (map he_sequence es)" by (simp add: store_holds_def)
next
  fix c :: store_reader and through es and q :: context_history_query
  assume holds: "store_holds c through es" and lim: "1 \<le> chq_limit q" "chq_limit q \<le> 1000"
  let ?sx = "sr_context c"
  define rows where "rows = top_by h_sequence (int (chq_limit q))
    (filter (\<lambda>h. chq_after_sequence q < h_sequence h \<and> h_sequence h \<le> through)
      (session_history ?sx (reader_db c)))"
  have bound: "sx_history_through ?sx = through" using holds by (simp add: store_holds_def)
  have read: "history (vw_id (sx_session ?sx)) (chq_after_sequence q) through (int (chq_limit q))
      (reader_db c) = Inr rows"
    using lim by (simp add: history_def limit_ok_def guardR_def rows_def session_history_def conj_ac)
  have "mapR (contract_entry_of ?sx) rows = Inr (page_of through (chq_after_sequence q) (chq_limit q) es)"
    unfolding rows_def
    by (rule mapR_page) (use holds contract_entry_sequence in \<open>auto simp: store_holds_def\<close>)
  then show "store_history_read c q = Inr (page_of through (chq_after_sequence q) (chq_limit q) es)"
    using holds read lim bound
    by (simp add: store_history_read_def context_history_def with_limit_def query_limit_def guardR_def
        store_read_def call_def query_def Let_def store_holds_def reader_db_def)
qed

text \<open>
  A handler cannot tell the contexts apart by reading history: holding the same entries, in
  whatever order, they answer every admissible query alike.
\<close>

lemma contexts_agree_on_history:
  assumes "memory_holds mc through es" and "store_holds sc through es'" and "mset es = mset es'"
    and "1 \<le> chq_limit q" and "chq_limit q \<le> 1000"
  shows "memory_read mc q = store_history_read sc q"
  using mem_history.reads_page [OF assms(1,4,5)] store_history.reads_page [OF assms(2,4,5)]
    page_of_mset [OF assms(3) mem_history.holds_distinct [OF assms(1)]] by simp

text \<open>In a database that the store reaches, entries of one session have numbers of their own.\<close>

lemma store_holds_reachable:
  assumes "reachable (reader_db c)" and "session_of (reader_db c) (vw_id (sx_session (sr_context c))) = Some v"
    and "rt_outage (sr_world c) (j_calls (sr_job c)) = None"
    and es: "mapR (contract_entry_of (sr_context c)) (session_history (sr_context c) (reader_db c)) = Inr es"
  shows "store_holds c (sx_history_through (sr_context c)) es"
proof -
  let ?db = "reader_db c" and ?i = "vw_id (sx_session (sr_context c))"
  have "v \<in> set (t_sessions ?db)" "s_id v = ?i" using session_of_Some [OF assms(2)] by simp_all
  then have "map h_sequence (session_history (sr_context c) ?db) = [1..s_next_history_sequence v - 1]"
    using store_okD(4) [OF reachable_ok [OF assms(1)]]
    by (auto simp: history_ok_def list_all_iff numbered_def session_history_def)
  then have "distinct (map h_sequence (session_history (sr_context c) ?db))" by simp
  moreover have "map he_sequence es
      = map h_sequence (session_history (sr_context c) ?db)"
    by (rule mapR_image [OF es]) (rule contract_entry_sequence)
  ultimately have "distinct (map he_sequence es)" by (simp only:)
  with assms(3) es show ?thesis by (simp add: store_holds_def)
qed

text \<open>But only the store's context refuses a limit: tests may ask for more than is ever answered.\<close>

lemma memory_accepts_any_limit:
  assumes "memory_holds mc through es"
  shows "memory_read mc q = Inr (page_of through (chq_after_sequence q) (chq_limit q) es)"
  using assms by (simp add: memory_read_def memory_holds_def memory_history_def page_of_def)

lemma store_refuses_limit:
  assumes "chq_limit q < 1 \<or> 1000 < chq_limit q"
  shows "store_history_read c q = Inl (ContextRead ''query limit must be between 1 and 1000'')"
proof -
  have "query_limit (chq_limit q) = Inl (ContextRead ''query limit must be between 1 and 1000'')"
    using assms by (auto simp: query_limit_def guardR_def)
  then show ?thesis
    by (simp add: store_history_read_def context_history_def with_limit_def State_Monad.return_def)
qed

section \<open>Recorded operations and waits\<close>

text \<open>
  The texts of a context that was filled by its own operations: each parses, to a record with the
  identifier it is kept under, and no identifier is kept twice.
\<close>

definition records_ok :: "'r text_format \<Rightarrow> ('r \<Rightarrow> 'i) \<Rightarrow> ('i \<times> raw_json) list \<Rightarrow> bool" where
  "records_ok tf key rs \<longleftrightarrow> distinct (map fst rs)
     \<and> list_all (\<lambda>(i, raw). case tf_parse tf raw of Inl _ \<Rightarrow> False | Inr r \<Rightarrow> key r = i) rs"

lemma decode_find_key:
  assumes "records_ok tf key rs"
  shows "decode_find tf (\<lambda>r. key r = i) (map snd rs)
    = (case map_of rs i of None \<Rightarrow> Inr None
       | Some raw \<Rightarrow> bindR (memory_decode tf raw) (\<lambda>r. Inr (Some r)))"
  using assms
proof (induction rs)
  case (Cons e rs)
  then have "records_ok tf key rs" by (simp add: records_ok_def)
  with Cons show ?case
    by (cases e; cases "tf_parse tf (snd e)")
      (auto simp: records_ok_def memory_decode_def map_err_def)
qed simp

lemma records_ok_update:
  assumes ok: "records_ok tf key rs" and r: "tf_parse tf raw = Inr r" "key r = i"
  shows "records_ok tf key (AList.update i raw rs)"
proof -
  have "distinct (map fst (AList.update i raw rs))"
    using ok distinct_update [of rs i raw] by (simp add: records_ok_def)
  moreover have "list_all (\<lambda>(i, raw). case tf_parse tf raw of Inl _ \<Rightarrow> False | Inr r \<Rightarrow> key r = i)
      (AList.update i raw rs)"
    using ok r by (induction rs) (auto simp: records_ok_def)
  ultimately show ?thesis by (simp add: records_ok_def)
qed

lemma read_after_update:
  assumes ok: "records_ok tf key rs" and r: "tf_parse tf raw = Inr r"
  shows "decode_find tf (\<lambda>x. key x = i) (map snd (AList.update (key r) raw rs))
    = (if key r = i then Inr (Some r) else decode_find tf (\<lambda>x. key x = i) (map snd rs))"
  using decode_find_key [OF records_ok_update [OF ok r refl]] decode_find_key [OF ok] r
  by (simp add: update_conv' memory_decode_def map_err_def)

text \<open>Printing and parsing back, where printing succeeds.\<close>

definition format_faithful :: "'r text_format \<Rightarrow> bool" where
  "format_faithful tf \<longleftrightarrow> (\<forall>x raw. tf_print tf x = Inr raw \<longrightarrow> tf_parse tf raw = Inr x)"

lemma operation_read_after_write:
  assumes "format_faithful (mf_operation mf)"
    and "records_ok (mf_operation mf) rr_id (mm_operations mc)"
    and add: "add_operation mf r mc = Inr mc'"
  shows "records_ok (mf_operation mf) rr_id (mm_operations mc')"
    and "memory_operation mf mc' i
      = (if rr_id r = i then Inr (Some r) else memory_operation mf mc i)"
proof -
  obtain raw where raw: "tf_print (mf_operation mf) r = Inr raw"
    and mc': "mc' = mc\<lparr>mm_operations := AList.update (rr_id r) raw (mm_operations mc)\<rparr>"
    using add by (auto simp: add_operation_def result_simps)
  have parse: "tf_parse (mf_operation mf) raw = Inr r"
    using assms(1) raw by (simp add: format_faithful_def)
  show "records_ok (mf_operation mf) rr_id (mm_operations mc')"
    using records_ok_update [OF assms(2) parse refl] by (simp add: mc')
  show "memory_operation mf mc' i
      = (if rr_id r = i then Inr (Some r) else memory_operation mf mc i)"
    unfolding memory_operation_def mc'
    using read_after_update [OF assms(2) parse, of i] by simp
qed

lemma wait_read_after_write:
  assumes "format_faithful (mf_wait mf)"
    and "records_ok (mf_wait mf) wc_id (mm_waits mc)"
    and add: "add_wait mf r mc = Inr mc'"
  shows "records_ok (mf_wait mf) wc_id (mm_waits mc')"
    and "memory_wait mf mc' i = (if wc_id r = i then Inr (Some r) else memory_wait mf mc i)"
proof -
  obtain raw where raw: "tf_print (mf_wait mf) r = Inr raw"
    and mc': "mc' = mc\<lparr>mm_waits := AList.update (wc_id r) raw (mm_waits mc)\<rparr>"
    using add by (auto simp: add_wait_def result_simps)
  have parse: "tf_parse (mf_wait mf) raw = Inr r"
    using assms(1) raw by (simp add: format_faithful_def)
  show "records_ok (mf_wait mf) wc_id (mm_waits mc')"
    using records_ok_update [OF assms(2) parse refl] by (simp add: mc')
  show "memory_wait mf mc' i = (if wc_id r = i then Inr (Some r) else memory_wait mf mc i)"
    unfolding memory_wait_def mc'
    using read_after_update [OF assms(2) parse, of i] by simp
qed

lemma new_context_empty:
  "records_ok (mf_operation mf) rr_id (mm_operations (memory_new v through))"
  "records_ok (mf_wait mf) wc_id (mm_waits (memory_new v through))"
  "memory_holds (mf, memory_new v through) through []"
  by (simp_all add: records_ok_def memory_holds_def memory_new_def)

text \<open>History is appended to: entries with new numbers are held besides the old ones.\<close>

lemma history_read_after_write:
  assumes "format_faithful (mf_entry mf)" and holds: "memory_holds (mf, mc) through es"
    and "add_history mf e mc = Inr mc'" and "he_sequence e \<notin> he_sequence ` set es"
  shows "memory_holds (mf, mc') through (es @ [e])"
proof -
  obtain raw where raw: "tf_print (mf_entry mf) e = Inr raw"
    and mc': "mc' = mc\<lparr>mm_history := mm_history mc @ [raw]\<rparr>"
    using assms(3) by (auto simp: add_history_def result_simps)
  have "memory_decode (mf_entry mf) raw = Inr e"
    using assms(1) raw by (simp add: format_faithful_def memory_decode_def map_err_def)
  moreover have "mapR (memory_decode (mf_entry mf)) (mm_history mc) = Inr es"
    using holds by (simp add: memory_holds_def)
  ultimately have "mapR (memory_decode (mf_entry mf)) (mm_history mc @ [raw]) = Inr (es @ [e])"
    unfolding mapR_list_all2 by (auto intro: list_all2_appendI)
  with holds assms(4) show ?thesis by (simp add: memory_holds_def mc')
qed

text \<open>A context that is stopping publishes nothing; both contexts refuse in the same words.\<close>

lemma memory_publishes_as_store:
  "memory_publish_asset asset mc
    = publish_asset (mm_stop_requested mc) False (mm_asset_publisher mc) asset"
  by (simp add: memory_publish_asset_def publish_asset_def stop_requested_def)

lemma stopped_context_publishes_nothing:
  "\<exists>m. memory_publish_asset asset (memory_request_stop mc) = Inl (ContextUnavailable m)"
  by (simp add: memory_publish_asset_def memory_request_stop_def)

end
