(* ===== verification/CodexImages.thy ===== *)
theory CodexImages
  imports CodexFiles Complex_Main
begin

text \<open>
  The preparation of images for the model (\<open>prepare_image\<close>, \<open>image_dimensions\<close> and \<open>mime\<close> of
  \<open>packages/basic-codex-harness/src/filesystem_tools.rs\<close>). The image library is a parameter; the
  dimensions are computed as the code does, every operation on \<open>f64\<close> rounded to the nearest
  number of 53 bits, ties to even. All values lie far inside the exponent range of \<open>f64\<close>.
\<close>

section \<open>Double precision\<close>

definition round_even :: "real \<Rightarrow> int" where
  "round_even y =
     (let n = \<lfloor>y\<rfloor>; d = y - of_int n in
      if d < 1 / 2 then n else if 1 / 2 < d then n + 1 else if even n then n else n + 1)"

definition f64 :: "real \<Rightarrow> real" where
  "f64 x = (if x = 0 then 0
     else let e = \<lfloor>log 2 \<bar>x\<bar>\<rfloor> in
       of_int (round_even (x * 2 powr (52 - of_int e))) * 2 powr (of_int e - 52))"

text \<open>\<open>as u32\<close> of a float saturates.\<close>

definition as_u32 :: "real \<Rightarrow> nat" where
  "as_u32 x = nat (min (2 ^ 32 - 1) (max 0 \<lfloor>x\<rfloor>))"

lemma round_even_error: "\<bar>of_int (round_even y) - y\<bar> \<le> 1 / 2"
proof -
  define d where "d = y - of_int \<lfloor>y\<rfloor>"
  have "0 \<le> d" "d < 1" unfolding d_def by linarith+
  moreover have "of_int (round_even y) - y = - d \<or> of_int (round_even y) - y = 1 - d"
    by (simp add: round_even_def d_def Let_def)
  moreover have "of_int (round_even y) - y = - d \<longrightarrow> d \<le> 1 / 2"
    and "of_int (round_even y) - y = 1 - d \<longrightarrow> 1 / 2 \<le> d"
    by (auto simp: round_even_def d_def Let_def)
  ultimately show ?thesis by linarith
qed

lemma round_even_int [simp]: "round_even (of_int n) = n"
  by (simp add: round_even_def)

lemma round_even_mono_int: "of_int n \<le> y \<Longrightarrow> n \<le> round_even y"
  by (auto simp: round_even_def Let_def le_floor_iff intro: order_trans [of _ "\<lfloor>y\<rfloor>"])

lemma binade:
  assumes "x \<noteq> 0"
  shows "2 powr of_int \<lfloor>log 2 \<bar>x\<bar>\<rfloor> \<le> \<bar>x\<bar>"
proof -
  have "2 powr of_int \<lfloor>log 2 \<bar>x\<bar>\<rfloor> \<le> 2 powr log 2 \<bar>x\<bar>" by (intro powr_mono) auto
  then show ?thesis using assms by simp
qed

definition ulp :: real where "ulp = 1 / 2 ^ 53"

lemma ulp_range: "0 < ulp" "ulp < 1" "2 ^ 33 * ulp + 2 ^ 32 * (ulp * ulp) < 1"
  by (simp_all add: ulp_def)

lemma f64_error: "\<bar>f64 x - x\<bar> \<le> \<bar>x\<bar> * ulp"
proof (cases "x = 0")
  case False
  define e where "e = real_of_int \<lfloor>log 2 \<bar>x\<bar>\<rfloor>"
  define m where "m = x * 2 powr (52 - e)"
  have inv: "2 powr (52 - e) * 2 powr (e - 52) = (1 :: real)" by (simp add: powr_add [symmetric])
  have "f64 x = of_int (round_even m) * 2 powr (e - 52)"
    using False by (simp add: f64_def Let_def e_def m_def)
  moreover have "x = m * 2 powr (e - 52)" unfolding m_def using inv by (simp add: mult.assoc)
  ultimately have "f64 x - x = (of_int (round_even m) - m) * 2 powr (e - 52)"
    by (simp add: left_diff_distrib)
  then have "\<bar>f64 x - x\<bar> = \<bar>of_int (round_even m) - m\<bar> * 2 powr (e - 52)" by (simp add: abs_mult)
  also have "\<dots> \<le> 1 / 2 * 2 powr (e - 52)" by (intro mult_right_mono round_even_error) simp
  also have "\<dots> = 2 powr e * ulp"
  proof -
    have "2 powr (52 :: real) = 2 ^ 52" by (simp add: powr_numeral)
    then show ?thesis by (simp add: powr_diff ulp_def)
  qed
  also have "\<dots> \<le> \<bar>x\<bar> * ulp"
    using binade [OF False] ulp_range by (intro mult_right_mono) (simp_all add: e_def)
  finally show ?thesis .
qed (simp add: f64_def)

lemma f64_bounds:
  assumes "0 \<le> x"
  shows "x * (1 - ulp) \<le> f64 x" and "f64 x \<le> x * (1 + ulp)" and "0 \<le> f64 x"
proof -
  have a: "\<bar>f64 x - x\<bar> \<le> x * ulp" using f64_error [of x] assms by simp
  show "x * (1 - ulp) \<le> f64 x" using a by (simp add: right_diff_distrib abs_le_iff)
  moreover have "0 \<le> x * (1 - ulp)" using assms ulp_range by simp
  ultimately show "0 \<le> f64 x" by simp
  show "f64 x \<le> x * (1 + ulp)" using a by (simp add: distrib_left abs_le_iff)
qed

lemma f64_ge_1:
  assumes "1 \<le> x"
  shows "1 \<le> f64 x"
proof -
  define e where "e = \<lfloor>log 2 \<bar>x\<bar>\<rfloor>"
  have e: "0 \<le> e" using assms by (simp add: e_def)
  have "2 powr of_int e \<le> x" using binade [of x] assms by (simp add: e_def)
  then have "2 powr of_int e * 2 powr (52 - of_int e) \<le> x * 2 powr (52 - of_int e)"
    by (intro mult_right_mono) auto
  then have "of_int (2 ^ 52) \<le> x * 2 powr (52 - of_int e)"
    by (simp add: powr_add [symmetric] powr_numeral)
  from round_even_mono_int [OF this]
  have "real_of_int (2 ^ 52) \<le> real_of_int (round_even (x * 2 powr (52 - of_int e)))"
    by (simp only: of_int_le_iff)
  then have "2 ^ 52 * 2 powr (of_int e - 52) \<le> real_of_int (round_even (x * 2 powr (52 - of_int e))) * 2 powr (of_int e - 52)"
    by (intro mult_right_mono) simp_all
  moreover have "2 ^ 52 * 2 powr (real_of_int e - 52) = 2 powr real_of_int e"
    by (simp add: powr_diff powr_numeral)
  moreover have "1 \<le> 2 powr real_of_int e" using e by (intro ge_one_powr_ge_zero) auto
  moreover have "f64 x = real_of_int (round_even (x * 2 powr (52 - of_int e))) * 2 powr (of_int e - 52)"
    using assms unfolding f64_def Let_def e_def by simp
  ultimately show ?thesis by linarith
qed

lemma f64_of_nat:
  assumes "n < 2 ^ 53"
  shows "f64 (of_nat n) = of_nat n"
proof (cases "n = 0")
  case False
  define e where "e = \<lfloor>log 2 (real n)\<rfloor>"
  have "0 \<le> e" using False by (simp add: e_def)
  have "log 2 (real n) < 53"
    using False assms by (subst log_less_iff) (auto simp: powr_numeral simp flip: of_nat_less_iff)
  then have "e \<le> 52" by (simp add: e_def floor_le_iff)
  then have p: "2 powr (52 - of_int e) = real_of_int (2 ^ nat (52 - e))"
    by (simp add: powr_realpow [symmetric])
  have "real n * 2 powr (52 - of_int e) = real_of_int (int n * 2 ^ nat (52 - e))"
    unfolding p by simp
  then have "round_even (real n * 2 powr (52 - of_int e)) = int n * 2 ^ nat (52 - e)"
    by (simp only: round_even_int)
  then have "f64 (real n) = real n * 2 powr (52 - of_int e) * 2 powr (of_int e - 52)"
    using False p by (simp add: f64_def Let_def e_def)
  then show ?thesis by (simp add: mult.assoc powr_add [symmetric])
qed (simp add: f64_def)

lemma floor_rounded:
  assumes "0 \<le> y" and "y \<le> real n * (1 + ulp)" and "n < 2 ^ 32"
  shows "\<lfloor>f64 y\<rfloor> \<le> int n"
proof -
  have "f64 y \<le> y * (1 + ulp)" by (rule f64_bounds(2) [OF assms(1)])
  also have "\<dots> \<le> real n * (1 + ulp) * (1 + ulp)"
    using assms(2) by (intro mult_right_mono) (use ulp_range in simp_all)
  also have "\<dots> \<le> real n + 2 ^ 32 * (2 * ulp + ulp * ulp)"
  proof -
    have "real n * (2 * ulp + ulp * ulp) \<le> 2 ^ 32 * (2 * ulp + ulp * ulp)"
      using assms(3) ulp_range by (intro mult_right_mono) simp_all
    then show ?thesis by (simp add: algebra_simps)
  qed
  also have "\<dots> < real n + 1" using ulp_range(3) by (simp add: algebra_simps)
  finally show ?thesis by linarith
qed

section \<open>Dimensions\<close>

definition patch_size :: nat where "patch_size = 32"

definition div_ceil :: "nat \<Rightarrow> nat \<Rightarrow> nat" where
  "div_ceil a b = (a + b - 1) div b"

definition patches_of :: "nat \<Rightarrow> nat \<Rightarrow> nat" where
  "patches_of width height = div_ceil width patch_size * div_ceil height patch_size"

text \<open>Dividing by a zero side gives infinity, of which the minimum with one is taken.\<close>

definition dimension_scale :: "nat \<Rightarrow> nat \<Rightarrow> nat \<Rightarrow> real" where
  "dimension_scale width height max_dimension =
     (if max width height = 0 then 1
      else min (f64 (f64 (real max_dimension) / f64 (real (max width height)))) 1)"

definition patch_scale :: "nat \<Rightarrow> nat \<Rightarrow> nat \<Rightarrow> real" where
  "patch_scale width height max_patches =
     (if max_patches < patches_of width height
      then f64 (sqrt (f64 (f64 (f64 (real max_patches) * f64 (real (patch_size * patch_size)))
        / f64 (f64 (real width) * f64 (real height)))))
      else 1)"

definition scaled_side :: "nat \<Rightarrow> real \<Rightarrow> nat" where
  "scaled_side side scale = max (as_u32 (of_int \<lfloor>f64 (f64 (real side) * scale)\<rfloor>)) 1"

definition image_dimensions :: "nat \<Rightarrow> nat \<Rightarrow> nat \<Rightarrow> nat \<Rightarrow> nat \<times> nat" where
  "image_dimensions width height max_dimension max_patches =
     (let scale = min (min (dimension_scale width height max_dimension)
            (patch_scale width height max_patches)) 1 in
      (scaled_side width scale, scaled_side height scale))"

section \<open>Preparing an image\<close>

datatype image_format = FormatPng | FormatJpeg | FormatGif | FormatWebP | OtherFormat

record 'img image_library =
  il_guess_format :: "string \<Rightarrow> string + image_format"
  il_load_from_memory :: "string \<Rightarrow> string + 'img"
  il_dimensions :: "'img \<Rightarrow> nat \<times> nat"
  il_resize_exact :: "'img \<Rightarrow> nat \<Rightarrow> nat \<Rightarrow> 'img"
  il_write_png :: "'img \<Rightarrow> string + string"

definition mime :: "image_format \<Rightarrow> string" where
  "mime format = (case format of
       FormatPng \<Rightarrow> ''image/png''
     | FormatJpeg \<Rightarrow> ''image/jpeg''
     | FormatGif \<Rightarrow> ''image/gif''
     | FormatWebP \<Rightarrow> ''image/webp''
     | OtherFormat \<Rightarrow> ''image/png'')"

definition image_limits :: "detail_choice \<Rightarrow> nat \<times> nat" where
  "image_limits detail =
     (case detail of ChooseHigh \<Rightarrow> (2048, 2500) | ChooseOriginal \<Rightarrow> (6000, 10000))"

definition encode_image ::
    "'img image_library \<Rightarrow> string \<Rightarrow> image_format \<Rightarrow> 'img \<Rightarrow> nat \<Rightarrow> nat \<Rightarrow> string + string \<times> string"
  where
  "encode_image lib bytes format img width height =
     (let resized = (width, height) \<noteq> il_dimensions lib img in
      if \<not> resized \<and> format \<noteq> OtherFormat then Inr (bytes, mime format)
      else bindR (il_write_png lib
             (if resized then il_resize_exact lib img width height else img)) (\<lambda>out.
           Inr (out, ''image/png'')))"

definition prepare_image ::
    "'img image_library \<Rightarrow> string \<Rightarrow> detail_choice \<Rightarrow> string + prepared_image" where
  "prepare_image lib bytes detail =
     bindR (il_guess_format lib bytes) (\<lambda>format.
     bindR (il_load_from_memory lib bytes) (\<lambda>img.
     case il_dimensions lib img of (source_width, source_height) \<Rightarrow>
     case image_limits detail of (max_dimension, max_patches) \<Rightarrow>
     case image_dimensions source_width source_height max_dimension max_patches of
       (width, height) \<Rightarrow>
     bindR (encode_image lib bytes format img width height) (\<lambda>(out, m).
     bindR (guardR (\<not> max_file_bytes < length out)
       ''prepared image exceeds the 5 MiB limit'') (\<lambda>_.
     Inr \<lparr>im_bytes = out, im_mime = m, im_source_width = source_width,
          im_source_height = source_height, im_width = width, im_height = height\<rparr>))))"

section \<open>What the model gets to see\<close>

lemma as_u32_floor: "0 \<le> x \<Longrightarrow> \<lfloor>x\<rfloor> \<le> int n \<Longrightarrow> as_u32 (of_int \<lfloor>x\<rfloor>) \<le> n"
  by (simp add: as_u32_def nat_le_iff min_le_iff_disj)

lemma f64_u32: "n < 2 ^ 32 \<Longrightarrow> f64 (real n) = real n"
  by (rule f64_of_nat) simp

lemma scaled_side_le:
  assumes "0 \<le> scale" and "side < 2 ^ 32" and "real side * scale \<le> real n * (1 + ulp)"
    and "n < 2 ^ 32" and "1 \<le> n"
  shows "scaled_side side scale \<le> n"
proof -
  have pos: "0 \<le> f64 (real side) * scale" using assms(1,2) by (simp add: f64_u32)
  have "\<lfloor>f64 (f64 (real side) * scale)\<rfloor> \<le> int n"
    using floor_rounded [OF pos] assms by (simp add: f64_u32)
  then show ?thesis
    using as_u32_floor [OF f64_bounds(3) [OF pos]] assms(5) by (simp add: scaled_side_def)
qed

lemma scales_nonneg:
  "0 \<le> dimension_scale w h d" "0 \<le> patch_scale w h p"
  by (simp_all add: dimension_scale_def patch_scale_def f64_bounds(3))

definition image_scale :: "nat \<Rightarrow> nat \<Rightarrow> nat \<Rightarrow> nat \<Rightarrow> real" where
  "image_scale w h d p = min (min (dimension_scale w h d) (patch_scale w h p)) 1"

lemma image_scale_range: "0 \<le> image_scale w h d p" "image_scale w h d p \<le> 1"
  by (simp_all add: image_scale_def scales_nonneg)

lemma image_dimensions_scaled:
  "image_dimensions w h d p = (scaled_side w (image_scale w h d p), scaled_side h (image_scale w h d p))"
  by (simp add: image_dimensions_def image_scale_def Let_def)

lemma side_fits:
  assumes "side = w \<or> side = h" and "w < 2 ^ 32" and "h < 2 ^ 32" and "d < 2 ^ 32"
  shows "real side * image_scale w h d p \<le> real d * (1 + ulp)"
proof (cases "max w h = 0")
  case True
  with assms(1) show ?thesis using ulp_range by auto
next
  case False
  let ?m = "real (max w h)"
  have m: "0 < ?m" "real side \<le> ?m" "max w h < 2 ^ 32" using False assms by auto
  have "dimension_scale w h d = min (f64 (real d / ?m)) 1"
    unfolding dimension_scale_def f64_u32 [OF m(3)] f64_u32 [OF assms(4)] using False by (rule if_not_P)
  then have "image_scale w h d p \<le> f64 (real d / ?m)" unfolding image_scale_def by linarith
  also have "\<dots> \<le> real d / ?m * (1 + ulp)" by (rule f64_bounds(2)) (use m in simp)
  finally have "?m * image_scale w h d p \<le> real d * (1 + ulp)" using m(1) by (simp add: field_simps)
  moreover have "real side * image_scale w h d p \<le> ?m * image_scale w h d p"
    using m(2) image_scale_range by (intro mult_right_mono) auto
  ultimately show ?thesis by linarith
qed

text \<open>No side exceeds the limit, none grows, and none vanishes.\<close>

lemma image_dimensions_bounded:
  assumes "w < 2 ^ 32" and "h < 2 ^ 32" and "1 \<le> d" and "d < 2 ^ 32"
    and "image_dimensions w h d p = (w', h')"
  shows "1 \<le> w' \<and> w' \<le> d \<and> w' \<le> max w 1 \<and> 1 \<le> h' \<and> h' \<le> d \<and> h' \<le> max h 1"
proof -
  let ?s = "image_scale w h d p"
  have small: "real side * ?s \<le> real (max side 1) * (1 + ulp)" for side
  proof -
    have "real side * ?s \<le> real side * 1" using image_scale_range by (intro mult_left_mono) auto
    also have "\<dots> \<le> real (max side 1) * (1 + ulp)" using ulp_range(1) by (intro mult_mono) auto
    finally show ?thesis .
  qed
  have "scaled_side side ?s \<le> d" if "side = w \<or> side = h" for side
    by (rule scaled_side_le [OF image_scale_range(1) _ side_fits [OF that assms(1,2,4)]])
      (use that assms in auto)
  moreover have "scaled_side side ?s \<le> max side 1" if "side < 2 ^ 32" for side
    by (rule scaled_side_le [OF image_scale_range(1) that small]) (use that in auto)
  moreover have "1 \<le> scaled_side side ?s" for side by (simp add: scaled_side_def)
  moreover have "w' = scaled_side w ?s" "h' = scaled_side h ?s"
    using assms(5) by (simp_all add: image_dimensions_scaled)
  ultimately show ?thesis using assms(1,2) by blast
qed

text \<open>An image within the limits keeps its size.\<close>

lemma image_dimensions_unchanged:
  assumes "1 \<le> w" "w \<le> d" and "1 \<le> h" "h \<le> d" and "d < 2 ^ 32" and "patches_of w h \<le> p"
  shows "image_dimensions w h d p = (w, h)"
proof -
  have m: "max w h < 2 ^ 32" "0 < max w h" using assms by auto
  have "1 \<le> f64 (real d / real (max w h))" by (rule f64_ge_1) (use assms in auto)
  then have "image_scale w h d p = 1"
    using m assms(5,6) by (simp add: image_scale_def dimension_scale_def patch_scale_def f64_u32)
  moreover have "scaled_side side 1 = side" if "1 \<le> side" "side \<le> d" for side
    using that assms(5) by (simp add: scaled_side_def f64_u32 as_u32_def)
  ultimately show ?thesis using assms by (simp add: image_dimensions_scaled)
qed

text \<open>What a handler publishes is an image within these limits, and of at most five megabytes.\<close>

lemma prepared_image_bounded:
  assumes "prepare_image lib bytes detail = Inr img"
    and "\<And>x. fst (il_dimensions lib x) < 2 ^ 32 \<and> snd (il_dimensions lib x) < 2 ^ 32"
  shows "1 \<le> im_width img \<and> im_width img \<le> fst (image_limits detail)
    \<and> 1 \<le> im_height img \<and> im_height img \<le> fst (image_limits detail)
    \<and> length (im_bytes img) \<le> max_file_bytes"
proof -
  obtain x where img: "image_dimensions (fst (il_dimensions lib x)) (snd (il_dimensions lib x))
      (fst (image_limits detail)) (snd (image_limits detail)) = (im_width img, im_height img)"
      "length (im_bytes img) \<le> max_file_bytes"
    using assms(1) unfolding prepare_image_def case_prod_beta by (fastforce simp: result_simps)
  have d: "1 \<le> fst (image_limits detail)" "fst (image_limits detail) < 2 ^ 32"
    by (simp_all add: image_limits_def split: detail_choice.split)
  show ?thesis
    using image_dimensions_bounded [OF _ _ d img(1)] assms(2) [of x] img(2) by simp
qed

text \<open>An image of a format models read, within the limits, is passed on byte for byte.\<close>

lemma fitting_image_untouched:
  assumes "il_guess_format lib bytes = Inr format" and "format \<noteq> OtherFormat"
    and "il_load_from_memory lib bytes = Inr x" and "il_dimensions lib x = (w, h)"
    and "1 \<le> w" "w \<le> fst (image_limits detail)" and "1 \<le> h" "h \<le> fst (image_limits detail)"
    and "patches_of w h \<le> snd (image_limits detail)" and "length bytes \<le> max_file_bytes"
  shows "prepare_image lib bytes detail = Inr \<lparr>im_bytes = bytes, im_mime = mime format,
    im_source_width = w, im_source_height = h, im_width = w, im_height = h\<rparr>"
proof -
  have "fst (image_limits detail) < 2 ^ 32"
    by (simp add: image_limits_def split: detail_choice.split)
  then have "image_dimensions w h (fst (image_limits detail)) (snd (image_limits detail)) = (w, h)"
    using assms by (intro image_dimensions_unchanged) auto
  with assms show ?thesis
    unfolding prepare_image_def case_prod_beta by (simp add: encode_image_def guardR_def)
qed

section \<open>The budget of patches\<close>

text \<open>
  The number of patches is scaled by the area, but patches are counted in whole ones per side:
  an image of 2048 by 1536 becomes 1847 by 1385, which is 58 by 44 patches, 52 more than the
  budget of the code.
\<close>

lemma sqrt_between:
  assumes "0 \<le> a" and "a * a \<le> x" and "0 \<le> b" and "x \<le> b * b"
  shows "a \<le> sqrt x" and "sqrt x \<le> b"
proof -
  show "a \<le> sqrt x" by (rule real_le_rsqrt) (use assms in \<open>simp add: power2_eq_square\<close>)
  show "sqrt x \<le> b" by (rule real_le_lsqrt) (use assms in \<open>simp_all add: power2_eq_square\<close>)
qed

lemma f64_between:
  assumes "0 \<le> a" and "a \<le> x" and "x \<le> b"
  shows "a * (1 - ulp) \<le> f64 x" and "f64 x \<le> b * (1 + ulp)"
proof -
  have "a * (1 - ulp) \<le> x * (1 - ulp)" using assms ulp_range by (intro mult_right_mono) auto
  then show "a * (1 - ulp) \<le> f64 x" using f64_bounds(1) [of x] assms by linarith
  have "x * (1 + ulp) \<le> b * (1 + ulp)" using assms ulp_range by (intro mult_right_mono) auto
  then show "f64 x \<le> b * (1 + ulp)" using f64_bounds(2) [of x] assms by linarith
qed

lemma patch_budget_exceeded:
  "image_dimensions 2048 1536 2048 2500 = (1847, 1385) \<and> 2500 < patches_of 1847 1385"
proof -
  let ?q = "2560000 / 3145728 :: real"
  let ?s = "patch_scale 2048 1536 2500"
  have exact: "f64 (real n) = real n" if "n < 2 ^ 32" for n using that by (rule f64_u32)
  have "f64 2500 = 2500" "f64 1024 = 1024" "f64 2048 = 2048" "f64 1536 = 1536"
    "f64 2560000 = 2560000" "f64 3145728 = 3145728"
    using exact [of 2500] exact [of 1024] exact [of 2048] exact [of 1536] exact [of 2560000]
      exact [of 3145728] by simp_all
  note f = this
  have s: "?s = f64 (sqrt (f64 ?q))"
    by (simp add: patch_scale_def patches_of_def div_ceil_def patch_size_def f)
  have q: "81375 / 100000 \<le> f64 ?q" "f64 ?q \<le> 81385 / 100000"
    using f64_between [of "8138 / 10000" ?q "81381 / 100000"] by (simp_all add: ulp_def)
  have "90208 / 100000 \<le> sqrt (f64 ?q)" "sqrt (f64 ?q) \<le> 90214 / 100000"
    using sqrt_between [of "90208 / 100000" "f64 ?q" "90214 / 100000"] q by simp_all
  from f64_between [OF _ this] have scale: "9020 / 10000 \<le> ?s" "?s \<le> 9022 / 10000"
    by (simp_all add: s ulp_def)
  have "dimension_scale 2048 1536 2048 = 1"
    using f64_ge_1 [of 1] by (simp add: dimension_scale_def f)
  then have img: "image_scale 2048 1536 2048 2500 = ?s" using scale by (simp add: image_scale_def)
  have w: "1847 + 1 / 4 \<le> 2048 * ?s" "2048 * ?s \<le> 1847 + 3 / 4"
    and h: "1385 + 1 / 4 \<le> 1536 * ?s" "1536 * ?s \<le> 1385 + 8 / 10"
    using scale by simp_all
  have "\<lfloor>f64 (2048 * ?s)\<rfloor> = 1847"
    using f64_between [OF _ w] by (intro floor_unique) (simp_all add: ulp_def)
  moreover have "\<lfloor>f64 (1536 * ?s)\<rfloor> = 1385"
    using f64_between [OF _ h] by (intro floor_unique) (simp_all add: ulp_def)
  ultimately have "image_dimensions 2048 1536 2048 2500 = (1847, 1385)"
    by (simp add: image_dimensions_scaled img scaled_side_def f as_u32_def)
  then show ?thesis by (simp add: patches_of_def div_ceil_def patch_size_def)
qed

end
