(* ===== verification/Spec2Isabelle.thy ===== *)
theory Spec2Isabelle
  imports ServiceGuarantees Evolution Maintenance CommitTotal GatewayGuarantees CodexTurnGuarantees CodexToolGuarantees ServerGuarantees RunLoops Wire Rows TestContext CodexImages
begin

section \<open>The program\<close>

text \<open>
  The agent platform runs long-lived agent sessions on top of PostgreSQL. A session has an
  ordered inbox of events. A scheduler claims the first unhandled event of a session, gives it to
  the session's harness (the agent's code), and commits what the harness returns in one
  transaction: new state, history, operations on the LLM and execution gateways, waits, and the
  event's completion. A dispatcher submits the operations to the gateways, a completion runtime
  fetches their results when a callback or a poll says so and puts a completion event into the
  inbox, and a maintenance worker does the same for waits that expire. Clients reach all this through an HTTP
  application: they create sessions, post messages, resolve waits, retry blocked events, read pages of
  everything and follow a session's log of updates. Every worker may crash or
  lose its lease at any point: claims carry a token and a deadline, and each transaction
  checks them again.

  The development models this core: the contract (\<open>packages/agent-contracts\<close>), the store
  (\<open>packages/agent-store\<close>), the runtime (\<open>packages/agent-runtime\<close>), the gateway clients
  (\<open>packages/agent-gateways\<close>), the one harness of the repository, the Codex agent
  (\<open>packages/basic-codex-harness\<close>), and the HTTP application (\<open>apps/agent-server\<close>). The harness is a function from its stored state and an event
  to the next outcome: it plays one turn at a time, alternating requests to the language model
  with rounds of tool operations, cancels and compacts, and keeps between events only what its
  session state holds. All paths below are under \<open>src/\<close>.
\<close>

section \<open>Where the code is\<close>

text \<open>
  \<^item> \<open>Prelude\<close>: the result monad (\<open>bindR\<close>, \<open>mapR\<close>, \<open>foldR\<close> for \<open>?\<close>, \<open>collect\<close> and
    fallible loops), tables as lists of rows, numbered intervals, and the \<open>named_theorems\<close> of
    the development.
  \<^item> \<open>Contracts\<close> (\<open>agent-contracts\<close>: \<open>ids.rs\<close>, \<open>event.rs\<close>, \<open>message.rs\<close>, \<open>operation.rs\<close>,
    \<open>wait.rs\<close>, \<open>outcome.rs\<close>): identifiers, messages, requests, and the outcome builder.
  \<^item> \<open>Schema\<close>, \<open>Statements\<close> (\<open>agent-store/migrations\<close>, \<open>models.rs\<close>, \<open>error.rs\<close>): the rows of
    the eleven tables, the database as a record of tables, the CHECK, UNIQUE and foreign key
    constraints, and the statements with the errors they raise.
  \<^item> \<open>UpdateLog\<close> (\<open>emit_update\<close>), \<open>Sessions\<close> (creation, admission, claim, renewal, failed
    attempts, retry), \<open>Waits\<close>, \<open>Operations\<close>, \<open>Commit\<close> (\<open>commit_handler_outcome\<close>),
    \<open>Callbacks\<close> (receipts, retention), \<open>Inspection\<close> (\<open>inspection.rs\<close>, reads and pruning): one
    definition per function of \<open>store.rs\<close>, a transaction being a function from the environment
    (clock readings, random identifiers, skipped rows) and the database to an error or a
    result with the new database. \<open>Inbox\<close>, \<open>InboxOps\<close>, \<open>OperationOps\<close>, \<open>CommitOps\<close>, \<open>Frames\<close>,
    \<open>Logs\<close>, \<open>Ledgers\<close> and \<open>Leases\<close> prove what each of them does.
  \<^item> \<open>Steps\<close>: the store as a state machine, one rule per transaction of \<open>store_step\<close>;
    \<open>reachable\<close> databases are those some run from the empty database leads to.
  \<^item> \<open>Integrity\<close>, \<open>IntegritySteps\<close>: the schema as an invariant of every transaction.
  \<^item> \<open>Workers\<close>, \<open>Maintenance\<close> (\<open>work_signal.rs\<close>, \<open>wait_expiration.rs\<close>, \<open>request_cleanup.rs\<close>),
    \<open>Preparation\<close> (\<open>outcome.rs\<close>), \<open>Harnesses\<close> (\<open>lib.rs\<close>), \<open>Scheduler\<close> (\<open>scheduler.rs\<close>),
    \<open>Dispatch\<close> (\<open>dispatch.rs\<close>), \<open>Completion\<close> (\<open>completion.rs\<close>): the runtime. A worker is a
    program in the state monad over a \<open>job\<close>: the database, the number of calls made and the
    gateway calls sent. A \<open>world\<close> says what happens around it: before the \<open>k\<close>-th call other
    workers change the database (\<open>rt_others\<close>), and the connection may fail before or after
    COMMIT (\<open>rt_outage\<close>).
  \<^item> \<open>RunLoops\<close>: the \<open>run\<close> loops of scheduler, dispatcher and completion runtime as transition
    functions of a pool of workers (\<open>scheduler_loop\<close> and its siblings), driven by lists of happenings,
    and the lease keepers. The locale \<open>worker_pool\<close> states that a pool keeps its limit and accounts
    for its claims, \<open>orderly_pool\<close> that it stops cleanly; the loops interpret them.
  \<^item> \<open>HandlerContext\<close> (\<open>context.rs\<close>): what a handler may read and publish while it runs. It shows
    that its history is fixed when its event is claimed and that an outcome it has read is final.
  \<^item> \<open>Gateways\<close> (\<open>agent-gateways\<close>): URLs, requests and responses, the job a response decodes
    to, and the verification of signed callbacks. The HTTP exchange, the JSON parser, the URL
    parser and HMAC are parameters.
  \<^item> \<open>Text\<close> (UTF-8 and the string functions of the standard library the harness uses) and
    \<open>Events\<close> (\<open>event.rs\<close>: event kinds and what an event carries to a harness).
  \<^item> \<open>Codex\<close> (\<open>model.rs\<close>, \<open>config.rs\<close> \<open>error.rs\<close>, \<open>harness.rs\<close>, \<open>state/\<close>): the data of the harness;
    \<open>CodexCancel\<close>, \<open>CodexCleanup\<close>, \<open>CodexProgress\<close> (\<open>cancellation.rs\<close>); \<open>CodexPlan\<close>,
    \<open>CodexPlanOps\<close> (\<open>tool_plan.rs\<close>, \<open>tool_catalog.rs\<close>); \<open>CodexShell\<close> (\<open>shell_tools.rs\<close>);
    \<open>CodexPatch\<close>, \<open>CodexFiles\<close>, \<open>CodexImages\<close>
    (\<open>filesystem_tools.rs\<close>); \<open>CodexTools\<close> (\<open>tool_execution.rs\<close>);
    \<open>CodexContext\<close> (\<open>prompt.rs\<close>, \<open>llm.rs\<close>, \<open>compaction.rs\<close>, \<open>failure.rs\<close>); \<open>CodexHandler\<close>
    (\<open>handler.rs\<close>): one definition per function, ending in \<open>handle_codex\<close>.
  \<^item> \<open>CodexTurns\<close>, \<open>CodexTurnRuns\<close>, \<open>CodexSessions\<close>: the invariant of tool plans (\<open>plan_ok\<close>) and
    of sessions (\<open>session_ok\<close>) and that the scheduling of tools and each handler keep them;
    \<open>CodexRuns\<close>: sequences of handled events (\<open>codex_run\<close>) and the invariant along them.
  \<^item> \<open>Server\<close> (\<open>apps/agent-server/src\<close>: \<open>error.rs\<close>, \<open>lib.rs\<close>, \<open>config.rs\<close>, \<open>image_bucket.rs\<close>,
    \<open>routes/auth.rs\<close>, \<open>request.rs\<close>, \<open>metrics.rs\<close>), \<open>Routes\<close> (the other files of \<open>routes/\<close>, one definition
    per handler, and the application as \<open>handle_request\<close> and \<open>answer\<close>), \<open>Service\<close> (the tasks
    \<open>run_listener\<close> joins, as \<open>task_turn\<close>): handlers are programs of \<open>Workers\<close>, so other transactions
    run between their store calls.
  \<^item> \<open>Host\<close> (\<open>main.rs\<close>, the \<open>serve\<close> functions of \<open>lib.rs\<close>, \<open>request.rs\<close>, \<open>schema_ready\<close> and
    \<open>run_work_notifications\<close>): starting and stopping the server, the loop that turns notifications
    into wakeups, and the identifiers a request carries.
  \<^item> \<open>Wire\<close> (the serialised forms in \<open>message.rs\<close>, \<open>operation.rs\<close>, \<open>event.rs\<close>): writers to JSON
    values and readers with every rejection of the code; strings of enumerations and numbers are
    spelled out, JSON text, URLs and base64 are parameters. \<open>Rows\<close> (\<open>store.rs\<close>, \<open>models.rs\<close>):
    the decoders from the columns a query selects to the records the store returns.
  \<^item> \<open>TestContext\<close> (\<open>agent-test-support\<close>): the context tests use, in memory. The locale
    \<open>history_source\<close> states what reading history promises, and both contexts interpret it.
  \<^item> \<open>Scenario\<close> and the \<open>demo_\<close> definitions of the guarantees: the concrete runs to which the
    theorems are applied.
\<close>

section \<open>What is shown\<close>

text \<open>
  The guarantees are stated in \<open>InboxGuarantees\<close> (order of handling, one handler at a time,
  fencing, idempotent admission, blocking and retry), \<open>StoreGuarantees\<close> (exactly one completion
  event per operation and wait, finality, gap-free history and update log, referential
  integrity), \<open>ServiceGuarantees\<close> (callbacks, retention, pages, commit errors), \<open>Evolution\<close>
  (what may change over a run), \<open>IntegritySteps\<close> (the constraints always hold),
  \<open>GatewayGuarantees\<close> (what is sent to a gateway, where results come from, callback
  authenticity), \<open>CodexGuarantees\<close> (what one event may do to a session of the harness),
  \<open>CodexTurnGuarantees\<close> (an active turn is always waiting for something that will answer, and
  exclusive tools run alone), \<open>CodexToolGuarantees\<close> (what a command's retained output is, and
  what compaction keeps) and \<open>ServerGuarantees\<close> (requests need authority, streams skip nothing,
  published images are served, and the service as a whole refines the store). They rest on invariants proved per operation and lifted to runs by rule
  induction on \<open>store_step\<close>.

  Interfaces are locales: \<open>Interfaces\<close> states what a numbered log, a lease and a settlement
  (something that ends once, with one event) promise, and \<open>Logs\<close> (update log and history),
  \<open>Leases\<close> (sessions, operations, receipts) and \<open>Waits\<close> interpret them on the tables; \<open>Frames\<close>
  states what an invariant must not depend on for the operations to keep it, interpreted in
  \<open>Logs\<close> and \<open>Evolution\<close>; \<open>Workers\<close> has \<open>job_relation\<close> and
  \<open>db_relation\<close>, relations a worker's calls compose along, interpreted on runs of the store, on
  the end of an operation and on the gateway log; \<open>JobSources\<close> states what a source of gateway
  jobs promises and interprets it on the HTTP client.
\<close>

section \<open>Reading the model\<close>

text \<open>
  A \<open>Uuid\<close> is an opaque number; a time is in microseconds, a duration in milliseconds.
  Texts are lists of bytes. \<open>env_clock env k\<close> is the \<open>k\<close>-th reading of the clock inside a
  transaction (\<open>clock_timestamp()\<close> moves, \<open>now()\<close> does not), \<open>env_uuid env k\<close> the \<open>k\<close>-th
  random identifier, and \<open>env_skip\<close> the rows \<open>SKIP LOCKED\<close> passes over. Enumerations stored as
  text are datatypes, and payloads the store writes itself are kept as the data of their
  format strings. Batches, which commit row by row, return an error or a count together with
  the database they leave. A COMMIT whose answer is lost may or may not have happened: the
  model has both runs. What the harness
  takes from outside it is in \<open>codex_env\<close> (fields \<open>xv_\<close>): \<open>OperationId::new()\<close> and the turn's
  identifier, the assets (grammar, instructions), the JSON library with the derived readers and
  writers of types, and the other libraries it calls (JSON Schema, base64, SHA-256, images); theorems on runs assume that the new identifiers are fresh, as random UUIDs are. An error a
  handler returns is a \<open>handler_failure\<close> with the text of the code or, for a Rust
  panic, \<open>HandlerPanic\<close>. No recursion is bounded by fuel: loops run over lists, over the calls one step
  makes, or have a measure of their own (\<open>schedule_ready\<close>, \<open>parse_hunks\<close>); the endless \<open>run\<close> loops of the workers are
  modelled by their step, and in \<open>RunLoops\<close> as transitions over lists of happenings.
\<close>

section \<open>Not modelled\<close>

text \<open>
  \<^item> Connections, migrations and \<open>pg_notify\<close>: notifications only wake workers earlier.
  \<^item> Overflow of the 64-bit sequence counters, and the stale row a READ COMMITTED query may
    propose before it takes its lock (the checks after the lock are modelled).
  \<^item> The order of \<open>SELECT DISTINCT ... LIMIT\<close>, which SQL leaves open.
  \<^item> The scheduling of tasks by the async runtime: a worker beside others is a worker whose world
    changes between its calls, and the loops of \<open>RunLoops\<close> know of their workers that they end.
  \<^item> The foreign key from callback receipts to operations is not part of \<open>schema_ok\<close>.
  \<^item> A handler is a function of the harness: its readings (\<open>HandlerContext\<close>) are part of its answer.
  \<^item> Of the HTTP application: what \<open>axum\<close> and \<open>serde\<close> do (matching paths, extraction, writing
    bodies) and JSON Schema, base64 and URLs, which are parameters; the size limit on bodies, the
    setup of tracing and of the database pool.
  \<^item> In the Codex harness: the image crate is a parameter, and the derived serialisers of its types
    are not modelled.
\<close>

end
